(* ===== verification/Prelude.thy ===== *)
theory Prelude
  imports Main "HOL-Library.List_Lexorder" "HOL-Library.Char_ord" "HOL-Library.Product_Lexorder"
    "HOL-Library.Sublist"
begin

text \<open>
  The shared vocabulary of the development.

  The program is Go. A Go \<open>error\<close> result is modelled as an option (\<open>None\<close> is the nil error), a
  \<open>(T, error)\<close> result as a sum (\<open>Inl\<close> the error), a Go map as an association list read with
  \<open>map_of\<close>, and \<open>slices.Sorted(maps.Keys(m))\<close> as \<open>sorted_keys\<close>. Validation functions of the
  source are sequences of guarded early returns: they are written as \<open>first_of\<close> over the list of
  their steps, and a loop that returns at the first bad element as \<open>first_error\<close>.
\<close>

named_theorems go_errors \<open>acceptance rules for sequences of guarded returns\<close>

section \<open>Errors\<close>

text \<open>\<open>if c { return e }\<close>\<close>

definition fail_when :: "bool \<Rightarrow> 'e \<Rightarrow> 'e option" where
  "fail_when c e = (if c then Some e else None)"

text \<open>The first of a sequence of early returns; \<open>None\<close> is the final \<open>return nil\<close>.\<close>

fun first_of :: "'e option list \<Rightarrow> 'e option" where
  "first_of [] = None"
| "first_of (r # rs) = (case r of Some e \<Rightarrow> Some e | None \<Rightarrow> first_of rs)"

text \<open>\<open>for _, x := range xs { if err := f(x); err != nil { return err } }\<close>\<close>

fun first_error :: "('a \<Rightarrow> 'e option) \<Rightarrow> 'a list \<Rightarrow> 'e option" where
  "first_error f [] = None"
| "first_error f (x # xs) = (case f x of Some e \<Rightarrow> Some e | None \<Rightarrow> first_error f xs)"

text \<open>\<open>v, err := r; if err != nil { return err }\<close>, and the same with the error wrapped.\<close>

definition bind_result :: "'e + 'a \<Rightarrow> ('a \<Rightarrow> 'e + 'b) \<Rightarrow> 'e + 'b" where
  "bind_result r k = (case r of Inl e \<Rightarrow> Inl e | Inr v \<Rightarrow> k v)"

definition guard_result :: "'e option \<Rightarrow> 'e + 'b \<Rightarrow> 'e + 'b" where
  "guard_result r k = (case r of Some e \<Rightarrow> Inl e | None \<Rightarrow> k)"

definition wrap_error :: "('e \<Rightarrow> 'f) \<Rightarrow> 'e + 'a \<Rightarrow> 'f + 'a" where
  "wrap_error w r = (case r of Inl e \<Rightarrow> Inl (w e) | Inr v \<Rightarrow> Inr v)"

fun map_results :: "('a \<Rightarrow> 'e + 'b) \<Rightarrow> 'a list \<Rightarrow> 'e + 'b list" where
  "map_results f [] = Inr []"
| "map_results f (x # xs) =
     (case f x of Inl e \<Rightarrow> Inl e
      | Inr y \<Rightarrow> (case map_results f xs of Inl e \<Rightarrow> Inl e | Inr ys \<Rightarrow> Inr (y # ys)))"

lemma fail_when_None [simp, go_errors]: "fail_when c e = None \<longleftrightarrow> \<not> c"
  by (simp add: fail_when_def)

lemma fail_when_Some [simp]: "fail_when c e = Some e' \<longleftrightarrow> c \<and> e' = e"
  by (auto simp: fail_when_def)

lemma first_of_None [simp, go_errors]: "first_of rs = None \<longleftrightarrow> (\<forall>r \<in> set rs. r = None)"
  by (induction rs) (auto split: option.splits)

text \<open>
  A proof reads \<open>first_of\<close> and \<open>first_error\<close> through these rules; their recursion equations stay for
  evaluation.
\<close>

declare first_of.simps(2) [simp del] first_error.simps(2) [simp del]

lemma first_of_Some_in: "first_of rs = Some e \<Longrightarrow> Some e \<in> set rs"
  by (induction rs) (auto simp: first_of.simps split: option.splits)

lemma first_of_append:
  "first_of (rs @ ss) = (case first_of rs of Some e \<Rightarrow> Some e | None \<Rightarrow> first_of ss)"
  by (induction rs) (simp_all add: first_of.simps del: first_of_None split: option.split)

lemma first_error_None [simp, go_errors]: "first_error f xs = None \<longleftrightarrow> (\<forall>x \<in> set xs. f x = None)"
  by (induction xs) (auto simp: first_error.simps split: option.splits)

lemma first_error_Some: "first_error f xs = Some e \<Longrightarrow> \<exists>x \<in> set xs. f x = Some e"
  by (induction xs) (auto simp: first_error.simps split: option.splits)

lemma map_option_None_iff [go_errors]: "map_option f r = None \<longleftrightarrow> r = None"
  by (cases r) auto

lemma bind_result_simps [simp]:
  "bind_result (Inl e) k = Inl e"
  "bind_result (Inr v) k = k v"
  by (simp_all add: bind_result_def)

lemma bind_result_Inr: "bind_result r k = Inr w \<longleftrightarrow> (\<exists>v. r = Inr v \<and> k v = Inr w)"
  by (cases r) auto

lemma guard_result_simps [simp]:
  "guard_result None k = k"
  "guard_result (Some e) k = Inl e"
  by (simp_all add: guard_result_def)

lemma guard_result_Inr [go_errors]: "guard_result r k = Inr w \<longleftrightarrow> r = None \<and> k = Inr w"
  by (cases r) auto

lemma wrap_error_simps [simp]:
  "wrap_error w (Inl e) = Inl (w e)"
  "wrap_error w (Inr v) = Inr v"
  by (simp_all add: wrap_error_def)

lemma wrap_error_Inr [simp]: "wrap_error w r = Inr v \<longleftrightarrow> r = Inr v"
  by (cases r) auto

lemma map_results_Inr:
  "map_results f xs = Inr ys \<longleftrightarrow> list_all2 (\<lambda>x y. f x = Inr y) xs ys"
proof (induction xs arbitrary: ys)
  case Nil
  then show ?case by auto
next
  case (Cons x xs)
  show ?case
  proof (cases "f x")
    case (Inl e)
    then show ?thesis by (simp add: list_all2_Cons1)
  next
    case (Inr y)
    then show ?thesis
      by (cases ys) (auto simp flip: Cons.IH split: sum.splits)
  qed
qed

section \<open>Maps\<close>

type_synonym 'a gomap = "(string \<times> 'a) list"

definition sorted_keys :: "('k::linorder \<times> 'a) list \<Rightarrow> 'k list" where
  "sorted_keys m = sort (remdups (map fst m))"

definition has_key :: "('k \<times> 'a) list \<Rightarrow> 'k \<Rightarrow> bool" where
  "has_key m k \<longleftrightarrow> map_of m k \<noteq> None"

lemma set_sorted_keys [simp]: "set (sorted_keys m) = fst ` set m"
  by (simp add: sorted_keys_def)

lemma sorted_sorted_keys [simp]: "sorted (sorted_keys m)"
  by (simp add: sorted_keys_def)

lemma distinct_sorted_keys [simp]: "distinct (sorted_keys m)"
  by (simp add: sorted_keys_def)

lemma has_key_iff: "has_key m k \<longleftrightarrow> k \<in> fst ` set m"
  by (simp add: has_key_def map_of_eq_None_iff)

section \<open>Lists\<close>

text \<open>
  \<open>seen[x]\<close> loops of the source refuse a second occurrence: \<open>first_repeat\<close> is the first element
  of a list that already occurred, in the order the loop meets them.
\<close>

fun first_repeat :: "'a list \<Rightarrow> 'a list \<Rightarrow> 'a option" where
  "first_repeat seen [] = None"
| "first_repeat seen (x # xs) = (if x \<in> set seen then Some x else first_repeat (x # seen) xs)"

lemma first_repeat_None: "first_repeat seen xs = None \<longleftrightarrow> distinct xs \<and> set xs \<inter> set seen = {}"
  by (induction xs arbitrary: seen) auto

lemma last_filter_Cons:
  "filter P xs \<noteq> [] \<Longrightarrow> last (filter P (x # xs)) = last (filter P xs)"
  by simp

end
