(* ===== verification/Go_Text.thy ===== *)
theory Go_Text
  imports Prelude
begin

text \<open>
  What the source uses of Go's \<open>strings\<close> package, on byte strings (\<open>string\<close> is a list of 8-bit
  characters). Case mapping and white space are those of the ASCII range: the Unicode spaces and
  letters beyond it are left as they are.
\<close>

named_theorems go_text \<open>simplification of string operations\<close>

section \<open>Prefixes and suffixes\<close>

abbreviation has_prefix :: "string \<Rightarrow> string \<Rightarrow> bool" where
  "has_prefix s p \<equiv> prefix p s"

abbreviation has_suffix :: "string \<Rightarrow> string \<Rightarrow> bool" where
  "has_suffix s p \<equiv> suffix p s"

definition cut_prefix :: "string \<Rightarrow> string \<Rightarrow> string \<times> bool" where
  "cut_prefix s p = (if prefix p s then (drop (length p) s, True) else (s, False))"

definition cut_suffix :: "string \<Rightarrow> string \<Rightarrow> string \<times> bool" where
  "cut_suffix s p = (if suffix p s then (take (length s - length p) s, True) else (s, False))"

definition trim_prefix :: "string \<Rightarrow> string \<Rightarrow> string" where
  "trim_prefix s p = fst (cut_prefix s p)"

definition trim_suffix :: "string \<Rightarrow> string \<Rightarrow> string" where
  "trim_suffix s p = fst (cut_suffix s p)"

definition contains_any :: "string \<Rightarrow> string \<Rightarrow> bool" where
  "contains_any s cs = list_ex (\<lambda>c. c \<in> set cs) s"

lemma contains_any_iff [go_text]: "contains_any s cs \<longleftrightarrow> set s \<inter> set cs \<noteq> {}"
  by (auto simp: contains_any_def list_ex_iff)

lemma cut_prefix_append [simp]: "cut_prefix (p @ s) p = (s, True)"
  by (simp add: cut_prefix_def)

lemma cut_suffix_append [simp]: "cut_suffix (s @ p) p = (s, True)"
  by (simp add: cut_suffix_def suffix_def)

lemma cut_prefix_True: "cut_prefix s p = (r, True) \<longleftrightarrow> s = p @ r"
  by (auto simp: cut_prefix_def prefix_def)

lemma cut_suffix_True: "cut_suffix s p = (r, True) \<longleftrightarrow> s = r @ p"
  by (auto simp: cut_suffix_def suffix_def)

lemma cut_prefix_False: "cut_prefix s p = (r, False) \<longleftrightarrow> r = s \<and> \<not> prefix p s"
  by (auto simp: cut_prefix_def)

lemma cut_suffix_False: "cut_suffix s p = (r, False) \<longleftrightarrow> r = s \<and> \<not> suffix p s"
  by (auto simp: cut_suffix_def)

section \<open>Splitting and joining at one character\<close>

fun split_at :: "char \<Rightarrow> string \<Rightarrow> string list" where
  "split_at c [] = [[]]"
| "split_at c (x # xs) =
     (if x = c then [] # split_at c xs
      else (case split_at c xs of [] \<Rightarrow> [[x]] | y # ys \<Rightarrow> (x # y) # ys))"

fun join_with :: "string \<Rightarrow> string list \<Rightarrow> string" where
  "join_with sep [] = []"
| "join_with sep [x] = x"
| "join_with sep (x # y # ys) = x @ sep @ join_with sep (y # ys)"

text \<open>\<open>strings.Cut\<close> and \<open>strings.LastIndex\<close> for a separator of one character.\<close>

definition cut_at :: "char \<Rightarrow> string \<Rightarrow> string \<times> string \<times> bool" where
  "cut_at c s = (if c \<in> set s then (takeWhile (\<lambda>x. x \<noteq> c) s, tl (dropWhile (\<lambda>x. x \<noteq> c) s), True)
                 else (s, [], False))"

definition last_index :: "char \<Rightarrow> string \<Rightarrow> nat option" where
  "last_index c s =
     (if c \<in> set s then Some (length s - 1 - length (takeWhile (\<lambda>x. x \<noteq> c) (rev s))) else None)"

lemma split_at_not_Nil [simp]: "split_at c s \<noteq> []"
  by (induction s) (auto split: list.splits)

lemma join_split_at [simp]: "join_with [c] (split_at c s) = s"
proof (induction s)
  case Nil
  then show ?case by simp
next
  case (Cons x s)
  obtain y ys where "split_at c s = y # ys"
    using split_at_not_Nil [of c s] by (cases "split_at c s") auto
  with Cons show ?case by (cases ys) auto
qed

lemma split_at_no_sep: "c \<notin> set s \<Longrightarrow> split_at c s = [s]"
  by (induction s) auto

lemma split_at_append_sep:
  "c \<notin> set s \<Longrightarrow> split_at c (s @ c # t) = s # split_at c t"
  by (induction s) auto

lemma split_join:
  "xs \<noteq> [] \<Longrightarrow> \<forall>x \<in> set xs. c \<notin> set x \<Longrightarrow> split_at c (join_with [c] xs) = xs"
proof (induction xs rule: induct_list012)
  case 1
  then show ?case by simp
next
  case (2 x)
  then show ?case by (simp add: split_at_no_sep)
next
  case (3 x y ys)
  then show ?case by (simp add: split_at_append_sep)
qed

lemma split_at_parts_no_sep: "p \<in> set (split_at c s) \<Longrightarrow> c \<notin> set p"
proof (induction s arbitrary: p)
  case Nil
  then show ?case by simp
next
  case (Cons x s)
  then show ?case by (auto split: if_splits list.splits)
qed

lemma split_at_append:
  "split_at c (s @ c # t) = split_at c s @ split_at c t"
  by (induction s) (auto split: list.splits)

lemma split_at_inject [simp]: "split_at c s = split_at c t \<longleftrightarrow> s = t"
  by (metis join_split_at)

lemma join_with_append:
  "xs \<noteq> [] \<Longrightarrow> ys \<noteq> [] \<Longrightarrow> join_with sep (xs @ ys) = join_with sep xs @ sep @ join_with sep ys"
  by (induction xs rule: induct_list012) (auto simp: neq_Nil_conv)

section \<open>White space and case\<close>

definition is_space :: "char \<Rightarrow> bool" where
  "is_space c \<longleftrightarrow> c \<in> {CHR 0x09, CHR 0x0A, CHR 0x0B, CHR 0x0C, CHR 0x0D, CHR 0x20}"

definition is_digit :: "char \<Rightarrow> bool" where
  "is_digit c \<longleftrightarrow> CHR ''0'' \<le> c \<and> c \<le> CHR ''9''"

definition lower_char :: "char \<Rightarrow> char" where
  "lower_char c = (if CHR ''A'' \<le> c \<and> c \<le> CHR ''Z'' then char_of (of_char c + 32 :: nat) else c)"

definition to_lower :: "string \<Rightarrow> string" where
  "to_lower s = map lower_char s"

text \<open>\<open>strings.Fields\<close>: the maximal runs of characters that are not white space.\<close>

function words :: "string \<Rightarrow> string list" where
  "words s =
     (case dropWhile is_space s of
        [] \<Rightarrow> []
      | x # xs \<Rightarrow> (x # takeWhile (\<lambda>c. \<not> is_space c) xs) # words (dropWhile (\<lambda>c. \<not> is_space c) xs))"
  by pat_completeness auto
termination
proof (relation "measure length")
  fix s :: string and x xs
  assume "dropWhile is_space s = x # xs"
  then have "length (x # xs) \<le> length s" by (metis length_dropWhile_le)
  then show "(dropWhile (\<lambda>c. \<not> is_space c) xs, s) \<in> measure length"
    using length_dropWhile_le [of "\<lambda>c. \<not> is_space c" xs] by simp
qed simp

declare words.simps [simp del]

definition trim_space :: "string \<Rightarrow> string" where
  "trim_space s = rev (dropWhile is_space (rev (dropWhile is_space s)))"

lemma words_Nil [simp]: "words [] = []"
  by (simp add: words.simps)

lemma words_no_space: "w \<in> set (words s) \<Longrightarrow> w \<noteq> [] \<and> (\<forall>c \<in> set w. \<not> is_space c)"
proof (induction s arbitrary: w rule: words.induct)
  case (1 s)
  show ?case
  proof (cases "dropWhile is_space s")
    case Nil
    have "words s = []" by (subst words.simps) (simp only: Nil list.case)
    then show ?thesis using "1.prems" by simp
  next
    case (Cons x xs)
    then have "\<not> is_space x" by (metis dropWhile_eq_Cons_conv)
    let ?w = "x # takeWhile (\<lambda>c. \<not> is_space c) xs" and ?r = "dropWhile (\<lambda>c. \<not> is_space c) xs"
    have "words s = ?w # words ?r" by (subst words.simps) (simp add: Cons)
    with "1.prems" consider "w = ?w" | "w \<in> set (words ?r)" using set_ConsD by fastforce
    then show ?thesis
    proof cases
      case 1
      then show ?thesis using \<open>\<not> is_space x\<close> by (auto dest: set_takeWhileD)
    next
      case 2
      then show ?thesis by (rule "1.IH" [OF Cons])
    qed
  qed
qed

lemma words_space [simp]: "is_space c \<Longrightarrow> words (c # s) = words s"
  by (subst (1 2) words.simps) simp

lemma words_Cons:
  "\<not> is_space x \<Longrightarrow>
   words (x # xs) = (x # takeWhile (\<lambda>c. \<not> is_space c) xs) # words (dropWhile (\<lambda>c. \<not> is_space c) xs)"
  by (subst words.simps) simp

lemma words_word:
  assumes "w \<noteq> []" and w: "\<forall>c \<in> set w. \<not> is_space c"
  shows "words w = [w]" and "is_space c \<Longrightarrow> words (w @ c # s) = w # words s"
proof -
  from \<open>w \<noteq> []\<close> obtain x xs where x: "w = x # xs" by (cases w) auto
  have "takeWhile (\<lambda>c. \<not> is_space c) xs = xs" "dropWhile (\<lambda>c. \<not> is_space c) xs = []"
    using w x by (simp_all only: takeWhile_eq_all_conv dropWhile_eq_Nil_conv) simp_all
  then show "words w = [w]" using w x
    by (simp only: words_Cons words_Nil list.set ball_simps simp_thms insert_iff) 
  show "words (w @ c # s) = w # words s" if "is_space c"
    using w x that by (simp add: words_Cons takeWhile_append2 dropWhile_append2)
qed

text \<open>Joining words with one space and splitting again gives the same words.\<close>

lemma words_join:
  "\<forall>w \<in> set ws. w \<noteq> [] \<and> (\<forall>c \<in> set w. \<not> is_space c) \<Longrightarrow> words (join_with '' '' ws) = ws"
proof (induction ws rule: induct_list012)
  case 1
  then show ?case by simp
next
  case (2 w)
  then show ?case by (simp add: words_word)
next
  case (3 w v ws)
  have "is_space CHR '' ''" by (simp add: is_space_def)
  with 3 show ?case by (simp add: words_word)
qed

lemma words_join_words [simp]: "words (join_with '' '' (words s)) = words s"
  by (rule words_join) (use words_no_space in blast)

lemma lower_char_idem [simp]: "lower_char (lower_char c) = lower_char c"
proof (cases "CHR ''A'' \<le> c \<and> c \<le> CHR ''Z''")
  case True
  then have "of_char c \<le> (90::nat)" "65 \<le> (of_char c :: nat)" by (simp_all add: less_eq_char_def)
  then have "\<not> (char_of (of_char c + 32 :: nat) \<le> CHR ''Z'')"
    by (simp add: less_eq_char_def)
  with True show ?thesis by (simp add: lower_char_def)
next
  case False
  then show ?thesis by (auto simp: lower_char_def)
qed

lemma to_lower_idem [simp]: "to_lower (to_lower s) = to_lower s"
  by (simp add: to_lower_def)

lemma to_lower_append [simp]: "to_lower (s @ t) = to_lower s @ to_lower t"
  by (simp add: to_lower_def)

lemma length_to_lower [simp]: "length (to_lower s) = length s"
  by (simp add: to_lower_def)

text \<open>\<open>strings.TrimRight\<close> with one character as its cutset.\<close>

definition trim_right :: "char \<Rightarrow> string \<Rightarrow> string" where
  "trim_right c s = rev (dropWhile (\<lambda>x. x = c) (rev s))"

end
