(* ===== verification/Go_Path.thy ===== *)
theory Go_Path
  imports Go_Text
begin

text \<open>
  What the source uses of Go's \<open>path/filepath\<close> on Unix (the separator is \<open>/\<close>), and the two
  path predicates of \<open>internal/verify\<close> that every declared path goes through: \<open>relative\<close>
  (\<open>files.go\<close>) and \<open>under\<close> (\<open>enumerate.go\<close>).
\<close>

abbreviation slash :: char where
  "slash \<equiv> CHR ''/''"

abbreviation dot :: string where
  "dot \<equiv> ''.''"

abbreviation dotdot :: string where
  "dotdot \<equiv> ''..''"

abbreviation parts :: "string \<Rightarrow> string list" where
  "parts \<equiv> split_at slash"

abbreviation unparts :: "string list \<Rightarrow> string" where
  "unparts \<equiv> join_with ''/''"

section \<open>filepath\<close>

definition is_abs :: "string \<Rightarrow> bool" where
  "is_abs p \<longleftrightarrow> has_prefix p ''/''"

text \<open>
  \<open>filepath.Clean\<close>: the elements of a path with the empty ones and \<open>.\<close> dropped, each \<open>..\<close>
  removing the element before it; at the root a \<open>..\<close> is dropped, in a relative path a leading one
  is kept. The accumulator holds the kept elements in reverse.
\<close>

fun clean_parts :: "bool \<Rightarrow> string list \<Rightarrow> string list \<Rightarrow> string list" where
  "clean_parts rooted acc [] = rev acc"
| "clean_parts rooted acc (p # ps) =
     (if p = [] \<or> p = dot then clean_parts rooted acc ps
      else if p = dotdot then
        (case acc of
           q # qs \<Rightarrow> if q = dotdot then clean_parts rooted (p # acc) ps else clean_parts rooted qs ps
         | [] \<Rightarrow> if rooted then clean_parts rooted [] ps else clean_parts rooted [p] ps)
      else clean_parts rooted (p # acc) ps)"

definition clean :: "string \<Rightarrow> string" where
  "clean p =
     (if is_abs p then ''/'' @ unparts (clean_parts True [] (parts p))
      else (case clean_parts False [] (parts p) of [] \<Rightarrow> dot | qs \<Rightarrow> unparts qs))"

definition is_local :: "string \<Rightarrow> bool" where
  "is_local p =
     (if is_abs p \<or> p = [] then False
      else
        let q = (if dot \<in> set (parts p) \<or> dotdot \<in> set (parts p) then clean p else p)
        in q \<noteq> dotdot \<and> \<not> has_prefix q ''../'')"

definition path_join :: "string list \<Rightarrow> string" where
  "path_join ps = (case filter (\<lambda>p. p \<noteq> []) ps of [] \<Rightarrow> [] | qs \<Rightarrow> clean (unparts qs))"

definition base_name :: "string \<Rightarrow> string" where
  "base_name p =
     (if p = [] then dot
      else (case filter (\<lambda>q. q \<noteq> []) (parts p) of [] \<Rightarrow> ''/'' | qs \<Rightarrow> last qs))"

definition dir_name :: "string \<Rightarrow> string" where
  "dir_name p = clean (case last_index slash p of None \<Rightarrow> [] | Some i \<Rightarrow> take (Suc i) p)"

text \<open>\<open>filepath.Ext\<close>: from the last dot of the last element on.\<close>

definition ext_name :: "string \<Rightarrow> string" where
  "ext_name path =
     (let element = last (parts path) in
      case last_index CHR ''.'' element of None \<Rightarrow> '''' | Some i \<Rightarrow> drop i element)"

section \<open>Declared paths\<close>

text \<open>\<open>relative\<close> of files.go: inputs are clean, literal repository-relative paths.\<close>

definition relative :: "string \<Rightarrow> bool" where
  "relative p \<longleftrightarrow> is_local p \<and> clean p = p \<and> CHR 0x5C \<notin> set p"

text \<open>\<open>under\<close> of enumerate.go: is \<open>path\<close> the declared input or below it?\<close>

definition under :: "string \<Rightarrow> string \<Rightarrow> bool" where
  "under path input \<longleftrightarrow> input = dot \<or> path = input \<or> has_prefix path (input @ ''/'')"

text \<open>An ordinary element of a path names a file or directory itself.\<close>

definition ordinary_part :: "string \<Rightarrow> bool" where
  "ordinary_part p \<longleftrightarrow> p \<noteq> [] \<and> p \<noteq> dot \<and> p \<noteq> dotdot"

lemma clean_parts_ordinary:
  "\<forall>p \<in> set ps. ordinary_part p \<Longrightarrow> clean_parts r acc ps = rev acc @ ps"
  by (induction ps arbitrary: acc) (auto simp: ordinary_part_def)

text \<open>
  What cleaning leaves: some number of leading \<open>..\<close> (none at the root) and then ordinary elements.
\<close>

definition cleaned :: "bool \<Rightarrow> string list \<Rightarrow> bool" where
  "cleaned rooted ps \<longleftrightarrow>
     (\<exists>n qs. ps = replicate n dotdot @ qs \<and> (rooted \<longrightarrow> n = 0) \<and> (\<forall>q \<in> set qs. ordinary_part q))"

lemma cleaned_Nil [simp]: "cleaned r []"
  unfolding cleaned_def by (rule exI [of _ 0]) auto

lemma cleaned_snoc_ordinary: "cleaned r ps \<Longrightarrow> ordinary_part p \<Longrightarrow> cleaned r (ps @ [p])"
  unfolding cleaned_def by (elim exE conjE, rule_tac x = n in exI, rule_tac x = "qs @ [p]" in exI) auto

lemma cleaned_butlast: "cleaned r (ps @ [p]) \<Longrightarrow> cleaned r ps"
proof -
  assume "cleaned r (ps @ [p])"
  then obtain n qs where n: "ps @ [p] = replicate n dotdot @ qs" "r \<longrightarrow> n = 0"
    "\<forall>q \<in> set qs. ordinary_part q"
    unfolding cleaned_def by blast
  show "cleaned r ps"
  proof (cases qs rule: rev_cases)
    case Nil
    with n have ps: "ps = butlast (replicate n dotdot)" by (metis append_Nil2 butlast_snoc)
    then have "ps = replicate (n - 1) dotdot @ []" by (simp add: butlast_conv_take)
    then show ?thesis using n(2) unfolding cleaned_def by (metis diff_0_eq_0 list.set(1) empty_iff)
  next
    case (snoc qs' q)
    with n have "ps = replicate n dotdot @ qs'" by simp
    then show ?thesis using n snoc unfolding cleaned_def by auto
  qed
qed

lemma cleaned_dotdots: "cleaned False (ps @ [dotdot]) \<Longrightarrow> cleaned False (ps @ [dotdot, dotdot])"
proof -
  assume "cleaned False (ps @ [dotdot])"
  then obtain n qs where n: "ps @ [dotdot] = replicate n dotdot @ qs" "\<forall>q \<in> set qs. ordinary_part q"
    unfolding cleaned_def by blast
  have "qs = []"
  proof (cases qs rule: rev_cases)
    case (snoc qs' q)
    with n have "q = dotdot" by simp
    with n snoc show ?thesis by (simp add: ordinary_part_def)
  qed simp
  with n have "ps @ [dotdot, dotdot] = replicate n dotdot @ [dotdot]" by simp
  also have "\<dots> = replicate (Suc n) dotdot @ []" by (simp add: replicate_append_same)
  finally show ?thesis unfolding cleaned_def by (intro exI [of _ "Suc n"] exI [of _ "[]"]) simp
qed

lemma cleaned_clean_parts: "cleaned r (rev acc) \<Longrightarrow> cleaned r (clean_parts r acc ps)"
proof (induction r acc ps rule: clean_parts.induct)
  case (1 r acc)
  then show ?case by simp
next
  case (2 r acc p ps)
  show ?case
  proof (cases "p = [] \<or> p = dot")
    case True
    with 2 show ?thesis by simp
  next
    case skip: False
    show ?thesis
    proof (cases "p = dotdot")
      case False
      with skip have "ordinary_part p" by (auto simp: ordinary_part_def)
      with 2 skip False show ?thesis by (simp add: cleaned_snoc_ordinary)
    next
      case p: True
      show ?thesis
      proof (cases acc)
        case Nil
        have "cleaned False [dotdot]"
          unfolding cleaned_def by (rule exI [of _ 1], rule exI [of _ "[]"]) simp
        with 2 skip p Nil show ?thesis by (cases r) auto
      next
        case (Cons q qs)
        show ?thesis
        proof (cases "q = dotdot")
          case True
          have "\<not> r"
          proof
            assume r
            with "2.prems" Cons True have "cleaned True (rev qs @ [dotdot])" by simp
            then show False unfolding cleaned_def
              by (metis append_self_conv2 in_set_conv_decomp ordinary_part_def replicate_0)
          qed
          with 2 skip p Cons True show ?thesis by (simp add: cleaned_dotdots)
        next
          case False
          with 2 skip p Cons show ?thesis by (simp add: cleaned_butlast)
        qed
      qed
    qed
  qed
qed

lemma set_clean_parts: "set (clean_parts r acc ps) \<subseteq> set acc \<union> set ps"
proof (induction r acc ps rule: clean_parts.induct)
  case (2 r acc p ps)
  then show ?case by (cases acc) (auto split: if_splits)
qed simp

lemma clean_relative:
  "\<not> is_abs p \<Longrightarrow> clean_parts False [] (parts p) \<noteq> [] \<Longrightarrow>
   parts (clean p) = clean_parts False [] (parts p)"
  using set_clean_parts [of False "[]" "parts p"] split_at_parts_no_sep [of _ slash p]
  by (auto simp: clean_def split: list.split intro!: split_join)

lemma is_abs_parts: "p \<noteq> [] \<Longrightarrow> is_abs p \<longleftrightarrow> hd (parts p) = []"
  by (cases p) (auto simp: is_abs_def split: list.split)

text \<open>The declared paths are \<open>.\<close> and the paths of ordinary elements without a backslash.\<close>

theorem relative_iff:
  "relative p \<longleftrightarrow> CHR 0x5C \<notin> set p \<and> (p = dot \<or> (\<forall>q \<in> set (parts p). ordinary_part q))"
proof
  assume rel: "relative p"
  then have cl: "clean p = p" and loc: "is_local p" and bs: "CHR 0x5C \<notin> set p"
    by (auto simp: relative_def)
  from loc have abs: "\<not> is_abs p" by (simp add: is_local_def split: if_splits)
  define cs where "cs = clean_parts False [] (parts p)"
  show "CHR 0x5C \<notin> set p \<and> (p = dot \<or> (\<forall>q \<in> set (parts p). ordinary_part q))"
  proof (cases cs)
    case Nil
    with abs cl show ?thesis using bs by (simp add: clean_def cs_def)
  next
    case (Cons c cs')
    then have parts: "parts p = cs" using clean_relative [OF abs] cl cs_def by simp
    have "cleaned False cs" unfolding cs_def by (rule cleaned_clean_parts) simp
    then obtain n qs where n: "cs = replicate n dotdot @ qs" "\<forall>q \<in> set qs. ordinary_part q"
      unfolding cleaned_def by blast
    have "n = 0"
    proof (rule ccontr)
      assume "n \<noteq> 0"
      then obtain m where m: "n = Suc m" by (cases n) auto
      then have "parts p = dotdot # (replicate m dotdot @ qs)" using parts n by simp
      then have "p = unparts (dotdot # (replicate m dotdot @ qs))" by (metis join_split_at)
      then have "p = dotdot \<or> has_prefix p ''../''"
        by (cases "replicate m dotdot @ qs") auto
      with loc cl show False by (auto simp: is_local_def Let_def split: if_splits)
    qed
    with n parts bs show ?thesis by simp
  qed
next
  assume h: "CHR 0x5C \<notin> set p \<and> (p = dot \<or> (\<forall>q \<in> set (parts p). ordinary_part q))"
  show "relative p"
  proof (cases "p = dot")
    case True
    then show ?thesis
      by (simp add: relative_def is_local_def is_abs_def clean_def)
  next
    case False
    with h have ord: "\<forall>q \<in> set (parts p). ordinary_part q" by simp
    have "hd (parts p) \<in> set (parts p)" by (rule hd_in_set) simp
    with ord have hd: "hd (parts p) \<noteq> []" by (simp add: ordinary_part_def)
    then have "p \<noteq> []" by (cases p) simp_all
    with hd have abs: "\<not> is_abs p" by (simp add: is_abs_parts)
    have cl: "clean_parts False [] (parts p) = parts p" using clean_parts_ordinary [OF ord] by simp
    have "clean p = unparts (parts p)"
      unfolding clean_def using abs cl split_at_not_Nil [of slash p]
      by (simp del: split_at_not_Nil join_split_at split: list.split)
    then have "clean p = p" by simp
    moreover have "p \<noteq> dotdot"
    proof
      assume "p = dotdot"
      with ord show False by (simp add: ordinary_part_def)
    qed
    moreover have "\<not> has_prefix p ''../''"
    proof
      assume "has_prefix p ''../''"
      then obtain r where "p = ''../'' @ r" by (rule prefixE)
      with ord show False by (simp add: ordinary_part_def)
    qed
    ultimately show ?thesis using h abs \<open>p \<noteq> []\<close>
      by (simp add: relative_def is_local_def Let_def)
  qed
qed

lemma relative_parts: "relative p \<Longrightarrow> p \<noteq> dot \<Longrightarrow> q \<in> set (parts p) \<Longrightarrow> ordinary_part q"
  by (simp add: relative_iff)

lemma prefix_parts: "prefix (parts p) (parts q) \<longleftrightarrow> q = p \<or> prefix (p @ ''/'') q"
proof
  assume "prefix (parts p) (parts q)"
  then obtain r where r: "parts q = parts p @ r" by (auto simp: prefix_def)
  show "q = p \<or> prefix (p @ ''/'') q"
  proof (cases r)
    case Nil
    with r show ?thesis by simp
  next
    case (Cons x xs)
    have "unparts (parts q) = unparts (parts p) @ ''/'' @ unparts r"
      unfolding r by (rule join_with_append) (simp_all add: Cons)
    then show ?thesis by (simp add: prefix_def)
  qed
next
  assume "q = p \<or> prefix (p @ ''/'') q"
  then show "prefix (parts p) (parts q)"
    by (auto simp: prefix_def split_at_append)
qed

text \<open>Below a declared path is a prefix order on the elements, not on the characters.\<close>

lemma under_parts: "under path input \<longleftrightarrow> input = dot \<or> prefix (parts input) (parts path)"
  by (auto simp: under_def prefix_parts)

lemma under_refl [simp]: "under p p"
  by (simp add: under_def)

lemma under_dot [simp]: "under p dot"
  by (simp add: under_def)

lemma under_trans: "under p q \<Longrightarrow> under q r \<Longrightarrow> q \<noteq> dot \<Longrightarrow> under p r"
  by (auto simp: under_parts)

end
