(* ===== verification/Go_Regexp.thy ===== *)
theory Go_Regexp
  imports Go_Text
begin

text \<open>
  Regular expressions of Go's \<open>regexp\<close> package as the source uses them: anchored matching
  (\<open>^...$\<close> with \<open>MatchString\<close>) over bytes. A pattern of the source is transcribed constructor by
  constructor; \<open>rx_match\<close> runs it by derivatives, so witnesses evaluate it, and \<open>rx_match_lang\<close>
  says that it decides the language the pattern denotes.
\<close>

datatype rx =
    RNone
  | REmpty
  | RClass "char list"
  | RNot "char list"
  | RSeq rx rx
  | RAlt rx rx
  | RStar rx

definition char_range :: "char \<Rightarrow> char \<Rightarrow> char list" where
  "char_range a b = map char_of [of_char a ..< Suc (of_char b)]"

definition rx_opt :: "rx \<Rightarrow> rx" where
  "rx_opt r = RAlt REmpty r"

definition rx_plus :: "rx \<Rightarrow> rx" where
  "rx_plus r = RSeq r (RStar r)"

definition rx_char :: "char \<Rightarrow> rx" where
  "rx_char c = RClass [c]"

definition rx_lit :: "string \<Rightarrow> rx" where
  "rx_lit s = foldr (\<lambda>c r. RSeq (rx_char c) r) s REmpty"

definition lower_letters :: "char list" where
  "lower_letters = char_range CHR ''a'' CHR ''z''"

definition letters :: "char list" where
  "letters = char_range CHR ''A'' CHR ''Z'' @ lower_letters"

definition digits :: "char list" where
  "digits = char_range CHR ''0'' CHR ''9''"

fun rx_nullable :: "rx \<Rightarrow> bool" where
  "rx_nullable RNone = False"
| "rx_nullable REmpty = True"
| "rx_nullable (RClass cs) = False"
| "rx_nullable (RNot cs) = False"
| "rx_nullable (RSeq r s) = (rx_nullable r \<and> rx_nullable s)"
| "rx_nullable (RAlt r s) = (rx_nullable r \<or> rx_nullable s)"
| "rx_nullable (RStar r) = True"

text \<open>Sequence and alternative with the trivial cases folded, which keeps derivatives small.\<close>

definition seq_rx :: "rx \<Rightarrow> rx \<Rightarrow> rx" where
  "seq_rx r s = (if r = RNone then RNone else if r = REmpty then s else RSeq r s)"

definition alt_rx :: "rx \<Rightarrow> rx \<Rightarrow> rx" where
  "alt_rx r s = (if r = RNone then s else if s = RNone \<or> r = s then r else RAlt r s)"

fun rx_deriv :: "char \<Rightarrow> rx \<Rightarrow> rx" where
  "rx_deriv c RNone = RNone"
| "rx_deriv c REmpty = RNone"
| "rx_deriv c (RClass cs) = (if c \<in> set cs then REmpty else RNone)"
| "rx_deriv c (RNot cs) = (if c \<in> set cs then RNone else REmpty)"
| "rx_deriv c (RSeq r s) =
     (if rx_nullable r then alt_rx (seq_rx (rx_deriv c r) s) (rx_deriv c s) else seq_rx (rx_deriv c r) s)"
| "rx_deriv c (RAlt r s) = alt_rx (rx_deriv c r) (rx_deriv c s)"
| "rx_deriv c (RStar r) = seq_rx (rx_deriv c r) (RStar r)"

definition rx_match :: "rx \<Rightarrow> string \<Rightarrow> bool" where
  "rx_match r s = rx_nullable (fold rx_deriv s r)"

text \<open>\<open>\s\<close> of package regexp, which has no vertical tab, \<open>\S\<close>, and \<open>.\<close>, which is not a newline.\<close>

definition rx_spaces :: "char list" where
  "rx_spaces = [CHR 0x09, CHR 0x0A, CHR 0x0C, CHR 0x0D, CHR 0x20]"

definition rx_space :: "char \<Rightarrow> bool" where
  "rx_space c \<longleftrightarrow> c \<in> set rx_spaces"

definition rx_dot :: rx where
  "rx_dot = RNot [CHR 0x0A]"

text \<open>A choice of literal texts.\<close>

definition rx_words :: "string list \<Rightarrow> rx" where
  "rx_words ws = foldr (\<lambda>w r. RAlt (rx_lit w) r) ws RNone"

text \<open>The classes written out, for evaluation.\<close>

lemma class_code [code]:
  "letters = ''ABCDEFGHIJKLMNOPQRSTUVWXYZabcdefghijklmnopqrstuvwxyz''"
  "lower_letters = ''abcdefghijklmnopqrstuvwxyz''"
  "digits = ''0123456789''"
  by (code_simp)+

section \<open>The language of a pattern\<close>

inductive_set star_of :: "string set \<Rightarrow> string set" for L :: "string set" where
  star_Nil: "[] \<in> star_of L"
| star_step: "a \<in> L \<Longrightarrow> b \<in> star_of L \<Longrightarrow> a @ b \<in> star_of L"

primrec rx_lang :: "rx \<Rightarrow> string set" where
  "rx_lang RNone = {}"
| "rx_lang REmpty = {[]}"
| "rx_lang (RClass cs) = {[c] | c. c \<in> set cs}"
| "rx_lang (RNot cs) = {[c] | c. c \<notin> set cs}"
| "rx_lang (RSeq r s) = {a @ b | a b. a \<in> rx_lang r \<and> b \<in> rx_lang s}"
| "rx_lang (RAlt r s) = rx_lang r \<union> rx_lang s"
| "rx_lang (RStar r) = star_of (rx_lang r)"

lemma rx_nullable_iff: "rx_nullable r \<longleftrightarrow> [] \<in> rx_lang r"
  by (induction r) (auto intro: star_Nil)

lemma star_of_Cons:
  "c # w \<in> star_of L \<longleftrightarrow> (\<exists>a b. w = a @ b \<and> c # a \<in> L \<and> b \<in> star_of L)"
proof
  have "v \<in> star_of L \<Longrightarrow> v = c # w \<Longrightarrow> \<exists>a b. w = a @ b \<and> c # a \<in> L \<and> b \<in> star_of L" for v
  proof (induction arbitrary: w rule: star_of.induct)
    case star_Nil
    then show ?case by simp
  next
    case (star_step a b)
    then show ?case by (cases a) auto
  qed
  then show "c # w \<in> star_of L \<Longrightarrow> \<exists>a b. w = a @ b \<and> c # a \<in> L \<and> b \<in> star_of L" by blast
next
  assume "\<exists>a b. w = a @ b \<and> c # a \<in> L \<and> b \<in> star_of L"
  then obtain a b where "w = a @ b" "c # a \<in> L" "b \<in> star_of L" by blast
  then show "c # w \<in> star_of L" using star_step [of "c # a" L b] by simp
qed

lemma rx_lang_smart [simp]:
  "rx_lang (seq_rx r s) = rx_lang (RSeq r s)"
  "rx_lang (alt_rx r s) = rx_lang (RAlt r s)"
  by (auto simp: seq_rx_def alt_rx_def)

lemma rx_deriv_iff: "w \<in> rx_lang (rx_deriv c r) \<longleftrightarrow> c # w \<in> rx_lang r"
proof (induction r arbitrary: w)
  case (RSeq r s)
  show ?case
    by (auto simp: RSeq rx_nullable_iff Cons_eq_append_conv)
next
  case (RStar r)
  show ?case by (auto simp: RStar star_of_Cons)
qed auto

theorem rx_match_lang: "rx_match r s \<longleftrightarrow> s \<in> rx_lang r"
proof -
  have "fold rx_deriv s r = r' \<Longrightarrow> rx_nullable r' \<longleftrightarrow> s \<in> rx_lang r" for r'
    by (induction s arbitrary: r) (auto simp: rx_nullable_iff rx_deriv_iff)
  then show ?thesis by (simp add: rx_match_def)
qed

text \<open>A matched string has only characters the pattern mentions.\<close>

primrec rx_chars :: "rx \<Rightarrow> char set" where
  "rx_chars RNone = {}"
| "rx_chars REmpty = {}"
| "rx_chars (RClass cs) = set cs"
| "rx_chars (RNot cs) = - set cs"
| "rx_chars (RSeq r s) = rx_chars r \<union> rx_chars s"
| "rx_chars (RAlt r s) = rx_chars r \<union> rx_chars s"
| "rx_chars (RStar r) = rx_chars r"

lemma rx_lang_chars: "s \<in> rx_lang r \<Longrightarrow> set s \<subseteq> rx_chars r"
proof (induction r arbitrary: s)
  case (RStar r)
  have "s \<in> star_of (rx_lang r) \<Longrightarrow> set s \<subseteq> rx_chars r" for s
    by (induction rule: star_of.induct) (use RStar.IH in auto)
  with RStar.prems show ?case by simp
qed fastforce+

lemma rx_chars_simps [simp]:
  "rx_chars (rx_opt r) = rx_chars r"
  "rx_chars (rx_plus r) = rx_chars r"
  "rx_chars (rx_char c) = {c}"
  by (simp_all add: rx_opt_def rx_plus_def rx_char_def)

section \<open>Character classes\<close>

lemma set_char_range [simp]: "set (char_range a b) = {c. a \<le> c \<and> c \<le> b}"
proof -
  have "c \<in> set (char_range a b) \<longleftrightarrow> a \<le> c \<and> c \<le> b" for c
  proof
    assume "c \<in> set (char_range a b)"
    then obtain n :: nat where n: "c = char_of n" "of_char a \<le> n" "n \<le> of_char b"
      by (auto simp: char_range_def)
    have "of_char b < (256 :: nat)" by simp
    with n have "n < 256" by linarith
    with n have "of_char c = n" by simp
    with n show "a \<le> c \<and> c \<le> b" by (simp add: less_eq_char_def)
  next
    assume "a \<le> c \<and> c \<le> b"
    then have "of_char a \<le> (of_char c :: nat)" "of_char c \<le> (of_char b :: nat)"
      unfolding less_eq_char_def by simp_all
    then have "of_char c \<in> {of_char a ..< Suc (of_char b :: nat)}"
      unfolding atLeastLessThan_iff less_Suc_eq_le by blast
    then show "c \<in> set (char_range a b)"
      unfolding char_range_def set_map set_upt by (rule image_eqI [rotated]) simp
  qed
  then show ?thesis by blast
qed

lemma in_letters [simp]:
  "c \<in> set letters \<longleftrightarrow> CHR ''A'' \<le> c \<and> c \<le> CHR ''Z'' \<or> CHR ''a'' \<le> c \<and> c \<le> CHR ''z''"
  by (simp add: letters_def lower_letters_def)

lemma in_lower_letters [simp]: "c \<in> set lower_letters \<longleftrightarrow> CHR ''a'' \<le> c \<and> c \<le> CHR ''z''"
  by (simp add: lower_letters_def)

lemma in_digits [simp]: "c \<in> set digits \<longleftrightarrow> CHR ''0'' \<le> c \<and> c \<le> CHR ''9''"
  by (simp add: digits_def)

text \<open>A word over a class is a sequence of its members; a star of a class is every such word.\<close>

lemma star_class: "s \<in> star_of {[c] | c. c \<in> A} \<longleftrightarrow> set s \<subseteq> A"
proof (induction s)
  case Nil
  then show ?case by (simp add: star_Nil)
next
  case (Cons c s)
  then show ?case by (auto simp: star_of_Cons)
qed

lemma rx_lang_star_class [simp]: "s \<in> rx_lang (RStar (RClass cs)) \<longleftrightarrow> set s \<subseteq> set cs"
  by (simp add: star_class)

lemma rx_lang_class_seq [simp]:
  "[] \<notin> rx_lang (RSeq (RClass cs) r)"
  "c # t \<in> rx_lang (RSeq (RClass cs) r) \<longleftrightarrow> c \<in> set cs \<and> t \<in> rx_lang r"
proof -
  show "[] \<notin> rx_lang (RSeq (RClass cs) r)" by auto
  show "c # t \<in> rx_lang (RSeq (RClass cs) r) \<longleftrightarrow> c \<in> set cs \<and> t \<in> rx_lang r"
    unfolding rx_deriv_iff [symmetric] by simp
qed

lemma rx_lang_plus_class [simp]: "s \<in> rx_lang (rx_plus (RClass cs)) \<longleftrightarrow> s \<noteq> [] \<and> set s \<subseteq> set cs"
  by (cases s) (simp_all del: rx_lang.simps add: rx_plus_def)

lemma rx_lang_opt [simp]: "rx_lang (rx_opt r) = insert [] (rx_lang r)"
  by (simp add: rx_opt_def)

lemma rx_lang_char [simp]: "rx_lang (rx_char c) = {[c]}"
  by (simp add: rx_char_def)

lemma rx_lang_lit [simp]: "rx_lang (rx_lit s) = {s}"
  by (induction s) (auto simp: rx_lit_def)

lemma rx_lang_seq_iff: "s \<in> rx_lang (RSeq q r) \<longleftrightarrow> (\<exists>a b. s = a @ b \<and> a \<in> rx_lang q \<and> b \<in> rx_lang r)"
  by auto

text \<open>The class \<open>\w\<close>.\<close>

definition word_char :: "char \<Rightarrow> bool" where
  "word_char c \<longleftrightarrow> is_digit c \<or> c \<in> set letters \<or> c = CHR ''_''"

end
