(* ===== verification/Kinds.thy ===== *)
theory Kinds
  imports Go_Path Go_Regexp
begin

text \<open>
  The enumerations of \<open>status.go\<close> and the table of check kinds of \<open>kinds.go\<close>. A string type whose
  values come from configuration or from an executor (\<open>CheckKind\<close>, \<open>ExecutorKind\<close>,
  \<open>DiscoveryKind\<close>) stays a string with its constants as abbreviations, since any other string can
  occur. \<open>Status\<close> keeps a constructor for the values that are none of its constants.

  The native side of a kind is a record of functions in Go; here it is a datatype that says which
  functions they are, and the functions themselves are defined where they are modelled
  (\<open>Validation.native_validate\<close>, \<open>Validation.native_rerun_ready\<close>). A summary is documentation and
  is left out.
\<close>

section \<open>Enumerations of status.go\<close>

datatype status =
    StatusPassed | StatusFailed | StatusError | StatusCancelled | StatusIncomplete
  | OtherStatus string

type_synonym executor_kind = string

abbreviation ExecutorDagger :: executor_kind where
  "ExecutorDagger \<equiv> ''dagger''"

abbreviation ExecutorNative :: executor_kind where
  "ExecutorNative \<equiv> ''native''"

type_synonym discovery_kind = string

abbreviation DiscoveryGit :: discovery_kind where
  "DiscoveryGit \<equiv> ''git''"

abbreviation DiscoveryFilesystem :: discovery_kind where
  "DiscoveryFilesystem \<equiv> ''filesystem''"

definition discovery_kinds :: "discovery_kind list" where
  "discovery_kinds = [DiscoveryGit, DiscoveryFilesystem]"

type_synonym check_kind = string

abbreviation CheckGoLint :: check_kind where "CheckGoLint \<equiv> ''go-lint''"
abbreviation CheckGoVet :: check_kind where "CheckGoVet \<equiv> ''go-vet''"
abbreviation CheckGoMod :: check_kind where "CheckGoMod \<equiv> ''go-mod''"
abbreviation CheckGoTest :: check_kind where "CheckGoTest \<equiv> ''go-test''"
abbreviation CheckGoHTTP :: check_kind where "CheckGoHTTP \<equiv> ''go-http''"
abbreviation CheckGoSQL :: check_kind where "CheckGoSQL \<equiv> ''go-sql''"
abbreviation CheckGoVuln :: check_kind where "CheckGoVuln \<equiv> ''go-vuln''"
abbreviation CheckWorkflowLint :: check_kind where "CheckWorkflowLint \<equiv> ''workflow-lint''"
abbreviation CheckWorkflowSecurity :: check_kind where "CheckWorkflowSecurity \<equiv> ''workflow-security''"
abbreviation CheckShellLint :: check_kind where "CheckShellLint \<equiv> ''shell-lint''"
abbreviation CheckSecrets :: check_kind where "CheckSecrets \<equiv> ''secrets''"
abbreviation CheckDepsVuln :: check_kind where "CheckDepsVuln \<equiv> ''deps-vuln''"
abbreviation CheckSelfTest :: check_kind where "CheckSelfTest \<equiv> ''self-test''"
abbreviation CheckCommand :: check_kind where "CheckCommand \<equiv> ''command''"
abbreviation CheckSemanticLint :: check_kind where "CheckSemanticLint \<equiv> ''semantic-lint''"
abbreviation CheckGoMutation :: check_kind where "CheckGoMutation \<equiv> ''go-mutation''"
abbreviation CheckGoImports :: check_kind where "CheckGoImports \<equiv> ''go-imports''"
abbreviation CheckGoGenerate :: check_kind where "CheckGoGenerate \<equiv> ''go-generate''"
abbreviation CheckGoApidiff :: check_kind where "CheckGoApidiff \<equiv> ''go-apidiff''"

datatype warning_kind =
    WarningRuleModulesSkipped | WarningRuleModuleDeprecated | WarningRuleModuleRetracted
  | WarningRuleRenamed | WarningRuleDeprecated | WarningDetachedOutput | WarningOutputTruncated
  | OtherWarning string

datatype cache_status = CacheUnset | CacheDisabled | CacheUnavailable | CacheMiss | CacheHit | CacheFresh

datatype stage_kind = StagePreparation | StageBuild

section \<open>The table of kinds\<close>

text \<open>The work of a shared Go kind (\<open>goRunner\<close> in gochecks.go), by the method that does it.\<close>

datatype go_runner =
    RunGoLint | RunGoVet | RunGoMod | RunGoTest | RunGoVuln | RunWorkflowLint
  | RunWorkflowSecurity | RunShellLint | RunSecrets | RunDepsVuln | RunGoImports | RunGoGenerate

datatype native_kind =
    SharedNative go_runner string
  | CommandNative
  | SemanticNative
  | ApidiffNative

record kind_spec =
  ks_kind :: check_kind
  ks_dagger :: string
  ks_native :: "native_kind option"
  ks_always_fresh :: string
  ks_base_dependent :: string
  ks_baseline :: bool
  ks_located :: bool
  ks_reporting :: bool
  ks_root_only :: bool
  ks_writes_workspace :: bool
  ks_runs_repository_code :: bool
  ks_go_toolchain :: bool
  ks_default_check :: bool
  ks_default_runs :: "string list"

definition zero_spec :: kind_spec where
  "zero_spec = \<lparr>ks_kind = '''', ks_dagger = '''', ks_native = None, ks_always_fresh = '''',
     ks_base_dependent = '''', ks_baseline = False, ks_located = False, ks_reporting = False,
     ks_root_only = False, ks_writes_workspace = False, ks_runs_repository_code = False,
     ks_go_toolchain = False, ks_default_check = False, ks_default_runs = []\<rparr>"

definition default_gates :: "string list" where
  "default_gates = [''branch'', ''pre-merge'', ''main'']"

definition advisory_reason :: string where
  "advisory_reason = ''vulnerability scans always query current advisory data''"

definition module_reason :: string where
  "module_reason = ''go mod verify always checks the current module cache''"

definition mutation_reason :: string where
  "mutation_reason =
     ''the mutated files depend on the base branch; Dagger reuses identical runs''"

definition apidiff_reason :: string where
  "apidiff_reason =
     ''the comparison depends on where the base branch points; Dagger reuses identical runs''"

definition shared_native :: "go_runner \<Rightarrow> string \<Rightarrow> native_kind option" where
  "shared_native run message = Some (SharedNative run message)"

definition shared_failed :: string where
  "shared_failed = ''shared check failed''"

definition kind_specs :: "kind_spec list" where
  "kind_specs =
    [zero_spec\<lparr>ks_kind := CheckGoLint, ks_go_toolchain := True, ks_dagger := ''goLintReport'',
       ks_native := shared_native RunGoLint ''Go policy lint failed'', ks_baseline := True,
       ks_located := True, ks_reporting := True, ks_default_check := True,
       ks_default_runs := default_gates\<rparr>,
     zero_spec\<lparr>ks_kind := CheckGoVet, ks_go_toolchain := True, ks_dagger := ''sharedCheck'',
       ks_native := shared_native RunGoVet shared_failed, ks_default_check := True,
       ks_default_runs := default_gates\<rparr>,
     zero_spec\<lparr>ks_kind := CheckGoMod, ks_go_toolchain := True, ks_dagger := ''sharedCheck'',
       ks_native := shared_native RunGoMod shared_failed, ks_always_fresh := module_reason,
       ks_default_check := True, ks_default_runs := default_gates\<rparr>,
     zero_spec\<lparr>ks_kind := CheckGoTest, ks_go_toolchain := True, ks_dagger := ''sharedCheck'',
       ks_native := shared_native RunGoTest shared_failed, ks_runs_repository_code := True,
       ks_default_check := True\<rparr>,
     zero_spec\<lparr>ks_kind := CheckGoHTTP, ks_go_toolchain := True, ks_dagger := ''sharedCheck'',
       ks_baseline := True, ks_located := True, ks_default_check := True\<rparr>,
     zero_spec\<lparr>ks_kind := CheckGoSQL, ks_go_toolchain := True, ks_dagger := ''sharedCheck'',
       ks_baseline := True, ks_located := True, ks_default_check := True\<rparr>,
     zero_spec\<lparr>ks_kind := CheckGoVuln, ks_go_toolchain := True, ks_dagger := ''sharedCheck'',
       ks_native := shared_native RunGoVuln shared_failed, ks_always_fresh := advisory_reason,
       ks_default_check := True, ks_default_runs := [''main'']\<rparr>,
     zero_spec\<lparr>ks_kind := CheckWorkflowLint, ks_dagger := ''sharedCheck'',
       ks_native := shared_native RunWorkflowLint shared_failed, ks_root_only := True,
       ks_default_check := True\<rparr>,
     zero_spec\<lparr>ks_kind := CheckWorkflowSecurity, ks_dagger := ''sharedCheck'',
       ks_native := shared_native RunWorkflowSecurity shared_failed, ks_root_only := True,
       ks_default_check := True\<rparr>,
     zero_spec\<lparr>ks_kind := CheckShellLint, ks_dagger := ''sharedCheck'',
       ks_native := shared_native RunShellLint shared_failed, ks_baseline := True,
       ks_located := True, ks_root_only := True, ks_default_check := True\<rparr>,
     zero_spec\<lparr>ks_kind := CheckSecrets, ks_dagger := ''sharedCheck'',
       ks_native := shared_native RunSecrets shared_failed, ks_located := True,
       ks_root_only := True, ks_default_check := True\<rparr>,
     zero_spec\<lparr>ks_kind := CheckDepsVuln, ks_dagger := ''sharedCheck'',
       ks_native := shared_native RunDepsVuln shared_failed, ks_always_fresh := advisory_reason,
       ks_located := True, ks_root_only := True, ks_default_check := True\<rparr>,
     zero_spec\<lparr>ks_kind := CheckSelfTest, ks_dagger := ''selfTest''\<rparr>,
     zero_spec\<lparr>ks_kind := CheckCommand, ks_native := Some CommandNative,
       ks_writes_workspace := True\<rparr>,
     zero_spec\<lparr>ks_kind := CheckSemanticLint, ks_native := Some SemanticNative\<rparr>,
     zero_spec\<lparr>ks_kind := CheckGoMutation, ks_go_toolchain := True, ks_dagger := ''goMutation'',
       ks_base_dependent := mutation_reason, ks_located := True, ks_reporting := True,
       ks_runs_repository_code := True\<rparr>,
     zero_spec\<lparr>ks_kind := CheckGoImports, ks_go_toolchain := True, ks_dagger := ''goImports'',
       ks_native := shared_native RunGoImports shared_failed, ks_baseline := True,
       ks_located := True\<rparr>,
     zero_spec\<lparr>ks_kind := CheckGoGenerate, ks_go_toolchain := True, ks_dagger := ''goGenerate'',
       ks_native := shared_native RunGoGenerate shared_failed, ks_located := True,
       ks_runs_repository_code := True, ks_default_check := True\<rparr>,
     zero_spec\<lparr>ks_kind := CheckGoApidiff, ks_go_toolchain := True, ks_dagger := ''goApidiff'',
       ks_native := Some ApidiffNative, ks_base_dependent := apidiff_reason, ks_located := True,
       ks_default_check := True\<rparr>]"

definition check_kinds :: "check_kind list" where
  "check_kinds = map ks_kind kind_specs"

definition spec_of :: "check_kind \<Rightarrow> kind_spec" where
  "spec_of kind = (case find (\<lambda>s. ks_kind s = kind) kind_specs of Some s \<Rightarrow> s | None \<Rightarrow> zero_spec)"

definition dagger_function :: "check_kind \<Rightarrow> string" where
  "dagger_function kind = ks_dagger (spec_of kind)"

definition native_kind_of :: "check_kind \<Rightarrow> native_kind option" where
  "native_kind_of kind = ks_native (spec_of kind)"

definition shared_go_check :: "check_kind \<Rightarrow> bool" where
  "shared_go_check kind \<longleftrightarrow> ks_dagger (spec_of kind) \<noteq> '''' \<and> ks_native (spec_of kind) \<noteq> None"

definition always_fresh_reason :: "check_kind \<Rightarrow> string" where
  "always_fresh_reason kind = ks_always_fresh (spec_of kind)"

definition base_dependent_reason :: "check_kind \<Rightarrow> string" where
  "base_dependent_reason kind = ks_base_dependent (spec_of kind)"

definition baseline_kind :: "check_kind \<Rightarrow> bool" where
  "baseline_kind kind = ks_baseline (spec_of kind)"

definition located_kind :: "check_kind \<Rightarrow> bool" where
  "located_kind kind = ks_located (spec_of kind)"

definition reports_on_pass :: "check_kind \<Rightarrow> bool" where
  "reports_on_pass kind = ks_reporting (spec_of kind)"

definition reads_go_toolchain :: "check_kind \<Rightarrow> bool" where
  "reads_go_toolchain kind = ks_go_toolchain (spec_of kind)"

definition runs_repository_code :: "check_kind \<Rightarrow> bool" where
  "runs_repository_code kind = ks_runs_repository_code (spec_of kind)"

definition root_only :: "check_kind \<Rightarrow> bool" where
  "root_only kind = ks_root_only (spec_of kind)"

definition read_only_workspace :: "check_kind \<Rightarrow> bool" where
  "read_only_workspace kind \<longleftrightarrow> \<not> ks_writes_workspace (spec_of kind)"

definition kind_names :: "(kind_spec \<Rightarrow> bool) \<Rightarrow> string" where
  "kind_names holds = join_with '', '' (sort (map ks_kind (filter holds kind_specs)))"

definition native_kind_names :: string where
  "native_kind_names = kind_names (\<lambda>s. ks_native s \<noteq> None)"

definition baseline_kind_names :: string where
  "baseline_kind_names = kind_names ks_baseline"

section \<open>What the table says\<close>

text \<open>
  A kind's accessors agree with its one entry of the table; every other string has the zero entry.
\<close>

lemma distinct_check_kinds: "distinct check_kinds"
  by (simp add: check_kinds_def kind_specs_def zero_spec_def)

lemma spec_of_entry: "s \<in> set kind_specs \<Longrightarrow> spec_of (ks_kind s) = s"
proof -
  assume s: "s \<in> set kind_specs"
  then obtain t where t: "find (\<lambda>u. ks_kind u = ks_kind s) kind_specs = Some t"
    by (cases "find (\<lambda>u. ks_kind u = ks_kind s) kind_specs") (auto simp: find_None_iff)
  then have "t \<in> set kind_specs" "ks_kind t = ks_kind s" by (auto simp: find_Some_iff)
  with s distinct_check_kinds have "t = s"
    by (auto simp: check_kinds_def distinct_map dest: inj_onD)
  with t show ?thesis by (simp add: spec_of_def)
qed

lemma spec_of_cases: "spec_of k = zero_spec \<or> (spec_of k \<in> set kind_specs \<and> ks_kind (spec_of k) = k)"
  by (auto simp: spec_of_def find_Some_iff split: option.split)

lemma entry_fact:
  "list_all (\<lambda>s. P s \<longrightarrow> Q s) kind_specs \<Longrightarrow> \<not> P zero_spec \<Longrightarrow> P (spec_of k) \<Longrightarrow> Q (spec_of k)"
  using spec_of_cases [of k] by (auto simp: list_all_iff)

lemma entry_kinds:
  "\<not> P zero_spec \<Longrightarrow> P (spec_of k) \<longleftrightarrow> k \<in> set (map ks_kind (filter P kind_specs))"
proof
  assume z: "\<not> P zero_spec" and p: "P (spec_of k)"
  then have "spec_of k \<noteq> zero_spec" by auto
  with spec_of_cases have "spec_of k \<in> set kind_specs" "ks_kind (spec_of k) = k" by blast+
  with p show "k \<in> set (map ks_kind (filter P kind_specs))" by force
next
  assume "k \<in> set (map ks_kind (filter P kind_specs))"
  then obtain s where "s \<in> set kind_specs" "P s" "ks_kind s = k" by auto
  with spec_of_entry show "P (spec_of k)" by force
qed

lemmas kind_access = dagger_function_def native_kind_of_def shared_go_check_def
  always_fresh_reason_def base_dependent_reason_def baseline_kind_def located_kind_def
  reports_on_pass_def reads_go_toolchain_def runs_repository_code_def root_only_def
  read_only_workspace_def

lemma always_fresh_iff:
  "always_fresh_reason k \<noteq> '''' \<longleftrightarrow> k \<in> {CheckGoMod, CheckGoVuln, CheckDepsVuln}"
  unfolding always_fresh_reason_def
  by (subst entry_kinds [where P = "\<lambda>s. ks_always_fresh s \<noteq> ''''"])
    (simp_all add: zero_spec_def kind_specs_def module_reason_def advisory_reason_def)

lemma base_dependent_iff:
  "base_dependent_reason k \<noteq> '''' \<longleftrightarrow> k \<in> {CheckGoMutation, CheckGoApidiff}"
  unfolding base_dependent_reason_def
  by (subst entry_kinds [where P = "\<lambda>s. ks_base_dependent s \<noteq> ''''"])
    (simp_all add: zero_spec_def kind_specs_def mutation_reason_def apidiff_reason_def)

lemma read_only_workspace_iff: "read_only_workspace k \<longleftrightarrow> k \<noteq> CheckCommand"
  unfolding read_only_workspace_def
  by (subst entry_kinds [where P = ks_writes_workspace]) (simp_all add: zero_spec_def kind_specs_def)

lemma root_only_iff:
  "root_only k \<longleftrightarrow> k \<in> {CheckWorkflowLint, CheckWorkflowSecurity, CheckShellLint, CheckSecrets, CheckDepsVuln}"
  unfolding root_only_def
  by (subst entry_kinds [where P = ks_root_only]) (simp_all add: zero_spec_def kind_specs_def)

lemma baseline_kind_iff:
  "baseline_kind k \<longleftrightarrow> k \<in> {CheckGoLint, CheckGoHTTP, CheckGoSQL, CheckShellLint, CheckGoImports}"
  unfolding baseline_kind_def
  by (subst entry_kinds [where P = ks_baseline]) (simp_all add: zero_spec_def kind_specs_def)

lemma baseline_kind_located: "baseline_kind k \<Longrightarrow> located_kind k"
  unfolding baseline_kind_def located_kind_def
  by (rule entry_fact [where P = ks_baseline]) (simp_all add: zero_spec_def kind_specs_def)

end
