(* ===== verification/Config.thy ===== *)
theory Config
  imports Kinds
begin

text \<open>
  The configuration of \<open>internal/verify/config.go\<close>: the types \<open>levenshtein.json\<close> decodes into, the
  accessors that supply the defaults of an option object a check leaves out, and the configuration
  of a repository without the file. A nil pointer or an absent JSON field is \<open>None\<close> or the empty
  value, as in Go. Decoding the JSON text itself is not modelled.
\<close>

section \<open>Types\<close>

record rule_module =
  rm_version :: string
  rm_namespace :: string
  rm_select :: "string list"
  rm_advisory :: "string list"
  rm_settings :: "string gomap gomap"

record target =
  tg_dir :: string
  tg_workspace :: string
  tg_inputs :: "string list"
  tg_exclude :: "string list"
  tg_discovery :: discovery_kind

record tool =
  tl_command :: "string list"
  tl_version :: string

record environment =
  en_executor :: executor_kind
  en_identity :: string
  en_env :: "string gomap"
  en_pass_env :: "string list"
  en_tools :: "tool list"

record preparation =
  pr_command :: "string list"
  pr_inputs :: "string list"
  pr_outputs :: "string list"
  pr_env :: "string gomap"
  pr_timeout :: string

record command_check =
  cc_args :: "string list"
  cc_rerun_args :: "string list"
  cc_env :: "string gomap"
  cc_timeout :: string
  cc_preparation :: string
  cc_build :: string
  cc_artifacts :: "string list"
  cc_cache :: bool

record semantic_check =
  sc_base :: string
  sc_model :: string
  sc_timeout :: string
  sc_max_requests :: int
  sc_max_input_chars :: int

type_synonym mutation_scope = string

abbreviation MutationScopeChanged :: mutation_scope where "MutationScopeChanged \<equiv> ''changed''"
abbreviation MutationScopeModule :: mutation_scope where "MutationScopeModule \<equiv> ''module''"

record mutation_check =
  mc_base :: string
  mc_scope :: mutation_scope
  mc_accepted :: string
  mc_tags :: string
  mc_timeout :: string

record lint_check =
  lc_checks :: "string list"
  lc_rule_modules :: "bool option"

type_synonym import_tests = string

abbreviation ImportTestsInclude :: import_tests where "ImportTestsInclude \<equiv> ''include''"
abbreviation ImportTestsExclude :: import_tests where "ImportTestsExclude \<equiv> ''exclude''"

record import_rule =
  ir_packages :: "string list"
  ir_deny :: "string list"
  ir_allow :: "string list"
  ir_tests :: import_tests
  ir_reason :: string

record imports_check =
  ic_rules :: "import_rule list"

record apidiff_check =
  ac_base :: string

record check =
  ck_kind :: check_kind
  ck_target :: string
  ck_targets :: "string list"
  ck_environment :: string
  ck_command :: "command_check option"
  ck_semantic :: "semantic_check option"
  ck_mutation :: "mutation_check option"
  ck_lint :: "lint_check option"
  ck_imports :: "imports_check option"
  ck_apidiff :: "apidiff_check option"

record run =
  rn_checks :: "string list"
  rn_rerun_checks :: bool

record config =
  cf_version :: int
  cf_targets :: "target gomap"
  cf_environments :: "environment gomap"
  cf_checks :: "check gomap"
  cf_runs :: "run gomap"
  cf_preparations :: "preparation gomap"
  cf_builds :: "preparation gomap"
  cf_baseline :: string
  cf_rule_modules :: "rule_module gomap"

section \<open>Accessors\<close>

definition check_at :: "check \<Rightarrow> string \<Rightarrow> check" where
  "check_at c target = c\<lparr>ck_target := target, ck_targets := []\<rparr>"

definition zero_apidiff :: apidiff_check where
  "zero_apidiff = \<lparr>ac_base = ''''\<rparr>"

definition apidiff_options :: "check \<Rightarrow> apidiff_check" where
  "apidiff_options c = (case ck_apidiff c of None \<Rightarrow> zero_apidiff | Some a \<Rightarrow> a)"

definition check_artifacts :: "check \<Rightarrow> string list" where
  "check_artifacts c = (case ck_command c of None \<Rightarrow> [] | Some m \<Rightarrow> cc_artifacts m)"

definition check_env :: "check \<Rightarrow> string gomap" where
  "check_env c = (case ck_command c of None \<Rightarrow> [] | Some m \<Rightarrow> cc_env m)"

definition cacheable :: "check \<Rightarrow> bool" where
  "cacheable c = (case ck_command c of None \<Rightarrow> False | Some m \<Rightarrow> cc_cache m)"

definition zero_semantic :: semantic_check where
  "zero_semantic = \<lparr>sc_base = '''', sc_model = '''', sc_timeout = '''', sc_max_requests = 0,
     sc_max_input_chars = 0\<rparr>"

definition semantic_options :: "check \<Rightarrow> semantic_check" where
  "semantic_options c = (case ck_semantic c of None \<Rightarrow> zero_semantic | Some s \<Rightarrow> s)"

text \<open>\<open>isCommunityPattern\<close> of rulemodules.go: only community codes contain an underscore.\<close>

definition is_community_pattern :: "string \<Rightarrow> bool" where
  "is_community_pattern p \<longleftrightarrow> CHR ''_'' \<in> set p"

definition lint_checks :: "check \<Rightarrow> string list" where
  "lint_checks c = (case ck_lint c of None \<Rightarrow> [] | Some l \<Rightarrow> lc_checks l)"

definition core_lint_checks :: "check \<Rightarrow> string list" where
  "core_lint_checks c = filter (\<lambda>p. \<not> is_community_pattern p) (lint_checks c)"

definition uses_rule_modules :: "check \<Rightarrow> bool" where
  "uses_rule_modules c =
     (if ck_kind c \<noteq> CheckGoLint then False
      else (case ck_lint c of None \<Rightarrow> True
            | Some l \<Rightarrow> (case lc_rule_modules l of None \<Rightarrow> True | Some b \<Rightarrow> b)))"

definition default_accepted :: string where
  "default_accepted = ''.levenshtein/mutation-accepted.json''"

definition zero_mutation :: mutation_check where
  "zero_mutation = \<lparr>mc_base = '''', mc_scope = '''', mc_accepted = '''', mc_tags = '''',
     mc_timeout = ''''\<rparr>"

definition mutation_options :: "check \<Rightarrow> mutation_check" where
  "mutation_options c =
     (let o0 = (case ck_mutation c of None \<Rightarrow> zero_mutation | Some m \<Rightarrow> m);
          o1 = (if mc_scope o0 = '''' then o0\<lparr>mc_scope := MutationScopeChanged\<rparr> else o0)
      in if mc_accepted o1 = '''' then o1\<lparr>mc_accepted := default_accepted\<rparr> else o1)"

section \<open>The configuration of a repository without levenshtein.json\<close>

definition default_target :: string where
  "default_target = ''root''"

definition default_environment :: string where
  "default_environment = ''go''"

definition plain_check :: "check_kind \<Rightarrow> string \<Rightarrow> string \<Rightarrow> check" where
  "plain_check k t e = \<lparr>ck_kind = k, ck_target = t, ck_targets = [], ck_environment = e,
     ck_command = None, ck_semantic = None, ck_mutation = None, ck_lint = None,
     ck_imports = None, ck_apidiff = None\<rparr>"

text \<open>
  The loop over \<open>kindSpecs\<close>: the kinds with a default check, and for each gate the kinds whose
  default runs name it, in table order.
\<close>

definition default_kinds :: "kind_spec list" where
  "default_kinds = filter ks_default_check kind_specs"

definition gate_checks :: "string \<Rightarrow> string list" where
  "gate_checks gate =
     concat (map (\<lambda>s. map (\<lambda>_. ks_kind s) (filter (\<lambda>g. g = gate) (ks_default_runs s))) default_kinds)"

definition default_config :: config where
  "default_config = \<lparr>
     cf_version = 1,
     cf_targets = [(default_target, \<lparr>tg_dir = ''.'', tg_workspace = ''.'', tg_inputs = [''.''],
                      tg_exclude = [], tg_discovery = ''''\<rparr>)],
     cf_environments = [(default_environment, \<lparr>en_executor = ExecutorDagger, en_identity = '''',
                           en_env = [], en_pass_env = [], en_tools = []\<rparr>)],
     cf_checks = map (\<lambda>s. (ks_kind s, plain_check (ks_kind s) default_target default_environment))
                   default_kinds,
     cf_runs = map (\<lambda>gate. (gate, \<lparr>rn_checks = gate_checks gate,
                                     rn_rerun_checks = (gate = ''main'')\<rparr>)) default_gates
               @ map (\<lambda>s. (ks_kind s, \<lparr>rn_checks = [ks_kind s], rn_rerun_checks = False\<rparr>))
                   default_kinds,
     cf_preparations = [], cf_builds = [], cf_baseline = '''', cf_rule_modules = []\<rparr>"

section \<open>Version and migration\<close>

datatype parse_error = UnsupportedVersion

text \<open>
  \<open>Parse\<close> after decoding: only versions 1 and 2 are read. Both share the decoded shape.
\<close>

definition parse_version :: "config \<Rightarrow> parse_error + config" where
  "parse_version c = (if cf_version c \<noteq> 1 \<and> cf_version c \<noteq> 2 then Inl UnsupportedVersion else Inr c)"

datatype retired_home =
    CacheNoLongerApplies
  | NotForDagger string
  | EnvInEnvironment
  | MovedToSemantic string
  | NowRerunArgs
  | MovedToCommand string

text \<open>\<open>retiredFieldHome\<close>: where a retired top-level check field went for the check's kind.\<close>

definition retired_field_home :: "check_kind \<Rightarrow> string \<Rightarrow> retired_home" where
  "retired_field_home kind field =
     (if dagger_function kind \<noteq> '''' then
        (if field = ''cache'' then CacheNoLongerApplies else NotForDagger field)
      else if kind = CheckSemanticLint then
        (if field = ''env'' then EnvInEnvironment else MovedToSemantic field)
      else if field = ''rerun_command'' then NowRerunArgs
      else MovedToCommand field)"

lemma check_at_simps [simp]:
  "ck_target (check_at c t) = t"
  "ck_targets (check_at c t) = []"
  "ck_kind (check_at c t) = ck_kind c"
  "ck_environment (check_at c t) = ck_environment c"
  "ck_command (check_at c t) = ck_command c"
  "ck_semantic (check_at c t) = ck_semantic c"
  "ck_mutation (check_at c t) = ck_mutation c"
  "ck_lint (check_at c t) = ck_lint c"
  "ck_imports (check_at c t) = ck_imports c"
  "ck_apidiff (check_at c t) = ck_apidiff c"
  by (simp_all add: check_at_def)

lemma lint_options_at [simp]:
  "lint_checks (check_at c t) = lint_checks c"
  "core_lint_checks (check_at c t) = core_lint_checks c"
  "uses_rule_modules (check_at c t) = uses_rule_modules c"
  by (simp_all add: lint_checks_def core_lint_checks_def uses_rule_modules_def)

lemma mutation_options_set: "mc_scope (mutation_options c) \<noteq> '''' \<and> mc_accepted (mutation_options c) \<noteq> ''''"
  by (simp add: mutation_options_def Let_def default_accepted_def)

end
