(* ===== verification/Lint_Selection.thy ===== *)
theory Lint_Selection
  imports Kinds
begin

text \<open>
  Pattern lists that select lint rules. Two matchers exist: Staticcheck's (\<open>Selects\<close> and
  \<open>Allowed\<close> of \<open>internal/checktool/lint.go\<close>, with a copy in the core linter) and the community
  linter's (\<open>communityAllowed\<close> of \<open>internal/verify/rulemodules.go\<close>). Both promise the same thing,
  that the last pattern that matches a code decides it; the locale \<open>last_match\<close> is that contract,
  and both matchers are interpretations of it.
\<close>

section \<open>The contract: the last matching pattern wins\<close>

locale last_match =
  fixes hits :: "string \<Rightarrow> string \<Rightarrow> bool"
    and enables :: "string \<Rightarrow> bool"
    and allowed :: "string list \<Rightarrow> string \<Rightarrow> bool"
  assumes allowed_Nil: "\<not> allowed [] code"
    and allowed_snoc: "allowed (ps @ [p]) code = (if hits p code then enables p else allowed ps code)"
begin

lemma allowed_append:
  "allowed (ps @ qs) code = (if \<exists>q \<in> set qs. hits q code then allowed qs code else allowed ps code)"
proof (induction qs rule: rev_induct)
  case Nil
  then show ?case by simp
next
  case (snoc q qs)
  have "allowed (ps @ qs @ [q]) code = (if hits q code then enables q else allowed (ps @ qs) code)"
    using allowed_snoc [of "ps @ qs" q code] by simp
  with snoc show ?case by (auto simp: allowed_snoc)
qed

lemma allowed_no_hit: "\<forall>p \<in> set ps. \<not> hits p code \<Longrightarrow> \<not> allowed ps code"
  by (induction ps rule: rev_induct) (auto simp: allowed_Nil allowed_snoc)

lemma allowed_iff_last:
  "allowed ps code \<longleftrightarrow>
     (\<exists>before p after. ps = before @ p # after \<and> hits p code \<and> enables p \<and>
        (\<forall>q \<in> set after. \<not> hits q code))"
proof
  show "allowed ps code \<Longrightarrow> \<exists>before p after. ps = before @ p # after \<and> hits p code \<and> enables p \<and>
        (\<forall>q \<in> set after. \<not> hits q code)"
  proof (induction ps rule: rev_induct)
    case Nil
    then show ?case by (simp add: allowed_Nil)
  next
    case (snoc q ps)
    show ?case
    proof (cases "hits q code")
      case True
      with snoc.prems have "enables q" by (simp add: allowed_snoc)
      with True show ?thesis by fastforce
    next
      case False
      with snoc.prems have "allowed ps code" by (simp add: allowed_snoc)
      then obtain before p after where "ps = before @ p # after" "hits p code" "enables p"
        "\<forall>r \<in> set after. \<not> hits r code"
        using snoc.IH by blast
      with False have "ps @ [q] = before @ p # (after @ [q])" "\<forall>r \<in> set (after @ [q]). \<not> hits r code"
        by auto
      with \<open>hits p code\<close> \<open>enables p\<close> show ?thesis by blast
    qed
  qed
next
  assume "\<exists>before p after. ps = before @ p # after \<and> hits p code \<and> enables p \<and>
        (\<forall>q \<in> set after. \<not> hits q code)"
  then obtain before p after where ps: "ps = (before @ [p]) @ after" and p: "hits p code" "enables p"
    and after: "\<forall>q \<in> set after. \<not> hits q code"
    by auto
  have "allowed (before @ [p]) code" using p by (simp add: allowed_snoc)
  with after show "allowed ps code" unfolding ps allowed_append by auto
qed

lemma allowed_filter: "allowed (filter (\<lambda>p. hits p code) ps) code = allowed ps code"
  by (induction ps rule: rev_induct) (auto simp: allowed_snoc)

lemma allowed_cong:
  "filter (\<lambda>p. hits p code) ps = filter (\<lambda>p. hits p code) qs \<Longrightarrow> allowed ps code = allowed qs code"
  by (metis allowed_filter)

end

section \<open>Staticcheck patterns\<close>

text \<open>\<open>Selects\<close>: does one pattern, without its \<open>-\<close>, name a code, ignoring case?\<close>

definition selects :: "string \<Rightarrow> string \<Rightarrow> bool" where
  "selects pattern0 code0 =
     (let pattern = to_lower pattern0; code = to_lower code0 in
      if pattern = ''*'' \<or> pattern = ''all'' then True
      else
        let (pre, glob) = cut_suffix pattern ''*'' in
        if \<not> glob then pattern = code
        else if list_ex is_digit pre then has_prefix code pre
        else takeWhile (\<lambda>c. \<not> is_digit c) code = pre)"

text \<open>The body of a pattern and whether it turns a code on: a lone \<open>-\<close> is a literal name.\<close>

definition static_body :: "string \<Rightarrow> string" where
  "static_body check = (if length check > 1 \<and> hd check = CHR ''-'' then tl check else check)"

definition static_enables :: "string \<Rightarrow> bool" where
  "static_enables check \<longleftrightarrow> \<not> (length check > 1 \<and> hd check = CHR ''-'')"

definition static_allowed :: "string list \<Rightarrow> string \<Rightarrow> bool" where
  "static_allowed checks code =
     foldl (\<lambda>selected check. if selects (static_body check) code then static_enables check else selected)
       False checks"

interpretation static_lm: last_match "\<lambda>check code. selects (static_body check) code" static_enables static_allowed
  by unfold_locales (simp_all add: static_allowed_def)

text \<open>\<open>Registered\<close>: every added pattern names a rule of the linter's listing.\<close>

definition listed_names :: "string \<Rightarrow> string list" where
  "listed_names listing =
     concat (map (\<lambda>line. case words line of [] \<Rightarrow> [] | name # _ \<Rightarrow> [name])
                 (split_at CHR 0x0A listing))"

datatype registered_error = MatchesNoRule string

definition registered :: "string list \<Rightarrow> string \<Rightarrow> registered_error option" where
  "registered patterns listing =
     first_error (\<lambda>pattern.
       fail_when (\<not> list_ex (\<lambda>rule. selects (trim_prefix pattern ''-'') rule) (listed_names listing))
         (MatchesNoRule pattern)) patterns"

section \<open>Community patterns\<close>

definition community_body :: "string \<Rightarrow> string" where
  "community_body pattern = fst (cut_prefix (to_lower pattern) ''-'')"

definition community_enables :: "string \<Rightarrow> bool" where
  "community_enables pattern \<longleftrightarrow> \<not> snd (cut_prefix (to_lower pattern) ''-'')"

text \<open>\<open>matches\<close> of runner/community: a literal name, or a literal prefix before a final \<open>*\<close>.\<close>

definition community_matches :: "string \<Rightarrow> string \<Rightarrow> bool" where
  "community_matches pattern code =
     (let (pre, glob) = cut_suffix (to_lower pattern) ''*'' in
      if glob then has_prefix (to_lower code) pre else to_lower pattern = to_lower code)"

definition community_hits :: "string \<Rightarrow> string \<Rightarrow> bool" where
  "community_hits pattern code =
     (let body = community_body pattern; lowered = to_lower code;
          (pre, glob) = cut_suffix body ''*''
      in (glob \<and> has_prefix lowered pre) \<or> (\<not> glob \<and> body = lowered))"

definition community_allowed :: "string list \<Rightarrow> string \<Rightarrow> bool" where
  "community_allowed patterns code =
     foldl (\<lambda>selected pattern. if community_hits pattern code then community_enables pattern else selected)
       False patterns"

interpretation community_lm: last_match community_hits community_enables community_allowed
  by unfold_locales (simp_all add: community_allowed_def)

definition pattern_namespace :: "string \<Rightarrow> string" where
  "pattern_namespace pattern = to_lower (fst (cut_at CHR ''_'' (trim_prefix pattern ''-'')))"

section \<open>The pattern syntaxes\<close>

text \<open>
  \<open>lintPattern\<close> of validation.go, \<open>communityPattern\<close>, \<open>communityCode\<close> and \<open>namespacePattern\<close> of
  rulemodules.go, transcribed.
\<close>

definition name_chars :: "char list" where
  "name_chars = letters @ digits @ ''_''"

definition lint_pattern :: rx where
  "lint_pattern = RSeq (rx_opt (rx_char CHR ''-''))
     (RAlt (rx_char CHR ''*'')
        (RSeq (RClass letters) (RSeq (RStar (RClass (letters @ digits))) (rx_opt (rx_char CHR ''*'')))))"

definition community_tail :: rx where
  "community_tail = RAlt (RSeq (RStar (RClass name_chars)) (rx_char CHR ''*''))
     (RSeq (RClass letters) (RStar (RClass name_chars)))"

definition community_pattern :: rx where
  "community_pattern = RSeq (rx_opt (rx_char CHR ''-''))
     (RSeq (rx_plus (RClass letters)) (RSeq (rx_char CHR ''_'') community_tail))"

definition community_code :: rx where
  "community_code = RSeq (rx_plus (RClass letters)) (RSeq (rx_char CHR ''_'')
     (RSeq (RClass letters) (RStar (RClass name_chars))))"

definition namespace_pattern :: rx where
  "namespace_pattern = rx_plus (RClass lower_letters)"

lemma lint_pattern_no_underscore: "rx_match lint_pattern p \<Longrightarrow> CHR ''_'' \<notin> set p"
  unfolding rx_match_lang lint_pattern_def by (drule rx_lang_chars) auto

lemma community_pattern_cases:
  assumes "rx_match community_pattern p"
  obtains sign ns rest where "p = sign @ ns @ ''_'' @ rest" "sign = [] \<or> sign = ''-''"
    "ns \<noteq> []" "set ns \<subseteq> set letters" "set rest \<subseteq> set (CHR ''*'' # name_chars)"
proof -
  from assms obtain sign ns rest where "p = sign @ ns @ ''_'' @ rest" "sign = [] \<or> sign = ''-''"
    "ns \<in> rx_lang (rx_plus (RClass letters))" and rest: "rest \<in> rx_lang community_tail"
    unfolding rx_match_lang community_pattern_def by auto
  moreover have "set rest \<subseteq> set (CHR ''*'' # name_chars)"
    using rx_lang_chars [OF rest] by (auto simp: community_tail_def name_chars_def)
  ultimately show ?thesis by (intro that) auto
qed

text \<open>
  The two syntaxes do not overlap: what \<open>validateLintChecks\<close> accepts as a core pattern is never a
  community pattern, and every community pattern carries the underscore that marks it as one.
\<close>

lemma community_pattern_underscore: "rx_match community_pattern p \<Longrightarrow> CHR ''_'' \<in> set p"
  by (elim community_pattern_cases) auto

lemma underscore_not_letter: "CHR ''_'' \<notin> set letters"
  by simp

lemma dash_not_letter: "CHR ''-'' \<notin> set letters"
  by simp

end
