(* ===== verification/Go_Duration.thy ===== *)
theory Go_Duration
  imports Go_Text
begin

text \<open>
  Go's \<open>time.ParseDuration\<close>, the only parser the validators call: a sign, then number and unit
  pairs, each a decimal number with an optional fraction. Amounts are nanoseconds, bounded by the
  64-bit integers of the library as it bounds them. The fraction is computed exactly, where the
  library rounds in floating point.
\<close>

definition digit_value :: "char \<Rightarrow> nat" where
  "digit_value c = of_char c - 48"

definition int64_half :: nat where
  "int64_half = 2 ^ 63"

text \<open>\<open>leadingInt\<close>: the leading digits, or \<open>None\<close> when they exceed 2 to the 63.\<close>

fun leading_int :: "nat \<Rightarrow> string \<Rightarrow> (nat \<times> string) option" where
  "leading_int v [] = Some (v, [])"
| "leading_int v (c # s) =
     (if \<not> is_digit c then Some (v, c # s)
      else if v > int64_half div 10 then None
      else let w = v * 10 + digit_value c in if w > int64_half then None else leading_int w s)"

text \<open>\<open>leadingFraction\<close>: digits beyond the 63-bit range are read and dropped.\<close>

fun leading_fraction :: "bool \<Rightarrow> nat \<Rightarrow> nat \<Rightarrow> string \<Rightarrow> nat \<times> nat \<times> string" where
  "leading_fraction over v scale [] = (v, scale, [])"
| "leading_fraction over v scale (c # s) =
     (if \<not> is_digit c then (v, scale, c # s)
      else if over then leading_fraction True v scale s
      else if v > (int64_half - 1) div 10 then leading_fraction True v scale s
      else let w = v * 10 + digit_value c in
        if w > int64_half then leading_fraction True v scale s
        else leading_fraction False w (scale * 10) s)"

definition unit_ns :: "string \<Rightarrow> nat option" where
  "unit_ns u = map_of
     [(''ns'', 1), (''us'', 1000), ([CHR 0xC2, CHR 0xB5, CHR ''s''], 1000),
      ([CHR 0xCE, CHR 0xBC, CHR ''s''], 1000), (''ms'', 1000000), (''s'', 1000000000),
      (''m'', 60000000000), (''h'', 3600000000000)] u"

definition number_char :: "char \<Rightarrow> bool" where
  "number_char c \<longleftrightarrow> c = CHR ''.'' \<or> is_digit c"

text \<open>The optional fraction after the integer part; the last component says whether it has digits.\<close>

definition optional_fraction :: "string \<Rightarrow> nat \<times> nat \<times> string \<times> bool" where
  "optional_fraction s =
     (if s \<noteq> [] \<and> hd s = CHR ''.''
      then (case leading_fraction False 0 1 (tl s) of
              (f, scale, r) \<Rightarrow> (f, scale, r, length r \<noteq> length (tl s)))
      else (0, 1, s, False))"

text \<open>One number and unit: the amount and what follows.\<close>

definition duration_term :: "string \<Rightarrow> (nat \<times> string) option" where
  "duration_term s =
     (if s = [] \<or> \<not> number_char (hd s) then None
      else (case leading_int 0 s of
        None \<Rightarrow> None
      | Some (v, s1) \<Rightarrow>
          let pre = length s1 \<noteq> length s;
              (f, scale, s2, post) = optional_fraction s1;
              u = takeWhile (\<lambda>c. \<not> number_char c) s2;
              s3 = dropWhile (\<lambda>c. \<not> number_char c) s2
          in if \<not> pre \<and> \<not> post then None
             else if u = [] then None
             else (case unit_ns u of
               None \<Rightarrow> None
             | Some unit \<Rightarrow>
                 if v > int64_half div unit then None
                 else let w = v * unit + f * unit div scale in
                   if w > int64_half then None else Some (w, s3))))"

lemma leading_int_length: "leading_int v s = Some (w, r) \<Longrightarrow> length r \<le> length s"
  by (induction v s rule: leading_int.induct) (auto simp: Let_def split: if_splits)

lemma leading_fraction_length:
  "leading_fraction b v k s = (w, k', r) \<Longrightarrow> length r \<le> length s"
  by (induction b v k s rule: leading_fraction.induct) (auto simp: Let_def split: if_splits)

lemma optional_fraction_length:
  "optional_fraction s = (f, k, r, post) \<Longrightarrow> length r \<le> length s"
proof -
  assume h: "optional_fraction s = (f, k, r, post)"
  obtain f' k' t where t: "leading_fraction False 0 1 (tl s) = (f', k', t)" by (metis prod_cases3)
  show ?thesis using h leading_fraction_length [OF t] by (auto simp: optional_fraction_def t [unfolded One_nat_def] split: if_splits)
qed

lemma duration_term_length: "duration_term s = Some (w, r) \<Longrightarrow> length r < length s"
proof -
  assume h: "duration_term s = Some (w, r)"
  then obtain v s1 where v: "leading_int 0 s = Some (v, s1)"
    by (auto simp: duration_term_def split: if_splits option.splits)
  obtain f k s2 post where s2: "optional_fraction s1 = (f, k, s2, post)" by (metis prod_cases4)
  let ?u = "takeWhile (\<lambda>c. \<not> number_char c) s2"
  have r: "r = dropWhile (\<lambda>c. \<not> number_char c) s2" and u: "?u \<noteq> []"
    using h by (auto simp: duration_term_def v s2 Let_def split: if_splits option.splits)
  have "length ?u + length r = length s2" unfolding r by (metis length_append takeWhile_dropWhile_id)
  with u have "length r < length s2" by (cases ?u) auto
  also have "\<dots> \<le> length s1" using optional_fraction_length [OF s2] .
  also have "\<dots> \<le> length s" using leading_int_length [OF v] .
  finally show ?thesis .
qed

function duration_terms :: "nat \<Rightarrow> string \<Rightarrow> nat option" where
  "duration_terms d s =
     (if s = [] then Some d
      else (case duration_term s of
        None \<Rightarrow> None
      | Some (v, r) \<Rightarrow> if d + v > int64_half then None else duration_terms (d + v) r))"
  by pat_completeness auto
termination
  by (relation "measure (\<lambda>(d, s). length s)") (auto dest: duration_term_length)

declare duration_terms.simps [simp del]

definition parse_duration :: "string \<Rightarrow> int option" where
  "parse_duration s0 =
     (let neg = (s0 \<noteq> [] \<and> hd s0 = CHR ''-'');
          s = (if s0 \<noteq> [] \<and> (hd s0 = CHR ''-'' \<or> hd s0 = CHR ''+'') then tl s0 else s0)
      in if s = ''0'' then Some 0
         else if s = [] then None
         else (case duration_terms 0 s of
           None \<Rightarrow> None
         | Some d \<Rightarrow> if neg then Some (- int d)
                     else if d > int64_half - 1 then None else Some (int d)))"

lemma parse_duration_bound: "parse_duration s = Some d \<Longrightarrow> d < 2 ^ 63"
  by (auto simp: parse_duration_def Let_def int64_half_def split: if_splits option.splits)

end
