(* ===== verification/Validation.thy ===== *)
theory Validation
  imports Config Lint_Selection Go_Duration
begin

text \<open>
  The validators of \<open>internal/verify/validation.go\<close>, with \<open>validateImportRules\<close> (gocheck.go),
  \<open>validateSharedGoCheck\<close> (gochecks.go), the path predicates of source.go and the stage resolution
  the planner calls. Each returns its first error, \<open>None\<close> when the value is accepted; an error is
  a constructor with what its message names.
\<close>

datatype check_error =
    MutationOnlyForGoMutation | LintOnlyForGoLint | ImportsOnlyForGoImports | ApidiffOnlyForGoApidiff
  | InvalidApidiffBase string | NeedsImports
  | UnsupportedExecutor string | NotNativeKind string
  | UnknownDaggerCheck string | OptionsNotForDagger | EnvironmentNotForDagger
  | BadMutationScope string | InvalidMutationBase string | MutationBaseNoEffect
  | BadAcceptedFile string | BadMutationTags string | InvalidTimeout string
  | LintOptionsEmpty | BadCommunityPattern string | BadLintPattern string
  | OptionsNotForShared
  | SemanticOnlyForSemanticLint | CommandNeedsArgs | CacheNeedsIdentity | EmptyRerunArgs
  | BadArtifact string
  | CommandNotForSemantic | SemanticHostEnv string | SemanticHostSecret string
  | SemanticKeyPassed string | SemanticGitPassed string | BadSemanticModel string
  | InvalidSemanticBase string | NegativeSemanticLimit
  | InvalidEnvName string | ToolIncomplete | InvalidEnvEntry string
  | ImportsNeedRules | RuleNeedsPackages nat | BadPackagePattern nat string | RuleNeedsLists nat
  | BadImportPattern nat string | BadImportTests nat string | RuleNeedsReason nat
  | RerunArgsMissing
  | UnknownStage string string | StageIncomplete string | InvalidStagePath string string

section \<open>Scalars\<close>

definition validate_duration :: "string \<Rightarrow> check_error option" where
  "validate_duration value =
     (if value = '''' then None
      else (case parse_duration value of
        None \<Rightarrow> Some (InvalidTimeout value)
      | Some d \<Rightarrow> fail_when (d \<le> 0) (InvalidTimeout value)))"

definition git_ref :: "string \<Rightarrow> bool" where
  "git_ref ref \<longleftrightarrow> \<not> has_prefix ref ''-'' \<and>
     \<not> contains_any ref [CHR '' '', CHR 0x09, CHR 0x0A, CHR 0x00]"

definition env_name :: "string \<Rightarrow> bool" where
  "env_name name \<longleftrightarrow> name \<noteq> '''' \<and> \<not> contains_any name [CHR ''='', CHR 0x00] \<and>
     \<not> has_prefix name ''LEVENSHTEIN_''"

definition validate_env :: "string gomap \<Rightarrow> check_error option" where
  "validate_env values =
     first_error (\<lambda>(name, v). fail_when (\<not> env_name name \<or> CHR 0x00 \<in> set v) (InvalidEnvEntry name))
       values"

definition validate_environment :: "environment \<Rightarrow> check_error option" where
  "validate_environment env = first_of
     [validate_env (en_env env),
      first_error (\<lambda>name. fail_when (\<not> env_name name) (InvalidEnvName name)) (en_pass_env env),
      first_error (\<lambda>tool. fail_when (tl_command tool = [] \<or> hd (tl_command tool) = '''' \<or>
          tl_version tool = '''') ToolIncomplete) (en_tools env)]"

section \<open>Paths of source.go\<close>

definition private_source_path :: "string \<Rightarrow> bool" where
  "private_source_path path =
     list_ex (\<lambda>part. part = ''.git'' \<or> part = ''.env'' \<or>
        (has_prefix part ''.env.'' \<and> part \<noteq> ''.env.example'')) (parts path)"

definition literal_path :: "string \<Rightarrow> bool" where
  "literal_path path \<longleftrightarrow> relative path \<and>
     \<not> contains_any path (''*?[]{}!'' @ [CHR 0x0A, CHR 0x0D])"

definition subtree_patterns :: "string \<Rightarrow> string list" where
  "subtree_patterns pattern = [pattern, pattern @ ''/**'']"

datatype include_error = NoInputs | NotLiteral string

definition dagger_includes :: "string list \<Rightarrow> include_error + string list" where
  "dagger_includes inputs =
     (if inputs = [] then Inl NoInputs
      else (case map_results (\<lambda>input.
          if \<not> literal_path input then Inl (NotLiteral input)
          else if input = dot then Inr [''**'']
          else Inr (subtree_patterns input)) inputs
        of Inl e \<Rightarrow> Inl e | Inr groups \<Rightarrow> Inr (concat groups)))"

definition dagger_excludes :: "string list \<Rightarrow> string list" where
  "dagger_excludes excludes =
     [''**/.env'', ''**/.env.*'', ''!**/.env.example'', ''**/.git''] @
     concat (map subtree_patterns excludes)"

section \<open>Kinds on Dagger\<close>

definition validate_go_mutation :: "check \<Rightarrow> check_error option" where
  "validate_go_mutation c =
     (case ck_mutation c of
        None \<Rightarrow> None
      | Some m \<Rightarrow> first_of
          [fail_when (mc_scope m \<noteq> '''' \<and> mc_scope m \<noteq> MutationScopeChanged \<and>
              mc_scope m \<noteq> MutationScopeModule) (BadMutationScope (mc_scope m)),
           fail_when (mc_base m \<noteq> '''' \<and> \<not> git_ref (mc_base m)) (InvalidMutationBase (mc_base m)),
           fail_when (mc_base m \<noteq> '''' \<and> mc_scope m = MutationScopeModule) MutationBaseNoEffect,
           fail_when (mc_accepted m \<noteq> '''' \<and>
              (\<not> relative (mc_accepted m) \<or> private_source_path (mc_accepted m)))
             (BadAcceptedFile (mc_accepted m)),
           fail_when (contains_any (mc_tags m) [CHR '' '', CHR 0x09, CHR 0x0A, CHR 0x00])
             (BadMutationTags (mc_tags m)),
           validate_duration (mc_timeout m)])"

definition validate_dagger_check :: "check \<Rightarrow> environment \<Rightarrow> check_error option" where
  "validate_dagger_check c env = first_of
     [fail_when (dagger_function (ck_kind c) = '''') (UnknownDaggerCheck (ck_kind c)),
      fail_when (ck_command c \<noteq> None \<or> ck_semantic c \<noteq> None) OptionsNotForDagger,
      fail_when (en_identity env \<noteq> '''' \<or> en_env env \<noteq> [] \<or> en_pass_env env \<noteq> [] \<or>
          en_tools env \<noteq> []) EnvironmentNotForDagger,
      if ck_kind c = CheckGoMutation then validate_go_mutation c else None]"

definition validate_lint_checks :: "lint_check \<Rightarrow> check_error option" where
  "validate_lint_checks options = first_of
     [fail_when (lc_checks options = [] \<and> lc_rule_modules options = None) LintOptionsEmpty,
      first_error (\<lambda>c.
        if is_community_pattern c
        then fail_when (\<not> rx_match community_pattern c) (BadCommunityPattern c)
        else fail_when (\<not> rx_match lint_pattern c) (BadLintPattern c)) (lc_checks options)]"

section \<open>Kinds on the host\<close>

definition validate_shared_go_check :: "check \<Rightarrow> environment \<Rightarrow> check_error option" where
  "validate_shared_go_check c env =
     fail_when (ck_command c \<noteq> None \<or> ck_semantic c \<noteq> None) OptionsNotForShared"

definition validate_command_check :: "check \<Rightarrow> environment \<Rightarrow> check_error option" where
  "validate_command_check c env =
     (if ck_semantic c \<noteq> None then Some SemanticOnlyForSemanticLint
      else (case ck_command c of
        None \<Rightarrow> Some CommandNeedsArgs
      | Some m \<Rightarrow> first_of
          [fail_when (cc_args m = [] \<or> hd (cc_args m) = '''') CommandNeedsArgs,
           fail_when (cc_cache m \<and> (en_identity env = '''' \<or> cc_rerun_args m = [])) CacheNeedsIdentity,
           fail_when (cc_rerun_args m \<noteq> [] \<and> hd (cc_rerun_args m) = '''') EmptyRerunArgs,
           validate_duration (cc_timeout m),
           validate_env (cc_env m),
           first_error (\<lambda>path. fail_when (\<not> relative path \<or> path = dot) (BadArtifact path))
             (cc_artifacts m)]))"

definition semantic_api_key_env :: string where
  "semantic_api_key_env = ''TYPESAFE_API_KEY''"

definition semantic_base_url_env :: string where
  "semantic_base_url_env = ''TYPESAFE_BASE_URL''"

definition host_git_name :: "string \<Rightarrow> bool" where
  "host_git_name name \<longleftrightarrow> name = ''PATH'' \<or> has_prefix name ''GIT_''"

definition validate_semantic_credentials :: "environment \<Rightarrow> check_error option" where
  "validate_semantic_credentials env = first_of
     [first_error (\<lambda>(name, _). fail_when (host_git_name name) (SemanticHostEnv name)) (en_env env),
      first_error (\<lambda>name. fail_when (has_key (en_env env) name) (SemanticHostSecret name))
        [semantic_api_key_env, semantic_base_url_env],
      first_error (\<lambda>name.
        if name = semantic_api_key_env then Some (SemanticKeyPassed name)
        else fail_when (host_git_name name) (SemanticGitPassed name)) (en_pass_env env)]"

text \<open>\<open>^jev-[0-9]+\.[0-9]+\.[0-9]+$\<close>: aliases such as jev-latest are rejected.\<close>

definition semantic_model :: rx where
  "semantic_model = RSeq (rx_lit ''jev-'') (RSeq (rx_plus (RClass digits)) (RSeq (rx_char CHR ''.'')
     (RSeq (rx_plus (RClass digits)) (RSeq (rx_char CHR ''.'') (rx_plus (RClass digits))))))"

definition validate_semantic_lint :: "check \<Rightarrow> environment \<Rightarrow> check_error option" where
  "validate_semantic_lint c env = first_of
     [fail_when (ck_command c \<noteq> None) CommandNotForSemantic,
      validate_semantic_credentials env,
      (case ck_semantic c of
         None \<Rightarrow> None
       | Some s \<Rightarrow> first_of
           [validate_duration (sc_timeout s),
            fail_when (sc_model s \<noteq> '''' \<and> \<not> rx_match semantic_model (sc_model s))
              (BadSemanticModel (sc_model s)),
            fail_when (sc_base s \<noteq> '''' \<and> \<not> git_ref (sc_base s)) (InvalidSemanticBase (sc_base s)),
            fail_when (sc_max_requests s < 0 \<or> sc_max_input_chars s < 0) NegativeSemanticLimit])]"

text \<open>\<open>nativeKind.validate\<close> and \<open>nativeKind.rerunReady\<close>, by the kind's native side.\<close>

fun native_validate :: "native_kind \<Rightarrow> check \<Rightarrow> environment \<Rightarrow> check_error option" where
  "native_validate (SharedNative _ _) c env = validate_shared_go_check c env"
| "native_validate CommandNative c env = validate_command_check c env"
| "native_validate SemanticNative c env = validate_semantic_lint c env"
| "native_validate ApidiffNative c env = validate_shared_go_check c env"

definition command_rerun_ready :: "check \<Rightarrow> check_error option" where
  "command_rerun_ready c =
     (case ck_command c of
        None \<Rightarrow> Some RerunArgsMissing
      | Some m \<Rightarrow> fail_when (cc_rerun_args m = []) RerunArgsMissing)"

fun native_rerun_ready :: "native_kind \<Rightarrow> check \<Rightarrow> check_error option" where
  "native_rerun_ready CommandNative c = command_rerun_ready c"
| "native_rerun_ready _ c = None"

section \<open>Import rules\<close>

text \<open>
  \<open>importPathPattern\<close>: a slash-separated path with no empty, \<open>.\<close> or \<open>..\<close> element and nothing an
  import path cannot hold.
\<close>

definition import_path_pattern :: "string \<Rightarrow> bool" where
  "import_path_pattern entry \<longleftrightarrow> entry \<noteq> '''' \<and>
     \<not> contains_any entry [CHR '' '', CHR 0x09, CHR 0x0D, CHR 0x0A, CHR 0x22, CHR 0x27, CHR 0x60,
         CHR 0x5C, CHR '';'', CHR '':'', CHR '','', CHR 0x00] \<and>
     list_all (\<lambda>element. element \<noteq> '''' \<and> element \<noteq> dot \<and> element \<noteq> dotdot) (parts entry)"

definition local_import_pattern :: "string \<Rightarrow> bool" where
  "local_import_pattern entry =
     (let (rest, ok) = cut_prefix entry ''./'' in entry = dot \<or> (ok \<and> import_path_pattern rest))"

definition validate_import_rule :: "nat \<Rightarrow> import_rule \<Rightarrow> check_error option" where
  "validate_import_rule number rule = first_of
     [fail_when (ir_packages rule = []) (RuleNeedsPackages number),
      first_error (\<lambda>entry. fail_when (\<not> local_import_pattern entry) (BadPackagePattern number entry))
        (ir_packages rule),
      fail_when (ir_deny rule = [] \<and> ir_allow rule = []) (RuleNeedsLists number),
      first_error (\<lambda>entry. fail_when (entry \<noteq> ''std'' \<and> \<not> local_import_pattern entry \<and>
          \<not> import_path_pattern entry) (BadImportPattern number entry))
        (ir_deny rule @ ir_allow rule),
      fail_when (ir_tests rule \<noteq> '''' \<and> ir_tests rule \<noteq> ImportTestsInclude \<and>
          ir_tests rule \<noteq> ImportTestsExclude) (BadImportTests number (ir_tests rule)),
      fail_when (trim_space (ir_reason rule) = '''') (RuleNeedsReason number)]"

definition validate_import_rules :: "imports_check \<Rightarrow> check_error option" where
  "validate_import_rules c = first_of
     [fail_when (ic_rules c = []) ImportsNeedRules,
      first_error (\<lambda>(i, rule). validate_import_rule (i + 1) rule)
        (List.enumerate 0 (ic_rules c))]"

section \<open>A whole check\<close>

definition validate_check :: "check \<Rightarrow> environment \<Rightarrow> check_error option" where
  "validate_check c env = first_of
     [fail_when (ck_mutation c \<noteq> None \<and> ck_kind c \<noteq> CheckGoMutation) MutationOnlyForGoMutation,
      (case ck_lint c of
         None \<Rightarrow> None
       | Some l \<Rightarrow> first_of
           [fail_when (ck_kind c \<noteq> CheckGoLint) LintOnlyForGoLint, validate_lint_checks l]),
      fail_when (ck_imports c \<noteq> None \<and> ck_kind c \<noteq> CheckGoImports) ImportsOnlyForGoImports,
      (case ck_apidiff c of
         None \<Rightarrow> None
       | Some a \<Rightarrow> first_of
           [fail_when (ck_kind c \<noteq> CheckGoApidiff) ApidiffOnlyForGoApidiff,
            fail_when (ac_base a \<noteq> '''' \<and> \<not> git_ref (ac_base a)) (InvalidApidiffBase (ac_base a))]),
      (if ck_kind c = CheckGoImports
       then (case ck_imports c of None \<Rightarrow> Some NeedsImports | Some r \<Rightarrow> validate_import_rules r)
       else None),
      (if en_executor env = ExecutorDagger then validate_dagger_check c env
       else if en_executor env \<noteq> ExecutorNative then Some (UnsupportedExecutor (en_executor env))
       else (case native_kind_of (ck_kind c) of
          None \<Rightarrow> Some (NotNativeKind (ck_kind c))
        | Some kind \<Rightarrow> first_of [validate_environment env, native_validate kind c env]))]"

text \<open>\<open>resolveStage\<close>: a preparation or build is optional, but a named stage must be complete.\<close>

definition resolve_stage ::
  "preparation gomap \<Rightarrow> string \<Rightarrow> string \<Rightarrow> check_error + preparation option" where
  "resolve_stage stages kind name =
     (if name = '''' then Inr None
      else (case map_of stages name of
        None \<Rightarrow> Inl (UnknownStage kind name)
      | Some stage \<Rightarrow> guard_result (first_of
          [fail_when (pr_command stage = [] \<or> pr_inputs stage = [] \<or> pr_outputs stage = [])
             (StageIncomplete kind),
           validate_duration (pr_timeout stage),
           validate_env (pr_env stage),
           first_error (\<lambda>path. fail_when (\<not> relative path) (InvalidStagePath kind path))
             (pr_inputs stage @ pr_outputs stage)])
          (Inr (Some stage))))"

end
