(* ===== verification/Rule_Modules.thy ===== *)
theory Rule_Modules
  imports Validation
begin

text \<open>
  Community rule modules in the CLI: \<open>internal/verify/rulemodules.go\<close>. The module path and version
  checks are those of \<open>golang.org/x/mod\<close>, which is not part of the repository: they are a parameter
  \<open>mod_lib\<close> of the definitions that call them.
\<close>

record mod_lib =
  ml_check_path :: "string \<Rightarrow> bool"
  ml_check :: "string \<Rightarrow> string \<Rightarrow> bool"
  ml_canonical :: "string \<Rightarrow> string"

record planned_rule_module =
  pm_path :: string
  pm_version :: string
  pm_namespace :: string
  pm_select :: "string list"
  pm_advisory :: "string list"
  pm_settings :: "string gomap gomap"

definition reserved_namespaces :: "string list" where
  "reserved_namespaces = [''lvrules'', ''example'', ''levenshtein'', ''lv'']"

definition example_module :: string where
  "example_module = ''github.com/wangjohn/levenshtein/examples/rule-module''"

datatype module_error =
    BadModulePath string | BadModuleVersion string | BadNamespace string | ReservedNamespace string
  | SelectEmpty | PatternOutsideNamespace string string | BadSettingsKey string
  | SettingsKeysCollide string string | BadSettingsFlag string string

text \<open>
  The settings loop: keys in sorted order, each one rule's code of this namespace, no two the same
  up to case, and every flag name and value free of the separators. \<open>seen\<close> holds the lowercased
  keys already met with their spelling.
\<close>

definition bad_flag :: "string \<times> string \<Rightarrow> bool" where
  "bad_flag nv = (fst nv = '''' \<or> contains_any (fst nv) [CHR ''='', CHR 0x00] \<or> CHR 0x00 \<in> set (snd nv))"

fun validate_settings ::
  "string \<Rightarrow> string gomap gomap \<Rightarrow> string gomap \<Rightarrow> string list \<Rightarrow> module_error option" where
  "validate_settings ns settings seen [] = None"
| "validate_settings ns settings seen (code # codes) =
     (if \<not> rx_match community_code code \<or> pattern_namespace code \<noteq> ns then Some (BadSettingsKey code)
      else (case map_of seen (to_lower code) of
        Some other \<Rightarrow> Some (SettingsKeysCollide other code)
      | None \<Rightarrow>
          let vs = the (map_of settings code) in
          (case first_error (\<lambda>name. fail_when (bad_flag (name, the (map_of vs name)))
                  (BadSettingsFlag code name)) (sorted_keys vs) of
             Some e \<Rightarrow> Some e
           | None \<Rightarrow> validate_settings ns settings ((to_lower code, code) # seen) codes)))"

definition validate_rule_module :: "mod_lib \<Rightarrow> string \<Rightarrow> rule_module \<Rightarrow> module_error option" where
  "validate_rule_module ml path entry = first_of
     [fail_when (\<not> ml_check_path ml path) (BadModulePath path),
      fail_when (\<not> ml_check ml path (rm_version entry) \<or>
          ml_canonical ml (rm_version entry) \<noteq> rm_version entry) (BadModuleVersion (rm_version entry)),
      fail_when (\<not> rx_match namespace_pattern (rm_namespace entry)) (BadNamespace (rm_namespace entry)),
      fail_when (rm_namespace entry \<in> set reserved_namespaces \<and>
          (rm_namespace entry \<noteq> ''example'' \<or> path \<noteq> example_module))
        (ReservedNamespace (rm_namespace entry)),
      fail_when (rm_select entry = []) SelectEmpty,
      first_error (\<lambda>(field, patterns).
        first_error (\<lambda>p. fail_when (\<not> rx_match community_pattern p \<or>
            pattern_namespace p \<noteq> rm_namespace entry) (PatternOutsideNamespace field p)) patterns)
        [(''select'', rm_select entry), (''advisory'', rm_advisory entry)],
      validate_settings (rm_namespace entry) (rm_settings entry) [] (sorted_keys (rm_settings entry))]"

datatype modules_error =
    InModule string module_error
  | NamespaceTaken string string string
  | CommunityButOptedOut string "string list"
  | UndeclaredNamespace string string string
  | AdvisoryNotSelected string string

text \<open>
  The first loop of \<open>validateRuleModules\<close>: modules in path order, one per namespace. It returns the
  namespaces with their module's path.
\<close>

fun collect_namespaces ::
  "mod_lib \<Rightarrow> rule_module gomap \<Rightarrow> string gomap \<Rightarrow> string list \<Rightarrow> modules_error + string gomap" where
  "collect_namespaces ml ms namespaces [] = Inr namespaces"
| "collect_namespaces ml ms namespaces (path # paths) =
     (let entry = the (map_of ms path) in
      (case validate_rule_module ml path entry of
         Some e \<Rightarrow> Inl (InModule path e)
       | None \<Rightarrow>
          (case map_of namespaces (rm_namespace entry) of
             Some other \<Rightarrow> Inl (NamespaceTaken other path (rm_namespace entry))
           | None \<Rightarrow> collect_namespaces ml ms ((rm_namespace entry, path) # namespaces) paths)))"

definition community_checks :: "check \<Rightarrow> string list" where
  "community_checks c = filter is_community_pattern (lint_checks c)"

definition community_selection :: "config \<Rightarrow> check \<Rightarrow> string list" where
  "community_selection cfg c =
     concat (map (\<lambda>path. rm_select (the (map_of (cf_rule_modules cfg) path)))
                 (sorted_keys (cf_rule_modules cfg))) @ community_checks c"

definition validate_check_modules :: "config \<Rightarrow> string gomap \<Rightarrow> string \<Rightarrow> modules_error option" where
  "validate_check_modules cfg namespaces cid =
     (let c = the (map_of (cf_checks cfg) cid); community = community_checks c in first_of
       [fail_when (community \<noteq> [] \<and> \<not> uses_rule_modules c) (CommunityButOptedOut cid community),
        first_error (\<lambda>p. fail_when (\<not> has_key namespaces (pattern_namespace p))
          (UndeclaredNamespace cid p (pattern_namespace p))) community])"

text \<open>\<open>validateAdvisory\<close>: a literal advisory rule some go-lint check must select.\<close>

definition advisory_selections :: "config \<Rightarrow> string list list" where
  "advisory_selections cfg =
     map (community_selection cfg)
       (filter uses_rule_modules (map (\<lambda>cid. the (map_of (cf_checks cfg) cid))
          (sorted_keys (cf_checks cfg))))"

definition validate_advisory :: "config \<Rightarrow> modules_error option" where
  "validate_advisory cfg =
     first_error (\<lambda>path.
       first_error (\<lambda>p.
         if has_prefix p ''-'' \<or> has_suffix p ''*'' then None
         else fail_when (\<not> list_ex (\<lambda>ps. community_allowed ps p) (advisory_selections cfg))
           (AdvisoryNotSelected path p))
         (rm_advisory (the (map_of (cf_rule_modules cfg) path))))
       (sorted_keys (cf_rule_modules cfg))"

definition validate_rule_modules :: "mod_lib \<Rightarrow> config \<Rightarrow> modules_error option" where
  "validate_rule_modules ml cfg =
     (case collect_namespaces ml (cf_rule_modules cfg) [] (sorted_keys (cf_rule_modules cfg)) of
        Inl e \<Rightarrow> Some e
      | Inr namespaces \<Rightarrow> first_of
          [first_error (validate_check_modules cfg namespaces) (sorted_keys (cf_checks cfg)),
           validate_advisory cfg])"

definition planned_rule_modules :: "config \<Rightarrow> check \<Rightarrow> planned_rule_module list" where
  "planned_rule_modules cfg c =
     (if \<not> uses_rule_modules c then []
      else map (\<lambda>path. let e = the (map_of (cf_rule_modules cfg) path) in
             \<lparr>pm_path = path, pm_version = rm_version e, pm_namespace = rm_namespace e,
              pm_select = rm_select e, pm_advisory = rm_advisory e, pm_settings = rm_settings e\<rparr>)
           (sorted_keys (cf_rule_modules cfg)))"

section \<open>Notices shipped with a release\<close>

datatype rule_module_status = RuleModuleDeprecated | RuleModuleWithdrawn | OtherModuleStatus string

record rule_module_notice =
  nt_path :: string
  nt_version :: string
  nt_status :: rule_module_status
  nt_reason :: string
  nt_replacement :: string

datatype notice_error = UnknownNoticeStatus string string | WithdrawnModule string string

text \<open>\<open>ruleModuleNotices\<close> after decoding the shipped file (\<open>None\<close> when there is no file).\<close>

definition rule_module_notices ::
  "rule_module_notice list option \<Rightarrow> notice_error + rule_module_notice list" where
  "rule_module_notices shipped =
     (case shipped of
        None \<Rightarrow> Inr []
      | Some ns \<Rightarrow> guard_result
          (first_error (\<lambda>n. fail_when (nt_status n \<noteq> RuleModuleDeprecated \<and>
              nt_status n \<noteq> RuleModuleWithdrawn) (UnknownNoticeStatus (nt_path n) (nt_version n))) ns)
          (Inr ns))"

section \<open>What validation guarantees\<close>

definition namespaces_of :: "rule_module gomap \<Rightarrow> string list \<Rightarrow> string list" where
  "namespaces_of ms paths = map (\<lambda>p. rm_namespace (the (map_of ms p))) paths"

lemma collect_namespaces_Inr:
  "collect_namespaces ml ms ns paths = Inr ns' \<Longrightarrow>
     (\<forall>p \<in> set paths. validate_rule_module ml p (the (map_of ms p)) = None) \<and>
     distinct (namespaces_of ms paths) \<and> set (namespaces_of ms paths) \<inter> fst ` set ns = {} \<and>
     ns' = rev (map (\<lambda>p. (rm_namespace (the (map_of ms p)), p)) paths) @ ns"
  by (induction ml ms ns paths rule: collect_namespaces.induct)
    (auto simp: Let_def namespaces_of_def map_of_eq_None_iff split: option.splits)

lemma pattern_namespace_of:
  "set ns \<subseteq> set letters \<Longrightarrow> ns \<noteq> [] \<Longrightarrow> sign = [] \<or> sign = ''-'' \<Longrightarrow>
   pattern_namespace (sign @ ns @ ''_'' @ rest) = to_lower ns"
proof -
  assume ns: "set ns \<subseteq> set letters" "ns \<noteq> []" and sign: "sign = [] \<or> sign = ''-''"
  then have dash: "\<not> prefix ''-'' (ns @ ''_'' @ rest)"
    using dash_not_letter by (cases ns) auto
  have trim: "trim_prefix (sign @ ns @ ''_'' @ rest) ''-'' = ns @ ''_'' @ rest"
    using sign dash by (auto simp: trim_prefix_def cut_prefix_def)
  have "\<forall>x \<in> set ns. x \<noteq> CHR ''_''" using ns(1) underscore_not_letter by blast
  then have "takeWhile (\<lambda>x. x \<noteq> CHR ''_'') (ns @ ''_'' @ rest) = ns"
    by (simp add: takeWhile_append2)
  then show ?thesis using trim by (simp add: pattern_namespace_def cut_at_def)
qed

end
