(* ===== verification/Filesystem.thy ===== *)
theory Filesystem
  imports Go_Path
begin

text \<open>
  A source tree as Go's \<open>os.Root\<close> sees it, and the path checks of \<open>files.go\<close>, \<open>output.go\<close> and
  \<open>enumerate.go\<close> that inspect it. A tree is a list of entries below its root, each at the list of its
  path elements. \<open>os.Root\<close> follows a relative link that stays inside the tree and refuses an absolute
  one, one that leaves it, and a chain longer than its limit. On a file system that ignores case
  (\<open>fs_fold\<close>) a name opens the entry that differs from it only by case.
\<close>

datatype node =
    FileNode nat string
  | DirNode
  | LinkNode string
  | SpecialNode

record fs =
  fs_nodes :: "(string list \<times> node) list"
  fs_fold :: bool
  fs_max_links :: nat

datatype fs_error = NotExist | NotADirectory | Escapes | TooManyLinks

definition equal_fold :: "string \<Rightarrow> string \<Rightarrow> bool" where
  "equal_fold a b \<longleftrightarrow> to_lower a = to_lower b"

definition node_at :: "fs \<Rightarrow> string list \<Rightarrow> node option" where
  "node_at t p = (if p = [] then Some DirNode else map_of (fs_nodes t) p)"

text \<open>\<open>ReadDir\<close>: the names in a directory, sorted.\<close>

definition entries_of :: "fs \<Rightarrow> string list \<Rightarrow> string list" where
  "entries_of t d = sort (remdups (map (\<lambda>e. last (fst e))
     (filter (\<lambda>e. fst e \<noteq> [] \<and> butlast (fst e) = d) (fs_nodes t))))"

definition find_entry :: "fs \<Rightarrow> string list \<Rightarrow> string \<Rightarrow> string option" where
  "find_entry t d name =
     (if name \<in> set (entries_of t d) then Some name
      else if fs_fold t then find (equal_fold name) (entries_of t d) else None)"

function resolve :: "fs \<Rightarrow> bool \<Rightarrow> nat \<Rightarrow> string list \<Rightarrow> string list \<Rightarrow> fs_error + string list" where
  "resolve t follow links here [] = Inr here"
| "resolve t follow links here (p # ps) =
     (if p = [] \<or> p = dot then resolve t follow links here ps
      else if p = dotdot then
        (if here = [] then Inl Escapes else resolve t follow links (butlast here) ps)
      else (case find_entry t here p of
        None \<Rightarrow> Inl NotExist
      | Some n \<Rightarrow> (case node_at t (here @ [n]) of
          None \<Rightarrow> Inl NotExist
        | Some DirNode \<Rightarrow> resolve t follow links (here @ [n]) ps
        | Some (LinkNode target) \<Rightarrow>
            if ps = [] \<and> \<not> follow then Inr (here @ [n])
            else if is_abs target then Inl Escapes
            else (case links of 0 \<Rightarrow> Inl TooManyLinks
                  | Suc k \<Rightarrow> resolve t follow k here (parts target @ ps))
        | Some _ \<Rightarrow> if ps = [] then Inr (here @ [n]) else Inl NotADirectory)))"
  by pat_completeness auto
termination
  by (relation "measures [\<lambda>(t, follow, links, here, ps). links, \<lambda>(t, follow, links, here, ps). length ps]")
    auto

definition lookup_node :: "fs \<Rightarrow> fs_error + string list \<Rightarrow> fs_error + node" where
  "lookup_node t r = bind_result r (\<lambda>p. case node_at t p of None \<Rightarrow> Inl NotExist | Some n \<Rightarrow> Inr n)"

text \<open>\<open>Root.Lstat\<close> and \<open>Root.Stat\<close>.\<close>

definition lstat :: "fs \<Rightarrow> string \<Rightarrow> fs_error + node" where
  "lstat t p = lookup_node t (resolve t False (fs_max_links t) [] (parts p))"

definition stat :: "fs \<Rightarrow> string \<Rightarrow> fs_error + node" where
  "stat t p = lookup_node t (resolve t True (fs_max_links t) [] (parts p))"

section \<open>Path checks\<close>

datatype path_error = NotRelative string | Unavailable string fs_error

text \<open>
  \<open>contained\<close> of files.go: the path below the root with links resolved. The resolved location is the
  list of its elements.
\<close>

definition contained :: "fs \<Rightarrow> string \<Rightarrow> path_error + string list" where
  "contained t p =
     (if \<not> relative p then Inl (NotRelative p)
      else (case resolve t True (fs_max_links t) [] (parts p) of
        Inl e \<Rightarrow> Inl (Unavailable p e)
      | Inr q \<Rightarrow> (case node_at t q of None \<Rightarrow> Inl (Unavailable p NotExist) | Some _ \<Rightarrow> Inr q)))"

text \<open>
  \<open>checkOutputPath\<close> of output.go: the path and each directory above it, up to the root, must not be
  a link; one that does not exist is skipped.
\<close>

datatype output_error = InvalidOutput string | OutputUnavailable fs_error | OutputThroughLink string

text \<open>
  The loop goes from the path to its directory until it is at the root. For a relative path these are
  its prefixes, longest first (\<open>dir_name_relative\<close>).
\<close>

definition prefixes_of :: "string list \<Rightarrow> string list list" where
  "prefixes_of ps = rev (map (\<lambda>i. take i ps) [1 ..< Suc (length ps)])"

definition check_output_path :: "fs \<Rightarrow> string \<Rightarrow> output_error option" where
  "check_output_path t p =
     (if \<not> relative p \<or> p = dot then Some (InvalidOutput p)
      else first_error (\<lambda>current.
        (case lstat t (unparts current) of
           Inl NotExist \<Rightarrow> None
         | Inl e \<Rightarrow> Some (OutputUnavailable e)
         | Inr (LinkNode _) \<Rightarrow> Some (OutputThroughLink p)
         | Inr _ \<Rightarrow> None)) (prefixes_of (parts p)))"

definition outputs_exist :: "fs \<Rightarrow> string list \<Rightarrow> bool" where
  "outputs_exist t paths =
     list_all (\<lambda>p. check_output_path t p = None \<and> (case contained t p of Inl _ \<Rightarrow> False | Inr _ \<Rightarrow> True))
       paths"

section \<open>Spelling\<close>

text \<open>
  \<open>spelling\<close> of enumerate.go: each element as the directory above it spells it, from the root on, until
  one does not exist or cannot be read. \<open>fs.ReadDir\<close> opens the directory through links.
\<close>

definition read_dir :: "fs \<Rightarrow> string list \<Rightarrow> string list option" where
  "read_dir t d =
     (case resolve t True (fs_max_links t) [] d of
        Inl _ \<Rightarrow> None
      | Inr q \<Rightarrow> (if node_at t q = Some DirNode then Some (entries_of t q) else None))"

definition spelled :: "string list \<Rightarrow> string \<Rightarrow> string option" where
  "spelled names part = (if part \<in> set names then Some part else find (\<lambda>n. equal_fold n part) names)"

fun spell_parts :: "fs \<Rightarrow> string list \<Rightarrow> string list \<Rightarrow> string list" where
  "spell_parts t walked [] = walked"
| "spell_parts t walked (p # ps) =
     (case read_dir t walked of
        None \<Rightarrow> walked @ p # ps
      | Some names \<Rightarrow>
          (case spelled names p of
             None \<Rightarrow> walked @ p # ps
           | Some n \<Rightarrow> spell_parts t (walked @ [n]) ps))"

definition spelling :: "fs \<Rightarrow> string \<Rightarrow> string" where
  "spelling t p = path_join (spell_parts t [] (parts p))"

datatype spelling_error = SpelledDifferently string string

definition resolves :: "fs \<Rightarrow> string \<Rightarrow> bool" where
  "resolves t p \<longleftrightarrow> (case lstat t p of Inl _ \<Rightarrow> False | Inr _ \<Rightarrow> True)"

definition spelled_exactly :: "fs \<Rightarrow> string \<Rightarrow> spelling_error option" where
  "spelled_exactly t p =
     (if \<not> resolves t p then None
      else fail_when (spelling t p \<noteq> p) (SpelledDifferently p (spelling t p)))"

definition spelled_as_on_disk :: "fs \<Rightarrow> string list \<Rightarrow> spelling_error option" where
  "spelled_as_on_disk t paths = first_error (spelled_exactly t) paths"

section \<open>Facts\<close>

lemma node_at_root [simp]: "node_at t [] = Some DirNode"
  by (simp add: node_at_def)

lemma stat_dot: "stat t dot = Inr DirNode" and lstat_dot: "lstat t dot = Inr DirNode"
  by (simp_all add: stat_def lstat_def lookup_node_def)

lemma relative_dot [simp]: "relative dot"
  by (simp add: relative_iff)

lemma contained_dot [simp]: "contained t dot = Inr []"
  by (simp add: contained_def)

lemma dir_name_relative:
  assumes "relative p" "p \<noteq> dot"
  shows "dir_name p = (if butlast (parts p) = [] then dot else unparts (butlast (parts p)))"
proof (cases "slash \<in> set p")
  case False
  then show ?thesis
    by (simp add: dir_name_def last_index_def split_at_no_sep clean_def is_abs_def)
next
  case True
  define tl where "tl = rev (takeWhile (\<lambda>x. x \<noteq> slash) (rev p))"
  define hd where "hd = rev (List.tl (dropWhile (\<lambda>x. x \<noteq> slash) (rev p)))"
  have "rev p = takeWhile (\<lambda>x. x \<noteq> slash) (rev p) @ dropWhile (\<lambda>x. x \<noteq> slash) (rev p)" by simp
  moreover have "dropWhile (\<lambda>x. x \<noteq> slash) (rev p) \<noteq> []" using True by (auto simp: dropWhile_eq_Nil_conv)
  moreover have "List.hd (dropWhile (\<lambda>x. x \<noteq> slash) (rev p)) = slash"
    using calculation(2) hd_dropWhile by blast
  ultimately have "rev p = rev tl @ slash # rev hd"
    unfolding tl_def hd_def by (metis list.collapse rev_rev_ident)
  then have p: "p = hd @ slash # tl" by (metis append.assoc append_Cons append_Nil rev.simps(2) rev_append rev_rev_ident)
  have tl: "slash \<notin> set tl" unfolding tl_def by (auto dest: set_takeWhileD)
  have parts: "parts p = parts hd @ [tl]" by (simp add: p split_at_append split_at_no_sep [OF tl])
  have "\<forall>x \<in> set (rev tl). x \<noteq> slash" using tl by auto
  then have "takeWhile (\<lambda>x. x \<noteq> slash) (rev tl @ slash # rev hd) = rev tl"
    by (subst takeWhile_append2) auto
  then have "last_index slash p = Some (length hd)"
    by (simp add: last_index_def p)
  then have dir: "dir_name p = clean (hd @ [slash])" by (simp add: dir_name_def p)
  have ord: "\<forall>q \<in> set (parts hd). ordinary_part q"
    using relative_parts [OF assms] parts by simp
  then have "hd \<noteq> []" by (cases hd) (auto simp: ordinary_part_def)
  moreover have "List.hd (parts hd) \<noteq> []"
    using ord hd_in_set [of "parts hd"] split_at_not_Nil [of slash hd] by (simp add: ordinary_part_def)
  ultimately have "\<not> is_abs (hd @ [slash])" by (cases hd) (auto simp: is_abs_def)
  moreover have "clean_parts False [] (parts (hd @ [slash])) = parts hd"
  proof -
    have "parts (hd @ [slash]) = parts hd @ [[]]" using split_at_append [of slash hd "[]"] by simp
    moreover have "clean_parts False [] (ps @ [[]]) = ps" if "\<forall>q \<in> set ps. ordinary_part q" for ps
    proof -
      have "clean_parts False acc (ps @ [[]]) = rev acc @ ps" for acc
        using that by (induction ps arbitrary: acc) (auto simp: ordinary_part_def)
      then show ?thesis by simp
    qed
    ultimately show ?thesis using ord by simp
  qed
  ultimately show ?thesis
    using dir parts split_at_not_Nil [of slash hd]
    by (auto simp: clean_def simp del: join_split_at split: list.split)
qed

lemma spelled_dot: "spelled names dot = Some n \<Longrightarrow> n = dot"
proof -
  assume h: "spelled names dot = Some n"
  have low: "to_lower dot = dot" by (simp add: to_lower_def lower_char_def)
  have "n = dot" if "to_lower n = dot"
  proof -
    from that obtain c where n: "n = [c]" and c: "lower_char c = CHR ''.''"
      by (auto simp: to_lower_def)
    have "c = CHR ''.''"
    proof (rule ccontr)
      assume "c \<noteq> CHR ''.''"
      with c have up: "CHR ''A'' \<le> c" "c \<le> CHR ''Z''" and eq: "char_of (of_char c + 32 :: nat) = CHR ''.''"
        by (auto simp: lower_char_def split: if_splits)
      then have "of_char c \<le> (90 :: nat)" by (simp add: less_eq_char_def)
      then have "of_char (char_of (of_char c + 32 :: nat)) = (of_char c + 32 :: nat)" by simp
      with eq have "of_char c + 32 = (46 :: nat)" by simp
      moreover have "(65 :: nat) \<le> of_char c" using up by (simp add: less_eq_char_def)
      ultimately show False by simp
    qed
    with n show ?thesis by simp
  qed
  with h low show ?thesis by (auto simp: spelled_def find_Some_iff equal_fold_def split: if_splits)
qed

lemma spelling_dot [simp]: "spelling t dot = dot"
proof -
  have "spell_parts t [] [dot] = [dot]"
    by (auto split: option.splits dest: spelled_dot)
  then show ?thesis by (simp add: spelling_def path_join_def clean_def is_abs_def)
qed

lemma spelled_exactly_dot [simp]: "spelled_exactly t dot = None"
  by (simp add: spelled_exactly_def)

lemma set_entries_of: "n \<in> set (entries_of t d) \<longleftrightarrow> d @ [n] \<in> fst ` set (fs_nodes t)"
  unfolding entries_of_def by (force simp: image_iff append_butlast_last_id)

text \<open>
  What \<open>os.Root\<close> returns stays below the root: a resolved location is an entry of the tree, spelled
  as the tree spells it.
\<close>

lemma find_entry_Some: "find_entry t d n = Some m \<Longrightarrow> m \<in> set (entries_of t d)"
  by (auto simp: find_entry_def find_Some_iff split: if_splits)

lemma find_entry_exact: "\<not> fs_fold t \<Longrightarrow> find_entry t d n = Some m \<Longrightarrow> m = n"
  by (auto simp: find_entry_def split: if_splits)

end
