(* ===== verification/Planning.thy ===== *)
theory Planning
  imports Rule_Modules Filesystem
begin

text \<open>
  Planning: \<open>internal/verify/plan.go\<close>. \<open>make_plan\<close> is \<open>Config.Plan\<close> after the source path has been
  made absolute and its links resolved; the source tree is the \<open>fs\<close> argument. A plan is the list of
  planned checks with the run's fields; on an error Go also returns the checks planned so far, which
  no caller reads.
\<close>

record planned_check =
  pc_id :: string
  pc_check :: check
  pc_target :: target
  pc_environment :: environment
  pc_preparation :: "preparation option"
  pc_build :: "preparation option"
  pc_rule_modules :: "planned_rule_module list"

record plan =
  pl_version :: nat
  pl_run :: string
  pl_rerun_checks :: bool
  pl_baseline :: string
  pl_checks :: "planned_check list"

datatype target_error = NeedsOneTarget | BadTarget string

datatype plan_error =
    RunMissing string
  | RuleModulesError modules_error
  | BadBaselinePath string
  | DuplicateCheck string
  | CheckTargets string target_error
  | UnknownCheck string
  | DeclaresOneTarget string
  | DeclaresNoTarget string string
  | UnknownTarget string string
  | UnknownEnvironment string string
  | InvalidCheck string check_error
  | RulesNeedDagger string
  | NotRerunReady string check_error
  | NeedsRootTarget string check_kind
  | PathError path_error
  | NotADirectoryPath string
  | NoInputPaths string
  | InvalidInputPath string
  | BadExclude string string
  | UnknownDiscovery string string
  | BadSpelling string spelling_error
  | BadIncludes include_error
  | BadStage check_error

section \<open>References\<close>

definition validate_targets :: "check \<Rightarrow> target_error option" where
  "validate_targets c = first_of
     [fail_when ((ck_target c = '''') = (ck_targets c = [])) NeedsOneTarget,
      (case first_repeat [''''] (ck_targets c) of None \<Rightarrow> None | Some t \<Rightarrow> Some (BadTarget t))]"

text \<open>
  A selection is one check a run asked for: the ID the plan reports and the check bound to a single
  target. A reference \<open><id>/<target>\<close> splits at its last slash, unless that is its first character.
\<close>

type_synonym selection = "string \<times> check"

definition split_reference :: "string \<Rightarrow> string \<times> string" where
  "split_reference reference =
     (case last_index slash reference of
        None \<Rightarrow> (reference, '''')
      | Some i \<Rightarrow> if i > 0 then (take i reference, drop (Suc i) reference) else (reference, ''''))"

definition selections :: "config \<Rightarrow> string \<Rightarrow> plan_error + selection list" where
  "selections cfg reference =
     (case map_of (cf_checks cfg) reference of
        Some c \<Rightarrow>
          (case validate_targets c of
             Some e \<Rightarrow> Inl (CheckTargets reference e)
           | None \<Rightarrow>
              if ck_targets c = [] then Inr [(reference, c)]
              else Inr (map (\<lambda>t. (reference @ ''/'' @ t, check_at c t)) (ck_targets c)))
      | None \<Rightarrow>
          let (cid, t) = split_reference reference in
          (case map_of (cf_checks cfg) cid of
             None \<Rightarrow> Inl (UnknownCheck reference)
           | Some c \<Rightarrow>
              (case validate_targets c of
                 Some e \<Rightarrow> Inl (CheckTargets cid e)
               | None \<Rightarrow>
                  if ck_targets c = [] then Inl (DeclaresOneTarget cid)
                  else if t \<notin> set (ck_targets c) then Inl (DeclaresNoTarget cid t)
                  else Inr [(reference, check_at c t)])))"

section \<open>One check\<close>

definition check_directory :: "fs \<Rightarrow> string \<Rightarrow> plan_error option" where
  "check_directory t path =
     (case contained t path of
        Inl e \<Rightarrow> Some (PathError e)
      | Inr q \<Rightarrow> fail_when (node_at t q \<noteq> Some DirNode) (NotADirectoryPath path))"

definition zero_command :: command_check where
  "zero_command = \<lparr>cc_args = [], cc_rerun_args = [], cc_env = [], cc_timeout = '''',
     cc_preparation = '''', cc_build = '''', cc_artifacts = [], cc_cache = False\<rparr>"

definition named_stages :: "check \<Rightarrow> command_check" where
  "named_stages c = (case ck_command c of None \<Rightarrow> zero_command | Some m \<Rightarrow> m)"

definition with_workspace :: "target \<Rightarrow> target" where
  "with_workspace tg = (if tg_workspace tg = '''' then tg\<lparr>tg_workspace := dot\<rparr> else tg)"

definition with_discovery :: "target \<Rightarrow> target" where
  "with_discovery tg = (if tg_discovery tg = '''' then tg\<lparr>tg_discovery := DiscoveryGit\<rparr> else tg)"

text \<open>
  The checks of \<open>planCheck\<close> between resolving the target and resolving the stages, in order.
  \<open>name\<close> is the target's name.
\<close>

definition check_problems ::
  "config \<Rightarrow> fs \<Rightarrow> bool \<Rightarrow> string \<Rightarrow> check \<Rightarrow> target \<Rightarrow> environment \<Rightarrow> plan_error option" where
  "check_problems cfg t rerun cid c tg env = first_of
     [map_option (InvalidCheck cid) (validate_check c env),
      fail_when (cf_version cfg = 2 \<and> en_executor env = ExecutorNative \<and>
          planned_rule_modules cfg c \<noteq> []) (RulesNeedDagger cid),
      (if rerun \<and> en_executor env = ExecutorNative
       then (case native_kind_of (ck_kind c) of
               None \<Rightarrow> None
             | Some kind \<Rightarrow> map_option (NotRerunReady cid) (native_rerun_ready kind c))
       else None),
      fail_when (root_only (ck_kind c) \<and> tg_dir tg \<noteq> dot) (NeedsRootTarget cid (ck_kind c)),
      first_error (check_directory t) [tg_dir tg, tg_workspace (with_workspace tg)],
      fail_when (tg_inputs tg = []) (NoInputPaths (ck_target c)),
      first_error (\<lambda>p. fail_when (\<not> relative p) (InvalidInputPath p)) (tg_inputs tg),
      first_error (\<lambda>p. fail_when (\<not> literal_path p \<or> p = dot) (BadExclude (ck_target c) p))
        (tg_exclude tg),
      fail_when (tg_discovery (with_discovery tg) \<notin> set discovery_kinds)
        (UnknownDiscovery (ck_target c) (tg_discovery (with_discovery tg))),
      map_option (BadSpelling (ck_target c)) (spelled_as_on_disk t (tg_inputs tg @ tg_exclude tg)),
      (if en_executor env = ExecutorDagger
       then (case dagger_includes (tg_inputs tg) of Inl e \<Rightarrow> Some (BadIncludes e) | Inr _ \<Rightarrow> None)
       else None)]"

definition plan_check :: "config \<Rightarrow> fs \<Rightarrow> bool \<Rightarrow> selection \<Rightarrow> plan_error + planned_check" where
  "plan_check cfg t rerun selected =
     (let (cid, c) = selected in
      (case map_of (cf_targets cfg) (ck_target c) of
         None \<Rightarrow> Inl (UnknownTarget cid (ck_target c))
       | Some tg \<Rightarrow>
      (case map_of (cf_environments cfg) (ck_environment c) of
         None \<Rightarrow> Inl (UnknownEnvironment cid (ck_environment c))
       | Some env \<Rightarrow>
          guard_result (check_problems cfg t rerun cid c tg env)
            (bind_result (wrap_error BadStage
                (resolve_stage (cf_preparations cfg) ''preparation'' (cc_preparation (named_stages c))))
              (\<lambda>preparation.
            bind_result (wrap_error BadStage
                (resolve_stage (cf_builds cfg) ''build'' (cc_build (named_stages c))))
              (\<lambda>build. Inr \<lparr>pc_id = cid, pc_check = c,
                 pc_target = with_discovery (with_workspace tg), pc_environment = env,
                 pc_preparation = preparation, pc_build = build,
                 pc_rule_modules = planned_rule_modules cfg c\<rparr>))))))"

section \<open>A whole run\<close>

fun plan_selected ::
  "config \<Rightarrow> fs \<Rightarrow> bool \<Rightarrow> string list \<Rightarrow> selection list \<Rightarrow> plan_error + string list \<times> planned_check list"
where
  "plan_selected cfg t rerun seen [] = Inr (seen, [])"
| "plan_selected cfg t rerun seen (s # ss) =
     (if fst s \<in> set seen then Inl (DuplicateCheck (fst s))
      else bind_result (plan_check cfg t rerun s) (\<lambda>p.
        bind_result (plan_selected cfg t rerun (fst s # seen) ss) (\<lambda>(seen', ps).
          Inr (seen', p # ps))))"

fun plan_references ::
  "config \<Rightarrow> fs \<Rightarrow> bool \<Rightarrow> string list \<Rightarrow> string list \<Rightarrow> plan_error + planned_check list" where
  "plan_references cfg t rerun seen [] = Inr []"
| "plan_references cfg t rerun seen (r # rs) =
     bind_result (selections cfg r) (\<lambda>ss.
       bind_result (plan_selected cfg t rerun seen ss) (\<lambda>(seen', ps).
         bind_result (plan_references cfg t rerun seen' rs) (\<lambda>qs. Inr (ps @ qs))))"

definition valid_baseline_path :: "string \<Rightarrow> bool" where
  "valid_baseline_path path \<longleftrightarrow> relative path \<and> path \<noteq> dot \<and> \<not> private_source_path path"

definition make_plan :: "mod_lib \<Rightarrow> config \<Rightarrow> fs \<Rightarrow> string \<Rightarrow> plan_error + plan" where
  "make_plan ml cfg t name =
     (case map_of (cf_runs cfg) name of
        None \<Rightarrow> Inl (RunMissing name)
      | Some r \<Rightarrow>
         if rn_checks r = [] then Inl (RunMissing name)
         else guard_result (map_option RuleModulesError (validate_rule_modules ml cfg))
          (if cf_baseline cfg \<noteq> '''' \<and> \<not> valid_baseline_path (cf_baseline cfg)
           then Inl (BadBaselinePath (cf_baseline cfg))
           else bind_result (plan_references cfg t (rn_rerun_checks r) [] (rn_checks r)) (\<lambda>cs.
             Inr \<lparr>pl_version = 1, pl_run = name, pl_rerun_checks = rn_rerun_checks r,
                  pl_baseline = cf_baseline cfg, pl_checks = cs\<rparr>)))"

section \<open>The contract of a planned check\<close>

text \<open>Everything the executors and the cache rely on in a planned check.\<close>

definition well_planned :: "config \<Rightarrow> fs \<Rightarrow> bool \<Rightarrow> planned_check \<Rightarrow> bool" where
  "well_planned cfg t rerun pc \<longleftrightarrow>
     (let c = pc_check pc; tg = pc_target pc; env = pc_environment pc in
      validate_check c env = None \<and>
      map_of (cf_environments cfg) (ck_environment c) = Some env \<and>
      (\<exists>tg0. map_of (cf_targets cfg) (ck_target c) = Some tg0 \<and> tg = with_discovery (with_workspace tg0)) \<and>
      (\<forall>p \<in> {tg_dir tg, tg_workspace tg}. \<exists>q. contained t p = Inr q \<and> node_at t q = Some DirNode) \<and>
      tg_inputs tg \<noteq> [] \<and> (\<forall>p \<in> set (tg_inputs tg). relative p) \<and>
      (\<forall>p \<in> set (tg_exclude tg). literal_path p \<and> p \<noteq> dot) \<and>
      tg_discovery tg \<in> {DiscoveryGit, DiscoveryFilesystem} \<and>
      (\<forall>p \<in> set (tg_inputs tg @ tg_exclude tg). resolves t p \<longrightarrow> spelling t p = p) \<and>
      (root_only (ck_kind c) \<longrightarrow> tg_dir tg = dot) \<and>
      (en_executor env = ExecutorDagger \<longrightarrow> (\<forall>p \<in> set (tg_inputs tg). literal_path p)) \<and>
      pc_rule_modules pc = planned_rule_modules cfg c \<and>
      (cf_version cfg = 2 \<and> en_executor env = ExecutorNative \<longrightarrow> pc_rule_modules pc = []) \<and>
      (rerun \<and> ck_kind c = CheckCommand \<longrightarrow> (\<exists>m. ck_command c = Some m \<and> cc_rerun_args m \<noteq> [])))"

section \<open>Planning keeps its contract\<close>

lemma discovery_kinds_set: "set discovery_kinds = {DiscoveryGit, DiscoveryFilesystem}"
  by (auto simp: discovery_kinds_def)

lemma with_simps [simp]:
  "tg_dir (with_discovery tg) = tg_dir tg" "tg_dir (with_workspace tg) = tg_dir tg"
  "tg_inputs (with_discovery tg) = tg_inputs tg" "tg_inputs (with_workspace tg) = tg_inputs tg"
  "tg_exclude (with_discovery tg) = tg_exclude tg" "tg_exclude (with_workspace tg) = tg_exclude tg"
  "tg_workspace (with_discovery tg) = tg_workspace tg"
  "tg_discovery (with_workspace tg) = tg_discovery tg"
  "tg_discovery (with_discovery (with_workspace tg)) = tg_discovery (with_discovery tg)"
  by (simp_all add: with_discovery_def with_workspace_def)

lemma check_directory_None:
  "check_directory t p = None \<longleftrightarrow> (\<exists>q. contained t p = Inr q \<and> node_at t q = Some DirNode)"
  by (auto simp: check_directory_def split: sum.split)

lemma dagger_includes_Inr:
  "dagger_includes inputs = Inr ps \<Longrightarrow> \<forall>p \<in> set inputs. literal_path p"
proof -
  assume "dagger_includes inputs = Inr ps"
  then obtain groups where "map_results (\<lambda>input.
      if \<not> literal_path input then Inl (NotLiteral input)
      else if input = dot then Inr [''**'']
      else Inr (subtree_patterns input)) inputs = Inr groups"
    by (auto simp: dagger_includes_def split: if_splits sum.splits)
  then show ?thesis
    unfolding map_results_Inr by (induction rule: list_all2_induct) (auto split: if_splits)
qed

lemma command_kind: "native_kind_of CheckCommand = Some CommandNative" "dagger_function CheckCommand = ''''"
  by (simp_all add: native_kind_of_def dagger_function_def spec_of_def kind_specs_def zero_spec_def)

lemma command_needs_native:
  "validate_check c env = None \<Longrightarrow> ck_kind c = CheckCommand \<Longrightarrow> en_executor env = ExecutorNative"
  by (auto simp: validate_check_def validate_dagger_check_def command_kind split: if_splits)

lemma rerun_ready_command:
  "native_rerun_ready CommandNative c = None \<longleftrightarrow> (\<exists>m. ck_command c = Some m \<and> cc_rerun_args m \<noteq> [])"
  by (auto simp: command_rerun_ready_def split: option.splits)

lemma check_problems_None:
  assumes "check_problems cfg t rerun cid c tg env = None"
  shows "validate_check c env = None"
    and "cf_version cfg = 2 \<and> en_executor env = ExecutorNative \<Longrightarrow> planned_rule_modules cfg c = []"
    and "rerun \<Longrightarrow> ck_kind c = CheckCommand \<Longrightarrow> \<exists>m. ck_command c = Some m \<and> cc_rerun_args m \<noteq> []"
    and "root_only (ck_kind c) \<Longrightarrow> tg_dir tg = dot"
    and "\<forall>p \<in> {tg_dir tg, tg_workspace (with_workspace tg)}. check_directory t p = None"
    and "tg_inputs tg \<noteq> []" and "\<forall>p \<in> set (tg_inputs tg). relative p"
    and "\<forall>p \<in> set (tg_exclude tg). literal_path p \<and> p \<noteq> dot"
    and "tg_discovery (with_discovery tg) \<in> {DiscoveryGit, DiscoveryFilesystem}"
    and "spelled_as_on_disk t (tg_inputs tg @ tg_exclude tg) = None"
    and "en_executor env = ExecutorDagger \<Longrightarrow> \<exists>ps. dagger_includes (tg_inputs tg) = Inr ps"
proof -
  note P = assms [unfolded check_problems_def first_of_None list.set ball_simps simp_thms
      fail_when_None first_error_None map_option_is_None]
  from P show v: "validate_check c env = None" by blast
  from P show "cf_version cfg = 2 \<and> en_executor env = ExecutorNative \<Longrightarrow> planned_rule_modules cfg c = []"
    by blast
  show "\<exists>m. ck_command c = Some m \<and> cc_rerun_args m \<noteq> []" if "rerun" "ck_kind c = CheckCommand"
    using P that command_needs_native [OF v] rerun_ready_command [of c] by (simp add: command_kind)
  from P show "root_only (ck_kind c) \<Longrightarrow> tg_dir tg = dot" by blast
  from P show "\<forall>p \<in> {tg_dir tg, tg_workspace (with_workspace tg)}. check_directory t p = None" by simp
  from P show "tg_inputs tg \<noteq> []" "\<forall>p \<in> set (tg_inputs tg). relative p"
    "\<forall>p \<in> set (tg_exclude tg). literal_path p \<and> p \<noteq> dot"
    "spelled_as_on_disk t (tg_inputs tg @ tg_exclude tg) = None" by blast+
  from P show "tg_discovery (with_discovery tg) \<in> {DiscoveryGit, DiscoveryFilesystem}"
    unfolding discovery_kinds_set by blast
  show "\<exists>ps. dagger_includes (tg_inputs tg) = Inr ps" if "en_executor env = ExecutorDagger"
    using P that by (cases "dagger_includes (tg_inputs tg)") auto
qed

lemma plan_check_Inr:
  assumes "plan_check cfg t rerun (cid, c) = Inr pc"
  shows "pc_id pc = cid" "pc_check pc = c" "well_planned cfg t rerun pc"
    and "resolve_stage (cf_preparations cfg) ''preparation'' (cc_preparation (named_stages c)) =
           Inr (pc_preparation pc)"
    and "resolve_stage (cf_builds cfg) ''build'' (cc_build (named_stages c)) = Inr (pc_build pc)"
proof -
  from assms obtain tg env preparation build where
    tg: "map_of (cf_targets cfg) (ck_target c) = Some tg" and
    env: "map_of (cf_environments cfg) (ck_environment c) = Some env" and
    ok: "check_problems cfg t rerun cid c tg env = None" and
    prep: "resolve_stage (cf_preparations cfg) ''preparation'' (cc_preparation (named_stages c)) = Inr preparation"
    and build: "resolve_stage (cf_builds cfg) ''build'' (cc_build (named_stages c)) = Inr build" and
    pc: "pc = \<lparr>pc_id = cid, pc_check = c, pc_target = with_discovery (with_workspace tg),
           pc_environment = env, pc_preparation = preparation, pc_build = build,
           pc_rule_modules = planned_rule_modules cfg c\<rparr>"
    by (auto simp: plan_check_def bind_result_Inr guard_result_Inr split: option.splits)
  note P = check_problems_None [OF ok]
  show "pc_id pc = cid" "pc_check pc = c" by (simp_all add: pc)
  show "resolve_stage (cf_preparations cfg) ''preparation'' (cc_preparation (named_stages c)) =
           Inr (pc_preparation pc)"
    "resolve_stage (cf_builds cfg) ''build'' (cc_build (named_stages c)) = Inr (pc_build pc)"
    using prep build by (simp_all add: pc)
  have spelled: "\<forall>p \<in> set (tg_inputs tg @ tg_exclude tg). resolves t p \<longrightarrow> spelling t p = p"
    using P(10) unfolding spelled_as_on_disk_def first_error_None
    by (auto simp: spelled_exactly_def split: if_splits)
  have literal: "en_executor env = ExecutorDagger \<longrightarrow> (\<forall>p \<in> set (tg_inputs tg). literal_path p)"
    using P(11) dagger_includes_Inr by blast
  have dirs: "\<forall>p \<in> {tg_dir tg, tg_workspace (with_workspace tg)}.
      \<exists>q. contained t p = Inr q \<and> node_at t q = Some DirNode"
    using P(5) by (simp add: check_directory_None)
  show "well_planned cfg t rerun pc"
    unfolding well_planned_def pc Let_def planned_check.simps with_simps
    using P(1-9) tg env spelled literal dirs by blast
qed

lemma plan_selected_Inr:
  "plan_selected cfg t rerun seen ss = Inr (seen', ps) \<Longrightarrow>
     map pc_id ps = map fst ss \<and> distinct (map fst ss) \<and> set (map fst ss) \<inter> set seen = {} \<and>
     seen' = rev (map fst ss) @ seen \<and> map pc_check ps = map snd ss \<and>
     (\<forall>p \<in> set ps. well_planned cfg t rerun p)"
proof (induction cfg t rerun seen ss arbitrary: seen' ps rule: plan_selected.induct)
  case (1 cfg t rerun seen)
  then show ?case by simp
next
  case (2 cfg t rerun seen s ss)
  obtain cid c where s: "s = (cid, c)" by (cases s)
  from "2.prems" s obtain p ps' where new: "cid \<notin> set seen" and p: "plan_check cfg t rerun (cid, c) = Inr p"
    and rest: "plan_selected cfg t rerun (cid # seen) ss = Inr (seen', ps')" and ps: "ps = p # ps'"
    by (auto simp: bind_result_Inr split: if_splits)
  show ?case
    using "2.IH" [of seen' ps'] rest new ps plan_check_Inr [OF p] by (auto simp: s)
qed

lemma map_pairs: "map f xs = map fst ss \<Longrightarrow> map g xs = map snd ss \<Longrightarrow> map (\<lambda>x. (f x, g x)) xs = ss"
proof (induction xs arbitrary: ss)
  case (Cons x xs)
  then show ?case by (cases ss) auto
qed simp

lemma plan_references_Inr:
  "plan_references cfg t rerun seen rs = Inr ps \<Longrightarrow>
     distinct (map pc_id ps) \<and> set (map pc_id ps) \<inter> set seen = {} \<and>
     (\<forall>p \<in> set ps. well_planned cfg t rerun p) \<and>
     (\<exists>sss. list_all2 (\<lambda>r ss. selections cfg r = Inr ss) rs sss \<and>
        map (\<lambda>p. (pc_id p, pc_check p)) ps = concat sss)"
proof (induction cfg t rerun seen rs arbitrary: ps rule: plan_references.induct)
  case (1 cfg t rerun seen)
  then show ?case by simp
next
  case (2 cfg t rerun seen r rs)
  then obtain ss seen' ps1 ps2 where ss: "selections cfg r = Inr ss"
    and sel: "plan_selected cfg t rerun seen ss = Inr (seen', ps1)"
    and rest: "plan_references cfg t rerun seen' rs = Inr ps2" and ps: "ps = ps1 @ ps2"
    by (auto simp: bind_result_Inr)
  note S = plan_selected_Inr [OF sel]
  from "2.IH" [OF rest] obtain sss where IH: "distinct (map pc_id ps2)"
    "set (map pc_id ps2) \<inter> set seen' = {}" "\<forall>p \<in> set ps2. well_planned cfg t rerun p"
    and sss: "list_all2 (\<lambda>r ss. selections cfg r = Inr ss) rs sss"
      "map (\<lambda>p. (pc_id p, pc_check p)) ps2 = concat sss"
    by blast
  have "map (\<lambda>p. (pc_id p, pc_check p)) ps1 = ss"
    using S by (intro map_pairs) auto
  with sss ss have "\<exists>sss. list_all2 (\<lambda>r ss. selections cfg r = Inr ss) (r # rs) sss \<and>
      map (\<lambda>p. (pc_id p, pc_check p)) ps = concat sss"
    by (intro exI [of _ "ss # sss"]) (simp add: ps)
  moreover have "distinct (map pc_id ps) \<and> set (map pc_id ps) \<inter> set seen = {} \<and>
      (\<forall>p \<in> set ps. well_planned cfg t rerun p)"
    using S IH by (auto simp: ps)
  ultimately show ?case by blast
qed

end
