(* ===== verification/Plan_Properties.thy ===== *)
theory Plan_Properties
  imports Planning
begin

text \<open>
  Properties of configuration, validation and planning.
\<close>

section \<open>The configuration of a repository without levenshtein.json\<close>

definition default_planned :: "check_kind \<Rightarrow> planned_check" where
  "default_planned k = \<lparr>pc_id = k, pc_check = plain_check k default_target default_environment,
     pc_target = \<lparr>tg_dir = dot, tg_workspace = dot, tg_inputs = [dot], tg_exclude = [],
       tg_discovery = DiscoveryGit\<rparr>,
     pc_environment = \<lparr>en_executor = ExecutorDagger, en_identity = '''', en_env = [],
       en_pass_env = [], en_tools = []\<rparr>,
     pc_preparation = None, pc_build = None, pc_rule_modules = []\<rparr>"

lemma default_kinds_facts:
  "s \<in> set default_kinds \<Longrightarrow> s \<in> set kind_specs \<and> ks_dagger s \<noteq> '''' \<and>
     ks_kind s \<notin> {CheckGoMutation, CheckGoImports}"
proof -
  have "list_all (\<lambda>s. ks_default_check s \<longrightarrow> ks_dagger s \<noteq> '''' \<and>
      ks_kind s \<notin> {CheckGoMutation, CheckGoImports}) kind_specs"
    by (simp add: kind_specs_def zero_spec_def)
  then show "s \<in> set default_kinds \<Longrightarrow> ?thesis"
    by (auto simp: default_kinds_def list_all_iff)
qed

lemma default_kind_names: "map ks_kind default_kinds =
  [CheckGoLint, CheckGoVet, CheckGoMod, CheckGoTest, CheckGoHTTP, CheckGoSQL, CheckGoVuln,
   CheckWorkflowLint, CheckWorkflowSecurity, CheckShellLint, CheckSecrets, CheckDepsVuln,
   CheckGoGenerate, CheckGoApidiff]"
  by (simp add: default_kinds_def kind_specs_def zero_spec_def)

lemma gate_checks_simps:
  "gate_checks ''branch'' = [CheckGoLint, CheckGoVet, CheckGoMod]"
  "gate_checks ''pre-merge'' = [CheckGoLint, CheckGoVet, CheckGoMod]"
  "gate_checks ''main'' = [CheckGoLint, CheckGoVet, CheckGoMod, CheckGoVuln]"
  by (simp_all add: gate_checks_def default_kinds_def kind_specs_def zero_spec_def default_gates_def)

lemma map_of_plain: "k \<in> f ` set ss \<Longrightarrow> map_of (map (\<lambda>s. (f s, g (f s))) ss) k = Some (g k)"
  by (induction ss) auto

lemma default_selection:
  "s \<in> set default_kinds \<Longrightarrow> selections default_config (ks_kind s) =
     Inr [(ks_kind s, plain_check (ks_kind s) default_target default_environment)]"
  using map_of_plain [of "ks_kind s" ks_kind default_kinds
      "\<lambda>k. plain_check k default_target default_environment"]
  by (simp add: selections_def default_config_def plain_check_def validate_targets_def default_target_def
      first_of.simps fail_when_def)

lemma literal_dot: "literal_path dot"
  by (simp add: literal_path_def contains_any_def)

lemma default_check_plans:
  assumes s: "s \<in> set default_kinds"
  shows "plan_check default_config t rerun
           (ks_kind s, plain_check (ks_kind s) default_target default_environment) =
         Inr (default_planned (ks_kind s))"
proof -
  note F = default_kinds_facts [OF s]
  have fn: "dagger_function (ks_kind s) \<noteq> ''''"
    using F spec_of_entry by (simp add: dagger_function_def)
  have incl: "dagger_includes [dot] = Inr [''**'']"
    by (simp add: dagger_includes_def literal_dot)
  show ?thesis
    using F fn incl
    by (simp add: plan_check_def default_config_def plain_check_def default_planned_def
        check_problems_def first_of.simps first_error.simps fail_when_def validate_check_def
        validate_dagger_check_def check_directory_def with_workspace_def with_discovery_def
        discovery_kinds_def spelled_as_on_disk_def named_stages_def zero_command_def
        resolve_stage_def planned_rule_modules_def sorted_keys_def)
qed

lemma default_modules_valid: "validate_rule_modules ml default_config = None"
proof -
  have "ck_lint c = None" if "map_of (cf_checks default_config) cid = Some c" for cid c
    using map_of_SomeD [OF that] by (auto simp: default_config_def plain_check_def)
  then have "community_checks (the (map_of (cf_checks default_config) cid)) = []"
    if "cid \<in> fst ` set (cf_checks default_config)" for cid
    using that has_key_iff [of "cf_checks default_config" cid]
    by (auto simp: has_key_def community_checks_def lint_checks_def)
  then show ?thesis
    by (simp add: validate_rule_modules_def validate_check_modules_def validate_advisory_def Let_def
        default_config_def [THEN arg_cong [where f = cf_rule_modules], simplified] sorted_keys_def)
qed

lemma default_references:
  "distinct ks \<Longrightarrow> set ks \<inter> set seen = {} \<Longrightarrow> set ks \<subseteq> ks_kind ` set default_kinds \<Longrightarrow>
   plan_references default_config t rerun seen ks = Inr (map default_planned ks)"
proof (induction ks arbitrary: seen)
  case (Cons k ks)
  then obtain s where s: "s \<in> set default_kinds" "k = ks_kind s" by auto
  have rest: "plan_references default_config t rerun (k # seen) ks = Inr (map default_planned ks)"
    using Cons by auto
  have "plan_selected default_config t rerun seen
      [(k, plain_check k default_target default_environment)] = Inr (k # seen, [default_planned k])"
    using Cons.prems(2) default_check_plans [OF s(1)] s(2) by simp
  with rest default_selection [OF s(1)] s(2) show ?case by simp
qed simp

lemma default_plan:
  assumes "map_of (cf_runs default_config) name = Some r"
  shows "make_plan ml default_config t name =
    Inr \<lparr>pl_version = 1, pl_run = name, pl_rerun_checks = rn_rerun_checks r, pl_baseline = '''',
         pl_checks = map default_planned (rn_checks r)\<rparr>"
proof -
  have K: "ks_kind ` set default_kinds = {CheckGoLint, CheckGoVet, CheckGoMod, CheckGoTest,
     CheckGoHTTP, CheckGoSQL, CheckGoVuln, CheckWorkflowLint, CheckWorkflowSecurity, CheckShellLint,
     CheckSecrets, CheckDepsVuln, CheckGoGenerate, CheckGoApidiff}"
    by (simp add: default_kind_names flip: list.set_map)
  from map_of_SomeD [OF assms] consider
      gate where "gate \<in> set default_gates" "rn_checks r = gate_checks gate"
    | s where "s \<in> set default_kinds" "rn_checks r = [ks_kind s]"
    by (auto simp: default_config_def)
  then have "distinct (rn_checks r) \<and> rn_checks r \<noteq> [] \<and> set (rn_checks r) \<subseteq> ks_kind ` set default_kinds"
  proof cases
    case (1 gate)
    then show ?thesis unfolding K by (auto simp: default_gates_def gate_checks_simps)
  qed simp
  moreover have "cf_baseline default_config = ''''" by (simp add: default_config_def)
  ultimately show ?thesis
    using assms by (simp add: make_plan_def default_modules_valid default_references)
qed

text \<open>In a repository without levenshtein.json every run of the default configuration plans, on
  any source tree: exactly the kinds the run names, in its order, each on Dagger over the whole tree
  with git discovery, with the run's own freshness.\<close>

theorem default_configuration_plans:
  assumes "map_of (cf_runs default_config) name = Some r"
  shows "make_plan ml default_config t name =
    Inr \<lparr>pl_version = 1, pl_run = name, pl_rerun_checks = rn_rerun_checks r, pl_baseline = '''',
         pl_checks = map default_planned (rn_checks r)\<rparr>"
  by (rule default_plan [OF assms])

definition no_mod_lib :: mod_lib where
  "no_mod_lib = \<lparr>ml_check_path = (\<lambda>_. False), ml_check = (\<lambda>_ _. False), ml_canonical = (\<lambda>v. v)\<rparr>"

definition empty_tree :: fs where
  "empty_tree = \<lparr>fs_nodes = [], fs_fold = False, fs_max_links = 8\<rparr>"

lemma main_run:
  "map_of (cf_runs default_config) ''main'' =
     Some \<lparr>rn_checks = [CheckGoLint, CheckGoVet, CheckGoMod, CheckGoVuln], rn_rerun_checks = True\<rparr>"
  by (simp add: default_config_def default_gates_def gate_checks_simps)

theorem default_configuration_plans_witness:
  "make_plan no_mod_lib default_config empty_tree ''main'' =
    Inr \<lparr>pl_version = 1, pl_run = ''main'', pl_rerun_checks = True, pl_baseline = '''',
         pl_checks = map default_planned [CheckGoLint, CheckGoVet, CheckGoMod, CheckGoVuln]\<rparr>"
  using default_configuration_plans [OF main_run, of no_mod_lib empty_tree] by simp

section \<open>Plans\<close>

text \<open>C1. A plan names each check once, in the order its run's references select them, and every
  planned check satisfies the contract the executors rely on: it validates in its environment, its
  target exists below the source with clean declared paths spelled as the tree spells them, its
  discovery is explicit, a root-only kind has the repository root, a native check of a version 2
  configuration carries no rule modules, and a fresh command check says how to run fresh.\<close>

theorem plan_contract:
  assumes "make_plan ml cfg t name = Inr p"
  shows "distinct (map pc_id (pl_checks p)) \<and>
    (\<forall>pc \<in> set (pl_checks p). well_planned cfg t (pl_rerun_checks p) pc) \<and>
    (\<exists>r sss. map_of (cf_runs cfg) name = Some r \<and> pl_rerun_checks p = rn_rerun_checks r \<and>
       list_all2 (\<lambda>ref ss. selections cfg ref = Inr ss) (rn_checks r) sss \<and>
       map (\<lambda>pc. (pc_id pc, pc_check pc)) (pl_checks p) = concat sss)"
proof -
  from assms obtain r cs where r: "map_of (cf_runs cfg) name = Some r"
    and cs: "plan_references cfg t (rn_rerun_checks r) [] (rn_checks r) = Inr cs"
    and p: "p = \<lparr>pl_version = 1, pl_run = name, pl_rerun_checks = rn_rerun_checks r,
              pl_baseline = cf_baseline cfg, pl_checks = cs\<rparr>"
    by (auto simp: make_plan_def guard_result_Inr bind_result_Inr split: option.splits if_splits)
  from plan_references_Inr [OF cs] r show ?thesis by (simp add: p)
qed

theorem plan_contract_witness:
  "\<exists>p. make_plan no_mod_lib default_config empty_tree ''main'' = Inr p \<and>
     length (pl_checks p) = 4 \<and> distinct (map pc_id (pl_checks p))"
proof -
  obtain p where p: "make_plan no_mod_lib default_config empty_tree ''main'' = Inr p"
    and n: "length (pl_checks p) = 4"
    using default_plan [OF main_run, of no_mod_lib empty_tree] by simp
  from plan_contract [OF p] p n show ?thesis by blast
qed

text \<open>A multi-target check selected as a whole and one of its targets selected as
  \<open><id>/<target>\<close> agree: unless that reference is itself the name of a check, it selects exactly the
  entry the whole selection has for that target.\<close>

theorem target_reference_agrees:
  assumes c: "map_of (cf_checks cfg) cid = Some c" and "cid \<noteq> ''''"
    and ok: "selections cfg cid = Inr ss" and tg: "tg \<in> set (ck_targets c)" "slash \<notin> set tg"
    and own: "map_of (cf_checks cfg) (cid @ ''/'' @ tg) = None"
  shows "selections cfg (cid @ ''/'' @ tg) = Inr [(cid @ ''/'' @ tg, check_at c tg)] \<and>
    (cid @ ''/'' @ tg, check_at c tg) \<in> set ss"
proof
  from ok c have valid: "validate_targets c = None" by (auto simp: selections_def split: option.splits)
  have "\<forall>x \<in> set (rev tg). x \<noteq> slash" using tg(2) by auto
  then have "takeWhile (\<lambda>x. x \<noteq> slash) (rev tg @ slash # rev cid) = rev tg"
    by (subst takeWhile_append2) auto
  then have "split_reference (cid @ ''/'' @ tg) = (cid, tg)"
    using \<open>cid \<noteq> ''''\<close> by (simp add: split_reference_def last_index_def)
  then show "selections cfg (cid @ ''/'' @ tg) = Inr [(cid @ ''/'' @ tg, check_at c tg)]"
    using own c valid tg by (auto simp: selections_def)
  show "(cid @ ''/'' @ tg, check_at c tg) \<in> set ss"
    using ok c valid tg by (cases "ck_targets c") (auto simp: selections_def)
qed

definition two_targets :: config where
  "two_targets = default_config\<lparr>cf_checks :=
     [(''vet'', (plain_check CheckGoVet '''' default_environment)\<lparr>ck_targets := [''a'', ''b'']\<rparr>)]\<rparr>"

theorem target_reference_agrees_witness:
  "selections two_targets ''vet/b'' =
     Inr [(''vet/b'', plain_check CheckGoVet ''b'' default_environment)]"
proof -
  let ?c = "(plain_check CheckGoVet '''' default_environment)\<lparr>ck_targets := [''a'', ''b'']\<rparr>"
  have "selections two_targets ''vet'' = Inr [(''vet/a'', check_at ?c ''a''), (''vet/b'', check_at ?c ''b'')]"
    by (simp add: selections_def two_targets_def validate_targets_def plain_check_def fail_when_def
        first_of.simps)
  from target_reference_agrees [OF _ _ this, of ?c "''b''"] show ?thesis
    by (simp add: two_targets_def plain_check_def check_at_def)
qed

section \<open>Validation\<close>

lemma validate_check_parts:
  assumes "validate_check c env = None"
  shows "ck_mutation c \<noteq> None \<Longrightarrow> ck_kind c = CheckGoMutation"
    and "ck_lint c \<noteq> None \<Longrightarrow> ck_kind c = CheckGoLint"
    and "ck_imports c \<noteq> None \<longleftrightarrow> ck_kind c = CheckGoImports"
    and "ck_apidiff c \<noteq> None \<Longrightarrow> ck_kind c = CheckGoApidiff"
    and "en_executor env \<in> {ExecutorDagger, ExecutorNative}"
    and "en_executor env = ExecutorDagger \<Longrightarrow> validate_dagger_check c env = None"
    and "en_executor env = ExecutorNative \<Longrightarrow>
           \<exists>k. native_kind_of (ck_kind c) = Some k \<and> validate_environment env = None \<and>
             native_validate k c env = None"
  using assms unfolding validate_check_def first_of_None list.set ball_simps simp_thms fail_when_None
  by (auto split: option.splits if_splits)

lemma native_kind_names_of:
  "native_kind_of k = Some CommandNative \<longleftrightarrow> k = CheckCommand"
  "native_kind_of k = Some SemanticNative \<longleftrightarrow> k = CheckSemanticLint"
  unfolding native_kind_of_def
  by (subst entry_kinds [where P = "\<lambda>s. ks_native s = Some CommandNative"],
      simp_all add: zero_spec_def kind_specs_def shared_native_def)
    (subst entry_kinds [where P = "\<lambda>s. ks_native s = Some SemanticNative"],
      simp_all add: zero_spec_def kind_specs_def shared_native_def)

lemma validated_native_options:
  assumes "native_validate k c env = None"
  shows "ck_command c \<noteq> None \<longleftrightarrow> k = CommandNative" and "ck_semantic c \<noteq> None \<Longrightarrow> k = SemanticNative"
  using assms
  by (cases k; auto simp: validate_shared_go_check_def validate_command_check_def
      validate_semantic_lint_def split: if_splits option.splits)+

lemma validated_host_or_dagger:
  assumes "validate_check c env = None"
  shows "(ck_command c \<noteq> None \<longleftrightarrow> ck_kind c = CheckCommand) \<and>
      (ck_semantic c \<noteq> None \<longrightarrow> ck_kind c = CheckSemanticLint) \<and>
      (en_executor env = ExecutorDagger \<and> dagger_function (ck_kind c) \<noteq> '''' \<or>
       en_executor env = ExecutorNative \<and> native_kind_of (ck_kind c) \<noteq> None)"
proof -
  consider (dagger) "en_executor env = ExecutorDagger" "validate_dagger_check c env = None"
    | (native) k where "en_executor env = ExecutorNative" "native_kind_of (ck_kind c) = Some k"
        "native_validate k c env = None"
    using validate_check_parts(5-7) [OF assms] by auto
  then show ?thesis
  proof cases
    case dagger
    then have "dagger_function (ck_kind c) \<noteq> ''''" "ck_command c = None" "ck_semantic c = None"
      by (auto simp: validate_dagger_check_def)
    with dagger(1) command_kind(2) show ?thesis by auto
  next
    case native
    with validated_native_options [OF native(3)] native_kind_names_of [of "ck_kind c"] show ?thesis
      by auto
  qed
qed

text \<open>A check that validates carries only the options its kind accepts: each of the six option
  objects implies its kind, so no check carries two of them, and the kinds that need one
  (\<open>command\<close>, \<open>go-imports\<close>) have it. Its executor exists and runs the kind.\<close>

theorem validated_options_match_kind:
  assumes "validate_check c env = None"
  shows "(ck_mutation c \<noteq> None \<longrightarrow> ck_kind c = CheckGoMutation) \<and>
    (ck_lint c \<noteq> None \<longrightarrow> ck_kind c = CheckGoLint) \<and>
    (ck_imports c \<noteq> None \<longleftrightarrow> ck_kind c = CheckGoImports) \<and>
    (ck_apidiff c \<noteq> None \<longrightarrow> ck_kind c = CheckGoApidiff) \<and>
    (ck_command c \<noteq> None \<longleftrightarrow> ck_kind c = CheckCommand) \<and>
    (ck_semantic c \<noteq> None \<longrightarrow> ck_kind c = CheckSemanticLint) \<and>
    (en_executor env = ExecutorDagger \<and> dagger_function (ck_kind c) \<noteq> '''' \<or>
     en_executor env = ExecutorNative \<and> native_kind_of (ck_kind c) \<noteq> None)"
  using validate_check_parts(1-4) [OF assms] validated_host_or_dagger [OF assms] by blast

definition host_env :: environment where
  "host_env = \<lparr>en_executor = ExecutorNative, en_identity = ''v1'', en_env = [], en_pass_env = [],
     en_tools = []\<rparr>"

definition make_check :: check where
  "make_check = (plain_check CheckCommand ''root'' ''host'')\<lparr>ck_command := Some \<lparr>cc_args = [''make''],
     cc_rerun_args = [''make'', ''-B''], cc_env = [], cc_timeout = '''', cc_preparation = '''',
     cc_build = '''', cc_artifacts = [''out/report.txt''], cc_cache = True\<rparr>\<rparr>"

lemma make_check_valid: "validate_check make_check host_env = None"
  by (simp add: make_check_def host_env_def plain_check_def validate_check_def command_kind
      validate_environment_def validate_env_def validate_command_check_def validate_duration_def
      relative_iff ordinary_part_def)

theorem validated_options_match_kind_witness:
  "validate_check make_check host_env = None \<and> ck_command make_check \<noteq> None \<and> ck_lint make_check = None"
  using validated_options_match_kind [OF make_check_valid] make_check_valid
  by (simp add: make_check_def plain_check_def)

text \<open>A validated semantic-lint check keeps the API key, the API origin and the choice of git in
  the host's hands: the committed environment declares neither secret, passes the key to no
  subprocess, and sets or passes neither \<open>PATH\<close> nor any \<open>GIT_\<close> variable.\<close>

theorem semantic_credentials_stay_on_host:
  assumes "validate_check c env = None" and "ck_kind c = CheckSemanticLint"
  shows "en_executor env = ExecutorNative \<and>
    semantic_api_key_env \<notin> fst ` set (en_env env) \<union> set (en_pass_env env) \<and>
    semantic_base_url_env \<notin> fst ` set (en_env env) \<and>
    (\<forall>name \<in> fst ` set (en_env env) \<union> set (en_pass_env env).
       name \<noteq> ''PATH'' \<and> \<not> has_prefix name ''GIT_'')"
proof -
  have semantic: "dagger_function CheckSemanticLint = ''''" "native_kind_of CheckSemanticLint = Some SemanticNative"
    by (simp_all add: native_kind_of_def dagger_function_def spec_of_def kind_specs_def zero_spec_def)
  have native: "en_executor env = ExecutorNative"
    using validated_host_or_dagger [OF assms(1)] semantic assms(2) by auto
  with validate_check_parts(7) [OF assms(1)] assms(2) semantic
  have "validate_semantic_credentials env = None" by (auto simp: validate_semantic_lint_def)
  then have C: "\<forall>nv \<in> set (en_env env). \<not> host_git_name (fst nv)"
    "\<not> has_key (en_env env) semantic_api_key_env" "\<not> has_key (en_env env) semantic_base_url_env"
    "\<forall>name \<in> set (en_pass_env env). name \<noteq> semantic_api_key_env \<and> \<not> host_git_name name"
    by (auto simp: validate_semantic_credentials_def split: if_splits)
  then show ?thesis using native by (auto simp: has_key_iff host_git_name_def)
qed

definition semantic_check_example :: check where
  "semantic_check_example = (plain_check CheckSemanticLint ''root'' ''host'')\<lparr>ck_semantic :=
     Some (zero_semantic\<lparr>sc_model := ''jev-1.13.0''\<rparr>)\<rparr>"

definition semantic_env :: environment where
  "semantic_env = host_env\<lparr>en_pass_env := [''TYPESAFE_BASE_URL'', ''HTTPS_PROXY'']\<rparr>"

lemma semantic_model_example: "rx_match semantic_model ''jev-1.13.0''"
  by code_simp

lemma semantic_example_valid: "validate_check semantic_check_example semantic_env = None"
proof -
  have k: "native_kind_of CheckSemanticLint = Some SemanticNative"
    by (simp add: native_kind_of_def spec_of_def kind_specs_def zero_spec_def)
  show ?thesis using semantic_model_example
    by (simp add: semantic_check_example_def semantic_env_def host_env_def plain_check_def k
        validate_check_def validate_environment_def validate_env_def validate_semantic_lint_def
        validate_semantic_credentials_def has_key_def zero_semantic_def validate_duration_def
        env_name_def contains_any_iff host_git_name_def semantic_api_key_env_def)
qed

theorem semantic_credentials_stay_on_host_witness:
  "validate_check semantic_check_example semantic_env = None \<and>
   semantic_api_key_env \<notin> set (en_pass_env semantic_env)"
  using semantic_credentials_stay_on_host [OF semantic_example_valid] semantic_example_valid
  by (simp add: semantic_check_example_def plain_check_def)

section \<open>Rule modules\<close>

lemma lower_fixed: "c \<notin> {CHR ''A'' .. CHR ''Z''} \<Longrightarrow> lower_char c = c"
  by (auto simp: lower_char_def)

lemma lower_letter_dash: "c \<in> set letters \<Longrightarrow> lower_char c \<noteq> CHR ''-''"
proof -
  have "list_all (\<lambda>c. lower_char c \<noteq> CHR ''-'') letters" by code_simp
  then show "c \<in> set letters \<Longrightarrow> ?thesis" by (auto simp: list_all_iff)
qed

lemma lower_letter_underscore: "c \<in> set letters \<Longrightarrow> lower_char c \<noteq> CHR ''_''"
proof -
  have "list_all (\<lambda>c. lower_char c \<noteq> CHR ''_'') letters" by code_simp
  then show "c \<in> set letters \<Longrightarrow> ?thesis" by (auto simp: list_all_iff)
qed

lemma community_hits_namespace:
  assumes p: "rx_match community_pattern p" and hit: "community_hits p code"
  shows "prefix (pattern_namespace p @ ''_'') (to_lower code)"
proof -
  from p obtain sign ns rest where parts: "p = sign @ ns @ ''_'' @ rest" "sign = [] \<or> sign = ''-''"
    "ns \<noteq> []" "set ns \<subseteq> set letters"
    by (rule community_pattern_cases)
  have ns: "pattern_namespace p = to_lower ns"
    unfolding parts(1) by (rule pattern_namespace_of) (use parts in auto)
  define head where "head = to_lower ns @ ''_''"
  have lowers: "\<And>xs. to_lower (CHR ''_'' # xs) = CHR ''_'' # to_lower xs"
      "\<And>xs. to_lower (CHR ''-'' # xs) = CHR ''-'' # to_lower xs" "to_lower [] = []"
    by (simp_all add: to_lower_def lower_char_def)
  have "\<not> prefix ''-'' (to_lower (ns @ ''_'' @ rest))"
  proof
    assume "prefix ''-'' (to_lower (ns @ ''_'' @ rest))"
    then have "lower_char (hd ns) = CHR ''-''" using parts(3) by (cases ns) (auto simp: to_lower_def)
    moreover have "hd ns \<in> set letters" using parts(3,4) hd_in_set by blast
    ultimately show False using lower_letter_dash by blast
  qed
  then have body: "community_body p = head @ to_lower rest"
    using parts(2) lowers by (auto simp: community_body_def parts(1) head_def cut_prefix_def)
  have last: "last head \<noteq> CHR ''*''" by (simp add: head_def)
  have "prefix head (to_lower code)"
  proof (cases "suffix ''*'' (community_body p)")
    case True
    then obtain pre where pre: "head @ to_lower rest = pre @ ''*''" by (auto simp: body suffix_def)
    have "to_lower rest \<noteq> []" using pre last by auto
    then have "prefix head pre" using pre
      by (metis append_butlast_last_id butlast_append butlast_snoc prefixI)
    moreover have "cut_suffix (community_body p) ''*'' = (pre, True)"
      by (simp only: cut_suffix_True body pre)
    ultimately show ?thesis using hit by (auto simp: community_hits_def Let_def)
  next
    case False
    then have "cut_suffix (community_body p) ''*'' = (community_body p, False)"
      by (simp add: cut_suffix_False)
    with hit have "to_lower code = head @ to_lower rest"
      by (auto simp: community_hits_def Let_def body)
    then show ?thesis by simp
  qed
  then show ?thesis by (simp add: ns head_def)
qed

lemma community_namespace_clean:
  "rx_match community_pattern p \<Longrightarrow> CHR ''_'' \<notin> set (pattern_namespace p)"
proof -
  assume "rx_match community_pattern p"
  then obtain sign ns rest where parts: "p = sign @ ns @ ''_'' @ rest" "sign = [] \<or> sign = ''-''"
    "ns \<noteq> []" "set ns \<subseteq> set letters"
    by (rule community_pattern_cases)
  have "pattern_namespace p = to_lower ns"
    unfolding parts(1) by (rule pattern_namespace_of) (use parts in auto)
  moreover have "\<forall>c \<in> set ns. lower_char c \<noteq> CHR ''_''"
    using parts(4) lower_letter_underscore by blast
  ultimately show ?thesis unfolding to_lower_def by (auto simp del: letters_def)
qed

lemma before_underscore:
  "prefix (a @ ''_'') s \<Longrightarrow> CHR ''_'' \<notin> set a \<Longrightarrow> takeWhile (\<lambda>c. c \<noteq> CHR ''_'') s = a"
  by (induction a arbitrary: s) (auto simp: prefix_def)

lemma prefix_underscore_unique:
  "prefix (a @ ''_'') s \<Longrightarrow> prefix (b @ ''_'') s \<Longrightarrow> CHR ''_'' \<notin> set a \<Longrightarrow> CHR ''_'' \<notin> set b \<Longrightarrow> a = b"
  using before_underscore by metis

lemma hits_one_namespace:
  assumes "rx_match community_pattern p" "rx_match community_pattern q"
    "community_hits p code" "community_hits q code"
  shows "pattern_namespace p = pattern_namespace q"
  using assms by (meson community_hits_namespace prefix_underscore_unique community_namespace_clean)

text \<open>
  What \<open>validateRuleModules\<close> leaves of a configuration: every select and advisory pattern in its
  module's namespace, namespaces distinct, and every community pattern of a check in a declared one.
\<close>

definition module_paths :: "config \<Rightarrow> string list" where
  "module_paths cfg = sorted_keys (cf_rule_modules cfg)"

definition module_at :: "config \<Rightarrow> string \<Rightarrow> rule_module" where
  "module_at cfg path = the (map_of (cf_rule_modules cfg) path)"

lemma validate_rule_module_select:
  "validate_rule_module ml path e = None \<Longrightarrow> p \<in> set (rm_select e) \<union> set (rm_advisory e) \<Longrightarrow>
   rx_match community_pattern p \<and> pattern_namespace p = rm_namespace e"
  by (auto simp: validate_rule_module_def)

lemma validated_modules:
  assumes "validate_rule_modules ml cfg = None"
  shows "\<forall>path \<in> set (module_paths cfg). validate_rule_module ml path (module_at cfg path) = None"
    "distinct (map (\<lambda>path. rm_namespace (module_at cfg path)) (module_paths cfg))"
    "\<forall>cid \<in> set (sorted_keys (cf_checks cfg)). \<forall>p \<in> set (community_checks (the (map_of (cf_checks cfg) cid))).
       uses_rule_modules (the (map_of (cf_checks cfg) cid)) \<and>
       (\<exists>path \<in> set (module_paths cfg). rm_namespace (module_at cfg path) = pattern_namespace p)"
    "validate_advisory cfg = None"
proof -
  from assms obtain ns where ns: "collect_namespaces ml (cf_rule_modules cfg) [] (module_paths cfg) = Inr ns"
    by (auto simp: validate_rule_modules_def module_paths_def split: sum.splits)
  note facts = collect_namespaces_Inr [OF ns]
  have checks: "first_error (validate_check_modules cfg ns) (sorted_keys (cf_checks cfg)) = None"
    and adv: "validate_advisory cfg = None"
    using assms ns by (auto simp: validate_rule_modules_def module_paths_def)
  show "validate_advisory cfg = None" by (rule adv)
  show "\<forall>path \<in> set (module_paths cfg). validate_rule_module ml path (module_at cfg path) = None"
    using facts by (simp add: module_at_def)
  show "distinct (map (\<lambda>path. rm_namespace (module_at cfg path)) (module_paths cfg))"
    using facts by (simp add: module_at_def namespaces_of_def)
  show "\<forall>cid \<in> set (sorted_keys (cf_checks cfg)). \<forall>p \<in> set (community_checks (the (map_of (cf_checks cfg) cid))).
       uses_rule_modules (the (map_of (cf_checks cfg) cid)) \<and>
       (\<exists>path \<in> set (module_paths cfg). rm_namespace (module_at cfg path) = pattern_namespace p)"
  proof (intro ballI)
    fix cid p assume cid: "cid \<in> set (sorted_keys (cf_checks cfg))"
      and p: "p \<in> set (community_checks (the (map_of (cf_checks cfg) cid)))"
    then have v: "validate_check_modules cfg ns cid = None"
      using checks by (simp only: first_error_None)
    from p have ne: "community_checks (the (map_of (cf_checks cfg) cid)) \<noteq> []" by auto
    have used: "uses_rule_modules (the (map_of (cf_checks cfg) cid))"
      and key: "has_key ns (pattern_namespace p)"
      using v p ne by (auto simp: validate_check_modules_def Let_def)
    then have "pattern_namespace p \<in> fst ` set ns" by (simp add: has_key_iff)
    then show "uses_rule_modules (the (map_of (cf_checks cfg) cid)) \<and>
       (\<exists>path \<in> set (module_paths cfg). rm_namespace (module_at cfg path) = pattern_namespace p)"
      using used facts by (auto simp: module_at_def)
  qed
qed

text \<open>A configuration whose rule modules validate has one module per namespace; every community
  pattern of a check, selecting or deselecting, names a declared namespace and belongs to a check
  that uses rule modules; and every literal advisory rule is selected by some check that does.\<close>

theorem rule_module_contract:
  assumes "validate_rule_modules ml cfg = None"
  shows "distinct (map (\<lambda>path. rm_namespace (module_at cfg path)) (module_paths cfg)) \<and>
    (\<forall>(cid, c) \<in> set (cf_checks cfg). map_of (cf_checks cfg) cid = Some c \<longrightarrow>
       (\<forall>p \<in> set (community_checks c). uses_rule_modules c \<and>
          (\<exists>path \<in> set (module_paths cfg). rm_namespace (module_at cfg path) = pattern_namespace p))) \<and>
    (\<forall>path \<in> set (module_paths cfg). \<forall>p \<in> set (rm_advisory (module_at cfg path)).
       \<not> has_prefix p ''-'' \<longrightarrow> \<not> has_suffix p ''*'' \<longrightarrow>
       (\<exists>ps \<in> set (advisory_selections cfg). community_allowed ps p))"
proof (intro conjI)
  show "distinct (map (\<lambda>path. rm_namespace (module_at cfg path)) (module_paths cfg))"
    by (rule validated_modules(2) [OF assms])
  show "\<forall>(cid, c) \<in> set (cf_checks cfg). map_of (cf_checks cfg) cid = Some c \<longrightarrow>
       (\<forall>p \<in> set (community_checks c). uses_rule_modules c \<and>
          (\<exists>path \<in> set (module_paths cfg). rm_namespace (module_at cfg path) = pattern_namespace p))"
    using validated_modules(3) [OF assms] by force
  show "\<forall>path \<in> set (module_paths cfg). \<forall>p \<in> set (rm_advisory (module_at cfg path)).
       \<not> has_prefix p ''-'' \<longrightarrow> \<not> has_suffix p ''*'' \<longrightarrow>
       (\<exists>ps \<in> set (advisory_selections cfg). community_allowed ps p)"
    using validated_modules(4) [OF assms]
    by (auto simp: validate_advisory_def module_paths_def module_at_def list_ex_iff split: if_splits)
qed

definition acme_module :: rule_module where
  "acme_module = \<lparr>rm_version = ''v1.0.0'', rm_namespace = ''acme'', rm_select = [''acme_*''],
     rm_advisory = [''acme_naming''], rm_settings = []\<rparr>"

definition zeta_module :: rule_module where
  "zeta_module = \<lparr>rm_version = ''v0.2.0'', rm_namespace = ''zeta'', rm_select = [''zeta_*''],
     rm_advisory = [], rm_settings = []\<rparr>"

definition lint_example :: check where
  "lint_example = (plain_check CheckGoLint default_target default_environment)
     \<lparr>ck_lint := Some \<lparr>lc_checks = [''*'', ''-acme_naming'', ''acme_naming''], lc_rule_modules = None\<rparr>\<rparr>"

definition modules_config :: config where
  "modules_config = default_config
     \<lparr>cf_checks := [(''lint'', lint_example)],
      cf_rule_modules := [(''example.com/acme'', acme_module), (''example.com/zeta'', zeta_module)]\<rparr>"

definition any_mod_lib :: mod_lib where
  "any_mod_lib = \<lparr>ml_check_path = (\<lambda>_. True), ml_check = (\<lambda>_ _. True), ml_canonical = (\<lambda>v. v)\<rparr>"

lemma modules_config_valid: "validate_rule_modules any_mod_lib modules_config = None"
  by code_simp

theorem rule_module_contract_witness:
  "validate_rule_modules any_mod_lib modules_config = None \<and>
   distinct (map (\<lambda>path. rm_namespace (module_at modules_config path)) (module_paths modules_config))"
  using rule_module_contract [OF modules_config_valid] modules_config_valid by blast

text \<open>What one namespace sees of a selection: filtering by the patterns that hit a code.\<close>

lemma concat_single:
  "distinct xs \<Longrightarrow> x \<in> set xs \<Longrightarrow> \<forall>y \<in> set xs. y \<noteq> x \<longrightarrow> g y = [] \<Longrightarrow>
   concat (map g xs) = g x"
proof (induction xs)
  case (Cons a xs)
  show ?case
  proof (cases "a = x")
    case True
    then have "concat (map g xs) = []" using Cons.prems by (auto simp: concat_eq_Nil_conv)
    then show ?thesis using True by simp
  next
    case False
    then show ?thesis using Cons by simp
  qed
qed simp

lemma filter_concat_map: "filter P (concat (map f xs)) = concat (map (\<lambda>x. filter P (f x)) xs)"
  by (induction xs) auto

lemma community_checks_pattern:
  "ck_lint c = Some l \<Longrightarrow> validate_lint_checks l = None \<Longrightarrow> p \<in> set (community_checks c) \<Longrightarrow>
   rx_match community_pattern p"
  by (auto simp: community_checks_def lint_checks_def validate_lint_checks_def split: if_splits)

text \<open>C28. Rule modules are isolated from each other: whether a selection allows a code of one module's
  namespace depends only on that module's own select list and on the check's patterns of that
  namespace. What any other module selects, whatever its path sorts to, changes nothing.\<close>

theorem namespace_isolation:
  assumes "validate_rule_modules ml cfg = None" "ck_lint c = Some l" "validate_lint_checks l = None"
    and "path \<in> set (module_paths cfg)"
    and "has_prefix (to_lower code) (rm_namespace (module_at cfg path) @ ''_'')"
  shows "community_allowed (community_selection cfg c) code =
    community_allowed (rm_select (module_at cfg path) @
      filter (\<lambda>p. pattern_namespace p = rm_namespace (module_at cfg path)) (community_checks c)) code"
proof (rule community_lm.allowed_cong)
  let ?ns = "\<lambda>path. rm_namespace (module_at cfg path)"
  let ?hit = "\<lambda>p. community_hits p code"
  note modules = validated_modules [OF assms(1)]
  have select: "rx_match community_pattern p \<and> pattern_namespace p = ?ns q"
    if "q \<in> set (module_paths cfg)" "p \<in> set (rm_select (module_at cfg q))" for p q
    using modules(1) that validate_rule_module_select by blast
  from modules(1) have "rm_select (module_at cfg path) \<noteq> []" using assms(4)
    by (auto simp: validate_rule_module_def)
  then obtain p0 where p0: "rx_match community_pattern p0" "pattern_namespace p0 = ?ns path"
    using select [OF assms(4)] by (cases "rm_select (module_at cfg path)") auto
  have one: "pattern_namespace p = ?ns path"
    if "rx_match community_pattern p" "?hit p" for p
    using that p0 community_hits_namespace [OF that] assms(5) community_namespace_clean
    by (metis prefix_underscore_unique)
  have other: "filter ?hit (rm_select (module_at cfg q)) = []"
    if q: "q \<in> set (module_paths cfg)" "q \<noteq> path" for q
  proof -
    have "?ns q \<noteq> ?ns path" using modules(2) q assms(4) by (auto simp: distinct_map inj_on_def)
    then show ?thesis using select [OF q(1)] one by (metis (mono_tags, lifting) filter_False)
  qed
  have "filter ?hit (concat (map (\<lambda>q. rm_select (module_at cfg q)) (module_paths cfg))) =
      filter ?hit (rm_select (module_at cfg path))"
    unfolding filter_concat_map
    by (rule concat_single) (use assms(4) other in \<open>auto simp: module_paths_def\<close>)
  moreover have "filter ?hit (community_checks c) =
      filter ?hit (filter (\<lambda>p. pattern_namespace p = ?ns path) (community_checks c))"
    using community_checks_pattern [OF assms(2,3)] one
    by (auto simp: filter_filter intro!: filter_cong)
  ultimately show "filter ?hit (community_selection cfg c) =
      filter ?hit (rm_select (module_at cfg path) @
        filter (\<lambda>p. pattern_namespace p = ?ns path) (community_checks c))"
    by (simp add: community_selection_def module_paths_def module_at_def)
qed

lemma lint_example_valid: "validate_lint_checks (the (ck_lint lint_example)) = None"
  by code_simp

theorem namespace_isolation_witness:
  "community_allowed (community_selection modules_config lint_example) ''ACME_naming'' =
   community_allowed [''acme_*'', ''-acme_naming'', ''acme_naming''] ''ACME_naming''"
proof -
  have parts: "''example.com/acme'' \<in> set (module_paths modules_config)"
    "ck_lint lint_example = Some (the (ck_lint lint_example))"
    "has_prefix (to_lower ''ACME_naming'') (rm_namespace (module_at modules_config ''example.com/acme'') @ ''_'')"
    by code_simp+
  have "rm_select (module_at modules_config ''example.com/acme'') @
      filter (\<lambda>p. pattern_namespace p = rm_namespace (module_at modules_config ''example.com/acme''))
        (community_checks lint_example) = [''acme_*'', ''-acme_naming'', ''acme_naming'']"
    by code_simp
  then show ?thesis
    using namespace_isolation [OF modules_config_valid parts(2) lint_example_valid parts(1) parts(3)]
    by simp
qed

end
