(* ===== verification/Report.thy ===== *)
theory Report
  imports Planning
begin

text \<open>
  Results and reports: \<open>internal/verify/run.go\<close>, \<open>findings.go\<close> and \<open>report.go\<close>. A result's
  details are raw JSON in Go; \<open>details\<close> keeps what the functions here can tell apart: nothing at
  all, text that is not a JSON object, \<open>null\<close>, or an object with its \<open>findings\<close> field and the
  other fields left as they are. The \<open>findings\<close> field is missing, does not decode as a list of
  findings, or is such a list. Encoding a finding and decoding it again gives it back, which is
  true of \<open>encoding/json\<close> on valid UTF-8.
\<close>

record location =
  loc_file :: string
  loc_line :: int
  loc_column :: int

record finding =
  fd_code :: string
  fd_message :: string
  fd_location :: location
  fd_source :: string
  fd_url :: string
  fd_advisory :: bool
  fd_hint :: string
  fd_baselined :: bool

datatype findings_field = NoFindings | OtherFindings string | Findings "finding list"

datatype details =
    NoDetails
  | BadDetails string
  | NullDetails
  | Details "(string \<times> string) list" findings_field

record warning =
  wn_kind :: warning_kind
  wn_message :: string

record cache_info =
  ci_status :: cache_status
  ci_key :: string
  ci_reason :: string
  ci_lookup_ms :: int

record stage_result =
  sr_kind :: stage_kind
  sr_key :: string
  sr_reused :: bool
  sr_duration_ms :: int

record toolchain_identity =
  ti_digest :: string
  ti_version :: string
  ti_os :: string
  ti_arch :: string
  ti_settings_digest :: string

text \<open>A time is the number of milliseconds since some origin; \<open>None\<close> is Go's zero time.\<close>

record result =
  rs_implementation :: "string option"
  rs_toolchain :: "toolchain_identity option"
  rs_id :: string
  rs_status :: status
  rs_duration_ms :: int
  rs_verified_at :: "int option"
  rs_stdout :: string
  rs_stderr :: string
  rs_error :: string
  rs_cache :: cache_info
  rs_execution_ms :: int
  rs_stages :: "stage_result list"
  rs_details :: details
  rs_warnings :: "warning list"

record baseline_summary =
  bs_file :: string
  bs_baselined :: nat
  bs_stale :: nat
  bs_orphaned :: "finding list"

record report =
  rp_version :: nat
  rp_run :: string
  rp_status :: status
  rp_plan :: plan
  rp_results :: "result list"
  rp_baseline :: "baseline_summary option"

definition zero_cache_info :: cache_info where
  "zero_cache_info = \<lparr>ci_status = CacheUnset, ci_key = '''', ci_reason = '''', ci_lookup_ms = 0\<rparr>"

text \<open>The result a Go composite literal with only a status and an error gives.\<close>

definition outcome :: "status \<Rightarrow> string \<Rightarrow> result" where
  "outcome s message = \<lparr>rs_implementation = None, rs_toolchain = None, rs_id = '''', rs_status = s,
     rs_duration_ms = 0, rs_verified_at = None, rs_stdout = '''', rs_stderr = '''',
     rs_error = message, rs_cache = zero_cache_info, rs_execution_ms = 0, rs_stages = [],
     rs_details = NoDetails, rs_warnings = []\<rparr>"

definition with_outcome :: "result \<Rightarrow> status \<Rightarrow> string \<Rightarrow> result" where
  "with_outcome r s message = r\<lparr>rs_status := s, rs_error := message\<rparr>"

definition with_stages :: "result \<Rightarrow> stage_result list \<Rightarrow> result" where
  "with_stages r stages = r\<lparr>rs_stages := stages\<rparr>"

definition with_cache :: "result \<Rightarrow> cache_info \<Rightarrow> result" where
  "with_cache r cache = r\<lparr>rs_cache := cache\<rparr>"

definition with_details :: "result \<Rightarrow> details \<Rightarrow> result" where
  "with_details r d = r\<lparr>rs_details := d\<rparr>"

section \<open>Details\<close>

definition shared_shape :: "check_kind \<Rightarrow> bool" where
  "shared_shape kind \<longleftrightarrow> kind \<noteq> CheckSemanticLint"

fun detail_findings :: "details \<Rightarrow> finding list" where
  "detail_findings (Details others (Findings fs)) = fs"
| "detail_findings _ = []"

fun replace_findings :: "details \<Rightarrow> finding list \<Rightarrow> details" where
  "replace_findings NoDetails fs = Details [] (Findings fs)"
| "replace_findings NullDetails fs = Details [] (Findings fs)"
| "replace_findings (BadDetails raw) fs = BadDetails raw"
| "replace_findings (Details others old) fs = Details others (Findings fs)"

fun other_fields :: "details \<Rightarrow> (string \<times> string) list" where
  "other_fields (Details others _) = others"
| "other_fields _ = []"

definition findings_details :: "finding list \<Rightarrow> details" where
  "findings_details fs = Details [] (Findings fs)"

definition decodable :: "details \<Rightarrow> bool" where
  "decodable d \<longleftrightarrow> (\<forall>raw. d \<noteq> BadDetails raw)"

lemma detail_findings_replace [simp]:
  "decodable d \<Longrightarrow> detail_findings (replace_findings d fs) = fs"
  by (cases d) (auto simp: decodable_def)

lemma detail_findings_decodable: "detail_findings d \<noteq> [] \<Longrightarrow> decodable d"
  by (cases d) (auto simp: decodable_def)

lemma replace_bad: "\<not> decodable d \<Longrightarrow> replace_findings d fs = d"
  by (auto simp: decodable_def)

lemma detail_findings_bad: "\<not> decodable d \<Longrightarrow> detail_findings d = []"
  by (auto simp: decodable_def)

lemma other_fields_replace [simp]: "other_fields (replace_findings d fs) = other_fields d"
  by (cases d) auto

lemma replace_replace [simp]: "replace_findings (replace_findings d fs) gs = replace_findings d gs"
  by (cases d) auto

lemma decodable_replace [simp]: "decodable (replace_findings d fs) = decodable d"
  by (cases d) (auto simp: decodable_def)

section \<open>Reports\<close>

text \<open>\<open>planned\<close>: the plan's checks by ID; the last of several with one ID is the one a lookup finds.\<close>

definition planned_checks :: "report \<Rightarrow> (string \<times> planned_check) list" where
  "planned_checks r = rev (map (\<lambda>c. (pc_id c, c)) (pl_checks (rp_plan r)))"

definition planned_for :: "report \<Rightarrow> result \<Rightarrow> planned_check option" where
  "planned_for r res = map_of (planned_checks r) (rs_id res)"

definition map_result ::
  "report \<Rightarrow> (planned_check \<Rightarrow> finding list \<Rightarrow> finding list) \<Rightarrow> result \<Rightarrow> result" where
  "map_result r rewrite res =
     (case planned_for r res of
        None \<Rightarrow> res
      | Some c \<Rightarrow>
          let fs = detail_findings (rs_details res) in
          if shared_shape (ck_kind (pc_check c)) \<and> fs \<noteq> []
          then with_details res (replace_findings (rs_details res) (rewrite c fs)) else res)"

definition map_findings ::
  "report \<Rightarrow> (planned_check \<Rightarrow> finding list \<Rightarrow> finding list) \<Rightarrow> report" where
  "map_findings r rewrite = r\<lparr>rp_results := map (map_result r rewrite) (rp_results r)\<rparr>"

definition report_status :: "result list \<Rightarrow> status" where
  "report_status rs =
     (if rs = [] then StatusIncomplete
      else if list_ex (\<lambda>r. rs_status r \<noteq> StatusPassed) rs then StatusFailed else StatusPassed)"

lemma report_status_passed:
  "report_status rs = StatusPassed \<longleftrightarrow> rs \<noteq> [] \<and> (\<forall>r \<in> set rs. rs_status r = StatusPassed)"
  by (auto simp: report_status_def list_ex_iff)

text \<open>\<open>fails\<close> of render.go.\<close>

definition fails :: "finding \<Rightarrow> bool" where
  "fails f \<longleftrightarrow> \<not> fd_advisory f \<and> \<not> fd_baselined f"

section \<open>Running a plan\<close>

text \<open>
  \<open>executeCheck\<close>: the executor is looked up by kind; a cancelled context reports its own error,
  and a status that is none of the constants becomes an error. The executor's call is the value
  \<open>execute\<close> of the parameter \<open>executors\<close>.
\<close>

definition max_check_parallelism :: int where
  "max_check_parallelism = 4"

definition check_parallelism :: "int \<Rightarrow> int \<Rightarrow> int \<Rightarrow> int" where
  "check_parallelism max_procs n jobs =
     (if n \<le> 1 then 1
      else let limit = (if jobs > 0 then jobs else min max_procs max_check_parallelism);
               limit = max limit 1
           in if n < limit then n else limit)"

definition valid_status :: "status \<Rightarrow> bool" where
  "valid_status s \<longleftrightarrow> s \<in> {StatusPassed, StatusFailed, StatusError, StatusCancelled, StatusIncomplete}"

definition execute_check ::
  "string option \<Rightarrow> planned_check \<Rightarrow> (executor_kind \<Rightarrow> (planned_check \<Rightarrow> result) option) \<Rightarrow> result" where
  "execute_check ctx_err c executors =
     (case ctx_err of
        Some e \<Rightarrow> outcome StatusCancelled e
      | None \<Rightarrow>
        (case executors (en_executor (pc_environment c)) of
           None \<Rightarrow> outcome StatusIncomplete
             (''executor '' @ [CHR 0x22] @ en_executor (pc_environment c) @ [CHR 0x22] @ '' is unavailable'')
         | Some execute \<Rightarrow>
             let r = execute c in
             if valid_status (rs_status r) then r
             else with_outcome r StatusError ''executor returned an invalid status''))"

text \<open>
  What one worker stores: the executor's outcome under the check's own ID, with the time measured
  around it when the outcome carries none. \<open>start\<close> and \<open>duration\<close> are the clock's answers.
\<close>

definition stored_result :: "planned_check \<Rightarrow> int \<Rightarrow> int \<Rightarrow> result \<Rightarrow> result" where
  "stored_result c start duration r = r\<lparr>rs_id := pc_id c, rs_duration_ms := duration,
     rs_verified_at := (case rs_verified_at r of None \<Rightarrow> Some start | Some t \<Rightarrow> Some t),
     rs_execution_ms := (case rs_verified_at r of None \<Rightarrow> duration | Some _ \<Rightarrow> rs_execution_ms r)\<rparr>"

definition run_report :: "plan \<Rightarrow> result list \<Rightarrow> report" where
  "run_report p rs = \<lparr>rp_version = 1, rp_run = pl_run p, rp_status = report_status rs,
     rp_plan = p, rp_results = rs, rp_baseline = None\<rparr>"

lemma check_parallelism_bounds:
  "1 \<le> check_parallelism m n jobs \<and> check_parallelism m n jobs \<le> max 1 n \<and>
   (jobs > 0 \<longrightarrow> check_parallelism m n jobs \<le> jobs \<or> n \<le> 1) \<and>
   (jobs \<le> 0 \<longrightarrow> check_parallelism m n jobs \<le> max_check_parallelism)"
  by (auto simp: check_parallelism_def max_check_parallelism_def Let_def)

lemma execute_check_valid: "valid_status (rs_status (execute_check e c ex))"
  by (auto simp: execute_check_def valid_status_def outcome_def with_outcome_def Let_def
      split: option.split)

lemmas result_updates = with_outcome_def with_stages_def with_cache_def with_details_def

end
