(* ===== verification/Go_Format.thy ===== *)
theory Go_Format
  imports Go_Text
begin

text \<open>
  The formatting the source uses: decimal integers (\<open>%d\<close>, \<open>strconv.Itoa\<close>), quoted strings without
  special characters (\<open>%q\<close>) and \<open>strings.ReplaceAll\<close> with a nonempty old string.
\<close>

definition newline :: string where
  "newline = [CHR 0x0A]"

definition digit_char :: "nat \<Rightarrow> char" where
  "digit_char d = char_of (48 + d)"

fun show_nat :: "nat \<Rightarrow> string" where
  "show_nat n = (if n < 10 then [digit_char n] else show_nat (n div 10) @ [digit_char (n mod 10)])"

declare show_nat.simps [simp del]

definition show_int :: "int \<Rightarrow> string" where
  "show_int i = (if i < 0 then CHR ''-'' # show_nat (nat (- i)) else show_nat (nat i))"

definition show_quoted :: "string \<Rightarrow> string" where
  "show_quoted s = CHR 0x22 # s @ [CHR 0x22]"

function replace_all :: "string \<Rightarrow> string \<Rightarrow> string \<Rightarrow> string" where
  "replace_all old new s =
     (case s of [] \<Rightarrow> []
      | c # cs \<Rightarrow> if old \<noteq> [] \<and> has_prefix s old then new @ replace_all old new (drop (length old) s)
                 else c # replace_all old new cs)"
  by pat_completeness auto
termination
  by (relation "measure (\<lambda>(_, _, s). length s)") auto

declare replace_all.simps [simp del]

definition contains :: "string \<Rightarrow> string \<Rightarrow> bool" where
  "contains s part \<longleftrightarrow> list_ex (\<lambda>i. has_prefix (drop i s) part) [0..<Suc (length s)]"

definition plural :: "int \<Rightarrow> string \<Rightarrow> string \<Rightarrow> string" where
  "plural n one many = (if n = 1 then one else many)"

lemma show_nat_digits: "c \<in> set (show_nat n) \<Longrightarrow> is_digit c"
proof (induction n rule: show_nat.induct)
  case (1 n)
  have digit: "is_digit (digit_char d)" if "d < 10" for d
    using that by (simp add: is_digit_def digit_char_def less_eq_char_def)
  show ?case
  proof (cases "n < 10")
    case True
    then show ?thesis using 1 digit by (subst (asm) show_nat.simps) auto
  next
    case False
    then show ?thesis using 1 digit by (subst (asm) (2) show_nat.simps) auto
  qed
qed

lemma show_nat_nonempty: "show_nat n \<noteq> []"
  by (subst show_nat.simps) simp

lemma replace_all_Nil [simp]: "replace_all old new [] = []"
  by (simp add: replace_all.simps)

section \<open>Lines and cuts\<close>

text \<open>\<open>bufio.ScanLines\<close> (a line longer than the buffer the caller gives it, which is an error, is left out).\<close>

definition scan_lines :: "string \<Rightarrow> string list" where
  "scan_lines output = map (\<lambda>l. trim_suffix l [CHR 0x0D]) (split_at CHR 0x0A output)"

text \<open>\<open>strings.Cut\<close> at a separator of several characters.\<close>

fun cut_text :: "string \<Rightarrow> string \<Rightarrow> (string \<times> string) option" where
  "cut_text sep [] = (if sep = [] then Some ([], []) else None)"
| "cut_text sep (c # s) =
     (if has_prefix (c # s) sep then Some ([], drop (length sep) (c # s))
      else map_option (\<lambda>(before, after). (c # before, after)) (cut_text sep s))"

end
