(* ===== verification/Baseline.thy ===== *)
theory Baseline
  imports Report Go_Format
begin

text \<open>
  The baseline of accepted findings: \<open>internal/verify/baseline.go\<close>. An entry accepts a number of
  findings with one kind, directory, file, code and normalized message. \<open>apply_baseline\<close> is
  \<open>Baseline.Apply\<close> and \<open>record_baseline\<close> is \<open>Baseline.Record\<close>; the maps of the Go code become
  functions from keys to counts, and the loops over map entries become comprehensions over the
  entries in file order, which the sorting in \<open>judged\<close> and \<open>Record\<close> makes the same.
\<close>

section \<open>Messages and keys\<close>

text \<open>
  \<open>goPosition\<close> replaced by \<open>.go\<close>: the leftmost \<open>.go:\<close> with a digit after it, its digits, and a
  second \<open>:\<close> with digits when there is one, again and again in what is left.
\<close>

definition digit_first :: "string \<Rightarrow> bool" where
  "digit_first s \<longleftrightarrow> s \<noteq> [] \<and> is_digit (hd s)"

definition after_position :: "string \<Rightarrow> string" where
  "after_position s =
     (let rest = dropWhile is_digit s in
      case rest of
        [] \<Rightarrow> rest
      | c # cs \<Rightarrow> if c = CHR '':'' \<and> digit_first cs then dropWhile is_digit cs else rest)"

lemma after_position_length: "length (after_position s) \<le> length s"
proof -
  have shorter: "length (dropWhile is_digit x) \<le> length x" for x by (rule length_dropWhile_le)
  show ?thesis
  proof (cases "dropWhile is_digit s")
    case Nil
    then show ?thesis unfolding after_position_def Let_def by (simp only: list.case list.size)
  next
    case (Cons c cs)
    then show ?thesis using shorter [of s] shorter [of cs] by (simp add: after_position_def)
  qed
qed

function drop_positions :: "string \<Rightarrow> string" where
  "drop_positions s =
     (case s of [] \<Rightarrow> []
      | c # cs \<Rightarrow>
          if has_prefix s ''.go:'' \<and> digit_first (drop 4 s)
          then ''.go'' @ drop_positions (after_position (drop 4 s))
          else c # drop_positions cs)"
  by pat_completeness auto
termination
proof (relation "measure length")
  fix s :: string and c cs
  assume "s = c # cs" "has_prefix s ''.go:'' \<and> digit_first (drop 4 s)"
  then show "(after_position (drop 4 s), s) \<in> measure length"
    using after_position_length [of "drop 4 s"] by auto
qed auto

declare drop_positions.simps [simp del]

definition normalize_message :: "string \<Rightarrow> string" where
  "normalize_message message = join_with '' '' (words (drop_positions message))"

record baseline_entry =
  be_kind :: check_kind
  be_dir :: string
  be_file :: string
  be_code :: string
  be_message :: string
  be_count :: int

record baseline_key =
  bk_kind :: check_kind
  bk_dir :: string
  bk_file :: string
  bk_code :: string
  bk_message :: string

record baseline =
  bl_path :: string
  bl_entries :: "baseline_entry list"
  bl_lines :: "int list"

record baseline_change =
  bc_added :: int
  bc_removed :: int
  bc_unrecorded :: "string list"

definition baseline_stale_code :: string where
  "baseline_stale_code = ''baseline-stale''"

definition entry_key :: "baseline_entry \<Rightarrow> baseline_key" where
  "entry_key e = \<lparr>bk_kind = be_kind e, bk_dir = be_dir e, bk_file = be_file e, bk_code = be_code e,
     bk_message = normalize_message (be_message e)\<rparr>"

definition finding_key :: "planned_check \<Rightarrow> finding \<Rightarrow> baseline_key" where
  "finding_key c f = \<lparr>bk_kind = ck_kind (pc_check c), bk_dir = tg_dir (pc_target c),
     bk_file = loc_file (fd_location f), bk_code = fd_code f,
     bk_message = normalize_message (fd_message f)\<rparr>"

section \<open>Reading a baseline\<close>

datatype entry_error = KindNotBaselined string | BadEntryDir string | BadEntryFile string
  | NeedsCodeAndMessage | CountTooSmall

datatype baseline_error = NeedsVersionOne | InEntry nat entry_error | EntryRepeats nat

definition validate_entry :: "baseline_entry \<Rightarrow> entry_error option" where
  "validate_entry e = first_of
     [fail_when (\<not> baseline_kind (be_kind e)) (KindNotBaselined (be_kind e)),
      fail_when (\<not> relative (be_dir e)) (BadEntryDir (be_dir e)),
      fail_when (\<not> relative (be_file e) \<or> be_file e = dot) (BadEntryFile (be_file e)),
      fail_when (be_code e = '''' \<or> normalize_message (be_message e) = '''') NeedsCodeAndMessage,
      fail_when (be_count e < 1) CountTooSmall]"

text \<open>The loop of \<open>parseBaseline\<close>; \<open>i\<close> counts entries from 1.\<close>

fun check_entries :: "nat \<Rightarrow> baseline_key list \<Rightarrow> baseline_entry list \<Rightarrow> baseline_error option" where
  "check_entries i seen [] = None"
| "check_entries i seen (e # es) =
     (case validate_entry e of
        Some err \<Rightarrow> Some (InEntry i err)
      | None \<Rightarrow> if entry_key e \<in> set seen then Some (EntryRepeats i)
                else check_entries (Suc i) (entry_key e # seen) es)"

text \<open>\<open>parseBaseline\<close> after decoding: the file's version and its findings.\<close>

definition parse_baseline ::
  "int \<Rightarrow> baseline_entry list \<Rightarrow> baseline_error + baseline_entry list" where
  "parse_baseline version es =
     (if version \<noteq> 1 then Inl NeedsVersionOne else guard_result (check_entries 1 [] es) (Inr es))"

lemma check_entries_None:
  "check_entries i seen es = None \<longleftrightarrow>
     (\<forall>e \<in> set es. validate_entry e = None) \<and> distinct (map entry_key es) \<and>
     entry_key ` set es \<inter> set seen = {}"
  by (induction i seen es rule: check_entries.induct) (auto split: option.split)

section \<open>Which checks judge an entry\<close>

definition completed :: "result \<Rightarrow> bool" where
  "completed r \<longleftrightarrow> rs_status r = StatusPassed \<or> rs_status r = StatusFailed"

definition community_linter_namespace :: string where
  "community_linter_namespace = ''lvrules''"

definition could_report :: "planned_check \<Rightarrow> bool \<Rightarrow> string \<Rightarrow> bool" where
  "could_report c skipped_modules code =
     (if ck_kind (pc_check c) \<noteq> CheckGoLint then True
      else if \<not> is_community_pattern code
      then static_allowed (''all'' # core_lint_checks (pc_check c)) code
      else if pc_rule_modules c = [] \<or> skipped_modules then False
      else if pattern_namespace code = community_linter_namespace then True
      else community_allowed (concat (map pm_select (pc_rule_modules c)) @
             filter is_community_pattern (lint_checks (pc_check c))) code)"

definition covers :: "planned_check \<Rightarrow> result \<Rightarrow> baseline_entry \<Rightarrow> bool" where
  "covers c r e =
     (if ck_kind (pc_check c) \<noteq> be_kind e \<or> tg_dir (pc_target c) \<noteq> be_dir e then False
      else list_ex (\<lambda>f. fd_code f = be_code e) (detail_findings (rs_details r)) \<or>
           could_report c (list_ex (\<lambda>w. wn_kind w = WarningRuleModulesSkipped) (rs_warnings r)) (be_code e))"

definition produces :: "planned_check \<Rightarrow> baseline_entry \<Rightarrow> bool" where
  "produces c e =
     (if ck_kind (pc_check c) \<noteq> be_kind e \<or> tg_dir (pc_target c) \<noteq> be_dir e then False
      else could_report c (en_executor (pc_environment c) = ExecutorNative) (be_code e))"

text \<open>\<open>configuredChecks\<close>: an environment that is not declared is Go's zero value.\<close>

definition zero_environment :: environment where
  "zero_environment = \<lparr>en_executor = '''', en_identity = '''', en_env = [], en_pass_env = [], en_tools = []\<rparr>"

definition bound_checks :: "config \<Rightarrow> string \<Rightarrow> planned_check list" where
  "bound_checks cfg cid =
     (let c = the (map_of (cf_checks cfg) cid);
          names = (if ck_targets c = [] then [ck_target c] else ck_targets c)
      in concat (map (\<lambda>name.
           case map_of (cf_targets cfg) name of
             None \<Rightarrow> []
           | Some tg \<Rightarrow>
               [\<lparr>pc_id = cid, pc_check = check_at c name, pc_target = tg,
                 pc_environment = (case map_of (cf_environments cfg) (ck_environment c) of
                     None \<Rightarrow> zero_environment | Some e \<Rightarrow> e),
                 pc_preparation = None, pc_build = None,
                 pc_rule_modules = planned_rule_modules cfg (check_at c name)\<rparr>]) names))"

definition configured_checks :: "config \<Rightarrow> planned_check list" where
  "configured_checks cfg = concat (map (bound_checks cfg) (sorted_keys (cf_checks cfg)))"

definition orphan_entry :: "report \<Rightarrow> config \<Rightarrow> baseline_entry \<Rightarrow> bool" where
  "orphan_entry r cfg e \<longleftrightarrow>
     \<not> list_ex (\<lambda>c. produces c e) (configured_checks cfg) \<and>
     \<not> list_ex (\<lambda>res. case planned_for r res of None \<Rightarrow> False | Some c \<Rightarrow> covers c res e) (rp_results r)"

definition orphaned :: "baseline \<Rightarrow> report \<Rightarrow> config \<Rightarrow> nat list" where
  "orphaned b r cfg = filter (\<lambda>i. orphan_entry r cfg (bl_entries b ! i)) [0..<length (bl_entries b)]"

section \<open>Applying a baseline\<close>

definition judges :: "report \<Rightarrow> result \<Rightarrow> planned_check option" where
  "judges r res =
     (case planned_for r res of
        None \<Rightarrow> None
      | Some c \<Rightarrow> if baseline_kind (ck_kind (pc_check c)) \<and> completed res then Some c else None)"

definition covering :: "baseline \<Rightarrow> planned_check \<Rightarrow> result \<Rightarrow> nat list" where
  "covering b c res = filter (\<lambda>i. covers c res (bl_entries b ! i)) [0..<length (bl_entries b)]"

text \<open>\<open>left\<close>: how many findings of a key may still be marked; a key no covering entry has counts 0.\<close>

definition allowance :: "baseline \<Rightarrow> planned_check \<Rightarrow> result \<Rightarrow> baseline_key \<Rightarrow> int" where
  "allowance b c res =
     foldl (\<lambda>l i. l(entry_key (bl_entries b ! i) := be_count (bl_entries b ! i))) (\<lambda>_. 0)
       (covering b c res)"

definition markable :: "finding \<Rightarrow> bool" where
  "markable f \<longleftrightarrow> fd_code f \<noteq> baseline_stale_code \<and> \<not> fd_advisory f"

text \<open>The loop over one result's findings: the findings marked, how many were, and what is left.\<close>

fun mark_findings ::
  "planned_check \<Rightarrow> (baseline_key \<Rightarrow> int) \<Rightarrow> finding list \<Rightarrow> finding list \<times> nat \<times> (baseline_key \<Rightarrow> int)"
where
  "mark_findings c left [] = ([], 0, left)"
| "mark_findings c left (f # fs) =
     (let k = finding_key c f in
      if markable f \<and> left k > 0
      then (let (fs', n, left') = mark_findings c (left(k := left k - 1)) fs
            in (f\<lparr>fd_baselined := True\<rparr> # fs', Suc n, left'))
      else (let (fs', n, left') = mark_findings c left fs in (f # fs', n, left')))"

definition marked :: "baseline \<Rightarrow> planned_check \<Rightarrow> result \<Rightarrow> finding list" where
  "marked b c res = fst (mark_findings c (allowance b c res) (detail_findings (rs_details res)))"

definition marked_count :: "baseline \<Rightarrow> planned_check \<Rightarrow> result \<Rightarrow> nat" where
  "marked_count b c res =
     fst (snd (mark_findings c (allowance b c res) (detail_findings (rs_details res))))"

definition unused_allowance :: "baseline \<Rightarrow> planned_check \<Rightarrow> result \<Rightarrow> baseline_key \<Rightarrow> int" where
  "unused_allowance b c res =
     snd (snd (mark_findings c (allowance b c res) (detail_findings (rs_details res))))"

definition mark_result :: "baseline \<Rightarrow> report \<Rightarrow> result \<Rightarrow> result" where
  "mark_result b r res =
     (case judges r res of
        None \<Rightarrow> res
      | Some c \<Rightarrow>
          if marked b c res \<noteq> []
          then with_details res (replace_findings (rs_details res) (marked b c res)) else res)"

text \<open>
  \<open>unused\<close> and \<open>firstCover\<close>: for an entry, what each judging check that covers it left unused, and
  the position of the first such check.
\<close>

definition judgements :: "baseline \<Rightarrow> report \<Rightarrow> nat \<Rightarrow> (nat \<times> int) list" where
  "judgements b r index =
     concat (map (\<lambda>(i, res).
       case judges r res of
         None \<Rightarrow> []
       | Some c \<Rightarrow> if index \<in> set (covering b c res)
           then [(i, unused_allowance b c res (entry_key (bl_entries b ! index)))] else [])
       (enumerate 0 (rp_results r)))"

definition missing :: "baseline \<Rightarrow> report \<Rightarrow> nat \<Rightarrow> int" where
  "missing b r index =
     (case judgements b r index of [] \<Rightarrow> 0 | (_, n) # js \<Rightarrow> foldl (\<lambda>m (_, n). min m n) n js)"

definition line_of :: "baseline \<Rightarrow> nat \<Rightarrow> int" where
  "line_of b index = (if index < length (bl_lines b) then bl_lines b ! index else 1)"

definition plain_finding :: "string \<Rightarrow> string \<Rightarrow> location \<Rightarrow> finding" where
  "plain_finding code message loc = \<lparr>fd_code = code, fd_message = message, fd_location = loc,
     fd_source = '''', fd_url = '''', fd_advisory = False, fd_hint = '''', fd_baselined = False\<rparr>"

definition entry_location :: "baseline \<Rightarrow> nat \<Rightarrow> location" where
  "entry_location b index = \<lparr>loc_file = bl_path b, loc_line = line_of b index, loc_column = 0\<rparr>"

definition stale_finding :: "baseline \<Rightarrow> nat \<Rightarrow> int \<Rightarrow> finding" where
  "stale_finding b index n =
     (let e = bl_entries b ! index in
      plain_finding baseline_stale_code
        (show_int n @ '' of '' @ show_int (be_count e) @ '' baselined '' @ be_code e @
         '' findings in '' @ be_file e @ '' no longer occur: '' @ be_message e)
        (entry_location b index))"

definition orphan_finding :: "baseline \<Rightarrow> nat \<Rightarrow> string \<Rightarrow> finding" where
  "orphan_finding b index run_name =
     (let e = bl_entries b ! index in
      plain_finding baseline_stale_code
        (''no configured check can report the '' @ show_int (be_count e) @ '' baselined '' @ be_kind e @
         '' '' @ be_code e @ '' '' @ plural (be_count e) ''finding'' ''findings'' @ '' in '' @ be_file e @
         '' (dir '' @ show_quoted (be_dir e) @ ''), so this entry can never match; delete it, or run verify '' @
         run_name @ '' --write-baseline to drop it: '' @ be_message e)
        (entry_location b index))"

definition stale_entries :: "baseline \<Rightarrow> report \<Rightarrow> nat list" where
  "stale_entries b r = filter (\<lambda>i. missing b r i > 0) [0..<length (bl_entries b)]"

definition stale_at :: "baseline \<Rightarrow> report \<Rightarrow> nat \<Rightarrow> finding list" where
  "stale_at b r i =
     map (\<lambda>index. stale_finding b index (missing b r index))
       (filter (\<lambda>index. judgements b r index \<noteq> [] \<and> fst (hd (judgements b r index)) = i)
         (stale_entries b r))"

definition judged :: "result \<Rightarrow> finding list \<Rightarrow> result" where
  "judged res stale =
     (let stale = sort_key (\<lambda>f. (loc_line (fd_location f), fd_message f)) stale;
          fs = detail_findings (rs_details res) @ stale;
          res = (if stale \<noteq> [] then with_details res (replace_findings (rs_details res) fs) else res)
      in if list_ex (\<lambda>f. fails f \<and> fd_code f \<noteq> baseline_stale_code) fs
         then with_outcome res StatusFailed (rs_error res)
         else if stale \<noteq> [] then with_outcome res StatusFailed ''baseline entries no longer match; remove them''
         else with_outcome res StatusPassed '''')"

definition applied_results :: "baseline \<Rightarrow> report \<Rightarrow> result list" where
  "applied_results b r =
     map (\<lambda>(i, res). case judges r res of
            None \<Rightarrow> res
          | Some c \<Rightarrow> judged (mark_result b r res) (stale_at b r i)) (enumerate 0 (rp_results r))"

definition apply_baseline :: "baseline \<Rightarrow> report \<Rightarrow> config \<Rightarrow> report" where
  "apply_baseline b r cfg =
     (let results = applied_results b r;
          orphans = map (\<lambda>i. orphan_finding b i (rp_run r)) (orphaned b r cfg);
          status = report_status results;
          baselined = sum_list (map (\<lambda>res. case judges r res of None \<Rightarrow> 0 | Some c \<Rightarrow> marked_count b c res)
                                    (rp_results r))
      in r\<lparr>rp_results := results,
           rp_status := (if orphans \<noteq> [] \<and> status = StatusPassed then StatusFailed else status),
           rp_baseline := Some \<lparr>bs_file = bl_path b, bs_baselined = baselined,
             bs_stale = length (stale_entries b r) + length orphans, bs_orphaned = orphans\<rparr>\<rparr>)"

section \<open>Recording a baseline\<close>

datatype record_refusal = NoVerdict "(string \<times> status) list"

definition local_count :: "planned_check \<Rightarrow> result \<Rightarrow> baseline_key \<Rightarrow> int" where
  "local_count c res k =
     int (length (filter (\<lambda>f. markable f \<and> finding_key c f = k) (detail_findings (rs_details res))))"

definition local_keys :: "planned_check \<Rightarrow> result \<Rightarrow> baseline_key list" where
  "local_keys c res = map (finding_key c) (filter markable (detail_findings (rs_details res)))"

text \<open>
  A result whose ID the plan does not have finds Go's zero check, whose empty kind no baseline
  holds, so it judges nothing; \<open>Record\<close> reaches it only for results that completed.
\<close>

definition record_judges :: "report \<Rightarrow> (planned_check \<times> result) list" where
  "record_judges r = concat (map (\<lambda>res. case judges r res of None \<Rightarrow> [] | Some c \<Rightarrow> [(c, res)]) (rp_results r))"

definition kept_entries :: "baseline \<Rightarrow> report \<Rightarrow> config \<Rightarrow> baseline_entry list" where
  "kept_entries b r cfg =
     filter (\<lambda>e. \<not> orphan_entry r cfg e \<and> \<not> list_ex (\<lambda>(c, res). covers c res e) (record_judges r))
       (bl_entries b)"

definition found_count :: "report \<Rightarrow> baseline_key \<Rightarrow> int" where
  "found_count r k = foldl (\<lambda>m (c, res). max m (local_count c res k)) 0 (record_judges r)"

definition entry_counts :: "baseline_entry list \<Rightarrow> baseline_key \<Rightarrow> int option" where
  "entry_counts es = foldl (\<lambda>m e. m(entry_key e \<mapsto> be_count e)) (\<lambda>_. None) es"

definition recorded_count :: "baseline \<Rightarrow> report \<Rightarrow> config \<Rightarrow> baseline_key \<Rightarrow> int" where
  "recorded_count b r cfg k =
     (case entry_counts (kept_entries b r cfg) k of Some n \<Rightarrow> n | None \<Rightarrow> found_count r k)"

definition recorded_keys :: "baseline \<Rightarrow> report \<Rightarrow> config \<Rightarrow> baseline_key list" where
  "recorded_keys b r cfg =
     remdups (concat (map (\<lambda>(c, res). local_keys c res) (record_judges r)) @
              map entry_key (kept_entries b r cfg))"

definition key_entry :: "baseline_key \<Rightarrow> int \<Rightarrow> baseline_entry" where
  "key_entry k n = \<lparr>be_kind = bk_kind k, be_dir = bk_dir k, be_file = bk_file k, be_code = bk_code k,
     be_message = bk_message k, be_count = n\<rparr>"

definition entry_order :: "baseline_entry \<Rightarrow> string \<times> string \<times> string \<times> string \<times> string" where
  "entry_order e = (be_kind e, be_dir e, be_file e, be_code e, be_message e)"

definition unfinished :: "report \<Rightarrow> (string \<times> status) list" where
  "unfinished r = map (\<lambda>res. (rs_id res, rs_status res)) (filter (\<lambda>res. \<not> completed res) (rp_results r))"

definition unrecorded :: "report \<Rightarrow> string list" where
  "unrecorded r = map rs_id (filter (\<lambda>res. judges r res = None \<and> rs_status res = StatusFailed) (rp_results r))"

definition record_baseline ::
  "baseline \<Rightarrow> report \<Rightarrow> config \<Rightarrow> record_refusal + baseline \<times> baseline_change" where
  "record_baseline b r cfg =
     (if unfinished r \<noteq> [] \<or> rp_results r = [] then Inl (NoVerdict (unfinished r))
      else
        let before = (\<lambda>k. case entry_counts (bl_entries b) k of Some n \<Rightarrow> n | None \<Rightarrow> 0);
            keys = recorded_keys b r cfg;
            count = recorded_count b r cfg;
            old = remdups (map entry_key (bl_entries b))
        in Inr (\<lparr>bl_path = bl_path b,
                 bl_entries = sort_key entry_order (map (\<lambda>k. key_entry k (count k)) keys),
                 bl_lines = []\<rparr>,
                \<lparr>bc_added = sum_list (map (\<lambda>k. max 0 (count k - before k)) keys),
                 bc_removed = sum_list (map (\<lambda>k. max 0 (before k - (if k \<in> set keys then count k else 0))) old),
                 bc_unrecorded = unrecorded r\<rparr>))"

end
