(* ===== verification/Baseline_Properties.thy ===== *)
theory Baseline_Properties
  imports Baseline
begin

text \<open>
  What the baseline guarantees: marking never hides more findings than an entry accepts, a baseline
  recorded from a run accepts exactly that run, and where the normal form of a message fails to be
  stable it does not.
\<close>

section \<open>Marking\<close>

definition key_count :: "planned_check \<Rightarrow> finding list \<Rightarrow> baseline_key \<Rightarrow> int" where
  "key_count c fs k = int (length (filter (\<lambda>f. markable f \<and> finding_key c f = k) fs))"

lemma key_count_simps [simp]:
  "key_count c [] k = 0"
  "key_count c (f # fs) k = (if markable f \<and> finding_key c f = k then 1 else 0) + key_count c fs k"
  by (simp_all add: key_count_def)

lemma key_count_nonneg [simp]: "0 \<le> key_count c fs k"
  by (simp add: key_count_def)

lemma local_count_key_count: "local_count c res k = key_count c (detail_findings (rs_details res)) k"
  by (simp add: local_count_def key_count_def)

lemma mark_left:
  "0 \<le> left k \<Longrightarrow> mark_findings c left fs = (fs', n, left') \<Longrightarrow>
   left' k = max 0 (left k - key_count c fs k)"
proof (induction fs arbitrary: left fs' n left')
  case Nil
  then show ?case by simp
next
  case (Cons f fs)
  show ?case
  proof (cases "markable f \<and> left (finding_key c f) > 0")
    case True
    obtain gs m l where rec: "mark_findings c (left(finding_key c f := left (finding_key c f) - 1)) fs = (gs, m, l)"
      by (metis prod_cases3)
    have "l k = max 0 ((left(finding_key c f := left (finding_key c f) - 1)) k - key_count c fs k)"
      using Cons.IH [OF _ rec] Cons.prems(1) True by auto
    then show ?thesis using Cons.prems(2) True rec by auto
  next
    case False
    obtain gs m l where rec: "mark_findings c left fs = (gs, m, l)" by (metis prod_cases3)
    have "l k = max 0 (left k - key_count c fs k)" using Cons.IH [OF Cons.prems(1) rec] .
    then show ?thesis using Cons.prems False rec key_count_nonneg [of c fs k]
      by (auto simp: Let_def max_def simp del: key_count_nonneg split: if_splits)
  qed
qed

lemma mark_all:
  "\<forall>k. key_count c fs k \<le> left k \<Longrightarrow> mark_findings c left fs = (fs', n, left') \<Longrightarrow>
   \<forall>f \<in> set fs'. markable f \<longrightarrow> fd_baselined f"
proof (induction fs arbitrary: left fs' n left')
  case Nil
  then show ?case by simp
next
  case (Cons f fs)
  let ?k = "finding_key c f"
  show ?case
  proof (cases "markable f")
    case True
    have "1 + key_count c fs ?k \<le> left ?k" using Cons.prems(1) True by (auto dest: spec [of _ ?k])
    then have pos: "left ?k > 0" using key_count_nonneg [of c fs ?k] by linarith
    obtain gs m l where rec: "mark_findings c (left(?k := left ?k - 1)) fs = (gs, m, l)"
      by (metis prod_cases3)
    have "\<forall>k. key_count c fs k \<le> (left(?k := left ?k - 1)) k"
    proof
      fix k
      have "key_count c (f # fs) k \<le> left k" using Cons.prems(1) by blast
      then show "key_count c fs k \<le> (left(?k := left ?k - 1)) k" using True by auto
    qed
    from Cons.IH [OF this rec] show ?thesis using Cons.prems(2) True pos rec by auto
  next
    case False
    obtain gs m l where rec: "mark_findings c left fs = (gs, m, l)" by (metis prod_cases3)
    have "\<forall>k. key_count c fs k \<le> left k" using Cons.prems(1) False by auto
    from Cons.IH [OF this rec] show ?thesis using Cons.prems(2) False rec by (auto simp: Let_def)
  qed
qed

text \<open>A marked list is the old one with some markable findings marked.\<close>

definition marks :: "finding \<Rightarrow> finding \<Rightarrow> bool" where
  "marks f g \<longleftrightarrow> g = f \<or> markable f \<and> g = f\<lparr>fd_baselined := True\<rparr>"

lemma mark_shape:
  "mark_findings c left fs = (fs', n, left') \<Longrightarrow> list_all2 marks fs fs'"
proof (induction fs arbitrary: left fs' n left')
  case (Cons f fs)
  show ?case
  proof (cases "markable f \<and> left (finding_key c f) > 0")
    case True
    obtain gs m l where rec: "mark_findings c (left(finding_key c f := left (finding_key c f) - 1)) fs = (gs, m, l)"
      by (metis prod_cases3)
    then show ?thesis using Cons.IH [OF rec] Cons.prems True by (auto simp: marks_def)
  next
    case False
    obtain gs m l where rec: "mark_findings c left fs = (gs, m, l)" by (metis prod_cases3)
    then show ?thesis using Cons.IH [OF rec] Cons.prems False by (auto simp: marks_def Let_def)
  qed
qed simp

definition new_marks :: "planned_check \<Rightarrow> baseline_key \<Rightarrow> finding list \<Rightarrow> finding list \<Rightarrow> int" where
  "new_marks c k fs fs' =
     int (length (filter (\<lambda>(f, g). finding_key c f = k \<and> fd_baselined g \<and> \<not> fd_baselined f) (zip fs fs')))"

lemma mark_bounded:
  "mark_findings c left fs = (fs', n, left') \<Longrightarrow> new_marks c k fs fs' \<le> max 0 (left k)"
proof (induction fs arbitrary: left fs' n left')
  case Nil
  then show ?case by (simp add: new_marks_def)
next
  case (Cons f fs)
  show ?case
  proof (cases "markable f \<and> left (finding_key c f) > 0")
    case True
    obtain gs m l where rec: "mark_findings c (left(finding_key c f := left (finding_key c f) - 1)) fs = (gs, m, l)"
      by (metis prod_cases3)
    from Cons.IH [OF rec] show ?thesis using Cons.prems True rec by (auto simp: new_marks_def split: if_splits)
  next
    case False
    obtain gs m l where rec: "mark_findings c left fs = (gs, m, l)" by (metis prod_cases3)
    from Cons.IH [OF rec] show ?thesis using Cons.prems False rec by (auto simp: new_marks_def Let_def)
  qed
qed

section \<open>Allowances\<close>

lemma allowance_fold:
  "inj_on key (set is) \<Longrightarrow> i \<in> set is \<Longrightarrow>
   foldl (\<lambda>l i. l(key i := cnt i)) l0 is (key i) = (cnt i :: int)"
proof (induction "is" arbitrary: l0 rule: rev_induct)
  case (snoc j js)
  then show ?case
    by (cases "key j = key i") (auto simp: inj_on_def)
qed simp

lemma allowance_other:
  "k \<notin> key ` set is \<Longrightarrow> foldl (\<lambda>l i. l(key i := cnt i)) l0 is k = l0 k"
  by (induction "is" arbitrary: l0) auto

lemma set_covering: "i \<in> set (covering b c res) \<longleftrightarrow> i < length (bl_entries b) \<and> covers c res (bl_entries b ! i)"
  by (auto simp: covering_def)

text \<open>An allowance is never more than what the entries that share a key accept.\<close>

lemma allowance_bound:
  "allowance b c res k = 0 \<or> (\<exists>e \<in> set (bl_entries b). covers c res e \<and> entry_key e = k \<and> allowance b c res k = be_count e)"
proof -
  have "foldl (\<lambda>l i. l(entry_key (bl_entries b ! i) := be_count (bl_entries b ! i))) (\<lambda>_. 0) is k = 0 \<or>
      (\<exists>i \<in> set is. entry_key (bl_entries b ! i) = k \<and>
        foldl (\<lambda>l i. l(entry_key (bl_entries b ! i) := be_count (bl_entries b ! i))) (\<lambda>_. 0) is k
          = be_count (bl_entries b ! i))" for "is"
    by (induction "is" rule: rev_induct) auto
  from this [of "covering b c res"] show ?thesis
    unfolding allowance_def by (meson nth_mem set_covering)
qed

text \<open>What an entry is judged by: its kind, directory and code.\<close>

definition same_rule :: "baseline_entry \<Rightarrow> baseline_entry \<Rightarrow> bool" where
  "same_rule e d \<longleftrightarrow> be_kind e = be_kind d \<and> be_dir e = be_dir d \<and> be_code e = be_code d"

lemma covers_same: "same_rule e d \<Longrightarrow> covers c res e = covers c res d"
  by (simp add: covers_def same_rule_def)

lemma produces_same: "same_rule e d \<Longrightarrow> produces c e = produces c d"
  by (simp add: produces_def same_rule_def)

lemma orphan_same: "same_rule e d \<Longrightarrow> orphan_entry r cfg e = orphan_entry r cfg d"
  by (simp add: orphan_entry_def produces_same [of e d] covers_same [of e d]
      cong: option.case_cong)

lemma same_rule_key: "entry_key e = k \<Longrightarrow> same_rule (key_entry k n) e"
  by (auto simp: same_rule_def key_entry_def entry_key_def)

lemma covers_reported:
  "f \<in> set (detail_findings (rs_details res)) \<Longrightarrow> finding_key c f = k \<Longrightarrow> covers c res (key_entry k n)"
  by (auto simp: covers_def key_entry_def finding_key_def list_ex_iff)

section \<open>A recorded baseline\<close>

lemma record_judges_iff: "(c, res) \<in> set (record_judges r) \<longleftrightarrow> res \<in> set (rp_results r) \<and> judges r res = Some c"
  by (auto simp: record_judges_def split: option.splits)

lemma judges_planned: "judges r res = Some c \<Longrightarrow> planned_for r res = Some c"
  by (auto simp: judges_def split: option.splits if_splits)

lemma kept_entry:
  "e \<in> set (kept_entries b r cfg) \<longleftrightarrow> e \<in> set (bl_entries b) \<and> \<not> orphan_entry r cfg e \<and>
     (\<forall>c res. (c, res) \<in> set (record_judges r) \<longrightarrow> \<not> covers c res e)"
  by (auto simp: kept_entries_def list_ex_iff)

lemma entry_counts_None: "entry_counts es k = None \<longleftrightarrow> k \<notin> entry_key ` set es"
proof -
  have "foldl (\<lambda>m e. m(entry_key e \<mapsto> be_count e)) m0 es k = None \<longleftrightarrow> k \<notin> entry_key ` set es \<and> m0 k = None" for m0
    by (induction es arbitrary: m0) auto
  then show ?thesis by (simp add: entry_counts_def)
qed

lemma found_max:
  "foldl (\<lambda>m (c, res). max m (g c res)) (m0::int) js = Max (insert m0 ((\<lambda>(c, res). g c res) ` set js))"
proof (induction js arbitrary: m0)
  case (Cons j js)
  obtain c res where j: "j = (c, res)" by (cases j)
  have "Max (insert (max m0 (g c res)) ((\<lambda>(c, res). g c res) ` set js)) =
      Max (insert m0 (insert (g c res) ((\<lambda>(c, res). g c res) ` set js)))"
    by (cases "set js = {}") (auto simp: max.assoc)
  then show ?case using Cons j by simp
qed simp

lemma found_count_ge: "(c, res) \<in> set (record_judges r) \<Longrightarrow> local_count c res k \<le> found_count r k"
  unfolding found_count_def found_max by (rule Max_ge) auto

lemma found_count_nonneg: "0 \<le> found_count r k"
  unfolding found_count_def found_max by (rule Max_ge) auto

lemma found_count_attained:
  "found_count r k = 0 \<or> (\<exists>(c, res) \<in> set (record_judges r). local_count c res k = found_count r k)"
proof -
  have "found_count r k \<in> insert 0 ((\<lambda>(c, res). local_count c res k) ` set (record_judges r))"
    unfolding found_count_def found_max by (rule Max_in) auto
  then show ?thesis by auto
qed

definition stable_messages :: "report \<Rightarrow> bool" where
  "stable_messages r \<longleftrightarrow> list_all (\<lambda>(c, res). list_all (\<lambda>f. markable f \<longrightarrow>
     normalize_message (normalize_message (fd_message f)) = normalize_message (fd_message f))
       (detail_findings (rs_details res))) (record_judges r)"

lemma key_entry_key: "normalize_message (bk_message k) = bk_message k \<Longrightarrow> entry_key (key_entry k n) = k"
  by (simp add: entry_key_def key_entry_def)

lemma local_keys_iff: "k \<in> set (local_keys c res) \<longleftrightarrow> (\<exists>f \<in> set (detail_findings (rs_details res)). markable f \<and> finding_key c f = k)"
  by (auto simp: local_keys_def)

lemma found_key_stable:
  "stable_messages r \<Longrightarrow> (c, res) \<in> set (record_judges r) \<Longrightarrow> k \<in> set (local_keys c res) \<Longrightarrow>
   normalize_message (bk_message k) = bk_message k"
  by (fastforce simp: stable_messages_def list_all_iff local_keys_iff finding_key_def)

text \<open>A key some judge of the run reported is recorded with the number the run found.\<close>

lemma found_key_count:
  assumes "(c, res) \<in> set (record_judges r)" "k \<in> set (local_keys c res)"
  shows "k \<in> set (recorded_keys b r cfg)" "recorded_count b r cfg k = found_count r k"
proof -
  show "k \<in> set (recorded_keys b r cfg)" using assms by (auto simp: recorded_keys_def)
  have "k \<notin> entry_key ` set (kept_entries b r cfg)"
  proof
    assume "k \<in> entry_key ` set (kept_entries b r cfg)"
    then obtain e where e: "e \<in> set (kept_entries b r cfg)" "entry_key e = k" by auto
    from assms(2) obtain f where "f \<in> set (detail_findings (rs_details res))" "finding_key c f = k"
      by (auto simp: local_keys_iff)
    then have "covers c res (key_entry k 0)" by (rule covers_reported)
    then have "covers c res e" using same_rule_key [OF e(2)] covers_same by blast
    then show False using e(1) assms(1) kept_entry by blast
  qed
  then show "recorded_count b r cfg k = found_count r k"
    by (simp add: recorded_count_def entry_counts_None [THEN iffD2])
qed

text \<open>An entry of the recorded baseline that a judge of the run covers comes from what the run found.\<close>

lemma covered_key_found:
  assumes "k \<in> set (recorded_keys b r cfg)" "(c, res) \<in> set (record_judges r)" "covers c res (key_entry k n)"
  obtains c' res' where "(c', res') \<in> set (record_judges r)" "k \<in> set (local_keys c' res')"
proof -
  from assms(1) consider "\<exists>c' res'. (c', res') \<in> set (record_judges r) \<and> k \<in> set (local_keys c' res')"
    | "k \<in> entry_key ` set (kept_entries b r cfg)"
    by (auto simp: recorded_keys_def)
  then show ?thesis
  proof cases
    case 1
    then show ?thesis using that by blast
  next
    case 2
    then obtain e where e: "e \<in> set (kept_entries b r cfg)" "entry_key e = k" by auto
    then have "covers c res e" using assms(3) same_rule_key covers_same by blast
    then show ?thesis using e(1) assms(2) kept_entry by blast
  qed
qed

lemma recorded_entries:
  assumes "record_baseline b r cfg = Inr (b', change)"
  shows "set (bl_entries b') = (\<lambda>k. key_entry k (recorded_count b r cfg k)) ` set (recorded_keys b r cfg)"
    and "distinct (bl_entries b')" and "bl_path b' = bl_path b" and "unfinished r = []"
    and "rp_results r \<noteq> []" and "sorted (map entry_order (bl_entries b'))"
proof -
  let ?e = "\<lambda>k. key_entry k (recorded_count b r cfg k)"
  have b': "bl_entries b' = sort_key entry_order (map ?e (recorded_keys b r cfg))" "bl_path b' = bl_path b"
    and fin: "unfinished r = []" "rp_results r \<noteq> []"
    using assms by (auto simp: record_baseline_def Let_def split: if_splits)
  show "set (bl_entries b') = ?e ` set (recorded_keys b r cfg)" by (simp add: b')
  have "inj ?e"
    by (rule injI, rule baseline_key.equality) (simp_all add: key_entry_def)
  then show "distinct (bl_entries b')"
    by (auto simp: b' distinct_map recorded_keys_def intro: inj_on_subset)
  show "bl_path b' = bl_path b" "unfinished r = []" "rp_results r \<noteq> []" using b' fin by simp_all
  show "sorted (map entry_order (bl_entries b'))" by (simp add: b')
qed

text \<open>The allowances of a recorded baseline in the run it was recorded from.\<close>

lemma recorded_allowance:
  assumes rec: "record_baseline b r cfg = Inr (b', change)" and stable: "stable_messages r"
    and judge: "(c, res) \<in> set (record_judges r)" and covered: "i \<in> set (covering b' c res)"
  shows "\<exists>k. bl_entries b' ! i = key_entry k (found_count r k) \<and> entry_key (bl_entries b' ! i) = k \<and>
      (\<exists>c' res'. (c', res') \<in> set (record_judges r) \<and> k \<in> set (local_keys c' res')) \<and>
      allowance b' c res k = found_count r k"
proof -
  note es = recorded_entries [OF rec]
  have found: "\<exists>k. bl_entries b' ! j = key_entry k (found_count r k) \<and> entry_key (bl_entries b' ! j) = k \<and>
      (\<exists>c' res'. (c', res') \<in> set (record_judges r) \<and> k \<in> set (local_keys c' res'))"
    if j: "j \<in> set (covering b' c res)" for j
  proof -
    from j have len: "j < length (bl_entries b')" and cov: "covers c res (bl_entries b' ! j)"
      by (auto simp: set_covering)
    then obtain k where k: "k \<in> set (recorded_keys b r cfg)"
        "bl_entries b' ! j = key_entry k (recorded_count b r cfg k)"
      using es(1) nth_mem by blast
    obtain c' res' where f: "(c', res') \<in> set (record_judges r)" "k \<in> set (local_keys c' res')"
      using covered_key_found [OF k(1) judge] cov k(2) by metis
    have "entry_key (bl_entries b' ! j) = k"
      unfolding k(2) by (rule key_entry_key, rule found_key_stable [OF stable f])
    moreover have "bl_entries b' ! j = key_entry k (found_count r k)"
      using k(2) found_key_count(2) [OF f] by simp
    ultimately show ?thesis using f by blast
  qed
  have inj: "inj_on (\<lambda>j. entry_key (bl_entries b' ! j)) (set (covering b' c res))"
  proof (rule inj_onI)
    fix i j assume ij: "i \<in> set (covering b' c res)" "j \<in> set (covering b' c res)"
      "entry_key (bl_entries b' ! i) = entry_key (bl_entries b' ! j)"
    then have "bl_entries b' ! i = bl_entries b' ! j" using found [OF ij(1)] found [OF ij(2)] by auto
    then show "i = j" using ij es(2) by (simp add: set_covering nth_eq_iff_index_eq)
  qed
  from found [OF covered] obtain k where k: "bl_entries b' ! i = key_entry k (found_count r k)"
    "entry_key (bl_entries b' ! i) = k"
    "\<exists>c' res'. (c', res') \<in> set (record_judges r) \<and> k \<in> set (local_keys c' res')"
    by blast
  have "allowance b' c res (entry_key (bl_entries b' ! i)) = be_count (bl_entries b' ! i)"
    unfolding allowance_def by (rule allowance_fold [OF inj covered])
  then have "allowance b' c res k = found_count r k" using k by (simp add: key_entry_def)
  then show ?thesis using k by blast
qed

lemma recorded_key_covered:
  assumes rec: "record_baseline b r cfg = Inr (b', change)"
    and judge: "(c, res) \<in> set (record_judges r)" and k: "k \<in> set (local_keys c res)"
  obtains i where "i \<in> set (covering b' c res)" "bl_entries b' ! i = key_entry k (found_count r k)"
proof -
  have "key_entry k (found_count r k) \<in> set (bl_entries b')"
    using found_key_count [OF judge k] recorded_entries(1) [OF rec] by (metis imageI)
  then obtain i where i: "i < length (bl_entries b')" "bl_entries b' ! i = key_entry k (found_count r k)"
    by (auto simp: in_set_conv_nth)
  moreover have "covers c res (bl_entries b' ! i)"
    using k covers_reported by (auto simp: i(2) local_keys_iff)
  ultimately show ?thesis using that by (simp add: set_covering)
qed

lemma local_count_zero: "k \<notin> set (local_keys c res) \<Longrightarrow> local_count c res k = 0"
  by (auto simp: local_count_def local_keys_iff filter_empty_conv)

lemma recorded_suffices:
  assumes rec: "record_baseline b r cfg = Inr (b', change)" and stable: "stable_messages r"
    and judge: "(c, res) \<in> set (record_judges r)"
  shows "0 \<le> allowance b' c res k" "local_count c res k \<le> allowance b' c res k"
proof -
  have nonneg: "0 \<le> allowance b' c res k" for k
  proof (cases "\<exists>i \<in> set (covering b' c res). entry_key (bl_entries b' ! i) = k")
    case True
    then obtain i where "i \<in> set (covering b' c res)" "entry_key (bl_entries b' ! i) = k" by blast
    from recorded_allowance [OF rec stable judge this(1)] this(2) show ?thesis
      using found_count_nonneg by auto
  next
    case False
    then have "allowance b' c res k = 0"
      unfolding allowance_def by (subst allowance_other) auto
    then show ?thesis by simp
  qed
  then show "0 \<le> allowance b' c res k" .
  show "local_count c res k \<le> allowance b' c res k"
  proof (cases "k \<in> set (local_keys c res)")
    case False
    then show ?thesis using nonneg local_count_zero by simp
  next
    case True
    then obtain i where i: "i \<in> set (covering b' c res)" "bl_entries b' ! i = key_entry k (found_count r k)"
      by (rule recorded_key_covered [OF rec judge])
    have "entry_key (bl_entries b' ! i) = k"
      unfolding i(2) by (rule key_entry_key, rule found_key_stable [OF stable judge True])
    with recorded_allowance [OF rec stable judge i(1)] show ?thesis
      using found_count_ge [OF judge] by auto
  qed
qed

lemma marked_baselined:
  assumes rec: "record_baseline b r cfg = Inr (b', change)" and stable: "stable_messages r"
    and judge: "(c, res) \<in> set (record_judges r)"
  shows "\<forall>f \<in> set (marked b' c res). markable f \<longrightarrow> fd_baselined f"
proof -
  let ?fs = "detail_findings (rs_details res)"
  obtain fs' n left' where m: "mark_findings c (allowance b' c res) ?fs = (fs', n, left')"
    by (metis prod_cases3)
  have "\<forall>k. key_count c ?fs k \<le> allowance b' c res k"
    using recorded_suffices(2) [OF rec stable judge] by (simp add: local_count_key_count)
  from mark_all [OF this m] show ?thesis by (simp add: marked_def m)
qed

lemma unused_recorded:
  assumes rec: "record_baseline b r cfg = Inr (b', change)" and stable: "stable_messages r"
    and judge: "(c, res) \<in> set (record_judges r)"
  shows "unused_allowance b' c res k = allowance b' c res k - local_count c res k"
proof -
  let ?fs = "detail_findings (rs_details res)"
  obtain fs' n left' where m: "mark_findings c (allowance b' c res) ?fs = (fs', n, left')"
    by (metis prod_cases3)
  show ?thesis
    using mark_left [OF recorded_suffices(1) [OF rec stable judge] m]
      recorded_suffices(2) [OF rec stable judge, of k]
    by (simp add: unused_allowance_def m local_count_key_count)
qed

lemma judgements_iff:
  "(i, n) \<in> set (judgements b r index) \<longleftrightarrow> i < length (rp_results r) \<and>
     (\<exists>c. judges r (rp_results r ! i) = Some c \<and> index \<in> set (covering b c (rp_results r ! i)) \<and>
        n = unused_allowance b c (rp_results r ! i) (entry_key (bl_entries b ! index)))"
proof -
  have "set (enumerate 0 (rp_results r)) = (\<lambda>i. (i, rp_results r ! i)) ` {..<length (rp_results r)}"
    by (auto simp: in_set_enumerate_eq image_iff)
  moreover have "(i, n) \<in> set (case judges r (rp_results r ! x) of None \<Rightarrow> []
      | Some c \<Rightarrow> if index \<in> set (covering b c (rp_results r ! x))
          then [(x, unused_allowance b c (rp_results r ! x) (entry_key (bl_entries b ! index)))] else []) \<longleftrightarrow>
     x = i \<and> (\<exists>c. judges r (rp_results r ! x) = Some c \<and> index \<in> set (covering b c (rp_results r ! x)) \<and>
        n = unused_allowance b c (rp_results r ! x) (entry_key (bl_entries b ! index)))" for x
    by (cases "judges r (rp_results r ! x)") auto
  ultimately show ?thesis by (simp add: judgements_def)
qed

lemma min_fold: "n \<in> snd ` set js \<Longrightarrow> foldl (\<lambda>m (_, n). min m n) (m::int) js \<le> n"
proof -
  have le: "foldl (\<lambda>m (_, n). min m n) (m::int) js \<le> m" for m js
  proof (induction js arbitrary: m)
    case (Cons j js)
    have "foldl (\<lambda>m (_, n). min m n) (min m (snd j)) js \<le> min m (snd j)" by (rule Cons.IH)
    then show ?case by (cases j) simp
  qed simp
  show "n \<in> snd ` set js \<Longrightarrow> foldl (\<lambda>m (_, n). min m n) m js \<le> n"
  proof (induction js arbitrary: m)
    case (Cons j js)
    show ?case
    proof (cases "n = snd j")
      case True
      have "foldl (\<lambda>m (_, n). min m n) (min m n) js \<le> min m n" by (rule le)
      then show ?thesis using True by (cases j) simp
    next
      case False
      then show ?thesis using Cons by (cases j) auto
    qed
  qed simp
qed

lemma missing_le: "(i, n) \<in> set (judgements b r index) \<Longrightarrow> missing b r index \<le> n"
proof -
  assume i: "(i, n) \<in> set (judgements b r index)"
  then obtain j js where js: "judgements b r index = j # js" by (cases "judgements b r index") auto
  have le: "foldl (\<lambda>m (_, n). min m n) (snd j) (j # js) \<le> n" by (rule min_fold) (use i js in force)
  then show ?thesis by (cases j) (simp add: missing_def js)
qed

lemma recorded_no_stale:
  assumes rec: "record_baseline b r cfg = Inr (b', change)" and stable: "stable_messages r"
  shows "stale_entries b' r = []"
proof -
  have "missing b' r index \<le> 0" if index: "index < length (bl_entries b')" for index
  proof (cases "judgements b' r index")
    case Nil
    then show ?thesis by (simp add: missing_def)
  next
    case (Cons j js)
    then have "(fst j, snd j) \<in> set (judgements b' r index)" by simp
    then obtain c where j: "fst j < length (rp_results r)" "judges r (rp_results r ! fst j) = Some c"
        "index \<in> set (covering b' c (rp_results r ! fst j))"
      by (auto simp only: judgements_iff)
    then have judge: "(c, rp_results r ! fst j) \<in> set (record_judges r)" by (simp add: record_judges_iff)
    obtain k c' res' where k: "bl_entries b' ! index = key_entry k (found_count r k)"
        "entry_key (bl_entries b' ! index) = k" "(c', res') \<in> set (record_judges r)" "k \<in> set (local_keys c' res')"
      using recorded_allowance [OF rec stable judge j(3)] by blast
    from k(4) have "local_count c' res' k \<noteq> 0"
      by (auto simp: local_count_def local_keys_iff filter_empty_conv)
    with found_count_ge [OF k(3), of k] have "found_count r k \<noteq> 0"
      by (auto simp: local_count_def)
    then obtain d sres where d: "(d, sres) \<in> set (record_judges r)" "local_count d sres k = found_count r k"
      using found_count_attained [of r k] by blast
    then have "k \<in> set (local_keys d sres)" using local_count_zero \<open>found_count r k \<noteq> 0\<close> by metis
    then have cov: "index \<in> set (covering b' d sres)"
      using index k(1) covers_reported by (auto simp: set_covering local_keys_iff)
    from d(1) obtain m where m: "m < length (rp_results r)" "rp_results r ! m = sres" "judges r sres = Some d"
      using that by (metis record_judges_iff in_set_conv_nth)
    have "(m, unused_allowance b' d sres k) \<in> set (judgements b' r index)"
      using m cov k(2) by (auto simp: judgements_iff)
    moreover have "unused_allowance b' d sres k = 0"
      using unused_recorded [OF rec stable d(1)] recorded_allowance [OF rec stable d(1) cov] k(2) d(2)
      by auto
    ultimately show ?thesis using missing_le by fastforce
  qed
  then show ?thesis by (auto simp: stale_entries_def filter_empty_conv not_less)
qed

lemma recorded_no_orphan:
  assumes rec: "record_baseline b r cfg = Inr (b', change)"
  shows "orphaned b' r cfg = []"
proof -
  have "\<not> orphan_entry r cfg e" if "e \<in> set (bl_entries b')" for e
  proof -
    from that recorded_entries(1) [OF rec] obtain k where k: "k \<in> set (recorded_keys b r cfg)"
      "e = key_entry k (recorded_count b r cfg k)" by auto
    from k(1) consider c res where "(c, res) \<in> set (record_judges r)" "k \<in> set (local_keys c res)"
      | e0 where "e0 \<in> set (kept_entries b r cfg)" "entry_key e0 = k"
      by (auto simp: recorded_keys_def)
    then show ?thesis
    proof cases
      case 1
      then obtain f where "f \<in> set (detail_findings (rs_details res))" "finding_key c f = k"
        by (auto simp: local_keys_iff)
      then have "covers c res e" unfolding k(2) by (rule covers_reported)
      moreover have "res \<in> set (rp_results r)" "planned_for r res = Some c"
        using 1(1) by (auto simp: record_judges_iff judges_planned)
      ultimately show ?thesis by (force simp: orphan_entry_def list_ex_iff)
    next
      case 2
      have "same_rule e e0" unfolding k(2) by (rule same_rule_key [OF 2(2)])
      then show ?thesis using 2(1) orphan_same kept_entry by blast
    qed
  qed
  then show ?thesis by (simp add: orphaned_def filter_empty_conv)
qed

lemma judged_passes:
  "\<forall>f \<in> set (detail_findings (rs_details res)). fails f \<longrightarrow> fd_code f = baseline_stale_code \<Longrightarrow>
   rs_status (judged res []) = StatusPassed"
  by (auto simp: judged_def Let_def list_ex_iff with_outcome_def)

lemma marked_details:
  "judges r res = Some c \<Longrightarrow> detail_findings (rs_details (mark_result b r res)) = marked b c res"
proof -
  assume j: "judges r res = Some c"
  let ?fs = "detail_findings (rs_details res)"
  obtain fs' n left' where m: "mark_findings c (allowance b c res) ?fs = (fs', n, left')"
    by (metis prod_cases3)
  from mark_shape [OF m] have "fs' = [] \<longleftrightarrow> ?fs = []" by auto
  then have ne: "marked b c res = [] \<longleftrightarrow> ?fs = []" by (simp add: marked_def m)
  show ?thesis
  proof (cases "?fs = []")
    case True
    then show ?thesis using j ne by (simp add: mark_result_def)
  next
    case False
    then have "decodable (rs_details res)" by (rule detail_findings_decodable)
    then show ?thesis using j ne False by (simp add: mark_result_def with_details_def)
  qed
qed

lemma applied_nth:
  "i < length (rp_results r) \<Longrightarrow> applied_results b r ! i =
     (case judges r (rp_results r ! i) of None \<Rightarrow> rp_results r ! i
      | Some c \<Rightarrow> judged (mark_result b r (rp_results r ! i)) (stale_at b r i))"
  by (simp add: applied_results_def nth_enumerate_eq)

lemma length_applied [simp]: "length (applied_results b r) = length (rp_results r)"
  by (simp add: applied_results_def)

lemma mark_result_status: "rs_status (mark_result b r res) = rs_status res"
  by (simp add: mark_result_def with_details_def split: option.split)


section \<open>A concrete run\<close>

definition lint_finding :: "string \<Rightarrow> int \<Rightarrow> string \<Rightarrow> finding" where
  "lint_finding code line message =
     plain_finding code message \<lparr>loc_file = ''cmd/run.go'', loc_line = line, loc_column = 2\<rparr>"

definition lint_result :: "finding list \<Rightarrow> result" where
  "lint_result fs = (outcome StatusFailed ''Go policy lint failed'')
     \<lparr>rs_id := CheckGoLint, rs_details := findings_details fs\<rparr>"

definition lint_plan :: plan where
  "lint_plan = \<lparr>pl_version = 1, pl_run = ''branch'', pl_rerun_checks = False,
     pl_baseline = ''baseline.json'', pl_checks =
       [\<lparr>pc_id = CheckGoLint, pc_check = plain_check CheckGoLint default_target default_environment,
         pc_target = \<lparr>tg_dir = dot, tg_workspace = dot, tg_inputs = [dot], tg_exclude = [],
           tg_discovery = DiscoveryGit\<rparr>,
         pc_environment = zero_environment\<lparr>en_executor := ExecutorDagger\<rparr>,
         pc_preparation = None, pc_build = None, pc_rule_modules = []\<rparr>]\<rparr>"

definition lint_report :: "finding list \<Rightarrow> report" where
  "lint_report fs = run_report lint_plan [lint_result fs]"

definition no_baseline :: baseline where
  "no_baseline = \<lparr>bl_path = ''baseline.json'', bl_entries = [], bl_lines = []\<rparr>"

definition two_findings :: "finding list" where
  "two_findings = [lint_finding ''SA4006'' 12 ''value of x at run.go:9:2 is never used'',
     lint_finding ''LV1004'' 30 ''add a blank line'']"

lemma lint_stable: "stable_messages (lint_report two_findings)"
  by code_simp

lemma lint_completed: "unfinished (lint_report two_findings) = [] \<and> rp_results (lint_report two_findings) \<noteq> []"
  by code_simp


section \<open>Where the normal form is not stable\<close>

definition position_finding :: "finding list" where
  "position_finding = [lint_finding ''SA4006'' 12 ''see run.go:1:2:3'']"

text \<open>Dropping positions is not idempotent: the message \<open>see run.go:1:2:3\<close> normalizes to
  \<open>see run.go:3\<close>, which is written to the file and normalizes again to \<open>see run.go\<close> when it is
  read. The recorded entry therefore matches nothing: the run it was recorded from still fails, and
  its entry is stale.\<close>

theorem unstable_message_never_matches:
  "normalize_message ''see run.go:1:2:3'' = ''see run.go:3'' \<and>
   normalize_message ''see run.go:3'' = ''see run.go'' \<and>
   (case record_baseline no_baseline (lint_report position_finding) default_config of
      Inl _ \<Rightarrow> False
    | Inr (b', _) \<Rightarrow>
        rp_status (apply_baseline b' (lint_report position_finding) default_config) = StatusFailed \<and>
        map_option bs_stale (rp_baseline (apply_baseline b' (lint_report position_finding) default_config)) = Some 1)"
  by code_simp

section \<open>What applying a baseline does to a result\<close>

lemma sort_key_Nil [simp]: "sort_key f xs = [] \<longleftrightarrow> xs = []"
  by (metis length_0_conv length_sort)

lemma judged_details:
  "detail_findings (rs_details (judged res stale)) =
     (if stale = [] \<or> \<not> decodable (rs_details res) then detail_findings (rs_details res)
      else detail_findings (rs_details res) @ sort_key (\<lambda>f. (loc_line (fd_location f), fd_message f)) stale)"
  by (auto simp: judged_def Let_def with_outcome_def with_details_def replace_bad)

lemma judged_status:
  "\<forall>f \<in> set stale. fd_code f = baseline_stale_code \<Longrightarrow>
   rs_status (judged res stale) = StatusPassed \<longleftrightarrow>
     stale = [] \<and> (\<forall>f \<in> set (detail_findings (rs_details res)). fails f \<longrightarrow> fd_code f = baseline_stale_code)"
  by (auto simp: judged_def Let_def with_outcome_def with_details_def list_ex_iff)

lemma stale_at_codes: "\<forall>f \<in> set (stale_at b r i). fd_code f = baseline_stale_code"
  by (auto simp: stale_at_def stale_finding_def plain_finding_def Let_def)

text \<open>Applying a baseline to a judged result marks some of its findings and appends only stale
  findings; of one key it marks no more findings than some entry covered by that check accepts; and
  the result passes exactly when nothing stale was added and every finding left unmarked is advisory,
  already baselined or itself a stale finding.\<close>

theorem apply_marks_within_entries:
  assumes "i < length (rp_results r)" "judges r (rp_results r ! i) = Some c"
  shows "let old = detail_findings (rs_details (rp_results r ! i));
             res' = rp_results (apply_baseline b r cfg) ! i;
             new = take (length old) (detail_findings (rs_details res'));
             added = drop (length old) (detail_findings (rs_details res'))
         in list_all2 marks old new \<and> (\<forall>f \<in> set added. fd_code f = baseline_stale_code) \<and>
            (\<forall>k. new_marks c k old new \<le> 0 \<or>
               (\<exists>e \<in> set (bl_entries b). covers c (rp_results r ! i) e \<and> entry_key e = k \<and>
                  new_marks c k old new \<le> be_count e)) \<and>
            (rs_status res' = StatusPassed \<longleftrightarrow> stale_at b r i = [] \<and>
               (\<forall>f \<in> set new. fails f \<longrightarrow> fd_code f = baseline_stale_code))"
proof -
  let ?res = "rp_results r ! i"
  let ?old = "detail_findings (rs_details ?res)"
  let ?new = "marked b c ?res"
  define res' where "res' = judged (mark_result b r ?res) (stale_at b r i)"
  have res': "rp_results (apply_baseline b r cfg) ! i = res'"
    using assms by (simp add: apply_baseline_def Let_def applied_nth res'_def)
  obtain fs' n left' where m: "mark_findings c (allowance b c ?res) ?old = (fs', n, left')"
    by (metis prod_cases3)
  then have new: "?new = fs'" by (simp add: marked_def)
  have shape: "list_all2 marks ?old ?new" unfolding new by (rule mark_shape [OF m])
  then have len: "length ?new = length ?old" by (simp add: list_all2_lengthD)
  have codes: "\<forall>f \<in> set (stale_at b r i). fd_code f = baseline_stale_code" by (rule stale_at_codes)
  obtain added where details: "detail_findings (rs_details res') = ?new @ added"
      "\<forall>f \<in> set added. fd_code f = baseline_stale_code"
  proof
    show "detail_findings (rs_details res') = ?new @ (if stale_at b r i = [] \<or>
        \<not> decodable (rs_details (mark_result b r ?res)) then []
        else sort_key (\<lambda>f. (loc_line (fd_location f), fd_message f)) (stale_at b r i))"
      by (simp add: res'_def judged_details marked_details [OF assms(2)])
  qed (use codes in auto)
  have status: "rs_status res' = StatusPassed \<longleftrightarrow> stale_at b r i = [] \<and>
      (\<forall>f \<in> set ?new. fails f \<longrightarrow> fd_code f = baseline_stale_code)"
    unfolding res'_def judged_status [OF codes] by (simp add: marked_details [OF assms(2)])
  have bound: "new_marks c k ?old ?new \<le> 0 \<or>
      (\<exists>e \<in> set (bl_entries b). covers c ?res e \<and> entry_key e = k \<and> new_marks c k ?old ?new \<le> be_count e)" for k
  proof -
    have le: "new_marks c k ?old ?new \<le> max 0 (allowance b c ?res k)"
      unfolding new by (rule mark_bounded [OF m])
    from allowance_bound [of b c ?res k] show ?thesis
    proof
      assume "allowance b c ?res k = 0"
      then show ?thesis using le by simp
    next
      assume "\<exists>e \<in> set (bl_entries b). covers c ?res e \<and> entry_key e = k \<and> allowance b c ?res k = be_count e"
      then show ?thesis using le by (fastforce simp: max_def split: if_splits)
    qed
  qed
  show ?thesis
    unfolding Let_def res' details(1) using shape details(2) bound status len by simp
qed

definition one_entry :: baseline where
  "one_entry = \<lparr>bl_path = ''baseline.json'', bl_entries =
     [\<lparr>be_kind = CheckGoLint, be_dir = dot, be_file = ''cmd/run.go'', be_code = ''SA4006'',
       be_message = ''value of x at run.go is never used'', be_count = 1\<rparr>], bl_lines = [4]\<rparr>"

theorem apply_marks_within_entries_witness:
  "rs_status (rp_results (apply_baseline one_entry (lint_report two_findings) default_config) ! 0) \<noteq> StatusPassed"
proof -
  have eval: "judges (lint_report two_findings) (rp_results (lint_report two_findings) ! 0) =
      Some (hd (pl_checks lint_plan))"
    "0 < length (rp_results (lint_report two_findings))"
    by code_simp+
  have "\<not> list_all (\<lambda>f. fails f \<longrightarrow> fd_code f = baseline_stale_code)
      (take (length (detail_findings (rs_details (rp_results (lint_report two_findings) ! 0))))
        (detail_findings (rs_details (rp_results (apply_baseline one_entry (lint_report two_findings) default_config) ! 0))))"
    by code_simp
  then show ?thesis
    using apply_marks_within_entries [OF eval(2,1), of one_entry default_config]
    by (auto simp: Let_def list_all_iff)
qed

section \<open>Reading back what was recorded\<close>

text \<open>A finding a baseline file can hold: everything \<open>validateEntry\<close> asks of its entry.\<close>

definition recordable :: "planned_check \<Rightarrow> finding \<Rightarrow> bool" where
  "recordable c f \<longleftrightarrow> validate_entry (key_entry (finding_key c f) 1) = None \<and>
     normalize_message (normalize_message (fd_message f)) = normalize_message (fd_message f)"

definition recordable_run :: "report \<Rightarrow> bool" where
  "recordable_run r \<longleftrightarrow> list_all (\<lambda>(c, res).
     list_all (\<lambda>f. markable f \<longrightarrow> recordable c f) (detail_findings (rs_details res))) (record_judges r)"

definition stable_entries :: "baseline_entry list \<Rightarrow> bool" where
  "stable_entries es \<longleftrightarrow> list_all (\<lambda>e.
     normalize_message (normalize_message (be_message e)) = normalize_message (be_message e)) es"

lemma validate_key_entry:
  "validate_entry e = None \<Longrightarrow> normalize_message (normalize_message (be_message e)) = normalize_message (be_message e) \<Longrightarrow>
   1 \<le> n \<Longrightarrow> validate_entry (key_entry (entry_key e) n) = None"
  by (auto simp: validate_entry_def key_entry_def entry_key_def)

lemma validate_count:
  "validate_entry (key_entry k 1) = None \<Longrightarrow> 1 \<le> n \<Longrightarrow> validate_entry (key_entry k n) = None"
  by (auto simp: validate_entry_def key_entry_def)

lemma entry_counts_Some:
  "entry_counts es k = Some n \<Longrightarrow> \<exists>e \<in> set es. entry_key e = k \<and> be_count e = n"
proof -
  have "foldl (\<lambda>m e. m(entry_key e \<mapsto> be_count e)) m0 es k = Some n \<Longrightarrow>
      m0 k = Some n \<or> (\<exists>e \<in> set es. entry_key e = k \<and> be_count e = n)" for m0
    by (induction es arbitrary: m0) (fastforce split: if_splits)+
  from this [of "\<lambda>_. None"] show "entry_counts es k = Some n \<Longrightarrow> ?thesis"
    by (simp add: entry_counts_def)
qed

text \<open>A recorded baseline can be read back: when the old file was valid, the findings of the run
  have a code, a message and a clean path, and normal forms are stable, \<open>parseBaseline\<close> accepts the
  recorded entries unchanged, each key once, and in the file's order.\<close>

theorem recorded_baseline_parses:
  assumes "record_baseline b r cfg = Inr (b', change)" "recordable_run r"
    and "parse_baseline version (bl_entries b) = Inr (bl_entries b)" "stable_entries (bl_entries b)"
  shows "parse_baseline 1 (bl_entries b') = Inr (bl_entries b') \<and>
    sorted (map entry_order (bl_entries b')) \<and> bl_path b' = bl_path b"
proof -
  note es = recorded_entries [OF assms(1)]
  have old: "\<forall>e \<in> set (bl_entries b). validate_entry e = None"
    using assms(3) by (auto simp: parse_baseline_def check_entries_None guard_result_Inr split: if_splits)
  have good: "validate_entry (key_entry k (recorded_count b r cfg k)) = None \<and>
      normalize_message (bk_message k) = bk_message k" if k: "k \<in> set (recorded_keys b r cfg)" for k
  proof -
    from k consider c res where "(c, res) \<in> set (record_judges r)" "k \<in> set (local_keys c res)"
      | e where "e \<in> set (kept_entries b r cfg)" "entry_key e = k"
      by (auto simp: recorded_keys_def)
    then show ?thesis
    proof cases
      case 1
      then obtain f where f: "f \<in> set (detail_findings (rs_details res))" "markable f" "finding_key c f = k"
        by (auto simp: local_keys_iff)
      with assms(2) 1(1) have rec: "recordable c f" by (fastforce simp: recordable_run_def list_all_iff)
      have "1 \<le> local_count c res k"
      proof -
        have "local_count c res k \<noteq> 0" using f by (auto simp: local_count_def filter_empty_conv)
        then show ?thesis by (simp add: local_count_def Suc_le_eq)
      qed
      then have "1 \<le> recorded_count b r cfg k"
        using found_count_ge [OF 1(1), of k] found_key_count(2) [OF 1] by simp
      with rec f(3) show ?thesis
        by (auto simp: recordable_def finding_key_def intro: validate_count)
    next
      case 2
      then obtain n where n: "entry_counts (kept_entries b r cfg) k = Some n"
        using entry_counts_None [of "kept_entries b r cfg" k] by blast
      then obtain d where d: "d \<in> set (kept_entries b r cfg)" "entry_key d = k" "be_count d = n"
        using entry_counts_Some by blast
      have "d \<in> set (bl_entries b)" using d(1) kept_entry by blast
      with old assms(4) have v: "validate_entry d = None"
        "normalize_message (normalize_message (be_message d)) = normalize_message (be_message d)"
        by (auto simp: stable_entries_def list_all_iff)
      have "1 \<le> n" using v(1) d(3) by (auto simp: validate_entry_def)
      with validate_key_entry [OF v] d(2,3) n v(2) show ?thesis
        by (auto simp: recorded_count_def entry_key_def)
    qed
  qed
  have valid: "\<forall>e \<in> set (bl_entries b'). validate_entry e = None" using good es(1) by auto
  have "inj_on entry_key (set (bl_entries b'))"
  proof (rule inj_onI)
    fix x y assume "x \<in> set (bl_entries b')" "y \<in> set (bl_entries b')" "entry_key x = entry_key y"
    moreover from this obtain j k where "j \<in> set (recorded_keys b r cfg)" "x = key_entry j (recorded_count b r cfg j)"
      "k \<in> set (recorded_keys b r cfg)" "y = key_entry k (recorded_count b r cfg k)"
      using es(1) by auto
    ultimately show "x = y" using good key_entry_key by metis
  qed
  then have "distinct (map entry_key (bl_entries b'))" using es(2) by (simp add: distinct_map)
  with valid have "check_entries 1 [] (bl_entries b') = None" by (simp add: check_entries_None)
  then show ?thesis using es(3,6) by (simp add: parse_baseline_def)
qed

lemma lint_recordable: "recordable_run (lint_report two_findings)"
  by code_simp

theorem recorded_baseline_parses_witness:
  "\<exists>b' change. record_baseline no_baseline (lint_report two_findings) default_config = Inr (b', change) \<and>
     parse_baseline 1 (bl_entries b') = Inr (bl_entries b')"
proof -
  obtain b' change where rec: "record_baseline no_baseline (lint_report two_findings) default_config = Inr (b', change)"
    using lint_completed by (simp add: record_baseline_def Let_def)
  have "parse_baseline 1 (bl_entries no_baseline) = Inr (bl_entries no_baseline)" "stable_entries (bl_entries no_baseline)"
    by code_simp+
  from recorded_baseline_parses [OF rec lint_recordable this] rec show ?thesis by blast
qed

end
