(* ===== verification/Gate.thy ===== *)
theory Gate
  imports Planning
begin

text \<open>
  The in-process gate of one working tree: \<open>gate\<close> in \<open>internal/verify/gate.go\<close>. Each critical
  section under the mutex is one function on the gate, and \<open>gate_step\<close> interleaves the calls of any
  number of callers. A wake channel is its generation number: \<open>gt_made\<close> counts the channels made, and
  one of them is closed once it is no longer the gate's current one. A caller that selects on a
  closed channel may retry; a caller whose context ended may give up instead.
\<close>

section \<open>The critical sections\<close>

record gate =
  gt_readers :: int
  gt_writer :: bool
  gt_queued :: int
  gt_wake :: "nat option"
  gt_made :: nat

definition zero_gate :: gate where
  "zero_gate = \<lparr>gt_readers = 0, gt_writer = False, gt_queued = 0, gt_wake = None, gt_made = 0\<rparr>"

datatype entry = Entered | MustWait nat

definition channel_closed :: "gate \<Rightarrow> nat \<Rightarrow> bool" where
  "channel_closed g n \<longleftrightarrow> n < gt_made g \<and> gt_wake g \<noteq> Some n"

definition broadcast :: "gate \<Rightarrow> gate" where
  "broadcast g = g\<lparr>gt_wake := None\<rparr>"

definition may_enter :: "bool \<Rightarrow> gate \<Rightarrow> bool" where
  "may_enter exclusive g \<longleftrightarrow>
     (if exclusive then \<not> gt_writer g \<and> gt_readers g = 0 else \<not> gt_writer g \<and> gt_queued g = 0)"

definition wait_channel :: "gate \<Rightarrow> gate \<times> entry" where
  "wait_channel g =
     (case gt_wake g of
        Some n \<Rightarrow> (g, MustWait n)
      | None \<Rightarrow> (g\<lparr>gt_wake := Some (gt_made g), gt_made := Suc (gt_made g)\<rparr>, MustWait (gt_made g)))"

text \<open>One turn of the loop in \<open>acquire\<close>, from taking the mutex to releasing it.\<close>

definition gate_try :: "bool \<Rightarrow> gate \<Rightarrow> gate \<times> entry" where
  "gate_try exclusive g =
     (if may_enter exclusive g
      then (if exclusive then g\<lparr>gt_queued := gt_queued g - 1, gt_writer := True\<rparr>
            else g\<lparr>gt_readers := gt_readers g + 1\<rparr>, Entered)
      else wait_channel g)"

text \<open>The first turn, which also queues a writer.\<close>

definition gate_enter :: "bool \<Rightarrow> gate \<Rightarrow> gate \<times> entry" where
  "gate_enter exclusive g =
     gate_try exclusive (if exclusive then g\<lparr>gt_queued := gt_queued g + 1\<rparr> else g)"

definition gate_cancel :: "bool \<Rightarrow> gate \<Rightarrow> gate" where
  "gate_cancel exclusive g =
     (if exclusive then broadcast (g\<lparr>gt_queued := gt_queued g - 1\<rparr>) else g)"

definition gate_leave :: "bool \<Rightarrow> gate \<Rightarrow> gate" where
  "gate_leave exclusive g =
     broadcast (if exclusive then g\<lparr>gt_writer := False\<rparr> else g\<lparr>gt_readers := gt_readers g - 1\<rparr>)"

section \<open>Callers\<close>

text \<open>
  \<open>Away\<close> is a caller that has returned: its context ended, or it left (\<open>sync.Once\<close> makes a second
  call of the leave function do nothing, so \<open>Away\<close> has no further step).
\<close>

datatype phase = Fresh | Waiting nat | Holding | Away

record gate_sys =
  gs_gate :: gate
  gs_phase :: "nat \<Rightarrow> phase"

definition entry_phase :: "entry \<Rightarrow> phase" where
  "entry_phase e = (case e of Entered \<Rightarrow> Holding | MustWait n \<Rightarrow> Waiting n)"

definition after_entry :: "gate_sys \<Rightarrow> nat \<Rightarrow> gate \<times> entry \<Rightarrow> gate_sys" where
  "after_entry s t ge = \<lparr>gs_gate = fst ge, gs_phase = (gs_phase s)(t := entry_phase (snd ge))\<rparr>"

inductive gate_step :: "(nat \<Rightarrow> bool) \<Rightarrow> nat \<Rightarrow> gate_sys \<Rightarrow> gate_sys \<Rightarrow> bool" for excl where
  gate_start: "gs_phase s t = Fresh \<Longrightarrow> gate_step excl t s (after_entry s t (gate_enter (excl t) (gs_gate s)))"
| gate_woken: "gs_phase s t = Waiting n \<Longrightarrow> channel_closed (gs_gate s) n \<Longrightarrow>
    gate_step excl t s (after_entry s t (gate_try (excl t) (gs_gate s)))"
| gate_abandon: "gs_phase s t = Waiting n \<Longrightarrow>
    gate_step excl t s \<lparr>gs_gate = gate_cancel (excl t) (gs_gate s), gs_phase = (gs_phase s)(t := Away)\<rparr>"
| gate_release: "gs_phase s t = Holding \<Longrightarrow>
    gate_step excl t s \<lparr>gs_gate = gate_leave (excl t) (gs_gate s), gs_phase = (gs_phase s)(t := Away)\<rparr>"

definition gate_init :: gate_sys where
  "gate_init = \<lparr>gs_gate = zero_gate, gs_phase = (\<lambda>_. Fresh)\<rparr>"

inductive gate_reachable :: "(nat \<Rightarrow> bool) \<Rightarrow> gate_sys \<Rightarrow> bool" for excl where
  reachable_init: "gate_reachable excl gate_init"
| reachable_step: "gate_reachable excl s \<Longrightarrow> gate_step excl t s s' \<Longrightarrow> gate_reachable excl s'"

inductive_cases gate_stepE: "gate_step excl t s s'"

lemma gate_step_cases:
  assumes "gate_step excl t s s'"
  obtains (start) "gs_phase s t = Fresh" "s' = after_entry s t (gate_enter (excl t) (gs_gate s))"
    | (woken) n where "gs_phase s t = Waiting n" "channel_closed (gs_gate s) n"
        "s' = after_entry s t (gate_try (excl t) (gs_gate s))"
    | (abandon) n where "gs_phase s t = Waiting n"
        "s' = \<lparr>gs_gate = gate_cancel (excl t) (gs_gate s), gs_phase = (gs_phase s)(t := Away)\<rparr>"
    | (release) "gs_phase s t = Holding"
        "s' = \<lparr>gs_gate = gate_leave (excl t) (gs_gate s), gs_phase = (gs_phase s)(t := Away)\<rparr>"
  using assms by (auto elim: gate_stepE)

section \<open>Counting callers\<close>

definition holders :: "(nat \<Rightarrow> bool) \<Rightarrow> bool \<Rightarrow> gate_sys \<Rightarrow> nat set" where
  "holders excl x s = {t. gs_phase s t = Holding \<and> excl t = x}"

definition waiters :: "(nat \<Rightarrow> bool) \<Rightarrow> bool \<Rightarrow> gate_sys \<Rightarrow> nat set" where
  "waiters excl x s = {t. (\<exists>n. gs_phase s t = Waiting n) \<and> excl t = x}"

lemma holders_upd: "holders excl x \<lparr>gs_gate = g, gs_phase = (gs_phase s)(t := p)\<rparr> =
   (if p = Holding \<and> excl t = x then insert t (holders excl x s) else holders excl x s - {t})"
  by (auto simp: holders_def)

lemma waiters_upd: "waiters excl x \<lparr>gs_gate = g, gs_phase = (gs_phase s)(t := p)\<rparr> =
   (if (\<exists>n. p = Waiting n) \<and> excl t = x then insert t (waiters excl x s) else waiters excl x s - {t})"
  by (auto simp: waiters_def)

text \<open>
  The invariant: the counters count what they name, a writer is alone, and a caller that waits on the
  open channel could not enter now, so no broadcast it needs is missing.
\<close>

definition gate_counts :: "(nat \<Rightarrow> bool) \<Rightarrow> gate_sys \<Rightarrow> bool" where
  "gate_counts excl s \<longleftrightarrow>
     (\<forall>x. finite (holders excl x s) \<and> finite (waiters excl x s)) \<and>
     gt_readers (gs_gate s) = int (card (holders excl False s)) \<and>
     int (card (holders excl True s)) = (if gt_writer (gs_gate s) then 1 else 0) \<and>
     gt_queued (gs_gate s) = int (card (waiters excl True s)) \<and>
     (gt_writer (gs_gate s) \<longrightarrow> gt_readers (gs_gate s) = 0)"

definition gate_wakes :: "(nat \<Rightarrow> bool) \<Rightarrow> gate_sys \<Rightarrow> bool" where
  "gate_wakes excl s \<longleftrightarrow>
     (\<forall>n. gt_wake (gs_gate s) = Some n \<longrightarrow> n < gt_made (gs_gate s)) \<and>
     (\<forall>t n. gs_phase s t = Waiting n \<longrightarrow> n < gt_made (gs_gate s)) \<and>
     (\<forall>t n. gs_phase s t = Waiting n \<longrightarrow> gt_wake (gs_gate s) = Some n \<longrightarrow> \<not> may_enter (excl t) (gs_gate s))"

lemma counts_init: "gate_counts excl gate_init"
  by (simp add: gate_counts_def gate_init_def zero_gate_def holders_def waiters_def)

lemma wakes_init: "gate_wakes excl gate_init"
  by (simp add: gate_wakes_def gate_init_def zero_gate_def)

lemmas gate_ops = gate_try_def gate_enter_def gate_cancel_def gate_leave_def broadcast_def
  wait_channel_def may_enter_def after_entry_def entry_phase_def

section \<open>The counters\<close>

lemma try_gate:
  "may_enter x g \<Longrightarrow> gate_try x g =
     (if x then g\<lparr>gt_queued := gt_queued g - 1, gt_writer := True\<rparr> else g\<lparr>gt_readers := gt_readers g + 1\<rparr>, Entered)"
  "\<not> may_enter x g \<Longrightarrow> gate_try x g = wait_channel g"
  by (simp_all add: gate_try_def)

lemma wait_channel_fields:
  "gt_readers (fst (wait_channel g)) = gt_readers g" "gt_writer (fst (wait_channel g)) = gt_writer g"
  "gt_queued (fst (wait_channel g)) = gt_queued g" "may_enter x (fst (wait_channel g)) = may_enter x g"
  by (simp_all add: wait_channel_def may_enter_def split: option.split)

lemma wait_channel_cases:
  obtains n where "snd (wait_channel g) = MustWait n" "gt_wake (fst (wait_channel g)) = Some n"
    "gt_wake g = Some n \<and> wait_channel g = (g, MustWait n) \<or>
     gt_wake g = None \<and> n = gt_made g \<and> gt_made (fst (wait_channel g)) = Suc n"
  by (cases "gt_wake g") (auto simp: wait_channel_def)

lemma counts_try:
  assumes fin: "\<forall>x. finite (holders excl x s) \<and> finite (waiters excl x s)"
    and t: "gs_phase s t \<noteq> Holding"
    and readers: "gt_readers g = int (card (holders excl False s))"
    and writer: "int (card (holders excl True s)) = (if gt_writer g then 1 else 0)"
    and queued: "gt_queued g = int (card (waiters excl True s - {t})) + (if excl t then 1 else 0)"
    and alone: "gt_writer g \<longrightarrow> gt_readers g = 0"
  shows "gate_counts excl (after_entry s t (gate_try (excl t) g))"
proof (cases "may_enter (excl t) g")
  case True
  have out: "t \<notin> holders excl x s" for x using t by (simp add: holders_def)
  have minus: "holders excl x s - {t} = holders excl x s" for x using out by auto
  show ?thesis
  proof (cases "excl t")
    case x: True
    with True have free: "\<not> gt_writer g" "gt_readers g = 0" by (auto simp: may_enter_def)
    then show ?thesis using fin writer readers queued x out True minus
      by (simp add: gate_counts_def after_entry_def try_gate entry_phase_def holders_upd waiters_upd)
  next
    case False
    with True have free: "\<not> gt_writer g" by (auto simp: may_enter_def)
    then show ?thesis using fin writer readers queued False out True minus
      by (simp add: gate_counts_def after_entry_def try_gate entry_phase_def holders_upd waiters_upd)
  qed
next
  case False
  obtain n where n: "snd (wait_channel g) = MustWait n" by (rule wait_channel_cases)
  have minus: "holders excl x s - {t} = holders excl x s" for x using t by (auto simp: holders_def)
  have "card (insert t (waiters excl True s)) = Suc (card (waiters excl True s - {t}))"
    using fin by (simp add: card.insert_remove)
  then show ?thesis using False fin readers writer queued alone minus n
    by (simp add: gate_counts_def after_entry_def try_gate entry_phase_def holders_upd waiters_upd
        wait_channel_fields)
qed

lemma counts_parts:
  assumes "gate_counts excl s"
  shows "\<forall>x. finite (holders excl x s) \<and> finite (waiters excl x s)"
    "gt_readers (gs_gate s) = int (card (holders excl False s))"
    "int (card (holders excl True s)) = (if gt_writer (gs_gate s) then 1 else 0)"
    "gt_queued (gs_gate s) = int (card (waiters excl True s))"
    "gt_writer (gs_gate s) \<longrightarrow> gt_readers (gs_gate s) = 0"
  using assms unfolding gate_counts_def by blast+

lemma waiters_without:
  "finite (waiters excl True s) \<Longrightarrow> gs_phase s t = Waiting n \<Longrightarrow>
   int (card (waiters excl True s)) = int (card (waiters excl True s - {t})) + (if excl t then 1 else 0)"
proof (cases "excl t")
  case True
  assume "finite (waiters excl True s)" "gs_phase s t = Waiting n"
  moreover from this True have "t \<in> waiters excl True s" by (simp add: waiters_def)
  ultimately show ?thesis using True card_Suc_Diff1 [of "waiters excl True s" t] by simp
next
  case False
  then have "waiters excl True s - {t} = waiters excl True s" by (auto simp: waiters_def)
  with False show ?thesis by simp
qed

lemma counts_step:
  assumes "gate_step excl t s s'" "gate_counts excl s"
  shows "gate_counts excl s'"
  using assms(1)
proof (cases rule: gate_step_cases)
  case start
  then have "waiters excl True s - {t} = waiters excl True s" by (auto simp: waiters_def)
  then show ?thesis
    unfolding start(2) gate_enter_def
    by (intro counts_try counts_parts(1) [OF assms(2)])
      (use counts_parts(2-) [OF assms(2)] start(1) in simp_all)
next
  case (woken n)
  have "int (card (waiters excl True s)) = int (card (waiters excl True s - {t})) + (if excl t then 1 else 0)"
    by (rule waiters_without [OF _ woken(1)]) (use counts_parts(1) [OF assms(2)] in blast)
  then have queued: "gt_queued (gs_gate s) =
      int (card (waiters excl True s - {t})) + (if excl t then 1 else 0)"
    by (simp only: counts_parts(4) [OF assms(2)])
  have "gs_phase s t \<noteq> Holding" using woken(1) by simp
  from counts_try [OF counts_parts(1) [OF assms(2)] this counts_parts(2,3) [OF assms(2)] queued
      counts_parts(5) [OF assms(2)]]
  show ?thesis unfolding woken(3) .
next
  case (abandon n)
  have out: "t \<notin> holders excl x s" for x using abandon by (auto simp: holders_def)
  have minus: "holders excl x s - {t} = holders excl x s" for x using out by auto
  have "int (card (waiters excl True s)) = int (card (waiters excl True s - {t})) + (if excl t then 1 else 0)"
    by (rule waiters_without [OF _ abandon(1)]) (use counts_parts(1) [OF assms(2)] in blast)
  then show ?thesis using assms(2) minus
    by (auto simp: abandon(2) gate_counts_def holders_upd waiters_upd gate_cancel_def broadcast_def)
next
  case release
  have t: "t \<in> holders excl (excl t) s" using release by (simp add: holders_def)
  have other: "holders excl (\<not> excl t) s - {t} = holders excl (\<not> excl t) s"
    by (auto simp: holders_def)
  have wait: "waiters excl x s - {t} = waiters excl x s" for x
    using release by (auto simp: waiters_def)
  have "card (holders excl (excl t) s) = Suc (card (holders excl (excl t) s - {t}))"
    using t assms(2) by (metis card_Suc_Diff1 gate_counts_def)
  then show ?thesis using assms(2) other wait
    by (cases "excl t") (auto simp: release(2) gate_counts_def holders_upd waiters_upd gate_leave_def
        broadcast_def split: if_splits)
qed

section \<open>The wake channels\<close>

lemma wakes_try:
  assumes made: "gt_made g = gt_made (gs_gate s)" and wake: "gt_wake g = gt_wake (gs_gate s)"
    and others: "\<And>u. u \<noteq> t \<Longrightarrow> may_enter (excl u) g \<Longrightarrow> may_enter (excl u) (gs_gate s)"
    and inv: "gate_wakes excl s" and readers: "0 \<le> gt_readers g"
  shows "gate_wakes excl (after_entry s t (gate_try (excl t) g))"
proof (cases "may_enter (excl t) g")
  case True
  have block: "\<not> may_enter (excl u) (fst (gate_try (excl t) g))" if "\<not> may_enter (excl u) g" for u
    using that True readers by (auto simp: try_gate may_enter_def split: if_splits)
  then have blocked: "\<not> may_enter (excl u) (fst (gate_try (excl t) g))"
    if "u \<noteq> t" "\<not> may_enter (excl u) (gs_gate s)" for u
    using that others by blast
  have fields: "gt_made (fst (gate_try (excl t) g)) = gt_made (gs_gate s)"
    "gt_wake (fst (gate_try (excl t) g)) = gt_wake (gs_gate s)" "snd (gate_try (excl t) g) = Entered"
    using True made wake by (simp_all add: try_gate)
  show ?thesis using inv blocked
    by (simp add: gate_wakes_def after_entry_def entry_phase_def fields)
next
  case False
  obtain n where n: "snd (wait_channel g) = MustWait n" "gt_wake (fst (wait_channel g)) = Some n"
    "gt_wake g = Some n \<and> wait_channel g = (g, MustWait n) \<or>
     gt_wake g = None \<and> n = gt_made g \<and> gt_made (fst (wait_channel g)) = Suc n"
    by (rule wait_channel_cases)
  have kept: "\<not> may_enter (excl u) g" if "u \<noteq> t" "\<not> may_enter (excl u) (gs_gate s)" for u
    using that others by blast
  from n(3) show ?thesis
  proof
    assume "gt_wake g = Some n \<and> wait_channel g = (g, MustWait n)"
    then show ?thesis using inv made wake kept False
      by (simp add: gate_wakes_def after_entry_def try_gate entry_phase_def)
  next
    assume "gt_wake g = None \<and> n = gt_made g \<and> gt_made (fst (wait_channel g)) = Suc n"
    then show ?thesis using inv made wake False n(1,2)
      by (auto simp: gate_wakes_def after_entry_def try_gate entry_phase_def wait_channel_fields
          intro: less_SucI)
  qed
qed

lemma wakes_step:
  assumes "gate_step excl t s s'" "gate_counts excl s" "gate_wakes excl s"
  shows "gate_wakes excl s'"
  using assms(1)
proof (cases rule: gate_step_cases)
  case start
  show ?thesis
    unfolding start gate_enter_def
    by (rule wakes_try) (use assms start in \<open>auto simp: may_enter_def gate_counts_def split: if_splits\<close>)
next
  case (woken n)
  show ?thesis
    unfolding woken
    by (rule wakes_try) (use assms woken in \<open>auto simp: gate_counts_def\<close>)
next
  case (abandon n)
  then show ?thesis using assms(3)
    by (auto simp: gate_wakes_def gate_cancel_def broadcast_def)
next
  case release
  then show ?thesis using assms(3)
    by (auto simp: gate_wakes_def gate_leave_def broadcast_def)
qed

lemma gate_invariant: "gate_reachable excl s \<Longrightarrow> gate_counts excl s \<and> gate_wakes excl s"
  by (induction rule: gate_reachable.induct) (auto intro: counts_init wakes_init counts_step wakes_step)

section \<open>What the gate guarantees\<close>

lemma two_holders:
  assumes "gate_counts excl s" "gs_phase s t = Holding" "gs_phase s u = Holding" "t \<noteq> u"
  shows "\<not> excl t \<and> \<not> excl u"
proof -
  have no: "\<not> excl a" if "gs_phase s a = Holding" "gs_phase s b = Holding" "a \<noteq> b" for a b
  proof
    assume "excl a"
    with that have a: "a \<in> holders excl True s" by (simp add: holders_def)
    note c = counts_parts [OF assms(1)]
    from a c(1) have "card (holders excl True s) \<noteq> 0" by auto
    with c(3) have w: "gt_writer (gs_gate s)" by (auto split: if_splits)
    show False
    proof (cases "excl b")
      case True
      with that have "{a, b} \<subseteq> holders excl True s" using a by (simp add: holders_def)
      then have "card {a, b} \<le> card (holders excl True s)" using c(1) card_mono by blast
      then show False using that(3) c(3) w by simp
    next
      case False
      with that have "b \<in> holders excl False s" by (simp add: holders_def)
      then have "card (holders excl False s) \<noteq> 0" using c(1) by auto
      then show False using c(2,5) w by simp
    qed
  qed
  from no [OF assms(2,3,4)] no [OF assms(3,2) assms(4) [symmetric]] show ?thesis by blast
qed

text \<open>The gate is a reader/writer lock: however any number of callers interleave, give up or
  leave, two callers that are inside together are both readers.\<close>

theorem gate_mutual_exclusion:
  assumes "gate_reachable excl s" "gs_phase s t = Holding" "gs_phase s u = Holding" "t \<noteq> u"
  shows "\<not> excl t \<and> \<not> excl u"
  using two_holders assms gate_invariant by blast


text \<open>A queued writer is not overtaken by readers: while it waits, no step of anybody lets a
  reader in, so the readers inside can only leave.\<close>

theorem gate_writer_not_overtaken:
  assumes "gate_reachable excl s" "gate_step excl t s s'"
    and "gs_phase s w = Waiting m" "gs_phase s' w = Waiting n" "excl w"
  shows "holders excl False s' \<subseteq> holders excl False s"
proof -
  note c = counts_parts [OF conjunct1 [OF gate_invariant [OF assms(1)]]]
  have "w \<in> waiters excl True s" using assms(3,5) by (auto simp: waiters_def)
  then have "card (waiters excl True s) \<noteq> 0" using c(1) by auto
  then have q: "gt_queued (gs_gate s) > 0" using c(4) by simp
  show ?thesis
    using assms(2)
  proof (cases rule: gate_step_cases)
    case start
    then show ?thesis using q
      by (auto simp: gate_enter_def gate_try_def may_enter_def after_entry_def entry_phase_def holders_upd
          wait_channel_def split: if_splits option.splits)
  next
    case (woken k)
    then show ?thesis using q
      by (auto simp: gate_try_def may_enter_def after_entry_def entry_phase_def holders_upd
          wait_channel_def split: if_splits option.splits)
  qed (auto simp: holders_upd)
qed

section \<open>Runs of the gate\<close>

text \<open>A reader enters, a writer queues behind it, a second reader queues behind the writer, and the
  first reader leaves.\<close>

definition writer_one :: "nat \<Rightarrow> bool" where
  "writer_one t \<longleftrightarrow> t = 1"

definition run_enter :: "gate_sys \<Rightarrow> nat \<Rightarrow> gate_sys" where
  "run_enter s t = after_entry s t (gate_enter (writer_one t) (gs_gate s))"

definition run_leave :: "gate_sys \<Rightarrow> nat \<Rightarrow> gate_sys" where
  "run_leave s t = \<lparr>gs_gate = gate_leave (writer_one t) (gs_gate s), gs_phase = (gs_phase s)(t := Away)\<rparr>"

lemma run_enter_reachable:
  "gate_reachable writer_one s \<Longrightarrow> gs_phase s t = Fresh \<Longrightarrow> gate_reachable writer_one (run_enter s t)"
  unfolding run_enter_def by (erule reachable_step) (rule gate_start)

lemma run_leave_reachable:
  "gate_reachable writer_one s \<Longrightarrow> gs_phase s t = Holding \<Longrightarrow> gate_reachable writer_one (run_leave s t)"
  unfolding run_leave_def by (erule reachable_step) (rule gate_release)

definition queue_run :: gate_sys where
  "queue_run = run_enter (run_enter (run_enter gate_init 0) 1) 2"

lemmas run_defs = run_enter_def run_leave_def gate_init_def zero_gate_def gate_ops writer_one_def

lemma queue_run_phases:
  "gs_phase queue_run 0 = Holding" "gs_phase queue_run 1 = Waiting 0" "gs_phase queue_run 2 = Waiting 0"
  "t > 2 \<Longrightarrow> gs_phase queue_run t = Fresh"
  by (simp_all add: queue_run_def run_defs)

lemmas queue_phases = queue_run_phases queue_run_phases(2) [unfolded One_nat_def]

lemma queue_run_reachable: "gate_reachable writer_one queue_run"
  unfolding queue_run_def
  by (intro run_enter_reachable reachable_init) (simp_all add: run_defs)

theorem gate_mutual_exclusion_witness: "\<not> writer_one 0 \<and> \<not> writer_one 2"
proof (rule gate_mutual_exclusion)
  show "gate_reachable writer_one (run_enter (run_enter gate_init 0) 2)"
    by (intro run_enter_reachable reachable_init) (simp_all add: run_defs)
qed (simp_all add: run_defs)


theorem gate_writer_not_overtaken_witness:
  "holders writer_one False (run_enter queue_run 3) \<subseteq> holders writer_one False queue_run"
proof (rule gate_writer_not_overtaken)
  show "gate_reachable writer_one queue_run" by (rule queue_run_reachable)
  show "gate_step writer_one 3 queue_run (run_enter queue_run 3)"
    unfolding run_enter_def by (rule gate_start) (simp add: queue_run_phases)
  show "gs_phase queue_run 1 = Waiting 0" by (rule queue_run_phases)
  show "gs_phase (run_enter queue_run 3) 1 = Waiting 0"
    by (simp add: run_enter_def after_entry_def queue_phases)
qed (simp add: writer_one_def)

end
