(* ===== verification/Workspaces.thy ===== *)
theory Workspaces
  imports Gate
begin

text \<open>
  Entering a working tree: \<open>fileHold\<close> and \<open>workspaces\<close> in \<open>internal/verify/gate.go\<close> and
  \<open>internal/verify/lock.go\<close>. Any number of processes run, each with its own gate and its own share
  of one advisory file lock. The lock is exclusive between processes; within one it is taken once and
  counted. \<open>hold_step\<close> interleaves the fileHold of every process, and \<open>workspace_step\<close> composes it
  with each process's gate in the order \<open>acquire\<close> and the function it returns call them.
\<close>

section \<open>The kinds of entry\<close>

text \<open>\<open>stages\<close>: a check's preparation and build, in that order, absent ones left out.\<close>

definition check_stages :: "planned_check \<Rightarrow> (stage_kind \<times> preparation) list" where
  "check_stages c =
     (case pc_preparation c of None \<Rightarrow> [] | Some p \<Rightarrow> [(StagePreparation, p)]) @
     (case pc_build c of None \<Rightarrow> [] | Some p \<Rightarrow> [(StageBuild, p)])"

definition writes_workspace :: "planned_check \<Rightarrow> bool" where
  "writes_workspace c \<longleftrightarrow> \<not> read_only_workspace (ck_kind (pc_check c)) \<or> length (check_stages c) > 0"

section \<open>One file lock shared by many processes\<close>

datatype hold_phase = HoldFresh | HoldSlot | HoldInside | HoldDropping | HoldAway

record hold_sys =
  hs_slot :: "nat \<Rightarrow> nat option"
  hs_holders :: "nat \<Rightarrow> int"
  hs_flock :: "nat option"
  hs_phase :: "nat \<Rightarrow> nat \<Rightarrow> hold_phase"

definition set_phase :: "nat \<Rightarrow> nat \<Rightarrow> hold_phase \<Rightarrow> hold_sys \<Rightarrow> hold_sys" where
  "set_phase p t ph h = h\<lparr>hs_phase := (hs_phase h)(p := (hs_phase h p)(t := ph))\<rparr>"

definition set_slot :: "nat \<Rightarrow> nat option \<Rightarrow> hold_sys \<Rightarrow> hold_sys" where
  "set_slot p owner h = h\<lparr>hs_slot := (hs_slot h)(p := owner)\<rparr>"

definition add_holders :: "nat \<Rightarrow> int \<Rightarrow> hold_sys \<Rightarrow> hold_sys" where
  "add_holders p n h = h\<lparr>hs_holders := (hs_holders h)(p := hs_holders h p + n)\<rparr>"

text \<open>
  The first holder of a process takes the file lock, which succeeds only when no process has it;
  until then it stays in its slot, and it may fail or be abandoned there. The last one to leave
  unlocks it.
\<close>

definition hold_enter :: "nat \<Rightarrow> nat \<Rightarrow> hold_sys \<Rightarrow> hold_sys option" where
  "hold_enter p t h =
     (if hs_holders h p = 0
      then (case hs_flock h of
              Some _ \<Rightarrow> None
            | None \<Rightarrow> Some (set_phase p t HoldInside (set_slot p None (add_holders p 1 (h\<lparr>hs_flock := Some p\<rparr>)))))
      else Some (set_phase p t HoldInside (set_slot p None (add_holders p 1 h))))"

definition hold_exit :: "nat \<Rightarrow> nat \<Rightarrow> hold_sys \<Rightarrow> hold_sys" where
  "hold_exit p t h =
     (let h = add_holders p (-1) h;
          h = (if hs_holders h p = 0 then h\<lparr>hs_flock := None\<rparr> else h)
      in set_phase p t HoldAway (set_slot p None h))"

inductive hold_step :: "nat \<Rightarrow> nat \<Rightarrow> hold_sys \<Rightarrow> hold_sys \<Rightarrow> bool" where
  hold_slot: "hs_phase h p t = HoldFresh \<Longrightarrow> hs_slot h p = None \<Longrightarrow>
    hold_step p t h (set_phase p t HoldSlot (set_slot p (Some t) h))"
| hold_abandon: "hs_phase h p t = HoldFresh \<Longrightarrow> hold_step p t h (set_phase p t HoldAway h)"
| hold_locked: "hs_phase h p t = HoldSlot \<Longrightarrow> hold_enter p t h = Some h' \<Longrightarrow> hold_step p t h h'"
| hold_failed: "hs_phase h p t = HoldSlot \<Longrightarrow> hs_holders h p = 0 \<Longrightarrow>
    hold_step p t h (set_phase p t HoldAway (set_slot p None h))"
| hold_drop: "hs_phase h p t = HoldInside \<Longrightarrow> hs_slot h p = None \<Longrightarrow>
    hold_step p t h (set_phase p t HoldDropping (set_slot p (Some t) h))"
| hold_dropped: "hs_phase h p t = HoldDropping \<Longrightarrow> hold_step p t h (hold_exit p t h)"

definition hold_init :: hold_sys where
  "hold_init = \<lparr>hs_slot = (\<lambda>_. None), hs_holders = (\<lambda>_. 0), hs_flock = None,
     hs_phase = (\<lambda>_ _. HoldFresh)\<rparr>"

definition counted :: "hold_sys \<Rightarrow> nat \<Rightarrow> nat set" where
  "counted h p = {t. hs_phase h p t = HoldInside \<or> hs_phase h p t = HoldDropping}"

lemma hold_updates [simp]:
  "hs_slot (set_phase p t ph h) = hs_slot h" "hs_holders (set_phase p t ph h) = hs_holders h"
  "hs_flock (set_phase p t ph h) = hs_flock h"
  "hs_phase (set_phase p t ph h) q u = (if q = p \<and> u = t then ph else hs_phase h q u)"
  "hs_slot (set_slot p w h) = (hs_slot h)(p := w)" "hs_holders (set_slot p w h) = hs_holders h"
  "hs_flock (set_slot p w h) = hs_flock h" "hs_phase (set_slot p w h) = hs_phase h"
  "hs_slot (add_holders p n h) = hs_slot h"
  "hs_holders (add_holders p n h) = (hs_holders h)(p := hs_holders h p + n)"
  "hs_flock (add_holders p n h) = hs_flock h" "hs_phase (add_holders p n h) = hs_phase h"
  by (simp_all add: set_phase_def set_slot_def add_holders_def)

lemma counted_upd:
  "counted (set_phase p t ph h) q =
     (if q = p then (if ph = HoldInside \<or> ph = HoldDropping then insert t (counted h p) else counted h p - {t})
      else counted h q)"
  by (auto simp: counted_def)

lemma counted_cong: "hs_phase h = hs_phase h' \<Longrightarrow> counted h q = counted h' q"
  by (simp add: counted_def)

lemma counted_fields [simp]:
  "counted (set_slot p w h) q = counted h q" "counted (add_holders p n h) q = counted h q"
  "counted (h\<lparr>hs_flock := l\<rparr>) q = counted h q"
  by (simp_all add: counted_def)

inductive_cases hold_stepE: "hold_step p t h h'"

definition slot_inv :: "hold_sys \<Rightarrow> bool" where
  "slot_inv h \<longleftrightarrow> (\<forall>p t. hs_slot h p = Some t \<longleftrightarrow> hs_phase h p t = HoldSlot \<or> hs_phase h p t = HoldDropping)"

lemma slot_inv_step:
  assumes "hold_step p t h h'" "slot_inv h"
  shows "slot_inv h'"
proof -
  have free: "hs_phase h p u \<noteq> HoldSlot \<and> hs_phase h p u \<noteq> HoldDropping"
    if "hs_slot h p = None" for p u
    using assms(2) that unfolding slot_inv_def by (metis option.distinct(1))
  have only: "hs_phase h p u \<noteq> HoldSlot \<and> hs_phase h p u \<noteq> HoldDropping"
    if "hs_phase h p t = HoldSlot \<or> hs_phase h p t = HoldDropping" "u \<noteq> t" for p t u
    using assms(2) that unfolding slot_inv_def by (metis option.inject)
  show ?thesis
    using assms(1)
  proof cases
    case hold_slot
    then show ?thesis using assms(2) free [OF hold_slot(3)] by (simp add: slot_inv_def)
  next
    case hold_abandon
    then show ?thesis using assms(2) by (simp add: slot_inv_def)
  next
    case hold_locked
    then have "\<forall>u. u \<noteq> t \<longrightarrow> hs_phase h p u \<noteq> HoldSlot \<and> hs_phase h p u \<noteq> HoldDropping" using only by blast
    then show ?thesis using assms(2) hold_locked
      by (auto simp: slot_inv_def hold_enter_def split: if_splits option.splits)
  next
    case hold_failed
    then have "\<forall>u. u \<noteq> t \<longrightarrow> hs_phase h p u \<noteq> HoldSlot \<and> hs_phase h p u \<noteq> HoldDropping" using only by blast
    then show ?thesis using assms(2) hold_failed by (auto simp: slot_inv_def)
  next
    case hold_drop
    then show ?thesis using assms(2) free [OF hold_drop(3)] by (simp add: slot_inv_def)
  next
    case hold_dropped
    then have "\<forall>u. u \<noteq> t \<longrightarrow> hs_phase h p u \<noteq> HoldSlot \<and> hs_phase h p u \<noteq> HoldDropping" using only by blast
    then show ?thesis using assms(2) hold_dropped by (auto simp: slot_inv_def hold_exit_def Let_def)
  qed
qed

definition count_inv :: "hold_sys \<Rightarrow> bool" where
  "count_inv h \<longleftrightarrow> (\<forall>p. finite (counted h p) \<and> hs_holders h p = int (card (counted h p))) \<and>
     (\<forall>p. hs_flock h = Some p \<longleftrightarrow> hs_holders h p > 0)"

lemma count_inv_step:
  assumes "hold_step p t h h'" "count_inv h"
  shows "count_inv h'"
proof -
  have fin: "\<And>q. finite (counted h q)" and holders: "\<And>q. hs_holders h q = int (card (counted h q))"
    and lock: "\<And>q. hs_flock h = Some q \<longleftrightarrow> hs_holders h q > 0"
    using assms(2) unfolding count_inv_def by blast+
  show ?thesis
    using assms(1)
  proof cases
    case hold_slot
    then have "t \<notin> counted h p" by (simp add: counted_def)
    then show ?thesis using hold_slot fin holders lock by (simp add: count_inv_def counted_upd)
  next
    case hold_abandon
    then have "t \<notin> counted h p" by (simp add: counted_def)
    then show ?thesis using hold_abandon fin holders lock by (simp add: count_inv_def counted_upd)
  next
    case hold_locked
    then have "t \<notin> counted h p" by (simp add: counted_def)
    then show ?thesis using hold_locked fin holders lock
      by (auto simp: count_inv_def counted_upd hold_enter_def card_gt_0_iff split: if_splits option.splits)
  next
    case hold_failed
    then have "t \<notin> counted h p" by (simp add: counted_def)
    then show ?thesis using hold_failed fin holders lock by (simp add: count_inv_def counted_upd)
  next
    case hold_drop
    then have "t \<in> counted h p" by (simp add: counted_def)
    then show ?thesis using hold_drop fin holders lock
      by (simp add: count_inv_def counted_upd insert_absorb)
  next
    case hold_dropped
    then have t: "t \<in> counted h p" by (simp add: counted_def)
    then have card: "card (counted h p) = Suc (card (counted h p - {t}))" using fin card_Suc_Diff1 by metis
    then have locked: "hs_flock h = Some p" using lock holders by simp
    then have others: "card (counted h q) = 0" if "q \<noteq> p" for q
      using that lock [of q] holders [of q] by simp
    show ?thesis using hold_dropped fin holders locked others card
      by (auto simp: count_inv_def counted_upd hold_exit_def Let_def)
  qed
qed

section \<open>Gate and lock together\<close>

text \<open>
  \<open>workspaces.acquire\<close> enters the gate, then the file hold; when the hold fails it leaves the gate.
  The function it returns leaves the hold and then the gate. A caller whose hold phase is
  \<open>HoldFresh\<close> has not gone past the gate, and one whose hold phase is \<open>HoldAway\<close> is done with the
  hold and leaves the gate next.
\<close>

record workspace_sys =
  ws_gates :: "nat \<Rightarrow> gate_sys"
  ws_hold :: hold_sys

inductive workspace_step :: "(nat \<Rightarrow> nat \<Rightarrow> bool) \<Rightarrow> workspace_sys \<Rightarrow> workspace_sys \<Rightarrow> bool" for excl where
  workspace_gate: "gate_step (excl p) t (ws_gates s p) g \<Longrightarrow> gs_phase (ws_gates s p) t \<noteq> Holding \<Longrightarrow>
    hs_phase (ws_hold s) p t = HoldFresh \<Longrightarrow>
    workspace_step excl s (s\<lparr>ws_gates := (ws_gates s)(p := g)\<rparr>)"
| workspace_hold: "gs_phase (ws_gates s p) t = Holding \<Longrightarrow> hold_step p t (ws_hold s) h \<Longrightarrow>
    workspace_step excl s (s\<lparr>ws_hold := h\<rparr>)"
| workspace_leave: "gate_step (excl p) t (ws_gates s p) g \<Longrightarrow> gs_phase (ws_gates s p) t = Holding \<Longrightarrow>
    hs_phase (ws_hold s) p t = HoldAway \<Longrightarrow>
    workspace_step excl s (s\<lparr>ws_gates := (ws_gates s)(p := g)\<rparr>)"

definition workspace_init :: workspace_sys where
  "workspace_init = \<lparr>ws_gates = (\<lambda>_. gate_init), ws_hold = hold_init\<rparr>"

inductive workspace_reachable :: "(nat \<Rightarrow> nat \<Rightarrow> bool) \<Rightarrow> workspace_sys \<Rightarrow> bool" for excl where
  workspace_reach_init: "workspace_reachable excl workspace_init"
| workspace_reach_step: "workspace_reachable excl s \<Longrightarrow> workspace_step excl s s' \<Longrightarrow> workspace_reachable excl s'"

text \<open>\<open>inside\<close>: a caller \<open>acquire\<close> has returned to and that has not started to leave.\<close>

definition inside :: "workspace_sys \<Rightarrow> nat \<Rightarrow> nat \<Rightarrow> bool" where
  "inside s p t \<longleftrightarrow> hs_phase (ws_hold s) p t = HoldInside"

lemma gate_step_other: "gate_step excl t g g' \<Longrightarrow> u \<noteq> t \<Longrightarrow> gs_phase g' u = gs_phase g u"
  by (cases rule: gate_step.cases) (auto simp: after_entry_def)

lemma hold_step_phase:
  "hold_step p t h h' \<Longrightarrow> q \<noteq> p \<or> u \<noteq> t \<Longrightarrow> hs_phase h' q u = hs_phase h q u"
  by (cases rule: hold_step.cases) (auto simp: hold_enter_def hold_exit_def Let_def split: if_splits option.splits)

text \<open>Each process's gate runs as \<open>gate_step\<close> says, the locks as \<open>hold_step\<close> says, and whoever is in
  the hold is in the gate.\<close>

definition workspace_inv :: "(nat \<Rightarrow> nat \<Rightarrow> bool) \<Rightarrow> workspace_sys \<Rightarrow> bool" where
  "workspace_inv excl s \<longleftrightarrow> (\<forall>p. gate_reachable (excl p) (ws_gates s p)) \<and> slot_inv (ws_hold s) \<and>
     count_inv (ws_hold s) \<and>
     (\<forall>p t. hs_phase (ws_hold s) p t \<noteq> HoldFresh \<longrightarrow> hs_phase (ws_hold s) p t \<noteq> HoldAway \<longrightarrow>
        gs_phase (ws_gates s p) t = Holding)"

lemma workspace_init_inv: "workspace_inv excl workspace_init"
  by (simp add: workspace_inv_def workspace_init_def reachable_init slot_inv_def count_inv_def
      hold_init_def counted_def)

lemma workspace_step_inv:
  assumes "workspace_step excl s s'" "workspace_inv excl s"
  shows "workspace_inv excl s'"
proof -
  have gates: "\<And>p. gate_reachable (excl p) (ws_gates s p)" and slot: "slot_inv (ws_hold s)"
    and count: "count_inv (ws_hold s)"
    and held: "\<And>p t. hs_phase (ws_hold s) p t \<noteq> HoldFresh \<Longrightarrow> hs_phase (ws_hold s) p t \<noteq> HoldAway \<Longrightarrow>
        gs_phase (ws_gates s p) t = Holding"
    using assms(2) unfolding workspace_inv_def by blast+
  show ?thesis
    using assms(1)
  proof cases
    case (workspace_gate p t g)
    have "gate_reachable (excl p) g" using gates workspace_gate(2) by (rule reachable_step)
    then show ?thesis using gates slot count held workspace_gate gate_step_other [OF workspace_gate(2)]
      by (auto simp: workspace_inv_def) (metis)
  next
    case (workspace_hold p t h)
    have "slot_inv h" "count_inv h"
      using slot_inv_step [OF workspace_hold(3) slot] count_inv_step [OF workspace_hold(3) count] .
    then show ?thesis using gates held workspace_hold hold_step_phase [OF workspace_hold(3)]
      by (auto simp: workspace_inv_def) (metis)+
  next
    case (workspace_leave p t g)
    have "gate_reachable (excl p) g" using gates workspace_leave(2) by (rule reachable_step)
    then show ?thesis using gates slot count held workspace_leave gate_step_other [OF workspace_leave(2)]
      by (auto simp: workspace_inv_def) (metis)
  qed
qed

lemma workspace_invariant: "workspace_reachable excl s \<Longrightarrow> workspace_inv excl s"
  by (induction rule: workspace_reachable.induct) (auto intro: workspace_init_inv workspace_step_inv)

section \<open>What entering a tree guarantees\<close>

text \<open>C29. With a cache directory, everybody who is inside one working tree is in one process, and a
  caller that entered exclusively is alone there, across all processes.\<close>

theorem workspace_exclusion:
  assumes "workspace_reachable excl s" "inside s p t" "inside s q u" "(p, t) \<noteq> (q, u)"
  shows "p = q \<and> \<not> excl p t \<and> \<not> excl q u"
proof -
  have inv: "workspace_inv excl s" by (rule workspace_invariant [OF assms(1)])
  then have count: "count_inv (ws_hold s)" by (simp add: workspace_inv_def)
  have lock: "hs_flock (ws_hold s) = Some r" if "inside s r v" for r v
  proof -
    from that have "v \<in> counted (ws_hold s) r" by (simp add: inside_def counted_def)
    then have "hs_holders (ws_hold s) r > 0" using count by (auto simp: count_inv_def card_gt_0_iff)
    then show ?thesis using count by (simp add: count_inv_def)
  qed
  from lock [OF assms(2)] lock [OF assms(3)] have pq: "p = q" by simp
  have held: "gs_phase (ws_gates s r) v = Holding" if "inside s r v" for r v
    using inv that by (auto simp: workspace_inv_def inside_def)
  have "gate_counts (excl p) (ws_gates s p)"
    using inv gate_invariant by (auto simp: workspace_inv_def)
  with two_holders held assms(2-4) pq show ?thesis by blast
qed

text \<open>The file lock is given back: when nobody of a process is inside or on the way out, the
  process does not have the lock and nobody of it has the slot longer than it takes to acquire, so
  the lock is never left behind by a failed or abandoned acquisition.\<close>

theorem workspace_lock_released:
  assumes "workspace_reachable excl s" "\<forall>t. hs_phase (ws_hold s) p t \<in> {HoldFresh, HoldAway}"
  shows "hs_flock (ws_hold s) \<noteq> Some p \<and> hs_slot (ws_hold s) p = None \<and> hs_holders (ws_hold s) p = 0"
proof -
  have inv: "count_inv (ws_hold s)" "slot_inv (ws_hold s)"
    using workspace_invariant [OF assms(1)] by (auto simp: workspace_inv_def)
  have away: "hs_phase (ws_hold s) p t \<noteq> HoldSlot" "hs_phase (ws_hold s) p t \<noteq> HoldDropping"
      "hs_phase (ws_hold s) p t \<noteq> HoldInside" for t
    using assms(2) by (metis empty_iff hold_phase.distinct insert_iff)+
  then have "counted (ws_hold s) p = {}" by (simp add: counted_def)
  then have zero: "hs_holders (ws_hold s) p = 0" using inv(1) by (simp add: count_inv_def)
  moreover have "hs_flock (ws_hold s) \<noteq> Some p" using zero inv(1) by (simp add: count_inv_def)
  moreover have "hs_slot (ws_hold s) p = None"
    using away inv(2) by (metis not_Some_eq slot_inv_def)
  ultimately show ?thesis by blast
qed

section \<open>A run with two readers of one process\<close>

definition no_writers :: "nat \<Rightarrow> nat \<Rightarrow> bool" where
  "no_writers p t = False"

definition enter_gate :: "workspace_sys \<Rightarrow> nat \<Rightarrow> workspace_sys" where
  "enter_gate s t = s\<lparr>ws_gates := (ws_gates s)(0 :=
     after_entry (ws_gates s 0) t (gate_enter False (gs_gate (ws_gates s 0))))\<rparr>"

definition take_slot :: "workspace_sys \<Rightarrow> nat \<Rightarrow> workspace_sys" where
  "take_slot s t = s\<lparr>ws_hold := set_phase 0 t HoldSlot (set_slot 0 (Some t) (ws_hold s))\<rparr>"

definition enter_hold :: "workspace_sys \<Rightarrow> nat \<Rightarrow> workspace_sys" where
  "enter_hold s t = s\<lparr>ws_hold := the (hold_enter 0 t (ws_hold s))\<rparr>"

lemma enter_gate_reachable:
  "workspace_reachable no_writers s \<Longrightarrow> gs_phase (ws_gates s 0) t = Fresh \<Longrightarrow>
   hs_phase (ws_hold s) 0 t = HoldFresh \<Longrightarrow> workspace_reachable no_writers (enter_gate s t)"
  unfolding enter_gate_def
  by (erule workspace_reach_step, rule workspace_gate)
    (use gate_start [of "ws_gates s 0" t "no_writers 0"] in \<open>simp_all add: no_writers_def\<close>)

lemma take_slot_reachable:
  "workspace_reachable no_writers s \<Longrightarrow> gs_phase (ws_gates s 0) t = Holding \<Longrightarrow>
   hs_phase (ws_hold s) 0 t = HoldFresh \<Longrightarrow> hs_slot (ws_hold s) 0 = None \<Longrightarrow>
   workspace_reachable no_writers (take_slot s t)"
  unfolding take_slot_def
  by (erule workspace_reach_step, rule workspace_hold) (auto intro: hold_slot)

lemma enter_hold_reachable:
  "workspace_reachable no_writers s \<Longrightarrow> gs_phase (ws_gates s 0) t = Holding \<Longrightarrow>
   hs_phase (ws_hold s) 0 t = HoldSlot \<Longrightarrow> hold_enter 0 t (ws_hold s) \<noteq> None \<Longrightarrow>
   workspace_reachable no_writers (enter_hold s t)"
  unfolding enter_hold_def
  by (erule workspace_reach_step, rule workspace_hold) (auto intro: hold_locked)

definition two_readers :: workspace_sys where
  "two_readers = enter_hold (take_slot (enter_hold (take_slot (enter_gate (enter_gate
     workspace_init 0) 1) 0) 0) 1) 1"

lemmas workspace_run_defs = enter_gate_def take_slot_def enter_hold_def workspace_init_def hold_init_def
  hold_enter_def gate_init_def zero_gate_def gate_ops

lemma two_readers_inside: "inside two_readers 0 0" "inside two_readers 0 1"
  by (simp_all add: two_readers_def inside_def workspace_run_defs)

lemma two_readers_reachable: "workspace_reachable no_writers two_readers"
  unfolding two_readers_def
  by (intro enter_hold_reachable take_slot_reachable enter_gate_reachable workspace_reach_init)
    (simp_all add: workspace_run_defs)

theorem workspace_exclusion_witness: "\<not> no_writers 0 0 \<and> \<not> no_writers 0 1"
  using workspace_exclusion [OF two_readers_reachable two_readers_inside] by simp

theorem workspace_lock_released_witness:
  "hs_flock (ws_hold workspace_init) \<noteq> Some 0 \<and> hs_slot (ws_hold workspace_init) 0 = None \<and>
   hs_holders (ws_hold workspace_init) 0 = 0"
  by (rule workspace_lock_released [OF workspace_reach_init [of no_writers]])
    (simp add: workspace_init_def hold_init_def)

end
