(* ===== verification/Cache.thy ===== *)
theory Cache
  imports Report Workspaces
begin

text \<open>
  The result cache: \<open>CachedExecutor\<close> and \<open>Cache\<close> in \<open>internal/verify/cache.go\<close>. The state is the
  working tree, which may be anything the operations below read and change, with the result records
  and the retry markers under the cache directory. What the code asks of the tree and of other
  packages is the record \<open>cache_ops\<close>: the fingerprint, the executor, and reading, checking and writing
  artifacts. \<open>schedule\<close> is what happens around one call: what other processes did while it waited for
  a lock, which waits fail, and which file operations fail.
\<close>

section \<open>Records on disk\<close>

record artifact =
  ar_path :: string
  ar_mode :: nat
  ar_data :: string

record cache_entry =
  ce_key :: string
  ce_result :: result
  ce_artifacts :: "artifact list"

text \<open>
  \<open>writeRecord\<close> and \<open>readRecord\<close>: the value's JSON in an envelope with its checksum, at most
  \<open>limit\<close> bytes either way. Encoding, decoding and the digest are the library's.
\<close>

record 'v record_codec =
  rc_marshal :: "'v \<Rightarrow> string"
  rc_unmarshal :: "string \<Rightarrow> 'v option"
  rc_envelope :: "string \<Rightarrow> string \<Rightarrow> string"
  rc_open :: "string \<Rightarrow> (string \<times> string) option"
  rc_digest :: "string \<Rightarrow> string"

datatype record_error = RecordMissing | RecordTooLarge nat | RecordMalformed | ChecksumMismatch

definition write_record :: "'v record_codec \<Rightarrow> nat \<Rightarrow> 'v \<Rightarrow> record_error + string" where
  "write_record rc limit v =
     (let data = rc_marshal rc v; body = rc_envelope rc (rc_digest rc data) data in
      if length body > limit then Inl (RecordTooLarge (length body)) else Inr body)"

definition read_record :: "'v record_codec \<Rightarrow> nat \<Rightarrow> string option \<Rightarrow> record_error + 'v" where
  "read_record rc limit file =
     (case file of
        None \<Rightarrow> Inl RecordMissing
      | Some body \<Rightarrow>
          if length body > limit then Inl (RecordTooLarge limit)
          else (case rc_open rc body of
                  None \<Rightarrow> Inl RecordMalformed
                | Some (checksum, data) \<Rightarrow>
                    if checksum \<noteq> rc_digest rc data then Inl ChecksumMismatch
                    else (case rc_unmarshal rc data of None \<Rightarrow> Inl RecordMalformed | Some v \<Rightarrow> Inr v)))"

definition record_limit :: nat where
  "record_limit = 64 * 2 ^ 20"

definition max_record :: "int \<Rightarrow> nat" where
  "max_record limit = (if limit > 0 then nat limit else record_limit)"

section \<open>Notes\<close>

definition join_notes :: "string list \<Rightarrow> string" where
  "join_notes values = join_with ''; '' (filter (\<lambda>v. v \<noteq> '''') values)"

section \<open>State, operations and schedule\<close>

record 't cache_world =
  cw_tree :: 't
  cw_results :: "string \<Rightarrow> cache_entry option"
  cw_retry :: "string \<Rightarrow> bool"

record 't cache_ops =
  op_fingerprint :: "planned_check \<Rightarrow> 't \<Rightarrow> string + string"
  op_execute :: "planned_check \<Rightarrow> bool \<Rightarrow> 't \<Rightarrow> result \<times> 't"
  op_identity :: "planned_check \<Rightarrow> 't \<Rightarrow> string option \<times> toolchain_identity option"
  op_output_error :: "'t \<Rightarrow> string \<Rightarrow> string option"
  op_write_artifact :: "'t \<Rightarrow> artifact \<Rightarrow> string + 't"
  op_read_artifact :: "'t \<Rightarrow> string \<Rightarrow> string + artifact"
  op_note :: "planned_check \<Rightarrow> 't \<Rightarrow> string"

record 't schedule =
  sc_others :: "nat \<Rightarrow> 't cache_world \<Rightarrow> 't cache_world"
  sc_wait_error :: "nat \<Rightarrow> string option"
  sc_cancelled :: "nat \<Rightarrow> string option"
  sc_remove_error :: "string option"
  sc_marker_error :: "string option"
  sc_save_error :: "string option"
  sc_cleanup_error :: "string option"
  sc_executed_at :: int
  sc_lookup_ms :: int
  sc_execution_ms :: int

section \<open>Loading and saving\<close>

text \<open>Restoring artifacts: every destination is checked before the first is written.\<close>

fun write_artifacts :: "'t cache_ops \<Rightarrow> artifact list \<Rightarrow> 't \<Rightarrow> 't \<times> bool" where
  "write_artifacts ops [] t = (t, True)"
| "write_artifacts ops (a # as) t =
     (case op_write_artifact ops t a of Inl e \<Rightarrow> (t, False) | Inr t' \<Rightarrow> write_artifacts ops as t')"

definition usable_entry :: "planned_check \<Rightarrow> string \<Rightarrow> cache_entry \<Rightarrow> bool" where
  "usable_entry c key e \<longleftrightarrow> ce_key e = key \<and> rs_status (ce_result e) = StatusPassed \<and>
     rs_verified_at (ce_result e) \<noteq> None \<and>
     length (ce_artifacts e) = length (check_artifacts (pc_check c))"

text \<open>
  \<open>load\<close>: the result of a usable record whose artifacts are the check's own and could all be restored.
  It returns the tree as well, which a restore that failed half way has already changed.
\<close>

definition cache_load ::
  "'t cache_ops \<Rightarrow> planned_check \<Rightarrow> string \<Rightarrow> 't cache_world \<Rightarrow> result option \<times> 't cache_world" where
  "cache_load ops c key w =
     (case cw_results w key of
        None \<Rightarrow> (None, w)
      | Some e \<Rightarrow>
          if \<not> usable_entry c key e then (None, w)
          else if map ar_path (ce_artifacts e) \<noteq> check_artifacts (pc_check c) \<or>
              list_ex (\<lambda>a. op_output_error ops (cw_tree w) (ar_path a) \<noteq> None) (ce_artifacts e)
          then (None, w)
          else (let (t, ok) = write_artifacts ops (ce_artifacts e) (cw_tree w) in
                (if ok then Some (ce_result e) else None, w\<lparr>cw_tree := t\<rparr>)))"

definition collect_artifacts ::
  "'t cache_ops \<Rightarrow> string list \<Rightarrow> 't \<Rightarrow> string + artifact list" where
  "collect_artifacts ops paths t =
     map_results (\<lambda>p. guard_result (op_output_error ops t p) (op_read_artifact ops t p)) paths"

definition cache_save ::
  "'t cache_ops \<Rightarrow> 't schedule \<Rightarrow> planned_check \<Rightarrow> string \<Rightarrow> result \<Rightarrow> 't cache_world \<Rightarrow> string + 't cache_world"
where
  "cache_save ops sc c key r w =
     bind_result (collect_artifacts ops (check_artifacts (pc_check c)) (cw_tree w)) (\<lambda>as.
       guard_result (sc_save_error sc)
         (Inr (w\<lparr>cw_results := (cw_results w)(key \<mapsto> \<lparr>ce_key = key, ce_result = r, ce_artifacts = as\<rparr>)\<rparr>)))"

section \<open>Running a check the cache does not hold\<close>

text \<open>\<open>executeOnce\<close>: the executor's outcome with the identities taken before it ran.\<close>

definition execute_once ::
  "'t cache_ops \<Rightarrow> planned_check \<Rightarrow> bool \<Rightarrow> 't cache_world \<Rightarrow> result \<times> 't cache_world" where
  "execute_once ops c rerun w =
     (let (impl, toolchain) = op_identity ops c (cw_tree w);
          (r, t) = op_execute ops c rerun (cw_tree w)
      in (r\<lparr>rs_implementation := impl, rs_toolchain := toolchain\<rparr>, w\<lparr>cw_tree := t\<rparr>))"

definition workspace_failure :: "'t schedule \<Rightarrow> nat \<Rightarrow> string \<Rightarrow> result" where
  "workspace_failure sc i e =
     (case sc_cancelled sc i of
        Some ce \<Rightarrow> outcome StatusCancelled ce
      | None \<Rightarrow> outcome StatusError (''cannot lock native workspace: '' @ e))"

definition is_native :: "planned_check \<Rightarrow> bool" where
  "is_native c \<longleftrightarrow> en_executor (pc_environment c) = ExecutorNative"

text \<open>\<open>run\<close>: a native check waits for its workspace first; \<open>i\<close> numbers the waits of one call.\<close>

definition run_uncached ::
  "'t cache_ops \<Rightarrow> 't schedule \<Rightarrow> planned_check \<Rightarrow> bool \<Rightarrow> nat \<Rightarrow> 't cache_world \<Rightarrow> result \<times> 't cache_world" where
  "run_uncached ops sc c rerun i w =
     (if is_native c
      then (case sc_wait_error sc i of
              Some e \<Rightarrow> (workspace_failure sc i e, w)
            | None \<Rightarrow> execute_once ops c rerun (sc_others sc i w))
      else execute_once ops c rerun w)"

section \<open>The key with its lock held\<close>

text \<open>
  \<open>lockedFingerprint\<close>, at most \<open>n\<close> more attempts: fingerprint, wait for the result lock and, when
  gated, for the workspace, and fingerprint again. It returns the number of the next wait.
\<close>

definition kept_changing :: string where
  "kept_changing = ''inputs kept changing during cache lookup''"

fun locked_fingerprint ::
  "'t cache_ops \<Rightarrow> 't schedule \<Rightarrow> planned_check \<Rightarrow> bool \<Rightarrow> nat \<Rightarrow> nat \<Rightarrow> 't cache_world \<Rightarrow>
     (string + string) \<times> nat \<times> 't cache_world" where
  "locked_fingerprint ops sc c gated 0 i w = (Inl kept_changing, i, w)"
| "locked_fingerprint ops sc c gated (Suc n) i w =
     (case op_fingerprint ops c (cw_tree w) of
        Inl e \<Rightarrow> (Inl e, i, w)
      | Inr key \<Rightarrow>
        (case sc_wait_error sc i of
           Some e \<Rightarrow> (Inl e, Suc i, w)
         | None \<Rightarrow>
           let w1 = sc_others sc i w in
           (case (if gated then sc_wait_error sc (Suc i) else None) of
              Some e \<Rightarrow> (Inl e, i + 2, w1)
            | None \<Rightarrow>
              let w2 = (if gated then sc_others sc (Suc i) w1 else w1) in
              (case op_fingerprint ops c (cw_tree w2) of
                 Inl e \<Rightarrow> (Inl e, i + 2, w2)
               | Inr current \<Rightarrow>
                   if current = key then (Inr key, i + 2, w2)
                   else locked_fingerprint ops sc c gated n (i + 2) w2))))"

section \<open>Executing under the lock\<close>

definition info :: "cache_status \<Rightarrow> string \<Rightarrow> string \<Rightarrow> int \<Rightarrow> cache_info" where
  "info s key reason ms = \<lparr>ci_status = s, ci_key = key, ci_reason = reason, ci_lookup_ms = ms\<rparr>"

text \<open>What \<open>execute\<close> keeps of an outcome.\<close>

definition observed :: "'t schedule \<Rightarrow> cache_info \<Rightarrow> result \<Rightarrow> result" where
  "observed sc cache r = r\<lparr>rs_verified_at := Some (sc_executed_at sc),
     rs_execution_ms := sc_execution_ms sc, rs_cache := cache\<rparr>"

definition inputs_changed :: string where
  "inputs_changed = ''inputs changed during execution; result was not cached''"

definition execute_locked ::
  "'t cache_ops \<Rightarrow> 't schedule \<Rightarrow> planned_check \<Rightarrow> bool \<Rightarrow> string \<Rightarrow> string \<Rightarrow> 't cache_world \<Rightarrow>
     result \<times> 't cache_world" where
  "execute_locked ops sc c rerun key reason w =
     (let s = (if rerun then CacheFresh else CacheMiss); ms = sc_lookup_ms sc in
      case sc_remove_error sc of
        Some e \<Rightarrow> (outcome StatusError (''cannot invalidate old cached result: '' @ e), w)
      | None \<Rightarrow>
        let w1 = w\<lparr>cw_results := (cw_results w)(key := None)\<rparr> in
        (case sc_marker_error sc of
           Some e \<Rightarrow> (outcome StatusError (''cannot record verification freshness: '' @ e), w1)
         | None \<Rightarrow>
           let w2 = w1\<lparr>cw_retry := (cw_retry w1)(key := True)\<rparr>;
               (out, w3) = execute_once ops c rerun w2;
               r = observed sc (info s key reason ms) out
           in if rs_status r \<noteq> StatusPassed then (with_cache r (info s key reason ms), w3)
              else if op_fingerprint ops c (cw_tree w3) \<noteq> Inr key
              then (with_cache r (info s key (join_notes [reason, inputs_changed]) ms), w3)
              else (case cache_save ops sc c key r w3 of
                      Inl e \<Rightarrow> (with_cache r (info s key (join_notes [reason, ''cache write unavailable: '' @ e]) ms), w3)
                    | Inr w4 \<Rightarrow>
                        (case sc_cleanup_error sc of
                           Some e \<Rightarrow> (with_cache r (info s key
                               (join_notes [reason, ''freshness marker cleanup unavailable: '' @ e]) ms), w4)
                         | None \<Rightarrow> (with_cache r (info s key reason ms),
                               w4\<lparr>cw_retry := (cw_retry w4)(key := False)\<rparr>)))))"

section \<open>CachedExecutor.Execute\<close>

definition retry_note :: string where
  "retry_note = ''previous execution did not publish a successful result; bypassing underlying verdict caches''"

datatype 't attempt = Answer "result" "'t cache_world" | TryGated nat "'t cache_world"

text \<open>One turn of the lookup loop. A turn that is not gated and finds nothing asks for a gated one.\<close>

definition lookup_turn ::
  "'t cache_ops \<Rightarrow> 't schedule \<Rightarrow> planned_check \<Rightarrow> bool \<Rightarrow> bool \<Rightarrow> nat \<Rightarrow> 't cache_world \<Rightarrow> 't attempt" where
  "lookup_turn ops sc c rerun gated i w =
     (case locked_fingerprint ops sc c gated 3 i w of
        (Inl e, j, w1) \<Rightarrow>
          (case sc_cancelled sc j of
             Some ce \<Rightarrow> Answer (outcome StatusCancelled ce) w1
           | None \<Rightarrow>
               let (r, w2) = run_uncached ops sc c rerun j w1 in
               Answer (with_cache r (info CacheUnavailable '''' e 0)) w2)
      | (Inr key, j, w1) \<Rightarrow>
          let retry = cw_retry w1 key;
              fresh = rerun \<or> retry;
              note = op_note ops c (cw_tree w1);
              reason = (if retry then join_notes [note, retry_note] else note);
              (hit, w2) = (if fresh then (None, w1) else cache_load ops c key w1)
          in case hit of
               Some r \<Rightarrow> Answer (with_cache r (info CacheHit key reason (sc_lookup_ms sc))) w2
             | None \<Rightarrow>
                 if gated \<or> \<not> is_native c
                 then (let (r, w3) = execute_locked ops sc c fresh key reason w2 in Answer r w3)
                 else TryGated j w2)"

definition lookup ::
  "'t cache_ops \<Rightarrow> 't schedule \<Rightarrow> planned_check \<Rightarrow> bool \<Rightarrow> 't cache_world \<Rightarrow> result \<times> 't cache_world" where
  "lookup ops sc c rerun w =
     (let gated = is_native c \<and> (rerun \<or> length (check_artifacts (pc_check c)) > 0) in
      case lookup_turn ops sc c rerun gated 0 w of
        Answer r w' \<Rightarrow> (r, w')
      | TryGated j w' \<Rightarrow>
          (case lookup_turn ops sc c rerun True j w' of
             Answer r w'' \<Rightarrow> (r, w'')
           | TryGated _ w'' \<Rightarrow> (outcome StatusError '''', w'')))"

definition eligible :: "planned_check \<Rightarrow> bool" where
  "eligible c \<longleftrightarrow> cacheable (pc_check c) \<or> en_executor (pc_environment c) = ExecutorDagger \<or>
     shared_go_check (ck_kind (pc_check c))"

definition cached_execute ::
  "'t cache_ops \<Rightarrow> 't schedule \<Rightarrow> bool \<Rightarrow> planned_check \<Rightarrow> bool \<Rightarrow> 't cache_world \<Rightarrow> result \<times> 't cache_world" where
  "cached_execute ops sc has_cache c rerun w =
     (let kind = ck_kind (pc_check c); disabled = (\<lambda>why (r, w'). (with_cache r (info CacheDisabled '''' why 0), w')) in
      case sc_cancelled sc 0 of
        Some e \<Rightarrow> (outcome StatusCancelled e, w)
      | None \<Rightarrow>
        if always_fresh_reason kind \<noteq> '''' then disabled (always_fresh_reason kind) (run_uncached ops sc c True 0 w)
        else if base_dependent_reason kind \<noteq> '''' then disabled (base_dependent_reason kind) (run_uncached ops sc c rerun 0 w)
        else if \<not> has_cache \<or> \<not> eligible c then disabled '''' (run_uncached ops sc c rerun 0 w)
        else lookup ops sc c rerun w)"

lemma lookup_second_turn: "lookup_turn ops sc c rerun True i w \<noteq> TryGated j w'"
  by (auto simp: lookup_turn_def Let_def split: prod.splits sum.splits option.splits)

end
