(* ===== verification/Cache_Properties.thy ===== *)
theory Cache_Properties
  imports Cache
begin

text \<open>
  What the result cache guarantees: records come only from passing executions whose inputs kept their
  key, a hit repeats such a verdict for the inputs as they are, an execution that does not pass leaves
  no record and makes the next run fresh, and kinds whose verdict no fingerprint covers never touch
  the store.
\<close>

section \<open>Where records come from\<close>

text \<open>The same verdict: everything a result says but when it was verified and how it was cached.\<close>

definition same_verdict :: "result \<Rightarrow> result \<Rightarrow> bool" where
  "same_verdict r s \<longleftrightarrow> rs_status r = rs_status s \<and> rs_stdout r = rs_stdout s \<and> rs_stderr r = rs_stderr s \<and>
     rs_error r = rs_error s \<and> rs_details r = rs_details s \<and> rs_warnings r = rs_warnings s \<and>
     rs_stages r = rs_stages s"

definition genuine :: "'t cache_ops \<Rightarrow> string \<Rightarrow> cache_entry \<Rightarrow> bool" where
  "genuine ops key e \<longleftrightarrow> ce_key e = key \<and> rs_status (ce_result e) = StatusPassed \<and>
     rs_verified_at (ce_result e) \<noteq> None \<and>
     (\<exists>c rerun t r t'. op_fingerprint ops c t = Inr key \<and> op_execute ops c rerun t = (r, t') \<and>
        op_fingerprint ops c t' = Inr key \<and> same_verdict r (ce_result e))"

definition sound_store :: "'t cache_ops \<Rightarrow> 't cache_world \<Rightarrow> bool" where
  "sound_store ops w \<longleftrightarrow> (\<forall>key e. cw_results w key = Some e \<longrightarrow> genuine ops key e)"

definition keeps :: "('t cache_world \<Rightarrow> bool) \<Rightarrow> 't schedule \<Rightarrow> bool" where
  "keeps P sc \<longleftrightarrow> (\<forall>i w. P w \<longrightarrow> P (sc_others sc i w))"

lemma locked_keeps:
  "keeps P sc \<Longrightarrow> P w \<Longrightarrow> locked_fingerprint ops sc c gated n i w = (k, j, w') \<Longrightarrow> P w'"
proof (induction n arbitrary: i w)
  case (Suc n)
  define v1 where "v1 = sc_others sc i w"
  define v2 where "v2 = (if gated then sc_others sc (Suc i) v1 else v1)"
  have v: "P v1" "P v2" using Suc.prems(1,2) by (auto simp: keeps_def v1_def v2_def)
  have "w' = w \<or> w' = v1 \<or> w' = v2 \<or> locked_fingerprint ops sc c gated n (i + 2) v2 = (k, j, w')"
    using Suc.prems(3)
    by (auto simp: Let_def v1_def v2_def split: sum.splits option.splits if_splits)
  then show ?case using v Suc.prems(2) Suc.IH [OF Suc.prems(1) v(2)] by blast
qed simp

lemma locked_key:
  "locked_fingerprint ops sc c gated n i w = (Inr key, j, w') \<Longrightarrow> op_fingerprint ops c (cw_tree w') = Inr key"
  by (induction n arbitrary: i w)
    (auto simp: Let_def split: sum.splits option.splits if_splits)

lemma sound_tree [simp]: "sound_store ops (w\<lparr>cw_tree := t\<rparr>) = sound_store ops w"
  by (simp add: sound_store_def)

lemma sound_retry [simp]: "sound_store ops (w\<lparr>cw_retry := r\<rparr>) = sound_store ops w"
  by (simp add: sound_store_def)

lemma sound_remove: "sound_store ops w \<Longrightarrow> sound_store ops (w\<lparr>cw_results := (cw_results w)(key := None)\<rparr>)"
  by (simp add: sound_store_def)

lemma execute_once_results [simp]:
  "execute_once ops c rerun w = (r, w') \<Longrightarrow> cw_results w' = cw_results w \<and> cw_retry w' = cw_retry w"
  by (auto simp: execute_once_def Let_def split: prod.splits)

lemma execute_once_outcome:
  assumes "execute_once ops c rerun w = (r, w')"
  obtains r0 where "op_execute ops c rerun (cw_tree w) = (r0, cw_tree w')" "same_verdict r0 r"
  using assms by (auto simp: execute_once_def Let_def same_verdict_def split: prod.splits)

lemma execute_once_sound:
  "execute_once ops c rerun w = (r, w') \<Longrightarrow> sound_store ops w' = sound_store ops w"
  by (auto simp: sound_store_def dest: execute_once_results)

lemma run_uncached_sound:
  "keeps (sound_store ops) sc \<Longrightarrow> sound_store ops w \<Longrightarrow> run_uncached ops sc c rerun i w = (r, w') \<Longrightarrow>
   sound_store ops w'"
  by (auto simp: run_uncached_def keeps_def execute_once_sound split: if_splits option.splits)

lemma cache_load_results:
  "cache_load ops c key w = (hit, w') \<Longrightarrow> cw_results w' = cw_results w \<and> cw_retry w' = cw_retry w"
  by (auto simp: cache_load_def Let_def split: option.splits if_splits prod.splits)

lemma cache_load_sound: "cache_load ops c key w = (hit, w') \<Longrightarrow> sound_store ops w' = sound_store ops w"
  by (auto simp: sound_store_def dest: cache_load_results)

lemma cache_load_hit:
  assumes "cache_load ops c key w = (Some r, w')"
  obtains e where "cw_results w key = Some e" "ce_result e = r" "rs_status r = StatusPassed"
    "check_artifacts (pc_check c) = [] \<Longrightarrow> w' = w"
proof -
  from assms obtain e where e: "cw_results w key = Some e" "usable_entry c key e" "ce_result e = r"
      "w' = w\<lparr>cw_tree := fst (write_artifacts ops (ce_artifacts e) (cw_tree w))\<rparr>"
    by (auto simp: cache_load_def Let_def split: option.splits if_splits prod.splits)
  have "w' = w" if "check_artifacts (pc_check c) = []"
    using that e(2) by (simp add: e(4) usable_entry_def)
  with e that show ?thesis by (auto simp: usable_entry_def)
qed

lemma observed_fields [simp]:
  "rs_status (observed sc i r) = rs_status r" "rs_verified_at (observed sc i r) = Some (sc_executed_at sc)"
  "same_verdict r (observed sc i s) = same_verdict r s" "rs_cache (observed sc i r) = i"
  by (simp_all add: observed_def same_verdict_def)

lemma with_cache_fields [simp]:
  "rs_status (with_cache r i) = rs_status r" "rs_cache (with_cache r i) = i"
  "same_verdict s (with_cache r i) = same_verdict s r"
  by (simp_all add: with_cache_def same_verdict_def)

text \<open>One execution under the lock, on a world whose tree has the key.\<close>

lemma cache_save_Inr:
  assumes "cache_save ops sc c key r w = Inr w'"
  obtains as where "w' = w\<lparr>cw_results := (cw_results w)(key \<mapsto> \<lparr>ce_key = key, ce_result = r, ce_artifacts = as\<rparr>)\<rparr>"
  using assms by (auto simp: cache_save_def guard_result_Inr bind_result_Inr)

lemma execute_locked_sound:
  assumes "execute_locked ops sc c rerun key reason w = (r, w')" "sound_store ops w"
    and key: "op_fingerprint ops c (cw_tree w) = Inr key"
  shows "sound_store ops w'"
proof -
  let ?w2 = "w\<lparr>cw_results := (cw_results w)(key := None), cw_retry := (cw_retry w)(key := True)\<rparr>"
  obtain out w3 where once: "execute_once ops c rerun ?w2 = (out, w3)" by fastforce
  have sound3: "sound_store ops w3"
    using execute_once_sound [OF once] sound_remove [OF assms(2)] by simp
  obtain r0 where r0: "op_execute ops c rerun (cw_tree w) = (r0, cw_tree w3)" "same_verdict r0 out"
    using execute_once_outcome [OF once] by auto
  have saved: "sound_store ops w4"
    if "cache_save ops sc c key (observed sc i out) w3 = Inr w4" "rs_status out = StatusPassed"
      "op_fingerprint ops c (cw_tree w3) = Inr key" for w4 i
  proof -
    from that(1) obtain as where w4: "w4 = w3\<lparr>cw_results := (cw_results w3)(key \<mapsto>
        \<lparr>ce_key = key, ce_result = observed sc i out, ce_artifacts = as\<rparr>)\<rparr>"
      by (rule cache_save_Inr)
    have "genuine ops key \<lparr>ce_key = key, ce_result = observed sc i out, ce_artifacts = as\<rparr>"
      unfolding genuine_def using key r0 that(2,3)
      by (intro conjI exI [of _ c] exI [of _ rerun] exI [of _ "cw_tree w"] exI [of _ r0] exI [of _ "cw_tree w3"])
        simp_all
    then show ?thesis using sound3 by (auto simp: w4 sound_store_def)
  qed
  have "sound_store ops (w\<lparr>cw_results := (cw_results w)(key := None)\<rparr>)" by (rule sound_remove [OF assms(2)])
  then show ?thesis
    using assms(1,2) once sound3 saved
    by (auto simp: execute_locked_def Let_def split: option.splits if_splits sum.splits prod.splits)
qed

text \<open>
  Declared outputs are not part of a check's inputs: restoring one of the check's own artifacts does
  not change its fingerprint (\<open>keyedSource\<close> excludes \<open>outputPaths\<close>).
\<close>

definition artifact_neutral :: "'t cache_ops \<Rightarrow> planned_check \<Rightarrow> bool" where
  "artifact_neutral ops c \<longleftrightarrow> (\<forall>t a t'. ar_path a \<in> set (check_artifacts (pc_check c)) \<longrightarrow>
     op_write_artifact ops t a = Inr t' \<longrightarrow> op_fingerprint ops c t' = op_fingerprint ops c t)"

lemma write_artifacts_key:
  "artifact_neutral ops c \<Longrightarrow> ar_path ` set as \<subseteq> set (check_artifacts (pc_check c)) \<Longrightarrow>
   write_artifacts ops as t = (t', ok) \<Longrightarrow> op_fingerprint ops c t' = op_fingerprint ops c t"
proof (induction as arbitrary: t)
  case (Cons a as)
  then show ?case
    by (auto simp: artifact_neutral_def split: sum.splits)
qed simp

lemma cache_load_key:
  assumes "artifact_neutral ops c" "cache_load ops c key w = (hit, w')"
  shows "op_fingerprint ops c (cw_tree w') = op_fingerprint ops c (cw_tree w)"
proof (cases "w' = w")
  case False
  then obtain e where e: "cw_results w key = Some e" "map ar_path (ce_artifacts e) = check_artifacts (pc_check c)"
      "w' = w\<lparr>cw_tree := fst (write_artifacts ops (ce_artifacts e) (cw_tree w))\<rparr>"
    using assms(2) by (auto simp: cache_load_def Let_def split: option.splits if_splits prod.splits)
  have "ar_path ` set (ce_artifacts e) \<subseteq> set (check_artifacts (pc_check c))"
    by (simp flip: e(2))
  moreover obtain t ok where "write_artifacts ops (ce_artifacts e) (cw_tree w) = (t, ok)" by fastforce
  ultimately show ?thesis using write_artifacts_key [OF assms(1)] by (simp add: e(3))
qed simp

definition try_load ::
  "'t cache_ops \<Rightarrow> planned_check \<Rightarrow> bool \<Rightarrow> string \<Rightarrow> 't cache_world \<Rightarrow> result option \<times> 't cache_world" where
  "try_load ops c fresh key w = (if fresh then (None, w) else cache_load ops c key w)"

text \<open>The turns of the lookup, as cases.\<close>

lemma lookup_turn_cases:
  assumes "locked_fingerprint ops sc c gated 3 i w = (k, j, w1)"
  obtains
    (cancelled) e ce where "k = Inl e" "sc_cancelled sc j = Some ce"
      "lookup_turn ops sc c rerun gated i w = Answer (outcome StatusCancelled ce) w1"
  | (unavailable) e r w2 where "k = Inl e" "run_uncached ops sc c rerun j w1 = (r, w2)"
      "lookup_turn ops sc c rerun gated i w = Answer (with_cache r (info CacheUnavailable '''' e 0)) w2"
  | (hit) key r w2 reason where "k = Inr key" "\<not> rerun" "\<not> cw_retry w1 key" "cache_load ops c key w1 = (Some r, w2)"
      "lookup_turn ops sc c rerun gated i w = Answer (with_cache r (info CacheHit key reason (sc_lookup_ms sc))) w2"
  | (execute) key r w2 w3 reason where "k = Inr key" "gated \<or> \<not> is_native c"
      "try_load ops c (rerun \<or> cw_retry w1 key) key w1 = (None, w2)"
      "execute_locked ops sc c (rerun \<or> cw_retry w1 key) key reason w2 = (r, w3)"
      "lookup_turn ops sc c rerun gated i w = Answer r w3"
  | (again) key w2 where "k = Inr key" "\<not> gated" "is_native c"
      "try_load ops c (rerun \<or> cw_retry w1 key) key w1 = (None, w2)"
      "lookup_turn ops sc c rerun gated i w = TryGated j w2"
proof (cases k)
  case (Inl e)
  show ?thesis
  proof (cases "sc_cancelled sc j")
    case (Some ce)
    then show ?thesis using assms Inl by (intro cancelled) (simp_all add: lookup_turn_def)
  next
    case None
    obtain r w2 where "run_uncached ops sc c rerun j w1 = (r, w2)" by fastforce
    then show ?thesis using assms Inl None
      by (intro unavailable [OF Inl]) (simp_all add: lookup_turn_def)
  qed
next
  case (Inr key)
  define fresh where "fresh = (rerun \<or> cw_retry w1 key)"
  define reason where "reason = (if cw_retry w1 key then join_notes [op_note ops c (cw_tree w1), retry_note]
      else op_note ops c (cw_tree w1))"
  obtain h w2 where load: "try_load ops c fresh key w1 = (h, w2)" by fastforce
  have turn: "lookup_turn ops sc c rerun gated i w = (case h of
      Some r \<Rightarrow> Answer (with_cache r (info CacheHit key reason (sc_lookup_ms sc))) w2
    | None \<Rightarrow> if gated \<or> \<not> is_native c then (let (r, w3) = execute_locked ops sc c fresh key reason w2 in Answer r w3)
        else TryGated j w2)"
    using assms Inr load unfolding fresh_def reason_def try_load_def
    by (simp add: lookup_turn_def Let_def)
  show ?thesis
  proof (cases h)
    case (Some r)
    with load have "\<not> fresh" by (auto simp: try_load_def split: if_splits)
    then show ?thesis using hit [OF Inr] load Some turn by (simp add: fresh_def try_load_def)
  next
    case None
    show ?thesis
    proof (cases "gated \<or> \<not> is_native c")
      case True
      obtain r w3 where "execute_locked ops sc c fresh key reason w2 = (r, w3)" by fastforce
      then show ?thesis using execute [OF Inr True] load None turn True by (simp add: fresh_def)
    next
      case False
      then show ?thesis using again [OF Inr] load None turn by (simp add: fresh_def)
    qed
  qed
qed

lemma try_load_sound: "try_load ops c fresh key w = (hit, w') \<Longrightarrow> sound_store ops w' = sound_store ops w"
  by (auto simp: try_load_def cache_load_sound split: if_splits)

lemma try_load_key:
  "artifact_neutral ops c \<Longrightarrow> try_load ops c fresh key w = (hit, w') \<Longrightarrow>
   op_fingerprint ops c (cw_tree w') = op_fingerprint ops c (cw_tree w)"
  by (auto simp: try_load_def cache_load_key split: if_splits)

text \<open>What a turn's answer says: a hit repeats a genuine record of the key the inputs have now.\<close>

definition hit_genuine :: "'t cache_ops \<Rightarrow> planned_check \<Rightarrow> result \<Rightarrow> 't cache_world \<Rightarrow> bool" where
  "hit_genuine ops c r w \<longleftrightarrow> (ci_status (rs_cache r) = CacheHit \<longrightarrow>
     op_fingerprint ops c (cw_tree w) = Inr (ci_key (rs_cache r)) \<and>
     (\<exists>e. genuine ops (ci_key (rs_cache r)) e \<and> same_verdict r (ce_result e)))"

lemma execute_locked_status:
  "execute_locked ops sc c rerun key reason w = (r, w') \<Longrightarrow> ci_status (rs_cache r) \<noteq> CacheHit"
  by (auto simp: execute_locked_def Let_def outcome_def zero_cache_info_def info_def
      split: option.splits if_splits sum.splits prod.splits)

lemma lookup_turn_sound:
  assumes keep: "keeps (sound_store ops) sc" and sound: "sound_store ops w" and neutral: "artifact_neutral ops c"
  shows "case lookup_turn ops sc c rerun gated i w of
      Answer r w' \<Rightarrow> sound_store ops w' \<and> hit_genuine ops c r w'
    | TryGated j w' \<Rightarrow> sound_store ops w'"
proof -
  obtain k j w1 where lock: "locked_fingerprint ops sc c gated 3 i w = (k, j, w1)" by (metis prod_cases3)
  have w1: "sound_store ops w1" by (rule locked_keeps [OF keep sound lock])
  from lock show ?thesis
  proof (cases rule: lookup_turn_cases [where rerun = rerun])
    case (cancelled e ce)
    then show ?thesis using w1 by (simp add: hit_genuine_def outcome_def zero_cache_info_def)
  next
    case (unavailable e r w2)
    then show ?thesis using run_uncached_sound [OF keep w1] by (simp add: hit_genuine_def info_def)
  next
    case (hit key r w2 reason)
    have key: "op_fingerprint ops c (cw_tree w2) = Inr key"
      using locked_key [OF lock [unfolded hit(1)]] cache_load_key [OF neutral hit(4)] by simp
    obtain e where "cw_results w1 key = Some e" "ce_result e = r" using hit(4) by (rule cache_load_hit)
    with w1 have "genuine ops key e" "same_verdict r (ce_result e)"
      by (auto simp: sound_store_def same_verdict_def)
    with key w1 cache_load_sound [OF hit(4)] show ?thesis
      unfolding hit(5) by (auto simp: hit_genuine_def info_def same_verdict_def with_cache_def)
  next
    case (execute key r w2 w3 reason)
    have "op_fingerprint ops c (cw_tree w2) = Inr key"
      using locked_key [OF lock [unfolded execute(1)]] try_load_key [OF neutral execute(3)] by simp
    then have "sound_store ops w3"
      using execute_locked_sound [OF execute(4)] try_load_sound [OF execute(3)] w1 by simp
    then show ?thesis using execute execute_locked_status [OF execute(4)] by (simp add: hit_genuine_def)
  next
    case (again key w2)
    then show ?thesis using try_load_sound [OF again(4)] w1 by simp
  qed
qed

lemma lookup_sound:
  assumes "keeps (sound_store ops) sc" "sound_store ops w" "artifact_neutral ops c"
    "lookup ops sc c rerun w = (r, w')"
  shows "sound_store ops w' \<and> hit_genuine ops c r w'"
proof -
  let ?g = "is_native c \<and> (rerun \<or> length (check_artifacts (pc_check c)) > 0)"
  have first: "case lookup_turn ops sc c rerun ?g 0 w of
      Answer r w' \<Rightarrow> sound_store ops w' \<and> hit_genuine ops c r w' | TryGated j w' \<Rightarrow> sound_store ops w'"
    by (rule lookup_turn_sound [OF assms(1-3)])
  show ?thesis
  proof (cases "lookup_turn ops sc c rerun ?g 0 w")
    case (Answer r0 w0)
    then show ?thesis using first assms(4) by (simp add: lookup_def Let_def)
  next
    case (TryGated j w0)
    with first have w0: "sound_store ops w0" by simp
    have second: "case lookup_turn ops sc c rerun True j w0 of
        Answer r w' \<Rightarrow> sound_store ops w' \<and> hit_genuine ops c r w' | TryGated j w' \<Rightarrow> sound_store ops w'"
      by (rule lookup_turn_sound [OF assms(1) w0 assms(3)])
    show ?thesis
    proof (cases "lookup_turn ops sc c rerun True j w0")
      case (Answer r1 v)
      then show ?thesis using second assms(4) TryGated by (simp add: lookup_def Let_def)
    next
      case tg: (TryGated m v)
      then show ?thesis using lookup_second_turn by metis
    qed
  qed
qed

text \<open>C2. Result reuse is sound. If every record of the store comes from a passing execution whose
  inputs had the record's key before and after it, so does every record after any call, whatever other
  processes that keep this did while the call waited for locks; and a call that answers from the cache
  answers with the verdict of such an execution, passed, for the key the inputs have at that moment.\<close>

theorem cache_reuse_sound:
  assumes "keeps (sound_store ops) sc" "sound_store ops w" "artifact_neutral ops c"
    "cached_execute ops sc has_cache c rerun w = (r, w')"
  shows "sound_store ops w' \<and>
    (ci_status (rs_cache r) = CacheHit \<longrightarrow> rs_status r = StatusPassed \<and>
      op_fingerprint ops c (cw_tree w') = Inr (ci_key (rs_cache r)) \<and>
      (\<exists>e. genuine ops (ci_key (rs_cache r)) e \<and> same_verdict r (ce_result e)))"
proof -
  have "sound_store ops w' \<and> hit_genuine ops c r w'"
  proof (cases "sc_cancelled sc 0 = None \<and> always_fresh_reason (ck_kind (pc_check c)) = '''' \<and>
      base_dependent_reason (ck_kind (pc_check c)) = '''' \<and> has_cache \<and> eligible c")
    case True
    then have "lookup ops sc c rerun w = (r, w')" using assms(4) by (simp add: cached_execute_def Let_def)
    then show ?thesis by (rule lookup_sound [OF assms(1-3)])
  next
    case False
    then show ?thesis using assms(4) assms(2) run_uncached_sound [OF assms(1,2)]
      by (auto simp: cached_execute_def Let_def hit_genuine_def outcome_def zero_cache_info_def info_def
          split: option.splits if_splits prod.splits)
  qed
  then show ?thesis by (auto simp: hit_genuine_def genuine_def same_verdict_def)
qed

section \<open>What an execution leaves behind\<close>

definition published :: "'t cache_ops \<Rightarrow> planned_check \<Rightarrow> result \<Rightarrow> 't cache_world \<Rightarrow> bool" where
  "published ops c r w \<longleftrightarrow> (\<exists>e. cw_results w (ci_key (rs_cache r)) = Some e \<and> ce_key e = ci_key (rs_cache r) \<and>
     rs_status r = StatusPassed \<and> same_verdict r (ce_result e) \<and>
     op_fingerprint ops c (cw_tree w) = Inr (ci_key (rs_cache r)))"

definition withheld :: "result \<Rightarrow> 't cache_world \<Rightarrow> bool" where
  "withheld r w \<longleftrightarrow> cw_results w (ci_key (rs_cache r)) = None \<and> cw_retry w (ci_key (rs_cache r))"

definition executed_cached :: "result \<Rightarrow> bool" where
  "executed_cached r \<longleftrightarrow> ci_status (rs_cache r) = CacheMiss \<or> ci_status (rs_cache r) = CacheFresh"

lemma execute_locked_cases:
  assumes "execute_locked ops sc c rerun key reason w = (r, w')"
  obtains (refused) m where "r = outcome StatusError m"
  | (left_out) out w3 i i' where "r = with_cache (observed sc i out) i'" "w' = w3" "ci_key i' = key"
      "execute_once ops c rerun (w\<lparr>cw_results := (cw_results w)(key := None),
        cw_retry := (cw_retry w)(key := True)\<rparr>) = (out, w3)"
  | (recorded) out w3 i i' e where "r = with_cache (observed sc i out) i'" "ci_key i' = key"
      "execute_once ops c rerun (w\<lparr>cw_results := (cw_results w)(key := None),
        cw_retry := (cw_retry w)(key := True)\<rparr>) = (out, w3)"
      "rs_status out = StatusPassed" "op_fingerprint ops c (cw_tree w3) = Inr key"
      "cw_tree w' = cw_tree w3" "cw_results w' key = Some e" "ce_key e = key" "ce_result e = observed sc i out"
proof -
  let ?w2 = "w\<lparr>cw_results := (cw_results w)(key := None), cw_retry := (cw_retry w)(key := True)\<rparr>"
  obtain out w3 where once: "execute_once ops c rerun ?w2 = (out, w3)" by fastforce
  define i where "i = info (if rerun then CacheFresh else CacheMiss) key reason (sc_lookup_ms sc)"
  show ?thesis
  proof (cases "sc_remove_error sc = None \<and> sc_marker_error sc = None")
    case False
    with assms have "\<exists>m. r = outcome StatusError m"
      by (auto simp: execute_locked_def Let_def split: option.splits)
    then show ?thesis using refused by blast
  next
    case ok: True
    show ?thesis
    proof (cases "rs_status out = StatusPassed \<and> op_fingerprint ops c (cw_tree w3) = Inr key")
      case False
      then show ?thesis using assms ok once
        by (intro left_out [OF _ _ _ once, of i "rs_cache r"])
          (auto simp: execute_locked_def Let_def i_def info_def with_cache_def split: if_splits)
    next
      case passed: True
      show ?thesis
      proof (cases "cache_save ops sc c key (observed sc i out) w3")
        case (Inl e)
        then show ?thesis using assms ok once passed
          by (intro left_out [OF _ _ _ once, of i "rs_cache r"])
            (auto simp: execute_locked_def Let_def i_def info_def with_cache_def)
      next
        case (Inr w4)
        then obtain as where w4: "w4 = w3\<lparr>cw_results := (cw_results w3)(key \<mapsto>
            \<lparr>ce_key = key, ce_result = observed sc i out, ce_artifacts = as\<rparr>)\<rparr>"
          by (rule cache_save_Inr)
        show ?thesis using assms ok once passed Inr
          by (intro recorded [OF _ _ once, of i "rs_cache r"
                "\<lparr>ce_key = key, ce_result = observed sc i out, ce_artifacts = as\<rparr>"])
            (auto simp: execute_locked_def Let_def i_def info_def with_cache_def w4 split: option.splits)
      qed
    qed
  qed
qed

lemma executed_outcome [simp]: "\<not> executed_cached (outcome s m)"
  by (simp add: executed_cached_def outcome_def zero_cache_info_def)

lemma execute_locked_leaves:
  assumes "execute_locked ops sc c rerun key reason w = (r, w')" "executed_cached r"
  shows "published ops c r w' \<or> withheld r w'"
  using assms(1)
proof (cases rule: execute_locked_cases)
  case (refused m)
  then show ?thesis using assms(2) by simp
next
  case (left_out out w3 i i')
  then show ?thesis using execute_once_results [OF left_out(4)] by (simp add: withheld_def)
next
  case (recorded out w3 i i' e)
  then have "published ops c r w'"
    by (auto simp: published_def same_verdict_def with_cache_def observed_def)
  then show ?thesis ..
qed

lemma run_uncached_cache: "executed_cached (with_cache r (info CacheUnavailable '''' e 0)) = False"
  "executed_cached (with_cache r (info CacheHit k e ms)) = False"
  "executed_cached (with_cache r (info CacheDisabled '''' e 0)) = False"
  "executed_cached (outcome s m) = False"
  by (simp_all add: executed_cached_def info_def outcome_def zero_cache_info_def)

lemma lookup_turn_leaves:
  assumes "lookup_turn ops sc c rerun gated i w = Answer r w'" "executed_cached r"
  shows "published ops c r w' \<or> withheld r w'"
proof -
  obtain k j w1 where lock: "locked_fingerprint ops sc c gated 3 i w = (k, j, w1)" by (metis prod_cases3)
  from lock show ?thesis
  proof (cases rule: lookup_turn_cases [where rerun = rerun])
    case (execute key r0 w2 w3 reason)
    then have "execute_locked ops sc c (rerun \<or> cw_retry w1 key) key reason w2 = (r, w')"
      using assms(1) by simp
    then show ?thesis by (rule execute_locked_leaves [OF _ assms(2)])
  qed (use assms in \<open>auto simp: run_uncached_cache\<close>)
qed

lemma cached_execute_lookup:
  assumes "cached_execute ops sc has_cache c rerun w = (r, w')" "executed_cached r"
  shows "lookup ops sc c rerun w = (r, w')"
  using assms
  by (auto simp: cached_execute_def Let_def run_uncached_cache split: option.splits if_splits prod.splits)

lemma lookup_leaves:
  assumes "lookup ops sc c rerun w = (r, w')" "executed_cached r"
  shows "published ops c r w' \<or> withheld r w'"
proof -
  let ?g = "is_native c \<and> (rerun \<or> length (check_artifacts (pc_check c)) > 0)"
  show ?thesis
  proof (cases "lookup_turn ops sc c rerun ?g 0 w")
    case (Answer r0 w0)
    then show ?thesis using assms lookup_turn_leaves by (simp add: lookup_def Let_def)
  next
    case (TryGated j w0)
    then show ?thesis using assms lookup_turn_leaves [of ops sc c rerun True j w0]
      by (cases "lookup_turn ops sc c rerun True j w0")
        (auto simp: lookup_def Let_def lookup_second_turn)
  qed
qed

text \<open>An execution under the cache leaves one of two things for its key: a record with its passing
  verdict, for inputs that still have that key, or no record at all and a retry marker. A failure, an
  error, a cancellation or inputs that changed meanwhile always leave the second.\<close>

theorem execution_publishes_or_marks:
  assumes "cached_execute ops sc has_cache c rerun w = (r, w')" "executed_cached r"
  shows "(published ops c r w' \<or> withheld r w') \<and>
    (rs_status r \<noteq> StatusPassed \<or> op_fingerprint ops c (cw_tree w') \<noteq> Inr (ci_key (rs_cache r)) \<longrightarrow>
       withheld r w')"
proof -
  have "published ops c r w' \<or> withheld r w'"
    using lookup_leaves [OF cached_execute_lookup [OF assms] assms(2)] .
  then show ?thesis by (auto simp: published_def)
qed

section \<open>Calls that run undisturbed\<close>

definition quiet :: "'t schedule \<Rightarrow> bool" where
  "quiet sc \<longleftrightarrow> sc_others sc = (\<lambda>_ w. w) \<and> sc_wait_error sc = (\<lambda>_. None) \<and>
     sc_cancelled sc = (\<lambda>_. None) \<and> sc_remove_error sc = None \<and> sc_marker_error sc = None \<and>
     sc_save_error sc = None \<and> sc_cleanup_error sc = None"

definition cached_kind :: "planned_check \<Rightarrow> bool" where
  "cached_kind c \<longleftrightarrow> always_fresh_reason (ck_kind (pc_check c)) = '''' \<and>
     base_dependent_reason (ck_kind (pc_check c)) = '''' \<and> eligible c"

lemma quiet_locked:
  "quiet sc \<Longrightarrow> op_fingerprint ops c (cw_tree w) = Inr key \<Longrightarrow>
   locked_fingerprint ops sc c gated (Suc n) i w = (Inr key, i + 2, w)"
  by (simp add: quiet_def)

lemma quiet_locked3:
  "quiet sc \<Longrightarrow> op_fingerprint ops c (cw_tree w) = Inr key \<Longrightarrow>
   locked_fingerprint ops sc c gated 3 i w = (Inr key, i + 2, w)"
  by (simp only: numeral_3_eq_3 quiet_locked)

lemma quiet_execute:
  assumes "quiet sc"
  shows "\<exists>out w3. execute_once ops c rerun (w\<lparr>cw_results := (cw_results w)(key := None),
        cw_retry := (cw_retry w)(key := True)\<rparr>) = (out, w3) \<and>
      same_verdict out (fst (execute_locked ops sc c rerun key reason w)) \<and>
      rs_cache (fst (execute_locked ops sc c rerun key reason w)) \<noteq> zero_cache_info \<and>
      ci_status (rs_cache (fst (execute_locked ops sc c rerun key reason w))) =
        (if rerun then CacheFresh else CacheMiss) \<and>
      ci_key (rs_cache (fst (execute_locked ops sc c rerun key reason w))) = key"
proof -
  let ?w2 = "w\<lparr>cw_results := (cw_results w)(key := None), cw_retry := (cw_retry w)(key := True)\<rparr>"
  obtain out w3 where once: "execute_once ops c rerun ?w2 = (out, w3)" by fastforce
  then show ?thesis using assms
    by (auto simp: execute_locked_def Let_def quiet_def info_def zero_cache_info_def same_verdict_def
        observed_def with_cache_def split: sum.splits)
qed

text \<open>A retry marker, or a request for fresh results, makes an undisturbed call execute with the
  underlying caches bypassed.\<close>

lemma lookup_turn_fresh:
  assumes "quiet sc" "op_fingerprint ops c (cw_tree w) = Inr key" "rerun \<or> cw_retry w key"
  shows "lookup_turn ops sc c rerun gated i w =
    (if gated \<or> \<not> is_native c
     then (let (r, w3) = execute_locked ops sc c True key
            (if cw_retry w key then join_notes [op_note ops c (cw_tree w), retry_note] else op_note ops c (cw_tree w)) w
           in Answer r w3)
     else TryGated (i + 2) w)"
  using assms by (auto simp: lookup_turn_def quiet_locked3 Let_def)

text \<open>What did not pass is run again: when the key of the inputs carries a retry marker, the next
  undisturbed call executes the check with reruns forced, so that no verdict cache underneath answers
  for it, and reports it as fresh under that key, even if some record for the key exists.\<close>

theorem marked_key_reruns:
  assumes "quiet sc" "cached_kind c" "op_fingerprint ops c (cw_tree w) = Inr key" "cw_retry w key"
    "cached_execute ops sc True c rerun w = (r, w')"
  shows "ci_status (rs_cache r) = CacheFresh \<and> ci_key (rs_cache r) = key \<and>
    (\<exists>r0 t'. op_execute ops c True (cw_tree w) = (r0, t') \<and> same_verdict r0 r)"
proof -
  let ?reason = "join_notes [op_note ops c (cw_tree w), retry_note]"
  let ?x = "execute_locked ops sc c True key ?reason w"
  have turn: "lookup_turn ops sc c rr gated i w =
      (if gated \<or> \<not> is_native c then Answer (fst ?x) (snd ?x) else TryGated (i + 2) w)" for rr gated i
    using assms(4) lookup_turn_fresh [OF assms(1,3)] by (simp add: case_prod_beta Let_def)
  have "lookup ops sc c rerun w = (fst ?x, snd ?x)"
    by (simp add: lookup_def Let_def turn)
  then have r: "r = fst ?x"
    using assms(1,2,5) by (simp add: cached_execute_def cached_kind_def quiet_def Let_def)
  obtain out w3 where once: "execute_once ops c True (w\<lparr>cw_results := (cw_results w)(key := None),
        cw_retry := (cw_retry w)(key := True)\<rparr>) = (out, w3)" "same_verdict out r"
      "ci_status (rs_cache r) = CacheFresh" "ci_key (rs_cache r) = key"
    using quiet_execute [OF assms(1), of ops c True w key ?reason] by (auto simp: r)
  obtain r0 where "op_execute ops c True (cw_tree w) = (r0, cw_tree w3)" "same_verdict r0 out"
    using execute_once_outcome [OF once(1)] by auto
  with once show ?thesis by (auto simp: same_verdict_def)
qed

lemma quiet_pass:
  assumes "quiet sc" "op_execute ops c rerun (cw_tree w) = (r0, t')" "rs_status r0 = StatusPassed"
    "op_fingerprint ops c t' = Inr key" "check_artifacts (pc_check c) = []"
  shows "\<exists>r e. execute_locked ops sc c rerun key reason w =
      (r, \<lparr>cw_tree = t', cw_results = (cw_results w)(key \<mapsto> e), cw_retry = (cw_retry w)(key := False)\<rparr>) \<and>
    usable_entry c key e \<and> ce_artifacts e = [] \<and> same_verdict r0 (ce_result e) \<and> same_verdict r0 r"
proof -
  obtain impl tc where id: "op_identity ops c (cw_tree w) = (impl, tc)" by fastforce
  define i where "i = info (if rerun then CacheFresh else CacheMiss) key reason (sc_lookup_ms sc)"
  define r where "r = observed sc i (r0\<lparr>rs_implementation := impl, rs_toolchain := tc\<rparr>)"
  define e where "e = \<lparr>ce_key = key, ce_result = r, ce_artifacts = []\<rparr>"
  have "execute_locked ops sc c rerun key reason w = (with_cache r i,
      \<lparr>cw_tree = t', cw_results = (cw_results w)(key \<mapsto> e), cw_retry = (cw_retry w)(key := False)\<rparr>)"
    using assms id
    by (cases w) (simp add: execute_locked_def Let_def quiet_def execute_once_def cache_save_def
        collect_artifacts_def bind_result_def guard_result_def r_def e_def i_def)
  moreover have "usable_entry c key e" "ce_artifacts e = []" "same_verdict r0 (ce_result e)"
      "same_verdict r0 (with_cache r i)"
    using assms(3,5) by (simp_all add: usable_entry_def e_def r_def same_verdict_def observed_def with_cache_def)
  ultimately show ?thesis by blast
qed

lemma quiet_lookup_execute:
  assumes "quiet sc" "op_fingerprint ops c (cw_tree w) = Inr key" "cw_results w key = None"
  shows "\<exists>reason. lookup ops sc c rerun w = execute_locked ops sc c (rerun \<or> cw_retry w key) key reason w"
proof -
  have load: "try_load ops c f key w = (None, w)" for f
    using assms(3) by (simp add: try_load_def cache_load_def)
  define reason where "reason = (if cw_retry w key then join_notes [op_note ops c (cw_tree w), retry_note]
      else op_note ops c (cw_tree w))"
  let ?x = "\<lambda>rr. execute_locked ops sc c (rr \<or> cw_retry w key) key reason w"
  have turn: "lookup_turn ops sc c rr gated i w =
      (if gated \<or> \<not> is_native c then Answer (fst (?x rr)) (snd (?x rr)) else TryGated (i + 2) w)" for rr gated i
    using load [unfolded try_load_def]
    by (simp add: lookup_turn_def quiet_locked3 [OF assms(1,2)] Let_def reason_def case_prod_beta
        cache_load_def assms(3))
  have "lookup ops sc c rerun w = ?x rerun"
    by (simp add: lookup_def Let_def turn)
  then show ?thesis by blast
qed

lemma quiet_lookup_hit:
  assumes "quiet sc" "op_fingerprint ops c (cw_tree w) = Inr key" "cw_results w key = Some e"
    "usable_entry c key e" "ce_artifacts e = []" "check_artifacts (pc_check c) = []" "\<not> cw_retry w key"
  shows "\<exists>reason. lookup ops sc c False w =
    (with_cache (ce_result e) (info CacheHit key reason (sc_lookup_ms sc)), w)"
proof -
  have "cache_load ops c key w = (Some (ce_result e), w)"
    using assms(3-6) by (simp add: cache_load_def)
  then have "lookup_turn ops sc c False False 0 w =
      Answer (with_cache (ce_result e) (info CacheHit key (op_note ops c (cw_tree w)) (sc_lookup_ms sc))) w"
    using assms(7) by (simp add: lookup_turn_def quiet_locked3 [OF assms(1,2)] Let_def)
  then show ?thesis using assms(6) by (auto simp: lookup_def Let_def)
qed

text \<open>A passing execution is reused: when nothing disturbs two calls, the store has no record for
  the key, the check has no artifacts, passes, and leaves its inputs with the same key, then the first
  call executes it and the second, if it does not ask for fresh results, answers from the cache with
  the same verdict under that key, executes nothing and leaves tree and store alone.\<close>

theorem passing_run_is_reused:
  assumes "quiet sc" "quiet sc'" "cached_kind c" "check_artifacts (pc_check c) = []"
    and "op_fingerprint ops c (cw_tree w) = Inr key" "cw_results w key = None"
    and "op_execute ops c (rerun \<or> cw_retry w key) (cw_tree w) = (r0, t')" "rs_status r0 = StatusPassed"
    and "op_fingerprint ops c t' = Inr key"
  shows "let (r, w') = cached_execute ops sc True c rerun w;
             (r', w'') = cached_execute ops sc' True c False w'
         in same_verdict r0 r \<and> same_verdict r0 r' \<and> cw_tree w' = t' \<and> w'' = w' \<and>
            ci_status (rs_cache r') = CacheHit \<and> ci_key (rs_cache r') = key"
proof -
  have direct: "cached_execute ops sc True c rr v = lookup ops sc c rr v" if "quiet sc" for sc rr v
    using that assms(3) by (simp add: cached_execute_def cached_kind_def quiet_def Let_def)
  obtain reason where first: "lookup ops sc c rerun w =
      execute_locked ops sc c (rerun \<or> cw_retry w key) key reason w"
    using quiet_lookup_execute [OF assms(1,5,6)] by blast
  obtain r e where r: "execute_locked ops sc c (rerun \<or> cw_retry w key) key reason w =
      (r, \<lparr>cw_tree = t', cw_results = (cw_results w)(key \<mapsto> e), cw_retry = (cw_retry w)(key := False)\<rparr>)"
      "usable_entry c key e" "ce_artifacts e = []" "same_verdict r0 (ce_result e)" "same_verdict r0 r"
    using quiet_pass [OF assms(1,7,8,9,4)] by blast
  obtain reason' where "lookup ops sc' c False
      \<lparr>cw_tree = t', cw_results = (cw_results w)(key \<mapsto> e), cw_retry = (cw_retry w)(key := False)\<rparr> =
      (with_cache (ce_result e) (info CacheHit key reason' (sc_lookup_ms sc')),
       \<lparr>cw_tree = t', cw_results = (cw_results w)(key \<mapsto> e), cw_retry = (cw_retry w)(key := False)\<rparr>)"
    using quiet_lookup_hit [OF assms(2), of ops c "\<lparr>cw_tree = t', cw_results = (cw_results w)(key \<mapsto> e),
        cw_retry = (cw_retry w)(key := False)\<rparr>" key e] assms(4,9) r by auto
  with r show ?thesis by (simp add: direct assms(1,2) first info_def)
qed

section \<open>Kinds the cache must not hold\<close>

definition store_kept :: "'t schedule \<Rightarrow> bool" where
  "store_kept sc \<longleftrightarrow> (\<forall>i w. cw_results (sc_others sc i w) = cw_results w \<and> cw_retry (sc_others sc i w) = cw_retry w)"

lemma run_uncached_store:
  "store_kept sc \<Longrightarrow> run_uncached ops sc c rerun i w = (r, w') \<Longrightarrow>
   cw_results w' = cw_results w \<and> cw_retry w' = cw_retry w"
  by (auto simp: run_uncached_def store_kept_def dest: execute_once_results split: if_splits option.splits)

text \<open>A verdict no fingerprint covers is never reused or stored: for an advisory scan, a module
  verification, a mutation run or an API comparison, a call reads and writes no record and no marker
  and reports the cache disabled; unless it was cancelled or could not enter the working tree, it
  executed the check, and for an always fresh kind with reruns forced.\<close>

theorem independent_verdicts_bypass_cache:
  assumes "always_fresh_reason (ck_kind (pc_check c)) \<noteq> '''' \<or> base_dependent_reason (ck_kind (pc_check c)) \<noteq> ''''"
    and "store_kept sc" "cached_execute ops sc has_cache c rerun w = (r, w')"
  shows "cw_results w' = cw_results w \<and> cw_retry w' = cw_retry w \<and>
    ci_status (rs_cache r) \<in> {CacheDisabled, CacheUnset} \<and>
    (sc_cancelled sc 0 = None \<longrightarrow> sc_wait_error sc 0 = None \<longrightarrow>
      (\<exists>t r0 t'. op_execute ops c (rerun \<or> always_fresh_reason (ck_kind (pc_check c)) \<noteq> '''') t = (r0, t') \<and>
         same_verdict r0 r))"
proof (cases "sc_cancelled sc 0")
  case (Some e)
  then show ?thesis using assms(3)
    by (auto simp: cached_execute_def Let_def outcome_def zero_cache_info_def)
next
  case None
  define force where "force = (rerun \<or> always_fresh_reason (ck_kind (pc_check c)) \<noteq> '''')"
  obtain r1 w1 where run: "run_uncached ops sc c force 0 w = (r1, w1)" by fastforce
  obtain why where r: "r = with_cache r1 (info CacheDisabled '''' why 0)" "w' = w1"
    using assms(1,3) None run
    by (cases "always_fresh_reason (ck_kind (pc_check c)) = ''''")
      (auto simp: cached_execute_def Let_def force_def)
  have "\<exists>t r0 t'. op_execute ops c force t = (r0, t') \<and> same_verdict r0 r" if "sc_wait_error sc 0 = None"
  proof -
    from run that obtain v where "execute_once ops c force v = (r1, w1)"
      by (auto simp: run_uncached_def split: if_splits)
    then obtain r0 where "op_execute ops c force (cw_tree v) = (r0, cw_tree w1)" "same_verdict r0 r1"
      by (rule execute_once_outcome)
    then show ?thesis using r by auto
  qed
  then show ?thesis using run_uncached_store [OF assms(2) run] r
    by (simp add: info_def flip: force_def)
qed

section \<open>Two concrete runs\<close>

text \<open>A tree is its contents, its key is the contents, and a check passes unless the contents are
  \<open>bad\<close>. Nothing has artifacts.\<close>

definition example_ops :: "string cache_ops" where
  "example_ops = \<lparr>op_fingerprint = (\<lambda>_ t. Inr t),
     op_execute = (\<lambda>_ _ t. (outcome (if t = ''bad'' then StatusFailed else StatusPassed) '''', t)),
     op_identity = (\<lambda>_ _. (None, None)), op_output_error = (\<lambda>_ _. None),
     op_write_artifact = (\<lambda>t _. Inr t), op_read_artifact = (\<lambda>_ _. Inl ''missing''), op_note = (\<lambda>_ _. '''')\<rparr>"

definition quiet_schedule :: "'t schedule" where
  "quiet_schedule = \<lparr>sc_others = (\<lambda>_ w. w), sc_wait_error = (\<lambda>_. None), sc_cancelled = (\<lambda>_. None),
     sc_remove_error = None, sc_marker_error = None, sc_save_error = None, sc_cleanup_error = None,
     sc_executed_at = 7, sc_lookup_ms = 1, sc_execution_ms = 2\<rparr>"

definition empty_cache :: "string \<Rightarrow> string cache_world" where
  "empty_cache t = \<lparr>cw_tree = t, cw_results = (\<lambda>_. None), cw_retry = (\<lambda>_. False)\<rparr>"

definition vet_check :: planned_check where
  "vet_check = \<lparr>pc_id = CheckGoVet, pc_check = plain_check CheckGoVet default_target default_environment,
     pc_target = \<lparr>tg_dir = dot, tg_workspace = dot, tg_inputs = [dot], tg_exclude = [], tg_discovery = DiscoveryGit\<rparr>,
     pc_environment = \<lparr>en_executor = ExecutorDagger, en_identity = '''', en_env = [], en_pass_env = [], en_tools = []\<rparr>,
     pc_preparation = None, pc_build = None, pc_rule_modules = []\<rparr>"

definition first_call :: "string \<Rightarrow> result \<times> string cache_world" where
  "first_call t = cached_execute example_ops quiet_schedule True vet_check False (empty_cache t)"

definition second_call :: "string \<Rightarrow> result \<times> string cache_world" where
  "second_call t = cached_execute example_ops quiet_schedule True vet_check False (snd (first_call t))"

lemma quiet_schedule_quiet: "quiet quiet_schedule"
  by (simp add: quiet_def quiet_schedule_def)

lemma quiet_keeps: "quiet sc \<Longrightarrow> keeps P sc"
  by (simp add: quiet_def keeps_def)

lemma vet_cached: "cached_kind vet_check" "check_artifacts (pc_check vet_check) = []"
  by (simp_all add: cached_kind_def vet_check_def plain_check_def always_fresh_reason_def
      base_dependent_reason_def spec_of_def kind_specs_def zero_spec_def eligible_def check_artifacts_def)

lemma example_neutral: "artifact_neutral example_ops c"
  by (simp add: artifact_neutral_def example_ops_def)

lemma empty_cache_sound: "sound_store example_ops (empty_cache t)"
  by (simp add: sound_store_def empty_cache_def)

theorem cache_reuse_sound_witness:
  "ci_status (rs_cache (fst (second_call ''ok''))) = CacheHit \<and>
   rs_status (fst (second_call ''ok'')) = StatusPassed \<and>
   sound_store example_ops (snd (second_call ''ok''))"
proof -
  have first: "sound_store example_ops (snd (first_call ''ok''))"
    using cache_reuse_sound [OF quiet_keeps [OF quiet_schedule_quiet] empty_cache_sound example_neutral,
        of True vet_check False "''ok''" "fst (first_call ''ok'')" "snd (first_call ''ok'')"]
    by (simp add: first_call_def)
  have hit: "ci_status (rs_cache (fst (second_call ''ok''))) = CacheHit" by code_simp
  show ?thesis
    using cache_reuse_sound [OF quiet_keeps [OF quiet_schedule_quiet] first example_neutral,
        of True vet_check False "fst (second_call ''ok'')" "snd (second_call ''ok'')"] hit
    by (simp add: second_call_def)
qed

theorem execution_publishes_or_marks_witness:
  "withheld (fst (first_call ''bad'')) (snd (first_call ''bad''))"
proof -
  have "executed_cached (fst (first_call ''bad''))" "rs_status (fst (first_call ''bad'')) \<noteq> StatusPassed"
    by code_simp+
  then show ?thesis
    using execution_publishes_or_marks [of example_ops quiet_schedule True vet_check False "empty_cache ''bad''"
        "fst (first_call ''bad'')" "snd (first_call ''bad'')"]
    by (simp add: first_call_def)
qed

theorem marked_key_reruns_witness:
  "ci_status (rs_cache (fst (second_call ''bad''))) = CacheFresh"
proof -
  have marked: "op_fingerprint example_ops vet_check (cw_tree (snd (first_call ''bad''))) = Inr ''bad''"
    "cw_retry (snd (first_call ''bad'')) ''bad''"
    by code_simp+
  show ?thesis
    using marked_key_reruns [OF quiet_schedule_quiet vet_cached(1) marked,
        of False "fst (second_call ''bad'')" "snd (second_call ''bad'')"]
    by (simp add: second_call_def)
qed

theorem passing_run_is_reused_witness:
  "ci_status (rs_cache (fst (cached_execute example_ops quiet_schedule True vet_check False
     (snd (cached_execute example_ops quiet_schedule True vet_check False (empty_cache ''ok'')))))) = CacheHit"
proof -
  have facts: "op_fingerprint example_ops vet_check (cw_tree (empty_cache ''ok'')) = Inr ''ok''"
    "cw_results (empty_cache ''ok'') ''ok'' = None"
    "op_execute example_ops vet_check (False \<or> cw_retry (empty_cache ''ok'') ''ok'') (cw_tree (empty_cache ''ok'')) =
      (outcome StatusPassed '''', ''ok'')"
    "rs_status (outcome StatusPassed '''') = StatusPassed"
    "op_fingerprint example_ops vet_check ''ok'' = Inr ''ok''"
    by (simp_all add: example_ops_def empty_cache_def outcome_def)
  show ?thesis
    using passing_run_is_reused [OF quiet_schedule_quiet quiet_schedule_quiet vet_cached facts(1,2,3,4,5)]
    by (simp add: case_prod_beta Let_def)
qed

definition vuln_check :: planned_check where
  "vuln_check = vet_check\<lparr>pc_check := plain_check CheckGoVuln default_target default_environment\<rparr>"

theorem independent_verdicts_bypass_cache_witness:
  "ci_status (rs_cache (fst (cached_execute example_ops quiet_schedule True vuln_check False (empty_cache ''ok''))))
     \<in> {CacheDisabled, CacheUnset}"
proof -
  have reason: "always_fresh_reason (ck_kind (pc_check vuln_check)) \<noteq> '''' \<or>
      base_dependent_reason (ck_kind (pc_check vuln_check)) \<noteq> ''''"
    by code_simp
  have kept: "store_kept (quiet_schedule :: string schedule)" by (simp add: store_kept_def quiet_schedule_def)
  show ?thesis
    using independent_verdicts_bypass_cache [OF reason kept, of example_ops True False "empty_cache ''ok''"
        "fst (cached_execute example_ops quiet_schedule True vuln_check False (empty_cache ''ok''))"
        "snd (cached_execute example_ops quiet_schedule True vuln_check False (empty_cache ''ok''))"]
    by simp
qed

end
