(* ===== verification/Go_Search.thy ===== *)
theory Go_Search
  imports Go_Path "HOL-Library.List_Lexorder" "HOL-Library.Char_ord"
begin

text \<open>
  \<open>sort.Search\<close> and the lookups in a sorted listing of paths that \<open>internal/verify/enumerate.go\<close>
  builds on it. A listing is sorted bytewise, which is the order of \<open>List_Lexorder\<close> over
  \<open>Char_ord\<close>.
\<close>

section \<open>Binary search\<close>

function search_loop :: "(nat \<Rightarrow> bool) \<Rightarrow> nat \<Rightarrow> nat \<Rightarrow> nat" where
  "search_loop f i j =
     (if i < j then
        let h = (i + j) div 2 in
        if \<not> f h then search_loop f (h + 1) j else search_loop f i h
      else i)"
  by pat_completeness auto
termination
  by (relation "measure (\<lambda>(f, i, j). j - i)") (auto simp: Let_def)

declare search_loop.simps [simp del]

definition search :: "nat \<Rightarrow> (nat \<Rightarrow> bool) \<Rightarrow> nat" where
  "search n f = search_loop f 0 n"

definition rising :: "nat \<Rightarrow> (nat \<Rightarrow> bool) \<Rightarrow> bool" where
  "rising n f \<longleftrightarrow> (\<forall>a b. a \<le> b \<longrightarrow> b < n \<longrightarrow> f a \<longrightarrow> f b)"

definition least_from :: "nat \<Rightarrow> (nat \<Rightarrow> bool) \<Rightarrow> nat \<Rightarrow> bool" where
  "least_from n f r \<longleftrightarrow> r \<le> n \<and> (\<forall>k < r. \<not> f k) \<and> (\<forall>k. r \<le> k \<longrightarrow> k < n \<longrightarrow> f k)"

lemma search_loop_least:
  "rising n f \<Longrightarrow> i \<le> j \<Longrightarrow> j \<le> n \<Longrightarrow> \<forall>k < i. \<not> f k \<Longrightarrow> \<forall>k. j \<le> k \<longrightarrow> k < n \<longrightarrow> f k \<Longrightarrow>
   least_from n f (search_loop f i j)"
proof (induction f i j rule: search_loop.induct)
  case (1 f i j)
  show ?case
  proof (cases "i < j")
    case False
    then show ?thesis using "1.prems" by (subst search_loop.simps) (auto simp: least_from_def)
  next
    case True
    define h where "h = (i + j) div 2"
    have h: "i \<le> h" "h < j" using True by (auto simp: h_def)
    show ?thesis
    proof (cases "f h")
      case fh: True
      have "\<forall>k. h \<le> k \<longrightarrow> k < n \<longrightarrow> f k" using fh "1.prems"(1) by (auto simp: rising_def)
      then have "least_from n f (search_loop f i h)"
        using "1.IH"(2) [OF True h_def] fh "1.prems" h by auto
      then show ?thesis using True fh by (subst search_loop.simps) (simp add: Let_def flip: h_def)
    next
      case fh: False
      have "\<forall>k < h + 1. \<not> f k"
      proof (intro allI impI)
        fix k assume "k < h + 1"
        then have "k \<le> h" "h < n" using h "1.prems" by auto
        then show "\<not> f k" using fh "1.prems"(1) unfolding rising_def by blast
      qed
      then have "least_from n f (search_loop f (h + 1) j)"
        using "1.IH"(1) [OF True h_def] fh "1.prems" h by auto
      then show ?thesis using True fh by (subst search_loop.simps) (simp add: Let_def flip: h_def)
    qed
  qed
qed

lemma search_least: "rising n f \<Longrightarrow> least_from n f (search n f)"
  unfolding search_def by (rule search_loop_least) auto

lemma search_take_drop:
  assumes "least_from (length xs) (\<lambda>i. P (xs ! i)) r"
  shows "filter P xs = drop r xs" "filter (\<lambda>x. \<not> P x) xs = take r xs"
proof -
  have r: "r \<le> length xs" and lo: "\<forall>x \<in> set (take r xs). \<not> P x" and hi: "\<forall>x \<in> set (drop r xs). P x"
    using assms by (auto simp: least_from_def in_set_conv_nth)
  have "filter P (take r xs @ drop r xs) = drop r xs"
    unfolding filter_append using lo hi by (simp add: filter_empty_conv filter_id_conv)
  then show "filter P xs = drop r xs" by simp
  have "filter (\<lambda>x. \<not> P x) (take r xs @ drop r xs) = take r xs"
    unfolding filter_append using lo hi by (simp add: filter_empty_conv filter_id_conv)
  then show "filter (\<lambda>x. \<not> P x) xs = take r xs" by simp
qed

section \<open>Sorted listings\<close>

definition search_strings :: "string list \<Rightarrow> string \<Rightarrow> nat" where
  "search_strings xs x = search (length xs) (\<lambda>i. x \<le> xs ! i)"

definition listed_at :: "string list \<Rightarrow> string \<Rightarrow> bool" where
  "listed_at listed path =
     (let i = search_strings listed path in i < length listed \<and> listed ! i = path)"

definition listed_under :: "string list \<Rightarrow> string \<Rightarrow> string list" where
  "listed_under listed input =
     (if input = dot then listed
      else
        let covered = (if listed_at listed input then [input] else []);
            pre = input @ ''/'';
            lo = search_strings listed pre;
            hi = lo + search (length listed - lo) (\<lambda>i. \<not> has_prefix (listed ! (lo + i)) pre)
        in covered @ take (hi - lo) (drop lo listed))"

lemma sorted_rising: "sorted xs \<Longrightarrow> rising (length xs) (\<lambda>i. (x::string) \<le> xs ! i)"
  by (auto simp: rising_def) (meson order_trans sorted_nth_mono)

lemma search_strings_least:
  "sorted xs \<Longrightarrow> least_from (length xs) (\<lambda>i. x \<le> xs ! i) (search_strings xs x)"
  unfolding search_strings_def by (intro search_least sorted_rising)

lemma listed_at_iff:
  assumes "sorted listed"
  shows "listed_at listed path \<longleftrightarrow> path \<in> set listed"
proof
  show "listed_at listed path \<Longrightarrow> path \<in> set listed"
    by (auto simp: listed_at_def Let_def dest: nth_mem)
  assume "path \<in> set listed"
  then obtain k where k: "k < length listed" "listed ! k = path" by (auto simp: in_set_conv_nth)
  let ?i = "search_strings listed path"
  have least: "least_from (length listed) (\<lambda>i. path \<le> listed ! i) ?i"
    by (rule search_strings_least [OF assms])
  then have le: "?i \<le> k" using k by (metis least_from_def not_less order_refl)
  then have i: "?i < length listed" using k by simp
  have "path \<le> listed ! ?i" using least i by (simp add: least_from_def)
  moreover have "listed ! ?i \<le> path" using sorted_nth_mono [OF assms le k(1)] k(2) by simp
  ultimately show "listed_at listed path" using i by (simp add: listed_at_def Let_def)
qed

text \<open>In bytewise order the strings with one prefix form one run.\<close>

lemma less_eq_list_append: "p \<le> p @ (y :: string)"
  by (induction p) simp_all

lemma prefix_le: "prefix p s \<Longrightarrow> p \<le> (s :: string)"
  by (auto simp: prefix_def intro: less_eq_list_append)

lemma prefix_between:
  "p \<le> s \<Longrightarrow> s \<le> p @ y \<Longrightarrow> prefix p (s :: string)"
proof (induction p arbitrary: s)
  case (Cons c p)
  then obtain d s' where s: "s = d # s'" by (cases s) auto
  with Cons.prems have "c \<le> d" "d \<le> c" by auto
  then have "c = d" by simp
  with Cons s show ?case by simp
qed simp

lemma run_rising:
  assumes "sorted xs" "\<forall>x \<in> set xs. p \<le> x"
  shows "rising (length xs) (\<lambda>i. \<not> prefix p (xs ! i :: string))"
  unfolding rising_def
proof (intro allI impI notI)
  fix a b assume ab: "a \<le> b" "b < length xs" "\<not> prefix p (xs ! a)" "prefix p (xs ! b)"
  from ab(4) obtain y where y: "xs ! b = p @ y" by (auto simp: prefix_def)
  have "xs ! a \<le> xs ! b" using assms(1) ab by (simp add: sorted_nth_mono)
  moreover have "p \<le> xs ! a" using assms(2) ab by simp
  ultimately show False using ab(3) prefix_between y by simp
qed

lemma prefix_run:
  assumes "sorted listed"
  shows "take (search (length listed - search_strings listed p)
      (\<lambda>i. \<not> prefix p (listed ! (search_strings listed p + i)))) (drop (search_strings listed p) listed) =
    filter (prefix p) listed"
proof -
  let ?lo = "search_strings listed p"
  have least: "least_from (length listed) (\<lambda>i. p \<le> listed ! i) ?lo" by (rule search_strings_least [OF assms])
  then have tail: "drop ?lo listed = filter (\<lambda>x. p \<le> x) listed" using search_take_drop(1) by metis
  have lo: "?lo \<le> length listed" using least by (simp add: least_from_def)
  have "rising (length (drop ?lo listed)) (\<lambda>i. \<not> prefix p (drop ?lo listed ! i))"
    by (rule run_rising) (use assms tail in \<open>auto simp: sorted_wrt_filter\<close>)
  then have "least_from (length (drop ?lo listed)) (\<lambda>i. \<not> prefix p (drop ?lo listed ! i))
      (search (length (drop ?lo listed)) (\<lambda>i. \<not> prefix p (drop ?lo listed ! i)))"
    by (rule search_least)
  from search_take_drop(2) [OF this]
  have "filter (\<lambda>x. \<not> \<not> prefix p x) (drop ?lo listed) =
      take (search (length listed - ?lo) (\<lambda>i. \<not> prefix p (listed ! (?lo + i)))) (drop ?lo listed)"
    using lo by simp
  moreover have "filter (prefix p) (filter (\<lambda>x. p \<le> x) listed) = filter (prefix p) listed"
  proof -
    have "(p \<le> x \<and> prefix p x) = prefix p x" for x using prefix_le by blast
    then show ?thesis by (simp add: conj_commute)
  qed
  ultimately show ?thesis by (simp only: not_not tail)
qed

lemma filter_eq_single: "distinct xs \<Longrightarrow> filter (\<lambda>x. x = a) xs = (if a \<in> set xs then [a] else [])"
  by (induction xs) auto

text \<open>Looking a declared input up by binary search finds what a scan of the whole listing would:
  in a sorted listing without repeats, the paths \<open>listedUnder\<close> returns are exactly the listed paths
  under the input, in the listing's order.\<close>

theorem listed_under_filter:
  assumes "sorted listed" "distinct listed"
  shows "listed_under listed input = filter (\<lambda>p. under p input) listed"
proof (cases "input = dot")
  case True
  then show ?thesis by (simp add: listed_under_def under_def)
next
  case False
  let ?pre = "input @ ''/''"
  have single: "(if listed_at listed input then [input] else []) = filter (\<lambda>x. x = input) listed"
    by (simp add: filter_eq_single [OF assms(2)] listed_at_iff [OF assms(1)])
  have "filter (\<lambda>x. x = input \<or> prefix ?pre x) xs = filter (\<lambda>x. x = input) xs @ filter (prefix ?pre) xs"
    if "sorted xs" for xs
    using that
  proof (induction xs)
    case (Cons x xs)
    show ?case
    proof (cases "prefix ?pre x")
      case True
      have "input \<le> x" "input \<noteq> x" using True by (auto simp: prefix_def intro: less_eq_list_append)
      then have "\<forall>y \<in> set xs. y \<noteq> input" using Cons.prems by fastforce
      then have "filter (\<lambda>x. x = input) xs = []" by (simp add: filter_empty_conv)
      then show ?thesis using Cons True \<open>input \<noteq> x\<close> by simp
    next
      case no: False
      then show ?thesis using Cons by simp
    qed
  qed simp
  from this [OF assms(1)] have "filter (\<lambda>p. under p input) listed =
      filter (\<lambda>x. x = input) listed @ filter (prefix ?pre) listed"
    using False by (simp add: under_def)
  then show ?thesis
    using False prefix_run [OF assms(1), of ?pre] single by (simp add: listed_under_def Let_def)
qed

theorem listed_under_filter_witness:
  "listed_under [''a'', ''a-b'', ''a/x'', ''b''] ''a'' = [''a'', ''a/x'']"
proof -
  have "sorted [''a'', ''a-b'', ''a/x'', ''b'']" "distinct [''a'', ''a-b'', ''a/x'', ''b'']"
    by (simp_all add: less_eq_char_def less_char_def)
  from listed_under_filter [OF this] show ?thesis by (simp add: under_def)
qed

end
