(* ===== verification/File_Sets.thy ===== *)
theory File_Sets
  imports Go_Search Go_Format Planning
begin

text \<open>
  Which files a check consumes: \<open>internal/verify/enumerate.go\<close>, \<open>goload.go\<close>, \<open>visible.go\<close> and the
  snapshot of \<open>fingerprint.go\<close>. A walk is the list of visits it makes, in order; a visitor that
  never asks to skip a directory sees exactly this list. Git's listing and the set of paths it
  ignores are arguments.
\<close>

section \<open>Sets and visits\<close>

datatype path_scope = ScopeDeclared | ScopeIgnored | ScopeOmitted

record file_set =
  st_inputs :: "string list"
  st_excludes :: "string list"
  st_discovery :: discovery_kind
  st_go_toolchain :: bool

record git_listing =
  gl_files :: "string list option"
  gl_ignored :: "string list"
  gl_note :: string

record visit =
  vs_rel :: string
  vs_node :: "node option"
  vs_scope :: path_scope

datatype walk_error = InvalidInput string | WalkFailed fs_error | WalkSpelled spelling_error

definition visit_of :: "string \<Rightarrow> node option \<Rightarrow> path_scope \<Rightarrow> visit" where
  "visit_of rel n scope = \<lparr>vs_rel = rel, vs_node = n, vs_scope = scope\<rparr>"

definition target_files :: "planned_check \<Rightarrow> file_set" where
  "target_files c = \<lparr>st_inputs = tg_inputs (pc_target c), st_excludes = tg_exclude (pc_target c),
     st_discovery = tg_discovery (pc_target c),
     st_go_toolchain = reads_go_toolchain (ck_kind (pc_check c))\<rparr>"

definition excluded :: "string \<Rightarrow> string list \<Rightarrow> bool" where
  "excluded path excludes \<longleftrightarrow> base_name path = ''.git'' \<or> list_ex (under path) excludes"

section \<open>Walking a directory\<close>

text \<open>
  \<open>walkTree\<close> over \<open>fs.WalkDir\<close>: a path that is excluded is left out with everything below it; a link
  is reported and not followed. \<open>here\<close> is where the tree has the path (it differs from the path's
  own elements only by case); a directory's names come sorted. The first argument bounds the depth:
  \<open>tree_depth\<close> is enough.
\<close>

definition tree_depth :: "fs \<Rightarrow> nat" where
  "tree_depth t = foldl max 0 (map (\<lambda>e. length (fst e)) (fs_nodes t))"

definition rel_path :: "string list \<Rightarrow> string" where
  "rel_path ps = (if ps = [] then dot else unparts ps)"

fun walk_below :: "nat \<Rightarrow> fs \<Rightarrow> string list \<Rightarrow> string list \<Rightarrow> string list \<Rightarrow> visit list" where
  "walk_below 0 t excludes ps here = []"
| "walk_below (Suc n) t excludes ps here =
     (if excluded (rel_path ps) excludes then []
      else (case node_at t here of
              None \<Rightarrow> [visit_of (rel_path ps) None ScopeDeclared]
            | Some DirNode \<Rightarrow> visit_of (rel_path ps) (Some DirNode) ScopeDeclared #
                concat (map (\<lambda>name. walk_below n t excludes (ps @ [name]) (here @ [name])) (entries_of t here))
            | Some node \<Rightarrow> [visit_of (rel_path ps) (Some node) ScopeDeclared]))"

definition path_parts :: "string \<Rightarrow> string list" where
  "path_parts path = (if path = dot then [] else parts path)"

definition walk_tree :: "fs \<Rightarrow> string list \<Rightarrow> string \<Rightarrow> walk_error + visit list" where
  "walk_tree t excludes path =
     (case resolve t False (fs_max_links t) [] (path_parts path) of
        Inl NotExist \<Rightarrow> Inr (if excluded path excludes then [] else [visit_of path None ScopeDeclared])
      | Inl e \<Rightarrow> if excluded path excludes then Inr [] else Inl (WalkFailed e)
      | Inr here \<Rightarrow> Inr (walk_below (Suc (tree_depth t)) t excludes (path_parts path) here))"

section \<open>What the Go toolchain can load\<close>

definition go_source_extensions :: "string list" where
  "go_source_extensions = [''.go'', ''.c'', ''.cc'', ''.cxx'', ''.cpp'', ''.m'', ''.h'', ''.hh'', ''.hpp'',
     ''.hxx'', ''.f'', ''.F'', ''.for'', ''.f90'', ''.s'', ''.S'', ''.sx'', ''.swig'', ''.swigcxx'', ''.syso'']"

definition go_module_files :: "string list" where
  "go_module_files = [''go.mod'', ''go.sum'', ''go.work'', ''go.work.sum'']"

definition vendor_manifest :: string where
  "vendor_manifest = ''modules.txt''"

definition in_testdata :: "string \<Rightarrow> bool" where
  "in_testdata rel \<longleftrightarrow> ''testdata'' \<in> set (parts rel)"

definition embeds_in :: "fs \<Rightarrow> string \<Rightarrow> bool" where
  "embeds_in t d =
     (case read_dir t (path_parts d) of
        None \<Rightarrow> False
      | Some names \<Rightarrow> list_ex (\<lambda>name.
          (case lstat t (rel_path (path_parts d @ [name])) of
             Inr (FileNode _ text) \<Rightarrow> ext_name name = ''.go'' \<and> contains text ''//go:embed''
           | _ \<Rightarrow> False)) names)"

text \<open>The directory itself and each one above it, up to the root.\<close>

definition dirs_above :: "string \<Rightarrow> string list" where
  "dirs_above d = map (\<lambda>i. rel_path (take i (path_parts d))) (rev [0 ..< Suc (length (path_parts d))])"

definition embedded :: "fs \<Rightarrow> string \<Rightarrow> bool" where
  "embedded t d \<longleftrightarrow> list_ex (embeds_in t) (dirs_above d)"

definition directory_link :: "fs \<Rightarrow> string \<Rightarrow> node \<Rightarrow> bool" where
  "directory_link t rel n =
     (case n of LinkNode _ \<Rightarrow> (case stat t rel of Inr DirNode \<Rightarrow> True | _ \<Rightarrow> False) | _ \<Rightarrow> False)"

definition file_scope :: "fs \<Rightarrow> string \<Rightarrow> node \<Rightarrow> path_scope" where
  "file_scope t rel n =
     (let name = base_name rel in
      if ext_name name \<in> set go_source_extensions \<or> name \<in> set go_module_files then ScopeIgnored
      else if name = vendor_manifest \<and> base_name (dir_name rel) = ''vendor'' then ScopeIgnored
      else if in_testdata rel \<or> embedded t (dir_name rel) \<or> directory_link t rel n then ScopeIgnored
      else ScopeOmitted)"

text \<open>\<open>goDirectories\<close>: does the subtree hold a \<open>.go\<close> file? It reads names only.\<close>

fun go_bearing :: "nat \<Rightarrow> fs \<Rightarrow> string list \<Rightarrow> bool" where
  "go_bearing 0 t here = False"
| "go_bearing (Suc n) t here = list_ex (\<lambda>name.
     (case node_at t (here @ [name]) of
        Some DirNode \<Rightarrow> go_bearing n t (here @ [name])
      | Some _ \<Rightarrow> ext_name name = ''.go''
      | None \<Rightarrow> False)) (entries_of t here)"

text \<open>\<open>goLoader.walk\<close>: kept directories have no visit of their own, one nothing can be loaded from is
  reported once and not descended.\<close>

fun loader_below :: "nat \<Rightarrow> fs \<Rightarrow> string list \<Rightarrow> string list \<Rightarrow> string list \<Rightarrow> visit list" where
  "loader_below 0 t excludes ps here = []"
| "loader_below (Suc n) t excludes ps here =
     (if excluded (rel_path ps) excludes then []
      else (case node_at t here of
              None \<Rightarrow> []
            | Some DirNode \<Rightarrow>
                if go_bearing (Suc (tree_depth t)) t here \<or> in_testdata (rel_path ps) \<or> embedded t (rel_path ps)
                then concat (map (\<lambda>name. loader_below n t excludes (ps @ [name]) (here @ [name])) (entries_of t here))
                else [visit_of (rel_path ps) (Some DirNode) ScopeOmitted]
            | Some node \<Rightarrow> [visit_of (rel_path ps) (Some node) (file_scope t (rel_path ps) node)]))"

definition loader_walk :: "fs \<Rightarrow> string list \<Rightarrow> string \<Rightarrow> walk_error + visit list" where
  "loader_walk t excludes path =
     (case resolve t False (fs_max_links t) [] (path_parts path) of
        Inl e \<Rightarrow> Inl (WalkFailed e)
      | Inr here \<Rightarrow> Inr (loader_below (Suc (tree_depth t)) t excludes (path_parts path) here))"

section \<open>Walking a set\<close>

datatype reached = NotReached "visit list" | Reached bool

text \<open>\<open>reach\<close>: the directories above an input, from the root down.\<close>

fun reach_parents :: "fs \<Rightarrow> string list \<Rightarrow> string \<Rightarrow> bool \<Rightarrow> string list \<Rightarrow> walk_error + reached" where
  "reach_parents t listed input nested [] = Inr (Reached nested)"
| "reach_parents t listed input nested (parent # parents) =
     (case lstat t parent of
        Inl NotExist \<Rightarrow> Inr (Reached nested)
      | Inl e \<Rightarrow> Inl (WalkFailed e)
      | Inr (LinkNode target) \<Rightarrow> Inr (NotReached [visit_of parent (Some (LinkNode target)) ScopeDeclared])
      | Inr DirNode \<Rightarrow> reach_parents t listed input (nested \<or> listed_at listed parent) parents
      | Inr _ \<Rightarrow> Inr (NotReached [visit_of input None ScopeDeclared]))"

definition parents_of :: "string \<Rightarrow> string list" where
  "parents_of input = map (\<lambda>i. path_join (take i (parts input))) [1 ..< length (parts input)]"

definition reach :: "fs \<Rightarrow> string list \<Rightarrow> string \<Rightarrow> walk_error + reached" where
  "reach t listed input = reach_parents t listed input False (parents_of input)"

fun walk_listed :: "fs \<Rightarrow> string list \<Rightarrow> string list \<Rightarrow> walk_error + visit list" where
  "walk_listed t excludes [] = Inr []"
| "walk_listed t excludes (rel # rels) =
     (if excluded rel excludes then walk_listed t excludes rels
      else (case lstat t rel of
              Inl NotExist \<Rightarrow> walk_listed t excludes rels
            | Inl e \<Rightarrow> Inl (WalkFailed e)
            | Inr DirNode \<Rightarrow> bind_result (walk_tree t excludes rel) (\<lambda>vs.
                bind_result (walk_listed t excludes rels) (\<lambda>ws. Inr (vs @ ws)))
            | Inr n \<Rightarrow> bind_result (walk_listed t excludes rels) (\<lambda>ws.
                Inr (visit_of rel (Some n) ScopeDeclared # ws))))"

definition walk_listing :: "fs \<Rightarrow> string list \<Rightarrow> string list \<Rightarrow> string \<Rightarrow> walk_error + visit list" where
  "walk_listing t excludes listed input =
     (let covered = listed_under listed input in
      bind_result (walk_listed t excludes covered) (\<lambda>vs.
        if covered \<noteq> [] then Inr vs
        else (case lstat t input of
                Inl NotExist \<Rightarrow> Inr [visit_of input None ScopeDeclared]
              | Inl e \<Rightarrow> Inl (WalkFailed e)
              | Inr _ \<Rightarrow> (case spelled_exactly t input of None \<Rightarrow> Inr [] | Some e \<Rightarrow> Inl (WalkSpelled e)))))"

text \<open>\<open>walkIgnored\<close>: \<open>held\<close> is the last path that was not below the one before it.\<close>

fun drop_held :: "string \<Rightarrow> string list \<Rightarrow> string list" where
  "drop_held held [] = []"
| "drop_held held (rel # rels) =
     (if held \<noteq> '''' \<and> under rel held then drop_held held rels else rel # drop_held rel rels)"

fun walk_ignored_paths :: "fs \<Rightarrow> bool \<Rightarrow> string list \<Rightarrow> string list \<Rightarrow> walk_error + visit list" where
  "walk_ignored_paths t toolchain excludes [] = Inr []"
| "walk_ignored_paths t toolchain excludes (rel # rels) =
     (let rest = walk_ignored_paths t toolchain excludes rels in
      if excluded rel excludes then rest
      else (case lstat t rel of
              Inl NotExist \<Rightarrow> rest
            | Inl e \<Rightarrow> Inl (WalkFailed e)
            | Inr n \<Rightarrow>
                bind_result
                  (if \<not> toolchain then Inr [visit_of rel (Some n) ScopeOmitted]
                   else if n = DirNode then loader_walk t excludes rel
                   else Inr [visit_of rel (Some n) (file_scope t rel n)])
                  (\<lambda>vs. bind_result rest (\<lambda>ws. Inr (vs @ ws)))))"

definition ignored_paths :: "string list \<Rightarrow> string \<Rightarrow> string list" where
  "ignored_paths ignored input =
     (if list_ex (listed_at ignored) (parents_of input) then [input] else listed_under ignored input)"

definition walk_ignored :: "fs \<Rightarrow> bool \<Rightarrow> string list \<Rightarrow> string list \<Rightarrow> string \<Rightarrow> walk_error + visit list" where
  "walk_ignored t toolchain excludes ignored input =
     walk_ignored_paths t toolchain excludes (drop_held '''' (ignored_paths ignored input))"

definition walk_input :: "fs \<Rightarrow> file_set \<Rightarrow> git_listing \<Rightarrow> string \<Rightarrow> walk_error + visit list" where
  "walk_input t s found input =
     (if \<not> relative input then Inl (InvalidInput input)
      else if excluded input (st_excludes s) then Inr []
      else
        let listed = (case gl_files found of None \<Rightarrow> [] | Some fs \<Rightarrow> fs) in
        bind_result (reach t listed input) (\<lambda>r.
          case r of
            NotReached vs \<Rightarrow> Inr vs
          | Reached nested \<Rightarrow>
              if gl_files found \<noteq> None \<and> \<not> nested
              then bind_result (walk_listing t (st_excludes s) listed input) (\<lambda>vs.
                bind_result (walk_ignored t (st_go_toolchain s) (st_excludes s) (gl_ignored found) input)
                  (\<lambda>ws. Inr (vs @ ws)))
              else walk_tree t (st_excludes s) input))"

definition no_listing :: git_listing where
  "no_listing = \<lparr>gl_files = None, gl_ignored = [], gl_note = ''''\<rparr>"

text \<open>\<open>walk\<close>: the listing is git's only under git discovery.\<close>

fun walk_inputs :: "fs \<Rightarrow> file_set \<Rightarrow> git_listing \<Rightarrow> string list \<Rightarrow> walk_error + visit list" where
  "walk_inputs t s found [] = Inr []"
| "walk_inputs t s found (input # inputs) =
     bind_result (walk_input t s found input) (\<lambda>vs.
       bind_result (walk_inputs t s found inputs) (\<lambda>ws. Inr (vs @ ws)))"

definition walk_set :: "fs \<Rightarrow> file_set \<Rightarrow> git_listing \<Rightarrow> walk_error + visit list" where
  "walk_set t s listing =
     walk_inputs t s (if st_discovery s = DiscoveryGit then listing else no_listing) (st_inputs s)"

end
