(* ===== verification/File_Set_Properties.thy ===== *)
theory File_Set_Properties
  imports File_Sets
begin

text \<open>
  What a walk visits: only paths of the set, and below a directory every path that is not excluded.
\<close>

section \<open>Paths and their elements\<close>

definition plain_parts :: "string list \<Rightarrow> bool" where
  "plain_parts ps \<longleftrightarrow> (\<forall>p \<in> set ps. slash \<notin> set p)"

lemma plain_parts_simps [simp]:
  "plain_parts []" "plain_parts (p # ps) \<longleftrightarrow> slash \<notin> set p \<and> plain_parts ps"
  "plain_parts (ps @ qs) \<longleftrightarrow> plain_parts ps \<and> plain_parts qs"
  by (auto simp: plain_parts_def)

lemma plain_parts_parts [simp]: "plain_parts (parts p)"
  by (auto simp: plain_parts_def dest: split_at_parts_no_sep)

lemma plain_path_parts [simp]: "plain_parts (path_parts p)"
  by (simp add: path_parts_def)

lemma rel_path_parts [simp]: "rel_path (path_parts p) = p"
  by (simp add: rel_path_def path_parts_def)

lemma parts_rel_path: "plain_parts ps \<Longrightarrow> ps \<noteq> [] \<Longrightarrow> parts (rel_path ps) = ps"
  by (simp add: rel_path_def plain_parts_def split_join)

lemma under_rel_path: "plain_parts (ps @ qs) \<Longrightarrow> under (rel_path (ps @ qs)) (rel_path ps)"
proof (cases "ps = []")
  case True
  then show ?thesis by (simp add: rel_path_def)
next
  case False
  assume "plain_parts (ps @ qs)"
  then have "parts (rel_path (ps @ qs)) = ps @ qs" "parts (rel_path ps) = ps"
    using False parts_rel_path by auto
  then show ?thesis by (simp add: under_parts)
qed

text \<open>A tree whose names have no separator in them, as every file system's do.\<close>

definition plain_tree :: "fs \<Rightarrow> bool" where
  "plain_tree t \<longleftrightarrow> (\<forall>e \<in> set (fs_nodes t). plain_parts (fst e))"

lemma entries_plain: "plain_tree t \<Longrightarrow> name \<in> set (entries_of t here) \<Longrightarrow> slash \<notin> set name"
  by (auto simp: set_entries_of plain_tree_def) (metis fst_conv plain_parts_simps(2,3))

section \<open>Visits stay in the set\<close>

definition kept_below :: "string list \<Rightarrow> string \<Rightarrow> visit \<Rightarrow> bool" where
  "kept_below excludes root v \<longleftrightarrow> \<not> excluded (vs_rel v) excludes \<and> under (vs_rel v) root"

lemma walk_below_kept:
  "plain_tree t \<Longrightarrow> plain_parts (rs @ ps) \<Longrightarrow> v \<in> set (walk_below n t excludes (rs @ ps) here) \<Longrightarrow>
   kept_below excludes (rel_path rs) v"
proof (induction n arbitrary: ps here)
  case (Suc n)
  have here_ok: "kept_below excludes (rel_path rs) (visit_of (rel_path (rs @ ps)) m s)"
    if "\<not> excluded (rel_path (rs @ ps)) excludes" for m s
    using that under_rel_path [OF Suc.prems(2)] by (simp add: kept_below_def visit_of_def)
  have child: "kept_below excludes (rel_path rs) v"
    if "name \<in> set (entries_of t here)" "v \<in> set (walk_below n t excludes ((rs @ ps) @ [name]) (here @ [name]))" for name
    using Suc.IH [OF Suc.prems(1), of "ps @ [name]"] that Suc.prems(1,2) entries_plain by simp
  show ?case
    using Suc.prems(3) here_ok child by (auto split: if_splits option.splits node.splits)
qed simp

lemma loader_below_kept:
  "plain_tree t \<Longrightarrow> plain_parts (rs @ ps) \<Longrightarrow> v \<in> set (loader_below n t excludes (rs @ ps) here) \<Longrightarrow>
   kept_below excludes (rel_path rs) v"
proof (induction n arbitrary: ps here)
  case (Suc n)
  have here_ok: "kept_below excludes (rel_path rs) (visit_of (rel_path (rs @ ps)) m s)"
    if "\<not> excluded (rel_path (rs @ ps)) excludes" for m s
    using that under_rel_path [OF Suc.prems(2)] by (simp add: kept_below_def visit_of_def)
  have child: "kept_below excludes (rel_path rs) v"
    if "name \<in> set (entries_of t here)" "v \<in> set (loader_below n t excludes ((rs @ ps) @ [name]) (here @ [name]))" for name
    using Suc.IH [OF Suc.prems(1), of "ps @ [name]"] that Suc.prems(1,2) entries_plain by simp
  show ?case
    using Suc.prems(3) here_ok child by (auto split: if_splits option.splits node.splits)
qed simp

lemma walk_tree_kept:
  "plain_tree t \<Longrightarrow> walk_tree t excludes path = Inr vs \<Longrightarrow> v \<in> set vs \<Longrightarrow> kept_below excludes path v"
  using walk_below_kept [of t "path_parts path" "[]" v "Suc (tree_depth t)" excludes]
  by (auto simp: walk_tree_def kept_below_def visit_of_def simp del: walk_below.simps
      split: sum.splits fs_error.splits if_splits)

lemma loader_walk_kept:
  "plain_tree t \<Longrightarrow> loader_walk t excludes path = Inr vs \<Longrightarrow> v \<in> set vs \<Longrightarrow> kept_below excludes path v"
  using loader_below_kept [of t "path_parts path" "[]" v "Suc (tree_depth t)" excludes]
  by (auto simp: loader_walk_def simp del: loader_below.simps split: sum.splits)

lemma kept_below_trans: "kept_below excludes p v \<Longrightarrow> under p q \<Longrightarrow> kept_below excludes q v"
proof -
  assume kept: "kept_below excludes p v" and pq: "under p q"
  show ?thesis
  proof (cases "p = dot")
    case True
    then have "q = dot" using pq by (auto simp: under_def prefix_Cons)
    then show ?thesis using kept by (simp add: kept_below_def)
  next
    case False
    then show ?thesis using kept pq under_trans by (auto simp: kept_below_def)
  qed
qed

lemma bind_Inr: "bind_result r f = Inr v \<longleftrightarrow> (\<exists>x. r = Inr x \<and> f x = Inr v)"
  by (cases r) auto

lemma visit_kept: "\<not> excluded rel excludes \<Longrightarrow> under rel input \<Longrightarrow> kept_below excludes input (visit_of rel n s)"
  by (simp add: kept_below_def visit_of_def)

lemma walk_listed_kept:
  "plain_tree t \<Longrightarrow> \<forall>rel \<in> set rels. under rel input \<Longrightarrow> walk_listed t excludes rels = Inr vs \<Longrightarrow>
   v \<in> set vs \<Longrightarrow> kept_below excludes input v"
proof (induction rels arbitrary: vs)
  case (Cons rel rels)
  from Cons.prems(3) consider
      (rest) "walk_listed t excludes rels = Inr vs"
    | (tree) xs ws where "\<not> excluded rel excludes" "walk_tree t excludes rel = Inr xs"
        "walk_listed t excludes rels = Inr ws" "vs = xs @ ws"
    | (plain) n ws where "\<not> excluded rel excludes" "walk_listed t excludes rels = Inr ws"
        "vs = visit_of rel (Some n) ScopeDeclared # ws"
    by (auto simp: bind_Inr split: if_splits sum.splits fs_error.splits node.splits)
  then show ?case
  proof cases
    case rest
    then show ?thesis using Cons by simp
  next
    case tree
    have "kept_below excludes rel v" if "v \<in> set xs"
      using walk_tree_kept [OF Cons.prems(1) tree(2) that] .
    moreover have "kept_below excludes input v" if "v \<in> set ws"
      using Cons.IH [OF Cons.prems(1) _ tree(3) that] Cons.prems(2) by simp
    ultimately show ?thesis using tree(4) Cons.prems(2,4) kept_below_trans by auto
  next
    case plain
    then show ?thesis using Cons visit_kept by auto
  qed
qed simp

lemma walk_ignored_paths_kept:
  "plain_tree t \<Longrightarrow> \<forall>rel \<in> set rels. under rel input \<Longrightarrow> walk_ignored_paths t tc excludes rels = Inr vs \<Longrightarrow>
   v \<in> set vs \<Longrightarrow> kept_below excludes input v"
proof (induction rels arbitrary: vs)
  case (Cons rel rels)
  from Cons.prems(3) consider
      (rest) "walk_ignored_paths t tc excludes rels = Inr vs"
    | (tree) xs ws where "\<not> excluded rel excludes" "loader_walk t excludes rel = Inr xs"
        "walk_ignored_paths t tc excludes rels = Inr ws" "vs = xs @ ws"
    | (plain) n s ws where "\<not> excluded rel excludes" "walk_ignored_paths t tc excludes rels = Inr ws"
        "vs = visit_of rel (Some n) s # ws"
    by (auto simp: bind_Inr Let_def split: if_splits sum.splits fs_error.splits)
  then show ?case
  proof cases
    case rest
    then show ?thesis using Cons by simp
  next
    case tree
    have "kept_below excludes rel v" if "v \<in> set xs"
      using loader_walk_kept [OF Cons.prems(1) tree(2) that] .
    moreover have "kept_below excludes input v" if "v \<in> set ws"
      using Cons.IH [OF Cons.prems(1) _ tree(3) that] Cons.prems(2) by simp
    ultimately show ?thesis using tree(4) Cons.prems(2,4) kept_below_trans by auto
  next
    case plain
    then show ?thesis using Cons visit_kept by auto
  qed
qed simp

lemma drop_held_subset: "set (drop_held held rels) \<subseteq> set rels"
  by (induction held rels rule: drop_held.induct) auto

lemma listed_under_under:
  "sorted listed \<Longrightarrow> distinct listed \<Longrightarrow> rel \<in> set (listed_under listed input) \<Longrightarrow> under rel input"
proof (cases "input = dot")
  case False
  assume sorted: "sorted listed" and rel: "rel \<in> set (listed_under listed input)"
  from rel False prefix_run [OF sorted, of "input @ ''/''"] show ?thesis
    by (auto simp: listed_under_def Let_def under_def split: if_splits)
qed simp

text \<open>What keeps a path inside an ignored directory from being reported again is only its neighbour
  in the sorted listing: a name that sorts between a directory and what is below it lets the path
  inside the directory through, while without that name it is left out.\<close>

theorem held_is_forgotten:
  "sorted [''a'', ''a-b'', ''a/x''] \<and> under ''a/x'' ''a'' \<and>
   drop_held '''' [''a'', ''a-b'', ''a/x''] = [''a'', ''a-b'', ''a/x''] \<and>
   drop_held '''' [''a'', ''a/x''] = [''a'']"
  by code_simp

text \<open>A visit outside the kept paths can only be the link above an input that stops its walk.\<close>

definition link_above :: "string \<Rightarrow> visit \<Rightarrow> bool" where
  "link_above input v \<longleftrightarrow> vs_rel v \<in> set (parents_of input) \<and> (\<exists>target. vs_node v = Some (LinkNode target))"

lemma reach_visits:
  "reach_parents t listed input nested ps = Inr (NotReached vs) \<Longrightarrow> v \<in> set vs \<Longrightarrow> \<not> excluded input excludes \<Longrightarrow>
   kept_below excludes input v \<or> (vs_rel v \<in> set ps \<and> (\<exists>target. vs_node v = Some (LinkNode target)))"
  by (induction t listed input nested ps rule: reach_parents.induct)
    (auto simp: visit_of_def kept_below_def split: sum.splits fs_error.splits node.splits)

lemma walk_input_kept:
  assumes "plain_tree t" "\<And>fs. gl_files found = Some fs \<Longrightarrow> sorted fs \<and> distinct fs"
    "sorted (gl_ignored found)" "distinct (gl_ignored found)"
    "walk_input t s found input = Inr vs" "v \<in> set vs"
  shows "kept_below (st_excludes s) input v \<or> link_above input v"
proof -
  let ?listed = "case gl_files found of None \<Rightarrow> [] | Some fs \<Rightarrow> fs"
  have listed: "sorted ?listed" "distinct ?listed" using assms(2) by (auto split: option.splits)
  consider
      (none) "vs = []"
    | (link) "\<not> excluded input (st_excludes s)" "reach t ?listed input = Inr (NotReached vs)"
    | (listing) xs ws where "\<not> excluded input (st_excludes s)"
        "walk_listing t (st_excludes s) ?listed input = Inr xs"
        "walk_ignored t (st_go_toolchain s) (st_excludes s) (gl_ignored found) input = Inr ws" "vs = xs @ ws"
    | (tree) "walk_tree t (st_excludes s) input = Inr vs"
  proof (cases "excluded input (st_excludes s)")
    case True
    then have "vs = []" using assms(5) by (simp add: walk_input_def split: if_splits)
    then show thesis by (rule none)
  next
    case False
    from assms(5) obtain r where r: "reach t ?listed input = Inr r"
      by (simp only: walk_input_def Let_def bind_Inr split: if_splits) (use False in auto)
    show thesis
    proof (cases r)
      case (NotReached x)
      then have "reach t ?listed input = Inr (NotReached vs)"
        using assms(5) r False by (simp add: walk_input_def split: if_splits)
      then show thesis by (rule link [OF False])
    next
      case (Reached nested)
      show thesis
      proof (cases "gl_files found \<noteq> None \<and> \<not> nested")
        case True
        then show thesis using assms(5) r False Reached listing [OF False]
          by (simp add: walk_input_def bind_Inr split: if_splits) blast
      next
        case nested: False
        have "walk_tree t (st_excludes s) input = Inr vs"
          using assms(5) r False Reached nested
          by (simp only: walk_input_def Let_def bind_result_simps reached.case if_False sum.distinct split: if_splits)
        then show thesis by (rule tree)
      qed
    qed
  qed
  then show ?thesis
  proof cases
    case none
    then show ?thesis using assms(6) by simp
  next
    case link
    then show ?thesis using reach_visits assms(6) by (auto simp: reach_def link_above_def)
  next
    case tree
    then show ?thesis using walk_tree_kept assms(1,6) by blast
  next
    case listing
    have "kept_below (st_excludes s) input v" if "v \<in> set xs"
    proof -
      have rels: "\<forall>rel \<in> set (listed_under ?listed input). under rel input"
        using listed_under_under [OF listed] by blast
      from listing(2) obtain ys where ys: "walk_listed t (st_excludes s) (listed_under ?listed input) = Inr ys"
        and xs: "xs = ys \<or> xs = [] \<or> xs = [visit_of input None ScopeDeclared]"
        by (auto simp: walk_listing_def Let_def bind_Inr split: if_splits sum.splits fs_error.splits option.splits)
      from xs show ?thesis using walk_listed_kept [OF assms(1) rels ys] visit_kept listing(1) that by auto
    qed
    moreover have "kept_below (st_excludes s) input v" if "v \<in> set ws"
    proof -
      have "\<forall>rel \<in> set (ignored_paths (gl_ignored found) input). under rel input"
        using listed_under_under [OF assms(3,4)] by (auto simp: ignored_paths_def)
      then have "\<forall>rel \<in> set (drop_held '''' (ignored_paths (gl_ignored found) input)). under rel input"
        using drop_held_subset by blast
      from walk_ignored_paths_kept [OF assms(1) this] listing(3) that show ?thesis
        by (auto simp: walk_ignored_def)
    qed
    ultimately show ?thesis using listing(4) assms(6) by auto
  qed
qed

text \<open>C30. A walk stays inside its set: whatever git lists and ignores, every path it visits lies under
  one of the declared inputs and is not excluded, except that a link above an input may be visited in
  place of the input itself, which the walk then does not enter.\<close>

theorem walk_stays_in_set:
  assumes "plain_tree t" "walk_set t s listing = Inr vs"
    and "\<forall>fs \<in> set_option (gl_files listing). sorted fs \<and> distinct fs"
    and "sorted (gl_ignored listing)" "distinct (gl_ignored listing)"
  shows "\<forall>v \<in> set vs. \<exists>input \<in> set (st_inputs s).
    \<not> excluded (vs_rel v) (st_excludes s) \<and> under (vs_rel v) input \<or> link_above input v"
proof -
  define found where "found = (if st_discovery s = DiscoveryGit then listing else no_listing)"
  have found: "\<And>fs. gl_files found = Some fs \<Longrightarrow> sorted fs \<and> distinct fs"
    "sorted (gl_ignored found)" "distinct (gl_ignored found)"
    using assms(3-5) by (auto simp: found_def no_listing_def split: if_splits)
  have "\<forall>v \<in> set vs. \<exists>input \<in> set inputs. kept_below (st_excludes s) input v \<or> link_above input v"
    if "walk_inputs t s found inputs = Inr vs" for inputs vs
    using that
  proof (induction inputs arbitrary: vs)
    case (Cons input inputs)
    then obtain xs ws where "walk_input t s found input = Inr xs" "walk_inputs t s found inputs = Inr ws" "vs = xs @ ws"
      by (auto simp: bind_Inr)
    then show ?case using walk_input_kept [OF assms(1) found] Cons.IH by (metis Un_iff list.set_intros set_append)
  qed simp
  then show ?thesis using assms(2) by (simp add: walk_set_def kept_below_def flip: found_def)
qed

definition small_tree :: fs where
  "small_tree = \<lparr>fs_nodes = [([''a.go''], FileNode 0 ''package a''), ([''lib''], DirNode),
     ([''lib'', ''b.go''], FileNode 0 ''package b''), ([''lib'', ''gen''], DirNode),
     ([''lib'', ''gen'', ''c.go''], FileNode 0 ''package c''), ([''out''], DirNode),
     ([''out'', ''x''], FileNode 0 ''''), ([''vend''], LinkNode ''lib'')], fs_fold = False, fs_max_links = 40\<rparr>"

definition small_set :: file_set where
  "small_set = \<lparr>st_inputs = [''lib'', ''vend/b.go''], st_excludes = [''lib/gen''], st_discovery = DiscoveryGit,
     st_go_toolchain = True\<rparr>"

definition small_listing :: git_listing where
  "small_listing = \<lparr>gl_files = Some [''a.go'', ''lib/b.go'', ''lib/gen/c.go''], gl_ignored = [''out''], gl_note = ''''\<rparr>"

definition small_visits :: "visit list" where
  "small_visits = [visit_of ''lib/b.go'' (Some (FileNode 0 ''package b'')) ScopeDeclared,
     visit_of ''vend'' (Some (LinkNode ''lib'')) ScopeDeclared]"

theorem walk_stays_in_set_witness:
  "list_all (\<lambda>v. list_ex (\<lambda>input. \<not> excluded (vs_rel v) (st_excludes small_set) \<and> under (vs_rel v) input \<or>
     link_above input v) (st_inputs small_set)) small_visits"
proof -
  have tree: "plain_tree small_tree" by (simp add: plain_tree_def plain_parts_def small_tree_def)
  have walk: "walk_set small_tree small_set small_listing = Inr small_visits" by code_simp
  have files: "\<forall>fs \<in> set_option (gl_files small_listing). sorted fs \<and> distinct fs"
    "sorted (gl_ignored small_listing)" "distinct (gl_ignored small_listing)"
    by code_simp+
  show ?thesis using walk_stays_in_set [OF tree walk files] unfolding list_all_iff list_ex_iff .
qed

end
