(* ===== verification/Scheduler.thy ===== *)
theory Scheduler
  imports Report
begin

text \<open>
  How a session runs a plan: \<open>Session.Execute\<close> in \<open>internal/verify/run.go\<close>. Every check has a goroutine;
  \<open>sched_step\<close> interleaves them. A goroutine first waits for each earlier check with the same
  preparation, then for a worker slot, executes, stores its result, gives the slot back and closes its
  \<open>done\<close> channel, in the order the deferred calls run. The digest and the executors are parameters; each
  check runs once and no two have one ID, so what its executor does is a function of the check.
\<close>

section \<open>The goroutines\<close>

definition shared_preparation :: "(preparation \<Rightarrow> string) \<Rightarrow> planned_check \<Rightarrow> planned_check \<Rightarrow> bool" where
  "shared_preparation dg a b =
     (case pc_preparation a of
        None \<Rightarrow> False
      | Some p \<Rightarrow> (case pc_preparation b of None \<Rightarrow> False | Some q \<Rightarrow> dg p = dg q))"

text \<open>\<open>Earlier j\<close> is at the \<open>j\<close>th turn of the loop over earlier checks; past the last one it wants a slot.\<close>

datatype work = Earlier nat | Executing | Stored | Closing | Closed

record sched =
  sd_work :: "work list"
  sd_results :: "result option list"

definition holds_slot :: "work \<Rightarrow> bool" where
  "holds_slot p \<longleftrightarrow> p = Executing \<or> p = Stored"

definition slots_used :: "sched \<Rightarrow> nat" where
  "slots_used s = length (filter holds_slot (sd_work s))"

definition set_work :: "nat \<Rightarrow> work \<Rightarrow> sched \<Rightarrow> sched" where
  "set_work i p s = s\<lparr>sd_work := (sd_work s)[i := p]\<rparr>"

definition set_result :: "nat \<Rightarrow> result \<Rightarrow> sched \<Rightarrow> sched" where
  "set_result i r s = s\<lparr>sd_results := (sd_results s)[i := Some r]\<rparr>"

definition sched_init :: "planned_check list \<Rightarrow> sched" where
  "sched_init cs = \<lparr>sd_work = map (\<lambda>_. Earlier 0) cs, sd_results = map (\<lambda>_. None) cs\<rparr>"

type_synonym executors = "executor_kind \<Rightarrow> (planned_check \<Rightarrow> result) option"

inductive sched_step ::
  "(preparation \<Rightarrow> string) \<Rightarrow> executors \<Rightarrow> planned_check list \<Rightarrow> int \<Rightarrow> sched \<Rightarrow> sched \<Rightarrow> bool"
  for dg ex cs workers where
  sched_earlier: "i < length cs \<Longrightarrow> sd_work s ! i = Earlier j \<Longrightarrow> j < i \<Longrightarrow>
    shared_preparation dg (cs ! j) (cs ! i) \<longrightarrow> sd_work s ! j = Closed \<Longrightarrow>
    sched_step dg ex cs workers s (set_work i (Earlier (Suc j)) s)"
| sched_slot: "i < length cs \<Longrightarrow> sd_work s ! i = Earlier i \<Longrightarrow> int (slots_used s) < workers \<Longrightarrow>
    sched_step dg ex cs workers s (set_work i Executing s)"
| sched_execute: "i < length cs \<Longrightarrow> sd_work s ! i = Executing \<Longrightarrow>
    sched_step dg ex cs workers s
      (set_result i (stored_result (cs ! i) start duration (execute_check ctx_err (cs ! i) ex)) (set_work i Stored s))"
| sched_release: "i < length cs \<Longrightarrow> sd_work s ! i = Stored \<Longrightarrow>
    sched_step dg ex cs workers s (set_work i Closing s)"
| sched_close: "i < length cs \<Longrightarrow> sd_work s ! i = Closing \<Longrightarrow>
    sched_step dg ex cs workers s (set_work i Closed s)"

lemma sched_step_cases:
  assumes "sched_step dg ex cs workers s s'"
  obtains (earlier) i j where "i < length cs" "sd_work s ! i = Earlier j" "j < i"
      "shared_preparation dg (cs ! j) (cs ! i) \<longrightarrow> sd_work s ! j = Closed" "s' = set_work i (Earlier (Suc j)) s"
  | (slot) i where "i < length cs" "sd_work s ! i = Earlier i" "int (slots_used s) < workers"
      "s' = set_work i Executing s"
  | (execute) i start duration ctx_err where "i < length cs" "sd_work s ! i = Executing"
      "s' = set_result i (stored_result (cs ! i) start duration (execute_check ctx_err (cs ! i) ex)) (set_work i Stored s)"
  | (release) i where "i < length cs" "sd_work s ! i = Stored" "s' = set_work i Closing s"
  | (close) i where "i < length cs" "sd_work s ! i = Closing" "s' = set_work i Closed s"
  using assms by cases blast+

text \<open>\<open>wg.Wait\<close> returns once every goroutine has closed its channel; the report then holds the results.\<close>

definition all_closed :: "sched \<Rightarrow> bool" where
  "all_closed s \<longleftrightarrow> (\<forall>p \<in> set (sd_work s). p = Closed)"

definition session_report :: "plan \<Rightarrow> sched \<Rightarrow> report" where
  "session_report p s = run_report p (map the (sd_results s))"

definition session_workers :: "int \<Rightarrow> plan \<Rightarrow> int \<Rightarrow> int" where
  "session_workers procs p jobs = check_parallelism procs (int (length (pl_checks p))) jobs"

definition session_step ::
  "(preparation \<Rightarrow> string) \<Rightarrow> executors \<Rightarrow> int \<Rightarrow> plan \<Rightarrow> int \<Rightarrow> sched \<Rightarrow> sched \<Rightarrow> bool" where
  "session_step dg ex procs p jobs = sched_step dg ex (pl_checks p) (session_workers procs p jobs)"

definition session_runs ::
  "(preparation \<Rightarrow> string) \<Rightarrow> executors \<Rightarrow> int \<Rightarrow> plan \<Rightarrow> int \<Rightarrow> nat \<Rightarrow> sched \<Rightarrow> bool" where
  "session_runs dg ex procs p jobs n s \<longleftrightarrow> (session_step dg ex procs p jobs ^^ n) (sched_init (pl_checks p)) s"

section \<open>The invariant\<close>

definition past :: "nat \<Rightarrow> work \<Rightarrow> nat" where
  "past i p = (case p of Earlier j \<Rightarrow> j | _ \<Rightarrow> i)"

definition has_result :: "work \<Rightarrow> bool" where
  "has_result p \<longleftrightarrow> p = Stored \<or> p = Closing \<or> p = Closed"

definition good_result :: "executors \<Rightarrow> planned_check \<Rightarrow> result \<Rightarrow> bool" where
  "good_result ex c r \<longleftrightarrow> (\<exists>start duration ctx_err. r = stored_result c start duration (execute_check ctx_err c ex))"

definition work_inv ::
  "(preparation \<Rightarrow> string) \<Rightarrow> executors \<Rightarrow> planned_check list \<Rightarrow> sched \<Rightarrow> nat \<Rightarrow> bool" where
  "work_inv dg ex cs s i \<longleftrightarrow> past i (sd_work s ! i) \<le> i \<and>
     (\<forall>k < past i (sd_work s ! i). shared_preparation dg (cs ! k) (cs ! i) \<longrightarrow> sd_work s ! k = Closed) \<and>
     (has_result (sd_work s ! i) \<longrightarrow> (\<exists>r. sd_results s ! i = Some r \<and> good_result ex (cs ! i) r))"

definition sched_inv ::
  "(preparation \<Rightarrow> string) \<Rightarrow> executors \<Rightarrow> planned_check list \<Rightarrow> int \<Rightarrow> sched \<Rightarrow> bool" where
  "sched_inv dg ex cs workers s \<longleftrightarrow> length (sd_work s) = length cs \<and> length (sd_results s) = length cs \<and>
     int (slots_used s) \<le> max 0 workers \<and> (\<forall>i < length cs. work_inv dg ex cs s i)"

lemma work_updates [simp]:
  "sd_work (set_work i p s) = (sd_work s)[i := p]" "sd_results (set_work i p s) = sd_results s"
  "sd_work (set_result i r s) = sd_work s" "sd_results (set_result i r s) = (sd_results s)[i := Some r]"
  by (simp_all add: set_work_def set_result_def)

lemma filter_update:
  "i < length xs \<Longrightarrow> length (filter P (xs[i := x])) + (if P (xs ! i) then 1 else 0) =
     length (filter P xs) + (if P x then 1 else 0)"
proof (induction xs arbitrary: i)
  case (Cons y ys)
  then show ?case by (cases i) (auto split: if_splits)
qed simp

lemma slots_set_work:
  "i < length (sd_work s) \<Longrightarrow> slots_used (set_work i p s) + (if holds_slot (sd_work s ! i) then 1 else 0) =
     slots_used s + (if holds_slot p then 1 else 0)"
  by (simp add: slots_used_def filter_update)

lemma slots_set_result [simp]: "slots_used (set_result i r s) = slots_used s"
  by (simp add: slots_used_def)

text \<open>A step of one goroutine keeps the invariant of the others: what is closed stays closed.\<close>

lemma work_inv_other:
  assumes "work_inv dg ex cs s k" "k \<noteq> i" "sd_work s ! i \<noteq> Closed"
  shows "work_inv dg ex cs (set_work i p s) k" "work_inv dg ex cs (set_result i r (set_work i p s)) k"
proof -
  have "(sd_work s)[i := p] ! j = Closed" if "sd_work s ! j = Closed" for j
    using that assms(3) by (cases "j = i") auto
  then show "work_inv dg ex cs (set_work i p s) k" "work_inv dg ex cs (set_result i r (set_work i p s)) k"
    using assms by (auto simp: work_inv_def)
qed

lemma sched_init_inv: "sched_inv dg ex cs workers (sched_init cs)"
proof -
  have "filter holds_slot (map (\<lambda>_. Earlier 0) cs) = []" by (simp add: holds_slot_def filter_empty_conv)
  then show ?thesis
    by (simp add: sched_inv_def sched_init_def slots_used_def work_inv_def past_def has_result_def)
qed

lemma sched_step_inv:
  assumes step: "sched_step dg ex cs workers s s'" and inv: "sched_inv dg ex cs workers s"
  shows "sched_inv dg ex cs workers s'"
proof -
  have len: "length (sd_work s) = length cs" "length (sd_results s) = length cs"
    and slots: "int (slots_used s) \<le> max 0 workers" and all: "\<And>i. i < length cs \<Longrightarrow> work_inv dg ex cs s i"
    using inv by (auto simp: sched_inv_def)
  have move: "sched_inv dg ex cs workers (set_work i p s)"
    if "i < length cs" "sd_work s ! i \<noteq> Closed" "work_inv dg ex cs (set_work i p s) i"
      "int (slots_used (set_work i p s)) \<le> max 0 workers" for i p
  proof -
    have "work_inv dg ex cs (set_work i p s) k" if "k < length cs" for k
      using work_inv_other(1) [OF all [OF that], of i p] \<open>sd_work s ! i \<noteq> Closed\<close>
        \<open>work_inv dg ex cs (set_work i p s) i\<close> by (cases "k = i") auto
    then show ?thesis using that(4) len by (simp add: sched_inv_def)
  qed
  note upd = work_inv_def past_def has_result_def holds_slot_def less_Suc_eq
  from step show ?thesis
  proof (cases rule: sched_step_cases)
    case (earlier i j)
    then show ?thesis
      using move [of i "Earlier (Suc j)"] all [of i] slots slots_set_work [of i s "Earlier (Suc j)"] len
      by (auto simp: upd nth_list_update)
  next
    case (slot i)
    then show ?thesis
      using move [of i Executing] all [of i] slots slots_set_work [of i s Executing] len
      by (auto simp: upd nth_list_update)
  next
    case (execute i start duration ctx_err)
    have "work_inv dg ex cs s' i"
      using execute all [of i] len by (auto simp: upd nth_list_update good_result_def)
    moreover have "work_inv dg ex cs s' k" if "k < length cs" "k \<noteq> i" for k
      using execute work_inv_other(2) all that by simp
    moreover have "slots_used s' = slots_used s"
      using execute slots_set_work [of i s Stored] len by (simp add: holds_slot_def)
    ultimately show ?thesis using execute len slots by (auto simp: sched_inv_def)
  next
    case (release i)
    then show ?thesis
      using move [of i Closing] all [of i] slots slots_set_work [of i s Closing] len
      by (auto simp: upd nth_list_update)
  next
    case (close i)
    then show ?thesis
      using move [of i Closed] all [of i] slots slots_set_work [of i s Closed] len
      by (auto simp: upd nth_list_update)
  qed
qed

lemma session_runs_inv:
  "session_runs dg ex procs p jobs n s \<Longrightarrow>
   sched_inv dg ex (pl_checks p) (session_workers procs p jobs) s"
  unfolding session_runs_def
proof (induction n arbitrary: s)
  case 0
  then show ?case using sched_init_inv [of dg ex "pl_checks p" "session_workers procs p jobs"] by simp
next
  case (Suc n)
  then show ?case using sched_step_inv by (auto simp: session_step_def)
qed

section \<open>Progress and termination\<close>

lemma work_progress:
  assumes inv: "sched_inv dg ex cs workers s" and workers: "workers \<ge> 1" and pending: "\<not> all_closed s"
  shows "\<exists>s'. sched_step dg ex cs workers s s'"
proof -
  have len: "length (sd_work s) = length cs" and all: "\<And>i. i < length cs \<Longrightarrow> work_inv dg ex cs s i"
    using inv by (auto simp: sched_inv_def)
  show ?thesis
  proof (cases "\<exists>i < length cs. sd_work s ! i \<in> {Executing, Stored, Closing}")
    case True
    then show ?thesis using sched_execute sched_release sched_close by (metis insert_iff singletonD)
  next
    case False
    have free: "slots_used s = 0"
      using False len by (auto simp: slots_used_def holds_slot_def filter_empty_conv in_set_conv_nth)
    define i where "i = (LEAST i. i < length cs \<and> sd_work s ! i \<noteq> Closed)"
    have "\<exists>i. i < length cs \<and> sd_work s ! i \<noteq> Closed"
      using pending len by (auto simp: all_closed_def in_set_conv_nth)
    then have i: "i < length cs" "sd_work s ! i \<noteq> Closed"
      unfolding i_def by (metis (mono_tags, lifting) LeastI)+
    have before: "sd_work s ! k = Closed" if "k < i" for k
      using not_less_Least [of k "\<lambda>i. i < length cs \<and> sd_work s ! i \<noteq> Closed"] that i by (auto simp: i_def)
    from i False obtain j where j: "sd_work s ! i = Earlier j" by (cases "sd_work s ! i") auto
    with all [OF i(1)] have "j \<le> i" by (simp add: work_inv_def past_def)
    then consider "j = i" | "j < i" by linarith
    then show ?thesis
    proof cases
      case 1
      then have "sched_step dg ex cs workers s (set_work i Executing s)"
        using sched_slot [OF i(1)] j free workers by simp
      then show ?thesis by blast
    next
      case 2
      then have "sched_step dg ex cs workers s (set_work i (Earlier (Suc j)) s)"
        using sched_earlier [OF i(1) j] before by simp
      then show ?thesis by blast
    qed
  qed
qed

definition work_left :: "nat \<Rightarrow> work \<Rightarrow> nat" where
  "work_left n p = (case p of Earlier j \<Rightarrow> n - j + 4 | Executing \<Rightarrow> 3 | Stored \<Rightarrow> 2 | Closing \<Rightarrow> 1 | Closed \<Rightarrow> 0)"

definition steps_left :: "nat \<Rightarrow> sched \<Rightarrow> nat" where
  "steps_left n s = sum_list (map (work_left n) (sd_work s))"

lemma sum_list_update_less:
  "i < length xs \<Longrightarrow> f y < f (xs ! i) \<Longrightarrow> sum_list (map f (xs[i := y])) < (sum_list (map f xs) :: nat)"
  by (induction xs arbitrary: i) (auto split: nat.splits)

lemma step_uses_one:
  assumes "sched_step dg ex cs workers s s'" "length (sd_work s) = length cs"
  shows "steps_left (length cs) s' < steps_left (length cs) s"
  using assms(1)
proof (cases rule: sched_step_cases)
  case (earlier i j)
  then show ?thesis using assms(2) by (auto simp: steps_left_def work_left_def intro!: sum_list_update_less)
next
  case (slot i)
  then show ?thesis using assms(2) by (auto simp: steps_left_def work_left_def intro!: sum_list_update_less)
qed (use assms(2) in \<open>auto simp: steps_left_def work_left_def intro!: sum_list_update_less\<close>)

lemma session_steps_left:
  "session_runs dg ex procs p jobs n s \<Longrightarrow>
   n + steps_left (length (pl_checks p)) s \<le> length (pl_checks p) * (length (pl_checks p) + 4)"
proof (induction n arbitrary: s)
  case 0
  then have "s = sched_init (pl_checks p)" by (simp add: session_runs_def)
  then show ?case by (simp add: steps_left_def sched_init_def work_left_def comp_def sum_list_triv)
next
  case (Suc n)
  then obtain r where r: "session_runs dg ex procs p jobs n r" "session_step dg ex procs p jobs r s"
    by (auto simp: session_runs_def)
  have "length (sd_work r) = length (pl_checks p)"
    using session_runs_inv [OF r(1)] by (simp add: sched_inv_def)
  with step_uses_one r(2) have "steps_left (length (pl_checks p)) s < steps_left (length (pl_checks p)) r"
    by (simp add: session_step_def)
  then show ?case using Suc.IH [OF r(1)] by simp
qed

section \<open>What a session promises\<close>

text \<open>C31. A session always ends: a run of \<open>n\<close> checks takes at most \<open>n * (n + 4)\<close> steps whatever the
  interleaving, and until every goroutine is done one of them can take a step, so neither the waits for
  an earlier preparation nor the worker slots deadlock, for any number of jobs.\<close>

theorem session_ends:
  assumes "session_runs dg ex procs p jobs n s"
  shows "n \<le> length (pl_checks p) * (length (pl_checks p) + 4) \<and>
    (all_closed s \<longleftrightarrow> (\<nexists>s'. session_step dg ex procs p jobs s s'))"
proof -
  have inv: "sched_inv dg ex (pl_checks p) (session_workers procs p jobs) s"
    using session_runs_inv [OF assms] .
  have "session_workers procs p jobs \<ge> 1"
    using check_parallelism_bounds [of procs "int (length (pl_checks p))" jobs] by (simp add: session_workers_def)
  then have "\<exists>s'. session_step dg ex procs p jobs s s'" if "\<not> all_closed s"
    using work_progress [OF inv _ that] by (simp add: session_step_def)
  moreover have "\<not> session_step dg ex procs p jobs s s'" if "all_closed s" for s'
  proof
    assume "session_step dg ex procs p jobs s s'"
    then show False
      using that inv by (auto simp: session_step_def all_closed_def sched_inv_def elim!: sched_step_cases)
        (metis nth_mem work.distinct)+
  qed
  ultimately show ?thesis using session_steps_left [OF assms] by auto
qed

text \<open>C7. At most \<open>check_parallelism\<close> checks hold a slot at once, which an explicit number of jobs
  bounds and \<open>maxCheckParallelism\<close> bounds otherwise; and a check that has started has every earlier
  check with its preparation behind it.\<close>

theorem session_bounded_and_ordered:
  assumes "session_runs dg ex procs p jobs n s"
  shows "int (slots_used s) \<le> check_parallelism procs (int (length (pl_checks p))) jobs \<and>
    (\<forall>i j. j < i \<and> i < length (pl_checks p) \<and> (\<forall>k. sd_work s ! i \<noteq> Earlier k) \<and>
       shared_preparation dg (pl_checks p ! j) (pl_checks p ! i) \<longrightarrow> sd_work s ! j = Closed)"
proof -
  have inv: "sched_inv dg ex (pl_checks p) (session_workers procs p jobs) s"
    using session_runs_inv [OF assms] .
  have "1 \<le> check_parallelism procs (int (length (pl_checks p))) jobs"
    using check_parallelism_bounds by blast
  then have "int (slots_used s) \<le> check_parallelism procs (int (length (pl_checks p))) jobs"
    using inv by (simp add: sched_inv_def session_workers_def)
  moreover have "sd_work s ! j = Closed" if "j < i" "i < length (pl_checks p)" "\<forall>k. sd_work s ! i \<noteq> Earlier k"
    "shared_preparation dg (pl_checks p ! j) (pl_checks p ! i)" for i j
  proof -
    have "past i (sd_work s ! i) = i" using that(3) by (cases "sd_work s ! i") (auto simp: past_def)
    then show ?thesis using inv that by (simp add: sched_inv_def work_inv_def)
  qed
  ultimately show ?thesis by blast
qed

lemma stored_status [simp]: "rs_status (stored_result c start d r) = rs_status r" "rs_id (stored_result c start d r) = pc_id c"
  by (simp_all add: stored_result_def)

lemma passed_check:
  "rs_status (execute_check e c ex) = StatusPassed \<Longrightarrow>
     \<exists>run. ex (en_executor (pc_environment c)) = Some run \<and> rs_status (run c) = StatusPassed"
  by (auto simp: execute_check_def outcome_def with_outcome_def Let_def split: option.splits if_splits)

text \<open>C32. Once every goroutine is done the report has one result per check, in plan order and under the
  check's own ID, each with one of the five statuses; the report passes only if the plan has a check
  and the executor of each passed it.\<close>

theorem session_reports_every_check:
  assumes "session_runs dg ex procs p jobs n s" "all_closed s"
  shows "map rs_id (rp_results (session_report p s)) = map pc_id (pl_checks p) \<and>
    (\<forall>r \<in> set (rp_results (session_report p s)). valid_status (rs_status r)) \<and>
    (rp_status (session_report p s) = StatusPassed \<longrightarrow> pl_checks p \<noteq> [] \<and>
      (\<forall>c \<in> set (pl_checks p). \<exists>run. ex (en_executor (pc_environment c)) = Some run \<and> rs_status (run c) = StatusPassed))"
proof -
  let ?cs = "pl_checks p" and ?rs = "map the (sd_results s)"
  have inv: "sched_inv dg ex ?cs (session_workers procs p jobs) s" using session_runs_inv [OF assms(1)] .
  have len: "length ?rs = length ?cs" "length (sd_work s) = length ?cs" using inv by (simp_all add: sched_inv_def)
  have good: "good_result ex (?cs ! i) (?rs ! i)" if i: "i < length ?cs" for i
  proof -
    have "sd_work s ! i = Closed" using assms(2) len i by (simp add: all_closed_def)
    moreover have "work_inv dg ex ?cs s i" using inv i by (simp add: sched_inv_def)
    ultimately show ?thesis using i inv by (auto simp: work_inv_def has_result_def sched_inv_def)
  qed
  have "rs_id (?rs ! i) = pc_id (?cs ! i)" if "i < length ?cs" for i
    using good [OF that] by (auto simp: good_result_def)
  then have ids: "map rs_id ?rs = map pc_id ?cs"
    using len by (simp add: list_eq_iff_nth_eq del: map_map)
  have valid: "valid_status (rs_status r)" if "r \<in> set ?rs" for r
    using that good len execute_check_valid by (fastforce simp: in_set_conv_nth good_result_def)
  have passed: "\<exists>run. ex (en_executor (pc_environment c)) = Some run \<and> rs_status (run c) = StatusPassed"
    if "c \<in> set ?cs" "\<forall>r \<in> set ?rs. rs_status r = StatusPassed" for c
  proof -
    obtain i where i: "i < length ?cs" "c = ?cs ! i" using \<open>c \<in> set ?cs\<close> by (auto simp: in_set_conv_nth)
    then have "rs_status (?rs ! i) = StatusPassed" using that(2) len by (metis nth_mem)
    then show ?thesis using good [OF i(1)] passed_check i(2) by (fastforce simp: good_result_def)
  qed
  have "rp_results (session_report p s) = ?rs" "rp_status (session_report p s) = report_status ?rs"
    by (simp_all add: session_report_def run_report_def)
  then show ?thesis using ids valid passed len(1) by (auto simp: report_status_passed simp del: length_map)
qed

section \<open>A run of two checks that share a preparation\<close>

lemma one_check_runs:
  assumes i: "i < length cs" "length (sd_work s) = length cs" and "sd_work s ! i = Earlier i" "int (slots_used s) < workers"
  shows "(sched_step dg ex cs workers ^^ 4) s
    (set_work i Closed (set_result i (stored_result (cs ! i) start d (execute_check e (cs ! i) ex)) s))"
proof -
  let ?r = "stored_result (cs ! i) start d (execute_check e (cs ! i) ex)" and ?step = "sched_step dg ex cs workers"
  have "?step s (set_work i Executing s)" using assms by (intro sched_slot)
  moreover have "?step (set_work i Executing s) (set_result i ?r (set_work i Stored s))"
    using sched_execute [of i cs "set_work i Executing s"] i by (simp add: set_work_def set_result_def)
  moreover have "?step (set_result i ?r (set_work i Stored s)) (set_work i Closing (set_result i ?r s))"
    using sched_release [of i cs "set_result i ?r (set_work i Stored s)"] i by (simp add: set_work_def set_result_def)
  moreover have "?step (set_work i Closing (set_result i ?r s)) (set_work i Closed (set_result i ?r s))"
    using sched_close [of i cs "set_work i Closing (set_result i ?r s)"] i by (simp add: set_work_def)
  ultimately have "(?step ^^ Suc (Suc (Suc (Suc 0)))) s (set_work i Closed (set_result i ?r s))"
    by (intro relpowp_Suc_I2) auto
  then show ?thesis by (simp add: eval_nat_numeral)
qed

definition built :: "string \<Rightarrow> planned_check" where
  "built cid = \<lparr>pc_id = cid, pc_check = plain_check CheckGoVet default_target default_environment,
     pc_target = \<lparr>tg_dir = dot, tg_workspace = dot, tg_inputs = [dot], tg_exclude = [], tg_discovery = DiscoveryGit\<rparr>,
     pc_environment = \<lparr>en_executor = ExecutorNative, en_identity = '''', en_env = [], en_pass_env = [], en_tools = []\<rparr>,
     pc_preparation = Some \<lparr>pr_command = [''make''], pr_inputs = [dot], pr_outputs = [''gen''], pr_env = [], pr_timeout = ''''\<rparr>,
     pc_build = None, pc_rule_modules = []\<rparr>"

definition two_built :: plan where
  "two_built = \<lparr>pl_version = 1, pl_run = ''check'', pl_rerun_checks = False, pl_baseline = '''', pl_checks = [built ''a'', built ''b'']\<rparr>"

definition all_pass :: executors where
  "all_pass k = (if k = ExecutorNative then Some (\<lambda>c. outcome StatusPassed '''') else None)"

definition command_digest :: "preparation \<Rightarrow> string" where
  "command_digest p = concat (pr_command p)"

definition built_result :: "string \<Rightarrow> result" where
  "built_result cid = stored_result (built cid) 0 0 (execute_check None (built cid) all_pass)"

definition first_built :: sched where
  "first_built = set_work 0 Closed (set_result 0 (built_result ''a'') (sched_init (pl_checks two_built)))"

definition both_built :: sched where
  "both_built = set_work 1 Closed (set_result 1 (built_result ''b'') (set_work 1 (Earlier 1) first_built))"

lemma built_plan [simp]: "pl_checks two_built = [built ''a'', built ''b'']"
  by (simp add: two_built_def)

lemma two_built_workers: "session_workers 8 two_built 1 = 1"
  by (simp add: session_workers_def check_parallelism_def)

lemma both_built_runs: "session_runs command_digest all_pass 8 two_built 1 9 both_built"
proof -
  let ?step = "session_step command_digest all_pass 8 two_built 1"
  have step: "?step = sched_step command_digest all_pass [built ''a'', built ''b''] 1"
    by (simp add: session_step_def two_built_workers)
  have one: "(?step ^^ 4) (sched_init (pl_checks two_built)) first_built"
    using one_check_runs [of 0 "[built ''a'', built ''b'']" "sched_init (pl_checks two_built)" 1 command_digest all_pass 0 0 None]
    by (simp add: step first_built_def built_result_def sched_init_def slots_used_def holds_slot_def)
  have "?step first_built (set_work 1 (Earlier 1) first_built)"
    using sched_earlier [of 1 "[built ''a'', built ''b'']" first_built 0]
    by (simp add: step first_built_def sched_init_def)
  with one have two: "(?step ^^ Suc 4) (sched_init (pl_checks two_built)) (set_work 1 (Earlier 1) first_built)"
    by (rule relpowp_Suc_I)
  have "(?step ^^ 4) (set_work 1 (Earlier 1) first_built) both_built"
    using one_check_runs [of 1 "[built ''a'', built ''b'']" "set_work 1 (Earlier 1) first_built" 1 command_digest all_pass 0 0 None]
    by (simp add: step both_built_def first_built_def built_result_def sched_init_def slots_used_def holds_slot_def)
  with two have "(?step ^^ (Suc 4 + 4)) (sched_init (pl_checks two_built)) both_built"
    by (metis relcomppI relpowp_add)
  then show ?thesis by (simp add: session_runs_def)
qed

lemma both_built_closed: "all_closed both_built"
  by (simp add: all_closed_def both_built_def first_built_def sched_init_def)

theorem session_ends_witness:
  "(9::nat) \<le> 2 * (2 + 4) \<and> (\<nexists>s'. session_step command_digest all_pass 8 two_built 1 both_built s')"
  using session_ends [OF both_built_runs] both_built_closed by simp

theorem session_bounded_and_ordered_witness:
  "int (slots_used both_built) \<le> 1 \<and> sd_work both_built ! 0 = Closed"
proof -
  have "shared_preparation command_digest (built ''a'') (built ''b'')"
    by (simp add: shared_preparation_def built_def)
  moreover have "sd_work both_built ! 1 = Closed"
    by (simp add: both_built_def first_built_def sched_init_def)
  ultimately show ?thesis
    using session_bounded_and_ordered [OF both_built_runs]
    by (auto simp: check_parallelism_def dest: spec [of _ 1] spec [of _ 0])
qed

theorem session_reports_every_check_witness:
  "map rs_id (rp_results (session_report two_built both_built)) = [''a'', ''b''] \<and>
   rp_status (session_report two_built both_built) = StatusPassed"
proof -
  have "rp_status (session_report two_built both_built) = StatusPassed" by code_simp
  moreover have "map rs_id (rp_results (session_report two_built both_built)) = map pc_id (pl_checks two_built)"
    using session_reports_every_check [OF both_built_runs both_built_closed] by blast
  ultimately show ?thesis by (simp add: built_def)
qed

end
