(* ===== verification/Community.thy ===== *)
theory Community
  imports Rule_Modules Go_Format
begin

text \<open>
  The community linter: \<open>runner/community/module.go\<close>, \<open>selection.go\<close>, \<open>directives.go\<close> and \<open>output.go\<close>.
  An analyzer is the value a rule module passes: \<open>golang.org/x/tools\<close> only defines the struct, and
  \<open>an_id\<close> stands for its address, since the resolver tells analyzers apart by pointer. \<open>url.Parse\<close> is
  the argument \<open>parse_url\<close>, giving a scheme and a host.
\<close>

section \<open>Modules and rules\<close>

record analyzer =
  an_id :: nat
  an_name :: string
  an_doc :: string
  an_url :: string
  an_run :: bool
  an_flags :: "string list"

record cmodule =
  cm_path :: string
  cm_version :: string
  cm_namespace :: string
  cm_renamed :: "string gomap"
  cm_analyzers :: "analyzer option list"

definition source_of :: "cmodule \<Rightarrow> string" where
  "source_of m = cm_path m @ ''@'' @ cm_version m"

text \<open>\<open>ru_module\<close> is the position of the rule's module: the source compares modules by address.\<close>

record rule =
  ru_code :: string
  ru_module :: nat
  ru_analyzer :: analyzer
  ru_deprecated :: bool

definition name_pattern :: rx where
  "name_pattern = RSeq (RClass letters) (RStar (RClass name_chars))"

definition web_schemes :: "string list" where
  "web_schemes = [''https'', ''http'']"

datatype namespace_error = NotLowercase string | IsReserved string

definition valid_namespace :: "string \<Rightarrow> string \<Rightarrow> namespace_error option" where
  "valid_namespace path namespace = first_of
     [fail_when (\<not> rx_match namespace_pattern namespace) (NotLowercase namespace),
      fail_when (namespace \<in> set reserved_namespaces \<and> (namespace \<noteq> ''example'' \<or> path \<noteq> example_module))
        (IsReserved namespace)]"

datatype analyzer_error = NotIdentifier | EmptyDoc | NilRun | BadPage string

type_synonym url_parser = "string \<Rightarrow> (string \<times> string) option"

definition valid_analyzer :: "url_parser \<Rightarrow> analyzer \<Rightarrow> analyzer_error option" where
  "valid_analyzer parse_url a = first_of
     [fail_when (\<not> rx_match name_pattern (an_name a)) NotIdentifier,
      fail_when (trim_space (an_doc a) = '''') EmptyDoc,
      fail_when (\<not> an_run a) NilRun,
      fail_when (an_url a = '''' \<or>
        (case parse_url (an_url a) of
           None \<Rightarrow> True
         | Some (scheme, host) \<Rightarrow> scheme \<notin> set web_schemes \<or> host = '''')) (BadPage (an_url a))]"

text \<open>\<open>strings.Split\<close> at a blank line.\<close>

fun paragraphs :: "string \<Rightarrow> string list" where
  "paragraphs (a # b # s) =
     (if a = CHR 0x0A \<and> b = CHR 0x0A then [] # paragraphs s
      else (case paragraphs (b # s) of [] \<Rightarrow> [[a]] | p # ps \<Rightarrow> (a # p) # ps))"
| "paragraphs s = [s]"

definition deprecation :: string where
  "deprecation = ''Deprecated:''"

definition deprecated :: "string \<Rightarrow> bool" where
  "deprecated doc \<longleftrightarrow> list_ex (\<lambda>p. has_prefix (trim_space p) deprecation) (paragraphs doc)"

definition notice :: "string \<Rightarrow> string" where
  "notice doc =
     (case filter (\<lambda>p. has_prefix (trim_space p) deprecation) (paragraphs doc) of
        [] \<Rightarrow> ''''
      | p # _ \<Rightarrow> join_with '' '' (words (trim_prefix (trim_space p) deprecation)))"

definition titled :: "string \<Rightarrow> string" where
  "titled doc =
     (if contains doc [CHR 0x0A, CHR 0x0A] then doc
      else let (title, rest, _) = cut_at CHR 0x0A doc in title @ [CHR 0x0A, CHR 0x0A] @ rest)"

section \<open>The rules of a module\<close>

datatype resolve_error =
    NamespaceShared string
  | InNamespace string namespace_error
  | NoAnalyzers string
  | NilAnalyzer string nat
  | InAnalyzer string string analyzer_error
  | NameRepeats string string
  | BadRename string string string
  | RenameInUse string string
  | RenameNowhere string string string
  | AnalyzerShared string string string
  | NotCompiledIn string string
  | VersionDiffers string string
  | ConfiguredTwice string
  | NotConfigured string
  | SelectNothing string
  | NotOwnPattern string string string
  | ForeignPattern string string string
  | BadPattern string
  | UnknownNamespace string string
  | MatchesNone string string "string list"
  | InAdvisory resolve_error
  | NotItsRule string string
  | SettingsCollide string string string string
  | NoSuchSetting string string string

fun analyzer_rules ::
  "url_parser \<Rightarrow> cmodule \<Rightarrow> nat \<Rightarrow> nat \<Rightarrow> string list \<Rightarrow> analyzer option list \<Rightarrow> resolve_error + rule list" where
  "analyzer_rules up m i k names [] = Inr []"
| "analyzer_rules up m i k names (None # as) = Inl (NilAnalyzer (source_of m) k)"
| "analyzer_rules up m i k names (Some a # as) =
     (case valid_analyzer up a of
        Some e \<Rightarrow> Inl (InAnalyzer (source_of m) (an_name a) e)
      | None \<Rightarrow>
          if to_lower (an_name a) \<in> set names then Inl (NameRepeats (source_of m) (an_name a))
          else bind_result (analyzer_rules up m i (Suc k) (to_lower (an_name a) # names) as) (\<lambda>rules.
            Inr (\<lparr>ru_code = cm_namespace m @ ''_'' @ an_name a, ru_module = i, ru_analyzer = a,
                  ru_deprecated = deprecated (an_doc a)\<rparr> # rules)))"

text \<open>The loop over \<open>Renamed\<close>, in the order the map gives; what a later entry sets is found first.\<close>

fun module_renames :: "cmodule \<Rightarrow> rule list \<Rightarrow> string gomap \<Rightarrow> resolve_error + string gomap" where
  "module_renames m rules [] = Inr []"
| "module_renames m rules ((old, new) # rest) =
     (if \<not> rx_match name_pattern old \<or> \<not> rx_match name_pattern new then Inl (BadRename (source_of m) old new)
      else if to_lower old \<in> set (map (\<lambda>r. to_lower (an_name (ru_analyzer r))) rules)
      then Inl (RenameInUse (source_of m) old)
      else (case find (\<lambda>r. to_lower (an_name (ru_analyzer r)) = to_lower new) rules of
              None \<Rightarrow> Inl (RenameNowhere (source_of m) old new)
            | Some r \<Rightarrow> bind_result (module_renames m rules rest) (\<lambda>renames.
                Inr (renames @ [(to_lower (cm_namespace m @ ''_'' @ old), ru_code r)]))))"

definition module_rules :: "url_parser \<Rightarrow> nat \<Rightarrow> cmodule \<Rightarrow> resolve_error + rule list \<times> string gomap" where
  "module_rules up i m =
     (case valid_namespace (cm_path m) (cm_namespace m) of
        Some e \<Rightarrow> Inl (InNamespace (source_of m) e)
      | None \<Rightarrow>
          if cm_analyzers m = [] then Inl (NoAnalyzers (source_of m))
          else bind_result (analyzer_rules up m i 0 [] (cm_analyzers m)) (\<lambda>rules.
            bind_result (module_renames m rules (cm_renamed m)) (\<lambda>renames. Inr (rules, renames))))"

section \<open>The resolver\<close>

type_synonym module_config = planned_rule_module

record resolver =
  rv_modules :: "cmodule list"
  rv_ordered :: "rule list"
  rv_renames :: "string gomap"

type_synonym warnings = "(string \<times> string) list"

definition warn :: "string \<Rightarrow> string \<Rightarrow> warnings \<Rightarrow> warnings" where
  "warn kind message ws = (if message \<in> snd ` set ws then ws else ws @ [(kind, message)])"

fun claim_analyzers :: "string \<Rightarrow> (nat \<times> string) list \<Rightarrow> rule list \<Rightarrow> resolve_error + (nat \<times> string) list" where
  "claim_analyzers src owners [] = Inr owners"
| "claim_analyzers src owners (r # rs) =
     (case map_of owners (an_id (ru_analyzer r)) of
        Some other \<Rightarrow> Inl (AnalyzerShared other src (an_name (ru_analyzer r)))
      | None \<Rightarrow> claim_analyzers src ((an_id (ru_analyzer r), src) # owners) rs)"

fun collect_modules ::
  "url_parser \<Rightarrow> nat \<Rightarrow> string list \<Rightarrow> (nat \<times> string) list \<Rightarrow> cmodule list \<Rightarrow>
     resolve_error + rule list \<times> string gomap" where
  "collect_modules up i spaces owners [] = Inr ([], [])"
| "collect_modules up i spaces owners (m # ms) =
     (if cm_namespace m \<in> set spaces then Inl (NamespaceShared (cm_namespace m))
      else bind_result (module_rules up i m) (\<lambda>(rules, renames).
        bind_result (claim_analyzers (source_of m) owners rules) (\<lambda>owners.
          bind_result (collect_modules up (Suc i) (cm_namespace m # spaces) owners ms) (\<lambda>(rules', renames').
            Inr (rules @ rules', renames' @ renames)))))"

definition module_named :: "cmodule list \<Rightarrow> string \<Rightarrow> cmodule option" where
  "module_named ms namespace = find (\<lambda>m. cm_namespace m = namespace) ms"

fun check_configured :: "cmodule list \<Rightarrow> string list \<Rightarrow> module_config list \<Rightarrow> resolve_error option" where
  "check_configured ms seen [] = first_error (\<lambda>m. fail_when (cm_path m \<notin> set seen) (NotConfigured (source_of m))) ms"
| "check_configured ms seen (entry # rest) =
     (case module_named ms (pm_namespace entry) of
        None \<Rightarrow> Some (NotCompiledIn (pm_namespace entry) (pm_path entry))
      | Some m \<Rightarrow>
          if cm_path m \<noteq> pm_path entry then Some (NotCompiledIn (pm_namespace entry) (pm_path entry))
          else if cm_version m \<noteq> pm_version entry then Some (VersionDiffers (pm_path entry) (source_of m))
          else if pm_path entry \<in> set seen then Some (ConfiguredTwice (pm_path entry))
          else check_configured ms (pm_path entry # seen) rest)"

definition new_resolver :: "url_parser \<Rightarrow> cmodule list \<Rightarrow> module_config list \<Rightarrow> resolve_error + resolver" where
  "new_resolver up ms entries =
     bind_result (collect_modules up 0 [] [] ms) (\<lambda>(rules, renames).
       guard_result (check_configured ms [] entries)
         (Inr \<lparr>rv_modules = ms, rv_ordered = rules, rv_renames = renames\<rparr>))"

definition renamed_warning :: string where
  "renamed_warning = ''rule-renamed''"

definition deprecated_warning :: string where
  "deprecated_warning = ''rule-deprecated''"

definition current :: "resolver \<Rightarrow> string \<Rightarrow> string \<Rightarrow> warnings \<Rightarrow> string \<times> warnings" where
  "current r code place ws =
     (case map_of (rv_renames r) (to_lower code) of
        None \<Rightarrow> (code, ws)
      | Some new \<Rightarrow> (new, warn renamed_warning
          (place @ '' uses '' @ code @ '', which is now '' @ new @ ''; update it'') ws))"

definition codes_of :: "resolver \<Rightarrow> nat \<Rightarrow> string list" where
  "codes_of r i = map ru_code (filter (\<lambda>ru. ru_module ru = i) (rv_ordered r))"

text \<open>\<open>r.modules[namespace]\<close>, as the position of the module.\<close>

definition module_index :: "cmodule list \<Rightarrow> string \<Rightarrow> nat option" where
  "module_index ms namespace = find (\<lambda>i. cm_namespace (ms ! i) = namespace) [0..<length ms]"

type_synonym selected_codes = "string \<Rightarrow> bool"

fun apply_patterns ::
  "resolver \<Rightarrow> string list \<Rightarrow> selected_codes \<Rightarrow> warnings \<Rightarrow> resolve_error + selected_codes \<times> warnings" where
  "apply_patterns r [] on ws = Inr (on, ws)"
| "apply_patterns r (pattern # patterns) on ws =
     (if \<not> rx_match community_pattern pattern then Inl (BadPattern pattern)
      else
        let (body, disable) = cut_prefix pattern ''-'';
            namespace = fst (cut_at CHR ''_'' (to_lower body))
        in case module_index (rv_modules r) namespace of
             None \<Rightarrow> Inl (UnknownNamespace pattern namespace)
           | Some i \<Rightarrow>
               let (body, ws) = current r body (''pattern '' @ show_quoted pattern) ws;
                   hit = filter (\<lambda>ru. ru_module ru = i \<and> community_matches body (ru_code ru)) (rv_ordered r)
               in if hit = [] then Inl (MatchesNone pattern (source_of (rv_modules r ! i)) (codes_of r i))
                  else apply_patterns r patterns
                    (foldl (\<lambda>on ru. on(to_lower (ru_code ru) := \<not> disable)) on hit) ws)"

fun apply_advisory ::
  "resolver \<Rightarrow> module_config list \<Rightarrow> selected_codes \<Rightarrow> warnings \<Rightarrow> resolve_error + selected_codes \<times> warnings" where
  "apply_advisory r [] on ws = Inr (on, ws)"
| "apply_advisory r (m # ms) on ws =
     (case apply_patterns r (pm_advisory m) on ws of
        Inl e \<Rightarrow> Inl (InAdvisory e)
      | Inr (on, ws) \<Rightarrow> apply_advisory r ms on ws)"

definition own_patterns :: "module_config \<Rightarrow> string list \<Rightarrow> string \<Rightarrow> resolve_error option" where
  "own_patterns m patterns field =
     first_error (\<lambda>p. first_of
       [fail_when (\<not> rx_match community_pattern p) (NotOwnPattern (pm_path m) field p),
        fail_when (to_lower (fst (cut_at CHR ''_'' (trim_prefix p ''-''))) \<noteq> to_lower (pm_namespace m))
          (ForeignPattern (pm_path m) field p)]) patterns"

section \<open>Settings\<close>

record setting =
  se_rule :: rule
  se_flag :: string
  se_value :: string

definition rule_settings :: "cmodule list \<Rightarrow> rule \<Rightarrow> string gomap \<Rightarrow> resolve_error + setting list" where
  "rule_settings ms ru values =
     map_results (\<lambda>flag. guard_result
         (fail_when (flag \<notin> set (an_flags (ru_analyzer ru)))
           (NoSuchSetting (source_of (ms ! ru_module ru)) (ru_code ru) flag))
         (Inr \<lparr>se_rule = ru, se_flag = flag, se_value = the (map_of values flag)\<rparr>)) (sorted_keys values)"

text \<open>One module's keys in sorted order; \<open>keys\<close> has the rules already configured with their spelling.\<close>

fun module_settings ::
  "resolver \<Rightarrow> module_config \<Rightarrow> string gomap \<Rightarrow> warnings \<Rightarrow> string list \<Rightarrow> resolve_error + setting list \<times> warnings" where
  "module_settings r m keys ws [] = Inr ([], ws)"
| "module_settings r m keys ws (code # codes) =
     (let (new, ws) = current r code (''the setting for '' @ show_quoted code) ws in
      case find (\<lambda>ru. to_lower (ru_code ru) = to_lower new) (rv_ordered r) of
        None \<Rightarrow> Inl (NotItsRule (pm_path m) code)
      | Some ru \<Rightarrow>
          if cm_path (rv_modules r ! ru_module ru) \<noteq> pm_path m then Inl (NotItsRule (pm_path m) code)
          else (case map_of keys (ru_code ru) of
                  Some other \<Rightarrow> Inl (SettingsCollide (pm_path m) other code (ru_code ru))
                | None \<Rightarrow>
                    bind_result (rule_settings (rv_modules r) ru (the (map_of (pm_settings m) code))) (\<lambda>here.
                      bind_result (module_settings r m ((ru_code ru, code) # keys) ws codes) (\<lambda>(more_settings, ws).
                        Inr (here @ more_settings, ws)))))"

fun all_settings ::
  "resolver \<Rightarrow> module_config list \<Rightarrow> warnings \<Rightarrow> resolve_error + setting list \<times> warnings" where
  "all_settings r [] ws = Inr ([], ws)"
| "all_settings r (m # ms) ws =
     bind_result (module_settings r m [] ws (sorted_keys (pm_settings m))) (\<lambda>(here, ws).
       bind_result (all_settings r ms ws) (\<lambda>(more_settings, ws). Inr (here @ more_settings, ws)))"

section \<open>Resolving a check\<close>

record rule_report =
  rr_code :: string
  rr_source :: string
  rr_url :: string
  rr_advisory :: bool

record cplan =
  cp_selected :: "rule list"
  cp_advisory :: selected_codes
  cp_renames :: "string gomap"
  cp_settings :: "setting list"
  cp_rules :: "rule_report list"
  cp_warnings :: warnings

definition code_mixed :: string where
  "code_mixed = ''lvrules_mixed''"

definition code_renamed :: string where
  "code_renamed = ''lvrules_renamed''"

definition directives_url :: string where
  "directives_url = ''https://github.com/wangjohn/levenshtein/blob/main/docs/community-rules.md#ignore-directives''"

definition deprecation_warnings :: "resolver \<Rightarrow> rule list \<Rightarrow> warnings \<Rightarrow> warnings" where
  "deprecation_warnings r selected ws =
     foldl (\<lambda>ws ru. if ru_deprecated ru
        then warn deprecated_warning (ru_code ru @ '' ('' @ source_of (rv_modules r ! ru_module ru) @
               '') is deprecated: '' @ notice (an_doc (ru_analyzer ru))) ws
        else ws) ws selected"

definition resolve_with :: "resolver \<Rightarrow> module_config list \<Rightarrow> string list \<Rightarrow> resolve_error + cplan" where
  "resolve_with r entries checks =
     guard_result (first_error (\<lambda>m. first_of
         [fail_when (pm_select m = []) (SelectNothing (pm_path m)),
          own_patterns m (pm_select m) ''select'', own_patterns m (pm_advisory m) ''advisory'']) entries)
     (bind_result (apply_patterns r (concat (map pm_select entries) @ checks) (\<lambda>_. False) []) (\<lambda>(on, ws).
       bind_result (apply_advisory r entries (\<lambda>_. False) ws) (\<lambda>(advisory, ws).
         bind_result (all_settings r entries ws) (\<lambda>(settings, ws).
           let selected = filter (\<lambda>ru. on (to_lower (ru_code ru))) (rv_ordered r) in
           Inr \<lparr>cp_selected = selected, cp_advisory = advisory, cp_renames = rv_renames r,
             cp_settings = settings,
             cp_rules = map (\<lambda>ru. \<lparr>rr_code = ru_code ru, rr_source = source_of (rv_modules r ! ru_module ru),
                 rr_url = an_url (ru_analyzer ru), rr_advisory = advisory (to_lower (ru_code ru))\<rparr>) selected @
               map (\<lambda>code. \<lparr>rr_code = code, rr_source = '''', rr_url = directives_url, rr_advisory = False\<rparr>)
                 [code_mixed, code_renamed],
             cp_warnings = deprecation_warnings r selected ws\<rparr>))))"

definition resolve_check ::
  "url_parser \<Rightarrow> cmodule list \<Rightarrow> module_config list \<Rightarrow> string list \<Rightarrow> resolve_error + cplan" where
  "resolve_check up ms entries checks =
     bind_result (new_resolver up ms entries) (\<lambda>r. resolve_with r entries checks)"

end
