(* ===== verification/Community_Properties.thy ===== *)
theory Community_Properties
  imports Community
begin

text \<open>
  What the community linter's resolver promises, and that it selects the rules the CLI computed when
  it validated and planned the same configuration.
\<close>

section \<open>Codes and namespaces\<close>

lemma lower_letters_facts:
  "\<forall>c \<in> set letters. lower_char c \<noteq> CHR ''_''"
  "\<forall>c \<in> set lower_letters. lower_char c = c \<and> c \<noteq> CHR ''_''"
  by code_simp+

lemma to_lower_simps [simp]:
  "to_lower [] = []" "to_lower (c # s) = lower_char c # to_lower s"
  by (simp_all add: to_lower_def)

lemma lower_marks [simp]: "lower_char CHR ''_'' = CHR ''_''" "lower_char CHR ''-'' = CHR ''-''"
  by code_simp+

lemma to_lower_letters: "set ns \<subseteq> set letters \<Longrightarrow> CHR ''_'' \<notin> set (to_lower ns)"
  using lower_letters_facts(1) unfolding to_lower_def list.set_map by (metis image_iff subsetD)

lemma lower_lower_letters: "set ns \<subseteq> set lower_letters \<Longrightarrow> to_lower ns = ns"
  unfolding to_lower_def using lower_letters_facts(2) by (intro map_idI) blast

text \<open>A code determines the namespace it starts with.\<close>

lemma take_namespace: "CHR ''_'' \<notin> set n \<Longrightarrow> takeWhile (\<lambda>c. c \<noteq> CHR ''_'') (n @ CHR ''_'' # t) = n"
  by (subst takeWhile_append2) auto

lemma namespace_unique:
  assumes "prefix (a @ CHR ''_'' # x) (b @ CHR ''_'' # y)" "CHR ''_'' \<notin> set a" "CHR ''_'' \<notin> set b"
  shows "a = b"
proof -
  from assms(1) obtain z where "b @ CHR ''_'' # y = a @ CHR ''_'' # x @ z" by (auto simp: prefix_def)
  then have "takeWhile (\<lambda>c. c \<noteq> CHR ''_'') (b @ CHR ''_'' # y) = takeWhile (\<lambda>c. c \<noteq> CHR ''_'') (a @ CHR ''_'' # x @ z)"
    by simp
  then show ?thesis using assms(2,3) take_namespace by metis
qed

lemma namespace_chars: "rx_match namespace_pattern ns \<longleftrightarrow> ns \<noteq> [] \<and> set ns \<subseteq> set lower_letters"
  by (simp only: rx_match_lang namespace_pattern_def rx_lang_plus_class)

lemma namespace_plain:
  assumes "rx_match namespace_pattern ns"
  shows "to_lower ns = ns" "CHR ''_'' \<notin> set ns"
proof -
  have chars: "set ns \<subseteq> set lower_letters" using assms by (simp only: namespace_chars)
  show "to_lower ns = ns" by (rule lower_lower_letters [OF chars])
  show "CHR ''_'' \<notin> set ns"
  proof
    assume "CHR ''_'' \<in> set ns"
    then have "CHR ''_'' \<in> set lower_letters" by (rule subsetD [OF chars])
    then show False using bspec [OF lower_letters_facts(2)] by blast
  qed
qed

section \<open>What a resolver holds\<close>

definition rule_of :: "cmodule list \<Rightarrow> rule \<Rightarrow> bool" where
  "rule_of ms ru \<longleftrightarrow> ru_module ru < length ms \<and>
     ru_code ru = cm_namespace (ms ! ru_module ru) @ ''_'' @ an_name (ru_analyzer ru) \<and>
     rx_match name_pattern (an_name (ru_analyzer ru))"

definition rename_of :: "cmodule list \<Rightarrow> rule list \<Rightarrow> string \<times> string \<Rightarrow> bool" where
  "rename_of ms rules kv \<longleftrightarrow> (\<exists>i < length ms. \<exists>old. \<exists>ru \<in> set rules. ru_module ru = i \<and>
     fst kv = to_lower (cm_namespace (ms ! i) @ ''_'' @ old) \<and> snd kv = ru_code ru)"

definition resolver_ok :: "resolver \<Rightarrow> bool" where
  "resolver_ok r \<longleftrightarrow> distinct (map cm_namespace (rv_modules r)) \<and>
     (\<forall>m \<in> set (rv_modules r). rx_match namespace_pattern (cm_namespace m)) \<and>
     (\<forall>ru \<in> set (rv_ordered r). rule_of (rv_modules r) ru) \<and>
     (\<forall>kv \<in> set (rv_renames r). rename_of (rv_modules r) (rv_ordered r) kv)"

lemma analyzer_rules_shape:
  "analyzer_rules up m i k names as = Inr rules \<Longrightarrow> ru \<in> set rules \<Longrightarrow>
   ru_module ru = i \<and> ru_code ru = cm_namespace m @ ''_'' @ an_name (ru_analyzer ru) \<and>
   rx_match name_pattern (an_name (ru_analyzer ru))"
proof (induction up m i k names as arbitrary: rules rule: analyzer_rules.induct)
  case (3 up m i k names a as)
  then show ?case
    by (auto simp: bind_result_Inr valid_analyzer_def first_of.simps fail_when_def split: option.splits if_splits)
qed auto

lemma module_renames_shape:
  "module_renames m rules rs = Inr renames \<Longrightarrow> kv \<in> set renames \<Longrightarrow>
   \<exists>old. \<exists>ru \<in> set rules. fst kv = to_lower (cm_namespace m @ ''_'' @ old) \<and> snd kv = ru_code ru"
proof (induction m rules rs arbitrary: renames rule: module_renames.induct)
  case (2 m rules old new rest)
  then obtain ru rest' where ru: "find (\<lambda>r. to_lower (an_name (ru_analyzer r)) = to_lower new) rules = Some ru"
    and rest: "module_renames m rules rest = Inr rest'"
      "renames = rest' @ [(to_lower (cm_namespace m @ ''_'' @ old), ru_code ru)]"
    by (auto simp: bind_result_Inr split: if_splits option.splits)
  have "ru \<in> set rules" using ru by (metis find_Some_iff nth_mem)
  with 2 ru rest show ?case by (auto simp del: to_lower_append split: if_splits)
qed auto

lemma module_rules_shape:
  assumes "module_rules up i m = Inr (rules, renames)"
  shows "rx_match namespace_pattern (cm_namespace m)"
    and "ru \<in> set rules \<Longrightarrow> ru_module ru = i \<and> ru_code ru = cm_namespace m @ ''_'' @ an_name (ru_analyzer ru) \<and>
      rx_match name_pattern (an_name (ru_analyzer ru))"
    and "kv \<in> set renames \<Longrightarrow>
      \<exists>old. \<exists>ru \<in> set rules. fst kv = to_lower (cm_namespace m @ ''_'' @ old) \<and> snd kv = ru_code ru"
proof -
  from assms have parts: "rx_match namespace_pattern (cm_namespace m)"
    "analyzer_rules up m i 0 [] (cm_analyzers m) = Inr rules" "module_renames m rules (cm_renamed m) = Inr renames"
    by (auto simp: module_rules_def bind_result_Inr valid_namespace_def split: option.splits if_splits)
  show "rx_match namespace_pattern (cm_namespace m)" by (rule parts)
  show "ru \<in> set rules \<Longrightarrow> ru_module ru = i \<and> ru_code ru = cm_namespace m @ ''_'' @ an_name (ru_analyzer ru) \<and>
      rx_match name_pattern (an_name (ru_analyzer ru))"
    by (rule analyzer_rules_shape [OF parts(2)])
  show "kv \<in> set renames \<Longrightarrow>
      \<exists>old. \<exists>ru \<in> set rules. fst kv = to_lower (cm_namespace m @ ''_'' @ old) \<and> snd kv = ru_code ru"
    by (rule module_renames_shape [OF parts(3)])
qed

text \<open>\<open>collect_modules\<close> numbers modules from \<open>i\<close>: the invariant is stated for a list \<open>all\<close> whose part from
  \<open>i\<close> on is what is left.\<close>

lemma collect_modules_shape:
  assumes "collect_modules up (length before) spaces owners ms = Inr (rules, renames)"
  shows "distinct (map cm_namespace ms) \<and> set (map cm_namespace ms) \<inter> set spaces = {} \<and>
    (\<forall>m \<in> set ms. rx_match namespace_pattern (cm_namespace m)) \<and>
    (\<forall>ru \<in> set rules. rule_of (before @ ms) ru) \<and> (\<forall>kv \<in> set renames. rename_of (before @ ms) rules kv)"
  using assms
proof (induction ms arbitrary: before spaces owners rules renames)
  case (Cons m ms)
  then obtain rules1 renames1 owners' rules2 renames2 where
    here: "cm_namespace m \<notin> set spaces" "module_rules up (length before) m = Inr (rules1, renames1)"
    and later: "collect_modules up (length (before @ [m])) (cm_namespace m # spaces) owners' ms = Inr (rules2, renames2)"
    and parts: "rules = rules1 @ rules2" "renames = renames2 @ renames1"
    by (auto simp: bind_result_Inr split: if_splits)
  note IH = Cons.IH [OF later]
  note shape = module_rules_shape [OF here(2)]
  have "rule_of (before @ m # ms) ru" if "ru \<in> set rules1" for ru
    using shape(2) [OF that] by (simp add: rule_of_def)
  moreover have "rename_of (before @ m # ms) rules kv" if "kv \<in> set renames1" for kv
  proof -
    have "\<exists>old. \<exists>ru \<in> set rules1. fst kv = to_lower (cm_namespace m @ ''_'' @ old) \<and> snd kv = ru_code ru"
      by (rule shape(3) [OF that])
    then obtain old ru where ru: "ru \<in> set rules1" "fst kv = to_lower (cm_namespace m @ ''_'' @ old)" "snd kv = ru_code ru"
      by blast
    then have "ru_module ru = length before" "ru \<in> set rules" using shape(2) parts by auto
    then show ?thesis using ru unfolding rename_of_def
      by (intro exI [of _ "length before"] conjI exI [of _ old] bexI [of _ ru]) (simp_all del: to_lower_append)
  qed
  moreover have "rename_of (before @ m # ms) rules kv" if "kv \<in> set renames2" for kv
  proof -
    have "rename_of (before @ m # ms) rules2 kv" using IH that by simp
    then show ?thesis unfolding rename_of_def parts by fastforce
  qed
  ultimately show ?case using IH here(1) shape(1) parts by auto
qed auto

lemma new_resolver_ok:
  assumes "new_resolver up ms entries = Inr r"
  shows "resolver_ok r" "rv_modules r = ms"
proof -
  from assms obtain rules renames where "collect_modules up (length ([] :: cmodule list)) [] [] ms = Inr (rules, renames)"
    "r = \<lparr>rv_modules = ms, rv_ordered = rules, rv_renames = renames\<rparr>"
    by (auto simp: new_resolver_def bind_result_Inr guard_result_Inr)
  moreover have "distinct (map cm_namespace ms) \<and> (\<forall>m \<in> set ms. rx_match namespace_pattern (cm_namespace m)) \<and>
    (\<forall>ru \<in> set rules. rule_of ms ru) \<and> (\<forall>kv \<in> set renames. rename_of ms rules kv)"
    using collect_modules_shape [OF calculation(1)] by simp
  ultimately show "resolver_ok r" "rv_modules r = ms" by (simp_all add: resolver_ok_def)
qed

section \<open>Applying patterns\<close>

text \<open>A pattern as it reads once its rule's old name is replaced by the new one.\<close>

definition present_pattern :: "string gomap \<Rightarrow> string \<Rightarrow> string" where
  "present_pattern renames p =
     (let (body, negated) = cut_prefix p ''-'' in
      (if negated then ''-'' else '''') @ (case map_of renames (to_lower body) of None \<Rightarrow> body | Some new \<Rightarrow> new))"

lemma community_split:
  assumes "rx_match community_pattern p"
  obtains ns rest where "cut_prefix p ''-'' = (ns @ ''_'' @ rest, prefix ''-'' p)" "ns \<noteq> []" "set ns \<subseteq> set letters"
    "trim_prefix p ''-'' = ns @ ''_'' @ rest"
proof -
  from assms obtain sign ns rest where p: "p = sign @ ns @ ''_'' @ rest" "sign = [] \<or> sign = ''-''"
    "ns \<noteq> []" "set ns \<subseteq> set letters"
    by (elim community_pattern_cases) auto
  have "\<not> prefix ''-'' (ns @ ''_'' @ rest)" using p(3,4) dash_not_letter by (cases ns) auto
  then have "cut_prefix p ''-'' = (ns @ ''_'' @ rest, prefix ''-'' p)"
    using p(1,2) by (auto simp: cut_prefix_def)
  then show ?thesis using p(3,4) by (intro that) (auto simp: trim_prefix_def)
qed

text \<open>What a name or a glob of a namespace matches is a code of that namespace.\<close>

lemma matches_prefix:
  assumes "community_matches b code" "to_lower b = L @ CHR ''_'' # R"
  shows "\<exists>x. prefix (L @ CHR ''_'' # x) (to_lower code)"
proof (cases "suffix ''*'' (to_lower b)")
  case True
  then obtain pre where pre: "to_lower b = pre @ ''*''" by (auto simp: suffix_def)
  then have "prefix pre (to_lower code)"
    using assms(1) cut_suffix_append [of pre "''*''"] by (simp add: community_matches_def)
  moreover have "R \<noteq> []"
  proof
    assume "R = []"
    then have "last (to_lower b) = CHR ''_''" using assms(2) by simp
    then show False using pre by simp
  qed
  then have "pre = L @ CHR ''_'' # butlast R"
    using pre assms(2) by (metis append_is_Nil_conv butlast.simps(2) butlast_append butlast_snoc list.distinct(1))
  ultimately show ?thesis by blast
next
  case False
  then have "to_lower b = to_lower code" using assms(1) by (simp add: community_matches_def cut_suffix_def)
  then show ?thesis using assms(2) by (metis prefix_order.refl)
qed

lemma rule_code:
  assumes "resolver_ok r" "ru \<in> set (rv_ordered r)"
  obtains y where "to_lower (ru_code ru) = cm_namespace (rv_modules r ! ru_module ru) @ CHR ''_'' # y"
    "ru_module ru < length (rv_modules r)" "CHR ''_'' \<notin> set (cm_namespace (rv_modules r ! ru_module ru))"
proof -
  let ?ns = "cm_namespace (rv_modules r ! ru_module ru)"
  have ru: "ru_module ru < length (rv_modules r)" "ru_code ru = ?ns @ ''_'' @ an_name (ru_analyzer ru)"
    using assms by (auto simp: resolver_ok_def rule_of_def)
  then have "rx_match namespace_pattern ?ns" using assms(1) by (simp add: resolver_ok_def)
  note plain = namespace_plain [OF this]
  have "to_lower (ru_code ru) = ?ns @ CHR ''_'' # to_lower (an_name (ru_analyzer ru))"
    using ru(2) plain(1) by simp
  then show ?thesis using ru(1) plain(2) by (rule that)
qed

lemma same_module:
  assumes "resolver_ok r" "i < length (rv_modules r)" "j < length (rv_modules r)"
    "cm_namespace (rv_modules r ! i) = cm_namespace (rv_modules r ! j)"
  shows "i = j"
  using assms unfolding resolver_ok_def by (metis length_map nth_eq_iff_index_eq nth_map)

lemma module_index_Some:
  "module_index ms ns = Some i \<Longrightarrow> i < length ms \<and> cm_namespace (ms ! i) = ns"
  by (auto simp: module_index_def find_Some_iff)

text \<open>The body a pattern is matched with keeps the pattern's namespace, renamed or not.\<close>

lemma current_body:
  assumes r: "resolver_ok r" and p: "rx_match community_pattern p"
    and i: "module_index (rv_modules r) (fst (cut_at CHR ''_'' (to_lower (fst (cut_prefix p ''-''))))) = Some i"
  obtains body R where "present_pattern (rv_renames r) p = (if prefix ''-'' p then ''-'' else '''') @ body"
    "fst (current r (fst (cut_prefix p ''-'')) place ws) = body"
    "to_lower body = cm_namespace (rv_modules r ! i) @ CHR ''_'' # R" "\<not> prefix ''-'' (to_lower body)"
proof -
  obtain ns rest where cut: "cut_prefix p ''-'' = (ns @ ''_'' @ rest, prefix ''-'' p)" "ns \<noteq> []" "set ns \<subseteq> set letters"
    using community_split [OF p] by metis
  have plain: "CHR ''_'' \<notin> set (to_lower ns)" by (rule to_lower_letters [OF cut(3)])
  have low: "to_lower (ns @ ''_'' @ rest) = to_lower ns @ CHR ''_'' # to_lower rest" by simp
  have "fst (cut_at CHR ''_'' (to_lower ns @ CHR ''_'' # to_lower rest)) = to_lower ns"
    using take_namespace [OF plain] by (simp add: cut_at_def)
  then have ns: "i < length (rv_modules r)" "cm_namespace (rv_modules r ! i) = to_lower ns"
    using module_index_Some [OF i] cut(1) low by simp_all
  have no_dash: "\<not> prefix ''-'' (to_lower ns @ t)" for t
  proof
    assume "prefix ''-'' (to_lower ns @ t)"
    then obtain c cs where "ns = c # cs" "lower_char c = CHR ''-''" using cut(2) by (cases ns) (auto simp: to_lower_def)
    moreover have "\<forall>c \<in> set letters. lower_char c \<noteq> CHR ''-''" by code_simp
    ultimately show False using cut(3) by (metis list.set_intros(1) subsetD)
  qed
  show ?thesis
  proof (cases "map_of (rv_renames r) (to_lower (ns @ ''_'' @ rest))")
    case None
    show ?thesis
      by (rule that [of "ns @ ''_'' @ rest" "to_lower rest"])
        (use None cut(1) low ns(2) no_dash in \<open>simp_all add: present_pattern_def current_def\<close>)
  next
    case (Some new)
    then have "(to_lower (ns @ ''_'' @ rest), new) \<in> set (rv_renames r)" by (rule map_of_SomeD)
    then obtain j old ru where j: "j < length (rv_modules r)" "ru \<in> set (rv_ordered r)" "ru_module ru = j"
      "to_lower (ns @ ''_'' @ rest) = to_lower (cm_namespace (rv_modules r ! j) @ ''_'' @ old)" "new = ru_code ru"
      using r unfolding resolver_ok_def rename_of_def by fastforce
    obtain y where y: "to_lower (ru_code ru) = cm_namespace (rv_modules r ! j) @ CHR ''_'' # y"
      "CHR ''_'' \<notin> set (cm_namespace (rv_modules r ! j))"
      using rule_code [OF r j(2)] j(3) by metis
    have "rx_match namespace_pattern (cm_namespace (rv_modules r ! j))" using r j(1) by (simp add: resolver_ok_def)
    then have "to_lower ns @ CHR ''_'' # to_lower rest = cm_namespace (rv_modules r ! j) @ CHR ''_'' # to_lower old"
      using j(4) low namespace_plain(1) by simp
    then have same: "cm_namespace (rv_modules r ! j) = to_lower ns"
      using namespace_unique plain y(2) by (metis prefix_order.refl)
    show ?thesis
      by (rule that [of new y])
        (use Some cut(1) y(1) same ns(2) j(5) no_dash in \<open>simp_all add: present_pattern_def current_def\<close>)
  qed
qed

lemma pattern_hits:
  assumes r: "resolver_ok r" and ru: "ru \<in> set (rv_ordered r)" and p: "rx_match community_pattern p"
    and i: "module_index (rv_modules r) (fst (cut_at CHR ''_'' (to_lower (fst (cut_prefix p ''-''))))) = Some i"
  shows "ru_module ru = i \<and> community_matches (fst (current r (fst (cut_prefix p ''-'')) place ws)) (ru_code ru) \<longleftrightarrow>
      community_hits (present_pattern (rv_renames r) p) (ru_code ru)"
    and "community_enables (present_pattern (rv_renames r) p) \<longleftrightarrow> \<not> snd (cut_prefix p ''-'')"
proof -
  obtain body R where body: "present_pattern (rv_renames r) p = (if prefix ''-'' p then ''-'' else '''') @ body"
    "fst (current r (fst (cut_prefix p ''-'')) place ws) = body"
    "to_lower body = cm_namespace (rv_modules r ! i) @ CHR ''_'' # R" "\<not> prefix ''-'' (to_lower body)"
    using current_body [OF r p i] by metis
  have cut: "cut_prefix (to_lower (present_pattern (rv_renames r) p)) ''-'' = (to_lower body, prefix ''-'' p)"
    using body(1,4) by (auto simp: cut_prefix_def)
  obtain y where y: "to_lower (ru_code ru) = cm_namespace (rv_modules r ! ru_module ru) @ CHR ''_'' # y"
      "ru_module ru < length (rv_modules r)" "CHR ''_'' \<notin> set (cm_namespace (rv_modules r ! ru_module ru))"
    using rule_code [OF r ru] by metis
  have bound: "i < length (rv_modules r)" using module_index_Some [OF i] by simp
  then have "rx_match namespace_pattern (cm_namespace (rv_modules r ! i))" using r by (simp add: resolver_ok_def)
  then have plain: "CHR ''_'' \<notin> set (cm_namespace (rv_modules r ! i))" by (rule namespace_plain)
  have module: "ru_module ru = i" if "community_matches body (ru_code ru)"
  proof -
    have "\<exists>x. prefix (cm_namespace (rv_modules r ! i) @ CHR ''_'' # x) (to_lower (ru_code ru))"
      by (rule matches_prefix [OF that body(3)])
    then have "cm_namespace (rv_modules r ! i) = cm_namespace (rv_modules r ! ru_module ru)"
      using namespace_unique plain y(1,3) by metis
    then show ?thesis using same_module [OF r bound y(2)] by simp
  qed
  have "community_hits (present_pattern (rv_renames r) p) (ru_code ru) \<longleftrightarrow> community_matches body (ru_code ru)"
    using cut by (auto simp: community_hits_def community_matches_def community_body_def split: prod.splits)
  then show "ru_module ru = i \<and> community_matches (fst (current r (fst (cut_prefix p ''-'')) place ws)) (ru_code ru) \<longleftrightarrow>
      community_hits (present_pattern (rv_renames r) p) (ru_code ru)"
    using body(2) module by auto
  show "community_enables (present_pattern (rv_renames r) p) \<longleftrightarrow> \<not> snd (cut_prefix p ''-'')"
    using cut by (auto simp: community_enables_def cut_prefix_def)
qed

lemma foldl_updates: "foldl (\<lambda>on x. on(f x := v)) on xs y = (if \<exists>x \<in> set xs. f x = y then v else on y)"
  by (induction xs arbitrary: on) auto

lemma hits_code: "to_lower a = to_lower b \<Longrightarrow> community_hits p a = community_hits p b"
  by (simp add: community_hits_def)

text \<open>Each rule's state after a list of patterns is the last present pattern that hits its code; and every
  pattern hits a rule.\<close>

lemma apply_patterns_state:
  assumes r: "resolver_ok r"
  shows "apply_patterns r ps on ws = Inr (on', ws') \<Longrightarrow>
    (\<forall>ru \<in> set (rv_ordered r). on' (to_lower (ru_code ru)) =
       foldl (\<lambda>sel p. if community_hits p (ru_code ru) then community_enables p else sel)
         (on (to_lower (ru_code ru))) (map (present_pattern (rv_renames r)) ps)) \<and>
    (\<forall>p \<in> set ps. \<exists>ru \<in> set (rv_ordered r). community_hits (present_pattern (rv_renames r) p) (ru_code ru))"
proof (induction ps arbitrary: on ws)
  case (Cons p ps)
  let ?body = "fst (cut_prefix p ''-'')" and ?off = "snd (cut_prefix p ''-'')" and ?q = "present_pattern (rv_renames r) p"
  let ?place = "''pattern '' @ show_quoted p"
  have p: "rx_match community_pattern p" using Cons.prems by (simp split: if_splits)
  obtain i where i: "module_index (rv_modules r) (fst (cut_at CHR ''_'' (to_lower ?body))) = Some i"
    using Cons.prems p by (auto simp: Let_def split: prod.splits option.splits)
  define hit where "hit = filter (\<lambda>ru. ru_module ru = i \<and>
      community_matches (fst (current r ?body ?place ws)) (ru_code ru)) (rv_ordered r)"
  have hit_iff: "ru \<in> set hit \<longleftrightarrow> ru \<in> set (rv_ordered r) \<and> community_hits ?q (ru_code ru)" for ru
    using pattern_hits(1) [OF r _ p i] by (auto simp: hit_def)
  have rest: "hit \<noteq> []" "apply_patterns r ps (foldl (\<lambda>on ru. on(to_lower (ru_code ru) := \<not> ?off)) on hit)
      (snd (current r ?body ?place ws)) = Inr (on', ws')"
    using Cons.prems p i by (auto simp: Let_def hit_def split: prod.splits if_splits)
  have here: "foldl (\<lambda>on ru. on(to_lower (ru_code ru) := \<not> ?off)) on hit (to_lower (ru_code ru)) =
      (if community_hits ?q (ru_code ru) then community_enables ?q else on (to_lower (ru_code ru)))"
    if "ru \<in> set (rv_ordered r)" for ru
  proof -
    have "(\<exists>a \<in> set hit. to_lower (ru_code a) = to_lower (ru_code ru)) \<longleftrightarrow> community_hits ?q (ru_code ru)"
      using hit_iff hits_code that by blast
    then show ?thesis using pattern_hits(2) [OF r that p i] by (simp add: foldl_updates)
  qed
  have "\<exists>ru \<in> set (rv_ordered r). community_hits ?q (ru_code ru)"
    using rest(1) hit_iff by (metis list.set_intros(1) neq_Nil_conv)
  then show ?case using Cons.IH [OF rest(2)] here by simp
qed simp

definition selection_of :: "module_config list \<Rightarrow> string list \<Rightarrow> string list" where
  "selection_of entries checks = concat (map pm_select entries) @ checks"

lemma resolve_parts:
  assumes "resolve_check up ms entries checks = Inr p"
  obtains r on ws advisory ws' settings ws'' where "new_resolver up ms entries = Inr r"
    "apply_patterns r (selection_of entries checks) (\<lambda>_. False) [] = Inr (on, ws)"
    "apply_advisory r entries (\<lambda>_. False) ws = Inr (advisory, ws')"
    "all_settings r entries ws' = Inr (settings, ws'')"
    "cp_selected p = filter (\<lambda>ru. on (to_lower (ru_code ru))) (rv_ordered r)"
    "cp_renames p = rv_renames r" "cp_settings p = settings" "cp_advisory p = advisory"
  using assms by (auto simp: resolve_check_def resolve_with_def selection_of_def bind_result_Inr guard_result_Inr Let_def)

text \<open>The rules a check runs are those the last matching pattern of its selection turns on: the
  modules' own \<open>select\<close> lists in order, then the check's patterns, each read with old rule names
  replaced. Every rule of every module is judged by that one rule, whichever module it is from.\<close>

theorem resolver_selects_last_match:
  assumes "resolve_check up ms entries checks = Inr p"
  shows "\<exists>r. new_resolver up ms entries = Inr r \<and>
    cp_selected p = filter (\<lambda>ru. community_allowed
      (map (present_pattern (cp_renames p)) (selection_of entries checks)) (ru_code ru)) (rv_ordered r)"
proof -
  obtain r on ws where parts: "new_resolver up ms entries = Inr r"
    "apply_patterns r (selection_of entries checks) (\<lambda>_. False) [] = Inr (on, ws)"
    "cp_selected p = filter (\<lambda>ru. on (to_lower (ru_code ru))) (rv_ordered r)" "cp_renames p = rv_renames r"
    using resolve_parts [OF assms] by metis
  have "on (to_lower (ru_code ru)) = community_allowed
      (map (present_pattern (rv_renames r)) (selection_of entries checks)) (ru_code ru)"
    if "ru \<in> set (rv_ordered r)" for ru
    using apply_patterns_state [OF new_resolver_ok(1) [OF parts(1)] parts(2)] that by (simp add: community_allowed_def)
  then show ?thesis using parts by (auto intro!: exI [of _ r] filter_cong)
qed


text \<open>A selection that would leave a rule silently off is refused: if a pattern, read with old names
  replaced, matches no rule of any module, resolving the check is an error.\<close>

theorem resolver_refuses_unmatched:
  assumes "new_resolver up ms entries = Inr r" "q \<in> set (selection_of entries checks)"
    and "\<forall>ru \<in> set (rv_ordered r). \<not> community_hits (present_pattern (rv_renames r) q) (ru_code ru)"
  shows "\<exists>e. resolve_check up ms entries checks = Inl e"
proof (cases "resolve_check up ms entries checks")
  case (Inr p)
  then obtain on ws where "apply_patterns r (selection_of entries checks) (\<lambda>_. False) [] = Inr (on, ws)"
    using resolve_parts assms(1) by (metis Inr_inject)
  then show ?thesis
    using apply_patterns_state [OF new_resolver_ok(1) [OF assms(1)]] assms(2,3) by blast
qed blast

section \<open>Settings\<close>

lemma distinct_append_image:
  "distinct (map f xs) \<Longrightarrow> distinct (map f ys) \<Longrightarrow> \<forall>x \<in> set xs. \<forall>y \<in> set ys. f x \<noteq> f y \<Longrightarrow> distinct (map f (xs @ ys))"
  by auto

definition setting_key :: "setting \<Rightarrow> string \<times> string" where
  "setting_key se = (ru_code (se_rule se), se_flag se)"

definition setting_ok :: "resolver \<Rightarrow> string \<Rightarrow> setting \<Rightarrow> bool" where
  "setting_ok r path se \<longleftrightarrow> se_rule se \<in> set (rv_ordered r) \<and> se_flag se \<in> set (an_flags (ru_analyzer (se_rule se))) \<and>
     cm_path (rv_modules r ! ru_module (se_rule se)) = path"

lemma rule_settings_shape:
  assumes "rule_settings ms ru values = Inr ses"
  shows "\<forall>se \<in> set ses. se_rule se = ru \<and> se_flag se \<in> set (an_flags (ru_analyzer ru))"
    and "map se_flag ses = sorted_keys values"
proof -
  define set_flag where "set_flag = (\<lambda>flag. guard_result
      (fail_when (flag \<notin> set (an_flags (ru_analyzer ru))) (NoSuchSetting (source_of (ms ! ru_module ru)) (ru_code ru) flag))
      (Inr \<lparr>se_rule = ru, se_flag = flag, se_value = the (map_of values flag)\<rparr>))"
  have "list_all2 (\<lambda>flag se. set_flag flag = Inr se) ks ses \<Longrightarrow>
      (\<forall>se \<in> set ses. se_rule se = ru \<and> se_flag se \<in> set (an_flags (ru_analyzer ru))) \<and> map se_flag ses = ks" for ks
    by (induction ks ses rule: list_all2_induct) (auto simp: set_flag_def guard_result_Inr)
  moreover have "list_all2 (\<lambda>flag se. set_flag flag = Inr se) (sorted_keys values) ses"
    using assms by (simp add: rule_settings_def set_flag_def map_results_Inr)
  ultimately show "\<forall>se \<in> set ses. se_rule se = ru \<and> se_flag se \<in> set (an_flags (ru_analyzer ru))"
    "map se_flag ses = sorted_keys values" by blast+
qed

lemma module_settings_shape:
  "module_settings r m keys ws codes = Inr (ses, ws') \<Longrightarrow>
   (\<forall>se \<in> set ses. setting_ok r (pm_path m) se \<and> ru_code (se_rule se) \<notin> fst ` set keys) \<and>
   distinct (map setting_key ses)"
proof (induction codes arbitrary: keys ws ses)
  case (Cons code codes)
  define new where "new = fst (current r code (''the setting for '' @ show_quoted code) ws)"
  define ws1 where "ws1 = snd (current r code (''the setting for '' @ show_quoted code) ws)"
  from Cons.prems obtain ru here later where
    ru: "find (\<lambda>ru. to_lower (ru_code ru) = to_lower new) (rv_ordered r) = Some ru"
      "cm_path (rv_modules r ! ru_module ru) = pm_path m" "map_of keys (ru_code ru) = None"
    and here: "rule_settings (rv_modules r) ru (the (map_of (pm_settings m) code)) = Inr here"
    and later: "module_settings r m ((ru_code ru, code) # keys) ws1 codes = Inr (later, ws')" and ses: "ses = here @ later"
    by (auto simp: new_def ws1_def bind_result_Inr Let_def split: prod.splits option.splits if_splits)
  have mem: "ru \<in> set (rv_ordered r)" using ru(1) by (metis find_Some_iff nth_mem)
  note shape = rule_settings_shape [OF here]
  note IH = Cons.IH [OF later]
  have fresh: "ru_code ru \<notin> fst ` set keys" using ru(3) by (simp add: map_of_eq_None_iff)
  have "distinct (map se_flag here)" using shape(2) by simp
  then have "distinct (map setting_key here)"
    using shape(1) by (auto simp: distinct_map inj_on_def setting_key_def)
  moreover have "\<forall>x \<in> set here. \<forall>y \<in> set later. setting_key x \<noteq> setting_key y"
    using shape(1) IH by (auto simp: setting_key_def)
  ultimately have "distinct (map setting_key ses)" using IH unfolding ses by (intro distinct_append_image) auto
  moreover have "setting_ok r (pm_path m) se \<and> ru_code (se_rule se) \<notin> fst ` set keys" if "se \<in> set ses" for se
    using that shape(1) IH fresh mem ru(2) unfolding ses by (auto simp: setting_ok_def)
  ultimately show ?case by blast
qed simp

lemma same_code_module:
  assumes "resolver_ok r" "a \<in> set (rv_ordered r)" "b \<in> set (rv_ordered r)" "ru_code a = ru_code b"
  shows "ru_module a = ru_module b"
proof -
  obtain x where x: "to_lower (ru_code a) = cm_namespace (rv_modules r ! ru_module a) @ CHR ''_'' # x"
    "ru_module a < length (rv_modules r)" "CHR ''_'' \<notin> set (cm_namespace (rv_modules r ! ru_module a))"
    using rule_code [OF assms(1,2)] by metis
  obtain y where y: "to_lower (ru_code b) = cm_namespace (rv_modules r ! ru_module b) @ CHR ''_'' # y"
    "ru_module b < length (rv_modules r)" "CHR ''_'' \<notin> set (cm_namespace (rv_modules r ! ru_module b))"
    using rule_code [OF assms(1,3)] by metis
  have "cm_namespace (rv_modules r ! ru_module a) = cm_namespace (rv_modules r ! ru_module b)"
    using namespace_unique x y assms(4) by (metis prefix_order.refl)
  then show ?thesis by (rule same_module [OF assms(1) x(2) y(2)])
qed

lemma all_settings_shape:
  assumes r: "resolver_ok r"
  shows "all_settings r entries ws = Inr (ses, ws') \<Longrightarrow> distinct (map pm_path entries) \<Longrightarrow>
    (\<forall>se \<in> set ses. \<exists>m \<in> set entries. setting_ok r (pm_path m) se) \<and> distinct (map setting_key ses)"
proof (induction entries arbitrary: ws ses)
  case (Cons m entries)
  then obtain here ws1 later where
    here: "module_settings r m [] ws (sorted_keys (pm_settings m)) = Inr (here, ws1)"
    and later: "all_settings r entries ws1 = Inr (later, ws')" and ses: "ses = here @ later"
    by (auto simp: bind_result_Inr)
  note shape = module_settings_shape [OF here]
  have IH: "(\<forall>se \<in> set later. \<exists>m \<in> set entries. setting_ok r (pm_path m) se) \<and> distinct (map setting_key later)"
    using Cons.IH [OF later] Cons.prems(2) by simp
  have "setting_key x \<noteq> setting_key y" if "x \<in> set here" "y \<in> set later" for x y
  proof
    assume same: "setting_key x = setting_key y"
    have "\<exists>n \<in> set entries. setting_ok r (pm_path n) y" using IH that(2) by blast
    then obtain n where n: "n \<in> set entries" "setting_ok r (pm_path n) y" by blast
    have x: "setting_ok r (pm_path m) x" using shape that(1) by blast
    then have "ru_module (se_rule x) = ru_module (se_rule y)"
      using same_code_module [OF r] n(2) same by (auto simp: setting_ok_def setting_key_def)
    then have "pm_path n = pm_path m" using x n(2) by (auto simp: setting_ok_def)
    then show False using Cons.prems(2) n(1) by (auto simp: image_iff)
  qed
  then have "distinct (map setting_key ses)" using shape IH unfolding ses by (intro distinct_append_image) auto
  then show ?case using shape IH ses by auto
qed simp

lemma check_configured_distinct:
  "check_configured ms seen entries = None \<Longrightarrow> distinct (map pm_path entries) \<and> set (map pm_path entries) \<inter> set seen = {}"
  by (induction ms seen entries rule: check_configured.induct) (auto split: option.splits if_splits)

text \<open>A flag of a rule is set at most once and only by the module the rule is from: resolved settings
  name rules of the compiled-in modules, flags those rules have, and no two of them the same flag of
  the same rule, whatever the spelling of the settings' keys and whichever old names they use.\<close>

theorem settings_are_unambiguous:
  assumes "resolve_check up ms entries checks = Inr p"
  shows "distinct (map (\<lambda>se. (ru_code (se_rule se), se_flag se)) (cp_settings p)) \<and>
    (\<forall>se \<in> set (cp_settings p). se_flag se \<in> set (an_flags (ru_analyzer (se_rule se))) \<and>
       (\<exists>m \<in> set entries. cm_path (ms ! ru_module (se_rule se)) = pm_path m))"
proof -
  obtain r ws ws' where r: "new_resolver up ms entries = Inr r" "all_settings r entries ws = Inr (cp_settings p, ws')"
    using resolve_parts [OF assms] by metis
  have "check_configured ms [] entries = None"
    using r(1) by (auto simp: new_resolver_def bind_result_Inr guard_result_Inr)
  then have "distinct (map pm_path entries)" using check_configured_distinct by blast
  from all_settings_shape [OF new_resolver_ok(1) [OF r(1)] r(2) this] show ?thesis
    using new_resolver_ok(2) [OF r(1)] by (auto simp: setting_ok_def setting_key_def [abs_def])
qed

section \<open>An example\<close>

definition host_page :: url_parser where
  "host_page u = Some (''https'', ''example.com'')"

definition example_analyzer :: "nat \<Rightarrow> string \<Rightarrow> analyzer" where
  "example_analyzer i name = \<lparr>an_id = i, an_name = name, an_doc = ''report it'', an_url = ''https://example.com'',
     an_run = True, an_flags = [''depth'', ''max'']\<rparr>"

definition example_cmodule :: "nat \<Rightarrow> string \<Rightarrow> string gomap \<Rightarrow> cmodule" where
  "example_cmodule i ns renamed = \<lparr>cm_path = ''example.com/'' @ ns, cm_version = ''v1.0.0'', cm_namespace = ns,
     cm_renamed = renamed, cm_analyzers = [Some (example_analyzer i ''Naming''), Some (example_analyzer (Suc i) ''order'')]\<rparr>"

definition example_entry :: "string \<Rightarrow> module_config" where
  "example_entry ns = \<lparr>pm_path = ''example.com/'' @ ns, pm_version = ''v1.0.0'', pm_namespace = ns,
     pm_select = [ns @ ''_*''], pm_advisory = [], pm_settings = [(ns @ ''_naming'', [(''max'', ''3'')])]\<rparr>"

definition example_cmodules :: "cmodule list" where
  "example_cmodules = [example_cmodule 0 ''acme'' [(''titles'', ''naming'')], example_cmodule 2 ''zeta'' []]"

definition example_entries :: "module_config list" where
  "example_entries = [example_entry ''acme'', example_entry ''zeta'']"

definition example_resolved :: "resolve_error + cplan" where
  "example_resolved = resolve_check host_page example_cmodules example_entries [''-acme_titles'', ''-zeta_ord*'']"

lemma example_resolves: "\<exists>p. example_resolved = Inr p \<and> map ru_code (cp_selected p) = [''acme_order'', ''zeta_Naming'']"
proof -
  have "(case example_resolved of Inl _ \<Rightarrow> [] | Inr p \<Rightarrow> map ru_code (cp_selected p)) = [''acme_order'', ''zeta_Naming'']"
    by code_simp
  then show ?thesis by (auto split: sum.splits)
qed

theorem resolver_selects_last_match_witness:
  "\<exists>p r. example_resolved = Inr p \<and> map ru_code (cp_selected p) = [''acme_order'', ''zeta_Naming''] \<and>
    new_resolver host_page example_cmodules example_entries = Inr r \<and> cp_selected p = filter (\<lambda>ru. community_allowed
      (map (present_pattern (cp_renames p)) [''acme_*'', ''zeta_*'', ''-acme_titles'', ''-zeta_ord*'']) (ru_code ru)) (rv_ordered r)"
proof -
  obtain p where p: "example_resolved = Inr p" "map ru_code (cp_selected p) = [''acme_order'', ''zeta_Naming'']"
    using example_resolves by (elim exE conjE) (rule that)
  have "selection_of example_entries [''-acme_titles'', ''-zeta_ord*''] =
      [''acme_*'', ''zeta_*'', ''-acme_titles'', ''-zeta_ord*'']"
    by (simp add: selection_of_def example_entries_def example_entry_def)
  from resolver_selects_last_match [OF p(1) [unfolded example_resolved_def], unfolded this] obtain r where r: "new_resolver host_page example_cmodules example_entries = Inr r" "cp_selected p =
      filter (\<lambda>ru. community_allowed (map (present_pattern (cp_renames p))
        [''acme_*'', ''zeta_*'', ''-acme_titles'', ''-zeta_ord*'']) (ru_code ru)) (rv_ordered r)"
    by (elim exE conjE) (rule that)
  show ?thesis by (rule exI [of _ p], rule exI [of _ r]) (intro conjI p r)
qed

theorem settings_are_unambiguous_witness:
  "\<exists>p. example_resolved = Inr p \<and> distinct (map (\<lambda>se. (ru_code (se_rule se), se_flag se)) (cp_settings p))"
  using example_resolves settings_are_unambiguous [of host_page example_cmodules example_entries "[''-acme_titles'', ''-zeta_ord*'']"]
  by (metis example_resolved_def)

theorem resolver_refuses_unmatched_witness:
  "\<exists>e. resolve_check host_page example_cmodules example_entries [''-acme_nothing''] = Inl e"
proof -
  have "(case new_resolver host_page example_cmodules example_entries of Inl _ \<Rightarrow> False | Inr r \<Rightarrow>
      list_all (\<lambda>ru. \<not> community_hits (present_pattern (rv_renames r) ''-acme_nothing'') (ru_code ru)) (rv_ordered r))"
    by code_simp
  then obtain r where r: "new_resolver host_page example_cmodules example_entries = Inr r"
    "\<forall>ru \<in> set (rv_ordered r). \<not> community_hits (present_pattern (rv_renames r) ''-acme_nothing'') (ru_code ru)"
    by (auto simp: list_all_iff split: sum.splits)
  show ?thesis by (rule resolver_refuses_unmatched [OF r(1) _ r(2)]) (simp add: selection_of_def)
qed

definition acme_config :: config where
  "acme_config = default_config\<lparr>cf_rule_modules := [(''example.com/acme'',
     \<lparr>rm_version = ''v1.0.0'', rm_namespace = ''acme'', rm_select = [''acme_*''], rm_advisory = [], rm_settings = []\<rparr>)]\<rparr>"

definition acme_lint :: check where
  "acme_lint = (plain_check CheckGoLint default_target default_environment)
     \<lparr>ck_lint := Some \<lparr>lc_checks = [''*'', ''-acme_naming''], lc_rule_modules = None\<rparr>\<rparr>"


end
