(* ===== verification/Community_Output.thy ===== *)
theory Community_Output
  imports Community
begin

text \<open>
  Ignore directives and the rewriting of Staticcheck's output: \<open>runner/community/directives.go\<close> and
  \<open>output.go\<close>. Comments are their texts; decoding a line of JSON, and encoding it again with another
  severity, are arguments, as are the source files a stale directive is read back from.
\<close>

section \<open>Directives\<close>

definition ignored_codes :: "string \<Rightarrow> string list option" where
  "ignored_codes text =
     (let (body, ok) = cut_prefix text ''//lint:'' in
      if \<not> ok then None
      else (case split_at CHR '' '' body of
              verb # codes # _ \<Rightarrow> if verb = ''ignore'' \<or> verb = ''file-ignore'' then Some (split_at CHR '','' codes) else None
            | _ \<Rightarrow> None))"

definition directives :: "string list \<Rightarrow> (nat \<times> string list) list" where
  "directives comments = concat (map (\<lambda>(i, text).
     case ignored_codes text of None \<Rightarrow> [] | Some codes \<Rightarrow> [(i, codes)]) (enumerate 0 comments))"

definition is_community_code :: "string \<Rightarrow> bool" where
  "is_community_code code \<longleftrightarrow> CHR ''_'' \<in> set code"

text \<open>\<open>mixedAnalyzer\<close>: the comment and its core and community codes.\<close>

definition mixed_reports :: "string list \<Rightarrow> (nat \<times> string) list" where
  "mixed_reports comments = concat (map (\<lambda>(i, codes).
     let core = filter (\<lambda>c. \<not> is_community_code c) codes; community = filter is_community_code codes in
     if length core > 0 \<and> length community > 0
     then [(i, ''this directive names core codes ('' @ join_with '','' core @ '') and community codes ('' @
             join_with '','' community @ ''); write one directive for each on consecutive lines'')] else [])
     (directives comments))"

definition renamed_message :: "string \<Rightarrow> string \<Rightarrow> string" where
  "renamed_message old new = old @ '' is now '' @ new @ ''; update this directive''"

definition renamed_reports :: "string gomap \<Rightarrow> string list \<Rightarrow> (nat \<times> string) list" where
  "renamed_reports renames comments = concat (map (\<lambda>(i, codes).
     concat (map (\<lambda>code. case map_of renames (to_lower code) of
        None \<Rightarrow> [] | Some new \<Rightarrow> [(i, renamed_message code new)]) codes)) (directives comments))"

section \<open>Rewriting diagnostics\<close>

definition stale_directive :: string where
  "stale_directive = ''this linter directive didn'' @ [CHR 0x27] @ ''t match anything; should it be removed?''"

abbreviation severity_error :: string where "severity_error \<equiv> ''error''"
abbreviation severity_warning :: string where "severity_warning \<equiv> ''warning''"

record diagnostic =
  dg_code :: string
  dg_severity :: string
  dg_message :: string
  dg_file :: string
  dg_line :: int
  dg_column :: int

definition stale_advisory :: "(string \<Rightarrow> string option) \<Rightarrow> (string \<Rightarrow> bool) \<Rightarrow> diagnostic \<Rightarrow> bool" where
  "stale_advisory files advisory d =
     (case files (clean (dg_file d)) of
        None \<Rightarrow> False
      | Some text \<Rightarrow>
          let lines = split_at CHR 0x0A text in
          if dg_line d < 1 \<or> dg_line d > int (length lines) then False
          else
            let line = lines ! nat (dg_line d - 1); column = dg_column d - 1 in
            if column < 0 \<or> column > int (length line) then False
            else (case ignored_codes (trim_right CHR 0x0D (drop (nat column) line)) of
                    None \<Rightarrow> False
                  | Some codes \<Rightarrow> list_all advisory codes))"

definition lowered :: "(string \<Rightarrow> string option) \<Rightarrow> (string \<Rightarrow> bool) \<Rightarrow> diagnostic \<Rightarrow> bool" where
  "lowered files advisory d \<longleftrightarrow> dg_code d = ''staticcheck'' \<and> dg_message d = stale_directive \<and>
     dg_severity d = severity_error \<and> stale_advisory files advisory d"

record json_lines =
  jl_decode :: "string \<Rightarrow> diagnostic option"
  jl_relabel :: "string \<Rightarrow> string \<Rightarrow> string"

text \<open>
  One pass over the lines that are not blank: the text written, the number of diagnostics still
  failing, and the number read. A line that does not decode is an error.
\<close>

fun advise_lines ::
  "json_lines \<Rightarrow> (string \<Rightarrow> string option) \<Rightarrow> (string \<Rightarrow> bool) \<Rightarrow> string list \<Rightarrow> (string \<times> nat \<times> nat) option" where
  "advise_lines js files advisory [] = Some ('''', 0, 0)"
| "advise_lines js files advisory (line # lines) =
     (if trim_space line = '''' then advise_lines js files advisory lines
      else (case jl_decode js line of
              None \<Rightarrow> None
            | Some d \<Rightarrow>
                let low = lowered files advisory d;
                    line = (if low then jl_relabel js line severity_warning else line);
                    severity = (if low then severity_warning else dg_severity d)
                in case advise_lines js files advisory lines of
                     None \<Rightarrow> None
                   | Some (out, failing, count) \<Rightarrow>
                       Some (line @ [CHR 0x0A] @ out,
                             (if severity \<noteq> severity_warning then Suc failing else failing), Suc count)))"

definition advise ::
  "json_lines \<Rightarrow> (string \<Rightarrow> string option) \<Rightarrow> (string \<Rightarrow> bool) \<Rightarrow> string \<Rightarrow> int \<Rightarrow> (string \<times> int) option" where
  "advise js files advisory output exit =
     (if exit \<noteq> 0 \<and> exit \<noteq> 1 then Some (output, exit)
      else (case advise_lines js files advisory (scan_lines output) of
              None \<Rightarrow> None
            | Some (out, failing, count) \<Rightarrow>
                if exit = 1 \<and> count = 0 then Some (out, 1)
                else if failing > 0 then Some (out, 1) else Some (out, 0)))"

section \<open>The verdict\<close>

text \<open>The diagnostics a line list decodes to.\<close>

definition decoded :: "json_lines \<Rightarrow> string list \<Rightarrow> diagnostic list" where
  "decoded js lines = map (\<lambda>l. the (jl_decode js l)) (filter (\<lambda>l. trim_space l \<noteq> '''') lines)"

lemma advise_lines_counts:
  "advise_lines js files advisory lines = Some (out, failing, count) \<Longrightarrow>
   count = length (decoded js lines) \<and>
   failing = length (filter (\<lambda>d. dg_severity d \<noteq> severity_warning \<and> \<not> lowered files advisory d) (decoded js lines))"
  by (induction lines arbitrary: out failing count)
    (auto simp: decoded_def Let_def split: if_splits option.splits)

text \<open>C9. Rewriting never hides a failure: for a run that finished with 0 or 1, the exit code becomes 0 only
  if every diagnostic is a warning or a stale directive whose codes are all advisory, and a linter that
  reported 1 without any diagnostic stays at 1. Any other exit code and its output pass through.\<close>

theorem advise_verdict:
  assumes "advise js files advisory output exit = Some (out, code)"
  shows "(code = 0 \<longleftrightarrow> exit = 0 \<and> decoded js (scan_lines output) = [] \<or>
      exit \<in> {0, 1} \<and> decoded js (scan_lines output) \<noteq> [] \<and>
      (\<forall>d \<in> set (decoded js (scan_lines output)). dg_severity d = severity_warning \<or>
         dg_severity d = severity_error \<and> dg_code d = ''staticcheck'' \<and> dg_message d = stale_directive \<and>
         stale_advisory files advisory d)) \<and>
    (exit \<notin> {0, 1} \<longrightarrow> out = output \<and> code = exit)"
proof (cases "exit = 0 \<or> exit = 1")
  case False
  then show ?thesis using assms by (auto simp: advise_def split: if_splits)
next
  case True
  let ?ds = "decoded js (scan_lines output)"
  obtain failing count where lines: "advise_lines js files advisory (scan_lines output) = Some (out, failing, count)"
    and code: "code = (if exit = 1 \<and> count = 0 then 1 else if failing > 0 then 1 else 0)"
    using assms True by (auto simp: advise_def split: if_splits option.splits)
  have low: "\<not> (dg_severity d \<noteq> severity_warning \<and> \<not> lowered files advisory d) \<longleftrightarrow>
      dg_severity d = severity_warning \<or> dg_severity d = severity_error \<and>
        dg_code d = ''staticcheck'' \<and> dg_message d = stale_directive \<and> stale_advisory files advisory d" for d
    by (auto simp: lowered_def)
  have "failing = 0 \<longleftrightarrow> (\<forall>d \<in> set ?ds. \<not> (dg_severity d \<noteq> severity_warning \<and> \<not> lowered files advisory d))"
    using advise_lines_counts [OF lines] by (simp add: filter_empty_conv)
  then have "failing = 0 \<longleftrightarrow> (\<forall>d \<in> set ?ds. dg_severity d = severity_warning \<or> dg_severity d = severity_error \<and>
        dg_code d = ''staticcheck'' \<and> dg_message d = stale_directive \<and> stale_advisory files advisory d)"
    by (simp only: low)
  moreover have "count = 0 \<longleftrightarrow> ?ds = []" using advise_lines_counts [OF lines] by simp
  ultimately show ?thesis using code True by (auto split: if_splits)
qed

definition one_line :: json_lines where
  "one_line = \<lparr>jl_decode = (\<lambda>l. Some \<lparr>dg_code = ''staticcheck'', dg_severity = l, dg_message = stale_directive,
     dg_file = ''a.go'', dg_line = 2, dg_column = 1\<rparr>), jl_relabel = (\<lambda>l severity. severity)\<rparr>"

definition one_file :: "string \<Rightarrow> string option" where
  "one_file name = (if name = ''a.go'' then Some (join_with [CHR 0x0A] [''package a'', ''//lint:ignore acme_naming why'']) else None)"

lemma advise_example: "advise one_line one_file (\<lambda>c. c = ''acme_naming'') ''error'' 1 = Some (''warning'' @ [CHR 0x0A], 0)"
  by code_simp

theorem advise_verdict_witness:
  "list_all (\<lambda>d. dg_severity d = severity_warning \<or> dg_severity d = severity_error \<and> dg_code d = ''staticcheck'' \<and>
     dg_message d = stale_directive \<and> stale_advisory one_file (\<lambda>c. c = ''acme_naming'') d)
     (decoded one_line (scan_lines ''error''))"
  using advise_verdict [OF advise_example] by (simp add: list_all_iff)

end
