(* ===== verification/Go_Conv.thy ===== *)
theory Go_Conv
  imports Go_Format Go_Duration
begin

text \<open>
  What the source uses of Go's \<open>strconv\<close>: \<open>Atoi\<close> with its 64-bit range, \<open>Quote\<close> and \<open>Unquote\<close> of
  interpreted strings. Bytes beyond ASCII are taken as parts of printable text in valid UTF-8, which both
  functions leave as they are.
\<close>

section \<open>Integers\<close>

definition digits_value :: "string \<Rightarrow> nat" where
  "digits_value s = foldl (\<lambda>v c. v * 10 + digit_value c) 0 s"

definition atoi :: "string \<Rightarrow> int option" where
  "atoi s =
     (let neg = has_prefix s ''-'';
          ds = (if neg \<or> has_prefix s ''+'' then tl s else s);
          v = (if neg then - int (digits_value ds) else int (digits_value ds))
      in if ds = [] \<or> \<not> list_all is_digit ds \<or> v < - (2 ^ 63) \<or> v \<ge> 2 ^ 63 then None else Some v)"

lemma digit_value_char [simp]: "d < 10 \<Longrightarrow> digit_value (digit_char d) = d"
  by (simp add: digit_value_def digit_char_def)

lemma digits_value_snoc: "digits_value (s @ [c]) = digits_value s * 10 + digit_value c"
  by (simp add: digits_value_def)

lemma digits_value_show [simp]: "digits_value (show_nat n) = n"
proof (induction n rule: show_nat.induct)
  case (1 n)
  show ?case
  proof (cases "n < 10")
    case True
    then show ?thesis by (subst show_nat.simps) (simp add: digits_value_def)
  next
    case False
    with 1 show ?thesis by (subst show_nat.simps) (simp add: digits_value_snoc)
  qed
qed

lemma digit_no_sign: "is_digit c \<Longrightarrow> c \<noteq> CHR ''-'' \<and> c \<noteq> CHR ''+'' \<and> c \<noteq> CHR '',''"
  by (auto simp: is_digit_def less_eq_char_def)

lemma atoi_show_nat: "int n < 2 ^ 63 \<Longrightarrow> atoi (show_nat n) = Some (int n)"
proof -
  assume n: "int n < 2 ^ 63"
  obtain c cs where shown: "show_nat n = c # cs" using show_nat_nonempty [of n] by (cases "show_nat n") auto
  have "is_digit c" using show_nat_digits [of c n] shown by simp
  then have "\<not> has_prefix (show_nat n) ''-''" "\<not> has_prefix (show_nat n) ''+''"
    using digit_no_sign [of c] by (auto simp: shown)
  then show ?thesis using n show_nat_digits show_nat_nonempty by (auto simp: atoi_def Let_def list_all_iff)
qed

lemma atoi_show_int: "0 \<le> i \<Longrightarrow> i < 2 ^ 63 \<Longrightarrow> atoi (show_int i) = Some i"
  using atoi_show_nat [of "nat i"] by (simp add: show_int_def)

lemma show_int_plain: "0 \<le> i \<Longrightarrow> c \<in> set (show_int i) \<Longrightarrow> is_digit c"
  using show_nat_digits by (simp add: show_int_def)

section \<open>Quoted strings\<close>

definition double_quote :: char where "double_quote = CHR 0x22"
definition backslash :: char where "backslash = CHR 0x5C"

text \<open>The escapes of one letter, with the character each stands for.\<close>

definition letter_escapes :: "(char \<times> char) list" where
  "letter_escapes = [(CHR ''a'', CHR 0x07), (CHR ''b'', CHR 0x08), (CHR ''f'', CHR 0x0C), (CHR ''n'', CHR 0x0A),
     (CHR ''r'', CHR 0x0D), (CHR ''t'', CHR 0x09), (CHR ''v'', CHR 0x0B), (backslash, backslash),
     (double_quote, double_quote)]"

definition hex_digit :: "nat \<Rightarrow> char" where
  "hex_digit d = (if d < 10 then char_of (48 + d) else char_of (87 + d))"

definition quote_char :: "char \<Rightarrow> string" where
  "quote_char c =
     (case find (\<lambda>e. snd e = c) letter_escapes of
        Some e \<Rightarrow> [backslash, fst e]
      | None \<Rightarrow>
          let n = (of_char c :: nat) in
          if n < 32 \<or> n = 127 then [backslash, CHR ''x'', hex_digit (n div 16), hex_digit (n mod 16)] else [c])"

definition go_quote :: "string \<Rightarrow> string" where
  "go_quote s = double_quote # concat (map quote_char s) @ [double_quote]"

definition hex_value :: "char \<Rightarrow> nat option" where
  "hex_value c =
     (let n = (of_char c :: nat) in
      if 48 \<le> n \<and> n \<le> 57 then Some (n - 48)
      else if 97 \<le> n \<and> n \<le> 102 then Some (n - 87)
      else if 65 \<le> n \<and> n \<le> 70 then Some (n - 55) else None)"

fun hex_number :: "nat \<Rightarrow> string \<Rightarrow> nat option" where
  "hex_number v [] = Some v"
| "hex_number v (c # s) = (case hex_value c of None \<Rightarrow> None | Some d \<Rightarrow> hex_number (v * 16 + d) s)"

definition utf8_encode :: "nat \<Rightarrow> string" where
  "utf8_encode r =
     (if r < 0x80 then [char_of r]
      else if r < 0x800 then [char_of (0xC0 + r div 64), char_of (0x80 + r mod 64)]
      else if r < 0x10000 then [char_of (0xE0 + r div 4096), char_of (0x80 + r div 64 mod 64), char_of (0x80 + r mod 64)]
      else [char_of (0xF0 + r div 262144), char_of (0x80 + r div 4096 mod 64), char_of (0x80 + r div 64 mod 64),
            char_of (0x80 + r mod 64)])"

text \<open>\<open>UnquoteChar\<close> after a backslash: the bytes it stands for and what follows.\<close>

definition unquote_escape :: "string \<Rightarrow> (string \<times> string) option" where
  "unquote_escape s =
     (case s of
        [] \<Rightarrow> None
      | c # cs \<Rightarrow>
          (case map_of letter_escapes c of
             Some x \<Rightarrow> Some ([x], cs)
           | None \<Rightarrow>
               let n = (if c = CHR ''x'' then 2 else if c = CHR ''u'' then 4 else if c = CHR ''U'' then 8 else (0::nat));
                   octal = (\<lambda>d. CHR ''0'' \<le> d \<and> d \<le> CHR ''7'')
               in if n > 0 then
                    (if length cs < n then None
                     else (case hex_number 0 (take n cs) of
                       None \<Rightarrow> None
                     | Some v \<Rightarrow>
                         if n = 2 then Some ([char_of v], drop n cs)
                         else if 0xD800 \<le> v \<and> v < 0xE000 \<or> v > 0x10FFFF then None
                         else Some (utf8_encode v, drop n cs)))
                  else if octal c then
                    (case cs of
                       d # e # rest \<Rightarrow>
                         let v = (digit_value c * 8 + digit_value d) * 8 + digit_value e in
                         if \<not> octal d \<or> \<not> octal e \<or> v > 255 then None else Some ([char_of v], rest)
                     | _ \<Rightarrow> None)
                  else None))"

text \<open>The body of a string up to its closing quote; \<open>n\<close> bounds the characters left to read.\<close>

fun unquote_body :: "nat \<Rightarrow> string \<Rightarrow> string option" where
  "unquote_body 0 s = None"
| "unquote_body (Suc n) [] = None"
| "unquote_body (Suc n) (c # s) =
     (if c = double_quote then (if s = [] then Some [] else None)
      else if c = CHR 0x0A then None
      else if c = backslash then
        (case unquote_escape s of
           None \<Rightarrow> None
         | Some (out, rest) \<Rightarrow> map_option ((@) out) (unquote_body n rest))
      else map_option ((#) c) (unquote_body n s))"

definition go_unquote :: "string \<Rightarrow> string option" where
  "go_unquote s = (case s of [] \<Rightarrow> None | c # body \<Rightarrow> if c = double_quote then unquote_body (length body) body else None)"

lemma hex_digit_value: "d < 16 \<Longrightarrow> hex_value (hex_digit d) = Some d"
  by (auto simp: hex_value_def hex_digit_def Let_def)

lemma letter_escape_find:
  assumes "find (\<lambda>e. snd e = c) letter_escapes = Some e"
  shows "map_of letter_escapes (fst e) = Some c"
proof -
  have "list_all (\<lambda>e. map_of letter_escapes (fst e) = Some (snd e)) letter_escapes" by code_simp
  moreover have "e \<in> set letter_escapes" "snd e = c"
    using assms unfolding find_Some_iff by (auto intro: nth_mem)
  ultimately show ?thesis by (auto simp: list_all_iff)
qed

lemma no_letter_escape:
  assumes "find (\<lambda>e. snd e = c) letter_escapes = None"
  shows "c \<noteq> double_quote \<and> c \<noteq> backslash \<and> c \<noteq> CHR 0x0A"
proof -
  have "list_all (\<lambda>x. x \<in> snd ` set letter_escapes) [double_quote, backslash, CHR 0x0A]" by code_simp
  moreover have "c \<notin> snd ` set letter_escapes" using assms unfolding find_None_iff by auto
  ultimately show ?thesis by auto
qed

lemma unquote_hex:
  assumes "n < 256"
  shows "unquote_escape (CHR ''x'' # hex_digit (n div 16) # hex_digit (n mod 16) # rest) = Some ([char_of n], rest)"
proof -
  have "map_of letter_escapes (CHR ''x'') = None" by code_simp
  moreover have "hex_value (hex_digit (n div 16)) = Some (n div 16)" "hex_value (hex_digit (n mod 16)) = Some (n mod 16)"
    using assms by (auto intro!: hex_digit_value)
  ultimately show ?thesis by (simp add: unquote_escape_def)
qed

lemma unquote_body_quoted:
  "length s < n \<Longrightarrow> unquote_body n (concat (map quote_char s) @ [double_quote]) = Some s"
proof (induction s arbitrary: n)
  case Nil
  then show ?case by (cases n) auto
next
  case (Cons c s)
  obtain m where n: "n = Suc m" using Cons.prems by (cases n) auto
  note IH = Cons.IH [of m]
  have len: "length s < m" using Cons.prems n by simp
  show ?case
  proof (cases "find (\<lambda>e. snd e = c) letter_escapes")
    case (Some e)
    have "backslash \<noteq> double_quote" "backslash \<noteq> CHR 0x0A" by (simp_all add: backslash_def double_quote_def)
    then show ?thesis using IH [OF len] n Some letter_escape_find [OF Some]
      by (simp add: quote_char_def unquote_escape_def)
  next
    case None
    have "backslash \<noteq> double_quote" "backslash \<noteq> CHR 0x0A" by (simp_all add: backslash_def double_quote_def)
    moreover have "unquote_escape (CHR ''x'' # hex_digit (of_char c div 16) # hex_digit (of_char c mod 16) # rest) = Some ([c], rest)" for rest
      using unquote_hex [of "of_char c" rest] by simp
    ultimately show ?thesis using IH [OF len] n None no_letter_escape [OF None]
      by (simp add: quote_char_def Let_def)
  qed
qed

lemma quote_char_length: "length (quote_char c) \<ge> 1"
  by (simp add: quote_char_def Let_def split: option.split)

lemma go_unquote_quote [simp]: "go_unquote (go_quote s) = Some s"
proof -
  have "length s \<le> length (concat (map quote_char s))"
  proof (induction s)
    case (Cons c s)
    with quote_char_length [of c] show ?case by simp
  qed simp
  then show ?thesis by (simp add: go_unquote_def go_quote_def unquote_body_quoted)
qed

end
