(* ===== verification/Mutation.thy ===== *)
theory Mutation
  imports Report Go_Conv Go_Regexp "HOL-Library.Product_Lexorder" "HOL-Library.List_Lexorder" "HOL-Library.Char_ord"
begin

text \<open>
  The verdict of a mutation run: \<open>runner/mutation.go\<close>. The report of gremlins is a value once decoded;
  the function around each line of a file, which \<open>go/parser\<close> finds, is an argument of the source
  index, as are the runs of gremlins themselves. Counters and durations are unbounded.
\<close>

section \<open>Durations in messages\<close>

definition pad_nat :: "nat \<Rightarrow> nat \<Rightarrow> string" where
  "pad_nat width n = replicate (width - length (show_nat n)) CHR ''0'' @ show_nat n"

text \<open>\<open>fmtFrac\<close> and \<open>Duration.String\<close> of package time.\<close>

definition fraction_text :: "nat \<Rightarrow> nat \<Rightarrow> string" where
  "fraction_text v precision =
     (let digits = rev (dropWhile (\<lambda>c. c = CHR ''0'') (rev (pad_nat precision (v mod 10 ^ precision)))) in
      if v mod 10 ^ precision = 0 then '''' else CHR ''.'' # digits)"

definition scaled_text :: "nat \<Rightarrow> nat \<Rightarrow> string" where
  "scaled_text v precision = show_nat (v div 10 ^ precision) @ fraction_text v precision"

definition show_duration :: "int \<Rightarrow> string" where
  "show_duration d =
     (let u = nat \<bar>d\<bar>;
          s = u div 1000000000; m = s div 60;
          seconds = show_nat (s mod 60) @ fraction_text u 9 @ ''s'';
          text = (if u = 0 then ''0s''
            else if u < 1000 then show_nat u @ ''ns''
            else if u < 1000000 then scaled_text u 3 @ [CHR 0xC2, CHR 0xB5] @ ''s''
            else if u < 1000000000 then scaled_text u 6 @ ''ms''
            else if m = 0 then seconds
            else if m div 60 = 0 then show_nat m @ ''m'' @ seconds
            else show_nat (m div 60) @ ''h'' @ show_nat (m mod 60) @ ''m'' @ seconds)
      in if d < 0 then CHR ''-'' # text else text)"

section \<open>Data\<close>

definition second_ns :: int where
  "second_ns = 1000000000"

definition gremlins_timeout_coef :: int where "gremlins_timeout_coef = 10"
definition mutant_time_floor :: int where "mutant_time_floor = 10 * second_ns"
definition gremlins_attempts :: nat where "gremlins_attempts = 3"
definition min_timeouts_for_incomplete :: nat where "min_timeouts_for_incomplete = 3"
definition min_timeouts_for_warning :: nat where "min_timeouts_for_warning = 2"

definition gremlins_no_results :: string where
  "gremlins_no_results = ''No results to report.''"

abbreviation mutation_killed :: string where "mutation_killed \<equiv> ''KILLED''"
abbreviation mutation_lived :: string where "mutation_lived \<equiv> ''LIVED''"
abbreviation mutation_not_covered :: string where "mutation_not_covered \<equiv> ''NOT COVERED''"
abbreviation mutation_timed_out :: string where "mutation_timed_out \<equiv> ''TIMED OUT''"
abbreviation mutation_not_viable :: string where "mutation_not_viable \<equiv> ''NOT VIABLE''"
abbreviation mutation_skipped :: string where "mutation_skipped \<equiv> ''SKIPPED''"
abbreviation mutation_runnable :: string where "mutation_runnable \<equiv> ''RUNNABLE''"

record gremlins_mutation =
  gm_type :: string
  gm_status :: string
  gm_line :: int
  gm_column :: int

record gremlins_file =
  gf_name :: string
  gf_mutations :: "gremlins_mutation list"

record accepted_entry =
  ae_file :: string
  ae_mutator :: string
  ae_line :: string
  ae_function :: string
  ae_occurrence :: int
  ae_reason :: string

text \<open>\<open>mn_report\<close> is the decoded report: \<open>None\<close> when the bytes are not one.\<close>

record mutation_run =
  mn_exit_code :: int
  mn_stdout :: string
  mn_stderr :: string
  mn_report :: "gremlins_file list option"
  mn_reported :: bool
  mn_coefficient :: int

record line_range =
  lr_start :: int
  lr_end :: int

record mutant =
  mu_file :: string
  mu_line :: int
  mu_column :: int
  mu_mutator :: string

record mutation_summary =
  ms_killed :: nat
  ms_lived :: nat
  ms_unchanged :: nat
  ms_accepted :: nat
  ms_not_covered :: nat
  ms_timed_out :: nat
  ms_not_viable :: nat
  ms_skipped :: nat
  ms_uncovered :: "mutant list"
  ms_unchanged_list :: "mutant list"
  ms_timed_out_mutants :: "mutant list"
  ms_warnings :: "string list"
  ms_files :: "string list"

record mutation_verdict =
  mv_findings :: "finding list"
  mv_incomplete :: bool
  mv_summary :: mutation_summary

type_synonym changed_lines = "line_range list gomap option"

record source_index =
  si_sources :: "string list gomap"
  si_functions :: "string list gomap"

record mutation_input =
  mi_module :: string
  mi_files :: "string list"
  mi_lines :: changed_lines
  mi_index :: source_index
  mi_accepted :: "accepted_entry list"
  mi_accepted_path :: string
  mi_accepted_text :: string

definition no_summary :: "string list \<Rightarrow> mutation_summary" where
  "no_summary files = \<lparr>ms_killed = 0, ms_lived = 0, ms_unchanged = 0, ms_accepted = 0, ms_not_covered = 0,
     ms_timed_out = 0, ms_not_viable = 0, ms_skipped = 0, ms_uncovered = [], ms_unchanged_list = [],
     ms_timed_out_mutants = [], ms_warnings = [], ms_files = files\<rparr>"

definition lines_of :: "string list gomap \<Rightarrow> string \<Rightarrow> string list" where
  "lines_of sources file = (case map_of sources file of None \<Rightarrow> [] | Some ls \<Rightarrow> ls)"

definition mutant_of :: "string \<Rightarrow> gremlins_mutation \<Rightarrow> mutant" where
  "mutant_of file m = \<lparr>mu_file = file, mu_line = gm_line m, mu_column = gm_column m, mu_mutator = gm_type m\<rparr>"

section \<open>The accepted survivors\<close>

datatype accepted_error = NeedsVersion int | NeedsFields nat | NeedsReason nat string string | NeedsOccurrence nat string string

fun check_accepted :: "nat \<Rightarrow> accepted_entry list \<Rightarrow> accepted_error option" where
  "check_accepted i [] = None"
| "check_accepted i (e # es) =
     (if ae_file e = '''' \<or> ae_mutator e = '''' \<or> trim_space (ae_line e) = '''' then Some (NeedsFields (Suc i))
      else if trim_space (ae_reason e) = '''' then Some (NeedsReason (Suc i) (ae_file e) (ae_mutator e))
      else if ae_occurrence e < 0 then Some (NeedsOccurrence (Suc i) (ae_file e) (ae_mutator e))
      else check_accepted (Suc i) es)"

text \<open>\<open>parseAccepted\<close> after decoding: \<open>None\<close> when the repository has no such file.\<close>

definition parse_accepted :: "(int \<times> accepted_entry list) option \<Rightarrow> accepted_error + accepted_entry list" where
  "parse_accepted present =
     (case present of
        None \<Rightarrow> Inr []
      | Some (version, entries) \<Rightarrow>
          if version \<noteq> 1 then Inl (NeedsVersion version)
          else (case check_accepted 0 entries of Some e \<Rightarrow> Inl e | None \<Rightarrow> Inr entries))"

section \<open>The source index\<close>

definition source_line :: "string list gomap \<Rightarrow> string \<Rightarrow> int \<Rightarrow> string" where
  "source_line sources file line =
     (let lines = lines_of sources file in
      if line < 1 \<or> line > int (length lines) then '''' else trim_space (lines ! nat (line - 1)))"

definition index_function :: "source_index \<Rightarrow> string \<Rightarrow> int \<Rightarrow> string" where
  "index_function s file line =
     (let names = lines_of (si_functions s) file in
      if line < 1 \<or> line > int (length names) then '''' else names ! nat (line - 1))"

definition occurrence :: "source_index \<Rightarrow> string \<Rightarrow> int \<Rightarrow> bool \<Rightarrow> int" where
  "occurrence s file line scoped =
     int (length (filter (\<lambda>other. source_line (si_sources s) file other = source_line (si_sources s) file line \<and>
        (\<not> scoped \<or> index_function s file other = index_function s file line)) [1..line]))"

definition names_line :: "source_index \<Rightarrow> accepted_entry \<Rightarrow> string \<Rightarrow> int \<Rightarrow> bool" where
  "names_line s e file line =
     (if ae_file e \<noteq> file \<or> trim_space (ae_line e) \<noteq> source_line (si_sources s) file line then False
      else if ae_function e \<noteq> '''' \<and> index_function s file line \<noteq> ae_function e then False
      else ae_occurrence e = 0 \<or> occurrence s file line (ae_function e \<noteq> '''') = ae_occurrence e)"

definition entry_matches :: "source_index \<Rightarrow> accepted_entry \<Rightarrow> mutant \<Rightarrow> bool" where
  "entry_matches s e m \<longleftrightarrow> ae_mutator e = mu_mutator m \<and> names_line s e (mu_file m) (mu_line m)"

section \<open>Lines\<close>

definition in_range :: "line_range \<Rightarrow> int \<Rightarrow> bool" where
  "in_range r line \<longleftrightarrow> lr_start r \<le> line \<and> line \<le> lr_end r"

definition on_lines :: "changed_lines \<Rightarrow> mutant \<Rightarrow> bool" where
  "on_lines lines m =
     (case lines of
        None \<Rightarrow> True
      | Some files \<Rightarrow> (case map_of files (mu_file m) of
          None \<Rightarrow> True
        | Some ranges \<Rightarrow> list_ex (\<lambda>r. in_range r (mu_line m)) ranges))"

text \<open>\<open>mergeRanges\<close>: \<open>merged\<close> holds the ranges so far, the last one first.\<close>

fun merge_sorted :: "line_range list \<Rightarrow> line_range list \<Rightarrow> line_range list" where
  "merge_sorted merged [] = rev merged"
| "merge_sorted [] (r # rs) = merge_sorted [r] rs"
| "merge_sorted (l # ls) (r # rs) =
     (if lr_start r \<le> lr_end l + 1 then merge_sorted (l\<lparr>lr_end := max (lr_end l) (lr_end r)\<rparr> # ls) rs
      else merge_sorted (r # l # ls) rs)"

definition merge_ranges :: "line_range list \<Rightarrow> line_range list" where
  "merge_ranges rs = merge_sorted [] (sort_key lr_start rs)"

definition entry_lines :: "mutation_input \<Rightarrow> string \<Rightarrow> line_range list" where
  "entry_lines mi file = concat (map (\<lambda>e.
     if ae_file e \<noteq> file then []
     else map (\<lambda>line. \<lparr>lr_start = line, lr_end = line\<rparr>)
       (filter (names_line (mi_index mi) e file) [1..int (length (lines_of (si_sources (mi_index mi)) file))]))
     (mi_accepted mi))"

definition mutated_lines :: "mutation_input \<Rightarrow> changed_lines" where
  "mutated_lines mi =
     (case mi_lines mi of
        None \<Rightarrow> None
      | Some lines \<Rightarrow> Some (map (\<lambda>file.
          (file, merge_ranges
             ((case map_of lines file of
                 Some ranges \<Rightarrow> ranges
               | None \<Rightarrow> [\<lparr>lr_start = 1, lr_end = max (int (length (lines_of (si_sources (mi_index mi)) file))) 1\<rparr>]) @
              entry_lines mi file))) (mi_files mi)))"

text \<open>\<open>changedDiff\<close>: the text gremlins reads as the diff of the run.\<close>

definition diff_placeholder :: string where
  "diff_placeholder = ''.levenshtein-no-changed-go-lines''"

definition diff_entry :: "string \<Rightarrow> line_range list \<Rightarrow> string" where
  "diff_entry file ranges =
     (let a = go_quote (''a/'' @ file); b = go_quote (''b/'' @ file) in
      ''diff --git '' @ a @ '' '' @ b @ newline @ ''--- '' @ a @ newline @ ''+++ '' @ b @ newline @
      concat (map (\<lambda>r. let count = lr_end r - lr_start r + 1 in
        ''@@ -0,0 +'' @ show_int (lr_start r) @ '','' @ show_int count @ '' @@'' @ newline @
        concat (replicate (nat count) (''+'' @ newline))) ranges))"

definition changed_diff :: "line_range list gomap \<Rightarrow> string" where
  "changed_diff run = diff_entry diff_placeholder [\<lparr>lr_start = 1, lr_end = 1\<rparr>] @
     concat (map (\<lambda>file. let ranges = the (map_of run file) in
       if length ranges > 0 then diff_entry file ranges else '''') (sorted_keys run))"

datatype lines_error = NotSelected string | BadRange int int string

text \<open>\<open>parseLines\<close> after decoding.\<close>

definition check_lines :: "line_range list gomap \<Rightarrow> string list \<Rightarrow> lines_error option" where
  "check_lines lines files =
     first_error (\<lambda>(file, ranges). first_of
       [fail_when (file \<notin> set files) (NotSelected file),
        first_error (\<lambda>r. fail_when (lr_start r < 1 \<or> lr_end r < lr_start r)
          (BadRange (lr_start r) (lr_end r) file)) ranges]) lines"

section \<open>Limits\<close>

text \<open>\<open>coverageTime\<close>: the pattern \<open>Gathering coverage...[\s\S]*?\bdone in (\S+)\<close>, leftmost first.\<close>

definition gathering :: string where "gathering = ''Gathering coverage...''"
definition done_in :: string where "done_in = ''done in ''"

text \<open>The first place in \<open>s\<close> after which \<open>done in\<close> starts a word and is followed by text that is not
  space; \<open>before\<close> says whether the character before \<open>s\<close> belongs to a word.\<close>

fun find_done :: "bool \<Rightarrow> string \<Rightarrow> string option" where
  "find_done before [] = None"
| "find_done before (c # cs) =
     (let rest = drop (length done_in) (c # cs) in
      if \<not> before \<and> has_prefix (c # cs) done_in \<and> rest \<noteq> [] \<and> \<not> rx_space (hd rest)
      then Some (takeWhile (\<lambda>c. \<not> rx_space c) rest)
      else find_done (word_char c) cs)"

fun find_coverage :: "string \<Rightarrow> string option" where
  "find_coverage [] = None"
| "find_coverage (c # cs) =
     (if has_prefix (c # cs) gathering
      then (case find_done False (drop (length gathering) (c # cs)) of
              Some text \<Rightarrow> Some text
            | None \<Rightarrow> find_coverage cs)
      else find_coverage cs)"

definition coverage_time :: "string \<Rightarrow> int option" where
  "coverage_time stdout = Option.bind (find_coverage stdout) parse_duration"

definition run_limit :: "mutation_run \<Rightarrow> int option" where
  "run_limit r =
     (case coverage_time (mn_stdout r) of
        None \<Rightarrow> None
      | Some elapsed \<Rightarrow> if mn_coefficient r < 1 then None else Some (elapsed * mn_coefficient r))"

definition millisecond_ns :: int where "millisecond_ns = 1000000"

definition timed_out_any :: "gremlins_file list \<Rightarrow> bool" where
  "timed_out_any files \<longleftrightarrow> list_ex (\<lambda>f. list_ex (\<lambda>m. gm_status m = mutation_timed_out) (gf_mutations f)) files"

definition longer_coefficient :: "mutation_run \<Rightarrow> int option" where
  "longer_coefficient r =
     (if mn_exit_code r \<noteq> 0 \<or> \<not> mn_reported r then None
      else (case mn_report r of
        None \<Rightarrow> None
      | Some files \<Rightarrow> (case coverage_time (mn_stdout r) of
          None \<Rightarrow> None
        | Some elapsed \<Rightarrow>
            let limit = (case run_limit r of None \<Rightarrow> 0 | Some l \<Rightarrow> l) in
            if \<not> timed_out_any files \<or> limit \<ge> mutant_time_floor then None
            else let elapsed = max elapsed millisecond_ns in
                 Some ((2 * mutant_time_floor + elapsed - 1) div elapsed))))"

section \<open>Counting the report\<close>

datatype mutation_error =
    GremlinsExited int string
  | NoReport string
  | InvalidReport
  | MutatedUnselected string
  | AgainstLines bool string int
  | DryRun
  | UnknownMutantStatus string string int

record tally =
  ta_killed :: nat
  ta_not_viable :: nat
  ta_skipped :: nat
  ta_lived :: "mutant list"
  ta_not_covered :: "mutant list"
  ta_timed_out :: "mutant list"
  ta_covered :: "string list"

definition no_tally :: tally where
  "no_tally = \<lparr>ta_killed = 0, ta_not_viable = 0, ta_skipped = 0, ta_lived = [], ta_not_covered = [],
     ta_timed_out = [], ta_covered = []\<rparr>"

text \<open>\<open>ta_covered\<close> lists the directory of each covered mutant; its counts are the map \<open>covered\<close>.\<close>

definition tally_mutation :: "changed_lines \<Rightarrow> string \<Rightarrow> tally \<Rightarrow> gremlins_mutation \<Rightarrow> mutation_error + tally" where
  "tally_mutation run_lines file ta m =
     (let mutant = mutant_of file m; dir = dir_name file; status = gm_status m in
      if on_lines run_lines mutant = (status = mutation_skipped)
      then Inl (AgainstLines (status = mutation_skipped) file (gm_line m))
      else if status = mutation_killed
      then Inr (ta\<lparr>ta_killed := Suc (ta_killed ta), ta_covered := ta_covered ta @ [dir]\<rparr>)
      else if status = mutation_lived
      then Inr (ta\<lparr>ta_lived := ta_lived ta @ [mutant], ta_covered := ta_covered ta @ [dir]\<rparr>)
      else if status = mutation_not_covered then Inr (ta\<lparr>ta_not_covered := ta_not_covered ta @ [mutant]\<rparr>)
      else if status = mutation_timed_out
      then Inr (ta\<lparr>ta_timed_out := ta_timed_out ta @ [mutant], ta_covered := ta_covered ta @ [dir]\<rparr>)
      else if status = mutation_not_viable then Inr (ta\<lparr>ta_not_viable := Suc (ta_not_viable ta)\<rparr>)
      else if status = mutation_skipped then Inr (ta\<lparr>ta_skipped := Suc (ta_skipped ta)\<rparr>)
      else if status = mutation_runnable then Inl DryRun
      else Inl (UnknownMutantStatus status file (gm_line m)))"

fun tally_file :: "changed_lines \<Rightarrow> string \<Rightarrow> tally \<Rightarrow> gremlins_mutation list \<Rightarrow> mutation_error + tally" where
  "tally_file run_lines file ta [] = Inr ta"
| "tally_file run_lines file ta (m # ms) =
     bind_result (tally_mutation run_lines file ta m) (\<lambda>ta. tally_file run_lines file ta ms)"

fun tally_report :: "string list \<Rightarrow> changed_lines \<Rightarrow> tally \<Rightarrow> gremlins_file list \<Rightarrow> mutation_error + tally" where
  "tally_report files run_lines ta [] = Inr ta"
| "tally_report files run_lines ta (f # fs) =
     (if gf_name f \<notin> set files then Inl (MutatedUnselected (gf_name f))
      else bind_result (tally_file run_lines (gf_name f) ta (gf_mutations f)) (\<lambda>ta.
        tally_report files run_lines ta fs))"

end
