(* ===== verification/Go_Json.thy ===== *)
theory Go_Json
  imports Go_Format "HOL-Library.AList"
begin

text \<open>
  What the source uses of \<open>unicode/utf8\<close> and of \<open>json.Marshal\<close>: the width of the rune a text begins with, and
  the text of a value. A value of the source that is marshalled is written as the \<open>json\<close> it becomes: the
  fields of a struct in their order, a map by its sorted keys.
\<close>

section \<open>Runes\<close>

definition byte_in :: "nat \<Rightarrow> nat \<Rightarrow> char \<Rightarrow> bool" where
  "byte_in lo hi c \<longleftrightarrow> lo \<le> of_char c \<and> of_char c \<le> hi"

text \<open>The length of the valid encoding a text begins with, 0 when there is none.\<close>

fun rune_width :: "string \<Rightarrow> nat" where
  "rune_width [] = 0"
| "rune_width (c # s) =
     (if byte_in 0 0x7F c then 1
      else if byte_in 0xC2 0xDF c \<and> s \<noteq> [] \<and> byte_in 0x80 0xBF (hd s) then 2
      else if byte_in 0xE0 0xEF c \<and> length s \<ge> 2 \<and> list_all (byte_in 0x80 0xBF) (take 2 s) \<and>
        (c = CHR 0xE0 \<longrightarrow> byte_in 0xA0 0xBF (hd s)) \<and> (c = CHR 0xED \<longrightarrow> byte_in 0x80 0x9F (hd s)) then 3
      else if byte_in 0xF0 0xF4 c \<and> length s \<ge> 3 \<and> list_all (byte_in 0x80 0xBF) (take 3 s) \<and>
        (c = CHR 0xF0 \<longrightarrow> byte_in 0x90 0xBF (hd s)) \<and> (c = CHR 0xF4 \<longrightarrow> byte_in 0x80 0x8F (hd s)) then 4
      else 0)"

definition replacement :: string where
  "replacement = [CHR 0xEF, CHR 0xBF, CHR 0xBD]"

text \<open>A text by its runes: a byte outside a valid encoding is read as the replacement character.\<close>

function scrub :: "string \<Rightarrow> string" where
  "scrub [] = []"
| "scrub (c # s) =
     (if rune_width (c # s) = 0 then replacement @ scrub s
      else c # take (rune_width (c # s) - 1) s @ scrub (drop (rune_width (c # s) - 1) s))"
  by pat_completeness auto
termination
  by (relation "measure length") auto

text \<open>\<open>utf8.RuneStart\<close>.\<close>

definition rune_start :: "char \<Rightarrow> bool" where
  "rune_start c \<longleftrightarrow> \<not> byte_in 0x80 0xBF c"

section \<open>Strings\<close>

definition hex_char :: "nat \<Rightarrow> char" where
  "hex_char d = (if d < 10 then char_of (48 + d) else char_of (87 + d))"

text \<open>A character as \<open>json.Encoder\<close> writes it without escaping HTML, for text in ASCII.\<close>

definition json_char :: "char \<Rightarrow> string" where
  "json_char c =
     (if c = CHR 0x22 then [CHR 0x5C, CHR 0x22] else if c = CHR 0x5C then [CHR 0x5C, CHR 0x5C]
      else if c = CHR 0x0A then [CHR 0x5C] @ ''n'' else if c = CHR 0x0D then [CHR 0x5C] @ ''r''
      else if c = CHR 0x09 then [CHR 0x5C] @ ''t'' else if c = CHR 0x08 then [CHR 0x5C] @ ''b''
      else if c = CHR 0x0C then [CHR 0x5C] @ ''f''
      else if (of_char c :: nat) < 32
      then [CHR 0x5C] @ ''u00'' @ [hex_char (of_char c div 16), hex_char (of_char c mod 16)]
      else [c])"

definition html_char :: "char \<Rightarrow> string" where
  "html_char c =
     (if c \<in> {CHR ''<'', CHR ''>'', CHR ''&''}
      then [CHR 0x5C] @ ''u00'' @ [hex_char (of_char c div 16), hex_char (of_char c mod 16)] else json_char c)"

text \<open>The two line separators U+2028 and U+2029.\<close>

definition line_separator :: "string \<Rightarrow> bool" where
  "line_separator s \<longleftrightarrow> take 2 s = [CHR 0xE2, CHR 0x80] \<and> length s = 3 \<and> byte_in 0xA8 0xA9 (s ! 2)"

function json_body :: "string \<Rightarrow> string" where
  "json_body [] = []"
| "json_body (c # s) =
     (if rune_width (c # s) = 0 then [CHR 0x5C] @ ''ufffd'' @ json_body s
      else if rune_width (c # s) = 1 then html_char c @ json_body s
      else (if line_separator (take (rune_width (c # s)) (c # s))
            then [CHR 0x5C] @ ''u202'' @ [hex_char (of_char (s ! 1) mod 16)]
            else c # take (rune_width (c # s) - 1) s) @
        json_body (drop (rune_width (c # s) - 1) s))"
  by pat_completeness auto
termination
  by (relation "measure length") auto

definition json_quote :: "string \<Rightarrow> string" where
  "json_quote s = [CHR 0x22] @ json_body s @ [CHR 0x22]"

section \<open>Values\<close>

datatype json = JNull | JBool bool | JInt int | JStr string | JList "json list" | JObj "(string \<times> json) list"

fun json_text :: "json \<Rightarrow> string" and json_texts :: "json list \<Rightarrow> string list"
  and json_fields :: "(string \<times> json) list \<Rightarrow> string list" where
  "json_text JNull = ''null''"
| "json_text (JBool b) = (if b then ''true'' else ''false'')"
| "json_text (JInt i) = show_int i"
| "json_text (JStr s) = json_quote s"
| "json_text (JList xs) = ''['' @ join_with '','' (json_texts xs) @ '']''"
| "json_text (JObj fs) = ''{'' @ join_with '','' (json_fields fs) @ ''}''"
| "json_texts [] = []"
| "json_texts (x # xs) = json_text x # json_texts xs"
| "json_fields [] = []"
| "json_fields ((k, v) # fs) = (json_quote k @ '':'' @ json_text v) # json_fields fs"

text \<open>A nil slice is \<open>null\<close>; the slices of the source that are only appended to are nil when empty.\<close>

definition json_slice :: "('a \<Rightarrow> json) \<Rightarrow> 'a list \<Rightarrow> json" where
  "json_slice f xs = (if xs = [] then JNull else JList (map f xs))"

text \<open>\<open>genericJSON\<close>: what decoding the encoded value gives; an object becomes a map.\<close>

fun generic :: "json \<Rightarrow> json" and generic_fields :: "(string \<times> json) list \<Rightarrow> (string \<times> json) list" where
  "generic (JStr s) = JStr (scrub s)"
| "generic (JList xs) = JList (map generic xs)"
| "generic (JObj fs) = JObj (sort_key fst (generic_fields fs))"
| "generic JNull = JNull"
| "generic (JBool b) = JBool b"
| "generic (JInt i) = JInt i"
| "generic_fields [] = []"
| "generic_fields ((k, v) # fs) = (scrub k, generic v) # generic_fields fs"

end
