(* ===== verification/Mutation_Verdict.thy ===== *)
theory Mutation_Verdict
  imports Mutation Go_Json
begin

text \<open>
  The rest of \<open>runner/mutation.go\<close>: accepted survivors matched against a report, the verdict, the
  patterns that keep gremlins to the selected files, and the runs with a raised limit.
\<close>

section \<open>Matching accepted survivors\<close>

record entry_match =
  em_survivors :: "int list"
  em_caught :: bool
  em_pending :: bool

text \<open>The mutations of an entry's file that it matches, with their status.\<close>

definition entry_mutations :: "gremlins_file list \<Rightarrow> source_index \<Rightarrow> accepted_entry \<Rightarrow> gremlins_mutation list" where
  "entry_mutations files index e = concat (map (\<lambda>f.
     if gf_name f \<noteq> ae_file e then []
     else filter (\<lambda>m. entry_matches index e (mutant_of (gf_name f) m)) (gf_mutations f)) files)"

definition match_entry :: "gremlins_file list \<Rightarrow> source_index \<Rightarrow> accepted_entry \<Rightarrow> bool \<Rightarrow> entry_match" where
  "match_entry files index e trusted =
     (let ms = entry_mutations files index e in
      \<lparr>em_survivors = sort (remdups (map gm_line (filter (\<lambda>m. gm_status m = mutation_lived) ms))),
       em_caught = list_ex (\<lambda>m. gm_status m = mutation_killed \<or> gm_status m = mutation_timed_out \<and> trusted) ms,
       em_pending = list_ex (\<lambda>m. gm_status m = mutation_timed_out \<and> \<not> trusted \<or>
         gm_status m \<in> {mutation_not_covered, mutation_not_viable, mutation_skipped, mutation_runnable}) ms\<rparr>)"

definition accepts :: "accepted_entry list \<Rightarrow> entry_match list \<Rightarrow> source_index \<Rightarrow> mutant \<Rightarrow> bool" where
  "accepts entries matches index m \<longleftrightarrow>
     list_ex (\<lambda>(e, em). length (em_survivors em) = 1 \<and> entry_matches index e m) (zip entries matches)"

section \<open>Findings\<close>

definition mutant_order :: "mutant \<Rightarrow> string \<times> int \<times> int \<times> string" where
  "mutant_order m = (mu_file m, mu_line m, mu_column m, mu_mutator m)"

definition sorted_mutants :: "mutant list \<Rightarrow> mutant list" where
  "sorted_mutants = sort_key mutant_order"

definition mutation_finding :: "string \<Rightarrow> string \<Rightarrow> string \<Rightarrow> int \<Rightarrow> int \<Rightarrow> finding" where
  "mutation_finding code message file line column =
     \<lparr>fd_code = code, fd_message = message, fd_location = \<lparr>loc_file = file, loc_line = line, loc_column = column\<rparr>,
      fd_source = '''', fd_url = '''', fd_advisory = False, fd_hint = '''', fd_baselined = False\<rparr>"

definition survivor_finding :: "mutation_input \<Rightarrow> mutant \<Rightarrow> finding" where
  "survivor_finding mi m = mutation_finding ''go-mutation''
     (mu_mutator m @ '' mutant survived: no test fails when this line is mutated: '' @
      source_line (si_sources (mi_index mi)) (mu_file m) (mu_line m))
     (path_join [mi_module mi, mu_file m]) (mu_line m) (mu_column m)"

definition timeout_finding :: "mutation_input \<Rightarrow> string \<Rightarrow> mutant \<Rightarrow> finding" where
  "timeout_finding mi reason m = mutation_finding ''go-mutation-timeout''
     (mu_mutator m @ '' mutant timed out '' @ reason @ '', so the run gave no verdict: '' @
      source_line (si_sources (mi_index mi)) (mu_file m) (mu_line m))
     (path_join [mi_module mi, mu_file m]) (mu_line m) (mu_column m)"

definition join_lines :: "int list \<Rightarrow> string" where
  "join_lines ls = join_with '', '' (map show_int ls)"

text \<open>A string as \<open>json.Encoder\<close> writes it without escaping HTML, for text in ASCII.\<close>

definition json_string :: "string \<Rightarrow> string" where
  "json_string s = [CHR 0x22] @ concat (map json_char s) @ [CHR 0x22]"

fun nth_containing :: "string \<Rightarrow> nat \<Rightarrow> nat \<Rightarrow> string list \<Rightarrow> int" where
  "nth_containing quoted skip n [] = 1"
| "nth_containing quoted skip n (l # ls) =
     (if \<not> contains l quoted then nth_containing quoted skip (Suc n) ls
      else if skip = 0 then int n + 1
      else nth_containing quoted (skip - 1) (Suc n) ls)"

definition entry_line :: "string \<Rightarrow> accepted_entry list \<Rightarrow> nat \<Rightarrow> int" where
  "entry_line text entries i =
     nth_containing (json_string (ae_line (entries ! i)))
       (length (filter (\<lambda>e. ae_line e = ae_line (entries ! i)) (take i entries))) 0 (split_at CHR 0x0A text)"

definition entry_described :: "accepted_entry \<Rightarrow> string" where
  "entry_described e = ''accepted survivor for '' @ ae_file e @ '' ('' @ ae_mutator e @ '', '' @ show_quoted (ae_line e) @ '')''"

text \<open>The finding of entry \<open>i\<close>: none when it accepts one line, or only mutants no test judged.\<close>

definition entry_finding :: "mutation_input \<Rightarrow> nat \<Rightarrow> accepted_entry \<Rightarrow> entry_match \<Rightarrow> finding list" where
  "entry_finding mi i e em =
     (let place = (\<lambda>code message. [mutation_finding code message (mi_accepted_path mi)
            (entry_line (mi_accepted_text mi) (mi_accepted mi) i) 0]);
          survivors = length (em_survivors em)
      in if survivors = 1 \<or> survivors = 0 \<and> em_pending em then []
         else if survivors > 1
         then place ''go-mutation-ambiguous'' (entry_described e @ '' matches survivors on lines '' @
                join_lines (em_survivors em) @ ''; add '' @ show_quoted ''function'' @ '' or '' @
                show_quoted ''occurrence'' @ '' to name one'')
         else if em_caught em
         then place ''go-mutation-stale'' (entry_described e @ '' is now caught by a test; remove it'')
         else place ''go-mutation-stale'' (entry_described e @ '' no longer matches a mutant; remove it''))"

definition timeout_warnings :: "string list \<Rightarrow> string list \<Rightarrow> int \<Rightarrow> string list" where
  "timeout_warnings covered timed_out limit = concat (map (\<lambda>dir.
     let n = count_list timed_out dir; c = count_list covered dir in
     if n < min_timeouts_for_warning \<or> 2 * n < c then []
     else [show_nat n @ '' of '' @ show_nat c @ '' covered mutants in '' @ dir @ '' timed out under a '' @
       show_duration limit @ '' limit; they count as caught, so check that its tests finish well within that limit''])
     (sort (remdups timed_out)))"

section \<open>The verdict\<close>

definition trusted_limit :: "mutation_run \<Rightarrow> bool" where
  "trusted_limit run = (case run_limit run of None \<Rightarrow> False | Some limit \<Rightarrow> limit \<ge> mutant_time_floor)"

definition entry_matches_all :: "mutation_run \<Rightarrow> gremlins_file list \<Rightarrow> mutation_input \<Rightarrow> entry_match list" where
  "entry_matches_all run files mi =
     map (\<lambda>e. match_entry files (mi_index mi) e (trusted_limit run)) (mi_accepted mi)"

definition survivor_accepted :: "mutation_run \<Rightarrow> gremlins_file list \<Rightarrow> mutation_input \<Rightarrow> mutant \<Rightarrow> bool" where
  "survivor_accepted run files mi = accepts (mi_accepted mi) (entry_matches_all run files mi) (mi_index mi)"

definition entry_findings :: "mutation_run \<Rightarrow> gremlins_file list \<Rightarrow> mutation_input \<Rightarrow> finding list" where
  "entry_findings run files mi = concat (map (\<lambda>(i, e, em).
     if ae_file e \<notin> set (map gf_name files) then [] else entry_finding mi i e em)
     (enumerate 0 (zip (mi_accepted mi) (entry_matches_all run files mi))))"

definition short_limit :: "mutation_run \<Rightarrow> tally \<Rightarrow> bool" where
  "short_limit run ta \<longleftrightarrow> length (ta_timed_out ta) > 0 \<and> \<not> trusted_limit run"

definition timeout_reason :: "mutation_run \<Rightarrow> tally \<Rightarrow> string" where
  "timeout_reason run ta =
     (if \<not> short_limit run ta then ''like every other covered mutant''
      else (case run_limit run of
              None \<Rightarrow> ''under a limit gremlins did not report''
            | Some limit \<Rightarrow> ''under a '' @ show_duration limit @ '' limit, shorter than the '' @
                show_duration mutant_time_floor @ '' floor''))"

text \<open>What the counted report decides.\<close>

definition decide_tally :: "mutation_run \<Rightarrow> gremlins_file list \<Rightarrow> mutation_input \<Rightarrow> tally \<Rightarrow> mutation_verdict" where
  "decide_tally run files mi ta =
     (let lived = sorted_mutants (ta_lived ta);
          accepted = filter (survivor_accepted run files mi) lived;
          others = filter (\<lambda>m. \<not> survivor_accepted run files mi m) lived;
          unchanged = filter (\<lambda>m. \<not> on_lines (mi_lines mi) m) others;
          failing = filter (on_lines (mi_lines mi)) others;
          timed_out = length (ta_timed_out ta);
          limit = (case run_limit run of None \<Rightarrow> 0 | Some l \<Rightarrow> l);
          incomplete = short_limit run ta \<or> timed_out \<ge> min_timeouts_for_incomplete \<and> ta_killed ta = 0 \<and>
            length failing + length unchanged + length accepted = 0
      in \<lparr>mv_findings = map (survivor_finding mi) failing @ entry_findings run files mi @
            (if incomplete then map (timeout_finding mi (timeout_reason run ta)) (sorted_mutants (ta_timed_out ta)) else []),
          mv_incomplete = incomplete,
          mv_summary = \<lparr>ms_killed = ta_killed ta, ms_lived = length failing, ms_unchanged = length unchanged,
            ms_accepted = length accepted, ms_not_covered = length (ta_not_covered ta), ms_timed_out = timed_out,
            ms_not_viable = ta_not_viable ta, ms_skipped = ta_skipped ta,
            ms_uncovered = sorted_mutants (ta_not_covered ta), ms_unchanged_list = sorted_mutants unchanged,
            ms_timed_out_mutants = sorted_mutants (ta_timed_out ta),
            ms_warnings = (if incomplete then [] else
              timeout_warnings (ta_covered ta) (map (\<lambda>m. dir_name (mu_file m)) (ta_timed_out ta)) limit),
            ms_files = mi_files mi\<rparr>\<rparr>)"

definition run_output :: "mutation_run \<Rightarrow> string" where
  "run_output run = trim_space (mn_stdout run @ newline @ mn_stderr run)"

definition decide_mutation :: "mutation_run \<Rightarrow> mutation_input \<Rightarrow> mutation_error + mutation_verdict" where
  "decide_mutation run mi =
     (if mn_exit_code run \<noteq> 0 \<or> contains (mn_stderr run) ''ERROR:''
      then Inl (GremlinsExited (mn_exit_code run) (run_output run))
      else if \<not> mn_reported run
      then (if contains (mn_stdout run) gremlins_no_results
            then Inr \<lparr>mv_findings = [], mv_incomplete = False, mv_summary = no_summary (mi_files mi)\<rparr>
            else Inl (NoReport (run_output run)))
      else (case mn_report run of
              None \<Rightarrow> Inl InvalidReport
            | Some files \<Rightarrow>
                bind_result (tally_report (mi_files mi) (mutated_lines mi) no_tally files)
                  (\<lambda>ta. Inr (decide_tally run files mi ta))))"

section \<open>Runs with a raised limit\<close>

text \<open>The loop of \<open>mutate\<close>: \<open>n\<close> more attempts; \<open>gremlins k c\<close> is the \<open>k\<close>th run, with coefficient \<open>c\<close>.\<close>

fun mutate_attempts :: "(nat \<Rightarrow> int \<Rightarrow> string + mutation_run) \<Rightarrow> nat \<Rightarrow> nat \<Rightarrow> int \<Rightarrow> string + mutation_run" where
  "mutate_attempts gremlins 0 k c = gremlins k c"
| "mutate_attempts gremlins (Suc n) k c =
     (case gremlins k c of
        Inl e \<Rightarrow> Inl e
      | Inr run \<Rightarrow> (case longer_coefficient run of
          None \<Rightarrow> Inr run
        | Some longer \<Rightarrow> mutate_attempts gremlins n (Suc k) longer))"

definition mutate_with ::
  "(nat \<Rightarrow> int \<Rightarrow> string + mutation_run) \<Rightarrow> mutation_input \<Rightarrow> string + (mutation_error + mutation_verdict)" where
  "mutate_with gremlins mi =
     (case mutate_attempts gremlins (gremlins_attempts - 1) 1 gremlins_timeout_coef of
        Inl e \<Rightarrow> Inl e
      | Inr run \<Rightarrow> Inr (decide_mutation run mi))"

section \<open>Exclusions\<close>

definition quote_meta :: "string \<Rightarrow> string" where
  "quote_meta s = concat (map (\<lambda>c. if c \<in> set ''.+*?()|[]{}^$'' \<or> c = CHR 0x5C then [CHR 0x5C, c] else [c]) s)"

text \<open>A pattern: every Go file directly in a directory, or the named files of one.\<close>

datatype exclusion = ExcludeDir string | ExcludeNames string "string list"

definition exclusion_prefix :: "string \<Rightarrow> string" where
  "exclusion_prefix dir = (if dir = dot then '''' else dir @ ''/'')"

definition exclusion_text :: "exclusion \<Rightarrow> string" where
  "exclusion_text x =
     (case x of
        ExcludeDir dir \<Rightarrow> ''^'' @ quote_meta (exclusion_prefix dir) @ ''[^/]+'' @ [CHR 0x5C] @ ''.go$''
      | ExcludeNames dir names \<Rightarrow> ''^'' @ quote_meta (exclusion_prefix dir) @ ''(?:'' @
          join_with ''|'' (map quote_meta names) @ '')$'')"

text \<open>What the text matches as a regular expression.\<close>

definition exclusion_hits :: "exclusion \<Rightarrow> string \<Rightarrow> bool" where
  "exclusion_hits x file =
     (case x of
        ExcludeDir dir \<Rightarrow> (case cut_prefix file (exclusion_prefix dir) of
          (rest, found) \<Rightarrow> found \<and> has_suffix rest ''.go'' \<and> length rest > 3 \<and> slash \<notin> set (take (length rest - 3) rest))
      | ExcludeNames dir names \<Rightarrow> (case cut_prefix file (exclusion_prefix dir) of
          (rest, found) \<Rightarrow> found \<and> rest \<in> set names))"

definition other_files :: "string list \<Rightarrow> string list \<Rightarrow> string \<Rightarrow> string list" where
  "other_files all selected dir =
     map base_name (filter (\<lambda>f. f \<notin> set selected \<and> dir_name f = dir) all)"

definition exclusions :: "string list \<Rightarrow> string list \<Rightarrow> exclusion list" where
  "exclusions all selected =
     (let touched = (\<lambda>dir. list_ex (\<lambda>f. f \<in> set selected \<and> dir_name f = dir) all) in
      map (\<lambda>dir. if \<not> touched dir then ExcludeDir dir else ExcludeNames dir (sort (other_files all selected dir)))
        (sort (remdups (map dir_name (filter (\<lambda>f. f \<notin> set selected) all)))))"

section \<open>Arguments\<close>

datatype selection_error = NoFiles | InvalidFile string | NotSortedUnique

definition valid_mutation_file :: "string \<Rightarrow> bool" where
  "valid_mutation_file file \<longleftrightarrow> is_local file \<and> clean file = file \<and> CHR 0x5C \<notin> set file \<and>
     has_suffix file ''.go'' \<and> \<not> has_suffix file ''_test.go''"

definition valid_mutation_files :: "string list \<Rightarrow> selection_error option" where
  "valid_mutation_files files = first_of
     [fail_when (files = []) NoFiles,
      first_error (\<lambda>f. fail_when (\<not> valid_mutation_file f) (InvalidFile f)) files,
      fail_when (\<not> sorted files \<or> \<not> distinct files) NotSortedUnique]"

definition gremlins_command :: "int \<Rightarrow> string \<Rightarrow> string list \<Rightarrow> bool \<Rightarrow> string list" where
  "gremlins_command coefficient tags patterns limited =
     [''gremlins'', ''unleash'', ''.'', ''--workers'', ''2'', ''--timeout-coefficient'', show_int coefficient,
      ''--output'', ''/report/out.json''] @
     (if limited then [''--diff'', ''levenshtein-changed-lines''] else []) @
     (if tags \<noteq> '''' then [''--tags'', tags] else []) @
     concat (map (\<lambda>p. [''-E'', p]) patterns)"

end
