(* ===== verification/Mutation_Properties.thy ===== *)
theory Mutation_Properties
  imports Mutation_Verdict
begin

text \<open>
  What a mutation verdict promises: which lines run, which survivors fail the check, how mutants are
  counted, when a run gives no verdict, and which files gremlins is kept away from.
\<close>

section \<open>Ranges\<close>

definition on_any :: "line_range list \<Rightarrow> int \<Rightarrow> bool" where
  "on_any rs line \<longleftrightarrow> (\<exists>r \<in> set rs. in_range r line)"

lemma in_range_simp [simp]: "in_range \<lparr>lr_start = a, lr_end = b\<rparr> line \<longleftrightarrow> a \<le> line \<and> line \<le> b"
  by (simp add: in_range_def)

definition separated :: "line_range list \<Rightarrow> bool" where
  "separated rs \<longleftrightarrow> sorted_wrt (\<lambda>a b. lr_end a + 1 < lr_start b) rs"

lemma on_any_simps [simp]:
  "\<not> on_any [] line" "on_any (r # rs) line \<longleftrightarrow> in_range r line \<or> on_any rs line"
  "on_any (rs @ ss) line \<longleftrightarrow> on_any rs line \<or> on_any ss line" "on_any (rev rs) line = on_any rs line"
  by (auto simp: on_any_def)

lemma on_any_list_ex: "list_ex (\<lambda>r. in_range r line) rs = on_any rs line"
  by (simp add: on_any_def list_ex_iff)

text \<open>The invariant of the merging loop: the ranges so far are separated and start before what is left.\<close>

definition merging :: "line_range list \<Rightarrow> line_range list \<Rightarrow> bool" where
  "merging ls rs \<longleftrightarrow> sorted (map lr_start rs) \<and> (\<forall>r \<in> set rs. lr_start r \<le> lr_end r) \<and> separated (rev ls) \<and>
     (case ls of [] \<Rightarrow> True | l # _ \<Rightarrow> lr_start l \<le> lr_end l \<and> (\<forall>r \<in> set rs. lr_start l \<le> lr_start r))"

lemma separated_snoc: "separated (xs @ [y]) \<longleftrightarrow> separated xs \<and> (\<forall>x \<in> set xs. lr_end x + 1 < lr_start y)"
  by (auto simp: separated_def sorted_wrt_append)

lemma merging_join:
  assumes "merging (l # ls) (r # rs)"
  shows "merging (l\<lparr>lr_end := max (lr_end l) (lr_end r)\<rparr> # ls) rs"
  using assms by (auto simp: merging_def separated_snoc split: list.splits)

lemma merging_next:
  assumes "merging (l # ls) (r # rs)" "lr_end l + 1 < lr_start r"
  shows "merging (r # l # ls) rs"
proof -
  have "lr_end x + 1 < lr_start r" if "x \<in> set ls" for x
    using assms that by (fastforce simp: merging_def separated_snoc)
  then have "separated ((rev ls @ [l]) @ [r])"
    using assms by (simp only: separated_snoc) (auto simp: merging_def separated_snoc)
  then show ?thesis using assms by (auto simp: merging_def)
qed

lemma merge_sorted_correct:
  "merging ls rs \<Longrightarrow> separated (merge_sorted ls rs) \<and> (on_any (merge_sorted ls rs) line \<longleftrightarrow> on_any ls line \<or> on_any rs line)"
proof (induction ls rs rule: merge_sorted.induct)
  case (1 merged)
  then show ?case by (simp add: merging_def)
next
  case (2 r rs)
  have "merging [r] rs" using "2.prems" by (auto simp: merging_def separated_def)
  then show ?case using "2.IH" by auto
next
  case (3 l ls r rs)
  show ?case
  proof (cases "lr_start r \<le> lr_end l + 1")
    case True
    have "in_range (l\<lparr>lr_end := max (lr_end l) (lr_end r)\<rparr>) line \<longleftrightarrow> in_range l line \<or> in_range r line"
      using "3.prems" True by (auto simp: merging_def in_range_def)
    then show ?thesis using "3.IH"(1) [OF True merging_join [OF "3.prems"]] True by auto
  next
    case False
    then have "merging (r # l # ls) rs" using merging_next "3.prems" by simp
    then show ?thesis using "3.IH"(2) [OF False] False by auto
  qed
qed

lemma merge_ranges_correct:
  assumes "\<forall>r \<in> set rs. lr_start r \<le> lr_end r"
  shows "separated (merge_ranges rs)" "on_any (merge_ranges rs) line = on_any rs line"
proof -
  have "merging [] (sort_key lr_start rs)" using assms by (simp add: merging_def separated_def)
  from merge_sorted_correct [OF this] show "separated (merge_ranges rs)"
    "on_any (merge_ranges rs) line = on_any rs line"
    by (auto simp: merge_ranges_def on_any_def)
qed

text \<open>C8. Merging ranges changes no line: when every range is a valid one, a line is in a merged range if
  and only if it was in one of the ranges, and merged ranges come in order with a gap between them.\<close>

theorem merge_ranges_keeps_lines:
  assumes "list_all (\<lambda>r. lr_start r \<le> lr_end r) rs"
  shows "(\<forall>line. list_ex (\<lambda>r. in_range r line) (merge_ranges rs) = list_ex (\<lambda>r. in_range r line) rs) \<and>
    sorted_wrt (\<lambda>a b. lr_end a + 1 < lr_start b) (merge_ranges rs)"
  using merge_ranges_correct assms by (simp add: on_any_list_ex list_all_iff separated_def)

theorem merge_ranges_keeps_lines_witness:
  "sorted_wrt (\<lambda>a b. lr_end a + 1 < lr_start b)
    (merge_ranges [\<lparr>lr_start = 7, lr_end = 9\<rparr>, \<lparr>lr_start = 1, lr_end = 3\<rparr>, \<lparr>lr_start = 4, lr_end = (4::int)\<rparr>])"
  using merge_ranges_keeps_lines [of "[\<lparr>lr_start = 7, lr_end = 9\<rparr>, \<lparr>lr_start = 1, lr_end = 3\<rparr>, \<lparr>lr_start = 4, lr_end = 4\<rparr>]"]
  by simp

section \<open>The lines that run\<close>

lemma check_accepted_None:
  "check_accepted i es = None \<Longrightarrow> e \<in> set es \<Longrightarrow> trim_space (ae_line e) \<noteq> '''' \<and> ae_occurrence e \<ge> 0"
  by (induction i es rule: check_accepted.induct) (auto split: if_splits)

lemma accepted_fields:
  "parse_accepted present = Inr es \<Longrightarrow> e \<in> set es \<Longrightarrow> trim_space (ae_line e) \<noteq> ''''"
  using check_accepted_None by (fastforce simp: parse_accepted_def split: option.splits if_splits prod.splits)

lemma names_line_bounds:
  "names_line s e file line \<Longrightarrow> trim_space (ae_line e) \<noteq> '''' \<Longrightarrow>
   ae_file e = file \<and> 1 \<le> line \<and> line \<le> int (length (lines_of (si_sources s) file))"
  by (auto simp: names_line_def source_line_def Let_def split: if_splits)

lemma on_entry_lines:
  assumes "\<forall>e \<in> set (mi_accepted mi). trim_space (ae_line e) \<noteq> ''''"
  shows "on_any (entry_lines mi file) line \<longleftrightarrow> (\<exists>e \<in> set (mi_accepted mi). names_line (mi_index mi) e file line)"
proof -
  have range: "in_range \<lparr>lr_start = n, lr_end = n\<rparr> line \<longleftrightarrow> n = line" for n by auto
  have "on_any (entry_lines mi file) line \<longleftrightarrow> (\<exists>e \<in> set (mi_accepted mi). ae_file e = file \<and> 1 \<le> line \<and>
      line \<le> int (length (lines_of (si_sources (mi_index mi)) file)) \<and> names_line (mi_index mi) e file line)"
    unfolding on_any_def entry_lines_def by (auto simp: range simp del: in_range_simp)
  then show ?thesis using assms names_line_bounds by blast
qed

lemma entry_lines_valid: "r \<in> set (entry_lines mi file) \<Longrightarrow> lr_start r \<le> lr_end r"
  by (auto simp: entry_lines_def split: if_splits)

lemma check_lines_None:
  "check_lines lines files = None \<Longrightarrow> (file, rs) \<in> set lines \<Longrightarrow> r \<in> set rs \<Longrightarrow> 1 \<le> lr_start r \<and> lr_start r \<le> lr_end r"
  by (fastforce simp: check_lines_def)

text \<open>A run limited to changed lines runs exactly the mutants of a selected file on a line the change
  wrote, or that an accepted entry names, whatever its mutator; a file the change map does not list
  runs in full.\<close>

theorem mutated_lines_exact:
  assumes "parse_accepted present = Inr (mi_accepted mi)" "mi_lines mi = Some lines"
    and "check_lines lines (mi_files mi) = None" "mu_file m \<in> set (mi_files mi)"
  shows "on_lines (mutated_lines mi) m \<longleftrightarrow>
    (case map_of lines (mu_file m) of
       Some ranges \<Rightarrow> list_ex (\<lambda>r. in_range r (mu_line m)) ranges
     | None \<Rightarrow> 1 \<le> mu_line m \<and>
         mu_line m \<le> max (int (length (lines_of (si_sources (mi_index mi)) (mu_file m)))) 1) \<or>
    list_ex (\<lambda>e. names_line (mi_index mi) e (mu_file m) (mu_line m)) (mi_accepted mi)"
proof -
  let ?file = "mu_file m" and ?line = "mu_line m"
  define base where "base = (case map_of lines ?file of Some ranges \<Rightarrow> ranges
    | None \<Rightarrow> [\<lparr>lr_start = 1, lr_end = max (int (length (lines_of (si_sources (mi_index mi)) ?file))) 1\<rparr>])"
  have valid: "\<forall>r \<in> set (base @ entry_lines mi ?file). lr_start r \<le> lr_end r"
    using check_lines_None [OF assms(3) map_of_SomeD] entry_lines_valid
    by (auto simp: base_def split: option.splits)
  have "mutated_lines mi = Some (map (\<lambda>file. (file, merge_ranges ((case map_of lines file of Some ranges \<Rightarrow> ranges
      | None \<Rightarrow> [\<lparr>lr_start = 1, lr_end = max (int (length (lines_of (si_sources (mi_index mi)) file))) 1\<rparr>]) @
      entry_lines mi file))) (mi_files mi))"
    using assms(2) by (simp add: mutated_lines_def)
  then have "on_lines (mutated_lines mi) m \<longleftrightarrow> on_any (merge_ranges (base @ entry_lines mi ?file)) ?line"
    using assms(4) by (simp add: on_lines_def map_of_map_keys map_of_map_restrict on_any_list_ex base_def)
  also have "\<dots> \<longleftrightarrow> on_any base ?line \<or> on_any (entry_lines mi ?file) ?line"
    using merge_ranges_correct(2) [OF valid] by simp
  also have "on_any (entry_lines mi ?file) ?line \<longleftrightarrow>
      list_ex (\<lambda>e. names_line (mi_index mi) e ?file ?line) (mi_accepted mi)"
    using on_entry_lines accepted_fields [OF assms(1)] by (simp add: list_ex_iff)
  finally show ?thesis
    by (cases "map_of lines ?file") (simp_all add: base_def on_any_list_ex)
qed

section \<open>What the tally counts\<close>

definition report_mutants :: "gremlins_file list \<Rightarrow> (string \<times> mutant) list" where
  "report_mutants files = concat (map (\<lambda>f. map (\<lambda>m. (gm_status m, mutant_of (gf_name f) m)) (gf_mutations f)) files)"

definition with_status :: "string \<Rightarrow> (string \<times> mutant) list \<Rightarrow> mutant list" where
  "with_status status xs = map snd (filter (\<lambda>x. fst x = status) xs)"

lemma with_status_simps [simp]:
  "with_status status [] = []"
  "with_status status (xs @ ys) = with_status status xs @ with_status status ys"
  "with_status status [(st, m)] = (if st = status then [m] else [])"
  by (simp_all add: with_status_def)

lemma in_with_status: "m \<in> set (with_status status xs) \<longleftrightarrow> (status, m) \<in> set xs"
  by (force simp: with_status_def)

definition judged_statuses :: "string list" where
  "judged_statuses = [mutation_killed, mutation_lived, mutation_not_covered, mutation_timed_out,
     mutation_not_viable, mutation_skipped]"

definition tally_is :: "changed_lines \<Rightarrow> (string \<times> mutant) list \<Rightarrow> tally \<Rightarrow> bool" where
  "tally_is run_lines xs ta \<longleftrightarrow>
     ta_killed ta = length (with_status mutation_killed xs) \<and>
     ta_not_viable ta = length (with_status mutation_not_viable xs) \<and>
     ta_skipped ta = length (with_status mutation_skipped xs) \<and>
     ta_lived ta = with_status mutation_lived xs \<and> ta_not_covered ta = with_status mutation_not_covered xs \<and>
     ta_timed_out ta = with_status mutation_timed_out xs \<and>
     (\<forall>x \<in> set xs. fst x \<in> set judged_statuses \<and> (on_lines run_lines (snd x) \<longleftrightarrow> fst x \<noteq> mutation_skipped))"

lemma tally_mutation_is:
  assumes "tally_mutation run_lines name ta m = Inr ta'" "tally_is run_lines xs ta"
  shows "tally_is run_lines (xs @ [(gm_status m, mutant_of name m)]) ta'"
proof -
  note def = tally_mutation_def tally_is_def judged_statuses_def
  have split: "on_lines run_lines (mutant_of name m) \<longleftrightarrow> gm_status m \<noteq> mutation_skipped"
    using assms(1) by (auto simp: tally_mutation_def Let_def split: if_splits)
  have "gm_status m \<in> set judged_statuses"
    using assms(1) by (auto simp: tally_mutation_def Let_def judged_statuses_def split: if_splits)
  then consider "gm_status m = mutation_killed" | "gm_status m = mutation_lived" | "gm_status m = mutation_not_covered"
    | "gm_status m = mutation_timed_out" | "gm_status m = mutation_not_viable" | "gm_status m = mutation_skipped"
    by (auto simp: judged_statuses_def)
  then show ?thesis
    by cases (use assms split in \<open>auto simp: def Let_def\<close>)
qed

lemma tally_file_is:
  "tally_file run_lines name ta ms = Inr ta' \<Longrightarrow> tally_is run_lines xs ta \<Longrightarrow>
   tally_is run_lines (xs @ map (\<lambda>m. (gm_status m, mutant_of name m)) ms) ta'"
proof (induction ms arbitrary: ta xs)
  case (Cons m ms)
  then obtain ta1 where "tally_mutation run_lines name ta m = Inr ta1" "tally_file run_lines name ta1 ms = Inr ta'"
    by (auto simp: bind_result_Inr)
  with Cons.IH tally_mutation_is [OF _ Cons.prems(2)] show ?case by fastforce
qed simp

lemma tally_report_is:
  "tally_report names run_lines ta fs = Inr ta' \<Longrightarrow> tally_is run_lines xs ta \<Longrightarrow>
   tally_is run_lines (xs @ report_mutants fs) ta' \<and> set (map gf_name fs) \<subseteq> set names"
proof (induction fs arbitrary: ta xs)
  case (Cons f fs)
  then obtain ta1 where "gf_name f \<in> set names" "tally_file run_lines (gf_name f) ta (gf_mutations f) = Inr ta1"
    "tally_report names run_lines ta1 fs = Inr ta'"
    by (auto simp: bind_result_Inr split: if_splits)
  with Cons.IH tally_file_is [OF _ Cons.prems(2)] show ?case by (fastforce simp: report_mutants_def)
qed (simp add: report_mutants_def)

text \<open>What a decided verdict comes from.\<close>

lemma decided:
  assumes "decide_mutation run mi = Inr v" "mn_reported run" "mn_report run = Some files"
  obtains ta where "v = decide_tally run files mi ta" "tally_is (mutated_lines mi) (report_mutants files) ta"
    "set (map gf_name files) \<subseteq> set (mi_files mi)"
proof -
  from assms obtain ta where ta: "tally_report (mi_files mi) (mutated_lines mi) no_tally files = Inr ta"
    "v = decide_tally run files mi ta"
    by (auto simp: decide_mutation_def bind_result_Inr split: if_splits)
  have "tally_is (mutated_lines mi) [] no_tally" by (simp add: tally_is_def no_tally_def)
  from tally_report_is [OF ta(1) this] ta(2) show ?thesis by (intro that) auto
qed

lemma set_sorted_mutants [simp]: "set (sorted_mutants ms) = set ms" "length (sorted_mutants ms) = length ms"
  by (simp_all add: sorted_mutants_def)

text \<open>Every mutant of the report is counted once: the summary's counts add up to the number of mutants
  gremlins reported, a survivor being failing, unchanged or accepted.\<close>

theorem every_mutant_is_counted:
  assumes "decide_mutation run mi = Inr v" "mn_reported run" "mn_report run = Some files"
  shows "(let s = mv_summary v in ms_killed s + ms_lived s + ms_unchanged s + ms_accepted s + ms_not_covered s +
      ms_timed_out s + ms_not_viable s + ms_skipped s) = sum_list (map (\<lambda>f. length (gf_mutations f)) files)"
proof -
  obtain ta where v: "v = decide_tally run files mi ta" and ta: "tally_is (mutated_lines mi) (report_mutants files) ta"
    using decided [OF assms] by metis
  have total: "(\<Sum>st \<leftarrow> judged_statuses. length (with_status st xs)) = length xs"
    if "\<forall>x \<in> set xs. fst x \<in> set judged_statuses" for xs
    using that by (induction xs) (auto simp: judged_statuses_def with_status_def)
  have split: "length (filter (on_lines (mi_lines mi)) (filter (\<lambda>m. \<not> P m) ms)) +
      length (filter (\<lambda>m. \<not> on_lines (mi_lines mi) m) (filter (\<lambda>m. \<not> P m) ms)) + length (filter P ms) = length ms"
    for P and ms :: "mutant list"
    by (induction ms) auto
  have "sum_list (map (\<lambda>f. length (gf_mutations f)) files) = length (report_mutants files)"
    by (simp add: report_mutants_def length_concat comp_def)
  also have "\<dots> = (\<Sum>st \<leftarrow> judged_statuses. length (with_status st (report_mutants files)))"
    using ta total [of "report_mutants files"] by (simp add: tally_is_def)
  also have "\<dots> = ta_killed ta + length (ta_lived ta) + length (ta_not_covered ta) + length (ta_timed_out ta) +
      ta_not_viable ta + ta_skipped ta"
    using ta by (simp add: judged_statuses_def tally_is_def)
  finally show ?thesis
    using split [of "survivor_accepted run files mi" "sorted_mutants (ta_lived ta)"]
    by (simp add: v decide_tally_def Let_def)
qed

section \<open>Survivors\<close>

text \<open>What an accepted survivor means: an entry matches it, and every survivor the entry matches is on its line.\<close>

definition accepted_line :: "gremlins_file list \<Rightarrow> mutation_input \<Rightarrow> mutant \<Rightarrow> bool" where
  "accepted_line files mi m \<longleftrightarrow> (\<exists>e \<in> set (mi_accepted mi). entry_matches (mi_index mi) e m \<and>
     (\<forall>m' \<in> set (with_status mutation_lived (report_mutants files)).
        entry_matches (mi_index mi) e m' \<longrightarrow> mu_line m' = mu_line m))"

lemma entry_matches_file: "entry_matches s e m \<Longrightarrow> mu_file m = ae_file e"
  by (auto simp: entry_matches_def names_line_def split: if_splits)

lemma set_em_survivors:
  "set (em_survivors (match_entry files index e trusted)) =
     mu_line ` {m \<in> set (with_status mutation_lived (report_mutants files)). entry_matches index e m}"
proof -
  have line: "mu_line (mutant_of name m) = gm_line m" "mu_file (mutant_of name m) = name" for name m
    by (simp_all add: mutant_of_def)
  have lived: "m \<in> set (with_status mutation_lived (report_mutants files)) \<longleftrightarrow>
      (\<exists>f \<in> set files. \<exists>g \<in> set (gf_mutations f). gm_status g = mutation_lived \<and> m = mutant_of (gf_name f) g)" for m
    unfolding in_with_status report_mutants_def set_concat set_map by (simp add: image_iff eq_commute [of mutation_lived])
  have entry: "g \<in> set (entry_mutations files index e) \<longleftrightarrow>
      (\<exists>f \<in> set files. g \<in> set (gf_mutations f) \<and> entry_matches index e (mutant_of (gf_name f) g))" for g
  proof -
    have "gf_name f = ae_file e" if "entry_matches index e (mutant_of (gf_name f) g)" for f
      using entry_matches_file [OF that] line(2) by simp
    then show ?thesis unfolding entry_mutations_def by (auto split: if_splits)
  qed
  have "gm_line ` {g \<in> set (entry_mutations files index e). gm_status g = mutation_lived} =
      mu_line ` {m \<in> set (with_status mutation_lived (report_mutants files)). entry_matches index e m}"
    (is "?A = ?B")
  proof
    show "?A \<subseteq> ?B"
    proof
      fix l assume "l \<in> ?A"
      then obtain f g where "f \<in> set files" "g \<in> set (gf_mutations f)" "entry_matches index e (mutant_of (gf_name f) g)"
        "gm_status g = mutation_lived" "l = mu_line (mutant_of (gf_name f) g)"
        using entry line(1) by auto
      then show "l \<in> ?B" using lived by blast
    qed
    show "?B \<subseteq> ?A"
    proof
      fix l assume "l \<in> ?B"
      then obtain f g where "f \<in> set files" "g \<in> set (gf_mutations f)" "entry_matches index e (mutant_of (gf_name f) g)"
        "gm_status g = mutation_lived" "l = gm_line g"
        using lived line(1) by auto
      then show "l \<in> ?A" using entry by blast
    qed
  qed
  then show ?thesis by (simp add: match_entry_def Let_def)
qed

lemma one_survivor:
  "length (em_survivors (match_entry files index e trusted)) = 1 \<longleftrightarrow>
     (\<exists>l. set (em_survivors (match_entry files index e trusted)) = {l})"
proof -
  have "distinct (em_survivors (match_entry files index e trusted))" by (simp add: match_entry_def Let_def)
  then have "length (em_survivors (match_entry files index e trusted)) =
      card (set (em_survivors (match_entry files index e trusted)))"
    by (simp add: distinct_card)
  then show ?thesis by (simp add: card_1_singleton_iff)
qed

lemma survivor_accepted_iff:
  assumes "m \<in> set (with_status mutation_lived (report_mutants files))"
  shows "survivor_accepted run files mi m \<longleftrightarrow> accepted_line files mi m"
proof -
  let ?lived = "set (with_status mutation_lived (report_mutants files))"
  have single: "x \<in> A \<Longrightarrow> (\<exists>l. mu_line ` A = {l}) \<longleftrightarrow> (\<forall>y \<in> A. mu_line y = mu_line x)" for A and x :: mutant
    by (metis (no_types, lifting) image_eqI image_constant_conv image_cong singleton_iff empty_iff)
  have one: "length (em_survivors (match_entry files (mi_index mi) e t)) = 1 \<longleftrightarrow>
      (\<forall>m' \<in> ?lived. entry_matches (mi_index mi) e m' \<longrightarrow> mu_line m' = mu_line m)"
    if "entry_matches (mi_index mi) e m" for e t
    unfolding one_survivor set_em_survivors
    using single [of m "{m \<in> ?lived. entry_matches (mi_index mi) e m}"] that assms by (simp add: Ball_def imp_conjL)
  have "survivor_accepted run files mi m \<longleftrightarrow> (\<exists>e \<in> set (mi_accepted mi).
      length (em_survivors (match_entry files (mi_index mi) e (trusted_limit run))) = 1 \<and> entry_matches (mi_index mi) e m)"
    by (simp add: survivor_accepted_def accepts_def entry_matches_all_def list_ex_iff zip_map2 zip_same_conv_map)
  also have "\<dots> \<longleftrightarrow> accepted_line files mi m"
    unfolding accepted_line_def using one by (intro bex_cong) blast+
  finally show ?thesis .
qed

lemma filter_sorted_mutants: "filter P (sorted_mutants ms) = sorted_mutants (filter P ms)"
  by (simp add: sorted_mutants_def filter_sort)

lemma other_codes:
  "fd_code (survivor_finding mi m) = ''go-mutation''" "fd_code (timeout_finding mi r m) = ''go-mutation-timeout''"
  "f \<in> set (entry_findings run files mi) \<Longrightarrow> fd_code f \<noteq> ''go-mutation''"
  by (auto simp: survivor_finding_def timeout_finding_def mutation_finding_def entry_findings_def entry_finding_def
      Let_def split: if_splits)

text \<open>C4. The survivors that fail a check are exactly the mutants that lived on a line the change wrote and
  that no accepted entry covers, each reported once, in order of position. An entry covers a survivor
  only when all the survivors it matches are on that one line.\<close>

theorem survivors_reported_exactly:
  assumes "decide_mutation run mi = Inr v" "mn_reported run" "mn_report run = Some files"
  shows "filter (\<lambda>f. fd_code f = ''go-mutation'') (mv_findings v) =
    map (survivor_finding mi) (sorted_mutants
      (filter (\<lambda>m. on_lines (mi_lines mi) m \<and> \<not> accepted_line files mi m) (with_status mutation_lived (report_mutants files))))"
proof -
  obtain ta where v: "v = decide_tally run files mi ta" and ta: "tally_is (mutated_lines mi) (report_mutants files) ta"
    using decided [OF assms] by metis
  let ?lived = "with_status mutation_lived (report_mutants files)"
  have lived: "ta_lived ta = ?lived" using ta by (simp add: tally_is_def)
  have "filter (on_lines (mi_lines mi)) (filter (\<lambda>m. \<not> survivor_accepted run files mi m) (sorted_mutants ?lived)) =
      sorted_mutants (filter (\<lambda>m. on_lines (mi_lines mi) m \<and> \<not> accepted_line files mi m) ?lived)"
  proof -
    have "filter (\<lambda>m. \<not> survivor_accepted run files mi m \<and> on_lines (mi_lines mi) m) ?lived =
        filter (\<lambda>m. on_lines (mi_lines mi) m \<and> \<not> accepted_line files mi m) ?lived"
      using survivor_accepted_iff [of _ files run mi] by (intro filter_cong) auto
    then show ?thesis by (simp add: filter_sorted_mutants)
  qed
  moreover have none: "filter (\<lambda>f. fd_code f = ''go-mutation'') (entry_findings run files mi) = []"
    using other_codes(3) by (auto simp: filter_empty_conv)
  moreover have "filter (\<lambda>f. fd_code f = ''go-mutation'') (map (timeout_finding mi r) ms) = []" for r ms
    by (simp add: filter_empty_conv other_codes(2))
  moreover have "filter (\<lambda>f. fd_code f = ''go-mutation'') (map (survivor_finding mi) ms) = map (survivor_finding mi) ms" for ms
    by (simp add: filter_map comp_def other_codes(1))
  ultimately show ?thesis by (simp add: v decide_tally_def Let_def lived)
qed

text \<open>A run gives no verdict exactly when a mutant timed out under a limit too short, or not known, or when
  at least three timed out and no covered mutant was killed or survived; and then each mutant that timed
  out is a finding, so such a run never passes.\<close>

theorem incomplete_exactly:
  assumes "decide_mutation run mi = Inr v" "mn_reported run" "mn_report run = Some files"
  shows "(mv_incomplete v \<longleftrightarrow>
      with_status mutation_timed_out (report_mutants files) \<noteq> [] \<and>
        (case run_limit run of None \<Rightarrow> True | Some l \<Rightarrow> l < mutant_time_floor) \<or>
      length (with_status mutation_timed_out (report_mutants files)) \<ge> 3 \<and>
        with_status mutation_killed (report_mutants files) = [] \<and> with_status mutation_lived (report_mutants files) = []) \<and>
    (mv_incomplete v \<longrightarrow> (\<forall>m \<in> set (with_status mutation_timed_out (report_mutants files)).
      \<exists>f \<in> set (mv_findings v). fd_code f = ''go-mutation-timeout'' \<and> loc_line (fd_location f) = mu_line m \<and>
        loc_file (fd_location f) = path_join [mi_module mi, mu_file m]) \<and> mv_findings v \<noteq> [])"
proof -
  obtain ta where v: "v = decide_tally run files mi ta" and ta: "tally_is (mutated_lines mi) (report_mutants files) ta"
    using decided [OF assms] by metis
  let ?of = "\<lambda>st. with_status st (report_mutants files)"
  have counts: "ta_killed ta = length (?of mutation_killed)" "ta_lived ta = ?of mutation_lived"
    "ta_timed_out ta = ?of mutation_timed_out"
    using ta by (simp_all add: tally_is_def)
  have none: "(filter (\<lambda>m. \<not> P m \<and> Q m) ms = [] \<and> filter (\<lambda>m. \<not> P m \<and> \<not> Q m) ms = [] \<and> filter P ms = []) =
      (ms = [])" for P Q and ms :: "mutant list"
    by (induction ms) auto
  have sorted_none: "sorted_mutants ms = [] \<longleftrightarrow> ms = []" for ms using set_sorted_mutants(1) [of ms] by (metis set_empty)
  have trusted: "\<not> trusted_limit run \<longleftrightarrow> (case run_limit run of None \<Rightarrow> True | Some l \<Rightarrow> l < mutant_time_floor)"
    by (auto simp: trusted_limit_def split: option.splits)
  have "mv_incomplete v \<longleftrightarrow> (?of mutation_timed_out \<noteq> [] \<and> \<not> trusted_limit run) \<or>
      (length (?of mutation_timed_out) \<ge> 3 \<and> length (?of mutation_killed) = 0 \<and> length (?of mutation_lived) = 0)"
    by (simp add: v decide_tally_def Let_def counts min_timeouts_for_incomplete_def short_limit_def none sorted_none)
  then have incomplete: "mv_incomplete v \<longleftrightarrow> (?of mutation_timed_out \<noteq> [] \<and>
        (case run_limit run of None \<Rightarrow> True | Some l \<Rightarrow> l < mutant_time_floor)) \<or>
      (length (?of mutation_timed_out) \<ge> 3 \<and> ?of mutation_killed = [] \<and> ?of mutation_lived = [])"
    unfolding trusted by simp
  have found: "\<exists>f \<in> set (mv_findings v). fd_code f = ''go-mutation-timeout'' \<and> loc_line (fd_location f) = mu_line m \<and>
        loc_file (fd_location f) = path_join [mi_module mi, mu_file m]"
    if "mv_incomplete v" "m \<in> set (?of mutation_timed_out)" for m
  proof -
    let ?f = "timeout_finding mi (timeout_reason run ta) m"
    have "?f \<in> set (mv_findings v)" using that by (auto simp: v decide_tally_def Let_def counts)
    then show ?thesis by (intro bexI [of _ ?f])
        (simp_all add: timeout_finding_def mutation_finding_def)
  qed
  have "?of mutation_timed_out \<noteq> []" if "mv_incomplete v" using that incomplete by auto
  then have "mv_findings v \<noteq> []" if "mv_incomplete v"
    using found [OF that] that by (metis empty_iff list.set(1) list.set_sel(1))
  with incomplete found show ?thesis by blast
qed

section \<open>Raising the limit\<close>

text \<open>A run is repeated with the least coefficient whose limit reaches twice the floor, for a coverage
  time of at least a millisecond; so when the coverage run took that long, the new coefficient is larger
  than the old one and its limit can be trusted if the coverage time stays the same.\<close>

theorem longer_coefficient_suffices:
  assumes "longer_coefficient run = Some c"
  shows "\<exists>elapsed. coverage_time (mn_stdout run) = Some elapsed \<and>
    2 * mutant_time_floor \<le> c * max elapsed millisecond_ns \<and> (c - 1) * max elapsed millisecond_ns < 2 * mutant_time_floor \<and>
    (millisecond_ns \<le> elapsed \<and> 1 \<le> mn_coefficient run \<longrightarrow>
       mn_coefficient run < c \<and> mutant_time_floor \<le> elapsed * c)"
proof -
  from assms obtain elapsed where elapsed: "coverage_time (mn_stdout run) = Some elapsed"
    and limit: "(case run_limit run of None \<Rightarrow> 0 | Some l \<Rightarrow> l) < mutant_time_floor"
    and c: "c = (2 * mutant_time_floor + max elapsed millisecond_ns - 1) div max elapsed millisecond_ns"
    by (auto simp: longer_coefficient_def Let_def split: if_splits option.splits)
  define e where "e = max elapsed millisecond_ns"
  have e: "e > 0" by (simp add: e_def millisecond_ns_def)
  have eq: "c * e + (2 * mutant_time_floor + e - 1) mod e = 2 * mutant_time_floor + e - 1"
    using c by (simp add: e_def mult.commute)
  have "0 \<le> (2 * mutant_time_floor + e - 1) mod e" "(2 * mutant_time_floor + e - 1) mod e < e"
    using e by simp_all
  then have low: "2 * mutant_time_floor \<le> c * e" and high: "(c - 1) * e < 2 * mutant_time_floor"
    using eq by (simp_all add: algebra_simps)
  have "mn_coefficient run < c \<and> mutant_time_floor \<le> elapsed * c" if "millisecond_ns \<le> elapsed" "1 \<le> mn_coefficient run"
  proof -
    have same: "e = elapsed" using that(1) by (simp add: e_def)
    have "elapsed * mn_coefficient run < mutant_time_floor"
      using limit that(2) elapsed by (simp add: run_limit_def)
    moreover have "0 < mutant_time_floor" by (simp add: mutant_time_floor_def second_ns_def)
    ultimately have "e * mn_coefficient run < e * c" "mutant_time_floor \<le> elapsed * c"
      using low same by (simp_all add: mult.commute)
    then show ?thesis using e by simp
  qed
  with elapsed low high show ?thesis by (auto simp: e_def)
qed

section \<open>Files outside the selection\<close>

lemma clean_parts_trailing:
  "\<forall>q \<in> set ps. ordinary_part q \<Longrightarrow> clean_parts r acc (ps @ [[]]) = rev acc @ ps"
  by (induction ps arbitrary: acc) (auto simp: ordinary_part_def)

lemma take_last_element:
  "slash \<notin> set x \<Longrightarrow> takeWhile (\<lambda>c. c \<noteq> slash) (rev x @ slash # r) = rev x"
  "slash \<notin> set x \<Longrightarrow> takeWhile (\<lambda>c. c \<noteq> slash) (rev x) = rev x"
  by (subst takeWhile_append2; auto) (subst takeWhile_eq_all_conv; auto)

text \<open>A clean path is its directory and its last element.\<close>

lemma path_split:
  assumes "relative f" "f \<noteq> dot"
  shows "f = exclusion_prefix (dir_name f) @ base_name f" "slash \<notin> set (base_name f)"
proof -
  define ps where "ps = butlast (parts f)"
  define b where "b = last (parts f)"
  have parts: "parts f = ps @ [b]" by (simp add: ps_def b_def)
  have ord: "\<forall>q \<in> set (parts f). ordinary_part q" by (intro ballI relative_parts [OF assms])
  have plain: "slash \<notin> set q" if "q \<in> set (parts f)" for q using split_at_parts_no_sep [OF that] .
  have b: "slash \<notin> set b" using plain parts by simp
  have f: "f \<noteq> []"
  proof
    assume "f = []"
    then have "parts f = [[]]" by simp
    then show False using ord by (simp add: ordinary_part_def)
  qed
  have filt: "filter (\<lambda>q. q \<noteq> []) (parts f) = ps @ [b]"
    using ord parts by (auto simp: ordinary_part_def filter_id_conv)
  have base: "base_name f = b"
    unfolding base_name_def filt using f by (cases ps) simp_all
  show "slash \<notin> set (base_name f)" using b base by simp
  show "f = exclusion_prefix (dir_name f) @ base_name f"
  proof (cases "ps = []")
    case True
    then have "f = b" using parts join_split_at [of slash f] by simp
    then have "last_index slash f = None" using b by (simp add: last_index_def)
    then have "dir_name f = dot" by (simp add: dir_name_def clean_def is_abs_def)
    then show ?thesis using base \<open>f = b\<close> by (simp add: exclusion_prefix_def)
  next
    case False
    have join: "f = unparts ps @ ''/'' @ b"
      using join_split_at [of slash f] join_with_append [of ps "[b]" "''/''"] False parts by simp
    have "takeWhile (\<lambda>x. x \<noteq> slash) (rev f) = rev b"
      unfolding join using b by (simp add: take_last_element)
    then have "last_index slash f = Some (length (unparts ps))"
      unfolding last_index_def using join by simp
    then have dir: "dir_name f = clean (unparts ps @ ''/'')" using join by (simp add: dir_name_def)
    have ps: "parts (unparts ps @ ''/'') = ps @ [[]]"
      using split_at_append [of slash "unparts ps" "[]"] split_join [of ps slash] False plain parts by simp
    have ord_ps: "\<forall>q \<in> set ps. ordinary_part q" using ord parts by simp
    have "hd (parts (unparts ps @ ''/'')) \<noteq> []"
      using ps False ord_ps by (cases ps) (auto simp: ordinary_part_def)
    then have "\<not> is_abs (unparts ps @ ''/'')" using is_abs_parts [of "unparts ps @ ''/''"] by simp
    then have "dir_name f = unparts ps"
      using dir ps clean_parts_trailing [OF ord_ps, of False "[]"] False by (simp add: clean_def split: list.split)
    moreover have "unparts ps \<noteq> dot"
    proof
      assume dot: "unparts ps = dot"
      have "parts (unparts ps) = ps" using split_join [of ps slash] False plain parts by simp
      then have "ps = [dot]" using dot by simp
      then show False using ord_ps by (simp add: ordinary_part_def)
    qed
    ultimately show ?thesis using join base by (simp add: exclusion_prefix_def)
  qed
qed

lemma prefix_unique:
  assumes "exclusion_prefix d @ x = exclusion_prefix d' @ y" "slash \<notin> set x" "slash \<notin> set y"
  shows "d = d' \<and> x = y"
proof -
  have cut: "takeWhile (\<lambda>c. c \<noteq> slash) (rev (exclusion_prefix d @ x)) = rev x" if "slash \<notin> set x" for d x
    using that by (simp add: exclusion_prefix_def take_last_element)
  then have "rev x = rev y" using assms by metis
  then have "x = y" by simp
  then have "exclusion_prefix d = exclusion_prefix d'" using assms(1) by simp
  then have "d = d'" by (auto simp: exclusion_prefix_def split: if_splits)
  with \<open>x = y\<close> show ?thesis by blast
qed

lemma suffix_no_slash: "has_suffix rest ''.go'' \<Longrightarrow> slash \<notin> set (take (length rest - 3) rest) \<Longrightarrow> slash \<notin> set rest"
  by (auto simp: suffix_def)

lemma exclude_dir_hits:
  assumes "relative f" "f \<noteq> dot" "has_suffix f ''.go''" "length (base_name f) > 3"
  shows "exclusion_hits (ExcludeDir d) f \<longleftrightarrow> dir_name f = d"
proof -
  note split = path_split [OF assms(1,2)]
  have go: "has_suffix (base_name f) ''.go''"
    using assms(3,4) split(1) by (metis less_imp_le length_Cons list.size(3) numeral_3_eq_3 suffix_length_suffix suffixI)
  show ?thesis
  proof
    assume "exclusion_hits (ExcludeDir d) f"
    then obtain rest where rest: "f = exclusion_prefix d @ rest" "slash \<notin> set rest"
      using suffix_no_slash by (auto simp: exclusion_hits_def cut_prefix_True split: prod.splits)
    then show "dir_name f = d" using prefix_unique split by metis
  next
    assume "dir_name f = d"
    then have "cut_prefix f (exclusion_prefix d) = (base_name f, True)" using split(1) cut_prefix_True by metis
    then show "exclusion_hits (ExcludeDir d) f" using go split(2) assms(4) by (auto simp: exclusion_hits_def dest: in_set_takeD)
  qed
qed

lemma exclude_names_hits:
  assumes "relative f" "f \<noteq> dot" "\<forall>n \<in> set names. slash \<notin> set n"
  shows "exclusion_hits (ExcludeNames d names) f \<longleftrightarrow> dir_name f = d \<and> base_name f \<in> set names"
proof -
  note split = path_split [OF assms(1,2)]
  show ?thesis
  proof
    assume "exclusion_hits (ExcludeNames d names) f"
    then obtain rest where rest: "f = exclusion_prefix d @ rest" "rest \<in> set names"
      by (auto simp: exclusion_hits_def cut_prefix_True split: prod.splits)
    then have "d = dir_name f \<and> rest = base_name f" using prefix_unique split assms(3) by metis
    then show "dir_name f = d \<and> base_name f \<in> set names" using rest by auto
  next
    assume "dir_name f = d \<and> base_name f \<in> set names"
    then have "cut_prefix f (exclusion_prefix d) = (base_name f, True)" "base_name f \<in> set names"
      using split(1) cut_prefix_True by metis+
    then show "exclusion_hits (ExcludeNames d names) f" by (simp add: exclusion_hits_def)
  qed
qed

text \<open>The exclusions keep gremlins to the selection: of the module's Go files, which have clean names of
  more than an extension, the patterns match exactly those that were not selected.\<close>

theorem exclusions_exact:
  assumes "list_all (\<lambda>f. relative f \<and> has_suffix f ''.go'' \<and> length (base_name f) > 3) all"
    and "set selected \<subseteq> set all" "f \<in> set all"
  shows "list_ex (\<lambda>x. exclusion_hits x f) (exclusions all selected) \<longleftrightarrow> f \<notin> set selected"
proof -
  have ok: "relative g" "g \<noteq> dot" "has_suffix g ''.go''" "length (base_name g) > 3" if "g \<in> set all" for g
  proof -
    have "\<not> has_suffix dot ''.go''" by code_simp
    then show "g \<noteq> dot" "relative g" "has_suffix g ''.go''" "length (base_name g) > 3"
      using assms(1) that by (auto simp: list_all_iff)
  qed
  have names: "\<forall>n \<in> set (other_files all selected d). slash \<notin> set n" for d
    using path_split(2) ok by (auto simp: other_files_def)
  let ?touched = "\<lambda>d. list_ex (\<lambda>g. g \<in> set selected \<and> dir_name g = d) all"
  have hits: "exclusion_hits (if \<not> ?touched d then ExcludeDir d else ExcludeNames d (sort (other_files all selected d))) f \<longleftrightarrow>
      dir_name f = d \<and> (?touched d \<longrightarrow> base_name f \<in> set (other_files all selected d))" for d
    using exclude_dir_hits [OF ok [OF assms(3)]] exclude_names_hits [OF ok(1,2) [OF assms(3)]] names by simp
  have "list_ex (\<lambda>x. exclusion_hits x f) (exclusions all selected) \<longleftrightarrow>
      dir_name f \<in> dir_name ` {g \<in> set all. g \<notin> set selected} \<and>
      (?touched (dir_name f) \<longrightarrow> base_name f \<in> set (other_files all selected (dir_name f)))"
  proof -
    define g where "g = (\<lambda>d. if \<not> ?touched d then ExcludeDir d else ExcludeNames d (sort (other_files all selected d)))"
    define ds where "ds = sort (remdups (map dir_name (filter (\<lambda>h. h \<notin> set selected) all)))"
    have "exclusions all selected = map g ds" by (simp add: exclusions_def g_def ds_def Let_def)
    then have "list_ex (\<lambda>x. exclusion_hits x f) (exclusions all selected) \<longleftrightarrow> (\<exists>d \<in> set ds. exclusion_hits (g d) f)"
      by (simp add: list_ex_iff)
    also have "\<dots> \<longleftrightarrow> (\<exists>d \<in> set ds. dir_name f = d \<and> (?touched d \<longrightarrow> base_name f \<in> set (other_files all selected d)))"
      unfolding g_def hits by (rule refl)
    also have "\<dots> \<longleftrightarrow> dir_name f \<in> set ds \<and> (?touched (dir_name f) \<longrightarrow> base_name f \<in> set (other_files all selected (dir_name f)))"
      by metis
    finally show ?thesis by (simp add: ds_def)
  qed
  also have "\<dots> \<longleftrightarrow> f \<notin> set selected"
  proof
    assume h: "dir_name f \<in> dir_name ` {g \<in> set all. g \<notin> set selected} \<and>
      (?touched (dir_name f) \<longrightarrow> base_name f \<in> set (other_files all selected (dir_name f)))"
    show "f \<notin> set selected"
    proof
      assume "f \<in> set selected"
      then have "?touched (dir_name f)" using assms(3) by (auto simp: list_ex_iff)
      with h obtain g where "g \<in> set all" "g \<notin> set selected" "dir_name g = dir_name f" "base_name g = base_name f"
        by (auto simp: other_files_def)
      then have "g = f" using path_split(1) ok assms(3) by metis
      with \<open>f \<in> set selected\<close> \<open>g \<notin> set selected\<close> show False by simp
    qed
  qed (use assms(3) in \<open>auto simp: other_files_def\<close>)
  finally show ?thesis .
qed

section \<open>An example run\<close>

text \<open>A file whose second line a change wrote, with an accepted survivor on its third line.\<close>

definition sample_accepted :: "accepted_entry list" where
  "sample_accepted = [\<lparr>ae_file = ''a.go'', ae_mutator = ''M'', ae_line = ''y'', ae_function = '''', ae_occurrence = 0,
     ae_reason = ''equal''\<rparr>]"

definition sample_input :: mutation_input where
  "sample_input = \<lparr>mi_module = ''m'', mi_files = [''a.go''],
     mi_lines = Some [(''a.go'', [\<lparr>lr_start = 2, lr_end = 2\<rparr>])],
     mi_index = \<lparr>si_sources = [(''a.go'', [''package a'', ''x'', ''y'', ''z''])], si_functions = []\<rparr>,
     mi_accepted = sample_accepted, mi_accepted_path = ''accepted.json'', mi_accepted_text = ''''\<rparr>"

definition sample_report :: "gremlins_file list" where
  "sample_report = [\<lparr>gf_name = ''a.go'', gf_mutations =
     [\<lparr>gm_type = ''M'', gm_status = ''LIVED'', gm_line = 2, gm_column = 1\<rparr>,
      \<lparr>gm_type = ''M'', gm_status = ''LIVED'', gm_line = 3, gm_column = 1\<rparr>,
      \<lparr>gm_type = ''N'', gm_status = ''TIMED OUT'', gm_line = 2, gm_column = 2\<rparr>,
      \<lparr>gm_type = ''M'', gm_status = ''SKIPPED'', gm_line = 4, gm_column = 1\<rparr>]\<rparr>]"

definition sample_run :: "string \<Rightarrow> mutation_run" where
  "sample_run stdout = \<lparr>mn_exit_code = 0, mn_stdout = stdout, mn_stderr = '''',
     mn_report = Some sample_report, mn_reported = True, mn_coefficient = 10\<rparr>"

definition sample_stdout :: string where
  "sample_stdout = ''Gathering coverage... done in 20ms''"

definition sample_verdict :: mutation_verdict where
  "sample_verdict = (case decide_mutation (sample_run '''') sample_input of Inr v \<Rightarrow> v)"

lemma sample_decided: "decide_mutation (sample_run '''') sample_input = Inr sample_verdict"
  by code_simp

lemma sample_reported: "mn_reported (sample_run s)" "mn_report (sample_run s) = Some sample_report"
  by (simp_all add: sample_run_def)

lemma sample_coverage_time: "coverage_time sample_stdout = Some 20000000"
proof -
  have "find_coverage sample_stdout = Some ''20ms''" by code_simp
  moreover have "duration_term ''20ms'' = Some (20000000, [])"
    by (simp add: duration_term_def optional_fraction_def number_char_def unit_ns_def int64_half_def digit_value_def is_digit_def Let_def)
  then have "duration_terms 0 ''20ms'' = Some 20000000" by (simp add: duration_terms.simps int64_half_def)
  then have "parse_duration ''20ms'' = Some 20000000" by (simp add: parse_duration_def int64_half_def)
  ultimately show ?thesis by (simp add: coverage_time_def)
qed

lemma sample_longer: "longer_coefficient (sample_run sample_stdout) = Some 1000"
proof -
  have "timed_out_any sample_report" by code_simp
  then show ?thesis
    by (simp add: longer_coefficient_def run_limit_def sample_run_def sample_coverage_time mutant_time_floor_def second_ns_def millisecond_ns_def)
qed

theorem mutated_lines_exact_witness:
  "on_lines (mutated_lines sample_input) \<lparr>mu_file = ''a.go'', mu_line = 3, mu_column = 1, mu_mutator = ''M''\<rparr>"
proof -
  let ?m = "\<lparr>mu_file = ''a.go'', mu_line = 3, mu_column = 1, mu_mutator = ''M''\<rparr>"
  have parse: "parse_accepted (Some (1, sample_accepted)) = Inr (mi_accepted sample_input)" by code_simp
  have lines: "mi_lines sample_input = Some [(''a.go'', [\<lparr>lr_start = 2, lr_end = 2\<rparr>])]" by code_simp
  have check: "check_lines [(''a.go'', [\<lparr>lr_start = 2, lr_end = 2\<rparr>])] (mi_files sample_input) = None" by code_simp
  have member: "mu_file ?m \<in> set (mi_files sample_input)" by code_simp
  have "list_ex (\<lambda>e. names_line (mi_index sample_input) e (mu_file ?m) (mu_line ?m)) (mi_accepted sample_input)" by code_simp
  then show ?thesis using mutated_lines_exact [OF parse lines check member] by simp
qed

theorem every_mutant_is_counted_witness:
  "ms_lived (mv_summary sample_verdict) = 1 \<and> ms_accepted (mv_summary sample_verdict) = 1 \<and>
   ms_killed (mv_summary sample_verdict) + ms_unchanged (mv_summary sample_verdict) + ms_not_covered (mv_summary sample_verdict) +
     ms_timed_out (mv_summary sample_verdict) + ms_not_viable (mv_summary sample_verdict) + ms_skipped (mv_summary sample_verdict) = 2"
proof -
  have "ms_lived (mv_summary sample_verdict) = 1" "ms_accepted (mv_summary sample_verdict) = 1" by code_simp+
  moreover have "sum_list (map (\<lambda>f. length (gf_mutations f)) sample_report) = 4" by code_simp
  ultimately show ?thesis using every_mutant_is_counted [OF sample_decided sample_reported] by (simp add: Let_def)
qed

theorem survivors_reported_exactly_witness:
  "filter (\<lambda>f. fd_code f = ''go-mutation'') (mv_findings sample_verdict) =
     [survivor_finding sample_input \<lparr>mu_file = ''a.go'', mu_line = 2, mu_column = 1, mu_mutator = ''M''\<rparr>]"
proof -
  have "sorted_mutants (filter (\<lambda>m. on_lines (mi_lines sample_input) m \<and> \<not> accepted_line sample_report sample_input m)
      (with_status mutation_lived (report_mutants sample_report))) =
    [\<lparr>mu_file = ''a.go'', mu_line = 2, mu_column = 1, mu_mutator = ''M''\<rparr>]" by code_simp
  then show ?thesis using survivors_reported_exactly [OF sample_decided sample_reported] by simp
qed

theorem incomplete_exactly_witness:
  "mv_incomplete sample_verdict \<and> mv_findings sample_verdict \<noteq> []"
proof -
  have "with_status mutation_timed_out (report_mutants sample_report) \<noteq> []" by code_simp
  moreover have "run_limit (sample_run '''') = None" by code_simp
  ultimately show ?thesis using incomplete_exactly [OF sample_decided sample_reported] by simp
qed

theorem longer_coefficient_suffices_witness:
  "2 * mutant_time_floor \<le> 1000 * max 20000000 millisecond_ns"
  using longer_coefficient_suffices [OF sample_longer] by (simp add: sample_run_def sample_coverage_time)

theorem exclusions_exact_witness:
  "list_ex (\<lambda>x. exclusion_hits x ''a/y.go'') (exclusions [''a/x.go'', ''a/y.go'', ''b.go''] [''a/x.go''])"
proof -
  have "list_all (\<lambda>f. relative f \<and> has_suffix f ''.go'' \<and> length (base_name f) > 3) [''a/x.go'', ''a/y.go'', ''b.go'']" by code_simp
  from exclusions_exact [OF this, of "[''a/x.go'']" "''a/y.go''"] show ?thesis by simp
qed
end
