(* ===== verification/Check_Tools.thy ===== *)
theory Check_Tools
  imports Report Go_Format Go_Regexp
begin

text \<open>
  What the shared checks make of a tool's run: \<open>internal/checktool\<close>. A run is its exit code and what it
  printed; decoding JSON is an argument of each reader, which gives the decoded value. Findings have
  the shape of a report's, without hint or baseline mark.
\<close>

section \<open>finding.go\<close>

record tool_run =
  tr_exit :: int
  tr_stdout :: string
  tr_stderr :: string

datatype tool_kind =
    KindGoVet | KindGoMod | KindGoTest | KindGoVuln | KindGoImports | KindGoGenerate | KindGoApidiff
  | KindWorkflowLint | KindWorkflowSecurity | KindDepsVuln

fun tool_kind_text :: "tool_kind \<Rightarrow> string" where
  "tool_kind_text KindGoVet = ''go-vet''"
| "tool_kind_text KindGoMod = ''go-mod''"
| "tool_kind_text KindGoTest = ''go-test''"
| "tool_kind_text KindGoVuln = ''go-vuln''"
| "tool_kind_text KindGoImports = ''go-imports''"
| "tool_kind_text KindGoGenerate = ''go-generate''"
| "tool_kind_text KindGoApidiff = ''go-apidiff''"
| "tool_kind_text KindWorkflowLint = ''workflow-lint''"
| "tool_kind_text KindWorkflowSecurity = ''workflow-security''"
| "tool_kind_text KindDepsVuln = ''deps-vuln''"

text \<open>The first argument of an error is the tool it is about, the last one what the tool printed.\<close>

datatype tool_error =
    ToolExited string int string
  | UnreadableReport string int string
  | TrailingData string string
  | NoFindingsArray string string
  | ContradictsExit string int nat string
  | UnexpectedFinding string string
  | NotClean string string
  | NothingToScan string
  | CouldNotBuild "string list" string
  | NoTestPassed string string

definition tool_output :: "tool_run \<Rightarrow> string" where
  "tool_output run = trim_space (tr_stdout run @ newline @ tr_stderr run)"

definition tool_finding :: "string \<Rightarrow> string \<Rightarrow> location \<Rightarrow> finding" where
  "tool_finding code message loc =
     \<lparr>fd_code = code, fd_message = message, fd_location = loc, fd_source = '''', fd_url = '''', fd_advisory = False,
      fd_hint = '''', fd_baselined = False\<rparr>"

definition whole :: "tool_kind \<Rightarrow> string \<Rightarrow> string \<Rightarrow> finding list" where
  "whole kind module message =
     [tool_finding (tool_kind_text kind) message \<lparr>loc_file = module, loc_line = 1, loc_column = 0\<rparr>]"

definition tool_exit :: "tool_kind \<Rightarrow> string \<Rightarrow> tool_run \<Rightarrow> tool_error + finding list" where
  "tool_exit kind module run =
     (if tr_exit run = 0 then Inr []
      else
        let message = tool_output run; failure = (if kind = KindGoVuln then 3 else 1) in
        if tr_exit run \<noteq> failure \<or> message = ''''
        then Inl (ToolExited (tool_kind_text kind) (tr_exit run) message)
        else Inr (whole kind module message))"

text \<open>\<open>filepath.Rel\<close> on Unix: the elements of the clean paths after their common start.\<close>

definition path_elements :: "string \<Rightarrow> string list" where
  "path_elements p =
     (if p = ''/'' then [] else if is_abs p then tl (parts p) else if p = dot then [] else parts p)"

fun drop_common :: "'a list \<Rightarrow> 'a list \<Rightarrow> 'a list \<times> 'a list" where
  "drop_common (x # xs) (y # ys) = (if x = y then drop_common xs ys else (x # xs, y # ys))"
| "drop_common xs ys = (xs, ys)"

definition filepath_rel :: "string \<Rightarrow> string \<Rightarrow> string option" where
  "filepath_rel root target =
     (let b = clean root; t = clean target; (bs, ts) = drop_common (path_elements b) (path_elements t) in
      if t = b then Some dot
      else if is_abs b \<noteq> is_abs t then None
      else if bs \<noteq> [] \<and> hd bs = dotdot then None
      else Some (unparts (replicate (length bs) dotdot @ ts)))"

definition tool_relative :: "string \<Rightarrow> string \<Rightarrow> string" where
  "tool_relative root file =
     (if root = '''' \<or> \<not> is_abs file then file
      else (case filepath_rel root file of
              None \<Rightarrow> file
            | Some rel \<Rightarrow> if \<not> is_local rel then file else rel))"

section \<open>gotest.go\<close>

definition test_args :: "bool \<Rightarrow> string list" where
  "test_args fresh = [''go'', ''test'', ''-race'', ''-json'', ''-vet=off'', ''-timeout=10m''] @
     (if fresh then [''-count=1''] else []) @ [''./...'']"

abbreviation test_pass :: string where "test_pass \<equiv> ''pass''"
abbreviation test_skip :: string where "test_skip \<equiv> ''skip''"
abbreviation test_fail :: string where "test_fail \<equiv> ''fail''"
abbreviation test_output :: string where "test_output \<equiv> ''output''"
abbreviation test_build_output :: string where "test_build_output \<equiv> ''build-output''"

record test_event =
  te_action :: string
  te_package :: string
  te_test :: string
  te_output :: string
  te_failed_build :: string

text \<open>A stream of JSON values: those before the first that does not decode, and whether there is such a one.\<close>

type_synonym 'a stream = "string \<Rightarrow> 'a list \<times> bool"

definition transcript :: "test_event list \<Rightarrow> string" where
  "transcript events = concat (map te_output
     (filter (\<lambda>e. te_action e = test_output \<or> te_action e = test_build_output) events))"

definition test_transcript :: "test_event stream \<Rightarrow> string \<Rightarrow> string option" where
  "test_transcript decode stdout = (case decode stdout of (events, bad) \<Rightarrow> if bad then None else Some (transcript events))"

definition finished_tests :: "test_event list \<Rightarrow> string \<Rightarrow> string list" where
  "finished_tests events pkg = map te_test (filter (\<lambda>e. te_package e = pkg \<and> te_test e \<noteq> '''' \<and>
     (te_action e = test_pass \<or> te_action e = test_skip)) events)"

definition package_transcript :: "test_event list \<Rightarrow> string \<Rightarrow> string" where
  "package_transcript events pkg = trim_space (concat (map te_output
     (filter (\<lambda>e. te_package e = pkg \<and> te_action e = test_output \<and> te_test e \<notin> set (finished_tests events pkg)) events)))"

text \<open>Appending what is not there yet keeps the first occurrence of each.\<close>

definition first_seen :: "'a list \<Rightarrow> 'a list" where
  "first_seen xs = foldl (\<lambda>seen x. if x \<in> set seen then seen else seen @ [x]) [] xs"

definition failed_packages :: "bool \<Rightarrow> test_event list \<Rightarrow> string list" where
  "failed_packages broken events = first_seen (map te_package
     (filter (\<lambda>e. te_action e = test_fail \<and> (te_failed_build e \<noteq> '''') = broken) events))"

definition test_findings :: "test_event stream \<Rightarrow> string \<Rightarrow> tool_run \<Rightarrow> tool_error + finding list" where
  "test_findings decode module run =
     (let (events, bad) = decode (tr_stdout run) in
      if bad then Inl (UnreadableReport ''go test'' (tr_exit run) (trim_space (tr_stderr run)))
      else
        let text = trim_space (transcript events @ newline @ tr_stderr run);
            failed = failed_packages False events; broken = failed_packages True events in
        if tr_exit run \<noteq> 0 \<and> tr_exit run \<noteq> 1 then Inl (ToolExited ''go test'' (tr_exit run) text)
        else if broken \<noteq> [] then Inl (CouldNotBuild broken text)
        else if failed = [] then
          (if tr_exit run \<noteq> 0 then Inl (ToolExited ''go test'' (tr_exit run) text)
           else if \<not> list_ex (\<lambda>e. te_action e = test_pass \<and> te_test e \<noteq> '''') events
           then Inl (NoTestPassed module text)
           else Inr [])
        else Inr (concat (map (\<lambda>pkg. whole KindGoTest module (package_transcript events pkg)) failed)))"

section \<open>gomod.go\<close>

datatype mod_step = ModTidy | ModVerify

fun mod_step_text :: "mod_step \<Rightarrow> string" where
  "mod_step_text ModTidy = ''tidy -diff''"
| "mod_step_text ModVerify = ''verify''"

definition mod_steps :: "mod_step list" where
  "mod_steps = [ModTidy, ModVerify]"

definition mod_args :: "mod_step \<Rightarrow> string list" where
  "mod_args s = [''go'', ''mod''] @ words (mod_step_text s)"

definition modified_line :: rx where
  "modified_line = RSeq (rx_plus (RNot rx_spaces)) (RSeq (rx_char CHR '' '') (RSeq (rx_plus (RNot rx_spaces))
     (RSeq (rx_lit '': '') (RSeq (rx_words [''zip has been modified'', ''dir has been modified'', ''missing ziphash''])
       (RStar rx_dot)))))"

text \<open>\<open>modifiedModule\<close>, whose match begins a line and stays in it.\<close>

definition modified_module :: "string \<Rightarrow> bool" where
  "modified_module text \<longleftrightarrow> list_ex (rx_match modified_line) (split_at CHR 0x0A text)"

definition security_error :: string where
  "security_error = ''SECURITY ERROR''"

definition mod_mismatch :: "mod_step \<Rightarrow> tool_run \<Rightarrow> bool" where
  "mod_mismatch step run \<longleftrightarrow> contains (tr_stderr run) security_error \<or>
     (case step of ModTidy \<Rightarrow> trim_space (tr_stdout run) \<noteq> '''' | ModVerify \<Rightarrow> modified_module (tr_stderr run))"

definition mod_findings :: "mod_step \<Rightarrow> string \<Rightarrow> tool_run \<Rightarrow> tool_error + finding list" where
  "mod_findings step module run =
     (if tr_exit run = 0 then Inr []
      else if tr_exit run \<noteq> 1 \<or> \<not> mod_mismatch step run
      then Inl (ToolExited (''go mod '' @ mod_step_text step) (tr_exit run) (tool_output run))
      else Inr (whole KindGoMod module (tool_output run)))"

definition mod_tampered :: "string \<Rightarrow> bool" where
  "mod_tampered message \<longleftrightarrow> contains message security_error \<or> modified_module message"

end
