(* ===== verification/Check_Reports.thy ===== *)
theory Check_Reports
  imports Check_Tools Lint_Selection
begin

text \<open>
  The readers of \<open>internal/checktool\<close> for tools that write a report of their own: the linter,
  osv-scanner, ShellCheck, gitleaks, zizmor and levenshtein-gocheck, with the commands that run them,
  and the pinned releases.
\<close>

section \<open>lint.go\<close>

definition staticcheck_code :: rx where
  "staticcheck_code = RAlt (RSeq (rx_words [''SA'', ''S'', ''ST'', ''QF''])
     (RSeq (RClass digits) (RSeq (RClass digits) (RSeq (RClass digits) (RClass digits))))) (rx_lit ''U1000'')"

definition staticcheck_url :: "string \<Rightarrow> string" where
  "staticcheck_url code = (if \<not> rx_match staticcheck_code code then '''' else ''https://staticcheck.dev/docs/checks/#'' @ code)"

definition core_url :: "string \<Rightarrow> string" where
  "core_url code = (let url = staticcheck_url code in
     if url \<noteq> '''' then url
     else ''https://github.com/wangjohn/levenshtein/blob/main/docs/rules.md#rules-on-by-default'')"

definition lint_finding_ok :: "string list \<Rightarrow> finding \<Rightarrow> bool" where
  "lint_finding_ok checks d \<longleftrightarrow> \<not> (fd_code d = '''' \<or> \<not> static_allowed checks (fd_code d) \<or> fd_message d = '''' \<or>
     loc_file (fd_location d) = '''' \<or> loc_line (fd_location d) < 1)"

definition placed_finding :: "string \<Rightarrow> finding \<Rightarrow> finding" where
  "placed_finding root d = d\<lparr>fd_location := (fd_location d)\<lparr>loc_file := tool_relative root (loc_file (fd_location d))\<rparr>,
     fd_url := core_url (fd_code d)\<rparr>"

definition linter :: string where "linter = ''the linter''"

definition lint_findings :: "finding stream \<Rightarrow> string list \<Rightarrow> string \<Rightarrow> tool_run \<Rightarrow> tool_error + finding list" where
  "lint_findings decode checks root run =
     (if tr_exit run \<noteq> 0 \<and> tr_exit run \<noteq> 1
      then Inl (ToolExited linter (tr_exit run) (tr_stderr run @ newline @ tr_stdout run))
      else
        let (ds, bad) = decode (tr_stdout run) in
        if \<not> list_all (lint_finding_ok checks) ds then Inl (UnexpectedFinding linter (tr_stdout run))
        else if bad then Inl (UnreadableReport linter (tr_exit run) (tr_stdout run))
        else if tr_exit run = 0 \<and> ds \<noteq> [] \<or> tr_exit run = 1 \<and> ds = []
        then Inl (ContradictsExit linter (tr_exit run) (length ds) (tr_stdout run @ newline @ tr_stderr run))
        else if trim_space (tr_stderr run) \<noteq> '''' then Inl (NotClean linter (tr_stderr run))
        else Inr (map (placed_finding root) ds))"

section \<open>osvscanner.go\<close>

definition deps_config :: string where "deps_config = ''osv-scanner.toml''"
definition deps_vulnerable_exit :: int where "deps_vulnerable_exit = 1"
definition deps_no_packages_exit :: int where "deps_no_packages_exit = 128"

datatype deps_tree = DepsSource | DepsStaged

definition source_skip_dirs :: "string list" where
  "source_skip_dirs = [''testdata'', ''vendor'', ''node_modules'']"

definition deps_arguments :: "string \<Rightarrow> bool \<Rightarrow> string \<Rightarrow> deps_tree \<Rightarrow> string list" where
  "deps_arguments binary configured report tree =
     [binary, ''scan'', ''source'', ''--recursive'', ''--no-ignore''] @
     (if tree = DepsSource
      then [''--experimental-exclude=r:(^|/)('' @ join_with ''|'' source_skip_dirs @ '')(/|$)''] else []) @
     [''--no-resolve'', ''--no-call-analysis=all'', ''--experimental-disable-plugins=go/gomod'',
      ''--experimental-disable-plugins=directory'', ''--format=json'', ''--output-file='' @ report, ''--verbosity=warn''] @
     (if configured then [''--config='' @ deps_config] else []) @ [''.'']"

text \<open>An analysis is whether the advisory is called and whether it is unimportant.\<close>

record deps_group =
  og_ids :: "string list"
  og_aliases :: "string list"
  og_max_severity :: string
  og_analysis :: "(bool \<times> bool) gomap"

record deps_package =
  dp_name :: string
  dp_version :: string
  dp_ecosystem :: string
  dp_groups :: "deps_group list"
  dp_vulnerabilities :: "(string \<times> string) list"

record deps_result =
  or_path :: string
  or_packages :: "deps_package list"

definition counts_group :: "deps_group \<Rightarrow> bool" where
  "counts_group g \<longleftrightarrow> og_analysis g = [] \<or>
     \<not> list_ex (\<lambda>(id, called, unimportant). unimportant) (og_analysis g) \<and>
     list_ex (\<lambda>(id, called, unimportant). called) (og_analysis g)"

definition deps_groups :: "deps_package \<Rightarrow> deps_group list" where
  "deps_groups p =
     (if dp_vulnerabilities p = [] then []
      else if dp_groups p = []
      then map (\<lambda>(id, summary). \<lparr>og_ids = [id], og_aliases = [], og_max_severity = '''', og_analysis = []\<rparr>)
        (dp_vulnerabilities p)
      else filter counts_group (dp_groups p))"

text \<open>The map of summaries keeps the last one of an ID.\<close>

definition summary_of :: "deps_package \<Rightarrow> string \<Rightarrow> string" where
  "summary_of p advisory =
     (case map_of (rev (dp_vulnerabilities p)) advisory of None \<Rightarrow> '''' | Some summary \<Rightarrow> trim_space summary)"

definition deps_part :: "deps_package \<Rightarrow> deps_group \<Rightarrow> string" where
  "deps_part p g =
     (let details = filter (\<lambda>alias. alias \<notin> set (og_ids g)) (og_aliases g) @
            (if og_max_severity g \<noteq> '''' then [''severity '' @ og_max_severity g] else []);
          part = join_with '', '' (og_ids g);
          part = (if details \<noteq> [] then part @ '' ('' @ join_with '', '' details @ '')'' else part)
      in case find (\<lambda>i. summary_of p i \<noteq> '''') (og_ids g) of
           None \<Rightarrow> part | Some i \<Rightarrow> part @ '' '' @ summary_of p i)"

definition deps_message :: "deps_package \<Rightarrow> deps_group list \<Rightarrow> string" where
  "deps_message p groups = dp_name p @ ''@'' @ dp_version p @ '' ('' @ dp_ecosystem p @
     '') has known vulnerabilities: '' @ join_with ''; '' (map (deps_part p) groups)"

definition osv_scanner :: string where "osv_scanner = ''osv-scanner''"

definition deps_package_findings :: "string \<Rightarrow> string \<Rightarrow> deps_package \<Rightarrow> tool_error + finding list" where
  "deps_package_findings root path p =
     (let file = trim_prefix (tool_relative root path) ''./''; groups = deps_groups p in
      if groups = [] then Inr []
      else if file = '''' \<or> dp_name p = '''' then Inl (UnexpectedFinding osv_scanner (dp_name p))
      else Inr [tool_finding (tool_kind_text KindDepsVuln) (deps_message p groups)
        \<lparr>loc_file = file, loc_line = 1, loc_column = 0\<rparr>])"

definition deps_findings :: "(string \<Rightarrow> deps_result list option) \<Rightarrow> string \<Rightarrow> string \<Rightarrow> tool_run \<Rightarrow> tool_error + finding list" where
  "deps_findings decode root report run =
     (let stderr = trim_space (tr_stderr run) in
      if tr_exit run = deps_no_packages_exit then Inl (NothingToScan stderr)
      else if tr_exit run \<noteq> 0 \<and> tr_exit run \<noteq> deps_vulnerable_exit then Inl (ToolExited osv_scanner (tr_exit run) stderr)
      else (case decode report of
        None \<Rightarrow> Inl (UnreadableReport osv_scanner (tr_exit run) stderr)
      | Some results \<Rightarrow>
          bind_result (map_results (\<lambda>(path, p). deps_package_findings root path p)
            (concat (map (\<lambda>r. map (Pair (or_path r)) (or_packages r)) results))) (\<lambda>found.
          let findings = concat found in
          if (tr_exit run = 0) \<noteq> (findings = [])
          then Inl (ContradictsExit osv_scanner (tr_exit run) (length findings) stderr)
          else Inr findings)))"

section \<open>shellcheck.go\<close>

definition shell_head_limit :: nat where "shell_head_limit = 256"

definition shell_shebang :: rx where
  "shell_shebang = RSeq (rx_lit ''#!'') (RSeq (RStar (RClass rx_spaces)) (RSeq (rx_char slash)
     (RSeq (rx_opt (RSeq (RStar (RNot rx_spaces)) (rx_char slash)))
     (RSeq (rx_opt (RSeq (rx_lit ''env'') (RSeq (rx_plus (RClass rx_spaces))
       (rx_opt (RSeq (rx_lit ''-S'') (rx_plus (RClass rx_spaces)))))))
     (RSeq (rx_words [''sh'', ''bash'', ''dash'', ''ksh'']) (rx_opt (RSeq (RClass rx_spaces) (RStar rx_dot))))))))"

definition shell_extensions :: "string list" where
  "shell_extensions = [''.sh'', ''.bash'']"

definition shell_rc_names :: "string list" where
  "shell_rc_names = [''.shellcheckrc'', ''shellcheckrc'']"

definition shell_script :: "string \<Rightarrow> string \<Rightarrow> bool" where
  "shell_script path head =
     (let extension = ext_name (base_name path) in
      if extension \<in> set shell_extensions then True
      else if extension \<noteq> '''' then False
      else
        let line = fst (cut_at CHR 0x0A (take shell_head_limit head)) in
        rx_match shell_shebang (map (\<lambda>c. if c = CHR 0x00 then CHR 0x01 else c) line))"

definition shellcheck_arguments :: "string \<Rightarrow> string \<Rightarrow> string list \<Rightarrow> string list" where
  "shellcheck_arguments binary config scripts =
     [binary, ''--format=json1'', ''--severity=warning'', ''--color=never''] @
     (if config = '''' then [''--norc''] else [''--rcfile='' @ config]) @ [''--''] @ scripts"

record shell_comment =
  sc_file :: string
  sc_line :: int
  sc_column :: int
  sc_code :: int
  sc_message :: string

definition shellcheck :: string where "shellcheck = ''shellcheck''"

definition shell_finding :: "shell_comment \<Rightarrow> tool_error + finding" where
  "shell_finding c =
     (if sc_file c = '''' \<or> sc_line c < 1 \<or> sc_code c < 1 \<or> sc_message c = ''''
      then Inl (UnexpectedFinding shellcheck (sc_message c))
      else Inr (tool_finding (''SC'' @ show_int (sc_code c)) (sc_message c)
        \<lparr>loc_file = sc_file c, loc_line = sc_line c, loc_column = sc_column c\<rparr>))"

text \<open>The inner option is the array itself, which the report can leave out.\<close>

definition shell_findings :: "(string \<Rightarrow> shell_comment list option option) \<Rightarrow> tool_run \<Rightarrow> tool_error + finding list" where
  "shell_findings decode run =
     (if tr_exit run \<noteq> 0 \<and> tr_exit run \<noteq> 1
      then Inl (ToolExited shellcheck (tr_exit run) (trim_space (tr_stderr run @ newline @ tr_stdout run)))
      else (case decode (tr_stdout run) of
        None \<Rightarrow> Inl (UnreadableReport shellcheck (tr_exit run) (trim_space (tr_stderr run)))
      | Some None \<Rightarrow> Inl (NoFindingsArray shellcheck (tool_output run))
      | Some (Some comments) \<Rightarrow>
          if (tr_exit run = 0) \<noteq> (comments = [])
          then Inl (ContradictsExit shellcheck (tr_exit run) (length comments) (trim_space (tr_stderr run)))
          else map_results shell_finding comments))"

section \<open>gitleaks.go\<close>

definition secrets_leak_exit :: int where "secrets_leak_exit = 3"
definition secrets_config :: string where "secrets_config = ''.gitleaks.toml''"
definition secrets_ignore :: string where "secrets_ignore = ''.gitleaksignore''"

definition secrets_arguments :: "string \<Rightarrow> bool \<Rightarrow> string \<Rightarrow> string list" where
  "secrets_arguments binary configured report =
     [binary, ''dir'', ''.'', ''--no-banner'', ''--no-color'', ''--redact=100'', ''--log-level=warn'',
      ''--exit-code='' @ show_int secrets_leak_exit, ''--report-format=json'', ''--report-path='' @ report] @
     (if configured then [''--config='' @ secrets_config] else [])"

record secrets_leak =
  sl_rule :: string
  sl_description :: string
  sl_file :: string
  sl_line :: int
  sl_column :: int
  sl_fingerprint :: string

definition gitleaks :: string where "gitleaks = ''gitleaks''"

definition leak_finding :: "secrets_leak \<Rightarrow> tool_error + finding" where
  "leak_finding l =
     (if sl_rule l = '''' \<or> sl_file l = '''' \<or> sl_line l < 1 then Inl (UnexpectedFinding gitleaks (sl_rule l))
      else Inr (tool_finding (sl_rule l)
        (trim_space (sl_description l) @ '' The value is redacted; if it is not a secret, add '' @ sl_fingerprint l @
         '' to '' @ secrets_ignore @ ''.'')
        \<lparr>loc_file = tool_relative '''' (sl_file l), loc_line = sl_line l, loc_column = sl_column l\<rparr>))"

definition secrets_findings :: "(string \<Rightarrow> secrets_leak list option) \<Rightarrow> string \<Rightarrow> tool_run \<Rightarrow> tool_error + finding list" where
  "secrets_findings decode report run =
     (let stderr = trim_space (tr_stderr run) in
      if tr_exit run \<noteq> 0 \<and> tr_exit run \<noteq> secrets_leak_exit then Inl (ToolExited gitleaks (tr_exit run) stderr)
      else (case decode report of
        None \<Rightarrow> Inl (UnreadableReport gitleaks (tr_exit run) stderr)
      | Some leaks \<Rightarrow>
          if (tr_exit run = 0) \<noteq> (leaks = [])
          then Inl (ContradictsExit gitleaks (tr_exit run) (length leaks) stderr)
          else map_results leak_finding leaks))"

section \<open>zizmor.go\<close>

definition zizmor_configs :: "string list" where
  "zizmor_configs = [''.github/zizmor.yml'', ''.github/zizmor.yaml'', ''zizmor.yml'', ''zizmor.yaml'']"

definition zizmor_arguments :: "string \<Rightarrow> string \<Rightarrow> string list \<Rightarrow> string list" where
  "zizmor_arguments binary config inputs =
     [binary, ''--offline'', ''--strict-collection'', ''--min-severity=medium'', ''--format=plain'', ''--color=never'',
      ''--no-progress'', ''--quiet''] @
     (if config = '''' then [''--no-config''] else [''--config='' @ config]) @ inputs"

definition zizmor_findings :: "string \<Rightarrow> tool_run \<Rightarrow> tool_error + finding list" where
  "zizmor_findings module run =
     (if tr_exit run = 0 then Inr []
      else if tr_exit run \<noteq> 13 \<and> tr_exit run \<noteq> 14 \<or> tool_output run = ''''
      then Inl (ToolExited ''zizmor'' (tr_exit run) (tool_output run))
      else Inr (whole KindWorkflowSecurity module (tool_output run)))"

section \<open>gocheck.go\<close>

text \<open>The decoded report, its findings if it has the array, and whether anything follows it.\<close>

record gocheck_output =
  go_findings :: "finding list option"
  go_notes :: "string list"
  go_trailing :: bool

definition gocheck_report ::
  "(string \<Rightarrow> gocheck_output option) \<Rightarrow> tool_kind \<Rightarrow> tool_run \<Rightarrow> tool_error + finding list \<times> string list" where
  "gocheck_report decode kind run =
     (let tool = tool_kind_text kind in
      if tr_exit run \<noteq> 0 \<and> tr_exit run \<noteq> 1
      then Inl (ToolExited tool (tr_exit run) (trim_space (tr_stderr run @ newline @ tr_stdout run)))
      else (case decode (tr_stdout run) of
        None \<Rightarrow> Inl (UnreadableReport tool (tr_exit run) (tool_output run))
      | Some report \<Rightarrow>
          if go_trailing report then Inl (TrailingData tool (tool_output run))
          else (case go_findings report of
            None \<Rightarrow> Inl (NoFindingsArray tool (tool_output run))
          | Some fs \<Rightarrow>
              if (tr_exit run = 0) \<noteq> (fs = []) then Inl (ContradictsExit tool (tr_exit run) (length fs) (tr_stdout run))
              else (case find (\<lambda>f. fd_code f \<noteq> tool \<or> fd_message f = '''' \<or> loc_file (fd_location f) = '''' \<or>
                        loc_line (fd_location f) < 1) fs of
                Some f \<Rightarrow> Inl (UnexpectedFinding tool (fd_message f))
              | None \<Rightarrow>
                  if trim_space (tr_stderr run) \<noteq> '''' then Inl (NotClean tool (tr_stderr run))
                  else Inr (fs, go_notes report)))))"

section \<open>releases.go\<close>

record release_asset =
  ra_name :: string
  ra_sha256 :: string

record release_pin =
  pin_releases :: string
  pin_version :: string
  pin_binary :: string
  pin_assets :: "release_asset gomap"

datatype release_error = PinsNoRelease string | OutsideArchive string string | NoAsset string string string | NotArchive string string string

definition release_check :: "release_pin \<Rightarrow> string \<Rightarrow> release_error option" where
  "release_check p tool = first_of
     [fail_when (pin_releases p = '''' \<or> pin_version p = '''' \<or> pin_assets p = []) (PinsNoRelease tool),
      fail_when (pin_binary p \<noteq> '''' \<and> (clean (pin_binary p) \<noteq> pin_binary p \<or> is_abs (pin_binary p) \<or> pin_binary p = dotdot \<or>
        has_prefix (pin_binary p) ''../'' \<or> CHR 0x5C \<in> set (pin_binary p))) (OutsideArchive tool (pin_binary p))]"

definition release_platform :: "string \<Rightarrow> string" where
  "release_platform platform =
     (case parts platform of os # arch # variant # _ \<Rightarrow> os @ ''/'' @ arch | _ \<Rightarrow> platform)"

definition valid_asset :: "release_asset \<Rightarrow> bool" where
  "valid_asset a \<longleftrightarrow> ra_name a \<noteq> '''' \<and> \<not> contains_any (ra_name a) [slash, CHR 0x5C] \<and> ra_name a \<noteq> dotdot \<and>
     length (ra_sha256 a) = 64"

definition release_asset_for :: "release_pin \<Rightarrow> string \<Rightarrow> string \<Rightarrow> release_error + release_asset" where
  "release_asset_for p tool platform0 =
     (let platform = release_platform platform0 in
      guard_result (release_check p tool)
        (case map_of (pin_assets p) platform of
           None \<Rightarrow> Inl (NoAsset tool (pin_version p) platform)
         | Some a \<Rightarrow>
             if \<not> valid_asset a then Inl (NoAsset tool (pin_version p) platform)
             else if pin_binary p \<noteq> '''' \<and> \<not> has_suffix (ra_name a) ''.tar.gz''
             then Inl (NotArchive tool (pin_version p) (ra_name a))
             else Inr a))"

definition asset_url :: "release_pin \<Rightarrow> release_asset \<Rightarrow> string \<Rightarrow> string" where
  "asset_url p a releases =
     trim_suffix (if releases = '''' then pin_releases p else releases) ''/'' @ ''/v'' @ pin_version p @ ''/'' @ ra_name a"

end
