(* ===== verification/Check_Verdicts.thy ===== *)
theory Check_Verdicts
  imports Check_Reports
begin

text \<open>
  What every reader of a tool's run promises, as one interface that each of them is an interpretation
  of, and what the readers of go test, osv-scanner and paths compute.
\<close>

section \<open>The contract of a reader\<close>

text \<open>
  Only exit 0 passes, findings come only with an exit code that is documented to mean them, and each has
  a code and a place. An exit code that is neither is an error.
\<close>

definition exit_contract :: "int set \<Rightarrow> tool_run \<Rightarrow> tool_error + finding list \<Rightarrow> bool" where
  "exit_contract failing run verdict =
     (case verdict of
        Inl e \<Rightarrow> True
      | Inr fs \<Rightarrow> (if fs = [] then tr_exit run = 0 else tr_exit run \<in> failing) \<and>
          list_all (\<lambda>f. fd_code f \<noteq> '''' \<and> loc_line (fd_location f) \<ge> 1) fs)"

locale tool_verdict =
  fixes judge :: "tool_run \<Rightarrow> tool_error + finding list" and failing :: "int set"
  assumes passes: "judge run = Inr [] \<Longrightarrow> tr_exit run = 0"
    and fails: "judge run = Inr fs \<Longrightarrow> fs \<noteq> [] \<Longrightarrow> tr_exit run \<in> failing"
    and placed: "judge run = Inr fs \<Longrightarrow> f \<in> set fs \<Longrightarrow> fd_code f \<noteq> '''' \<and> loc_line (fd_location f) \<ge> 1"
begin

lemma undocumented_exit: "tr_exit run \<notin> insert 0 failing \<Longrightarrow> \<exists>e. judge run = Inl e"
  using passes [of run] fails [of run] by (cases "judge run") auto

lemma not_a_pass: "tr_exit run \<noteq> 0 \<Longrightarrow> judge run \<noteq> Inr []"
  using passes by blast

lemma keeps_exit: "exit_contract failing run (judge run)"
  using passes [of run] fails [of run] placed [of run] by (auto simp: exit_contract_def list_all_iff split: sum.split)

end

lemma tool_kind_text_nonempty [simp]: "tool_kind_text k \<noteq> ''''"
  by (cases k) simp_all

lemma whole_facts [simp]:
  "whole k m t \<noteq> []"
  "f \<in> set (whole k m t) \<longleftrightarrow> f = tool_finding (tool_kind_text k) t \<lparr>loc_file = m, loc_line = 1, loc_column = 0\<rparr>"
  by (auto simp: whole_def)

lemma tool_finding_simps [simp]:
  "fd_code (tool_finding c m l) = c" "fd_message (tool_finding c m l) = m" "fd_location (tool_finding c m l) = l"
  by (simp_all add: tool_finding_def)

lemma map_results_Nil [simp]: "map_results f xs = Inr [] \<longleftrightarrow> xs = []"
  by (simp add: map_results_Inr)

lemma map_results_in:
  assumes "map_results f xs = Inr ys" "y \<in> set ys"
  shows "\<exists>x \<in> set xs. f x = Inr y"
  using assms unfolding map_results_Inr list_all2_conv_all_nth by (metis in_set_conv_nth)

interpretation exit_tool: tool_verdict "tool_exit kind module" "{if kind = KindGoVuln then 3 else 1}"
  by unfold_locales (auto simp: tool_exit_def Let_def split: if_splits)

interpretation mod_tool: tool_verdict "mod_findings step module" "{1}"
  by unfold_locales (auto simp: mod_findings_def split: if_splits)

interpretation zizmor_tool: tool_verdict "zizmor_findings module" "{13, 14}"
  by unfold_locales (auto simp: zizmor_findings_def split: if_splits)

interpretation lint_tool: tool_verdict "lint_findings decode checks root" "{1}"
  by unfold_locales
    (auto simp: lint_findings_def Let_def lint_finding_ok_def placed_finding_def list_all_iff not_less split: if_splits prod.splits)

interpretation shell_tool: tool_verdict "shell_findings decode" "{1}"
proof unfold_locales
  fix run fs f
  assume judged: "shell_findings decode run = Inr fs" and f: "f \<in> set fs"
  then obtain comments where "map_results shell_finding comments = Inr fs"
    by (auto simp: shell_findings_def split: if_splits option.splits)
  then obtain c where "shell_finding c = Inr f" using map_results_in f by metis
  then show "fd_code f \<noteq> '''' \<and> loc_line (fd_location f) \<ge> 1" by (auto simp: shell_finding_def split: if_splits)
qed (auto simp: shell_findings_def split: if_splits option.splits)

interpretation secrets_tool: tool_verdict "secrets_findings decode report" "{secrets_leak_exit}"
proof unfold_locales
  fix run fs f
  assume judged: "secrets_findings decode report run = Inr fs" and f: "f \<in> set fs"
  then obtain leaks where "map_results leak_finding leaks = Inr fs"
    by (auto simp: secrets_findings_def Let_def split: if_splits option.splits)
  then obtain l where "leak_finding l = Inr f" using map_results_in f by metis
  then show "fd_code f \<noteq> '''' \<and> loc_line (fd_location f) \<ge> 1" by (auto simp: leak_finding_def split: if_splits)
qed (auto simp: secrets_findings_def Let_def split: if_splits option.splits)

definition gocheck_findings ::
  "(string \<Rightarrow> gocheck_output option) \<Rightarrow> tool_kind \<Rightarrow> tool_run \<Rightarrow> tool_error + finding list" where
  "gocheck_findings decode kind run = bind_result (gocheck_report decode kind run) (\<lambda>(fs, notes). Inr fs)"

interpretation gocheck_tool: tool_verdict "gocheck_findings decode kind" "{1}"
proof unfold_locales
  fix run fs f
  assume "gocheck_findings decode kind run = Inr fs" "f \<in> set fs"
  then show "fd_code f \<noteq> '''' \<and> loc_line (fd_location f) \<ge> 1"
    by (auto simp: gocheck_findings_def gocheck_report_def Let_def bind_result_Inr find_None_iff split: if_splits option.splits)
qed (auto simp: gocheck_findings_def gocheck_report_def Let_def bind_result_Inr split: if_splits option.splits)

section \<open>osv-scanner\<close>

definition vulnerable_packages :: "deps_result list \<Rightarrow> (string \<times> deps_package) list" where
  "vulnerable_packages results =
     filter (\<lambda>(path, p). deps_groups p \<noteq> []) (concat (map (\<lambda>r. map (Pair (or_path r)) (or_packages r)) results))"

definition deps_finding :: "string \<Rightarrow> string \<times> deps_package \<Rightarrow> finding" where
  "deps_finding root = (\<lambda>(path, p). tool_finding ''deps-vuln'' (deps_message p (deps_groups p))
     \<lparr>loc_file = trim_prefix (tool_relative root path) ''./'', loc_line = 1, loc_column = 0\<rparr>)"

lemma deps_package_list:
  assumes "map_results (\<lambda>(path, p). deps_package_findings root path p) xs = Inr ys"
  shows "concat ys = map (deps_finding root) (filter (\<lambda>(path, p). deps_groups p \<noteq> []) xs)"
proof -
  have one: "deps_package_findings root path p = Inr y \<Longrightarrow>
      y = (if deps_groups p \<noteq> [] then [deps_finding root (path, p)] else [])" for path p y
    by (auto simp: deps_package_findings_def deps_finding_def Let_def split: if_splits)
  have "list_all2 (\<lambda>x y. (case x of (path, p) \<Rightarrow> deps_package_findings root path p) = Inr y) xs ys"
    using assms by (simp add: map_results_Inr)
  then show ?thesis by (induction rule: list_all2_induct) (auto dest: one split: prod.splits)
qed

lemma deps_decided:
  assumes "deps_findings decode root report run = Inr fs"
  obtains results where "decode report = Some results" "fs = map (deps_finding root) (vulnerable_packages results)"
    "tr_exit run = 0 \<or> tr_exit run = 1" "(tr_exit run = 0) = (fs = [])"
proof -
  let ?pairs = "\<lambda>results. concat (map (\<lambda>r. map (Pair (or_path r)) (or_packages r)) results)"
  obtain results ys where decode: "decode report = Some results"
    and ys: "map_results (\<lambda>(path, p). deps_package_findings root path p) (?pairs results) = Inr ys"
    and fs: "fs = concat ys" and exit: "tr_exit run = 0 \<or> tr_exit run = 1" "(tr_exit run = 0) = (fs = [])"
    using assms
    by (auto simp: deps_findings_def Let_def bind_result_Inr deps_vulnerable_exit_def split: if_splits option.splits)
  show thesis
    by (rule that [OF decode _ exit]) (simp add: fs deps_package_list [OF ys] vulnerable_packages_def)
qed

interpretation deps_tool: tool_verdict "deps_findings decode root report" "{deps_vulnerable_exit}"
  by unfold_locales (auto elim!: deps_decided simp: deps_finding_def deps_vulnerable_exit_def)

section \<open>go test\<close>

lemma first_seen_fold:
  "set (foldl (\<lambda>seen x. if x \<in> set seen then seen else seen @ [x]) acc xs) = set acc \<union> set xs \<and>
   (distinct acc \<longrightarrow> distinct (foldl (\<lambda>seen x. if x \<in> set seen then seen else seen @ [x]) acc xs))"
  by (induction xs arbitrary: acc) auto

lemma first_seen_set [simp]: "set (first_seen xs) = set xs" and first_seen_distinct [simp]: "distinct (first_seen xs)"
  using first_seen_fold [of "[]" xs] by (simp_all add: first_seen_def)

lemma first_seen_Nil [simp]: "first_seen xs = [] \<longleftrightarrow> xs = []"
  by (metis first_seen_set set_empty)

definition package_failed :: "bool \<Rightarrow> test_event list \<Rightarrow> string \<Rightarrow> bool" where
  "package_failed broken events pkg \<longleftrightarrow>
     list_ex (\<lambda>e. te_action e = test_fail \<and> te_package e = pkg \<and> (te_failed_build e \<noteq> '''') = broken) events"

lemma set_failed_packages: "set (failed_packages broken events) = {pkg. package_failed broken events pkg}"
  by (auto simp: failed_packages_def package_failed_def list_ex_iff)

lemma failed_packages_Nil: "failed_packages broken events = [] \<longleftrightarrow> (\<forall>pkg. \<not> package_failed broken events pkg)"
  using set_failed_packages [of broken events] by (metis Collect_empty_eq set_empty)

interpretation test_tool: tool_verdict "test_findings decode module" "{0, 1}"
  by unfold_locales (auto simp: test_findings_def Let_def split: if_splits prod.splits)

text \<open>C11. No reader turns a failed tool into a pass: for each of the nine tools, whatever it printed and whatever
  its report decodes to, only exit 0 gives no findings, findings come only with the exit codes documented to
  mean them, and each finding has a code and a line.\<close>

theorem tools_never_hide_a_failure:
  "exit_contract {if kind = KindGoVuln then 3 else 1} run (tool_exit kind module run) \<and>
   exit_contract {0, 1} run (test_findings events module run) \<and>
   exit_contract {1} run (mod_findings step module run) \<and>
   exit_contract {1} run (lint_findings diagnostics checks root run) \<and>
   exit_contract {1} run (deps_findings results root report run) \<and>
   exit_contract {1} run (shell_findings comments run) \<and>
   exit_contract {3} run (secrets_findings leaks report run) \<and>
   exit_contract {13, 14} run (zizmor_findings module run) \<and>
   exit_contract {1} run (gocheck_findings gocheck kind run)"
  using exit_tool.keeps_exit test_tool.keeps_exit mod_tool.keeps_exit lint_tool.keeps_exit deps_tool.keeps_exit
    shell_tool.keeps_exit secrets_tool.keeps_exit zizmor_tool.keeps_exit gocheck_tool.keeps_exit
  by (simp add: deps_vulnerable_exit_def secrets_leak_exit_def)

text \<open>A run of go test passes exactly when it printed readable events, exited 0, no package failed or did
  not build, and some test passed; a run with failing packages is one finding for each of them, in the order
  they first failed, unless a package did not build.\<close>

theorem go_test_passes_exactly:
  "(test_findings decode module run = Inr [] \<longleftrightarrow>
      \<not> snd (decode (tr_stdout run)) \<and> tr_exit run = 0 \<and>
      \<not> list_ex (\<lambda>e. te_action e = test_fail) (fst (decode (tr_stdout run))) \<and>
      list_ex (\<lambda>e. te_action e = test_pass \<and> te_test e \<noteq> '''') (fst (decode (tr_stdout run)))) \<and>
   (\<forall>f fs. test_findings decode module run = Inr (f # fs) \<longleftrightarrow>
      \<not> snd (decode (tr_stdout run)) \<and> tr_exit run \<in> {0, 1} \<and>
      \<not> list_ex (\<lambda>e. te_action e = test_fail \<and> te_failed_build e \<noteq> '''') (fst (decode (tr_stdout run))) \<and>
      f # fs = map (\<lambda>pkg. tool_finding ''go-test'' (package_transcript (fst (decode (tr_stdout run))) pkg)
        \<lparr>loc_file = module, loc_line = 1, loc_column = 0\<rparr>) (failed_packages False (fst (decode (tr_stdout run)))))"
proof -
  obtain events bad where decode: "decode (tr_stdout run) = (events, bad)" by fastforce
  have broken: "failed_packages True events = [] \<longleftrightarrow>
      \<not> list_ex (\<lambda>e. te_action e = test_fail \<and> te_failed_build e \<noteq> '''') events"
    by (auto simp: failed_packages_def filter_empty_conv list_ex_iff)
  have none: "failed_packages True events = [] \<and> failed_packages False events = [] \<longleftrightarrow>
      \<not> list_ex (\<lambda>e. te_action e = test_fail) events"
    by (auto simp: failed_packages_def filter_empty_conv list_ex_iff)
  have all: "concat (map (\<lambda>pkg. whole KindGoTest module (t pkg)) pkgs) =
      map (\<lambda>pkg. tool_finding ''go-test'' (t pkg) \<lparr>loc_file = module, loc_line = 1, loc_column = 0\<rparr>) pkgs" for t pkgs
    by (induction pkgs) (simp_all add: whole_def)
  show ?thesis
    using broken none by (auto simp: test_findings_def decode Let_def all)
qed

text \<open>osv-scanner's findings are exactly the packages with a group of advisories it counts, in the order of
  the report, each at the lockfile that pins it, and there is one if and only if it exited 1.\<close>

theorem deps_findings_exact:
  assumes "deps_findings decode root report run = Inr fs"
  shows "\<exists>results. decode report = Some results \<and> fs = map (deps_finding root) (vulnerable_packages results) \<and>
    tr_exit run = (if vulnerable_packages results = [] then 0 else 1)"
  using assms by (elim deps_decided) auto

section \<open>Paths of findings\<close>

lemma drop_common_prefix: "drop_common xs ys = (as, bs) \<Longrightarrow> \<exists>cs. xs = cs @ as \<and> ys = cs @ bs"
  by (induction xs ys rule: drop_common.induct) (auto split: if_splits intro: exI [of _ "_ # _"])

lemma clean_parts_append: "clean_parts r acc (xs @ ys) = clean_parts r (rev (clean_parts r acc xs)) ys"
  by (induction r acc xs rule: clean_parts.induct) (auto split: list.split)

lemma clean_parts_dotdots:
  "\<forall>q \<in> set ts. ordinary_part q \<Longrightarrow>
   clean_parts False (replicate k dotdot) (replicate n dotdot @ ts) = replicate (k + n) dotdot @ ts"
proof (induction n arbitrary: k)
  case 0
  then show ?case using clean_parts_ordinary [of ts False "replicate k dotdot"] by simp
next
  case (Suc n)
  have "clean_parts False (replicate k dotdot) (dotdot # replicate n dotdot @ ts) =
      clean_parts False (replicate (Suc k) dotdot) (replicate n dotdot @ ts)"
    by (cases k) simp_all
  also have "\<dots> = replicate (Suc k + n) dotdot @ ts" using Suc by blast
  finally show ?case by simp
qed

lemma unparts_nonempty: "x \<noteq> [] \<Longrightarrow> unparts (x # xs) \<noteq> []"
  by (cases xs) auto

lemma clean_not_absolute:
  assumes "\<not> is_abs p"
  shows "\<not> is_abs (clean p)"
proof (cases "clean_parts False [] (parts p)")
  case Nil
  then show ?thesis using assms by (simp add: clean_def is_abs_def)
next
  case (Cons q qs)
  have "cleaned False (q # qs)" using cleaned_clean_parts [of False "[]" "parts p"] Cons by simp
  then obtain n rs where "q # qs = replicate n dotdot @ rs" "\<forall>r \<in> set rs. ordinary_part r"
    unfolding cleaned_def by blast
  then have "q = dotdot \<or> ordinary_part q" by (cases n) auto
  then have "q \<noteq> []" by (auto simp: ordinary_part_def)
  moreover have "parts (clean p) = q # qs" using clean_relative [OF assms] Cons by simp
  moreover then have "clean p \<noteq> []" using \<open>q \<noteq> []\<close> by auto
  ultimately show ?thesis by (simp add: is_abs_parts)
qed

lemma clean_absolute:
  assumes "is_abs p"
  shows "path_elements (clean p) = clean_parts True [] (parts p)" "\<forall>q \<in> set (clean_parts True [] (parts p)). ordinary_part q"
    "is_abs (clean p)"
proof -
  let ?cs = "clean_parts True [] (parts p)"
  have "cleaned True ?cs" by (rule cleaned_clean_parts) simp
  then show ord: "\<forall>q \<in> set ?cs. ordinary_part q" by (auto simp: cleaned_def)
  have clean: "clean p = slash # unparts ?cs" using assms by (simp add: clean_def)
  then show "is_abs (clean p)" by (simp add: is_abs_def)
  have "\<forall>q \<in> set ?cs. slash \<notin> set q"
    using set_clean_parts [of True "[]" "parts p"] split_at_parts_no_sep [of _ slash p] by auto
  then have "?cs \<noteq> [] \<Longrightarrow> parts (unparts ?cs) = ?cs" using split_join by simp
  moreover have "?cs \<noteq> [] \<Longrightarrow> unparts ?cs \<noteq> []"
    using ord unparts_nonempty [of "hd ?cs" "tl ?cs"] by (cases ?cs) (auto simp: ordinary_part_def)
  ultimately show "path_elements (clean p) = ?cs"
    unfolding path_elements_def clean by (cases "?cs = []") (auto simp: is_abs_def)
qed

lemma local_no_dotdot:
  assumes "is_local (unparts (replicate n dotdot @ ts))" "\<forall>q \<in> set ts. ordinary_part q \<and> slash \<notin> set q" "n > 0"
  shows False
proof -
  let ?qs = "replicate n dotdot @ ts"
  have plain: "\<forall>q \<in> set ?qs. slash \<notin> set q" using assms(2) by auto
  have parts: "parts (unparts ?qs) = ?qs" using split_join [OF _ plain] assms(3) by simp
  have "clean (unparts ?qs) = unparts ?qs"
    using clean_parts_dotdots [of ts 0 n] assms parts by (auto simp: clean_def is_local_def split: list.split if_splits)
  moreover have "unparts ?qs = dotdot \<or> has_prefix (unparts ?qs) ''../''"
    using assms(3) by (cases n; cases "replicate (n - 1) dotdot @ ts") auto
  moreover have "dotdot \<in> set (parts (unparts ?qs))" unfolding parts using assms(3) by simp
  ultimately show False using assms(1) by (simp add: is_local_def Let_def split: if_splits)
qed

lemma joined:
  assumes "is_abs root" "rel \<noteq> []"
  shows "path_join [root, rel] = slash # unparts (clean_parts True [] (parts root @ parts rel))"
proof -
  have "root \<noteq> []" using assms by (auto simp: is_abs_def)
  then have "path_join [root, rel] = clean (root @ slash # rel)" using assms by (simp add: path_join_def)
  moreover have "is_abs (root @ slash # rel)" using assms by (auto simp: is_abs_def prefix_def)
  ultimately show ?thesis by (simp add: clean_def split_at_append)
qed

text \<open>A finding's path is reported relative to the root without losing it: whenever the reported path differs
  from the file, it is a local path, and joining it to the root gives the file back.\<close>

theorem tool_relative_joins_back:
  assumes "tool_relative root file \<noteq> file"
  shows "is_local (tool_relative root file) \<and> path_join [root, tool_relative root file] = clean file"
proof -
  from assms obtain rel where rel: "filepath_rel root file = Some rel" "tool_relative root file = rel" "is_local rel"
    and abs: "is_abs file"
    by (auto simp: tool_relative_def split: if_splits option.splits)
  have eq_abs: "is_abs (clean root) = is_abs (clean file)"
    using rel(1) by (auto simp: filepath_rel_def Let_def split: if_splits prod.splits)
  have root: "is_abs root" using eq_abs clean_absolute(3) [OF abs] clean_not_absolute [of root] by blast
  let ?b = "clean_parts True [] (parts root)" and ?t = "clean_parts True [] (parts file)"
  note ord = clean_absolute(2) [OF root] clean_absolute(2) [OF abs]
  obtain bs ts where drop: "drop_common ?b ?t = (bs, ts)" by fastforce
  then obtain cs where cs: "?b = cs @ bs" "?t = cs @ ts" using drop_common_prefix by blast
  have clean: "clean file = slash # unparts ?t" "clean root = slash # unparts ?b"
    using abs root by (simp_all add: clean_def)
  have "path_join [root, rel] = clean file"
  proof (cases "clean file = clean root")
    case True
    then have "rel = dot" using rel(1) drop by (simp add: filepath_rel_def clean_absolute(1) [OF root] Let_def split: prod.splits)
    then have "path_join [root, rel] = slash # unparts ?b"
      using joined [OF root, of dot] by (simp add: clean_parts_append)
    then show ?thesis using True clean by simp
  next
    case False
    then have spelled: "rel = unparts (replicate (length bs) dotdot @ ts)"
      using rel(1) drop clean_absolute(1) [OF root] clean_absolute(1) [OF abs]
      by (auto simp: filepath_rel_def Let_def split: if_splits)
    have plain: "\<forall>q \<in> set ts. ordinary_part q \<and> slash \<notin> set q"
      using ord(2) cs(2) set_clean_parts [of True "[]" "parts file"] split_at_parts_no_sep [of _ slash "file"] by auto
    have "bs = []" using local_no_dotdot [OF rel(3) [unfolded spelled] plain] by auto
    with cs have "ts \<noteq> []" using False clean by auto
    have parts: "parts rel = ts" using spelled \<open>bs = []\<close> split_join [of ts slash] \<open>ts \<noteq> []\<close> plain by simp
    have "rel \<noteq> []" using rel(3) by (auto simp: is_local_def)
    then have "path_join [root, rel] = slash # unparts (clean_parts True (rev ?b) ts)"
      using joined [OF root] parts by (simp add: clean_parts_append)
    also have "\<dots> = slash # unparts (?b @ ts)" using clean_parts_ordinary [of ts True "rev ?b"] plain by simp
    finally show ?thesis using cs clean \<open>bs = []\<close> by simp
  qed
  with rel show ?thesis by simp
qed

theorem tool_relative_joins_back_witness:
  "tool_relative ''/src'' ''/src/a/b.go'' = ''a/b.go'' \<and> path_join [''/src'', ''a/b.go''] = clean ''/src/a/b.go''"
proof -
  have rel: "tool_relative ''/src'' ''/src/a/b.go'' = ''a/b.go''" by code_simp
  then have "tool_relative ''/src'' ''/src/a/b.go'' \<noteq> ''/src/a/b.go''" by simp
  from tool_relative_joins_back [OF this] show ?thesis unfolding rel by simp
qed

section \<open>An example\<close>

definition one_vulnerable :: "deps_result list" where
  "one_vulnerable = [\<lparr>or_path = ''/src/package-lock.json'', or_packages = [\<lparr>dp_name = ''left'', dp_version = ''1'', dp_ecosystem = ''npm'',
     dp_groups = [], dp_vulnerabilities = [(''GHSA-1'', ''bad'')]\<rparr>]\<rparr>]"

theorem deps_findings_exact_witness:
  "length (vulnerable_packages one_vulnerable) = 1 \<and>
   deps_findings (\<lambda>_. Some one_vulnerable) ''/src'' '''' \<lparr>tr_exit = 1, tr_stdout = '''', tr_stderr = ''''\<rparr> =
     Inr (map (deps_finding ''/src'') (vulnerable_packages one_vulnerable))"
proof -
  let ?run = "\<lparr>tr_exit = 1, tr_stdout = '''', tr_stderr = ''''\<rparr>"
  have "(case deps_findings (\<lambda>_. Some one_vulnerable) ''/src'' '''' ?run of Inl e \<Rightarrow> False | Inr fs \<Rightarrow> True)" by code_simp
  then obtain fs where fs: "deps_findings (\<lambda>_. Some one_vulnerable) ''/src'' '''' ?run = Inr fs" by (auto split: sum.splits)
  moreover have "length (vulnerable_packages one_vulnerable) = 1" by code_simp
  ultimately show ?thesis using deps_findings_exact [OF fs] by auto
qed

end
