(* ===== verification/Git_Change.thy ===== *)
theory Git_Change
  imports Go_Conv Filesystem Check_Tools
begin

text \<open>
  What a branch changed: \<open>internal/gitchange/gitchange.go\<close>. Git is an argument: \<open>gw_run n args\<close> is what the
  \<open>n\<close>th command gives, and \<open>gw_ctx n\<close> the error of the context once \<open>n\<close> commands have run. The operations
  pass on how many commands they ran.
\<close>

section \<open>Running git\<close>

datatype git_failure = GitCancelled string | GitExit int string | GitNotRun string

record git_world =
  gw_run :: "nat \<Rightarrow> string list \<Rightarrow> git_failure + string"
  gw_ctx :: "nat \<Rightarrow> string option"

type_synonym 'a git = "nat \<Rightarrow> 'a \<times> nat"

datatype change_error =
    GitError git_failure
  | ContextEnded string
  | SharesNoCommit string
  | NoCommonAncestor string
  | BaseMissingShallow string
  | BaseMissing string
  | CannotResolve string string
  | OutsideWorktree string string

text \<open>\<open>Run\<close>: a command that fails once the context has ended reports that.\<close>

definition git_cmd :: "git_world \<Rightarrow> string list \<Rightarrow> (git_failure + string) git" where
  "git_cmd g args n =
     (case gw_run g n args of
        Inr out \<Rightarrow> (Inr out, Suc n)
      | Inl e \<Rightarrow> (case gw_ctx g (Suc n) of Some reason \<Rightarrow> (Inl (GitCancelled reason), Suc n) | None \<Rightarrow> (Inl e, Suc n)))"

definition git_then :: "(git_failure + string) \<times> nat \<Rightarrow> (string \<Rightarrow> (change_error + 'b) git) \<Rightarrow> (change_error + 'b) \<times> nat" where
  "git_then r k = (case r of (Inl e, n) \<Rightarrow> (Inl (GitError e), n) | (Inr out, n) \<Rightarrow> k out n)"

section \<open>The base\<close>

definition commit_exists :: "git_world \<Rightarrow> string \<Rightarrow> bool git" where
  "commit_exists g ref n =
     (let (r, n) = git_cmd g [''rev-parse'', ''--verify'', ''--quiet'', ref @ ''^{commit}''] n in (\<not> Sum_Type.isl r, n))"

definition is_shallow :: "git_world \<Rightarrow> bool git" where
  "is_shallow g n =
     (let (r, n) = git_cmd g [''rev-parse'', ''--is-shallow-repository''] n in
      (case r of Inl e \<Rightarrow> False | Inr out \<Rightarrow> trim_space out = ''true'', n))"

definition base_ref :: "git_world \<Rightarrow> string \<Rightarrow> (change_error + string) git" where
  "base_ref g base n =
     (let remote = ''origin/'' @ base;
          (has_local, n) = commit_exists g base n;
          (has_remote, n) = commit_exists g remote n
      in if has_local \<and> has_remote then
           (case git_cmd g [''merge-base'', ''--is-ancestor'', remote, base] n of
              (Inr out, n) \<Rightarrow> (Inr base, n)
            | (Inl e, n) \<Rightarrow> (case gw_ctx g n of Some reason \<Rightarrow> (Inl (ContextEnded reason), n) | None \<Rightarrow> (Inr remote, n)))
         else if has_remote then (Inr remote, n)
         else if has_local then (Inr base, n)
         else (case gw_ctx g n of
                 Some reason \<Rightarrow> (Inl (ContextEnded reason), n)
               | None \<Rightarrow> (let (shallow, n) = is_shallow g n in
                   (Inl (if shallow then BaseMissingShallow base else BaseMissing base), n))))"

definition resolve_base :: "git_world \<Rightarrow> string \<Rightarrow> (change_error + string \<times> string) git" where
  "resolve_base g base n =
     (case base_ref g base n of
        (Inl e, n) \<Rightarrow> (Inl e, n)
      | (Inr ref, n) \<Rightarrow>
          (case git_cmd g [''merge-base'', ref, ''HEAD''] n of
             (Inr out, n) \<Rightarrow> (Inr (ref, trim_space out), n)
           | (Inl e, n) \<Rightarrow>
               if gw_ctx g n \<noteq> None \<or> \<not> (case e of GitExit code text \<Rightarrow> code = 1 | _ \<Rightarrow> False) then (Inl (GitError e), n)
               else (let (shallow, n) = is_shallow g n in
                     (Inl (if shallow then SharesNoCommit ref else NoCommonAncestor ref), n))))"

text \<open>\<open>SourcePrefix\<close>: resolving links is an argument, \<open>None\<close> when it fails.\<close>

definition source_prefix :: "(string \<Rightarrow> string option) \<Rightarrow> string \<Rightarrow> string \<Rightarrow> change_error + string" where
  "source_prefix eval_links top0 source0 =
     (case (eval_links top0, eval_links source0) of
        (Some root, Some source) \<Rightarrow>
          (case filepath_rel root source of
             None \<Rightarrow> Inl (OutsideWorktree source root)
           | Some rel \<Rightarrow>
               if \<not> is_local rel \<and> rel \<noteq> dot then Inl (OutsideWorktree source root)
               else if rel = dot then Inr '''' else Inr (rel @ ''/''))
      | (root, source) \<Rightarrow> Inl (CannotResolve (case root of None \<Rightarrow> '''' | Some t \<Rightarrow> t) (case source of None \<Rightarrow> '''' | Some s \<Rightarrow> s)))"

section \<open>Changed lines\<close>

record diff_range =
  dr_start :: int
  dr_end :: int

definition header_name :: "string \<Rightarrow> string" where
  "header_name name0 =
     (let name = trim_suffix name0 [CHR 0x09] in
      if has_prefix name [double_quote]
      then (case go_unquote name of Some unquoted \<Rightarrow> unquoted | None \<Rightarrow> name)
      else name)"

definition hunk_range :: "string \<Rightarrow> (int \<times> int) option" where
  "hunk_range field0 =
     (let (field, plus) = cut_prefix field0 ''+'' in
      if \<not> plus then None
      else
        let (start_text, count_text, has_count) = cut_at CHR '','' field in
        (case atoi start_text of
           None \<Rightarrow> None
         | Some start \<Rightarrow>
             if \<not> has_count then Some (start, 1)
             else map_option (Pair start) (atoi count_text)))"

text \<open>
  The loop of \<open>changedLines\<close> over the lines of a diff. The map of the result is a list whose first entry
  of a path counts.
\<close>

record diff_state =
  ds_lines :: "diff_range list gomap"
  ds_path :: string
  ds_header :: bool

definition ranges_of :: "diff_range list gomap \<Rightarrow> string \<Rightarrow> diff_range list" where
  "ranges_of m path = (case map_of m path of None \<Rightarrow> [] | Some rs \<Rightarrow> rs)"

definition add_range :: "string \<Rightarrow> diff_range \<Rightarrow> diff_range list gomap \<Rightarrow> diff_range list gomap" where
  "add_range path r m = (path, ranges_of m path @ [r]) # m"

definition diff_line :: "diff_state \<Rightarrow> string \<Rightarrow> diff_state" where
  "diff_line s line =
     (if has_prefix line ''diff --git '' then s\<lparr>ds_header := True, ds_path := ''''\<rparr>
      else
        let (name, plus) = cut_prefix line ''+++ '' in
        if plus \<and> ds_header s then
          (case cut_prefix (header_name name) ''b/'' of
             (path, True) \<Rightarrow> \<lparr>ds_lines = (path, []) # ds_lines s, ds_path = path, ds_header = False\<rparr>
           | (path, False) \<Rightarrow> s\<lparr>ds_header := False, ds_path := ''''\<rparr>)
        else
          let (hunk, at) = cut_prefix line ''@@ '' in
          if \<not> at \<or> ds_header s \<or> ds_path s = '''' then s
          else (case words hunk of
                  old # new # _ \<Rightarrow>
                    (case hunk_range new of
                       Some (start, count) \<Rightarrow>
                         if count > 0
                         then s\<lparr>ds_lines := add_range (ds_path s) \<lparr>dr_start = start, dr_end = start + count - 1\<rparr> (ds_lines s)\<rparr>
                         else s
                     | None \<Rightarrow> s)
                | _ \<Rightarrow> s))"

definition changed_lines_of :: "string \<Rightarrow> diff_range list gomap" where
  "changed_lines_of diff =
     ds_lines (foldl diff_line \<lparr>ds_lines = [], ds_path = '''', ds_header = False\<rparr> (split_at CHR 0x0A diff))"

section \<open>Changed files\<close>

record changed_paths =
  cg_base_ref :: string
  cg_base :: string
  cg_paths :: "string list"
  cg_lines :: "diff_range list gomap"

definition under_prefix :: "string \<Rightarrow> string \<Rightarrow> string list" where
  "under_prefix below listing =
     concat (map (\<lambda>path. let (rel, ok) = cut_prefix path below in if \<not> ok \<or> rel = '''' then [] else [rel])
       (split_at CHR 0x00 listing))"

definition sorted_compact :: "string list \<Rightarrow> string list" where
  "sorted_compact xs = sort (remdups xs)"

definition assemble_change :: "string \<Rightarrow> string \<Rightarrow> string \<Rightarrow> string \<Rightarrow> string \<Rightarrow> string \<Rightarrow> changed_paths" where
  "assemble_change below ref merge_base diffed untracked hunks =
     (let parsed = changed_lines_of hunks; tracked = under_prefix below diffed in
      \<lparr>cg_base_ref = ref, cg_base = merge_base,
       cg_paths = sorted_compact (tracked @ under_prefix below untracked),
       cg_lines = map (\<lambda>rel. (rel, ranges_of parsed (below @ rel))) tracked\<rparr>)"

definition names_args :: "string \<Rightarrow> string list" where
  "names_args merge_base = [''diff'', ''--name-only'', ''--no-renames'', ''--no-ext-diff'', ''--diff-filter=d'', ''-z'',
     merge_base, ''--'']"

definition untracked_args :: "string list" where
  "untracked_args = [''ls-files'', ''--others'', ''--exclude-standard'', ''--full-name'', ''-z'', '':/'']"

definition hunks_args :: "string \<Rightarrow> string list" where
  "hunks_args merge_base = [''diff'', ''--unified=0'', ''--no-color'', ''--no-renames'', ''--no-ext-diff'', ''--no-textconv'',
     ''--diff-filter=d'', ''--src-prefix=a/'', ''--dst-prefix=b/'', merge_base, ''--'', '':(top)*.go'']"

definition changed_since :: "git_world \<Rightarrow> (string \<Rightarrow> string option) \<Rightarrow> string \<Rightarrow> string \<Rightarrow> (change_error + changed_paths) git" where
  "changed_since g eval_links source base n =
     git_then (git_cmd g [''rev-parse'', ''--show-toplevel''] n) (\<lambda>root n.
       case source_prefix eval_links (trim_space root) source of
         Inl e \<Rightarrow> (Inl e, n)
       | Inr below \<Rightarrow>
           (case resolve_base g base n of
              (Inl e, n) \<Rightarrow> (Inl e, n)
            | (Inr (ref, merge_base), n) \<Rightarrow>
                git_then (git_cmd g (names_args merge_base) n) (\<lambda>diffed n.
                git_then (git_cmd g untracked_args n) (\<lambda>untracked n.
                git_then (git_cmd g (hunks_args merge_base) n) (\<lambda>hunks n.
                (Inr (assemble_change below ref merge_base diffed untracked hunks), n))))))"

end
