(* ===== verification/Semantic_Diff.thy ===== *)
theory Semantic_Diff
  imports Git_Change
begin

text \<open>
  The change semantic-lint judges: \<open>internal/semantic/gitdiff.go\<close>. The diff and the log are texts; the files
  git does not track are read through an argument.
\<close>

section \<open>Data\<close>

datatype file_kind = FileSource | FileTest | FileDocs | FileConfig | FileWorkflow | FileOther
datatype file_status = FileAdded | FileModified | FileDeleted

record hunk =
  hn_old_start :: int
  hn_old_lines :: int
  hn_new_start :: int
  hn_new_lines :: int
  hn_header :: string
  hn_diff :: string
  hn_added :: "string list"

record file_change =
  fc_path :: string
  fc_kind :: file_kind
  fc_status :: file_status
  fc_hunks :: "hunk list"
  fc_added :: nat
  fc_removed :: nat

record commit =
  cm_sha :: string
  cm_subject :: string
  cm_files :: "string list"
  cm_hunk_headers :: "string list"

record semantic_change =
  sg_base_ref :: string
  sg_base :: string
  sg_files :: "file_change list"
  sg_commits :: "commit list"

section \<open>Headers\<close>

definition parse_range :: "string \<Rightarrow> (int \<times> int) option" where
  "parse_range range_text =
     (let (start, count, has_count) = cut_at CHR '','' range_text in
      case atoi start of
        None \<Rightarrow> None
      | Some first \<Rightarrow> if \<not> has_count then Some (first, 1) else map_option (Pair first) (atoi count))"

definition parse_hunk_header :: "string \<Rightarrow> hunk option" where
  "parse_hunk_header line =
     (case cut_text '' @@'' (trim_prefix line ''@@ '') of
        None \<Rightarrow> None
      | Some (ranges, header) \<Rightarrow>
          (case cut_text '' +'' ranges of
             None \<Rightarrow> None
           | Some (old, updated) \<Rightarrow>
               if \<not> has_prefix old ''-'' then None
               else (case (parse_range (trim_prefix old ''-''), parse_range updated) of
                 (Some (old_start, old_lines), Some (new_start, new_lines)) \<Rightarrow>
                   Some \<lparr>hn_old_start = old_start, hn_old_lines = old_lines, hn_new_start = new_start, hn_new_lines = new_lines,
                     hn_header = trim_space header, hn_diff = line @ newline, hn_added = []\<rparr>
               | _ \<Rightarrow> None)))"

definition diff_path :: "string \<Rightarrow> string \<Rightarrow> string \<Rightarrow> string option" where
  "diff_path line header side =
     (let name = header_name (trim_prefix line header) in
      if name = ''/dev/null'' then None else Some (trim_prefix name side))"

definition kind_by_extension :: "file_kind gomap" where
  "kind_by_extension = [(''.go'', FileSource), (''.md'', FileDocs), (''.json'', FileConfig), (''.yaml'', FileConfig),
     (''.yml'', FileConfig), (''.toml'', FileConfig)]"

definition classify :: "string \<Rightarrow> file_kind" where
  "classify path =
     (if has_prefix path ''.github/workflows/'' then FileWorkflow
      else if has_suffix path ''_test.go'' then FileTest
      else (case map_of kind_by_extension (ext_name path) of Some kind \<Rightarrow> kind | None \<Rightarrow> FileOther))"

section \<open>parseDiff\<close>

record parse_state =
  ps_files :: "file_change list"
  ps_path :: string
  ps_status :: file_status
  ps_hunks :: "hunk list"
  ps_added :: nat
  ps_removed :: nat
  ps_current :: "hunk option"
  ps_binary :: bool
  ps_saw_hunk :: bool

definition close_hunk :: "parse_state \<Rightarrow> parse_state" where
  "close_hunk s = (case ps_current s of None \<Rightarrow> s | Some h \<Rightarrow> s\<lparr>ps_hunks := ps_hunks s @ [h], ps_current := None\<rparr>)"

definition flush_file :: "(string \<Rightarrow> bool) \<Rightarrow> parse_state \<Rightarrow> parse_state" where
  "flush_file included s0 =
     (let s = close_hunk s0;
          files = (if ps_path s \<noteq> '''' \<and> \<not> ps_binary s \<and> included (ps_path s) \<and>
                (length (ps_hunks s) > 0 \<or> ps_status s = FileDeleted)
              then ps_files s @ [\<lparr>fc_path = ps_path s, fc_kind = classify (ps_path s), fc_status = ps_status s,
                fc_hunks = ps_hunks s, fc_added = ps_added s, fc_removed = ps_removed s\<rparr>]
              else ps_files s)
      in \<lparr>ps_files = files, ps_path = '''', ps_status = FileModified, ps_hunks = [], ps_added = 0, ps_removed = 0,
          ps_current = None, ps_binary = False, ps_saw_hunk = False\<rparr>)"

definition parse_line :: "(string \<Rightarrow> bool) \<Rightarrow> parse_state \<Rightarrow> string \<Rightarrow> parse_state" where
  "parse_line included s line =
     (if has_prefix line ''diff --git '' then flush_file included s
      else if has_prefix line ''new file mode'' then s\<lparr>ps_status := FileAdded\<rparr>
      else if has_prefix line ''deleted file mode'' then s\<lparr>ps_status := FileDeleted\<rparr>
      else if has_prefix line ''Binary files '' then s\<lparr>ps_binary := True\<rparr>
      else if \<not> ps_saw_hunk s \<and> has_prefix line ''--- '' then
        (case diff_path line ''--- '' ''a/'' of
           Some name \<Rightarrow> if ps_path s = '''' then s\<lparr>ps_path := name\<rparr> else s
         | None \<Rightarrow> s)
      else if \<not> ps_saw_hunk s \<and> has_prefix line ''+++ '' then
        (case diff_path line ''+++ '' ''b/'' of Some name \<Rightarrow> s\<lparr>ps_path := name\<rparr> | None \<Rightarrow> s)
      else if has_prefix line ''@@ '' then (close_hunk s)\<lparr>ps_saw_hunk := True, ps_current := parse_hunk_header line\<rparr>
      else (case ps_current s of
              None \<Rightarrow> s
            | Some h \<Rightarrow>
                if has_prefix line ''+''
                then s\<lparr>ps_current := Some (h\<lparr>hn_diff := hn_diff h @ line @ newline, hn_added := hn_added h @ [tl line]\<rparr>),
                  ps_added := Suc (ps_added s)\<rparr>
                else if has_prefix line ''-''
                then s\<lparr>ps_current := Some (h\<lparr>hn_diff := hn_diff h @ line @ newline\<rparr>), ps_removed := Suc (ps_removed s)\<rparr>
                else s))"

text \<open>Before the first file the status is no status; nothing is flushed then, as there is no path.\<close>

definition parse_init :: parse_state where
  "parse_init = \<lparr>ps_files = [], ps_path = '''', ps_status = FileModified, ps_hunks = [], ps_added = 0, ps_removed = 0,
     ps_current = None, ps_binary = False, ps_saw_hunk = False\<rparr>"

definition parse_diff :: "(string \<Rightarrow> bool) \<Rightarrow> string \<Rightarrow> file_change list" where
  "parse_diff included raw = ps_files (flush_file included (foldl (parse_line included) parse_init (scan_lines raw)))"

section \<open>The log\<close>

definition commit_record :: string where
  "commit_record = [CHR 0x00, CHR 0x1E] @ ''commit'' @ [CHR 0x1F]"

record log_state =
  ls_commits :: "commit list"
  ls_current :: "commit option"
  ls_path :: string
  ls_in_hunk :: bool

definition flush_path :: "log_state \<Rightarrow> log_state" where
  "flush_path s =
     (case ls_current s of
        Some c \<Rightarrow> s\<lparr>ls_current := Some (if ls_path s \<noteq> '''' then c\<lparr>cm_files := cm_files c @ [ls_path s]\<rparr> else c), ls_path := ''''\<rparr>
      | None \<Rightarrow> s\<lparr>ls_path := ''''\<rparr>)"

definition flush_commit :: "log_state \<Rightarrow> log_state" where
  "flush_commit s0 =
     (let s = flush_path s0 in
      case ls_current s of Some c \<Rightarrow> s\<lparr>ls_commits := ls_commits s @ [c], ls_current := None\<rparr> | None \<Rightarrow> s)"

definition hunk_summary :: "hunk \<Rightarrow> string" where
  "hunk_summary h = ''@@ -'' @ show_int (hn_old_start h) @ '','' @ show_int (hn_old_lines h) @ '' +'' @
     show_int (hn_new_start h) @ '','' @ show_int (hn_new_lines h) @ '' @@ '' @ hn_header h"

definition log_line :: "log_state \<Rightarrow> string \<Rightarrow> log_state" where
  "log_line s line =
     (if has_prefix line commit_record then
        (let s = flush_commit s; (sha, subject, ok) = cut_at CHR 0x1F (trim_prefix line commit_record) in
         if \<not> ok \<or> length sha < 12 then s
         else s\<lparr>ls_current := Some \<lparr>cm_sha = take 12 sha, cm_subject = subject, cm_files = [], cm_hunk_headers = []\<rparr>,
           ls_in_hunk := False\<rparr>)
      else (case ls_current s of
        None \<Rightarrow> s
      | Some c \<Rightarrow>
          if has_prefix line ''diff --git '' then (flush_path s)\<lparr>ls_in_hunk := False\<rparr>
          else if ls_in_hunk s \<and> \<not> has_prefix line ''@@ '' then s
          else if has_prefix line ''@@ '' then
            (case parse_hunk_header line of
               Some h \<Rightarrow>
                 if ls_path s \<noteq> ''''
                 then s\<lparr>ls_in_hunk := True,
                   ls_current := Some (c\<lparr>cm_hunk_headers := cm_hunk_headers c @ [ls_path s @ '' '' @ hunk_summary h]\<rparr>)\<rparr>
                 else s\<lparr>ls_in_hunk := True\<rparr>
             | None \<Rightarrow> s\<lparr>ls_in_hunk := True\<rparr>)
          else if has_prefix line ''--- '' then
            (case diff_path line ''--- '' ''a/'' of
               Some name \<Rightarrow> if ls_path s = '''' then s\<lparr>ls_path := name\<rparr> else s
             | None \<Rightarrow> s)
          else if has_prefix line ''+++ '' then
            (case diff_path line ''+++ '' ''b/'' of Some name \<Rightarrow> s\<lparr>ls_path := name\<rparr> | None \<Rightarrow> s)
          else s))"

definition parse_commit_log :: "string \<Rightarrow> commit list" where
  "parse_commit_log raw = ls_commits (flush_commit (foldl log_line
     \<lparr>ls_commits = [], ls_current = None, ls_path = '''', ls_in_hunk = False\<rparr> (scan_lines raw)))"

section \<open>loadChange\<close>

definition max_untracked_bytes :: nat where "max_untracked_bytes = 262144"
definition max_commits :: nat where "max_commits = 50"

text \<open>\<open>untrackedFile\<close>: the argument gives the content of a regular file.\<close>

definition untracked_file :: "(string \<Rightarrow> string option) \<Rightarrow> string \<Rightarrow> file_change option" where
  "untracked_file read path =
     (let kind = classify path in
      if kind = FileOther \<or> kind = FileConfig \<or> kind = FileWorkflow then None
      else (case read path of
        None \<Rightarrow> None
      | Some text \<Rightarrow>
          if length text > max_untracked_bytes \<or> CHR 0x00 \<in> set text then None
          else
            let lines = split_at CHR 0x0A (trim_suffix text newline);
                header = ''@@ -0,0 +1,'' @ show_int (int (length lines)) @ '' @@'' @ newline
            in Some \<lparr>fc_path = path, fc_kind = kind, fc_status = FileAdded,
                 fc_hunks = [\<lparr>hn_old_start = 0, hn_old_lines = 0, hn_new_start = 1, hn_new_lines = int (length lines),
                   hn_header = '''', hn_diff = header @ concat (map (\<lambda>l. ''+'' @ l @ newline) lines), hn_added = lines\<rparr>],
                 fc_added = length lines, fc_removed = 0\<rparr>))"

definition diff_options :: "string list" where
  "diff_options = [''--unified=0'', ''--no-color'', ''--no-renames'', ''--no-ext-diff'', ''--src-prefix=a/'', ''--dst-prefix=b/'']"

definition diff_args :: "string \<Rightarrow> string list \<Rightarrow> string list" where
  "diff_args command rest = [command] @ diff_options @ rest"

definition load_commits :: "git_world \<Rightarrow> string \<Rightarrow> (change_error + commit list) git" where
  "load_commits g merge_base n =
     git_then (git_cmd g (diff_args ''log'' [''-p'', ''--no-merges'', ''--max-count='' @ show_int (int max_commits),
       ''--format=%x00%x1ecommit%x1f%H%x1f%s'', merge_base @ ''..HEAD'', ''--'']) n) (\<lambda>raw n. (Inr (parse_commit_log raw), n))"

definition load_change ::
  "git_world \<Rightarrow> (string \<Rightarrow> string option) \<Rightarrow> string \<Rightarrow> (string \<Rightarrow> bool) \<Rightarrow> (change_error + semantic_change) git" where
  "load_change g read base included n =
     (case resolve_base g base n of
        (Inl e, n) \<Rightarrow> (Inl e, n)
      | (Inr (ref, merge_base), n) \<Rightarrow>
          git_then (git_cmd g (diff_args ''diff'' [merge_base, ''--'']) n) (\<lambda>raw n.
          git_then (git_cmd g [''ls-files'', ''--others'', ''--exclude-standard'', ''-z''] n) (\<lambda>untracked n.
          let files = parse_diff included raw @ concat (map (\<lambda>path.
                if path = '''' \<or> \<not> included path then []
                else (case untracked_file read path of None \<Rightarrow> [] | Some f \<Rightarrow> [f])) (split_at CHR 0x00 untracked))
          in case load_commits g merge_base n of
               (Inl e, n) \<Rightarrow> (Inl e, n)
             | (Inr commits, n) \<Rightarrow>
                 (Inr \<lparr>sg_base_ref = ref, sg_base = merge_base, sg_files = files, sg_commits = commits\<rparr>, n))))"

end
