(* ===== verification/Git_Change_Properties.thy ===== *)
theory Git_Change_Properties
  imports Git_Change Mutation
begin

text \<open>
  What reading a diff gives. A diff with no context lines is described by the files and hunks it was printed
  from; reading it back gives the ranges of its hunks, whatever the lines in them look like, and so does
  reading the diff the runner writes for gremlins.
\<close>

section \<open>Printed diffs\<close>

text \<open>
  \<open>hk_old\<close> is the old side of the header, \<open>hk_suffix\<close> what follows the closing \<open>@@\<close>, and \<open>hk_lines\<close> the lines
  of the hunk. Git leaves a count of one out, which \<open>hk_short\<close> says.
\<close>

record hunk_text =
  hk_old :: string
  hk_start :: int
  hk_count :: int
  hk_short :: bool
  hk_suffix :: string
  hk_lines :: "string list"

text \<open>\<open>ft_sides\<close> is the text of the two header lines, which a change without text has not.\<close>

record file_text =
  ft_names :: string
  ft_extended :: "string list"
  ft_sides :: "(string \<times> string) option"
  ft_hunks :: "hunk_text list"

definition new_side :: "hunk_text \<Rightarrow> string" where
  "new_side h = ''+'' @ show_int (hk_start h) @ (if hk_short h then '''' else '','' @ show_int (hk_count h))"

definition print_hunk :: "hunk_text \<Rightarrow> string list" where
  "print_hunk h = (''@@ '' @ hk_old h @ '' '' @ new_side h @ '' @@'' @ hk_suffix h) # hk_lines h"

definition print_file :: "file_text \<Rightarrow> string list" where
  "print_file f = (''diff --git '' @ ft_names f) # ft_extended f @
     (case ft_sides f of None \<Rightarrow> []
      | Some (old, new) \<Rightarrow> (''--- '' @ old) # (''+++ '' @ new) # concat (map print_hunk (ft_hunks f)))"

definition print_diff :: "file_text list \<Rightarrow> string" where
  "print_diff fs = concat (map (\<lambda>l. l @ newline) (concat (map print_file fs)))"

definition content_line :: "string \<Rightarrow> bool" where
  "content_line l \<longleftrightarrow> l \<noteq> [] \<and> hd l \<in> {CHR ''+'', CHR ''-'', CHR 0x5C}"

definition valid_hunk :: "hunk_text \<Rightarrow> bool" where
  "valid_hunk h \<longleftrightarrow> hk_old h \<noteq> [] \<and> list_all (\<lambda>c. \<not> is_space c) (hk_old h) \<and> 0 \<le> hk_start h \<and> hk_start h < 2 ^ 62 \<and>
     0 \<le> hk_count h \<and> hk_count h < 2 ^ 62 \<and> (hk_short h \<longrightarrow> hk_count h = 1) \<and> list_all content_line (hk_lines h)"

definition extended_line :: "string \<Rightarrow> bool" where
  "extended_line l \<longleftrightarrow> \<not> has_prefix l ''diff --git '' \<and> \<not> has_prefix l ''+++ ''"

definition new_path :: "string \<Rightarrow> string option" where
  "new_path new = (case cut_prefix (header_name new) ''b/'' of (path, True) \<Rightarrow> Some path | _ \<Rightarrow> None)"

definition valid_file :: "file_text \<Rightarrow> bool" where
  "valid_file f \<longleftrightarrow> list_all extended_line (ft_extended f) \<and> list_all valid_hunk (ft_hunks f) \<and>
     (case ft_sides f of None \<Rightarrow> True | Some (old, new) \<Rightarrow> new_path new \<noteq> Some '''')"

definition valid_diff :: "file_text list \<Rightarrow> bool" where
  "valid_diff fs \<longleftrightarrow> list_all valid_file fs \<and> list_all (\<lambda>l. CHR 0x0A \<notin> set l) (concat (map print_file fs))"

text \<open>What the diff says: the lines each hunk wrote, by path.\<close>

definition hunk_lines :: "hunk_text list \<Rightarrow> diff_range list" where
  "hunk_lines hs = map (\<lambda>h. \<lparr>dr_start = hk_start h, dr_end = hk_start h + hk_count h - 1\<rparr>) (filter (\<lambda>h. hk_count h > 0) hs)"

definition file_lines :: "file_text \<Rightarrow> (string \<times> diff_range list) list" where
  "file_lines f =
     (case ft_sides f of None \<Rightarrow> []
      | Some (old, new) \<Rightarrow> (case new_path new of None \<Rightarrow> [] | Some path \<Rightarrow> [(path, hunk_lines (ft_hunks f))]))"

definition diff_lines :: "file_text list \<Rightarrow> diff_range list gomap" where
  "diff_lines fs = rev (concat (map file_lines fs))"

section \<open>Reading them\<close>

lemma is_space_facts [simp]: "is_space CHR '' ''" "is_space CHR 0x0A" "\<not> is_space CHR ''+''" "\<not> is_space CHR '',''"
  by (simp_all add: is_space_def)

lemma digit_not_space: "is_digit c \<Longrightarrow> \<not> is_space c"
  by (auto simp: is_digit_def is_space_def less_eq_char_def)

lemma new_side_word:
  assumes "valid_hunk h"
  shows "new_side h \<noteq> []" "\<forall>c \<in> set (new_side h). \<not> is_space c"
proof -
  show "new_side h \<noteq> []" by (simp add: new_side_def)
  have "\<forall>c \<in> set (show_int (hk_start h)) \<union> set (show_int (hk_count h)). \<not> is_space c"
    using assms show_int_plain digit_not_space by (auto simp: valid_hunk_def)
  then show "\<forall>c \<in> set (new_side h). \<not> is_space c" by (simp add: new_side_def ball_Un)
qed

lemma hunk_words:
  assumes "valid_hunk h"
  shows "\<exists>rest. words (hk_old h @ '' '' @ new_side h @ '' @@'' @ hk_suffix h) = hk_old h # new_side h # rest"
proof -
  have "hk_old h \<noteq> []" "\<forall>c \<in> set (hk_old h). \<not> is_space c" using assms by (auto simp: valid_hunk_def list_all_iff)
  then show ?thesis using new_side_word [OF assms] by (simp add: words_word)
qed

lemma comma_free: "0 \<le> i \<Longrightarrow> CHR '','' \<notin> set (show_int i)"
  using show_int_plain digit_no_sign by blast

lemma cut_at_found: "c \<notin> set s \<Longrightarrow> cut_at c (s @ c # t) = (s, t, True)"
  by (induction s) (auto simp: cut_at_def)

lemma hunk_range_new_side:
  assumes "valid_hunk h"
  shows "hunk_range (new_side h) = Some (hk_start h, hk_count h)"
proof -
  have start: "atoi (show_int (hk_start h)) = Some (hk_start h)" and count: "atoi (show_int (hk_count h)) = Some (hk_count h)"
    using assms by (auto simp: valid_hunk_def intro!: atoi_show_int)
  have plain: "CHR '','' \<notin> set (show_int (hk_start h))" using assms comma_free by (simp add: valid_hunk_def)
  show ?thesis
  proof (cases "hk_short h")
    case True
    then show ?thesis using start plain assms
      by (simp add: hunk_range_def new_side_def cut_prefix_def cut_at_def valid_hunk_def)
  next
    case False
    then show ?thesis using start count plain
      by (simp add: hunk_range_def new_side_def cut_prefix_def cut_at_found)
  qed
qed

lemma content_line_prefix:
  "content_line l \<Longrightarrow> \<not> has_prefix l ''diff --git '' \<and> \<not> has_prefix l ''@@ ''"
  by (cases l) (auto simp: content_line_def)

lemma diff_line_content:
  "content_line l \<Longrightarrow> \<not> ds_header s \<Longrightarrow> diff_line s l = s"
  using content_line_prefix [of l] by (auto simp: diff_line_def cut_prefix_def)

lemma foldl_content: "list_all content_line ls \<Longrightarrow> \<not> ds_header s \<Longrightarrow> foldl diff_line s ls = s"
  by (induction ls) (simp_all add: diff_line_content)

lemma diff_line_hunk:
  assumes "valid_hunk h" "\<not> ds_header s"
  shows "foldl diff_line s (print_hunk h) =
    (if ds_path s = '''' \<or> hk_count h \<le> 0 then s
     else s\<lparr>ds_lines := add_range (ds_path s) \<lparr>dr_start = hk_start h, dr_end = hk_start h + hk_count h - 1\<rparr> (ds_lines s)\<rparr>)"
proof -
  let ?rest = "hk_old h @ '' '' @ new_side h @ '' @@'' @ hk_suffix h"
  obtain rest where words: "words ?rest = hk_old h # new_side h # rest" using hunk_words [OF assms(1)] by blast
  have line: "diff_line s (''@@ '' @ ?rest) =
      (if ds_path s = '''' \<or> hk_count h \<le> 0 then s
       else s\<lparr>ds_lines := add_range (ds_path s) \<lparr>dr_start = hk_start h, dr_end = hk_start h + hk_count h - 1\<rparr> (ds_lines s)\<rparr>)"
    using assms(2) words hunk_range_new_side [OF assms(1)] by (auto simp: diff_line_def cut_prefix_def Let_def)
  have "list_all content_line (hk_lines h)" using assms(1) by (simp add: valid_hunk_def)
  then show ?thesis using line assms(2) by (simp add: print_hunk_def foldl_content)
qed

lemma foldl_hunks:
  assumes "list_all valid_hunk hs" "\<not> ds_header s" "ds_path s = p" "p \<noteq> ''''" "map_of (ds_lines s) p = Some rs"
  shows "\<exists>m. foldl diff_line s (concat (map print_hunk hs)) = \<lparr>ds_lines = m, ds_path = p, ds_header = False\<rparr> \<and>
    map_of m = (map_of (ds_lines s))(p \<mapsto> rs @ hunk_lines hs)"
  using assms
proof (induction hs arbitrary: s rs)
  case Nil
  then show ?case by (intro exI [of _ "ds_lines s"]) (auto simp: hunk_lines_def)
next
  case (Cons h hs)
  let ?r = "\<lparr>dr_start = hk_start h, dr_end = hk_start h + hk_count h - 1\<rparr>"
  show ?case
  proof (cases "hk_count h > 0")
    case True
    let ?s = "s\<lparr>ds_lines := add_range p ?r (ds_lines s)\<rparr>"
    have step: "foldl diff_line s (print_hunk h) = ?s" using diff_line_hunk [of h s] Cons.prems True by simp
    have "map_of (ds_lines ?s) p = Some (rs @ [?r])" using Cons.prems by (simp add: add_range_def ranges_of_def)
    have "\<exists>m. foldl diff_line ?s (concat (map print_hunk hs)) = \<lparr>ds_lines = m, ds_path = p, ds_header = False\<rparr> \<and>
        map_of m = (map_of (ds_lines ?s))(p \<mapsto> (rs @ [?r]) @ hunk_lines hs)"
      by (rule Cons.IH) (use Cons.prems \<open>map_of (ds_lines ?s) p = Some (rs @ [?r])\<close> in simp_all)
    then obtain m where m: "foldl diff_line ?s (concat (map print_hunk hs)) = \<lparr>ds_lines = m, ds_path = p, ds_header = False\<rparr>"
      "map_of m = (map_of (ds_lines ?s))(p \<mapsto> (rs @ [?r]) @ hunk_lines hs)" by blast
    have "map_of m = (map_of (ds_lines s))(p \<mapsto> rs @ hunk_lines (h # hs))"
      unfolding m(2) using True by (auto simp: hunk_lines_def add_range_def)
    then show ?thesis using step m(1) by auto
  next
    case False
    then have "foldl diff_line s (print_hunk h) = s" using diff_line_hunk [of h s] Cons.prems by simp
    then show ?thesis using Cons False by (auto simp: hunk_lines_def)
  qed
qed

lemma foldl_skipped:
  assumes "list_all valid_hunk hs" "\<not> ds_header s" "ds_path s = ''''"
  shows "foldl diff_line s (concat (map print_hunk hs)) = s"
  using assms by (induction hs) (simp_all add: diff_line_hunk)

lemma foldl_extended:
  "list_all extended_line ls \<Longrightarrow> ds_header s \<Longrightarrow> foldl diff_line s ls = s"
proof (induction ls)
  case (Cons l ls)
  then have "diff_line s l = s" by (auto simp: diff_line_def extended_line_def cut_prefix_def)
  with Cons show ?case by simp
qed simp

lemma foldl_file:
  assumes "valid_file f"
  shows "map_of (ds_lines (foldl diff_line s (print_file f))) = map_of (rev (file_lines f) @ ds_lines s)"
proof -
  define s1 where "s1 = s\<lparr>ds_header := True, ds_path := ''''\<rparr>"
  have s1: "ds_header s1" "ds_lines s1 = ds_lines s" by (simp_all add: s1_def)
  have start: "foldl diff_line s ((''diff --git '' @ ft_names f) # ft_extended f) = s1"
    using assms foldl_extended [OF _ s1(1)] by (simp add: valid_file_def diff_line_def s1_def)
  show ?thesis
  proof (cases "ft_sides f")
    case None
    then show ?thesis using start s1 by (simp add: print_file_def file_lines_def)
  next
    case (Some sides)
    then obtain old new where sides: "ft_sides f = Some (old, new)" by (cases sides) auto
    have old: "diff_line s1 (''--- '' @ old) = s1" using s1 by (simp add: diff_line_def cut_prefix_def)
    have hunks: "list_all valid_hunk (ft_hunks f)" using assms by (simp add: valid_file_def)
    have whole_file: "foldl diff_line s (print_file f) =
        foldl diff_line (diff_line s1 (''+++ '' @ new)) (concat (map print_hunk (ft_hunks f)))"
      using start old by (simp add: print_file_def sides)
    obtain path found where cut: "cut_prefix (header_name new) ''b/'' = (path, found)" by fastforce
    show ?thesis
    proof (cases found)
      case True
      then have path: "new_path new = Some path" "path \<noteq> ''''"
        using cut assms by (auto simp: new_path_def valid_file_def sides)
      let ?s = "\<lparr>ds_lines = (path, []) # ds_lines s1, ds_path = path, ds_header = False\<rparr>"
      have "diff_line s1 (''+++ '' @ new) = ?s" using s1 cut True cut_prefix_append [of "''+++ ''" new] by (simp add: diff_line_def)
      moreover obtain m where "foldl diff_line ?s (concat (map print_hunk (ft_hunks f))) =
          \<lparr>ds_lines = m, ds_path = path, ds_header = False\<rparr>" "map_of m = (map_of (ds_lines ?s))(path \<mapsto> [] @ hunk_lines (ft_hunks f))"
        using foldl_hunks [OF hunks, of ?s path "[]"] path by auto
      ultimately show ?thesis using whole_file s1 path sides by (auto simp: file_lines_def)
    next
      case False
      then have "new_path new = None" using cut by (simp add: new_path_def)
      moreover have "diff_line s1 (''+++ '' @ new) = s1\<lparr>ds_header := False, ds_path := ''''\<rparr>"
        using s1 cut False cut_prefix_append [of "''+++ ''" new] by (simp add: diff_line_def)
      ultimately show ?thesis using whole_file s1 sides foldl_skipped [OF hunks, of "s1\<lparr>ds_header := False, ds_path := ''''\<rparr>"]
        by (simp add: file_lines_def)
    qed
  qed
qed

lemma foldl_files:
  "list_all valid_file fs \<Longrightarrow>
   map_of (ds_lines (foldl diff_line s (concat (map print_file fs)))) = map_of (diff_lines fs @ ds_lines s)"
proof (induction fs arbitrary: s)
  case (Cons f fs)
  then show ?case using foldl_file [of f s] by (auto simp: diff_lines_def map_of_append map_add_assoc)
qed (simp add: diff_lines_def)

lemma split_lines:
  "list_all (\<lambda>l. CHR 0x0A \<notin> set l) ls \<Longrightarrow> split_at CHR 0x0A (concat (map (\<lambda>l. l @ newline) ls)) = ls @ [[]]"
  by (induction ls) (simp_all add: newline_def split_at_append_sep)

lemma diff_line_empty: "diff_line s '''' = s"
  by (simp add: diff_line_def cut_prefix_def)

lemma printed_lines:
  assumes "valid_diff fs"
  shows "map_of (changed_lines_of (print_diff fs)) = map_of (diff_lines fs)"
  using assms foldl_files [of fs "\<lparr>ds_lines = [], ds_path = '''', ds_header = False\<rparr>"]
  by (simp add: changed_lines_of_def print_diff_def valid_diff_def split_lines diff_line_empty)

text \<open>C10. The changed lines read from a diff without context are the lines its hunks wrote: for any files and hunks,
  whatever the added and removed lines look like, even lines that read like headers, each path has the ranges of
  its hunks in order, and a file whose change only deletes lines has an entry without ranges.\<close>

theorem changed_lines_read_back:
  assumes "valid_diff fs"
  shows "map_of (changed_lines_of (print_diff fs)) = map_of (diff_lines fs)"
  using assms by (rule printed_lines)

section \<open>The diff the runner writes\<close>

definition range_hunk :: "line_range \<Rightarrow> hunk_text" where
  "range_hunk r = \<lparr>hk_old = ''-0,0'', hk_start = lr_start r, hk_count = lr_end r - lr_start r + 1, hk_short = False,
     hk_suffix = '''', hk_lines = replicate (nat (lr_end r - lr_start r + 1)) ''+''\<rparr>"

definition range_file :: "string \<Rightarrow> line_range list \<Rightarrow> file_text" where
  "range_file name ranges = (let a = go_quote (''a/'' @ name); b = go_quote (''b/'' @ name) in
     \<lparr>ft_names = a @ '' '' @ b, ft_extended = [], ft_sides = Some (a, b), ft_hunks = map range_hunk ranges\<rparr>)"

definition range_files :: "line_range list gomap \<Rightarrow> file_text list" where
  "range_files run = range_file diff_placeholder [\<lparr>lr_start = 1, lr_end = 1\<rparr>] #
     map (\<lambda>name. range_file name (the (map_of run name))) (filter (\<lambda>name. the (map_of run name) \<noteq> []) (sorted_keys run))"

lemma concat_lines_hunks:
  "concat (map (\<lambda>l. l @ newline) (concat (map (print_hunk \<circ> range_hunk) rs))) =
   concat (map (\<lambda>r. ''@@ -0,0 +'' @ show_int (lr_start r) @ '','' @ show_int (lr_end r - lr_start r + 1) @ '' @@'' @ newline @
     concat (replicate (nat (lr_end r - lr_start r + 1)) (''+'' @ newline))) rs)"
  by (induction rs) (simp_all add: print_hunk_def range_hunk_def new_side_def map_replicate)

lemma print_range_file: "concat (map (\<lambda>l. l @ newline) (print_file (range_file name rs))) = diff_entry name rs"
  using concat_lines_hunks [of rs] by (simp add: print_file_def range_file_def diff_entry_def Let_def comp_def)

lemma changed_diff_printed: "changed_diff run = print_diff (range_files run)"
proof -
  have "concat (map (\<lambda>l. l @ newline) (concat (map print_file (map (\<lambda>name. range_file name (the (map_of run name)))
          (filter (\<lambda>name. the (map_of run name) \<noteq> []) names))))) =
      concat (map (\<lambda>name. let ranges = the (map_of run name) in if length ranges > 0 then diff_entry name ranges else '''') names)"
    for names
    by (induction names) (simp_all add: print_range_file Let_def)
  then show ?thesis by (simp add: changed_diff_def print_diff_def range_files_def print_range_file)
qed

lemma go_quote_no_newline: "CHR 0x0A \<notin> set (go_quote s)"
proof -
  have hex: "hex_digit d \<noteq> CHR 0x0A" if "d < 16" for d
    using hex_digit_value [OF that] by (auto simp: hex_value_def)
  have "CHR 0x0A \<notin> set (quote_char c)" for c
  proof (cases "find (\<lambda>e. snd e = c) letter_escapes")
    case (Some e)
    have "list_all (\<lambda>e. fst e \<noteq> CHR 0x0A) letter_escapes" by code_simp
    moreover have "e \<in> set letter_escapes" using Some unfolding find_Some_iff by auto
    ultimately show ?thesis using Some by (auto simp: quote_char_def list_all_iff backslash_def)
  next
    case None
    have "(of_char c :: nat) < 256" by simp
    then have "(of_char c :: nat) div 16 < 16" by linarith
    then show ?thesis using None no_letter_escape [OF None] hex [of "of_char c div 16"] hex [of "of_char c mod 16"]
      by (auto simp: quote_char_def backslash_def Let_def)
  qed
  then show ?thesis by (auto simp: go_quote_def double_quote_def)
qed

lemma header_of_quoted: "new_path (go_quote (''b/'' @ name)) = Some name"
proof -
  have "trim_suffix (go_quote s) [CHR 0x09] = go_quote s" for s
    by (simp add: trim_suffix_def cut_suffix_def go_quote_def double_quote_def suffix_def)
  moreover have "has_prefix (go_quote s) [double_quote]" for s by (simp add: go_quote_def)
  ultimately have "header_name (go_quote (''b/'' @ name)) = ''b/'' @ name" by (simp add: header_name_def)
  then show ?thesis using cut_prefix_append [of "''b/''" name] by (simp add: new_path_def)
qed

lemma header_of_quoted_chars [simp]: "new_path (go_quote (CHR ''b'' # slash # name)) = Some name"
  using header_of_quoted [of name] by simp

definition as_diff_range :: "line_range \<Rightarrow> diff_range" where
  "as_diff_range r = \<lparr>dr_start = lr_start r, dr_end = lr_end r\<rparr>"

definition valid_range :: "line_range \<Rightarrow> bool" where
  "valid_range r \<longleftrightarrow> 0 < lr_start r \<and> lr_start r \<le> lr_end r \<and> lr_end r < 2 ^ 61"

lemma range_file_lines:
  assumes "list_all valid_range rs"
  shows "file_lines (range_file name rs) = [(name, map as_diff_range rs)]"
proof -
  have "filter (\<lambda>r. lr_start r \<le> lr_end r) rs = rs"
    using assms by (auto simp: list_all_iff valid_range_def filter_id_conv)
  moreover have "filter (\<lambda>h. hk_count h > 0) (map range_hunk rs) = map range_hunk (filter (\<lambda>r. lr_start r \<le> lr_end r) rs)"
    by (induction rs) (auto simp: range_hunk_def)
  ultimately show ?thesis
    by (simp add: file_lines_def range_file_def Let_def hunk_lines_def comp_def range_hunk_def as_diff_range_def)
qed

lemma range_file_valid:
  assumes "list_all valid_range rs" "name \<noteq> ''''"
  shows "valid_file (range_file name rs)" "list_all (\<lambda>l. CHR 0x0A \<notin> set l) (print_file (range_file name rs))"
proof -
  have "valid_hunk (range_hunk r)" if "valid_range r" for r
    using that by (auto simp: valid_hunk_def range_hunk_def valid_range_def content_line_def is_space_def list_all_iff)
  then show "valid_file (range_file name rs)"
    using assms by (auto simp: valid_file_def range_file_def Let_def list_all_iff)
  have plain: "CHR 0x0A \<notin> set (show_int i)" if "0 \<le> i" for i
  proof -
    have "\<not> is_digit CHR 0x0A" by (simp add: is_digit_def less_eq_char_def)
    then show ?thesis using show_int_plain [OF that] by blast
  qed
  have "list_all (\<lambda>l. CHR 0x0A \<notin> set l) (print_hunk (range_hunk r))" if "valid_range r" for r
    using that plain [of "lr_start r"] plain [of "lr_end r - lr_start r + 1"]
    by (auto simp: print_hunk_def range_hunk_def new_side_def valid_range_def list_all_iff)
  then show "list_all (\<lambda>l. CHR 0x0A \<notin> set l) (print_file (range_file name rs))"
    using assms go_quote_no_newline by (auto simp: print_file_def range_file_def Let_def list_all_iff)
qed

lemma map_of_rev_keys: "map_of (rev (map (\<lambda>k. (k, f k)) ks)) k = (if k \<in> set ks then Some (f k) else None)"
  by (induction ks) (auto simp: map_of_append map_add_def split: option.split)

text \<open>The diff the runner writes for gremlins says what it was written from: read as git's diff is read, each
  file of a selection has the ranges it was given, a file without ranges has no entry, and the only other
  entry is the placeholder, which is no Go file.\<close>

theorem runner_diff_reads_back:
  assumes "list_all (\<lambda>(name, rs). name \<noteq> '''' \<and> list_all valid_range rs) run" "name \<noteq> diff_placeholder"
  shows "map_of (changed_lines_of (changed_diff run)) name =
    (case map_of run name of
       None \<Rightarrow> None
     | Some rs \<Rightarrow> if rs = [] then None else Some (map as_diff_range rs))"
proof -
  let ?names = "filter (\<lambda>name. the (map_of run name) \<noteq> []) (sorted_keys run)"
  have entry: "name \<noteq> '''' \<and> list_all valid_range (the (map_of run name))" if "name \<in> set (sorted_keys run)" for name
  proof -
    have "map_of run name \<noteq> None" using that by (simp add: map_of_eq_None_iff)
    then obtain rs where rs: "map_of run name = Some rs" by blast
    then show ?thesis using assms(1) map_of_SomeD [OF rs] by (auto simp: list_all_iff)
  qed
  have first: "list_all valid_range [\<lparr>lr_start = 1, lr_end = 1\<rparr>]" "diff_placeholder \<noteq> ''''"
    by (simp_all add: valid_range_def diff_placeholder_def)
  have "valid_file f \<and> list_all (\<lambda>l. CHR 0x0A \<notin> set l) (print_file f)" if "f \<in> set (range_files run)" for f
  proof -
    from that consider "f = range_file diff_placeholder [\<lparr>lr_start = 1, lr_end = 1\<rparr>]"
      | m where "m \<in> set (sorted_keys run)" "f = range_file m (the (map_of run m))"
      unfolding range_files_def by auto
    then show ?thesis using range_file_valid [OF first] range_file_valid entry by cases blast+
  qed
  then have "valid_diff (range_files run)" by (auto simp: valid_diff_def list_all_iff)
  then have read: "map_of (changed_lines_of (changed_diff run)) = map_of (diff_lines (range_files run))"
    using printed_lines by (simp add: changed_diff_printed)
  have files: "concat (map file_lines (map (\<lambda>name. range_file name (the (map_of run name))) names)) =
      map (\<lambda>name. (name, map as_diff_range (the (map_of run name)))) names" if "set names \<subseteq> set (sorted_keys run)" for names
    using that entry by (induction names) (auto simp: range_file_lines)
  have sub: "set ?names \<subseteq> set (sorted_keys run)" by auto
  have "map_of (diff_lines (range_files run)) name =
      map_of (rev (map (\<lambda>name. (name, map as_diff_range (the (map_of run name)))) ?names)) name"
    using files [OF sub] range_file_lines [OF first(1)] assms(2)
    by (simp add: diff_lines_def range_files_def map_of_append map_add_def split: option.split)
  also have "\<dots> = (if name \<in> set ?names then Some (map as_diff_range (the (map_of run name))) else None)"
    by (rule map_of_rev_keys)
  also have "\<dots> = (case map_of run name of None \<Rightarrow> None | Some rs \<Rightarrow> if rs = [] then None else Some (map as_diff_range rs))"
    using map_of_eq_None_iff [of run name] by (cases "map_of run name") auto
  finally show ?thesis using read by simp
qed

section \<open>Changed files\<close>

lemma map_of_pairs: "map_of (map (\<lambda>k. (k, f k)) ks) k = (if k \<in> set ks then Some (f k) else None)"
  by (induction ks) auto

text \<open>The files of a change are the listed ones below the source, once each and in order, relative to it; a file
  the diff lists has an entry with the lines its hunks wrote, and an untracked file, whose every line is new,
  has none.\<close>

theorem change_lists_files:
  assumes "changed_since g eval_links source base n = (Inr c, Suc (Suc (Suc m)))"
  shows "\<exists>root below diffed untracked hunks.
    gw_run g n [''rev-parse'', ''--show-toplevel''] = Inr root \<and>
    source_prefix eval_links (trim_space root) source = Inr below \<and>
    gw_run g m (names_args (cg_base c)) = Inr diffed \<and> gw_run g (Suc m) untracked_args = Inr untracked \<and>
    gw_run g (Suc (Suc m)) (hunks_args (cg_base c)) = Inr hunks \<and>
    sorted (cg_paths c) \<and> distinct (cg_paths c) \<and>
    set (cg_paths c) = {rel. rel \<noteq> '''' \<and> below @ rel \<in> set (split_at CHR 0x00 diffed) \<union> set (split_at CHR 0x00 untracked)} \<and>
    (\<forall>rel. map_of (cg_lines c) rel =
       (if rel \<noteq> '''' \<and> below @ rel \<in> set (split_at CHR 0x00 diffed)
        then Some (ranges_of (changed_lines_of hunks) (below @ rel)) else None))"
proof -
  have cmd: "git_cmd g args k = (Inr out, k') \<longleftrightarrow> gw_run g k args = Inr out \<and> k' = Suc k" for args k out k'
    by (auto simp: git_cmd_def split: sum.split option.split)
  have chain: "git_then (git_cmd g args k) f = (Inr x, k') \<longleftrightarrow> (\<exists>out. gw_run g k args = Inr out \<and> f out (Suc k) = (Inr x, k'))"
    for args k f k' and x :: 'b
    by (auto simp: git_then_def git_cmd_def split: sum.split option.split)
  from assms obtain root where root: "gw_run g n [''rev-parse'', ''--show-toplevel''] = Inr root"
    and after: "(case source_prefix eval_links (trim_space root) source of Inl e \<Rightarrow> (Inl e, Suc n)
      | Inr below \<Rightarrow> (case resolve_base g base (Suc n) of
          (Inl e, n) \<Rightarrow> (Inl e, n)
        | (Inr (ref, merge_base), n) \<Rightarrow>
            git_then (git_cmd g (names_args merge_base) n) (\<lambda>diffed n.
            git_then (git_cmd g untracked_args n) (\<lambda>untracked n.
            git_then (git_cmd g (hunks_args merge_base) n) (\<lambda>hunks n.
            (Inr (assemble_change below ref merge_base diffed untracked hunks), n)))))) = (Inr c, Suc (Suc (Suc m)))"
    unfolding changed_since_def by (subst (asm) chain) blast
  obtain below where below: "source_prefix eval_links (trim_space root) source = Inr below"
    using after by (cases "source_prefix eval_links (trim_space root) source") auto
  note start = root below
  obtain r k where r: "resolve_base g base (Suc n) = (r, k)" by fastforce
  then obtain ref merge_base where "r = Inr (ref, merge_base)" using after below by (cases r) auto
  then have rest: "git_then (git_cmd g (names_args merge_base) k) (\<lambda>diffed n.
        git_then (git_cmd g untracked_args n) (\<lambda>untracked n.
        git_then (git_cmd g (hunks_args merge_base) n) (\<lambda>hunks n.
        (Inr (assemble_change below ref merge_base diffed untracked hunks), n)))) = (Inr c, Suc (Suc (Suc m)))"
    using after below r by simp
  from rest obtain diffed untracked hunks where ran: "gw_run g k (names_args merge_base) = Inr diffed"
      "gw_run g (Suc k) untracked_args = Inr untracked" "gw_run g (Suc (Suc k)) (hunks_args merge_base) = Inr hunks"
    and c: "assemble_change below ref merge_base diffed untracked hunks = c" and m: "k = m"
    unfolding chain by auto
  have base: "merge_base = cg_base c" by (simp add: c [symmetric] assemble_change_def Let_def)
  have "rel \<in> set (under_prefix below listing) \<longleftrightarrow>
      (\<exists>path \<in> set (split_at CHR 0x00 listing). prefix below path \<and> rel = drop (length below) path \<and> rel \<noteq> '''')" for rel listing
  proof -
    have "rel \<in> set (let (rel, ok) = cut_prefix path below in if \<not> ok \<or> rel = '''' then [] else [rel]) \<longleftrightarrow>
        prefix below path \<and> rel = drop (length below) path \<and> rel \<noteq> ''''" for path
      by (cases "prefix below path") (auto simp: cut_prefix_def)
    moreover have "x \<in> set (concat (map f ys)) \<longleftrightarrow> (\<exists>y \<in> set ys. x \<in> set (f y))" for x :: string and f and ys :: "string list"
      by auto
    ultimately show ?thesis unfolding under_prefix_def by simp
  qed
  then have listed: "rel \<in> set (under_prefix below listing) \<longleftrightarrow> rel \<noteq> '''' \<and> below @ rel \<in> set (split_at CHR 0x00 listing)"
    for rel listing
    by (auto simp: prefix_def)
  have paths: "sorted (cg_paths c)" "distinct (cg_paths c)"
    "set (cg_paths c) = {rel. rel \<noteq> '''' \<and> below @ rel \<in> set (split_at CHR 0x00 diffed) \<union> set (split_at CHR 0x00 untracked)}"
    using listed by (auto simp: c [symmetric] assemble_change_def sorted_compact_def Let_def)
  have lines: "\<forall>rel. map_of (cg_lines c) rel = (if rel \<noteq> '''' \<and> below @ rel \<in> set (split_at CHR 0x00 diffed)
      then Some (ranges_of (changed_lines_of hunks) (below @ rel)) else None)"
    by (simp add: c [symmetric] assemble_change_def Let_def map_of_pairs listed)
  show ?thesis
    using start ran [unfolded m base] paths lines by blast
qed

section \<open>Examples\<close>

text \<open>A hunk whose added lines read like a file header and a hunk header.\<close>

definition tricky_diff :: "file_text list" where
  "tricky_diff = [\<lparr>ft_names = ''a/x.go b/x.go'', ft_extended = [''index 1..2''], ft_sides = Some (''a/x.go'', ''b/x.go''),
     ft_hunks = [\<lparr>hk_old = ''-1'', hk_start = 1, hk_count = 2, hk_short = False, hk_suffix = '''',
       hk_lines = [''-gone'', ''+++ b/y.go'', ''+@@ -1 +7 @@'']\<rparr>]\<rparr>]"

lemma tricky_valid: "valid_diff tricky_diff"
proof -
  have "list_all (\<lambda>l. CHR 0x0A \<notin> set l) (concat (map print_file tricky_diff))" by code_simp
  moreover have "new_path ''b/x.go'' = Some ''x.go''" by code_simp
  then have "list_all valid_file tricky_diff"
    by (simp add: tricky_diff_def valid_file_def valid_hunk_def extended_line_def content_line_def is_space_def)
  ultimately show ?thesis by (simp add: valid_diff_def)
qed

theorem changed_lines_read_back_witness:
  "map_of (changed_lines_of (print_diff tricky_diff)) ''x.go'' = Some [\<lparr>dr_start = 1, dr_end = 2\<rparr>] \<and>
   map_of (changed_lines_of (print_diff tricky_diff)) ''y.go'' = None"
proof -
  have "map_of (diff_lines tricky_diff) ''x.go'' = Some [\<lparr>dr_start = 1, dr_end = 2\<rparr>]"
    "map_of (diff_lines tricky_diff) ''y.go'' = None" by code_simp+
  then show ?thesis by (simp add: changed_lines_read_back [OF tricky_valid])
qed

theorem runner_diff_reads_back_witness:
  "map_of (changed_lines_of (changed_diff [(''a b.go'', [\<lparr>lr_start = 3, lr_end = 4\<rparr>])])) ''a b.go'' =
     Some [\<lparr>dr_start = 3, dr_end = 4\<rparr>]"
proof -
  let ?run = "[(''a b.go'', [\<lparr>lr_start = 3, lr_end = 4\<rparr>])]"
  have "list_all (\<lambda>(name, rs). name \<noteq> '''' \<and> list_all valid_range rs) ?run"
    by (simp add: valid_range_def)
  moreover have "''a b.go'' \<noteq> diff_placeholder" by (simp add: diff_placeholder_def)
  ultimately show ?thesis using runner_diff_reads_back [of ?run "''a b.go''"] by (simp add: as_diff_range_def)
qed

text \<open>Git in a repository whose work tree is the source, with one file of each sort.\<close>

definition sample_git :: git_world where
  "sample_git = \<lparr>gw_run = (\<lambda>n args. Inr
     (if hd args = ''rev-parse'' \<and> hd (tl args) = ''--show-toplevel'' then ''/w''
      else if hd args = ''ls-files'' then ''new.go'' @ [CHR 0x00]
      else if hd args = ''diff'' \<and> hd (tl args) = ''--name-only'' then ''x.go'' @ [CHR 0x00]
      else if hd args = ''diff'' then print_diff tricky_diff else '''')), gw_ctx = (\<lambda>_. None)\<rparr>"

definition sample_change :: changed_paths where
  "sample_change = \<lparr>cg_base_ref = ''main'', cg_base = '''', cg_paths = [''new.go'', ''x.go''],
     cg_lines = [(''x.go'', [\<lparr>dr_start = 1, dr_end = 2\<rparr>])]\<rparr>"

lemma sample_changed: "changed_since sample_git Some ''/w'' ''main'' 0 = (Inr sample_change, 8)"
proof -
  have "map_of (diff_lines tricky_diff) ''x.go'' = Some [\<lparr>dr_start = 1, dr_end = 2\<rparr>]" by code_simp
  then have lines: "ranges_of (changed_lines_of (print_diff tricky_diff)) ''x.go'' = [\<lparr>dr_start = 1, dr_end = 2\<rparr>]"
    using printed_lines [OF tricky_valid] by (simp add: ranges_of_def)
  have run: "git_cmd sample_git args n = (gw_run sample_git n args, Suc n)" for args n
    by (simp add: git_cmd_def sample_git_def)
  have answers: "gw_run sample_git n (''rev-parse'' # ''--show-toplevel'' # rest) = Inr ''/w''"
    "gw_run sample_git n (''ls-files'' # rest) = Inr (''new.go'' @ [CHR 0x00])"
    "gw_run sample_git n (''diff'' # ''--name-only'' # rest) = Inr (''x.go'' @ [CHR 0x00])"
    "gw_run sample_git n (''diff'' # ''--unified=0'' # rest) = Inr (print_diff tricky_diff)" for n rest
    by (simp_all add: sample_git_def)
  have base: "resolve_base sample_git ''main'' 1 = (Inr (''main'', ''''), 5)" by code_simp
  have below: "source_prefix Some (trim_space ''/w'') ''/w'' = Inr ''''" by code_simp
  have listed: "under_prefix '''' (''x.go'' @ [CHR 0x00]) = [''x.go'']" "under_prefix '''' (''new.go'' @ [CHR 0x00]) = [''new.go'']"
    by code_simp+
  have sorted: "sorted_compact [''x.go'', ''new.go''] = [''new.go'', ''x.go'']" by code_simp
  have "assemble_change '''' ''main'' '''' (''x.go'' @ [CHR 0x00]) (''new.go'' @ [CHR 0x00]) (print_diff tricky_diff) = sample_change"
    unfolding assemble_change_def listed Let_def using lines sorted by (simp add: sample_change_def)
  then show ?thesis using base below by (simp add: changed_since_def git_then_def run answers names_args_def untracked_args_def hunks_args_def)
qed

theorem change_lists_files_witness:
  "changed_since sample_git Some ''/w'' ''main'' 0 = (Inr sample_change, Suc (Suc (Suc 5))) \<and> distinct (cg_paths sample_change)"
proof -
  have run: "changed_since sample_git Some ''/w'' ''main'' 0 = (Inr sample_change, Suc (Suc (Suc 5)))"
    using sample_changed by simp
  from change_lists_files [OF run] run show ?thesis by blast
qed

end
