(* ===== verification/Semantic_Diff_Properties.thy ===== *)
theory Semantic_Diff_Properties
  imports Semantic_Diff Git_Change_Properties
begin

text \<open>
  The diff semantic-lint judges is the diff git printed, and it names the same changed lines that the
  mutation check limits itself to, though the two parsers are separate code.
\<close>

section \<open>Hunks\<close>

definition judged_hunk :: "hunk_text \<Rightarrow> bool" where
  "judged_hunk h \<longleftrightarrow> valid_hunk h \<and> hd (hk_old h) = CHR ''-'' \<and> parse_range (tl (hk_old h)) \<noteq> None"

definition hunk_title :: "hunk_text \<Rightarrow> string" where
  "hunk_title h = ''@@ '' @ hk_old h @ '' '' @ new_side h @ '' @@'' @ hk_suffix h"

definition starts_with :: "char \<Rightarrow> string \<Rightarrow> bool" where
  "starts_with c l \<longleftrightarrow> has_prefix l [c]"

definition added_lines :: "string list \<Rightarrow> string list" where
  "added_lines ls = filter (starts_with CHR ''+'') ls"

definition removed_lines :: "string list \<Rightarrow> string list" where
  "removed_lines ls = filter (starts_with CHR ''-'') ls"

definition diff_text :: "string list \<Rightarrow> string" where
  "diff_text ls = concat (map (\<lambda>l. l @ newline) (filter (\<lambda>l. starts_with CHR ''+'' l \<or> starts_with CHR ''-'' l) ls))"

definition opened_hunk :: "hunk_text \<Rightarrow> hunk" where
  "opened_hunk h =
     \<lparr>hn_old_start = fst (the (parse_range (tl (hk_old h)))), hn_old_lines = snd (the (parse_range (tl (hk_old h)))),
      hn_new_start = hk_start h, hn_new_lines = hk_count h, hn_header = trim_space (hk_suffix h),
      hn_diff = hunk_title h @ newline, hn_added = []\<rparr>"

definition read_hunk :: "hunk_text \<Rightarrow> hunk" where
  "read_hunk h = (opened_hunk h)\<lparr>hn_diff := hunk_title h @ newline @ diff_text (hk_lines h),
     hn_added := map tl (added_lines (hk_lines h))\<rparr>"

lemma cut_text_skip:
  "CHR '' '' \<notin> set u \<Longrightarrow>
   cut_text (CHR '' '' # sep) (u @ t) = map_option (\<lambda>(x, y). (u @ x, y)) (cut_text (CHR '' '' # sep) t)"
proof (induction u)
  case Nil
  then show ?case by (cases "cut_text (CHR '' '' # sep) t") auto
next
  case (Cons c u)
  then show ?case by (cases "cut_text (CHR '' '' # sep) t") auto
qed

lemma no_space: "\<forall>c \<in> set s. \<not> is_space c \<Longrightarrow> CHR '' '' \<notin> set s"
  by auto

lemma parse_range_new_side: "valid_hunk h \<Longrightarrow> parse_range (tl (new_side h)) = Some (hk_start h, hk_count h)"
  using hunk_range_new_side [of h]
  by (simp add: parse_range_def hunk_range_def new_side_def cut_prefix_def Let_def split: prod.splits)

lemma hunk_header_parsed:
  assumes "judged_hunk h"
  shows "parse_hunk_header (hunk_title h) = Some (opened_hunk h)"
proof -
  have valid: "valid_hunk h" using assms by (simp add: judged_hunk_def)
  have old: "CHR '' '' \<notin> set (hk_old h)" "hk_old h \<noteq> []"
    using valid by (auto simp: valid_hunk_def list_all_iff)
  obtain new where new: "new_side h = CHR ''+'' # new" by (simp add: new_side_def)
  have plain: "CHR '' '' \<notin> set new" using no_space [OF new_side_word(2) [OF valid]] new by simp
  have "cut_text '' @@'' (hk_old h @ CHR '' '' # new_side h @ '' @@'' @ hk_suffix h) =
      Some (hk_old h @ CHR '' '' # new_side h, hk_suffix h)"
    using cut_text_skip [OF old(1), of "''@@''"] cut_text_skip [OF plain, of "''@@''"] by (simp add: new)
  moreover have "trim_prefix (hunk_title h) ''@@ '' = hk_old h @ CHR '' '' # new_side h @ '' @@'' @ hk_suffix h"
    using cut_prefix_append [of "''@@ ''"] by (simp add: trim_prefix_def hunk_title_def)
  moreover have "cut_text '' +'' (hk_old h @ CHR '' '' # new_side h) = Some (hk_old h, new)"
    using cut_text_skip [OF old(1), of "''+''"] by (simp add: new)
  moreover have "parse_range new = Some (hk_start h, hk_count h)" using parse_range_new_side [OF valid] new by simp
  moreover obtain cs where cs: "hk_old h = CHR ''-'' # cs" using assms old(2) by (cases "hk_old h") (auto simp: judged_hunk_def)
  moreover have "trim_prefix (CHR ''-'' # cs) ''-'' = cs" by (simp add: trim_prefix_def cut_prefix_def)
  moreover obtain a b where "parse_range cs = Some (a, b)" using assms cs by (auto simp: judged_hunk_def)
  ultimately show ?thesis by (simp add: parse_hunk_header_def opened_hunk_def)
qed

section \<open>Reading one file\<close>

lemma content_cases:
  "content_line l \<Longrightarrow> starts_with CHR ''+'' l \<and> \<not> starts_with CHR ''-'' l \<or>
     starts_with CHR ''-'' l \<and> \<not> starts_with CHR ''+'' l \<or> \<not> starts_with CHR ''+'' l \<and> \<not> starts_with CHR ''-'' l"
  by (cases l) (auto simp: content_line_def starts_with_def)

lemma content_not_header:
  assumes "content_line l"
  shows "\<not> has_prefix l ''diff --git ''" "\<not> has_prefix l ''new file mode''" "\<not> has_prefix l ''deleted file mode''"
    "\<not> has_prefix l ''Binary files ''" "\<not> has_prefix l ''@@ ''"
  using assms by (cases l; auto simp: content_line_def)+

lemma parse_content:
  assumes "list_all content_line ls" "ps_saw_hunk s" "ps_current s = Some h"
  shows "foldl (parse_line included) s ls =
    s\<lparr>ps_current := Some (h\<lparr>hn_diff := hn_diff h @ diff_text ls, hn_added := hn_added h @ map tl (added_lines ls)\<rparr>),
      ps_added := ps_added s + length (added_lines ls), ps_removed := ps_removed s + length (removed_lines ls)\<rparr>"
  using assms
proof (induction ls arbitrary: s h)
  case Nil
  then show ?case by (simp add: diff_text_def added_lines_def removed_lines_def)
next
  case (Cons l ls)
  have l: "content_line l" using Cons.prems by simp
  note skip = content_not_header [OF l]
  consider (plus) "starts_with CHR ''+'' l" "\<not> starts_with CHR ''-'' l" | (minus) "starts_with CHR ''-'' l" "\<not> starts_with CHR ''+'' l"
    | (other) "\<not> starts_with CHR ''+'' l" "\<not> starts_with CHR ''-'' l"
    using content_cases [OF l] by blast
  then show ?case
  proof cases
    case plus
    let ?s = "s\<lparr>ps_current := Some (h\<lparr>hn_diff := hn_diff h @ l @ newline, hn_added := hn_added h @ [tl l]\<rparr>), ps_added := Suc (ps_added s)\<rparr>"
    have "parse_line included s l = ?s" using plus skip Cons.prems by (simp add: parse_line_def starts_with_def)
    then show ?thesis
      using Cons.IH [of ?s "h\<lparr>hn_diff := hn_diff h @ l @ newline, hn_added := hn_added h @ [tl l]\<rparr>"] Cons.prems plus
      by (simp add: diff_text_def added_lines_def removed_lines_def)
  next
    case minus
    let ?s = "s\<lparr>ps_current := Some (h\<lparr>hn_diff := hn_diff h @ l @ newline\<rparr>), ps_removed := Suc (ps_removed s)\<rparr>"
    have "parse_line included s l = ?s" using minus skip Cons.prems by (simp add: parse_line_def starts_with_def)
    then show ?thesis using Cons.IH [of ?s "h\<lparr>hn_diff := hn_diff h @ l @ newline\<rparr>"] Cons.prems minus
      by (simp add: diff_text_def added_lines_def removed_lines_def)
  next
    case other
    have "parse_line included s l = s" using other skip Cons.prems by (simp add: parse_line_def starts_with_def)
    then show ?thesis using Cons.IH [of s h] Cons.prems other
      by (simp add: diff_text_def added_lines_def removed_lines_def)
  qed
qed

definition all_hunks :: "parse_state \<Rightarrow> hunk list" where
  "all_hunks s = ps_hunks s @ (case ps_current s of None \<Rightarrow> [] | Some h \<Rightarrow> [h])"

text \<open>What reading hunks keeps of the state, and what it adds.\<close>

definition hunks_read :: "parse_state \<Rightarrow> hunk_text list \<Rightarrow> parse_state \<Rightarrow> bool" where
  "hunks_read s hs t \<longleftrightarrow> ps_files t = ps_files s \<and> ps_path t = ps_path s \<and> ps_status t = ps_status s \<and> ps_binary t = ps_binary s \<and>
     all_hunks t = all_hunks s @ map read_hunk hs \<and>
     ps_added t = ps_added s + length (added_lines (concat (map hk_lines hs))) \<and>
     ps_removed t = ps_removed s + length (removed_lines (concat (map hk_lines hs)))"

lemma parse_hunk:
  assumes "judged_hunk h"
  shows "hunks_read s [h] (foldl (parse_line included) s (print_hunk h))"
proof -
  let ?s = "(close_hunk s)\<lparr>ps_saw_hunk := True, ps_current := Some (opened_hunk h)\<rparr>"
  have "hunk_title h = CHR ''@'' # CHR ''@'' # CHR '' '' # hk_old h @ '' '' @ new_side h @ '' @@'' @ hk_suffix h"
    by (simp add: hunk_title_def)
  then have "parse_line included s (hunk_title h) = ?s"
    unfolding parse_line_def using hunk_header_parsed [OF assms] by simp
  moreover have "list_all content_line (hk_lines h)" using assms by (simp add: judged_hunk_def valid_hunk_def)
  moreover have "print_hunk h = hunk_title h # hk_lines h" by (simp add: print_hunk_def hunk_title_def)
  ultimately have "foldl (parse_line included) s (print_hunk h) =
      ?s\<lparr>ps_current := Some (read_hunk h), ps_added := ps_added s + length (added_lines (hk_lines h)),
        ps_removed := ps_removed s + length (removed_lines (hk_lines h))\<rparr>"
    using parse_content [of "hk_lines h" ?s "opened_hunk h" included]
    by (simp add: read_hunk_def opened_hunk_def close_hunk_def split: option.split)
  then show ?thesis by (simp add: hunks_read_def all_hunks_def close_hunk_def split: option.split)
qed

lemma parse_hunks:
  "list_all judged_hunk hs \<Longrightarrow> hunks_read s hs (foldl (parse_line included) s (concat (map print_hunk hs)))"
proof (induction hs arbitrary: s)
  case Nil
  then show ?case by (simp add: hunks_read_def added_lines_def removed_lines_def)
next
  case (Cons h hs)
  then show ?case
    using parse_hunk [of h s included] Cons.IH [of "foldl (parse_line included) s (print_hunk h)"]
    by (simp add: hunks_read_def added_lines_def removed_lines_def)
qed

section \<open>Files\<close>

definition plain_extended :: "string \<Rightarrow> bool" where
  "plain_extended l \<longleftrightarrow> list_all (\<lambda>p. \<not> has_prefix l p) [''diff --git '', ''--- '', ''+++ '', ''@@ '', ''Binary files '']"

definition status_step :: "file_status \<Rightarrow> string \<Rightarrow> file_status" where
  "status_step st l = (if has_prefix l ''new file mode'' then FileAdded else if has_prefix l ''deleted file mode'' then FileDeleted else st)"

definition status_of :: "file_text \<Rightarrow> file_status" where
  "status_of f = foldl status_step FileModified (ft_extended f)"

definition side_path :: "string \<Rightarrow> string \<Rightarrow> string option" where
  "side_path side text = (let name = header_name text in if name = ''/dev/null'' then None else Some (trim_prefix name side))"

definition judged_path :: "string \<Rightarrow> string \<Rightarrow> string" where
  "judged_path old new = (case side_path ''b/'' new of Some path \<Rightarrow> path
     | None \<Rightarrow> (case side_path ''a/'' old of Some path \<Rightarrow> path | None \<Rightarrow> ''''))"

definition judged_file :: "file_text \<Rightarrow> bool" where
  "judged_file f \<longleftrightarrow> list_all plain_extended (ft_extended f) \<and> list_all judged_hunk (ft_hunks f)"

definition judged_diff :: "file_text list \<Rightarrow> bool" where
  "judged_diff fs \<longleftrightarrow> list_all judged_file fs \<and>
     list_all (\<lambda>l. CHR 0x0A \<notin> set l \<and> \<not> has_suffix l [CHR 0x0D]) (concat (map print_file fs))"

definition read_file :: "(string \<Rightarrow> bool) \<Rightarrow> file_text \<Rightarrow> file_change list" where
  "read_file included f =
     (case ft_sides f of
        None \<Rightarrow> []
      | Some (old, new) \<Rightarrow>
          let path = judged_path old new; ls = concat (map hk_lines (ft_hunks f)) in
          if path \<noteq> '''' \<and> included path \<and> (ft_hunks f \<noteq> [] \<or> status_of f = FileDeleted)
          then [\<lparr>fc_path = path, fc_kind = classify path, fc_status = status_of f, fc_hunks = map read_hunk (ft_hunks f),
             fc_added = length (added_lines ls), fc_removed = length (removed_lines ls)\<rparr>]
          else [])"

definition fresh :: "file_change list \<Rightarrow> parse_state" where
  "fresh files = \<lparr>ps_files = files, ps_path = '''', ps_status = FileModified, ps_hunks = [], ps_added = 0, ps_removed = 0,
     ps_current = None, ps_binary = False, ps_saw_hunk = False\<rparr>"

lemma flush_fresh: "flush_file included s = fresh (ps_files (flush_file included s))"
  by (simp add: flush_file_def fresh_def Let_def)

lemma flush_files:
  "ps_files (flush_file included s) = ps_files s @
     (if ps_path s \<noteq> '''' \<and> \<not> ps_binary s \<and> included (ps_path s) \<and> (all_hunks s \<noteq> [] \<or> ps_status s = FileDeleted)
      then [\<lparr>fc_path = ps_path s, fc_kind = classify (ps_path s), fc_status = ps_status s, fc_hunks = all_hunks s,
        fc_added = ps_added s, fc_removed = ps_removed s\<rparr>] else [])"
  by (auto simp: flush_file_def close_hunk_def all_hunks_def Let_def split: option.split)

lemma parse_extended:
  "list_all plain_extended ls \<Longrightarrow> ps_current s = None \<Longrightarrow>
   foldl (parse_line included) s ls = s\<lparr>ps_status := foldl status_step (ps_status s) ls\<rparr>"
proof (induction ls arbitrary: s)
  case (Cons l ls)
  have "parse_line included s l = s\<lparr>ps_status := status_step (ps_status s) l\<rparr>"
    using Cons.prems by (simp add: parse_line_def plain_extended_def status_step_def)
  then show ?case using Cons by simp
qed simp

lemma parse_sides:
  assumes "\<not> ps_saw_hunk s" "ps_path s = ''''"
  shows "parse_line included (parse_line included s (''--- '' @ old)) (''+++ '' @ new) = s\<lparr>ps_path := judged_path old new\<rparr>"
proof -
  have trim: "trim_prefix (''--- '' @ old) ''--- '' = old" "trim_prefix (''+++ '' @ new) ''+++ '' = new"
    using cut_prefix_append [of "''--- ''" old] cut_prefix_append [of "''+++ ''" new] by (simp_all add: trim_prefix_def)
  have old: "parse_line included s (''--- '' @ old) =
      s\<lparr>ps_path := (case side_path ''a/'' old of Some path \<Rightarrow> path | None \<Rightarrow> '''')\<rparr>" (is "_ = ?s")
    using assms trim(1) by (simp add: parse_line_def diff_path_def side_path_def Let_def)
  have "parse_line included ?s (''+++ '' @ new) = s\<lparr>ps_path := judged_path old new\<rparr>"
    using assms trim(2) by (simp add: parse_line_def diff_path_def side_path_def judged_path_def Let_def)
  then show ?thesis unfolding old .
qed

lemma parse_file:
  assumes "judged_file f"
  shows "ps_files (flush_file included (foldl (parse_line included) s (print_file f))) =
    ps_files (flush_file included s) @ read_file included f"
proof -
  let ?fold = "foldl (parse_line included)" and ?files = "ps_files (flush_file included s)"
  have start: "parse_line included s (''diff --git '' @ ft_names f) = fresh ?files"
    unfolding parse_line_def using flush_fresh [of included s] by simp
  have ext: "?fold (fresh ?files) (ft_extended f) = (fresh ?files)\<lparr>ps_status := status_of f\<rparr>"
    using parse_extended [of "ft_extended f" "fresh ?files" included] assms
    by (simp add: judged_file_def status_of_def fresh_def)
  show ?thesis
  proof (cases "ft_sides f")
    case None
    have "?fold s (print_file f) = (fresh ?files)\<lparr>ps_status := status_of f\<rparr>" using None start ext by (simp add: print_file_def)
    then show ?thesis using None by (simp add: flush_files read_file_def fresh_def)
  next
    case (Some sides)
    then obtain old new where sides: "ft_sides f = Some (old, new)" by (cases sides) auto
    let ?s = "(fresh ?files)\<lparr>ps_status := status_of f, ps_path := judged_path old new\<rparr>"
    have "?fold s (print_file f) = ?fold ?s (concat (map print_hunk (ft_hunks f)))"
      using start ext parse_sides [of "(fresh ?files)\<lparr>ps_status := status_of f\<rparr>" included old new]
      by (simp add: print_file_def sides fresh_def)
    moreover have "hunks_read ?s (ft_hunks f) (?fold ?s (concat (map print_hunk (ft_hunks f))))"
      using assms parse_hunks by (simp add: judged_file_def)
    ultimately have hunks: "hunks_read ?s (ft_hunks f) (?fold s (print_file f))" by simp
    define t where "t = ?fold s (print_file f)"
    have all: "all_hunks ?s = []" by (simp add: all_hunks_def fresh_def)
    have t: "ps_files t = ?files" "ps_path t = judged_path old new" "ps_status t = status_of f" "\<not> ps_binary t"
      "all_hunks t = map read_hunk (ft_hunks f)"
      "ps_added t = length (added_lines (concat (map hk_lines (ft_hunks f))))"
      "ps_removed t = length (removed_lines (concat (map hk_lines (ft_hunks f))))"
      using hunks unfolding hunks_read_def all t_def [symmetric] by (simp_all add: fresh_def)
    show ?thesis unfolding t_def [symmetric] flush_files [of included t] by (simp add: t read_file_def sides Let_def)
  qed
qed

lemma parse_files:
  "list_all judged_file fs \<Longrightarrow>
   ps_files (flush_file included (foldl (parse_line included) s (concat (map print_file fs)))) =
     ps_files (flush_file included s) @ concat (map (read_file included) fs)"
  by (induction fs arbitrary: s) (simp_all add: parse_file)

lemma parse_line_empty: "ps_saw_hunk s \<Longrightarrow> parse_line included s '''' = s" "parse_line included s '''' = s"
  by (simp_all add: parse_line_def split: option.split)

lemma scan_printed:
  assumes "list_all (\<lambda>l. CHR 0x0A \<notin> set l \<and> \<not> has_suffix l [CHR 0x0D]) ls"
  shows "scan_lines (concat (map (\<lambda>l. l @ newline) ls)) = ls @ [[]]"
proof -
  have "list_all (\<lambda>l. CHR 0x0A \<notin> set l) ls" using assms by (simp add: list_all_iff)
  then have "scan_lines (concat (map (\<lambda>l. l @ newline) ls)) = map (\<lambda>l. trim_suffix l [CHR 0x0D]) (ls @ [[]])"
    by (simp add: scan_lines_def split_lines)
  also have "\<dots> = ls @ [[]]"
    using assms by (auto simp: list_all_iff trim_suffix_def cut_suffix_def intro: map_idI)
  finally show ?thesis .
qed

lemma parsed_diff:
  assumes "judged_diff fs"
  shows "parse_diff included (print_diff fs) = concat (map (read_file included) fs)"
proof -
  have "scan_lines (print_diff fs) = concat (map print_file fs) @ [[]]"
    using assms scan_printed by (simp add: print_diff_def judged_diff_def)
  moreover have "ps_files (flush_file included parse_init) = []" by (simp add: flush_file_def parse_init_def close_hunk_def Let_def)
  ultimately show ?thesis
    using parse_files [of fs included parse_init] assms by (simp add: parse_diff_def parse_line_empty judged_diff_def)
qed


section \<open>The two readers of a diff\<close>

text \<open>A diff without deleted files, as the mutation check asks git for: each file with text has a new side.\<close>

definition kept_files :: "file_text list \<Rightarrow> bool" where
  "kept_files fs \<longleftrightarrow> list_all (\<lambda>f. case ft_sides f of None \<Rightarrow> True
     | Some (old, new) \<Rightarrow> (case new_path new of None \<Rightarrow> False | Some path \<Rightarrow> path \<noteq> '''')) fs"

definition hunk_ranges :: "hunk list \<Rightarrow> diff_range list" where
  "hunk_ranges hs = map (\<lambda>h. \<lparr>dr_start = hn_new_start h, dr_end = hn_new_start h + hn_new_lines h - 1\<rparr>)
     (filter (\<lambda>h. hn_new_lines h > 0) hs)"

lemma hunk_ranges_read: "hunk_ranges (map read_hunk hs) = hunk_lines hs"
  by (induction hs) (simp_all add: hunk_ranges_def hunk_lines_def read_hunk_def opened_hunk_def)

lemma judged_path_new: "new_path new = Some path \<Longrightarrow> judged_path old new = path"
  by (auto simp: new_path_def judged_path_def side_path_def trim_prefix_def Let_def cut_prefix_True split: prod.splits bool.splits)

lemma judged_valid:
  assumes "judged_diff fs" "kept_files fs"
  shows "valid_diff fs"
proof -
  have "valid_file f" if "f \<in> set fs" for f
  proof -
    have "judged_file f" using assms(1) that by (simp add: judged_diff_def list_all_iff)
    moreover have "case ft_sides f of None \<Rightarrow> True | Some (old, new) \<Rightarrow> new_path new \<noteq> Some ''''"
      using assms(2) that by (auto simp: kept_files_def list_all_iff split: option.splits)
    ultimately show ?thesis
      by (auto simp: judged_file_def valid_file_def list_all_iff plain_extended_def extended_line_def judged_hunk_def)
  qed
  then show ?thesis using assms(1) by (auto simp: valid_diff_def judged_diff_def list_all_iff)
qed

text \<open>The two checks of a change agree on what it wrote: on a diff without deleted files, the lines the mutation
  check is limited to in a file semantic-lint judges are the new lines of the hunks it judges.\<close>

theorem readers_agree_on_lines:
  assumes "judged_diff fs" "kept_files fs" "distinct (map fst (diff_lines fs))"
    and "c \<in> set (parse_diff included (print_diff fs))"
  shows "map_of (changed_lines_of (print_diff fs)) (fc_path c) = Some (hunk_ranges (fc_hunks c))"
proof -
  from assms(4) obtain f where f: "f \<in> set fs" "c \<in> set (read_file included f)"
    by (auto simp: parsed_diff [OF assms(1)])
  have "ft_sides f \<noteq> None" using f(2) by (cases "ft_sides f") (simp_all add: read_file_def)
  then obtain old new where sides: "ft_sides f = Some (old, new)" by auto
  obtain path where path: "new_path new = Some path"
    using assms(2) f(1) sides by (auto simp: kept_files_def list_all_iff split: option.splits)
  have c: "fc_path c = path" "fc_hunks c = map read_hunk (ft_hunks f)"
    using f(2) judged_path_new [OF path, of old] by (auto simp: read_file_def sides Let_def split: if_splits)
  have "(path, hunk_lines (ft_hunks f)) \<in> set (file_lines f)" by (simp add: file_lines_def sides path)
  then have "(path, hunk_lines (ft_hunks f)) \<in> set (diff_lines fs)" using f(1) by (auto simp: diff_lines_def)
  then have "map_of (diff_lines fs) path = Some (hunk_lines (ft_hunks f))" using assms(3) by simp
  then show ?thesis using printed_lines [OF judged_valid [OF assms(1,2)]] c by (simp add: hunk_ranges_read)
qed

section \<open>An example\<close>

lemma tricky_judged: "judged_diff tricky_diff"
proof -
  have "list_all (\<lambda>l. CHR 0x0A \<notin> set l \<and> \<not> has_suffix l [CHR 0x0D]) (concat (map print_file tricky_diff))" by code_simp
  moreover have "parse_range ''1'' \<noteq> None"
    by (simp add: parse_range_def cut_at_def atoi_def is_digit_def less_eq_char_def digits_value_def digit_value_def)
  then have "list_all judged_file tricky_diff"
    by (simp add: tricky_diff_def judged_file_def judged_hunk_def valid_hunk_def plain_extended_def content_line_def is_space_def)
  ultimately show ?thesis by (simp add: judged_diff_def)
qed

lemma tricky_read: "map fc_path (concat (map (read_file (\<lambda>_. True)) tricky_diff)) = [''x.go'']"
proof -
  have "judged_path ''a/x.go'' ''b/x.go'' = ''x.go''" by code_simp
  then show ?thesis by (simp add: tricky_diff_def read_file_def Let_def)
qed


theorem readers_agree_on_lines_witness:
  "list_ex (\<lambda>c. map_of (changed_lines_of (print_diff tricky_diff)) (fc_path c) = Some (hunk_ranges (fc_hunks c)))
     (parse_diff (\<lambda>_. True) (print_diff tricky_diff))"
proof -
  have "new_path ''b/x.go'' = Some ''x.go''" by code_simp
  then have kept: "kept_files tricky_diff" and apart: "distinct (map fst (diff_lines tricky_diff))"
    by (simp_all add: kept_files_def tricky_diff_def diff_lines_def file_lines_def)
  have "map fc_path (parse_diff (\<lambda>_. True) (print_diff tricky_diff)) = [''x.go'']"
    using tricky_read by (simp only: parsed_diff [OF tricky_judged])
  then obtain c where "c \<in> set (parse_diff (\<lambda>_. True) (print_diff tricky_diff))"
    by (cases "parse_diff (\<lambda>_. True) (print_diff tricky_diff)") auto
  then show ?thesis
    using readers_agree_on_lines [OF tricky_judged kept apart] by (auto simp: list_ex_iff)
qed

end
