(* ===== verification/Semantic_State.thy ===== *)
theory Semantic_State
  imports Semantic_Diff Go_Json
begin

text \<open>
  What semantic-lint preselects from a change: \<open>internal/semantic\<close> gostate.go and docstate.go. A Go file
  is what \<open>go/parser\<close> finds in it, reduced to what the source reads of the tree: lines, names and texts,
  with the statements and calls of a body in the order of \<open>ast.Inspect\<close>. \<open>None\<close> is a panic of the source:
  an index outside a slice.
\<close>

section \<open>Truncation\<close>

definition truncation_marker :: string where
  "truncation_marker = newline @ ''... [truncated]''"

fun rune_boundary_below :: "string \<Rightarrow> nat \<Rightarrow> nat" where
  "rune_boundary_below text 0 = 0"
| "rune_boundary_below text (Suc i) = (if rune_start (text ! Suc i) then Suc i else rune_boundary_below text i)"

definition rune_boundary :: "string \<Rightarrow> nat \<Rightarrow> nat" where
  "rune_boundary text index = (if index \<ge> length text then length text else rune_boundary_below text index)"

definition truncate_text :: "string \<Rightarrow> nat \<Rightarrow> string" where
  "truncate_text text limit =
     (if length text \<le> limit + length truncation_marker then text
      else take (rune_boundary text limit) text @ truncation_marker)"

section \<open>Go files\<close>

datatype type_expr = StarExpr type_expr | Ident string | IndexExpr type_expr | IndexListExpr type_expr | OtherExpr

datatype spec = TypeSpec string | ValueSpec "string list" | ImportSpec

text \<open>A statement with whether it is a block; a call with the package and name of a selector on an identifier.\<close>

record statement =
  sm_block :: bool
  sm_start :: int
  sm_end :: int

record call =
  cl_fun :: "(string \<times> string) option"
  cl_start :: int
  cl_end :: int

record func_body =
  fb_open :: int
  fb_nodes :: "statement list"
  fb_calls :: "call list"

datatype decl_kind =
    FuncDecl (fn_recv: "type_expr option") (fn_name: string) (fn_body: "func_body option")
  | GenDecl string "spec list"
  | BadDecl

text \<open>\<open>dc_doc\<close> is the line its doc comment begins on and the text of the first comment in it.\<close>

record decl =
  dc_kind :: decl_kind
  dc_start :: int
  dc_end :: int
  dc_doc :: "(int \<times> string) option"

text \<open>\<open>cg_doc\<close> says that the group documents a declaration, a specification or a field (\<open>docComments\<close>).\<close>

record comment_group =
  cg_first :: int
  cg_last :: int
  cg_doc :: bool
  cg_head :: string
  cg_text :: string

record parsed_file =
  pf_generated :: bool
  pf_decls :: "decl list"
  pf_comments :: "comment_group list"

record go_file =
  gf_parsed :: parsed_file
  gf_lines :: "string list"
  gf_added :: "int \<Rightarrow> bool"

definition added_line :: "hunk list \<Rightarrow> int \<Rightarrow> bool" where
  "added_line hunks line \<longleftrightarrow> list_ex (\<lambda>h. hn_new_start h \<le> line \<and> line < hn_new_start h + hn_new_lines h) hunks"

definition decl_span :: "decl \<Rightarrow> int \<times> int" where
  "decl_span d = ((case dc_doc d of Some (line, head) \<Rightarrow> line | None \<Rightarrow> dc_start d), dc_end d)"

definition touched :: "go_file \<Rightarrow> int \<Rightarrow> int \<Rightarrow> bool" where
  "touched f start stop \<longleftrightarrow> list_ex (gf_added f) [start..stop]"

definition file_text_between :: "go_file \<Rightarrow> int \<Rightarrow> int \<Rightarrow> string" where
  "file_text_between f start0 last0 =
     (let start = max start0 1; stop = min last0 (int (length (gf_lines f))) in
      if start > stop then ''''
      else join_with newline (take (nat (stop - start + 1)) (drop (nat (start - 1)) (gf_lines f))))"

fun receiver_name :: "type_expr \<Rightarrow> string" where
  "receiver_name (StarExpr t) = receiver_name t"
| "receiver_name (Ident name) = name"
| "receiver_name (IndexExpr t) = receiver_name t"
| "receiver_name (IndexListExpr t) = receiver_name t"
| "receiver_name OtherExpr = ''?''"

fun spec_names :: "spec \<Rightarrow> string list" where
  "spec_names (TypeSpec name) = [name]"
| "spec_names (ValueSpec names) = names"
| "spec_names ImportSpec = []"

fun decl_symbol :: "decl_kind \<Rightarrow> string" where
  "decl_symbol (FuncDecl recv name body) =
     (case recv of Some t \<Rightarrow> receiver_name t @ ''.'' @ name | None \<Rightarrow> name)"
| "decl_symbol (GenDecl tok specs) =
     (let names = concat (map spec_names specs) in
      if names = [] then tok
      else join_with '','' (if length names > 3 then take 3 names @ [''...''] else names))"
| "decl_symbol BadDecl = ''''"

definition directive :: "string \<Rightarrow> bool" where
  "directive text \<longleftrightarrow> list_ex (has_prefix text) [''//go:'', ''//lint:'', ''//nolint'', ''//levenshtein:'', ''//line '']"

section \<open>Items\<close>

record comment_item =
  ci_comment :: string
  ci_code :: string
  ci_line :: int

record error_item =
  ei_call :: string
  ei_function :: string
  ei_line :: int

definition max_after_chars :: nat where "max_after_chars = 30000"
definition max_diff_chars :: nat where "max_diff_chars = 30000"
definition max_item_chars :: nat where "max_item_chars = 6000"
definition max_code_lines :: int where "max_code_lines = 12"
definition max_neighbours :: nat where "max_neighbours = 80"

definition body_statements :: "decl_kind \<Rightarrow> statement list" where
  "body_statements k =
     (case k of FuncDecl recv name (Some body) \<Rightarrow> filter (\<lambda>s. \<not> sm_block s) (fb_nodes body) | _ \<Rightarrow> [])"

definition pick_trailing :: "int \<Rightarrow> statement option \<Rightarrow> statement \<Rightarrow> statement option" where
  "pick_trailing first best s =
     (if sm_start s \<le> first \<and> sm_end s \<ge> first \<and> sm_start s \<noteq> first + 1
      then (case best of
              None \<Rightarrow> Some s
            | Some b \<Rightarrow> if sm_end b - sm_start b > sm_end s - sm_start s then Some s else Some b)
      else best)"

definition pick_leading :: "int \<Rightarrow> statement option \<Rightarrow> statement \<Rightarrow> statement option" where
  "pick_leading stop best s =
     (if sm_start s = stop + 1
      then (case best of None \<Rightarrow> Some s | Some b \<Rightarrow> if sm_end s > sm_end b then Some s else Some b)
      else best)"

definition attached_code :: "go_file \<Rightarrow> statement list \<Rightarrow> int \<Rightarrow> int \<Rightarrow> string" where
  "attached_code f statements first stop =
     (let trailing = foldl (pick_trailing first) None statements;
          leading = foldl (pick_leading stop) None statements
      in case (if leading = None then trailing else leading) of
           None \<Rightarrow> file_text_between f (stop + 1) (stop + 3)
         | Some s \<Rightarrow>
             file_text_between f (sm_start s)
               (if sm_end s - sm_start s + 1 > max_code_lines then sm_start s + max_code_lines - 1 else sm_end s))"

definition comment_items :: "go_file \<Rightarrow> decl \<Rightarrow> int \<Rightarrow> int \<Rightarrow> comment_item list" where
  "comment_items f d start stop =
     concat (map (\<lambda>g.
       if cg_first g < start \<or> cg_last g > stop \<or> cg_doc g \<or> directive (cg_head g) then []
       else if \<not> touched f (cg_first g) (cg_last g) then []
       else
         let code = attached_code f (body_statements (dc_kind d)) (cg_first g) (cg_last g) in
         if code = '''' then []
         else [\<lparr>ci_comment = trim_space (cg_text g), ci_code = truncate_text code max_item_chars, ci_line = cg_first g\<rparr>])
       (pf_comments (gf_parsed f)))"

definition error_constructors :: "string list" where
  "error_constructors = [''fmt.Errorf'', ''errors.New'']"

definition error_constructor :: "string \<Rightarrow> string \<Rightarrow> bool" where
  "error_constructor pkg name \<longleftrightarrow> pkg @ ''.'' @ name \<in> set error_constructors"

definition error_items :: "go_file \<Rightarrow> decl \<Rightarrow> error_item list" where
  "error_items f d =
     (case dc_kind d of
        FuncDecl recv name (Some body) \<Rightarrow>
          map (\<lambda>c. \<lparr>ei_call = truncate_text (file_text_between f (cl_start c) (cl_end c)) max_item_chars,
              ei_function = decl_symbol (dc_kind d), ei_line = cl_start c\<rparr>)
            (filter (\<lambda>c. gf_added f (cl_start c) \<and>
               (case cl_fun c of Some (pkg, sel) \<Rightarrow> error_constructor pkg sel | None \<Rightarrow> False)) (fb_calls body))
      | _ \<Rightarrow> [])"

section \<open>Units\<close>

record go_unit =
  gu_path :: string
  gu_symbol :: string
  gu_line :: int
  gu_after :: string
  gu_diff :: string
  gu_added_lines :: nat
  gu_comments :: "comment_item list"
  gu_errors :: "error_item list"
  gu_new :: bool
  gu_is_func :: bool

definition hunk_within :: "hunk \<Rightarrow> int \<Rightarrow> int \<Rightarrow> string" where
  "hunk_within h start stop =
     (let end = hn_new_start h + hn_new_lines h - 1 in
      if hn_new_lines h = 0 \<or> hn_new_start h > stop \<or> end < start then ''''
      else if hn_new_start h \<ge> start \<and> end \<le> stop \<or> int (length (hn_added h)) \<noteq> hn_new_lines h then hn_diff h
      else
        let first = max (hn_new_start h) start; till = min end stop in
        ''@@ +'' @ show_int first @ '','' @ show_int (till - first + 1) @ '' @@ '' @ hn_header h @ newline @
        concat (map (\<lambda>line. ''+'' @ hn_added h ! nat (line - hn_new_start h) @ newline) [first..till]))"

definition unit_diff :: "hunk list \<Rightarrow> int \<Rightarrow> int \<Rightarrow> string" where
  "unit_diff hunks start stop = concat (map (\<lambda>h. hunk_within h start stop) hunks)"

definition import_decl :: "decl \<Rightarrow> bool" where
  "import_decl d = (case dc_kind d of GenDecl tok specs \<Rightarrow> tok = ''import'' | _ \<Rightarrow> False)"

definition is_func_decl :: "decl_kind \<Rightarrow> bool" where
  "is_func_decl k = (case k of FuncDecl recv name body \<Rightarrow> True | _ \<Rightarrow> False)"

definition go_unit_of :: "go_file \<Rightarrow> string \<Rightarrow> hunk list \<Rightarrow> decl \<Rightarrow> go_unit" where
  "go_unit_of f path hunks d =
     (let (start, stop) = decl_span d in
      \<lparr>gu_path = path, gu_symbol = decl_symbol (dc_kind d), gu_line = start,
       gu_after = truncate_text (file_text_between f start stop) max_after_chars,
       gu_diff = truncate_text (unit_diff hunks start stop) max_diff_chars,
       gu_added_lines = length (filter (gf_added f) [start..stop]),
       gu_comments = comment_items f d start stop, gu_errors = error_items f d,
       gu_new = gf_added f (dc_start d), gu_is_func = is_func_decl (dc_kind d)\<rparr>)"

definition go_units :: "parsed_file option \<Rightarrow> string \<Rightarrow> string \<Rightarrow> hunk list \<Rightarrow> go_unit list" where
  "go_units parsed path src hunks =
     (case parsed of
        None \<Rightarrow> []
      | Some p \<Rightarrow>
          if pf_generated p then []
          else
            let f = \<lparr>gf_parsed = p, gf_lines = split_at CHR 0x0A src, gf_added = added_line hunks\<rparr> in
            map (go_unit_of f path hunks)
              (filter (\<lambda>d. \<not> import_decl d \<and> (case decl_span d of (start, stop) \<Rightarrow> touched f start stop)) (pf_decls p)))"

text \<open>
  \<open>packageFunctions\<close>: the entries of the directory that could be read, each with its content and what parses
  of it. A signature ends where the body begins.
\<close>

record dir_file =
  df_name :: string
  df_is_dir :: bool
  df_src :: "string option"
  df_parsed :: "parsed_file option"

definition signature :: "string list \<Rightarrow> decl \<Rightarrow> string" where
  "signature lines d =
     (let stop = (case fn_body (dc_kind d) of Some body \<Rightarrow> fb_open body | None \<Rightarrow> dc_end d);
          text = join_with '' '' (take (nat (stop - dc_start d + 1)) (drop (nat (dc_start d - 1)) lines))
      in trim_space (trim_suffix text ''{'') @
         (case dc_doc d of Some (line, head) \<Rightarrow> ''  '' @ trim_space head | None \<Rightarrow> ''''))"

definition file_signatures :: "string \<Rightarrow> bool \<Rightarrow> string list \<Rightarrow> dir_file \<Rightarrow> string list" where
  "file_signatures current is_test exclude e =
     (if df_is_dir e \<or> \<not> has_suffix (df_name e) ''.go'' \<or> \<not> is_test \<and> has_suffix (df_name e) ''_test.go'' then []
      else (case (df_src e, df_parsed e) of
        (Some src, Some p) \<Rightarrow>
          if pf_generated p then []
          else map (signature (split_at CHR 0x0A src))
            (filter (\<lambda>d. is_func_decl (dc_kind d) \<and>
               \<not> (df_name e = base_name current \<and> decl_symbol (dc_kind d) \<in> set exclude)) (pf_decls p))
      | _ \<Rightarrow> []))"

definition package_functions :: "dir_file list option \<Rightarrow> string \<Rightarrow> bool \<Rightarrow> string list \<Rightarrow> string list" where
  "package_functions entries current is_test exclude =
     (case entries of
        None \<Rightarrow> []
      | Some es \<Rightarrow> take max_neighbours (sort (concat (map (file_signatures current is_test exclude) es))))"

section \<open>Markdown\<close>

record sentence_item =
  si_sentence :: string
  si_line :: int

record doc_unit =
  du_path :: string
  du_line :: int
  du_diff :: string
  du_after :: string
  du_prose :: bool
  du_sentences :: "sentence_item list"

definition max_section_lines :: int where "max_section_lines = 120"
definition max_section_chars :: nat where "max_section_chars = 12000"

definition heading_line :: "string \<Rightarrow> bool" where
  "heading_line s \<longleftrightarrow>
     (let hashes = length (takeWhile (\<lambda>c. c = CHR ''#'') s) in
      1 \<le> hashes \<and> hashes \<le> 6 \<and> (case drop hashes s of [] \<Rightarrow> False | c # rest \<Rightarrow> rx_space c))"

definition absolute_words :: "string list" where
  "absolute_words = [''always'', ''never'', ''cannot'', ''can'' @ [CHR 0x27] @ ''t'', ''guarantee'', ''guarantees'',
     ''guaranteed'', ''complete'', ''completely'', ''immutable'', ''impossible'']"

text \<open>
  A word at the start of a text without regard to case, and what follows it; the letter s also stands for
  the long s, as in Unicode case folding.
\<close>

fun fold_prefix :: "string \<Rightarrow> string \<Rightarrow> string option" where
  "fold_prefix [] s = Some s"
| "fold_prefix (w # ws) [] = None"
| "fold_prefix (w # ws) (c # s) =
     (if lower_char c = w then fold_prefix ws s
      else if w = CHR ''s'' \<and> c = CHR 0xC5 \<and> has_prefix s [CHR 0xBF] then fold_prefix ws (tl s)
      else None)"

definition word_at :: "string \<Rightarrow> bool" where
  "word_at s = (case s of [] \<Rightarrow> False | c # rest \<Rightarrow> word_char c)"

text \<open>
  \<open>absoluteWord\<close> at the start of \<open>s\<close>, where \<open>before\<close> says whether a word character precedes it. A word ends at
  a boundary: the character before it is a word character unless the word ends in a long s.
\<close>

definition boundary_after :: "string \<Rightarrow> string \<Rightarrow> bool" where
  "boundary_after s rest \<longleftrightarrow> word_char (last (take (length s - length rest) s)) \<noteq> word_at rest"

fun absolute_word :: "bool \<Rightarrow> string \<Rightarrow> bool" where
  "absolute_word before [] \<longleftrightarrow> False"
| "absolute_word before (c # s) \<longleftrightarrow>
     before \<noteq> word_char c \<and>
       list_ex (\<lambda>w. case fold_prefix w (c # s) of Some rest \<Rightarrow> boundary_after (c # s) rest | None \<Rightarrow> False) absolute_words
     \<or> absolute_word (word_char c) s"

text \<open>\<open>fenceState\<close>\<close>

fun fence_state :: "bool \<Rightarrow> string list \<Rightarrow> bool list" where
  "fence_state open [] = []"
| "fence_state open (l # ls) =
     (let t = trim_space l in
      if has_prefix t ''```'' \<or> has_prefix t ''~~~'' then True # fence_state (\<not> open) ls
      else open # fence_state open ls)"

fun split_sentences_from :: "string \<Rightarrow> string \<Rightarrow> string list" where
  "split_sentences_from seen [] = (let rest = trim_space seen in if rest = '''' then [] else [rest])"
| "split_sentences_from seen (c # s) =
     (if c \<in> {CHR ''.'', CHR ''!'', CHR ''?''} \<and> (s = [] \<or> hd s = CHR '' '')
      then (let sentence = trim_space (seen @ [c]) in if sentence = '''' then [] else [sentence]) @ split_sentences_from [] s
      else split_sentences_from (seen @ [c]) s)"

definition split_sentences :: "string \<Rightarrow> string list" where
  "split_sentences text = split_sentences_from [] (scrub text)"

text \<open>\<open>section\<close>: the loops that look for the heading before and after the hunk.\<close>

function section_start :: "string list \<Rightarrow> int \<Rightarrow> int option" where
  "section_start lines start =
     (if start \<le> 1 then Some start
      else if start - 2 \<ge> int (length lines) then None
      else if heading_line (lines ! nat (start - 2)) then Some start
      else section_start lines (start - 1))"
  by pat_completeness auto
termination
  by (relation "measure (\<lambda>(_, start). nat start)") auto

declare section_start.simps [simp del]

function section_end :: "string list \<Rightarrow> int \<Rightarrow> int option" where
  "section_end lines end =
     (if end \<ge> int (length lines) then Some end
      else if end < 0 then None
      else if heading_line (lines ! nat end) then Some end
      else section_end lines (end + 1))"
  by pat_completeness auto
termination
  by (relation "measure (\<lambda>(lines, end). nat (int (length lines) - end))") auto

declare section_end.simps [simp del]

definition narrow_section :: "int \<Rightarrow> int \<Rightarrow> int \<Rightarrow> int \<Rightarrow> int \<times> int" where
  "narrow_section first stop start end =
     (if end - start + 1 > max_section_lines then
        (let span = max_section_lines - (stop - first + 1);
             margin = max (if span < 0 then - ((- span) div 2) else span div 2) 5
         in (if first - margin > start then first - margin else start, if stop + margin < end then stop + margin else end))
      else (start, end))"

definition doc_section :: "string list \<Rightarrow> int \<Rightarrow> int \<Rightarrow> string option" where
  "doc_section lines first stop =
     (case (section_start lines first, section_end lines stop) of
        (Some start0, Some end0) \<Rightarrow>
          (let start1 = (if start0 > 1 then start0 - 1 else start0);
               (start2, end1) = narrow_section first stop start1 end0;
               start = max start2 1; end = min end1 (int (length lines))
           in if start - 1 > end \<or> end < 0 then None
              else Some (join_with newline (take (nat (end - start + 1)) (drop (nat (start - 1)) lines))))
      | _ \<Rightarrow> None)"

definition judged_prose :: "bool list \<Rightarrow> int \<Rightarrow> string \<Rightarrow> bool" where
  "judged_prose fenced line text \<longleftrightarrow>
     \<not> (line - 1 < int (length fenced) \<and> fenced ! nat (line - 1)) \<and>
     (let t = trim_space text in \<not> (t = '''' \<or> has_prefix t ''|'' \<or> has_prefix t ''```'' \<or> heading_line t))"

definition hunk_sentences :: "bool list \<Rightarrow> hunk \<Rightarrow> sentence_item list" where
  "hunk_sentences fenced h =
     concat (map (\<lambda>(offset, text).
       let line = hn_new_start h + int offset in
       if \<not> judged_prose fenced line text then []
       else map (\<lambda>s. \<lparr>si_sentence = s, si_line = line\<rparr>) (filter (absolute_word False) (split_sentences (trim_space text))))
       (enumerate 0 (hn_added h)))"

definition hunk_prose :: "bool list \<Rightarrow> hunk \<Rightarrow> bool" where
  "hunk_prose fenced h \<longleftrightarrow>
     list_ex (\<lambda>(offset, text). judged_prose fenced (hn_new_start h + int offset) text) (enumerate 0 (hn_added h))"

fun doc_units_from :: "string \<Rightarrow> string list \<Rightarrow> bool list \<Rightarrow> hunk list \<Rightarrow> doc_unit list option" where
  "doc_units_from path lines fenced [] = Some []"
| "doc_units_from path lines fenced (h # hs) =
     (if hn_new_lines h = 0 then doc_units_from path lines fenced hs
      else if hn_new_start h < 1 \<and> hn_added h \<noteq> [] then None
      else (case doc_section lines (hn_new_start h) (hn_new_start h + hn_new_lines h - 1) of
        None \<Rightarrow> None
      | Some text \<Rightarrow>
          map_option ((#) \<lparr>du_path = path, du_line = hn_new_start h, du_diff = hn_diff h,
            du_after = truncate_text text max_section_chars, du_prose = hunk_prose fenced h,
            du_sentences = hunk_sentences fenced h\<rparr>) (doc_units_from path lines fenced hs)))"

definition doc_units :: "string \<Rightarrow> string \<Rightarrow> hunk list \<Rightarrow> doc_unit list option" where
  "doc_units path src hunks =
     (let lines = split_at CHR 0x0A src in doc_units_from path lines (fence_state False lines) hunks)"

end
