(* ===== verification/Semantic_Catalog.thy ===== *)
theory Semantic_Catalog
  imports Semantic_State Complex_Main
begin

text \<open>
  The questions semantic-lint asks: \<open>internal/semantic/catalog.go\<close>. A number is a rational, which every
  finite \<open>float64\<close> is; a literal of the source that no \<open>float64\<close> equals is the one it is rounded to.
\<close>

datatype scope = ScopeGoHunk | ScopeDocsHunk | ScopeChange
datatype severity = SeverityImportant | SeverityMinor | SeverityNit
datatype direction = DirectionHigh | DirectionLow
datatype item_list = ItemsNone | ItemsComments | ItemsErrors | ItemsSentences | ItemsCommits
datatype primitive = PrimitiveNoul | PrimitiveScore

fun item_name :: "item_list \<Rightarrow> string" where
  "item_name ItemsNone = ''''"
| "item_name ItemsComments = ''comments''"
| "item_name ItemsErrors = ''errors''"
| "item_name ItemsSentences = ''sentences''"
| "item_name ItemsCommits = ''commits''"

fun severity_name :: "severity \<Rightarrow> string" where
  "severity_name SeverityImportant = ''important''"
| "severity_name SeverityMinor = ''minor''"
| "severity_name SeverityNit = ''nit''"

fun primitive_name :: "primitive \<Rightarrow> string" where
  "primitive_name PrimitiveNoul = ''noul''"
| "primitive_name PrimitiveScore = ''score''"

record question =
  qn_id :: string
  qn_scope :: scope
  qn_primitive :: primitive
  qn_severity :: severity
  qn_threshold :: rat
  qn_direction :: direction
  qn_confidence_min :: rat
  qn_items :: item_list
  qn_text :: string
  qn_inspect :: string
  qn_true :: string
  qn_false :: string
  qn_levels :: "string list"
  qn_issue :: string

text \<open>The \<open>float64\<close> nearest to 0.4, 0.6, 0.7 and 0.8.\<close>

definition float_2_5 :: rat where "float_2_5 = 3602879701896397 / 9007199254740992"
definition float_3_5 :: rat where "float_3_5 = 5404319552844595 / 9007199254740992"
definition float_7_10 :: rat where "float_7_10 = 3152519739159347 / 4503599627370496"
definition float_4_5 :: rat where "float_4_5 = 3602879701896397 / 4503599627370496"

definition catalog_version :: string where "catalog_version = ''0.2''"

definition catalog :: "question list" where
  "catalog =
   [\<lparr>qn_id = ''comment_explains_why'', qn_scope = ScopeGoHunk, qn_primitive = PrimitiveNoul,
     qn_severity = SeverityMinor,
     qn_threshold = float_2_5, qn_direction = DirectionLow, qn_confidence_min = 0,
     qn_items = ItemsComments,
     qn_text = ''Does `item.comment` give a reason for `item.code` that a reader could not infer from the code '' @
     ''itself?'',
     qn_inspect = ''item'',
     qn_true = ''The comment states a purpose, constraint, or consequence not visible in the adjacent code, such '' @
     ''as why a value is reset or what a caller relies on.'',
     qn_false = ''The comment restates what the adjacent code does, or names the operation without giving a '' @
     ''reason.'',
     qn_levels = [],
     qn_issue = ''The comment restates the code instead of explaining why.''\<rparr>,
    \<lparr>qn_id = ''error_message_actionable'', qn_scope = ScopeGoHunk, qn_primitive = PrimitiveNoul,
     qn_severity = SeverityMinor,
     qn_threshold = float_2_5, qn_direction = DirectionLow, qn_confidence_min = 0,
     qn_items = ItemsErrors,
     qn_text = ''Does the error built by `item.call` tell a reader what was wrong and which value, path, or '' @
     ''identifier was involved?'',
     qn_inspect = ''item'',
     qn_true = ''The message names the failing input or condition and the violated expectation, or wraps an '' @
     ''inner error with %w that carries that detail.'',
     qn_false = ''The message is generic, such as 'invalid input' or 'operation failed', with no value named and '' @
     ''no wrapped error.'',
     qn_levels = [],
     qn_issue = ''The error message does not say what was wrong or which value was involved.''\<rparr>,
    \<lparr>qn_id = ''duplicates_package_helper'', qn_scope = ScopeGoHunk, qn_primitive = PrimitiveNoul,
     qn_severity = SeverityImportant,
     qn_threshold = float_7_10, qn_direction = DirectionHigh, qn_confidence_min = 0,
     qn_items = ItemsNone,
     qn_text = ''Does the new code in `hunk.after` perform an operation that a function in '' @
     ''`neighbours.package_functions` already provides?'',
     qn_inspect = ''hunk.after'',
     qn_true = ''The new code reimplements the same operation inline instead of calling the listed function.'',
     qn_false = ''The new code calls the listed function, or performs a different operation that only shares '' @
     ''names or types with it.'',
     qn_levels = [],
     qn_issue = ''The new code appears to reimplement an existing package helper.''\<rparr>,
    \<lparr>qn_id = ''evaluative_wording'', qn_scope = ScopeDocsHunk, qn_primitive = PrimitiveNoul,
     qn_severity = SeverityNit,
     qn_threshold = float_4_5, qn_direction = DirectionHigh, qn_confidence_min = 0,
     qn_items = ItemsNone,
     qn_text = ''Does `hunk.diff` add wording that praises or evaluates the software instead of stating what it '' @
     ''does or requires?'',
     qn_inspect = ''hunk.diff'',
     qn_true = ''Added text uses evaluative terms such as robust, seamless, powerful, easy, or best-in-class.'',
     qn_false = ''Added text states behavior, requirements, limits, or examples, even when the facts are '' @
     ''favorable.'',
     qn_levels = [],
     qn_issue = ''Added documentation evaluates the software instead of describing it.''\<rparr>,
    \<lparr>qn_id = ''unscoped_guarantee'', qn_scope = ScopeDocsHunk, qn_primitive = PrimitiveNoul,
     qn_severity = SeverityMinor,
     qn_threshold = 3 / 4, qn_direction = DirectionHigh, qn_confidence_min = 0,
     qn_items = ItemsSentences,
     qn_text = ''Does `item.sentence` assert an absolute guarantee about behavior without naming the mechanism, '' @
     ''condition, or scope that enforces it?'',
     qn_inspect = ''item.sentence'',
     qn_true = ''The sentence makes an absolute claim and neither it nor its neighbors in `hunk.after` say how '' @
     ''or where it is enforced.'',
     qn_false = ''The sentence names the enforcing mechanism, states its scope, or explicitly disclaims the '' @
     ''guarantee.'',
     qn_levels = [],
     qn_issue = ''An absolute claim names no mechanism or scope that enforces it.''\<rparr>,
    \<lparr>qn_id = ''scope_creep'', qn_scope = ScopeChange, qn_primitive = PrimitiveScore,
     qn_severity = SeverityImportant,
     qn_threshold = 3 / 2, qn_direction = DirectionHigh, qn_confidence_min = float_3_5,
     qn_items = ItemsNone,
     qn_text = ''How many independent changes does this pull request bundle, judging from `commits` and `files`?'',
     qn_inspect = ''commits'',
     qn_true = '''',
     qn_false = '''',
     qn_levels = [''One change, with every edit serving it, including its tests and docs.'',
      ''One primary change plus a small unrelated tweak alongside it.'',
      ''Two or more independent changes that could each be reviewed and reverted on their own.''],
     qn_issue = ''The change bundles independent work that could be reviewed separately.''\<rparr>,
    \<lparr>qn_id = ''commit_subject_matches'', qn_scope = ScopeChange, qn_primitive = PrimitiveNoul,
     qn_severity = SeverityNit,
     qn_threshold = float_2_5, qn_direction = DirectionLow, qn_confidence_min = 0,
     qn_items = ItemsCommits,
     qn_text = ''Does `item.subject` describe the change visible in `item.files` and `item.hunk_headers`?'',
     qn_inspect = ''item'',
     qn_true = ''The subject names the behavior, rule, or policy that changed, and the touched files fit it.'',
     qn_false = ''The subject is generic, such as fix, update, or wip, or names something the touched files do '' @
     ''not reflect.'',
     qn_levels = [],
     qn_issue = ''The commit subject does not describe the files it changes.''\<rparr>,
    \<lparr>qn_id = ''behavior_change_undocumented'', qn_scope = ScopeChange, qn_primitive = PrimitiveNoul,
     qn_severity = SeverityImportant,
     qn_threshold = float_7_10, qn_direction = DirectionHigh, qn_confidence_min = 0,
     qn_items = ItemsNone,
     qn_text = ''Does `change.summary` alter a configuration key, CLI flag, output field, default, or check '' @
     ''behavior a user would rely on, while `docs_diff` does not mention it?'',
     qn_inspect = ''change.summary'',
     qn_true = ''A user-visible key, flag, field, default, or behavior changed and no added documentation text '' @
     ''mentions it.'',
     qn_false = ''The change is internal, or `docs_diff` describes it.'',
     qn_levels = [],
     qn_issue = ''A user-visible change has no matching documentation change.''\<rparr>,
    \<lparr>qn_id = ''describes_unimplemented'', qn_scope = ScopeChange, qn_primitive = PrimitiveNoul,
     qn_severity = SeverityImportant,
     qn_threshold = float_7_10, qn_direction = DirectionHigh, qn_confidence_min = 0,
     qn_items = ItemsNone,
     qn_text = ''Does `docs_diff` describe a capability as available or implemented that `change.summary` does '' @
     ''not add?'',
     qn_inspect = ''docs_diff'',
     qn_true = ''Added documentation presents a capability as available, and nothing in `change.summary` '' @
     ''implements it.'',
     qn_false = ''The capability is implemented in the change, or the text marks it as planned or next.'',
     qn_levels = [],
     qn_issue = ''Documentation presents as available something this change does not implement.''\<rparr>]"

definition questions_for :: "scope \<Rightarrow> question list" where
  "questions_for s = filter (\<lambda>q. qn_scope q = s) catalog"

text \<open>\<open>indexCatalog\<close> refuses to start when two questions share an ID.\<close>

definition catalog_by_id :: "string + question gomap" where
  "catalog_by_id = (case first_repeat [] (map qn_id catalog) of
     Some name \<Rightarrow> Inl name | None \<Rightarrow> Inr (map (\<lambda>q. (qn_id q, q)) catalog))"

lemma catalog_ids:
  "map qn_id catalog = [''comment_explains_why'', ''error_message_actionable'', ''duplicates_package_helper'',
     ''evaluative_wording'', ''unscoped_guarantee'', ''scope_creep'', ''commit_subject_matches'',
     ''behavior_change_undocumented'', ''describes_unimplemented'']"
  by (simp add: catalog_def)

lemma distinct_catalog: "distinct (map qn_id catalog)"
  by (simp add: catalog_ids)

end
