(* ===== verification/Semantic_Request.thy ===== *)
theory Semantic_Request
  imports Semantic_Catalog
begin

text \<open>
  The requests of semantic-lint: the states of \<open>internal/semantic/check.go\<close>, the questions asked about
  them, and how a state is shortened to the size the API accepts. A state is the map of the source, with the
  values it marshals.
\<close>

section \<open>Requests\<close>

record wire_question =
  wq_type :: primitive
  wq_question :: string
  wq_inspect :: string
  wq_criteria :: "json option"

record pending_question =
  pq_question :: question
  pq_path :: string
  pq_line :: int
  pq_symbol :: string

record judge_request =
  jr_state :: "json gomap"
  jr_questions :: "wire_question gomap"
  jr_pending :: "pending_question gomap"
  jr_oversize :: string

definition max_state_chars :: nat where "max_state_chars = 110000"
definition max_docs_diff_chars :: nat where "max_docs_diff_chars = 30000"
definition min_helper_lines :: nat where "min_helper_lines = 3"
definition list_divisor :: nat where "list_divisor = 64"

definition shrink_limits :: "nat list" where
  "shrink_limits = [max_state_chars div 4, max_state_chars div 16, max_state_chars div 64, 256]"

definition element_name :: "question \<Rightarrow> nat \<Rightarrow> string" where
  "element_name q i = ''items.'' @ item_name (qn_items q) @ ''['' @ show_int (int i) @ '']''"

text \<open>\<open>strings.Replace\<close> of the first occurrence.\<close>

definition replace_first :: "string \<Rightarrow> string \<Rightarrow> string \<Rightarrow> string" where
  "replace_first old new s = (case cut_text old s of None \<Rightarrow> s | Some (before, after) \<Rightarrow> before @ new @ after)"

definition question_criteria :: "question \<Rightarrow> json option" where
  "question_criteria q =
     (if qn_primitive q = PrimitiveScore then Some (json_slice JStr (qn_levels q))
      else if qn_true q \<noteq> '''' \<or> qn_false q \<noteq> ''''
      then Some (JObj [(''false'', JStr (qn_false q)), (''true'', JStr (qn_true q))])
      else None)"

definition question_key :: "question \<Rightarrow> nat option \<Rightarrow> string" where
  "question_key q index = (case index of None \<Rightarrow> qn_id q | Some i \<Rightarrow> qn_id q @ ''#'' @ show_int (int i))"

definition wire_of :: "question \<Rightarrow> nat option \<Rightarrow> wire_question" where
  "wire_of q index =
     (case index of
        None \<Rightarrow> \<lparr>wq_type = qn_primitive q, wq_question = qn_text q, wq_inspect = qn_inspect q,
          wq_criteria = question_criteria q\<rparr>
      | Some i \<Rightarrow>
          \<lparr>wq_type = qn_primitive q,
           wq_question = replace_all ''`item.'' (''`'' @ element_name q i @ ''.'') (qn_text q),
           wq_inspect = (if qn_inspect q = ''item'' then element_name q i
             else replace_first ''item.'' (element_name q i @ ''.'') (qn_inspect q)),
           wq_criteria = question_criteria q\<rparr>)"

definition add_question :: "question \<Rightarrow> nat option \<Rightarrow> pending_question \<Rightarrow> judge_request \<Rightarrow> judge_request" where
  "add_question q index p r =
     r\<lparr>jr_questions := AList.update (question_key q index) (wire_of q index) (jr_questions r),
       jr_pending := AList.update (question_key q index) p (jr_pending r)\<rparr>"

text \<open>A question asked once for each of some items, whose places are given.\<close>

definition add_items :: "question \<Rightarrow> pending_question list \<Rightarrow> judge_request \<Rightarrow> judge_request" where
  "add_items q ps r = foldl (\<lambda>r (i, p). add_question q (Some i) p r) r (enumerate 0 ps)"

definition empty_request :: "json gomap \<Rightarrow> judge_request" where
  "empty_request state = \<lparr>jr_state = state, jr_questions = [], jr_pending = [], jr_oversize = ''''\<rparr>"

section \<open>Size\<close>

definition request_size :: "json gomap \<Rightarrow> nat" where
  "request_size state = length (json_text (JObj state))"

definition json_question :: "wire_question \<Rightarrow> json" where
  "json_question q =
     JObj ([(''type'', JStr (primitive_name (wq_type q))),
       (''instructions'', JObj [(''inspect'', JStr (wq_inspect q)), (''question'', JStr (wq_question q))])] @
       (case wq_criteria q of None \<Rightarrow> [] | Some c \<Rightarrow> [(''criteria'', c)]))"

definition request_chars :: "judge_request \<Rightarrow> nat" where
  "request_chars r = request_size (jr_state r) +
     length (json_text (JObj (map (\<lambda>(k, q). (k, json_question q)) (jr_questions r))))"

section \<open>Shortening a state\<close>

definition cap_list :: "nat \<Rightarrow> json \<Rightarrow> json" where
  "cap_list n0 v =
     (let n = max n0 1 in
      case v of
        JList xs \<Rightarrow>
          if length xs \<le> n + 1 then v
          else JList (take n (map generic xs) @ [JStr (''... '' @ show_int (int (length xs - n)) @ '' more'')])
      | _ \<Rightarrow> v)"

fun truncate_value :: "nat \<Rightarrow> json \<Rightarrow> json" and truncate_fields :: "nat \<Rightarrow> (string \<times> json) list \<Rightarrow> (string \<times> json) list" where
  "truncate_value limit (JStr s) = JStr (truncate_text s limit)"
| "truncate_value limit (JObj fs) = JObj (truncate_fields limit fs)"
| "truncate_value limit (JList xs) = cap_list (max 1 (limit div list_divisor)) (JList (map (truncate_value limit) xs))"
| "truncate_value limit JNull = JNull"
| "truncate_value limit (JBool b) = JBool b"
| "truncate_value limit (JInt i) = JInt i"
| "truncate_fields limit [] = []"
| "truncate_fields limit ((k, v) # fs) = (k, truncate_value limit v) # truncate_fields limit fs"

text \<open>\<open>genericItems\<close>: the lists whose elements are all objects; \<open>truncateItems\<close> keeps the others.\<close>

definition is_object :: "json \<Rightarrow> bool" where
  "is_object v = (case v of JObj fs \<Rightarrow> True | _ \<Rightarrow> False)"

definition item_objects :: "json \<Rightarrow> json list option" where
  "item_objects v =
     (case v of
        JNull \<Rightarrow> Some []
      | JList xs \<Rightarrow> if list_all is_object xs then Some (map generic xs) else None
      | _ \<Rightarrow> None)"

definition truncate_item_list :: "nat \<Rightarrow> json \<Rightarrow> json" where
  "truncate_item_list limit v =
     (case item_objects v of
        None \<Rightarrow> v
      | Some [] \<Rightarrow> generic v
      | Some xs \<Rightarrow> JList (map (truncate_value limit) xs))"

definition truncate_items :: "nat \<Rightarrow> json gomap \<Rightarrow> json gomap" where
  "truncate_items limit named = map (\<lambda>(name, v). (name, truncate_item_list limit v)) named"

text \<open>The fields a state has, and replacing one.\<close>

definition object_field :: "string \<Rightarrow> json gomap \<Rightarrow> json gomap option" where
  "object_field k state = (case map_of state k of Some (JObj fs) \<Rightarrow> Some fs | _ \<Rightarrow> None)"

definition text_field :: "string \<Rightarrow> json gomap \<Rightarrow> string" where
  "text_field k fs = (case map_of fs k of Some (JStr s) \<Rightarrow> s | _ \<Rightarrow> '''')"

definition set_in :: "string \<Rightarrow> string \<Rightarrow> json \<Rightarrow> json gomap \<Rightarrow> json gomap" where
  "set_in object k v state =
     (case object_field object state of None \<Rightarrow> state | Some fs \<Rightarrow> AList.update object (JObj (AList.update k v fs)) state)"

definition summary_lists :: "string list" where
  "summary_lists = [''files'', ''commits'']"

definition summary_text_lists :: "string list" where
  "summary_text_lists = [''commit_subjects'', ''added_symbols'', ''added_config_keys'']"

definition change_summary :: "json gomap \<Rightarrow> json gomap option" where
  "change_summary state = (case object_field ''change'' state of None \<Rightarrow> None | Some fs \<Rightarrow> object_field ''summary'' fs)"

text \<open>A list of strings, and \<open>truncateStrings\<close> of it.\<close>

definition string_list :: "json \<Rightarrow> string list option" where
  "string_list v =
     (case v of
        JNull \<Rightarrow> Some []
      | JList xs \<Rightarrow>
          if list_all (\<lambda>x. case x of JStr s \<Rightarrow> True | _ \<Rightarrow> False) xs
          then Some (map (\<lambda>x. case x of JStr s \<Rightarrow> s | _ \<Rightarrow> '''') xs) else None
      | _ \<Rightarrow> None)"

definition truncate_strings :: "nat \<Rightarrow> string list \<Rightarrow> json" where
  "truncate_strings limit xs = JList (map (\<lambda>s. JStr (truncate_text s limit)) xs)"

definition shorten_summary_texts :: "nat \<Rightarrow> json gomap \<Rightarrow> json gomap \<Rightarrow> json gomap" where
  "shorten_summary_texts limit original summary =
     foldl (\<lambda>fs key. case map_of original key of
         None \<Rightarrow> fs
       | Some v \<Rightarrow>
           (case string_list v of
              None \<Rightarrow> fs
            | Some xs \<Rightarrow> AList.update key (cap_list (limit div list_divisor) (truncate_strings limit xs)) fs))
       summary summary_text_lists"

definition shorten_summaries :: "nat \<Rightarrow> json gomap \<Rightarrow> json gomap \<Rightarrow> json gomap" where
  "shorten_summaries limit original state =
     foldl (\<lambda>s key. case map_of original key of
         None \<Rightarrow> s
       | Some v \<Rightarrow> AList.update key (cap_list (limit div list_divisor) (truncate_value limit (generic v))) s)
       state summary_lists"

definition shorten_change :: "nat \<Rightarrow> json gomap \<Rightarrow> json gomap \<Rightarrow> json gomap" where
  "shorten_change limit original state =
     (case (change_summary original, change_summary state) of
        (Some texts, Some summary) \<Rightarrow> set_in ''change'' ''summary'' (JObj (shorten_summary_texts limit texts summary)) state
      | _ \<Rightarrow> state)"

text \<open>The steps of one round; each rewrites its field from the original state.\<close>

definition shorten_after :: "nat \<Rightarrow> json gomap \<Rightarrow> json gomap \<Rightarrow> json gomap" where
  "shorten_after limit original state =
     (case object_field ''hunk'' original of
        None \<Rightarrow> state
      | Some h \<Rightarrow> set_in ''hunk'' ''after'' (JStr (truncate_text (text_field ''after'' h) limit)) state)"

definition shorten_docs :: "nat \<Rightarrow> json gomap \<Rightarrow> json gomap \<Rightarrow> json gomap" where
  "shorten_docs limit original state =
     (let docs = text_field ''docs_diff'' original in
      if docs = '''' then state else AList.update ''docs_diff'' (JStr (truncate_text docs limit)) state)"

definition shorten_diff :: "nat \<Rightarrow> json gomap \<Rightarrow> json gomap \<Rightarrow> json gomap" where
  "shorten_diff limit original state =
     (case object_field ''hunk'' original of
        None \<Rightarrow> state
      | Some h \<Rightarrow> set_in ''hunk'' ''diff'' (JStr (truncate_text (text_field ''diff'' h) limit)) state)"

definition shorten_items :: "nat \<Rightarrow> json gomap \<Rightarrow> json gomap \<Rightarrow> json gomap" where
  "shorten_items limit original state =
     (case object_field ''items'' original of
        None \<Rightarrow> state
      | Some named \<Rightarrow> AList.update ''items'' (JObj (truncate_items limit named)) state)"

definition shorten_rest :: "nat \<Rightarrow> json gomap \<Rightarrow> json gomap \<Rightarrow> json gomap" where
  "shorten_rest limit original state = shorten_change limit original (shorten_summaries limit original state)"

definition round_steps :: "(nat \<Rightarrow> json gomap \<Rightarrow> json gomap \<Rightarrow> json gomap) list" where
  "round_steps = [shorten_after, shorten_docs, shorten_diff, shorten_items, shorten_rest]"

definition drop_neighbours :: "json gomap \<Rightarrow> json gomap" where
  "drop_neighbours state = set_in ''neighbours'' ''package_functions'' (JList []) state"

text \<open>After each step the size is tested: \<open>fit_steps\<close> stops at the first state that is small enough.\<close>

fun fit_steps :: "(json gomap \<Rightarrow> json gomap) list \<Rightarrow> json gomap \<Rightarrow> json gomap \<times> bool" where
  "fit_steps [] state = (state, False)"
| "fit_steps (step # steps) state =
     (let state' = step state in
      if request_size state' \<le> max_state_chars then (state', True) else fit_steps steps state')"

definition fit_state :: "json gomap \<Rightarrow> json gomap \<times> bool" where
  "fit_state state =
     (if request_size state \<le> max_state_chars then (state, True)
      else fit_steps (drop_neighbours # concat (map (\<lambda>limit. map (\<lambda>step. step limit state) round_steps) shrink_limits)) state)"

definition fit :: "judge_request \<Rightarrow> judge_request" where
  "fit r =
     (let (state, fits) = fit_state (jr_state r) in
      r\<lparr>jr_state := state,
        jr_oversize := (if fits then ''''
          else ''state is '' @ show_int (int (request_size state)) @ '' characters after shrinking; the limit is '' @
            show_int (int max_state_chars))\<rparr>)"

section \<open>The requests of a change\<close>

definition json_comment :: "comment_item \<Rightarrow> json" where
  "json_comment c = JObj [(''comment'', JStr (ci_comment c)), (''code'', JStr (ci_code c)), (''line'', JInt (ci_line c))]"

definition json_error :: "error_item \<Rightarrow> json" where
  "json_error e = JObj [(''call'', JStr (ei_call e)), (''function'', JStr (ei_function e)), (''line'', JInt (ei_line e))]"

definition json_sentence :: "sentence_item \<Rightarrow> json" where
  "json_sentence s = JObj [(''sentence'', JStr (si_sentence s)), (''line'', JInt (si_line s))]"

definition json_commit :: "commit \<Rightarrow> json" where
  "json_commit c = JObj [(''sha'', JStr (cm_sha c)), (''subject'', JStr (cm_subject c)),
     (''files'', json_slice JStr (cm_files c)), (''hunk_headers'', json_slice JStr (cm_hunk_headers c))]"

definition located :: "string \<Rightarrow> string \<Rightarrow> question \<Rightarrow> int \<Rightarrow> pending_question" where
  "located path symbol q line = \<lparr>pq_question = q, pq_path = path, pq_line = line, pq_symbol = symbol\<rparr>"

definition compares_helpers :: "go_unit \<Rightarrow> string list \<Rightarrow> bool" where
  "compares_helpers u neighbours \<longleftrightarrow> gu_is_func u \<and> gu_added_lines u \<ge> min_helper_lines \<and> neighbours \<noteq> []"

definition go_state :: "go_unit \<Rightarrow> bool \<Rightarrow> string list \<Rightarrow> json gomap" where
  "go_state u is_test neighbours =
     [(''file'', JObj [(''is_test'', JBool is_test), (''path'', JStr (gu_path u))]),
      (''hunk'', JObj [(''after'', JStr (gu_after u)), (''diff'', JStr (gu_diff u)), (''line'', JInt (gu_line u)),
         (''symbol'', JStr (gu_symbol u))]),
      (''items'', JObj [(''comments'', json_slice json_comment (gu_comments u)), (''errors'', json_slice json_error (gu_errors u))])] @
     (if compares_helpers u neighbours then [(''neighbours'', JObj [(''package_functions'', JList (map JStr neighbours))])] else [])"

definition go_item_lines :: "go_unit \<Rightarrow> item_list \<Rightarrow> int list" where
  "go_item_lines u items =
     (case items of ItemsComments \<Rightarrow> map ci_line (gu_comments u) | ItemsErrors \<Rightarrow> map ei_line (gu_errors u) | _ \<Rightarrow> [])"

definition go_question :: "go_unit \<Rightarrow> string list \<Rightarrow> judge_request \<Rightarrow> question \<Rightarrow> judge_request" where
  "go_question u neighbours r q =
     (let here = located (gu_path u) (gu_symbol u) q in
      if qn_items q = ItemsNone
      then (if compares_helpers u neighbours then add_question q None (here (gu_line u)) r else r)
      else add_items q (map here (go_item_lines u (qn_items q))) r)"

definition go_request :: "go_unit \<Rightarrow> bool \<Rightarrow> string list \<Rightarrow> judge_request \<times> bool" where
  "go_request u is_test neighbours =
     (let r = fit (foldl (go_question u neighbours) (empty_request (go_state u is_test neighbours)) (questions_for ScopeGoHunk)) in
      (r, length (jr_questions r) > 0))"

definition doc_state :: "doc_unit \<Rightarrow> json gomap" where
  "doc_state u =
     [(''file'', JObj [(''path'', JStr (du_path u))]),
      (''hunk'', JObj [(''after'', JStr (du_after u)), (''diff'', JStr (du_diff u)), (''line'', JInt (du_line u))]),
      (''items'', JObj [(''sentences'', json_slice json_sentence (du_sentences u))])]"

definition doc_question :: "doc_unit \<Rightarrow> judge_request \<Rightarrow> question \<Rightarrow> judge_request" where
  "doc_question u r q =
     (let here = located (du_path u) '''' q in
      if qn_items q = ItemsNone then (if du_prose u then add_question q None (here (du_line u)) r else r)
      else add_items q (map (here \<circ> si_line) (du_sentences u)) r)"

definition doc_request :: "doc_unit \<Rightarrow> judge_request \<times> bool" where
  "doc_request u =
     (let r = fit (foldl (doc_question u) (empty_request (doc_state u)) (questions_for ScopeDocsHunk)) in
      (r, length (jr_questions r) > 0))"

fun file_kind_name :: "file_kind \<Rightarrow> string" where
  "file_kind_name FileSource = ''source''"
| "file_kind_name FileTest = ''test''"
| "file_kind_name FileDocs = ''docs''"
| "file_kind_name FileConfig = ''config''"
| "file_kind_name FileWorkflow = ''workflow''"
| "file_kind_name FileOther = ''other''"

fun file_status_name :: "file_status \<Rightarrow> string" where
  "file_status_name FileAdded = ''added''"
| "file_status_name FileModified = ''modified''"
| "file_status_name FileDeleted = ''deleted''"

definition json_file :: "string \<Rightarrow> file_change \<Rightarrow> json" where
  "json_file below f = JObj [(''path'', JStr (trim_prefix (fc_path f) below)), (''kind'', JStr (file_kind_name (fc_kind f))),
     (''status'', JStr (file_status_name (fc_status f))), (''added'', JInt (int (fc_added f))),
     (''removed'', JInt (int (fc_removed f))), (''hunk_headers'', json_slice (JStr \<circ> hunk_summary) (fc_hunks f))]"

definition kind_count :: "file_change list \<Rightarrow> file_kind \<Rightarrow> nat" where
  "kind_count files k = length (filter (\<lambda>f. fc_kind f = k) files)"

definition json_kind_counts :: "file_change list \<Rightarrow> json" where
  "json_kind_counts files =
     JObj (map (\<lambda>k. (file_kind_name k, JInt (int (kind_count files k))))
       (filter (\<lambda>k. kind_count files k > 0) [FileConfig, FileDocs, FileOther, FileSource, FileTest, FileWorkflow]))"

definition change_state :: "semantic_change \<Rightarrow> string \<Rightarrow> string \<Rightarrow> string list \<Rightarrow> string list \<Rightarrow> json gomap" where
  "change_state ch below docs_diff added_symbols added_keys =
     [(''change'', JObj [(''summary'', JObj
        [(''added_config_keys'', json_slice JStr added_keys), (''added_symbols'', json_slice JStr added_symbols),
         (''commit_subjects'', json_slice (JStr \<circ> cm_subject) (sg_commits ch)),
         (''files_by_kind'', json_kind_counts (sg_files ch))])]),
      (''commits'', json_slice json_commit (sg_commits ch)),
      (''docs_diff'', JStr docs_diff),
      (''files'', json_slice (json_file below) (sg_files ch)),
      (''items'', JObj [(''commits'', json_slice json_commit (sg_commits ch))])]"

definition change_question :: "semantic_change \<Rightarrow> string \<Rightarrow> judge_request \<Rightarrow> question \<Rightarrow> judge_request" where
  "change_question ch docs_diff r q =
     (let code = kind_count (sg_files ch) FileSource + kind_count (sg_files ch) FileTest + kind_count (sg_files ch) FileConfig +
            kind_count (sg_files ch) FileWorkflow;
          whole_change = add_question q None (located '''' '''' q 0) r
      in if qn_items q = ItemsCommits then add_items q (map (\<lambda>c. located '''' (cm_sha c) q 0) (sg_commits ch)) r
         else if qn_id q = ''scope_creep''
         then (if length (sg_files ch) \<ge> 2 \<or> length (sg_commits ch) \<ge> 2 then whole_change else r)
         else if qn_id q = ''behavior_change_undocumented'' then (if code > 0 then whole_change else r)
         else if qn_id q = ''describes_unimplemented'' then (if docs_diff \<noteq> '''' then whole_change else r)
         else r)"

definition change_request ::
  "semantic_change \<Rightarrow> string \<Rightarrow> string \<Rightarrow> string list \<Rightarrow> string list \<Rightarrow> (judge_request \<times> bool) option" where
  "change_request ch below docs_diff added_symbols added_keys =
     (if sg_files ch = [] then None
      else
        let r = fit (foldl (change_question ch docs_diff)
              (empty_request (change_state ch below docs_diff added_symbols added_keys)) (questions_for ScopeChange)) in
        Some (r, length (jr_questions r) > 0))"

section \<open>buildRequests\<close>

definition key_char :: "char \<Rightarrow> bool" where
  "key_char c \<longleftrightarrow> word_char c \<or> c = CHR ''.'' \<or> c = CHR ''-''"

text \<open>\<open>structTagKey\<close>: the leftmost match.\<close>

fun struct_tag_key :: "string \<Rightarrow> string option" where
  "struct_tag_key [] = None"
| "struct_tag_key (c # s) =
     (case cut_prefix (c # s) (''json:'' @ [CHR 0x22]) of
        (rest, True) \<Rightarrow> if takeWhile word_char rest \<noteq> '''' then Some (takeWhile word_char rest) else struct_tag_key s
      | (rest, False) \<Rightarrow> struct_tag_key s)"

definition json_object_key :: "string \<Rightarrow> string option" where
  "json_object_key line =
     (case cut_prefix (dropWhile rx_space line) [CHR 0x22] of
        (rest, True) \<Rightarrow>
          let key = takeWhile key_char rest in
          (case dropWhile key_char rest of
             c # after \<Rightarrow>
               if key \<noteq> '''' \<and> c = CHR 0x22 \<and> has_prefix (dropWhile rx_space after) '':'' then Some key else None
           | [] \<Rightarrow> None)
      | (rest, False) \<Rightarrow> None)"

definition config_keys :: "file_change \<Rightarrow> string list" where
  "config_keys f =
     concat (map (\<lambda>line. case (if fc_kind f = FileConfig then json_object_key line else struct_tag_key line) of
         None \<Rightarrow> [] | Some key \<Rightarrow> [key])
       (concat (map hn_added (fc_hunks f))))"

definition request_label :: "judge_request \<Rightarrow> string" where
  "request_label r =
     (case find (\<lambda>(k, p). pq_path p \<noteq> '''') (jr_pending r) of
        None \<Rightarrow> ''change''
      | Some (k, p) \<Rightarrow> trim_space (pq_path p @ '' '' @ pq_symbol p))"

text \<open>What has been queued: \<open>keep\<close> queues a request or notes why it is not sent.\<close>

record queued =
  qd_requests :: "judge_request list"
  qd_notes :: "string list"
  qd_docs :: string
  qd_symbols :: "string list"
  qd_keys :: "string list"

definition keep :: "judge_request \<Rightarrow> queued \<Rightarrow> queued" where
  "keep r s =
     (if jr_oversize r = '''' then s\<lparr>qd_requests := qd_requests s @ [r]\<rparr>
      else s\<lparr>qd_notes := qd_notes s @ [request_label r @ '' was not judged: '' @ jr_oversize r]\<rparr>)"

definition keep_asked :: "queued \<Rightarrow> judge_request \<times> bool \<Rightarrow> queued" where
  "keep_asked s r = (if snd r then keep (fst r) s else s)"

text \<open>The files of the source as the check reads them: their content, what parses, and the listing of a directory.\<close>

record source_files =
  sf_read :: "string \<Rightarrow> string + string"
  sf_parse :: "string \<Rightarrow> string \<Rightarrow> parsed_file option"
  sf_dir :: "string \<Rightarrow> dir_file list option"

definition queue_go :: "source_files \<Rightarrow> file_change \<Rightarrow> string \<Rightarrow> string \<Rightarrow> queued \<Rightarrow> queued" where
  "queue_go fs f rel src s =
     (let units = go_units (sf_parse fs rel src) rel src (fc_hunks f);
          is_test = (fc_kind f = FileTest);
          s1 = s\<lparr>qd_symbols := qd_symbols s @ map (\<lambda>u. rel @ '':'' @ gu_symbol u) (filter gu_new units)\<rparr>;
          neighbours = (if list_ex (\<lambda>u. gu_is_func u \<and> gu_added_lines u \<ge> min_helper_lines) units
            then package_functions (sf_dir fs (dir_name rel)) rel is_test (map gu_symbol units) else [])
      in foldl keep_asked s1 (map (\<lambda>u. go_request u is_test neighbours) units))"

definition queue_docs :: "file_change \<Rightarrow> string \<Rightarrow> string \<Rightarrow> queued \<Rightarrow> queued option" where
  "queue_docs f rel src s =
     map_option (\<lambda>units. foldl keep_asked (s\<lparr>qd_docs := qd_docs s @ concat (map hn_diff (fc_hunks f))\<rparr>) (map doc_request units))
       (doc_units rel src (fc_hunks f))"

definition queue_file :: "source_files \<Rightarrow> string \<Rightarrow> file_change \<Rightarrow> queued \<Rightarrow> queued option" where
  "queue_file fs below f s0 =
     (let rel = trim_prefix (fc_path f) below; s = s0\<lparr>qd_keys := qd_keys s0 @ config_keys f\<rparr> in
      if fc_status f = FileDeleted then Some s
      else (case fc_kind f of
        FileSource \<Rightarrow> (case sf_read fs rel of
            Inl e \<Rightarrow> Some (s\<lparr>qd_notes := qd_notes s @ [rel @ '': '' @ e]\<rparr>) | Inr src \<Rightarrow> Some (queue_go fs f rel src s))
      | FileTest \<Rightarrow> (case sf_read fs rel of
            Inl e \<Rightarrow> Some (s\<lparr>qd_notes := qd_notes s @ [rel @ '': '' @ e]\<rparr>) | Inr src \<Rightarrow> Some (queue_go fs f rel src s))
      | FileDocs \<Rightarrow> (case sf_read fs rel of
            Inl e \<Rightarrow> Some (s\<lparr>qd_notes := qd_notes s @ [rel @ '': '' @ e]\<rparr>) | Inr src \<Rightarrow> queue_docs f rel src s)
      | _ \<Rightarrow> Some s))"

fun queue_files :: "source_files \<Rightarrow> string \<Rightarrow> file_change list \<Rightarrow> queued \<Rightarrow> queued option" where
  "queue_files fs below [] s = Some s"
| "queue_files fs below (f # files) s =
     (case queue_file fs below f s of None \<Rightarrow> None | Some s' \<Rightarrow> queue_files fs below files s')"

definition nothing_queued :: queued where
  "nothing_queued = \<lparr>qd_requests = [], qd_notes = [], qd_docs = '''', qd_symbols = [], qd_keys = []\<rparr>"

definition build_requests :: "source_files \<Rightarrow> semantic_change \<Rightarrow> string \<Rightarrow> (judge_request list \<times> string list) option" where
  "build_requests fs ch below =
     (case queue_files fs below (sg_files ch) nothing_queued of
        None \<Rightarrow> None
      | Some s \<Rightarrow>
          (case change_request ch below (truncate_text (qd_docs s) max_docs_diff_chars) (qd_symbols s) (qd_keys s) of
             Some (r, True) \<Rightarrow>
               let first = keep r (s\<lparr>qd_requests := []\<rparr>) in
               Some (qd_requests first @ qd_requests s, qd_notes first)
           | _ \<Rightarrow> Some (qd_requests s, qd_notes s)))"

end
