(* ===== verification/Semantic_Client.thy ===== *)
theory Semantic_Client
  imports Semantic_Request
begin

text \<open>
  The client of the judging API: \<open>internal/semantic/client.go\<close>. What the transport gives is an argument, and
  so are the decoding of a response, the errors of the two contexts and the text of a duration. A duration is
  in nanoseconds; a negative delay says that a failure is not worth another attempt.
\<close>

section \<open>Data\<close>

record answer =
  an_noul :: "rat option"
  an_score :: "rat option"
  an_confidence :: "rat option"

record response =
  re_model :: string
  re_answers :: "answer gomap"
  re_input_tokens :: int

datatype request_error =
    DeadlineExceeded
  | ContextCanceled
  | ApiError int string
  | OtherFailure string
  | GaveUp nat request_error

text \<open>What came of sending a request: the status, the \<open>Location\<close> and \<open>Retry-After\<close> headers and the body.\<close>

datatype exchange =
    BadRequest string
  | SendFailed string
  | ReadFailed string
  | Answered int string string string

definition go_second :: int where "go_second = 1000000000"
definition default_model :: string where "default_model = ''jev-1.13.0''"
definition default_base_url :: string where "default_base_url = ''https://api.typesafe.ai''"
definition max_attempts :: nat where "max_attempts = 3"
definition default_attempt_timeout :: int where "default_attempt_timeout = 90 * go_second"

fun error_text :: "request_error \<Rightarrow> string" where
  "error_text DeadlineExceeded = ''context deadline exceeded''"
| "error_text ContextCanceled = ''context canceled''"
| "error_text (ApiError status body) = ''TypeSafe API returned HTTP '' @ show_int status @ '': '' @ body"
| "error_text (OtherFailure text) = text"
| "error_text (GaveUp n e) = ''gave up after '' @ show_int (int n) @ '' attempts: '' @ error_text e"

fun error_cause :: "request_error \<Rightarrow> request_error" where
  "error_cause (GaveUp n e) = error_cause e"
| "error_cause e = e"

section \<open>One attempt\<close>

definition retry_delay :: "string \<Rightarrow> int" where
  "retry_delay header =
     (case atoi header of
        None \<Rightarrow> 2 * go_second
      | Some seconds \<Rightarrow> if seconds \<le> 0 then 2 * go_second else (if seconds > 30 then 30 else seconds) * go_second)"

definition body_summary :: "string \<Rightarrow> string" where
  "body_summary data =
     (let text = trim_space data in
      if length text \<le> 400 then text else take (rune_boundary text 400) text @ ''...'')"

definition redirect_statuses :: "int list" where
  "redirect_statuses = [301, 302, 303, 307, 308]"

definition retry_statuses :: "int list" where
  "retry_statuses = [429, 500, 502, 503, 504, 529]"

definition post ::
  "(string \<Rightarrow> string + response) \<Rightarrow> request_error option \<Rightarrow> exchange \<Rightarrow> (request_error \<times> int) + response" where
  "post decode ctx e =
     (case e of
        BadRequest text \<Rightarrow> Inl (OtherFailure text, -1)
      | SendFailed text \<Rightarrow>
          (case ctx of Some reason \<Rightarrow> Inl (reason, -1) | None \<Rightarrow> Inl (OtherFailure text, go_second))
      | ReadFailed text \<Rightarrow> Inl (OtherFailure text, go_second)
      | Answered status redirected header body \<Rightarrow>
          if status \<in> set redirect_statuses then
            Inl (OtherFailure (''TypeSafe API redirected to '' @ go_quote redirected @
              ''; redirects are not followed so the key only reaches the configured origin''), -1)
          else if status = 200 then
            (case decode body of
               Inl text \<Rightarrow> Inl (OtherFailure (''TypeSafe API returned malformed JSON: '' @ text), -1)
             | Inr r \<Rightarrow> Inr r)
          else if status \<in> set retry_statuses then Inl (ApiError status (body_summary body), retry_delay header)
          else Inl (ApiError status (body_summary body), -1))"

text \<open>
  \<open>cl_exchange n\<close> is what the \<open>n\<close>th attempt gives, \<open>cl_ctx n\<close> and \<open>cl_attempt_ctx n\<close> the errors of the caller's
  context and of the one that bounds the attempt when it has been made, and \<open>cl_sleep n d\<close> the error of waiting
  \<open>d\<close> before it.
\<close>

record client_world =
  cl_exchange :: "nat \<Rightarrow> exchange"
  cl_ctx :: "nat \<Rightarrow> request_error option"
  cl_attempt_ctx :: "nat \<Rightarrow> request_error option"
  cl_sleep :: "nat \<Rightarrow> int \<Rightarrow> request_error option"

definition attempt ::
  "(string \<Rightarrow> string + response) \<Rightarrow> (int \<Rightarrow> string) \<Rightarrow> int \<Rightarrow> client_world \<Rightarrow> nat \<Rightarrow> (request_error \<times> int) + response" where
  "attempt decode duration timeout0 w n =
     (let timeout = (if timeout0 \<le> 0 then default_attempt_timeout else timeout0) in
      case post decode (cl_attempt_ctx w n) (cl_exchange w n) of
        Inr r \<Rightarrow> Inr r
      | Inl e \<Rightarrow>
          if cl_ctx w n = None \<and> cl_attempt_ctx w n \<noteq> None
          then Inl (OtherFailure (''TypeSafe API did not answer within '' @ duration timeout), go_second)
          else Inl e)"

section \<open>Ask\<close>

text \<open>The loop over the attempts that are left; it also gives how many were made.\<close>

fun ask_loop :: "(nat \<Rightarrow> (request_error \<times> int) + response) \<Rightarrow> (nat \<Rightarrow> int \<Rightarrow> request_error option) \<Rightarrow> nat \<Rightarrow> nat \<Rightarrow>
    request_error \<Rightarrow> int \<Rightarrow> (request_error + response) \<times> nat" where
  "ask_loop try sleep 0 n e delay = (Inl (GaveUp max_attempts e), n)"
| "ask_loop try sleep (Suc left) n e delay =
     (case (if n > 0 then sleep n delay else None) of
        Some stopped \<Rightarrow> (Inl stopped, n)
      | None \<Rightarrow>
          (case try n of
             Inr r \<Rightarrow> (Inr r, Suc n)
           | Inl (e', d) \<Rightarrow> if d < 0 then (Inl e', Suc n) else ask_loop try sleep left (Suc n) e' d))"

definition ask ::
  "(string \<Rightarrow> string + response) \<Rightarrow> (int \<Rightarrow> string) \<Rightarrow> int \<Rightarrow> client_world \<Rightarrow> (request_error + response) \<times> nat" where
  "ask decode duration timeout w = ask_loop (attempt decode duration timeout w) (cl_sleep w) max_attempts 0 (OtherFailure '''') 0"

end
