(* ===== verification/Semantic_Lint.thy ===== *)
theory Semantic_Lint
  imports Semantic_Client
begin

text \<open>
  The rest of \<open>internal/semantic/check.go\<close>: what a run may send, how the answers become judgments and
  findings, the run itself and its summary. The outcome of each request is an argument of the run; requests
  are answered concurrently, and the run composes them in their order.
\<close>

section \<open>The report\<close>

record judged_finding =
  jf_question :: string
  jf_severity :: severity
  jf_path :: string
  jf_line :: int
  jf_symbol :: string
  jf_value :: rat
  jf_confidence :: "rat option"
  jf_threshold :: rat
  jf_message :: string

record lint_judgment =
  jd_question :: string
  jd_path :: string
  jd_line :: int
  jd_symbol :: string
  jd_value :: rat
  jd_confidence :: "rat option"
  jd_fired :: bool
  jd_uncertain :: bool

record lint_report =
  lt_version :: nat
  lt_mode :: string
  lt_catalog :: string
  lt_model :: string
  lt_served_model :: string
  lt_base_ref :: string
  lt_base :: string
  lt_requests :: nat
  lt_input_tokens :: int
  lt_findings :: "judged_finding list"
  lt_judgments :: "lint_judgment list"
  lt_missing :: "string list"
  lt_skipped :: "string list"
  lt_errors :: "string list"
  lt_notes :: "string list"

definition mode_advisory :: string where "mode_advisory = ''advisory''"
definition default_max_requests :: int where "default_max_requests = 60"
definition default_max_input_chars :: int where "default_max_input_chars = 1500000"

definition new_report :: "string \<Rightarrow> lint_report" where
  "new_report model = \<lparr>lt_version = 1, lt_mode = mode_advisory, lt_catalog = catalog_version, lt_model = model,
     lt_served_model = '''', lt_base_ref = '''', lt_base = '''', lt_requests = 0, lt_input_tokens = 0, lt_findings = [],
     lt_judgments = [], lt_missing = [], lt_skipped = [], lt_errors = [], lt_notes = []\<rparr>"

definition append_unique :: "'a list \<Rightarrow> 'a \<Rightarrow> 'a list" where
  "append_unique xs x = (if x \<in> set xs then xs else xs @ [x])"

definition first_n :: "string list \<Rightarrow> nat \<Rightarrow> string list" where
  "first_n xs n = (if length xs \<le> n then xs else take n xs @ [show_int (int (length xs - n)) @ '' more''])"

section \<open>The budget\<close>

record budget =
  bg_kept :: "judge_request list"
  bg_skipped :: "string list"
  bg_chars :: nat
  bg_limit :: string

definition or_default :: "int \<Rightarrow> int \<Rightarrow> int" where
  "or_default i d = (if i \<noteq> 0 then i else d)"

definition or_text :: "string \<Rightarrow> string \<Rightarrow> string" where
  "or_text s d = (if s \<noteq> '''' then s else d)"

definition budget_step :: "int \<Rightarrow> int \<Rightarrow> budget \<Rightarrow> judge_request \<Rightarrow> budget" where
  "budget_step max_requests max_chars b r =
     (if int (length (bg_kept b)) \<ge> max_requests then
        b\<lparr>bg_limit := or_text (bg_limit b) (''max_requests ('' @ show_int max_requests @ '')''),
          bg_skipped := append_unique (bg_skipped b) (request_label r)\<rparr>
      else if int (bg_chars b + request_chars r) > max_chars then
        b\<lparr>bg_limit := or_text (bg_limit b) (''max_input_chars ('' @ show_int max_chars @ '')''),
          bg_skipped := append_unique (bg_skipped b) (request_label r)\<rparr>
      else b\<lparr>bg_kept := bg_kept b @ [r], bg_chars := bg_chars b + request_chars r\<rparr>)"

definition budget_start :: budget where
  "budget_start = \<lparr>bg_kept = [], bg_skipped = [], bg_chars = 0, bg_limit = ''''\<rparr>"

definition within_budget :: "int \<Rightarrow> int \<Rightarrow> judge_request list \<Rightarrow> judge_request list \<times> string list \<times> string" where
  "within_budget max_requests0 max_chars0 rs =
     (let b = foldl (budget_step (or_default max_requests0 default_max_requests) (or_default max_chars0 default_max_input_chars))
            budget_start rs
      in if bg_skipped b = [] then (bg_kept b, [], '''')
         else (bg_kept b, bg_skipped b,
           show_int (int (length rs - length (bg_kept b))) @ '' of '' @ show_int (int (length rs)) @
           '' requests were not sent because they would exceed '' @ bg_limit b @
           ''; raise the budget in the check's semantic options to judge '' @ join_with '', '' (first_n (bg_skipped b) 5)))"

section \<open>Answers\<close>

definition answer_value :: "question \<Rightarrow> answer \<Rightarrow> (rat \<times> rat option) option" where
  "answer_value q a =
     (if qn_primitive q = PrimitiveScore then map_option (\<lambda>v. (v, an_confidence a)) (an_score a)
      else map_option (\<lambda>v. (v, None)) (an_noul a))"

text \<open>\<open>pending.label\<close>\<close>

definition pending_label :: "pending_question \<Rightarrow> string" where
  "pending_label p =
     (let location = (if pq_line p > 0 then pq_path p @ '':'' @ show_int (pq_line p) else pq_path p) in
      (if pq_path p \<noteq> '''' \<and> pq_symbol p \<noteq> '''' then location @ '' '' @ pq_symbol p
       else if pq_symbol p \<noteq> '''' then ''commit '' @ pq_symbol p
       else if location = '''' then ''change'' else location) @ '' '' @ qn_id (pq_question p))"

definition uncertain_answer :: "question \<Rightarrow> rat option \<Rightarrow> bool" where
  "uncertain_answer q confidence \<longleftrightarrow> qn_primitive q = PrimitiveScore \<and>
     (case confidence of None \<Rightarrow> True | Some c \<Rightarrow> c < qn_confidence_min q)"

definition fires :: "question \<Rightarrow> rat \<Rightarrow> rat option \<Rightarrow> bool" where
  "fires q v confidence \<longleftrightarrow> \<not> uncertain_answer q confidence \<and>
     (if qn_direction q = DirectionLow then v \<le> qn_threshold q else v \<ge> qn_threshold q)"

definition judge :: "pending_question \<Rightarrow> rat \<Rightarrow> rat option \<Rightarrow> lint_judgment" where
  "judge p v confidence = \<lparr>jd_question = qn_id (pq_question p), jd_path = pq_path p, jd_line = pq_line p,
     jd_symbol = pq_symbol p, jd_value = v, jd_confidence = confidence, jd_fired = fires (pq_question p) v confidence,
     jd_uncertain = uncertain_answer (pq_question p) confidence\<rparr>"

definition finding_of :: "pending_question \<Rightarrow> rat \<Rightarrow> rat option \<Rightarrow> judged_finding" where
  "finding_of p v confidence = \<lparr>jf_question = qn_id (pq_question p), jf_severity = qn_severity (pq_question p),
     jf_path = pq_path p, jf_line = pq_line p, jf_symbol = pq_symbol p, jf_value = v, jf_confidence = confidence,
     jf_threshold = qn_threshold (pq_question p), jf_message = qn_issue (pq_question p)\<rparr>"

definition compose_one :: "answer gomap \<Rightarrow> lint_report \<Rightarrow> string \<times> pending_question \<Rightarrow> lint_report" where
  "compose_one answers report kp =
     (case Option.bind (map_of answers (fst kp)) (answer_value (pq_question (snd kp))) of
        None \<Rightarrow> report\<lparr>lt_missing := lt_missing report @ [pending_label (snd kp)]\<rparr>
      | Some (v, confidence) \<Rightarrow>
          report\<lparr>lt_judgments := lt_judgments report @ [judge (snd kp) v confidence],
            lt_findings := lt_findings report @
              (if fires (pq_question (snd kp)) v confidence then [finding_of (snd kp) v confidence] else [])\<rparr>)"

definition compose :: "answer gomap \<Rightarrow> judge_request \<Rightarrow> lint_report \<Rightarrow> lint_report" where
  "compose answers r report = foldl (compose_one answers) report (sort_key fst (jr_pending r))"

definition severity_rank :: "severity \<Rightarrow> nat" where
  "severity_rank s = (case s of SeverityImportant \<Rightarrow> 0 | SeverityMinor \<Rightarrow> 1 | SeverityNit \<Rightarrow> 2)"

section \<open>The run\<close>

definition failure :: "request_error \<Rightarrow> string" where
  "failure e =
     (case error_cause e of
        DeadlineExceeded \<Rightarrow> ''timed out before every request was answered''
      | ContextCanceled \<Rightarrow> ''cancelled before every request was answered''
      | _ \<Rightarrow> error_text e)"

text \<open>
  \<open>askAll\<close>: \<open>ctx i\<close> is the error of the context when the loop comes to request \<open>i\<close>, \<open>slot i\<close> the one it ends with
  while the request waits for a slot, and \<open>answered i\<close> what the client gives.
\<close>

definition ask_all :: "(nat \<Rightarrow> request_error option) \<Rightarrow> (nat \<Rightarrow> request_error option) \<Rightarrow>
    (nat \<Rightarrow> judge_request \<Rightarrow> request_error + response) \<Rightarrow> judge_request list \<Rightarrow> (request_error + response) list" where
  "ask_all ctx slot answered rs =
     map (\<lambda>(i, r). case ctx i of
         Some e \<Rightarrow> Inl e
       | None \<Rightarrow> (case slot i of Some e \<Rightarrow> Inl e | None \<Rightarrow> answered i r)) (enumerate 0 rs)"

definition served :: "response \<Rightarrow> lint_report \<Rightarrow> lint_report" where
  "served r report =
     (if re_model r = '''' then report
      else
        let changed = lt_served_model report \<noteq> '''' \<and> lt_served_model report \<noteq> re_model r in
        report\<lparr>lt_notes := lt_notes report @ (if changed
            then [''served model changed from '' @ lt_served_model report @ '' to '' @ re_model r @ '' during the run''] else []),
          lt_served_model := re_model r\<rparr>)"

definition compose_outcome :: "lint_report \<Rightarrow> judge_request \<times> (request_error + response) \<Rightarrow> lint_report" where
  "compose_outcome report ro =
     (case snd ro of
        Inl e \<Rightarrow> compose [] (fst ro) (report\<lparr>lt_errors := append_unique (lt_errors report) (failure e)\<rparr>)
      | Inr response \<Rightarrow>
          compose (re_answers response) (fst ro) (served response
            (report\<lparr>lt_requests := Suc (lt_requests report),
               lt_input_tokens := lt_input_tokens report + re_input_tokens response\<rparr>)))"

definition finish_report :: "lint_report \<Rightarrow> lint_report" where
  "finish_report report =
     report\<lparr>lt_findings := sort_key (severity_rank \<circ> jf_severity) (lt_findings report),
       lt_missing := remdups_adj (sort (lt_missing report))\<rparr>"

definition judge_requests :: "int \<Rightarrow> int \<Rightarrow> (judge_request list \<Rightarrow> (request_error + response) list) \<Rightarrow>
    judge_request list \<Rightarrow> lint_report \<Rightarrow> lint_report" where
  "judge_requests max_requests max_chars outcomes requests report =
     (let (kept, skipped, note) = within_budget max_requests max_chars requests;
          report1 = (if note = '''' then report
            else report\<lparr>lt_notes := lt_notes report @ [note], lt_skipped := skipped\<rparr>)
      in finish_report (foldl compose_outcome report1 (zip kept (outcomes kept))))"

text \<open>\<open>Options\<close>, with the files of the source the run reads.\<close>

record lint_options =
  lo_source :: string
  lo_include :: "string \<Rightarrow> bool"
  lo_base :: string
  lo_model :: string
  lo_max_requests :: int
  lo_max_input_chars :: int

text \<open>
  \<open>Run\<close> gives the report and an error; the outer \<open>None\<close> is a panic. \<open>untracked\<close> is the content of a regular
  file of the working tree, \<open>files\<close> the source, \<open>eval_links\<close> resolves links.
\<close>

definition semantic_run :: "git_world \<Rightarrow> (string \<Rightarrow> string option) \<Rightarrow> (string \<Rightarrow> string option) \<Rightarrow> source_files \<Rightarrow>
    (judge_request list \<Rightarrow> (request_error + response) list) \<Rightarrow> lint_options \<Rightarrow> nat \<Rightarrow> (lint_report \<times> change_error option) option" where
  "semantic_run g eval_links untracked files outcomes opts n =
     (let report = new_report (lo_model opts) in
      case git_cmd g [''rev-parse'', ''--show-toplevel''] n of
        (Inl e, n) \<Rightarrow> Some (report, Some (GitError e))
      | (Inr top_dir, n) \<Rightarrow>
          (case source_prefix eval_links (trim_space top_dir) (lo_source opts) of
             Inl e \<Rightarrow> Some (report, Some e)
           | Inr below \<Rightarrow>
               (case load_change g untracked (lo_base opts)
                   (\<lambda>path. case cut_prefix path below of (rel, ok) \<Rightarrow> ok \<and> lo_include opts rel) n of
                  (Inl e, n) \<Rightarrow> Some (report, Some e)
                | (Inr ch, n) \<Rightarrow>
                    map_option (\<lambda>(requests, notes).
                        let report1 = report\<lparr>lt_base_ref := sg_base_ref ch, lt_base := sg_base ch, lt_notes := notes\<rparr> in
                        if requests = [] \<and> notes = []
                        then (report1\<lparr>lt_notes := [''no reviewable Go or Markdown changes against '' @ sg_base_ref ch]\<rparr>, None)
                        else (judge_requests (lo_max_requests opts) (lo_max_input_chars opts) outcomes requests report1, None))
                      (build_requests files ch below))))"

section \<open>Summary\<close>

text \<open>\<open>%.2f\<close>: the nearest hundredth, the even one of two that are as near.\<close>

definition round_hundredths :: "rat \<Rightarrow> nat" where
  "round_hundredths v =
     (let n = \<lfloor>v * 100\<rfloor>; rest = v * 100 - of_int n in
      nat (if rest > 1 / 2 \<or> rest = 1 / 2 \<and> odd n then n + 1 else n))"

definition show_fixed2 :: "rat \<Rightarrow> string" where
  "show_fixed2 v =
     (let n = round_hundredths \<bar>v\<bar> in
      (if v < 0 then ''-'' else '''') @ show_nat (n div 100) @ ''.'' @ show_nat (n div 10 mod 10) @ show_nat (n mod 10))"

definition pad_right :: "nat \<Rightarrow> string \<Rightarrow> string" where
  "pad_right n s = s @ replicate (n - length s) CHR '' ''"

definition finding_line :: "judged_finding \<Rightarrow> string" where
  "finding_line f =
     (let place = (if jf_line f > 0 then jf_path f @ '':'' @ show_int (jf_line f) else jf_path f);
          location = (if jf_symbol f \<noteq> '''' then place @ '' ('' @ jf_symbol f @ '')'' else place)
      in ''  '' @ pad_right 9 (severity_name (jf_severity f)) @ '' '' @ pad_right 30 (jf_question f) @ '' '' @
         trim_space location @ ''  '' @ show_fixed2 (jf_value f) @ '' vs '' @ show_fixed2 (jf_threshold f) @ ''  '' @
         jf_message f @ newline)"

definition lint_summary :: "lint_report \<Rightarrow> string" where
  "lint_summary r =
     ''semantic-lint ('' @ lt_mode r @ ''): '' @ show_int (int (length (lt_findings r))) @ '' findings, '' @
     show_int (int (length (filter jd_uncertain (lt_judgments r)))) @ '' uncertain, '' @
     show_int (int (length (lt_judgments r))) @ '' judgments, '' @ show_int (int (lt_requests r)) @ '' requests, '' @
     show_int (lt_input_tokens r) @ '' input tokens, model '' @ or_text (lt_served_model r) (lt_model r) @ newline @
     concat (map finding_line (lt_findings r)) @
     concat (map (\<lambda>l. ''  unanswered '' @ l @ newline) (lt_missing r)) @
     concat (map (\<lambda>e. ''  request failed: '' @ e @ newline) (lt_errors r)) @
     concat (map (\<lambda>note. ''  note: '' @ note @ newline) (lt_notes r))"

end
