(* ===== verification/Semantic_Properties.thy ===== *)
theory Semantic_Properties
  imports Semantic_Lint "HOL-Library.Multiset"
begin

text \<open>
  What semantic-lint promises: a request names only what its state has and is small enough to send, a run
  stays in its budget and says what it left out, every question asked is judged or reported as unanswered,
  and the client asks a bounded number of times.
\<close>

section \<open>Shortening keeps the items\<close>

definition item_count :: "json gomap \<Rightarrow> string \<Rightarrow> nat" where
  "item_count state name =
     (case object_field ''items'' state of
        None \<Rightarrow> 0
      | Some fs \<Rightarrow> (case map_of fs name of Some (JList xs) \<Rightarrow> length xs | _ \<Rightarrow> 0))"

lemma object_field_update:
  "object_field k (AList.update j v state) = (if j = k then (case v of JObj fs \<Rightarrow> Some fs | _ \<Rightarrow> None) else object_field k state)"
  by (simp add: object_field_def AList.update_conv')

lemma object_field_set_in: "j \<noteq> k \<Longrightarrow> object_field k (set_in j f v state) = object_field k state"
  by (auto simp: set_in_def object_field_update split: option.splits)

lemma item_count_update [simp]: "k \<noteq> ''items'' \<Longrightarrow> item_count (AList.update k v state) name = item_count state name"
  by (simp add: item_count_def object_field_update)

lemma item_count_set_in [simp]: "k \<noteq> ''items'' \<Longrightarrow> item_count (set_in k f v state) name = item_count state name"
  by (simp add: item_count_def object_field_set_in)

lemma item_count_slice:
  "map_of fs name = Some (json_slice f xs) \<Longrightarrow> object_field ''items'' state = Some fs \<Longrightarrow> item_count state name = length xs"
  by (simp add: item_count_def json_slice_def)

lemma truncated_list_length:
  "(case truncate_item_list limit v of JList xs \<Rightarrow> length xs | _ \<Rightarrow> 0) = (case v of JList xs \<Rightarrow> length xs | _ \<Rightarrow> 0)"
  by (cases v) (auto simp: truncate_item_list_def item_objects_def split: list.split)

lemma map_of_truncate_items: "map_of (truncate_items limit named) name = map_option (truncate_item_list limit) (map_of named name)"
  by (induction named) (auto simp: truncate_items_def)

lemma item_count_truncated:
  "object_field ''items'' state = Some fs \<Longrightarrow>
     item_count (AList.update ''items'' (JObj (truncate_items limit fs)) state') name = item_count state name"
  using truncated_list_length [of limit]
  by (auto simp: item_count_def object_field_update map_of_truncate_items split: option.split)

lemma shorten_summaries_items [simp]: "item_count (shorten_summaries limit original state) name = item_count state name"
  by (simp add: shorten_summaries_def summary_lists_def split: option.split)

lemma round_step_items:
  assumes "step \<in> set round_steps" "\<And>name. item_count state name = item_count original name"
  shows "item_count (step limit original state) name = item_count original name"
  using assms
  by (auto simp: round_steps_def shorten_after_def shorten_docs_def shorten_diff_def shorten_items_def shorten_rest_def
    shorten_change_def Let_def item_count_truncated split: option.splits)

lemma fit_steps_items:
  assumes "\<And>step s name. step \<in> set steps \<Longrightarrow> (\<And>n. item_count s n = item_count original n) \<Longrightarrow>
      item_count (step s) name = item_count original name"
    and "\<And>n. item_count state n = item_count original n"
  shows "item_count (fst (fit_steps steps state)) name = item_count original name"
  using assms by (induction steps arbitrary: state) (simp_all add: Let_def)

lemma fit_steps_fits:
  "steps \<noteq> [] \<or> \<not> request_size state \<le> max_state_chars \<Longrightarrow>
     snd (fit_steps steps state) \<longleftrightarrow> request_size (fst (fit_steps steps state)) \<le> max_state_chars"
  by (induction steps arbitrary: state) (auto simp: Let_def)

lemma fit_state_fits: "snd (fit_state state) \<longleftrightarrow> request_size (fst (fit_state state)) \<le> max_state_chars"
proof (cases "request_size state \<le> max_state_chars")
  case False
  then have "snd (fit_steps steps state) \<longleftrightarrow> request_size (fst (fit_steps steps state)) \<le> max_state_chars" for steps
    by (intro fit_steps_fits) simp
  then show ?thesis using False by (simp add: fit_state_def del: fit_steps.simps)
qed (simp add: fit_state_def)

lemma fit_state_items: "item_count (fst (fit_state state)) name = item_count state name"
proof (cases "request_size state \<le> max_state_chars")
  case False
  let ?steps = "drop_neighbours # concat (map (\<lambda>limit. map (\<lambda>step. step limit state) round_steps) shrink_limits)"
  have "item_count (fst (fit_steps ?steps state)) name = item_count state name"
  proof (rule fit_steps_items)
    fix step s n
    assume step: "step \<in> set ?steps" and s: "\<And>m. item_count s m = item_count state m"
    then consider "step = drop_neighbours" | f limit where "f \<in> set round_steps" "step = f limit state" by auto
    then show "item_count (step s) n = item_count state n"
    proof cases
      case 1
      then show ?thesis using s by (simp add: drop_neighbours_def)
    next
      case 2
      then show ?thesis using round_step_items [of f s state limit n] s by simp
    qed
  qed simp
  then show ?thesis using False by (simp add: fit_state_def del: fit_steps.simps)
qed (simp add: fit_state_def)

text \<open>A state is shortened to the size the API accepts or the request is marked as too large: it is sent
  exactly when it fits. The questions stay, and every preselected list keeps its number of items, so that each
  question still names the element it judges.\<close>

theorem fit_keeps_items:
  "(jr_oversize (fit r) = '''' \<longleftrightarrow> request_size (jr_state (fit r)) \<le> max_state_chars) \<and>
   jr_questions (fit r) = jr_questions r \<and> jr_pending (fit r) = jr_pending r \<and>
   (\<forall>name. item_count (jr_state (fit r)) name = item_count (jr_state r) name)"
  using fit_state_fits [of "jr_state r"] fit_state_items [of "jr_state r"]
  by (simp add: fit_def split_beta)

lemmas fitted = fit_state_fits fit_state_items

section \<open>Truncation\<close>

lemma rune_boundary_below_le: "rune_boundary_below t i \<le> i"
  by (induction i) auto

lemma rune_boundary_le: "rune_boundary t i \<le> i \<or> rune_boundary t i = length t"
  using rune_boundary_below_le [of t i] by (simp add: rune_boundary_def)

lemma rune_boundary_start: "rune_boundary_below t i = 0 \<or> rune_start (t ! rune_boundary_below t i)"
  by (induction i) auto

lemma truncate_text_cases:
  "truncate_text t limit = t \<or>
     (\<exists>i \<le> limit. i < length t \<and> (i = 0 \<or> rune_start (t ! i)) \<and> truncate_text t limit = take i t @ truncation_marker)"
proof (cases "length t \<le> limit + length truncation_marker")
  case False
  then have "rune_boundary t limit = rune_boundary_below t limit" by (simp add: rune_boundary_def)
  then show ?thesis
    using False rune_boundary_below_le [of t limit] rune_boundary_start [of t limit]
    by (auto simp: truncate_text_def intro!: exI [of _ "rune_boundary_below t limit"])
qed (simp add: truncate_text_def)

text \<open>Truncation never grows a text and cuts it only where a character begins: what is left is the text
  itself or a part of it that ends at the start of a rune, with the marker.\<close>

theorem truncation_is_safe:
  "length (truncate_text t limit) \<le> length t \<and>
   length (truncate_text t limit) \<le> limit + length truncation_marker \<and>
   (truncate_text t limit = t \<or>
    (\<exists>i. i < length t \<and> i \<le> limit \<and> (i = 0 \<or> rune_start (t ! i)) \<and>
       truncate_text t limit = take i t @ truncation_marker))"
proof (cases "length t \<le> limit + length truncation_marker")
  case True
  then show ?thesis by (simp add: truncate_text_def)
next
  case False
  then have "rune_boundary t limit \<le> limit" using rune_boundary_below_le by (simp add: rune_boundary_def)
  then show ?thesis using False truncate_text_cases [of t limit] by (auto simp: truncate_text_def)
qed

section \<open>Requests name what their state has\<close>

text \<open>
  A request is well formed over a state: its questions and what they judge have the same keys, each question is
  the one its key stands for, and one about an item names an item of its list.
\<close>

definition names_item :: "json gomap \<Rightarrow> question \<Rightarrow> nat option \<Rightarrow> bool" where
  "names_item state q index =
     (case index of None \<Rightarrow> True | Some i \<Rightarrow> i < item_count state (item_name (qn_items q)))"

definition well_formed :: "json gomap \<Rightarrow> judge_request \<Rightarrow> bool" where
  "well_formed state r \<longleftrightarrow>
     map fst (jr_questions r) = map fst (jr_pending r) \<and> distinct (map fst (jr_pending r)) \<and>
     (\<forall>k p. map_of (jr_pending r) k = Some p \<longrightarrow>
        (\<exists>index. k = question_key (pq_question p) index \<and> names_item state (pq_question p) index \<and>
          map_of (jr_questions r) k = Some (wire_of (pq_question p) index)))"

lemma well_formed_empty [simp]: "well_formed state (empty_request s)"
  by (simp add: well_formed_def empty_request_def)

lemma add_question_well_formed:
  assumes "well_formed state r" "pq_question p = q" "names_item state q index"
  shows "well_formed state (add_question q index p r)"
proof -
  have "map fst (jr_questions (add_question q index p r)) = map fst (jr_pending (add_question q index p r))"
    using assms(1) by (simp add: add_question_def AList.update_keys well_formed_def)
  moreover have "distinct (map fst (jr_pending (add_question q index p r)))"
    using assms(1) by (auto simp: add_question_def well_formed_def intro: AList.distinct_update)
  ultimately show ?thesis
    using assms by (auto simp: well_formed_def add_question_def AList.update_conv')
qed

lemma add_items_well_formed:
  assumes "well_formed state r" "\<forall>p \<in> set ps. pq_question p = q"
    "length ps \<le> item_count state (item_name (qn_items q))"
  shows "well_formed state (add_items q ps r)"
proof -
  have "well_formed state (foldl (\<lambda>r (i, p). add_question q (Some i) p r) r (enumerate n ps))"
    if "well_formed state r" "\<forall>p \<in> set ps. pq_question p = q" "n + length ps \<le> item_count state (item_name (qn_items q))" for n r ps
    using that
    by (induction ps arbitrary: n r) (auto simp: add_question_well_formed names_item_def)
  from this [of r ps 0] show ?thesis using assms by (simp add: add_items_def)
qed

lemma foldl_well_formed:
  assumes "well_formed state r" "\<And>r q. q \<in> set qs \<Longrightarrow> well_formed state r \<Longrightarrow> well_formed state (add r q)"
  shows "well_formed state (foldl add r qs)"
  using assms by (induction qs arbitrary: r) auto

lemma go_question_well_formed:
  assumes "well_formed (go_state u is_test neighbours) r"
  shows "well_formed (go_state u is_test neighbours) (go_question u neighbours r q)"
proof (cases "qn_items q = ItemsNone")
  case True
  then show ?thesis using assms
    by (auto simp: go_question_def Let_def located_def names_item_def intro: add_question_well_formed)
next
  case False
  have items: "object_field ''items'' (go_state u is_test neighbours) =
      Some [(''comments'', json_slice json_comment (gu_comments u)), (''errors'', json_slice json_error (gu_errors u))]"
    by (simp add: go_state_def object_field_def)
  have "length (go_item_lines u (qn_items q)) \<le> item_count (go_state u is_test neighbours) (item_name (qn_items q))"
    by (cases "qn_items q") (simp_all add: go_item_lines_def item_count_slice [OF _ items])
  then show ?thesis using False assms by (auto simp: go_question_def Let_def located_def intro!: add_items_well_formed)
qed

lemma doc_scope_items: "q \<in> set (questions_for ScopeDocsHunk) \<Longrightarrow> qn_items q = ItemsNone \<or> qn_items q = ItemsSentences"
  by (auto simp: questions_for_def catalog_def)

lemma doc_question_well_formed:
  assumes "well_formed (doc_state u) r" "q \<in> set (questions_for ScopeDocsHunk)"
  shows "well_formed (doc_state u) (doc_question u r q)"
proof (cases "qn_items q = ItemsNone")
  case True
  then show ?thesis using assms by (auto simp: doc_question_def Let_def located_def names_item_def intro: add_question_well_formed)
next
  case False
  have items: "object_field ''items'' (doc_state u) = Some [(''sentences'', json_slice json_sentence (du_sentences u))]"
    by (simp add: doc_state_def object_field_def)
  have "length (du_sentences u) \<le> item_count (doc_state u) (item_name (qn_items q))"
    using doc_scope_items [OF assms(2)] False by (auto simp: item_count_slice [OF _ items])
  then show ?thesis using False assms by (auto simp: doc_question_def Let_def located_def intro!: add_items_well_formed)
qed

lemma change_question_well_formed:
  assumes "well_formed (change_state ch below docs added_symbols added_keys) r"
  shows "well_formed (change_state ch below docs added_symbols added_keys) (change_question ch docs r q)"
proof (cases "qn_items q = ItemsCommits")
  case True
  have items: "object_field ''items'' (change_state ch below docs added_symbols added_keys) =
      Some [(''commits'', json_slice json_commit (sg_commits ch))]"
    by (simp add: change_state_def object_field_def)
  have "length (sg_commits ch) \<le> item_count (change_state ch below docs added_symbols added_keys) ''commits''"
    by (simp add: item_count_slice [OF _ items])
  then show ?thesis using True assms by (auto simp: change_question_def located_def intro!: add_items_well_formed)
next
  case False
  then show ?thesis using assms
    by (auto simp: change_question_def Let_def located_def names_item_def intro!: add_question_well_formed)
qed

text \<open>A request that is kept: well formed over the state it is sent with, which is small enough.\<close>

definition sendable :: "judge_request \<Rightarrow> bool" where
  "sendable r \<longleftrightarrow> well_formed (jr_state r) r \<and> request_size (jr_state r) \<le> max_state_chars"

lemma well_formed_cong:
  assumes "well_formed state r" "jr_questions r' = jr_questions r" "jr_pending r' = jr_pending r"
    and counts: "\<And>name. item_count state' name = item_count state name"
  shows "well_formed state' r'"
proof -
  have "names_item state' = names_item state" using counts by (simp add: names_item_def fun_eq_iff split: option.split)
  then show ?thesis using assms(1-3) by (simp add: well_formed_def del: map_of_eq_Some_iff)
qed

lemma fit_well_formed: "well_formed (jr_state r) r \<Longrightarrow> well_formed (jr_state (fit r)) (fit r)"
  by (rule well_formed_cong) (simp_all add: fit_def split_beta fitted)

lemma fit_oversize: "jr_oversize (fit r) = '''' \<longleftrightarrow> request_size (jr_state (fit r)) \<le> max_state_chars"
  using fitted(1) [of "jr_state r"] by (simp add: fit_def split_beta)

lemma add_question_state [simp]: "jr_state (add_question q index p r) = jr_state r"
  by (simp add: add_question_def)

lemma foldl_state: "(\<And>r x. jr_state (f r x) = jr_state r) \<Longrightarrow> jr_state (foldl f r xs) = jr_state r"
  by (induction xs arbitrary: r) auto

lemma add_items_state [simp]: "jr_state (add_items q ps r) = jr_state r"
  by (simp add: add_items_def foldl_state split_beta)

lemma built_state [simp]:
  "jr_state (go_question u neighbours r q) = jr_state r"
  "jr_state (doc_question d r q) = jr_state r"
  "jr_state (change_question ch docs r q) = jr_state r"
  by (simp_all add: go_question_def doc_question_def change_question_def Let_def)

lemma built_sendable:
  assumes "well_formed state (foldl add (empty_request state) qs)" "\<And>r q. jr_state (add r q) = jr_state r"
    "jr_oversize (fit (foldl add (empty_request state) qs)) = ''''"
  shows "sendable (fit (foldl add (empty_request state) qs))"
proof -
  have "jr_state (foldl add (empty_request state) qs) = state" using assms(2) by (simp add: foldl_state empty_request_def)
  then show ?thesis using assms fit_well_formed fit_oversize by (simp add: sendable_def)
qed

lemma go_request_sendable:
  "jr_oversize (fst (go_request u is_test neighbours)) = '''' \<Longrightarrow> sendable (fst (go_request u is_test neighbours))"
  by (auto simp: go_request_def Let_def intro!: built_sendable foldl_well_formed go_question_well_formed)

lemma doc_request_sendable: "jr_oversize (fst (doc_request u)) = '''' \<Longrightarrow> sendable (fst (doc_request u))"
  by (auto simp: doc_request_def Let_def intro!: built_sendable foldl_well_formed doc_question_well_formed)

lemma change_request_sendable:
  "change_request ch below docs symbols keys = Some (r, b) \<Longrightarrow> jr_oversize r = '''' \<Longrightarrow> sendable r"
  by (auto simp: change_request_def Let_def split: if_splits
    intro!: built_sendable foldl_well_formed change_question_well_formed)

definition all_sendable :: "queued \<Rightarrow> bool" where
  "all_sendable s \<longleftrightarrow> (\<forall>r \<in> set (qd_requests s). sendable r)"

lemma keep_sendable: "all_sendable s \<Longrightarrow> (jr_oversize r = '''' \<Longrightarrow> sendable r) \<Longrightarrow> all_sendable (keep r s)"
  by (auto simp: all_sendable_def keep_def)

lemma keep_asked_sendable:
  assumes "all_sendable s" "\<forall>rb \<in> set rs. jr_oversize (fst rb) = '''' \<longrightarrow> sendable (fst rb)"
  shows "all_sendable (foldl keep_asked s rs)"
  using assms by (induction rs arbitrary: s) (auto simp: keep_asked_def intro: keep_sendable)

lemma queue_go_sendable: "all_sendable s \<Longrightarrow> all_sendable (queue_go fs f rel src s)"
  unfolding queue_go_def Let_def
  by (rule keep_asked_sendable) (auto simp: all_sendable_def go_request_sendable)

lemma queue_docs_sendable:
  assumes "all_sendable s" "queue_docs f rel src s = Some s'"
  shows "all_sendable s'"
proof -
  let ?s = "s\<lparr>qd_docs := qd_docs s @ concat (map hn_diff (fc_hunks f))\<rparr>"
  have "all_sendable (foldl keep_asked ?s (map doc_request units))" for units
    using assms(1) by (intro keep_asked_sendable) (simp_all add: all_sendable_def doc_request_sendable)
  then show ?thesis using assms(2) by (auto simp: queue_docs_def)
qed

lemma queue_file_sendable: "all_sendable s \<Longrightarrow> queue_file fs below f s = Some s' \<Longrightarrow> all_sendable s'"
proof -
  assume s: "all_sendable s" and q: "queue_file fs below f s = Some s'"
  let ?s = "s\<lparr>qd_keys := qd_keys s @ config_keys f\<rparr>"
  have "all_sendable ?s" "all_sendable (?s\<lparr>qd_notes := ns\<rparr>)" for ns using s by (simp_all add: all_sendable_def)
  with q show "all_sendable s'"
    by (auto simp: queue_file_def Let_def queue_go_sendable queue_docs_sendable
      split: if_splits file_kind.splits sum.splits)
qed

lemma queue_files_sendable: "all_sendable s \<Longrightarrow> queue_files fs below files s = Some s' \<Longrightarrow> all_sendable s'"
  by (induction files arbitrary: s) (auto split: option.splits dest: queue_file_sendable)

text \<open>C34. Every request that is sent is well formed: its state has the size the API accepts, each question it asks
  has one entry that says what is judged, and a question about an item of a preselected list names an item the
  list of the sent state has.\<close>

theorem requests_are_well_formed:
  assumes "build_requests fs ch below = Some (requests, notes)" "r \<in> set requests"
  shows "well_formed (jr_state r) r \<and> request_size (jr_state r) \<le> max_state_chars"
proof -
  obtain s where s: "queue_files fs below (sg_files ch) nothing_queued = Some s"
    using assms(1) by (auto simp: build_requests_def split: option.splits)
  have queued: "all_sendable s" by (rule queue_files_sendable [OF _ s]) (simp add: all_sendable_def nothing_queued_def)
  have "\<forall>r \<in> set requests. sendable r"
  proof (cases "change_request ch below (truncate_text (qd_docs s) max_docs_diff_chars) (qd_symbols s) (qd_keys s)")
    case None
    then show ?thesis using assms(1) s queued by (auto simp: build_requests_def all_sendable_def)
  next
    case (Some rb)
    obtain c b where rb: "rb = (c, b)" by fastforce
    have "all_sendable (keep c (s\<lparr>qd_requests := []\<rparr>))"
      using change_request_sendable Some rb by (intro keep_sendable) (auto simp: all_sendable_def)
    then show ?thesis using assms(1) s queued Some rb
      by (cases b) (auto simp: build_requests_def all_sendable_def Let_def)
  qed
  then show ?thesis using assms(2) by (simp add: sendable_def)
qed

section \<open>The budget\<close>

definition chars_of :: "judge_request list \<Rightarrow> nat" where
  "chars_of rs = sum_list (map request_chars rs)"

text \<open>What the budget of a run looks like once it has seen some of the requests.\<close>

definition budget_inv :: "int \<Rightarrow> int \<Rightarrow> judge_request list \<Rightarrow> budget \<Rightarrow> bool" where
  "budget_inv m c seen b \<longleftrightarrow>
     subseq (bg_kept b) seen \<and> int (length (bg_kept b)) \<le> m \<and> int (chars_of (bg_kept b)) \<le> c \<and>
     bg_chars b = chars_of (bg_kept b) \<and> (bg_skipped b = [] \<longleftrightarrow> bg_kept b = seen) \<and>
     (\<forall>r \<in> set seen. r \<in> set (bg_kept b) \<or> request_label r \<in> set (bg_skipped b) \<and>
        (int (length (bg_kept b)) \<ge> m \<or> int (chars_of (bg_kept b) + request_chars r) > c))"

lemma chars_of_snoc [simp]: "chars_of (rs @ [r]) = chars_of rs + request_chars r" "chars_of [] = 0"
  by (simp_all add: chars_of_def)

lemma set_append_unique [simp]: "set (append_unique xs x) = insert x (set xs)"
  by (auto simp: append_unique_def)

lemma append_unique_not_Nil [simp]: "append_unique xs x \<noteq> []"
  by (auto simp: append_unique_def)

lemma subseq_snoc: "subseq xs ys \<Longrightarrow> subseq (xs @ [x]) (ys @ [x])" "subseq xs ys \<Longrightarrow> subseq xs (ys @ [y])"
  by (simp_all add: list_emb_prefix subseq_append)

lemma budget_step_inv:
  assumes "budget_inv m c seen b"
  shows "budget_inv m c (seen @ [r]) (budget_step m c b r)"
proof -
  consider (full) "int (length (bg_kept b)) \<ge> m" | (large) "\<not> int (length (bg_kept b)) \<ge> m" "int (bg_chars b + request_chars r) > c"
    | (fits) "\<not> int (length (bg_kept b)) \<ge> m" "\<not> int (bg_chars b + request_chars r) > c" by blast
  then show ?thesis
  proof cases
    case fits
    then show ?thesis using assms by (auto simp: budget_inv_def budget_step_def subseq_snoc)
  next
    case full
    then show ?thesis using assms list_emb_length [of "(=)" "bg_kept b" seen]
      by (auto simp: budget_inv_def budget_step_def subseq_snoc)
  next
    case large
    then show ?thesis using assms list_emb_length [of "(=)" "bg_kept b" seen]
      by (auto simp: budget_inv_def budget_step_def subseq_snoc)
  qed
qed

lemma budget_loop_inv:
  "budget_inv m c seen b \<Longrightarrow> budget_inv m c (seen @ rs) (foldl (budget_step m c) b rs)"
proof (induction rs arbitrary: seen b)
  case (Cons r rs)
  then show ?case using budget_step_inv [OF Cons.prems, of r] Cons.IH [of "seen @ [r]"] by simp
qed simp

text \<open>C15. A run sends no more requests and characters than its budget: what it sends is a part of the requests in
  their order, a request that is not sent is named in the report and would have exceeded the budget, and the
  report says so exactly when one is left out.\<close>

theorem budget_is_respected:
  assumes "0 \<le> max_requests" "0 \<le> max_chars" "within_budget max_requests max_chars rs = (kept, skipped, message)"
  shows "subseq kept rs \<and> int (length kept) \<le> or_default max_requests default_max_requests \<and>
    int (chars_of kept) \<le> or_default max_chars default_max_input_chars \<and> (message = '''' \<longleftrightarrow> kept = rs) \<and>
    (\<forall>r \<in> set rs. r \<in> set kept \<or> request_label r \<in> set skipped \<and>
       (int (length kept) \<ge> or_default max_requests default_max_requests \<or>
        int (chars_of kept + request_chars r) > or_default max_chars default_max_input_chars))"
proof -
  let ?m = "or_default max_requests default_max_requests" and ?c = "or_default max_chars default_max_input_chars"
  have "0 \<le> ?m" "0 \<le> ?c" using assms(1,2)
    by (auto simp: or_default_def default_max_requests_def default_max_input_chars_def)
  then have "budget_inv ?m ?c [] budget_start" by (simp add: budget_inv_def budget_start_def)
  from budget_loop_inv [OF this, of rs] assms(3) show ?thesis
    by (auto simp: within_budget_def Let_def budget_inv_def split: if_splits)
qed

section \<open>Every question is accounted for\<close>

text \<open>The abstract report of a run: each question that was asked with its answer, in the order of the requests.\<close>

definition verdict :: "request_error + response \<Rightarrow> string \<times> pending_question \<Rightarrow> (rat \<times> rat option) option" where
  "verdict out kp =
     (case out of
        Inl e \<Rightarrow> None
      | Inr re \<Rightarrow> Option.bind (map_of (re_answers re) (fst kp)) (answer_value (pq_question (snd kp))))"

definition verdicts ::
  "(judge_request \<times> (request_error + response)) list \<Rightarrow> (pending_question \<times> (rat \<times> rat option) option) list" where
  "verdicts ros = concat (map (\<lambda>(r, out). map (\<lambda>kp. (snd kp, verdict out kp)) (sort_key fst (jr_pending r))) ros)"

definition judged_answers :: "(pending_question \<times> (rat \<times> rat option) option) list \<Rightarrow> lint_judgment list" where
  "judged_answers vs = concat (map (\<lambda>(p, v). case v of None \<Rightarrow> [] | Some (x, c) \<Rightarrow> [judge p x c]) vs)"

definition fired_answers :: "(pending_question \<times> (rat \<times> rat option) option) list \<Rightarrow> judged_finding list" where
  "fired_answers vs = concat (map (\<lambda>(p, v). case v of None \<Rightarrow> []
     | Some (x, c) \<Rightarrow> if fires (pq_question p) x c then [finding_of p x c] else []) vs)"

definition missing_answers :: "(pending_question \<times> (rat \<times> rat option) option) list \<Rightarrow> string list" where
  "missing_answers vs = map (pending_label \<circ> fst) (filter (\<lambda>v. snd v = None) vs)"

lemma answers_append [simp]:
  "judged_answers (vs @ ws) = judged_answers vs @ judged_answers ws" "judged_answers [] = []"
  "fired_answers (vs @ ws) = fired_answers vs @ fired_answers ws" "fired_answers [] = []"
  "missing_answers (vs @ ws) = missing_answers vs @ missing_answers ws" "missing_answers [] = []"
  by (simp_all add: judged_answers_def fired_answers_def missing_answers_def)

lemma answers_Cons:
  "judged_answers ((p, v) # vs) = (case v of None \<Rightarrow> [] | Some (x, c) \<Rightarrow> [judge p x c]) @ judged_answers vs"
  "fired_answers ((p, v) # vs) = (case v of None \<Rightarrow> []
     | Some (x, c) \<Rightarrow> if fires (pq_question p) x c then [finding_of p x c] else []) @ fired_answers vs"
  "missing_answers ((p, v) # vs) = (if v = None then [pending_label p] else []) @ missing_answers vs"
  by (simp_all add: judged_answers_def fired_answers_def missing_answers_def)

definition answered_by :: "lint_report \<Rightarrow> (pending_question \<times> (rat \<times> rat option) option) list \<Rightarrow> lint_report \<Rightarrow> bool" where
  "answered_by r vs r' \<longleftrightarrow> lt_judgments r' = lt_judgments r @ judged_answers vs \<and>
     lt_findings r' = lt_findings r @ fired_answers vs \<and> lt_missing r' = lt_missing r @ missing_answers vs"

lemma answered_by_trans: "answered_by r vs r' \<Longrightarrow> answered_by r' ws r'' \<Longrightarrow> answered_by r (vs @ ws) r''"
  by (simp add: answered_by_def)

lemma compose_one_answered:
  "answered_by r [(snd kp, Option.bind (map_of answers (fst kp)) (answer_value (pq_question (snd kp))))] (compose_one answers r kp)"
  by (auto simp: answered_by_def compose_one_def answers_Cons split: option.split)

lemma compose_loop_answered:
  "answered_by r (map (\<lambda>kp. (snd kp, Option.bind (map_of answers (fst kp)) (answer_value (pq_question (snd kp))))) kps)
     (foldl (compose_one answers) r kps)"
proof (induction kps arbitrary: r)
  case Nil
  then show ?case by (simp add: answered_by_def)
next
  case (Cons kp kps)
  from answered_by_trans [OF compose_one_answered Cons.IH] show ?case by simp
qed

lemma compose_outcome_answered: "answered_by r (verdicts [ro]) (compose_outcome r ro)"
proof -
  obtain jr out where ro: "ro = (jr, out)" by fastforce
  show ?thesis
  proof (cases out)
    case (Inl e)
    then show ?thesis
      using compose_loop_answered [of "r\<lparr>lt_errors := append_unique (lt_errors r) (failure e)\<rparr>" "[]" "sort_key fst (jr_pending jr)"]
      by (simp add: ro verdicts_def verdict_def compose_outcome_def compose_def answered_by_def)
  next
    case (Inr re)
    let ?r = "served re (r\<lparr>lt_requests := Suc (lt_requests r), lt_input_tokens := lt_input_tokens r + re_input_tokens re\<rparr>)"
    have "lt_judgments ?r = lt_judgments r" "lt_findings ?r = lt_findings r" "lt_missing ?r = lt_missing r"
      by (simp_all add: served_def Let_def)
    then show ?thesis
      using Inr compose_loop_answered [of ?r "re_answers re" "sort_key fst (jr_pending jr)"]
      by (simp add: ro verdicts_def verdict_def compose_outcome_def compose_def answered_by_def)
  qed
qed

lemma compose_outcomes_answered: "answered_by r (verdicts ros) (foldl compose_outcome r ros)"
proof (induction ros arbitrary: r)
  case Nil
  then show ?case by (simp add: answered_by_def verdicts_def)
next
  case (Cons ro ros)
  have "verdicts (ro # ros) = verdicts [ro] @ verdicts ros" by (simp add: verdicts_def)
  then show ?case using answered_by_trans [OF compose_outcome_answered Cons.IH] by simp
qed

lemma distinct_compact: "sorted (xs :: 'a::linorder list) \<Longrightarrow> distinct (remdups_adj xs)"
  by (induction xs rule: remdups_adj.induct) force+

text \<open>C35. The report of a run accounts for every question of every request it sent: each one is a judgment, in the
  order of the requests, or its location is listed as unanswered, once; a failed request costs only its own
  questions; and the findings are the judgments that fire, the most severe first.\<close>

theorem every_question_is_accounted:
  "let kept = fst (within_budget max_requests max_chars requests);
       vs = verdicts (zip kept (outcomes kept));
       report = judge_requests max_requests max_chars outcomes requests ((new_report model)\<lparr>lt_notes := ns\<rparr>)
   in lt_judgments report = judged_answers vs \<and>
      set (lt_missing report) = set (missing_answers vs) \<and> distinct (lt_missing report) \<and>
      mset (lt_findings report) = mset (fired_answers vs) \<and>
      sorted (map (severity_rank \<circ> jf_severity) (lt_findings report))"
proof -
  obtain kept skipped message where budget: "within_budget max_requests max_chars requests = (kept, skipped, message)"
    by (metis prod_cases3)
  let ?r = "(new_report model)\<lparr>lt_notes := ns\<rparr>"
  let ?r1 = "if message = '''' then ?r else ?r\<lparr>lt_notes := lt_notes ?r @ [message], lt_skipped := skipped\<rparr>"
  let ?vs = "verdicts (zip kept (outcomes kept))"
  have "lt_judgments ?r1 = []" "lt_findings ?r1 = []" "lt_missing ?r1 = []" by (simp_all add: new_report_def)
  then have "lt_judgments (foldl compose_outcome ?r1 (zip kept (outcomes kept))) = judged_answers ?vs"
    "lt_findings (foldl compose_outcome ?r1 (zip kept (outcomes kept))) = fired_answers ?vs"
    "lt_missing (foldl compose_outcome ?r1 (zip kept (outcomes kept))) = missing_answers ?vs"
    using compose_outcomes_answered [of ?r1 "zip kept (outcomes kept)"] by (simp_all add: answered_by_def)
  then show ?thesis
    by (simp add: judge_requests_def budget finish_report_def Let_def distinct_compact)
qed

section \<open>The client\<close>

text \<open>Attempts \<open>n\<close> to \<open>k - 1\<close> fail in a way worth another attempt, and nothing interrupts the waiting after them.\<close>

definition retried :: "(nat \<Rightarrow> (request_error \<times> int) + response) \<Rightarrow> (nat \<Rightarrow> int \<Rightarrow> request_error option) \<Rightarrow> nat \<Rightarrow> nat \<Rightarrow> bool" where
  "retried try sleep n k \<longleftrightarrow>
     list_all (\<lambda>j. case try j of Inr r \<Rightarrow> False | Inl (e, d) \<Rightarrow> 0 \<le> d \<and> sleep (Suc j) d = None) [n..<k]"

lemma retried_Suc:
  "n < k \<Longrightarrow> retried try sleep n k \<longleftrightarrow>
     (case try n of Inr r \<Rightarrow> False | Inl (e, d) \<Rightarrow> 0 \<le> d \<and> sleep (Suc n) d = None) \<and> retried try sleep (Suc n) k"
  by (simp add: retried_def upt_conv_Cons)

lemma retried_refl [simp]: "retried try sleep n n"
  by (simp add: retried_def)

lemma ask_loop_answers:
  "fst (ask_loop try sleep left n e delay) = Inr r \<longleftrightarrow>
     (n = 0 \<or> left = 0 \<or> sleep n delay = None) \<and> (\<exists>k. n \<le> k \<and> k < n + left \<and> try k = Inr r \<and> retried try sleep n k)"
proof (induction left arbitrary: n e delay)
  case (Suc left)
  show ?case
  proof (cases "(if n > 0 then sleep n delay else None) = None")
    case True
    then have ok: "n = 0 \<or> sleep n delay = None" by (auto split: if_splits)
    have split: "(\<exists>k. n \<le> k \<and> k < n + Suc left \<and> try k = Inr r \<and> retried try sleep n k) \<longleftrightarrow>
        try n = Inr r \<or> (\<exists>k. Suc n \<le> k \<and> k < Suc n + left \<and> try k = Inr r \<and> retried try sleep n k)"
      by (metis Suc_leI add_Suc add_Suc_right le_add1 le_eq_less_or_eq less_add_Suc1 retried_refl Suc_leD)
    show ?thesis
    proof (cases "try n")
      case (Inr r0)
      then show ?thesis unfolding split using True ok by (auto simp: retried_Suc)
    next
      case (Inl ed)
      obtain e' d where ed: "ed = (e', d)" by fastforce
      have rest: "(\<exists>k. Suc n \<le> k \<and> k < Suc n + left \<and> try k = Inr r \<and> retried try sleep n k) \<longleftrightarrow>
          0 \<le> d \<and> sleep (Suc n) d = None \<and> (\<exists>k. Suc n \<le> k \<and> k < Suc n + left \<and> try k = Inr r \<and> retried try sleep (Suc n) k)"
        using Inl ed by (auto simp: retried_Suc)
      show ?thesis unfolding split rest using True ok Inl ed Suc.IH [of "Suc n" e' d] by auto
    qed
  next
    case False
    then obtain stopped where "n > 0" "sleep n delay = Some stopped" by (auto split: if_splits)
    then show ?thesis by simp
  qed
qed simp

lemma ask_loop_attempts: "snd (ask_loop try sleep left n e delay) \<le> n + left"
proof (induction left arbitrary: n e delay)
  case (Suc left)
  have "snd (ask_loop try sleep left (Suc n) e' d) \<le> n + Suc left" for e' d using Suc.IH [of "Suc n"] by simp
  then show ?case by (auto split: option.split sum.split prod.split)
qed simp

lemma retry_delay_range: "go_second \<le> retry_delay header \<and> retry_delay header \<le> 30 * go_second"
  by (auto simp: retry_delay_def go_second_def split: option.split)

lemma attempt_delay: "attempt decode duration timeout w n = Inl (e, d) \<Longrightarrow> d = -1 \<or> go_second \<le> d \<and> d \<le> 30 * go_second"
  using retry_delay_range
  by (auto simp: attempt_def post_def Let_def go_second_def split: sum.splits exchange.splits option.splits if_splits)

text \<open>C17. The client asks at most three times. It gives a response exactly when one of the three attempts gives it
  and every attempt before failed in a way worth another, with the wait after it uninterrupted; and it waits
  between one second and half a minute, whatever the server asks for.\<close>

theorem client_retries_bounded:
  "snd (ask decode duration timeout w) \<le> 3 \<and>
   (fst (ask decode duration timeout w) = Inr r \<longleftrightarrow>
      (\<exists>k \<in> {0..<3}. attempt decode duration timeout w k = Inr r \<and> retried (attempt decode duration timeout w) (cl_sleep w) 0 k)) \<and>
   range retry_delay \<subseteq> {go_second..30 * go_second}"
  using ask_loop_answers [of "attempt decode duration timeout w" "cl_sleep w" 3 0 "OtherFailure ''''" 0 r]
    ask_loop_attempts [of "attempt decode duration timeout w" "cl_sleep w" 3 0 "OtherFailure ''''" 0] retry_delay_range
  by (auto simp: ask_def max_attempts_def)

section \<open>Sections of a document\<close>

lemma section_start_bounds:
  "1 \<le> start \<Longrightarrow> start \<le> int (length lines) + 1 \<Longrightarrow> \<exists>s. section_start lines start = Some s \<and> 1 \<le> s \<and> s \<le> start"
proof (induction "nat start" arbitrary: start rule: less_induct)
  case less
  show ?case
  proof (cases "start \<le> 1 \<or> heading_line (lines ! nat (start - 2))")
    case True
    then show ?thesis using less.prems by (subst section_start.simps) auto
  next
    case False
    then have "\<exists>s. section_start lines (start - 1) = Some s \<and> 1 \<le> s \<and> s \<le> start - 1" using less.prems by (intro less.hyps) auto
    then show ?thesis using False less.prems by (subst section_start.simps) auto
  qed
qed

lemma section_end_bounds:
  "0 \<le> end \<Longrightarrow> end \<le> int (length lines) \<Longrightarrow> \<exists>e. section_end lines end = Some e \<and> end \<le> e \<and> e \<le> int (length lines)"
proof (induction "nat (int (length lines) - end)" arbitrary: "end" rule: less_induct)
  case less
  show ?case
  proof (cases "end = int (length lines) \<or> heading_line (lines ! nat end)")
    case True
    then show ?thesis using less.prems by (subst section_end.simps) auto
  next
    case False
    then have "\<exists>e. section_end lines (end + 1) = Some e \<and> end + 1 \<le> e \<and> e \<le> int (length lines)"
      using less.prems by (intro less.hyps) auto
    then show ?thesis using False less.prems by (subst section_end.simps) auto
  qed
qed

lemma narrow_section_bounds:
  assumes "1 \<le> start" "start \<le> first" "first \<le> stop" "stop \<le> end" "narrow_section first stop start end = (s, e)"
  shows "start \<le> s \<and> s \<le> first \<and> stop \<le> e \<and> e \<le> end \<and> e - s + 1 \<le> max max_section_lines (stop - first + 1 + 10)"
  using assms by (auto simp: narrow_section_def max_section_lines_def Let_def max_def split: if_splits)

text \<open>Building the units of a document never indexes outside it: for a hunk that lies in the file, the text sent
  with it is a run of lines of the file that contains every line of the hunk, and it has at most 120 lines, or
  ten more than a longer hunk.\<close>

theorem sections_contain_their_hunk:
  assumes "1 \<le> first" "first \<le> stop" "stop \<le> int (length lines)"
  shows "\<exists>s e. doc_section lines first stop = Some (join_with newline (take (nat (e - s + 1)) (drop (nat (s - 1)) lines))) \<and>
    1 \<le> s \<and> s \<le> first \<and> stop \<le> e \<and> e \<le> int (length lines) \<and>
    e - s + 1 \<le> max max_section_lines (stop - first + 1 + 10)"
proof -
  obtain s0 where s0: "section_start lines first = Some s0" "1 \<le> s0" "s0 \<le> first"
    using section_start_bounds [of first lines] assms by auto
  obtain e0 where e0: "section_end lines stop = Some e0" "stop \<le> e0" "e0 \<le> int (length lines)"
    using section_end_bounds [of stop lines] assms by auto
  define s1 where "s1 = (if s0 > 1 then s0 - 1 else s0)"
  obtain s e where se: "narrow_section first stop s1 e0 = (s, e)" by fastforce
  have "1 \<le> s1" "s1 \<le> first" using s0 by (auto simp: s1_def)
  then have bounds: "s1 \<le> s \<and> s \<le> first \<and> stop \<le> e \<and> e \<le> e0 \<and> e - s + 1 \<le> max max_section_lines (stop - first + 1 + 10)"
    using narrow_section_bounds [OF _ _ assms(2) e0(2) se] by blast
  then have "max s 1 = s" "min e (int (length lines)) = e" "\<not> (s - 1 > e \<or> e < 0)" using \<open>1 \<le> s1\<close> e0 assms by auto
  then have "doc_section lines first stop = Some (join_with newline (take (nat (e - s + 1)) (drop (nat (s - 1)) lines)))"
    by (simp add: doc_section_def s0 e0 se flip: s1_def)
  then show ?thesis using bounds \<open>1 \<le> s1\<close> e0 by (intro exI [of _ s] exI [of _ e]) auto
qed

section \<open>Examples\<close>

text \<open>A change that deletes a file in one commit: it is judged as a whole only.\<close>

definition removal :: semantic_change where
  "removal = \<lparr>sg_base_ref = ''main'', sg_base = ''0000'',
     sg_files = [\<lparr>fc_path = ''a.go'', fc_kind = FileSource, fc_status = FileDeleted, fc_hunks = [], fc_added = 0, fc_removed = 3\<rparr>],
     sg_commits = [\<lparr>cm_sha = ''0123456789ab'', cm_subject = ''Remove a'', cm_files = [''a.go''], cm_hunk_headers = []\<rparr>]\<rparr>"

definition no_files :: source_files where
  "no_files = \<lparr>sf_read = \<lambda>_. Inl ''absent'', sf_parse = \<lambda>_ _. None, sf_dir = \<lambda>_. None\<rparr>"

lemma removal_queued: "queue_files no_files '''' (sg_files removal) nothing_queued = Some nothing_queued"
  by (simp add: removal_def queue_file_def nothing_queued_def config_keys_def)

lemma removal_asked:
  "jr_questions (foldl (change_question removal docs) (empty_request state) (questions_for ScopeChange)) \<noteq> []"
  by (simp add: questions_for_def catalog_def change_question_def removal_def add_items_def add_question_def kind_count_def)

lemma fit_small: "request_size (jr_state r) \<le> max_state_chars \<Longrightarrow> jr_oversize (fit r) = ''''"
  by (simp add: fit_def fit_state_def)

lemma removal_requests: "\<exists>r ns. build_requests no_files removal '''' = Some ([r], ns)"
proof -
  let ?r = "foldl (change_question removal '''') (empty_request (change_state removal '''' '''' [] [])) (questions_for ScopeChange)"
  have "request_size (change_state removal '''' '''' [] []) \<le> 600" by code_simp
  then have "request_size (change_state removal '''' '''' [] []) \<le> max_state_chars" by (simp add: max_state_chars_def)
  moreover have "jr_state ?r = change_state removal '''' '''' [] []" by (simp add: foldl_state empty_request_def)
  ultimately have fits: "jr_oversize (fit ?r) = ''''" by (intro fit_small) simp
  have "jr_questions (fit ?r) = jr_questions ?r" by (simp add: fit_def split_beta)
  then have "change_request removal '''' '''' [] [] = Some (fit ?r, True)"
    using removal_asked by (simp add: change_request_def Let_def removal_def)
  moreover have "truncate_text (qd_docs nothing_queued) max_docs_diff_chars = ''''"
    by (simp add: nothing_queued_def truncate_text_def)
  ultimately show ?thesis
    using fits by (simp add: build_requests_def removal_queued [unfolded nothing_queued_def] keep_def nothing_queued_def Let_def)
qed

theorem requests_are_well_formed_witness:
  "\<exists>r. fst (the (build_requests no_files removal '''')) = [r] \<and> well_formed (jr_state r) r \<and>
     request_size (jr_state r) \<le> max_state_chars"
proof -
  obtain r ns where r: "build_requests no_files removal '''' = Some ([r], ns)" using removal_requests by blast
  then show ?thesis using requests_are_well_formed [OF r] by simp
qed

theorem budget_is_respected_witness:
  "case within_budget 1 100 [empty_request [], empty_request []] of (kept, skipped, message) \<Rightarrow>
     length kept = 1 \<and> skipped = [''change''] \<and> message \<noteq> '''' \<and> subseq kept [empty_request [], empty_request []]"
proof -
  let ?rs = "[empty_request [], empty_request []]"
  obtain kept skipped message where b: "within_budget 1 100 ?rs = (kept, skipped, message)" by (metis prod_cases3)
  have "length (fst (within_budget 1 100 ?rs)) = 1 \<and> fst (snd (within_budget 1 100 ?rs)) = [''change'']" by code_simp
  then show ?thesis using budget_is_respected [OF _ _ b] by (auto simp: b)
qed

theorem sections_contain_their_hunk_witness:
  "\<exists>s e. doc_section [''# A'', ''one'', ''two'', ''# B''] 2 3 =
     Some (join_with newline (take (nat (e - s + 1)) (drop (nat (s - 1)) [''# A'', ''one'', ''two'', ''# B'']))) \<and> s \<le> 2 \<and> 3 \<le> e"
  using sections_contain_their_hunk [of 2 3 "[''# A'', ''one'', ''two'', ''# B'']"] by auto

end
