(* ===== verification/Host_Checks.thy ===== *)
theory Host_Checks
  imports Semantic_Lint File_Sets Mutation
begin

text \<open>
  What the host decides of the checks that look at a change: \<open>internal/verify\<close> semantic.go and mutation.go. The
  environment, \<open>url.Parse\<close>, the lookup of git and the file system are arguments.
\<close>

section \<open>semantic.go\<close>

definition base_ref_env :: string where "base_ref_env = ''GITHUB_BASE_REF''"
definition default_base_ref :: string where "default_base_ref = ''main''"
definition default_semantic_timeout :: int where "default_semantic_timeout = 5 * 60 * go_second"

definition semantic_loopback_hosts :: "string list" where
  "semantic_loopback_hosts = [''127.0.0.1'', ''::1'', ''localhost'']"

text \<open>What \<open>url.Parse\<close> gives that the source reads: the scheme, the host with its port, and the host alone.\<close>

record parsed_url =
  pu_scheme :: string
  pu_host :: string
  pu_hostname :: string

datatype semantic_error =
    InvalidSemanticTimeout
  | NoAPIKey
  | NoGit string
  | InvalidBase string
  | InvalidURL string
  | InsecureURL string

definition semantic_error_text :: "semantic_error \<Rightarrow> string" where
  "semantic_error_text e =
     (case e of
        InvalidSemanticTimeout \<Rightarrow> ''invalid timeout''
      | NoAPIKey \<Rightarrow> semantic_api_key_env @ '' is not set; export it locally or supply it from a CI secret''
      | NoGit text \<Rightarrow> text
      | InvalidBase base \<Rightarrow> ''invalid semantic-lint base '' @ go_quote base
      | InvalidURL raw \<Rightarrow> semantic_base_url_env @ '' '' @ go_quote raw @ '' is not a valid URL''
      | InsecureURL raw \<Rightarrow> semantic_base_url_env @ '' '' @ go_quote raw @
          '' must use https so the API key is not sent in the clear; plain http is accepted only for loopback hosts'')"

definition semantic_origin :: "(string \<Rightarrow> parsed_url option) \<Rightarrow> string \<Rightarrow> semantic_error + string" where
  "semantic_origin parse_url raw =
     (let trimmed = trim_right slash raw in
      case parse_url trimmed of
        None \<Rightarrow> Inl (InvalidURL raw)
      | Some u \<Rightarrow>
          if pu_host u = '''' then Inl (InvalidURL raw)
          else if pu_scheme u \<noteq> ''https'' \<and> pu_hostname u \<notin> set semantic_loopback_hosts then Inl (InsecureURL raw)
          else Inr trimmed)"

definition host_value :: "(string \<Rightarrow> string) \<Rightarrow> string list \<Rightarrow> string \<Rightarrow> string" where
  "host_value getenv env name =
     (case find (\<lambda>entry. has_prefix entry (name @ ''='')) env of
        Some entry \<Rightarrow> trim_prefix entry (name @ ''='')
      | None \<Rightarrow> getenv name)"

definition path_within :: "string \<Rightarrow> string \<Rightarrow> bool" where
  "path_within path dir \<longleftrightarrow> path = dir \<or> has_prefix path (dir @ ''/'')"

definition semantic_scope :: "target \<Rightarrow> string \<Rightarrow> bool" where
  "semantic_scope t path \<longleftrightarrow>
     \<not> (private_source_path path \<or> \<not> relative path) \<and> ''testdata'' \<notin> set (split_at slash path) \<and>
     (tg_dir t \<noteq> dot \<longrightarrow> path_within path (tg_dir t)) \<and> list_ex (\<lambda>input. input = dot \<or> path_within path input) (tg_inputs t)"

record semantic_launch =
  ln_timeout :: int
  ln_key :: string
  ln_git :: string
  ln_origin :: string
  ln_options :: lint_options

definition semantic_timeout :: "string \<Rightarrow> semantic_error + int" where
  "semantic_timeout value =
     (if value = '''' then Inr default_semantic_timeout
      else (case parse_duration value of
        None \<Rightarrow> Inl InvalidSemanticTimeout
      | Some d \<Rightarrow> if d \<le> 0 then Inl InvalidSemanticTimeout else Inr d))"

definition first_text :: "string list \<Rightarrow> string" where
  "first_text values = (case find (\<lambda>v. v \<noteq> '''') values of Some v \<Rightarrow> v | None \<Rightarrow> '''')"

text \<open>The part of \<open>semanticLint\<close> before the run: each error in the order of the source.\<close>

definition semantic_launch_of :: "(string \<Rightarrow> string) \<Rightarrow> (string \<Rightarrow> string + string) \<Rightarrow> (string \<Rightarrow> parsed_url option) \<Rightarrow>
    check \<Rightarrow> target \<Rightarrow> string \<Rightarrow> string list \<Rightarrow> semantic_error + semantic_launch" where
  "semantic_launch_of getenv executable parse_url c t source env =
     (let opts = semantic_options c in
      bind_result (semantic_timeout (sc_timeout opts)) (\<lambda>timeout.
      let key = getenv semantic_api_key_env in
      if key = '''' then Inl NoAPIKey
      else bind_result (wrap_error NoGit (executable ''git'')) (\<lambda>git.
      let model = first_text [sc_model opts, default_model];
          base = first_text [sc_base opts, host_value getenv env base_ref_env, default_base_ref]
      in if \<not> git_ref base then Inl (InvalidBase base)
         else bind_result (semantic_origin parse_url (first_text [getenv semantic_base_url_env, default_base_url])) (\<lambda>origin.
         Inr \<lparr>ln_timeout = timeout, ln_key = key, ln_git = git, ln_origin = origin,
           ln_options = \<lparr>lo_source = source, lo_include = semantic_scope t, lo_base = base, lo_model = model,
             lo_max_requests = sc_max_requests opts, lo_max_input_chars = sc_max_input_chars opts\<rparr>\<rparr>))))"

definition unanswered :: "lint_report \<Rightarrow> bool" where
  "unanswered r \<longleftrightarrow> lt_judgments r = [] \<and> lt_missing r \<noteq> []"

text \<open>
  The part after the run: \<open>parent\<close> is the error of the run's own context, \<open>ended\<close> whether the timeout of the
  check has passed, \<open>encode\<close> the report as details.
\<close>

definition semantic_result :: "(lint_report \<Rightarrow> details) \<Rightarrow> string option \<Rightarrow> bool \<Rightarrow> lint_report \<times> string option \<Rightarrow> result" where
  "semantic_result encode parent ended run =
     (let (report, err) = run;
          result = (outcome StatusPassed '''')\<lparr>rs_stdout := lint_summary report, rs_details := encode report\<rparr>
      in if parent \<noteq> None \<and> (err \<noteq> None \<or> lt_missing report \<noteq> []) then with_outcome result StatusCancelled (the parent)
         else if ended \<and> (err \<noteq> None \<or> unanswered report) then with_outcome result StatusError ''semantic-lint timed out''
         else (case err of
             Some text \<Rightarrow> with_outcome result StatusError text
           | None \<Rightarrow>
               if unanswered report then
                 with_outcome result StatusError (''no question was answered: '' @
                   (case lt_errors report of e # es \<Rightarrow> e | [] \<Rightarrow> ''the API returned no answers''))
               else result))"

definition semantic_lint :: "(string \<Rightarrow> string) \<Rightarrow> (string \<Rightarrow> string + string) \<Rightarrow> (string \<Rightarrow> parsed_url option) \<Rightarrow>
    (semantic_launch \<Rightarrow> lint_report \<times> string option) \<Rightarrow> (lint_report \<Rightarrow> details) \<Rightarrow> string option \<Rightarrow> bool \<Rightarrow>
    check \<Rightarrow> target \<Rightarrow> string \<Rightarrow> string list \<Rightarrow> result" where
  "semantic_lint getenv executable parse_url run encode parent ended c t source env =
     (case semantic_launch_of getenv executable parse_url c t source env of
        Inl e \<Rightarrow> outcome StatusError (semantic_error_text e)
      | Inr l \<Rightarrow> semantic_result encode parent ended (run l))"

section \<open>mutation.go\<close>

record mutation_selection =
  sn_files :: "string list"
  sn_lines :: "diff_range list gomap option"
  sn_note :: string

datatype selection_error = SelectionPath string | SelectionGit string | SelectionChange change_error | UnsupportedScope string

text \<open>The file system as \<open>mutable\<close> looks at it: regular files, files that exist, files with the generated header.\<close>

record host_files =
  hf_regular :: "string \<Rightarrow> bool"
  hf_exists :: "string \<Rightarrow> bool"
  hf_generated :: "string \<Rightarrow> bool"

definition change_base :: "(string \<Rightarrow> string) \<Rightarrow> string \<Rightarrow> string" where
  "change_base getenv configured =
     (if configured \<noteq> '''' then configured
      else let base = getenv base_ref_env in if git_ref base \<and> base \<noteq> '''' then base else default_base_ref)"

text \<open>\<open>nestedModule\<close>: the directories from \<open>dir\<close> up to the module, which is not looked at itself.\<close>

definition nested_module :: "(string \<Rightarrow> bool) \<Rightarrow> string \<Rightarrow> string \<Rightarrow> bool" where
  "nested_module exists module_dir dir =
     (case cut_prefix dir (module_dir @ ''/'') of
        (rest, True) \<Rightarrow>
          let ps = parts rest in
          list_ex (\<lambda>n. exists (path_join [module_dir, unparts (take n ps), ''go.mod''])) (rev [1..<Suc (length ps)])
      | (rest, False) \<Rightarrow> False)"

definition mutable_file :: "host_files \<Rightarrow> string \<Rightarrow> target \<Rightarrow> string \<Rightarrow> string \<Rightarrow> bool" where
  "mutable_file hf source t module_dir path \<longleftrightarrow>
     (let elements = split_at slash path; full = path_join [source, path] in
      has_suffix path ''.go'' \<and> \<not> has_suffix path ''_test.go'' \<and> \<not> private_source_path path \<and>
      ''testdata'' \<notin> set elements \<and> ''vendor'' \<notin> set elements \<and>
      (tg_dir t \<noteq> dot \<longrightarrow> path_within path (tg_dir t)) \<and>
      list_ex (\<lambda>input. input = dot \<or> path_within path input) (tg_inputs t) \<and>
      \<not> excluded path (tg_exclude t) \<and>
      hf_regular hf full \<and> \<not> nested_module (hf_exists hf) module_dir (dir_name full) \<and> \<not> hf_generated hf full)"

text \<open>The candidates of each scope; \<open>module_files\<close> is the walk below the target, \<open>changed\<close> the change since a base.\<close>

definition mutation_candidates :: "(string \<Rightarrow> string) \<Rightarrow> (string \<Rightarrow> selection_error + string list) \<Rightarrow>
    (string \<Rightarrow> selection_error + changed_paths) \<Rightarrow> check \<Rightarrow> target \<Rightarrow>
    selection_error + string list \<times> diff_range list gomap option \<times> string" where
  "mutation_candidates getenv module_files changed c t =
     (let opts = mutation_options c in
      if mc_scope opts = MutationScopeModule then
        bind_result (module_files (tg_dir t)) (\<lambda>files. Inr (files, None, ''every Go file in '' @ tg_dir t))
      else if mc_scope opts = MutationScopeChanged then
        bind_result (changed (change_base getenv (mc_base opts))) (\<lambda>ch.
          Inr (cg_paths ch, Some (cg_lines ch), ''Go files changed since '' @ cg_base_ref ch))
      else Inl (UnsupportedScope (mc_scope opts)))"

definition mutation_files :: "(string \<Rightarrow> string) \<Rightarrow> (string \<Rightarrow> selection_error + string list) \<Rightarrow>
    (string \<Rightarrow> selection_error + changed_paths) \<Rightarrow> host_files \<Rightarrow> check \<Rightarrow> target \<Rightarrow> string \<Rightarrow> string \<Rightarrow>
    selection_error + mutation_selection" where
  "mutation_files getenv module_files changed hf c t source module_dir =
     bind_result (mutation_candidates getenv module_files changed c t) (\<lambda>(candidates, lines, note).
     let chosen = filter (mutable_file hf source t module_dir) candidates in
     bind_result (map_results (\<lambda>path. case filepath_rel (tg_dir t) path of
         None \<Rightarrow> Inl (SelectionPath path) | Some rel \<Rightarrow> Inr (rel, path)) chosen) (\<lambda>pairs.
     Inr \<lparr>sn_files = sort (map fst pairs),
       sn_lines = map_option (\<lambda>changed_lines. concat (map (\<lambda>(rel, path).
         case map_of changed_lines path of None \<Rightarrow> [] | Some ranges \<Rightarrow> [(rel, ranges)]) pairs)) lines,
       sn_note = note\<rparr>))"

text \<open>\<open>acceptedReachable\<close>: \<open>stat\<close> says whether the path does not exist.\<close>

definition accepted_reachable :: "(string \<Rightarrow> bool) \<Rightarrow> string \<Rightarrow> target \<Rightarrow> string \<Rightarrow> bool" where
  "accepted_reachable absent source t accepted \<longleftrightarrow>
     absent (path_join [source, accepted]) \<or>
     list_ex (\<lambda>input. input = dot \<or> path_within accepted input) (tg_inputs t) \<and> \<not> excluded accepted (tg_exclude t)"

definition mutation_counts_line :: "string \<Rightarrow> mutation_summary \<Rightarrow> string" where
  "mutation_counts_line note s =
     note @ '': '' @ show_int (int (length (ms_files s))) @ '' files mutated; '' @ show_int (int (ms_killed s)) @ '' killed, '' @
     show_int (int (ms_timed_out s)) @ '' timed out, '' @ show_int (int (ms_lived s)) @ '' survived on changed lines, '' @
     show_int (int (ms_unchanged s)) @ '' survived on unchanged lines, '' @ show_int (int (ms_accepted s)) @ '' accepted, '' @
     show_int (int (ms_not_covered s)) @ '' not covered, '' @ show_int (int (ms_skipped s)) @ '' skipped on unchanged lines''"

definition mutation_stdout :: "(string \<Rightarrow> mutation_summary option) \<Rightarrow> (string \<Rightarrow> details) \<Rightarrow> string \<Rightarrow> string \<Rightarrow> details \<Rightarrow>
    string \<times> details" where
  "mutation_stdout decode wrap raw note details =
     (case decode raw of
        None \<Rightarrow> (note, details)
      | Some s \<Rightarrow>
          (join_with newline (mutation_counts_line note s # map ((@) ''warning: '') (ms_warnings s)),
           if details = NoDetails then wrap raw else details))"

end
