(* ===== verification/Host_Check_Properties.thy ===== *)
theory Host_Check_Properties
  imports Host_Checks
begin

text \<open>What the host promises of semantic-lint: where its key can go, and when a run of it passes.\<close>

lemma launched:
  assumes "semantic_launch_of getenv executable parse_url c t source env = Inr l"
  shows "ln_key l = getenv semantic_api_key_env" "ln_key l \<noteq> ''''"
    "semantic_origin parse_url (first_text [getenv semantic_base_url_env, default_base_url]) = Inr (ln_origin l)"
  using assms by (auto simp: semantic_launch_of_def Let_def bind_result_Inr split: if_splits)

text \<open>C16. The API key only goes to an origin over https or on a loopback host, and committed configuration can
  neither supply the key nor redirect it: for any two checks, targets and environments, the key and the origin of
  a run are those of the host process.\<close>

theorem semantic_key_stays_encrypted:
  assumes "semantic_launch_of getenv executable parse_url c t source env = Inr l"
    and "semantic_launch_of getenv executable' parse_url c' t' source' env' = Inr l'"
  shows "ln_key l = getenv semantic_api_key_env \<and> ln_key l \<noteq> '''' \<and> ln_key l' = ln_key l \<and> ln_origin l' = ln_origin l \<and>
    (case parse_url (ln_origin l) of
       None \<Rightarrow> False
     | Some u \<Rightarrow> pu_host u \<noteq> '''' \<and> (pu_scheme u = ''https'' \<or> pu_hostname u \<in> set semantic_loopback_hosts))"
  using launched [OF assms(1)] launched [OF assms(2)]
  by (auto simp: semantic_origin_def Let_def split: option.splits if_splits)

definition passing_run :: "string option \<Rightarrow> lint_report \<times> string option \<Rightarrow> bool" where
  "passing_run parent run \<longleftrightarrow> snd run = None \<and> \<not> unanswered (fst run) \<and> (parent = None \<or> lt_missing (fst run) = [])"

text \<open>semantic-lint is advisory: whatever it finds, its check never fails. It passes exactly when it could be
  started, the run gave no error, some question was answered or none was asked, and the run was not cancelled
  while answers were missing; every other outcome is an error or a cancellation, never a pass.\<close>

theorem semantic_lint_is_advisory:
  "rs_status (semantic_lint getenv executable parse_url run encode parent ended c t source env) \<noteq> StatusFailed \<and>
   (rs_status (semantic_lint getenv executable parse_url run encode parent ended c t source env) = StatusPassed \<longleftrightarrow>
     (case semantic_launch_of getenv executable parse_url c t source env of
        Inl e \<Rightarrow> False
      | Inr l \<Rightarrow> passing_run parent (run l)))"
proof (cases "semantic_launch_of getenv executable parse_url c t source env")
  case (Inl e)
  then show ?thesis by (simp add: semantic_lint_def outcome_def)
next
  case (Inr l)
  obtain report err where run: "run l = (report, err)" by fastforce
  show ?thesis
    by (auto simp: semantic_lint_def Inr semantic_result_def run passing_run_def Let_def with_outcome_def outcome_def
      unanswered_def split: option.split)
qed

section \<open>Mutated files\<close>

text \<open>What \<open>mutation_files\<close> picks of the candidates: the pairs of the path in the module and the one in the source.\<close>

lemma mutation_pairs:
  assumes "mutation_files getenv module_files changed hf c t source module_dir = Inr s"
  obtains candidates lines note_text pairs where
    "mutation_candidates getenv module_files changed c t = Inr (candidates, lines, note_text)"
    "map snd pairs = filter (mutable_file hf source t module_dir) candidates"
    "list_all (\<lambda>(rel, path). filepath_rel (tg_dir t) path = Some rel) pairs"
    "sn_files s = sort (map fst pairs)"
    "sn_lines s = map_option (\<lambda>changed_lines. concat (map (\<lambda>(rel, path).
        case map_of changed_lines path of None \<Rightarrow> [] | Some ranges \<Rightarrow> [(rel, ranges)]) pairs)) lines"
proof -
  from assms obtain candidates lines note_text pairs where
    cand: "mutation_candidates getenv module_files changed c t = Inr (candidates, lines, note_text)"
    and pairs: "map_results (\<lambda>path. case filepath_rel (tg_dir t) path of
         None \<Rightarrow> Inl (SelectionPath path) | Some rel \<Rightarrow> Inr (rel, path)) (filter (mutable_file hf source t module_dir) candidates) = Inr pairs"
    and s: "sn_files s = sort (map fst pairs)"
      "sn_lines s = map_option (\<lambda>changed_lines. concat (map (\<lambda>(rel, path).
        case map_of changed_lines path of None \<Rightarrow> [] | Some ranges \<Rightarrow> [(rel, ranges)]) pairs)) lines"
    by (auto simp: mutation_files_def bind_result_Inr Let_def)
  have step: "map snd ps = xs \<and> list_all (\<lambda>(rel, path). filepath_rel (tg_dir t) path = Some rel) ps"
    if "map_results (\<lambda>path. case filepath_rel (tg_dir t) path of
         None \<Rightarrow> Inl (SelectionPath path) | Some rel \<Rightarrow> Inr (rel, path)) xs = Inr ps" for xs ps
    using that by (induction xs arbitrary: ps) (auto split: option.splits sum.splits)
  show ?thesis using that [OF cand _ _ s] step [OF pairs] by blast
qed

text \<open>A mutation check only mutates hand-written Go files of its own module: each selected file is a regular Go
  file below the target, in its inputs and not excluded, not a test, not generated and not of a nested module; and
  the selection has the lines the change wrote in it, unless the whole module is mutated.\<close>

theorem mutated_files_are_eligible:
  assumes "mutation_files getenv module_files changed hf c t source module_dir = Inr s" "file \<in> set (sn_files s)"
  shows "\<exists>path. filepath_rel (tg_dir t) path = Some file \<and> mutable_file hf source t module_dir path \<and>
    (case mutation_candidates getenv module_files changed c t of
       Inl e \<Rightarrow> False
     | Inr (candidates, lines, note_text) \<Rightarrow> path \<in> set candidates \<and> (lines = None \<longleftrightarrow> sn_lines s = None) \<and>
         (case lines of None \<Rightarrow> True | Some ch \<Rightarrow>
            (case map_of ch path of None \<Rightarrow> True | Some ranges \<Rightarrow> (file, ranges) \<in> set (the (sn_lines s)))))"
proof -
  obtain candidates lines note_text pairs where
    p: "mutation_candidates getenv module_files changed c t = Inr (candidates, lines, note_text)"
    "map snd pairs = filter (mutable_file hf source t module_dir) candidates"
    "list_all (\<lambda>(rel, path). filepath_rel (tg_dir t) path = Some rel) pairs"
    "sn_files s = sort (map fst pairs)"
    "sn_lines s = map_option (\<lambda>changed_lines. concat (map (\<lambda>(rel, path).
        case map_of changed_lines path of None \<Rightarrow> [] | Some ranges \<Rightarrow> [(rel, ranges)]) pairs)) lines"
    by (rule mutation_pairs [OF assms(1)])
  from assms(2) p(4) obtain path where pair: "(file, path) \<in> set pairs" by auto
  then have "path \<in> set (map snd pairs)" by force
  then have path: "path \<in> set candidates" "mutable_file hf source t module_dir path" using p(2) by simp_all
  have rel: "filepath_rel (tg_dir t) path = Some file" using p(3) pair by (auto simp: list_all_iff)
  have "(file, ranges) \<in> set (the (sn_lines s))" if "lines = Some ch" "map_of ch path = Some ranges" for ch ranges
    using that pair p(5) by (auto intro!: bexI [of _ "(file, path)"])
  moreover have "lines = None \<longleftrightarrow> sn_lines s = None" using p(5) by simp
  ultimately show ?thesis using path rel p(1) by (intro exI [of _ path]) (simp split: option.split)
qed

section \<open>Examples\<close>

definition key_only :: "string \<Rightarrow> string" where
  "key_only name = (if name = semantic_api_key_env then ''k'' else '''')"

definition some_git :: "string \<Rightarrow> string + string" where
  "some_git name = Inr ''/usr/bin/git''"

definition https_url :: "string \<Rightarrow> parsed_url option" where
  "https_url raw = Some \<lparr>pu_scheme = ''https'', pu_host = ''api.typesafe.ai'', pu_hostname = ''api.typesafe.ai''\<rparr>"

definition root_target :: target where
  "root_target = \<lparr>tg_dir = dot, tg_workspace = dot, tg_inputs = [dot], tg_exclude = [], tg_discovery = ''''\<rparr>"

lemma key_only_launched:
  "case semantic_launch_of key_only some_git https_url (plain_check CheckSemanticLint ''root'' ''go'') root_target ''/src'' [] of
     Inl e \<Rightarrow> False | Inr l \<Rightarrow> ln_origin l = default_base_url"
  by code_simp

theorem semantic_key_stays_encrypted_witness:
  "\<exists>l. semantic_launch_of key_only some_git https_url (plain_check CheckSemanticLint ''root'' ''go'') root_target ''/src'' [] = Inr l \<and>
     ln_key l = ''k'' \<and> ln_origin l = default_base_url"
proof -
  obtain l where l: "semantic_launch_of key_only some_git https_url (plain_check CheckSemanticLint ''root'' ''go'') root_target ''/src'' [] = Inr l"
    "ln_origin l = default_base_url"
    using key_only_launched by (auto split: sum.splits)
  have "ln_key l = key_only semantic_api_key_env" using semantic_key_stays_encrypted [OF l(1) l(1)] by simp
  then show ?thesis using l by (simp add: key_only_def)
qed

definition one_file :: "string \<Rightarrow> selection_error + changed_paths" where
  "one_file base = Inr \<lparr>cg_base_ref = ''main'', cg_base = '''', cg_paths = [''a.go'', ''a_test.go''],
     cg_lines = [(''a.go'', [\<lparr>dr_start = 1, dr_end = 2\<rparr>])]\<rparr>"

definition plain_files :: host_files where
  "plain_files = \<lparr>hf_regular = \<lambda>_. True, hf_exists = \<lambda>_. False, hf_generated = \<lambda>_. False\<rparr>"

lemma one_file_selected:
  "case mutation_files key_only (\<lambda>_. Inr []) one_file plain_files (plain_check CheckGoMutation ''root'' ''go'') root_target ''/src'' ''/src'' of
     Inl e \<Rightarrow> False | Inr s \<Rightarrow> sn_files s = [''a.go'']"
  by code_simp

theorem mutated_files_are_eligible_witness:
  "\<exists>path. filepath_rel dot path = Some ''a.go'' \<and> mutable_file plain_files ''/src'' root_target ''/src'' path"
proof -
  obtain s where s: "mutation_files key_only (\<lambda>_. Inr []) one_file plain_files (plain_check CheckGoMutation ''root'' ''go'')
      root_target ''/src'' ''/src'' = Inr s" "sn_files s = [''a.go'']"
    using one_file_selected by (auto split: sum.splits)
  show ?thesis using mutated_files_are_eligible [OF s(1), of "''a.go''"] s(2) by (auto simp: root_target_def)
qed

end
