(* ===== verification/Render.thy ===== *)
theory Render
  imports Baseline Check_Reports Go_Json Go_Conv
begin

text \<open>
  How a finished report is shown: \<open>internal/verify/render.go\<close> and \<open>hints.go\<close>. The text and GitHub
  formats are the strings the source writes, with \<open>text/tabwriter\<close> written out for the one
  configuration used; SARIF is the value the source hands to \<open>encoding/json\<close>. Bytes of a cell that
  \<open>tabwriter\<close> gives a meaning of its own are tab, vertical tab, newline and form feed; the escape
  byte 0xFF, which no UTF-8 text holds, is read as any other byte.
\<close>

section \<open>hints.go\<close>

definition rules_doc :: string where
  "rules_doc = ''https://github.com/wangjohn/levenshtein/blob/main/docs/rules.md''"

definition rule_docs :: "string gomap" where
  "rule_docs =
     [(''LV1001'', rules_doc @ ''#typed-choices-lv1001''),
      (''LV1002'', rules_doc @ ''#construct-value-records-together-lv1002''),
      (''LV1003'', rules_doc @ ''#one-field-per-line-lv1003''),
      (''LV1004'', rules_doc @ ''#a-blank-line-between-declarations-lv1004''),
      (''LV1005'', rules_doc @ ''#formatted-files-lv1005''),
      (''LV1006'', rules_doc @ ''#tests-that-can-fail-lv1006''),
      (''LV1007'', rules_doc @ ''#no-wall-clock-assertions-in-tests-lv1007'')]"

definition rule_doc :: "string \<Rightarrow> string" where
  "rule_doc code = (case map_of rule_docs code of None \<Rightarrow> '''' | Some url \<Rightarrow> url)"

definition hints :: "string gomap" where
  "hints =
     [(''LV1001'', ''give the value a defined string type with typed constants; see '' @ rule_doc ''LV1001''),
      (''LV1002'', ''build the struct in one composite literal after computing its fields; see '' @ rule_doc ''LV1002''),
      (''LV1003'', ''declare each struct field on its own line; see '' @ rule_doc ''LV1003''),
      (''LV1004'', ''add a blank line above the declaration and its doc comment; see '' @ rule_doc ''LV1004''),
      (''LV1005'', ''run gofmt -w {file}; see '' @ rule_doc ''LV1005''),
      (''LV1006'', ''give the test an assertion that can fail, or make its skip conditional; see '' @ rule_doc ''LV1006''),
      (''LV1007'', ''run the code under testing/synctest or inject a clock instead of bounding real elapsed time; see '' @
         rule_doc ''LV1007''),
      (''minmax'', ''run go fix -minmax ./... in the module''),
      (''mapsloop'', ''run go fix -mapsloop ./... in the module''),
      (''slicescontains'', ''run go fix -slicescontains ./... in the module''),
      (''stringscutprefix'', ''run go fix -stringscutprefix ./... in the module''),
      (''stringsseq'', ''run go fix -stringsseq ./... in the module''),
      (''errcheck'', ''handle the error, or discard it explicitly with _ = and a comment giving the reason''),
      (''go-mod'', ''run go mod tidy in {file}''),
      (''go-generate'', ''run go generate ./... in the module and commit what it writes''),
      (baseline_stale_code, ''delete the entry or lower its count, or rewrite the file with verify <run> --write-baseline'')]"

definition hint_for :: "finding \<Rightarrow> string" where
  "hint_for f =
     (case map_of hints (fd_code f) of
        None \<Rightarrow> ''''
      | Some template \<Rightarrow>
          if fd_code f = CheckGoMod \<and> mod_tampered (fd_message f) then ''''
          else replace_all ''{file}'' (loc_file (fd_location f)) template)"

definition hinted :: "finding \<Rightarrow> finding" where
  "hinted f = (if fd_hint f = '''' then f\<lparr>fd_hint := hint_for f\<rparr> else f)"

definition with_hints :: "report \<Rightarrow> report" where
  "with_hints r = map_findings r (\<lambda>_ fs. map hinted fs)"

section \<open>Items\<close>

datatype report_format = FormatJSON | FormatText | FormatGitHub | FormatSARIF | OtherFormat string

record render_options =
  ro_path_prefix :: string

text \<open>An item's check is \<open>None\<close> where Go has the zero \<open>PlannedCheck\<close>.\<close>

record item =
  it_check :: "planned_check option"
  it_result :: result
  it_findings :: "finding list"
  it_warnings :: "finding list"

definition item_kind :: "item \<Rightarrow> check_kind" where
  "item_kind it = (case it_check it of None \<Rightarrow> '''' | Some c \<Rightarrow> ck_kind (pc_check c))"

definition item_dir :: "item \<Rightarrow> string" where
  "item_dir it = (case it_check it of None \<Rightarrow> '''' | Some c \<Rightarrow> tg_dir (pc_target c))"

definition item_located :: "item \<Rightarrow> finding \<Rightarrow> bool" where
  "item_located it f =
     (if f \<in> set (it_warnings it) then False
      else located_kind (item_kind it) \<or> fd_code f = baseline_stale_code)"

text \<open>\<open>compareFindings\<close> compares these tuples; \<open>slices.SortStableFunc\<close> is the stable \<open>sort_key\<close>.\<close>

definition finding_order :: "finding \<Rightarrow> string \<times> int \<times> int \<times> string \<times> string" where
  "finding_order f = (loc_file (fd_location f), loc_line (fd_location f), loc_column (fd_location f),
     fd_code f, fd_message f)"

definition report_item :: "report \<Rightarrow> result \<Rightarrow> item" where
  "report_item r res =
     (let kind = (case planned_for r res of None \<Rightarrow> '''' | Some c \<Rightarrow> ck_kind (pc_check c));
          fs = (if shared_shape kind then detail_findings (rs_details res) else [])
      in \<lparr>it_check = planned_for r res, it_result = res, it_findings = sort_key finding_order fs, it_warnings = []\<rparr>)"

definition report_items :: "report \<Rightarrow> item list" where
  "report_items r = map (report_item r) (rp_results r)"

fun warning_name :: "warning_kind \<Rightarrow> string" where
  "warning_name WarningRuleModulesSkipped = ''rule-modules-skipped''"
| "warning_name WarningRuleModuleDeprecated = ''rule-module-deprecated''"
| "warning_name WarningRuleModuleRetracted = ''rule-module-retracted''"
| "warning_name WarningRuleRenamed = ''rule-renamed''"
| "warning_name WarningRuleDeprecated = ''rule-deprecated''"
| "warning_name WarningDetachedOutput = ''detached-output''"
| "warning_name WarningOutputTruncated = ''output-truncated''"
| "warning_name (OtherWarning s) = s"

definition advisory_of :: "item \<Rightarrow> warning \<Rightarrow> finding" where
  "advisory_of it w = \<lparr>fd_code = warning_name (wn_kind w), fd_message = wn_message w,
     fd_location = \<lparr>loc_file = item_dir it, loc_line = 0, loc_column = 0\<rparr>, fd_source = '''', fd_url = '''',
     fd_advisory = True, fd_hint = '''', fd_baselined = False\<rparr>"

definition add_warning :: "item \<Rightarrow> warning \<Rightarrow> item" where
  "add_warning it w =
     (if list_ex (\<lambda>f. fd_advisory f \<and> fd_code f = warning_name (wn_kind w) \<and> fd_message f = wn_message w) (it_findings it)
      then it
      else it\<lparr>it_findings := it_findings it @ [advisory_of it w], it_warnings := it_warnings it @ [advisory_of it w]\<rparr>)"

definition with_warnings :: "item \<Rightarrow> item" where
  "with_warnings it = foldl add_warning it (rs_warnings (it_result it))"

definition orphans_item :: "baseline_summary \<Rightarrow> item" where
  "orphans_item b = \<lparr>it_check = None, it_result = (outcome StatusFailed '''')\<lparr>rs_id := bs_file b\<rparr>,
     it_findings = sort_key finding_order (bs_orphaned b), it_warnings = []\<rparr>"

definition finding_items :: "report \<Rightarrow> item list" where
  "finding_items r = map with_warnings (report_items r) @
     (case rp_baseline r of
        None \<Rightarrow> []
      | Some b \<Rightarrow> if bs_orphaned b = [] then [] else [orphans_item b])"

definition render_path :: "render_options \<Rightarrow> string \<Rightarrow> string" where
  "render_path o' f =
     (if ro_path_prefix o' = '''' \<or> ro_path_prefix o' = dot then f else path_join [ro_path_prefix o', f])"

fun status_name :: "status \<Rightarrow> string" where
  "status_name StatusPassed = ''passed''"
| "status_name StatusFailed = ''failed''"
| "status_name StatusError = ''error''"
| "status_name StatusCancelled = ''cancelled''"
| "status_name StatusIncomplete = ''incomplete''"
| "status_name (OtherStatus s) = s"

section \<open>text/tabwriter\<close>

text \<open>
  The table of \<open>renderText\<close>: no minimum width, padding of two spaces, no flags. A tab or a vertical
  tab ends a cell. A column is a run of consecutive lines that have a cell ended at that place; all
  its cells are as wide as the widest, with the padding, counted in runes. A form feed ends the
  table as well as the line.
\<close>

function rune_count :: "string \<Rightarrow> nat" where
  "rune_count [] = 0"
| "rune_count (c # s) = Suc (rune_count (drop (rune_width (c # s) - 1) s))"
  by pat_completeness auto
termination
  by (relation "measure length") auto

definition tab_padding :: nat where "tab_padding = 2"

definition tab_cells :: "string \<Rightarrow> string list" where
  "tab_cells line = split_at CHR 0x09 (map (\<lambda>c. if c = CHR 0x0B then CHR 0x09 else c) line)"

definition has_column :: "nat \<Rightarrow> string list \<Rightarrow> bool" where
  "has_column j cells \<longleftrightarrow> Suc j < length cells"

definition column_block :: "nat \<Rightarrow> string list list \<Rightarrow> nat \<Rightarrow> string list list" where
  "column_block j rows i = takeWhile (has_column j) (rev (take i rows)) @ takeWhile (has_column j) (drop i rows)"

definition column_width :: "nat \<Rightarrow> string list list \<Rightarrow> nat \<Rightarrow> nat" where
  "column_width j rows i = foldr (\<lambda>cells w. max (rune_count (cells ! j) + tab_padding) w) (column_block j rows i) 0"

definition padded_cell :: "string list list \<Rightarrow> nat \<Rightarrow> nat \<Rightarrow> string" where
  "padded_cell rows i j = rows ! i ! j @ replicate (column_width j rows i - rune_count (rows ! i ! j)) CHR '' ''"

definition aligned_line :: "string list list \<Rightarrow> nat \<Rightarrow> string" where
  "aligned_line rows i = concat (map (padded_cell rows i) [0..<length (rows ! i) - 1]) @ last (rows ! i)"

definition aligned_table :: "string \<Rightarrow> string" where
  "aligned_table t =
     (let rows = map tab_cells (split_at CHR 0x0A t)
      in join_with newline (map (aligned_line rows) [0..<length rows]))"

definition tab_written :: "string \<Rightarrow> string" where
  "tab_written t = join_with newline (map aligned_table (split_at CHR 0x0C t))"

section \<open>The text format\<close>

definition indent :: "string \<Rightarrow> string" where
  "indent t = concat (map (\<lambda>line. ''    '' @ line @ newline) (split_at CHR 0x0A t))"

definition text_position :: "string \<Rightarrow> location \<Rightarrow> string" where
  "text_position f at =
     (if loc_column at > 0 then f @ '':'' @ show_int (loc_line at) @ '':'' @ show_int (loc_column at)
      else f @ '':'' @ show_int (loc_line at))"

definition finding_text :: "render_options \<Rightarrow> item \<Rightarrow> finding \<Rightarrow> string" where
  "finding_text o' it f =
     (let (first, rest, _) = cut_at CHR 0x0A (trim_space (fd_message f));
          code = fd_code f @ (if fd_advisory f then '' [advisory]'' else '''');
          path = render_path o' (loc_file (fd_location f));
          rest = (if item_located it f then rest else trim_space (fd_message f))
      in (if item_located it f
          then text_position path (fd_location f) @ '': '' @ code @ '' '' @ first @ newline
          else path @ '': '' @ code @ newline) @
         (if rest \<noteq> '''' then indent rest else '''') @
         (if fd_hint f \<noteq> '''' then ''    hint: '' @ fd_hint f @ newline else ''''))"

definition shown_findings :: "item \<Rightarrow> finding list" where
  "shown_findings it = filter (\<lambda>f. \<not> fd_baselined f) (it_findings it)"

definition hidden_findings :: "report \<Rightarrow> nat" where
  "hidden_findings r = length (filter fd_baselined (concat (map it_findings (finding_items r))))"

definition findings_text :: "render_options \<Rightarrow> report \<Rightarrow> string" where
  "findings_text o' r =
     concat (map (\<lambda>it. concat (map (finding_text o' it) (shown_findings it))) (finding_items r))"

definition count_where :: "('a \<Rightarrow> bool) \<Rightarrow> 'a list \<Rightarrow> int" where
  "count_where P xs = int (length (filter P xs))"

definition text_status :: "item \<Rightarrow> string" where
  "text_status it =
     (let failing = count_where fails (it_findings it);
          baselined = count_where fd_baselined (it_findings it);
          advisory = count_where (\<lambda>f. \<not> fd_baselined f \<and> fd_advisory f) (it_findings it);
          res = it_result it
      in join_with ''; ''
           ((if failing > 0 then [show_int failing @ '' '' @ plural failing ''finding'' ''findings''] else []) @
            (if baselined > 0 then [show_int baselined @ '' baselined''] else []) @
            (if advisory > 0 then [show_int advisory @ '' advisory''] else []) @
            (if rs_status res \<noteq> StatusPassed \<and> failing = 0 \<and> rs_error res \<noteq> ''''
             then [fst (cut_at CHR 0x0A (trim_space (rs_error res)))] else []) @
            (if ci_status (rs_cache res) = CacheHit then [''cached''] else [])))"

definition status_row :: "item \<Rightarrow> string" where
  "status_row it = rs_id (it_result it) @ [CHR 0x09] @ status_name (rs_status (it_result it)) @
     (if text_status it \<noteq> '''' then [CHR 0x09] @ text_status it else '''') @ newline"

definition status_table :: "report \<Rightarrow> string" where
  "status_table r = tab_written (concat (map status_row (report_items r)))"

definition unfinished_result :: "result \<Rightarrow> bool" where
  "unfinished_result res \<longleftrightarrow> rs_status res \<noteq> StatusPassed \<and> rs_status res \<noteq> StatusFailed"

definition error_blocks :: "report \<Rightarrow> string" where
  "error_blocks r = concat (map (\<lambda>it. let res = it_result it in
     if unfinished_result res \<and> CHR 0x0A \<in> set (trim_space (rs_error res))
     then newline @ rs_id res @ '':'' @ newline @ indent (trim_space (rs_error res)) else '''') (report_items r))"

definition passed_results :: "report \<Rightarrow> int" where
  "passed_results r = count_where (\<lambda>it. rs_status (it_result it) = StatusPassed) (report_items r)"

definition total_line :: "report \<Rightarrow> string" where
  "total_line r =
     newline @ rp_run r @ '': '' @ status_name (rp_status r) @ '', '' @ show_int (passed_results r) @ '' of '' @
     show_nat (length (rp_results r)) @ '' checks passed'' @
     (if hidden_findings r > 0
      then '', '' @ show_nat (hidden_findings r) @ '' baselined '' @
        plural (int (hidden_findings r)) ''finding'' ''findings'' @ '' not shown''
      else '''') @
     (case rp_baseline r of
        None \<Rightarrow> ''''
      | Some b \<Rightarrow> if bs_orphaned b = [] then ''''
          else '', '' @ show_nat (length (bs_orphaned b)) @ '' orphaned baseline '' @
            plural (int (length (bs_orphaned b))) ''entry'' ''entries'') @ newline"

definition render_text :: "report \<Rightarrow> render_options \<Rightarrow> string" where
  "render_text r o' =
     (let found = findings_text o' r
      in found @ (if found \<noteq> '''' then newline else '''') @ status_table r @ error_blocks r @ total_line r)"

section \<open>The GitHub format\<close>

definition escape_data_char :: "char \<Rightarrow> string" where
  "escape_data_char c =
     (if c = CHR ''%'' then ''%25'' else if c = CHR 0x0D then ''%0D'' else if c = CHR 0x0A then ''%0A'' else [c])"

definition escape_data :: "string \<Rightarrow> string" where
  "escape_data s = concat (map escape_data_char s)"

definition escape_property_char :: "char \<Rightarrow> string" where
  "escape_property_char c =
     (if c = CHR '':'' then ''%3A'' else if c = CHR '','' then ''%2C'' else escape_data_char c)"

definition escape_property :: "string \<Rightarrow> string" where
  "escape_property s = concat (map escape_property_char s)"

definition command_message :: "finding \<Rightarrow> string" where
  "command_message f =
     trim_space (fd_message f) @ (if fd_hint f \<noteq> '''' then newline @ newline @ ''hint: '' @ fd_hint f else '''') @
     (if fd_url f \<noteq> '''' \<and> \<not> contains (fd_hint f) (fd_url f) then newline @ newline @ ''docs: '' @ fd_url f else '''')"

definition command_properties :: "render_options \<Rightarrow> item \<Rightarrow> finding \<Rightarrow> string list" where
  "command_properties o' it f =
     (if item_located it f
      then [''file='' @ escape_property (render_path o' (loc_file (fd_location f))),
            ''line='' @ show_int (loc_line (fd_location f))] @
           (if loc_column (fd_location f) > 0 then [''col='' @ show_int (loc_column (fd_location f))] else [])
      else []) @
     [''title='' @ escape_property (fd_code f @ '' ('' @ rs_id (it_result it) @ '')'')]"

definition finding_command :: "render_options \<Rightarrow> item \<Rightarrow> finding \<Rightarrow> string" where
  "finding_command o' it f =
     ''::'' @ (if fd_advisory f then ''warning'' else ''error'') @ '' '' @ join_with '','' (command_properties o' it f) @
     ''::'' @ escape_data (command_message f) @ newline"

definition needs_annotation :: "item \<Rightarrow> bool" where
  "needs_annotation it \<longleftrightarrow> unfinished_result (it_result it) \<or>
     (rs_status (it_result it) = StatusFailed \<and> \<not> list_ex fails (it_findings it))"

definition status_command :: "item \<Rightarrow> string" where
  "status_command it =
     (let res = it_result it;
          message = trim_space (rs_error res)
      in ''::error title='' @ escape_property (''Levenshtein '' @ rs_id res @ '' '' @ status_name (rs_status res)) @
         ''::'' @ escape_data (if message = '''' then status_name (rs_status res) else message) @ newline)"

definition item_commands :: "render_options \<Rightarrow> item \<Rightarrow> string list" where
  "item_commands o' it = map (finding_command o' it) (shown_findings it) @
     (if needs_annotation it then [status_command it] else [])"

definition github_commands :: "report \<Rightarrow> render_options \<Rightarrow> string list" where
  "github_commands r o' = concat (map (item_commands o') (finding_items r))"

definition render_github :: "report \<Rightarrow> render_options \<Rightarrow> string" where
  "render_github r o' = concat (github_commands r o')"

section \<open>The SARIF format\<close>

type_synonym sarif_message = string

record sarif_rule =
  sru_id :: string
  sru_short :: sarif_message
  sru_help_uri :: string
  sru_help :: "sarif_message option"
  sru_tags :: "string list"

datatype sarif_level = SarifError | SarifWarning

datatype sarif_state = SarifUnset | SarifNew | SarifUnchanged

record sarif_notification =
  sn_level :: sarif_level
  sn_message :: sarif_message

record sarif_location =
  sl_uri :: string
  sl_uri_base :: string
  sl_start_line :: int
  sl_start_column :: int

record sarif_result =
  sre_rule :: string
  sre_rule_index :: nat
  sre_level :: sarif_level
  sre_message :: sarif_message
  sre_locations :: "sarif_location list"
  sre_baseline :: sarif_state
  sre_check :: string
  sre_kind :: check_kind

record sarif_run =
  sr_driver_name :: string
  sr_information_uri :: string
  sr_rules :: "sarif_rule list"
  sr_successful :: bool
  sr_notifications :: "sarif_notification list"
  sr_results :: "sarif_result list"

record sarif_log =
  sg_schema :: string
  sg_version :: string
  sg_runs :: "sarif_run list"

definition finding_level :: "finding \<Rightarrow> sarif_level" where
  "finding_level f = (if \<not> fails f then SarifWarning else SarifError)"

definition help_uri :: "string \<Rightarrow> string \<Rightarrow> string" where
  "help_uri code reported =
     (case map_of rule_docs code of
        Some doc \<Rightarrow> doc
      | None \<Rightarrow> if reported \<noteq> '''' then reported else staticcheck_url code)"

text \<open>The first located finding of each code gives its kind and URL.\<close>

definition rule_sources :: "item list \<Rightarrow> (string \<times> check_kind \<times> string) list" where
  "rule_sources its = concat (map (\<lambda>it. map (\<lambda>f. (fd_code f, item_kind it, fd_url f))
     (filter (item_located it) (it_findings it))) its)"

definition sarif_rule_of :: "string \<times> check_kind \<times> string \<Rightarrow> sarif_rule" where
  "sarif_rule_of src = (case src of (code, kind, url) \<Rightarrow>
     \<lparr>sru_id = code, sru_short = code, sru_help_uri = help_uri code url,
      sru_help = map_option (replace_all ''{file}'' ''<file>'') (map_of hints code),
      sru_tags = (if kind \<noteq> '''' then [kind] else [])\<rparr>)"

definition sarif_codes :: "item list \<Rightarrow> string list" where
  "sarif_codes its = sorted_keys (rule_sources its)"

definition sarif_rules :: "item list \<Rightarrow> sarif_rule list" where
  "sarif_rules its = map (\<lambda>code. sarif_rule_of (code, the (map_of (rule_sources its) code))) (sarif_codes its)"

definition sarif_index :: "item list \<Rightarrow> nat gomap" where
  "sarif_index its = zip (sarif_codes its) [0..<length (sarif_codes its)]"

text \<open>\<open>url.URL{Path: p}.String()\<close>.\<close>

definition path_char :: "char \<Rightarrow> bool" where
  "path_char c \<longleftrightarrow> c \<in> set letters \<or> is_digit c \<or> c \<in> set ''-_.~$&+,/:;=@''"

definition upper_hex :: "nat \<Rightarrow> char" where
  "upper_hex d = (if d < 10 then char_of (48 + d) else char_of (55 + d))"

definition escape_path_char :: "char \<Rightarrow> string" where
  "escape_path_char c =
     (if path_char c then [c] else [CHR ''%'', upper_hex (of_char c div 16), upper_hex (of_char c mod 16)])"

definition url_path :: "string \<Rightarrow> string" where
  "url_path p =
     (let escaped = (if p = ''*'' then p else concat (map escape_path_char p))
      in (if CHR '':'' \<in> set (fst (cut_at CHR ''/'' escaped)) then ''./'' else '''') @ escaped)"

definition sarif_state_of :: "report \<Rightarrow> finding \<Rightarrow> sarif_state" where
  "sarif_state_of r f =
     (if fd_baselined f then SarifUnchanged else if rp_baseline r \<noteq> None then SarifNew else SarifUnset)"

definition index_of :: "nat gomap \<Rightarrow> string \<Rightarrow> nat" where
  "index_of index code = (case map_of index code of None \<Rightarrow> 0 | Some i \<Rightarrow> i)"

definition sarif_result_of :: "report \<Rightarrow> render_options \<Rightarrow> nat gomap \<Rightarrow> item \<Rightarrow> finding \<Rightarrow> sarif_result" where
  "sarif_result_of r o' index it f =
     \<lparr>sre_rule = fd_code f, sre_rule_index = index_of index (fd_code f), sre_level = finding_level f,
      sre_message = trim_space (fd_message f),
      sre_locations = [\<lparr>sl_uri = url_path (render_path o' (loc_file (fd_location f))), sl_uri_base = ''%SRCROOT%'',
        sl_start_line = max (loc_line (fd_location f)) 1, sl_start_column = loc_column (fd_location f)\<rparr>],
      sre_baseline = sarif_state_of r f, sre_check = rs_id (it_result it), sre_kind = item_kind it\<rparr>"

definition item_results :: "report \<Rightarrow> render_options \<Rightarrow> nat gomap \<Rightarrow> item \<Rightarrow> sarif_result list" where
  "item_results r o' index it = map (sarif_result_of r o' index it) (filter (item_located it) (it_findings it))"

definition item_notifications :: "item \<Rightarrow> sarif_notification list" where
  "item_notifications it =
     (let res = it_result it
      in (if unfinished_result res
          then [\<lparr>sn_level = SarifError,
                 sn_message = rs_id res @ '' '' @ status_name (rs_status res) @ '': '' @ trim_space (rs_error res)\<rparr>]
          else []) @
         map (\<lambda>f. \<lparr>sn_level = finding_level f,
                   sn_message = rs_id res @ '' '' @ fd_code f @ '': '' @ trim_space (fd_message f)\<rparr>)
           (filter (\<lambda>f. \<not> item_located it f \<and> \<not> fd_baselined f) (it_findings it)))"

definition render_sarif :: "report \<Rightarrow> render_options \<Rightarrow> sarif_log" where
  "render_sarif r o' =
     (let its = finding_items r
      in \<lparr>sg_schema = ''https://json.schemastore.org/sarif-2.1.0.json'', sg_version = ''2.1.0'',
          sg_runs = [\<lparr>sr_driver_name = ''Levenshtein'',
            sr_information_uri = ''https://github.com/wangjohn/levenshtein'', sr_rules = sarif_rules its,
            sr_successful = \<not> list_ex (\<lambda>it. unfinished_result (it_result it)) its,
            sr_notifications = concat (map item_notifications its),
            sr_results = concat (map (item_results r o' (sarif_index its)) its)\<rparr>]\<rparr>)"

section \<open>SARIF as JSON\<close>

text \<open>A field marked \<open>omitempty\<close> is left out when it is empty, and fields come in the order of the structs.\<close>

definition omit_when :: "bool \<Rightarrow> string \<Rightarrow> json \<Rightarrow> (string \<times> json) list" where
  "omit_when empty_field key v = (if empty_field then [] else [(key, v)])"

fun level_name :: "sarif_level \<Rightarrow> string" where
  "level_name SarifError = ''error''"
| "level_name SarifWarning = ''warning''"

fun state_name :: "sarif_state \<Rightarrow> string" where
  "state_name SarifUnset = ''''"
| "state_name SarifNew = ''new''"
| "state_name SarifUnchanged = ''unchanged''"

definition json_message :: "sarif_message \<Rightarrow> json" where
  "json_message m = JObj [(''text'', JStr m)]"

definition json_rule :: "sarif_rule \<Rightarrow> json" where
  "json_rule rule = JObj ([(''id'', JStr (sru_id rule)), (''shortDescription'', json_message (sru_short rule))] @
     omit_when (sru_help_uri rule = '''') ''helpUri'' (JStr (sru_help_uri rule)) @
     (case sru_help rule of None \<Rightarrow> [] | Some h \<Rightarrow> [(''help'', json_message h)]) @
     [(''properties'', JObj (omit_when (sru_tags rule = []) ''tags'' (JList (map JStr (sru_tags rule)))))])"

definition json_notification :: "sarif_notification \<Rightarrow> json" where
  "json_notification n = JObj [(''level'', JStr (level_name (sn_level n))), (''message'', json_message (sn_message n))]"

definition json_location :: "sarif_location \<Rightarrow> json" where
  "json_location l = JObj [(''physicalLocation'', JObj
     [(''artifactLocation'', JObj [(''uri'', JStr (sl_uri l)), (''uriBaseId'', JStr (sl_uri_base l))]),
      (''region'', JObj ([(''startLine'', JInt (sl_start_line l))] @
        omit_when (sl_start_column l = 0) ''startColumn'' (JInt (sl_start_column l))))])]"

definition json_result :: "sarif_result \<Rightarrow> json" where
  "json_result sr = JObj ([(''ruleId'', JStr (sre_rule sr)), (''ruleIndex'', JInt (int (sre_rule_index sr))),
      (''level'', JStr (level_name (sre_level sr))), (''message'', json_message (sre_message sr)),
      (''locations'', JList (map json_location (sre_locations sr)))] @
     omit_when (sre_baseline sr = SarifUnset) ''baselineState'' (JStr (state_name (sre_baseline sr))) @
     [(''properties'', JObj ([(''check'', JStr (sre_check sr))] @
        omit_when (sre_kind sr = '''') ''kind'' (JStr (sre_kind sr))))])"

definition json_run :: "sarif_run \<Rightarrow> json" where
  "json_run run = JObj
     [(''tool'', JObj [(''driver'', JObj [(''name'', JStr (sr_driver_name run)),
         (''informationUri'', JStr (sr_information_uri run)), (''rules'', JList (map json_rule (sr_rules run)))])]),
      (''invocations'', JList [JObj ([(''executionSuccessful'', JBool (sr_successful run))] @
         omit_when (sr_notifications run = []) ''toolExecutionNotifications''
           (JList (map json_notification (sr_notifications run))))]),
      (''results'', JList (map json_result (sr_results run)))]"

definition json_log :: "sarif_log \<Rightarrow> json" where
  "json_log l = JObj [(''$schema'', JStr (sg_schema l)), (''version'', JStr (sg_version l)),
     (''runs'', JList (map json_run (sg_runs l)))]"

section \<open>Render\<close>

datatype rendering = ReportJson report | PlainText string | SarifJson json

definition render :: "report \<Rightarrow> report_format \<Rightarrow> render_options \<Rightarrow> string + rendering" where
  "render r format o' =
     (case format of
        FormatJSON \<Rightarrow> Inr (ReportJson r)
      | FormatText \<Rightarrow> Inr (PlainText (render_text r o'))
      | FormatGitHub \<Rightarrow> Inr (PlainText (render_github r o'))
      | FormatSARIF \<Rightarrow> Inr (SarifJson (json_log (render_sarif r o')))
      | OtherFormat s \<Rightarrow> Inl (''unknown format '' @ go_quote s))"

end
