(* ===== verification/Render_Properties.thy ===== *)
theory Render_Properties
  imports Render
begin

text \<open>
  What the renderings promise: a workflow command cannot be broken by what it quotes, every verdict
  but a pass leaves an error annotation, SARIF results refer to the rules they name, and hints change
  nothing else. \<open>read_command\<close> is what GitHub's runner does with a line, the reference the escaping of
  the source follows.
\<close>

section \<open>Escaping\<close>

text \<open>The runner's unescaping, for the given escape codes.\<close>

function unescape :: "(string \<times> char) list \<Rightarrow> string \<Rightarrow> string" where
  "unescape codes [] = []"
| "unescape codes (c # s) =
     (case (if c = CHR ''%'' then map_of codes (take 2 s) else None) of
        None \<Rightarrow> c # unescape codes s
      | Some d \<Rightarrow> d # unescape codes (drop 2 s))"
  by pat_completeness auto
termination
  by (relation "measure (\<lambda>(_, s). length s)") auto

definition data_codes :: "(string \<times> char) list" where
  "data_codes = [(''25'', CHR ''%''), (''0D'', CHR 0x0D), (''0A'', CHR 0x0A)]"

definition property_codes :: "(string \<times> char) list" where
  "property_codes = data_codes @ [(''3A'', CHR '':''), (''2C'', CHR '','')]"

locale escaping =
  fixes escape :: "char \<Rightarrow> string" and codes :: "(string \<times> char) list" and reserved :: "char set"
  assumes unescape_char: "unescape codes (escape c @ t) = c # unescape codes t"
    and reserved_free: "set (escape c) \<inter> reserved = {}"
begin

lemma unescape_all: "unescape codes (concat (map escape s)) = s"
  by (induction s) (simp_all add: unescape_char)

lemma no_reserved: "c \<in> reserved \<Longrightarrow> c \<notin> set (concat (map escape s))"
  using reserved_free by auto

end

interpretation data_text: escaping escape_data_char data_codes "{CHR 0x0A, CHR 0x0D}"
  by unfold_locales (auto simp: escape_data_char_def data_codes_def)

interpretation property_text: escaping escape_property_char property_codes
  "{CHR 0x0A, CHR 0x0D, CHR '':'', CHR '',''}"
  by unfold_locales (auto simp: escape_property_char_def escape_data_char_def property_codes_def data_codes_def)

lemmas unescape_data = data_text.unescape_all [folded escape_data_def]
lemmas unescape_property = property_text.unescape_all [folded escape_property_def]
lemmas data_free = data_text.no_reserved [folded escape_data_def]
lemmas property_free = property_text.no_reserved [folded escape_property_def]

lemma unescape_plain: "CHR ''%'' \<notin> set s \<Longrightarrow> unescape codes s = s"
  by (induction s) auto

section \<open>Reading a command\<close>

definition read_property :: "string \<Rightarrow> string \<times> string" where
  "read_property p = (case cut_at CHR ''='' p of (key, v, _) \<Rightarrow> (key, unescape property_codes v))"

definition read_command :: "string \<Rightarrow> (string \<times> (string \<times> string) list \<times> string) option" where
  "read_command line =
     (case cut_prefix line ''::'' of
        (body, False) \<Rightarrow> None
      | (body, True) \<Rightarrow>
          (case cut_at CHR '' '' body of (name, rest, _) \<Rightarrow>
             map_option (\<lambda>(props, data). (name, map read_property (split_at CHR '','' props), unescape data_codes data))
               (cut_text ''::'' rest)))"

text \<open>What an annotation says of a finding, as the runner shows it.\<close>

definition annotated_properties :: "render_options \<Rightarrow> item \<Rightarrow> finding \<Rightarrow> (string \<times> string) list" where
  "annotated_properties o' it f =
     (if item_located it f
      then [(''file'', render_path o' (loc_file (fd_location f))), (''line'', show_int (loc_line (fd_location f)))] @
           (if loc_column (fd_location f) > 0 then [(''col'', show_int (loc_column (fd_location f)))] else [])
      else []) @
     [(''title'', fd_code f @ '' ('' @ rs_id (it_result it) @ '')'')]"

lemma cut_text_colons: "CHR '':'' \<notin> set s \<Longrightarrow> cut_text ''::'' (s @ ''::'' @ t) = Some (s, t)"
  by (induction s) auto

lemma show_int_chars: "c \<in> set (show_int i) \<Longrightarrow> is_digit c \<or> c = CHR ''-''"
  by (auto simp: show_int_def split: if_splits dest: show_nat_digits)

lemma show_int_free:
  "CHR 0x0A \<notin> set (show_int i)" "CHR '':'' \<notin> set (show_int i)" "CHR '','' \<notin> set (show_int i)"
  "CHR ''%'' \<notin> set (show_int i)"
  by (auto simp: is_digit_def less_eq_char_def dest!: show_int_chars)

lemma read_property_of:
  "CHR ''='' \<notin> set key \<Longrightarrow> read_property (key @ CHR ''='' # v) = (key, unescape property_codes v)"
  by (auto simp: read_property_def cut_at_def takeWhile_append dropWhile_append)

lemmas read_keys =
  read_property_of [where key = "''file''", simplified] read_property_of [where key = "''line''", simplified]
  read_property_of [where key = "''col''", simplified] read_property_of [where key = "''title''", simplified]

lemma read_properties: "map read_property (command_properties o' it f) = annotated_properties o' it f"
  by (auto simp: command_properties_def annotated_properties_def read_keys unescape_property
      unescape_plain show_int_free)

lemma properties_plain:
  assumes "p \<in> set (command_properties o' it f)" "c \<in> {CHR 0x0A, CHR '':'', CHR '',''}"
  shows "c \<notin> set p"
  using assms by (auto simp: command_properties_def show_int_free property_free split: if_splits)

lemma join_with_set: "c \<in> set (join_with sep xs) \<Longrightarrow> c \<in> set sep \<or> (\<exists>x \<in> set xs. c \<in> set x)"
  by (induction xs rule: induct_list012) auto

lemma properties_split:
  "split_at CHR '','' (join_with '','' (command_properties o' it f)) = command_properties o' it f"
  by (rule split_join) (use properties_plain in \<open>auto simp: command_properties_def\<close>)

lemma properties_free:
  "c \<in> {CHR 0x0A, CHR '':''} \<Longrightarrow> c \<notin> set (join_with '','' (command_properties o' it f))"
  using properties_plain [of _ o' it f c] join_with_set [of c "'',''" "command_properties o' it f"] by auto

definition level_of :: "finding \<Rightarrow> string" where
  "level_of f = (if fd_advisory f then ''warning'' else ''error'')"

lemma finding_command_line:
  "finding_command o' it f = (''::'' @ level_of f @ '' '' @ join_with '','' (command_properties o' it f) @ ''::'' @
     escape_data (command_message f)) @ newline"
  by (simp add: finding_command_def level_of_def)

lemma read_level: "cut_at CHR '' '' (level_of f @ CHR '' '' # rest) = (level_of f, rest, True)"
  by (auto simp: cut_at_def level_of_def)

text \<open>C14. GitHub's runner reads the annotation of a finding back as it was meant: one line whose level,
  file, position, title and message are the finding's, whatever characters they hold.\<close>

theorem command_round_trip:
  "\<exists>line. finding_command o' it f = line @ newline \<and> CHR 0x0A \<notin> set line \<and>
     read_command line = Some (level_of f, annotated_properties o' it f, command_message f)"
proof (intro exI conjI)
  let ?props = "join_with '','' (command_properties o' it f)"
  let ?line = "''::'' @ level_of f @ '' '' @ ?props @ ''::'' @ escape_data (command_message f)"
  show "finding_command o' it f = ?line @ newline" by (rule finding_command_line)
  show "CHR 0x0A \<notin> set ?line"
    using properties_free [of "CHR 0x0A" o' it f] data_free by (auto simp: level_of_def)
  show "read_command ?line = Some (level_of f, annotated_properties o' it f, command_message f)"
    using read_level [of f "?props @ ''::'' @ escape_data (command_message f)"]
      cut_text_colons [OF properties_free, of o' it f "escape_data (command_message f)"]
    by (simp add: read_command_def cut_prefix_def properties_split read_properties unescape_data)
qed

section \<open>Annotations\<close>

definition error_command :: "string \<Rightarrow> bool" where
  "error_command c \<longleftrightarrow> has_prefix c ''::error ''"

lemma finding_command_error [simp]: "error_command (finding_command o' it f) \<longleftrightarrow> \<not> fd_advisory f"
  by (auto simp: error_command_def finding_command_def)

lemma status_command_error [simp]: "error_command (status_command it)"
  by (simp add: error_command_def status_command_def Let_def)

lemma item_errors:
  "list_ex error_command (item_commands o' it) \<longleftrightarrow>
     rs_status (it_result it) \<noteq> StatusPassed \<or> list_ex fails (it_findings it)"
proof -
  have "list_ex error_command (item_commands o' it) \<longleftrightarrow> list_ex fails (it_findings it) \<or> needs_annotation it"
    by (auto simp: item_commands_def shown_findings_def list_ex_iff fails_def bex_Un)
  then show ?thesis by (auto simp: needs_annotation_def unfinished_result_def)
qed

lemma list_ex_concat_map: "list_ex P (concat (map g xs)) \<longleftrightarrow> list_ex (\<lambda>x. list_ex P (g x)) xs"
  by (induction xs) simp_all

text \<open>A GitHub rendering is free of error annotations exactly when every check passed and no finding fails
  its check; a check without a verdict never disappears from it.\<close>

theorem errors_are_annotated:
  "list_all (\<lambda>c. \<not> error_command c) (github_commands r o') =
     list_all (\<lambda>it. rs_status (it_result it) = StatusPassed \<and> list_all (\<lambda>f. \<not> fails f) (it_findings it)) (finding_items r)"
proof -
  have "list_ex error_command (github_commands r o') =
      list_ex (\<lambda>it. rs_status (it_result it) \<noteq> StatusPassed \<or> list_ex fails (it_findings it)) (finding_items r)"
    unfolding github_commands_def by (simp add: list_ex_concat_map item_errors)
  then show ?thesis by (auto simp: list_ex_iff list_all_iff)
qed

section \<open>SARIF\<close>

lemma codes_distinct [simp]: "distinct (sarif_codes its)"
  by (simp add: sarif_codes_def)

lemma rule_id [simp]: "sru_id (sarif_rule_of (code, src)) = code"
  by (simp add: sarif_rule_of_def split: prod.split)

lemma rule_ids [simp]: "map sru_id (sarif_rules its) = sarif_codes its"
  by (simp add: sarif_rules_def comp_def)

lemma index_of_code:
  assumes "code \<in> set (sarif_codes its)"
  shows "index_of (sarif_index its) code < length (sarif_rules its) \<and>
         sru_id (sarif_rules its ! index_of (sarif_index its) code) = code"
proof -
  from assms obtain i where i: "i < length (sarif_codes its)" "sarif_codes its ! i = code"
    by (auto simp: in_set_conv_nth)
  then have "map_of (sarif_index its) code = Some i"
    using map_of_zip_nth [of "sarif_codes its" "[0..<length (sarif_codes its)]" i] by (simp add: sarif_index_def)
  moreover have "length (sarif_rules its) = length (sarif_codes its)" by (simp add: sarif_rules_def)
  moreover have "sru_id (sarif_rules its ! i) = sarif_codes its ! i"
    using i calculation(2) by (metis nth_map rule_ids)
  ultimately show ?thesis using i by (simp add: index_of_def)
qed

lemma result_code:
  assumes "sr \<in> set (concat (map (item_results r o' index) its))"
  shows "sre_rule sr \<in> set (sarif_codes its) \<and> sre_rule_index sr = index_of index (sre_rule sr)"
  using assms by (force simp: item_results_def sarif_result_of_def sarif_codes_def rule_sources_def)

definition rule_referenced :: "sarif_run \<Rightarrow> sarif_result \<Rightarrow> bool" where
  "rule_referenced run sr \<longleftrightarrow> sre_rule_index sr < length (sr_rules run) \<and>
     sru_id (sr_rules run ! sre_rule_index sr) = sre_rule sr"

text \<open>In the one SARIF run of a report every result's rule index is a rule of the run with the result's
  rule ID, and no two rules have one ID.\<close>

theorem sarif_rules_are_consistent:
  "list_all (\<lambda>run. distinct (map sru_id (sr_rules run)) \<and> list_all (rule_referenced run) (sr_results run))
     (sg_runs (render_sarif r o'))"
proof -
  let ?its = "finding_items r"
  have "rule_referenced run sr"
    if "sr_rules run = sarif_rules ?its"
      and "sr \<in> set (concat (map (item_results r o' (sarif_index ?its)) ?its))" for run sr
    using result_code [OF that(2)] index_of_code [of "sre_rule sr" ?its] that(1)
    by (simp add: rule_referenced_def)
  then show ?thesis by (simp add: render_sarif_def Let_def list_all_iff)
qed

section \<open>Hints\<close>

lemma hint_for_hinted [simp]: "hint_for (f\<lparr>fd_hint := h\<rparr>) = hint_for f"
  by (auto simp: hint_for_def split: option.split)

lemma hinted_hinted [simp]: "hinted (hinted f) = hinted f"
  by (auto simp: hinted_def)

lemma hint_erased: "fd_hint_update (\<lambda>_. '''') (hinted f) = fd_hint_update (\<lambda>_. '''') f"
  by (simp add: hinted_def)

definition without_hints :: "report \<Rightarrow> report" where
  "without_hints r = map_findings r (\<lambda>_ fs. map (fd_hint_update (\<lambda>_. '''')) fs)"

lemma map_findings_twice:
  assumes "\<And>c fs. fs \<noteq> [] \<Longrightarrow> g c fs \<noteq> []"
  shows "map_findings (map_findings r g) h = map_findings r (\<lambda>c fs. h c (g c fs))"
proof -
  have planned: "planned_for (map_findings r g) = planned_for r"
    by (rule ext) (simp add: map_findings_def planned_for_def planned_checks_def)
  have "map_result (map_findings r g) h (map_result r g res) = map_result r (\<lambda>c fs. h c (g c fs)) res" for res
  proof (cases "planned_for r res")
    case None
    then show ?thesis by (simp add: map_result_def planned)
  next
    case (Some c)
    have id: "planned_for r (with_details res d) = planned_for r res" for d
      by (simp add: planned_for_def with_details_def)
    show ?thesis
      using Some detail_findings_decodable [of "rs_details res"] assms [of "detail_findings (rs_details res)" c]
      by (auto simp: map_result_def planned id Let_def with_details_def planned_for_def)
  qed
  then show ?thesis by (simp add: map_findings_def comp_def)
qed

text \<open>Adding hints is idempotent and touches nothing but the hints of findings.\<close>

theorem hints_change_only_hints:
  "with_hints (with_hints r) = with_hints r \<and> without_hints (with_hints r) = without_hints r"
  by (simp add: with_hints_def without_hints_def map_findings_twice comp_def hint_erased)

end
