(* ===== verification/Stat_Memo.thy ===== *)
theory Stat_Memo
  imports Cache Go_Conv "HOL-Library.Word" "HOL-Library.AList"
begin

unbundle bit_operations_syntax

text \<open>
  The file stat memo: \<open>internal/verify/statcache.go\<close>. A memo maps a root and a path to what a snapshot
  says of the file's content, valid for the stat the file had. The records it persists under the cache
  directory are the bodies \<open>write_record\<close> of \<open>Cache\<close> gives; \<open>disk\<close> lists the files of that directory.
  Go ranges over its maps in any order: the entries here come in the order they were added, which the
  results do not depend on, except for which of several write failures \<open>flush\<close> returns.
\<close>

record stat_key =
  sk_root :: string
  sk_path :: string

record file_stat =
  sta_size :: int
  sta_mod_ns :: int
  sta_inode :: nat
  sta_mode :: nat

record stat_entry =
  sen_stat :: file_stat
  sen_value :: string
  sen_hashed_at :: int

record stat_record =
  srd_root :: string
  srd_shards :: int
  srd_entries :: "stat_entry gomap"

definition stat_entry_overhead :: nat where
  "stat_entry_overhead = 128"

definition racy_window :: int where
  "racy_window = 2 * 10 ^ 9"

definition settled :: "stat_entry \<Rightarrow> bool" where
  "settled e \<longleftrightarrow> sta_mod_ns (sen_stat e) < sen_hashed_at e - racy_window"

record stat_store =
  ss_dir :: string
  ss_limit :: nat
  ss_entries :: "(stat_key \<times> stat_entry) list"
  ss_seen :: "stat_key list"
  ss_roots :: "string list"

definition new_stat_store :: "string \<Rightarrow> nat \<Rightarrow> stat_store" where
  "new_stat_store dir limit = \<lparr>ss_dir = dir, ss_limit = limit, ss_entries = [], ss_seen = [], ss_roots = []\<rparr>"

text \<open>What the store uses of the rest of the program: the record format, the digest of a root, and which
  files cannot be written.\<close>

record stat_files =
  sf_codec :: "stat_record record_codec"
  sf_digest :: "string \<Rightarrow> string"
  sf_write_error :: "string \<Rightarrow> string option"

type_synonym disk = "string gomap"

section \<open>Shards\<close>

definition shard_base :: "stat_files \<Rightarrow> string \<Rightarrow> nat \<Rightarrow> string" where
  "shard_base io root i =
     (if i = 0 then sf_digest io root @ ''.json'' else sf_digest io root @ ''-'' @ show_nat i @ ''.json'')"

definition shard_path :: "stat_files \<Rightarrow> stat_store \<Rightarrow> string \<Rightarrow> nat \<Rightarrow> string" where
  "shard_path io s root i =
     (if ss_dir s = '''' then '''' else path_join [ss_dir s, ''stat'', shard_base io root i])"

definition stat_path :: "stat_files \<Rightarrow> stat_store \<Rightarrow> string \<Rightarrow> string" where
  "stat_path io s root = shard_path io s root 0"

definition entries_size :: "stat_entry gomap \<Rightarrow> nat" where
  "entries_size entries =
     sum_list (map (\<lambda>(name, e). length name + length (sen_value e) + stat_entry_overhead) entries)"

function double_until :: "nat \<Rightarrow> nat \<Rightarrow> nat \<Rightarrow> nat" where
  "double_until bytes half count =
     (if 0 < count \<and> half < bytes div count then double_until bytes half (count * 2) else count)"
  by pat_completeness auto
termination
proof (relation "measure (\<lambda>(bytes, half, count). bytes div count)")
  fix bytes half count :: nat
  assume "0 < count \<and> half < bytes div count"
  then have "bytes div count div 2 < bytes div count" by auto
  then show "((bytes, half, count * 2), bytes, half, count) \<in> measure (\<lambda>(bytes, half, count). bytes div count)"
    by (simp add: div_mult2_eq)
qed simp

declare double_until.simps [simp del]

definition shard_count :: "stat_entry gomap \<Rightarrow> nat \<Rightarrow> nat" where
  "shard_count entries limit = double_until (entries_size entries) (limit div 2) 1"

text \<open>\<open>hash/fnv\<close>'s 32-bit FNV-1a; the count stays below the word.\<close>

definition fnv32a :: "string \<Rightarrow> 32 word" where
  "fnv32a name = foldl (\<lambda>h c. (h XOR of_char c) * 16777619) 2166136261 name"

definition shard_of :: "string \<Rightarrow> nat \<Rightarrow> nat" where
  "shard_of name count = unat (fnv32a name mod word_of_nat count)"

section \<open>Reading\<close>

definition load_record :: "string \<Rightarrow> stat_record \<Rightarrow> stat_store \<Rightarrow> stat_store" where
  "load_record root rec s = s\<lparr>ss_entries :=
     fold (\<lambda>(name, e). AList.update \<lparr>sk_root = root, sk_path = name\<rparr> e)
       (filter (\<lambda>(name, e). settled e) (srd_entries rec)) (ss_entries s)\<rparr>"

definition read_stat_record :: "stat_files \<Rightarrow> disk \<Rightarrow> stat_store \<Rightarrow> string \<Rightarrow> nat \<Rightarrow> stat_record option" where
  "read_stat_record io disk s root i =
     (case read_record (sf_codec io) (ss_limit s) (map_of disk (shard_path io s root i)) of
        Inl _ \<Rightarrow> None
      | Inr rec \<Rightarrow> if srd_root rec = root then Some rec else None)"

definition load_shard :: "stat_files \<Rightarrow> disk \<Rightarrow> string \<Rightarrow> nat \<Rightarrow> stat_store \<Rightarrow> stat_store" where
  "load_shard io disk root i s =
     (case read_stat_record io disk s root i of None \<Rightarrow> s | Some rec \<Rightarrow> load_record root rec s)"

definition prepare_root :: "stat_files \<Rightarrow> disk \<Rightarrow> string \<Rightarrow> stat_store \<Rightarrow> stat_store" where
  "prepare_root io disk root s =
     (if root \<in> set (ss_roots s) then s
      else
        let s1 = s\<lparr>ss_roots := root # ss_roots s\<rparr> in
        if stat_path io s1 root = '''' then s1
        else (case read_stat_record io disk s1 root 0 of
                None \<Rightarrow> s1
              | Some rec \<Rightarrow>
                  fold (load_shard io disk root) [1..<nat (srd_shards rec)] (load_record root rec s1)))"

definition lookup_stat :: "stat_key \<Rightarrow> file_stat \<Rightarrow> stat_store \<Rightarrow> string option" where
  "lookup_stat key current s =
     (case map_of (ss_entries s) key of
        None \<Rightarrow> None
      | Some e \<Rightarrow> if sen_stat e \<noteq> current \<or> \<not> settled e then None else Some (sen_value e))"

definition see_key :: "stat_key \<Rightarrow> stat_store \<Rightarrow> stat_store" where
  "see_key key s = s\<lparr>ss_seen := key # ss_seen s\<rparr>"

definition store_stat :: "stat_key \<Rightarrow> file_stat \<Rightarrow> string \<Rightarrow> int \<Rightarrow> stat_store \<Rightarrow> stat_store" where
  "store_stat key current v hashed_at s = see_key key (s\<lparr>ss_entries := AList.update key
     \<lparr>sen_stat = current, sen_value = v, sen_hashed_at = hashed_at\<rparr> (ss_entries s)\<rparr>)"

section \<open>Writing\<close>

datatype flush_error = FlushRecord record_error | FlushWrite string

definition write_shard :: "stat_files \<Rightarrow> nat \<Rightarrow> string \<Rightarrow> stat_record \<Rightarrow> disk \<Rightarrow> flush_error option \<times> disk" where
  "write_shard io limit path rec disk =
     (case write_record (sf_codec io) limit rec of
        Inl e \<Rightarrow> (Some (FlushRecord e), disk)
      | Inr body \<Rightarrow> (case sf_write_error io path of
            Some e \<Rightarrow> (Some (FlushWrite e), disk)
          | None \<Rightarrow> (None, AList.update path body disk)))"

definition first_failure :: "flush_error option \<Rightarrow> flush_error option \<Rightarrow> flush_error option" where
  "first_failure failure e = (case failure of None \<Rightarrow> e | Some f \<Rightarrow> Some f)"

definition shard_entries :: "stat_entry gomap \<Rightarrow> nat \<Rightarrow> nat \<Rightarrow> stat_entry gomap" where
  "shard_entries entries count i = filter (\<lambda>(name, e). shard_of name count = i) entries"

definition shard_record :: "string \<Rightarrow> stat_entry gomap \<Rightarrow> nat \<Rightarrow> nat \<Rightarrow> stat_record" where
  "shard_record root entries count i = \<lparr>srd_root = root,
     srd_shards = (if i = 0 \<and> count > 1 then int count else 0), srd_entries = shard_entries entries count i\<rparr>"

fun write_shards ::
  "stat_files \<Rightarrow> stat_store \<Rightarrow> string \<Rightarrow> stat_entry gomap \<Rightarrow> nat \<Rightarrow> nat \<Rightarrow> disk \<Rightarrow> flush_error option \<times> disk" where
  "write_shards io s root entries count 0 disk = (None, disk)"
| "write_shards io s root entries count (Suc i) disk =
     (let (e, disk1) = write_shard io (ss_limit s) (shard_path io s root i) (shard_record root entries count i) disk;
          (failure, disk2) = write_shards io s root entries count i disk1
      in (first_failure e failure, disk2))"

text \<open>The leftover shards: the paths the glob of \<open>write\<close> finds whose number is at least the count. The
  cache directory has none of the glob's special characters.\<close>

definition stale_number :: "stat_files \<Rightarrow> string \<Rightarrow> string \<Rightarrow> int option" where
  "stale_number io root base =
     (case cut_prefix base (sf_digest io root @ ''-'') of
        (rest, False) \<Rightarrow> None
      | (rest, True) \<Rightarrow> (case cut_suffix rest ''.json'' of (n, True) \<Rightarrow> atoi n | (_, False) \<Rightarrow> None))"

definition stale_shard :: "stat_files \<Rightarrow> stat_store \<Rightarrow> string \<Rightarrow> nat \<Rightarrow> string \<Rightarrow> bool" where
  "stale_shard io s root count path \<longleftrightarrow>
     path = path_join [ss_dir s, ''stat'', base_name path] \<and>
     (case stale_number io root (base_name path) of None \<Rightarrow> False | Some i \<Rightarrow> i \<ge> int count)"

definition write_root ::
  "stat_files \<Rightarrow> stat_store \<Rightarrow> string \<Rightarrow> stat_entry gomap \<Rightarrow> disk \<Rightarrow> flush_error option \<times> disk" where
  "write_root io s root entries disk =
     (let count = shard_count entries (ss_limit s);
          (failure, disk1) = write_shards io s root entries count count disk
      in (failure, filter (\<lambda>(path, body). \<not> stale_shard io s root count path) disk1))"

text \<open>\<open>unchanged\<close>: \<open>observe\<close> is the stat of a regular file at a path below a root that opens.\<close>

definition unchanged :: "(stat_key \<Rightarrow> file_stat option) \<Rightarrow> stat_key \<Rightarrow> file_stat \<Rightarrow> bool" where
  "unchanged observe key recorded \<longleftrightarrow> observe key = Some recorded"

definition kept_for :: "(stat_key \<Rightarrow> file_stat option) \<Rightarrow> stat_store \<Rightarrow> string \<Rightarrow> stat_entry gomap" where
  "kept_for observe s root = map (\<lambda>(key, e). (sk_path key, e))
     (filter (\<lambda>(key, e). sk_root key = root \<and> (key \<in> set (ss_seen s) \<or> unchanged observe key (sen_stat e)))
       (ss_entries s))"

fun flush_roots ::
  "stat_files \<Rightarrow> (stat_key \<Rightarrow> file_stat option) \<Rightarrow> stat_store \<Rightarrow> string list \<Rightarrow> disk \<Rightarrow> flush_error option \<times> disk" where
  "flush_roots io observe s [] disk = (None, disk)"
| "flush_roots io observe s (root # roots) disk =
     (let (e, disk1) = write_root io s root (kept_for observe s root) disk;
          (failure, disk2) = flush_roots io observe s roots disk1
      in (first_failure e failure, disk2))"

definition flush_store ::
  "stat_files \<Rightarrow> (stat_key \<Rightarrow> file_stat option) \<Rightarrow> stat_store \<Rightarrow> disk \<Rightarrow> flush_error option \<times> disk" where
  "flush_store io observe s disk = (if ss_dir s = '''' then (None, disk) else flush_roots io observe s (ss_roots s) disk)"

end
