(* ===== verification/Fingerprints.thy ===== *)
theory Fingerprints
  imports Stat_Memo File_Sets Go_Json Check_Tools
begin

text \<open>
  What a check's result depends on: \<open>internal/verify\<close> fingerprint.go, identity.go, the environment of
  command.go and the toolchain identity of gotools.go. SHA-256 of a file is \<open>sha\<close> and the digest of a JSON
  value \<open>digest\<close>; the stat of a file, the clock, the Go toolchain's answers and the JSON of the structs of
  the configuration are arguments. A snapshot returns the memo as its reads leave it.
\<close>

section \<open>The environment of a native command\<close>

text \<open>What \<open>Request\<close> adds to a planned check.\<close>

record request =
  rq_source :: string
  rq_shared :: string
  rq_rerun_checks :: bool
  rq_check :: planned_check

definition host_keys :: "string list" where
  "host_keys = [''PATH'', ''HOME'', ''TMPDIR'', ''TMP'', ''TEMP'', ''SystemRoot'']"

text \<open>\<open>maps.Copy\<close>, and the host's value of each key that has one.\<close>

definition copy_map :: "string gomap \<Rightarrow> string gomap \<Rightarrow> string gomap" where
  "copy_map from into = foldr (\<lambda>(k, v). AList.update k v) from into"

definition copy_host :: "(string \<Rightarrow> string option) \<Rightarrow> string list \<Rightarrow> string gomap \<Rightarrow> string gomap" where
  "copy_host lookup_env keys into =
     fold (\<lambda>k m. case lookup_env k of None \<Rightarrow> m | Some v \<Rightarrow> AList.update k v m) keys into"

definition show_bool :: "bool \<Rightarrow> string" where
  "show_bool b = (if b then ''true'' else ''false'')"

definition native_values :: "(string \<Rightarrow> string option) \<Rightarrow> request \<Rightarrow> string gomap \<Rightarrow> string gomap" where
  "native_values lookup_env req extra =
     (let env = pc_environment (rq_check req);
          m1 = copy_host lookup_env host_keys [];
          m2 = AList.update ''LANG'' ''C'' m1;
          m3 = copy_host lookup_env (en_pass_env env) m2;
          m4 = copy_map extra (copy_map (en_env env) m3);
          m5 = AList.update ''LEVENSHTEIN_SOURCE'' (rq_source req) m4;
          m6 = AList.update ''LEVENSHTEIN_WORKSPACE''
            (path_join [rq_source req, tg_workspace (pc_target (rq_check req))]) m5
      in AList.update ''LEVENSHTEIN_RERUN_CHECKS'' (show_bool (rq_rerun_checks req)) m6)"

definition native_env :: "(string \<Rightarrow> string option) \<Rightarrow> request \<Rightarrow> string gomap \<Rightarrow> string list" where
  "native_env lookup_env req extra =
     (let values = native_values lookup_env req extra
      in map (\<lambda>k. k @ ''='' @ the (map_of values k)) (sorted_keys values))"

section \<open>Snapshots\<close>

record snapshot_request =
  sq_root :: string
  sq_paths :: "string list"
  sq_excludes :: "string list"
  sq_outputs :: bool
  sq_discovery :: discovery_kind
  sq_go_toolchain :: bool

datatype snapshot_error = SnapshotWalk walk_error | SourceSymlink string | UnsupportedFile string

text \<open>What \<open>record\<close> does with a path: nothing, an entry, or a file whose content is still to be read.\<close>

record hash_target =
  ht_path :: string
  ht_content :: string

datatype recorded = NotRecorded | Recorded string | Queued hash_target

definition record_visit ::
  "(json \<Rightarrow> string) \<Rightarrow> snapshot_request \<Rightarrow> visit \<Rightarrow> snapshot_error + recorded" where
  "record_visit digest req v =
     (if vs_scope v = ScopeOmitted then Inr NotRecorded
      else (case vs_node v of
        None \<Rightarrow> Inr (Recorded ''missing'')
      | Some (LinkNode target) \<Rightarrow>
          if \<not> sq_outputs req \<and> vs_scope v = ScopeDeclared then Inl (SourceSymlink (vs_rel v))
          else Inr (Recorded (digest (JList [JStr ''symlink'', JStr target])))
      | Some DirNode \<Rightarrow> Inr (Recorded ''directory'')
      | Some (FileNode mode content) \<Rightarrow> Inr (Queued \<lparr>ht_path = vs_rel v, ht_content = content\<rparr>)
      | Some SpecialNode \<Rightarrow> Inl (UnsupportedFile (vs_rel v))))"

fun show_octal :: "nat \<Rightarrow> string" where
  "show_octal n = (if n < 8 then [digit_char n] else show_octal (n div 8) @ [digit_char (n mod 8)])"

declare show_octal.simps [simp del]

text \<open>What a snapshot says of a regular file, \<open>%o:%x\<close> of its permissions and its digest.\<close>

definition file_says :: "(string \<Rightarrow> string) \<Rightarrow> file_stat \<Rightarrow> string \<Rightarrow> string" where
  "file_says sha st content = show_octal (sta_mode st) @ '':'' @ sha content"

definition file_entry ::
  "(string \<Rightarrow> string) \<Rightarrow> (stat_key \<Rightarrow> file_stat) \<Rightarrow> (stat_key \<Rightarrow> int) \<Rightarrow> string \<Rightarrow> hash_target \<Rightarrow> stat_store \<Rightarrow>
     string \<times> stat_store" where
  "file_entry sha stat_now clock root f s =
     (let key = \<lparr>sk_root = root, sk_path = ht_path f\<rparr>; current = stat_now key in
      case lookup_stat key current s of
        Some v \<Rightarrow> (v, see_key key s)
      | None \<Rightarrow> let v = file_says sha current (ht_content f) in (v, store_stat key current v (clock key) s))"

text \<open>The files are hashed concurrently in Go; each result depends on the file's own memo entry only.\<close>

fun file_entries ::
  "(string \<Rightarrow> string) \<Rightarrow> (stat_key \<Rightarrow> file_stat) \<Rightarrow> (stat_key \<Rightarrow> int) \<Rightarrow> string \<Rightarrow> hash_target list \<Rightarrow> stat_store \<Rightarrow>
     string gomap \<times> stat_store" where
  "file_entries sha stat_now clock root [] s = ([], s)"
| "file_entries sha stat_now clock root (f # fs) s =
     (let (v, s1) = file_entry sha stat_now clock root f s;
          (es, s2) = file_entries sha stat_now clock root fs s1
      in ((ht_path f, v) # es, s2))"

text \<open>What the session brings to a snapshot: the tree of each root, git's listing, the memo's files.\<close>

record snapshot_world =
  sw_tree :: "string \<Rightarrow> fs"
  sw_listing :: "string \<Rightarrow> git_listing"
  sw_files :: stat_files
  sw_disk :: disk
  sw_sha :: "string \<Rightarrow> string"
  sw_digest :: "json \<Rightarrow> string"
  sw_stat :: "stat_key \<Rightarrow> file_stat"
  sw_clock :: "stat_key \<Rightarrow> int"

definition hash_files :: "snapshot_world \<Rightarrow> string \<Rightarrow> hash_target list \<Rightarrow> stat_store \<Rightarrow> string gomap \<times> stat_store" where
  "hash_files w root files s =
     (if files = [] then ([], s)
      else file_entries (sw_sha w) (sw_stat w) (sw_clock w) root files (prepare_root (sw_files w) (sw_disk w) root s))"

definition snapshot_set :: "snapshot_request \<Rightarrow> file_set" where
  "snapshot_set req = \<lparr>st_inputs = sq_paths req, st_excludes = sq_excludes req,
     st_discovery = (if sq_outputs req then DiscoveryFilesystem else sq_discovery req),
     st_go_toolchain = sq_go_toolchain req\<rparr>"

text \<open>A walk that fails part way is reported before a path it had already recorded with an error.\<close>

definition snapshot_visits :: "snapshot_world \<Rightarrow> snapshot_request \<Rightarrow> snapshot_error + (visit \<times> recorded) list" where
  "snapshot_visits w req =
     bind_result (wrap_error SnapshotWalk (walk_set (sw_tree w (sq_root req)) (snapshot_set req) (sw_listing w (sq_root req))))
       (\<lambda>vs. map_results (\<lambda>v. bind_result (record_visit (sw_digest w) req v) (\<lambda>r. Inr (v, r))) vs)"

definition plain_entries :: "(visit \<times> recorded) list \<Rightarrow> string gomap" where
  "plain_entries vs = concat (map (\<lambda>(v, r). case r of Recorded text \<Rightarrow> [(vs_rel v, text)] | _ \<Rightarrow> []) vs)"

definition queued_files :: "(visit \<times> recorded) list \<Rightarrow> hash_target list" where
  "queued_files vs = concat (map (\<lambda>(v, r). case r of Queued f \<Rightarrow> [f] | _ \<Rightarrow> []) vs)"

text \<open>The entries by path: a later one replaces an earlier one, and a file's content anything else.\<close>

definition snapshot_entries ::
  "snapshot_world \<Rightarrow> snapshot_request \<Rightarrow> stat_store \<Rightarrow> snapshot_error + string gomap \<times> stat_store" where
  "snapshot_entries w req s =
     bind_result (snapshot_visits w req) (\<lambda>vs.
       let (files, s1) = hash_files w (sq_root req) (queued_files vs) s
       in Inr (rev files @ rev (plain_entries vs), s1))"

definition entries_json :: "string gomap \<Rightarrow> json" where
  "entries_json es = JObj (map (\<lambda>k. (k, JStr (the (map_of es k)))) (sorted_keys es))"

definition snapshot :: "snapshot_world \<Rightarrow> snapshot_request \<Rightarrow> stat_store \<Rightarrow> snapshot_error + string \<times> stat_store" where
  "snapshot w req s = bind_result (snapshot_entries w req s) (\<lambda>(es, s1). Inr (sw_digest w (entries_json es), s1))"

definition output_paths :: "planned_check \<Rightarrow> string list" where
  "output_paths c = check_artifacts (pc_check c) @ concat (map (pr_outputs \<circ> snd) (check_stages c))"

definition keyed_source :: "request \<Rightarrow> snapshot_request" where
  "keyed_source req =
     (let c = rq_check req
      in \<lparr>sq_root = rq_source req,
          sq_paths = sort (tg_inputs (pc_target c) @ concat (map (pr_inputs \<circ> snd) (check_stages c))),
          sq_excludes = output_paths c @ tg_exclude (pc_target c), sq_outputs = False,
          sq_discovery = tg_discovery (pc_target c), sq_go_toolchain = reads_go_toolchain (ck_kind (pc_check c))\<rparr>)"

section \<open>The Go toolchain of the host\<close>

record go_toolchain =
  gt_version :: string
  gt_os :: string
  gt_arch :: string
  gt_settings :: "string gomap"

definition toolchain_settings :: "string list" where
  "toolchain_settings =
     [''GOFLAGS'', ''GOEXPERIMENT'', ''GOFIPS140'', ''GODEBUG'', ''CGO_ENABLED'', ''CC'', ''CXX'',
      ''CGO_CFLAGS'', ''CGO_CPPFLAGS'', ''CGO_CXXFLAGS'', ''CGO_LDFLAGS'',
      ''GOAMD64'', ''GOARM64'', ''GOARM'', ''GO386'', ''GOPPC64'', ''GORISCV64'', ''GOMIPS'', ''GOMIPS64'', ''GOWASM'']"

definition variable_name :: "string \<Rightarrow> string" where
  "variable_name assignment = fst (cut_at CHR ''='' assignment)"

definition go_env :: "string list \<Rightarrow> string list \<Rightarrow> string list" where
  "go_env env pinned = filter (\<lambda>e. variable_name e \<notin> set (map variable_name pinned)) env @ pinned"

definition analysis_env :: "string list \<Rightarrow> string \<Rightarrow> string list" where
  "analysis_env env gowork = go_env env [''GOTOOLCHAIN=local'', ''GOWORK='' @ gowork]"

definition build_env :: "string list \<Rightarrow> string list" where
  "build_env env = go_env env [''GOTOOLCHAIN=local'', ''GOWORK=off'']"

text \<open>\<open>executable\<close>: \<open>runnable\<close> says which paths are regular files with an execute bit.\<close>

definition env_path :: "string list \<Rightarrow> string" where
  "env_path env = foldl (\<lambda>path e. case cut_prefix e ''PATH='' of (rest, True) \<Rightarrow> rest | (_, False) \<Rightarrow> path) '''' env"

definition split_list :: "string \<Rightarrow> string list" where
  "split_list path = (if path = '''' then [] else split_at CHR '':'' path)"

definition candidate :: "string \<Rightarrow> string \<Rightarrow> string \<Rightarrow> string" where
  "candidate dir name entry = path_join [if \<not> is_abs entry then path_join [dir, entry] else entry, name]"

definition executable :: "(string \<Rightarrow> bool) \<Rightarrow> string \<Rightarrow> string list \<Rightarrow> string \<Rightarrow> string + string" where
  "executable runnable dir env name =
     (if contains_any name [slash, CHR 0x5C]
      then Inr (if \<not> is_abs name then path_join [dir, name] else name)
      else (case find runnable (map (candidate dir name) (split_list (env_path env))) of
              Some path \<Rightarrow> Inr path
            | None \<Rightarrow> Inl (''executable '' @ go_quote name @ '' not found in configured PATH'')))"

text \<open>What the host answers, and the JSON of the structs a key holds.\<close>

record host_world =
  hw_lookup_env :: "string \<Rightarrow> string option"
  hw_runnable :: "string \<Rightarrow> bool"
  hw_run :: "string \<Rightarrow> string list \<Rightarrow> string list \<Rightarrow> string + tool_run"
  hw_decode :: "string \<Rightarrow> string gomap option"
  hw_os :: string
  hw_arch :: string
  hw_check_json :: "planned_check \<Rightarrow> json"
  hw_preparation_json :: "preparation \<Rightarrow> json"
  hw_environment_json :: "environment \<Rightarrow> json"

record implementation_key =
  ik_shared :: string
  ik_executor :: executor_kind
  ik_runner :: bool

record key_session =
  ks_stats :: stat_store
  ks_implementations :: "(implementation_key \<times> string) list"
  ks_toolchains :: "go_toolchain gomap"

datatype key_error = KeySnapshot snapshot_error | KeyPath path_error | KeyTool string

definition toolchain_json :: "go_toolchain \<Rightarrow> json" where
  "toolchain_json t = JObj ([(''version'', JStr (gt_version t)), (''os'', JStr (gt_os t)), (''arch'', JStr (gt_arch t))] @
     (if gt_settings t = [] then [] else [(''settings'', entries_json (gt_settings t))]))"

definition value_of :: "string gomap \<Rightarrow> string \<Rightarrow> string" where
  "value_of m k = (case map_of m k of None \<Rightarrow> '''' | Some v \<Rightarrow> v)"

definition toolchain_of :: "string gomap \<Rightarrow> go_toolchain" where
  "toolchain_of m = \<lparr>gt_version = value_of m ''GOVERSION'', gt_os = value_of m ''GOOS'', gt_arch = value_of m ''GOARCH'',
     gt_settings = map (\<lambda>n. (n, value_of m n)) (filter (\<lambda>n. value_of m n \<noteq> '''') toolchain_settings)\<rparr>"

definition go_toolchain_of ::
  "snapshot_world \<Rightarrow> host_world \<Rightarrow> string \<Rightarrow> string list \<Rightarrow> key_session \<Rightarrow> string + go_toolchain \<times> key_session" where
  "go_toolchain_of w h dir env0 st =
     (let env = build_env env0 in
      bind_result (executable (hw_runnable h) dir env ''go'') (\<lambda>binary.
      let memo = sw_digest w (JList [JStr binary, JList (map JStr env)]) in
      case map_of (ks_toolchains st) memo of
        Some t \<Rightarrow> Inr (t, st)
      | None \<Rightarrow>
        bind_result (hw_run h dir ([binary, ''env'', ''-json'', ''GOVERSION'', ''GOOS'', ''GOARCH''] @ toolchain_settings) env) (\<lambda>run.
        if tr_exit run \<noteq> 0 then Inl (''go env failed: '' @ trim_space (tr_stderr run))
        else (case hw_decode h (tr_stdout run) of
            None \<Rightarrow> Inl (''go env returned '' @ go_quote (tr_stdout run))
          | Some m \<Rightarrow>
              if value_of m ''GOVERSION'' = '''' then Inl (''go env returned '' @ go_quote (tr_stdout run))
              else Inr (toolchain_of m, st\<lparr>ks_toolchains := (memo, toolchain_of m) # ks_toolchains st\<rparr>)))))"

definition check_dir :: "snapshot_world \<Rightarrow> request \<Rightarrow> path_error + string" where
  "check_dir w req = bind_result (contained (sw_tree w (rq_source req)) (tg_dir (pc_target (rq_check req))))
     (\<lambda>q. Inr (path_join (rq_source req # q)))"

definition host_toolchain ::
  "snapshot_world \<Rightarrow> host_world \<Rightarrow> request \<Rightarrow> string list \<Rightarrow> key_session \<Rightarrow> key_error + string \<times> key_session" where
  "host_toolchain w h req env st =
     (if \<not> shared_go_check (ck_kind (pc_check (rq_check req))) then Inr ('''', st)
      else bind_result (wrap_error KeyPath (check_dir w req)) (\<lambda>dir.
        bind_result (wrap_error KeyTool (go_toolchain_of w h dir env st)) (\<lambda>(t, st1).
          Inr (sw_digest w (toolchain_json t), st1))))"

section \<open>The shared checkout\<close>

definition runs_shared_tools :: "request \<Rightarrow> bool" where
  "runs_shared_tools req \<longleftrightarrow> en_executor (pc_environment (rq_check req)) = ExecutorDagger \<or>
     shared_go_check (ck_kind (pc_check (rq_check req)))"

definition implementation_key_of :: "request \<Rightarrow> implementation_key" where
  "implementation_key_of req = \<lparr>ik_shared = rq_shared req, ik_executor = en_executor (pc_environment (rq_check req)),
     ik_runner = runs_shared_tools req\<rparr>"

definition implementation_paths :: "implementation_key \<Rightarrow> string list" where
  "implementation_paths k = [''go.mod'', ''go.sum'', ''cmd'', ''internal''] @
     (if ik_executor k = ExecutorDagger then [''.dagger-version'', ''dagger.json'', ''runner'', ''sdk'']
      else if ik_runner k then [''runner''] else [])"

definition implementation_request :: "implementation_key \<Rightarrow> snapshot_request" where
  "implementation_request k = \<lparr>sq_root = ik_shared k, sq_paths = implementation_paths k, sq_excludes = [],
     sq_outputs = False, sq_discovery = DiscoveryFilesystem, sq_go_toolchain = False\<rparr>"

definition session_snapshot ::
  "snapshot_world \<Rightarrow> snapshot_request \<Rightarrow> key_session \<Rightarrow> key_error + string \<times> key_session" where
  "session_snapshot w req st =
     bind_result (wrap_error KeySnapshot (snapshot w req (ks_stats st))) (\<lambda>(d, s). Inr (d, st\<lparr>ks_stats := s\<rparr>))"

definition implementation ::
  "snapshot_world \<Rightarrow> request \<Rightarrow> key_session \<Rightarrow> key_error + string \<times> key_session" where
  "implementation w req st =
     (let key = implementation_key_of req in
      case map_of (ks_implementations st) key of
        Some impl \<Rightarrow> Inr (impl, st)
      | None \<Rightarrow> bind_result (session_snapshot w (implementation_request key) st) (\<lambda>(impl, st1).
          Inr (impl, st1\<lparr>ks_implementations := (key, impl) # ks_implementations st1\<rparr>)))"

section \<open>The key of a result\<close>

definition key_json :: "host_world \<Rightarrow> planned_check \<Rightarrow> string \<Rightarrow> string \<Rightarrow> string list option \<Rightarrow> string \<Rightarrow> json" where
  "key_json h c source impl env toolchain = JObj
     ([(''Check'', hw_check_json h c), (''Source'', JStr source), (''Implementation'', JStr impl),
       (''OS'', JStr (hw_os h)), (''Arch'', JStr (hw_arch h)),
       (''Env'', case env of None \<Rightarrow> JNull | Some es \<Rightarrow> JList (map JStr es))] @
      (if toolchain = '''' then [] else [(''Toolchain'', JStr toolchain)]))"

definition fingerprint ::
  "snapshot_world \<Rightarrow> host_world \<Rightarrow> request \<Rightarrow> key_session \<Rightarrow> key_error + string \<times> key_session" where
  "fingerprint w h req0 st =
     bind_result (session_snapshot w (keyed_source req0) st) (\<lambda>(source, st1).
     bind_result (implementation w req0 st1) (\<lambda>(impl, st2).
       let req = req0\<lparr>rq_rerun_checks := False\<rparr>; c = rq_check req in
       if en_executor (pc_environment c) = ExecutorNative
       then let env = native_env (hw_lookup_env h) req (check_env (pc_check c)) in
            bind_result (host_toolchain w h req env st2) (\<lambda>(toolchain, st3).
              Inr (sw_digest w (key_json h c source impl (Some env) toolchain), st3))
       else Inr (sw_digest w (key_json h c source impl None ''''), st2)))"

text \<open>\<open>resultIdentity\<close>: what a result says it ran with, as far as it can be told.\<close>

definition result_identity ::
  "snapshot_world \<Rightarrow> host_world \<Rightarrow> request \<Rightarrow> key_session \<Rightarrow> string option \<times> toolchain_identity option \<times> key_session" where
  "result_identity w h req st =
     (let (impl, st1) = (case implementation w req st of Inl _ \<Rightarrow> (None, st) | Inr (i, st1) \<Rightarrow> (Some i, st1));
          c = rq_check req
      in if en_executor (pc_environment c) \<noteq> ExecutorNative \<or> \<not> shared_go_check (ck_kind (pc_check c)) then (impl, None, st1)
         else (case check_dir w req of
             Inl _ \<Rightarrow> (impl, None, st1)
           | Inr dir \<Rightarrow>
             (case go_toolchain_of w h dir (native_env (hw_lookup_env h) req (check_env (pc_check c))) st1 of
                Inl _ \<Rightarrow> (impl, None, st1)
              | Inr (t, st2) \<Rightarrow>
                  (impl, Some \<lparr>ti_digest = sw_digest w (toolchain_json t), ti_version = gt_version t, ti_os = gt_os t,
                     ti_arch = gt_arch t, ti_settings_digest = sw_digest w (entries_json (gt_settings t))\<rparr>, st2))))"

end
