(* ===== verification/Native.thy ===== *)
theory Native
  imports Fingerprints
begin

text \<open>
  The native executor: \<open>internal/verify\<close> command.go, native_output.go, stages.go and native.go. The tree is any
  type: running a process changes it, and what the code asks of it is a field of \<open>native_ops\<close>. A snapshot
  there is \<open>Session.snapshot\<close> of the tree as it is, which the file memo (\<open>memo_is_transparent\<close>) and the
  renewed git listing after each stage (\<open>relist\<close>) make it. The executor's mutex, which lets one command
  check prepare at a time, is not part of the model: a check is run alone.
\<close>

section \<open>native_output.go\<close>

definition native_output_limit :: nat where
  "native_output_limit = 1048576"

record output_buffer =
  ob_buffer :: string
  ob_truncated :: bool

definition new_output_buffer :: output_buffer where
  "new_output_buffer = \<lparr>ob_buffer = '''', ob_truncated = False\<rparr>"

definition write_output :: "string \<Rightarrow> output_buffer \<Rightarrow> output_buffer" where
  "write_output p b =
     (let retained = min (length p) (native_output_limit - length (ob_buffer b))
      in \<lparr>ob_buffer = ob_buffer b @ take retained p, ob_truncated = ob_truncated b \<or> retained < length p\<rparr>)"

definition truncation_warning :: "string \<Rightarrow> warning" where
  "truncation_warning name = \<lparr>wn_kind = WarningOutputTruncated, wn_message = ''native '' @ name @ '' exceeded '' @
     show_nat native_output_limit @ '' bytes; retained only the first '' @ show_nat native_output_limit @
     '' bytes and drained the remainder''\<rparr>"

definition output_warnings :: "output_buffer \<Rightarrow> output_buffer \<Rightarrow> warning list" where
  "output_warnings out err =
     (if ob_truncated out then [truncation_warning ''stdout''] else []) @
     (if ob_truncated err then [truncation_warning ''stderr''] else [])"

text \<open>A tool's run with the warnings of its streams, and two runs read as one report.\<close>

record native_run =
  nr_exit :: int
  nr_stdout :: string
  nr_stderr :: string
  nr_warnings :: "warning list"

definition merge_tool_output :: "native_run \<Rightarrow> native_run \<Rightarrow> native_run" where
  "merge_tool_output previous next =
     (let out = write_output (nr_stdout next) (write_output (nr_stdout previous) new_output_buffer);
          err = write_output (nr_stderr next) (write_output (nr_stderr previous) new_output_buffer)
      in \<lparr>nr_exit = nr_exit next, nr_stdout = ob_buffer out, nr_stderr = ob_buffer err,
          nr_warnings = nr_warnings previous @ nr_warnings next @ output_warnings out err\<rparr>)"

section \<open>command.go\<close>

text \<open>How a process ended (the error of \<open>Cmd.Run\<close>, \<open>None\<close> for none), with what it wrote to each stream.\<close>

datatype run_error = ExitStatus int string | WaitDelayed string | NotRun string

record process_run =
  pn_cancelled :: "string option"
  pn_timed_out :: bool
  pn_error :: "run_error option"
  pn_stdout :: "string list"
  pn_stderr :: "string list"

fun run_error_text :: "run_error \<Rightarrow> string" where
  "run_error_text (ExitStatus code message) = message"
| "run_error_text (WaitDelayed message) = message"
| "run_error_text (NotRun message) = message"

definition collected :: "string list \<Rightarrow> output_buffer" where
  "collected writes = fold write_output writes new_output_buffer"

definition detached_warning :: warning where
  "detached_warning = \<lparr>wn_kind = WarningDetachedOutput, wn_message =
     ''the command exited 0, but a process it started still held its output 1s later; output after the exit was dropped and the process was killed''\<rparr>"

definition command_verdict :: "process_run \<Rightarrow> status \<times> string \<times> warning list" where
  "command_verdict p =
     (case pn_cancelled p of
        Some e \<Rightarrow> (StatusCancelled, e, [])
      | None \<Rightarrow>
          if pn_timed_out p then (StatusError, ''command timed out'', [])
          else (case pn_error p of
                  None \<Rightarrow> (StatusPassed, '''', [])
                | Some (WaitDelayed _) \<Rightarrow> (StatusPassed, '''', [detached_warning])
                | Some (ExitStatus code message) \<Rightarrow> (StatusFailed, message, [])
                | Some (NotRun message) \<Rightarrow> (StatusError, message, [])))"

definition command_result :: "process_run \<Rightarrow> result" where
  "command_result p =
     (let (s, message, warnings) = command_verdict p; out = collected (pn_stdout p); err = collected (pn_stderr p)
      in (outcome s message)\<lparr>rs_stdout := ob_buffer out, rs_stderr := ob_buffer err,
           rs_warnings := warnings @ output_warnings out err\<rparr>)"

text \<open>What the executor asks of the world.\<close>

record 't native_ops =
  no_snapshot :: "snapshot_request \<Rightarrow> 't \<Rightarrow> string + string"
  no_implementation :: "request \<Rightarrow> 't \<Rightarrow> string + string"
  no_digest :: "json \<Rightarrow> string"
  no_lookup_env :: "string \<Rightarrow> string option"
  no_runnable :: "'t \<Rightarrow> string \<Rightarrow> bool"
  no_run :: "string \<Rightarrow> string \<Rightarrow> string list \<Rightarrow> string list \<Rightarrow> int \<Rightarrow> 't \<Rightarrow> process_run \<times> 't"
  no_output_error :: "'t \<Rightarrow> string \<Rightarrow> string option"
  no_contained :: "'t \<Rightarrow> string \<Rightarrow> string + string"
  no_regular :: "'t \<Rightarrow> string \<Rightarrow> bool"
  no_preparation_json :: "preparation \<Rightarrow> json"
  no_environment_json :: "environment \<Rightarrow> json"
  no_os :: string
  no_arch :: string
  no_elapsed_ms :: int

definition default_command_timeout :: int where
  "default_command_timeout = 300000000000"

text \<open>The arguments are not empty: validation requires a command's arguments and a tool's command.\<close>

definition run_process ::
  "'t native_ops \<Rightarrow> string \<Rightarrow> string list \<Rightarrow> string list \<Rightarrow> string \<Rightarrow> 't \<Rightarrow> result \<times> 't" where
  "run_process ops dir args env timeout t =
     (let duration = (if timeout = '''' then Some default_command_timeout else parse_duration timeout)
      in case duration of
           None \<Rightarrow> (outcome StatusError ''invalid timeout'', t)
         | Some d \<Rightarrow>
             if d \<le> 0 then (outcome StatusError ''invalid timeout'', t)
             else (case executable (no_runnable ops t) dir env (hd args) of
                     Inl e \<Rightarrow> (outcome StatusError e, t)
                   | Inr path \<Rightarrow> (case no_run ops dir path (tl args) env d t of (p, t1) \<Rightarrow> (command_result p, t1))))"

definition truncated_output :: "result \<Rightarrow> bool" where
  "truncated_output r \<longleftrightarrow> list_ex (\<lambda>w. wn_kind w = WarningOutputTruncated) (rs_warnings r)"

definition tool_failure :: "tool \<Rightarrow> result \<Rightarrow> result option" where
  "tool_failure tool r =
     (if rs_status r = StatusPassed \<and> truncated_output r
      then Some (with_outcome r StatusError ''tool validation: output truncated; refusing incomplete version output'')
      else if rs_status r \<noteq> StatusPassed then Some (with_outcome r StatusError (''tool validation: '' @ rs_error r))
      else if trim_space (rs_stdout r) \<noteq> tl_version tool
      then Some (outcome StatusError (''tool '' @ go_quote (hd (tl_command tool)) @ '' version mismatch: expected '' @
             go_quote (tl_version tool) @ '', got '' @ go_quote (trim_space (rs_stdout r))))
      else None)"

fun validate_tools :: "'t native_ops \<Rightarrow> string \<Rightarrow> tool list \<Rightarrow> string list \<Rightarrow> 't \<Rightarrow> result option \<times> 't" where
  "validate_tools ops dir [] env t = (None, t)"
| "validate_tools ops dir (tool # tools) env t =
     (let (r, t1) = run_process ops dir (tl_command tool) env ''30s'' t
      in case tool_failure tool r of Some failure \<Rightarrow> (Some failure, t1) | None \<Rightarrow> validate_tools ops dir tools env t1)"

section \<open>stages.go\<close>

record stage_entry =
  ste_key :: string
  ste_outputs :: string

record 't native_world =
  nw_tree :: 't
  nw_stages :: "string \<Rightarrow> stage_entry option"

text \<open>The cache of the executor, if it has one, as the failures of its writes.\<close>

record native =
  na_caches :: bool
  na_write_fails :: "string \<Rightarrow> bool"

definition stage_name :: "stage_kind \<Rightarrow> string" where
  "stage_name k = (case k of StagePreparation \<Rightarrow> ''preparation'' | StageBuild \<Rightarrow> ''build'')"

definition stage_inputs :: "request \<Rightarrow> preparation \<Rightarrow> snapshot_request" where
  "stage_inputs req stage = \<lparr>sq_root = rq_source req, sq_paths = pr_inputs stage, sq_excludes = pr_outputs stage,
     sq_outputs = False, sq_discovery = tg_discovery (pc_target (rq_check req)), sq_go_toolchain = False\<rparr>"

definition stage_outputs :: "request \<Rightarrow> preparation \<Rightarrow> snapshot_request" where
  "stage_outputs req stage = \<lparr>sq_root = rq_source req, sq_paths = pr_outputs stage, sq_excludes = [],
     sq_outputs = True, sq_discovery = '''', sq_go_toolchain = False\<rparr>"

definition stage_env :: "'t native_ops \<Rightarrow> request \<Rightarrow> preparation \<Rightarrow> string list" where
  "stage_env ops req stage = native_env (no_lookup_env ops) (req\<lparr>rq_rerun_checks := False\<rparr>) (pr_env stage)"

text \<open>The dependency a build's key includes: its check's preparation and the inputs of that.\<close>

definition stage_dependency :: "'t native_ops \<Rightarrow> request \<Rightarrow> stage_kind \<Rightarrow> 't \<Rightarrow> string + string" where
  "stage_dependency ops req kind t =
     (case (kind, pc_preparation (rq_check req)) of
        (StageBuild, Some p) \<Rightarrow>
          bind_result (no_snapshot ops (stage_inputs req p) t)
            (\<lambda>d. Inr (no_digest ops (JList [no_preparation_json ops p, JStr d])))
      | _ \<Rightarrow> Inr '''')"

definition stage_key_json ::
  "'t native_ops \<Rightarrow> request \<Rightarrow> stage_kind \<Rightarrow> preparation \<Rightarrow> string \<Rightarrow> string \<Rightarrow> string \<Rightarrow> json" where
  "stage_key_json ops req kind stage inputs impl dependency = JList
     [JStr (stage_name kind), JStr (rq_source req), JStr (tg_workspace (pc_target (rq_check req))),
      no_preparation_json ops stage, JStr inputs, JList (map JStr (stage_env ops req stage)),
      no_environment_json ops (pc_environment (rq_check req)), JStr (no_os ops), JStr (no_arch ops), JStr impl,
      JStr dependency]"

text \<open>The inputs of a stage and its key, or why it has none.\<close>

definition stage_key :: "'t native_ops \<Rightarrow> request \<Rightarrow> stage_kind \<Rightarrow> preparation \<Rightarrow> 't \<Rightarrow> string + string \<times> string" where
  "stage_key ops req kind stage t =
     (case no_snapshot ops (stage_inputs req stage) t of
        Inl e \<Rightarrow> Inl (''stage inputs: '' @ e)
      | Inr inputs \<Rightarrow>
          bind_result (no_implementation ops (req\<lparr>rq_rerun_checks := False\<rparr>) t) (\<lambda>impl.
          bind_result (stage_dependency ops req kind t) (\<lambda>dependency.
            Inr (inputs, no_digest ops (stage_key_json ops req kind stage inputs impl dependency)))))"

definition remembers :: "native \<Rightarrow> request \<Rightarrow> bool" where
  "remembers n req \<longleftrightarrow> na_caches n \<and> en_identity (pc_environment (rq_check req)) \<noteq> ''''"

definition outputs_present :: "'t native_ops \<Rightarrow> 't \<Rightarrow> string list \<Rightarrow> bool" where
  "outputs_present ops t paths \<longleftrightarrow>
     list_all (\<lambda>p. no_output_error ops t p = None \<and> (case no_contained ops t p of Inl _ \<Rightarrow> False | Inr _ \<Rightarrow> True)) paths"

definition reusable :: "'t native_ops \<Rightarrow> native \<Rightarrow> request \<Rightarrow> preparation \<Rightarrow> string \<Rightarrow> 't native_world \<Rightarrow> bool" where
  "reusable ops n req stage key w \<longleftrightarrow>
     (case (if remembers n req then nw_stages w key else None) of
        None \<Rightarrow> False
      | Some prior \<Rightarrow> ste_key prior = key \<and> outputs_present ops (nw_tree w) (pr_outputs stage) \<and>
          no_snapshot ops (stage_outputs req stage) (nw_tree w) = Inr (ste_outputs prior))"

definition stage_info :: "stage_kind \<Rightarrow> string \<Rightarrow> bool \<Rightarrow> int \<Rightarrow> stage_result" where
  "stage_info kind key reused ms = \<lparr>sr_kind = kind, sr_key = key, sr_reused = reused, sr_duration_ms = ms\<rparr>"

text \<open>\<open>workspace_dir\<close> is where a stage's tools and command run.\<close>

definition workspace_dir :: "request \<Rightarrow> string" where
  "workspace_dir req = path_join [rq_source req, tg_workspace (pc_target (rq_check req))]"

text \<open>A stage whose command passed: its outputs must be there, and are remembered when its inputs still are
  what the key was taken from.\<close>

definition finish_stage :: "'t native_ops \<Rightarrow> native \<Rightarrow> request \<Rightarrow> stage_kind \<Rightarrow> preparation \<Rightarrow> string \<Rightarrow> string \<Rightarrow> result \<Rightarrow>
    't native_world \<Rightarrow> (stage_result \<times> warning list \<times> result option) \<times> 't native_world" where
  "finish_stage ops n req kind stage inputs key r w =
     (let info = stage_info kind key False 0; t = nw_tree w
      in if \<not> outputs_present ops t (pr_outputs stage)
         then ((info, [], Some (with_outcome r StatusError (stage_name kind @ '' did not produce declared outputs''))), w)
         else (case no_snapshot ops (stage_outputs req stage) t of
                 Inl e \<Rightarrow> ((info, [], Some (with_outcome r StatusError e)), w)
               | Inr out \<Rightarrow>
                   ((stage_info kind key False (no_elapsed_ms ops), rs_warnings r, None),
                    if no_snapshot ops (stage_inputs req stage) t = Inr inputs \<and> remembers n req \<and> \<not> na_write_fails n key
                    then w\<lparr>nw_stages := (nw_stages w)(key \<mapsto> \<lparr>ste_key = key, ste_outputs = out\<rparr>)\<rparr> else w)))"

definition run_stage :: "'t native_ops \<Rightarrow> native \<Rightarrow> request \<Rightarrow> stage_kind \<Rightarrow> preparation \<Rightarrow> 't native_world \<Rightarrow>
    (stage_result \<times> warning list \<times> result option) \<times> 't native_world" where
  "run_stage ops n req kind stage w =
     (case stage_key ops req kind stage (nw_tree w) of
        Inl e \<Rightarrow> ((stage_info kind '''' False 0, [], Some (outcome StatusError e)), w)
      | Inr (inputs, key) \<Rightarrow>
          let info = stage_info kind key False 0; env = stage_env ops req stage; dir = workspace_dir req
          in if reusable ops n req stage key w then ((stage_info kind key True (no_elapsed_ms ops), [], None), w)
             else (case first_error (no_output_error ops (nw_tree w)) (pr_outputs stage) of
               Some e \<Rightarrow> ((info, [], Some (outcome StatusError e)), w)
             | None \<Rightarrow>
               (case validate_tools ops dir (en_tools (pc_environment (rq_check req))) env (nw_tree w) of
                  (Some failure, t1) \<Rightarrow> ((info, [], Some failure), w\<lparr>nw_tree := t1\<rparr>)
                | (None, t1) \<Rightarrow>
                  (case run_process ops dir (pr_command stage) env (pr_timeout stage) t1 of (r, t2) \<Rightarrow>
                     let w2 = w\<lparr>nw_tree := t2\<rparr>
                     in if rs_status r \<noteq> StatusPassed
                        then ((info, [], Some (with_outcome r (rs_status r) (stage_name kind @ '': '' @ rs_error r))), w2)
                        else finish_stage ops n req kind stage inputs key r w2))))"

section \<open>native.go\<close>

fun run_stages :: "'t native_ops \<Rightarrow> native \<Rightarrow> request \<Rightarrow> (stage_kind \<times> preparation) list \<Rightarrow> 't native_world \<Rightarrow>
    (stage_result list \<times> warning list \<times> result option) \<times> 't native_world" where
  "run_stages ops n req [] w = (([], [], None), w)"
| "run_stages ops n req ((kind, stage) # stages) w =
     (case run_stage ops n req kind stage w of
        ((first, noted, Some failure), w1) \<Rightarrow> (([first], noted, Some failure), w1)
      | ((first, noted, None), w1) \<Rightarrow>
          (case run_stages ops n req stages w1 of
             ((infos, more_noted, failure), w2) \<Rightarrow> ((first # infos, noted @ more_noted, failure), w2)))"

definition artifact_error :: "'t native_ops \<Rightarrow> 't \<Rightarrow> string \<Rightarrow> string option" where
  "artifact_error ops t path =
     (case no_contained ops t path of
        Inl e \<Rightarrow> Some (''required artifact '' @ go_quote path @ '': '' @ e)
      | Inr full \<Rightarrow> if no_regular ops t full then None
          else Some (''required artifact '' @ go_quote path @ '' must be a regular file''))"

definition command_args :: "request \<Rightarrow> command_check \<Rightarrow> string list" where
  "command_args req options =
     (if rq_rerun_checks req \<and> length (cc_rerun_args options) > 0 then cc_rerun_args options else cc_args options)"

definition run_command ::
  "'t native_ops \<Rightarrow> native \<Rightarrow> request \<Rightarrow> string \<Rightarrow> string list \<Rightarrow> 't native_world \<Rightarrow> result \<times> 't native_world" where
  "run_command ops n req dir env w =
     (case ck_command (pc_check (rq_check req)) of
        None \<Rightarrow> (outcome StatusError ''command check has no command options'', w)
      | Some options \<Rightarrow>
          (case run_stages ops n req (check_stages (rq_check req)) w of
             ((infos, noted, Some failure), w1) \<Rightarrow>
               (with_stages (failure\<lparr>rs_warnings := noted @ rs_warnings failure\<rparr>) infos, w1)
           | ((infos, noted, None), w1) \<Rightarrow>
               (case run_process ops dir (command_args req options) env (cc_timeout options) (nw_tree w1) of (r0, t) \<Rightarrow>
                  let r = (with_stages r0 infos)\<lparr>rs_warnings := noted @ rs_warnings r0\<rparr>; w2 = w1\<lparr>nw_tree := t\<rparr>
                  in if rs_status r = StatusPassed
                     then (case first_error (artifact_error ops t) (cc_artifacts options) of
                             Some e \<Rightarrow> (with_outcome r StatusError e, w2) | None \<Rightarrow> (r, w2))
                     else (r, w2))))"

text \<open>\<open>Native.Execute\<close>: \<open>execute_kind\<close> is what the kind's own execution does, \<open>run_command\<close> for a command.\<close>

definition native_execute ::
  "'t native_ops \<Rightarrow> (native_kind \<Rightarrow> request \<Rightarrow> string \<Rightarrow> string list \<Rightarrow> 't native_world \<Rightarrow> result \<times> 't native_world) \<Rightarrow>
     native \<Rightarrow> request \<Rightarrow> 't native_world \<Rightarrow> result \<times> 't native_world" where
  "native_execute ops execute_kind n req w =
     (let c = rq_check req
      in if no_os ops \<noteq> ''darwin'' \<and> no_os ops \<noteq> ''linux''
         then (outcome StatusError ''native execution currently supports macOS and Linux'', w)
         else (case native_kind_of (ck_kind (pc_check c)) of
             None \<Rightarrow> (outcome StatusError (''native executor runs '' @ native_kind_names @ '' checks, not '' @
                 go_quote (ck_kind (pc_check c))), w)
           | Some kind \<Rightarrow>
             (case no_contained ops (nw_tree w) (tg_dir (pc_target c)) of
                Inl e \<Rightarrow> (outcome StatusError e, w)
              | Inr dir \<Rightarrow>
                  let env = native_env (no_lookup_env ops) req (check_env (pc_check c)) in
                  (case validate_tools ops dir (en_tools (pc_environment c)) env (nw_tree w) of
                     (Some failure, t1) \<Rightarrow> (failure, w\<lparr>nw_tree := t1\<rparr>)
                   | (None, t1) \<Rightarrow>
                       if kind = CommandNative then run_command ops n req dir env (w\<lparr>nw_tree := t1\<rparr>)
                       else execute_kind kind req dir env (w\<lparr>nw_tree := t1\<rparr>)))))"

end
