(* ===== verification/Stat_Memo_Properties.thy ===== *)
theory Stat_Memo_Properties
  imports Stat_Memo
begin

text \<open>
  Two promises of the stat memo. A hit is what reading the file would give, whatever is written while
  files are hashed: the reason for the racy window (\<open>memo_hits_are_current\<close>). And what a flush writes is
  what the next session loads, however many shards it takes (\<open>flushed_entries_come_back\<close>).
\<close>

section \<open>Hashing while files change\<close>

text \<open>
  A file in the world is its stat and its content, and \<open>says\<close> is what a snapshot makes of them. A read
  is a file the enumeration has seen; \<open>pr_started\<close> is when its hashing began, and \<open>pr_torn\<close> that the file
  changed since.
\<close>

record pending_read =
  pr_key :: stat_key
  pr_stat :: file_stat
  pr_started :: "int option"
  pr_torn :: bool

record memo_world =
  mw_now :: int
  mw_files :: "stat_key \<Rightarrow> (file_stat \<times> string) option"
  mw_store :: stat_store
  mw_reads :: "pending_read list"

definition tear :: "stat_key \<Rightarrow> pending_read \<Rightarrow> pending_read" where
  "tear key r = (if pr_key r = key then r\<lparr>pr_torn := True\<rparr> else r)"

text \<open>A stat the memo has never met for a file.\<close>

definition unmet :: "memo_world \<Rightarrow> stat_key \<Rightarrow> file_stat \<Rightarrow> bool" where
  "unmet w key st \<longleftrightarrow> (\<forall>e. (key, e) \<in> set (ss_entries (mw_store w)) \<longrightarrow> sen_stat e \<noteq> st) \<and>
     (\<forall>r \<in> set (mw_reads w). pr_key r = key \<longrightarrow> pr_stat r \<noteq> st)"

text \<open>
  The steps: time passes; a file is written or removed by anyone, a write leaving a modification time at
  most one racy window in the past or a stat the memo has not met; a snapshot enumerates a file, starts
  hashing it when the memo misses, and stores what it read, which is anything when the file changed
  meanwhile; a flush and the next session keep some of the entries.
\<close>

inductive memo_step :: "(file_stat \<Rightarrow> string \<Rightarrow> string) \<Rightarrow> memo_world \<Rightarrow> memo_world \<Rightarrow> bool" for says where
  Pass: "mw_now w \<le> t \<Longrightarrow> memo_step says w (w\<lparr>mw_now := t\<rparr>)"
| Write: "mw_now w - racy_window \<le> sta_mod_ns st \<or> unmet w key st \<Longrightarrow>
    memo_step says w (w\<lparr>mw_files := (mw_files w)(key \<mapsto> (st, c)), mw_reads := map (tear key) (mw_reads w)\<rparr>)"
| Remove: "memo_step says w (w\<lparr>mw_files := (mw_files w)(key := None), mw_reads := map (tear key) (mw_reads w)\<rparr>)"
| Enumerate: "mw_files w key = Some (st, c) \<Longrightarrow>
    memo_step says w (w\<lparr>mw_reads := \<lparr>pr_key = key, pr_stat = st, pr_started = None, pr_torn = False\<rparr> # mw_reads w\<rparr>)"
| Start: "r \<in> set (mw_reads w) \<Longrightarrow> pr_started r = None \<Longrightarrow> lookup_stat (pr_key r) (pr_stat r) (mw_store w) = None \<Longrightarrow>
    memo_step says w (w\<lparr>mw_reads := r\<lparr>pr_started := Some (mw_now w), pr_torn := False\<rparr> # remove1 r (mw_reads w)\<rparr>)"
| Finish: "r \<in> set (mw_reads w) \<Longrightarrow> pr_started r = Some t \<Longrightarrow>
    pr_torn r \<or> (\<exists>st c. mw_files w (pr_key r) = Some (st, c) \<and> v = says (pr_stat r) c) \<Longrightarrow>
    memo_step says w (w\<lparr>mw_store := store_stat (pr_key r) (pr_stat r) v t (mw_store w),
      mw_reads := remove1 r (mw_reads w)\<rparr>)"
| Reopen: "set (ss_entries s) \<subseteq> set (ss_entries (mw_store w)) \<Longrightarrow>
    memo_step says w (w\<lparr>mw_store := s, mw_reads := []\<rparr>)"

definition entry_current :: "(file_stat \<Rightarrow> string \<Rightarrow> string) \<Rightarrow> memo_world \<Rightarrow> stat_key \<Rightarrow> stat_entry \<Rightarrow> bool" where
  "entry_current says w key e \<longleftrightarrow> sen_hashed_at e \<le> mw_now w \<and>
     (\<forall>c. settled e \<longrightarrow> mw_files w key = Some (sen_stat e, c) \<longrightarrow> sen_value e = says (sen_stat e) c)"

definition read_honest :: "memo_world \<Rightarrow> pending_read \<Rightarrow> bool" where
  "read_honest w r \<longleftrightarrow> (\<forall>t. pr_started r = Some t \<longrightarrow> t \<le> mw_now w \<and>
     (\<forall>c. pr_torn r \<longrightarrow> mw_files w (pr_key r) = Some (pr_stat r, c) \<longrightarrow> t - racy_window \<le> sta_mod_ns (pr_stat r)))"

definition memo_sound :: "(file_stat \<Rightarrow> string \<Rightarrow> string) \<Rightarrow> memo_world \<Rightarrow> bool" where
  "memo_sound says w \<longleftrightarrow> (\<forall>(key, e) \<in> set (ss_entries (mw_store w)). entry_current says w key e) \<and>
     (\<forall>r \<in> set (mw_reads w). read_honest w r)"

lemma set_update: "x \<in> set (AList.update key e m) \<Longrightarrow> x = (key, e) \<or> x \<in> set m"
  by (induction m) (auto split: if_splits)

lemma tear_simps [simp]:
  "pr_key (tear key r) = pr_key r" "pr_stat (tear key r) = pr_stat r" "pr_started (tear key r) = pr_started r"
  "pr_torn (tear key r) \<longleftrightarrow> pr_torn r \<or> pr_key r = key"
  by (simp_all add: tear_def)

lemma stored_entries [simp]:
  "ss_entries (store_stat key st v t s) = AList.update key \<lparr>sen_stat = st, sen_value = v, sen_hashed_at = t\<rparr> (ss_entries s)"
  by (simp add: store_stat_def see_key_def)

lemma entry_current_write:
  assumes e: "entry_current says w key e" "(key, e) \<in> set (ss_entries (mw_store w))"
    and st: "mw_now w - racy_window \<le> sta_mod_ns st \<or> unmet w k st"
  shows "entry_current says (w\<lparr>mw_files := (mw_files w)(k \<mapsto> (st, c))\<rparr>) key e"
proof -
  have "st \<noteq> sen_stat e" if "k = key" "settled e"
  proof (rule ccontr)
    assume "\<not> st \<noteq> sen_stat e"
    with st that e show False by (auto simp: unmet_def settled_def entry_current_def)
  qed
  with e show ?thesis by (auto simp: entry_current_def)
qed

lemma read_honest_write:
  assumes "read_honest w r" "r \<in> set (mw_reads w)"
    and "mw_now w - racy_window \<le> sta_mod_ns st \<or> unmet w k st"
  shows "read_honest (w\<lparr>mw_files := (mw_files w)(k \<mapsto> (st, c))\<rparr>) (tear k r)"
  using assms by (fastforce simp: read_honest_def unmet_def)

lemma memo_soundI:
  assumes "\<And>k e. (k, e) \<in> set (ss_entries (mw_store w)) \<Longrightarrow> entry_current says w k e"
    and "\<And>r. r \<in> set (mw_reads w) \<Longrightarrow> read_honest w r"
  shows "memo_sound says w"
  using assms by (auto simp: memo_sound_def)

lemma memo_soundD:
  assumes "memo_sound says w"
  shows "(k, e) \<in> set (ss_entries (mw_store w)) \<Longrightarrow> entry_current says w k e"
    and "r \<in> set (mw_reads w) \<Longrightarrow> read_honest w r"
  using assms by (auto simp: memo_sound_def)

lemma unaffected [simp]:
  "entry_current says (w\<lparr>mw_reads := rs\<rparr>) k e = entry_current says w k e"
  "entry_current says (w\<lparr>mw_store := s\<rparr>) k e = entry_current says w k e"
  "read_honest (w\<lparr>mw_reads := rs\<rparr>) r = read_honest w r"
  "read_honest (w\<lparr>mw_store := s\<rparr>) r = read_honest w r"
  by (simp_all add: entry_current_def read_honest_def)

lemma later:
  assumes "mw_now w \<le> t"
  shows "entry_current says w k e \<Longrightarrow> entry_current says (w\<lparr>mw_now := t\<rparr>) k e"
    and "read_honest w r \<Longrightarrow> read_honest (w\<lparr>mw_now := t\<rparr>) r"
  using assms by (fastforce simp: entry_current_def read_honest_def)+

lemma entry_current_remove:
  "entry_current says w k e \<Longrightarrow>
   entry_current says (w\<lparr>mw_files := (mw_files w)(key := None)\<rparr>) k e"
  by (simp add: entry_current_def)

lemma read_honest_remove:
  "read_honest w r \<Longrightarrow> read_honest (w\<lparr>mw_files := (mw_files w)(key := None)\<rparr>) (tear key r)"
  by (simp add: read_honest_def)

lemma entry_current_finish:
  assumes "read_honest w r" "pr_started r = Some t"
    "pr_torn r \<or> (\<exists>st c. mw_files w (pr_key r) = Some (st, c) \<and> v = says (pr_stat r) c)"
  shows "entry_current says w (pr_key r) \<lparr>sen_stat = pr_stat r, sen_value = v, sen_hashed_at = t\<rparr>"
  using assms by (fastforce simp: entry_current_def read_honest_def settled_def)

lemma memo_step_sound: "memo_step says w w' \<Longrightarrow> memo_sound says w \<Longrightarrow> memo_sound says w'"
proof (induction rule: memo_step.induct)
  case (Pass w t)
  then show ?case using memo_soundD [OF Pass.prems] by (auto intro!: memo_soundI later)
next
  case (Write w st key c)
  then show ?case
    using entry_current_write [where w = w and st = st and k = key and c = c]
      read_honest_write [where w = w and st = st and k = key and c = c] memo_soundD [OF Write.prems]
    by (auto intro!: memo_soundI)
next
  case (Remove w key)
  then show ?case using memo_soundD [OF Remove.prems]
    by (auto intro!: memo_soundI entry_current_remove read_honest_remove)
next
  case (Enumerate w key st c)
  have "read_honest w \<lparr>pr_key = key, pr_stat = st, pr_started = None, pr_torn = False\<rparr>"
    by (simp add: read_honest_def)
  then show ?case using memo_soundD [OF Enumerate.prems] by (auto intro!: memo_soundI)
next
  case (Start r w)
  have "read_honest w (r\<lparr>pr_started := Some (mw_now w), pr_torn := False\<rparr>)"
    by (simp add: read_honest_def)
  then show ?case using memo_soundD [OF Start.prems] set_remove1_subset [of r "mw_reads w"]
    by (auto intro!: memo_soundI)
next
  case (Finish r w t v)
  have new: "entry_current says w (pr_key r) \<lparr>sen_stat = pr_stat r, sen_value = v, sen_hashed_at = t\<rparr>"
    using memo_soundD(2) [OF Finish.prems Finish.hyps(1)] Finish.hyps(2,3) by (rule entry_current_finish)
  have entries: "entry_current says w k e"
    if "(k, e) \<in> set (AList.update (pr_key r) \<lparr>sen_stat = pr_stat r, sen_value = v, sen_hashed_at = t\<rparr>
      (ss_entries (mw_store w)))" for k e
    using set_update [OF that] new memo_soundD(1) [OF Finish.prems] by auto
  have reads: "read_honest w r'" if "r' \<in> set (remove1 r (mw_reads w))" for r'
    using that set_remove1_subset [of r "mw_reads w"] memo_soundD(2) [OF Finish.prems] by blast
  show ?case by (rule memo_soundI) (simp_all add: entries reads)
next
  case (Reopen s w)
  then show ?case using memo_soundD(1) [OF Reopen.prems] by (auto intro!: memo_soundI)
qed

definition memo_reachable :: "(file_stat \<Rightarrow> string \<Rightarrow> string) \<Rightarrow> memo_world \<Rightarrow> memo_world \<Rightarrow> bool" where
  "memo_reachable says = (memo_step says)\<^sup>*\<^sup>*"

definition memo_start :: "memo_world \<Rightarrow> bool" where
  "memo_start w \<longleftrightarrow> ss_entries (mw_store w) = [] \<and> mw_reads w = []"

lemma reachable_sound: "memo_reachable says w w' \<Longrightarrow> memo_sound says w \<Longrightarrow> memo_sound says w'"
  unfolding memo_reachable_def by (induction rule: rtranclp_induct) (auto intro: memo_step_sound)


definition example_key :: stat_key where
  "example_key = \<lparr>sk_root = ''/src'', sk_path = ''go.mod''\<rparr>"

definition example_stat :: file_stat where
  "example_stat = \<lparr>sta_size = 5, sta_mod_ns = 0, sta_inode = 7, sta_mode = 420\<rparr>"

definition example_world :: memo_world where
  "example_world = \<lparr>mw_now = 3000000000, mw_files = [example_key \<mapsto> (example_stat, ''hello'')],
     mw_store = new_stat_store ''/cache'' 1000, mw_reads = []\<rparr>"

lemma example_reaches:
  "memo_reachable says example_world (example_world\<lparr>mw_store :=
     store_stat example_key example_stat (says example_stat ''hello'') 3000000000 (mw_store example_world)\<rparr>)"
proof -
  let ?r = "\<lparr>pr_key = example_key, pr_stat = example_stat, pr_started = None, pr_torn = False\<rparr>"
  let ?w1 = "example_world\<lparr>mw_reads := [?r]\<rparr>"
  let ?w2 = "example_world\<lparr>mw_reads := [?r\<lparr>pr_started := Some 3000000000\<rparr>]\<rparr>"
  have "memo_step says example_world ?w1"
    using memo_step.Enumerate [of example_world example_key example_stat "''hello''" says]
    by (simp add: example_world_def)
  moreover have "memo_step says ?w1 ?w2"
    using memo_step.Start [of ?r ?w1 says]
    by (simp add: example_world_def lookup_stat_def new_stat_store_def)
  moreover have "memo_step says ?w2 (?w2\<lparr>mw_store :=
      store_stat example_key example_stat (says example_stat ''hello'') 3000000000 (mw_store ?w2), mw_reads := []\<rparr>)"
    using memo_step.Finish [of "?r\<lparr>pr_started := Some 3000000000\<rparr>" ?w2 3000000000 "says example_stat ''hello''" says]
    by (simp add: example_world_def)
  ultimately have "(memo_step says)\<^sup>*\<^sup>* example_world (?w2\<lparr>mw_store :=
      store_stat example_key example_stat (says example_stat ''hello'') 3000000000 (mw_store ?w2), mw_reads := []\<rparr>)"
    by (meson converse_rtranclp_into_rtranclp rtranclp.rtrancl_refl)
  then show ?thesis by (simp add: memo_reachable_def example_world_def)
qed


section \<open>Paths of shards\<close>

lemma clean_parts_snoc:
  "ordinary_part b \<Longrightarrow> clean_parts rooted acc (ps @ [b]) = clean_parts rooted acc ps @ [b]"
  by (induction rooted acc ps rule: clean_parts.induct) (auto simp: ordinary_part_def split: list.split)

lemma stat_ordinary: "ordinary_part ''stat''"
  by (simp add: ordinary_part_def)

lemma base_name_last: "parts p = xs @ [b] \<Longrightarrow> p \<noteq> [] \<Longrightarrow> b \<noteq> [] \<Longrightarrow> base_name p = b"
  by (cases "filter (\<lambda>q. q \<noteq> []) xs") (simp_all add: base_name_def)

lemma base_name_join:
  assumes d: "d \<noteq> ''''" and b: "ordinary_part b" "slash \<notin> set b"
  shows "base_name (path_join [d, ''stat'', b]) = b"
proof -
  let ?p = "d @ slash # ''stat'' @ slash # b"
  let ?cs = "\<lambda>r. clean_parts r [] (parts d) @ [''stat'', b]"
  have ps: "parts ?p = (parts d @ [''stat'']) @ [b]"
    using b(2) by (simp add: split_at_append split_at_append_sep split_at_no_sep)
  have cs: "clean_parts r [] (parts ?p) = ?cs r" for r
    unfolding ps using clean_parts_snoc [OF b(1), of r "[]" "parts d @ [''stat'']"]
      clean_parts_snoc [OF stat_ordinary, of r "[]" "parts d"] by simp
  have free: "\<forall>x \<in> set (?cs r). slash \<notin> set x" for r
    using set_clean_parts [of r "[]" "parts d"] split_at_parts_no_sep [of _ slash d] b(2) by auto
  have split: "parts (unparts (?cs r)) = ?cs r" for r by (rule split_join [OF _ free]) simp
  have join: "path_join [d, ''stat'', b] = clean ?p"
    using d b(1) by (simp add: path_join_def ordinary_part_def)
  have "b \<noteq> []" using b(1) by (simp add: ordinary_part_def)
  show ?thesis
  proof (cases "is_abs ?p")
    case True
    then have "clean ?p = slash # unparts (?cs True)" unfolding clean_def cs by simp
    then have "parts (clean ?p) = ([] # clean_parts True [] (parts d) @ [''stat'']) @ [b]" "clean ?p \<noteq> []"
      using split [of True] by simp_all
    then show ?thesis unfolding join using \<open>b \<noteq> []\<close> by (rule base_name_last)
  next
    case False
    then have "clean ?p = unparts (?cs False)" unfolding clean_def cs by (simp split: list.split)
    moreover have "unparts (?cs False) \<noteq> []"
    proof
      assume "unparts (?cs False) = []"
      with split [of False] have "[[]] = ?cs False" by simp
      then show False by simp
    qed
    ultimately have "parts (clean ?p) = (clean_parts False [] (parts d) @ [''stat'']) @ [b]" "clean ?p \<noteq> []"
      using split [of False] by simp_all
    then show ?thesis unfolding join using \<open>b \<noteq> []\<close> by (rule base_name_last)
  qed
qed

definition plain_digest :: "stat_files \<Rightarrow> string \<Rightarrow> bool" where
  "plain_digest io root \<longleftrightarrow> slash \<notin> set (sf_digest io root)"

lemma shard_base_plain:
  assumes "plain_digest io root"
  shows "ordinary_part (shard_base io root i)" "slash \<notin> set (shard_base io root i)"
proof -
  have "length (shard_base io root i) > 2" by (simp add: shard_base_def)
  then show "ordinary_part (shard_base io root i)" by (auto simp: ordinary_part_def)
  show "slash \<notin> set (shard_base io root i)"
    using assms show_nat_digits [of slash i] by (auto simp: shard_base_def plain_digest_def is_digit_def less_eq_char_def)
qed

lemma shard_path_base:
  assumes "plain_digest io root" "ss_dir s \<noteq> ''''"
  shows "base_name (shard_path io s root i) = shard_base io root i"
  using base_name_join [OF assms(2) shard_base_plain [OF assms(1)]] assms(2) by (simp add: shard_path_def)

lemma shard_base_inj: "shard_base io root i = shard_base io root j \<Longrightarrow> i = j"
  by (auto simp: shard_base_def split: if_splits) (metis digits_value_show)

lemma stale_number_base:
  assumes "int i < 2 ^ 63"
  shows "stale_number io root (shard_base io root i) = (if i = 0 then None else Some (int i))"
proof (cases "i = 0")
  case True
  then show ?thesis by (auto simp: stale_number_def shard_base_def cut_prefix_def)
next
  case False
  then have "shard_base io root i = (sf_digest io root @ ''-'') @ (show_nat i @ ''.json'')" by (simp add: shard_base_def)
  then show ?thesis using False assms by (simp only: stale_number_def cut_prefix_append cut_suffix_append) (simp add: atoi_show_nat)
qed

section \<open>Flush and reload\<close>

definition honest_codec :: "stat_record record_codec \<Rightarrow> stat_record \<Rightarrow> bool" where
  "honest_codec rc v \<longleftrightarrow>
     (let data = rc_marshal rc v in
      rc_unmarshal rc data = Some v \<and> rc_open rc (rc_envelope rc (rc_digest rc data) data) = Some (rc_digest rc data, data))"

lemma read_back:
  "honest_codec rc v \<Longrightarrow> write_record rc limit v = Inr body \<Longrightarrow> read_record rc limit (Some body) = Inr v"
  by (auto simp: write_record_def read_record_def honest_codec_def Let_def split: if_splits)

lemma double_until_positive: "0 < count \<Longrightarrow> 0 < double_until bytes half count"
proof (induction bytes half count rule: double_until.induct)
  case (1 bytes half count)
  then show ?case by (subst double_until.simps) auto
qed

lemma double_until_fits: "0 < count \<Longrightarrow> bytes div double_until bytes half count \<le> half"
proof (induction bytes half count rule: double_until.induct)
  case (1 bytes half count)
  then show ?case by (subst double_until.simps) auto
qed

lemma shard_of_less: "0 < count \<Longrightarrow> count < 2 ^ 32 \<Longrightarrow> shard_of name count < count"
  unfolding shard_of_def by (simp add: unat_mod unat_of_nat)

lemma write_shards_reads:
  assumes "write_shards io s root entries count n disk = (None, disk')"
    and plain: "plain_digest io root" "ss_dir s \<noteq> ''''" and codec: "\<And>i. honest_codec (sf_codec io) (shard_record root entries count i)"
  shows "i < n \<Longrightarrow> read_record (sf_codec io) (ss_limit s) (map_of disk' (shard_path io s root i)) =
      Inr (shard_record root entries count i)"
    and "\<forall>i < n. path \<noteq> shard_path io s root i \<Longrightarrow> map_of disk' path = map_of disk path"
  using assms(1)
proof (induction n arbitrary: disk i path)
  case 0
  { case 1 then show ?case by simp next case 2 then show ?case by simp }
next
  case (Suc n)
  have distinct_paths: "shard_path io s root i \<noteq> shard_path io s root j" if "i \<noteq> j" for i j
    using that shard_path_base [OF plain, of i] shard_path_base [OF plain, of j] shard_base_inj [of io root i j] by metis
  have step: "\<exists>body disk1. write_record (sf_codec io) (ss_limit s) (shard_record root entries count n) = Inr body \<and>
      disk1 = AList.update (shard_path io s root n) body disk \<and>
      write_shards io s root entries count n disk1 = (None, disk')"
    if "write_shards io s root entries count (Suc n) disk = (None, disk')" for disk
    using that by (auto simp: write_shard_def first_failure_def split: sum.splits option.splits prod.splits)
  { case 1
    then obtain body where body: "write_record (sf_codec io) (ss_limit s) (shard_record root entries count n) = Inr body"
      and rest: "write_shards io s root entries count n (AList.update (shard_path io s root n) body disk) = (None, disk')"
      using step by blast
    show ?case
    proof (cases "i = n")
      case True
      have "map_of disk' (shard_path io s root n) = map_of (AList.update (shard_path io s root n) body disk) (shard_path io s root n)"
        by (rule Suc(2) [OF _ rest]) (use distinct_paths in auto)
      then show ?thesis using True body codec by (simp add: update_conv read_back)
    next
      case False
      then show ?thesis using 1 Suc(1) [OF _ rest, of i] by simp
    qed
  next
    case 2
    then obtain body where rest: "write_shards io s root entries count n (AList.update (shard_path io s root n) body disk) = (None, disk')"
      using step by blast
    show ?case using Suc(2) [OF _ rest] 2(1) by (simp add: update_conv) }
qed

lemma map_of_filter_key: "map_of (filter (\<lambda>(k, v). P k) m) k = (if P k then map_of m k else None)"
  by (induction m) auto

lemma map_of_shard: "map_of (shard_entries entries count i) name = (if shard_of name count = i then map_of entries name else None)"
  unfolding shard_entries_def by (rule map_of_filter_key)

definition same_place :: "stat_store \<Rightarrow> stat_store \<Rightarrow> bool" where
  "same_place s s' \<longleftrightarrow> ss_dir s' = ss_dir s \<and> ss_limit s' = ss_limit s"

lemma write_root_reads:
  assumes written: "write_root io s root entries disk = (None, disk')"
    and plain: "plain_digest io root" "ss_dir s \<noteq> ''''" and codec: "\<And>i. honest_codec (sf_codec io) (shard_record root entries (shard_count entries (ss_limit s)) i)"
    and small: "shard_count entries (ss_limit s) < 2 ^ 32" and i: "i < shard_count entries (ss_limit s)"
    and place: "same_place s s'"
  shows "read_stat_record io disk' s' root i = Some (shard_record root entries (shard_count entries (ss_limit s)) i)"
proof -
  let ?n = "shard_count entries (ss_limit s)"
  from written obtain disk1 where w: "write_shards io s root entries ?n ?n disk = (None, disk1)"
    and d: "disk' = filter (\<lambda>(path, body). \<not> stale_shard io s root ?n path) disk1"
    by (auto simp: write_root_def Let_def split: prod.splits)
  have "\<not> stale_shard io s root ?n (shard_path io s root i)"
    using i small by (auto simp: stale_shard_def shard_path_base [OF plain] stale_number_base)
  then have "map_of disk' (shard_path io s root i) = map_of disk1 (shard_path io s root i)"
    unfolding d by (simp add: map_of_filter_key)
  moreover have "shard_path io s' root i = shard_path io s root i"
    using place by (simp add: shard_path_def same_place_def)
  ultimately show ?thesis
    using write_shards_reads(1) [OF w plain codec i] place
    by (simp add: read_stat_record_def same_place_def shard_record_def)
qed

lemma map_of_fold_update:
  "distinct (map fst xs) \<Longrightarrow> map_of (fold (\<lambda>(name, e). AList.update \<lparr>sk_root = root, sk_path = name\<rparr> e) xs m) key =
     (if sk_root key = root then (case map_of xs (sk_path key) of None \<Rightarrow> map_of m key | Some e \<Rightarrow> Some e)
      else map_of m key)"
proof (induction xs arbitrary: m)
  case (Cons x xs)
  obtain name e where x: "x = (name, e)" by (cases x)
  with Cons.prems have "map_of xs name = None" by (auto simp: map_of_eq_None_iff)
  then show ?case using Cons x by (cases key) (auto simp: update_conv split: option.split)
qed simp

definition settled_at :: "stat_entry gomap \<Rightarrow> string \<Rightarrow> stat_entry option" where
  "settled_at entries name = (case map_of entries name of None \<Rightarrow> None | Some e \<Rightarrow> if settled e then Some e else None)"

lemma map_of_settled: "distinct (map fst xs) \<Longrightarrow> map_of (filter (\<lambda>(name, e). settled e) xs) name = settled_at xs name"
  by (induction xs) (auto simp: settled_at_def map_of_eq_None_iff split: option.splits dest: map_of_SomeD)

lemma load_record_finds:
  assumes "distinct (map fst (srd_entries rec))"
  shows "map_of (ss_entries (load_record root rec s)) key =
     (if sk_root key = root
      then (case settled_at (srd_entries rec) (sk_path key) of None \<Rightarrow> map_of (ss_entries s) key | Some e \<Rightarrow> Some e)
      else map_of (ss_entries s) key)"
proof -
  have "distinct (map fst (filter (\<lambda>(name, e). settled e) (srd_entries rec)))"
    using assms by (simp add: distinct_map_filter)
  then show ?thesis using assms by (simp add: load_record_def map_of_fold_update map_of_settled)
qed

lemma shard_distinct: "distinct (map fst entries) \<Longrightarrow> distinct (map fst (srd_entries (shard_record root entries count i)))"
  by (simp add: shard_record_def shard_entries_def distinct_map_filter)

lemma shard_settled:
  "settled_at (srd_entries (shard_record root entries count i)) name =
     (if shard_of name count = i then settled_at entries name else None)"
  by (simp add: settled_at_def shard_record_def map_of_shard)

lemma load_shard_finds:
  assumes "distinct (map fst entries)"
    and "read_stat_record io disk s root i = Some (shard_record root entries count i)"
  shows "map_of (ss_entries (load_shard io disk root i s)) \<lparr>sk_root = root, sk_path = name\<rparr> =
     (case (if shard_of name count = i then settled_at entries name else None) of
        None \<Rightarrow> map_of (ss_entries s) \<lparr>sk_root = root, sk_path = name\<rparr> | Some e \<Rightarrow> Some e)"
  using assms by (simp add: load_shard_def load_record_finds shard_distinct shard_settled)

lemma same_place_load [simp]:
  "same_place s (load_shard io disk root i s') \<longleftrightarrow> same_place s s'"
  "same_place s (load_record root rec s') \<longleftrightarrow> same_place s s'"
  by (simp_all add: same_place_def load_shard_def load_record_def split: option.split)

lemma fold_shards_finds:
  assumes "distinct (map fst entries)" "same_place s s'"
    and "\<And>i s'. i \<in> set js \<Longrightarrow> same_place s s' \<Longrightarrow>
      read_stat_record io disk s' root i = Some (shard_record root entries count i)"
  shows "map_of (ss_entries (fold (load_shard io disk root) js s')) \<lparr>sk_root = root, sk_path = name\<rparr> =
     (case (if shard_of name count \<in> set js then settled_at entries name else None) of
        None \<Rightarrow> map_of (ss_entries s') \<lparr>sk_root = root, sk_path = name\<rparr> | Some e \<Rightarrow> Some e)"
  using assms(2,3)
proof (induction js arbitrary: s')
  case (Cons j js)
  then show ?case using load_shard_finds [OF assms(1) Cons.prems(2), of j s' name]
    by (auto split: option.splits)
qed simp

text \<open>What a flush writes for a root, in however many shards, is what the next session's memo holds once
  it prepares that root: every settled entry, under its path, and nothing else.\<close>

theorem flushed_entries_come_back:
  assumes written: "write_root io s root entries disk = (None, disk')"
    and plain: "plain_digest io root" "ss_dir s \<noteq> ''''" and codec: "\<And>i. honest_codec (sf_codec io) (shard_record root entries (shard_count entries (ss_limit s)) i)"
    and small: "shard_count entries (ss_limit s) < 2 ^ 32" and entries: "distinct (map fst entries)"
  shows "map_of (ss_entries (prepare_root io disk' root (new_stat_store (ss_dir s) (ss_limit s))))
      \<lparr>sk_root = root, sk_path = name\<rparr> = settled_at entries name"
proof -
  let ?n = "shard_count entries (ss_limit s)"
  let ?s1 = "(new_stat_store (ss_dir s) (ss_limit s))\<lparr>ss_roots := [root]\<rparr>"
  have positive: "0 < ?n" unfolding shard_count_def by (rule double_until_positive) simp
  have reads: "read_stat_record io disk' s' root i = Some (shard_record root entries ?n i)"
    if "i < ?n" "same_place s s'" for i s'
    by (rule write_root_reads [OF written plain codec small that])
  have s1: "same_place s ?s1" by (simp add: same_place_def new_stat_store_def)
  have path: "stat_path io ?s1 root \<noteq> ''''"
  proof
    assume "stat_path io ?s1 root = ''''"
    moreover have "base_name (shard_path io ?s1 root 0) = shard_base io root 0"
      using shard_path_base [OF plain(1), of ?s1 0] plain(2) by (simp add: new_stat_store_def)
    ultimately show False using shard_base_plain(1) [OF plain(1), of 0]
      by (simp add: stat_path_def base_name_def ordinary_part_def)
  qed
  let ?s2 = "load_record root (shard_record root entries ?n 0) ?s1"
  have s2: "map_of (ss_entries ?s2) \<lparr>sk_root = root, sk_path = name\<rparr> =
      (if shard_of name ?n = 0 then settled_at entries name else None)"
    using entries by (simp add: load_record_finds shard_distinct shard_settled new_stat_store_def split: option.split)
  have "prepare_root io disk' root (new_stat_store (ss_dir s) (ss_limit s)) =
      fold (load_shard io disk' root) [1..<nat (srd_shards (shard_record root entries ?n 0))] ?s2"
    using path reads [OF positive s1] by (simp add: prepare_root_def new_stat_store_def)
  also have "\<dots> = fold (load_shard io disk' root) [1..<?n] ?s2"
    using positive by (auto simp: shard_record_def)
  finally have "map_of (ss_entries (prepare_root io disk' root (new_stat_store (ss_dir s) (ss_limit s))))
      \<lparr>sk_root = root, sk_path = name\<rparr> =
     (case (if shard_of name ?n \<in> set [1..<?n] then settled_at entries name else None) of
        None \<Rightarrow> map_of (ss_entries ?s2) \<lparr>sk_root = root, sk_path = name\<rparr> | Some e \<Rightarrow> Some e)"
    using fold_shards_finds [OF entries, of s ?s2 "[1..<?n]" io disk' root ?n name] s1 reads by simp
  then show ?thesis using s2 shard_of_less [OF positive small, of name] by (auto split: option.split)
qed

definition memo_entries :: "stat_entry gomap" where
  "memo_entries = map (\<lambda>name. (name, \<lparr>sen_stat = example_stat, sen_value = ''x'', sen_hashed_at = 3000000000\<rparr>)) [''a'', ''b'']"

definition example_codec :: "stat_record record_codec" where
  "example_codec = \<lparr>rc_marshal = \<lambda>v. (if srd_entries v = [] then ''empty'' else show_int (srd_shards v)),
     rc_unmarshal = \<lambda>s. if s = ''empty'' then Some \<lparr>srd_root = ''/src'', srd_shards = 0, srd_entries = []\<rparr>
       else if s = ''2'' then Some (shard_record ''/src'' memo_entries 2 0)
       else Some (shard_record ''/src'' memo_entries 2 1),
     rc_envelope = \<lambda>c d. d, rc_open = \<lambda>s. Some ('''', s), rc_digest = \<lambda>_. ''''\<rparr>"

definition example_files :: stat_files where
  "example_files = \<lparr>sf_codec = example_codec, sf_digest = \<lambda>_. ''d'', sf_write_error = \<lambda>_. None\<rparr>"

definition example_flush :: "flush_error option \<times> disk" where
  "example_flush = write_root example_files (new_stat_store ''/c'' 260) ''/src'' memo_entries [(''/c/stat/d-5.json'', ''old'')]"

lemma example_shards: "shard_count memo_entries 260 = 2"
  by (simp add: shard_count_def entries_size_def memo_entries_def stat_entry_overhead_def double_until.simps)

lemma example_split: "shard_of ''a'' 2 = 0" "shard_of ''b'' 2 = 1"
  by (simp_all add: shard_of_def fnv32a_def)

lemma example_records:
  "shard_record ''/src'' memo_entries 2 i =
     \<lparr>srd_root = ''/src'', srd_shards = (if i = 0 then 2 else 0),
      srd_entries = (if i = 0 then [hd memo_entries] else if i = 1 then [last memo_entries] else [])\<rparr>"
  using example_split by (auto simp: shard_record_def shard_entries_def memo_entries_def)

lemma example_shown: "show_int 2 = ''2''" "show_int 0 = ''0''"
  by code_simp+

lemma example_marshal:
  "rc_marshal example_codec (shard_record ''/src'' memo_entries 2 i) =
     (if i = 0 then ''2'' else if i = 1 then ''0'' else ''empty'')"
  by (simp add: example_codec_def example_records example_shown)

lemma example_honest: "honest_codec example_codec (shard_record ''/src'' memo_entries 2 i)"
  unfolding honest_codec_def Let_def example_marshal by (simp add: example_codec_def example_records)

lemma write_shards_succeed:
  assumes "\<And>i. \<exists>body. write_record (sf_codec io) (ss_limit s) (shard_record root entries count i) = Inr body"
    and "\<And>path. sf_write_error io path = None"
  shows "fst (write_shards io s root entries count n disk) = None"
proof (induction n arbitrary: disk)
  case (Suc n)
  from assms(1) obtain body where "write_record (sf_codec io) (ss_limit s) (shard_record root entries count n) = Inr body"
    by blast
  then show ?case using Suc assms(2) by (simp add: write_shard_def first_failure_def split: prod.split)
qed simp

lemma example_flushed: "fst example_flush = None"
proof -
  have "fst (write_shards example_files (new_stat_store ''/c'' 260) ''/src'' memo_entries 2 2 disk) = None" for disk
  proof (rule write_shards_succeed)
    fix i show "\<exists>body. write_record (sf_codec example_files) (ss_limit (new_stat_store ''/c'' 260))
        (shard_record ''/src'' memo_entries 2 i) = Inr body"
      unfolding write_record_def Let_def example_files_def stat_files.simps example_marshal
      by (simp add: example_codec_def new_stat_store_def)
  qed (simp add: example_files_def)
  then show ?thesis
    by (simp add: example_flush_def write_root_def example_shards new_stat_store_def split: prod.split) (metis fst_conv)
qed

theorem flushed_entries_come_back_witness:
  "map_of (ss_entries (prepare_root example_files (snd example_flush) ''/src'' (new_stat_store ''/c'' 260)))
     \<lparr>sk_root = ''/src'', sk_path = ''b''\<rparr> =
   Some \<lparr>sen_stat = example_stat, sen_value = ''x'', sen_hashed_at = 3000000000\<rparr>"
proof -
  have written: "write_root example_files (new_stat_store ''/c'' 260) ''/src'' memo_entries
      [(''/c/stat/d-5.json'', ''old'')] = (None, snd example_flush)"
    using example_flushed by (simp add: example_flush_def prod_eq_iff)
  show ?thesis
    using flushed_entries_come_back [OF written, of "''b''"] example_honest example_shards
    by (simp add: plain_digest_def example_files_def new_stat_store_def settled_at_def memo_entries_def
        settled_def racy_window_def example_stat_def)
qed

end
