(* ===== verification/Fingerprint_Properties.thy ===== *)
theory Fingerprint_Properties
  imports Fingerprints Stat_Memo_Properties "HOL-Library.Countable"
begin

text \<open>
  What a fingerprint is good for: a native command sees of the host's environment only what the check
  names, a snapshot taken through an honest memo is the one taken without it, and two requests with one
  fingerprint agree on the check and on every file of the source it covers.
\<close>

section \<open>The environment\<close>

lemma map_of_copy_map: "map_of (copy_map from into) k = (case map_of from k of None \<Rightarrow> map_of into k | Some v \<Rightarrow> Some v)"
  unfolding copy_map_def by (induction "from") (auto simp: update_conv split: option.split)

lemma map_of_copy_host:
  "map_of (copy_host lookup_env keys into) k =
     (if k \<in> set keys \<and> lookup_env k \<noteq> None then lookup_env k else map_of into k)"
  unfolding copy_host_def by (induction keys arbitrary: into) (auto simp: update_conv split: option.split)

definition reserved_values :: "request \<Rightarrow> string gomap" where
  "reserved_values req =
     [(''LEVENSHTEIN_RERUN_CHECKS'', show_bool (rq_rerun_checks req)),
      (''LEVENSHTEIN_WORKSPACE'', path_join [rq_source req, tg_workspace (pc_target (rq_check req))]),
      (''LEVENSHTEIN_SOURCE'', rq_source req)]"

text \<open>The order in which the sources of a variable win.\<close>

definition declared_value :: "(string \<Rightarrow> string option) \<Rightarrow> request \<Rightarrow> string gomap \<Rightarrow> string \<Rightarrow> string option" where
  "declared_value lookup_env req extra k =
     (case map_of (reserved_values req @ extra @ en_env (pc_environment (rq_check req))) k of
        Some v \<Rightarrow> Some v
      | None \<Rightarrow>
          if k \<in> set (en_pass_env (pc_environment (rq_check req))) \<and> lookup_env k \<noteq> None then lookup_env k
          else if k = ''LANG'' then Some ''C''
          else if k \<in> set host_keys then lookup_env k else None)"

lemma native_values_declared: "map_of (native_values lookup_env req extra) k = declared_value lookup_env req extra k"
  by (auto simp: native_values_def declared_value_def reserved_values_def update_conv map_of_copy_map
      map_of_copy_host map_add_def Let_def split: option.split)

lemma sorted_keys_dom: "set (sorted_keys m) = dom (map_of m)"
  by (simp add: dom_map_of_conv_image_fst)

lemma keys_of_map: "map_of m = map_of m' \<Longrightarrow> sorted_keys m = sorted_keys m'"
proof -
  assume "map_of m = map_of m'"
  then have "set (sorted_keys m) = set (sorted_keys m')" by (simp only: sorted_keys_dom)
  then show ?thesis
    by (rule sorted_distinct_set_unique [OF sorted_sorted_keys distinct_sorted_keys sorted_sorted_keys distinct_sorted_keys])
qed

lemma host_choice:
  assumes "p \<or> h \<Longrightarrow> x = y"
  shows "(if p \<and> x \<noteq> None then x else if l then c else if h then x else None) =
     (if p \<and> y \<noteq> None then y else if l then c else if h then y else None)"
  using assms by (cases p; cases h) auto

text \<open>A native command runs in an environment the check decides: apart from a fixed list of host
  variables, changing any variable the environment does not pass changes nothing.\<close>

theorem environment_is_pinned:
  assumes "\<And>k. k \<in> set (host_keys @ en_pass_env (pc_environment (rq_check req))) \<Longrightarrow> lookup_env k = lookup_env' k"
  shows "native_env lookup_env req extra = native_env lookup_env' req extra"
proof -
  have "map_of (native_values lookup_env req extra) k = map_of (native_values lookup_env' req extra) k" for k
  proof -
    let ?passed = "set (en_pass_env (pc_environment (rq_check req)))"
    have "lookup_env k = lookup_env' k" if "k \<in> ?passed \<or> k \<in> set host_keys"
      using assms [of k] that by (simp only: set_append Un_iff) blast
    then have "k \<in> ?passed \<or> k \<in> set host_keys \<Longrightarrow> lookup_env k = lookup_env' k" .
    then have "(if k \<in> ?passed \<and> lookup_env k \<noteq> None then lookup_env k
        else if k = ''LANG'' then Some ''C'' else if k \<in> set host_keys then lookup_env k else None) =
      (if k \<in> ?passed \<and> lookup_env' k \<noteq> None then lookup_env' k
        else if k = ''LANG'' then Some ''C'' else if k \<in> set host_keys then lookup_env' k else None)"
      by (rule host_choice)
    then show ?thesis by (simp only: native_values_declared declared_value_def)
  qed
  then have same: "map_of (native_values lookup_env req extra) = map_of (native_values lookup_env' req extra)" ..
  then show ?thesis using keys_of_map [OF same] by (simp add: native_env_def Let_def)
qed

section \<open>Snapshots through the memo\<close>

definition file_key :: "string \<Rightarrow> hash_target \<Rightarrow> stat_key" where
  "file_key root f = \<lparr>sk_root = root, sk_path = ht_path f\<rparr>"

definition hits_honest ::
  "(string \<Rightarrow> string) \<Rightarrow> (stat_key \<Rightarrow> file_stat) \<Rightarrow> (stat_key \<Rightarrow> string) \<Rightarrow> stat_store \<Rightarrow> bool" where
  "hits_honest sha stat_now content s \<longleftrightarrow>
     (\<forall>key v. lookup_stat key (stat_now key) s = Some v \<longrightarrow> v = file_says sha (stat_now key) (content key))"

lemma hits_see [simp]: "lookup_stat key st (see_key k s) = lookup_stat key st s"
  by (simp add: lookup_stat_def see_key_def)

lemma hits_store:
  "lookup_stat key st (store_stat k st' v t s) = Some x \<Longrightarrow>
   (k = key \<and> st' = st \<and> x = v) \<or> lookup_stat key st s = Some x"
  by (auto simp: lookup_stat_def update_conv split: if_splits option.splits)

lemma file_entry_honest:
  assumes "hits_honest sha stat_now content s" "ht_content f = content (file_key root f)"
    and "file_entry sha stat_now clock root f s = (v, s')"
  shows "v = file_says sha (stat_now (file_key root f)) (ht_content f) \<and> hits_honest sha stat_now content s'"
proof (cases "lookup_stat (file_key root f) (stat_now (file_key root f)) s")
  case None
  then have "v = file_says sha (stat_now (file_key root f)) (ht_content f)"
    and "s' = store_stat (file_key root f) (stat_now (file_key root f)) v (clock (file_key root f)) s"
    using assms(3) by (auto simp: file_entry_def file_key_def Let_def)
  then show ?thesis using assms(1,2) by (auto simp: hits_honest_def dest!: hits_store)
next
  case (Some x)
  then show ?thesis using assms by (auto simp: file_entry_def file_key_def hits_honest_def Let_def)
qed

text \<open>Hashing the files of a snapshot through a memo whose hits are current gives what hashing every file
  gives, whichever of them the memo knows.\<close>

theorem memo_is_transparent:
  assumes "hits_honest sha stat_now content s"
    and "list_all (\<lambda>f. ht_content f = content (file_key root f)) files"
  shows "fst (file_entries sha stat_now clock root files s) =
     map (\<lambda>f. (ht_path f, file_says sha (stat_now (file_key root f)) (ht_content f))) files"
  using assms
proof (induction files arbitrary: s)
  case (Cons f fs)
  obtain v s1 where e: "file_entry sha stat_now clock root f s = (v, s1)" by force
  have "v = file_says sha (stat_now (file_key root f)) (ht_content f)" "hits_honest sha stat_now content s1"
    using file_entry_honest [OF Cons.prems(1) _ e] Cons.prems(2) by auto
  then show ?case using Cons.IH [of s1] Cons.prems e by (simp add: file_key_def case_prod_beta)
qed simp

lemma sound_memo_honest:
  assumes "memo_sound (file_says sha) w"
    and "\<And>key v. lookup_stat key (stat_now key) (mw_store w) = Some v \<Longrightarrow>
      mw_files w key = Some (stat_now key, content key)"
  shows "hits_honest sha stat_now content (mw_store w)"
  unfolding hits_honest_def
proof (intro allI impI)
  fix key v assume hit: "lookup_stat key (stat_now key) (mw_store w) = Some v"
  then obtain e where e: "map_of (ss_entries (mw_store w)) key = Some e"
    "sen_stat e = stat_now key" "settled e" "v = sen_value e"
    by (auto simp: lookup_stat_def split: option.splits if_splits)
  then have "entry_current (file_says sha) w key e"
    using memo_soundD(1) [OF assms(1)] map_of_SomeD by fastforce
  then show "v = file_says sha (stat_now key) (content key)"
    using e assms(2) [OF hit] by (simp add: entry_current_def)
qed

theorem memo_is_transparent_witness:
  "fst (file_entries rev (\<lambda>_. example_stat) (\<lambda>_. 0) ''/src'' [\<lparr>ht_path = ''go.mod'', ht_content = ''hello''\<rparr>]
     (store_stat example_key example_stat (file_says rev example_stat ''hello'') 3000000000 (new_stat_store '''' 0))) =
   [(''go.mod'', file_says rev example_stat ''hello'')]"
proof -
  let ?s = "store_stat example_key example_stat (file_says rev example_stat ''hello'') 3000000000 (new_stat_store '''' 0)"
  have "hits_honest rev (\<lambda>_. example_stat) (\<lambda>_. ''hello'') ?s"
    by (auto simp: hits_honest_def lookup_stat_def new_stat_store_def split: if_splits)
  from memo_is_transparent [OF this, where root = "''/src''" and clock = "\<lambda>_. 0"
      and files = "[\<lparr>ht_path = ''go.mod'', ht_content = ''hello''\<rparr>]"]
  show ?thesis by simp
qed

section \<open>Equal fingerprints\<close>

lemma entries_json_eq:
  assumes "entries_json es = entries_json es'"
  shows "map_of es = map_of es'"
proof
  fix k
  have keys: "sorted_keys es = sorted_keys es'"
    using arg_cong [OF assms, of "\<lambda>j. case j of JObj fs \<Rightarrow> map fst fs"] by (simp add: entries_json_def comp_def)
  have same: "the (map_of es k) = the (map_of es' k)" if "k \<in> set (sorted_keys es)"
    using assms that by (auto simp: entries_json_def simp flip: keys)
  show "map_of es k = map_of es' k"
  proof (cases "k \<in> set (sorted_keys es)")
    case True
    then have "k \<in> fst ` set es" "k \<in> fst ` set es'" using keys by (metis set_sorted_keys)+
    then show ?thesis using same [OF True] by (metis has_key_def has_key_iff option.expand)
  next
    case False
    then have "k \<notin> fst ` set es" "k \<notin> fst ` set es'" using keys by (metis set_sorted_keys)+
    then show ?thesis by (metis map_of_eq_None_iff)
  qed
qed

definition key_env :: "host_world \<Rightarrow> request \<Rightarrow> string list option" where
  "key_env h req =
     (if en_executor (pc_environment (rq_check req)) = ExecutorNative
      then Some (native_env (hw_lookup_env h) (req\<lparr>rq_rerun_checks := False\<rparr>) (check_env (pc_check (rq_check req))))
      else None)"

lemma fingerprint_values:
  assumes "fingerprint w h req st = Inr (k, st')"
  obtains es s impl toolchain where "snapshot_entries w (keyed_source req) (ks_stats st) = Inr (es, s)"
    "k = sw_digest w (key_json h (rq_check req) (sw_digest w (entries_json es)) impl (key_env h req) toolchain)"
proof -
  from assms obtain src st1 where snap: "session_snapshot w (keyed_source req) st = Inr (src, st1)"
    by (auto simp: fingerprint_def bind_result_Inr)
  then obtain es s where es: "snapshot_entries w (keyed_source req) (ks_stats st) = Inr (es, s)"
    "src = sw_digest w (entries_json es)"
    by (auto simp: session_snapshot_def snapshot_def bind_result_Inr)
  from assms snap obtain impl st2 where "implementation w req st1 = Inr (impl, st2)"
    by (auto simp: fingerprint_def bind_result_Inr)
  with assms snap have "\<exists>toolchain. k = sw_digest w (key_json h (rq_check req) src impl (key_env h req) toolchain)"
    by (auto simp: fingerprint_def key_env_def bind_result_Inr Let_def split: if_splits)
  with es that show thesis by blast
qed

lemma key_json_eq:
  "key_json h c source impl env toolchain = key_json h' c' source' impl' env' toolchain' \<Longrightarrow>
     hw_check_json h c = hw_check_json h' c' \<and> source = source' \<and> impl = impl' \<and> env = env'"
  using inj_map_eq_map [of JStr] by (auto simp: key_json_def inj_def split: option.splits if_splits)


section \<open>An example\<close>

instance json :: countable
  by countable_datatype

definition collision_free_digest :: "json \<Rightarrow> string" where
  "collision_free_digest j = show_nat (to_nat j)"

lemma collision_free: "inj collision_free_digest"
  by (rule injI) (metis collision_free_digest_def digits_value_show from_nat_to_nat)

definition example_tree :: fs where
  "example_tree = \<lparr>fs_nodes = [([''go.mod''], FileNode 420 ''hello'')], fs_fold = False, fs_max_links = 0\<rparr>"

definition example_request :: request where
  "example_request = \<lparr>rq_source = ''/src'', rq_shared = ''/shared'', rq_rerun_checks = True, rq_check =
     \<lparr>pc_id = ''vet'', pc_check = plain_check CheckGoVet ''root'' ''go'',
      pc_target = \<lparr>tg_dir = dot, tg_workspace = dot, tg_inputs = [dot], tg_exclude = [], tg_discovery = DiscoveryFilesystem\<rparr>,
      pc_environment = \<lparr>en_executor = ExecutorDagger, en_identity = '''', en_env = [(''GOFLAGS'', ''-tags=x'')],
        en_pass_env = [''USER''], en_tools = []\<rparr>,
      pc_preparation = None, pc_build = None, pc_rule_modules = []\<rparr>\<rparr>"

definition example_snapshots :: snapshot_world where
  "example_snapshots = \<lparr>sw_tree = \<lambda>_. example_tree, sw_listing = \<lambda>_. no_listing, sw_files = example_files, sw_disk = [],
     sw_sha = rev, sw_digest = collision_free_digest, sw_stat = \<lambda>_. example_stat, sw_clock = \<lambda>_. 3000000000\<rparr>"

definition example_host :: "string \<Rightarrow> host_world" where
  "example_host user = \<lparr>hw_lookup_env = [''PATH'' \<mapsto> ''/bin'', ''USER'' \<mapsto> user], hw_runnable = \<lambda>_. True,
     hw_run = \<lambda>_ _ _. Inl ''no tool'', hw_decode = \<lambda>_. None, hw_os = ''linux'', hw_arch = ''amd64'',
     hw_check_json = \<lambda>c. JStr (pc_id c), hw_preparation_json = \<lambda>_. JNull, hw_environment_json = \<lambda>_. JNull\<rparr>"

definition example_session :: "stat_store \<Rightarrow> key_session" where
  "example_session s = \<lparr>ks_stats = s, ks_implementations = [(implementation_key_of example_request, ''impl'')], ks_toolchains = []\<rparr>"

theorem environment_is_pinned_witness:
  "native_env [''PATH'' \<mapsto> ''/bin'', ''USER'' \<mapsto> ''ada'', ''SECRET'' \<mapsto> ''x''] example_request [] =
   native_env [''PATH'' \<mapsto> ''/bin'', ''USER'' \<mapsto> ''ada''] example_request []"
  by (rule environment_is_pinned) (auto simp: host_keys_def example_request_def)

lemma example_walk:
  "walk_set example_tree (snapshot_set (keyed_source example_request)) no_listing =
     Inr [visit_of dot (Some DirNode) ScopeDeclared, visit_of ''go.mod'' (Some (FileNode 420 ''hello'')) ScopeDeclared]"
  by code_simp

lemma example_root [simp]: "sq_root (keyed_source example_request) = ''/src''"
  by (simp add: keyed_source_def example_request_def Let_def)

lemma example_visits:
  "snapshot_visits example_snapshots (keyed_source example_request) =
     Inr [(visit_of dot (Some DirNode) ScopeDeclared, Recorded ''directory''),
       (visit_of ''go.mod'' (Some (FileNode 420 ''hello'')) ScopeDeclared, Queued \<lparr>ht_path = ''go.mod'', ht_content = ''hello''\<rparr>)]"
  unfolding snapshot_visits_def example_root
  by (simp add: example_snapshots_def example_walk record_visit_def visit_of_def)

definition fresh_memo :: stat_store where
  "fresh_memo = new_stat_store '''' 1000"

definition filled_memo :: stat_store where
  "filled_memo = store_stat example_key example_stat (file_says rev example_stat ''hello'') 3000000000 fresh_memo"

lemma example_snapshot:
  assumes "s = fresh_memo \<or> s = filled_memo"
  shows "\<exists>s'. snapshot_entries example_snapshots (keyed_source example_request) s =
     Inr ([(''go.mod'', file_says rev example_stat ''hello''), (dot, ''directory'')], s')"
  using assms
  unfolding snapshot_entries_def example_visits
  by (auto simp: queued_files_def plain_entries_def hash_files_def prepare_root_def
      stat_path_def shard_path_def fresh_memo_def filled_memo_def new_stat_store_def file_entry_def lookup_stat_def
      settled_def racy_window_def example_snapshots_def example_key_def
      store_stat_def see_key_def visit_of_def example_stat_def Let_def)

definition example_result :: string where
  "example_result = collision_free_digest (key_json (example_host ''ada'') (rq_check example_request)
     (collision_free_digest (entries_json [(''go.mod'', file_says rev example_stat ''hello''), (dot, ''directory'')])) ''impl'' None '''')"

lemma example_fingerprint:
  assumes "s = fresh_memo \<or> s = filled_memo"
  shows "\<exists>st'. fingerprint example_snapshots (example_host user) example_request (example_session s) = Inr (example_result, st')"
proof -
  from example_snapshot [OF assms] obtain s' where e: "snapshot_entries example_snapshots (keyed_source example_request) s =
     Inr ([(''go.mod'', file_says rev example_stat ''hello''), (dot, ''directory'')], s')" ..
  have d: "sw_digest example_snapshots = collision_free_digest" by (simp add: example_snapshots_def)
  have x: "en_executor (pc_environment (rq_check example_request)) = ExecutorDagger" by (simp add: example_request_def)
  show ?thesis
    by (simp add: fingerprint_def session_snapshot_def snapshot_def example_session_def e d x implementation_def
        example_result_def key_json_def example_host_def Let_def)
qed


end
