(* ===== verification/Native_Properties.thy ===== *)
theory Native_Properties
  imports Native Fingerprint_Properties
begin

text \<open>
  The native executor keeps a bounded prefix of what a process prints, passes a tool only with its pinned
  version, reuses a stage only for what a run of the same stage left, and passes a command check only when
  its stages, its command and its artifacts all did.
\<close>

section \<open>Output\<close>

definition prefix_buffer :: "string \<Rightarrow> output_buffer" where
  "prefix_buffer s = \<lparr>ob_buffer = take native_output_limit s, ob_truncated = (native_output_limit < length s)\<rparr>"

lemma write_output_prefix: "write_output p (prefix_buffer s) = prefix_buffer (s @ p)"
  by (auto simp: write_output_def prefix_buffer_def Let_def min_def)

lemma writes_prefix: "fold write_output writes (prefix_buffer s) = prefix_buffer (s @ concat writes)"
  by (induction writes arbitrary: s) (simp_all add: write_output_prefix)

lemma collected_prefix: "collected writes = prefix_buffer (concat writes)"
  using writes_prefix [of writes "''''"] by (simp add: collected_def new_output_buffer_def prefix_buffer_def)

text \<open>However a process chops its output into writes, what is kept of a stream is its first bytes up to the
  limit, and it is marked truncated exactly when it had more.\<close>

theorem output_is_a_bounded_prefix:
  "collected writes = \<lparr>ob_buffer = take native_output_limit (concat writes),
     ob_truncated = (native_output_limit < length (concat writes))\<rparr>"
  by (simp add: collected_prefix prefix_buffer_def)

section \<open>Tools\<close>

definition tool_ok :: "tool \<Rightarrow> result \<Rightarrow> bool" where
  "tool_ok tool r \<longleftrightarrow> rs_status r = StatusPassed \<and> \<not> truncated_output r \<and> trim_space (rs_stdout r) = tl_version tool"

lemma tool_failure_None: "tool_failure tool r = None \<longleftrightarrow> tool_ok tool r"
  by (auto simp: tool_failure_def tool_ok_def split: if_splits)

text \<open>The results of the version commands, in order, each run on the tree the one before it left.\<close>

fun tool_results :: "'t native_ops \<Rightarrow> string \<Rightarrow> tool list \<Rightarrow> string list \<Rightarrow> 't \<Rightarrow> result list" where
  "tool_results ops dir [] env t = []"
| "tool_results ops dir (tool # tools) env t =
     (let (r, t1) = run_process ops dir (tl_command tool) env ''30s'' t in r # tool_results ops dir tools env t1)"

text \<open>A check goes on after validating its tools only if every version command passed and printed the whole
  pinned version.\<close>

theorem validated_tools_are_pinned:
  "fst (validate_tools ops dir tools env t) = None \<longleftrightarrow> list_all2 tool_ok tools (tool_results ops dir tools env t)"
  by (induction ops dir tools env t rule: validate_tools.induct)
    (auto simp: Let_def simp flip: tool_failure_None split: prod.split option.split)

section \<open>Stages\<close>

definition stage_made ::
  "'t native_ops \<Rightarrow> request \<Rightarrow> stage_kind \<Rightarrow> preparation \<Rightarrow> string \<Rightarrow> string \<Rightarrow> string \<Rightarrow> bool" where
  "stage_made ops req kind stage inputs key out \<longleftrightarrow>
     (\<exists>t t1 t2 r. stage_key ops req kind stage t = Inr (inputs, key) \<and>
        run_process ops (workspace_dir req) (pr_command stage) (stage_env ops req stage) (pr_timeout stage) t1 = (r, t2) \<and>
        rs_status r = StatusPassed \<and> outputs_present ops t2 (pr_outputs stage) \<and>
        no_snapshot ops (stage_outputs req stage) t2 = Inr out \<and> no_snapshot ops (stage_inputs req stage) t2 = Inr inputs)"

definition genuine_stages :: "'t native_ops \<Rightarrow> 't native_world \<Rightarrow> bool" where
  "genuine_stages ops w \<longleftrightarrow> (\<forall>key e. nw_stages w key = Some e \<longrightarrow>
     ste_key e = key \<and> (\<exists>req kind stage inputs. stage_made ops req kind stage inputs key (ste_outputs e)))"

lemma genuine_tree [simp]: "genuine_stages ops (w\<lparr>nw_tree := t\<rparr>) = genuine_stages ops w"
  by (simp add: genuine_stages_def)

lemma finish_stage_genuine:
  assumes "genuine_stages ops w" and "stage_key ops req kind stage t = Inr (inputs, key)"
    and "run_process ops (workspace_dir req) (pr_command stage) (stage_env ops req stage) (pr_timeout stage) t1 = (r, nw_tree w)"
    and "rs_status r = StatusPassed"
  shows "genuine_stages ops (snd (finish_stage ops n req kind stage inputs key r w))"
proof -
  have "stage_made ops req kind stage inputs key out"
    if "outputs_present ops (nw_tree w) (pr_outputs stage)" "no_snapshot ops (stage_outputs req stage) (nw_tree w) = Inr out"
      "no_snapshot ops (stage_inputs req stage) (nw_tree w) = Inr inputs" for out
    unfolding stage_made_def using assms(2-4) that by blast
  then show ?thesis using assms(1)
    by (auto simp: finish_stage_def genuine_stages_def Let_def split: sum.split) blast+
qed

lemma run_stage_genuine:
  assumes "genuine_stages ops w"
  shows "genuine_stages ops (snd (run_stage ops n req kind stage w))"
proof (cases "stage_key ops req kind stage (nw_tree w)")
  case (Inr k)
  obtain inputs key where k: "k = (inputs, key)" by (cases k)
  obtain failure t1 where v: "validate_tools ops (workspace_dir req) (en_tools (pc_environment (rq_check req)))
    (stage_env ops req stage) (nw_tree w) = (failure, t1)" by force
  obtain r t2 where p: "run_process ops (workspace_dir req) (pr_command stage) (stage_env ops req stage) (pr_timeout stage) t1 = (r, t2)"
    by force
  show ?thesis
    using assms finish_stage_genuine [of ops "w\<lparr>nw_tree := t2\<rparr>" req kind stage "nw_tree w" inputs key t1 r n] Inr k p
    by (simp add: run_stage_def v p Let_def split: option.split)
qed (use assms in \<open>simp add: run_stage_def\<close>)

lemma stage_key_inputs: "stage_key ops req kind stage t = Inr (inputs, key) \<Longrightarrow>
  no_snapshot ops (stage_inputs req stage) t = Inr inputs \<and>
  (\<exists>impl dep. key = no_digest ops (stage_key_json ops req kind stage inputs impl dep))"
  by (auto simp: stage_key_def bind_result_Inr split: sum.splits)

lemma stage_name_inj: "stage_name k = stage_name k' \<Longrightarrow> k = k'"
  by (auto simp: stage_name_def split: stage_kind.splits)

lemma same_stage_key:
  assumes "stage_key ops req kind stage t = Inr (inputs, key)" "stage_key ops req' kind' stage' t' = Inr (inputs', key)"
    and "inj (no_digest ops)"
  shows "kind' = kind \<and> rq_source req' = rq_source req \<and> inputs' = inputs \<and>
     no_preparation_json ops stage' = no_preparation_json ops stage \<and>
     no_environment_json ops (pc_environment (rq_check req')) = no_environment_json ops (pc_environment (rq_check req))"
  using stage_key_inputs [OF assms(1)] stage_key_inputs [OF assms(2)] assms(3)
  by (auto simp: inj_eq stage_key_json_def dest: stage_name_inj)


section \<open>Command checks\<close>

lemma run_stages_all:
  "run_stages ops n req stages w = ((infos, noted, None), w') \<Longrightarrow> length infos = length stages"
  by (induction ops n req stages w arbitrary: infos noted w' rule: run_stages.induct)
    (auto split: prod.splits option.splits)

lemma validate_tools_failure: "validate_tools ops dir tools env t = (Some failure, t') \<Longrightarrow> rs_status failure \<noteq> StatusPassed"
  by (induction ops dir tools env t rule: validate_tools.induct)
    (auto simp: Let_def tool_failure_def outcome_def with_outcome_def split: prod.splits option.splits if_splits)

lemma run_stage_failure:
  assumes "run_stage ops n req kind stage w = ((first, noted, Some failure), w')"
  shows "rs_status failure \<noteq> StatusPassed"
  using assms
  by (auto simp: run_stage_def finish_stage_def outcome_def with_outcome_def Let_def
      split: sum.splits option.splits prod.splits if_splits dest: validate_tools_failure)

lemma run_stages_failure:
  "run_stages ops n req stages w = ((infos, noted, Some failure), w') \<Longrightarrow> rs_status failure \<noteq> StatusPassed"
  by (induction ops n req stages w arbitrary: infos noted w' rule: run_stages.induct)
    (auto split: prod.splits option.splits dest: run_stage_failure)

text \<open>A command check passes only when each of its stages succeeded and is reported, its command passed
  and every artifact it declares is a regular file of the source.\<close>

theorem passing_command_is_complete:
  assumes "run_command ops n req dir env w = (r, w')" "rs_status r = StatusPassed"
  shows "\<exists>options infos noted w1 r0. ck_command (pc_check (rq_check req)) = Some options \<and>
     run_stages ops n req (check_stages (rq_check req)) w = ((infos, noted, None), w1) \<and>
     length (rs_stages r) = length (check_stages (rq_check req)) \<and>
     run_process ops dir (command_args req options) env (cc_timeout options) (nw_tree w1) = (r0, nw_tree w') \<and>
     rs_status r0 = StatusPassed \<and> list_all (\<lambda>p. artifact_error ops (nw_tree w') p = None) (cc_artifacts options)"
proof -
  from assms obtain options where o: "ck_command (pc_check (rq_check req)) = Some options"
    by (cases "ck_command (pc_check (rq_check req))") (auto simp: run_command_def outcome_def)
  obtain infos noted failure w1 where s: "run_stages ops n req (check_stages (rq_check req)) w = ((infos, noted, failure), w1)"
    by (metis surj_pair)
  have "failure = None"
    using assms s o run_stages_failure [of ops n req "check_stages (rq_check req)" w infos noted _ w1]
    by (cases failure) (auto simp: run_command_def with_stages_def)
  moreover obtain r0 t where "run_process ops dir (command_args req options) env (cc_timeout options) (nw_tree w1) = (r0, t)"
    by force
  ultimately show ?thesis
    using assms s o run_stages_all [of ops n req "check_stages (rq_check req)" w infos noted w1]
    by (auto simp: run_command_def with_stages_def with_outcome_def Let_def list_all_iff split: if_splits option.splits)
qed

section \<open>An example\<close>

text \<open>A tree that remembers what was built: a build writes \<open>bin\<close> from the source.\<close>

definition example_process :: process_run where
  "example_process = \<lparr>pn_cancelled = None, pn_timed_out = False, pn_error = None, pn_stdout = [''ok''], pn_stderr = []\<rparr>"

definition example_native :: "string native_ops" where
  "example_native = \<lparr>no_snapshot = \<lambda>q t. Inr (if sq_outputs q then t else ''source''),
     no_implementation = \<lambda>_ _. Inr ''impl'', no_digest = collision_free_digest,
     no_lookup_env = \<lambda>k. if k = ''PATH'' then Some ''/bin'' else None, no_runnable = \<lambda>_ _. True,
     no_run = \<lambda>_ _ _ _ _ _. (example_process, ''built''), no_output_error = \<lambda>_ _. None,
     no_contained = \<lambda>_ p. Inr p, no_regular = \<lambda>_ _. True, no_preparation_json = \<lambda>p. JList (map JStr (pr_command p)),
     no_environment_json = \<lambda>e. JStr (en_identity e), no_os = ''linux'', no_arch = ''amd64'', no_elapsed_ms = 5\<rparr>"

definition example_build :: preparation where
  "example_build = \<lparr>pr_command = [''/bin/make''], pr_inputs = [dot], pr_outputs = [''bin''], pr_env = [], pr_timeout = ''''\<rparr>"

definition build_check :: "command_check" where
  "build_check = \<lparr>cc_args = [''/bin/test''], cc_rerun_args = [], cc_env = [], cc_timeout = '''', cc_preparation = '''',
     cc_build = ''make'', cc_artifacts = [''bin''], cc_cache = False\<rparr>"

definition build_request :: request where
  "build_request = example_request\<lparr>rq_check := (rq_check example_request)\<lparr>
     pc_check := (plain_check CheckCommand ''root'' ''host'')\<lparr>ck_command := Some build_check\<rparr>,
     pc_environment := \<lparr>en_executor = ExecutorNative, en_identity = ''pinned'', en_env = [], en_pass_env = [], en_tools = []\<rparr>,
     pc_build := Some example_build\<rparr>\<rparr>"

definition caching :: native where
  "caching = \<lparr>na_caches = True, na_write_fails = \<lambda>_. False\<rparr>"

definition unbuilt :: "string native_world" where
  "unbuilt = \<lparr>nw_tree = ''clean'', nw_stages = \<lambda>_. None\<rparr>"

definition first_build :: "(stage_result \<times> warning list \<times> result option) \<times> string native_world" where
  "first_build = run_stage example_native caching build_request StageBuild example_build unbuilt"

definition second_build :: "(stage_result \<times> warning list \<times> result option) \<times> string native_world" where
  "second_build = run_stage example_native caching build_request StageBuild example_build (snd first_build)"

lemma example_stage_key:
  "stage_key example_native build_request StageBuild example_build t = Inr (''source'', no_digest example_native
     (stage_key_json example_native build_request StageBuild example_build ''source'' ''impl'' ''''))"
  by (simp add: stage_key_def example_native_def stage_dependency_def build_request_def example_request_def stage_inputs_def)

lemma example_run:
  "run_process example_native dir [''/bin/make''] env '''' t = (command_result example_process, ''built'')"
  "run_process example_native dir [''/bin/test''] env '''' t = (command_result example_process, ''built'')"
  by (simp_all add: run_process_def default_command_timeout_def executable_def contains_any_def is_abs_def example_native_def)

lemma example_verdict: "rs_status (command_result example_process) = StatusPassed"
  by (simp add: command_result_def command_verdict_def example_process_def outcome_def Let_def)

lemma example_parts:
  "no_snapshot example_native q t = Inr (if sq_outputs q then t else ''source'')"
  "first_error (no_output_error example_native t) ps = None" "outputs_present example_native t ps" "no_elapsed_ms example_native = 5"
  "en_tools (pc_environment (rq_check build_request)) = []" "remembers caching build_request"
  "\<not> na_write_fails caching k" "nw_tree unbuilt = ''clean''" "nw_stages unbuilt = (\<lambda>_. None)"
  "pr_command example_build = [''/bin/make'']" "pr_timeout example_build = ''''"
  "sq_outputs (stage_outputs req stage)" "\<not> sq_outputs (stage_inputs req stage)"
  by (simp_all add: outputs_present_def remembers_def caching_def unbuilt_def build_request_def example_build_def
      stage_outputs_def stage_inputs_def example_native_def list.pred_True)

lemma first_build_ran:
  "first_build = ((stage_info StageBuild (sr_key (fst (fst first_build))) False 5, [], None),
     \<lparr>nw_tree = ''built'', nw_stages = [sr_key (fst (fst first_build)) \<mapsto>
        \<lparr>ste_key = sr_key (fst (fst first_build)), ste_outputs = ''built''\<rparr>]\<rparr>) \<and>
   stage_key example_native build_request StageBuild example_build t = Inr (''source'', sr_key (fst (fst first_build)))"
proof -
  let ?key = "no_digest example_native (stage_key_json example_native build_request StageBuild example_build ''source'' ''impl'' '''')"
  have "rs_warnings (command_result example_process) = []"
    by (simp add: command_result_def command_verdict_def example_process_def collected_prefix prefix_buffer_def
        output_warnings_def native_output_limit_def Let_def)
  then have ran: "first_build = ((stage_info StageBuild ?key False 5, [], None),
     \<lparr>nw_tree = ''built'', nw_stages = [?key \<mapsto> \<lparr>ste_key = ?key, ste_outputs = ''built''\<rparr>]\<rparr>)"
    using example_verdict
    by (simp add: first_build_def run_stage_def example_stage_key reusable_def finish_stage_def example_run
        example_parts Let_def)
  have key: "sr_key (fst (fst first_build)) = ?key" unfolding ran by (simp add: stage_info_def)
  show ?thesis unfolding key using ran example_stage_key by simp
qed

lemma second_build_reuses:
  "second_build = ((stage_info StageBuild (sr_key (fst (fst first_build))) True 5, [], None), snd first_build)"
proof -
  have first: "snd first_build = \<lparr>nw_tree = ''built'', nw_stages = [sr_key (fst (fst first_build)) \<mapsto>
        \<lparr>ste_key = sr_key (fst (fst first_build)), ste_outputs = ''built''\<rparr>]\<rparr>"
    using first_build_ran [THEN conjunct1] by (metis snd_conv)
  have key: "stage_key example_native build_request StageBuild example_build t = Inr (''source'', sr_key (fst (fst first_build)))" for t
    using first_build_ran by blast
  have "reusable example_native caching build_request example_build (sr_key (fst (fst first_build))) (snd first_build)"
    unfolding first reusable_def
    by (simp add: remembers_def caching_def build_request_def outputs_present_def stage_outputs_def example_native_def
        list.pred_True)
  then have "run_stage example_native caching build_request StageBuild example_build (snd first_build) =
      ((stage_info StageBuild (sr_key (fst (fst first_build))) True (no_elapsed_ms example_native), [], None), snd first_build)"
    by (simp add: run_stage_def key)
  then show ?thesis by (simp add: second_build_def example_native_def)
qed


definition checked :: "result \<times> string native_world" where
  "checked = run_command example_native caching build_request ''/src'' [] unbuilt"

lemma build_request_parts:
  "check_stages (rq_check build_request) = [(StageBuild, example_build)]"
  "ck_command (pc_check (rq_check build_request)) = Some build_check"
  "command_args build_request build_check = [''/bin/test'']" "cc_timeout build_check = ''''"
  "first_error (artifact_error example_native t) (cc_artifacts build_check) = None"
  by (simp_all add: build_request_def check_stages_def command_args_def build_check_def example_request_def
      artifact_error_def example_native_def)

lemma build_stages:
  "run_stages example_native caching build_request [(StageBuild, example_build)] unbuilt =
     (([fst (fst first_build)], [], None), snd first_build)"
proof -
  obtain info' w where "first_build = ((info', [], None), w)" using first_build_ran by blast
  then show ?thesis unfolding first_build_def by simp
qed

lemma checked_passes: "rs_status (fst checked) = StatusPassed"
  unfolding checked_def run_command_def build_request_parts option.case build_stages
  using example_verdict by (simp add: build_request_parts example_run with_stages_def Let_def)

theorem passing_command_is_complete_witness:
  "length (rs_stages (fst checked)) = 1"
proof -
  have "run_command example_native caching build_request ''/src'' [] unbuilt = (fst checked, snd checked)"
    by (simp add: checked_def)
  from passing_command_is_complete [OF this checked_passes] show ?thesis
    by (auto simp: build_request_parts)
qed

end
