(* ===== verification/Go_Checks.thy ===== *)
theory Go_Checks
  imports Validation Check_Reports Go_Json Go_Conv
begin

text \<open>
  The shared checks that judge a whole Go module: \<open>runner/lint/gocheck\<close> report.go, packages.go and
  imports.go, which the command \<open>levenshtein-gocheck\<close> runs on either executor.

  A subprocess is the operation \<open>gk_command\<close> on a state \<open>'t\<close>, which is all it can change. Decoding what
  \<open>go list -json\<close> prints, resolving symbolic links and parsing a Go file are arguments: a parsed file is
  whether it carries the header of generated code and its imports, each with its literal and its position.
\<close>

section \<open>report.go\<close>

abbreviation code_imports :: string where "code_imports \<equiv> ''go-imports''"
abbreviation code_generate :: string where "code_generate \<equiv> ''go-generate''"
abbreviation code_apidiff :: string where "code_apidiff \<equiv> ''go-apidiff''"

record go_finding =
  gf_code :: string
  gf_message :: string
  gf_location :: location

record go_report =
  gr_findings :: "go_finding list"
  gr_notes :: "string list"

definition exit_clean :: int where "exit_clean = 0"
definition exit_findings :: int where "exit_findings = 1"
definition exit_error :: int where "exit_error = 2"

text \<open>The JSON of a report: the findings are always an array, the notes are left out when there are none.\<close>

definition finding_json :: "go_finding \<Rightarrow> json" where
  "finding_json f = JObj
     [(''code'', JStr (gf_code f)), (''message'', JStr (gf_message f)),
      (''location'', JObj [(''file'', JStr (loc_file (gf_location f))), (''line'', JInt (loc_line (gf_location f))),
         (''column'', JInt (loc_column (gf_location f)))])]"

definition go_report_json :: "go_report \<Rightarrow> json" where
  "go_report_json r = JObj
     ((''findings'', JList (map finding_json (gr_findings r))) #
      (if gr_notes r = [] then [] else [(''notes'', JList (map JStr (gr_notes r)))]))"

text \<open>\<open>Report.Write\<close>: \<open>write\<close> is the writer, which may fail.\<close>

definition write_report :: "(string \<Rightarrow> string option) \<Rightarrow> go_report \<Rightarrow> int \<times> string option" where
  "write_report write r =
     (case write (json_text (go_report_json r) @ newline) of
        Some e \<Rightarrow> (exit_error, Some e)
      | None \<Rightarrow> if gr_findings r \<noteq> [] then (exit_findings, None) else (exit_clean, None))"

text \<open>How \<open>exec.Cmd.Run\<close> ended, and \<open>command\<close>: \<open>ctx\<close> is the error of the caller's context.\<close>

datatype run_end = RunOk | RunExited int | RunFailed string

definition command_end :: "string option \<Rightarrow> run_end \<Rightarrow> string \<Rightarrow> string \<Rightarrow> string + tool_run" where
  "command_end ctx ended out err =
     (case ended of
        RunOk \<Rightarrow> Inr \<lparr>tr_exit = 0, tr_stdout = out, tr_stderr = err\<rparr>
      | _ \<Rightarrow>
          (case ctx of
             Some e \<Rightarrow> Inl e
           | None \<Rightarrow>
               (case ended of
                  RunExited n \<Rightarrow> Inr \<lparr>tr_exit = n, tr_stdout = out, tr_stderr = err\<rparr>
                | RunFailed e \<Rightarrow> Inl e
                | RunOk \<Rightarrow> Inr \<lparr>tr_exit = 0, tr_stdout = out, tr_stderr = err\<rparr>)))"

text \<open>The findings in the order of their locations, so that a report does not depend on the order a tool made them in.\<close>

definition finding_place :: "go_finding \<Rightarrow> string \<times> int \<times> int \<times> string" where
  "finding_place f = (loc_file (gf_location f), loc_line (gf_location f), loc_column (gf_location f), gf_message f)"

definition sort_findings :: "go_finding list \<Rightarrow> go_finding list" where
  "sort_findings fs = sort_key finding_place fs"

definition count_noun :: "nat \<Rightarrow> string \<Rightarrow> string" where
  "count_noun n noun = (if n = 1 then ''1 '' @ noun else show_nat n @ '' '' @ noun @ ''s'')"

definition entry_name :: "string \<Rightarrow> string" where
  "entry_name entry = fst (cut_at CHR ''='' entry)"

definition with_env :: "string list \<Rightarrow> string list \<Rightarrow> string list" where
  "with_env env values =
     filter (\<lambda>entry. \<not> list_ex (\<lambda>v. entry_name v = entry_name entry) values) env @ values"

section \<open>packages.go\<close>

record listed_package =
  lp_dir :: string
  lp_path :: string
  lp_name :: string
  lp_go_files :: "string list"
  lp_cgo_files :: "string list"
  lp_test_files :: "string list"
  lp_xtest_files :: "string list"
  lp_module :: "string option"

definition package_files :: "bool \<Rightarrow> listed_package \<Rightarrow> string list" where
  "package_files tests p =
     lp_go_files p @ lp_cgo_files p @ (if tests then lp_test_files p @ lp_xtest_files p else [])"

text \<open>The errors of the checks; the ones of the rules are those the CLI gives for the same rules.\<close>

datatype gocheck_error =
    GoPlain string
  | GoRules check_error
  | ListFailed string
  | ListUnreadable string
  | NoGoPackages
  | PackageOutside string string
  | PatternUnmatched nat string string
  | UnreadableImports string string
  | ImportNotString string string

record 't go_ops =
  gk_command :: "string \<Rightarrow> string list \<Rightarrow> string list \<Rightarrow> 't \<Rightarrow> (string + tool_run) \<times> 't"
  gk_packages :: "string \<Rightarrow> string + listed_package list"

definition list_command :: "string list" where
  "list_command = [''go'', ''list'', ''-find'',
     ''-json=Dir,ImportPath,Name,GoFiles,CgoFiles,TestGoFiles,XTestGoFiles,Module'', ''./...'']"

definition list_packages ::
  "'t go_ops \<Rightarrow> string \<Rightarrow> string list \<Rightarrow> 't \<Rightarrow> (gocheck_error + listed_package list) \<times> 't" where
  "list_packages ops dir env t =
     (case gk_command ops dir env list_command t of
        (Inl e, t') \<Rightarrow> (Inl (GoPlain e), t')
      | (Inr run, t') \<Rightarrow>
          (if tr_exit run \<noteq> 0 then Inl (ListFailed (tool_output run))
           else (case gk_packages ops (tr_stdout run) of
             Inl e \<Rightarrow> Inl (ListUnreadable e)
           | Inr packages \<Rightarrow> if packages = [] then Inl NoGoPackages else Inr packages), t'))"

text \<open>
  A pattern of the go command. \<open>dot_pieces\<close> cuts a text at each \<open>...\<close>, from the left, which is what
  replacing \<open>\.\.\.\<close> in the quoted text does; the quoted text ends in \<open>/.*\<close> exactly when the last piece is
  empty and the one before it ends in a slash.
\<close>

fun dot_pieces :: "string \<Rightarrow> string list" where
  "dot_pieces [] = [[]]"
| "dot_pieces (c # s) =
     (if has_prefix (c # s) ''...'' then [] # dot_pieces (drop 2 s)
      else (case dot_pieces s of [] \<Rightarrow> [[c]] | p # ps \<Rightarrow> (c # p) # ps))"

fun pieces_rx :: "string list \<Rightarrow> rx" where
  "pieces_rx [] = REmpty"
| "pieces_rx [p] = rx_lit p"
| "pieces_rx [p, q] =
     (if q = '''' \<and> has_suffix p ''/''
      then RSeq (rx_lit (butlast p)) (rx_opt (RSeq (rx_lit ''/'') (RStar rx_dot)))
      else RSeq (rx_lit p) (RSeq (RStar rx_dot) (rx_lit q)))"
| "pieces_rx (p # q # r # ps) = RSeq (rx_lit p) (RSeq (RStar rx_dot) (pieces_rx (q # r # ps)))"

record go_pattern =
  pt_text :: string
  pt_rx :: rx

definition compile_pattern :: "string \<Rightarrow> go_pattern" where
  "compile_pattern text = \<lparr>pt_text = text, pt_rx = pieces_rx (dot_pieces text)\<rparr>"

definition pattern_match :: "go_pattern \<Rightarrow> string \<Rightarrow> bool" where
  "pattern_match p name = rx_match (pt_rx p) name"

section \<open>imports.go: the rules\<close>

abbreviation TestsInclude :: string where "TestsInclude \<equiv> ''include''"
abbreviation TestsExclude :: string where "TestsExclude \<equiv> ''exclude''"

record module_rule =
  mr_packages :: "string list"
  mr_deny :: "string list"
  mr_allow :: "string list"
  mr_tests :: string
  mr_reason :: string

abbreviation std_pattern :: string where "std_pattern \<equiv> ''std''"

definition path_pattern :: "string \<Rightarrow> bool" where
  "path_pattern entry =
     (if entry = '''' \<or> contains_any entry ([CHR '' '', CHR 0x09, CHR 0x0D, CHR 0x0A, CHR 0x22] @
          [CHR 0x27, CHR 0x60, CHR 0x5C] @ '';:,'' @ [CHR 0x00]) then False
      else list_all (\<lambda>element. \<not> (element = '''' \<or> element = dot \<or> element = dotdot)) (parts entry))"

definition local_pattern :: "string \<Rightarrow> bool" where
  "local_pattern entry =
     (let (rest, ok) = cut_prefix entry ''./'' in entry = dot \<or> (ok \<and> path_pattern rest))"

definition refuse_module_rule :: "nat \<Rightarrow> module_rule \<Rightarrow> check_error option" where
  "refuse_module_rule number rule = first_of
     [fail_when (mr_packages rule = []) (RuleNeedsPackages number),
      first_error (\<lambda>entry. fail_when (\<not> local_pattern entry) (BadPackagePattern number entry)) (mr_packages rule),
      fail_when (mr_deny rule = [] \<and> mr_allow rule = []) (RuleNeedsLists number),
      first_error (\<lambda>entry. fail_when (entry \<noteq> std_pattern \<and> \<not> local_pattern entry \<and> \<not> path_pattern entry)
          (BadImportPattern number entry)) (mr_deny rule @ mr_allow rule),
      fail_when (mr_tests rule \<noteq> '''' \<and> mr_tests rule \<noteq> TestsInclude \<and> mr_tests rule \<noteq> TestsExclude)
        (BadImportTests number (mr_tests rule)),
      fail_when (trim_space (mr_reason rule) = '''') (RuleNeedsReason number)]"

definition refuse_module_rules :: "module_rule list \<Rightarrow> check_error option" where
  "refuse_module_rules rules = first_of
     [fail_when (rules = []) ImportsNeedRules,
      first_error (\<lambda>(i, rule). refuse_module_rule (i + 1) rule) (List.enumerate 0 rules)]"

record import_matcher =
  im_text :: string
  im_std :: bool
  im_pattern :: go_pattern

record import_scope =
  sc_local :: string
  sc_module :: string

definition zero_pattern :: go_pattern where
  "zero_pattern = \<lparr>pt_text = '''', pt_rx = RNone\<rparr>"

definition scope_matcher :: "import_scope \<Rightarrow> string \<Rightarrow> import_matcher" where
  "scope_matcher s entry =
     (if entry = std_pattern then \<lparr>im_text = entry, im_std = True, im_pattern = zero_pattern\<rparr>
      else
        let resolved = (if local_pattern entry then sc_local s @ trim_prefix entry ''.'' else entry)
        in \<lparr>im_text = entry, im_std = False, im_pattern = compile_pattern resolved\<rparr>)"

definition standard_import :: "import_scope \<Rightarrow> string \<Rightarrow> bool" where
  "standard_import s path =
     (let first = fst (cut_at slash path);
          in_module = (sc_module s \<noteq> '''' \<and> (path = sc_module s \<or> has_prefix path (sc_module s @ ''/'')))
      in path \<noteq> ''C'' \<and> CHR ''.'' \<notin> set first \<and> \<not> in_module)"

definition matches_import :: "import_scope \<Rightarrow> import_matcher \<Rightarrow> string \<Rightarrow> bool" where
  "matches_import s m path = (if im_std m then standard_import s path else pattern_match (im_pattern m) path)"

record compiled_rule =
  cp_number :: nat
  cp_rule :: module_rule
  cp_packages :: "go_pattern list"
  cp_deny :: "import_matcher list"
  cp_allow :: "import_matcher list"

definition violation :: "import_scope \<Rightarrow> compiled_rule \<Rightarrow> string \<Rightarrow> string option" where
  "violation s r path =
     (case find (\<lambda>m. matches_import s m path) (cp_deny r) of
        Some m \<Rightarrow> Some (''denied by '' @ go_quote (im_text m))
      | None \<Rightarrow>
          if cp_allow r = [] then None
          else if list_ex (\<lambda>m. matches_import s m path) (cp_allow r) then None
          else Some ''matches nothing in the allow list'')"

section \<open>imports.go: the check\<close>

text \<open>A parsed file: has it the header of generated code, and its imports with literal, line and column.\<close>

record imports_file =
  pf_generated :: bool
  pf_imports :: "(string \<times> int \<times> int) list"

record import_source =
  is_resolve :: "string \<Rightarrow> string + string"
  is_parse :: "string \<Rightarrow> string + imports_file"

definition local_name :: "string \<Rightarrow> string" where
  "local_name rel = (if rel = dot then dot else ''./'' @ rel)"

definition empty_scope :: import_scope where
  "empty_scope = \<lparr>sc_local = '''', sc_module = ''''\<rparr>"

definition widen_scope :: "import_scope \<Rightarrow> string \<Rightarrow> listed_package \<Rightarrow> import_scope" where
  "widen_scope s name p =
     s\<lparr>sc_local := (if sc_local s = '''' then trim_suffix (lp_path p) (trim_prefix name ''.'') else sc_local s),
       sc_module := (case lp_module p of Some m \<Rightarrow> if sc_module s = '''' then m else sc_module s | None \<Rightarrow> sc_module s)\<rparr>"

text \<open>The packages with the names the patterns know them by, and the scope of the import patterns.\<close>

fun place_packages :: "(string \<Rightarrow> string + string) \<Rightarrow> string \<Rightarrow> import_scope \<Rightarrow> listed_package list \<Rightarrow>
    gocheck_error + import_scope \<times> (string \<times> listed_package) list" where
  "place_packages real dir s [] = Inr (s, [])"
| "place_packages real dir s (p # ps) =
     bind_result (wrap_error GoPlain (real (lp_dir p))) (\<lambda>d.
       (case filepath_rel dir d of
          None \<Rightarrow> Inl (PackageOutside (lp_path p) dir)
        | Some rel \<Rightarrow>
            if \<not> is_local rel \<and> rel \<noteq> dot then Inl (PackageOutside (lp_path p) dir)
            else
              let name = local_name rel in
              bind_result (place_packages real dir (widen_scope s name p) ps) (\<lambda>(s', placed).
                Inr (s', (name, p\<lparr>lp_dir := d\<rparr>) # placed))))"

definition compile_rule :: "import_scope \<Rightarrow> string list \<Rightarrow> string \<Rightarrow> nat \<Rightarrow> module_rule \<Rightarrow> gocheck_error + compiled_rule" where
  "compile_rule s names shown number rule =
     bind_result (map_results (\<lambda>entry.
         if list_ex (pattern_match (compile_pattern entry)) names then Inr (compile_pattern entry)
         else Inl (PatternUnmatched number entry shown)) (mr_packages rule)) (\<lambda>packages.
       Inr \<lparr>cp_number = number, cp_rule = rule, cp_packages = packages,
            cp_deny = map (scope_matcher s) (mr_deny rule), cp_allow = map (scope_matcher s) (mr_allow rule)\<rparr>)"

definition compile_rules :: "import_scope \<Rightarrow> string list \<Rightarrow> string \<Rightarrow> module_rule list \<Rightarrow> gocheck_error + compiled_rule list" where
  "compile_rules s names shown rules =
     map_results (\<lambda>(i, rule). compile_rule s names shown (i + 1) rule) (List.enumerate 0 rules)"

definition rule_covers :: "compiled_rule \<Rightarrow> string \<Rightarrow> bool" where
  "rule_covers r name = list_ex (\<lambda>p. pattern_match p name) (cp_packages r)"

text \<open>\<open>strconv.Unquote\<close> of a string literal: a raw one loses its carriage returns.\<close>

definition unquote_literal :: "string \<Rightarrow> string option" where
  "unquote_literal s =
     (let body = butlast (tl s) in
      if length s \<ge> 2 \<and> hd s = CHR 0x60 \<and> last s = CHR 0x60
      then (if CHR 0x60 \<in> set body then None else Some (filter (\<lambda>c. c \<noteq> CHR 0x0D) body))
      else go_unquote s)"

definition import_message :: "string \<Rightarrow> string \<Rightarrow> string \<Rightarrow> module_rule \<Rightarrow> string" where
  "import_message pkg path why rule =
     pkg @ '' may not import '' @ go_quote path @ '' ('' @ why @ '' in the rule for '' @
     join_with '', '' (mr_packages rule) @ ''): '' @ mr_reason rule"

definition import_finding :: "string \<Rightarrow> string \<Rightarrow> string \<Rightarrow> compiled_rule \<Rightarrow> string \<Rightarrow> int \<Rightarrow> int \<Rightarrow> go_finding" where
  "import_finding shown pkg path rule why line column =
     \<lparr>gf_code = code_imports, gf_message = import_message pkg path why (cp_rule rule),
      gf_location = \<lparr>loc_file = shown, loc_line = line, loc_column = column\<rparr>\<rparr>"

definition spec_findings :: "import_scope \<Rightarrow> string \<Rightarrow> string \<Rightarrow> string \<Rightarrow> compiled_rule \<Rightarrow> string \<times> int \<times> int \<Rightarrow>
    gocheck_error + go_finding list" where
  "spec_findings s path shown pkg rule spec =
     (case spec of (literal, line, column) \<Rightarrow>
        case unquote_literal literal of
          None \<Rightarrow> Inl (ImportNotString path literal)
        | Some imported \<Rightarrow>
            (case violation s rule imported of
               None \<Rightarrow> Inr []
             | Some why \<Rightarrow> Inr [import_finding shown pkg imported rule why line column]))"

text \<open>\<open>importFiles.parse\<close>: each file is parsed once, however many rules name its package.\<close>

definition parse_once :: "import_source \<Rightarrow> string \<Rightarrow> imports_file gomap \<Rightarrow> gocheck_error + imports_file \<times> imports_file gomap" where
  "parse_once src path memo =
     (case map_of memo path of
        Some p \<Rightarrow> Inr (p, memo)
      | None \<Rightarrow> bind_result (wrap_error (UnreadableImports path) (is_parse src path)) (\<lambda>p. Inr (p, (path, p) # memo)))"

definition check_file :: "import_source \<Rightarrow> string \<Rightarrow> string \<Rightarrow> import_scope \<Rightarrow> string \<Rightarrow> compiled_rule \<Rightarrow> string \<Rightarrow>
    imports_file gomap \<Rightarrow> gocheck_error + go_finding list \<times> imports_file gomap" where
  "check_file src dir shown s pkg rule path memo =
     bind_result (parse_once src path memo) (\<lambda>(p, memo').
       if pf_generated p then Inr ([], memo')
       else (case filepath_rel dir path of
          None \<Rightarrow> Inl (GoPlain (''Rel: can't make '' @ path @ '' relative to '' @ dir))
        | Some rel \<Rightarrow>
            bind_result (map_results (spec_findings s path (path_join [shown, rel]) pkg rule) (pf_imports p))
              (\<lambda>found. Inr (concat found, memo'))))"

text \<open>What the loops over packages, rules and files visit, and the loops themselves.\<close>

definition import_jobs :: "compiled_rule list \<Rightarrow> (string \<times> listed_package) list \<Rightarrow> (string \<times> compiled_rule \<times> string) list" where
  "import_jobs rules placed = concat (map (\<lambda>(name, p). concat (map (\<lambda>rule.
      if rule_covers rule name
      then map (\<lambda>f. (name, rule, path_join [lp_dir p, f])) (package_files (mr_tests (cp_rule rule) \<noteq> TestsExclude) p)
      else []) rules)) placed)"

fun check_jobs :: "import_source \<Rightarrow> string \<Rightarrow> string \<Rightarrow> import_scope \<Rightarrow> imports_file gomap \<Rightarrow>
    (string \<times> compiled_rule \<times> string) list \<Rightarrow> gocheck_error + go_finding list" where
  "check_jobs src dir shown s memo [] = Inr []"
| "check_jobs src dir shown s memo ((pkg, rule, path) # jobs) =
     bind_result (check_file src dir shown s pkg rule path memo) (\<lambda>(found, memo').
       bind_result (check_jobs src dir shown s memo' jobs) (\<lambda>rest. Inr (found @ rest)))"

definition checked_names :: "compiled_rule list \<Rightarrow> string list \<Rightarrow> string list" where
  "checked_names rules names = remdups (filter (\<lambda>name. list_ex (\<lambda>r. rule_covers r name) rules) names)"

definition imports_note :: "compiled_rule list \<Rightarrow> string list \<Rightarrow> string \<Rightarrow> string" where
  "imports_note rules names shown =
     count_noun (length rules) ''rule'' @ '' checked '' @ count_noun (length (checked_names rules names)) ''package'' @
     '' in '' @ shown"

definition judge_imports :: "import_source \<Rightarrow> string \<Rightarrow> string \<Rightarrow> module_rule list \<Rightarrow> listed_package list \<Rightarrow>
    gocheck_error + go_report" where
  "judge_imports src dir shown rules packages =
     bind_result (place_packages (is_resolve src) dir empty_scope packages) (\<lambda>(s, placed).
     bind_result (compile_rules s (map fst placed) shown rules) (\<lambda>compiled.
     bind_result (check_jobs src dir shown s [] (import_jobs compiled placed)) (\<lambda>found.
       Inr \<lparr>gr_findings = sort_findings found, gr_notes = [imports_note compiled (map fst placed) shown]\<rparr>)))"

definition go_imports :: "'t go_ops \<Rightarrow> import_source \<Rightarrow> string \<Rightarrow> string \<Rightarrow> module_rule list \<Rightarrow> string list \<Rightarrow> 't \<Rightarrow>
    (gocheck_error + go_report) \<times> 't" where
  "go_imports ops src dir shown rules env t =
     (case refuse_module_rules rules of
        Some e \<Rightarrow> (Inl (GoRules e), t)
      | None \<Rightarrow>
          (case is_resolve src dir of
             Inl e \<Rightarrow> (Inl (GoPlain e), t)
           | Inr root \<Rightarrow>
               (case list_packages ops root (with_env env [''CGO_ENABLED=1'']) t of
                  (Inl e, t') \<Rightarrow> (Inl e, t')
                | (Inr packages, t') \<Rightarrow> (judge_imports src root shown rules packages, t'))))"

end
