(* ===== verification/Go_Generate.thy ===== *)
theory Go_Generate
  imports Go_Checks
begin

text \<open>
  \<open>runner/lint/gocheck\<close> generate.go: run \<open>go generate\<close> in a scratch copy and report every file it changes.
  The scratch copy is the state \<open>'t\<close>, changed by the commands alone; git is one of them. Removing the scratch
  repository afterwards is left out.
\<close>

definition max_diff_lines :: nat where "max_diff_lines = 200"
definition max_diff_bytes :: nat where "max_diff_bytes = 16384"
definition max_note_bytes :: nat where "max_note_bytes = 4096"
definition missing_tool :: string where "missing_tool = ''executable file not found''"
definition directive_text :: string where "directive_text = ''//go:generate''"

definition generate_hint :: string where
  "generate_hint = ''go-generate runs directives with the Go toolchain alone; a generator that needs another tool, '' @
     ''such as protoc, belongs in a command check (docs/check-kinds-guide.md#generated-code)''"

datatype generate_error =
    GenPlain string
  | GenListing gocheck_error
  | NeedsGoMod string string
  | NoDirectives string
  | GitExited string int string
  | GenerateFailed string
  | OddListing string
  | UnknownStatus string string

record 't generate_ops = "'t go_ops" +
  gg_no_mod :: "'t \<Rightarrow> string \<Rightarrow> string option"
  gg_read :: "'t \<Rightarrow> string \<Rightarrow> string + string"
  gg_temp :: "string + string"

section \<open>Directives\<close>

text \<open>A directive stands at the start of a line and is followed by a blank.\<close>

definition is_directive :: "string \<Rightarrow> bool" where
  "is_directive line =
     (let (rest, ok) = cut_prefix line directive_text in
      ok \<and> rest \<noteq> [] \<and> (hd rest = CHR '' '' \<or> hd rest = CHR 0x09))"

definition file_directives :: "string \<Rightarrow> nat" where
  "file_directives data = length (filter is_directive (scan_lines data))"

definition count_directives :: "(string \<Rightarrow> string + string) \<Rightarrow> listed_package list \<Rightarrow> generate_error + nat" where
  "count_directives read packages =
     bind_result (map_results (\<lambda>path. wrap_error GenPlain (read path))
       (concat (map (\<lambda>p. map (\<lambda>f. path_join [lp_dir p, f]) (package_files True p)) packages)))
       (\<lambda>datas. Inr (sum_list (map file_directives datas)))"

section \<open>The scratch repository\<close>

definition git_env :: "string list \<Rightarrow> string \<Rightarrow> string \<Rightarrow> string list" where
  "git_env env git_dir root =
     filter (\<lambda>entry. \<not> has_prefix entry ''GIT_'') env @
     [''GIT_DIR='' @ git_dir, ''GIT_WORK_TREE='' @ root, ''GIT_CONFIG_NOSYSTEM=1'', ''GIT_CONFIG_GLOBAL=/dev/null'']"

definition git_pinned :: "string list" where
  "git_pinned = [''-c'', ''core.excludesFile='', ''-c'', ''core.autocrlf=false'', ''-c'', ''core.quotePath=false'']"

record scratch_repo =
  sr_root :: string
  sr_env :: "string list"

definition scratch_git :: "('t, 'm) generate_ops_scheme \<Rightarrow> scratch_repo \<Rightarrow> string list \<Rightarrow> 't \<Rightarrow> (generate_error + string) \<times> 't" where
  "scratch_git ops r args t =
     (case gk_command ops (sr_root r) (sr_env r) (''git'' # git_pinned @ args) t of
        (Inl e, t') \<Rightarrow> (Inl (GenPlain e), t')
      | (Inr run, t') \<Rightarrow>
          (if tr_exit run \<noteq> 0 then Inl (GitExited (hd args) (tr_exit run) (tool_output run)) else Inr (tr_stdout run), t'))"

definition scratch_tree :: "('t, 'm) generate_ops_scheme \<Rightarrow> scratch_repo \<Rightarrow> 't \<Rightarrow> (generate_error + string) \<times> 't" where
  "scratch_tree ops r t =
     (case scratch_git ops r [''add'', ''--all'', ''--'', ''.''] t of
        (Inl e, t') \<Rightarrow> (Inl e, t')
      | (Inr out, t') \<Rightarrow>
          (case scratch_git ops r [''write-tree''] t' of
             (Inl e, t'') \<Rightarrow> (Inl e, t'')
           | (Inr tree, t'') \<Rightarrow> (Inr (trim_space tree), t'')))"

section \<open>One changed file\<close>

abbreviation git_added :: string where "git_added \<equiv> ''A''"
abbreviation git_deleted :: string where "git_deleted \<equiv> ''D''"
abbreviation git_modified :: string where "git_modified \<equiv> ''M''"
abbreviation git_type :: string where "git_type \<equiv> ''T''"

text \<open>
  \<open>hunkStart\<close>, the pattern \<open>(?m)^@@ -(\d+)\<close>: the digits of the first match and the text from its start on. The
  flag says that the text starts a line.
\<close>

fun hunk_start :: "bool \<Rightarrow> string \<Rightarrow> (string \<times> string) option" where
  "hunk_start begins [] = None"
| "hunk_start begins (c # s) =
     (let number = takeWhile is_digit (drop 4 (c # s)) in
      if begins \<and> has_prefix (c # s) ''@@ -'' \<and> number \<noteq> [] then Some (number, c # s)
      else hunk_start (c = CHR 0x0A) s)"

definition first_changed_line :: "string \<Rightarrow> int" where
  "first_changed_line diff =
     (case hunk_start True diff of
        None \<Rightarrow> 1
      | Some (number, from) \<Rightarrow>
          (case atoi number of
             None \<Rightarrow> 1
           | Some line \<Rightarrow>
               let hunk = fst (snd (cut_at CHR 0x0A from));
                   context = takeWhile (\<lambda>text. has_prefix text '' '') (split_at CHR 0x0A hunk)
               in max (line + int (length context)) 1))"

text \<open>\<open>strings.SplitAfter\<close> at newlines.\<close>

definition split_after_lines :: "string \<Rightarrow> string list" where
  "split_after_lines s = (let ls = split_at CHR 0x0A s in map (\<lambda>l. l @ newline) (butlast ls) @ [last ls])"

fun cap_lines :: "nat \<Rightarrow> string \<Rightarrow> string list \<Rightarrow> string" where
  "cap_lines i kept [] = kept"
| "cap_lines i kept (line # ls) =
     (if i = max_diff_lines \<or> length kept + length line > max_diff_bytes
      then kept @ newline @ ''[diff truncated: '' @ show_nat (length (line # ls)) @ '' more lines]''
      else cap_lines (Suc i) (kept @ line) ls)"

definition cap_diff :: "string \<Rightarrow> string" where
  "cap_diff diff = cap_lines 0 '''' (split_after_lines (trim_right CHR 0x0A diff))"

definition cut_note :: "string \<Rightarrow> nat \<Rightarrow> string" where
  "cut_note s limit = (if length s \<le> limit then s else take limit s @ newline @ ''[truncated]'')"

definition generate_finding :: "string \<Rightarrow> string \<Rightarrow> string \<Rightarrow> string \<Rightarrow> generate_error + go_finding" where
  "generate_finding status file_name module diff =
     (let remedy = ''run go generate ./... in '' @ module @ '' and commit the result'';
          found = (\<lambda>message line. Inr \<lparr>gf_code = code_generate, gf_message = message @ newline @ cap_diff diff,
            gf_location = \<lparr>loc_file = clean file_name, loc_line = line, loc_column = 0\<rparr>\<rparr>)
      in if status = git_added
         then found (''go generate ./... creates this file, which the repository does not have; '' @ remedy) 1
         else if status = git_deleted then found (''go generate ./... deletes this file; '' @ remedy) 1
         else if status = git_modified \<or> status = git_type
         then found (''go generate ./... changes this file; '' @ remedy) (first_changed_line diff)
         else Inl (UnknownStatus status file_name))"

section \<open>The changes between two trees\<close>

abbreviation nul :: char where "nul \<equiv> CHR 0x00"

definition listing_args :: "string \<Rightarrow> string \<Rightarrow> string list" where
  "listing_args before after = [''diff-tree'', ''-r'', ''-z'', ''--no-renames'', ''--name-status'', before, after]"

definition change_diff_args :: "string \<Rightarrow> string \<Rightarrow> string \<Rightarrow> string list" where
  "change_diff_args before after file_name = [''diff-tree'', ''-p'', ''--no-color'', ''--no-ext-diff'', ''--no-textconv'',
     ''--no-renames'', ''--unified=3'', before, after, ''--'', '':(literal)'' @ file_name]"

fun listed_findings :: "('t, 'm) generate_ops_scheme \<Rightarrow> scratch_repo \<Rightarrow> string \<Rightarrow> string \<Rightarrow> string \<Rightarrow> string list \<Rightarrow> 't \<Rightarrow>
    (generate_error + go_finding list) \<times> 't" where
  "listed_findings ops r before after module (status # file_name # entries) t =
     (case scratch_git ops r (change_diff_args before after file_name) t of
        (Inl e, t1) \<Rightarrow> (Inl e, t1)
      | (Inr diff, t1) \<Rightarrow>
          (case generate_finding status file_name module diff of
             Inl e \<Rightarrow> (Inl e, t1)
           | Inr f \<Rightarrow>
               (case listed_findings ops r before after module entries t1 of
                  (Inl e, t2) \<Rightarrow> (Inl e, t2)
                | (Inr fs, t2) \<Rightarrow> (Inr (f # fs), t2))))"
| "listed_findings ops r before after module entries t = (Inr [], t)"

definition scratch_changes :: "('t, 'm) generate_ops_scheme \<Rightarrow> scratch_repo \<Rightarrow> string \<Rightarrow> string \<Rightarrow> string \<Rightarrow> 't \<Rightarrow>
    (generate_error + go_finding list) \<times> 't" where
  "scratch_changes ops r before after module t =
     (case scratch_git ops r (listing_args before after) t of
        (Inl e, t1) \<Rightarrow> (Inl e, t1)
      | (Inr listed, t1) \<Rightarrow>
          let entries = split_at nul (trim_suffix listed [nul]) in
          if entries = [''''] then (Inr [], t1)
          else if length entries mod 2 \<noteq> 0 then (Inl (OddListing listed), t1)
          else listed_findings ops r before after module entries t1)"

section \<open>The check\<close>

definition generate_failure :: "string \<Rightarrow> tool_run \<Rightarrow> string" where
  "generate_failure module run =
     ''go generate ./... in '' @ module @ '' exited '' @ show_int (tr_exit run) @ '': '' @ tool_output run @
     (if contains (tool_output run) missing_tool then newline @ generate_hint else '''')"

definition generate_notes :: "string \<Rightarrow> nat \<Rightarrow> nat \<Rightarrow> tool_run \<Rightarrow> string list" where
  "generate_notes module directives changed run =
     [''go generate ./... in '' @ module @ '' ran '' @ count_noun directives ''directive'' @ '' and changed '' @
      count_noun changed ''file''] @
     (if tool_output run \<noteq> '''' then [''go generate output:'' @ newline @ cut_note (tool_output run) max_note_bytes] else [])"

text \<open>From the first commit of the scratch repository on.\<close>

definition generate_and_compare :: "('t, 'm) generate_ops_scheme \<Rightarrow> scratch_repo \<Rightarrow> string \<Rightarrow> string \<Rightarrow> string list \<Rightarrow> nat \<Rightarrow> 't \<Rightarrow>
    (generate_error + go_report) \<times> 't" where
  "generate_and_compare ops repo dir module env directives t =
     (case scratch_tree ops repo t of
        (Inl e, t1) \<Rightarrow> (Inl e, t1)
      | (Inr before, t1) \<Rightarrow>
          (case gk_command ops dir env [''go'', ''generate'', ''./...''] t1 of
             (Inl e, t2) \<Rightarrow> (Inl (GenPlain e), t2)
           | (Inr run, t2) \<Rightarrow>
               if tr_exit run \<noteq> 0 then (Inl (GenerateFailed (generate_failure module run)), t2)
               else (case scratch_tree ops repo t2 of
                  (Inl e, t3) \<Rightarrow> (Inl e, t3)
                | (Inr after, t3) \<Rightarrow>
                    (case scratch_changes ops repo before after module t3 of
                       (Inl e, t4) \<Rightarrow> (Inl e, t4)
                     | (Inr fs, t4) \<Rightarrow>
                         (Inr \<lparr>gr_findings = fs, gr_notes = generate_notes module directives (length fs) run\<rparr>, t4)))))"

definition go_generate :: "'t generate_ops \<Rightarrow> string \<Rightarrow> string \<Rightarrow> string list \<Rightarrow> 't \<Rightarrow> (generate_error + go_report) \<times> 't" where
  "go_generate ops root module env t =
     (let dir = path_join [root, module] in
      case gg_no_mod ops t (path_join [dir, ''go.mod'']) of
        Some e \<Rightarrow> (Inl (NeedsGoMod module e), t)
      | None \<Rightarrow>
          (case list_packages (go_ops.truncate ops) dir env t of
             (Inl e, t1) \<Rightarrow> (Inl (GenListing e), t1)
           | (Inr packages, t1) \<Rightarrow>
               (case count_directives (gg_read ops t1) packages of
                  Inl e \<Rightarrow> (Inl e, t1)
                | Inr directives \<Rightarrow>
                    if directives = 0 then (Inl (NoDirectives module), t1)
                    else (case gg_temp ops of
                       Inl e \<Rightarrow> (Inl (GenPlain e), t1)
                     | Inr git_dir \<Rightarrow>
                         let repo = \<lparr>sr_root = root, sr_env = git_env env git_dir root\<rparr> in
                         (case scratch_git ops repo [''init'', ''--quiet''] t1 of
                            (Inl e, t2) \<Rightarrow> (Inl e, t2)
                          | (Inr out, t2) \<Rightarrow> generate_and_compare ops repo dir module env directives t2)))))"

end
