(* ===== verification/Go_Check_Properties.thy ===== *)
theory Go_Check_Properties
  imports Go_Checks
begin

text \<open>
  What the import rules promise: the runner accepts the rules the CLI accepted, a pattern matches as the go
  command says, every import of a covered file is judged and each that breaks a rule is reported, and the CLI
  reads a report as the runner wrote it.
\<close>

section \<open>The rules\<close>

definition cli_rule :: "module_rule \<Rightarrow> import_rule" where
  "cli_rule r = \<lparr>ir_packages = mr_packages r, ir_deny = mr_deny r, ir_allow = mr_allow r, ir_tests = mr_tests r,
     ir_reason = mr_reason r\<rparr>"

lemma same_patterns: "path_pattern = import_path_pattern" "local_pattern = local_import_pattern"
proof -
  show path: "path_pattern = import_path_pattern"
    by (rule ext) (auto simp: path_pattern_def import_path_pattern_def contains_any_iff list_all_iff)
  show "local_pattern = local_import_pattern"
    by (rule ext) (simp add: local_pattern_def local_import_pattern_def path)
qed

lemma same_module_rule: "refuse_module_rule n r = validate_import_rule n (cli_rule r)"
  by (simp add: refuse_module_rule_def validate_import_rule_def same_patterns cli_rule_def)

lemma first_error_map: "first_error f (map g xs) = first_error (\<lambda>x. f (g x)) xs"
  by (induction xs) (simp_all add: first_error.simps del: first_error_None split: option.split)

lemma enumerate_map: "List.enumerate n (map g xs) = map (\<lambda>(i, x). (i, g x)) (List.enumerate n xs)"
  by (induction xs arbitrary: n) simp_all

text \<open>The runner refuses the rules the CLI refuses when it plans a run, with the same error.\<close>

theorem runner_accepts_planned_rules:
  "refuse_module_rules rules = validate_import_rules \<lparr>ic_rules = map cli_rule rules\<rparr>"
  by (simp add: refuse_module_rules_def validate_import_rules_def enumerate_map first_error_map same_module_rule
      case_prod_beta' del: first_of_None)

section \<open>Patterns\<close>

text \<open>
  The go command's patterns, read from the left: \<open>...\<close> stands for any text, and a final \<open>/...\<close> also for
  nothing. A name has no newline, which the wildcard does not match.
\<close>

definition no_newline :: "string \<Rightarrow> bool" where
  "no_newline s \<longleftrightarrow> CHR 0x0A \<notin> set s"

function wildcard :: "string \<Rightarrow> string \<Rightarrow> bool" where
  "wildcard [] name \<longleftrightarrow> name = []"
| "wildcard (c # s) name \<longleftrightarrow>
     (if c # s = ''/...'' then name = [] \<or> hd name = slash \<and> no_newline name
      else if has_prefix (c # s) ''...''
      then list_ex (\<lambda>k. no_newline (take k name) \<and> wildcard (drop 2 s) (drop k name)) [0..<Suc (length name)]
      else (case name of [] \<Rightarrow> False | x # rest \<Rightarrow> x = c \<and> wildcard s rest))"
  by pat_completeness auto
termination
  by (relation "measure (\<lambda>(t, name). length t)") auto

declare wildcard.simps(2) [simp del]

lemma star_dot: "w \<in> rx_lang (RStar rx_dot) \<longleftrightarrow> no_newline w"
proof -
  have "w \<in> rx_lang (RStar rx_dot) \<longleftrightarrow> w \<in> star_of {[c] | c. c \<in> - {CHR 0x0A}}" by (simp add: rx_dot_def)
  then show ?thesis unfolding star_class no_newline_def by auto
qed

lemma dot_pieces_not_Nil [simp]: "dot_pieces s \<noteq> []"
  by (induction s rule: dot_pieces.induct) (auto split: list.splits)

lemma join_dot_pieces: "join_with ''...'' (dot_pieces s) = s"
proof (induction s rule: dot_pieces.induct)
  case 1
  then show ?case by simp
next
  case (2 c s)
  show ?case
  proof (cases "has_prefix (c # s) ''...''")
    case True
    then have "c # s = ''...'' @ drop 2 s" by (auto simp: prefix_def)
    moreover obtain q qs where "dot_pieces (drop 2 s) = q # qs"
      using dot_pieces_not_Nil [of "drop 2 s"] by (cases "dot_pieces (drop 2 s)") auto
    ultimately show ?thesis using True 2(1) by simp
  next
    case False
    obtain q qs where "dot_pieces s = q # qs"
      using dot_pieces_not_Nil [of s] by (cases "dot_pieces s") auto
    then show ?thesis using False 2(2) [OF False] by (cases qs) auto
  qed
qed

lemma pieces_after_wildcard:
  "ps \<noteq> [] \<Longrightarrow> w \<in> rx_lang (pieces_rx ([] # ps)) \<longleftrightarrow> (\<exists>a b. w = a @ b \<and> no_newline a \<and> b \<in> rx_lang (pieces_rx ps))"
proof -
  assume "ps \<noteq> []"
  then have "rx_lang (pieces_rx ([] # ps)) = rx_lang (RSeq (rx_lit []) (RSeq (RStar rx_dot) (pieces_rx ps)))"
    by (cases ps rule: pieces_rx.cases) (auto simp: neq_Nil_conv)
  then have "w \<in> rx_lang (pieces_rx ([] # ps)) \<longleftrightarrow> w \<in> rx_lang (RSeq (rx_lit []) (RSeq (RStar rx_dot) (pieces_rx ps)))"
    by (simp only:)
  then show ?thesis unfolding rx_lang_seq_iff star_dot rx_lang_lit by auto
qed

lemma pieces_after_char:
  assumes "\<not> (c = slash \<and> p = [] \<and> ps = [[]])"
  shows "w \<in> rx_lang (pieces_rx ((c # p) # ps)) \<longleftrightarrow> (\<exists>v. w = c # v \<and> v \<in> rx_lang (pieces_rx (p # ps)))"
proof (cases ps)
  case Nil
  then show ?thesis by auto
next
  case (Cons q qs)
  have suffix: "qs = [] \<Longrightarrow> q = [] \<Longrightarrow> has_suffix (c # p) ''/'' \<longleftrightarrow> has_suffix p ''/''"
    using assms Cons by (cases p) (auto simp: suffix_Cons)
  show ?thesis
  proof (cases qs)
    case Nil
    show ?thesis
    proof (cases "q = [] \<and> has_suffix p ''/''")
      case True
      then have "p \<noteq> []" by auto
      then show ?thesis using True suffix Cons Nil
        by (auto simp del: rx_lang.simps(7) simp: Cons_eq_append_conv)
    next
      case False
      then have "\<not> (q = [] \<and> has_suffix (c # p) ''/'')" using suffix Nil by blast
      with False show ?thesis using Cons Nil
        by (auto simp del: rx_lang.simps(7) simp: Cons_eq_append_conv)
    qed
  next
    case (Cons r rs)
    then show ?thesis using \<open>ps = q # qs\<close>
      by (auto simp del: rx_lang.simps(7) simp: Cons_eq_append_conv)
  qed
qed

text \<open>A package or import pattern of a rule matches a path exactly as the documentation of the go command
  has it: \<open>...\<close> is any text, and \<open>x/...\<close> also matches \<open>x\<close>.\<close>

theorem pattern_is_wildcard:
  "pattern_match (compile_pattern pat) name = wildcard pat name"
proof -
  have "name \<in> rx_lang (pieces_rx (dot_pieces pat)) \<longleftrightarrow> wildcard pat name"
  proof (induction pat name rule: wildcard.induct)
    case (1 name)
    then show ?case by simp
  next
    case (2 c s name)
    consider "c # s = ''/...''" | "c # s \<noteq> ''/...''" "has_prefix (c # s) ''...''"
      | "c # s \<noteq> ''/...''" "\<not> has_prefix (c # s) ''...''" by blast
    then show ?case
    proof cases
      case 1
      have "name \<in> rx_lang (RSeq (rx_lit []) (rx_opt (RSeq (rx_lit ''/'') (RStar rx_dot)))) \<longleftrightarrow>
          name = [] \<or> hd name = slash \<and> no_newline name" for name
        unfolding rx_lang_seq_iff rx_lang_opt rx_lang_lit star_dot
        by (cases name) (auto simp: rx_lang_seq_iff star_dot no_newline_def simp del: rx_lang.simps)
      with 1 show ?thesis by (simp add: wildcard.simps suffix_def)
    next
      case 2
      have IH: "b \<in> rx_lang (pieces_rx (dot_pieces (drop 2 s))) \<longleftrightarrow> wildcard (drop 2 s) b"
        if "name = a @ b" for a b
        using "2.IH"(1) [OF 2, of "length a"] that by simp
      have "(\<exists>a b. name = a @ b \<and> no_newline a \<and> wildcard (drop 2 s) b) \<longleftrightarrow>
          list_ex (\<lambda>k. no_newline (take k name) \<and> wildcard (drop 2 s) (drop k name)) [0..<Suc (length name)]"
        unfolding list_ex_iff
        by (metis append_eq_conv_conj append_take_drop_id atLeastLessThan_iff le0 le_imp_less_Suc length_append
            le_add1 set_upt)
      then show ?thesis using 2 pieces_after_wildcard [of "dot_pieces (drop 2 s)" name] IH
        by (auto simp: wildcard.simps(2))
    next
      case 3
      obtain p ps where p: "dot_pieces s = p # ps"
        using dot_pieces_not_Nil [of s] by (cases "dot_pieces s") auto
      have "\<not> (c = slash \<and> p = [] \<and> ps = [[]])"
        using 3 p join_dot_pieces [of s] by auto
      then have "name \<in> rx_lang (pieces_rx (dot_pieces (c # s))) \<longleftrightarrow> (\<exists>v. name = c # v \<and> v \<in> rx_lang (pieces_rx (dot_pieces s)))"
        using pieces_after_char [of c p ps name] 3(2) p by (simp only: dot_pieces.simps(2) if_False list.case simp_thms)
      then show ?thesis using 3 "2.IH"(2) [OF 3] by (auto simp: wildcard.simps(2) split: list.splits)
    qed
  qed
  then show ?thesis by (simp add: pattern_match_def compile_pattern_def rx_match_lang)
qed

section \<open>Every import is judged\<close>

text \<open>What one file gives for one rule, without the memo.\<close>

definition file_findings :: "import_source \<Rightarrow> string \<Rightarrow> string \<Rightarrow> import_scope \<Rightarrow> string \<times> compiled_rule \<times> string \<Rightarrow>
    gocheck_error + go_finding list" where
  "file_findings src dir shown s job =
     (case job of (pkg, rule, path) \<Rightarrow>
        bind_result (check_file src dir shown s pkg rule path []) (\<lambda>(found, memo). Inr found))"

definition true_memo :: "import_source \<Rightarrow> imports_file gomap \<Rightarrow> bool" where
  "true_memo src memo \<longleftrightarrow> (\<forall>path p. map_of memo path = Some p \<longrightarrow> is_parse src path = Inr p)"

lemma parse_once_cases:
  assumes "true_memo src memo"
  obtains e where "is_parse src path = Inl e" "parse_once src path memo = Inl (UnreadableImports path e)"
  | p memo' where "is_parse src path = Inr p" "parse_once src path memo = Inr (p, memo')" "true_memo src memo'"
proof (cases "map_of memo path")
  case (Some p)
  then have "is_parse src path = Inr p" "parse_once src path memo = Inr (p, memo)"
    using assms by (auto simp: parse_once_def true_memo_def)
  with assms that(2) show ?thesis by blast
next
  case None
  show ?thesis
  proof (cases "is_parse src path")
    case (Inl e)
    then show ?thesis using None that(1) by (simp add: parse_once_def)
  next
    case (Inr p)
    then have "true_memo src ((path, p) # memo)" using assms by (simp add: true_memo_def)
    then show ?thesis using Inr None that(2) by (simp add: parse_once_def)
  qed
qed

definition file_verdict :: "string \<Rightarrow> string \<Rightarrow> import_scope \<Rightarrow> string \<times> compiled_rule \<times> string \<Rightarrow> imports_file \<Rightarrow>
    gocheck_error + go_finding list" where
  "file_verdict dir shown s job p =
     (case job of (pkg, rule, path) \<Rightarrow>
        if pf_generated p then Inr []
        else (case filepath_rel dir path of
           None \<Rightarrow> Inl (GoPlain (''Rel: can't make '' @ path @ '' relative to '' @ dir))
         | Some rel \<Rightarrow>
             bind_result (map_results (spec_findings s path (path_join [shown, rel]) pkg rule) (pf_imports p))
               (\<lambda>found. Inr (concat found))))"

lemma check_file_verdict:
  "check_file src dir shown s pkg rule path memo =
     bind_result (parse_once src path memo) (\<lambda>(p, memo').
       bind_result (file_verdict dir shown s (pkg, rule, path) p) (\<lambda>fs. Inr (fs, memo')))"
  by (simp add: check_file_def file_verdict_def bind_result_def split: sum.split option.split)

lemma check_file_memo:
  assumes "true_memo src memo"
  shows "(\<exists>e. check_file src dir shown s pkg rule path memo = Inl e \<and> file_findings src dir shown s (pkg, rule, path) = Inl e) \<or>
         (\<exists>fs memo'. check_file src dir shown s pkg rule path memo = Inr (fs, memo') \<and> true_memo src memo' \<and>
            file_findings src dir shown s (pkg, rule, path) = Inr fs)"
proof -
  have empty: "parse_once src path [] = wrap_error (UnreadableImports path) (bind_result (is_parse src path) (\<lambda>p. Inr (p, [(path, p)])))"
    by (cases "is_parse src path") (simp_all add: parse_once_def)
  show ?thesis
  proof (rule parse_once_cases [OF assms, of path])
    fix e
    assume "is_parse src path = Inl e" "parse_once src path memo = Inl (UnreadableImports path e)"
    then show ?thesis by (simp add: file_findings_def check_file_verdict empty)
  next
    fix p memo'
    assume "is_parse src path = Inr p" "parse_once src path memo = Inr (p, memo')" "true_memo src memo'"
    then show ?thesis
      by (cases "file_verdict dir shown s (pkg, rule, path) p") (simp_all add: file_findings_def check_file_verdict empty)
  qed
qed

lemma check_jobs_each:
  "true_memo src memo \<Longrightarrow>
   check_jobs src dir shown s memo jobs = bind_result (map_results (file_findings src dir shown s) jobs) (\<lambda>fss. Inr (concat fss))"
proof (induction jobs arbitrary: memo)
  case Nil
  then show ?case by simp
next
  case (Cons job jobs)
  obtain pkg rule path where job: "job = (pkg, rule, path)" by (cases job) auto
  from check_file_memo [OF Cons.prems, of dir shown s pkg rule path]
  show ?case
    unfolding job using Cons.IH by (auto simp: bind_result_def split: sum.splits)
qed

text \<open>The findings of a successful map: each is one of its element's.\<close>

lemma map_results_concat:
  assumes "map_results g xs = Inr yss"
  shows "(\<exists>ys \<in> set yss. f \<in> set ys) \<longleftrightarrow> (\<exists>x \<in> set xs. \<exists>ys. g x = Inr ys \<and> f \<in> set ys)"
proof -
  have "list_all2 (\<lambda>x ys. g x = Inr ys) xs yss" using assms by (simp add: map_results_Inr)
  then show ?thesis by (induction rule: list_all2_induct) auto
qed

lemma map_results_each: "map_results g xs = Inr yss \<Longrightarrow> x \<in> set xs \<Longrightarrow> \<exists>ys. g x = Inr ys"
  by (induction xs arbitrary: yss) (auto split: sum.splits)

text \<open>
  A rule as its author reads it: the entries are those of the configuration, and they match as the go command's
  patterns do, \<open>./\<close> standing for the checked directory's import path.
\<close>

definition names_import :: "import_scope \<Rightarrow> string \<Rightarrow> string \<Rightarrow> bool" where
  "names_import s entry path =
     (if entry = std_pattern then standard_import s path
      else wildcard (if local_pattern entry then sc_local s @ trim_prefix entry ''.'' else entry) path)"

definition broken_because :: "import_scope \<Rightarrow> module_rule \<Rightarrow> string \<Rightarrow> string option" where
  "broken_because s rule path =
     (case find (\<lambda>e. names_import s e path) (mr_deny rule) of
        Some e \<Rightarrow> Some (''denied by '' @ go_quote e)
      | None \<Rightarrow>
          if mr_allow rule \<noteq> [] \<and> (\<forall>e \<in> set (mr_allow rule). \<not> names_import s e path)
          then Some ''matches nothing in the allow list'' else None)"

definition covers_package :: "module_rule \<Rightarrow> string \<Rightarrow> bool" where
  "covers_package rule name \<longleftrightarrow> (\<exists>entry \<in> set (mr_packages rule). wildcard entry name)"

text \<open>
  An import that breaks a rule: the rule covers the package \<open>name\<close>, the file is one of the package's that the
  rule judges and is not generated, and the import's path is what the literal says.
\<close>

definition file_offends :: "import_source \<Rightarrow> string \<Rightarrow> string \<Rightarrow> import_scope \<Rightarrow> string \<Rightarrow> module_rule \<Rightarrow> string \<Rightarrow>
    go_finding \<Rightarrow> bool" where
  "file_offends src dir shown s name rule path f \<longleftrightarrow>
     (\<exists>pf rel. is_parse src path = Inr pf \<and> \<not> pf_generated pf \<and> filepath_rel dir path = Some rel \<and>
        (\<exists>(literal, line, column) \<in> set (pf_imports pf). \<exists>imported why.
           unquote_literal literal = Some imported \<and> broken_because s rule imported = Some why \<and>
           f = \<lparr>gf_code = code_imports, gf_message = import_message name imported why rule,
                gf_location = \<lparr>loc_file = path_join [shown, rel], loc_line = line, loc_column = column\<rparr>\<rparr>))"

definition offends :: "import_source \<Rightarrow> string \<Rightarrow> string \<Rightarrow> import_scope \<Rightarrow> module_rule list \<Rightarrow>
    (string \<times> listed_package) list \<Rightarrow> go_finding \<Rightarrow> bool" where
  "offends src dir shown s rules placed f \<longleftrightarrow>
     (\<exists>name p rule base. (name, p) \<in> set placed \<and> rule \<in> set rules \<and> covers_package rule name \<and>
        base \<in> set (package_files (mr_tests rule \<noteq> TestsExclude) p) \<and>
        file_offends src dir shown s name rule (path_join [lp_dir p, base]) f)"

lemma pattern_wildcard: "pattern_match (compile_pattern pat) = wildcard pat"
  by (rule ext) (rule pattern_is_wildcard)

lemma find_map: "find P (map g xs) = map_option g (find (P \<circ> g) xs)"
  by (induction xs) auto

lemma scope_matcher_names [simp]:
  "matches_import s (scope_matcher s entry) path = names_import s entry path"
  by (simp add: matches_import_def scope_matcher_def names_import_def pattern_is_wildcard Let_def)

lemma scope_matcher_text [simp]: "im_text (scope_matcher s entry) = entry"
  by (simp add: scope_matcher_def Let_def)

text \<open>A compiled rule judges as its source does.\<close>

definition compiled_from :: "import_scope \<Rightarrow> module_rule \<Rightarrow> compiled_rule \<Rightarrow> bool" where
  "compiled_from s rule c \<longleftrightarrow> cp_rule c = rule \<and> cp_packages c = map compile_pattern (mr_packages rule) \<and>
     cp_deny c = map (scope_matcher s) (mr_deny rule) \<and> cp_allow c = map (scope_matcher s) (mr_allow rule)"

lemma compiled_violation:
  assumes "compiled_from s rule c"
  shows "violation s c path = broken_because s rule path"
proof -
  have deny: "cp_deny c = map (scope_matcher s) (mr_deny rule)" and allow: "cp_allow c = map (scope_matcher s) (mr_allow rule)"
    using assms by (simp_all add: compiled_from_def)
  show ?thesis
    unfolding violation_def broken_because_def deny allow find_map
    by (auto simp: list_ex_iff comp_def split: option.split)
qed

lemma compiled_covers: "compiled_from s rule c \<Longrightarrow> rule_covers c name \<longleftrightarrow> covers_package rule name"
  by (auto simp: compiled_from_def rule_covers_def covers_package_def list_ex_iff pattern_is_wildcard)

lemma compile_packages:
  assumes "map_results (\<lambda>entry. if Q entry then Inr (g entry) else Inl (e entry)) xs = Inr ys"
  shows "ys = map g xs \<and> (\<forall>x \<in> set xs. Q x)"
proof -
  have "list_all2 (\<lambda>x y. (if Q x then Inr (g x) else Inl (e x)) = Inr y) xs ys" using assms by (simp add: map_results_Inr)
  then show ?thesis by (induction rule: list_all2_induct) (auto split: if_splits)
qed

lemma compile_rule_from:
  "compile_rule s names shown n rule = Inr c \<Longrightarrow> compiled_from s rule c \<and> (\<forall>entry \<in> set (mr_packages rule). list_ex (wildcard entry) names)"
  unfolding compile_rule_def bind_result_Inr pattern_wildcard
  by (auto simp: compiled_from_def dest!: compile_packages)

lemma compile_rules_from:
  assumes "compile_rules s names shown rules = Inr cs"
  shows "list_all2 (compiled_from s) rules cs"
proof -
  have "list_all2 (\<lambda>(i, rule) c. compile_rule s names shown (i + 1) rule = Inr c) (List.enumerate 0 rules) cs"
    using assms by (simp add: compile_rules_def map_results_Inr case_prod_beta')
  then have "length cs = length rules \<and> (\<forall>k < length rules. compiled_from s (rules ! k) (cs ! k))"
    by (auto simp: list_all2_conv_all_nth nth_enumerate_eq dest: compile_rule_from)
  then show ?thesis by (simp add: list_all2_conv_all_nth)
qed

lemma compiled_pairs:
  assumes "list_all2 (compiled_from s) rules cs"
  shows "c \<in> set cs \<Longrightarrow> cp_rule c \<in> set rules \<and> compiled_from s (cp_rule c) c"
    and "rule \<in> set rules \<Longrightarrow> \<exists>c \<in> set cs. compiled_from s rule c"
  using assms by (induction rule: list_all2_induct) (auto simp: compiled_from_def)

lemma job_iff:
  "(name, c, path) \<in> set (import_jobs cs placed) \<longleftrightarrow>
   (\<exists>p base. (name, p) \<in> set placed \<and> c \<in> set cs \<and> rule_covers c name \<and>
      base \<in> set (package_files (mr_tests (cp_rule c) \<noteq> TestsExclude) p) \<and> path = path_join [lp_dir p, base])"
  by (fastforce simp: import_jobs_def split: if_splits)

lemma set_sort_findings [simp]: "set (sort_findings fs) = set fs"
  by (simp add: sort_findings_def)

text \<open>What a file gives for a rule when judging it succeeded.\<close>

lemma file_finding_iff:
  assumes "file_findings src dir shown s (name, c, path) = Inr fs" "compiled_from s rule c"
  shows "f \<in> set fs \<longleftrightarrow> file_offends src dir shown s name rule path f"
proof -
  obtain pf where pf: "is_parse src path = Inr pf" and fs: "file_verdict dir shown s (name, c, path) pf = Inr fs"
    using assms by (auto simp: file_findings_def check_file_verdict parse_once_def bind_result_Inr)
  show ?thesis
  proof (cases "pf_generated pf")
    case True
    then show ?thesis using pf fs by (auto simp: file_verdict_def file_offends_def)
  next
    case False
    then obtain rel fss where rel: "filepath_rel dir path = Some rel" and fss: "fs = concat fss"
      "map_results (spec_findings s path (path_join [shown, rel]) name c) (pf_imports pf) = Inr fss"
      using fs by (auto simp: file_verdict_def bind_result_Inr split: option.splits)
    have "cp_rule c = rule" using assms(2) by (simp add: compiled_from_def)
    then have spec: "(\<exists>gs. spec_findings s path (path_join [shown, rel]) name c (literal, line, column) = Inr gs \<and> f \<in> set gs) \<longleftrightarrow>
        (\<exists>imported why. unquote_literal literal = Some imported \<and> broken_because s rule imported = Some why \<and>
          f = \<lparr>gf_code = code_imports, gf_message = import_message name imported why rule,
               gf_location = \<lparr>loc_file = path_join [shown, rel], loc_line = line, loc_column = column\<rparr>\<rparr>)" for literal line column
      by (auto simp: spec_findings_def compiled_violation [OF assms(2)] import_finding_def split: option.splits)
    show ?thesis
      using map_results_concat [OF fss(2)] spec False pf rel
      by (simp add: fss(1) file_offends_def Bex_def split_paired_Ex)
  qed
qed

lemma jobs_offend:
  assumes pairs: "list_all2 (compiled_from s) rules cs"
  shows "(\<exists>name c path. (name, c, path) \<in> set (import_jobs cs placed) \<and> file_offends src dir shown s name (cp_rule c) path f) \<longleftrightarrow>
    offends src dir shown s rules placed f" (is "?L \<longleftrightarrow> ?R")
proof
  assume ?L
  then show ?R unfolding job_iff offends_def using compiled_pairs(1) [OF pairs] compiled_covers by blast
next
  assume ?R
  then obtain name p rule base where *: "(name, p) \<in> set placed" "rule \<in> set rules" "covers_package rule name"
    "base \<in> set (package_files (mr_tests rule \<noteq> TestsExclude) p)"
    "file_offends src dir shown s name rule (path_join [lp_dir p, base]) f" by (auto simp: offends_def)
  then obtain c where c: "c \<in> set cs" "compiled_from s rule c" using compiled_pairs(2) [OF pairs] by blast
  then have "cp_rule c = rule" by (simp add: compiled_from_def)
  with * c compiled_covers [OF c(2)] show ?L unfolding job_iff by blast
qed

text \<open>The findings of a report are those of the loops over packages, rules and files.\<close>

lemma reported_jobs:
  assumes "judge_imports src dir shown rules packages = Inr report"
    and "place_packages (is_resolve src) dir empty_scope packages = Inr (s, placed)"
  shows "\<exists>cs. list_all2 (compiled_from s) rules cs \<and>
    (\<forall>f. f \<in> set (gr_findings report) \<longleftrightarrow>
      (\<exists>name c path. (name, c, path) \<in> set (import_jobs cs placed) \<and> file_offends src dir shown s name (cp_rule c) path f))"
proof -
  from assms obtain cs found where cs: "compile_rules s (map fst placed) shown rules = Inr cs"
    and found: "check_jobs src dir shown s [] (import_jobs cs placed) = Inr found"
    and report: "gr_findings report = sort_findings found"
    by (auto simp: judge_imports_def bind_result_Inr)
  have pairs: "list_all2 (compiled_from s) rules cs" by (rule compile_rules_from [OF cs])
  obtain fss where fss: "map_results (file_findings src dir shown s) (import_jobs cs placed) = Inr fss" "found = concat fss"
    using found by (auto simp: check_jobs_each true_memo_def bind_result_Inr)
  have job: "(\<exists>fs. file_findings src dir shown s (name, c, path) = Inr fs \<and> f \<in> set fs) \<longleftrightarrow>
      file_offends src dir shown s name (cp_rule c) path f"
    if "(name, c, path) \<in> set (import_jobs cs placed)" for name c path f
  proof -
    have "\<exists>fs. file_findings src dir shown s (name, c, path) = Inr fs" by (rule map_results_each [OF fss(1) that])
    then obtain fs where fs: "file_findings src dir shown s (name, c, path) = Inr fs" by blast
    have "c \<in> set cs" using that by (auto simp: job_iff)
    then show ?thesis using fs file_finding_iff [OF fs] compiled_pairs(1) [OF pairs] by auto
  qed
  have "f \<in> set (gr_findings report) \<longleftrightarrow>
      (\<exists>name c path. (name, c, path) \<in> set (import_jobs cs placed) \<and>
        (\<exists>fs. file_findings src dir shown s (name, c, path) = Inr fs \<and> f \<in> set fs))" for f
    using map_results_concat [OF fss(1)] by (simp add: report fss(2) Bex_def split_paired_Ex)
  moreover have "(\<exists>name c path. (name, c, path) \<in> set (import_jobs cs placed) \<and>
        (\<exists>fs. file_findings src dir shown s (name, c, path) = Inr fs \<and> f \<in> set fs)) \<longleftrightarrow>
      (\<exists>name c path. (name, c, path) \<in> set (import_jobs cs placed) \<and>
      file_offends src dir shown s name (cp_rule c) path f)" for f
    by (intro iff_exI conj_cong refl job)
  ultimately show ?thesis using pairs by metis
qed

text \<open>C37. The findings of an import check are exactly the imports that break a rule: nothing a rule denies in a
  file it covers is left out, and nothing else is reported. Here a rule is read from the configuration, its
  patterns as the go command's; deny wins over allow, and an allow list admits what it names alone.\<close>

theorem broken_imports_reported_exactly:
  assumes "judge_imports src dir shown rules packages = Inr report"
    and "place_packages (is_resolve src) dir empty_scope packages = Inr (s, placed)"
  shows "f \<in> set (gr_findings report) \<longleftrightarrow> offends src dir shown s rules placed f"
proof -
  obtain cs where "list_all2 (compiled_from s) rules cs" and reported: "\<forall>f. f \<in> set (gr_findings report) \<longleftrightarrow>
      (\<exists>name c path. (name, c, path) \<in> set (import_jobs cs placed) \<and> file_offends src dir shown s name (cp_rule c) path f)"
    using reported_jobs [OF assms] by blast
  from jobs_offend [OF this(1)] reported show ?thesis by blast
qed

text \<open>A rule whose patterns match no package is an error, so that no rule silently checks nothing.\<close>

theorem import_rules_are_not_vacuous:
  assumes "judge_imports src dir shown rules packages = Inr report"
    and "place_packages (is_resolve src) dir empty_scope packages = Inr (s, placed)"
    and "rule \<in> set rules" and "entry \<in> set (mr_packages rule)"
  shows "\<exists>(name, p) \<in> set placed. wildcard entry name"
proof -
  from assms obtain cs where cs: "compile_rules s (map fst placed) shown rules = Inr cs"
    by (auto simp: judge_imports_def bind_result_Inr)
  obtain i where "i < length rules" "rules ! i = rule" using assms(3) by (auto simp: in_set_conv_nth)
  then have "(i, rule) \<in> set (List.enumerate 0 rules)" by (simp add: in_set_enumerate_eq)
  with map_results_each [OF cs [unfolded compile_rules_def]] obtain c where
    "compile_rule s (map fst placed) shown (i + 1) rule = Inr c" by fastforce
  from compile_rule_from [OF this] assms(4) show ?thesis by (fastforce simp: list_ex_iff)
qed

section \<open>The report the CLI reads\<close>

text \<open>The findings and notes that decoding a report gives.\<close>

definition read_finding :: "go_finding \<Rightarrow> finding" where
  "read_finding f = tool_finding (gf_code f) (gf_message f) (gf_location f)"

definition decodes_report :: "(string \<Rightarrow> gocheck_output option) \<Rightarrow> go_report \<Rightarrow> bool" where
  "decodes_report decode r \<longleftrightarrow> decode (json_text (go_report_json r) @ newline) =
     Some \<lparr>go_findings = Some (map read_finding (gr_findings r)), go_notes = gr_notes r, go_trailing = False\<rparr>"

definition written_run :: "go_report \<Rightarrow> tool_run" where
  "written_run r = \<lparr>tr_exit = fst (write_report (\<lambda>_. None) r), tr_stdout = json_text (go_report_json r) @ newline, tr_stderr = ''''\<rparr>"

definition presentable :: "string \<Rightarrow> go_finding \<Rightarrow> bool" where
  "presentable code f \<longleftrightarrow> gf_code f = code \<and> gf_message f \<noteq> '''' \<and> loc_file (gf_location f) \<noteq> '''' \<and>
     1 \<le> loc_line (gf_location f)"

lemma written_report_read:
  assumes "decodes_report decode r" and "\<forall>f \<in> set (gr_findings r). presentable (tool_kind_text kind) f"
  shows "gocheck_report decode kind (written_run r) = Inr (map read_finding (gr_findings r), gr_notes r)"
proof -
  have "find (\<lambda>f. fd_code f \<noteq> tool_kind_text kind \<or> fd_message f = '''' \<or> loc_file (fd_location f) = '''' \<or>
      loc_line (fd_location f) < 1) (map read_finding (gr_findings r)) = None"
    using assms(2) by (auto simp: find_None_iff presentable_def read_finding_def tool_finding_def)
  moreover have "trim_space '''' = ''''" by (simp add: trim_space_def)
  ultimately show ?thesis
    using assms(1)
    by (cases "gr_findings r")
      (simp_all add: gocheck_report_def written_run_def write_report_def decodes_report_def exit_findings_def exit_clean_def Let_def)
qed

definition parser_counts_lines :: "import_source \<Rightarrow> bool" where
  "parser_counts_lines src \<longleftrightarrow>
     (\<forall>path pf. is_parse src path = Inr pf \<longrightarrow> list_all (\<lambda>(literal, line, column). 1 \<le> line) (pf_imports pf))"

lemma clean_parts_no_empty: "[] \<notin> set acc \<Longrightarrow> [] \<notin> set (clean_parts rooted acc ps)"
  by (induction rooted acc ps rule: clean_parts.induct) (auto split: list.splits)

lemma clean_not_empty: "clean p \<noteq> []"
proof -
  have "unparts (x # xs) \<noteq> []" if "x \<noteq> []" for x and xs :: "string list" using that by (cases xs) auto
  then show ?thesis
    using clean_parts_no_empty [of "[]" False "parts p"] by (auto simp: clean_def split: list.splits)
qed

lemma path_join_not_empty: "p \<noteq> [] \<Longrightarrow> path_join (p # ps) \<noteq> []"
  by (simp add: path_join_def clean_not_empty)

text \<open>Each finding of the check has a message, a place and the check's code.\<close>

lemma offence_presentable:
  assumes "file_offends src dir shown s name rule path f" "shown \<noteq> ''''" "parser_counts_lines src"
  shows "presentable code_imports f"
  using assms path_join_not_empty
  by (fastforce simp: file_offends_def presentable_def import_message_def parser_counts_lines_def list_all_iff)

lemma imports_report_presentable:
  assumes "judge_imports src dir shown rules packages = Inr report" "shown \<noteq> ''''" "parser_counts_lines src"
  shows "\<forall>f \<in> set (gr_findings report). presentable code_imports f"
proof -
  obtain s placed where placed: "place_packages (is_resolve src) dir empty_scope packages = Inr (s, placed)"
    using assms(1) by (auto simp: judge_imports_def bind_result_Inr)
  show ?thesis
    using reported_jobs [OF assms(1) placed] offence_presentable assms(2,3) by metis
qed

text \<open>What the import check reports, the CLI reads: the exit code agrees with the findings, each has the
  check's code, a message and a place, and the CLI's own strict reader gives the findings and notes the check
  wrote, never a tool error and never a pass with findings lost. Only the round trip of \<open>encoding/json\<close> and that
  the Go parser counts lines from 1 are assumed.\<close>

theorem import_report_reaches_cli:
  assumes "go_imports ops src dir shown rules env t = (Inr report, t')" and "shown \<noteq> ''''"
    and "parser_counts_lines src" and "decodes_report decode report"
  shows "gocheck_report decode KindGoImports (written_run report) = Inr (map read_finding (gr_findings report), gr_notes report)"
proof -
  obtain root packages where "judge_imports src root shown rules packages = Inr report"
    using assms(1) by (auto simp: go_imports_def split: option.splits sum.splits prod.splits)
  from imports_report_presentable [OF this assms(2,3)] show ?thesis
    by (intro written_report_read assms(4)) simp
qed

section \<open>An example\<close>

text \<open>A module of one package whose rule denies \<open>os\<close>, and a file that imports \<open>os\<close> and \<open>fmt\<close>.\<close>

definition example_package :: listed_package where
  "example_package = \<lparr>lp_dir = ''/src'', lp_path = ''app'', lp_name = ''app'', lp_go_files = [''a.go''], lp_cgo_files = [],
     lp_test_files = [], lp_xtest_files = [], lp_module = Some ''app''\<rparr>"

definition example_rules :: "module_rule list" where
  "example_rules = [\<lparr>mr_packages = [''./...''], mr_deny = [''os''], mr_allow = [''std''], mr_tests = '''', mr_reason = ''pure''\<rparr>]"

definition example_source :: import_source where
  "example_source = \<lparr>is_resolve = Inr, is_parse = (\<lambda>path. if path = ''/src/a.go''
     then Inr \<lparr>pf_generated = False, pf_imports = [(go_quote ''os'', 3, 8), (go_quote ''fmt'', 4, 8)]\<rparr> else Inl ''none'')\<rparr>"

definition imports_ops_example :: "unit go_ops" where
  "imports_ops_example = \<lparr>gk_command = (\<lambda>dir env argv t. (Inr \<lparr>tr_exit = 0, tr_stdout = '''', tr_stderr = ''''\<rparr>, t)),
     gk_packages = (\<lambda>out. Inr [example_package])\<rparr>"

definition example_offence :: go_finding where
  "example_offence = \<lparr>gf_code = ''go-imports'',
     gf_message = ''. may not import '' @ go_quote ''os'' @ '' (denied by '' @ go_quote ''os'' @ '' in the rule for ./...): pure'',
     gf_location = \<lparr>loc_file = ''app/a.go'', loc_line = 3, loc_column = 8\<rparr>\<rparr>"

definition example_report :: go_report where
  "example_report = \<lparr>gr_findings = [example_offence], gr_notes = [''1 rule checked 1 package in app'']\<rparr>"

lemma example_placed:
  "place_packages (is_resolve example_source) ''/src'' empty_scope [example_package] =
     Inr (\<lparr>sc_local = ''app'', sc_module = ''app''\<rparr>, [(dot, example_package)])"
  by code_simp

lemma example_judged:
  "judge_imports example_source ''/src'' ''app'' example_rules [example_package] = Inr example_report"
  by code_simp

lemma example_checked: "go_imports imports_ops_example example_source ''/src'' ''app'' example_rules [] () = (Inr example_report, ())"
  by code_simp

lemma violation_is_reported: "example_offence \<in> set (gr_findings example_report)"
  by (simp add: example_report_def)

theorem broken_imports_reported_exactly_witness:
  "example_offence \<in> set (gr_findings example_report) \<and>
   offends example_source ''/src'' ''app'' \<lparr>sc_local = ''app'', sc_module = ''app''\<rparr> example_rules [(dot, example_package)] example_offence"
  using broken_imports_reported_exactly [OF example_judged example_placed, of example_offence] violation_is_reported by blast

definition example_decode :: "string \<Rightarrow> gocheck_output option" where
  "example_decode s = Some \<lparr>go_findings = Some (map read_finding (gr_findings example_report)),
     go_notes = gr_notes example_report, go_trailing = False\<rparr>"

lemma example_lines: "parser_counts_lines example_source"
  by (auto simp: parser_counts_lines_def example_source_def)

theorem import_report_reaches_cli_witness:
  "gocheck_report example_decode KindGoImports (written_run example_report) =
     Inr (map read_finding [example_offence], [''1 rule checked 1 package in app''])"
  using import_report_reaches_cli [OF example_checked _ example_lines, of example_decode]
  by (simp add: decodes_report_def example_decode_def example_report_def)

end
