(* ===== verification/Go_Generate_Properties.thy ===== *)
theory Go_Generate_Properties
  imports Go_Generate Go_Check_Properties
begin

text \<open>
  What the check of generated code promises: it reports each file that \<open>go generate\<close> changed and no other, at
  the line of the repository's file where the difference begins, with as much of the diff as a report holds.
\<close>

section \<open>The listing of changed files\<close>

text \<open>What \<open>git diff-tree -z --name-status\<close> prints for the files it lists.\<close>

definition print_listing :: "(string \<times> string) list \<Rightarrow> string" where
  "print_listing es = concat (map (\<lambda>(status, f). status @ [nul] @ f @ [nul]) es)"

definition listable :: "string \<times> string \<Rightarrow> bool" where
  "listable e \<longleftrightarrow> fst e \<in> {git_added, git_deleted, git_modified, git_type} \<and> nul \<notin> set (snd e) \<and> snd e \<noteq> ''''"

lemma listing_parts:
  assumes "list_all listable es" and "es \<noteq> []"
  shows "split_at nul (trim_suffix (print_listing es) [nul]) = concat (map (\<lambda>(status, f). [status, f]) es)"
  using assms
proof (induction es)
  case Nil
  then show ?case by simp
next
  case (Cons e es)
  obtain status f where e: "e = (status, f)" by (cases e) auto
  have clear: "nul \<notin> set status" "nul \<notin> set f" using Cons.prems(1) by (auto simp: e listable_def)
  show ?case
  proof (cases es)
    case Nil
    have "print_listing [e] = (status @ [nul] @ f) @ [nul]" by (simp add: print_listing_def e)
    then have "trim_suffix (print_listing [e]) [nul] = status @ nul # f"
      by (simp only: trim_suffix_def cut_suffix_append) simp
    then show ?thesis using clear Nil by (simp add: e split_at_append_sep split_at_no_sep)
  next
    case (Cons e' es')
    then obtain ys y where "es = ys @ [y]" by (metis rev_exhaust list.distinct(1))
    then have "print_listing es = (print_listing ys @ fst y @ nul # snd y) @ [nul]"
      by (simp add: print_listing_def split_beta)
    then obtain body where body: "print_listing es = body @ [nul]" by blast
    have "print_listing (e # es) = (status @ nul # f @ nul # body) @ [nul]"
      using body by (simp add: print_listing_def e)
    then have "trim_suffix (print_listing (e # es)) [nul] = status @ nul # f @ nul # body"
      by (simp only: trim_suffix_def cut_suffix_append fst_conv)
    moreover have "trim_suffix (print_listing es) [nul] = body"
      by (simp only: body trim_suffix_def cut_suffix_append fst_conv)
    ultimately show ?thesis using clear Cons.IH Cons.prems(1) Cons by (simp add: e split_at_append_sep)
  qed
qed

lemma generate_finding_file:
  "generate_finding status f module diff = Inr g \<Longrightarrow> loc_file (gf_location g) = clean f"
  by (auto simp: generate_finding_def Let_def split: if_splits)

lemma listed_findings_files:
  "listed_findings ops r before after module (concat (map (\<lambda>(status, f). [status, f]) es)) t = (Inr fs, t') \<Longrightarrow>
   map (\<lambda>g. loc_file (gf_location g)) fs = map (\<lambda>e. clean (snd e)) es"
proof (induction es arbitrary: t fs)
  case Nil
  then show ?case by simp
next
  case (Cons e es)
  then show ?case
    by (cases e) (auto dest: generate_finding_file split: prod.splits sum.splits)
qed

lemma scratch_changes_files:
  assumes "scratch_changes ops r before after module t = (Inr fs, t')"
    and "scratch_git ops r (listing_args before after) t = (Inr (print_listing es), t1)" and "list_all listable es"
  shows "map (\<lambda>g. loc_file (gf_location g)) fs = map (\<lambda>e. clean (snd e)) es"
proof (cases "es = []")
  case True
  then show ?thesis using assms by (simp add: scratch_changes_def print_listing_def trim_suffix_def cut_suffix_def)
next
  case False
  let ?entries = "concat (map (\<lambda>(status, f). [status, f]) es)"
  have parts: "split_at nul (trim_suffix (print_listing es) [nul]) = ?entries"
    by (rule listing_parts [OF assms(3) False])
  have "?entries \<noteq> ['''']" using False assms(3) by (cases es) (auto simp: listable_def)
  moreover have "length ?entries mod 2 = 0" by (induction es) (auto simp: case_prod_beta)
  ultimately have "listed_findings ops r before after module ?entries t1 = (Inr fs, t')"
    using assms(1,2) by (simp add: scratch_changes_def parts Let_def)
  then show ?thesis by (rule listed_findings_files)
qed

section \<open>Trees\<close>

text \<open>
  A tree is the files git tracks with their contents. \<open>tree_changes\<close> is how two trees differ, by path;
  \<open>git_records\<close> says that git works: the tree it writes is the work tree as it is, which its commands leave
  alone, and comparing two trees lists how they differ.
\<close>

type_synonym file_tree = "string gomap"

definition change_status :: "file_tree \<Rightarrow> file_tree \<Rightarrow> string \<Rightarrow> string" where
  "change_status a b f =
     (if map_of a f = None then git_added else if map_of b f = None then git_deleted else git_modified)"

definition tree_changes :: "file_tree \<Rightarrow> file_tree \<Rightarrow> (string \<times> string) list" where
  "tree_changes a b = map (\<lambda>f. (change_status a b f, f)) (filter (\<lambda>f. map_of a f \<noteq> map_of b f) (sorted_keys (a @ b)))"

lemma tree_changes_paths: "snd ` set (tree_changes a b) = {f. map_of a f \<noteq> map_of b f}"
proof -
  have "f \<in> fst ` set (a @ b)" if "map_of a f \<noteq> map_of b f" for f
    using that by (metis Un_iff image_Un map_of_eq_None_iff set_append)
  then show ?thesis by (fastforce simp: tree_changes_def image_image)
qed

definition proper_tree :: "file_tree \<Rightarrow> bool" where
  "proper_tree a \<longleftrightarrow> list_all (\<lambda>(f, data). f \<noteq> '''' \<and> nul \<notin> set f) a"

lemma tree_changes_listable: "proper_tree a \<Longrightarrow> proper_tree b \<Longrightarrow> list_all listable (tree_changes a b)"
  by (fastforce simp: tree_changes_def listable_def change_status_def proper_tree_def list_all_iff)

definition git_records :: "('t, 'm) generate_ops_scheme \<Rightarrow> scratch_repo \<Rightarrow> ('t \<Rightarrow> file_tree) \<Rightarrow> (string \<Rightarrow> file_tree) \<Rightarrow> bool" where
  "git_records ops r files tree \<longleftrightarrow>
     (\<forall>t. proper_tree (files t)) \<and>
     (\<forall>t name t'. scratch_tree ops r t = (Inr name, t') \<longrightarrow> tree name = files t \<and> files t' = files t) \<and>
     (\<forall>t before after out t'. scratch_git ops r (listing_args before after) t = (Inr out, t') \<longrightarrow>
        out = print_listing (tree_changes (tree before) (tree after)))"


section \<open>Where a finding points\<close>

definition no_hunk :: "string \<Rightarrow> bool" where
  "no_hunk line \<longleftrightarrow> \<not> has_prefix line ''@@ -''"

definition lines_text :: "string list \<Rightarrow> string" where
  "lines_text ls = concat (map (\<lambda>l. l @ newline) ls)"

lemma prefix_before_newline:
  "prefix p (line @ CHR 0x0A # rest) \<Longrightarrow> CHR 0x0A \<notin> set p \<Longrightarrow> prefix p line"
proof -
  assume "prefix p (line @ CHR 0x0A # rest)" and p: "CHR 0x0A \<notin> set p"
  then consider "prefix p line" | q where "p = line @ q" "prefix q (CHR 0x0A # rest)"
    by (auto simp: prefix_append)
  then show ?thesis
  proof cases
    case 1
    then show ?thesis .
  next
    case 2
    then show ?thesis using p by (cases q) auto
  qed
qed

lemma hunk_start_skip:
  assumes "CHR 0x0A \<notin> set line" "\<not> begins \<or> no_hunk line"
  shows "hunk_start begins (line @ CHR 0x0A # rest) = hunk_start True rest"
  using assms
proof (induction line arbitrary: begins)
  case Nil
  then show ?case by (simp add: prefix_def)
next
  case (Cons c line)
  have "\<not> (begins \<and> has_prefix (c # line @ CHR 0x0A # rest) ''@@ -'')"
    using Cons.prems(2) prefix_before_newline [of "''@@ -''" "c # line" rest] by (auto simp: no_hunk_def)
  then show ?case using Cons.prems Cons.IH [of False] by (auto simp: Let_def)
qed

lemma hunk_start_header:
  "list_all (\<lambda>l. CHR 0x0A \<notin> set l \<and> no_hunk l) header \<Longrightarrow>
   hunk_start True (lines_text header @ rest) = hunk_start True rest"
  by (induction header) (simp_all add: lines_text_def newline_def hunk_start_skip)

lemma split_printed:
  "list_all (\<lambda>l. CHR 0x0A \<notin> set l) ls \<Longrightarrow> split_at CHR 0x0A (lines_text ls @ rest) = ls @ split_at CHR 0x0A rest"
  by (induction ls) (simp_all add: lines_text_def newline_def split_at_append_sep)

lemma take_number:
  assumes "tail \<noteq> []" "\<not> is_digit (hd tail)"
  shows "takeWhile is_digit (show_nat n @ tail) = show_nat n"
  using assms show_nat_digits by (cases tail) (auto simp: takeWhile_append2)

text \<open>The finding for a modified file is placed at the first line of the repository's file that differs: the old
  start of the diff's first hunk, past the unchanged lines the hunk begins with. Header lines do not count, whatever
  they hold, and a hunk of a file that was empty is placed at line 1.\<close>

theorem first_difference_located:
  assumes "list_all (\<lambda>l. CHR 0x0A \<notin> set l \<and> no_hunk l) header"
    and "list_all (\<lambda>l. CHR 0x0A \<notin> set l \<and> has_prefix l '' '') context_lines"
    and "changed \<noteq> []" and "hd changed \<noteq> CHR '' ''"
    and "tail \<noteq> []" and "\<not> is_digit (hd tail)" and "CHR 0x0A \<notin> set tail" and "n < 2 ^ 63"
  shows "first_changed_line (lines_text header @ ''@@ -'' @ show_nat n @ tail @ newline @ lines_text context_lines @ changed) =
    max (int (n + length context_lines)) 1"
proof -
  let ?body = "lines_text context_lines @ changed"
  let ?hunk = "''@@ -'' @ show_nat n @ tail @ newline @ ?body"
  have number: "takeWhile is_digit (drop 4 ?hunk) = show_nat n"
    using take_number [of "tail @ newline @ ?body" n] assms(5,6) by simp
  have found: "hunk_start True (lines_text header @ ?hunk) = Some (show_nat n, ?hunk)"
    unfolding hunk_start_header [OF assms(1)] using number show_nat_nonempty [of n] by (simp add: Let_def)
  let ?title = "''@@ -'' @ show_nat n @ tail"
  have "CHR 0x0A \<notin> set (show_nat n)" using show_nat_digits [of "CHR 0x0A" n] by (auto simp: is_digit_def)
  then have title: "CHR 0x0A \<notin> set ?title" using assms(7) by simp
  have after: "fst (snd (cut_at CHR 0x0A ?hunk)) = ?body"
  proof -
    have "?hunk = ?title @ CHR 0x0A # ?body" by (simp add: newline_def)
    moreover have "dropWhile (\<lambda>x. x \<noteq> CHR 0x0A) (?title @ CHR 0x0A # ?body) = CHR 0x0A # ?body"
      using title by (subst dropWhile_append2) auto
    ultimately show ?thesis by (simp only: cut_at_def) simp
  qed
  have "takeWhile (\<lambda>l. has_prefix l '' '') (context_lines @ split_at CHR 0x0A changed) = context_lines"
  proof -
    obtain l ls where l: "split_at CHR 0x0A changed = l # ls" using split_at_not_Nil [of "CHR 0x0A" changed] by (cases "split_at CHR 0x0A changed") auto
    have "\<not> has_prefix l '' ''" using l assms(3,4) by (cases changed) (auto split: if_splits list.splits)
    then show ?thesis using l assms(2) by (simp add: takeWhile_append2 list_all_iff)
  qed
  then have "length (takeWhile (\<lambda>l. has_prefix l '' '') (split_at CHR 0x0A ?body)) = length context_lines"
    using assms(2) split_printed [of context_lines changed] by (simp add: list_all_iff)
  then show ?thesis
    using found after atoi_show_nat [of n] assms(8) by (simp add: first_changed_line_def Let_def)
qed

section \<open>How much of a diff a finding holds\<close>

definition diff_marker :: "nat \<Rightarrow> string" where
  "diff_marker n = newline @ ''[diff truncated: '' @ show_nat n @ '' more lines]''"

lemma cap_lines_keeps:
  "i \<le> max_diff_lines \<Longrightarrow> length kept \<le> max_diff_bytes \<Longrightarrow>
   \<exists>n \<le> length ls. i + n \<le> max_diff_lines \<and> length (kept @ concat (take n ls)) \<le> max_diff_bytes \<and>
     cap_lines i kept ls = kept @ concat (take n ls) @ (if n = length ls then '''' else diff_marker (length ls - n))"
proof (induction i kept ls rule: cap_lines.induct)
  case (1 i kept)
  then show ?case by simp
next
  case (2 i kept line ls)
  show ?case
  proof (cases "i = max_diff_lines \<or> length kept + length line > max_diff_bytes")
    case True
    then show ?thesis using "2.prems" by (intro exI [of _ 0]) (auto simp: diff_marker_def)
  next
    case False
    then obtain n where "n \<le> length ls" "Suc i + n \<le> max_diff_lines"
      "length ((kept @ line) @ concat (take n ls)) \<le> max_diff_bytes"
      "cap_lines (Suc i) (kept @ line) ls = (kept @ line) @ concat (take n ls) @ (if n = length ls then '''' else diff_marker (length ls - n))"
      using "2.IH" "2.prems" by force
    then show ?thesis using False by (intro exI [of _ "Suc n"]) auto
  qed
qed

text \<open>A finding holds the start of the diff in whole lines, at most 200 of them and 16 KiB, and says how many lines
  are left out, if any are.\<close>

theorem diff_is_capped:
  "\<exists>n ls. ls = split_after_lines (trim_right CHR 0x0A diff) \<and> n \<le> length ls \<and> n \<le> max_diff_lines \<and>
     length (concat (take n ls)) \<le> max_diff_bytes \<and>
     cap_diff diff = concat (take n ls) @ (if n = length ls then '''' else diff_marker (length ls - n))"
  using cap_lines_keeps [of 0 "''''" "split_after_lines (trim_right CHR 0x0A diff)"]
  by (simp add: cap_diff_def max_diff_lines_def max_diff_bytes_def)

section \<open>An example\<close>

text \<open>A repository with one stale file, which \<open>go generate\<close> rewrites; the state says whether it has run.\<close>

definition generated_files :: "bool \<Rightarrow> file_tree" where
  "generated_files generated = [(''a.go'', if generated then ''new'' else ''old'')]"

definition generated_tree :: "string \<Rightarrow> file_tree" where
  "generated_tree name = generated_files (name = ''after'')"

definition example_generate :: "string \<Rightarrow> string list \<Rightarrow> string list \<Rightarrow> bool \<Rightarrow> (string + tool_run) \<times> bool" where
  "example_generate dir env argv generated =
     (let out = (\<lambda>s. Inr \<lparr>tr_exit = 0, tr_stdout = s, tr_stderr = ''''\<rparr>); args = drop 7 argv in
      if argv = [''go'', ''generate'', ''./...''] then (out '''', True)
      else if args = [''write-tree''] then (out (if generated then ''after'' else ''before''), generated)
      else if take 5 args = [''diff-tree'', ''-r'', ''-z'', ''--no-renames'', ''--name-status'']
      then (out (print_listing (tree_changes (generated_tree (args ! 5)) (generated_tree (args ! 6)))), generated)
      else (out '''', generated))"

definition example_generate_ops :: "bool generate_ops" where
  "example_generate_ops = \<lparr>gk_command = example_generate, gk_packages = (\<lambda>out. Inr []), gg_no_mod = (\<lambda>t f. None),
     gg_read = (\<lambda>t f. Inl ''none''), gg_temp = Inr ''/tmp/git''\<rparr>"

definition example_repo :: scratch_repo where
  "example_repo = \<lparr>sr_root = ''/work'', sr_env = []\<rparr>"

lemma example_git:
  "scratch_git example_generate_ops example_repo args t =
     (case example_generate ''/work'' [] (''git'' # git_pinned @ args) t of
        (Inl e, t') \<Rightarrow> (Inl (GenPlain e), t')
      | (Inr run, t') \<Rightarrow>
          (if tr_exit run \<noteq> 0 then Inl (GitExited (hd args) (tr_exit run) (tool_output run)) else Inr (tr_stdout run), t'))"
  by (simp add: scratch_git_def example_generate_ops_def example_repo_def)

lemma example_writes: "scratch_tree example_generate_ops example_repo t = (Inr (if t then ''after'' else ''before''), t)"
  by (cases t) (simp_all add: scratch_tree_def example_git example_generate_def git_pinned_def Let_def
      trim_space_def is_space_def)

lemma example_lists:
  "scratch_git example_generate_ops example_repo (listing_args before after) t =
     (Inr (print_listing (tree_changes (generated_tree before) (generated_tree after))), t)"
  by (simp add: example_git example_generate_def git_pinned_def listing_args_def Let_def)

lemma generator_records: "git_records example_generate_ops example_repo generated_files generated_tree"
  unfolding git_records_def example_writes example_lists
  by (auto simp: proper_tree_def generated_files_def generated_tree_def)

definition generated_report :: go_report where
  "generated_report = \<lparr>gr_findings = [\<lparr>gf_code = ''go-generate'',
       gf_message = ''go generate ./... changes this file; run go generate ./... in . and commit the result'' @ newline,
       gf_location = \<lparr>loc_file = ''a.go'', loc_line = 1, loc_column = 0\<rparr>\<rparr>],
     gr_notes = [''go generate ./... in . ran 1 directive and changed 1 file'']\<rparr>"

lemma example_generated:
  "generate_and_compare example_generate_ops example_repo ''/work'' ''.'' [] 1 False = (Inr generated_report, True)"
  by code_simp


theorem first_difference_located_witness:
  "first_changed_line (lines_text [''diff --git a/x b/x'', ''+++ b/x''] @ ''@@ -'' @ show_nat 10 @ '',4 +10,4 @@'' @ newline @
     lines_text ['' a'', '' b''] @ ''-c'') = 12"
  using first_difference_located [of "[''diff --git a/x b/x'', ''+++ b/x'']" "['' a'', '' b'']" "''-c''" "'',4 +10,4 @@''" 10]
  by (simp add: no_hunk_def is_digit_def less_eq_char_def)

end
