(* ===== verification/Go_Apidiff.thy ===== *)
theory Go_Apidiff
  imports Go_Checks
begin

text \<open>
  \<open>runner/lint/gocheck\<close> apidiff.go: compare the exported API of a module at two trees with apidiff, and report each
  incompatible change at the declaration it concerns. The commands are those of \<open>go_ops\<close>; reading and parsing files
  are the operations of \<open>apidiff_source\<close>, which the commands, writing export data elsewhere, do not affect. A
  position of the parser is a line and a column.
\<close>

abbreviation incompatible_header :: string where "incompatible_header \<equiv> ''Incompatible changes:''"
abbreviation compatible_header :: string where "compatible_header \<equiv> ''Compatible changes:''"

definition ignored_internal :: string where "ignored_internal = ''Ignoring internal package ''"
definition max_compatible_notes :: nat where "max_compatible_notes = 100"

record api_change =
  ap_message :: string
  ap_compatible :: bool

section \<open>Syntax trees, as far as a declaration's place needs them\<close>

type_synonym go_pos = "int \<times> int"

datatype recv_expr = StarExpr recv_expr | IndexExpr recv_expr | Ident string | OtherExpr

datatype go_spec = TypeSpec string go_pos | ValueSpec "(string \<times> go_pos) list" | ImportSpec

text \<open>A function has the types of its receivers, if it is a method.\<close>

datatype go_decl = FuncDecl "recv_expr list option" string go_pos | GenDecl "go_spec list"

record syntax_file =
  fi_name :: string
  fi_package :: go_pos
  fi_decls :: "go_decl list"

fun receiver_base :: "recv_expr \<Rightarrow> string" where
  "receiver_base (StarExpr e) = receiver_base e"
| "receiver_base (IndexExpr e) = receiver_base e"
| "receiver_base (Ident n) = n"
| "receiver_base OtherExpr = ''''"

definition receiver :: "recv_expr list \<Rightarrow> string" where
  "receiver es = (case es of [] \<Rightarrow> '''' | e # rest \<Rightarrow> receiver_base e)"

fun method_in :: "string \<Rightarrow> string \<Rightarrow> go_decl list \<Rightarrow> go_pos option" where
  "method_in name member [] = None"
| "method_in name member (FuncDecl (Some recv) fn pos # decls) =
     (if fn = member \<and> receiver recv = name then Some pos else method_in name member decls)"
| "method_in name member (decl # decls) = method_in name member decls"

definition method_of :: "string \<Rightarrow> string \<Rightarrow> syntax_file \<Rightarrow> go_pos option" where
  "method_of name member f = (if name = '''' \<or> member = '''' then None else method_in name member (fi_decls f))"

fun declared_spec :: "string \<Rightarrow> go_spec list \<Rightarrow> go_pos option" where
  "declared_spec name [] = None"
| "declared_spec name (TypeSpec n pos # specs) = (if n = name then Some pos else declared_spec name specs)"
| "declared_spec name (ValueSpec idents # specs) =
     (case find (\<lambda>i. fst i = name) idents of Some i \<Rightarrow> Some (snd i) | None \<Rightarrow> declared_spec name specs)"
| "declared_spec name (ImportSpec # specs) = declared_spec name specs"

fun declared_in :: "string \<Rightarrow> go_decl list \<Rightarrow> go_pos option" where
  "declared_in name [] = None"
| "declared_in name (FuncDecl recv fn pos # decls) =
     (if recv = None \<and> fn = name then Some pos else declared_in name decls)"
| "declared_in name (GenDecl specs # decls) =
     (case declared_spec name specs of Some pos \<Rightarrow> Some pos | None \<Rightarrow> declared_in name decls)"

definition declared :: "string \<Rightarrow> syntax_file \<Rightarrow> go_pos option" where
  "declared name f = (if name = '''' then None else declared_in name (fi_decls f))"

section \<open>The report of apidiff\<close>

text \<open>\<open>ParseAPIChanges\<close>, line by line, with the section the lines are in.\<close>

definition trim_line :: "string \<Rightarrow> string" where
  "trim_line line = rev (dropWhile (\<lambda>c. c = CHR 0x0D \<or> c = CHR 0x0A) (rev line))"

definition repeated_object :: "string \<Rightarrow> bool" where
  "repeated_object line \<longleftrightarrow> has_prefix line ''! second, different message'' \<or> has_prefix line ''  first:'' \<or>
     has_prefix line ''  second:''"

fun parse_change_lines :: "string \<Rightarrow> string list \<Rightarrow> string + api_change list" where
  "parse_change_lines sect [] = Inr []"
| "parse_change_lines sect (l # ls) =
     (let line = trim_line l in
      if line = '''' then parse_change_lines sect ls
      else if line = incompatible_header \<or> line = compatible_header then parse_change_lines line ls
      else if repeated_object line then parse_change_lines sect ls
      else if has_prefix line ''- '' \<and> sect \<noteq> ''''
      then bind_result (parse_change_lines sect ls) (\<lambda>cs.
        Inr (\<lparr>ap_message = trim_prefix line ''- '', ap_compatible = (sect = compatible_header)\<rparr> # cs))
      else Inl line)"

definition parse_api_changes :: "string \<Rightarrow> string + api_change list" where
  "parse_api_changes report = parse_change_lines '''' (split_at CHR 0x0A report)"

text \<open>\<open>strings.Cut\<close> at a colon and a blank, and \<open>strings.Index\<close> of a dot.\<close>

definition before_colon :: "string \<Rightarrow> string" where
  "before_colon s = (case cut_text '': '' s of None \<Rightarrow> s | Some (before, after) \<Rightarrow> before)"

definition dot_index :: "string \<Rightarrow> nat option" where
  "dot_index s = (if CHR ''.'' \<in> set s then Some (length (takeWhile (\<lambda>c. c \<noteq> CHR ''.'') s)) else None)"

definition change_subject :: "string \<Rightarrow> string \<Rightarrow> string \<times> string" where
  "change_subject message module =
     (case cut_prefix message ''package '' of
        (rest, True) \<Rightarrow> (before_colon rest, '''')
      | (_, False) \<Rightarrow>
          let subject = before_colon message; (rest, is_local) = cut_prefix subject ''./'' in
          if \<not> is_local \<and> slash \<notin> set subject then (module, subject)
          else
            let begin_at = (case last_index slash rest of None \<Rightarrow> 0 | Some i \<Rightarrow> Suc i) in
            (case dot_index (drop begin_at rest) of
               None \<Rightarrow> (module, '''')
             | Some d \<Rightarrow>
                 let pkg = take (begin_at + d) rest; object = drop (begin_at + d + 1) rest in
                 (if is_local then module @ ''/'' @ pkg else pkg, object)))"

section \<open>The place of a declaration\<close>

text \<open>
  The letters and digits of Unicode: every byte beyond ASCII counts as part of a name, since the messages name Go
  identifiers.
\<close>

definition name_char :: "char \<Rightarrow> bool" where
  "name_char c \<longleftrightarrow> word_char c \<or> 128 \<le> (of_char c :: nat)"

definition object_names :: "string \<Rightarrow> string \<times> string" where
  "object_names object_text =
     (let obj = dropWhile (\<lambda>c. c = CHR ''('' \<or> c = CHR ''*'') object_text in
      if list_all name_char obj then (obj, '''')
      else
        let name = takeWhile name_char obj; rest = dropWhile name_char obj;
            rest1 = (if has_prefix rest ''['' \<and> CHR '']'' \<in> set rest then tl (dropWhile (\<lambda>c. c \<noteq> CHR '']'') rest) else rest);
            rest2 = dropWhile (\<lambda>c. c = CHR '')'') rest1
        in (name, takeWhile name_char (trim_prefix rest2 ''.'')))"

record apidiff_source =
  as_read :: "string \<Rightarrow> string + string"
  as_module_path :: "string \<Rightarrow> string"
  as_missing :: "string \<Rightarrow> bool"
  as_regular :: "string \<Rightarrow> bool"
  as_temp :: "string + string"
  as_dir :: "string \<Rightarrow> (string \<times> bool) list option"
  as_parse :: "string \<Rightarrow> syntax_file option"

definition parsed_files :: "apidiff_source \<Rightarrow> string \<Rightarrow> (string \<times> bool) list \<Rightarrow> syntax_file list" where
  "parsed_files src dir dir_entries = List.map_filter (\<lambda>(name, is_dir).
      if is_dir \<or> \<not> has_suffix name ''.go'' \<or> has_suffix name ''_test.go'' then None
      else as_parse src (path_join [dir, name])) dir_entries"

definition place_at :: "string \<Rightarrow> syntax_file \<Rightarrow> go_pos \<Rightarrow> location" where
  "place_at dir f pos = \<lparr>loc_file = path_join [dir, base_name (fi_name f)], loc_line = fst pos, loc_column = snd pos\<rparr>"

text \<open>The first of the files in which the lookup finds the object.\<close>

definition first_place :: "string \<Rightarrow> (syntax_file \<Rightarrow> go_pos option) \<Rightarrow> syntax_file list \<Rightarrow> location option" where
  "first_place dir lookup files = (case find (\<lambda>f. lookup f \<noteq> None) files of
      None \<Rightarrow> None | Some f \<Rightarrow> Some (place_at dir f (the (lookup f))))"

definition declaration_of :: "apidiff_source \<Rightarrow> string \<Rightarrow> string \<Rightarrow> string \<Rightarrow> string \<Rightarrow> string \<Rightarrow> location" where
  "declaration_of src head_tree module mod_path pkg object_text =
     (let (rel, ok) = cut_prefix pkg mod_path;
          fallback = \<lparr>loc_file = path_join [module, ''go.mod''], loc_line = 1, loc_column = 0\<rparr>
      in if \<not> ok \<or> (rel \<noteq> '''' \<and> \<not> has_prefix rel ''/'') then fallback
         else
           let dir = path_join [module, trim_prefix rel ''/''] in
           (case as_dir src (path_join [head_tree, dir]) of
              None \<Rightarrow> fallback
            | Some dir_entries \<Rightarrow>
                (case parsed_files src (path_join [head_tree, dir]) dir_entries of
                   [] \<Rightarrow> fallback
                 | f # fs \<Rightarrow>
                     let (name, member) = object_names object_text in
                     (case first_place dir (method_of name member) (f # fs) of
                        Some loc \<Rightarrow> loc
                      | None \<Rightarrow>
                          (case first_place dir (declared name) (f # fs) of
                             Some loc \<Rightarrow> loc
                           | None \<Rightarrow> place_at dir f (fi_package f))))))"

section \<open>The check\<close>

datatype apidiff_error =
    ApiPlain string
  | ApiNoMod string
  | ApiNoModulePath string
  | ApiNotLoaded string string
  | ApiListing string gocheck_error
  | ApiExited int string
  | ApiWarning string
  | ApiUnread string

definition module_path :: "apidiff_source \<Rightarrow> string \<Rightarrow> apidiff_error + string" where
  "module_path src dir =
     bind_result (wrap_error ApiNoMod (as_read src (path_join [dir, ''go.mod'']))) (\<lambda>data.
       if as_module_path src data = '''' then Inl (ApiNoModulePath (path_join [dir, ''go.mod'']))
       else Inr (as_module_path src data))"

definition work_file :: "apidiff_source \<Rightarrow> string \<Rightarrow> string \<Rightarrow> string" where
  "work_file src root workspace =
     (if workspace = '''' \<or> workspace = ''off'' then ''off''
      else let work = path_join [root, workspace] in if as_regular src work then work else ''off'')"

record apidiff_side =
  si_name :: string
  si_dir :: string
  si_env :: "string list"
  si_export :: string

text \<open>The export data of one side and which of its packages are commands.\<close>

definition load_side :: "'t go_ops \<Rightarrow> string \<Rightarrow> string \<Rightarrow> apidiff_side \<Rightarrow> 't \<Rightarrow> (apidiff_error + bool gomap) \<times> 't" where
  "load_side ops tool mod_path side t =
     (case gk_command ops (si_dir side) (si_env side) [tool, ''-m'', ''-w'', si_export side, mod_path] t of
        (Inl e, t1) \<Rightarrow> (Inl (ApiPlain e), t1)
      | (Inr wrote, t1) \<Rightarrow>
          if tr_exit wrote \<noteq> 0 then (Inl (ApiNotLoaded (si_name side) (tool_output wrote)), t1)
          else (case list_packages ops (si_dir side) (si_env side) t1 of
             (Inl e, t2) \<Rightarrow> (Inl (ApiListing (si_name side) e), t2)
           | (Inr packages, t2) \<Rightarrow> (Inr (rev (map (\<lambda>p. (lp_path p, lp_name p = ''main'')) packages)), t2)))"

definition is_main :: "bool gomap \<Rightarrow> string \<Rightarrow> bool" where
  "is_main mains pkg = (map_of mains pkg = Some True)"

definition unexpected_warning :: "string \<Rightarrow> bool" where
  "unexpected_warning err = list_ex (\<lambda>line. trim_space line \<noteq> '''' \<and> \<not> has_prefix (trim_space line) ignored_internal)
     (split_at CHR 0x0A err)"

text \<open>What \<open>apidiff\<close> says of the two exports.\<close>

definition compared_changes :: "tool_run \<Rightarrow> apidiff_error + api_change list" where
  "compared_changes run =
     (if tr_exit run \<noteq> 0 then Inl (ApiExited (tr_exit run) (tool_output run))
      else if unexpected_warning (tr_stderr run) then Inl (ApiWarning (tool_output run))
      else wrap_error ApiUnread (parse_api_changes (tr_stdout run)))"

text \<open>Nothing imports a command: its changes do not count, nor do additions to a package that is one now.\<close>

definition counts_change :: "bool gomap \<Rightarrow> bool gomap \<Rightarrow> string \<Rightarrow> api_change \<Rightarrow> bool" where
  "counts_change base_mains head_mains mod_path c =
     (let pkg = fst (change_subject (ap_message c) mod_path)
      in \<not> (is_main base_mains pkg \<or> (ap_compatible c \<and> is_main head_mains pkg)))"

definition change_finding :: "apidiff_source \<Rightarrow> string \<Rightarrow> string \<Rightarrow> string \<Rightarrow> api_change \<Rightarrow> go_finding" where
  "change_finding src head_tree module mod_path c =
     (case change_subject (ap_message c) mod_path of (pkg, object_text) \<Rightarrow>
        \<lparr>gf_code = code_apidiff,
         gf_message = ''incompatible change to the exported API of '' @ pkg @ '': '' @ ap_message c,
         gf_location = declaration_of src head_tree module mod_path pkg object_text\<rparr>)"

definition apidiff_notes :: "nat \<Rightarrow> string list \<Rightarrow> string \<Rightarrow> string list" where
  "apidiff_notes findings compatible mod_path =
     [show_nat findings @ '' incompatible and '' @ count_noun (length compatible) ''compatible change'' @
      '' to the exported API of '' @ mod_path @ ''; internal and main packages are not compared''] @
     map (\<lambda>c. ''compatible: '' @ c) (take max_compatible_notes compatible) @
     (if length compatible > max_compatible_notes
      then [''compatible: ['' @ show_nat (length compatible - max_compatible_notes) @ '' more]''] else [])"

definition apidiff_report :: "apidiff_source \<Rightarrow> string \<Rightarrow> string \<Rightarrow> string \<Rightarrow> bool gomap \<Rightarrow> bool gomap \<Rightarrow> api_change list \<Rightarrow> go_report" where
  "apidiff_report src head_tree module mod_path base_mains head_mains changes =
     (let counted = filter (counts_change base_mains head_mains mod_path) changes;
          findings = map (change_finding src head_tree module mod_path) (filter (\<lambda>c. \<not> ap_compatible c) counted);
          compatible = sort (map ap_message (filter ap_compatible counted))
      in \<lparr>gr_findings = sort_findings findings, gr_notes = apidiff_notes (length findings) compatible mod_path\<rparr>)"

definition compare_sides :: "'t go_ops \<Rightarrow> apidiff_source \<Rightarrow> string \<Rightarrow> string \<Rightarrow> string \<Rightarrow> string \<Rightarrow> string list \<Rightarrow>
    apidiff_side \<Rightarrow> apidiff_side \<Rightarrow> 't \<Rightarrow> (apidiff_error + go_report) \<times> 't" where
  "compare_sides ops src tool head_tree module mod_path env base_side head_side t =
     (case load_side ops tool mod_path base_side t of
        (Inl e, t1) \<Rightarrow> (Inl e, t1)
      | (Inr base_mains, t1) \<Rightarrow>
          (case load_side ops tool mod_path head_side t1 of
             (Inl e, t2) \<Rightarrow> (Inl e, t2)
           | (Inr head_mains, t2) \<Rightarrow>
               (case gk_command ops (si_dir head_side) env [tool, ''-m'', si_export base_side, si_export head_side] t2 of
                  (Inl e, t3) \<Rightarrow> (Inl (ApiPlain e), t3)
                | (Inr compared, t3) \<Rightarrow>
                    (bind_result (compared_changes compared) (\<lambda>changes.
                       Inr (apidiff_report src head_tree module mod_path base_mains head_mains changes)), t3))))"

definition go_apidiff :: "'t go_ops \<Rightarrow> apidiff_source \<Rightarrow> string \<Rightarrow> string \<Rightarrow> string \<Rightarrow> string \<Rightarrow> string \<Rightarrow> string list \<Rightarrow> 't \<Rightarrow>
    (apidiff_error + go_report) \<times> 't" where
  "go_apidiff ops src tool base head_tree module workspace env t =
     (let head_dir = path_join [head_tree, module]; base_dir = path_join [base, module] in
      case module_path src head_dir of
        Inl e \<Rightarrow> (Inl e, t)
      | Inr head_path \<Rightarrow>
          if as_missing src (path_join [base_dir, ''go.mod''])
          then (Inr \<lparr>gr_findings = [], gr_notes = [''module '' @ head_path @
                  '' did not exist at the base, so it has no API to break'']\<rparr>, t)
          else (case module_path src base_dir of
             Inl e \<Rightarrow> (Inl e, t)
           | Inr base_path \<Rightarrow>
               if base_path \<noteq> head_path
               then (Inr \<lparr>gr_findings = [], gr_notes = [''the module path changed from '' @ base_path @ '' to '' @ head_path @
                       '', so importers of the old path are unaffected; nothing was compared'']\<rparr>, t)
               else (case as_temp src of
                  Inl e \<Rightarrow> (Inl (ApiPlain e), t)
                | Inr exports \<Rightarrow>
                    compare_sides ops src tool head_tree module head_path env
                      \<lparr>si_name = ''base'', si_dir = base_dir, si_env = with_env env [''GOWORK='' @ work_file src base workspace],
                       si_export = path_join [exports, ''base'']\<rparr>
                      \<lparr>si_name = ''head'', si_dir = head_dir, si_env = with_env env [''GOWORK='' @ work_file src head_tree workspace],
                       si_export = path_join [exports, ''head'']\<rparr> t)))"

end
