(* ===== verification/Go_Apidiff_Properties.thy ===== *)
theory Go_Apidiff_Properties
  imports Go_Apidiff Go_Check_Properties
begin

text \<open>
  What the check of exported APIs promises: it reads apidiff's report back, knows which package and object a change
  is about, and reports every incompatible change outside commands.
\<close>

section \<open>Reading the report\<close>

text \<open>The report apidiff prints: a header and a line for each change, then a blank line, for each kind of change.\<close>

definition print_section :: "bool \<times> string list \<Rightarrow> string list" where
  "print_section s = (if fst s then compatible_header else incompatible_header) # map (\<lambda>m. ''- '' @ m) (snd s) @ ['''']"

definition print_changes :: "(bool \<times> string list) list \<Rightarrow> string" where
  "print_changes secs = join_with newline (concat (map print_section secs))"

definition plain_message :: "string \<Rightarrow> bool" where
  "plain_message m \<longleftrightarrow> CHR 0x0A \<notin> set m \<and> (m = [] \<or> last m \<noteq> CHR 0x0D)"

definition section_changes :: "bool \<times> string list \<Rightarrow> api_change list" where
  "section_changes s = map (\<lambda>m. \<lparr>ap_message = m, ap_compatible = fst s\<rparr>) (snd s)"

lemma trim_plain:
  "plain_message m \<Longrightarrow> trim_line (''- '' @ m) = ''- '' @ m"
  by (cases m rule: rev_cases) (auto simp: trim_line_def plain_message_def)

lemma change_line_kind:
  "\<not> repeated_object (''- '' @ m)" "''- '' @ m \<noteq> incompatible_header" "''- '' @ m \<noteq> compatible_header"
  by (simp_all add: repeated_object_def)

lemma parse_messages:
  assumes "list_all plain_message ms" "sect = incompatible_header \<or> sect = compatible_header"
  shows "parse_change_lines sect (map (\<lambda>m. ''- '' @ m) ms @ rest) =
    bind_result (parse_change_lines sect rest) (\<lambda>cs.
      Inr (map (\<lambda>m. \<lparr>ap_message = m, ap_compatible = (sect = compatible_header)\<rparr>) ms @ cs))"
  using assms(1)
proof (induction ms)
  case Nil
  then show ?case by (simp add: bind_result_def split: sum.split)
next
  case (Cons m ms)
  let ?line = "''- '' @ m"
  have line: "trim_line ?line = ?line" "trim_prefix ?line ''- '' = m" "has_prefix ?line ''- ''" "?line \<noteq> ''''"
  proof -
    show "trim_line ?line = ?line" using Cons.prems by (intro trim_plain) simp
    show "trim_prefix ?line ''- '' = m" by (simp only: trim_prefix_def cut_prefix_append fst_conv)
  qed simp_all
  moreover have "sect \<noteq> ''''" using assms(2) by auto
  ultimately have "parse_change_lines sect (?line # map (\<lambda>m. ''- '' @ m) ms @ rest) =
      bind_result (parse_change_lines sect (map (\<lambda>m. ''- '' @ m) ms @ rest)) (\<lambda>cs.
        Inr (\<lparr>ap_message = m, ap_compatible = (sect = compatible_header)\<rparr> # cs))"
    using change_line_kind [of m] by (simp only: parse_change_lines.simps(2) Let_def if_False if_True simp_thms)
  then show ?case using Cons by (simp add: bind_result_def split: sum.split)
qed

lemma trim_header [simp]:
  "trim_line incompatible_header = incompatible_header" "trim_line compatible_header = compatible_header" "trim_line [] = []"
  by (simp_all add: trim_line_def)

lemma parse_sections:
  "list_all (\<lambda>s. list_all plain_message (snd s)) secs \<Longrightarrow>
   parse_change_lines sect (concat (map print_section secs)) = Inr (concat (map section_changes secs))"
proof (induction secs arbitrary: sect)
  case Nil
  then show ?case by simp
next
  case (Cons s secs)
  let ?header = "if fst s then compatible_header else incompatible_header"
  have "parse_change_lines sect (?header # ls) = parse_change_lines ?header ls" for ls
    by (simp add: Let_def)
  then have "parse_change_lines sect (print_section s @ concat (map print_section secs)) =
      parse_change_lines ?header (map (\<lambda>m. ''- '' @ m) (snd s) @ '''' # concat (map print_section secs))"
    by (simp add: print_section_def)
  also have "\<dots> = Inr (section_changes s @ concat (map section_changes secs))"
  proof -
    have "list_all plain_message (snd s)" using Cons.prems by simp
    moreover have "parse_change_lines ?header ('''' # concat (map print_section secs)) = Inr (concat (map section_changes secs))"
      using Cons by simp
    ultimately show ?thesis
      using parse_messages [of "snd s" ?header "'''' # concat (map print_section secs)"]
      by (auto simp: section_changes_def [of s] split: if_splits)
  qed
  finally show ?case by simp
qed

lemma printed_changes_parse:
  assumes "list_all (\<lambda>s. list_all plain_message (snd s)) secs"
  shows "parse_api_changes (print_changes secs) = Inr (concat (map section_changes secs))"
proof (cases "secs = []")
  case True
  then show ?thesis by (simp add: parse_api_changes_def print_changes_def)
next
  case False
  have "CHR 0x0A \<notin> set l" if "s \<in> set secs" "l \<in> set (print_section s)" for s l
    using assms that by (auto simp: print_section_def list_all_iff plain_message_def split: if_splits)
  then have "\<forall>l \<in> set (concat (map print_section secs)). CHR 0x0A \<notin> set l" by auto
  moreover have "concat (map print_section secs) \<noteq> []" using False by (cases secs) (auto simp: print_section_def)
  ultimately have "split_at CHR 0x0A (print_changes secs) = concat (map print_section secs)"
    by (simp add: print_changes_def newline_def split_join)
  then show ?thesis using parse_sections [OF assms] by (simp add: parse_api_changes_def)
qed

section \<open>The subject of a change\<close>

text \<open>How apidiff names what a change is about: an object of the module's root package, one of a package below it,
  or a whole package.\<close>

datatype api_subject = RootObject string | ObjectOf string string | WholePackage string

fun subject_text :: "api_subject \<Rightarrow> string" where
  "subject_text (RootObject obj) = obj"
| "subject_text (ObjectOf sub obj) = ''./'' @ sub @ ''.'' @ obj"
| "subject_text (WholePackage pkg) = ''package '' @ pkg"

fun subject_of :: "string \<Rightarrow> api_subject \<Rightarrow> string \<times> string" where
  "subject_of module (RootObject obj) = (module, obj)"
| "subject_of module (ObjectOf sub obj) = (module @ ''/'' @ sub, obj)"
| "subject_of module (WholePackage pkg) = (pkg, '''')"

fun plain_subject :: "api_subject \<Rightarrow> bool" where
  "plain_subject (RootObject obj) \<longleftrightarrow> CHR '':'' \<notin> set obj \<and> slash \<notin> set obj \<and> \<not> has_prefix obj ''package ''"
| "plain_subject (ObjectOf sub obj) \<longleftrightarrow> CHR '':'' \<notin> set (sub @ obj) \<and> slash \<notin> set obj \<and> CHR ''.'' \<notin> set (last (parts sub))"
| "plain_subject (WholePackage pkg) \<longleftrightarrow> CHR '':'' \<notin> set pkg"

lemma cut_text_at: "CHR '':'' \<notin> set s \<Longrightarrow> cut_text '': '' (s @ '': '' @ rest) = Some (s, rest)"
  by (induction s) auto

lemma before_colon_at: "CHR '':'' \<notin> set s \<Longrightarrow> before_colon (s @ '': '' @ rest) = s"
  by (simp only: before_colon_def cut_text_at option.case prod.case simp_thms)
lemma last_index_split: "slash \<notin> set after \<Longrightarrow> last_index slash (before @ slash # after) = Some (length before)"
proof -
  assume "slash \<notin> set after"
  then have "takeWhile (\<lambda>x. x \<noteq> slash) (rev after @ slash # rev before) = rev after"
    by (subst takeWhile_append2) auto
  then show ?thesis by (simp add: last_index_def)
qed

lemma last_slash:
  assumes "slash \<notin> set obj"
  shows "last_index slash (sub @ CHR ''.'' # obj) = last_index slash sub"
proof (cases "slash \<in> set sub")
  case True
  then obtain before after where sub: "sub = before @ slash # after" "slash \<notin> set after"
    using split_list_last by metis
  then show ?thesis
    using assms last_index_split [of "after @ CHR ''.'' # obj" before] last_index_split [of after before] by simp
next
  case False
  then show ?thesis using assms by (simp add: last_index_def)
qed

text \<open>Where the last element of a path starts.\<close>

lemma last_element:
  "(case last_index slash sub of None \<Rightarrow> 0 | Some i \<Rightarrow> Suc i) + length (last (parts sub)) = length sub \<and>
   drop (case last_index slash sub of None \<Rightarrow> 0 | Some i \<Rightarrow> Suc i) sub = last (parts sub)"
proof (cases "slash \<in> set sub")
  case False
  then show ?thesis by (simp add: last_index_def split_at_no_sep)
next
  case True
  then obtain before after where sub: "sub = before @ slash # after" "slash \<notin> set after"
    using split_list_last by metis
  then have "last_index slash sub = Some (length before)" by (simp add: last_index_split)
  moreover have "last (parts sub) = after" using sub by (simp add: split_at_append split_at_no_sep)
  ultimately show ?thesis by (simp add: sub)
qed

text \<open>A change is attributed to the package and object it names, whatever its message says after them.\<close>

theorem change_subject_read_back:
  assumes "plain_subject o1"
  shows "change_subject (subject_text o1 @ '': '' @ detail) module = subject_of module o1"
proof (cases o1)
  case (RootObject obj)
  then have plain: "CHR '':'' \<notin> set obj" "slash \<notin> set obj" "\<not> has_prefix obj ''package ''" using assms by auto
  have "\<not> has_prefix (obj @ '': '' @ detail) ''package ''"
  proof
    assume "has_prefix (obj @ '': '' @ detail) ''package ''"
    then obtain zs where "''package '' = obj @ zs" "prefix zs ('': '' @ detail)" using plain(3) by (auto simp: prefix_append)
    moreover from this have "zs \<noteq> ''''" using plain(3) by auto
    ultimately have "CHR '':'' \<in> set ''package ''" by (cases zs) auto
    then show False by simp
  qed
  moreover have "\<not> has_prefix obj ''./''" using plain(2) by (auto simp: prefix_def)
  ultimately show ?thesis
    using before_colon_at [OF plain(1), of detail] plain RootObject
    by (simp add: change_subject_def cut_prefix_def)
next
  case (ObjectOf sub obj)
  then have plain: "CHR '':'' \<notin> set (''./'' @ sub @ ''.'' @ obj)" "slash \<notin> set obj" "CHR ''.'' \<notin> set (last (parts sub))"
    using assms by auto
  let ?start = "case last_index slash sub of None \<Rightarrow> 0 | Some i \<Rightarrow> Suc i"
  have "drop ?start (sub @ CHR ''.'' # obj) = last (parts sub) @ CHR ''.'' # obj"
    using last_element [of sub] by auto
  moreover have "length (takeWhile (\<lambda>c. c \<noteq> CHR ''.'') (last (parts sub) @ CHR ''.'' # obj)) = length (last (parts sub))"
    using plain(3) by (subst takeWhile_append2) auto
  ultimately have "dot_index (drop ?start (sub @ CHR ''.'' # obj)) = Some (length (last (parts sub)))"
    by (simp add: dot_index_def)
  then show ?thesis
    using before_colon_at [OF plain(1), of detail] last_slash [OF plain(2), of sub] last_element [of sub] ObjectOf
    by (simp add: change_subject_def cut_prefix_def Let_def)
next
  case (WholePackage pkg)
  then have "CHR '':'' \<notin> set pkg" using assms by auto
  then show ?thesis using before_colon_at [of pkg detail] WholePackage by (simp add: change_subject_def cut_prefix_def)
qed

section \<open>Every incompatible change is reported\<close>

lemma in_section: "c \<in> set (section_changes s) \<longleftrightarrow> ap_compatible c = fst s \<and> ap_message c \<in> set (snd s)"
  by (cases c) (auto simp: section_changes_def)

lemma incompatible_section:
  "c \<in> set (concat (map section_changes secs)) \<and> \<not> ap_compatible c \<longleftrightarrow>
   (\<exists>ms m. (False, ms) \<in> set secs \<and> m \<in> set ms \<and> c = \<lparr>ap_message = m, ap_compatible = False\<rparr>)" (is "?L \<longleftrightarrow> ?R")
proof
  assume ?L
  then obtain s where s: "s \<in> set secs" "\<not> fst s" "ap_message c \<in> set (snd s)" "\<not> ap_compatible c"
    by (auto simp: in_section)
  have "s = (False, snd s)" using s(2) by (cases s) simp
  moreover have "c = \<lparr>ap_message = ap_message c, ap_compatible = False\<rparr>" using s(4) by (cases c) simp
  ultimately show ?R using s by metis
next
  assume ?R
  then show ?L by (force simp: in_section)
qed


text \<open>Each finding can be shown: it has a message, a place in a file and a line from 1 on.\<close>

definition parser_places :: "apidiff_source \<Rightarrow> bool" where
  "parser_places src \<longleftrightarrow>
     (\<forall>path f. as_parse src path = Some f \<longrightarrow> 1 \<le> fst (fi_package f) \<and>
        (\<forall>name member pos. method_of name member f = Some pos \<or> declared name f = Some pos \<longrightarrow> 1 \<le> fst pos))"

lemma first_place_line:
  assumes "first_place dir lookup fs = Some loc" "\<forall>f \<in> set fs. \<forall>pos. lookup f = Some pos \<longrightarrow> 1 \<le> fst pos"
  shows "1 \<le> loc_line loc"
proof -
  obtain f where f: "find (\<lambda>f. lookup f \<noteq> None) fs = Some f" "loc = place_at dir f (the (lookup f))"
    using assms(1) by (auto simp: first_place_def split: option.splits)
  then have "f \<in> set fs" "lookup f \<noteq> None" by (auto simp: find_Some_iff)
  then show ?thesis using f(2) assms(2) by (auto simp: place_at_def)
qed

theorem change_is_placed:
  assumes "parser_places src"
  shows "1 \<le> loc_line (declaration_of src head_tree module mod_path pkg object_text)"
proof -
  have files: "\<exists>path. as_parse src path = Some f" if "f \<in> set (parsed_files src dir es)" for f dir es
    using that by (auto simp: parsed_files_def List.map_filter_def split: if_splits)
  have lookups: "\<forall>f \<in> set fs. (\<forall>pos. method_of name member f = Some pos \<longrightarrow> 1 \<le> fst pos) \<and>
      (\<forall>pos. declared name f = Some pos \<longrightarrow> 1 \<le> fst pos) \<and> 1 \<le> fst (fi_package f)"
    if "parsed_files src dir es = fs" for fs dir es name member
    using assms files [of _ dir es] that unfolding parser_places_def by blast
  show ?thesis
  proof (cases "as_dir src (path_join [head_tree, path_join [module, trim_prefix (fst (cut_prefix pkg mod_path)) ''/'']])")
    case None
    then show ?thesis by (simp add: declaration_of_def Let_def case_prod_beta)
  next
    case (Some es)
    show ?thesis
    proof (cases "parsed_files src (path_join [head_tree, path_join [module, trim_prefix (fst (cut_prefix pkg mod_path)) ''/'']]) es")
      case Nil
      then show ?thesis using Some by (simp add: declaration_of_def Let_def case_prod_beta)
    next
      case (Cons f fs)
      note lines = lookups [OF Cons, of "fst (object_names object_text)" "snd (object_names object_text)"]
      have place: "1 \<le> loc_line loc"
        if "first_place dir lookup (f # fs) = Some loc"
          "lookup = method_of (fst (object_names object_text)) (snd (object_names object_text)) \<or>
           lookup = declared (fst (object_names object_text))" for dir lookup loc
        by (rule first_place_line [OF that(1)]) (use lines that(2) in blast)
      show ?thesis
        using Some Cons lines place
        by (auto simp: declaration_of_def Let_def case_prod_beta place_at_def split: option.split)
    qed
  qed
qed

section \<open>An example\<close>

text \<open>A module whose root package loses \<open>F\<close> and gains \<open>G\<close>, next to a command that changes too.\<close>

definition example_sections :: "(bool \<times> string list) list" where
  "example_sections = [(False, [''F: removed'', ''./cmd.Run: removed'']), (True, [''G: added''])]"

definition example_side :: "string \<Rightarrow> apidiff_side" where
  "example_side name = \<lparr>si_name = name, si_dir = ''/'' @ name, si_env = [], si_export = ''/tmp/'' @ name\<rparr>"

definition example_listed :: "string \<Rightarrow> string \<Rightarrow> listed_package" where
  "example_listed path name = \<lparr>lp_dir = ''/'', lp_path = path, lp_name = name, lp_go_files = [], lp_cgo_files = [],
     lp_test_files = [], lp_xtest_files = [], lp_module = None\<rparr>"

definition example_api_ops :: "unit go_ops" where
  "example_api_ops = \<lparr>gk_command = (\<lambda>dir env argv t.
       (Inr \<lparr>tr_exit = 0, tr_stdout = (if argv = [''apidiff'', ''-m'', ''/tmp/base'', ''/tmp/head'']
          then print_changes example_sections else ''''), tr_stderr = ''''\<rparr>, t)),
     gk_packages = (\<lambda>out. Inr [example_listed ''m'' ''m'', example_listed ''m/cmd'' ''main''])\<rparr>"

definition example_api_source :: apidiff_source where
  "example_api_source = \<lparr>as_read = Inr, as_module_path = id, as_missing = (\<lambda>_. False), as_regular = (\<lambda>_. False),
     as_temp = Inr ''/tmp'', as_dir = (\<lambda>_. None), as_parse = (\<lambda>_. None)\<rparr>"

definition removed_f :: go_finding where
  "removed_f = \<lparr>gf_code = ''go-apidiff'', gf_message = ''incompatible change to the exported API of m: F: removed'',
     gf_location = \<lparr>loc_file = ''go.mod'', loc_line = 1, loc_column = 0\<rparr>\<rparr>"

definition example_api_report :: go_report where
  "example_api_report = \<lparr>gr_findings = [removed_f],
     gr_notes = [''1 incompatible and 1 compatible change to the exported API of m; internal and main packages are not compared'',
       ''compatible: G: added'']\<rparr>"

definition example_mains :: "bool gomap" where
  "example_mains = [(''m/cmd'', True), (''m'', False)]"

lemma example_compared:
  "compare_sides example_api_ops example_api_source ''apidiff'' ''/head'' ''.'' ''m'' [] (example_side ''base'')
     (example_side ''head'') () = (Inr example_api_report, ())"
  by code_simp

lemma example_loaded: "load_side example_api_ops ''apidiff'' ''m'' (example_side name) () = (Inr example_mains, ())"
  by (simp add: load_side_def list_packages_def example_api_ops_def example_listed_def example_mains_def)

lemma comparing_run:
  "gk_command example_api_ops (si_dir (example_side ''head'')) []
     [''apidiff'', ''-m'', si_export (example_side ''base''), si_export (example_side ''head'')] () =
     (Inr \<lparr>tr_exit = 0, tr_stdout = print_changes example_sections, tr_stderr = ''''\<rparr>, ())"
  by (simp add: example_api_ops_def example_side_def)


end
