(* ===== verification/Discovery.thy ===== *)
theory Discovery
  imports File_Sets Go_Conv
begin

text \<open>
  \<open>internal/verify/discovery.go\<close>: which git a run asks, what it makes of the answer, and the listing of a source
  that a session memoizes while its checks create files and other goroutines ask for it.
\<close>

section \<open>Asking git\<close>

text \<open>\<open>hostGit\<close>: the first absolute entry of \<open>PATH\<close> with an executable git.\<close>

definition host_git :: "(string \<Rightarrow> bool) \<Rightarrow> string \<Rightarrow> string option" where
  "host_git runnable path =
     (let dirs = (if path = '''' then [] else split_at CHR '':'' path)
      in find runnable (map (\<lambda>dir. path_join [dir, ''git'']) (filter is_abs dirs)))"

definition host_git_env :: "(string \<Rightarrow> string option) \<Rightarrow> string list" where
  "host_git_env lookup = concat (map (\<lambda>name. case lookup name of None \<Rightarrow> [] | Some v \<Rightarrow> [name @ ''='' @ v]) [''PATH'', ''HOME''])"

text \<open>How \<open>git ls-files\<close> ended: its output, or the error of \<open>Cmd.Run\<close> with what it wrote to its standard error.\<close>

datatype ls_run = Listed string | LsFailed string string

definition ls_args :: "string list \<Rightarrow> string list" where
  "ls_args args = [''-c'', ''core.excludesFile='', ''ls-files'', ''-z'', ''--exclude-per-directory=.gitignore''] @ args"

definition listed_paths :: "string \<Rightarrow> string list" where
  "listed_paths out = sort (concat (map (\<lambda>name. let path = trim_suffix name ''/'' in
      if name = '''' \<or> \<not> relative path then [] else [path]) (split_at CHR 0x00 out)))"

datatype ls_answer = LsOutside | LsPaths "string list"

definition ls_files :: "(string list \<Rightarrow> ls_run) \<Rightarrow> string list \<Rightarrow> string + ls_answer" where
  "ls_files git args =
     (case git (ls_args args) of
        LsFailed err message \<Rightarrow>
          if contains err ''not a git repository'' then Inr LsOutside else Inl (trim_space (err @ '' '' @ message))
      | Listed out \<Rightarrow> Inr (LsPaths (listed_paths out)))"

definition empty_source_note :: string where
  "empty_source_note = ''git lists no files under the source, so inputs were enumerated from the filesystem''"

definition list_git :: "string option \<Rightarrow> (string list \<Rightarrow> ls_run) \<Rightarrow> string + git_listing" where
  "list_git found git =
     (case found of
        None \<Rightarrow> Inr no_listing
      | Some path \<Rightarrow>
          bind_result (ls_files git [''--cached'', ''--others'']) (\<lambda>files.
          case files of
            LsOutside \<Rightarrow> Inr no_listing
          | LsPaths fs \<Rightarrow>
              if fs = [] then Inr (no_listing\<lparr>gl_note := empty_source_note\<rparr>)
              else bind_result (ls_files git [''--others'', ''--ignored'', ''--directory'']) (\<lambda>ignored.
                Inr \<lparr>gl_files = Some fs, gl_ignored = (case ignored of LsOutside \<Rightarrow> [] | LsPaths is \<Rightarrow> is), gl_note = ''''\<rparr>)))"

definition failed_listing :: "string \<Rightarrow> git_listing" where
  "failed_listing e = no_listing\<lparr>gl_note := ''git input discovery failed, so inputs were enumerated from the filesystem: '' @ e\<rparr>"

section \<open>The memoized listing\<close>

text \<open>
  \<open>Session.listing\<close> and \<open>Session.relist\<close> on a tree that checks change. A call that misses the memo reads the epoch
  under the mutex, runs git, and stores what it found under the mutex again unless the epoch has moved. A step is
  what one goroutine does between two points where others can run. The clock numbers the steps, and for the
  statement of what a listing shows the state records the tree after each of them and when a source was last
  relisted; a call remembers when that was as it began, and the steps of the source read none of these three.
\<close>

datatype listing_call =
    NotCalled
  | Missed string nat
  | Asking string nat nat
  | Answered string nat nat git_listing
  | Returned string nat git_listing

record 't listing_session =
  ln_tree :: 't
  ln_memo :: "string \<Rightarrow> git_listing option"
  ln_epoch :: "string \<Rightarrow> nat"
  ln_calls :: "nat \<Rightarrow> listing_call"
  ln_clock :: nat
  ln_history :: "nat \<Rightarrow> 't"
  ln_relisted :: "string \<Rightarrow> nat"

datatype 't listing_event = Call nat string | ReadEpoch nat | RunGit nat | Finish nat | Relist string | Change 't

definition set_call :: "nat \<Rightarrow> listing_call \<Rightarrow> 't listing_session \<Rightarrow> 't listing_session" where
  "set_call n c st = st\<lparr>ln_calls := (ln_calls st)(n := c)\<rparr>"

fun listing_move :: "('t \<Rightarrow> string \<Rightarrow> string + git_listing) \<Rightarrow> 't listing_event \<Rightarrow> 't listing_session \<Rightarrow> 't listing_session option" where
  "listing_move answer (Call n s) st =
     (case ln_calls st n of
        NotCalled \<Rightarrow> Some (set_call n (case ln_memo st s of Some l \<Rightarrow> Returned s (ln_relisted st s) l
                                        | None \<Rightarrow> Missed s (ln_relisted st s)) st)
      | _ \<Rightarrow> None)"
| "listing_move answer (ReadEpoch n) st =
     (case ln_calls st n of
        Missed s r \<Rightarrow> Some (set_call n (Asking s r (ln_epoch st s)) st)
      | _ \<Rightarrow> None)"
| "listing_move answer (RunGit n) st =
     (case ln_calls st n of
        Asking s r epoch \<Rightarrow> Some (set_call n (case answer (ln_tree st) s of
            Inl e \<Rightarrow> Returned s r (failed_listing e) | Inr l \<Rightarrow> Answered s r epoch l) st)
      | _ \<Rightarrow> None)"
| "listing_move answer (Finish n) st =
     (case ln_calls st n of
        Answered s r epoch l \<Rightarrow>
          if ln_epoch st s \<noteq> epoch then Some (set_call n (Returned s r l) st)
          else (case ln_memo st s of
             Some memo \<Rightarrow> Some (set_call n (Returned s r memo) st)
           | None \<Rightarrow> Some (set_call n (Returned s r l) (st\<lparr>ln_memo := (ln_memo st)(s := Some l)\<rparr>)))
      | _ \<Rightarrow> None)"
| "listing_move answer (Relist s) st =
     Some (st\<lparr>ln_epoch := (ln_epoch st)(s := Suc (ln_epoch st s)), ln_memo := (ln_memo st)(s := None),
              ln_relisted := (ln_relisted st)(s := Suc (ln_clock st))\<rparr>)"
| "listing_move answer (Change tree) st = Some (st\<lparr>ln_tree := tree\<rparr>)"

definition listing_step :: "('t \<Rightarrow> string \<Rightarrow> string + git_listing) \<Rightarrow> 't listing_event \<Rightarrow> 't listing_session \<Rightarrow> 't listing_session option" where
  "listing_step answer ev st = map_option (\<lambda>st'.
      st'\<lparr>ln_clock := Suc (ln_clock st), ln_history := (ln_history st)(Suc (ln_clock st) := ln_tree st')\<rparr>) (listing_move answer ev st)"

definition new_listing_session :: "'t \<Rightarrow> 't listing_session" where
  "new_listing_session tree = \<lparr>ln_tree = tree, ln_memo = (\<lambda>_. None), ln_epoch = (\<lambda>_. 0), ln_calls = (\<lambda>_. NotCalled),
     ln_clock = 0, ln_history = (\<lambda>_. tree), ln_relisted = (\<lambda>_. 0)\<rparr>"

fun run_listing :: "('t \<Rightarrow> string \<Rightarrow> string + git_listing) \<Rightarrow> 't listing_event list \<Rightarrow> 't listing_session \<Rightarrow> 't listing_session option" where
  "run_listing answer [] st = Some st"
| "run_listing answer (ev # evs) st =
     (case listing_step answer ev st of None \<Rightarrow> None | Some st' \<Rightarrow> run_listing answer evs st')"

text \<open>\<open>discoveryNote\<close>: why a target under git discovery was walked.\<close>

definition discovery_note :: "discovery_kind \<Rightarrow> git_listing \<Rightarrow> string" where
  "discovery_note mode l = (if mode \<noteq> DiscoveryGit then '''' else gl_note l)"

end
