(* ===== verification/Discovery_Properties.thy ===== *)
theory Discovery_Properties
  imports Discovery
begin

text \<open>
  What the memoized listing promises to a snapshot: it shows the tree as it was at some moment after the last time
  the source was relisted before the call, however calls, relistings and changes interleave. So a check that creates
  files and relists is seen by every snapshot that begins afterwards.
\<close>

definition shown_listing :: "string + git_listing \<Rightarrow> git_listing" where
  "shown_listing a = (case a of Inl e \<Rightarrow> failed_listing e | Inr l \<Rightarrow> l)"

text \<open>The answer was given for a tree of the history, no older than \<open>from\<close>.\<close>

definition seen_since :: "('t \<Rightarrow> string \<Rightarrow> string + git_listing) \<Rightarrow> 't listing_session \<Rightarrow> string \<Rightarrow> nat \<Rightarrow> git_listing \<Rightarrow> nat \<Rightarrow> bool" where
  "seen_since answer st s from l v \<longleftrightarrow> from \<le> v \<and> v \<le> ln_clock st \<and> l = shown_listing (answer (ln_history st v) s)"

fun call_sound :: "('t \<Rightarrow> string \<Rightarrow> string + git_listing) \<Rightarrow> 't listing_session \<Rightarrow> listing_call \<Rightarrow> bool" where
  "call_sound answer st NotCalled \<longleftrightarrow> True"
| "call_sound answer st (Missed s r) \<longleftrightarrow> r \<le> ln_relisted st s"
| "call_sound answer st (Asking s r epoch) \<longleftrightarrow> r \<le> ln_relisted st s \<and> epoch \<le> ln_epoch st s"
| "call_sound answer st (Answered s r epoch l) \<longleftrightarrow> epoch \<le> ln_epoch st s \<and>
     (\<exists>v. seen_since answer st s r l v \<and> (epoch = ln_epoch st s \<longrightarrow> ln_relisted st s \<le> v)) \<and> r \<le> ln_relisted st s"
| "call_sound answer st (Returned s r l) \<longleftrightarrow> (\<exists>v. seen_since answer st s r l v)"

definition listing_inv :: "('t \<Rightarrow> string \<Rightarrow> string + git_listing) \<Rightarrow> 't listing_session \<Rightarrow> bool" where
  "listing_inv answer st \<longleftrightarrow>
     ln_history st (ln_clock st) = ln_tree st \<and> (\<forall>s. ln_relisted st s \<le> ln_clock st) \<and>
     (\<forall>s l. ln_memo st s = Some l \<longrightarrow> (\<exists>v. seen_since answer st s (ln_relisted st s) l v)) \<and>
     (\<forall>n. call_sound answer st (ln_calls st n))"

text \<open>A step appends to the history, moves epochs and relistings only forward, and leaves what was seen seen.\<close>

definition listing_later :: "'t listing_session \<Rightarrow> 't listing_session \<Rightarrow> bool" where
  "listing_later st st' \<longleftrightarrow> ln_clock st' = Suc (ln_clock st) \<and> (\<forall>v \<le> ln_clock st. ln_history st' v = ln_history st v) \<and>
     (\<forall>s. ln_epoch st s \<le> ln_epoch st' s \<and> ln_relisted st s \<le> ln_relisted st' s \<and>
        (ln_epoch st' s = ln_epoch st s \<longrightarrow> ln_relisted st' s = ln_relisted st s))"

lemma seen_later: "listing_later st st' \<Longrightarrow> seen_since answer st s r l v \<Longrightarrow> seen_since answer st' s r l v"
  by (auto simp: listing_later_def seen_since_def)

lemma call_sound_later: "listing_later st st' \<Longrightarrow> call_sound answer st c \<Longrightarrow> call_sound answer st' c"
proof (cases c)
  case (Answered s r epoch l)
  assume later: "listing_later st st'" and "call_sound answer st c"
  then obtain v where v: "seen_since answer st s r l v" "epoch = ln_epoch st s \<longrightarrow> ln_relisted st s \<le> v"
    "epoch \<le> ln_epoch st s" "r \<le> ln_relisted st s" using Answered by auto
  have "epoch = ln_epoch st' s \<longrightarrow> ln_relisted st' s \<le> v" "epoch \<le> ln_epoch st' s" "r \<le> ln_relisted st' s"
    using later v unfolding listing_later_def by (metis le_antisym le_trans)+
  then show ?thesis using Answered seen_later [OF later v(1)] by auto
next
  case (Returned s r l)
  assume later: "listing_later st st'" and "call_sound answer st c"
  then obtain v where "seen_since answer st s r l v" using Returned by auto
  then have "\<exists>v. seen_since answer st' s r l v" by (intro exI) (rule seen_later [OF later])
  then show ?thesis using Returned by simp
qed (auto simp: listing_later_def intro: le_trans)

lemma step_later:
  assumes "listing_step answer ev st = Some st'" "listing_inv answer st"
  shows "listing_later st st'"
proof -
  have "ln_relisted st s \<le> Suc (ln_clock st)" for s using assms(2) by (simp add: listing_inv_def le_SucI)
  then show ?thesis using assms(1)
    by (cases ev) (auto simp: listing_step_def listing_later_def set_call_def split: listing_call.splits option.splits if_splits sum.splits)
qed

lemma step_tree:
  assumes "listing_step answer ev st = Some st'"
  shows "ln_history st' (ln_clock st') = ln_tree st'"
  using assms by (auto simp: listing_step_def)

lemma step_relisted:
  assumes "listing_step answer ev st = Some st'" "\<forall>s. ln_relisted st s \<le> ln_clock st"
  shows "\<forall>s. ln_relisted st' s \<le> ln_clock st'"
  using assms
  by (cases ev) (auto simp: listing_step_def set_call_def le_SucI split: listing_call.splits option.splits if_splits sum.splits)

text \<open>The memo after a step: unchanged where the source was not relisted, or what an answered call stores.\<close>

lemma step_memo:
  assumes inv: "listing_inv answer st" and step: "listing_step answer ev st = Some st'" and memo: "ln_memo st' s = Some l"
  shows "\<exists>v. seen_since answer st s (ln_relisted st' s) l v"
proof (cases "ln_memo st s = Some l \<and> ln_relisted st' s = ln_relisted st s")
  case True
  then show ?thesis using inv by (auto simp: listing_inv_def)
next
  case False
  then obtain n r epoch where ev: "ev = Finish n" and call: "ln_calls st n = Answered s r epoch l"
    and same: "ln_epoch st s = epoch" and relisted: "ln_relisted st' s = ln_relisted st s"
    using step memo
    by (cases ev) (auto simp: listing_step_def set_call_def split: listing_call.splits option.splits if_splits sum.splits)
  have "call_sound answer st (Answered s r epoch l)" using inv call unfolding listing_inv_def by metis
  then show ?thesis using same relisted by (auto simp: seen_since_def)
qed

lemma git_step:
  "listing_step answer (RunGit m) st = Some st' \<Longrightarrow> \<exists>s r epoch. ln_calls st m = Asking s r epoch \<and>
     ln_calls st' = (ln_calls st)(m := (case answer (ln_tree st) s of
       Inl e \<Rightarrow> Returned s r (failed_listing e) | Inr l \<Rightarrow> Answered s r epoch l))"
  by (cases "ln_calls st m") (auto simp: listing_step_def set_call_def)

lemma finish_step:
  "listing_step answer (Finish m) st = Some st' \<Longrightarrow> \<exists>s r epoch l. ln_calls st m = Answered s r epoch l \<and>
     (ln_calls st' = (ln_calls st)(m := Returned s r l) \<or>
      (\<exists>l'. ln_memo st s = Some l' \<and> ln_calls st' = (ln_calls st)(m := Returned s r l')))"
  by (cases "ln_calls st m") (auto simp: listing_step_def set_call_def split: if_splits option.splits)

lemma step_calls:
  assumes inv: "listing_inv answer st" and step: "listing_step answer ev st = Some st'"
  shows "call_sound answer st' (ln_calls st' n)"
proof (cases "ln_calls st' n = ln_calls st n")
  case True
  then show ?thesis using inv call_sound_later [OF step_later [OF step inv]] by (simp add: listing_inv_def)
next
  case False
  have sound: "call_sound answer st (ln_calls st n)" and tree: "ln_history st (ln_clock st) = ln_tree st"
    and relisted: "\<And>s. ln_relisted st s \<le> ln_clock st"
    and memo: "\<And>s l. ln_memo st s = Some l \<Longrightarrow> \<exists>v. seen_since answer st s (ln_relisted st s) l v"
    using inv by (auto simp: listing_inv_def)
  have "call_sound answer st (ln_calls st' n)"
  proof (cases ev)
    case (Call m s)
    then show ?thesis using False step memo
      by (auto simp: listing_step_def set_call_def split: listing_call.splits option.splits)
  next
    case (ReadEpoch m)
    then show ?thesis using False step sound
      by (auto simp: listing_step_def set_call_def split: listing_call.splits)
  next
    case (RunGit m)
    from git_step [OF step [unfolded RunGit]] obtain s r epoch where asking: "ln_calls st m = Asking s r epoch"
      and moved: "ln_calls st' = (ln_calls st)(m := (case answer (ln_tree st) s of
        Inl e \<Rightarrow> Returned s r (failed_listing e) | Inr l \<Rightarrow> Answered s r epoch l))" by blast
    then have call: "ln_calls st n = Asking s r epoch" "m = n" using False by (auto split: if_splits)
    have seen: "seen_since answer st s r (shown_listing (answer (ln_tree st) s)) (ln_clock st)"
      using sound call relisted [of s] tree by (auto simp: seen_since_def)
    then show ?thesis using moved sound call relisted [of s]
      by (cases "answer (ln_tree st) s") (auto simp: shown_listing_def)
  next
    case (Finish m)
    from finish_step [OF step [unfolded Finish]] obtain s r epoch l where answered: "ln_calls st m = Answered s r epoch l"
      and moved: "ln_calls st' = (ln_calls st)(m := Returned s r l) \<or>
        (\<exists>l'. ln_memo st s = Some l' \<and> ln_calls st' = (ln_calls st)(m := Returned s r l'))" by blast
    then have call: "ln_calls st n = Answered s r epoch l" "m = n" using False by (auto split: if_splits)
    from moved show ?thesis
    proof (elim disjE exE conjE)
      assume "ln_calls st' = (ln_calls st)(m := Returned s r l)"
      then show ?thesis using sound call by auto
    next
      fix l'
      assume stored: "ln_memo st s = Some l'" and returned: "ln_calls st' = (ln_calls st)(m := Returned s r l')"
      obtain v where "seen_since answer st s (ln_relisted st s) l' v" using memo [OF stored] by blast
      then have "\<exists>v. seen_since answer st s r l' v" using sound call by (intro exI [of _ v]) (simp add: seen_since_def)
      then show ?thesis using returned call by simp
    qed
  qed (use False step in \<open>auto simp: listing_step_def\<close>)
  then show ?thesis by (rule call_sound_later [OF step_later [OF step inv]])
qed

lemma step_inv:
  assumes "listing_inv answer st" "listing_step answer ev st = Some st'"
  shows "listing_inv answer st'"
proof -
  have "\<forall>s l. ln_memo st' s = Some l \<longrightarrow> (\<exists>v. seen_since answer st' s (ln_relisted st' s) l v)"
    using step_memo [OF assms] seen_later [OF step_later [OF assms(2,1)]] by blast
  moreover have "\<forall>s. ln_relisted st s \<le> ln_clock st" using assms(1) by (simp add: listing_inv_def)
  ultimately show ?thesis
    using step_calls [OF assms] step_tree [OF assms(2)] step_relisted [OF assms(2)] by (simp add: listing_inv_def)
qed

lemma run_inv: "listing_inv answer st \<Longrightarrow> run_listing answer evs st = Some st' \<Longrightarrow> listing_inv answer st'"
  by (induction evs arbitrary: st) (auto split: option.splits intro: step_inv)

lemma new_session_inv: "listing_inv answer (new_listing_session tree)"
  by (simp add: listing_inv_def new_listing_session_def)


section \<open>An example\<close>

text \<open>Git answers for the tree before a check writes to it; the call stores nothing, and the next call sees the change.\<close>

definition example_answer :: "string \<Rightarrow> string \<Rightarrow> string + git_listing" where
  "example_answer tree s = Inr \<lparr>gl_files = Some [tree], gl_ignored = [], gl_note = ''''\<rparr>"

definition racing_events :: "string listing_event list" where
  "racing_events = [Call 0 ''/src'', ReadEpoch 0, RunGit 0, Change ''new'', Relist ''/src'', Finish 0,
     Call 1 ''/src'', ReadEpoch 1, RunGit 1, Finish 1]"

lemma racing_run:
  "\<exists>st. run_listing example_answer racing_events (new_listing_session ''old'') = Some st \<and>
     ln_calls st 1 = Returned ''/src'' 5 \<lparr>gl_files = Some [''new''], gl_ignored = [], gl_note = ''''\<rparr> \<and>
     ln_clock st = 10"
  by (simp add: racing_events_def new_listing_session_def listing_step_def set_call_def example_answer_def)


end
