(* ===== verification/Base_Tree.thy ===== *)
theory Base_Tree
  imports Host_Checks File_Sets
begin

text \<open>
  The base of an API comparison: \<open>internal/verify/goapidiff.go\<close>, which exports a target's declared inputs as they
  were at the merge base. Git is an argument: \<open>bw_source\<close> answers in the source as in \<open>Git_Change\<close>, \<open>bw_top\<close> at the
  top of the work tree, where every question is about one commit and its answer does not change. \<open>bw_batch\<close> is what
  \<open>git cat-file --batch\<close> prints for a list of objects. An exported file is its path, permissions and contents.
\<close>

record base_tree =
  bt_dir :: string
  bt_ref :: string
  bt_commit :: string
  bt_missing :: bool

datatype base_error =
    NeedsGoModInput string
  | NoGit string
  | BaseChange change_error
  | BaseGit git_failure
  | BasePlain string
  | BadTreeEntry string
  | BadBatchHeader string
  | ShortBatch nat string nat
  | BadBatchEnd string
  | CatFileFailed string string
  | TargetExists string

record base_world =
  bw_git :: "string + string"
  bw_source :: git_world
  bw_top :: "string list \<Rightarrow> git_failure + string"
  bw_links :: "string \<Rightarrow> string option"
  bw_getenv :: "string \<Rightarrow> string"
  bw_temp :: "string + string"
  bw_mkdir :: "string \<Rightarrow> string option"
  bw_start :: "string option"
  bw_batch :: "string list \<Rightarrow> string"
  bw_batch_end :: "string list \<Rightarrow> (string \<times> string) option"

definition base_note :: "base_tree \<Rightarrow> string" where
  "base_note b = ''compared with the merge base of '' @ bt_ref b @ '', '' @ take 12 (bt_commit b)"

definition git_path :: "string \<Rightarrow> string \<Rightarrow> string" where
  "git_path pre rel = path_join [pre, rel]"

text \<open>\<open>declared\<close> of gochecks.go: is the path below an input?\<close>

definition declared_input :: "string list \<Rightarrow> string \<Rightarrow> bool" where
  "declared_input inputs path = list_ex (under path) inputs"

section \<open>Reading the commit\<close>

text \<open>The modes of regular files with the permissions each is written with.\<close>

definition regular_modes :: "string \<Rightarrow> nat option" where
  "regular_modes mode = (if mode = ''100644'' then Some 420 else if mode = ''100755'' then Some 493 else None)"

record committed_file =
  cm_object :: string
  cm_target :: string
  cm_perm :: nat

text \<open>One entry of \<open>ls-tree -r -z\<close>: an error, a file to write, or neither.\<close>

definition committed_entry :: "string \<Rightarrow> string list \<Rightarrow> string \<Rightarrow> string \<Rightarrow> base_error + committed_file option" where
  "committed_entry pre excludes dest entry =
     (let (meta, path, ok) = cut_at CHR 0x09 entry; metas = words meta in
      if \<not> ok \<or> length metas \<noteq> 3 then Inl (BadTreeEntry entry)
      else (case regular_modes (metas ! 0) of
         None \<Rightarrow> Inr None
       | Some perm \<Rightarrow>
           let (name, inside) = cut_prefix path pre in
           if \<not> inside \<or> name = '''' \<or> \<not> is_local name \<or> private_source_path name \<or> excluded name excludes then Inr None
           else Inr (Some \<lparr>cm_object = metas ! 2, cm_target = path_join [dest, name], cm_perm = perm\<rparr>)))"

definition committed_files :: "string \<Rightarrow> string list \<Rightarrow> string \<Rightarrow> string \<Rightarrow> base_error + committed_file list" where
  "committed_files pre excludes dest listed =
     bind_result (map_results (committed_entry pre excludes dest) (filter (\<lambda>e. e \<noteq> '''') (split_at CHR 0x00 listed)))
       (\<lambda>found. Inr (List.map_filter id found))"

section \<open>Writing the files\<close>

type_synonym written = "(string \<times> nat \<times> string) list"

text \<open>\<open>writeArchived\<close>: the file must be new, and the reader must hold as many bytes as the header says.\<close>

definition write_archived :: "(string \<Rightarrow> string option) \<Rightarrow> string \<Rightarrow> string \<Rightarrow> nat \<Rightarrow> int \<Rightarrow> written \<Rightarrow> base_error + written" where
  "write_archived mkdir batch target perm len out =
     (case mkdir (dir_name target) of
        Some e \<Rightarrow> Inl (BasePlain e)
      | None \<Rightarrow>
          if target \<in> fst ` set out then Inl (TargetExists target)
          else
            let contents = take (nat len) batch in
            if int (length contents) \<noteq> len then Inl (ShortBatch (length contents) target (nat len))
            else Inr (out @ [(target, perm, contents)]))"

text \<open>
  \<open>writeCommitted\<close> on what is left of the batch: a header of three fields up to the newline, the contents, and a
  newline, for each file in turn.
\<close>

fun write_committed :: "(string \<Rightarrow> string option) \<Rightarrow> committed_file list \<Rightarrow> string \<Rightarrow> written \<Rightarrow> base_error + written" where
  "write_committed mkdir [] batch out = Inr out"
| "write_committed mkdir (f # fs) batch out =
     (let (header, rest, ok) = cut_at CHR 0x0A batch; metas = words header in
      if \<not> ok then Inl (BasePlain ''reading git cat-file: EOF'')
      else if length metas \<noteq> 3 \<or> metas ! 0 \<noteq> cm_object f \<or> metas ! 1 \<noteq> ''blob'' then Inl (BadBatchHeader (header @ newline))
      else (case atoi (metas ! 2) of
         None \<Rightarrow> Inl (BadBatchHeader (header @ newline))
       | Some len \<Rightarrow>
           bind_result (write_archived mkdir rest (cm_target f) (cm_perm f) len out) (\<lambda>out'.
             let left = drop (nat len) rest in
             if left = [] \<or> hd left \<noteq> CHR 0x0A then Inl (BadBatchEnd (cm_object f))
             else write_committed mkdir fs (tl left) out')))"

definition export_tree :: "base_world \<Rightarrow> string \<Rightarrow> string \<Rightarrow> string list \<Rightarrow> string list \<Rightarrow> string \<Rightarrow> base_error + written" where
  "export_tree w commit pre paths excludes dest =
     bind_result (wrap_error BaseGit (bw_top w ([''--literal-pathspecs'', ''ls-tree'', ''-r'', ''-z'', commit, ''--''] @ paths))) (\<lambda>listed.
     bind_result (committed_files pre excludes dest listed) (\<lambda>files.
       if bw_start w \<noteq> None then Inl (BasePlain (the (bw_start w)))
       else let objects = map cm_object files; result = write_committed (bw_mkdir w) files (bw_batch w objects) [] in
       case bw_batch_end w objects of
         Some (e, err) \<Rightarrow> Inl (CatFileFailed e (trim_space err))
       | None \<Rightarrow> result))"

section \<open>The base\<close>

definition at_base :: "base_world \<Rightarrow> string \<Rightarrow> string \<Rightarrow> string \<Rightarrow> base_error + bool" where
  "at_base w commit pre rel =
     bind_result (wrap_error BaseGit (bw_top w [''--literal-pathspecs'', ''ls-tree'', ''--name-only'', commit, ''--'', git_path pre rel]))
       (\<lambda>listed. Inr (trim_space listed \<noteq> ''''))"

fun input_paths :: "base_world \<Rightarrow> string \<Rightarrow> string \<Rightarrow> string list \<Rightarrow> base_error + string list" where
  "input_paths w commit pre [] = Inr []"
| "input_paths w commit pre (input # inputs) =
     bind_result (at_base w commit pre input) (\<lambda>found.
     bind_result (input_paths w commit pre inputs) (\<lambda>rest.
       Inr (if found then git_path pre input # rest else rest)))"

text \<open>What \<open>apidiffBase\<close> does once it knows the commit. The exported files are returned with the base.\<close>

definition base_at :: "base_world \<Rightarrow> target \<Rightarrow> string \<Rightarrow> string \<Rightarrow> string \<Rightarrow> base_error + base_tree \<times> written" where
  "base_at w t pre ref commit =
     bind_result (at_base w commit pre (path_join [tg_dir t, ''go.mod''])) (\<lambda>module.
       if \<not> module then Inr (\<lparr>bt_dir = '''', bt_ref = ref, bt_commit = commit, bt_missing = True\<rparr>, [])
       else
         bind_result (input_paths w commit pre (tg_inputs t)) (\<lambda>paths.
         bind_result (wrap_error BasePlain (bw_temp w)) (\<lambda>dir.
         bind_result (export_tree w commit pre paths (tg_exclude t) dir) (\<lambda>files.
           Inr (\<lparr>bt_dir = dir, bt_ref = ref, bt_commit = commit, bt_missing = False\<rparr>, files)))))"

definition apidiff_base :: "base_world \<Rightarrow> string \<Rightarrow> check \<Rightarrow> target \<Rightarrow> base_error + base_tree \<times> written" where
  "apidiff_base w source c t =
     (let mod_file = path_join [tg_dir t, ''go.mod''] in
      if \<not> declared_input (tg_inputs t) mod_file \<or> excluded mod_file (tg_exclude t) then Inl (NeedsGoModInput mod_file)
      else (case bw_git w of
         Inl e \<Rightarrow> Inl (NoGit e)
       | Inr git \<Rightarrow>
           (case git_cmd (bw_source w) [''rev-parse'', ''--show-toplevel''] 0 of
              (Inl e, n) \<Rightarrow> Inl (BaseGit e)
            | (Inr shown, n) \<Rightarrow>
                bind_result (wrap_error BaseChange (source_prefix (bw_links w) (trim_space shown) source)) (\<lambda>pre.
                bind_result (wrap_error BaseChange (fst (resolve_base (bw_source w) (change_base (bw_getenv w) (ac_base (apidiff_options c))) n)))
                  (\<lambda>(ref, commit). base_at w t pre ref commit)))))"

section \<open>The result\<close>

definition missing_module_notes :: "string \<Rightarrow> string list" where
  "missing_module_notes dir = [''module '' @ clean dir @ '' did not exist at the base, so it has no API to break'']"

text \<open>The findings of a verdict beside a summary of the base and the notes; a run without a verdict is left as it is.\<close>

record apidiff_summary =
  au_base :: string
  au_merge_base :: string
  au_notes :: "string list"

definition apidiff_result :: "(apidiff_summary \<Rightarrow> string) \<Rightarrow> result \<Rightarrow> string list \<Rightarrow> base_tree \<Rightarrow> result" where
  "apidiff_result summary_json r notes base =
     (if rs_status r \<noteq> StatusPassed \<and> rs_status r \<noteq> StatusFailed then r
      else
        let all_notes = base_note base # notes;
            summary = \<lparr>au_base = bt_ref base, au_merge_base = bt_commit base, au_notes = all_notes\<rparr>;
            found = (case rs_details r of Details rest fs \<Rightarrow> fs | _ \<Rightarrow> NoFindings)
        in r\<lparr>rs_details := Details [(''summary'', summary_json summary)] found, rs_stdout := join_with newline all_notes\<rparr>)"

end
