(* ===== verification/Base_Tree_Properties.thy ===== *)
theory Base_Tree_Properties
  imports Base_Tree
begin

text \<open>
  What the export of a base promises: the files are the committed regular files below the source, with their
  contents as committed, whatever bytes those hold.
\<close>

section \<open>A commit as git prints it\<close>

text \<open>An entry of a commit: its mode, its type, its object, its path from the top and what the object holds.\<close>

record tree_entry =
  te_mode :: string
  te_type :: string
  te_object :: string
  te_path :: string
  te_data :: string

definition print_entry :: "tree_entry \<Rightarrow> string" where
  "print_entry e = te_mode e @ '' '' @ te_type e @ '' '' @ te_object e @ [CHR 0x09] @ te_path e @ [CHR 0x00]"

definition print_batch :: "string \<times> string \<Rightarrow> string" where
  "print_batch ob = fst ob @ '' blob '' @ show_nat (length (snd ob)) @ newline @ snd ob @ newline"

definition plain_word :: "string \<Rightarrow> bool" where
  "plain_word w \<longleftrightarrow> w \<noteq> '''' \<and> list_all (\<lambda>c. \<not> is_space c \<and> c \<noteq> CHR 0x00) w"

definition plain_entry :: "tree_entry \<Rightarrow> bool" where
  "plain_entry e \<longleftrightarrow> plain_word (te_mode e) \<and> plain_word (te_type e) \<and> plain_word (te_object e) \<and> CHR 0x00 \<notin> set (te_path e) \<and>
     length (te_data e) < 2 ^ 63"

text \<open>The name an entry is exported under, if it is: a regular file below the source, neither private nor excluded.\<close>

definition exported_name :: "string \<Rightarrow> string list \<Rightarrow> tree_entry \<Rightarrow> string option" where
  "exported_name pre excludes e =
     (let (name, inside) = cut_prefix (te_path e) pre in
      if regular_modes (te_mode e) \<noteq> None \<and> inside \<and> name \<noteq> '''' \<and> is_local name \<and> \<not> private_source_path name \<and>
         \<not> excluded name excludes then Some name else None)"

definition exported_file :: "string \<Rightarrow> string list \<Rightarrow> string \<Rightarrow> tree_entry \<Rightarrow> (string \<times> nat \<times> string) option" where
  "exported_file pre excludes dest e =
     map_option (\<lambda>name. (path_join [dest, name], the (regular_modes (te_mode e)), te_data e)) (exported_name pre excludes e)"

definition exports :: "string \<Rightarrow> string list \<Rightarrow> string \<Rightarrow> tree_entry list \<Rightarrow> written" where
  "exports pre excludes dest es = List.map_filter (exported_file pre excludes dest) es"

section \<open>Reading the listing\<close>

lemma batch_cut_found: "c \<notin> set s \<Longrightarrow> cut_at c (s @ c # t) = (s, t, True)"
proof -
  assume c: "c \<notin> set s"
  then have "takeWhile (\<lambda>x. x \<noteq> c) (s @ c # t) = s" "dropWhile (\<lambda>x. x \<noteq> c) (s @ c # t) = c # t"
    by (induction s) auto
  then show ?thesis by (simp add: cut_at_def)
qed

lemma plain_word_clear: "plain_word w \<Longrightarrow> is_space c \<or> c = CHR 0x00 \<Longrightarrow> c \<notin> set w"
  by (auto simp: plain_word_def list_all_iff)

lemma words_three:
  assumes "plain_word a" "plain_word b" "plain_word c"
  shows "words (a @ '' '' @ b @ '' '' @ c) = [a, b, c]"
proof -
  have "\<forall>w \<in> set [a, b, c]. w \<noteq> [] \<and> (\<forall>x \<in> set w. \<not> is_space x)"
    using assms by (auto simp: plain_word_def list_all_iff)
  from words_join [OF this] show ?thesis by simp
qed

definition meta_of :: "tree_entry \<Rightarrow> string" where
  "meta_of e = te_mode e @ '' '' @ te_type e @ '' '' @ te_object e"

lemma meta_clear: "plain_entry e \<Longrightarrow> CHR 0x09 \<notin> set (meta_of e) \<and> CHR 0x00 \<notin> set (meta_of e)"
proof -
  assume "plain_entry e"
  then have "CHR 0x09 \<notin> set w \<and> CHR 0x00 \<notin> set w" if "w \<in> {te_mode e, te_type e, te_object e}" for w
    using that plain_word_clear [of w "CHR 0x09"] plain_word_clear [of w "CHR 0x00"]
    by (auto simp: plain_entry_def is_space_def)
  then show ?thesis by (simp add: meta_of_def)
qed

lemma cut_entry: "plain_entry e \<Longrightarrow> cut_at CHR 0x09 (meta_of e @ CHR 0x09 # te_path e) = (meta_of e, te_path e, True)"
  using meta_clear by (intro batch_cut_found) simp

definition file_of :: "string \<Rightarrow> string list \<Rightarrow> string \<Rightarrow> tree_entry \<Rightarrow> committed_file option" where
  "file_of pre excludes dest e = map_option (\<lambda>name. \<lparr>cm_object = te_object e, cm_target = path_join [dest, name],
     cm_perm = the (regular_modes (te_mode e))\<rparr>) (exported_name pre excludes e)"

lemma committed_entry_of:
  assumes "plain_entry e"
  shows "committed_entry pre excludes dest (meta_of e @ CHR 0x09 # te_path e) = Inr (file_of pre excludes dest e)"
proof -
  have "words (meta_of e) = [te_mode e, te_type e, te_object e]"
    unfolding meta_of_def using assms by (intro words_three) (simp_all add: plain_entry_def)
  then show ?thesis
    unfolding committed_entry_def cut_entry [OF assms]
    by (auto simp: file_of_def exported_name_def case_prod_beta Let_def split: option.split)
qed

lemma split_listing:
  "list_all plain_entry es \<Longrightarrow> filter (\<lambda>e. e \<noteq> '''') (split_at CHR 0x00 (concat (map print_entry es))) =
     map (\<lambda>e. meta_of e @ CHR 0x09 # te_path e) es"
proof (induction es)
  case Nil
  then show ?case by simp
next
  case (Cons e es)
  let ?line = "meta_of e @ CHR 0x09 # te_path e"
  have line: "print_entry e = ?line @ [CHR 0x00]" by (simp add: print_entry_def meta_of_def)
  have "CHR 0x00 \<notin> set ?line" using Cons.prems meta_clear [of e] by (auto simp: plain_entry_def)
  then have "split_at CHR 0x00 (?line @ CHR 0x00 # rest) = ?line # split_at CHR 0x00 rest" for rest
    by (rule split_at_append_sep)
  then show ?case using Cons by (simp add: line)
qed

lemma committed_files_of:
  assumes "list_all plain_entry es"
  shows "committed_files pre excludes dest (concat (map print_entry es)) = Inr (List.map_filter (file_of pre excludes dest) es)"
proof -
  have "map_results (committed_entry pre excludes dest) (map (\<lambda>e. meta_of e @ CHR 0x09 # te_path e) es) =
      Inr (map (file_of pre excludes dest) es)"
    using assms by (induction es) (simp_all add: committed_entry_of)
  then show ?thesis using split_listing [OF assms]
    by (simp add: committed_files_def List.map_filter_def filter_map comp_def)
qed

section \<open>Reading the batch\<close>

text \<open>A file is written as its object's contents, even where they hold lines that look like a header.\<close>

lemma write_one:
  assumes "plain_word (cm_object f)" "length data < 2 ^ 63" "mkdir (dir_name (cm_target f)) = None"
    "cm_target f \<notin> fst ` set out"
  shows "write_committed mkdir (f # fs) (print_batch (cm_object f, data) @ rest) out =
    write_committed mkdir fs rest (out @ [(cm_target f, cm_perm f, data)])"
proof -
  obtain title where title: "title = cm_object f @ '' '' @ ''blob'' @ '' '' @ show_nat (length data)" by blast
  have batch: "print_batch (cm_object f, data) @ rest = title @ CHR 0x0A # data @ CHR 0x0A # rest"
    by (simp add: print_batch_def newline_def title)
  have number: "plain_word (show_nat (length data))"
  proof -
    have "\<not> is_space c \<and> c \<noteq> CHR 0x00" if "is_digit c" for c
      using that by (auto simp: is_space_def is_digit_def less_eq_char_def)
    then show ?thesis using show_nat_digits show_nat_nonempty by (simp add: plain_word_def list_all_iff)
  qed
  have words: "words title = [cm_object f, ''blob'', show_nat (length data)]"
    unfolding title by (intro words_three assms number) (simp add: plain_word_def is_space_def)
  have "CHR 0x0A \<notin> set title"
    unfolding title using plain_word_clear [OF assms(1), of "CHR 0x0A"] plain_word_clear [OF number, of "CHR 0x0A"] by (simp add: is_space_def)
  then have cut: "cut_at CHR 0x0A (title @ CHR 0x0A # data @ CHR 0x0A # rest) = (title, data @ CHR 0x0A # rest, True)"
    by (rule batch_cut_found)
  have "atoi (show_nat (length data)) = Some (int (length data))" using assms(2) by (intro atoi_show_nat) simp
  then show ?thesis
    using words cut assms(3,4) by (simp add: batch write_archived_def Let_def)
qed

definition batch_of :: "(string \<times> string) list \<Rightarrow> string" where
  "batch_of obs = concat (map print_batch obs)"

lemma write_all:
  assumes "list_all (\<lambda>(f, data). plain_word (cm_object f) \<and> length data < 2 ^ 63 \<and> mkdir (dir_name (cm_target f)) = None) fds"
    and "distinct (map (cm_target \<circ> fst) fds)" and "\<forall>(f, data) \<in> set fds. cm_target f \<notin> fst ` set out"
  shows "write_committed mkdir (map fst fds) (batch_of (map (\<lambda>(f, data). (cm_object f, data)) fds)) out =
    Inr (out @ map (\<lambda>(f, data). (cm_target f, cm_perm f, data)) fds)"
  using assms
proof (induction fds arbitrary: out)
  case Nil
  then show ?case by simp
next
  case (Cons fd fds)
  obtain f data where fd: "fd = (f, data)" by (cases fd) auto
  have "\<forall>(g, d) \<in> set fds. cm_target g \<notin> fst ` set (out @ [(cm_target f, cm_perm f, data)])"
  proof -
    have "cm_target g \<noteq> cm_target f \<and> cm_target g \<notin> fst ` set out" if "(g, d) \<in> set fds" for g d
    proof
      have "cm_target g \<in> (cm_target \<circ> fst) ` set fds" using that by force
      moreover have "cm_target f \<notin> (cm_target \<circ> fst) ` set fds" using Cons.prems(2) by (simp add: fd)
      ultimately show "cm_target g \<noteq> cm_target f" by metis
      show "cm_target g \<notin> fst ` set out" using Cons.prems(3) that by fastforce
    qed
    then show ?thesis by auto
  qed
  then have rest: "write_committed mkdir (map fst fds) (batch_of (map (\<lambda>(f, data). (cm_object f, data)) fds))
      (out @ [(cm_target f, cm_perm f, data)]) = Inr ((out @ [(cm_target f, cm_perm f, data)]) @ map (\<lambda>(f, data). (cm_target f, cm_perm f, data)) fds)"
    using Cons.prems(1,2) by (intro Cons.IH) auto
  have "write_committed mkdir (f # map fst fds) (print_batch (cm_object f, data) @ batch_of (map (\<lambda>(f, data). (cm_object f, data)) fds)) out =
      write_committed mkdir (map fst fds) (batch_of (map (\<lambda>(f, data). (cm_object f, data)) fds)) (out @ [(cm_target f, cm_perm f, data)])"
    using Cons.prems(1,3) by (intro write_one) (auto simp: fd)
  with rest show ?case by (simp add: fd batch_of_def)
qed

section \<open>The export\<close>

text \<open>The files to write, each with the contents of its object.\<close>

definition contents_of :: "string \<Rightarrow> string list \<Rightarrow> string \<Rightarrow> tree_entry list \<Rightarrow> (committed_file \<times> string) list" where
  "contents_of pre excludes dest es =
     List.map_filter (\<lambda>e. map_option (\<lambda>f. (f, te_data e)) (file_of pre excludes dest e)) es"

lemma map_filter_option: "map g (List.map_filter f xs) = List.map_filter (\<lambda>x. map_option g (f x)) xs"
  by (induction xs) (auto simp: List.map_filter_simps split: option.splits)

lemma contents_files: "map fst (contents_of pre excludes dest es) = List.map_filter (file_of pre excludes dest) es"
proof -
  have "map_option fst (map_option (\<lambda>f. (f, te_data e)) (file_of pre excludes dest e)) = file_of pre excludes dest e" for e
    by (cases "file_of pre excludes dest e") auto
  then show ?thesis by (simp add: contents_of_def map_filter_option)
qed

lemma contents_written:
  "map (\<lambda>(f, data). (cm_target f, cm_perm f, data)) (contents_of pre excludes dest es) = exports pre excludes dest es"
proof -
  have "map_option (\<lambda>(f, data). (cm_target f, cm_perm f, data)) (map_option (\<lambda>f. (f, te_data e)) (file_of pre excludes dest e)) =
      exported_file pre excludes dest e" for e
    by (cases "exported_name pre excludes e") (auto simp: file_of_def exported_file_def)
  then show ?thesis by (simp add: contents_of_def exports_def map_filter_option)
qed

text \<open>What git does: it lists the entries of the commit and gives each object's contents.\<close>

definition git_holds :: "base_world \<Rightarrow> string \<Rightarrow> string list \<Rightarrow> tree_entry list \<Rightarrow> (string \<Rightarrow> string) \<Rightarrow> bool" where
  "git_holds w commit paths es blob \<longleftrightarrow>
     bw_top w ([''--literal-pathspecs'', ''ls-tree'', ''-r'', ''-z'', commit, ''--''] @ paths) = Inr (concat (map print_entry es)) \<and>
     list_all (\<lambda>e. plain_entry e \<and> te_data e = blob (te_object e)) es \<and>
     (\<forall>objects. bw_batch w objects = batch_of (map (\<lambda>ob. (ob, blob ob)) objects)) \<and>
     bw_start w = None \<and> (\<forall>objects. bw_batch_end w objects = None)"

text \<open>C19. The base an API check compares with is what the commit holds: the regular files below the source that are
  neither private nor excluded, at their paths and with their permissions, each with exactly the bytes committed,
  also where a file holds lines that look like git's own headers; links and submodules are left out.\<close>

theorem base_tree_is_committed:
  assumes "git_holds w commit paths es blob" and "distinct (map fst (exports pre excludes dest es))"
    and "\<And>dir. bw_mkdir w dir = None"
  shows "export_tree w commit pre paths excludes dest = Inr (exports pre excludes dest es)"
proof -
  let ?fds = "contents_of pre excludes dest es"
  have listing: "bw_top w ([''--literal-pathspecs'', ''ls-tree'', ''-r'', ''-z'', commit, ''--''] @ paths) = Inr (concat (map print_entry es))"
    and plain: "list_all plain_entry es" and git: "bw_start w = None" "\<And>objects. bw_batch_end w objects = None"
    "\<And>objects. bw_batch w objects = batch_of (map (\<lambda>ob. (ob, blob ob)) objects)"
    using assms(1) by (auto simp: git_holds_def list_all_iff)
  have each: "plain_word (cm_object f) \<and> length data < 2 ^ 63 \<and> data = blob (cm_object f)" if "(f, data) \<in> set ?fds" for f data
    using that assms(1) by (auto simp: contents_of_def List.map_filter_def file_of_def git_holds_def plain_entry_def list_all_iff
        split: option.splits)
  have "map (\<lambda>ob. (ob, blob ob)) (map cm_object (map fst ?fds)) = map (\<lambda>(f, data). (cm_object f, data)) ?fds"
    using each by auto
  then have batch: "bw_batch w (map cm_object (map fst ?fds)) = batch_of (map (\<lambda>(f, data). (cm_object f, data)) ?fds)"
    by (simp only: git)
  have "map fst (exports pre excludes dest es) = map (cm_target \<circ> fst) ?fds"
    unfolding contents_written [symmetric] by (simp add: comp_def case_prod_beta)
  then have "write_committed (bw_mkdir w) (map fst ?fds) (batch_of (map (\<lambda>(f, data). (cm_object f, data)) ?fds)) [] =
      Inr (exports pre excludes dest es)"
    using write_all [of "bw_mkdir w" ?fds "[]"] each assms(2,3) by (auto simp: list_all_iff contents_written)
  then show ?thesis
    using committed_files_of [OF plain] listing git(1,2) batch
    by (simp add: export_tree_def contents_files [symmetric] Let_def del: map_map)
qed

text \<open>A source file whose contents end like a batch header, a link, a file outside the source and a private one.\<close>

definition committed_entries_example :: "tree_entry list" where
  "committed_entries_example =
     [\<lparr>te_mode = ''100644'', te_type = ''blob'', te_object = ''o1'', te_path = ''app/a.go'', te_data = ''x'' @ newline @ ''o2 blob 3'' @ newline\<rparr>,
      \<lparr>te_mode = ''120000'', te_type = ''blob'', te_object = ''o3'', te_path = ''app/link'', te_data = ''a.go''\<rparr>,
      \<lparr>te_mode = ''100755'', te_type = ''blob'', te_object = ''o2'', te_path = ''app/run'', te_data = ''y''\<rparr>,
      \<lparr>te_mode = ''100644'', te_type = ''blob'', te_object = ''o4'', te_path = ''app/.env'', te_data = ''key''\<rparr>]"

definition example_blob :: "string \<Rightarrow> string" where
  "example_blob ob = (if ob = ''o1'' then ''x'' @ newline @ ''o2 blob 3'' @ newline else if ob = ''o2'' then ''y''
     else if ob = ''o3'' then ''a.go'' else ''key'')"

definition example_base_world :: base_world where
  "example_base_world = \<lparr>bw_git = Inr ''git'', bw_source = \<lparr>gw_run = (\<lambda>n args. Inr ''''), gw_ctx = (\<lambda>n. None)\<rparr>,
     bw_top = (\<lambda>args. Inr (concat (map print_entry committed_entries_example))), bw_links = Some, bw_getenv = (\<lambda>_. ''''), bw_temp = Inr ''/t'',
     bw_mkdir = (\<lambda>_. None), bw_start = None, bw_batch = (\<lambda>obs. batch_of (map (\<lambda>ob. (ob, example_blob ob)) obs)),
     bw_batch_end = (\<lambda>_. None)\<rparr>"

definition example_exports :: written where
  "example_exports = [(''/t/a.go'', 420, ''x'' @ newline @ ''o2 blob 3'' @ newline), (''/t/run'', 493, ''y'')]"

lemma example_exported: "exports ''app/'' [] ''/t'' committed_entries_example = example_exports"
  by code_simp

lemma example_held: "git_holds example_base_world ''c'' [''app''] committed_entries_example example_blob"
proof -
  have "list_all (\<lambda>e. plain_entry e \<and> te_data e = example_blob (te_object e)) committed_entries_example"
    by (simp add: committed_entries_example_def plain_entry_def plain_word_def is_space_def example_blob_def newline_def)
  then show ?thesis by (simp add: git_holds_def example_base_world_def)
qed

theorem base_tree_is_committed_witness:
  "export_tree example_base_world ''c'' ''app/'' [''app''] [] ''/t'' = Inr example_exports"
proof -
  have "distinct (map fst (exports ''app/'' [] ''/t'' committed_entries_example))" by (simp add: example_exported example_exports_def)
  from base_tree_is_committed [OF example_held this] show ?thesis by (simp add: example_exported example_base_world_def)
qed

end
