(* ===== verification/Host_Tools.thy ===== *)
theory Host_Tools
  imports Native Base_Tree Check_Reports
begin

text \<open>
  The tools the native Go checks run: \<open>internal/verify\<close> gotools.go, releases.go, visible.go and the copying of
  gogenerate.go. The host's files are a map from paths to what is there, which these operations change; running a
  process, the directories it makes and the locks of other processes are arguments and may change it too. A clock
  counts how often the code asks whether its context has ended. \<open>ht_runs\<close> records the processes that were run, for
  the statements about them: no operation reads it, and only \<open>run_tool\<close> adds to it.
\<close>

section \<open>The host\<close>

datatype host_entry = HostFile nat string | HostDir | HostLink string | HostOther | HostDenied string

record host_tree =
  ht_files :: "string \<Rightarrow> host_entry option"
  ht_clock :: nat
  ht_runs :: "(string list \<times> process_run) list"

text \<open>A page of a response, an entry of an archive and how reading one can fail.\<close>

record http_answer =
  ha_code :: int
  ha_status :: string
  ha_body :: string
  ha_error :: "string option"

record tar_entry =
  ar_regular :: bool
  ar_name :: string
  ar_size :: nat
  ar_contents :: "string + string"

datatype tar_item = TarEntry tar_entry | TarFails string

text \<open>
  What the host and the standard library answer. \<open>ho_follow\<close> is the path a path leads to through links;
  \<open>ho_tar\<close> reads an archive from a bounded number of decompressed bytes; \<open>ho_tree\<close> is a source as \<open>os.Root\<close> sees it.
\<close>

record host =
  ho_ops :: "host_tree native_ops"
  ho_ended :: "nat \<Rightarrow> string option"
  ho_follow :: "host_tree \<Rightarrow> string \<Rightarrow> string"
  ho_read_error :: "host_tree \<Rightarrow> string \<Rightarrow> string option"
  ho_write_error :: "host_tree \<Rightarrow> string \<Rightarrow> string option"
  ho_mkdir :: "string \<Rightarrow> nat \<Rightarrow> host_tree \<Rightarrow> string option \<times> host_tree"
  ho_temp :: "string \<Rightarrow> string \<Rightarrow> host_tree \<Rightarrow> (string + string) \<times> host_tree"
  ho_lock :: "string \<Rightarrow> host_tree \<Rightarrow> string option \<times> host_tree"
  ho_contained :: "string \<Rightarrow> string \<Rightarrow> string + string"
  ho_cache :: "string option"
  ho_sha :: "string \<Rightarrow> string"
  ho_get :: "string \<Rightarrow> string + http_answer"
  ho_gzip_error :: "string \<Rightarrow> string option"
  ho_tar :: "nat \<Rightarrow> string \<Rightarrow> tar_item list"
  ho_decode_checks :: "string \<Rightarrow> string + string list"
  ho_decode_tools :: "string \<Rightarrow> string + string gomap"
  ho_decode_pin :: "string \<Rightarrow> string + release_pin"
  ho_tree :: "host_tree \<Rightarrow> string \<Rightarrow> fs"
  ho_listing :: "string \<Rightarrow> git_listing"
  ho_walk_text :: "walk_error \<Rightarrow> string"
  ho_fs_text :: "string \<Rightarrow> fs_error \<Rightarrow> string"
  ho_tool_text :: "tool_error \<Rightarrow> string"

text \<open>A step of the host returns an error or a value; \<open>then_do\<close> stops at the first error.\<close>

type_synonym 'a host_step = "host_tree \<Rightarrow> (string + 'a) \<times> host_tree"

definition then_do :: "'a host_step \<Rightarrow> ('a \<Rightarrow> 'b host_step) \<Rightarrow> 'b host_step" where
  "then_do m k t = (case m t of (Inl e, t1) \<Rightarrow> (Inl e, t1) | (Inr a, t1) \<Rightarrow> k a t1)"

definition answer_of :: "string + 'a \<Rightarrow> 'a host_step" where
  "answer_of r t = (r, t)"

text \<open>An operation of the host, which runs none of the processes that are recorded, and the error of one.\<close>

definition host_call :: "(host_tree \<Rightarrow> 'a \<times> host_tree) \<Rightarrow> host_tree \<Rightarrow> 'a \<times> host_tree" where
  "host_call m t = (case m t of (a, t1) \<Rightarrow> (a, t1\<lparr>ht_runs := ht_runs t\<rparr>))"

definition unless_error :: "(host_tree \<Rightarrow> string option \<times> host_tree) \<Rightarrow> unit host_step" where
  "unless_error m t = (case host_call m t of (Some e, t1) \<Rightarrow> (Inl e, t1) | (None, t1) \<Rightarrow> (Inr (), t1))"

definition temp_dir :: "host \<Rightarrow> string \<Rightarrow> string \<Rightarrow> string host_step" where
  "temp_dir h dir pattern = host_call (ho_temp h dir pattern)"

definition not_exist :: "string \<Rightarrow> string \<Rightarrow> string" where
  "not_exist op path = op @ '' '' @ path @ '': no such file or directory''"

text \<open>\<open>ctx.Err()\<close>\<close>

definition ask_ended :: "host \<Rightarrow> host_tree \<Rightarrow> string option \<times> host_tree" where
  "ask_ended h t = (ho_ended h (ht_clock t), t\<lparr>ht_clock := Suc (ht_clock t)\<rparr>)"

definition put_file :: "string \<Rightarrow> host_entry \<Rightarrow> host_tree \<Rightarrow> host_tree" where
  "put_file path e t = t\<lparr>ht_files := (ht_files t)(path \<mapsto> e)\<rparr>"

definition remove_all :: "string \<Rightarrow> host_tree \<Rightarrow> host_tree" where
  "remove_all path t = t\<lparr>ht_files := (\<lambda>q. if path_within q path then None else ht_files t q)\<rparr>"

text \<open>\<open>os.Stat\<close> and \<open>os.ReadFile\<close>, which follow links.\<close>

definition stat_file :: "host \<Rightarrow> string \<Rightarrow> host_tree \<Rightarrow> string + host_entry" where
  "stat_file h path t =
     (case ht_files t (ho_follow h t path) of
        None \<Rightarrow> Inl (not_exist ''stat'' path) | Some (HostDenied e) \<Rightarrow> Inl e | Some e \<Rightarrow> Inr e)"

definition read_contents :: "host \<Rightarrow> string \<Rightarrow> host_tree \<Rightarrow> string + string" where
  "read_contents h path t =
     (case ht_files t (ho_follow h t path) of
        None \<Rightarrow> Inl (not_exist ''open'' path)
      | Some (HostDenied e) \<Rightarrow> Inl e
      | Some (HostFile perm bytes) \<Rightarrow> (case ho_read_error h t path of Some e \<Rightarrow> Inl e | None \<Rightarrow> Inr bytes)
      | Some _ \<Rightarrow> Inl (''read '' @ path @ '': is a directory''))"

text \<open>\<open>atomicReplace\<close>: another file takes the place of what is at the path, or nothing changes.\<close>

definition atomic_write :: "host \<Rightarrow> string \<Rightarrow> string \<Rightarrow> nat \<Rightarrow> unit host_step" where
  "atomic_write h path contents perm =
     then_do (unless_error (ho_mkdir h (dir_name path) 448)) (\<lambda>_ t.
       case ho_write_error h t path of Some e \<Rightarrow> (Inl e, t) | None \<Rightarrow> (Inr (), put_file path (HostFile perm contents) t))"

section \<open>Running a tool\<close>

definition empty_run :: native_run where
  "empty_run = \<lparr>nr_exit = 0, nr_stdout = '''', nr_stderr = '''', nr_warnings = []\<rparr>"

definition run_diagnostics :: "native_run \<Rightarrow> tool_run" where
  "run_diagnostics r = \<lparr>tr_exit = nr_exit r, tr_stdout = nr_stdout r, tr_stderr = nr_stderr r\<rparr>"

definition exit_code :: "process_run \<Rightarrow> int" where
  "exit_code p = (case pn_error p of Some (ExitStatus code message) \<Rightarrow> code | _ \<Rightarrow> 0)"

definition native_run_of :: "process_run \<Rightarrow> native_run" where
  "native_run_of p =
     (let out = collected (pn_stdout p); err = collected (pn_stderr p)
      in \<lparr>nr_exit = exit_code p, nr_stdout = ob_buffer out, nr_stderr = ob_buffer err, nr_warnings = output_warnings out err\<rparr>)"

definition run_failure :: "string \<Rightarrow> int \<Rightarrow> process_run \<Rightarrow> string option" where
  "run_failure path timeout p =
     (case pn_cancelled p of
        Some e \<Rightarrow> Some e
      | None \<Rightarrow>
          if pn_timed_out p then Some (base_name path @ '' timed out after '' @ show_duration timeout)
          else if nr_warnings (native_run_of p) \<noteq> [] then
            Some (base_name path @ '' output truncated; refusing incomplete tool diagnostics (exit code '' @
              show_int (nr_exit (native_run_of p)) @ '')'')
          else (case pn_error p of
              None \<Rightarrow> None
            | Some (ExitStatus code message) \<Rightarrow> None
            | Some e \<Rightarrow> Some (run_error_text e)))"

definition record_run :: "string list \<Rightarrow> process_run \<Rightarrow> host_tree \<Rightarrow> host_tree \<Rightarrow> host_tree" where
  "record_run args p before after = after\<lparr>ht_runs := ht_runs before @ [(args, p)]\<rparr>"

definition run_tool :: "host \<Rightarrow> string \<Rightarrow> string list \<Rightarrow> string list \<Rightarrow> int \<Rightarrow> host_tree \<Rightarrow>
    (native_run \<times> string option) \<times> host_tree" where
  "run_tool h dir args env timeout t =
     (case executable (no_runnable (ho_ops h) t) dir env (hd args) of
        Inl e \<Rightarrow> ((empty_run, Some e), t)
      | Inr path \<Rightarrow>
          (case no_run (ho_ops h) dir path (tl args) env timeout t of
             (p, t1) \<Rightarrow> ((native_run_of p, run_failure path timeout p), record_run args p t t1)))"

text \<open>A caller that gives up on any error of the run.\<close>

definition tool_step :: "host \<Rightarrow> string \<Rightarrow> string list \<Rightarrow> string list \<Rightarrow> int \<Rightarrow> native_run host_step" where
  "tool_step h dir args env timeout t =
     (case run_tool h dir args env timeout t of ((run, Some e), t1) \<Rightarrow> (Inl e, t1) | ((run, None), t1) \<Rightarrow> (Inr run, t1))"

section \<open>Building a helper\<close>

record helper =
  hp_name :: string
  hp_module :: string
  hp_pkg :: string

definition helper_lint :: helper where
  "helper_lint = \<lparr>hp_name = ''levenshtein-lint'', hp_module = ''runner/lint'', hp_pkg = ''./cmd/levenshtein-lint''\<rparr>"

definition helper_actionlint :: helper where
  "helper_actionlint = \<lparr>hp_name = ''actionlint'', hp_module = ''runner/tools/actionlint'',
     hp_pkg = ''github.com/rhysd/actionlint/cmd/actionlint''\<rparr>"

definition helper_vulncheck :: helper where
  "helper_vulncheck = \<lparr>hp_name = ''govulncheck'', hp_module = ''runner/tools/govulncheck'',
     hp_pkg = ''golang.org/x/vuln/cmd/govulncheck''\<rparr>"

definition helper_gitleaks :: helper where
  "helper_gitleaks = \<lparr>hp_name = ''gitleaks'', hp_module = ''runner/tools/gitleaks'', hp_pkg = ''github.com/zricethezav/gitleaks/v8''\<rparr>"

definition helper_gocheck :: helper where
  "helper_gocheck = \<lparr>hp_name = ''levenshtein-gocheck'', hp_module = ''runner/lint'', hp_pkg = ''./cmd/levenshtein-gocheck''\<rparr>"

definition helper_apidiff :: helper where
  "helper_apidiff = \<lparr>hp_name = ''apidiff'', hp_module = ''runner/tools/apidiff'', hp_pkg = ''golang.org/x/exp/cmd/apidiff''\<rparr>"

record go_work =
  wk_dir :: string
  wk_env :: "string list"
  wk_root :: string

text \<open>\<open>cacheRoot\<close>: the directory, and whether it is a directory of this execution alone.\<close>

definition cache_root :: "host \<Rightarrow> (string \<times> bool) host_step" where
  "cache_root h t =
     (case ho_cache h of
        Some dir \<Rightarrow> if dir \<noteq> '''' then (Inr (dir, False), t)
          else then_do (temp_dir h '''' ''levenshtein-tools-'') (\<lambda>d. answer_of (Inr (d, True))) t
      | None \<Rightarrow> then_do (temp_dir h '''' ''levenshtein-tools-'') (\<lambda>d. answer_of (Inr (d, True))) t)"

text \<open>One of the three execute bits.\<close>

definition exec_bits :: "nat \<Rightarrow> bool" where
  "exec_bits perm \<longleftrightarrow> odd perm \<or> odd (perm div 8) \<or> odd (perm div 64)"

definition helper_digest :: "host \<Rightarrow> string \<Rightarrow> host_tree \<Rightarrow> string + string" where
  "helper_digest h path t =
     (case ht_files t path of
        None \<Rightarrow> Inl (not_exist ''lstat'' path)
      | Some (HostDenied e) \<Rightarrow> Inl e
      | Some (HostFile perm bytes) \<Rightarrow>
          if \<not> exec_bits perm then Inl (''helper '' @ path @ '' is not a regular executable'')
          else (case ho_read_error h t path of Some e \<Rightarrow> Inl e | None \<Rightarrow> Inr (ho_sha h bytes))
      | Some _ \<Rightarrow> Inl (''helper '' @ path @ '' is not a regular executable''))"

definition chmod_file :: "host \<Rightarrow> string \<Rightarrow> nat \<Rightarrow> unit host_step" where
  "chmod_file h path perm t =
     (case ht_files t path of
        Some (HostFile old bytes) \<Rightarrow>
          (case ho_write_error h t path of Some e \<Rightarrow> (Inl e, t) | None \<Rightarrow> (Inr (), put_file path (HostFile perm bytes) t))
      | _ \<Rightarrow> (Inl (not_exist ''chmod'' path), t))"

text \<open>\<open>os.Link\<close> never replaces what is at the new path.\<close>

definition link_file :: "host \<Rightarrow> string \<Rightarrow> string \<Rightarrow> unit host_step" where
  "link_file h old new t =
     (case ht_files t old of
        None \<Rightarrow> (Inl (''link '' @ old @ '' '' @ new @ '': no such file or directory''), t)
      | Some e \<Rightarrow>
          if ht_files t new \<noteq> None then (Inl (''link '' @ old @ '' '' @ new @ '': file exists''), t)
          else (case ho_write_error h t new of Some err \<Rightarrow> (Inl err, t) | None \<Rightarrow> (Inr (), put_file new e t)))"

text \<open>The part of \<open>build\<close> under the lock of the helper's identity.\<close>

definition publish_helper :: "host \<Rightarrow> string \<Rightarrow> string \<Rightarrow> string \<Rightarrow> string host_step" where
  "publish_helper h built output identity =
     then_do (unless_error (ask_ended h)) (\<lambda>_ t.
       case ht_files t output of
         Some (HostDenied e) \<Rightarrow> (Inl e, t)
       | Some found \<Rightarrow>
           (case helper_digest h output t of
              Inl e \<Rightarrow> (Inl e, t)
            | Inr d \<Rightarrow>
                if d \<noteq> identity then (Inl (''cached helper '' @ output @ '' does not match its executable identity''), t)
                else (Inr output, t))
       | None \<Rightarrow>
           then_do (unless_error (ho_mkdir h (dir_name output) 448)) (\<lambda>_.
           then_do (chmod_file h built 320) (\<lambda>_.
           then_do (unless_error (ask_ended h)) (\<lambda>_.
           then_do (link_file h built output) (\<lambda>_. answer_of (Inr output))))) t)"

definition build_timeout :: int where "build_timeout = 10 * 60 * go_second"

text \<open>What \<open>build\<close> does in its private directory, whose removal follows.\<close>

definition build_in :: "host \<Rightarrow> go_work \<Rightarrow> helper \<Rightarrow> string \<Rightarrow> string \<Rightarrow> string host_step" where
  "build_in h work tool mdir stage =
     (let built = path_join [stage, hp_name tool]; tools = path_join [wk_root work, ''tools''] in
      then_do (tool_step h mdir [''go'', ''build'', ''-trimpath'', ''-o'', built, hp_pkg tool] (build_env (wk_env work)) build_timeout)
        (\<lambda>run.
        if nr_exit run \<noteq> 0
        then answer_of (Inl (''building '' @ hp_name tool @ '': '' @ trim_space (nr_stderr run @ nr_stdout run)))
        else (\<lambda>t. case helper_digest h built t of
            Inl e \<Rightarrow> (Inl e, t)
          | Inr identity \<Rightarrow>
              then_do (unless_error (ho_lock h (path_join [wk_root work, ''locks'', ''tool-'' @ identity])))
                (\<lambda>_. publish_helper h built (path_join [tools, identity, hp_name tool]) identity) t)))"

definition build_helper :: "host \<Rightarrow> request \<Rightarrow> go_work \<Rightarrow> helper \<Rightarrow> string host_step" where
  "build_helper h req work tool t =
     (case ho_contained h (rq_shared req) (hp_module tool) of
        Inl e \<Rightarrow> (Inl (''shared checkout has no '' @ hp_module tool @ '': '' @ e), t)
      | Inr mdir \<Rightarrow>
          let tools = path_join [wk_root work, ''tools''] in
          then_do (unless_error (ho_mkdir h tools 448)) (\<lambda>_.
          then_do (temp_dir h tools ''.build-'') (\<lambda>stage t1.
            case build_in h work tool mdir stage t1 of (r, t2) \<Rightarrow> (r, remove_all stage t2))) t)"

section \<open>The linter's rules\<close>

definition toolchain_file :: "string \<Rightarrow> string" where
  "toolchain_file shared = path_join [shared, ''runner'', ''toolchain.json'']"

definition shared_checks :: "host \<Rightarrow> string \<Rightarrow> host_tree \<Rightarrow> string + string list" where
  "shared_checks h shared t =
     (case read_contents h (toolchain_file shared) t of
        Inl e \<Rightarrow> Inl (''shared checkout has no runner/toolchain.json: '' @ e)
      | Inr bytes \<Rightarrow>
          bind_result (ho_decode_checks h bytes) (\<lambda>checks.
            if checks = [] then Inl ''runner/toolchain.json declares no checks'' else Inr checks))"

fun registered_error_text :: "registered_error \<Rightarrow> string" where
  "registered_error_text (MatchesNoRule pattern) =
     ''go-lint check '' @ go_quote pattern @ '' matches no rule levenshtein-lint registers''"

definition lint_selection :: "host \<Rightarrow> go_work \<Rightarrow> string \<Rightarrow> string list \<Rightarrow> string list \<Rightarrow> string list host_step" where
  "lint_selection h work binary shipped added =
     (if added = [] then answer_of (Inr shipped)
      else then_do (tool_step h (wk_dir work) [binary, ''-list-checks''] (wk_env work) (60 * go_second)) (\<lambda>run.
        if nr_exit run \<noteq> 0 then answer_of (Inl (''listing the linter's rules failed: '' @ trim_space (nr_stderr run)))
        else (case registered added (nr_stdout run) of
            Some e \<Rightarrow> answer_of (Inl (registered_error_text e)) | None \<Rightarrow> answer_of (Inr (shipped @ added)))))"

section \<open>Pinned releases\<close>

definition release_limit :: nat where "release_limit = 134217728"

datatype release_tool = ReleaseShellCheck | ReleaseOSVScanner | ReleaseZizmor

fun release_tool_text :: "release_tool \<Rightarrow> string" where
  "release_tool_text ReleaseShellCheck = ''shellcheck''"
| "release_tool_text ReleaseOSVScanner = ''osvScanner''"
| "release_tool_text ReleaseZizmor = ''zizmor''"

fun release_error_text :: "release_error \<Rightarrow> string" where
  "release_error_text (PinsNoRelease tool) = ''runner/toolchain.json pins no '' @ tool @ '' release''"
| "release_error_text (OutsideArchive tool binary) = ''runner/toolchain.json '' @ tool @ '' binary '' @ go_quote binary @
     '' is not a path inside its archive''"
| "release_error_text (NoAsset tool version platform) = ''no reviewed '' @ tool @ '' '' @ version @ '' release asset for '' @ platform"
| "release_error_text (NotArchive tool version name) = tool @ '' '' @ version @ '' asset '' @ name @ '' must be a .tar.gz archive''"

definition zero_pin :: release_pin where
  "zero_pin = \<lparr>pin_releases = '''', pin_version = '''', pin_binary = '''', pin_assets = []\<rparr>"

definition read_release_pin :: "host \<Rightarrow> string \<Rightarrow> release_tool \<Rightarrow> host_tree \<Rightarrow> string + release_pin" where
  "read_release_pin h shared tool t =
     (let name = release_tool_text tool in
      bind_result (wrap_error ((@) ''shared checkout has no runner/toolchain.json: '') (read_contents h (toolchain_file shared) t)) (\<lambda>bytes.
      bind_result (ho_decode_tools h bytes) (\<lambda>tools.
      bind_result (case map_of tools name of
          None \<Rightarrow> Inr zero_pin
        | Some raw \<Rightarrow> wrap_error ((@) (''runner/toolchain.json '' @ name @ '': '')) (ho_decode_pin h raw)) (\<lambda>pin.
      case release_check pin name of Some e \<Rightarrow> Inl (release_error_text e) | None \<Rightarrow> Inr pin))))"

definition matches_sha256 :: "host \<Rightarrow> string \<Rightarrow> string \<Rightarrow> bool" where
  "matches_sha256 h bytes want \<longleftrightarrow> ho_sha h bytes = to_lower want"

definition larger_than :: "string \<Rightarrow> nat \<Rightarrow> string" where
  "larger_than name limit = name @ '' is larger than '' @ show_nat limit @ '' bytes''"

definition download :: "host \<Rightarrow> string \<Rightarrow> nat \<Rightarrow> string + string" where
  "download h url limit =
     bind_result (ho_get h url) (\<lambda>r.
       if ha_code r \<noteq> 200 then Inl (url @ '' returned '' @ ha_status r)
       else
         let bytes = take (Suc limit) (ha_body r) in
         case (if length (ha_body r) \<le> limit then ha_error r else None) of
           Some e \<Rightarrow> Inl e
         | None \<Rightarrow> if length bytes > limit then Inl (larger_than url limit) else Inr bytes)"

fun untar_items :: "string \<Rightarrow> nat \<Rightarrow> tar_item list \<Rightarrow> string + string" where
  "untar_items name limit [] = Inl (''no '' @ name @ '' file'')"
| "untar_items name limit (TarFails e # items) = Inl e"
| "untar_items name limit (TarEntry entry # items) =
     (if \<not> ar_regular entry \<or> clean (ar_name entry) \<noteq> name then untar_items name limit items
      else if ar_size entry > limit then Inl (larger_than name limit)
      else ar_contents entry)"

definition untar_entry :: "host \<Rightarrow> string \<Rightarrow> string \<Rightarrow> nat \<Rightarrow> string + string" where
  "untar_entry h archive name limit =
     (case ho_gzip_error h archive of Some e \<Rightarrow> Inl e | None \<Rightarrow> untar_items name limit (ho_tar h release_limit archive))"

text \<open>The asset: the cached copy if it has the reviewed digest, or else what a download gives that has it.\<close>

definition fetch_asset :: "host \<Rightarrow> string \<Rightarrow> release_tool \<Rightarrow> release_pin \<Rightarrow> release_asset \<Rightarrow> string \<Rightarrow> string host_step" where
  "fetch_asset h cached tool pin asset releases t =
     (case download h (asset_url pin asset releases) release_limit of
        Inl e \<Rightarrow> (Inl (''downloading '' @ release_tool_text tool @ '' '' @ pin_version pin @
          '', which needs network access to fetch once per cache directory: '' @ e), t)
      | Inr bytes \<Rightarrow>
          if \<not> matches_sha256 h bytes (ra_sha256 asset)
          then (Inl (release_tool_text tool @ '' asset '' @ ra_name asset @ '' does not match its reviewed SHA-256''), t)
          else then_do (atomic_write h cached bytes 384) (\<lambda>_. answer_of (Inr bytes)) t)"

definition reviewed_asset :: "host \<Rightarrow> string \<Rightarrow> release_tool \<Rightarrow> release_pin \<Rightarrow> release_asset \<Rightarrow> string \<Rightarrow> string host_step" where
  "reviewed_asset h cached tool pin asset releases t =
     (case read_contents h cached t of
        Inr bytes \<Rightarrow> if matches_sha256 h bytes (ra_sha256 asset) then (Inr bytes, t) else fetch_asset h cached tool pin asset releases t
      | Inl e \<Rightarrow> fetch_asset h cached tool pin asset releases t)"

definition release_binary :: "host \<Rightarrow> release_tool \<Rightarrow> release_pin \<Rightarrow> release_asset \<Rightarrow> string \<Rightarrow> string + string" where
  "release_binary h tool pin asset bytes =
     (if pin_binary pin = '''' then Inr bytes
      else wrap_error ((@) (release_tool_text tool @ '' archive '' @ ra_name asset @ '': ''))
        (untar_entry h bytes (pin_binary pin) release_limit))"

definition host_platform :: "host \<Rightarrow> string" where
  "host_platform h = no_os (ho_ops h) @ ''/'' @ no_arch (ho_ops h)"

definition install_release :: "host \<Rightarrow> string \<Rightarrow> string \<Rightarrow> release_tool \<Rightarrow> string \<Rightarrow> string host_step" where
  "install_release h shared rdir tool releases t =
     (case read_release_pin h shared tool t of
        Inl e \<Rightarrow> (Inl e, t)
      | Inr pin \<Rightarrow>
          (case release_asset_for pin (release_tool_text tool) (host_platform h) of
             Inl e \<Rightarrow> (Inl (release_error_text e), t)
           | Inr asset \<Rightarrow>
               let dir = path_join [rdir, ''tools'', release_tool_text tool @ ''-'' @ pin_version pin];
                   installed = path_join [dir, release_tool_text tool] in
               then_do (unless_error (ho_lock h (path_join [rdir, ''locks'', ''tool-'' @ release_tool_text tool]))) (\<lambda>_.
               then_do (reviewed_asset h (path_join [dir, ra_name asset]) tool pin asset releases) (\<lambda>bytes.
               then_do (answer_of (release_binary h tool pin asset bytes)) (\<lambda>binary.
               then_do (atomic_write h installed binary 448) (\<lambda>_. answer_of (Inr installed))))) t))"

section \<open>The files a check sees\<close>

definition skipped_dir :: "string \<Rightarrow> (string \<Rightarrow> bool) \<Rightarrow> bool" where
  "skipped_dir dir skip \<longleftrightarrow> dir \<noteq> dot \<and> list_ex skip (split_at slash dir)"

text \<open>
  A visit of \<open>visibleFiles\<close> that adds its file. The visits below a directory for which the callback returns
  \<open>SkipDir\<close> never come, and none of them would add a file: a path below a private one is private
  (\<open>private_below\<close>), and a file below a skipped directory is left out anyway.
\<close>

definition visible_visit :: "(string \<Rightarrow> bool) \<Rightarrow> visit \<Rightarrow> bool" where
  "visible_visit skip v \<longleftrightarrow>
     (case vs_node v of
        Some (FileNode perm contents) \<Rightarrow>
          vs_scope v \<noteq> ScopeOmitted \<and> \<not> private_source_path (vs_rel v) \<and> \<not> skipped_dir (dir_name (vs_rel v)) skip
      | _ \<Rightarrow> False)"

definition visible_files :: "fs \<Rightarrow> git_listing \<Rightarrow> planned_check \<Rightarrow> (string \<Rightarrow> bool) \<Rightarrow> walk_error + string list" where
  "visible_files tree listing c skip =
     bind_result (walk_set tree (target_files c) listing)
       (\<lambda>vs. Inr (sort (remdups (map vs_rel (filter (visible_visit skip) vs)))))"

definition source_skip_dir :: "string \<Rightarrow> bool" where
  "source_skip_dir name \<longleftrightarrow> name \<in> set source_skip_dirs"

section \<open>Copying files\<close>

text \<open>\<open>copyFile\<close> from a tree: the file must be new. The owner may write the copy.\<close>

definition copy_file :: "host \<Rightarrow> fs \<Rightarrow> string \<Rightarrow> string \<Rightarrow> nat \<Rightarrow> unit host_step" where
  "copy_file h tree rel target perm =
     then_do (unless_error (ho_mkdir h (dir_name target) 448)) (\<lambda>_ t.
       case stat tree rel of
         Inl e \<Rightarrow> (Inl (ho_fs_text h rel e), t)
       | Inr (FileNode mode contents) \<Rightarrow>
           if ht_files t target \<noteq> None then (Inl (''open '' @ target @ '': file exists''), t)
           else (case ho_write_error h t target of
              Some e \<Rightarrow> (Inl e, t)
            | None \<Rightarrow> (Inr (), put_file target (HostFile (set_bit 7 perm) contents) t))
       | Inr _ \<Rightarrow> (Inl (''read '' @ rel @ '': is a directory''), t))"

fun stage_into :: "host \<Rightarrow> fs \<Rightarrow> string \<Rightarrow> string list \<Rightarrow> unit host_step" where
  "stage_into h tree dir [] = answer_of (Inr ())"
| "stage_into h tree dir (file # files) =
     (let failed = (\<lambda>e. ''staging '' @ file @ '': '' @ e) in
      then_do (\<lambda>t. case stat tree file of
           Inl e \<Rightarrow> (Inl (failed (ho_fs_text h file e)), t)
         | Inr node \<Rightarrow> (case copy_file h tree file (path_join [dir, file]) (case node of FileNode perm c \<Rightarrow> perm | _ \<Rightarrow> 0) t of
             (r, t1) \<Rightarrow> (wrap_error failed r, t1)))
        (\<lambda>_. stage_into h tree dir files))"

text \<open>\<open>stageFiles\<close>: the directory of the copies, which the caller removes.\<close>

definition stage_files :: "host \<Rightarrow> string \<Rightarrow> string list \<Rightarrow> string host_step" where
  "stage_files h source files =
     then_do (temp_dir h '''' ''levenshtein-stage-'') (\<lambda>dir t.
       case stage_into h (ho_tree h t source) dir files t of
         (Inl e, t1) \<Rightarrow> (Inl e, remove_all dir t1)
       | (Inr _, t1) \<Rightarrow> (Inr dir, t1))"

definition link_leaves :: "string \<Rightarrow> string \<Rightarrow> string" where
  "link_leaves rel link = rel @ '' is a symlink to '' @ link @ '', outside the target's inputs; declare the real path''"

definition copy_entry :: "host \<Rightarrow> fs \<Rightarrow> string \<Rightarrow> string \<Rightarrow> node \<Rightarrow> unit host_step" where
  "copy_entry h tree dest rel node =
     (let target = path_join [dest, rel] in
      case node of
        DirNode \<Rightarrow> unless_error (ho_mkdir h target 448)
      | LinkNode link \<Rightarrow>
          if is_abs link \<or> \<not> is_local (path_join [dir_name rel, link]) then answer_of (Inl (link_leaves rel link))
          else then_do (unless_error (ho_mkdir h (dir_name target) 448)) (\<lambda>_ t.
            if ht_files t target \<noteq> None then (Inl (''symlink '' @ link @ '' '' @ target @ '': file exists''), t)
            else (Inr (), put_file target (HostLink link) t))
      | FileNode perm contents \<Rightarrow> copy_file h tree rel target perm
      | SpecialNode \<Rightarrow> answer_of (Inr ()))"

text \<open>A visit that \<open>copyInputs\<close> copies; what is below a private directory is private.\<close>

definition copied_visit :: "visit \<Rightarrow> bool" where
  "copied_visit v \<longleftrightarrow> vs_node v \<noteq> None \<and> vs_scope v \<noteq> ScopeOmitted \<and> \<not> private_source_path (vs_rel v)"

fun copy_visits :: "host \<Rightarrow> fs \<Rightarrow> string \<Rightarrow> string list \<Rightarrow> visit list \<Rightarrow> unit host_step" where
  "copy_visits h tree dest copied [] = answer_of (Inr ())"
| "copy_visits h tree dest copied (v # vs) =
     (if \<not> copied_visit v \<or> vs_rel v \<in> set copied then copy_visits h tree dest copied vs
      else then_do (copy_entry h tree dest (vs_rel v) (the (vs_node v))) (\<lambda>_. copy_visits h tree dest (vs_rel v # copied) vs))"

definition copy_inputs :: "host \<Rightarrow> request \<Rightarrow> string \<Rightarrow> unit host_step" where
  "copy_inputs h req dest t =
     (let tree = ho_tree h t (rq_source req) in
      case walk_set tree (target_files (rq_check req)) (ho_listing h (rq_source req)) of
        Inl e \<Rightarrow> (Inl (ho_walk_text h e), t)
      | Inr vs \<Rightarrow> copy_visits h tree dest [] vs t)"

end
