(* ===== verification/Host_Kinds.thy ===== *)
theory Host_Kinds
  imports Host_Tools
begin

text \<open>
  The native execution of the shared Go checks: \<open>internal/verify\<close> gochecks.go, gocheck.go, gotest.go, gogenerate.go,
  zizmor.go, shelllint.go, depsvuln.go, secrets.go and the native part of goapidiff.go. A kind's work runs its tools
  on the host and reads the last one's report; \<open>go_check_executor\<close> makes the result of it. Decoding the reports and
  matching file name patterns are arguments.
\<close>

record readers =
  rd_events :: "test_event stream"
  rd_diagnostics :: "finding stream"
  rd_deps :: "string \<Rightarrow> deps_result list option"
  rd_comments :: "string \<Rightarrow> shell_comment list option option"
  rd_leaks :: "string \<Rightarrow> secrets_leak list option"
  rd_gocheck :: "string \<Rightarrow> gocheck_output option"
  rd_rules_json :: "imports_check \<Rightarrow> string"
  rd_glob :: "host_tree \<Rightarrow> string \<Rightarrow> string + string list"

text \<open>What a kind's work reports: findings, the raw invocation and a tool error.\<close>

type_synonym go_answer = "finding list \<times> native_run \<times> string option"
type_synonym go_runner_work = "request \<Rightarrow> go_work \<Rightarrow> host_tree \<Rightarrow> go_answer \<times> host_tree"

definition go_check_timeout :: int where "go_check_timeout = 30 * 60 * go_second"

abbreviation target_of :: "request \<Rightarrow> target" where
  "target_of req \<equiv> pc_target (rq_check req)"

text \<open>A step whose error ends the work before its tool ran.\<close>

definition before_tool :: "'a host_step \<Rightarrow> ('a \<Rightarrow> host_tree \<Rightarrow> go_answer \<times> host_tree) \<Rightarrow> host_tree \<Rightarrow> go_answer \<times> host_tree" where
  "before_tool m k t = (case m t of (Inl e, t1) \<Rightarrow> (([], empty_run, Some e), t1) | (Inr a, t1) \<Rightarrow> k a t1)"

definition judged_run :: "host \<Rightarrow> native_run \<Rightarrow> tool_error + finding list \<Rightarrow> go_answer" where
  "judged_run h run verdict = (case verdict of Inl e \<Rightarrow> ([], run, Some (ho_tool_text h e)) | Inr fs \<Rightarrow> (fs, run, None))"

definition last_tool :: "host \<Rightarrow> string \<Rightarrow> string list \<Rightarrow> string list \<Rightarrow> (host_tree \<Rightarrow> tool_run \<Rightarrow> tool_error + finding list) \<Rightarrow>
    host_tree \<Rightarrow> go_answer \<times> host_tree" where
  "last_tool h dir args env reader t =
     (case run_tool h dir args env go_check_timeout t of
        ((run, Some e), t1) \<Rightarrow> (([], run, Some e), t1)
      | ((run, None), t1) \<Rightarrow> (judged_run h run (reader t1 (run_diagnostics run)), t1))"

section \<open>The executor\<close>

definition skipped_rule_modules :: "request \<Rightarrow> warning list" where
  "skipped_rule_modules req =
     (let modules = pc_rule_modules (rq_check req) in
      if modules = [] \<or> en_executor (pc_environment (rq_check req)) \<noteq> ExecutorNative then []
      else [\<lparr>wn_kind = WarningRuleModulesSkipped, wn_message = ''community rules from '' @ show_nat (length modules) @
        '' rule module(s) run only on the Dagger executor; this native check ran the core rules; migrate to configuration version 2 and use a Dagger environment, or explicitly set lint.rule_modules=false for core rules only''\<rparr>])"

text \<open>
  The loop of \<open>workspace\<close> from the directory, which \<open>contained\<close> gave and so is absolute and clean, up to the root of
  the file system, where it always returns.
\<close>

definition upward :: "string \<Rightarrow> string list" where
  "upward dir = map (\<lambda>n. slash # unparts (take n (path_elements dir))) (rev [0 ..< Suc (length (path_elements dir))])"

fun workspace_from :: "(string \<Rightarrow> string + host_entry) \<Rightarrow> request \<Rightarrow> string list \<Rightarrow> string" where
  "workspace_from stat_at req [] = ''off''"
| "workspace_from stat_at req (current # above_it) =
     (case filepath_rel (rq_source req) current of
        None \<Rightarrow> ''off''
      | Some rel \<Rightarrow>
          if rel \<noteq> dot \<and> \<not> is_local rel then ''off''
          else
            let found = path_join [current, ''go.work'']; work = path_join [rel, ''go.work''] in
            if (case stat_at found of Inr (HostFile perm c) \<Rightarrow> True | _ \<Rightarrow> False) \<and>
               declared_input (tg_inputs (target_of req)) work \<and> \<not> excluded work (tg_exclude (target_of req))
            then found
            else if rel = dot then ''off''
            else workspace_from stat_at req above_it)"

definition workspace :: "host \<Rightarrow> request \<Rightarrow> string \<Rightarrow> host_tree \<Rightarrow> string" where
  "workspace h req dir t = workspace_from (\<lambda>p. stat_file h p t) req (upward dir)"

definition go_check_result :: "request \<Rightarrow> string \<Rightarrow> go_answer \<Rightarrow> string option \<Rightarrow> result" where
  "go_check_result req message answer ended =
     (let (findings, invocation, err) = answer;
          r = (outcome StatusPassed '''')\<lparr>rs_stdout := nr_stdout invocation, rs_stderr := nr_stderr invocation,
            rs_warnings := skipped_rule_modules req @ nr_warnings invocation\<rparr>
      in case ended of
           Some e \<Rightarrow> with_outcome r StatusCancelled e
         | None \<Rightarrow>
             (case err of
                Some e \<Rightarrow> with_outcome r StatusError e
              | None \<Rightarrow>
                  if findings = [] then r
                  else (with_outcome r StatusFailed message)\<lparr>rs_details := Details [] (Findings findings)\<rparr>))"

definition go_check_executor :: "host \<Rightarrow> go_runner_work \<Rightarrow> string \<Rightarrow> request \<Rightarrow> string \<Rightarrow> string list \<Rightarrow> host_tree \<Rightarrow> result \<times> host_tree" where
  "go_check_executor h run message req dir env t =
     (case cache_root h t of
        (Inl e, t1) \<Rightarrow> (outcome StatusError (''native tool directory: '' @ e), t1)
      | (Inr (rdir, temporary), t1) \<Rightarrow>
          let work = \<lparr>wk_dir = dir, wk_env = analysis_env env (workspace h req dir t1), wk_root = rdir\<rparr> in
          (case run req work t1 of
             (answer, t2) \<Rightarrow>
               (case ask_ended h t2 of
                  (ended, t3) \<Rightarrow> (go_check_result req message answer ended, if temporary then remove_all rdir t3 else t3))))"

section \<open>The preflight of a module\<close>

definition needs_go_mod :: "host \<Rightarrow> string \<Rightarrow> go_work \<Rightarrow> unit host_step" where
  "needs_go_mod h m work t =
     (case stat_file h (path_join [wk_dir work, ''go.mod'']) t of
        Inl e \<Rightarrow> (Inl (''module '' @ go_quote m @ '' needs a readable go.mod: '' @ e), t)
      | Inr entry \<Rightarrow> (Inr (), t))"

definition go_module :: "host \<Rightarrow> string \<Rightarrow> go_work \<Rightarrow> unit host_step" where
  "go_module h m work =
     then_do (needs_go_mod h m work) (\<lambda>_.
     then_do (tool_step h (wk_dir work) [''go'', ''list'', ''./...''] (wk_env work) go_check_timeout) (\<lambda>run.
       answer_of
        (if nr_exit run \<noteq> 0 then Inl (''module '' @ go_quote m @ '' package discovery failed: '' @ trim_space (nr_stderr run))
         else if trim_space (nr_stdout run) = '''' then
           Inl (''module '' @ go_quote m @ '' contains no Go packages; refusing an empty pass'')
         else Inr ())))"

section \<open>gochecks.go\<close>

text \<open>The directory of Staticcheck's facts, and whether it is removed afterwards.\<close>

definition staticcheck_cache :: "host \<Rightarrow> request \<Rightarrow> string \<Rightarrow> (string \<times> bool) host_step" where
  "staticcheck_cache h req rdir =
     (if rq_rerun_checks req then then_do (temp_dir h '''' ''levenshtein-staticcheck-'') (\<lambda>d. answer_of (Inr (d, True)))
      else let dir = path_join [rdir, ''staticcheck''] in
        then_do (unless_error (ho_mkdir h dir 448)) (\<lambda>_. answer_of (Inr (dir, False))))"

text \<open>A directory that a kind removes when it is done.\<close>

definition then_remove :: "bool \<Rightarrow> string \<Rightarrow> go_answer \<times> host_tree \<Rightarrow> go_answer \<times> host_tree" where
  "then_remove temporary dir r = (case r of (a, t) \<Rightarrow> (a, if temporary then remove_all dir t else t))"

definition go_lint :: "host \<Rightarrow> readers \<Rightarrow> go_runner_work" where
  "go_lint h rd req work =
     before_tool (\<lambda>t. (shared_checks h (rq_shared req) t, t)) (\<lambda>shipped.
     before_tool (go_module h (tg_dir (target_of req)) work) (\<lambda>_.
     before_tool (build_helper h req work helper_lint) (\<lambda>binary.
     before_tool (lint_selection h work binary shipped (core_lint_checks (pc_check (rq_check req)))) (\<lambda>checks.
     before_tool (staticcheck_cache h req (wk_root work)) (\<lambda>(cache, temporary) t.
       then_remove temporary cache (last_tool h (wk_dir work)
         [binary, ''-f=json'', ''-checks='' @ join_with '','' checks, ''./...'']
         (wk_env work @ [''STATICCHECK_CACHE='' @ cache]) (\<lambda>t1. lint_findings (rd_diagnostics rd) checks (rq_source req)) t))))))"

definition go_vet :: "host \<Rightarrow> go_runner_work" where
  "go_vet h req work =
     before_tool (go_module h (tg_dir (target_of req)) work) (\<lambda>_.
       last_tool h (wk_dir work) [''go'', ''vet'', ''./...''] (wk_env work) (\<lambda>t1. tool_exit KindGoVet (tg_dir (target_of req))))"

text \<open>\<open>go_mod_steps\<close> is the loop of \<open>goMod\<close>, with the findings and the output so far.\<close>

fun go_mod_steps :: "host \<Rightarrow> request \<Rightarrow> go_work \<Rightarrow> string list \<Rightarrow> mod_step list \<Rightarrow> finding list \<Rightarrow> native_run \<Rightarrow> host_tree \<Rightarrow>
    go_answer \<times> host_tree" where
  "go_mod_steps h req work env [] findings output t = ((findings, output, None), t)"
| "go_mod_steps h req work env (step # steps) findings output t =
     (case run_tool h (wk_dir work) (mod_args step) env go_check_timeout t of
        ((run, err), t1) \<Rightarrow>
          let merged = merge_tool_output output run in
          (case err of
             Some e \<Rightarrow> (([], merged, Some e), t1)
           | None \<Rightarrow>
               (case mod_findings step (tg_dir (target_of req)) (run_diagnostics run) of
                  Inl e \<Rightarrow> (([], merged, Some (ho_tool_text h e)), t1)
                | Inr found \<Rightarrow> go_mod_steps h req work env steps (findings @ found) merged t1)))"

definition go_mod :: "host \<Rightarrow> go_runner_work" where
  "go_mod h req work =
     before_tool (needs_go_mod h (tg_dir (target_of req)) work) (\<lambda>_.
       go_mod_steps h req work (go_env (wk_env work) [''GOWORK=off'']) mod_steps [] empty_run)"

definition go_vuln :: "host \<Rightarrow> go_runner_work" where
  "go_vuln h req work =
     before_tool (go_module h (tg_dir (target_of req)) work) (\<lambda>_.
     before_tool (build_helper h req work helper_vulncheck) (\<lambda>binary.
       last_tool h (wk_dir work) [binary, ''./...''] (wk_env work) (\<lambda>t1. tool_exit KindGoVuln (tg_dir (target_of req)))))"

definition workflow_arguments :: "readers \<Rightarrow> string \<Rightarrow> string \<Rightarrow> host_tree \<Rightarrow> string + string list" where
  "workflow_arguments rd source binary t =
     bind_result (map_results (\<lambda>pattern. rd_glob rd t (path_join [source, ''.github'', ''workflows'', pattern])) [''*.yml'', ''*.yaml'']) (\<lambda>matches.
     let workflows = map (tool_relative source) (concat matches) in
     if workflows = [] then Inl ''workflow-lint requires .github/workflows/*.yml or *.yaml''
     else bind_result (rd_glob rd t (path_join [source, ''.github'', ''actionlint.y*ml''])) (\<lambda>configs.
       if length configs > 1 then Inl ''configure only one .github/actionlint YAML file''
       else Inr ([binary, ''-shellcheck='', ''-pyflakes=''] @
         (case configs of [config] \<Rightarrow> [''-config-file'', tool_relative source config] | _ \<Rightarrow> []) @ sort workflows)))"

definition workflow_lint :: "host \<Rightarrow> readers \<Rightarrow> go_runner_work" where
  "workflow_lint h rd req work =
     before_tool (build_helper h req work helper_actionlint) (\<lambda>binary.
     before_tool (\<lambda>t. (workflow_arguments rd (rq_source req) binary t, t)) (\<lambda>args.
       last_tool h (wk_dir work) args (wk_env work) (\<lambda>t1. tool_exit KindWorkflowLint (tg_dir (target_of req)))))"

section \<open>gocheck.go and gotest.go\<close>

definition gocheck_run :: "host \<Rightarrow> readers \<Rightarrow> tool_kind \<Rightarrow> string \<Rightarrow> string list \<Rightarrow> string list \<Rightarrow> host_tree \<Rightarrow> go_answer \<times> host_tree" where
  "gocheck_run h rd kind dir args env t =
     (case run_tool h dir args env go_check_timeout t of
        ((run, Some e), t1) \<Rightarrow> (([], run, Some e), t1)
      | ((run, None), t1) \<Rightarrow>
          (case gocheck_report (rd_gocheck rd) kind (run_diagnostics run) of
             Inl e \<Rightarrow> (([], run, Some (ho_tool_text h e)), t1)
           | Inr (found, notes) \<Rightarrow> ((found, run\<lparr>nr_stdout := join_with newline notes\<rparr>, None), t1)))"

definition import_rules :: "readers \<Rightarrow> check \<Rightarrow> string + string" where
  "import_rules rd c =
     (case ck_imports c of
        None \<Rightarrow> Inl (''go-imports needs an '' @ go_quote ''imports'' @ '' object with its rules'')
      | Some config \<Rightarrow> Inr (rd_rules_json rd config))"

definition go_imports_native :: "host \<Rightarrow> readers \<Rightarrow> go_runner_work" where
  "go_imports_native h rd req work =
     before_tool (answer_of (import_rules rd (pc_check (rq_check req)))) (\<lambda>rules.
     before_tool (needs_go_mod h (tg_dir (target_of req)) work) (\<lambda>_.
     before_tool (build_helper h req work helper_gocheck) (\<lambda>binary.
       gocheck_run h rd KindGoImports (wk_dir work)
         [binary, ''imports'', ''-rules='' @ rules, ''-prefix='' @ tg_dir (target_of req)] (wk_env work))))"

definition race_compiler :: "host \<Rightarrow> string \<Rightarrow> string list \<Rightarrow> unit host_step" where
  "race_compiler h dir env =
     then_do (tool_step h dir [''go'', ''env'', ''CC''] env (60 * go_second)) (\<lambda>run t.
       if nr_exit run \<noteq> 0 then (Inl (''go env CC failed: '' @ trim_space (nr_stderr run)), t)
       else (case words (nr_stdout run) of
          [] \<Rightarrow> (Inl ''go-test runs go test -race, which needs cgo, but go env CC names no C compiler'', t)
        | compiler # _ \<Rightarrow>
            (case executable (no_runnable (ho_ops h) t) dir env compiler of
               Inl e \<Rightarrow> (Inl (''go-test runs go test -race, which needs cgo and a C compiler such as gcc or clang: '' @ e), t)
             | Inr path \<Rightarrow> (Inr (), t))))"

definition show_transcript :: "readers \<Rightarrow> go_answer \<Rightarrow> go_answer" where
  "show_transcript rd a =
     (case a of (findings, run, err) \<Rightarrow>
        (findings, (case test_transcript (rd_events rd) (nr_stdout run) of None \<Rightarrow> run | Some s \<Rightarrow> run\<lparr>nr_stdout := s\<rparr>), err))"

definition go_test :: "host \<Rightarrow> readers \<Rightarrow> go_runner_work" where
  "go_test h rd req work =
     (let env = go_env (wk_env work) [''CGO_ENABLED=1''] in
      before_tool (go_module h (tg_dir (target_of req)) work) (\<lambda>_.
      before_tool (race_compiler h (wk_dir work) env) (\<lambda>_ t.
        case run_tool h (wk_dir work) (test_args (rq_rerun_checks req)) env go_check_timeout t of
          ((run, Some e), t1) \<Rightarrow> (([], run, Some e), t1)
        | ((run, None), t1) \<Rightarrow>
            (show_transcript rd (judged_run h run (test_findings (rd_events rd) (tg_dir (target_of req)) (run_diagnostics run))), t1))))"

section \<open>gogenerate.go\<close>

definition scratch_workspace :: "host \<Rightarrow> request \<Rightarrow> string \<Rightarrow> string \<Rightarrow> host_tree \<Rightarrow> string" where
  "scratch_workspace h req dir scratch t =
     (let gowork = workspace h req dir t in
      if gowork = ''off'' then gowork
      else (case filepath_rel (rq_source req) gowork of
              None \<Rightarrow> ''off''
            | Some rel \<Rightarrow> if \<not> is_local rel then ''off'' else path_join [scratch, rel]))"

definition generate_env :: "host \<Rightarrow> request \<Rightarrow> go_work \<Rightarrow> string \<Rightarrow> host_tree \<Rightarrow> string list" where
  "generate_env h req work scratch t = go_env (wk_env work)
     [''GOWORK='' @ scratch_workspace h req (wk_dir work) scratch t, ''LEVENSHTEIN_SOURCE='' @ scratch,
      ''LEVENSHTEIN_WORKSPACE='' @ path_join [scratch, tg_workspace (target_of req)]]"

definition go_generate_native :: "host \<Rightarrow> readers \<Rightarrow> go_runner_work" where
  "go_generate_native h rd req work =
     before_tool (needs_go_mod h (tg_dir (target_of req)) work) (\<lambda>_.
     before_tool (build_helper h req work helper_gocheck) (\<lambda>binary.
     before_tool (temp_dir h '''' ''levenshtein-generate-'') (\<lambda>scratch t. then_remove True scratch
       (case copy_inputs h req scratch t of
          (Inl e, t1) \<Rightarrow> (([], empty_run, Some (''copying the target's inputs: '' @ e)), t1)
        | (Inr _, t1) \<Rightarrow>
            gocheck_run h rd KindGoGenerate scratch
              [binary, ''generate'', ''-root='' @ scratch, ''-module='' @ tg_dir (target_of req)]
              (generate_env h req work scratch t1) t1))))"

section \<open>The scanners\<close>

definition zizmor_env :: "string list \<Rightarrow> string list" where
  "zizmor_env env = filter (\<lambda>entry. let name = variable_name entry in
     \<not> has_prefix name ''ZIZMOR_'' \<and> name \<noteq> ''GH_TOKEN'' \<and> name \<noteq> ''GITHUB_TOKEN'' \<and> name \<noteq> ''GH_HOST'') env"

text \<open>The files below a directory in the order of \<open>filepath.WalkDir\<close>, which follows no link.\<close>

fun files_below :: "nat \<Rightarrow> fs \<Rightarrow> string list \<Rightarrow> string list list" where
  "files_below 0 tree here = []"
| "files_below (Suc n) tree here =
     (case node_at tree here of
        None \<Rightarrow> []
      | Some DirNode \<Rightarrow> concat (map (\<lambda>name. files_below n tree (here @ [name])) (entries_of tree here))
      | Some _ \<Rightarrow> [here])"

definition action_files :: "fs \<Rightarrow> string list" where
  "action_files tree =
     (let actions = [''.github'', ''actions''] in
      case resolve tree False (fs_max_links tree) [] actions of
        Inl e \<Rightarrow> []
      | Inr here \<Rightarrow> map (\<lambda>path. unparts (actions @ drop (length here) path))
          (filter (\<lambda>path. path \<noteq> [] \<and> (last path = ''action.yml'' \<or> last path = ''action.yaml''))
            (files_below (Suc (tree_depth tree)) tree here)))"

definition zizmor_patterns :: "string list" where
  "zizmor_patterns = [''.github/workflows/*.yml'', ''.github/workflows/*.yaml'', ''action.yml'', ''action.yaml'',
     ''.github/dependabot.yml'', ''.github/dependabot.yaml'']"

definition visible_path :: "target \<Rightarrow> string \<Rightarrow> bool" where
  "visible_path tg path \<longleftrightarrow> declared_input (tg_inputs tg) path \<and> \<not> excluded path (tg_exclude tg)"

definition zizmor_inputs :: "host \<Rightarrow> readers \<Rightarrow> string \<Rightarrow> target \<Rightarrow> host_tree \<Rightarrow> string + string list \<times> string" where
  "zizmor_inputs h rd source tg t =
     bind_result (map_results (\<lambda>pattern. rd_glob rd t (path_join [source, pattern])) zizmor_patterns) (\<lambda>matches.
     let inputs = filter (visible_path tg) (map (tool_relative source) (concat matches) @ action_files (ho_tree h t source));
         configs = filter (\<lambda>config. (case stat_file h (path_join [source, config]) t of Inr (HostFile p c) \<Rightarrow> True | _ \<Rightarrow> False) \<and>
           visible_path tg config) zizmor_configs in
     if inputs = [] then
       Inl ''workflow-security found no workflows, composite actions or Dependabot configuration to audit''
     else if length configs > 1 then Inl (''configure only one zizmor file; found '' @ join_with '', '' configs)
     else Inr (sort inputs, case configs of [config] \<Rightarrow> config | _ \<Rightarrow> ''''))"

definition workflow_security :: "host \<Rightarrow> readers \<Rightarrow> go_runner_work" where
  "workflow_security h rd req work =
     before_tool (\<lambda>t. (zizmor_inputs h rd (rq_source req) (target_of req) t, t)) (\<lambda>(inputs, config).
     before_tool (install_release h (rq_shared req) (wk_root work) ReleaseZizmor '''') (\<lambda>binary.
       last_tool h (wk_dir work) (zizmor_arguments binary config inputs) (zizmor_env (wk_env work))
         (\<lambda>t1. zizmor_findings (tg_dir (target_of req)))))"

definition seen_files :: "host \<Rightarrow> request \<Rightarrow> (string \<Rightarrow> bool) \<Rightarrow> string list host_step" where
  "seen_files h req skip t =
     (wrap_error (ho_walk_text h)
        (visible_files (ho_tree h t (rq_source req)) (ho_listing h (rq_source req)) (rq_check req) skip), t)"

text \<open>One file of \<open>shellInputs\<close>: is it a script? Only a file without an extension is read.\<close>

definition script_file :: "host \<Rightarrow> string \<Rightarrow> host_tree \<Rightarrow> string \<Rightarrow> string + bool" where
  "script_file h source t path =
     bind_result (if ext_name (base_name path) = ''''
       then bind_result (read_contents h (path_join [source, path]) t) (\<lambda>c. Inr (take shell_head_limit c)) else Inr '''')
       (\<lambda>head. Inr (shell_script path head))"

definition shell_inputs :: "host \<Rightarrow> string \<Rightarrow> string list \<Rightarrow> host_tree \<Rightarrow> string + string list \<times> string" where
  "shell_inputs h source files t =
     bind_result (map_results (\<lambda>f. bind_result (script_file h source t f) (\<lambda>b. Inr (f, b))) files) (\<lambda>judged.
     let scripts = map fst (filter snd judged); configs = filter (\<lambda>f. f \<in> set shell_rc_names) files in
     if scripts = [] then
       Inl ''shell-lint found no shell scripts (*.sh, *.bash, or an extensionless file with a sh, bash, dash or ksh shebang) to check''
     else if length configs > 1 then Inl (''configure only one ShellCheck file; found '' @ join_with '', '' configs)
     else Inr (scripts, case configs of [config] \<Rightarrow> config | _ \<Rightarrow> ''''))"

definition env_without :: "string \<Rightarrow> string list \<Rightarrow> string list" where
  "env_without pre env = filter (\<lambda>entry. \<not> has_prefix entry pre) env"

definition shell_lint :: "host \<Rightarrow> readers \<Rightarrow> go_runner_work" where
  "shell_lint h rd req work =
     before_tool (seen_files h req source_skip_dir) (\<lambda>files.
     before_tool (\<lambda>t. (shell_inputs h (rq_source req) files t, t)) (\<lambda>(scripts, config).
     before_tool (install_release h (rq_shared req) (wk_root work) ReleaseShellCheck '''') (\<lambda>binary.
       last_tool h (rq_source req) (shellcheck_arguments binary config scripts)
         (env_without ''SHELLCHECK_OPTS='' (wk_env work)) (\<lambda>t1. shell_findings (rd_comments rd)))))"

text \<open>The report a scanner wrote: nothing if there is none.\<close>

definition read_report :: "host \<Rightarrow> string \<Rightarrow> host_tree \<Rightarrow> string + string" where
  "read_report h path t = (if ht_files t (ho_follow h t path) = None then Inr '''' else read_contents h path t)"

text \<open>The run of a scanner over staged files, whose report is in a directory of its own.\<close>

definition scan_staged :: "host \<Rightarrow> string \<Rightarrow> string list \<Rightarrow> string list \<Rightarrow> string \<Rightarrow> (string \<Rightarrow> tool_run \<Rightarrow> tool_error + finding list) \<Rightarrow>
    host_tree \<Rightarrow> go_answer \<times> host_tree" where
  "scan_staged h staged args env report reader t =
     (case run_tool h staged args env go_check_timeout t of
        ((run, Some e), t1) \<Rightarrow> (([], run, Some e), t1)
      | ((run, None), t1) \<Rightarrow>
          (case read_report h report t1 of
             Inl e \<Rightarrow> (([], run, Some e), t1)
           | Inr bytes \<Rightarrow> (judged_run h run (reader bytes (run_diagnostics run)), t1)))"

definition deps_vuln :: "host \<Rightarrow> readers \<Rightarrow> go_runner_work" where
  "deps_vuln h rd req work =
     before_tool (seen_files h req source_skip_dir) (\<lambda>files.
     before_tool (install_release h (rq_shared req) (wk_root work) ReleaseOSVScanner '''') (\<lambda>binary.
     before_tool (stage_files h (rq_source req) files) (\<lambda>copies t. then_remove True copies
       (let staged = ho_follow h t copies in
        before_tool (temp_dir h '''' ''levenshtein-deps-'') (\<lambda>reports t1. then_remove True reports
          (let report = path_join [reports, ''report.json''] in
           scan_staged h staged (deps_arguments binary (deps_config \<in> set files) report DepsStaged)
             (env_without ''OSV_SCANNER_'' (wk_env work)) report (deps_findings (rd_deps rd) staged) t1)) t))))"

definition secrets_native :: "host \<Rightarrow> readers \<Rightarrow> go_runner_work" where
  "secrets_native h rd req work =
     before_tool (seen_files h req (\<lambda>_. False)) (\<lambda>files.
     before_tool (answer_of (if files = [] then Inl ''secrets found no files to scan'' else Inr ())) (\<lambda>_.
     before_tool (build_helper h req work helper_gitleaks) (\<lambda>binary.
     before_tool (stage_files h (rq_source req) files) (\<lambda>staged t. then_remove True staged
       (before_tool (temp_dir h '''' ''levenshtein-secrets-'') (\<lambda>reports t1. then_remove True reports
          (let report = path_join [reports, ''report.json''] in
           scan_staged h staged (secrets_arguments binary (secrets_config \<in> set files) report)
             (env_without ''GITLEAKS_'' (wk_env work)) report (secrets_findings (rd_leaks rd)) t1)) t)))))"

text \<open>The work of each shared kind, as the table of kinds names it.\<close>

fun go_kind_work :: "host \<Rightarrow> readers \<Rightarrow> go_runner \<Rightarrow> go_runner_work" where
  "go_kind_work h rd RunGoLint = go_lint h rd"
| "go_kind_work h rd RunGoVet = go_vet h"
| "go_kind_work h rd RunGoMod = go_mod h"
| "go_kind_work h rd RunGoTest = go_test h rd"
| "go_kind_work h rd RunGoVuln = go_vuln h"
| "go_kind_work h rd RunWorkflowLint = workflow_lint h rd"
| "go_kind_work h rd RunWorkflowSecurity = workflow_security h rd"
| "go_kind_work h rd RunShellLint = shell_lint h rd"
| "go_kind_work h rd RunSecrets = secrets_native h rd"
| "go_kind_work h rd RunDepsVuln = deps_vuln h rd"
| "go_kind_work h rd RunGoImports = go_imports_native h rd"
| "go_kind_work h rd RunGoGenerate = go_generate_native h rd"

section \<open>goapidiff.go\<close>

definition workspace_rel :: "host \<Rightarrow> request \<Rightarrow> string \<Rightarrow> host_tree \<Rightarrow> string" where
  "workspace_rel h req dir t =
     (let gowork = workspace h req dir t in
      if gowork = ''off'' then gowork
      else (case filepath_rel (rq_source req) gowork of
              None \<Rightarrow> ''off'' | Some rel \<Rightarrow> if \<not> is_local rel then ''off'' else rel))"

definition go_apidiff_native :: "host \<Rightarrow> readers \<Rightarrow> base_tree \<Rightarrow> go_runner_work" where
  "go_apidiff_native h rd base req work =
     before_tool (build_helper h req work helper_gocheck) (\<lambda>gocheck.
     before_tool (build_helper h req work helper_apidiff) (\<lambda>tool t.
       gocheck_run h rd KindGoApidiff (wk_dir work)
         [gocheck, ''apidiff'', ''-tool='' @ tool, ''-base='' @ bt_dir base, ''-head='' @ rq_source req,
          ''-module='' @ tg_dir (target_of req), ''-workspace='' @ workspace_rel h req (wk_dir work) t] (wk_env work) t))"

text \<open>The exported files are on the host while the check runs.\<close>

definition put_base :: "written \<Rightarrow> host_tree \<Rightarrow> host_tree" where
  "put_base files t = fold (\<lambda>(path, perm, contents). put_file path (HostFile perm contents)) files t"

definition native_apidiff :: "host \<Rightarrow> readers \<Rightarrow> base_world \<Rightarrow> (base_error \<Rightarrow> string) \<Rightarrow> (apidiff_summary \<Rightarrow> string) \<Rightarrow>
    request \<Rightarrow> string \<Rightarrow> string list \<Rightarrow> host_tree \<Rightarrow> result \<times> host_tree" where
  "native_apidiff h rd bw base_text summary_json req dir env t =
     (case apidiff_base bw (rq_source req) (pc_check (rq_check req)) (target_of req) of
        Inl e \<Rightarrow> (case ask_ended h t of
          (Some c, t1) \<Rightarrow> (outcome StatusCancelled c, t1) | (None, t1) \<Rightarrow> (outcome StatusError (base_text e), t1))
      | Inr (base, files) \<Rightarrow>
          if bt_missing base then
            (apidiff_result summary_json (outcome StatusPassed '''') (missing_module_notes (tg_dir (target_of req))) base, t)
          else (case go_check_executor h (go_apidiff_native h rd base) shared_failed req dir env (put_base files t) of
            (r, t1) \<Rightarrow>
              (let notes = (if rs_status r = StatusPassed \<or> rs_status r = StatusFailed then split_at CHR 0x0A (rs_stdout r) else [])
               in (apidiff_result summary_json r notes base, remove_all (bt_dir base) t1))))"

section \<open>Every native kind\<close>

text \<open>What \<open>native_execute\<close> calls for a kind; \<open>rest\<close> is a kind that runs no shared Go check.\<close>

definition execute_go_kind :: "host \<Rightarrow> readers \<Rightarrow> base_world \<Rightarrow> (base_error \<Rightarrow> string) \<Rightarrow> (apidiff_summary \<Rightarrow> string) \<Rightarrow>
    (native_kind \<Rightarrow> request \<Rightarrow> string \<Rightarrow> string list \<Rightarrow> host_tree native_world \<Rightarrow> result \<times> host_tree native_world) \<Rightarrow>
    native_kind \<Rightarrow> request \<Rightarrow> string \<Rightarrow> string list \<Rightarrow> host_tree native_world \<Rightarrow> result \<times> host_tree native_world" where
  "execute_go_kind h rd bw base_text summary_json rest kind req dir env w =
     (case kind of
        SharedNative run message \<Rightarrow>
          (case go_check_executor h (go_kind_work h rd run) message req dir env (nw_tree w) of (r, t) \<Rightarrow> (r, w\<lparr>nw_tree := t\<rparr>))
      | ApidiffNative \<Rightarrow>
          (case native_apidiff h rd bw base_text summary_json req dir env (nw_tree w) of (r, t) \<Rightarrow> (r, w\<lparr>nw_tree := t\<rparr>))
      | _ \<Rightarrow> rest kind req dir env w)"

definition native_go_execute where
  "native_go_execute h rd bw base_text summary_json rest n req w =
     native_execute (ho_ops h) (execute_go_kind h rd bw base_text summary_json rest) n req w"

end
