(* ===== verification/Host_Kind_Properties.thy ===== *)
theory Host_Kind_Properties
  imports Host_Kinds Check_Verdicts
begin

text \<open>
  What a native Go check promises: a verdict rests on a run of its tool that ended by itself with its whole output,
  and a pass on exit 0. The interface \<open>go_work_of\<close> is what \<open>go_check_executor\<close> relies on; every kind provides it.
\<close>

section \<open>Runs\<close>

definition extends :: "host_tree \<Rightarrow> host_tree \<Rightarrow> bool" where
  "extends t t' \<longleftrightarrow> (\<exists>new. ht_runs t' = ht_runs t @ new)"

definition ran_whole :: "process_run \<Rightarrow> bool" where
  "ran_whole p \<longleftrightarrow> pn_cancelled p = None \<and> \<not> pn_timed_out p \<and>
     \<not> ob_truncated (collected (pn_stdout p)) \<and> \<not> ob_truncated (collected (pn_stderr p)) \<and>
     (case pn_error p of None \<Rightarrow> True | Some (ExitStatus code message) \<Rightarrow> True | _ \<Rightarrow> False)"

text \<open>The last process since \<open>t\<close> ran whole, and exited 0 if the verdict is a pass.\<close>

definition rests_on_run :: "host_tree \<Rightarrow> host_tree \<Rightarrow> bool \<Rightarrow> bool" where
  "rests_on_run t t' passed \<longleftrightarrow>
     (\<exists>earlier args p. ht_runs t' = ht_runs t @ earlier @ [(args, p)] \<and> ran_whole p \<and> (passed \<longrightarrow> exit_code p = 0))"

lemma extends_refl [simp]: "extends t t"
  by (simp add: extends_def)

lemma extends_same: "ht_runs t' = ht_runs t \<Longrightarrow> extends t t'"
  by (simp add: extends_def)

lemma extends_trans: "extends t t1 \<Longrightarrow> extends t1 t2 \<Longrightarrow> extends t t2"
  by (auto simp: extends_def)

lemma rests_later: "extends t t1 \<Longrightarrow> rests_on_run t1 t2 passed \<Longrightarrow> rests_on_run t t2 passed"
  by (force simp: extends_def rests_on_run_def)

lemma rests_weaker: "rests_on_run t t' passed \<Longrightarrow> (weaker \<Longrightarrow> passed) \<Longrightarrow> rests_on_run t t' weaker"
  by (auto simp: rests_on_run_def)

lemma rests_same: "ht_runs t' = ht_runs t1 \<Longrightarrow> rests_on_run t t1 passed \<Longrightarrow> rests_on_run t t' passed"
  by (simp add: rests_on_run_def)

lemma runs_kept [simp]:
  "ht_runs (put_file p e t) = ht_runs t" "ht_runs (remove_all p t) = ht_runs t" "ht_runs (snd (ask_ended h t)) = ht_runs t"
  by (simp_all add: put_file_def remove_all_def ask_ended_def)

section \<open>Steps\<close>

definition steps_on :: "'a host_step \<Rightarrow> bool" where
  "steps_on m \<longleftrightarrow> (\<forall>t r t'. m t = (r, t') \<longrightarrow> extends t t')"

lemma steps_onD: "steps_on m \<Longrightarrow> m t = (r, t') \<Longrightarrow> extends t t'"
  by (auto simp: steps_on_def)

lemma answer_on [intro, simp]: "steps_on (answer_of r)"
  by (simp add: steps_on_def answer_of_def)

lemma pure_on [intro, simp]: "steps_on (\<lambda>t. (f t, t))"
  by (simp add: steps_on_def)

lemma unless_on [intro, simp]: "steps_on (unless_error m)"
  by (auto simp: steps_on_def unless_error_def host_call_def split: prod.splits option.splits intro!: extends_same)

lemma temp_on [intro, simp]: "steps_on (temp_dir h d pattern)"
  by (auto simp: steps_on_def temp_dir_def host_call_def split: prod.splits intro!: extends_same)

lemma then_on [intro]: "steps_on m \<Longrightarrow> (\<And>a. steps_on (k a)) \<Longrightarrow> steps_on (then_do m k)"
proof -
  assume m: "steps_on m" and k: "\<And>a. steps_on (k a)"
  have "extends t t'" if run: "then_do m k t = (r, t')" for t r t'
  proof (cases "m t")
    case (Pair a t1)
    then show ?thesis using run steps_onD [OF m Pair] steps_onD [OF k]
      by (cases a) (auto simp: then_do_def intro: extends_trans)
  qed
  then show ?thesis by (simp add: steps_on_def)
qed

lemma run_tool_runs:
  assumes "run_tool h dir args env timeout t = ((run, err), t')"
  shows "extends t t'" "err = None \<Longrightarrow> rests_on_run t t' (nr_exit run = 0)"
proof -
  show "extends t t'" using assms
    by (auto simp: run_tool_def record_run_def extends_def split: sum.splits prod.splits)
  assume none: "err = None"
  obtain p path where "ht_runs t' = ht_runs t @ [(args, p)]" "run = native_run_of p" "run_failure path timeout p = None"
    using assms none by (auto simp: run_tool_def record_run_def split: sum.splits prod.splits)
  then show "rests_on_run t t' (nr_exit run = 0)"
    by (auto simp: rests_on_run_def run_failure_def ran_whole_def native_run_of_def Let_def output_warnings_def
        split: option.splits if_splits run_error.splits)
qed

lemma tool_on [intro, simp]: "steps_on (tool_step h dir args env timeout)"
proof -
  have "extends t t'" if "tool_step h dir args env timeout t = (r, t')" for t r t'
    using that run_tool_runs(1) [of h dir args env timeout t]
    by (cases "run_tool h dir args env timeout t") (auto simp: tool_step_def split: option.splits)
  then show ?thesis by (simp add: steps_on_def)
qed

lemma chmod_on [intro, simp]: "steps_on (chmod_file h path perm)"
  by (auto simp: steps_on_def chmod_file_def split: option.splits host_entry.splits intro!: extends_same)

lemma link_on [intro, simp]: "steps_on (link_file h old new)"
  by (auto simp: steps_on_def link_file_def split: option.splits if_splits intro!: extends_same)

lemma write_on [intro, simp]: "steps_on (atomic_write h path contents perm)"
  unfolding atomic_write_def by (rule then_on [OF unless_on]) (auto simp: steps_on_def split: option.splits intro!: extends_same)

lemma publish_on [intro, simp]: "steps_on (publish_helper h built published identity)"
proof -
  have "extends t t'" if "publish_helper h built published identity t = (r, t')" for t r t'
  proof -
    let ?new = "then_do (unless_error (ho_mkdir h (dir_name published) 448)) (\<lambda>_. then_do (chmod_file h built 320) (\<lambda>_.
      then_do (unless_error (ask_ended h)) (\<lambda>_. then_do (link_file h built published) (\<lambda>_. answer_of (Inr published)))))"
    have "steps_on ?new" by (intro then_on) auto
    then show ?thesis using that steps_onD [OF unless_on [of "ask_ended h"], of t]
      by (auto simp: publish_helper_def then_do_def [of "unless_error (ask_ended h)"] dest!: steps_onD intro: extends_trans
          split: prod.splits sum.splits option.splits host_entry.splits if_splits)
  qed
  then show ?thesis by (simp add: steps_on_def)
qed

lemma build_in_on: "steps_on (build_in h work tool mdir stage)"
proof -
  have "steps_on (\<lambda>t. case helper_digest h built t of Inl e \<Rightarrow> (Inl e, t)
      | Inr identity \<Rightarrow> then_do (unless_error (lock identity)) (\<lambda>_. publish_helper h built (published identity) identity) t)"
    for built lock published
    unfolding steps_on_def by (auto split: sum.splits dest!: steps_onD [OF then_on [OF unless_on publish_on]])
  then show ?thesis unfolding build_in_def Let_def by (auto intro!: then_on)
qed

lemma build_on [intro, simp]: "steps_on (build_helper h req work tool)"
proof -
  have "steps_on (\<lambda>t1. case build_in h work tool mdir stage t1 of (r, t2) \<Rightarrow> (r, remove_all stage t2))" for mdir stage
    unfolding steps_on_def by (auto split: prod.splits dest!: steps_onD [OF build_in_on] simp: extends_def)
  then have "steps_on (then_do (unless_error a) (\<lambda>_. then_do (temp_dir h b c)
      (\<lambda>stage t1. case build_in h work tool mdir stage t1 of (r, t2) \<Rightarrow> (r, remove_all stage t2))))" for mdir a b c
    by (intro then_on) auto
  then show ?thesis unfolding steps_on_def build_helper_def Let_def by (auto split: sum.splits)
qed

lemma selection_on [intro, simp]: "steps_on (lint_selection h work binary shipped added)"
  unfolding lint_selection_def by (auto intro!: then_on split: option.splits)

lemma asset_on [intro, simp]: "steps_on (reviewed_asset h cached tool pin asset releases)"
proof -
  have "steps_on (fetch_asset h cached tool pin asset releases)"
    unfolding steps_on_def fetch_asset_def by (auto split: sum.splits if_splits dest!: steps_onD [OF then_on [OF write_on answer_on]])
  then show ?thesis unfolding steps_on_def reviewed_asset_def by (auto split: sum.splits if_splits)
qed

lemma install_on [intro, simp]: "steps_on (install_release h shared rdir tool releases)"
proof -
  have "steps_on (then_do (unless_error lock) (\<lambda>_. then_do (reviewed_asset h cached tool pin asset releases) (\<lambda>bytes.
      then_do (answer_of (binary bytes)) (\<lambda>b. then_do (atomic_write h installed b perm) (\<lambda>_. answer_of (Inr installed))))))"
    for lock cached pin asset binary installed perm by (intro then_on) auto
  then show ?thesis unfolding steps_on_def install_release_def Let_def by (auto split: sum.splits)
qed

lemma copy_file_on [intro, simp]: "steps_on (copy_file h tree rel target perm)"
  unfolding copy_file_def
  by (rule then_on [OF unless_on]) (auto simp: steps_on_def split: sum.splits node.splits option.splits if_splits intro!: extends_same)

lemma stage_into_on: "steps_on (stage_into h tree dir files)"
proof (induction files)
  case (Cons f files)
  have "steps_on (\<lambda>t. case stat tree f of Inl e \<Rightarrow> (Inl (k e), t)
      | Inr node \<Rightarrow> (case copy_file h tree f target (perm node) t of (r, t1) \<Rightarrow> (wrap_error g r, t1)))" for k g target perm
    unfolding steps_on_def by (auto split: sum.splits prod.splits dest: steps_onD [OF copy_file_on])
  then show ?case using Cons by (auto simp: Let_def intro!: then_on)
qed simp

lemma stage_on [intro, simp]: "steps_on (stage_files h source files)"
proof -
  have "steps_on (\<lambda>t. case stage_into h (tree t) dir files t of (Inl e, t1) \<Rightarrow> (Inl e, remove_all dir t1) | (Inr u, t1) \<Rightarrow> (Inr dir, t1))"
    for tree dir
    unfolding steps_on_def by (auto split: prod.splits sum.splits dest!: steps_onD [OF stage_into_on] simp: extends_def)
  then show ?thesis unfolding stage_files_def by (intro then_on) auto
qed

lemma copy_entry_on [intro, simp]: "steps_on (copy_entry h tree dest rel node)"
proof -
  have "steps_on (\<lambda>t. if ht_files t target \<noteq> None then (Inl e, t) else (Inr (), put_file target l t))" for target e l
    by (auto simp: steps_on_def intro!: extends_same)
  then show ?thesis unfolding copy_entry_def Let_def by (auto split: node.splits intro!: then_on)
qed

lemma copy_visits_on: "steps_on (copy_visits h tree dest copied vs)"
  by (induction vs arbitrary: copied) (auto intro!: then_on)

lemma copy_inputs_on [intro, simp]: "steps_on (copy_inputs h req dest)"
  unfolding steps_on_def copy_inputs_def Let_def by (auto split: sum.splits dest: steps_onD [OF copy_visits_on])

lemma cache_root_on [intro, simp]: "steps_on (cache_root h)"
proof -
  have "steps_on (then_do (temp_dir h a b) (\<lambda>d. answer_of (Inr (d, True))))" for a b by (intro then_on) auto
  then show ?thesis unfolding steps_on_def cache_root_def by (auto split: option.splits if_splits)
qed

lemma needs_on [intro, simp]: "steps_on (needs_go_mod h m work)"
  by (auto simp: steps_on_def needs_go_mod_def split: sum.splits)

lemma go_module_on [intro, simp]: "steps_on (go_module h m work)"
  unfolding go_module_def by (intro then_on) auto

lemma staticcheck_on [intro, simp]: "steps_on (staticcheck_cache h req rdir)"
  unfolding staticcheck_cache_def Let_def by (auto intro!: then_on)

lemma race_on [intro, simp]: "steps_on (race_compiler h dir env)"
  unfolding race_compiler_def
  by (rule then_on [OF tool_on]) (auto simp: steps_on_def split: list.splits sum.splits if_splits)

lemma seen_files_on [intro, simp]: "steps_on (seen_files h req skip)"
  by (simp add: steps_on_def seen_files_def)

text \<open>Why a pruned walk of \<open>visibleFiles\<close> and \<open>copyInputs\<close> adds the same files: what is below a private path is private.\<close>

lemma private_below: "private_source_path d \<Longrightarrow> private_source_path (d @ slash # rest)"
  by (auto simp: private_source_path_def split_at_append list_ex_iff)

section \<open>The work of a kind\<close>

definition work_sound :: "(host_tree \<Rightarrow> go_answer \<times> host_tree) \<Rightarrow> bool" where
  "work_sound k \<longleftrightarrow> (\<forall>t fs run err t'. k t = ((fs, run, err), t') \<longrightarrow>
     extends t t' \<and> (err = None \<longrightarrow> rests_on_run t t' (fs = [])))"

lemma work_soundD: "work_sound k \<Longrightarrow> k t = ((fs, run, err), t') \<Longrightarrow> extends t t' \<and> (err = None \<longrightarrow> rests_on_run t t' (fs = []))"
  by (simp add: work_sound_def)

text \<open>A reader that takes only exit 0 for a pass.\<close>

definition passes_on_zero :: "(tool_run \<Rightarrow> tool_error + finding list) \<Rightarrow> bool" where
  "passes_on_zero reader \<longleftrightarrow> (\<forall>run. reader run = Inr [] \<longrightarrow> tr_exit run = 0)"

lemma readers_pass_on_zero [intro, simp]:
  "passes_on_zero (tool_exit kind m)" "passes_on_zero (mod_findings step m)" "passes_on_zero (zizmor_findings m)"
  "passes_on_zero (lint_findings diagnostics checks source)" "passes_on_zero (shell_findings comments)"
  "passes_on_zero (secrets_findings leaks report)" "passes_on_zero (gocheck_findings decode kind)"
  "passes_on_zero (deps_findings deps source report)" "passes_on_zero (test_findings events m)"
  using exit_tool.passes mod_tool.passes zizmor_tool.passes lint_tool.passes shell_tool.passes secrets_tool.passes
    gocheck_tool.passes deps_tool.passes test_tool.passes unfolding passes_on_zero_def by metis+

lemma before_sound [intro]:
  assumes m: "steps_on m" and k: "\<And>a. work_sound (k a)"
  shows "work_sound (before_tool m k)"
proof -
  have "extends t t' \<and> (err = None \<longrightarrow> rests_on_run t t' (fs = []))" if run: "before_tool m k t = ((fs, r, err), t')" for t fs r err t'
  proof (cases "m t")
    case (Pair a t1)
    then have "extends t t1" using steps_onD [OF m] by blast
    then show ?thesis using run Pair work_soundD [OF k] by (cases a) (auto simp: before_tool_def intro: extends_trans rests_later)
  qed
  then show ?thesis by (auto simp: work_sound_def)
qed

lemma judged_sound:
  assumes "run_tool h dir args env timeout t = ((run, None), t')" "passes_on_zero reader"
    "judged_run h run (reader (run_diagnostics run)) = (fs, run', err)"
  shows "extends t t' \<and> (err = None \<longrightarrow> rests_on_run t t' (fs = []))"
proof -
  note ran = run_tool_runs [OF assms(1)]
  have "rests_on_run t t' (fs = [])" if "err = None"
  proof (rule rests_weaker [OF ran(2)])
    show "nr_exit run = 0" if "fs = []" using assms(2,3) that \<open>err = None\<close>
      by (auto simp: judged_run_def passes_on_zero_def run_diagnostics_def split: sum.splits)
  qed simp
  then show ?thesis using ran(1) by simp
qed

lemma tool_failed: "run_tool h dir args env timeout t = ((run, err), t') \<Longrightarrow> extends t t'"
  by (rule run_tool_runs(1))

lemma last_tool_sound [intro]:
  assumes "\<And>t1. passes_on_zero (reader t1)"
  shows "work_sound (last_tool h dir args env reader)"
  unfolding work_sound_def last_tool_def
  using judged_sound [OF _ assms] tool_failed by (fastforce split: prod.splits option.splits)

lemma gocheck_sound [intro]: "work_sound (gocheck_run h rd kind dir args env)"
proof -
  have "extends t t' \<and> (err = None \<longrightarrow> rests_on_run t t' (fs = []))"
    if run: "gocheck_run h rd kind dir args env t = ((fs, r, err), t')" for t fs r err t'
  proof (cases "run_tool h dir args env go_check_timeout t")
    case (Pair a t1)
    obtain r0 e0 where a: "a = (r0, e0)" by (cases a)
    have "extends t t1" "e0 = None \<Longrightarrow> rests_on_run t t1 (nr_exit r0 = 0)" using run_tool_runs Pair a by blast+
    moreover have "nr_exit r0 = 0" if "gocheck_report (rd_gocheck rd) kind (run_diagnostics r0) = Inr ([], said)" for said
      using that readers_pass_on_zero(7) [of "rd_gocheck rd" kind]
      by (auto simp: passes_on_zero_def gocheck_findings_def run_diagnostics_def dest: spec [of _ "run_diagnostics r0"])
    ultimately show ?thesis using run Pair a
      by (auto simp: gocheck_run_def split: option.splits sum.splits intro: rests_weaker [of t _ "nr_exit r0 = 0"])
  qed
  then show ?thesis by (auto simp: work_sound_def)
qed

lemma then_remove_sound [intro]: "work_sound k \<Longrightarrow> work_sound (\<lambda>t. then_remove temporary dir (k t))"
proof -
  assume k: "work_sound k"
  have "extends t t' \<and> (err = None \<longrightarrow> rests_on_run t t' (fs = []))"
    if run: "then_remove temporary dir (k t) = ((fs, r, err), t')" for t fs r err t'
  proof (cases "k t")
    case (Pair a t1)
    then have "a = (fs, r, err)" "ht_runs t' = ht_runs t1" using run by (auto simp: then_remove_def)
    then show ?thesis using work_soundD [OF k Pair [unfolded \<open>a = _\<close>]] by (auto simp: extends_def rests_on_run_def)
  qed
  then show ?thesis by (auto simp: work_sound_def)
qed

lemma go_mod_steps_sound:
  assumes "go_mod_steps h req work env steps findings so_far t = ((fs, r, err), t')"
  shows "extends t t' \<and> (err = None \<longrightarrow> (steps \<noteq> [] \<longrightarrow> rests_on_run t t' (fs = [])) \<and> (fs = [] \<longrightarrow> findings = []))"
  using assms
proof (induction steps arbitrary: findings so_far t)
  case (Cons step steps)
  obtain run e t1 where run: "run_tool h (wk_dir work) (mod_args step) env go_check_timeout t = ((run, e), t1)"
    by (cases "run_tool h (wk_dir work) (mod_args step) env go_check_timeout t") auto
  note ran = run_tool_runs [OF run]
  show ?case
  proof (cases "e = None \<and> (\<exists>found. mod_findings step (tg_dir (target_of req)) (run_diagnostics run) = Inr found)")
    case True
    then obtain found where found: "mod_findings step (tg_dir (target_of req)) (run_diagnostics run) = Inr found" by blast
    then have rest: "go_mod_steps h req work env steps (findings @ found) (merge_tool_output so_far run) t1 = ((fs, r, err), t')"
      using Cons.prems True by (simp add: run Let_def)
    have zero: "nr_exit run = 0" if "found = []"
      using mod_tool.passes [of step _ "run_diagnostics run"] found that by (auto simp: run_diagnostics_def)
    note IH = Cons.IH [OF rest]
    show ?thesis
    proof (cases "steps = []")
      case True
      then have "fs = findings @ found" "t' = t1" "err = None" using rest by auto
      then show ?thesis using ran \<open>e = None \<and> _\<close> zero by (auto intro: rests_weaker [of t _ "nr_exit run = 0"])
    next
      case False
      then show ?thesis using IH ran(1) by (auto intro: extends_trans rests_later)
    qed
  next
    case False
    then show ?thesis using Cons.prems ran(1) by (auto simp: run Let_def split: option.splits sum.splits)
  qed
qed auto

lemma go_test_sound: "work_sound (go_test h rd req work)"
proof -
  have "work_sound (\<lambda>t. case run_tool h dir args env go_check_timeout t of ((run, Some e), t1) \<Rightarrow> (([], run, Some e), t1)
      | ((run, None), t1) \<Rightarrow>
          (show_transcript rd (judged_run h run (test_findings (rd_events rd) m (run_diagnostics run))), t1))" for dir args env m
    unfolding work_sound_def using judged_sound [OF _ readers_pass_on_zero(9)] tool_failed
    by (fastforce simp: show_transcript_def split: prod.splits option.splits)
  then show ?thesis unfolding go_test_def Let_def by (intro before_sound) auto
qed

lemma scan_sound [intro]:
  assumes "\<And>report. passes_on_zero (reader report)"
  shows "work_sound (scan_staged h staged args env report reader)"
  unfolding work_sound_def scan_staged_def
  using judged_sound [OF _ assms] tool_failed by (fastforce split: prod.splits option.splits sum.splits)

section \<open>Every kind\<close>

lemma go_lint_sound: "work_sound (go_lint h rd req work)"
  unfolding go_lint_def by (intro before_sound) (auto intro!: then_remove_sound last_tool_sound)

lemma go_mod_sound: "work_sound (go_mod h req work)"
proof -
  have "work_sound (go_mod_steps h req work env mod_steps findings so_far)" for env findings so_far
    unfolding work_sound_def using go_mod_steps_sound by (fastforce simp: mod_steps_def)
  then show ?thesis unfolding go_mod_def by (intro before_sound) auto
qed

lemma go_generate_sound: "work_sound (go_generate_native h rd req work)"
proof -
  have "work_sound (\<lambda>t. case copy_inputs h req scratch t of (Inl e, t1) \<Rightarrow> (([], empty_run, Some (f e)), t1)
      | (Inr u, t1) \<Rightarrow> gocheck_run h rd kind scratch args (env t1) t1)" for scratch f kind args env
    unfolding work_sound_def
    by (auto split: prod.splits sum.splits dest!: steps_onD [OF copy_inputs_on] work_soundD [OF gocheck_sound]
        intro: extends_trans rests_later)
  then show ?thesis unfolding go_generate_native_def by (intro before_sound then_remove_sound) auto
qed

lemma family_sound: "(\<And>s. work_sound (k s)) \<Longrightarrow> work_sound (\<lambda>t. k (f t) t)"
  unfolding work_sound_def by blast

lemma deps_vuln_sound: "work_sound (deps_vuln h rd req work)"
proof -
  obtain scan where scan: "scan = (\<lambda>files binary staged. before_tool (temp_dir h '''' ''levenshtein-deps-'') (\<lambda>reports t1. then_remove True reports
     (scan_staged h staged (deps_arguments binary (deps_config \<in> set files) (path_join [reports, ''report.json'']) DepsStaged)
        (env_without ''OSV_SCANNER_'' (wk_env work)) (path_join [reports, ''report.json'']) (deps_findings (rd_deps rd) staged) t1)))"
    by blast
  have "work_sound (scan files binary staged)" for files binary staged
    unfolding scan by (intro before_sound then_remove_sound scan_sound) simp_all
  then have "work_sound (\<lambda>t. scan files binary (ho_follow h t copies) t)" for copies files binary
    by (rule family_sound [of "scan files binary"])
  then have "work_sound (\<lambda>t. then_remove True copies (scan files binary (ho_follow h t copies) t))" for copies files binary
    by (rule then_remove_sound)
  then show ?thesis unfolding deps_vuln_def Let_def scan by (intro before_sound) simp_all
qed

lemma secrets_sound: "work_sound (secrets_native h rd req work)"
  unfolding secrets_native_def Let_def
  by (intro before_sound then_remove_sound scan_sound) (simp_all add: seen_files_on build_on stage_on)

lemma workflow_lint_sound: "work_sound (workflow_lint h rd req work)"
  unfolding workflow_lint_def by (intro before_sound last_tool_sound) auto

lemma workflow_security_sound: "work_sound (workflow_security h rd req work)"
  unfolding workflow_security_def by (intro before_sound) (auto intro!: before_sound last_tool_sound)

lemma shell_lint_sound: "work_sound (shell_lint h rd req work)"
  unfolding shell_lint_def by (intro before_sound) (auto intro!: before_sound last_tool_sound)

lemma go_vet_sound: "work_sound (go_vet h req work)"
  unfolding go_vet_def by (intro before_sound last_tool_sound) auto

lemma go_vuln_sound: "work_sound (go_vuln h req work)"
  unfolding go_vuln_def by (intro before_sound last_tool_sound) auto

lemma go_imports_sound: "work_sound (go_imports_native h rd req work)"
  unfolding go_imports_native_def by (intro before_sound gocheck_sound) auto

lemma go_apidiff_sound: "work_sound (go_apidiff_native h rd base req work)"
proof -
  have "work_sound (\<lambda>t. gocheck_run h rd kind dir (args t) env t)" for kind dir args env
    unfolding work_sound_def using work_soundD [OF gocheck_sound] by blast
  then show ?thesis unfolding go_apidiff_native_def by (intro before_sound) auto
qed

section \<open>The executor\<close>

text \<open>What \<open>go_check_executor\<close> needs of a kind's work, and what every kind gives.\<close>

locale go_work_of =
  fixes run :: go_runner_work
  assumes sound: "work_sound (run req work)"
begin

lemma executed:
  assumes "go_check_executor h run message req dir env t = (r, t')" and "rs_status r \<in> {StatusPassed, StatusFailed}"
  shows "rests_on_run t t' (rs_status r = StatusPassed)"
proof -
  obtain a t1 where root: "cache_root h t = (a, t1)" by (cases "cache_root h t")
  obtain rdir temporary where a: "a = Inr (rdir, temporary)"
    using assms root by (cases a) (auto simp: go_check_executor_def outcome_def)
  let ?work = "\<lparr>wk_dir = dir, wk_env = analysis_env env (workspace h req dir t1), wk_root = rdir\<rparr>"
  obtain fs inv err t2 where work: "run req ?work t1 = ((fs, inv, err), t2)" by (metis prod_cases3 surj_pair)
  obtain ended t3 where ended: "ask_ended h t2 = (ended, t3)" by (cases "ask_ended h t2")
  have r: "r = go_check_result req message (fs, inv, err) ended" "ht_runs t' = ht_runs t2"
    using assms(1) root a work ended runs_kept(3) [of h t2] by (auto simp: go_check_executor_def Let_def split: if_splits)
  then have "err = None" "rs_status r = StatusPassed \<longrightarrow> fs = []"
    using assms(2) by (auto simp: go_check_result_def Let_def with_outcome_def outcome_def split: option.splits if_splits)
  then have "rests_on_run t1 t2 (rs_status r = StatusPassed)"
    using work_soundD [OF sound work] by (auto intro: rests_weaker)
  then show ?thesis
    using rests_later [OF steps_onD [OF cache_root_on root]] rests_same [OF r(2)] by blast
qed

end

interpretation shared_kind: go_work_of "go_kind_work h rd kind" for h rd kind
proof unfold_locales
  show "work_sound (go_kind_work h rd kind req work)" for req work
    by (cases kind) (simp_all add: go_lint_sound go_vet_sound go_mod_sound go_test_sound go_vuln_sound workflow_lint_sound
      workflow_security_sound shell_lint_sound secrets_sound deps_vuln_sound go_imports_sound go_generate_sound)
qed

interpretation apidiff_kind: go_work_of "go_apidiff_native h rd base" for h rd base
  by unfold_locales (rule go_apidiff_sound)


lemma apidiff_verdicts_rest_on_whole_runs:
  assumes "go_check_executor h (go_apidiff_native h rd base) message req dir env t = (r, t')"
    and "rs_status r \<in> {StatusPassed, StatusFailed}"
  shows "rests_on_run t t' (rs_status r = StatusPassed)"
  by (rule apidiff_kind.executed [OF assms])

section \<open>Pinned releases\<close>

text \<open>C21. The binary a check runs from a pinned release is taken from bytes with the SHA-256 that was reviewed for this
  platform, and they are what is at the path when the installation returns: a cached copy that was changed, a
  download that was cut short or another file under the release's name is never extracted or run.\<close>

theorem only_reviewed_releases_run:
  assumes "install_release h shared rdir tool releases t = (Inr path, t')"
  shows "\<exists>pin asset bytes binary. read_release_pin h shared tool t = Inr pin \<and>
    release_asset_for pin (release_tool_text tool) (host_platform h) = Inr asset \<and>
    ho_sha h bytes = to_lower (ra_sha256 asset) \<and> release_binary h tool pin asset bytes = Inr binary \<and>
    ht_files t' path = Some (HostFile 448 binary)"
proof -
  obtain pin where pin: "read_release_pin h shared tool t = Inr pin"
    using assms by (auto simp: install_release_def split: sum.splits)
  obtain asset where asset: "release_asset_for pin (release_tool_text tool) (host_platform h) = Inr asset"
    using assms pin by (auto simp: install_release_def split: sum.splits)
  obtain cached installed t1 t2 bytes binary where
    bytes: "reviewed_asset h cached tool pin asset releases t1 = (Inr bytes, t2)"
    and binary: "release_binary h tool pin asset bytes = Inr binary"
    and written: "atomic_write h installed binary 448 t2 = (Inr (), t')" "path = installed"
    using assms pin asset
    by (auto simp: install_release_def then_do_def answer_of_def Let_def split: sum.splits prod.splits)
  have "matches_sha256 h bytes (ra_sha256 asset)" using bytes
    by (auto simp: reviewed_asset_def fetch_asset_def then_do_def answer_of_def split: sum.splits prod.splits if_splits)
  moreover have "ht_files t' path = Some (HostFile 448 binary)" using written
    by (auto simp: atomic_write_def then_do_def put_file_def split: sum.splits prod.splits option.splits)
  ultimately show ?thesis using pin asset binary unfolding matches_sha256_def by blast
qed

section \<open>Helpers\<close>

lemma unless_error_Inr: "unless_error m t = (Inr u, t') \<longleftrightarrow> (\<exists>t1. m t = (None, t1) \<and> t' = t1\<lparr>ht_runs := ht_runs t\<rparr>)"
  by (auto simp: unless_error_def host_call_def split: prod.splits option.splits)

lemma then_do_Inr: "then_do m k t = (Inr b, t') \<longleftrightarrow> (\<exists>a t1. m t = (Inr a, t1) \<and> k a t1 = (Inr b, t'))"
  by (auto simp: then_do_def split: prod.splits sum.splits)

lemma finally_Inr: "(case p of (r, t2) \<Rightarrow> (r, f t2)) = (Inr b, t') \<longleftrightarrow> (\<exists>t2. p = (Inr b, t2) \<and> t' = f t2)"
  by (cases p) auto

lemma pure_Inr: "(case x of Inl e \<Rightarrow> (Inl e, t) | Inr i \<Rightarrow> k i) = (Inr b, t') \<longleftrightarrow> (\<exists>i. x = Inr i \<and> k i = (Inr b, t'))"
  by (cases x) auto

lemma helper_digest_Inr:
  "helper_digest h path t = Inr d \<longleftrightarrow>
     (\<exists>perm bytes. ht_files t path = Some (HostFile perm bytes) \<and> exec_bits perm \<and> ho_read_error h t path = None \<and> d = ho_sha h bytes)"
  by (auto simp: helper_digest_def split: option.splits host_entry.splits if_splits)

text \<open>Files that the host keeps while the code makes a directory or waits for a lock.\<close>

definition keeps_files :: "(host_tree \<Rightarrow> 'a \<times> host_tree) \<Rightarrow> bool" where
  "keeps_files m \<longleftrightarrow> (\<forall>t a t' q perm bytes. m t = (a, t') \<longrightarrow> ht_files t q = Some (HostFile perm bytes) \<longrightarrow>
     ht_files t' q = Some (HostFile perm bytes))"

lemma keeps_filesD: "keeps_files m \<Longrightarrow> m t = (a, t') \<Longrightarrow> ht_files t q = Some (HostFile perm bytes) \<Longrightarrow> ht_files t' q = Some (HostFile perm bytes)"
  by (auto simp: keeps_files_def)

lemma published_bytes:
  assumes run: "publish_helper h built published identity t = (Inr path, t')"
    and mkdir: "\<And>d perm. keeps_files (ho_mkdir h d perm)"
    and built: "ht_files t built = Some (HostFile perm bytes)" "ho_sha h bytes = identity"
  shows "path = published \<and> (\<exists>perm bytes. ht_files t' published = Some (HostFile perm bytes) \<and> exec_bits perm \<and> ho_sha h bytes = identity)"
proof -
  have ended: "ht_files (snd (ask_ended h t)) = ht_files t" for t by (simp add: ask_ended_def)
  obtain t1 where t1: "unless_error (ask_ended h) t = (Inr (), t1)" "ht_files t1 = ht_files t"
    using run ended [of t] by (auto simp: publish_helper_def then_do_Inr unless_error_Inr)
  show ?thesis
  proof (cases "ht_files t1 published")
    case (Some found)
    then show ?thesis using run t1
      by (auto simp: publish_helper_def then_do_Inr helper_digest_Inr split: host_entry.splits sum.splits if_splits)
  next
    case None
    then obtain t2 t3 t4 where path: "path = published"
      and t2: "unless_error (ho_mkdir h (dir_name published) 448) t1 = (Inr (), t2)"
      and t3: "chmod_file h built 320 t2 = (Inr (), t3)"
      and t4: "unless_error (ask_ended h) t3 = (Inr (), t4)"
      and linked: "link_file h built published t4 = (Inr (), t')"
      using run t1 by (auto simp: publish_helper_def then_do_Inr answer_of_def)
    have "ht_files t2 built = Some (HostFile perm bytes)"
      using keeps_filesD [OF mkdir] t2 built(1) t1(2) by (fastforce simp: unless_error_Inr)
    then have "ht_files t3 built = Some (HostFile 320 bytes)"
      using t3 by (auto simp: chmod_file_def put_file_def split: option.splits)
    then have "ht_files t4 built = Some (HostFile 320 bytes)" using t4 ended [of t3] by (auto simp: unless_error_Inr)
    then have "ht_files t' published = Some (HostFile 320 bytes)"
      using linked by (auto simp: link_file_def put_file_def split: option.splits if_splits)
    then show ?thesis using path built(2) by (simp add: exec_bits_def)
  qed
qed

text \<open>Publishing changes no file that was there but the private one.\<close>

lemma publish_replaces_nothing:
  assumes run: "publish_helper h built published identity t = (r, t')" and mkdir: "\<And>d perm. keeps_files (ho_mkdir h d perm)"
    and there: "ht_files t q = Some (HostFile perm bytes)" "q \<noteq> built"
  shows "ht_files t' q = Some (HostFile perm bytes)"
proof -
  have asked: "ht_files t1 q = ht_files t q" if "unless_error (ask_ended h) t = (s, t1)" for t s t1
    using that by (auto simp: unless_error_def host_call_def ask_ended_def split: option.splits)
  have made: "ht_files t1 q = Some (HostFile perm bytes)"
    if "unless_error (ho_mkdir h d m) t = (s, t1)" "ht_files t q = Some (HostFile perm bytes)" for t s t1 d m
    using that keeps_filesD [OF mkdir] by (fastforce simp: unless_error_def host_call_def split: prod.splits option.splits)
  have changed: "ht_files t1 q = ht_files t q" if "chmod_file h built 320 t = (s, t1)" for t s t1
    using that there(2) by (auto simp: chmod_file_def put_file_def split: option.splits host_entry.splits)
  have linked: "ht_files t1 q = Some (HostFile perm bytes)"
    if "link_file h built published t = (s, t1)" "ht_files t q = Some (HostFile perm bytes)" for t s t1
    using that by (auto simp: link_file_def put_file_def split: option.splits if_splits)
  show ?thesis using run there(1)
    by (auto simp: publish_helper_def then_do_def answer_of_def split: prod.splits sum.splits option.splits host_entry.splits if_splits
        dest!: asked made changed linked)
qed


section \<open>Examples\<close>

text \<open>
  A host with a Go whose processes print \<open>ok\<close> and exit 0, where a build leaves an executable; the cache holds a
  copy of a release that was changed, and the download gives the reviewed bytes.
\<close>

definition sample_process :: process_run where
  "sample_process = \<lparr>pn_cancelled = None, pn_timed_out = False, pn_error = None, pn_stdout = [''ok''], pn_stderr = []\<rparr>"

definition sample_ops :: "host_tree native_ops" where
  "sample_ops = \<lparr>no_snapshot = (\<lambda>_ _. Inr ''''), no_implementation = (\<lambda>_ _. Inr ''''), no_digest = (\<lambda>_. ''''),
     no_lookup_env = (\<lambda>_. None), no_runnable = (\<lambda>_ p. p = ''/bin/go''),
     no_run = (\<lambda>dir path args env timeout t.
       (sample_process, if args \<noteq> [] \<and> hd args = ''build'' then put_file (args ! 3) (HostFile 493 ''ELF'') t else t)),
     no_output_error = (\<lambda>_ _. None), no_contained = (\<lambda>_ p. Inr p), no_regular = (\<lambda>_ _. True),
     no_preparation_json = (\<lambda>_. JNull), no_environment_json = (\<lambda>_. JNull), no_os = ''linux'', no_arch = ''amd64'',
     no_elapsed_ms = 0\<rparr>"

definition sample_asset :: release_asset where
  "sample_asset = \<lparr>ra_name = ''z'', ra_sha256 = replicate 64 CHR ''A''\<rparr>"

definition sample_pin :: release_pin where
  "sample_pin = \<lparr>pin_releases = ''https://r'', pin_version = ''1'', pin_binary = '''', pin_assets = [(''linux/amd64'', sample_asset)]\<rparr>"

definition sample_host :: host where
  "sample_host = \<lparr>ho_ops = sample_ops, ho_ended = (\<lambda>_. None), ho_follow = (\<lambda>_ p. p), ho_read_error = (\<lambda>_ _. None),
     ho_write_error = (\<lambda>_ _. None), ho_mkdir = (\<lambda>_ _ t. (None, t)), ho_temp = (\<lambda>d p t. (Inr (path_join [d, ''.t1'']), t)),
     ho_lock = (\<lambda>_ t. (None, t)), ho_contained = (\<lambda>r p. Inr (path_join [r, p])), ho_cache = Some ''/c'',
     ho_sha = (\<lambda>b. replicate 64 (if b = ''good'' \<or> b = ''ELF'' then CHR ''a'' else CHR ''b'')),
     ho_get = (\<lambda>_. Inr \<lparr>ha_code = 200, ha_status = ''200 OK'', ha_body = ''good'', ha_error = None\<rparr>),
     ho_gzip_error = (\<lambda>_. None), ho_tar = (\<lambda>_ _. []), ho_decode_checks = (\<lambda>_. Inr []),
     ho_decode_tools = (\<lambda>_. Inr [(''zizmor'', '''')]), ho_decode_pin = (\<lambda>_. Inr sample_pin),
     ho_tree = (\<lambda>_ _. \<lparr>fs_nodes = [], fs_fold = False, fs_max_links = 8\<rparr>), ho_listing = (\<lambda>_. no_listing),
     ho_walk_text = (\<lambda>_. ''''), ho_fs_text = (\<lambda>_ _. ''''), ho_tool_text = (\<lambda>_. '''')\<rparr>"

definition sample_host_tree :: host_tree where
  "sample_host_tree = \<lparr>ht_files = [''/s/go.mod'' \<mapsto> HostFile 420 ''module m'', ''/c/tools/zizmor-1/z'' \<mapsto> HostFile 384 ''evil'',
     ''/l/runner/toolchain.json'' \<mapsto> HostFile 420 ''{}''], ht_clock = 0, ht_runs = []\<rparr>"

definition sample_readers :: readers where
  "sample_readers = \<lparr>rd_events = (\<lambda>_. ([], False)), rd_diagnostics = (\<lambda>_. ([], False)), rd_deps = (\<lambda>_. None),
     rd_comments = (\<lambda>_. None), rd_leaks = (\<lambda>_. None), rd_gocheck = (\<lambda>_. None), rd_rules_json = (\<lambda>_. ''''),
     rd_glob = (\<lambda>_ _. Inr [])\<rparr>"

definition sample_request :: request where
  "sample_request = \<lparr>rq_source = ''/s'', rq_shared = ''/l'', rq_rerun_checks = False, rq_check = \<lparr>pc_id = ''vet'',
     pc_check = plain_check CheckGoVet ''root'' ''go'',
     pc_target = \<lparr>tg_dir = dot, tg_workspace = dot, tg_inputs = [dot], tg_exclude = [], tg_discovery = DiscoveryFilesystem\<rparr>,
     pc_environment = \<lparr>en_executor = ExecutorNative, en_identity = '''', en_env = [], en_pass_env = [], en_tools = []\<rparr>,
     pc_preparation = None, pc_build = None, pc_rule_modules = []\<rparr>\<rparr>"

definition sample_work :: go_work where
  "sample_work = \<lparr>wk_dir = ''/s'', wk_env = [''PATH=/bin''], wk_root = ''/c''\<rparr>"

abbreviation sample_vet :: "result \<times> host_tree" where
  "sample_vet \<equiv> go_check_executor sample_host (go_kind_work sample_host sample_readers RunGoVet) shared_failed sample_request ''/s''
     [''PATH=/bin''] sample_host_tree"

definition sample_printed :: native_run where
  "sample_printed = \<lparr>nr_exit = 0, nr_stdout = ''ok'', nr_stderr = '''', nr_warnings = []\<rparr>"

lemma sample_native_run: "native_run_of sample_process = sample_printed"
  by (simp add: native_run_of_def collected_def write_output_def new_output_buffer_def native_output_limit_def sample_process_def
      exit_code_def output_warnings_def sample_printed_def)

lemma sample_run_tool:
  assumes "executable (\<lambda>p. p = ''/bin/go'') dir env (hd args) = Inr path"
  shows "run_tool sample_host dir args env timeout t = ((sample_printed, None), record_run args sample_process t
    (if tl args \<noteq> [] \<and> hd (tl args) = ''build'' then put_file (tl args ! 3) (HostFile 493 ''ELF'') t else t))"
proof -
  have "run_failure path timeout sample_process = None"
    by (simp add: run_failure_def sample_native_run) (simp add: sample_process_def sample_printed_def)
  then show ?thesis using assms by (simp add: run_tool_def sample_host_def sample_ops_def sample_native_run)
qed

lemma sample_vet_passes: "rs_status (fst sample_vet) = StatusPassed"
proof -
  obtain E where E: "E = analysis_env [''PATH=/bin''] (workspace sample_host sample_request ''/s'' sample_host_tree)" by blast
  have "E = [''PATH=/bin'', ''GOTOOLCHAIN=local'', ''GOWORK=off'']" unfolding E by code_simp
  then have found: "executable (\<lambda>p. p = ''/bin/go'') ''/s'' E ''go'' = Inr ''/bin/go''" by (simp only:) code_simp
  have cache: "cache_root sample_host sample_host_tree = (Inr (''/c'', False), sample_host_tree)"
    by (simp add: cache_root_def sample_host_def)
  have needs: "needs_go_mod sample_host dot \<lparr>wk_dir = ''/s'', wk_env = E, wk_root = ''/c''\<rparr> sample_host_tree = (Inr (), sample_host_tree)"
  proof -
    have "path_join [''/s'', ''go.mod''] = ''/s/go.mod''" by code_simp
    then show ?thesis by (simp add: needs_go_mod_def stat_file_def) (simp add: sample_host_def sample_host_tree_def)
  qed
  have "ask_ended sample_host t = (None, t\<lparr>ht_clock := Suc (ht_clock t)\<rparr>)" for t by (simp add: ask_ended_def sample_host_def)
  moreover have "tg_dir (target_of sample_request) = dot" by (simp add: sample_request_def)
  moreover have "trim_space ''ok'' = ''ok''" by code_simp
  ultimately show ?thesis
    by (simp add: go_check_executor_def cache E [symmetric] go_vet_def before_tool_def go_module_def then_do_def needs tool_step_def
        sample_run_tool found answer_of_def sample_printed_def last_tool_def
        judged_run_def tool_exit_def run_diagnostics_def go_check_result_def outcome_def)
qed


lemma sample_download: "download sample_host (asset_url sample_pin sample_asset '''') release_limit = Inr ''good''"
  by (simp add: download_def sample_host_def bind_result_def release_limit_def)

lemma sample_pinned: "read_release_pin sample_host ''/l'' ReleaseZizmor sample_host_tree = Inr sample_pin"
  by code_simp

lemma sample_asset_for: "release_asset_for sample_pin ''zizmor'' (host_platform sample_host) = Inr sample_asset"
  by code_simp

lemma sample_paths:
  "path_join [''/c'', ''tools'', ''zizmor-1''] = ''/c/tools/zizmor-1''" "path_join [''/c/tools/zizmor-1'', ''z''] = ''/c/tools/zizmor-1/z''"
  "path_join [''/c/tools/zizmor-1'', ''zizmor''] = ''/c/tools/zizmor-1/zizmor''"
  by code_simp+

lemma sample_install:
  "\<exists>t'. install_release sample_host ''/l'' ''/c'' ReleaseZizmor '''' sample_host_tree = (Inr ''/c/tools/zizmor-1/zizmor'', t') \<and>
     ht_files t' ''/c/tools/zizmor-1/z'' = Some (HostFile 384 ''good'')"
proof -
  have files: "ht_files sample_host_tree ''/c/tools/zizmor-1/z'' = Some (HostFile 384 ''evil'')" by (simp add: sample_host_tree_def)
  have "lower_char CHR ''A'' = CHR ''a''" by code_simp
  then have digests: "ho_sha sample_host ''good'' = to_lower (ra_sha256 sample_asset)" "ho_sha sample_host ''evil'' \<noteq> to_lower (ra_sha256 sample_asset)"
    by (simp_all add: sample_host_def sample_asset_def to_lower_def map_replicate)
  have host: "ho_lock sample_host = (\<lambda>_ t. (None, t))" "ho_mkdir sample_host = (\<lambda>_ _ t. (None, t))"
    "ho_write_error sample_host = (\<lambda>_ _. None)" "ho_read_error sample_host = (\<lambda>_ _. None)" "ho_follow sample_host = (\<lambda>_ p. p)"
    by (simp_all add: sample_host_def)
  have pin: "pin_version sample_pin = ''1''" "ra_name sample_asset = ''z''" "pin_binary sample_pin = ''''"
    by (simp_all add: sample_pin_def sample_asset_def)
  have "ht_files (sample_host_tree\<lparr>ht_runs := r\<rparr>) = ht_files sample_host_tree" for r by simp
  then show ?thesis
    by (simp add: install_release_def sample_pinned sample_asset_for pin sample_paths then_do_def unless_error_def host_call_def host
        reviewed_asset_def read_contents_def files matches_sha256_def digests fetch_asset_def sample_download atomic_write_def
        release_binary_def answer_of_def put_file_def Let_def)
qed

abbreviation sample_installed :: "(string + string) \<times> host_tree" where
  "sample_installed \<equiv> install_release sample_host ''/l'' ''/c'' ReleaseZizmor '''' sample_host_tree"

lemma sample_installed_at: "fst sample_installed = Inr ''/c/tools/zizmor-1/zizmor''"
  using sample_install by (elim exE conjE) (simp only: fst_conv)

theorem only_reviewed_releases_run_witness:
  "\<exists>pin asset bytes binary. read_release_pin sample_host ''/l'' ReleaseZizmor sample_host_tree = Inr pin \<and>
     release_asset_for pin (release_tool_text ReleaseZizmor) (host_platform sample_host) = Inr asset \<and>
     ho_sha sample_host bytes = to_lower (ra_sha256 asset) \<and> release_binary sample_host ReleaseZizmor pin asset bytes = Inr binary \<and>
     ht_files (snd sample_installed) ''/c/tools/zizmor-1/zizmor'' = Some (HostFile 448 binary)"
proof (rule only_reviewed_releases_run)
  show "sample_installed = (Inr ''/c/tools/zizmor-1/zizmor'', snd sample_installed)"
    using sample_installed_at by (cases sample_installed) (simp only: fst_conv snd_conv)
qed

definition sample_helper_path :: string where
  "sample_helper_path = path_join [path_join [wk_root sample_work, ''tools''], ho_sha sample_host ''ELF'', hp_name helper_vulncheck]"

lemma sample_build: "fst (build_helper sample_host sample_request sample_work helper_vulncheck sample_host_tree) = Inr sample_helper_path"
proof -
  have contained: "ho_contained sample_host (rq_shared sample_request) (hp_module helper_vulncheck) = Inr ''/l/runner/tools/govulncheck''"
    by code_simp
  have mkdir: "unless_error (ho_mkdir sample_host d perm) t = (Inr (), t)" and lock: "unless_error (ho_lock sample_host name) t = (Inr (), t)"
    and temp: "temp_dir sample_host (path_join [wk_root sample_work, ''tools'']) pattern t = (Inr ''/c/tools/.t1'', t)" for d perm t name pattern
    by (simp_all add: unless_error_def temp_dir_def host_call_def sample_host_def) code_simp
  have "build_env (wk_env sample_work) = [''PATH=/bin'', ''GOTOOLCHAIN=local'', ''GOWORK=off'']" by code_simp
  then have found: "executable (\<lambda>p. p = ''/bin/go'') ''/l/runner/tools/govulncheck'' (build_env (wk_env sample_work)) ''go'' = Inr ''/bin/go''"
    by (simp only:) code_simp
  let ?args = "[''go'', ''build'', ''-trimpath'', ''-o'', ''/c/tools/.t1/govulncheck'', hp_pkg helper_vulncheck]"
  let ?t = "record_run ?args sample_process sample_host_tree (put_file ''/c/tools/.t1/govulncheck'' (HostFile 493 ''ELF'') sample_host_tree)"
  have built: "path_join [''/c/tools/.t1'', hp_name helper_vulncheck] = ''/c/tools/.t1/govulncheck''" by code_simp
  have digest: "helper_digest sample_host ''/c/tools/.t1/govulncheck'' ?t = Inr (ho_sha sample_host ''ELF'')"
    by (simp add: helper_digest_def record_run_def put_file_def exec_bits_def) (simp add: sample_host_def)
  have "fst (publish_helper sample_host ''/c/tools/.t1/govulncheck'' sample_helper_path (ho_sha sample_host ''ELF'') ?t) = Inr sample_helper_path"
    by code_simp
  then obtain t3 where "publish_helper sample_host ''/c/tools/.t1/govulncheck'' sample_helper_path (ho_sha sample_host ''ELF'') ?t =
      (Inr sample_helper_path, t3)" by (metis prod.collapse)
  note published = this [unfolded sample_helper_path_def]
  show ?thesis
    using found by (simp add: published build_helper_def contained then_do_def mkdir temp build_in_def built tool_step_def sample_run_tool
        sample_printed_def digest lock sample_helper_path_def Let_def split: prod.splits)
qed


end
