(* ===== verification/Runner_Engine.thy ===== *)
theory Runner_Engine
  imports Host_Kinds
begin

text \<open>
  The runner's containers: what \<open>runner/checks.go\<close> and \<open>runner/releases.go\<close> ask of the Dagger engine. A container of
  the client is the list of calls that makes it, so it is a term here; nothing runs until a value of it is asked for.
  The engine is an argument whose answers may depend on every query before, since its cache volumes persist; the log
  of the queries is threaded through the functions for the statements about them, and no function reads it.
\<close>

section \<open>Containers and queries\<close>

datatype container =
    Image string
  | SetEnv container string string
  | SetExpanded container string string
  | MountCache container string string
  | MountPrivate container string string
  | MountFile container string content
  | PutDirectory container string directory
  | PutFile container string content
  | PutText container string string
  | EnterDir container string
  | MustExec container "string list"
  | AnyExec container "string list"
and content = FileIn container string | FileOf directory string | HttpFile string string
and directory =
    GivenDir string
  | RunnerSource
  | SubDir directory string
  | Filtered directory "string list"
  | EmptyDir
  | DirIn container string

datatype query =
    AskExitCode container
  | AskStdout container
  | AskStderr container
  | AskPlatform container
  | AskSync container
  | AskContents content
  | AskDigest content
  | AskRegular directory string
  | AskGlob directory string
  | AskEntries directory

text \<open>An error of the engine, and the one of a command that had to succeed with what it wrote.\<close>

datatype engine_error = EngineError string | ExecError string string

fun engine_text :: "engine_error \<Rightarrow> string" where
  "engine_text (EngineError e) = e"
| "engine_text (ExecError e err) = e"

record engine =
  eg_exit :: "query list \<Rightarrow> container \<Rightarrow> engine_error + int"
  eg_stdout :: "query list \<Rightarrow> container \<Rightarrow> engine_error + string"
  eg_stderr :: "query list \<Rightarrow> container \<Rightarrow> engine_error + string"
  eg_platform :: "query list \<Rightarrow> container \<Rightarrow> engine_error + string"
  eg_sync :: "query list \<Rightarrow> container \<Rightarrow> engine_error + unit"
  eg_contents :: "query list \<Rightarrow> content \<Rightarrow> engine_error + string"
  eg_digest :: "query list \<Rightarrow> content \<Rightarrow> engine_error + string"
  eg_regular :: "query list \<Rightarrow> directory \<Rightarrow> string \<Rightarrow> engine_error + bool"
  eg_glob :: "query list \<Rightarrow> directory \<Rightarrow> string \<Rightarrow> engine_error + string list"
  eg_entries :: "query list \<Rightarrow> directory \<Rightarrow> engine_error + string list"
  eg_tool_text :: "tool_error \<Rightarrow> string"

text \<open>A function of the runner, which ends with its first error.\<close>

type_synonym ('e, 'a) asks = "query list \<Rightarrow> ('e + 'a) \<times> query list"

definition then_ask :: "('e, 'a) asks \<Rightarrow> ('a \<Rightarrow> ('e, 'b) asks) \<Rightarrow> ('e, 'b) asks" where
  "then_ask m k q = (case m q of (Inl e, q1) \<Rightarrow> (Inl e, q1) | (Inr a, q1) \<Rightarrow> k a q1)"

definition told :: "'e + 'a \<Rightarrow> ('e, 'a) asks" where
  "told r q = (r, q)"

definition on_error :: "('e \<Rightarrow> 'f) \<Rightarrow> ('e, 'a) asks \<Rightarrow> ('f, 'a) asks" where
  "on_error f m q = (case m q of (r, q1) \<Rightarrow> (wrap_error f r, q1))"

definition ask_engine :: "query \<Rightarrow> (query list \<Rightarrow> engine_error + 'a) \<Rightarrow> (engine_error, 'a) asks" where
  "ask_engine x answer q = (answer q, q @ [x])"

definition exit_code_of :: "engine \<Rightarrow> container \<Rightarrow> (engine_error, int) asks" where
  "exit_code_of eg c = ask_engine (AskExitCode c) (\<lambda>q. eg_exit eg q c)"

definition stdout_of :: "engine \<Rightarrow> container \<Rightarrow> (engine_error, string) asks" where
  "stdout_of eg c = ask_engine (AskStdout c) (\<lambda>q. eg_stdout eg q c)"

definition stderr_of :: "engine \<Rightarrow> container \<Rightarrow> (engine_error, string) asks" where
  "stderr_of eg c = ask_engine (AskStderr c) (\<lambda>q. eg_stderr eg q c)"

definition platform_of :: "engine \<Rightarrow> container \<Rightarrow> (engine_error, string) asks" where
  "platform_of eg c = ask_engine (AskPlatform c) (\<lambda>q. eg_platform eg q c)"

definition sync_of :: "engine \<Rightarrow> container \<Rightarrow> (engine_error, unit) asks" where
  "sync_of eg c = ask_engine (AskSync c) (\<lambda>q. eg_sync eg q c)"

definition bytes_of :: "engine \<Rightarrow> content \<Rightarrow> (engine_error, string) asks" where
  "bytes_of eg f = ask_engine (AskContents f) (\<lambda>q. eg_contents eg q f)"

definition digest_of :: "engine \<Rightarrow> content \<Rightarrow> (engine_error, string) asks" where
  "digest_of eg f = ask_engine (AskDigest f) (\<lambda>q. eg_digest eg q f)"

definition regular_in :: "engine \<Rightarrow> directory \<Rightarrow> string \<Rightarrow> (engine_error, bool) asks" where
  "regular_in eg d p = ask_engine (AskRegular d p) (\<lambda>q. eg_regular eg q d p)"

definition glob_in :: "engine \<Rightarrow> directory \<Rightarrow> string \<Rightarrow> (engine_error, string list) asks" where
  "glob_in eg d p = ask_engine (AskGlob d p) (\<lambda>q. eg_glob eg q d p)"

definition entries_in :: "engine \<Rightarrow> directory \<Rightarrow> (engine_error, string list) asks" where
  "entries_in eg d = ask_engine (AskEntries d) (\<lambda>q. eg_entries eg q d)"

abbreviation plainly :: "(engine_error, 'a) asks \<Rightarrow> (string, 'a) asks" where
  "plainly m \<equiv> on_error engine_text m"

section \<open>The toolchain and the cache volumes\<close>

record toolchain =
  tc_go :: string
  tc_image :: string
  tc_staticcheck :: string
  tc_release :: string
  tc_checks :: "string list"
  tc_zizmor :: release_pin
  tc_shellcheck :: release_pin
  tc_osv :: release_pin

abbreviation scope_unkeyed :: string where "scope_unkeyed \<equiv> ''unkeyed''"
abbreviation scope_self_test :: string where "scope_self_test \<equiv> ''self-test''"
abbreviation scope_tamper_self_test :: string where "scope_tamper_self_test \<equiv> ''self-test-tamper''"

definition cache_key_length :: nat where "cache_key_length = 64"

definition hex_decodes :: "string \<Rightarrow> bool" where
  "hex_decodes s \<longleftrightarrow> even (length s) \<and> list_all (\<lambda>c. hex_value c \<noteq> None) s"

definition repository_scope :: "string \<Rightarrow> string + string" where
  "repository_scope key =
     (if key = '''' then Inr scope_unkeyed
      else if \<not> hex_decodes key \<or> length key \<noteq> cache_key_length \<or> to_lower key \<noteq> key then
        Inl (''invalid cacheKey '' @ go_quote key @ '': want the '' @ show_nat cache_key_length @ '' lowercase hex digits of a SHA-256'')
      else Inr (take 16 key))"

definition go_caches :: "string \<Rightarrow> (string \<times> string) list" where
  "go_caches kind =
     [(''/go/pkg/mod'', ''levenshtein-go-mod-'' @ kind), (''/root/.cache/go-build'', ''levenshtein-go-build-'' @ kind)]"

definition tool_caches :: "toolchain \<Rightarrow> (string \<times> string) list" where
  "tool_caches tools = go_caches (''tools-'' @ tc_go tools)"

definition untrusted_caches :: "toolchain \<Rightarrow> string \<Rightarrow> (string \<times> string) list" where
  "untrusted_caches tools scope = go_caches (''untrusted-'' @ tc_go tools @ ''-'' @ scope)"

section \<open>The Go containers\<close>

definition go_container_with :: "toolchain \<Rightarrow> (string \<times> string) list \<Rightarrow> container" where
  "go_container_with tools caches =
     foldl (\<lambda>c (path, volume). MountCache c path volume) (SetEnv (Image (tc_image tools)) ''GOTOOLCHAIN'' ''local'') caches"

definition go_container :: "toolchain \<Rightarrow> container" where
  "go_container tools = go_container_with tools (tool_caches tools)"

definition untrusted_go_container :: "toolchain \<Rightarrow> string \<Rightarrow> container" where
  "untrusted_go_container tools scope = go_container_with tools (untrusted_caches tools scope)"

abbreviation nonce_variable :: string where "nonce_variable \<equiv> ''LEVENSHTEIN_RUN_NONCE''"

text \<open>\<open>withNonce\<close>, and the same three lines in the functions of the checks.\<close>

definition with_nonce :: "container \<Rightarrow> string \<Rightarrow> container" where
  "with_nonce c nonce = (if nonce = '''' then c else SetEnv c nonce_variable nonce)"

record pinned_tool =
  pt_dir :: string
  pt_pkg :: string

definition tool_actionlint :: pinned_tool where
  "tool_actionlint = \<lparr>pt_dir = ''actionlint'', pt_pkg = ''github.com/rhysd/actionlint/cmd/actionlint''\<rparr>"

definition tool_apidiff :: pinned_tool where
  "tool_apidiff = \<lparr>pt_dir = ''apidiff'', pt_pkg = ''golang.org/x/exp/cmd/apidiff''\<rparr>"

definition tool_gitleaks :: pinned_tool where
  "tool_gitleaks = \<lparr>pt_dir = ''gitleaks'', pt_pkg = ''github.com/zricethezav/gitleaks/v8''\<rparr>"

definition tool_govulncheck :: pinned_tool where
  "tool_govulncheck = \<lparr>pt_dir = ''govulncheck'', pt_pkg = ''golang.org/x/vuln/cmd/govulncheck''\<rparr>"

definition tool_gremlins :: pinned_tool where
  "tool_gremlins = \<lparr>pt_dir = ''gremlins'', pt_pkg = ''github.com/go-gremlins/gremlins/cmd/gremlins''\<rparr>"

definition with_tool :: "container \<Rightarrow> pinned_tool \<Rightarrow> string \<Rightarrow> container" where
  "with_tool c tool out =
     (let dir = path_join [''/tools'', pt_dir tool] in
      MustExec (EnterDir (PutDirectory c dir (SubDir RunnerSource (path_join [''tools'', pt_dir tool]))) dir)
        [''go'', ''build'', ''-trimpath'', ''-o'', out, pt_pkg tool])"

definition pinned_tool_binary :: "toolchain \<Rightarrow> pinned_tool \<Rightarrow> content" where
  "pinned_tool_binary tools tool =
     (let out = path_join [''/usr/local/bin'', pt_dir tool] in FileIn (with_tool (go_container tools) tool out) out)"

section \<open>Running a tool\<close>

definition run_in :: "engine \<Rightarrow> container \<Rightarrow> string list \<Rightarrow> (string, tool_run \<times> container) asks" where
  "run_in eg c args =
     (let checked = AnyExec c args in
      then_ask (plainly (exit_code_of eg checked)) (\<lambda>code.
      then_ask (plainly (stdout_of eg checked)) (\<lambda>out.
      then_ask (plainly (stderr_of eg checked)) (\<lambda>err.
        told (Inr (\<lparr>tr_exit = code, tr_stdout = out, tr_stderr = err\<rparr>, checked))))))"

definition module_cache_error :: "string \<Rightarrow> tool_run \<Rightarrow> string option" where
  "module_cache_error m run =
     (if tr_exit run = 0 then None
      else
        let out = trim_space (trim_space (tr_stdout run) @ newline @ trim_space (tr_stderr run)) in
        if contains out ''has been modified'' \<or> contains out ''missing ziphash'' then
          Some (''the Go module cache was modified since download; code a go-test, go-generate or go-mutation step of this repository ran on this engine changed it, so module ''
            @ go_quote m @ '' was not built from it. Prune the engine'' @ [CHR 0x27] @ ''s cache (dagger core engine local-cache prune) or use a fresh engine, and find the code that wrote to the module cache:''
            @ newline @ out)
        else Some (''go mod verify failed for module '' @ go_quote m @ '' before running its code:'' @ newline @ out))"

definition verify_args :: "string list \<Rightarrow> string list" where
  "verify_args step = [''sh'', ''-c'', ''exec go mod verify'', ''go-mod-verify''] @ step"

definition verify_module_cache :: "engine \<Rightarrow> container \<Rightarrow> directory \<Rightarrow> string \<Rightarrow> string list \<Rightarrow> (string, unit) asks" where
  "verify_module_cache eg c source m step =
     (let dir = SubDir source m in
      then_ask (plainly (regular_in eg dir ''vendor/modules.txt'')) (\<lambda>vendored.
      then_ask (plainly (regular_in eg dir ''go.sum'')) (\<lambda>locked.
        if vendored \<or> \<not> locked then told (Inr ())
        else then_ask (run_in eg (EnterDir c (path_join [''/src'', m])) (verify_args step)) (\<lambda>(run, checked).
          told (case module_cache_error m run of Some e \<Rightarrow> Inl e | None \<Rightarrow> Inr ())))))"

section \<open>Pinned releases\<close>

definition count_char :: "char \<Rightarrow> string \<Rightarrow> nat" where
  "count_char c s = length (filter (\<lambda>x. x = c) s)"

definition with_release :: "engine \<Rightarrow> container \<Rightarrow> release_pin \<Rightarrow> string \<Rightarrow> string \<Rightarrow> (string, container) asks" where
  "with_release eg c pin tool dest =
     then_ask (plainly (platform_of eg c)) (\<lambda>platform.
     then_ask (told (wrap_error release_error_text (release_asset_for pin tool platform))) (\<lambda>asset.
       let fetched = HttpFile (asset_url pin asset '''') (''sha256:'' @ ra_sha256 asset) in
       told (Inr (if pin_binary pin = '''' then PutFile c dest fetched
         else
           let archive = ''/tmp/'' @ ra_name asset; extracted = ''/tmp/'' @ tool @ ''-release'';
               strip = show_nat (count_char slash (pin_binary pin)) in
           MustExec (MustExec (MustExec (MountFile c archive fetched)
             [''mkdir'', ''-p'', extracted])
             [''tar'', ''-xzf'', archive, ''-C'', extracted, ''--strip-components='' @ strip, pin_binary pin])
             [''install'', ''-m'', ''0755'', path_join [extracted, base_name (pin_binary pin)], dest]))))"

end
