(* ===== verification/Runner_Kinds.thy ===== *)
theory Runner_Kinds
  imports Runner_Engine
begin

text \<open>
  The shared checks of the runner: \<open>runner\<close> main.go (\<open>lint\<close>), checks.go, zizmor.go, shelllint.go, depsvuln.go,
  secrets.go and gocheck.go. Each composes its containers, asks for the run of its tool and hands it to the readers of
  \<open>internal/checktool\<close>. A source is the directory of the call. Decoding JSON is an argument, as on the host.
\<close>

section \<open>main.go and checks.go\<close>

definition linter_container :: "toolchain \<Rightarrow> container" where
  "linter_container tools =
     MustExec (EnterDir (PutDirectory (go_container tools) ''/policy'' (SubDir RunnerSource ''lint'')) ''/policy'')
       [''go'', ''build'', ''-trimpath'', ''-o'', ''/go/bin/levenshtein-lint'', ''./cmd/levenshtein-lint'']"

definition go_mod_readable :: "engine \<Rightarrow> directory \<Rightarrow> string \<Rightarrow> (string, string) asks" where
  "go_mod_readable eg source m =
     on_error (\<lambda>e. ''module '' @ go_quote m @ '' needs a readable go.mod: '' @ engine_text e)
       (bytes_of eg (FileOf source (path_join [m, ''go.mod''])))"

definition at_module :: "container \<Rightarrow> directory \<Rightarrow> string \<Rightarrow> container" where
  "at_module c source m = EnterDir (PutDirectory c ''/src'' source) (path_join [''/src'', m])"

definition runner_judged :: "engine \<Rightarrow> tool_error + 'a \<Rightarrow> (string, 'a) asks" where
  "runner_judged eg r = told (wrap_error (eg_tool_text eg) r)"

definition lint_cache :: "toolchain \<Rightarrow> container \<Rightarrow> string \<Rightarrow> container" where
  "lint_cache tools c nonce =
     (if nonce = '''' then
        SetEnv (MountCache c ''/root/.cache/staticcheck'' (''levenshtein-staticcheck-'' @ tc_staticcheck tools @ ''-'' @ tc_go tools))
          ''STATICCHECK_CACHE'' ''/root/.cache/staticcheck''
      else SetEnv (SetEnv c nonce_variable nonce) ''STATICCHECK_CACHE'' ''/tmp/staticcheck-fresh'')"

definition runner_lint :: "engine \<Rightarrow> readers \<Rightarrow> directory \<Rightarrow> string \<Rightarrow> toolchain \<Rightarrow> string \<Rightarrow> (string, finding list) asks" where
  "runner_lint eg rd source m tools nonce =
     then_ask (go_mod_readable eg source m) (\<lambda>_.
       let c = at_module (linter_container tools) source m in
       then_ask (on_error (\<lambda>e. ''discovering packages: '' @ engine_text e) (stdout_of eg (MustExec c [''go'', ''list'', ''./...'']))) (\<lambda>packages.
         if trim_space packages = '''' then told (Inl (''module '' @ go_quote m @ '' contains no Go packages; refusing an empty pass''))
         else then_ask (run_in eg (lint_cache tools c nonce)
             [''/go/bin/levenshtein-lint'', ''-f=json'', ''-checks='' @ join_with '','' (tc_checks tools), ''./...'']) (\<lambda>(run, checked).
           runner_judged eg (lint_findings (rd_diagnostics rd) (tc_checks tools) ''/src'' run))))"

definition runner_selection :: "engine \<Rightarrow> toolchain \<Rightarrow> string list \<Rightarrow> (string, toolchain) asks" where
  "runner_selection eg tools added =
     (if added = [] then told (Inr tools)
      else then_ask (told (case find (\<lambda>check. \<not> rx_match lint_pattern check) added of
          Some check \<Rightarrow> Inl (''go-lint check '' @ go_quote check @ '' must be one Staticcheck pattern such as '' @ go_quote ''gocognit'' @
            '', '' @ go_quote ''-unparam'' @ '', or '' @ go_quote ''SA5*'')
        | None \<Rightarrow> Inr ())) (\<lambda>_.
      then_ask (on_error (\<lambda>e. ''listing the linter'' @ [CHR 0x27] @ ''s rules: '' @ engine_text e)
        (stdout_of eg (MustExec (linter_container tools) [''/go/bin/levenshtein-lint'', ''-list-checks'']))) (\<lambda>listing.
        told (case registered added listing of
          Some e \<Rightarrow> Inl (registered_error_text e)
        | None \<Rightarrow> Inr (tools\<lparr>tc_checks := tc_checks tools @ added\<rparr>)))))"

text \<open>The loop of \<open>goMod\<close>, with the findings so far.\<close>

fun runner_mod_steps :: "engine \<Rightarrow> container \<Rightarrow> string \<Rightarrow> mod_step list \<Rightarrow> finding list \<Rightarrow> (string, finding list) asks" where
  "runner_mod_steps eg c m [] findings = told (Inr findings)"
| "runner_mod_steps eg c m (step # steps) findings =
     then_ask (run_in eg c (mod_args step)) (\<lambda>(run, checked).
     then_ask (runner_judged eg (mod_findings step m run)) (\<lambda>found. runner_mod_steps eg c m steps (findings @ found)))"

definition runner_go_mod :: "engine \<Rightarrow> directory \<Rightarrow> string \<Rightarrow> toolchain \<Rightarrow> string \<Rightarrow> (string, finding list) asks" where
  "runner_go_mod eg source m tools nonce =
     then_ask (go_mod_readable eg source m) (\<lambda>_.
       runner_mod_steps eg (with_nonce (at_module (SetEnv (go_container tools) ''GOWORK'' ''off'') source m) nonce) m mod_steps [])"

definition packages_found :: "engine \<Rightarrow> container \<Rightarrow> string \<Rightarrow> (string, unit) asks" where
  "packages_found eg c m q =
     (case stdout_of eg (MustExec c [''go'', ''list'', ''./...'']) q of
        (Inl e, q1) \<Rightarrow> (Inl (''module '' @ go_quote m @ '' package discovery failed or found no packages: '' @ engine_text e), q1)
      | (Inr packages, q1) \<Rightarrow>
          (if trim_space packages = '''' then Inl (''module '' @ go_quote m @ '' package discovery failed or found no packages: <nil>'')
           else Inr (), q1))"

definition test_container :: "toolchain \<Rightarrow> string \<Rightarrow> directory \<Rightarrow> string \<Rightarrow> string \<Rightarrow> container" where
  "test_container tools scope source m nonce =
     with_nonce (at_module (SetEnv (untrusted_go_container tools scope) ''CGO_ENABLED'' ''1'') source m) nonce"

definition runner_go_test :: "engine \<Rightarrow> readers \<Rightarrow> directory \<Rightarrow> string \<Rightarrow> toolchain \<Rightarrow> string \<Rightarrow> string \<Rightarrow> (string, finding list) asks" where
  "runner_go_test eg rd source m tools scope nonce =
     then_ask (go_mod_readable eg source m) (\<lambda>_.
       let c = test_container tools scope source m nonce; command = test_args (nonce \<noteq> '''') in
       then_ask (verify_module_cache eg c source m command) (\<lambda>_.
       then_ask (packages_found eg c m) (\<lambda>_.
       then_ask (run_in eg c command) (\<lambda>(run, checked).
         runner_judged eg (test_findings (rd_events rd) m run)))))"

section \<open>The scanners\<close>

text \<open>Files of several patterns, in the order of the patterns.\<close>

fun glob_all :: "engine \<Rightarrow> directory \<Rightarrow> string list \<Rightarrow> (string, string list) asks" where
  "glob_all eg source [] = told (Inr [])"
| "glob_all eg source (pattern # patterns) =
     then_ask (plainly (glob_in eg source pattern)) (\<lambda>files.
     then_ask (glob_all eg source patterns) (\<lambda>more_files. told (Inr (files @ more_files))))"

definition runner_zizmor_patterns :: "string list" where
  "runner_zizmor_patterns = [''.github/workflows/*.yml'', ''.github/workflows/*.yaml'', ''action.yml'', ''action.yaml'',
     ''.github/dependabot.yml'', ''.github/dependabot.yaml'', ''.github/actions/**/action.yml'', ''.github/actions/**/action.yaml'']"

definition runner_zizmor_inputs :: "engine \<Rightarrow> directory \<Rightarrow> (string, string list \<times> string) asks" where
  "runner_zizmor_inputs eg source =
     then_ask (glob_all eg source runner_zizmor_patterns) (\<lambda>inputs.
       if inputs = [] then
         told (Inl ''workflow-security found no workflows, composite actions or Dependabot configuration to audit'')
       else then_ask (glob_all eg source zizmor_configs) (\<lambda>configs.
         told (if length configs > 1 then Inl (''configure only one zizmor file; found '' @ join_with '', '' configs)
           else Inr (sort inputs, case configs of [config] \<Rightarrow> config | _ \<Rightarrow> ''''))))"

definition runner_workflow_security :: "engine \<Rightarrow> directory \<Rightarrow> string \<Rightarrow> toolchain \<Rightarrow> string \<Rightarrow> (string, finding list) asks" where
  "runner_workflow_security eg source m tools nonce =
     then_ask (runner_zizmor_inputs eg source) (\<lambda>(inputs, config).
     then_ask (with_release eg (Image (tc_image tools)) (tc_zizmor tools) ''zizmor'' ''/usr/local/bin/zizmor'') (\<lambda>c.
     then_ask (run_in eg (with_nonce (EnterDir (PutDirectory c ''/src'' source) ''/src'') nonce)
         (zizmor_arguments ''/usr/local/bin/zizmor'' config inputs)) (\<lambda>(run, checked).
       runner_judged eg (zizmor_findings m run))))"

definition shell_listing :: "string list" where
  "shell_listing =
     [''find'', ''.'', ''-type'', ''d'', ''(''] @
     tl (concat (map (\<lambda>dir. [''-o'', ''-name'', dir]) source_skip_dirs)) @
     ['')'', ''-prune'', ''-o'', ''-type'', ''f'', ''-exec'', ''sh'', ''-c'',
      ''for f do printf '' @ [CHR 0x27] @ ''%s'' @ [CHR 0x5C] @ ''0'' @ [CHR 0x27] @ '' '' @ [CHR 0x22] @ ''$f'' @ [CHR 0x22]
        @ ''; case '' @ [CHR 0x22] @ ''${f##*/}'' @ [CHR 0x22] @ '' in *.*) ;; *) line=$(head -c '' @ show_nat shell_head_limit
        @ '' '' @ [CHR 0x22] @ ''$f'' @ [CHR 0x22] @ '' | tr '' @ [CHR 0x27] @ [CHR 0x5C] @ ''000'' @ [CHR 0x27] @ '' ''
        @ [CHR 0x27] @ [CHR 0x5C] @ ''001'' @ [CHR 0x27] @ '' | head -n 1); case $line in '' @ [CHR 0x27] @ ''#!'' @ [CHR 0x27]
        @ ''*) printf '' @ [CHR 0x27] @ ''%s'' @ [CHR 0x27] @ '' '' @ [CHR 0x22] @ ''$line'' @ [CHR 0x22]
        @ '' ;; esac ;; esac; printf '' @ [CHR 0x27] @ [CHR 0x5C] @ ''0'' @ [CHR 0x27] @ ''; done'',
      ''sh'', ''{}'', ''+'']"

text \<open>The pairs of a listing, whose fields are an odd number with an empty last one.\<close>

fun listing_pairs :: "string list \<Rightarrow> (string \<times> string) list" where
  "listing_pairs (name # head # rest) = (name, head) # listing_pairs rest"
| "listing_pairs rest = []"

definition in_skipped_dir :: "string \<Rightarrow> bool" where
  "in_skipped_dir path \<longleftrightarrow> list_ex (\<lambda>dir. dir \<in> set source_skip_dirs) (split_at slash (dir_name path))"

definition runner_shell_inputs :: "string \<Rightarrow> string + string list \<times> string" where
  "runner_shell_inputs listing =
     (let parts = split_at CHR 0x00 listing in
      if length parts mod 2 \<noteq> 1 \<or> last parts \<noteq> '''' then Inl ''unexpected file listing for shell-lint''
      else
        let files = filter (\<lambda>(path, head). \<not> in_skipped_dir path)
              (map (\<lambda>(name, head). (trim_prefix name ''./'', head)) (listing_pairs parts));
            configs = filter (\<lambda>path. path \<in> set shell_rc_names) (map fst files);
            scripts = map fst (filter (\<lambda>(path, head). shell_script path head) files) in
        if scripts = [] then
          Inl ''shell-lint found no shell scripts (*.sh, *.bash, or an extensionless file with a sh, bash, dash or ksh shebang) to check''
        else if length configs > 1 then Inl (''configure only one ShellCheck file; found '' @ join_with '', '' (sort configs))
        else Inr (sort scripts, case configs of [config] \<Rightarrow> config | _ \<Rightarrow> ''''))"

definition runner_shell_lint :: "engine \<Rightarrow> readers \<Rightarrow> directory \<Rightarrow> toolchain \<Rightarrow> string \<Rightarrow> (string, finding list) asks" where
  "runner_shell_lint eg rd source tools nonce =
     then_ask (with_release eg (Image (tc_image tools)) (tc_shellcheck tools) ''shellcheck'' ''/usr/local/bin/shellcheck'') (\<lambda>base.
       let c = with_nonce (EnterDir (PutDirectory base ''/src'' source) ''/src'') nonce in
       then_ask (plainly (stdout_of eg (MustExec c shell_listing))) (\<lambda>listing.
       then_ask (told (runner_shell_inputs listing)) (\<lambda>(scripts, config).
       then_ask (run_in eg c (shellcheck_arguments ''/usr/local/bin/shellcheck'' config scripts)) (\<lambda>(run, checked).
         runner_judged eg (shell_findings (rd_comments rd) run)))))"

text \<open>The report a scanner wrote, asked for only after the exits that leave one.\<close>

definition scan_report :: "engine \<Rightarrow> string \<Rightarrow> tool_run \<Rightarrow> int \<Rightarrow> container \<Rightarrow> string \<Rightarrow> (string, string) asks" where
  "scan_report eg tool run findings_exit checked path =
     (if tr_exit run = 0 \<or> tr_exit run = findings_exit then
        on_error (\<lambda>e. tool @ '' exited '' @ show_int (tr_exit run) @ '' without a report: '' @ engine_text e @ '': '' @ trim_space (tr_stderr run))
          (bytes_of eg (FileIn checked path))
      else told (Inr ''''))"

definition runner_deps_vuln :: "engine \<Rightarrow> readers \<Rightarrow> directory \<Rightarrow> toolchain \<Rightarrow> string \<Rightarrow> (string, finding list) asks" where
  "runner_deps_vuln eg rd source tools nonce =
     (let report = ''/tmp/levenshtein-deps.json''; root = ''/src'' in
      then_ask (plainly (glob_in eg source deps_config)) (\<lambda>configs.
      then_ask (with_release eg (Image (tc_image tools)) (tc_osv tools) osv_scanner ''/usr/local/bin/osv-scanner'') (\<lambda>base.
      then_ask (run_in eg (SetEnv (EnterDir (PutDirectory base root source) root) nonce_variable nonce)
          (deps_arguments ''/usr/local/bin/osv-scanner'' (length configs = 1) report DepsSource)) (\<lambda>(run, checked).
      then_ask (scan_report eg osv_scanner run deps_vulnerable_exit checked report) (\<lambda>bytes.
        runner_judged eg (deps_findings (rd_deps rd) root bytes run))))))"

definition runner_secrets :: "engine \<Rightarrow> readers \<Rightarrow> directory \<Rightarrow> toolchain \<Rightarrow> string \<Rightarrow> (string, finding list) asks" where
  "runner_secrets eg rd source tools nonce =
     (let report = ''/tmp/levenshtein-secrets.json'' in
      then_ask (plainly (entries_in eg source)) (\<lambda>entries.
      if entries = [] then told (Inl ''secrets found no files to scan'')
      else then_ask (plainly (glob_in eg source secrets_config)) (\<lambda>configs.
      then_ask (run_in eg (with_nonce (EnterDir (PutDirectory
            (with_tool (go_container tools) tool_gitleaks ''/usr/local/bin/gitleaks'') ''/src'' source) ''/src'') nonce)
          (secrets_arguments ''/usr/local/bin/gitleaks'' (length configs = 1) report)) (\<lambda>(run, checked).
      then_ask (scan_report eg gitleaks run secrets_leak_exit checked report) (\<lambda>bytes.
        runner_judged eg (secrets_findings (rd_leaks rd) bytes run))))))"

end
