(* ===== verification/Runner_Checks.thy ===== *)
theory Runner_Checks
  imports Runner_Kinds
begin

text \<open>
  The functions a caller of the runner reaches for one check: \<open>executeCheck\<close> and \<open>SharedCheck\<close> of \<open>runner/checks.go\<close>,
  and the checks of \<open>runner/gocheck.go\<close> with their functions. A failing verdict is the error whose extensions carry the
  findings; any other error is its text.
\<close>

section \<open>Checks with one tool\<close>

definition runner_workflow_command :: "engine \<Rightarrow> directory \<Rightarrow> (string, string list) asks" where
  "runner_workflow_command eg source =
     then_ask (glob_all eg source [''.github/workflows/*.yml'', ''.github/workflows/*.yaml'']) (\<lambda>workflows.
       if workflows = [] then told (Inl ''workflow-lint requires .github/workflows/*.yml or *.yaml'')
       else then_ask (plainly (glob_in eg source ''.github/actionlint.y*ml'')) (\<lambda>configs.
         told (if length configs > 1 then Inl ''configure only one .github/actionlint YAML file''
           else Inr ([''/usr/local/bin/check'', ''-shellcheck='', ''-pyflakes=''] @
             (case configs of [config] \<Rightarrow> [''-config-file'', config] | _ \<Rightarrow> []) @ sort workflows))))"

text \<open>The preflight of a module, whose packages a check needs.\<close>

definition module_preflight :: "engine \<Rightarrow> container \<Rightarrow> directory \<Rightarrow> string \<Rightarrow> (string, unit) asks" where
  "module_preflight eg c source m = then_ask (go_mod_readable eg source m) (\<lambda>_. packages_found eg c m)"

definition workflow_check :: "engine \<Rightarrow> directory \<Rightarrow> string \<Rightarrow> toolchain \<Rightarrow> string \<Rightarrow> (string, finding list) asks" where
  "workflow_check eg source m tools nonce =
     then_ask (runner_workflow_command eg source) (\<lambda>command.
     then_ask (run_in eg (with_nonce (at_module (with_tool (go_container tools) tool_actionlint ''/usr/local/bin/check'') source m) nonce)
         command) (\<lambda>(run, checked).
       runner_judged eg (tool_exit KindWorkflowLint m run)))"

definition module_check :: "engine \<Rightarrow> tool_kind \<Rightarrow> container \<Rightarrow> string list \<Rightarrow> directory \<Rightarrow> string \<Rightarrow> string \<Rightarrow> (string, finding list) asks" where
  "module_check eg kind base command source m nonce =
     (let c = with_nonce (at_module base source m) nonce in
      then_ask (module_preflight eg c source m) (\<lambda>_.
      then_ask (run_in eg c command) (\<lambda>(run, checked).
        runner_judged eg (tool_exit kind m run))))"

section \<open>executeCheck and SharedCheck\<close>

definition run_shared_check :: "engine \<Rightarrow> readers \<Rightarrow> directory \<Rightarrow> string \<Rightarrow> toolchain \<Rightarrow> string \<Rightarrow> string \<Rightarrow> string \<Rightarrow>
    (string, finding list) asks" where
  "run_shared_check eg rd source m tools check scope nonce =
     (if check = ''go-lint'' then runner_lint eg rd source m tools nonce
      else if check = ''go-http'' then runner_lint eg rd source m (tools\<lparr>tc_checks := [''bodyclose'']\<rparr>) nonce
      else if check = ''go-sql'' then runner_lint eg rd source m (tools\<lparr>tc_checks := [''sqlclosecheck'']\<rparr>) nonce
      else if check = ''go-mod'' then runner_go_mod eg source m tools nonce
      else if check = ''go-test'' then runner_go_test eg rd source m tools scope nonce
      else if check = ''workflow-security'' then runner_workflow_security eg source m tools nonce
      else if check = ''shell-lint'' then runner_shell_lint eg rd source tools nonce
      else if check = ''secrets'' then runner_secrets eg rd source tools nonce
      else if check = ''deps-vuln'' then runner_deps_vuln eg rd source tools nonce
      else if check = ''go-vet'' then module_check eg KindGoVet (go_container tools) [''go'', ''vet'', ''./...''] source m nonce
      else if check = ''go-vuln'' then
        module_check eg KindGoVuln (with_tool (go_container tools) tool_govulncheck ''/usr/local/bin/check'')
          [''/usr/local/bin/check'', ''./...''] source m nonce
      else if check = ''workflow-lint'' then workflow_check eg source m tools nonce
      else told (Inl (''unsupported check '' @ go_quote check)))"

definition known_checks :: "string list" where
  "known_checks = [''go-lint'', ''go-vet'', ''go-mod'', ''go-test'', ''go-http'', ''go-sql'', ''go-vuln'', ''workflow-lint'',
     ''workflow-security'', ''shell-lint'', ''secrets'', ''deps-vuln'', ''self-test'']"

definition known_check :: "string \<Rightarrow> bool" where
  "known_check check \<longleftrightarrow> check \<in> set known_checks"

definition root_checks :: "string list" where
  "root_checks = [''workflow-lint'', ''workflow-security'', ''shell-lint'', ''secrets'', ''deps-vuln'']"

definition fresh_checks :: "string list" where
  "fresh_checks = [''go-vuln'', ''go-mod'', ''deps-vuln'']"

definition valid_module :: "string \<Rightarrow> string option" where
  "valid_module m =
     (if \<not> is_local m \<or> clean m \<noteq> m \<or> CHR 0x5C \<in> set m then Some (''invalid module path '' @ go_quote m) else None)"

text \<open>What a function of the runner answers: a text, findings with what else the error carries, or an error.\<close>

datatype runner_answer =
    RunnerPassed string
  | RunnerFailed string "finding list" "warning list" string
  | MutationFailed "finding list" bool string
  | RunnerError string

definition refused :: "string option \<Rightarrow> (string, runner_answer) asks \<Rightarrow> (string, runner_answer) asks" where
  "refused e m = (case e of Some s \<Rightarrow> told (Inl s) | None \<Rightarrow> m)"

definition answered :: "(string, runner_answer) asks \<Rightarrow> query list \<Rightarrow> runner_answer \<times> query list" where
  "answered m q = (case m q of (Inl e, q1) \<Rightarrow> (RunnerError e, q1) | (Inr a, q1) \<Rightarrow> (a, q1))"

definition failed_answer :: "finding list \<Rightarrow> runner_answer" where
  "failed_answer findings = (if findings = [] then RunnerPassed '''' else RunnerFailed ''shared check failed'' findings [] '''')"

definition shared_refusal :: "string \<Rightarrow> string \<Rightarrow> string \<Rightarrow> string option" where
  "shared_refusal check m nonce = first_of
     [fail_when (\<not> known_check check \<or> check = ''self-test'') (''unsupported shared check '' @ go_quote check),
      valid_module m,
      fail_when (check \<in> set root_checks \<and> m \<noteq> dot) (check @ '' requires a repository-root target''),
      fail_when (check \<in> set fresh_checks \<and> nonce = '''') (check @ '' requires a unique nonce; use the Levenshtein CLI'')]"

definition shared_check :: "engine \<Rightarrow> readers \<Rightarrow> string + toolchain \<Rightarrow> directory \<Rightarrow> string \<Rightarrow> string \<Rightarrow> string \<Rightarrow> string \<Rightarrow>
    (string, runner_answer) asks" where
  "shared_check eg rd decoded source check m nonce key =
     refused (shared_refusal check m nonce)
       (then_ask (told (repository_scope key)) (\<lambda>scope.
        then_ask (told decoded) (\<lambda>tools.
        then_ask (run_shared_check eg rd source m tools check scope nonce) (\<lambda>findings.
          told (Inr (failed_answer findings))))))"

section \<open>gocheck.go\<close>

abbreviation gocheck_binary :: string where "gocheck_binary \<equiv> ''/go/bin/levenshtein-gocheck''"

definition gocheck_container :: "toolchain \<Rightarrow> container" where
  "gocheck_container tools =
     MustExec (EnterDir (PutDirectory (go_container tools) ''/policy'' (SubDir RunnerSource ''lint'')) ''/policy'')
       [''go'', ''build'', ''-trimpath'', ''-o'', gocheck_binary, ''./cmd/levenshtein-gocheck'']"

definition run_gocheck :: "engine \<Rightarrow> readers \<Rightarrow> container \<Rightarrow> tool_kind \<Rightarrow> string list \<Rightarrow> string \<Rightarrow> (string, finding list \<times> string list) asks" where
  "run_gocheck eg rd c kind args nonce =
     then_ask (run_in eg (with_nonce c nonce) (gocheck_binary # args)) (\<lambda>(run, checked).
       runner_judged eg (gocheck_report (rd_gocheck rd) kind run))"

definition runner_go_imports :: "engine \<Rightarrow> readers \<Rightarrow> directory \<Rightarrow> string \<Rightarrow> string \<Rightarrow> toolchain \<Rightarrow> string \<Rightarrow>
    (string, finding list \<times> string list) asks" where
  "runner_go_imports eg rd source m rules tools nonce =
     then_ask (go_mod_readable eg source m) (\<lambda>_.
       run_gocheck eg rd (at_module (gocheck_container tools) source m) KindGoImports
         [''imports'', ''-rules='' @ rules, ''-prefix='' @ m] nonce)"

definition generate_container :: "toolchain \<Rightarrow> string \<Rightarrow> directory \<Rightarrow> string \<Rightarrow> container" where
  "generate_container tools scope source nonce =
     with_nonce (EnterDir (PutDirectory (PutFile (untrusted_go_container tools scope) gocheck_binary
       (FileIn (gocheck_container tools) gocheck_binary)) ''/src'' source) ''/src'') nonce"

definition runner_go_generate :: "engine \<Rightarrow> readers \<Rightarrow> directory \<Rightarrow> string \<Rightarrow> toolchain \<Rightarrow> string \<Rightarrow> string \<Rightarrow>
    (string, finding list \<times> string list) asks" where
  "runner_go_generate eg rd source m tools scope nonce =
     then_ask (go_mod_readable eg source m) (\<lambda>_.
       let c = generate_container tools scope source nonce; args = [''generate'', ''-root=/src'', ''-module='' @ m] in
       then_ask (verify_module_cache eg c source m (gocheck_binary # args)) (\<lambda>_.
         run_gocheck eg rd c KindGoGenerate args nonce))"

definition apidiff_container :: "toolchain \<Rightarrow> container" where
  "apidiff_container tools = with_tool (gocheck_container tools) tool_apidiff ''/usr/local/bin/apidiff''"

definition runner_go_apidiff :: "engine \<Rightarrow> readers \<Rightarrow> directory \<Rightarrow> directory \<Rightarrow> string \<Rightarrow> string \<Rightarrow> toolchain \<Rightarrow> string \<Rightarrow>
    (string, finding list \<times> string list) asks" where
  "runner_go_apidiff eg rd source base m gowork tools nonce =
     then_ask (go_mod_readable eg source m) (\<lambda>_.
       run_gocheck eg rd
         (EnterDir (PutDirectory (PutDirectory (apidiff_container tools) ''/src'' source) ''/base'' base) (path_join [''/src'', m]))
         KindGoApidiff [''apidiff'', ''-tool=/usr/local/bin/apidiff'', ''-base=/base'', ''-head=/src'', ''-module='' @ m,
           ''-workspace='' @ gowork] nonce)"

definition go_generate_function :: "engine \<Rightarrow> readers \<Rightarrow> string + toolchain \<Rightarrow> directory \<Rightarrow> string \<Rightarrow> string \<Rightarrow> string \<Rightarrow>
    (string, runner_answer) asks" where
  "go_generate_function eg rd decoded source m nonce key =
     refused (valid_module m)
       (then_ask (told (repository_scope key)) (\<lambda>scope.
        then_ask (told decoded) (\<lambda>tools.
        then_ask (runner_go_generate eg rd source m tools scope nonce) (\<lambda>(findings, notes).
          told (Inr (failed_answer findings))))))"

definition go_imports_function :: "engine \<Rightarrow> readers \<Rightarrow> string + toolchain \<Rightarrow> directory \<Rightarrow> string \<Rightarrow> string \<Rightarrow> string \<Rightarrow>
    (string, runner_answer) asks" where
  "go_imports_function eg rd decoded source rules m nonce =
     refused (valid_module m)
       (then_ask (told decoded) (\<lambda>tools.
        then_ask (runner_go_imports eg rd source m rules tools nonce) (\<lambda>(findings, notes).
          told (Inr (failed_answer findings)))))"

text \<open>The notes are marshalled by \<open>encoding/json\<close>, which is the argument.\<close>

definition go_apidiff_function :: "engine \<Rightarrow> readers \<Rightarrow> (string list \<Rightarrow> string) \<Rightarrow> string + toolchain \<Rightarrow> directory \<Rightarrow> directory \<Rightarrow>
    string \<Rightarrow> string \<Rightarrow> string \<Rightarrow> (string, runner_answer) asks" where
  "go_apidiff_function eg rd marshal decoded source base m gowork nonce =
     refused (first_of [valid_module m,
         fail_when (gowork \<noteq> ''off'' \<and> (valid_module gowork \<noteq> None \<or> base_name gowork \<noteq> ''go.work''))
           (''workspace '' @ go_quote gowork @ '' must be off or a go.work inside the source'')])
       (then_ask (told decoded) (\<lambda>tools.
        then_ask (runner_go_apidiff eg rd source base m gowork tools nonce) (\<lambda>(findings, notes).
          told (Inr (if findings = [] then RunnerPassed (marshal notes)
            else RunnerFailed ''shared check failed'' findings [] (marshal notes))))))"

end
