(* ===== verification/Runner_Community.thy ===== *)
theory Runner_Community
  imports Runner_Checks Community_Output
begin

text \<open>
  The community rules of the runner, \<open>runner/community.go\<close>, and the go-lint function that runs them beside the core
  linter, \<open>goLint\<close> and \<open>GoLintReport\<close> of \<open>runner/main.go\<close>. JSON is an argument: what a text decodes to, and the text
  of a value.
\<close>

section \<open>Arguments and notices\<close>

record build_module =
  bm_path :: string
  bm_version :: string
  bm_namespace :: string
  bm_dir :: string

record retraction =
  rt_module :: string
  rt_version :: string
  rt_rationale :: "string list"

record reported_rule =
  rr_code :: string
  rr_source :: string
  rr_url :: string
  rr_advisory :: bool

record rule_failure =
  rf_code :: string
  rf_source :: string
  rf_package :: string
  rf_error :: string

record community_report =
  cr_rules :: "reported_rule list"
  cr_warnings :: "warning list"
  cr_failures :: "rule_failure list"

text \<open>
  Decoding and encoding. A stream is its values up to the first that does not decode, and the error of that one.
  \<open>js_notices\<close> is the file that is shipped with the runner.
\<close>

record runner_json =
  js_modules :: "string \<Rightarrow> string + planned_rule_module list"
  js_notices :: "string + rule_module_notice list"
  js_request :: "toolchain \<Rightarrow> build_module list \<Rightarrow> string"
  js_built :: "string \<Rightarrow> string + retraction list"
  js_config :: "planned_rule_module list \<Rightarrow> string list \<Rightarrow> string"
  js_report :: "string \<Rightarrow> string + community_report"
  js_diagnostics :: "string \<Rightarrow> diagnostic list \<times> string option"
  js_outcome :: "finding list \<Rightarrow> warning list \<Rightarrow> string"

definition parse_rule_modules :: "runner_json \<Rightarrow> string \<Rightarrow> string + planned_rule_module list" where
  "parse_rule_modules js raw =
     (if raw = '''' then Inr []
      else bind_result (wrap_error (\<lambda>e. ''invalid ruleModules argument: '' @ e) (js_modules js raw)) (\<lambda>modules.
        case find (\<lambda>pm. pm_path pm = '''' \<or> pm_version pm = '''' \<or> pm_namespace pm = '''' \<or> pm_select pm = []) modules of
          Some pm \<Rightarrow> Inl (''rule module '' @ go_quote (pm_path pm) @ '' needs a version, a namespace, and a select list'')
        | None \<Rightarrow> Inr modules))"

definition check_namespace :: "string \<Rightarrow> string" where
  "check_namespace check = fst (cut_at CHR ''_'' (to_lower (trim_prefix check ''-'')))"

definition split_check_error :: "planned_rule_module list \<Rightarrow> string \<Rightarrow> string option" where
  "split_check_error modules check =
     (if CHR ''_'' \<notin> set check then None
      else if \<not> rx_match community_pattern check then
        Some (''go-lint check '' @ go_quote check @ '' must be one community pattern such as '' @ go_quote ''errs_*'' @ '', '' @
          go_quote ''errs_no*'' @ '', or '' @ go_quote ''-errs_nopanic'')
      else if \<not> list_ex (\<lambda>pm. pm_namespace pm = check_namespace check) modules then
        Some (''go-lint check '' @ go_quote check @ '' names namespace '' @ go_quote (check_namespace check) @
          '', which no rule module declares'')
      else None)"

definition split_checks :: "string list \<Rightarrow> planned_rule_module list \<Rightarrow> string + string list \<times> string list" where
  "split_checks checks modules = guard_result (first_error (split_check_error modules) checks)
     (Inr (filter (\<lambda>c. CHR ''_'' \<notin> set c) checks, filter (\<lambda>c. CHR ''_'' \<in> set c) checks))"

definition matching_notices :: "rule_module_notice list \<Rightarrow> planned_rule_module list \<Rightarrow> (planned_rule_module \<times> rule_module_notice) list" where
  "matching_notices shipped modules =
     concat (map (\<lambda>pm. map (Pair pm) (filter (\<lambda>n. nt_path n = pm_path pm \<and> nt_version n = pm_version pm) shipped)) modules)"

definition release_notices :: "runner_json \<Rightarrow> planned_rule_module list \<Rightarrow> string + warning list" where
  "release_notices js modules =
     bind_result (wrap_error (\<lambda>e. ''rule-modules.json: '' @ e) (js_notices js)) (\<lambda>shipped.
     let found = matching_notices shipped modules in
     case find (\<lambda>(pm, n). nt_status n = RuleModuleWithdrawn) found of
       Some (pm, n) \<Rightarrow> Inl (pm_path pm @ ''@'' @ pm_version pm @ '' is withdrawn: '' @ nt_reason n)
     | None \<Rightarrow> Inr (map (\<lambda>(pm, n). \<lparr>wn_kind = WarningRuleModuleDeprecated,
         wn_message = pm_path pm @ ''@'' @ pm_version pm @ '' is deprecated: '' @ nt_reason n @
           (if nt_replacement n \<noteq> '''' then ''; use '' @ nt_replacement n @ '' instead'' else '''')\<rparr>) found))"

section \<open>Building the linter\<close>

fun exec_failure :: "engine_error \<Rightarrow> string" where
  "exec_failure (EngineError e) = e"
| "exec_failure (ExecError e err) = (if trim_space err \<noteq> '''' then trim_space err else e)"

definition community_base :: "toolchain \<Rightarrow> string \<Rightarrow> container" where
  "community_base tools request =
     PutText (MustExec (EnterDir (PutDirectory (go_container tools) ''/community'' (SubDir RunnerSource ''community'')) ''/community'')
       [''go'', ''build'', ''-trimpath'', ''-o'', ''/usr/local/bin/levenshtein-community-build'', ''./cmd/levenshtein-community-build''])
       ''/build/request.json'' request"

definition community_built :: "runner_json \<Rightarrow> toolchain \<Rightarrow> build_module list \<Rightarrow> directory option \<Rightarrow> string \<Rightarrow> container" where
  "community_built js tools modules fixtures nonce =
     (let c = community_base tools (js_request js tools modules);
          c = (case fixtures of None \<Rightarrow> c | Some d \<Rightarrow> PutDirectory c ''/fixtures'' d) in
      MustExec (with_nonce c nonce)
        [''levenshtein-community-build'', ''-request'', ''/build/request.json'', ''-out'', ''/build/out''])"

definition retraction_warning :: "retraction \<Rightarrow> warning" where
  "retraction_warning r = \<lparr>wn_kind = WarningRuleModuleRetracted,
     wn_message = ''the author of '' @ rt_module r @ '' retracted '' @ rt_version r @ '': '' @ join_with ''; '' (rt_rationale r)\<rparr>"

definition build_community_linter :: "engine \<Rightarrow> runner_json \<Rightarrow> toolchain \<Rightarrow> build_module list \<Rightarrow> directory option \<Rightarrow> string \<Rightarrow>
    (string, content \<times> warning list) asks" where
  "build_community_linter eg js tools modules fixtures nonce =
     (let built = community_built js tools modules fixtures nonce in
      then_ask (on_error exec_failure (bytes_of eg (FileIn built ''/build/out/build.json''))) (\<lambda>summary.
        told (bind_result (wrap_error (\<lambda>e. ''reading the community build'' @ [CHR 0x27] @ ''s summary: '' @ e) (js_built js summary)) (\<lambda>retracted.
          Inr (FileIn built ''/build/out/levenshtein-community-lint'', map retraction_warning retracted)))))"

section \<open>Dependencies\<close>

definition manifests :: "string list" where
  "manifests = [''**/go.mod'', ''**/go.sum'', ''**/go.work'', ''**/go.work.sum'']"

text \<open>
  The directories of the loop of \<open>vendorFile\<close>, from the module up to the source. The loop ends only at \<open>.\<close>, which a
  local path reaches after at most as many steps as it has characters.
\<close>

fun directories_above :: "nat \<Rightarrow> string \<Rightarrow> string list option" where
  "directories_above 0 dir = (if dir = dot then Some [dir] else None)"
| "directories_above (Suc n) dir =
     (if dir = dot then Some [dir] else map_option (Cons dir) (directories_above n (dir_name dir)))"

fun vendor_file_from :: "engine \<Rightarrow> directory \<Rightarrow> string \<Rightarrow> string list \<Rightarrow> (string, string) asks" where
  "vendor_file_from eg source m [] = told (Inr (path_join [m, ''vendor'', ''modules.txt'']))"
| "vendor_file_from eg source m (dir # dirs) =
     then_ask (plainly (regular_in eg source (path_join [dir, ''go.work'']))) (\<lambda>found.
       if found then told (Inr (path_join [dir, ''vendor'', ''modules.txt'']))
       else vendor_file_from eg source m dirs)"

definition vendor_file :: "engine \<Rightarrow> directory \<Rightarrow> string \<Rightarrow> (string, string) asks" where
  "vendor_file eg source m =
     (case directories_above (Suc (length m)) m of
        None \<Rightarrow> told (Inl ''unreachable: the module is not a local path'')
      | Some dirs \<Rightarrow> vendor_file_from eg source m dirs)"

definition download_container :: "directory \<Rightarrow> string \<Rightarrow> toolchain \<Rightarrow> string \<Rightarrow> container" where
  "download_container source m tools nonce =
     MustExec (with_nonce (EnterDir (PutDirectory (MustExec (SetEnv (SetEnv (Image (tc_image tools))
       ''GOTOOLCHAIN'' ''local'') ''GOMODCACHE'' ''/deps'') [''mkdir'', ''-p'', ''/deps''])
       ''/src'' (Filtered source manifests)) (path_join [''/src'', m])) nonce)
       [''go'', ''mod'', ''download'']"

definition download_dependencies :: "engine \<Rightarrow> directory \<Rightarrow> string \<Rightarrow> toolchain \<Rightarrow> string \<Rightarrow> (string, directory) asks" where
  "download_dependencies eg source m tools nonce =
     then_ask (vendor_file eg source m) (\<lambda>modules.
     then_ask (plainly (regular_in eg source modules)) (\<lambda>vendored.
       if vendored then told (Inr EmptyDir)
       else
         let c = download_container source m tools nonce in
         then_ask (on_error (\<lambda>e. ''downloading module '' @ go_quote m @ [CHR 0x27] @
             ''s dependencies for the community linter failed: '' @ exec_failure e) (sync_of eg c)) (\<lambda>_.
           told (Inr (DirIn c ''/deps'')))))"

section \<open>The lint step\<close>

record community_run =
  cn_exit :: int
  cn_stdout :: string
  cn_stderr :: string
  cn_report :: string
  cn_reported :: bool

definition community_container :: "runner_json \<Rightarrow> directory \<Rightarrow> string \<Rightarrow> toolchain \<Rightarrow> content \<Rightarrow> directory \<Rightarrow>
    planned_rule_module list \<Rightarrow> string list \<Rightarrow> container" where
  "community_container js source m tools binary deps modules checks =
     at_module (PutText (PutFile (PutDirectory (foldl (\<lambda>c (name, v). SetEnv c name v) (Image (tc_image tools))
       [(''GOTOOLCHAIN'', ''local''), (''GOPROXY'', ''off''), (''GOSUMDB'', ''off''), (''GOFLAGS'', ''''), (''GOMODCACHE'', ''/deps''),
        (''GOCACHE'', ''/tmp/go-build'')])
       ''/deps'' deps) ''/usr/local/bin/levenshtein-community-lint'' binary)
       ''/lvrules/config.json'' (js_config js modules checks)) source m"

definition replace_char :: "char \<Rightarrow> char \<Rightarrow> string \<Rightarrow> string" where
  "replace_char old new s = map (\<lambda>c. if c = old then new else c) s"

definition community_volume :: "string \<Rightarrow> string" where
  "community_volume digest = ''levenshtein-community-staticcheck-'' @ replace_char CHR '':'' CHR ''-'' digest"

definition with_community_cache :: "engine \<Rightarrow> container \<Rightarrow> content \<Rightarrow> string \<Rightarrow> (string, container) asks" where
  "with_community_cache eg c binary nonce =
     (if nonce = '''' then then_ask (plainly (digest_of eg binary)) (\<lambda>digest.
        told (Inr (SetEnv (MountPrivate c ''/staticcheck'' (community_volume digest)) ''STATICCHECK_CACHE'' ''/staticcheck'')))
      else told (Inr (SetEnv (SetEnv c nonce_variable nonce) ''STATICCHECK_CACHE'' ''/tmp/staticcheck-fresh'')))"

definition community_args :: "string list" where
  "community_args = [''levenshtein-community-lint'', ''-f=json'', ''-lvrules.config=/lvrules/config.json'',
     ''-lvrules.report=/lvrules/report.json'', ''./...'']"

definition run_community_linter :: "engine \<Rightarrow> runner_json \<Rightarrow> directory \<Rightarrow> string \<Rightarrow> toolchain \<Rightarrow> content \<Rightarrow> directory \<Rightarrow>
    planned_rule_module list \<Rightarrow> string list \<Rightarrow> string \<Rightarrow> (string, community_run) asks" where
  "run_community_linter eg js source m tools binary deps modules checks nonce =
     then_ask (with_community_cache eg (community_container js source m tools binary deps modules checks) binary nonce) (\<lambda>c.
     then_ask (run_in eg c community_args) (\<lambda>(run, checked).
     then_ask (plainly (regular_in eg (DirIn checked ''/lvrules'') ''report.json'')) (\<lambda>reported.
     then_ask (if reported then plainly (bytes_of eg (FileIn checked ''/lvrules/report.json'')) else told (Inr '''')) (\<lambda>report.
       told (Inr \<lparr>cn_exit = tr_exit run, cn_stdout = tr_stdout run, cn_stderr = tr_stderr run, cn_report = report,
         cn_reported = reported\<rparr>)))))"

section \<open>Reading the lint step\<close>

definition failure_text :: "rule_failure \<Rightarrow> string" where
  "failure_text f = rf_code f @ '' ('' @ rf_source f @ '') failed on '' @ rf_package f @ '': '' @ rf_error f"

text \<open>The last rule of a code in lower case, as filling the map leaves it.\<close>

definition reported_rule_for :: "reported_rule list \<Rightarrow> string \<Rightarrow> reported_rule option" where
  "reported_rule_for rules code = map_of (rev (map (\<lambda>r. (to_lower (rr_code r), r)) rules)) (to_lower code)"

definition community_finding :: "reported_rule list \<Rightarrow> string \<Rightarrow> diagnostic \<Rightarrow> string + finding" where
  "community_finding rules out d =
     (if dg_code d = ''compile'' then Inl (''the community linter could not type-check the module: '' @ dg_message d)
      else if dg_message d = '''' \<or> dg_file d = '''' \<or> dg_line d < 1 then Inl (''unexpected community diagnostic: '' @ out)
      else
        let f = (tool_finding (dg_code d) (dg_message d)
              \<lparr>loc_file = trim_prefix (dg_file d) ''/src/'', loc_line = dg_line d, loc_column = dg_column d\<rparr>)
              \<lparr>fd_advisory := dg_severity d = severity_warning\<rparr> in
        (case reported_rule_for rules (dg_code d) of
           Some r \<Rightarrow>
             if rr_advisory r \<noteq> fd_advisory f then
               Inl (''community finding '' @ dg_code d @ '' is '' @ dg_severity d @ '', but its rule'' @ [CHR 0x27] @
                 ''s advisory setting is '' @ (if rr_advisory r then ''true'' else ''false''))
             else Inr (f\<lparr>fd_code := rr_code r, fd_source := rr_source r, fd_url := rr_url r\<rparr>)
         | None \<Rightarrow>
             if dg_code d \<noteq> ''staticcheck'' then
               Inl (''the community linter reported '' @ dg_code d @ '', which this check did not select: '' @ out)
             else Inr f))"

definition community_findings :: "runner_json \<Rightarrow> community_report \<Rightarrow> community_run \<Rightarrow> string + finding list" where
  "community_findings js report run =
     (let (ds, bad) = js_diagnostics js (cn_stdout run) in
      bind_result (map_results (community_finding (cr_rules report) (cn_stdout run)) ds) (\<lambda>findings.
      case bad of
        Some e \<Rightarrow> Inl (''invalid community linter JSON: '' @ e)
      | None \<Rightarrow>
          if list_ex (\<lambda>f. \<not> fd_advisory f) findings \<noteq> (cn_exit run = 1) then
            Inl (''community linter exit '' @ show_int (cn_exit run) @ '' does not match its diagnostics: '' @ cn_stdout run)
          else Inr findings))"

text \<open>\<open>parseCommunity\<close>: the findings or the error, with the warnings.\<close>

definition parse_community :: "runner_json \<Rightarrow> community_run \<Rightarrow> (string + finding list) \<times> warning list" where
  "parse_community js run =
     (if \<not> cn_reported run then
        (Inl (''the community linter exited '' @ show_int (cn_exit run) @ '' without finishing (no completion report): '' @
          trim_space (cn_stderr run)), [])
      else (case js_report js (cn_report run) of
        Inl e \<Rightarrow> (Inl (''the community linter'' @ [CHR 0x27] @ ''s report is not valid JSON: '' @ e), [])
      | Inr report \<Rightarrow>
          (if cr_failures report \<noteq> [] then Inl (join_with ''; '' (map failure_text (cr_failures report)))
           else if cn_exit run \<noteq> 0 \<and> cn_exit run \<noteq> 1 then
             Inl (''the community linter exited '' @ show_int (cn_exit run) @ '': '' @ trim_space (cn_stderr run) @ newline @ cn_stdout run)
           else if trim_space (cn_stderr run) \<noteq> '''' then
             Inl (''the community linter could not produce a clean result: '' @ cn_stderr run)
           else community_findings js report run, cr_warnings report)))"

section \<open>Merging\<close>

definition reported_line :: "finding \<Rightarrow> string \<times> int" where
  "reported_line f = (loc_file (fd_location f), loc_line (fd_location f))"

definition mixed_lines :: "finding list \<Rightarrow> (string \<times> int) list" where
  "mixed_lines community = map reported_line (filter (\<lambda>f. fd_code f = ''lvrules_mixed'') community)"

definition stale_report :: "(string \<times> int) list \<Rightarrow> finding \<Rightarrow> bool" where
  "stale_report mixed f \<longleftrightarrow> fd_code f = ''staticcheck'' \<and> fd_message f = stale_directive \<and> reported_line f \<in> set mixed"

definition mixed_directive :: "string \<Rightarrow> location \<Rightarrow> bool" where
  "mixed_directive contents at_loc =
     (let ls = split_at CHR 0x0A contents in
      if loc_line at_loc < 1 \<or> loc_line at_loc > int (length ls) then False
      else
        let line = trim_suffix (ls ! nat (loc_line at_loc - 1)) [CHR 0x0D] in
        if loc_column at_loc < 1 \<or> loc_column at_loc > int (length line) then False
        else (case ignored_codes (drop (nat (loc_column at_loc - 1)) line) of
          None \<Rightarrow> False
        | Some codes \<Rightarrow> list_ex is_community_code codes \<and> list_ex (\<lambda>c. \<not> is_community_code c) codes))"

text \<open>The core findings that stay: a report is read back only when it could be dropped.\<close>

fun merge_core :: "engine \<Rightarrow> directory \<Rightarrow> (string \<times> int) list \<Rightarrow> finding list \<Rightarrow> query list \<Rightarrow> finding list \<times> query list" where
  "merge_core eg source mixed [] q = ([], q)"
| "merge_core eg source mixed (f # fs) q =
     (if \<not> stale_report mixed f then (case merge_core eg source mixed fs q of (kept, q1) \<Rightarrow> (f # kept, q1))
      else (case bytes_of eg (FileOf source (loc_file (fd_location f))) q of
        (contents, q1) \<Rightarrow> (case merge_core eg source mixed fs q1 of
          (kept, q2) \<Rightarrow>
            (if (case contents of Inl e \<Rightarrow> False | Inr text \<Rightarrow> mixed_directive text (fd_location f)) then kept else f # kept, q2))))"

definition merge_findings :: "engine \<Rightarrow> directory \<Rightarrow> finding list \<Rightarrow> finding list \<Rightarrow> query list \<Rightarrow> finding list \<times> query list" where
  "merge_findings eg source core community q =
     (let mixed = mixed_lines community in
      case merge_core eg source mixed core q of
        (kept, q1) \<Rightarrow> (kept @ filter (\<lambda>f. \<not> stale_report mixed f) community, q1))"

section \<open>The check\<close>

text \<open>What the community step gives: findings or an error, with the warnings so far.\<close>

type_synonym community_answer = "(string + finding list) \<times> warning list"

definition community_then :: "warning list \<Rightarrow> (string, 'a) asks \<Rightarrow> ('a \<Rightarrow> query list \<Rightarrow> community_answer \<times> query list) \<Rightarrow>
    query list \<Rightarrow> community_answer \<times> query list" where
  "community_then warnings m k q = (case m q of (Inl e, q1) \<Rightarrow> ((Inl e, warnings), q1) | (Inr a, q1) \<Rightarrow> k a q1)"

definition build_module_of :: "planned_rule_module \<Rightarrow> build_module" where
  "build_module_of pm = \<lparr>bm_path = pm_path pm, bm_version = pm_version pm, bm_namespace = pm_namespace pm, bm_dir = ''''\<rparr>"

definition community_lint :: "engine \<Rightarrow> runner_json \<Rightarrow> directory \<Rightarrow> string \<Rightarrow> toolchain \<Rightarrow> planned_rule_module list \<Rightarrow>
    string list \<Rightarrow> string \<Rightarrow> query list \<Rightarrow> community_answer \<times> query list" where
  "community_lint eg js source m tools modules checks nonce =
     community_then [] (told (release_notices js modules)) (\<lambda>warnings.
     community_then warnings (build_community_linter eg js tools (map build_module_of modules) None nonce) (\<lambda>(binary, built).
     community_then (warnings @ built) (download_dependencies eg source m tools nonce) (\<lambda>deps.
     community_then (warnings @ built) (run_community_linter eg js source m tools binary deps modules checks nonce) (\<lambda>run q.
       case parse_community js run of (found, reported) \<Rightarrow> ((found, warnings @ built @ reported), q)))))"

record lint_outcome =
  lo_findings :: "finding list"
  lo_warnings :: "warning list"
  lo_error :: string

definition outcome_failing :: "lint_outcome \<Rightarrow> bool" where
  "outcome_failing o1 \<longleftrightarrow> list_ex (\<lambda>f. \<not> fd_advisory f) (lo_findings o1)"

definition with_community :: "engine \<Rightarrow> runner_json \<Rightarrow> directory \<Rightarrow> string \<Rightarrow> toolchain \<Rightarrow> planned_rule_module list \<Rightarrow>
    string list \<Rightarrow> string \<Rightarrow> finding list \<Rightarrow> (string, lint_outcome) asks" where
  "with_community eg js source m tools modules checks nonce findings q =
     (case community_lint eg js source m tools modules checks nonce q of
        ((Inl e, warnings), q1) \<Rightarrow>
          (case merge_findings eg source findings [] q1 of (merged, q2) \<Rightarrow>
            (Inr \<lparr>lo_findings = findings, lo_warnings = warnings, lo_error = ''community rules: '' @ e\<rparr>, q2))
      | ((Inr added, warnings), q1) \<Rightarrow>
          (case merge_findings eg source findings added q1 of (merged, q2) \<Rightarrow>
            (Inr \<lparr>lo_findings = merged, lo_warnings = warnings, lo_error = ''''\<rparr>, q2)))"

definition runner_go_lint :: "engine \<Rightarrow> readers \<Rightarrow> runner_json \<Rightarrow> directory \<Rightarrow> string \<Rightarrow> toolchain \<Rightarrow> string list \<Rightarrow> string \<Rightarrow> string \<Rightarrow>
    (string, lint_outcome) asks" where
  "runner_go_lint eg rd js source m tools0 checks raw nonce =
     then_ask (told (parse_rule_modules js raw)) (\<lambda>modules.
     then_ask (told (split_checks checks modules)) (\<lambda>(core, community).
     then_ask (runner_selection eg tools0 core) (\<lambda>tools.
     then_ask (runner_lint eg rd source m tools nonce) (\<lambda>findings.
       if modules = [] then told (Inr \<lparr>lo_findings = findings, lo_warnings = [], lo_error = ''''\<rparr>)
       else with_community eg js source m tools modules community nonce findings))))"

definition go_lint_function :: "engine \<Rightarrow> readers \<Rightarrow> runner_json \<Rightarrow> string + toolchain \<Rightarrow> directory \<Rightarrow> string \<Rightarrow> string \<Rightarrow>
    string list \<Rightarrow> string \<Rightarrow> (string, runner_answer) asks" where
  "go_lint_function eg rd js shipped source m nonce checks raw =
     refused (valid_module m)
       (then_ask (told shipped) (\<lambda>tools.
        then_ask (runner_go_lint eg rd js source m tools checks raw nonce) (\<lambda>o1.
          told (Inr (if lo_error o1 \<noteq> '''' \<or> outcome_failing o1 then
              RunnerFailed (if lo_error o1 \<noteq> '''' then lo_error o1 else ''Go policy lint failed'')
                (lo_findings o1) (lo_warnings o1) (lo_error o1)
            else RunnerPassed (js_outcome js (lo_findings o1) (lo_warnings o1)))))))"

end
