(* ===== verification/Runner_Mutation.thy ===== *)
theory Runner_Mutation
  imports Runner_Checks Mutation_Verdict
begin

text \<open>
  The mutation function of the runner, the rest of \<open>runner/mutation.go\<close>: its arguments, what it reads of the source,
  the containers it runs gremlins in and the repeated runs. The verdict is \<open>decide_mutation\<close>. JSON, the functions
  go/parser finds around the lines of a file and the texts of the verdict's errors are arguments.
\<close>

record mutation_io =
  mj_lines :: "string \<Rightarrow> string + changed_lines"
  mj_accepted :: "string \<Rightarrow> string + (int \<times> accepted_entry list)"
  mj_functions :: "string \<Rightarrow> string list \<Rightarrow> string list"
  mj_report :: "string \<Rightarrow> gremlins_file list option"
  mj_summary :: "mutation_summary \<Rightarrow> string"
  mj_error :: "mutation_error \<Rightarrow> string"

section \<open>Arguments\<close>

fun lines_error_text :: "lines_error \<Rightarrow> string" where
  "lines_error_text (NotSelected file) = ''go-mutation lines name '' @ go_quote file @ '', which is not a selected file''"
| "lines_error_text (BadRange first_line last_line file) = ''invalid changed-line range '' @ show_int first_line @ ''-'' @
     show_int last_line @ '' for '' @ go_quote file"

definition parse_lines :: "mutation_io \<Rightarrow> string \<Rightarrow> string list \<Rightarrow> string + changed_lines" where
  "parse_lines mj raw files =
     (if raw = '''' then Inr None
      else bind_result (wrap_error (\<lambda>e. ''invalid go-mutation lines: '' @ e) (mj_lines mj raw)) (\<lambda>ranges.
        case ranges of
          None \<Rightarrow> Inl ''go-mutation lines must be an object, or empty to count every line''
        | Some rs \<Rightarrow> (case check_lines rs files of Some e \<Rightarrow> Inl (lines_error_text e) | None \<Rightarrow> Inr (Some rs))))"

fun mutation_files_text :: "Mutation_Verdict.selection_error \<Rightarrow> string" where
  "mutation_files_text NoFiles = ''go-mutation needs at least one file; the CLI skips the check when nothing changed''"
| "mutation_files_text (InvalidFile file) = ''invalid go-mutation file '' @ go_quote file"
| "mutation_files_text NotSortedUnique = ''go-mutation files must be sorted and unique''"

fun accepted_error_text :: "accepted_error \<Rightarrow> string" where
  "accepted_error_text (NeedsVersion version) = ''accepted survivors file needs '' @ go_quote ''version'' @ '': 1, not '' @ show_int version"
| "accepted_error_text (NeedsFields n) = ''accepted survivor #'' @ show_nat n @ '' needs file, mutator, and line''"
| "accepted_error_text (NeedsReason n file mutator) = ''accepted survivor #'' @ show_nat n @ '' ('' @ file @ '', '' @ mutator @ '') needs a reason''"
| "accepted_error_text (NeedsOccurrence n file mutator) = ''accepted survivor #'' @ show_nat n @ '' ('' @ file @ '', '' @ mutator @
     '') needs an occurrence of 1 or more''"

definition accepted_entries :: "mutation_io \<Rightarrow> bool \<Rightarrow> string \<Rightarrow> string + accepted_entry list" where
  "accepted_entries mj present text =
     (if \<not> present then wrap_error accepted_error_text (parse_accepted None)
      else bind_result (wrap_error (\<lambda>e. ''accepted survivors file: '' @ e) (mj_accepted mj text)) (\<lambda>decoded_file.
        wrap_error accepted_error_text (parse_accepted (Some decoded_file))))"

section \<open>What is read of the source\<close>

fun selected_sources :: "engine \<Rightarrow> directory \<Rightarrow> string list \<Rightarrow> (string, string list gomap) asks" where
  "selected_sources eg dir [] = told (Inr [])"
| "selected_sources eg dir (file # files) =
     then_ask (on_error (\<lambda>e. ''selected file '' @ go_quote file @ '' is not in the module: '' @ engine_text e)
       (bytes_of eg (FileOf dir file))) (\<lambda>contents.
     then_ask (selected_sources eg dir files) (\<lambda>rest. told (Inr ((file, split_at CHR 0x0A contents) # rest))))"

definition mutation_index :: "mutation_io \<Rightarrow> string list gomap \<Rightarrow> source_index" where
  "mutation_index mj sources = \<lparr>si_sources = sources, si_functions = map (\<lambda>(file, ls). (file, mj_functions mj file ls)) sources\<rparr>"

definition mutation_sources :: "engine \<Rightarrow> mutation_io \<Rightarrow> directory \<Rightarrow> string \<Rightarrow> string list \<Rightarrow> string \<Rightarrow>
    (string, mutation_input \<times> string list) asks" where
  "mutation_sources eg mj source m files accepted =
     then_ask (selected_sources eg (SubDir source m) files) (\<lambda>sources.
     then_ask (plainly (regular_in eg source accepted)) (\<lambda>present.
     then_ask (if present then plainly (bytes_of eg (FileOf source accepted)) else told (Inr '''')) (\<lambda>text.
     then_ask (told (accepted_entries mj present text)) (\<lambda>entries.
     then_ask (plainly (glob_in eg (SubDir source m) ''**/*.go'')) (\<lambda>listed.
       told (Inr (\<lparr>mi_module = m, mi_files = files, mi_lines = None, mi_index = mutation_index mj sources, mi_accepted = entries,
         mi_accepted_path = accepted, mi_accepted_text = text\<rparr>,
         filter (\<lambda>file. \<not> has_suffix file ''_test.go'') listed)))))))"

section \<open>Running gremlins\<close>

definition gremlins_diff_path :: string where "gremlins_diff_path = ''/levenshtein/changed.diff''"
definition gremlins_shim_dir :: string where "gremlins_shim_dir = ''/levenshtein/git''"

definition git_shim :: "string \<Rightarrow> string \<Rightarrow> string" where
  "git_shim real_git diff_at =
     ''#!/bin/sh'' @ newline @
     ''if [ '' @ [CHR 0x22] @ ''$#'' @ [CHR 0x22] @ '' -eq 3 ] && [ '' @ [CHR 0x22] @ ''$1'' @ [CHR 0x22] @ '' = diff ] && [ '' @
     [CHR 0x22] @ ''$2'' @ [CHR 0x22] @ '' = --merge-base ] && [ '' @ [CHR 0x22] @ ''$3'' @ [CHR 0x22] @
     '' = levenshtein-changed-lines ]; then'' @ newline @
     [CHR 0x09] @ ''exec cat '' @ [CHR 0x27] @ diff_at @ [CHR 0x27] @ newline @
     ''fi'' @ newline @
     (if real_git \<noteq> '''' then ''exec '' @ [CHR 0x27] @ real_git @ [CHR 0x27] @ '' '' @ [CHR 0x22] @ ''$@'' @ [CHR 0x22] @ newline
      else ''echo '' @ [CHR 0x27] @ ''git: not found'' @ [CHR 0x27] @ '' >&2'' @ newline @ ''exit 127'' @ newline)"

definition runner_host_git :: "engine \<Rightarrow> container \<Rightarrow> (string, string) asks" where
  "runner_host_git eg c =
     then_ask (plainly (stdout_of eg (MustExec c [''sh'', ''-c'', ''command -v git || true'']))) (\<lambda>out.
       let found = trim_space out in
       told (Inr (if \<not> is_abs found \<or> contains_any found [CHR 0x27, CHR 0x0A] then '''' else found)))"

definition gremlins_base :: "toolchain \<Rightarrow> string \<Rightarrow> directory \<Rightarrow> string \<Rightarrow> string \<Rightarrow> container" where
  "gremlins_base tools scope source m nonce =
     with_nonce (SetEnv (SetEnv (EnterDir (PutDirectory (PutDirectory (PutFile (untrusted_go_container tools scope)
       ''/usr/local/bin/gremlins'' (pinned_tool_binary tools tool_gremlins)) ''/src'' source) ''/report'' EmptyDir)
       (path_join [''/src'', m])) ''NO_COLOR'' ''1'') ''GOFLAGS'' ''-count=1'') nonce"

definition with_shim :: "container \<Rightarrow> string \<Rightarrow> string \<Rightarrow> container" where
  "with_shim c real_git diff =
     SetExpanded (PutText (PutText c gremlins_diff_path diff) (path_join [gremlins_shim_dir, ''git''])
       (git_shim real_git gremlins_diff_path)) ''PATH'' (gremlins_shim_dir @ '':${PATH}'')"

definition gremlins_container :: "engine \<Rightarrow> toolchain \<Rightarrow> string \<Rightarrow> directory \<Rightarrow> string \<Rightarrow> string \<Rightarrow> string \<Rightarrow> (string, container) asks" where
  "gremlins_container eg tools scope source m diff nonce =
     (let c = gremlins_base tools scope source m nonce in
      if diff = '''' then told (Inr c)
      else then_ask (runner_host_git eg (untrusted_go_container tools scope)) (\<lambda>real_git.
        told (Inr (with_shim c real_git diff))))"

definition run_gremlins :: "engine \<Rightarrow> mutation_io \<Rightarrow> directory \<Rightarrow> string \<Rightarrow> toolchain \<Rightarrow> string \<Rightarrow> string list \<Rightarrow> string \<Rightarrow> string \<Rightarrow>
    string \<Rightarrow> int \<Rightarrow> (string, mutation_run) asks" where
  "run_gremlins eg mj source m tools scope patterns diff tags nonce coefficient =
     then_ask (gremlins_container eg tools scope source m diff nonce) (\<lambda>c.
       let command = gremlins_command coefficient tags patterns (diff \<noteq> '''') in
       then_ask (verify_module_cache eg c source m command) (\<lambda>_.
       then_ask (run_in eg c command) (\<lambda>(run, checked).
       then_ask (plainly (entries_in eg (DirIn checked ''/report''))) (\<lambda>entries.
       let seen = \<lparr>mn_exit_code = tr_exit run, mn_stdout = tr_stdout run, mn_stderr = tr_stderr run, mn_report = None,
             mn_reported = False, mn_coefficient = coefficient\<rparr> in
       if ''out.json'' \<notin> set entries then told (Inr seen)
       else then_ask (plainly (bytes_of eg (FileIn checked ''/report/out.json''))) (\<lambda>report.
         told (Inr (seen\<lparr>mn_report := mj_report mj report, mn_reported := True\<rparr>)))))))"

text \<open>The loop of \<open>mutate\<close>, with \<open>n\<close> more attempts.\<close>

fun gremlins_attempts_from :: "engine \<Rightarrow> mutation_io \<Rightarrow> directory \<Rightarrow> string \<Rightarrow> toolchain \<Rightarrow> string \<Rightarrow> string list \<Rightarrow> string \<Rightarrow> string \<Rightarrow>
    string \<Rightarrow> nat \<Rightarrow> int \<Rightarrow> (string, mutation_run) asks" where
  "gremlins_attempts_from eg mj source m tools scope patterns diff tags nonce 0 coefficient =
     run_gremlins eg mj source m tools scope patterns diff tags nonce coefficient"
| "gremlins_attempts_from eg mj source m tools scope patterns diff tags nonce (Suc n) coefficient =
     then_ask (run_gremlins eg mj source m tools scope patterns diff tags nonce coefficient) (\<lambda>run.
       case longer_coefficient run of
         None \<Rightarrow> told (Inr run)
       | Some longer \<Rightarrow> gremlins_attempts_from eg mj source m tools scope patterns diff tags nonce n longer)"

definition runner_mutate :: "engine \<Rightarrow> mutation_io \<Rightarrow> directory \<Rightarrow> string \<Rightarrow> toolchain \<Rightarrow> string \<Rightarrow> string list \<Rightarrow> changed_lines \<Rightarrow> string \<Rightarrow>
    string \<Rightarrow> string \<Rightarrow> (string, mutation_verdict) asks" where
  "runner_mutate eg mj source m tools scope files ranges accepted tags nonce =
     then_ask (mutation_sources eg mj source m files accepted) (\<lambda>(mi0, all).
       let mi = mi0\<lparr>mi_lines := ranges\<rparr>;
           patterns = map exclusion_text (exclusions all files);
           diff = (case mutated_lines mi of None \<Rightarrow> '''' | Some run_lines \<Rightarrow> changed_diff run_lines) in
       then_ask (gremlins_attempts_from eg mj source m tools scope patterns diff tags nonce (gremlins_attempts - 1)
           gremlins_timeout_coef) (\<lambda>run.
         told (wrap_error (mj_error mj) (decide_mutation run mi))))"

section \<open>The function\<close>

definition mutation_refusal :: "string \<Rightarrow> string \<Rightarrow> string list \<Rightarrow> string option" where
  "mutation_refusal m accepted files = first_of
     [valid_module m,
      fail_when (\<not> is_local accepted \<or> clean accepted \<noteq> accepted) (''invalid accepted survivors path '' @ go_quote accepted),
      map_option mutation_files_text (valid_mutation_files files)]"

definition go_mutation_function :: "engine \<Rightarrow> mutation_io \<Rightarrow> string + toolchain \<Rightarrow> directory \<Rightarrow> string \<Rightarrow> string list \<Rightarrow> string \<Rightarrow>
    string \<Rightarrow> string \<Rightarrow> string \<Rightarrow> string \<Rightarrow> (string, runner_answer) asks" where
  "go_mutation_function eg mj shipped source m files raw_lines accepted tags nonce key =
     refused (mutation_refusal m accepted files)
       (then_ask (told (parse_lines mj raw_lines files)) (\<lambda>ranges.
        if contains_any tags [CHR '' '', CHR 0x09, CHR 0x0A, CHR 0x00] then told (Inl (''invalid go-mutation tags '' @ go_quote tags))
        else then_ask (told (repository_scope key)) (\<lambda>scope.
        then_ask (told shipped) (\<lambda>tools.
        then_ask (runner_mutate eg mj source m tools scope files ranges accepted tags nonce) (\<lambda>verdict.
          told (Inr (if mv_findings verdict = [] then RunnerPassed (mj_summary mj (mv_summary verdict))
            else MutationFailed (mv_findings verdict) (mv_incomplete verdict) (mj_summary mj (mv_summary verdict)))))))))"

end
