(* ===== verification/Runner_Log.thy ===== *)
theory Runner_Log
  imports Runner_Community Runner_Mutation
begin

text \<open>
  What the statements about the runner's queries are made of: the commands a container has run, what was mounted as
  they ran, and triples over the functions of the runner. A triple says what holds of the log when a query is asked,
  and of the value and the log in the end; its rules follow the combinators the functions are written with.
\<close>

section \<open>What a container holds\<close>

text \<open>The caches mounted in a container, and the value of a variable.\<close>

fun mounts :: "container \<Rightarrow> (string \<times> string) list" where
  "mounts (Image i) = []"
| "mounts (SetEnv c n v) = mounts c"
| "mounts (SetExpanded c n v) = mounts c"
| "mounts (MountCache c p v) = mounts c @ [(p, v)]"
| "mounts (MountPrivate c p v) = mounts c @ [(p, v)]"
| "mounts (MountFile c p f) = mounts c"
| "mounts (PutDirectory c p d) = mounts c"
| "mounts (PutFile c p f) = mounts c"
| "mounts (PutText c p t) = mounts c"
| "mounts (EnterDir c p) = mounts c"
| "mounts (MustExec c args) = mounts c"
| "mounts (AnyExec c args) = mounts c"

fun variable :: "string \<Rightarrow> container \<Rightarrow> string option" where
  "variable name (Image i) = None"
| "variable name (SetEnv c n v) = (if n = name then Some v else variable name c)"
| "variable name (SetExpanded c n v) = (if n = name then Some v else variable name c)"
| "variable name (MountCache c p v) = variable name c"
| "variable name (MountPrivate c p v) = variable name c"
| "variable name (MountFile c p f) = variable name c"
| "variable name (PutDirectory c p d) = variable name c"
| "variable name (PutFile c p f) = variable name c"
| "variable name (PutText c p t) = variable name c"
| "variable name (EnterDir c p) = variable name c"
| "variable name (MustExec c args) = variable name c"
| "variable name (AnyExec c args) = variable name c"

text \<open>The commands run for a container, each with the container it ran in, and those of the files put into it.\<close>

fun runs :: "container \<Rightarrow> (string list \<times> container) list"
  and content_runs :: "content \<Rightarrow> (string list \<times> container) list"
  and directory_runs :: "directory \<Rightarrow> (string list \<times> container) list" where
  "runs (Image i) = []"
| "runs (SetEnv c n v) = runs c"
| "runs (SetExpanded c n v) = runs c"
| "runs (MountCache c p v) = runs c"
| "runs (MountPrivate c p v) = runs c"
| "runs (MountFile c p f) = runs c @ content_runs f"
| "runs (PutDirectory c p d) = runs c @ directory_runs d"
| "runs (PutFile c p f) = runs c @ content_runs f"
| "runs (PutText c p t) = runs c"
| "runs (EnterDir c p) = runs c"
| "runs (MustExec c args) = runs c @ [(args, c)]"
| "runs (AnyExec c args) = runs c @ [(args, c)]"
| "content_runs (FileIn c p) = runs c"
| "content_runs (FileOf d p) = directory_runs d"
| "content_runs (HttpFile u s) = []"
| "directory_runs (GivenDir n) = []"
| "directory_runs RunnerSource = []"
| "directory_runs (SubDir d p) = directory_runs d"
| "directory_runs (Filtered d ps) = directory_runs d"
| "directory_runs EmptyDir = []"
| "directory_runs (DirIn c p) = runs c"

text \<open>Does a container hold anything of a directory of the caller?\<close>

fun holds_given :: "container \<Rightarrow> bool"
  and given_content :: "content \<Rightarrow> bool"
  and given_directory :: "directory \<Rightarrow> bool" where
  "holds_given (Image i) = False"
| "holds_given (SetEnv c n v) = holds_given c"
| "holds_given (SetExpanded c n v) = holds_given c"
| "holds_given (MountCache c p v) = holds_given c"
| "holds_given (MountPrivate c p v) = holds_given c"
| "holds_given (MountFile c p f) = (holds_given c \<or> given_content f)"
| "holds_given (PutDirectory c p d) = (holds_given c \<or> given_directory d)"
| "holds_given (PutFile c p f) = (holds_given c \<or> given_content f)"
| "holds_given (PutText c p t) = holds_given c"
| "holds_given (EnterDir c p) = holds_given c"
| "holds_given (MustExec c args) = holds_given c"
| "holds_given (AnyExec c args) = holds_given c"
| "given_content (FileIn c p) = holds_given c"
| "given_content (FileOf d p) = given_directory d"
| "given_content (HttpFile u s) = False"
| "given_directory (GivenDir n) = True"
| "given_directory RunnerSource = False"
| "given_directory (SubDir d p) = given_directory d"
| "given_directory (Filtered d ps) = given_directory d"
| "given_directory EmptyDir = False"
| "given_directory (DirIn c p) = holds_given c"

fun query_runs :: "query \<Rightarrow> (string list \<times> container) list" where
  "query_runs (AskExitCode c) = runs c"
| "query_runs (AskStdout c) = runs c"
| "query_runs (AskStderr c) = runs c"
| "query_runs (AskPlatform c) = runs c"
| "query_runs (AskSync c) = runs c"
| "query_runs (AskContents f) = content_runs f"
| "query_runs (AskDigest f) = content_runs f"
| "query_runs (AskRegular d p) = directory_runs d"
| "query_runs (AskGlob d p) = directory_runs d"
| "query_runs (AskEntries d) = directory_runs d"

text \<open>The commands that run the repository's code, those that build a tool, and the one that runs code of rule modules.\<close>

definition code_step :: "string list \<Rightarrow> bool" where
  "code_step args \<longleftrightarrow> take 2 args \<in> {[''go'', ''test''], [gocheck_binary, ''generate''], [''gremlins'', ''unleash'']}"

definition build_step :: "string list \<Rightarrow> bool" where
  "build_step args \<longleftrightarrow> take 2 args = [''go'', ''build''] \<or> take 1 args = [''levenshtein-community-build'']"

definition rules_step :: "string list \<Rightarrow> bool" where
  "rules_step args \<longleftrightarrow> take 1 args = [''levenshtein-community-lint'']"

section \<open>Verified before\<close>

text \<open>
  Before a step, the engine said that the module is vendored or has no go.sum, or the verification that names this step
  ended with 0 in a container with the caches of the step.
\<close>

definition said :: "query list \<Rightarrow> query list \<Rightarrow> query \<Rightarrow> bool" where
  "said qlog l x \<longleftrightarrow> prefix (l @ [x]) qlog"

definition cache_verified :: "engine \<Rightarrow> directory \<Rightarrow> string \<Rightarrow> query list \<Rightarrow> container \<Rightarrow> string list \<Rightarrow> bool" where
  "cache_verified eg source m qlog c args \<longleftrightarrow>
     (\<exists>l. said qlog l (AskRegular (SubDir source m) ''vendor/modules.txt'') \<and>
        eg_regular eg l (SubDir source m) ''vendor/modules.txt'' = Inr True) \<or>
     (\<exists>l. said qlog l (AskRegular (SubDir source m) ''go.sum'') \<and> eg_regular eg l (SubDir source m) ''go.sum'' = Inr False) \<or>
     (\<exists>l v. mounts v = mounts c \<and> said qlog l (AskExitCode (AnyExec v (verify_args args))) \<and>
        eg_exit eg l (AnyExec v (verify_args args)) = Inr 0)"

lemma said_append: "said qlog l x \<Longrightarrow> said (qlog @ more_log) l x"
  by (auto simp: said_def prefix_def)

lemma said_now: "said (qlog @ [x]) qlog x"
  by (simp add: said_def)

lemma cache_verified_append: "cache_verified eg source m qlog c args \<Longrightarrow> cache_verified eg source m (qlog @ more_log) c args"
  unfolding cache_verified_def by (meson said_append)

lemma cache_verified_vendored:
  "eg_regular eg q (SubDir source m) ''vendor/modules.txt'' = Inr True \<Longrightarrow>
   cache_verified eg source m (q @ [AskRegular (SubDir source m) ''vendor/modules.txt'']) c args"
  unfolding cache_verified_def using said_now by blast

lemma cache_verified_unlocked:
  "eg_regular eg q (SubDir source m) ''go.sum'' = Inr False \<Longrightarrow>
   cache_verified eg source m (q @ [AskRegular (SubDir source m) ''go.sum'']) c args"
  unfolding cache_verified_def using said_now by blast

lemma cache_verified_passed:
  "eg_exit eg q (AnyExec v (verify_args args)) = Inr 0 \<Longrightarrow> mounts v = mounts c \<Longrightarrow>
   cache_verified eg source m (q @ [AskExitCode (AnyExec v (verify_args args))]) c args"
  unfolding cache_verified_def using said_now by blast

section \<open>Triples\<close>

definition asked :: "(query list \<Rightarrow> query \<Rightarrow> bool) \<Rightarrow> query list \<Rightarrow> query list \<Rightarrow> bool" where
  "asked P q q1 \<longleftrightarrow> prefix q q1 \<and> (\<forall>l x. prefix q l \<longrightarrow> prefix (l @ [x]) q1 \<longrightarrow> P l x)"

lemma asked_none [simp]: "asked P q q"
  by (auto simp: asked_def dest!: prefix_length_le)

lemma asked_one:
  assumes "P q x"
  shows "asked P q (q @ [x])"
proof -
  have "P l y" if l: "prefix q l" and y: "prefix (l @ [y]) (q @ [x])" for l y
  proof -
    from y have "l @ [y] = q @ [x] \<or> prefix (l @ [y]) q" by (simp only: prefix_snoc)
    moreover from l have "\<not> prefix (l @ [y]) q" by (auto dest!: prefix_length_le)
    ultimately show ?thesis using assms by simp
  qed
  then show ?thesis by (simp add: asked_def)
qed

lemma asked_trans:
  assumes "asked P q q1" and "asked P q1 q2"
  shows "asked P q q2"
proof -
  have "P l x" if l: "prefix q l" and x: "prefix (l @ [x]) q2" for l x
  proof (cases "prefix q1 l")
    case True
    with assms(2) x show ?thesis by (auto simp: asked_def)
  next
    case False
    from assms(2) have "prefix q1 q2" by (simp add: asked_def)
    with x have "prefix (l @ [x]) q1 \<or> prefix q1 (l @ [x])" by (metis prefix_same_cases)
    with False have "prefix (l @ [x]) q1" by (metis prefix_order.refl prefix_snoc)
    with assms(1) l show ?thesis by (auto simp: asked_def)
  qed
  moreover have "prefix q q2" using assms by (auto simp: asked_def)
  ultimately show ?thesis by (simp add: asked_def)
qed

definition triple :: "(query list \<Rightarrow> bool) \<Rightarrow> (query list \<Rightarrow> query \<Rightarrow> bool) \<Rightarrow> ('e, 'a) asks \<Rightarrow> ('a \<Rightarrow> query list \<Rightarrow> bool) \<Rightarrow> bool" where
  "triple I P m Q \<longleftrightarrow> (\<forall>q. I q \<longrightarrow> asked P q (snd (m q)) \<and> (\<forall>a. fst (m q) = Inr a \<longrightarrow> Q a (snd (m q))))"

named_theorems triples \<open>rules for triples\<close>

lemma triple_told: "(\<And>a q. r = Inr a \<Longrightarrow> I q \<Longrightarrow> Q a q) \<Longrightarrow> triple I P (told r) Q"
  by (auto simp: triple_def told_def)

lemma triple_then:
  assumes m: "triple I P m Q" and k: "\<And>a. triple (Q a) P (k a) R"
  shows "triple I P (then_ask m k) R"
  unfolding triple_def
proof (intro allI impI)
  fix q
  assume I: "I q"
  obtain r q1 where first: "m q = (r, q1)" by force
  with m I have one: "asked P q q1" "\<And>a. r = Inr a \<Longrightarrow> Q a q1" by (auto simp: triple_def)
  show "asked P q (snd (then_ask m k q)) \<and> (\<forall>a. fst (then_ask m k q) = Inr a \<longrightarrow> R a (snd (then_ask m k q)))"
  proof (cases r)
    case (Inl e)
    with first one show ?thesis by (simp add: then_ask_def)
  next
    case (Inr a)
    with k [of a] one(2) have "asked P q1 (snd (k a q1))" "\<And>b. fst (k a q1) = Inr b \<Longrightarrow> R b (snd (k a q1))"
      by (auto simp: triple_def)
    with first Inr one(1) show ?thesis by (auto simp: then_ask_def intro: asked_trans)
  qed
qed

lemma triple_on_error: "triple I P m Q \<Longrightarrow> triple I P (on_error f m) Q"
  by (fastforce simp: triple_def on_error_def wrap_error_def split: prod.splits sum.splits)

lemma triple_ask:
  assumes "\<And>q. I q \<Longrightarrow> P q x" and "\<And>q a. I q \<Longrightarrow> answer q = Inr a \<Longrightarrow> Q a (q @ [x])"
  shows "triple I P (ask_engine x answer) Q"
  using assms by (auto simp: triple_def ask_engine_def intro: asked_one)

lemma triple_weaken: "triple I P m Q \<Longrightarrow> (\<And>q. J q \<Longrightarrow> I q) \<Longrightarrow> (\<And>a q. Q a q \<Longrightarrow> R a q) \<Longrightarrow> triple J P m R"
  unfolding triple_def by blast

section \<open>Invariants of the log\<close>

text \<open>An invariant that grows with the log, kept by a function all of whose queries satisfy \<open>P\<close>.\<close>

definition growing :: "(query list \<Rightarrow> bool) \<Rightarrow> bool" where
  "growing J \<longleftrightarrow> (\<forall>q more_log. J q \<longrightarrow> J (q @ more_log))"

abbreviation log_keeps :: "(query list \<Rightarrow> bool) \<Rightarrow> (query list \<Rightarrow> query \<Rightarrow> bool) \<Rightarrow> ('e, 'a) asks \<Rightarrow> bool" where
  "log_keeps J P m \<equiv> triple J P m (\<lambda>a. J)"

lemma keeps_told [triples]: "log_keeps J P (told r)"
  by (rule triple_told)

lemma keeps_then [triples]: "log_keeps J P m \<Longrightarrow> (\<And>a. log_keeps J P (k a)) \<Longrightarrow> log_keeps J P (then_ask m k)"
  by (rule triple_then)

lemma keeps_on_error [triples]: "log_keeps J P m \<Longrightarrow> log_keeps J P (on_error f m)"
  by (rule triple_on_error)

lemma keeps_ask: "growing J \<Longrightarrow> (\<And>q. J q \<Longrightarrow> P q x) \<Longrightarrow> log_keeps J P (ask_engine x answer)"
  by (rule triple_ask) (auto simp: growing_def)

lemma keeps_if [triples]: "(b \<Longrightarrow> log_keeps J P m) \<Longrightarrow> (\<not> b \<Longrightarrow> log_keeps J P n) \<Longrightarrow> log_keeps J P (if b then m else n)"
  by simp

lemma keeps_prod [triples]: "(\<And>a b. p = (a, b) \<Longrightarrow> log_keeps J P (k a b)) \<Longrightarrow> log_keeps J P (case p of (a, b) \<Rightarrow> k a b)"
  by (cases p) simp

lemma keeps_refused [triples]: "log_keeps J P m \<Longrightarrow> log_keeps J P (refused e m)"
  by (cases e) (simp_all add: refused_def keeps_told)

lemmas query_defs = exit_code_of_def stdout_of_def stderr_of_def platform_of_def sync_of_def bytes_of_def digest_of_def
  regular_in_def glob_in_def entries_in_def

end
