(* ===== verification/Runner_Isolation.thy ===== *)
theory Runner_Isolation
  imports Runner_Log
begin

text \<open>
  What the containers of the runner mount as they run a command, proved of every query of every function: the
  repository's code runs with the caches of its own scope, after the module cache was verified for that step; a tool
  is built with the tool caches, from nothing of the caller; the code of rule modules runs with no Go cache and no
  proxy; and a run that must be fresh carries its nonce. \<open>untrusted_step\<close> is what the three steps that run the
  repository's code share.
\<close>

section \<open>Runs\<close>

definition well_built :: "toolchain \<Rightarrow> string list \<times> container \<Rightarrow> bool" where
  "well_built tools step = (case step of (args, c) \<Rightarrow>
     (build_step args \<longrightarrow> mounts c = tool_caches tools \<and> \<not> holds_given c) \<and>
     (rules_step args \<longrightarrow> list_all (\<lambda>v. prefix ''levenshtein-community-staticcheck-'' (snd v)) (mounts c) \<and>
        variable ''GOPROXY'' c = Some ''off''))"

definition quiet_step :: "toolchain \<Rightarrow> string list \<times> container \<Rightarrow> bool" where
  "quiet_step tools step \<longleftrightarrow> \<not> code_step (fst step) \<and> well_built tools step"

definition well_run :: "engine \<Rightarrow> toolchain \<Rightarrow> string \<Rightarrow> directory \<Rightarrow> string \<Rightarrow> query list \<Rightarrow> string list \<times> container \<Rightarrow> bool" where
  "well_run eg tools scope source m seen step \<longleftrightarrow> well_built tools step \<and> (case step of (args, c) \<Rightarrow>
     code_step args \<longrightarrow> mounts c = untrusted_caches tools scope \<and> cache_verified eg source m seen c args)"

definition carries :: "string \<Rightarrow> container \<Rightarrow> bool" where
  "carries nonce c \<longleftrightarrow> (nonce \<noteq> '''' \<longrightarrow> variable nonce_variable c = Some nonce)"

fun fresh_query :: "string \<Rightarrow> query \<Rightarrow> bool" where
  "fresh_query nonce (AskExitCode c) = carries nonce c"
| "fresh_query nonce x = True"

definition well_asked :: "engine \<Rightarrow> toolchain \<Rightarrow> string \<Rightarrow> directory \<Rightarrow> string \<Rightarrow> string \<Rightarrow> query list \<Rightarrow> query \<Rightarrow> bool" where
  "well_asked eg tools scope source m nonce seen x \<longleftrightarrow>
     list_all (well_run eg tools scope source m seen) (query_runs x) \<and> fresh_query nonce x"

abbreviation quiet_runs :: "toolchain \<Rightarrow> (string list \<times> container) list \<Rightarrow> bool" where
  "quiet_runs tools steps \<equiv> list_all (quiet_step tools) steps"

lemma quiet_well_run: "quiet_step tools step \<Longrightarrow> well_run eg tools scope source m seen step"
  by (cases step) (simp add: quiet_step_def well_run_def)

lemma quiet_well_asked:
  "quiet_runs tools (query_runs x) \<Longrightarrow> fresh_query nonce x \<Longrightarrow> well_asked eg tools scope source m nonce seen x"
  by (auto simp: well_asked_def list_all_iff intro: quiet_well_run)

lemma quiet_other: "\<not> code_step args \<Longrightarrow> \<not> build_step args \<Longrightarrow> \<not> rules_step args \<Longrightarrow> quiet_step tools (args, c)"
  by (simp add: quiet_step_def well_built_def)

lemma quiet_build: "\<not> code_step args \<Longrightarrow> \<not> rules_step args \<Longrightarrow> mounts c = tool_caches tools \<Longrightarrow> \<not> holds_given c \<Longrightarrow>
    quiet_step tools (args, c)"
  by (simp add: quiet_step_def well_built_def)

lemma code_step_only: "code_step args \<Longrightarrow> \<not> build_step args \<and> \<not> rules_step args"
  by (cases args; cases "tl args") (auto simp: code_step_def build_step_def rules_step_def)

lemmas step_defs = code_step_def build_step_def rules_step_def

section \<open>The containers\<close>

named_theorems containers \<open>what is mounted, run and held in the containers of the runner\<close>

lemma with_nonce_simps [containers]:
  "mounts (with_nonce c nonce) = mounts c" "runs (with_nonce c nonce) = runs c" "holds_given (with_nonce c nonce) = holds_given c"
  "variable ''GOPROXY'' (with_nonce c nonce) = variable ''GOPROXY'' c" "carries nonce (with_nonce c nonce)"
  by (simp_all add: with_nonce_def carries_def)

lemma at_module_simps [containers]:
  "mounts (at_module c source m) = mounts c" "runs (at_module c source m) = runs c @ directory_runs source"
  "variable name (at_module c source m) = variable name c"
  by (simp_all add: at_module_def)

lemma go_container_simps [containers]:
  "mounts (go_container tools) = tool_caches tools" "runs (go_container tools) = []" "\<not> holds_given (go_container tools)"
  "mounts (untrusted_go_container tools scope) = untrusted_caches tools scope" "runs (untrusted_go_container tools scope) = []"
  by (simp_all add: go_container_def untrusted_go_container_def go_container_with_def tool_caches_def untrusted_caches_def go_caches_def)

lemma with_tool_simps [containers]:
  "mounts (with_tool c tool out) = mounts c" "holds_given (with_tool c tool out) = holds_given c"
  "mounts c = tool_caches tools \<Longrightarrow> \<not> holds_given c \<Longrightarrow> quiet_runs tools (runs (with_tool c tool out)) = quiet_runs tools (runs c)"
  by (auto simp: with_tool_def Let_def step_defs intro: quiet_build)

lemma linter_container_simps [containers]:
  "mounts (linter_container tools) = tool_caches tools" "\<not> holds_given (linter_container tools)"
  "quiet_runs tools (runs (linter_container tools))"
  by (auto simp: linter_container_def containers step_defs intro: quiet_build)

lemma gocheck_container_simps [containers]:
  "mounts (gocheck_container tools) = tool_caches tools" "\<not> holds_given (gocheck_container tools)"
  "quiet_runs tools (runs (gocheck_container tools))"
  by (auto simp: gocheck_container_def containers step_defs intro: quiet_build)

lemma apidiff_container_simps [containers]: "quiet_runs tools (runs (apidiff_container tools))"
  by (simp add: apidiff_container_def containers)

lemma pinned_tool_binary_simps [containers]: "quiet_runs tools (content_runs (pinned_tool_binary tools tool))"
  by (simp add: pinned_tool_binary_def Let_def containers)

lemma toolchain_checks [containers]: "linter_container (tools\<lparr>tc_checks := checks\<rparr>) = linter_container tools"
  by (simp add: linter_container_def go_container_def go_container_with_def tool_caches_def)

section \<open>Running a tool\<close>

lemma keeps_quiet [triples]:
  "growing J \<Longrightarrow> quiet_runs tools (query_runs x) \<Longrightarrow> fresh_query nonce x \<Longrightarrow>
   log_keeps J (well_asked eg tools scope source m nonce) (ask_engine x answer)"
  by (rule keeps_ask) (auto intro: quiet_well_asked)

lemma keeps_run_in:
  assumes "growing J" and "quiet_runs tools (runs c)" and "carries nonce c"
    and step: "\<And>q. J q \<Longrightarrow> well_run eg tools scope source m q (args, c)"
  shows "log_keeps J (well_asked eg tools scope source m nonce) (run_in eg c args)"
proof -
  have P: "well_asked eg tools scope source m nonce q x"
    if "x \<in> {AskExitCode (AnyExec c args), AskStdout (AnyExec c args), AskStderr (AnyExec c args)}" and "J q" for x q
    using that assms by (auto simp: well_asked_def carries_def list_all_iff intro: quiet_well_run)
  show ?thesis
    unfolding run_in_def Let_def query_defs
    by (intro keeps_then keeps_on_error keeps_told keeps_ask [OF assms(1)] P) auto
qed

lemma keeps_quiet_run [triples]:
  "growing J \<Longrightarrow> quiet_runs tools (runs c) \<Longrightarrow> carries nonce c \<Longrightarrow> quiet_step tools (args, c) \<Longrightarrow>
   log_keeps J (well_asked eg tools scope source m nonce) (run_in eg c args)"
  by (rule keeps_run_in) (auto intro: quiet_well_run)

lemma growing_True [simp, intro]: "growing (\<lambda>q. True)"
  by (simp add: growing_def)

lemma growing_verified [simp, intro]: "growing (\<lambda>q. b \<longrightarrow> cache_verified eg source m q c args)"
  "growing (\<lambda>q. cache_verified eg source m q c args)"
  by (auto simp: growing_def intro: cache_verified_append)

section \<open>The steps that run the repository's code\<close>

locale untrusted_step =
  fixes tools :: toolchain and scope nonce :: string and args :: "string list" and c code_c :: container
  assumes code: "code_step args"
    and caches: "mounts c = untrusted_caches tools scope" "mounts code_c = untrusted_caches tools scope"
    and quiet_before: "quiet_runs tools (runs c)" "quiet_runs tools (runs code_c)"
    and fresh: "carries nonce c" "carries nonce code_c"
begin

lemma verified_run:
  assumes "\<And>q. J q \<Longrightarrow> cache_verified eg source m q code_c args" and "growing J"
  shows "log_keeps J (well_asked eg tools scope source m nonce) (run_in eg code_c args)"
  using assms code_step_only [OF code]
  by (intro keeps_run_in) (auto simp: quiet_before fresh caches well_run_def well_built_def)

lemma after_code:
  assumes "cache_verified eg source m q code_c args"
  shows "list_all (well_run eg tools scope source m q) (runs (AnyExec code_c args))"
  using assms code_step_only [OF code] quiet_before
  by (auto simp: caches well_run_def well_built_def list_all_iff quiet_step_def split: prod.splits)

text \<open>\<open>verify_module_cache\<close> lets the function go on only when the step is verified.\<close>

lemma verify_triple:
  assumes source: "directory_runs source = []"
  shows "triple (\<lambda>q. True) (well_asked eg tools scope source m nonce) (verify_module_cache eg c source m args)
    (\<lambda>a q. cache_verified eg source m q code_c args)"
proof -
  let ?P = "well_asked eg tools scope source m nonce" and ?dir = "SubDir source m"
  let ?v = "EnterDir c (path_join [''/src'', m])"
  let ?ok = "\<lambda>q. cache_verified eg source m q code_c args"
  have P: "?P q (AskRegular ?dir f)" for q f
    by (rule quiet_well_asked) (simp_all add: source)
  have vendored: "triple (\<lambda>q. True) ?P (plainly (regular_in eg ?dir ''vendor/modules.txt'')) (\<lambda>v q. v \<longrightarrow> ?ok q)"
    unfolding regular_in_def
    by (intro triple_on_error triple_ask P) (auto intro: cache_verified_vendored)
  have locked: "triple (\<lambda>q. v \<longrightarrow> ?ok q) ?P (plainly (regular_in eg ?dir ''go.sum'')) (\<lambda>l q. v \<or> \<not> l \<longrightarrow> ?ok q)" for v
    unfolding regular_in_def
    by (intro triple_on_error triple_ask P) (auto intro: cache_verified_unlocked cache_verified_append)
  have quiet_v: "quiet_step tools (verify_args args, ?v)"
    by (rule quiet_other) (simp_all add: verify_args_def step_defs)
  have Q: "?P q x" if "x \<in> {AskExitCode (AnyExec ?v (verify_args args)), AskStdout (AnyExec ?v (verify_args args)),
      AskStderr (AnyExec ?v (verify_args args))}" for q x
    using that quiet_v quiet_before fresh by (intro quiet_well_asked) (auto simp: carries_def)
  have code_asked: "triple (\<lambda>q. True) ?P (plainly (exit_code_of eg (AnyExec ?v (verify_args args)))) (\<lambda>n q. n = 0 \<longrightarrow> ?ok q)"
    unfolding exit_code_of_def
    by (intro triple_on_error triple_ask Q) (auto simp: caches intro!: cache_verified_passed)
  have ran: "triple (\<lambda>q. True) ?P (run_in eg ?v (verify_args args)) (\<lambda>(run, checked) q. tr_exit run = 0 \<longrightarrow> ?ok q)"
    unfolding run_in_def Let_def
    by (rule triple_then [OF code_asked], (rule triple_then, (unfold query_defs)[1], rule keeps_on_error,
        rule keeps_ask [OF growing_verified(1)], rule Q, simp)+) (auto intro: triple_told)
  show ?thesis
    unfolding verify_module_cache_def Let_def
  proof (rule triple_then [OF vendored], rule triple_then [OF locked])
    fix v l
    show "triple (\<lambda>q. v \<or> \<not> l \<longrightarrow> ?ok q) ?P
        (if v \<or> \<not> l then told (Inr ()) else then_ask (run_in eg ?v (verify_args args))
          (\<lambda>(run, checked). told (case module_cache_error m run of Some e \<Rightarrow> Inl e | None \<Rightarrow> Inr ())))
        (\<lambda>a. ?ok)"
    proof (cases "v \<or> \<not> l")
      case True
      then show ?thesis by (auto intro: triple_told)
    next
      case False
      have "triple (\<lambda>q. True) ?P (then_ask (run_in eg ?v (verify_args args))
          (\<lambda>(run, checked). told (case module_cache_error m run of Some e \<Rightarrow> Inl e | None \<Rightarrow> Inr ()))) (\<lambda>a. ?ok)"
        by (rule triple_then [OF ran])
          (auto intro!: triple_told simp: module_cache_error_def Let_def split: if_splits)
      with False show ?thesis by simp
    qed
  qed
qed

end

lemma code_step_examples [simp]:
  "code_step (test_args b)" "code_step (gocheck_binary # ''generate'' # rest)" "code_step (gremlins_command n tags ps b)"
  by (simp_all add: code_step_def test_args_def gremlins_command_def numeral_2_eq_2)

interpretation test_step: untrusted_step tools scope nonce "test_args fresh" "test_container tools scope (GivenDir s) m nonce"
    "test_container tools scope (GivenDir s) m nonce"
  for tools scope nonce fresh s m
  by unfold_locales (simp_all add: test_container_def containers)

interpretation generate_step: untrusted_step tools scope nonce "gocheck_binary # ''generate'' # rest"
    "generate_container tools scope (GivenDir s) nonce" "with_nonce (generate_container tools scope (GivenDir s) nonce) nonce"
  for tools scope nonce rest s
  by unfold_locales (simp_all add: generate_container_def containers)

definition gremlins_in :: "container \<Rightarrow> toolchain \<Rightarrow> string \<Rightarrow> string \<Rightarrow> string \<Rightarrow> string \<Rightarrow> bool" where
  "gremlins_in c tools scope s m nonce \<longleftrightarrow>
     (let base = gremlins_base tools scope (GivenDir s) m nonce in c = base \<or> (\<exists>real_git diff. c = with_shim base real_git diff))"

lemma gremlins_step:
  assumes "gremlins_in c tools scope s m nonce"
  shows "untrusted_step tools scope nonce (gremlins_command n tags ps b) c c"
proof -
  have base: "carries nonce (gremlins_base tools scope (GivenDir s) m nonce)"
    by (simp add: gremlins_base_def containers)
  then have shim: "carries nonce (with_shim (gremlins_base tools scope (GivenDir s) m nonce) real_git diff)" for real_git diff
    by (simp add: with_shim_def carries_def)
  show ?thesis
    using assms base shim
    by unfold_locales (auto simp: gremlins_in_def Let_def gremlins_base_def with_shim_def containers)
qed

section \<open>Every function\<close>

abbreviation well :: "engine \<Rightarrow> toolchain \<Rightarrow> string \<Rightarrow> string \<Rightarrow> string \<Rightarrow> string \<Rightarrow> query list \<Rightarrow> query \<Rightarrow> bool" where
  "well eg tools scope s m nonce \<equiv> well_asked eg tools scope (GivenDir s) m nonce"

abbreviation always :: "query list \<Rightarrow> bool" where "always \<equiv> (\<lambda>q. True)"

lemma triple_pure: "(B \<Longrightarrow> triple J P m Q) \<Longrightarrow> triple (\<lambda>q. J q \<and> B) P m Q"
  by (auto simp: triple_def)

lemma keeps_judged [triples]: "log_keeps J P (runner_judged eg r)"
  by (simp add: runner_judged_def keeps_told)

lemma keeps_go_mod [triples]: "growing J \<Longrightarrow> log_keeps J (well eg tools scope s m nonce) (go_mod_readable eg (GivenDir s') m')"
  unfolding go_mod_readable_def query_defs by (intro triples) auto

lemma keeps_packages [triples]:
  assumes "growing J" and "quiet_runs tools (runs c)"
  shows "log_keeps J (well eg tools scope s m nonce) (packages_found eg c m')"
proof -
  have run: "quiet_step tools ([''go'', ''list'', ''./...''], c)" by (rule quiet_other) (simp_all add: step_defs)
  have "log_keeps J (well eg tools scope s m nonce) (stdout_of eg (MustExec c [''go'', ''list'', ''./...'']))"
    unfolding stdout_of_def by (rule keeps_quiet) (use assms run in auto)
  then show ?thesis
    by (auto simp: triple_def packages_found_def split: prod.splits sum.splits)
qed

lemma keeps_glob [triples]: "growing J \<Longrightarrow> log_keeps J (well eg tools scope s m nonce) (glob_all eg (GivenDir s') ps)"
  by (induction ps) (auto simp: query_defs intro!: triples)

lemma keeps_release_then:
  assumes "growing J" and "\<And>c. quiet_runs tools (runs c) \<Longrightarrow> log_keeps J (well eg tools scope s m nonce) (k c)"
  shows "log_keeps J (well eg tools scope s m nonce) (then_ask (with_release eg (Image i) pin tool dest) k)"
proof -
  let ?P = "well eg tools scope s m nonce"
  have "triple J ?P (with_release eg (Image i) pin tool dest) (\<lambda>c q. J q \<and> quiet_runs tools (runs c))"
    unfolding with_release_def query_defs
  proof (rule triple_then)
    show "log_keeps J ?P (plainly (ask_engine (AskPlatform (Image i)) (\<lambda>q. eg_platform eg q (Image i))))"
      using assms(1) by (intro triples) auto
  next
    fix platform
    show "triple J ?P (then_ask (told (wrap_error release_error_text (release_asset_for pin tool platform))) (\<lambda>asset.
        let fetched = HttpFile (asset_url pin asset '''') (''sha256:'' @ ra_sha256 asset) in
        told (Inr (if pin_binary pin = '''' then PutFile (Image i) dest fetched
          else let archive = ''/tmp/'' @ ra_name asset; extracted = ''/tmp/'' @ tool @ ''-release'';
               strip = show_nat (count_char slash (pin_binary pin)) in
             MustExec (MustExec (MustExec (MountFile (Image i) archive fetched)
             [''mkdir'', ''-p'', extracted])
             [''tar'', ''-xzf'', archive, ''-C'', extracted, ''--strip-components='' @ strip, pin_binary pin])
             [''install'', ''-m'', ''0755'', path_join [extracted, base_name (pin_binary pin)], dest]))))
        (\<lambda>c q. J q \<and> quiet_runs tools (runs c))"
      by (rule triple_then [OF keeps_told]) (auto intro!: triple_told quiet_other simp: Let_def step_defs)
  qed
  then show ?thesis by (rule triple_then) (auto intro: triple_pure assms(2))
qed

lemma triple_to_keeps: "triple J P m Q \<Longrightarrow> (\<And>a q. Q a q \<Longrightarrow> J q) \<Longrightarrow> log_keeps J P m"
  by (auto simp: triple_def)

definition same_tools :: "toolchain \<Rightarrow> toolchain \<Rightarrow> bool" where
  "same_tools t tools \<longleftrightarrow> t = tools\<lparr>tc_checks := tc_checks t\<rparr>"

lemma same_tools_linter [containers]: "same_tools t tools \<Longrightarrow> linter_container t = linter_container tools"
  unfolding same_tools_def by (metis toolchain_checks)

lemma same_tools_simps [simp]: "same_tools tools tools" "same_tools (tools\<lparr>tc_checks := checks\<rparr>) tools"
  by (simp_all add: same_tools_def)

lemma quiet_named: "args \<noteq> [] \<Longrightarrow> hd args \<notin> {''go'', gocheck_binary, ''gremlins'', ''levenshtein-community-build'',
    ''levenshtein-community-lint''} \<Longrightarrow> quiet_step tools (args, c)"
  by (cases args) (auto simp: step_defs intro!: quiet_other)

lemma lint_cache_simps [containers]: "runs (lint_cache tools c nonce) = runs c" "carries nonce (lint_cache tools c nonce)"
  by (simp_all add: lint_cache_def carries_def)

lemma keeps_lint [triples]:
  assumes "same_tools t tools"
  shows "log_keeps always (well eg tools scope s m nonce) (runner_lint eg rd (GivenDir s) m t nonce)"
proof -
  have list: "quiet_step tools ([''go'', ''list'', ''./...''], c)" for c by (rule quiet_other) (simp_all add: step_defs)
  have lint: "quiet_step tools (''/go/bin/levenshtein-lint'' # rest, c)" for rest c by (rule quiet_named) simp_all
  show ?thesis
    unfolding runner_lint_def Let_def stdout_of_def
    using assms list lint by (intro triples) (simp_all add: containers)
qed

lemma keeps_selection_then:
  assumes "\<And>t. same_tools t tools \<Longrightarrow> log_keeps always (well eg tools scope s m nonce) (k t)"
  shows "log_keeps always (well eg tools scope s m nonce) (then_ask (runner_selection eg tools added) k)"
proof -
  let ?P = "well eg tools scope s m nonce"
  have run: "quiet_step tools (''/go/bin/levenshtein-lint'' # rest, c)" for rest c by (rule quiet_named) simp_all
  have list: "log_keeps always ?P (on_error f (stdout_of eg (MustExec (linter_container tools) [''/go/bin/levenshtein-lint'', ''-list-checks''])))" for f
    unfolding stdout_of_def using run by (intro triples) (simp_all add: containers)
  have "triple always ?P (runner_selection eg tools added) (\<lambda>t q. True \<and> same_tools t tools)"
  proof (cases "added = []")
    case True
    then show ?thesis by (auto simp: runner_selection_def intro!: triple_told)
  next
    case False
    show ?thesis
      unfolding runner_selection_def if_not_P [OF False]
      by (rule triple_then [OF keeps_told triple_then [OF list]])
        (auto intro!: triple_told split: option.splits)
  qed
  then show ?thesis by (rule triple_then) (rule triple_pure, rule assms)
qed

lemma keeps_mod_steps [triples]:
  assumes "quiet_runs tools (runs c)" and "carries nonce c"
  shows "log_keeps always (well eg tools scope s m nonce) (runner_mod_steps eg c m' steps found)"
proof (induction steps arbitrary: found)
  case Nil
  then show ?case by (simp add: keeps_told)
next
  case (Cons step steps)
  have "quiet_step tools (mod_args step, c)" by (rule quiet_other; cases step) (simp_all add: mod_args_def step_defs)
  with assms Cons show ?case by (auto intro!: triples)
qed

lemma keeps_runner_go_mod [triples]:
  "log_keeps always (well eg tools scope s m nonce) (runner_go_mod eg (GivenDir s) m tools nonce)"
  unfolding runner_go_mod_def by (intro triples) (simp_all add: containers)

lemma keeps_go_test [triples]:
  "log_keeps always (well eg tools scope s m nonce) (runner_go_test eg rd (GivenDir s) m tools scope nonce)"
proof -
  let ?P = "well eg tools scope s m nonce" and ?c = "test_container tools scope (GivenDir s) m nonce"
  let ?args = "test_args (nonce \<noteq> '''')"
  have after: "log_keeps (\<lambda>q. cache_verified eg (GivenDir s) m q ?c ?args) ?P
      (then_ask (packages_found eg ?c m) (\<lambda>_. then_ask (run_in eg ?c ?args) (\<lambda>(run, checked).
        runner_judged eg (test_findings (rd_events rd) m run))))"
    by (intro triples test_step.verified_run) (simp_all add: test_step.quiet_before)
  show ?thesis
    unfolding runner_go_test_def Let_def
    by (rule keeps_then, rule keeps_go_mod, simp, rule triple_then, rule test_step.verify_triple, simp, rule triple_weaken [OF after])
      simp_all
qed

lemma keeps_workflow_security [triples]:
  "log_keeps always (well eg tools scope s m nonce) (runner_workflow_security eg (GivenDir s) m' tools nonce)"
proof -
  have run: "quiet_step tools (zizmor_arguments ''/usr/local/bin/zizmor'' config inputs, c)" for config inputs c
    by (rule quiet_named) (simp_all add: zizmor_arguments_def)
  show ?thesis
    unfolding runner_workflow_security_def runner_zizmor_inputs_def query_defs
    using run by (intro triples keeps_release_then) (simp_all add: containers)
qed

lemma keeps_shell_lint [triples]:
  "log_keeps always (well eg tools scope s m nonce) (runner_shell_lint eg rd (GivenDir s) tools nonce)"
proof -
  have listing: "quiet_step tools (shell_listing, c)" for c by (rule quiet_named) (simp_all add: shell_listing_def)
  have run: "quiet_step tools (shellcheck_arguments ''/usr/local/bin/shellcheck'' config scripts, c)" for config scripts c
    by (rule quiet_named) (simp_all add: shellcheck_arguments_def)
  show ?thesis
    unfolding runner_shell_lint_def Let_def query_defs
    using listing run by (intro triples keeps_release_then) (simp_all add: containers)
qed

lemma keeps_scan_report [triples]:
  "quiet_runs tools (runs checked) \<Longrightarrow>
   log_keeps always (well eg tools scope s m nonce) (scan_report eg tool run code checked path)"
  unfolding scan_report_def query_defs by (intro triples) simp_all

text \<open>A run that is followed by the use of its container.\<close>

lemma keeps_run_then:
  assumes "quiet_runs tools (runs c)" "carries nonce c" "quiet_step tools (args, c)"
    and "\<And>run. log_keeps always (well eg tools scope s m nonce) (k (run, AnyExec c args))"
  shows "log_keeps always (well eg tools scope s m nonce) (then_ask (run_in eg c args) k)"
proof -
  have "triple always (well eg tools scope s m nonce) (run_in eg c args) (\<lambda>p q. True \<and> snd p = AnyExec c args)"
  proof -
    have "log_keeps always (well eg tools scope s m nonce) (run_in eg c args)" by (intro triples growing_True assms)
    moreover have "snd p = AnyExec c args" if "fst (run_in eg c args q) = Inr p" for p q
      using that by (auto simp: run_in_def Let_def then_ask_def told_def split: prod.splits sum.splits)
    ultimately show ?thesis by (auto simp: triple_def)
  qed
  then show ?thesis by (rule triple_then) (rule triple_pure, metis prod.collapse assms(4))
qed

lemma keeps_deps_vuln [triples]:
  "log_keeps always (well eg tools scope s m nonce) (runner_deps_vuln eg rd (GivenDir s) tools nonce)"
proof -
  have run: "quiet_step tools (deps_arguments ''/usr/local/bin/osv-scanner'' b path tree, c)" for b path tree c
    by (rule quiet_named) (simp_all add: deps_arguments_def)
  have nonce: "carries nonce (SetEnv c nonce_variable nonce)" for c by (simp add: carries_def)
  show ?thesis
    unfolding runner_deps_vuln_def Let_def query_defs
    using run nonce by (intro triples keeps_release_then keeps_run_then) (simp_all add: containers)
qed

lemma keeps_secrets [triples]:
  "log_keeps always (well eg tools scope s m nonce) (runner_secrets eg rd (GivenDir s) tools nonce)"
proof -
  have run: "quiet_step tools (secrets_arguments ''/usr/local/bin/gitleaks'' b path, c)" for b path c
    by (rule quiet_named) (simp_all add: secrets_arguments_def)
  show ?thesis
    unfolding runner_secrets_def Let_def query_defs
    using run by (intro triples keeps_run_then) (simp_all add: containers)
qed

lemma workflow_command_then:
  assumes "\<And>rest. log_keeps always (well eg tools scope s m nonce) (k (''/usr/local/bin/check'' # rest))"
  shows "log_keeps always (well eg tools scope s m nonce) (then_ask (runner_workflow_command eg (GivenDir s')) k)"
proof -
  have "log_keeps always (well eg tools scope s m nonce) (runner_workflow_command eg (GivenDir s'))"
    unfolding runner_workflow_command_def query_defs by (intro triples) simp_all
  moreover have "\<exists>rest. command = ''/usr/local/bin/check'' # rest"
    if "fst (runner_workflow_command eg (GivenDir s') q) = Inr command" for command q
    using that by (auto simp: runner_workflow_command_def then_ask_def told_def split: prod.splits sum.splits if_splits)
  ultimately have "triple always (well eg tools scope s m nonce) (runner_workflow_command eg (GivenDir s'))
      (\<lambda>command q. True \<and> (\<exists>rest. command = ''/usr/local/bin/check'' # rest))"
    by (auto simp: triple_def)
  then show ?thesis by (rule triple_then) (rule triple_pure, use assms in blast)
qed

lemma keeps_workflow_check [triples]:
  "log_keeps always (well eg tools scope s m nonce) (workflow_check eg (GivenDir s) m tools nonce)"
proof -
  have run: "quiet_step tools (''/usr/local/bin/check'' # rest, c)" for rest c by (rule quiet_named) simp_all
  show ?thesis
    unfolding workflow_check_def
    using run by (intro workflow_command_then triples) (simp_all add: containers)
qed

lemma keeps_module_check [triples]:
  assumes "quiet_runs tools (runs base)" and "\<And>c. quiet_step tools (command, c)"
  shows "log_keeps always (well eg tools scope s m nonce) (module_check eg kind base command (GivenDir s) m nonce)"
  unfolding module_check_def module_preflight_def Let_def
  using assms by (intro triples) (simp_all add: containers)

lemma keeps_shared [triples]:
  "log_keeps always (well eg tools scope s m nonce) (run_shared_check eg rd (GivenDir s) m tools check scope nonce)"
proof -
  have vet: "quiet_step tools ([''go'', ''vet'', ''./...''], c)" for c by (rule quiet_other) (simp_all add: step_defs)
  have vuln: "quiet_step tools ([''/usr/local/bin/check'', ''./...''], c)" for c by (rule quiet_named) simp_all
  show ?thesis
    unfolding run_shared_check_def
    using vet vuln by (intro triples) (simp_all add: containers)
qed

lemma keeps_gocheck [triples]:
  assumes "quiet_runs tools (runs c)" and "\<And>c. quiet_step tools (gocheck_binary # args, c)"
  shows "log_keeps always (well eg tools scope s m nonce) (run_gocheck eg rd c kind args nonce)"
  unfolding run_gocheck_def using assms by (intro triples) (simp_all add: containers)

lemma quiet_gocheck: "arg \<noteq> ''generate'' \<Longrightarrow> quiet_step tools (gocheck_binary # arg # rest, c)"
  by (rule quiet_other) (simp_all add: step_defs numeral_2_eq_2)

lemma keeps_go_imports [triples]:
  "log_keeps always (well eg tools scope s m nonce) (runner_go_imports eg rd (GivenDir s) m rules tools nonce)"
  unfolding runner_go_imports_def
  by (intro triples quiet_gocheck) (simp_all add: containers)

lemma keeps_go_apidiff [triples]:
  "log_keeps always (well eg tools scope s m nonce) (runner_go_apidiff eg rd (GivenDir s) (GivenDir b) m gowork tools nonce)"
  unfolding runner_go_apidiff_def
  by (intro triples quiet_gocheck) (simp_all add: containers)

lemma keeps_go_generate [triples]:
  "log_keeps always (well eg tools scope s m nonce) (runner_go_generate eg rd (GivenDir s) m tools scope nonce)"
proof -
  let ?P = "well eg tools scope s m nonce" and ?c = "generate_container tools scope (GivenDir s) nonce"
  let ?rest = "[''-root=/src'', ''-module='' @ m]"
  have after: "log_keeps (\<lambda>q. cache_verified eg (GivenDir s) m q (with_nonce ?c nonce) (gocheck_binary # ''generate'' # ?rest)) ?P
      (run_gocheck eg rd ?c KindGoGenerate (''generate'' # ?rest) nonce)"
    unfolding run_gocheck_def by (intro triples generate_step.verified_run) simp_all
  show ?thesis
    unfolding runner_go_generate_def Let_def
    by (rule keeps_then, rule keeps_go_mod, simp, rule triple_then, rule generate_step.verify_triple, simp, rule triple_weaken [OF after])
      simp_all
qed

section \<open>Mutation\<close>

lemma run_in_container: "fst (run_in eg c args q) = Inr p \<Longrightarrow> snd p = AnyExec c args"
  by (auto simp: run_in_def Let_def then_ask_def told_def split: prod.splits sum.splits)

lemma run_in_then:
  assumes "log_keeps J P (run_in eg c args)" and "\<And>run. log_keeps J P (k (run, AnyExec c args))"
  shows "log_keeps J P (then_ask (run_in eg c args) k)"
proof -
  from assms(1) have "triple J P (run_in eg c args) (\<lambda>p q. J q \<and> snd p = AnyExec c args)"
    by (auto simp: triple_def dest: run_in_container)
  then show ?thesis by (rule triple_then) (rule triple_pure, metis prod.collapse assms(2))
qed

lemma gremlins_container_then:
  assumes "\<And>c. gremlins_in c tools scope s m nonce \<Longrightarrow> log_keeps always (well eg tools scope s m nonce) (k c)"
  shows "log_keeps always (well eg tools scope s m nonce) (then_ask (gremlins_container eg tools scope (GivenDir s) m diff nonce) k)"
proof -
  let ?P = "well eg tools scope s m nonce"
  have run: "quiet_step tools ([''sh'', ''-c'', ''command -v git || true''], c)" for c by (rule quiet_named) simp_all
  have git: "log_keeps always ?P (runner_host_git eg (untrusted_go_container tools scope))"
    unfolding runner_host_git_def Let_def stdout_of_def using run by (intro triples) (simp_all add: containers)
  have "triple always ?P (gremlins_container eg tools scope (GivenDir s) m diff nonce) (\<lambda>c q. True \<and> gremlins_in c tools scope s m nonce)"
    unfolding gremlins_container_def Let_def
    by (cases "diff = ''''") (auto intro!: triple_told triple_then [OF git] simp: gremlins_in_def Let_def)
  then show ?thesis by (rule triple_then) (rule triple_pure, rule assms)
qed

lemma keeps_after_code:
  assumes "untrusted_step tools scope nonce args c c" and "fresh_query nonce x"
    and "query_runs x = runs (AnyExec c args)"
  shows "log_keeps (\<lambda>q. cache_verified eg (GivenDir s) m q c args) (well eg tools scope s m nonce) (ask_engine x answer)"
proof (rule keeps_ask)
  fix q
  assume "cache_verified eg (GivenDir s) m q c args"
  from untrusted_step.after_code [OF assms(1) this] assms(2,3)
  show "well eg tools scope s m nonce q x" by (simp add: well_asked_def)
qed simp

lemma keeps_code_then:
  assumes step: "untrusted_step tools scope nonce args c c"
    and after: "\<And>run. log_keeps (\<lambda>q. cache_verified eg (GivenDir s) m q c args) (well eg tools scope s m nonce) (k (run, AnyExec c args))"
  shows "log_keeps always (well eg tools scope s m nonce)
    (then_ask (verify_module_cache eg c (GivenDir s) m args) (\<lambda>a. then_ask (run_in eg c args) k))"
proof (rule triple_then [OF untrusted_step.verify_triple [OF step]])
  fix a :: unit
  let ?J = "\<lambda>q. cache_verified eg (GivenDir s) m q c args"
  have "log_keeps ?J (well eg tools scope s m nonce) (run_in eg c args)"
    by (rule untrusted_step.verified_run [OF step]) simp_all
  then have "log_keeps ?J (well eg tools scope s m nonce) (then_ask (run_in eg c args) k)"
    by (rule run_in_then) (rule after)
  then show "triple ?J (well eg tools scope s m nonce) (then_ask (run_in eg c args) k) (\<lambda>a. always)"
    by (rule triple_weaken) simp_all
qed simp

lemma keeps_run_gremlins [triples]:
  "log_keeps always (well eg tools scope s m nonce) (run_gremlins eg mj (GivenDir s) m tools scope ps diff tags nonce n)"
  unfolding run_gremlins_def Let_def
proof (rule gremlins_container_then, rule keeps_code_then)
  fix c run
  let ?args = "gremlins_command n tags ps (diff \<noteq> '''')"
  assume c: "gremlins_in c tools scope s m nonce"
  then show "untrusted_step tools scope nonce ?args c c" by (rule gremlins_step)
  note asked_after = keeps_after_code [OF gremlins_step [OF c]]
  show "log_keeps (\<lambda>q. cache_verified eg (GivenDir s) m q c ?args) (well eg tools scope s m nonce)
      (case (run, AnyExec c ?args) of (run, checked) \<Rightarrow>
       then_ask (plainly (entries_in eg (DirIn checked ''/report''))) (\<lambda>entries.
       if ''out.json'' \<notin> set entries then told (Inr \<lparr>mn_exit_code = tr_exit run, mn_stdout = tr_stdout run,
           mn_stderr = tr_stderr run, mn_report = None, mn_reported = False, mn_coefficient = n\<rparr>)
       else then_ask (plainly (bytes_of eg (FileIn checked ''/report/out.json''))) (\<lambda>report.
         told (Inr (\<lparr>mn_exit_code = tr_exit run, mn_stdout = tr_stdout run, mn_stderr = tr_stderr run, mn_report = None,
           mn_reported = False, mn_coefficient = n\<rparr>\<lparr>mn_report := mj_report mj report, mn_reported := True\<rparr>)))))"
    by (auto simp: query_defs intro!: keeps_then keeps_told keeps_on_error asked_after)
qed

lemma keeps_attempts [triples]:
  "log_keeps always (well eg tools scope s m nonce)
     (gremlins_attempts_from eg mj (GivenDir s) m tools scope ps diff tags nonce k n)"
  by (induction k arbitrary: n) (auto intro!: triples split: option.split)

lemma keeps_sources [triples]: "log_keeps always (well eg tools scope s m nonce) (selected_sources eg (SubDir (GivenDir s) m) files)"
  by (induction files) (auto simp: query_defs intro!: triples)

lemma keeps_mutate [triples]:
  "log_keeps always (well eg tools scope s m nonce)
     (runner_mutate eg mj (GivenDir s) m tools scope files ranges accepted tags nonce)"
  unfolding runner_mutate_def mutation_sources_def Let_def query_defs
  by (intro triples) simp_all

section \<open>Community rules\<close>

lemma community_built_quiet:
  "quiet_runs tools (runs (community_built js tools modules None nonce))" "carries nonce (community_built js tools modules None nonce)"
  by (auto simp: community_built_def community_base_def Let_def containers step_defs carries_def with_nonce_def intro!: quiet_build)

lemma build_linter_then:
  assumes "\<And>binary ws. quiet_runs tools (content_runs binary) \<Longrightarrow> log_keeps always (well eg tools scope s m nonce) (k (binary, ws))"
  shows "log_keeps always (well eg tools scope s m nonce) (then_ask (build_community_linter eg js tools modules None nonce) k)"
proof -
  have "triple always (well eg tools scope s m nonce) (build_community_linter eg js tools modules None nonce)
      (\<lambda>p q. True \<and> quiet_runs tools (content_runs (fst p)))"
    unfolding build_community_linter_def Let_def bytes_of_def
  proof (rule triple_then)
    show "log_keeps always (well eg tools scope s m nonce) (on_error exec_failure (ask_engine
        (AskContents (FileIn (community_built js tools modules None nonce) ''/build/out/build.json''))
        (\<lambda>q. eg_contents eg q (FileIn (community_built js tools modules None nonce) ''/build/out/build.json''))))"
      by (intro triples) (simp_all add: community_built_quiet)
  qed (auto intro!: triple_told simp: bind_result_def wrap_error_def community_built_quiet split: sum.splits)
  then show ?thesis by (rule triple_then) (rule triple_pure, metis prod.collapse assms)
qed

lemma keeps_vendor_from [triples]:
  "log_keeps always (well eg tools scope s m nonce) (vendor_file_from eg (GivenDir s) m' dirs)"
  by (induction dirs) (auto simp: query_defs intro!: triples)

lemma keeps_vendor [triples]: "log_keeps always (well eg tools scope s m nonce) (vendor_file eg (GivenDir s) m')"
  by (auto simp: vendor_file_def simp del: directories_above.simps intro!: triples split: option.split)

lemma download_quiet: "quiet_runs tools (runs (download_container (GivenDir s) m tools nonce))"
proof -
  have "quiet_step tools ([''mkdir'', ''-p'', ''/deps''], c)" "quiet_step tools ([''go'', ''mod'', ''download''], c)" for c
    by (rule quiet_other; simp add: step_defs)+
  then show ?thesis by (simp add: download_container_def containers)
qed

lemma download_then:
  assumes "\<And>deps. quiet_runs tools (directory_runs deps) \<Longrightarrow> log_keeps always (well eg tools scope s m nonce) (k deps)"
  shows "log_keeps always (well eg tools scope s m nonce) (then_ask (download_dependencies eg (GivenDir s) m tools nonce) k)"
proof -
  let ?P = "well eg tools scope s m nonce" and ?Q = "\<lambda>deps q. True \<and> quiet_runs tools (directory_runs deps)"
  have sync: "log_keeps always ?P (on_error f (sync_of eg (download_container (GivenDir s) m tools nonce)))" for f
    unfolding sync_of_def by (intro triples) (simp_all add: download_quiet)
  have vendored: "log_keeps always ?P (plainly (regular_in eg (GivenDir s) p))" for p
    unfolding regular_in_def by (intro triples) simp_all
  have "triple always ?P (download_dependencies eg (GivenDir s) m tools nonce) ?Q"
    unfolding download_dependencies_def Let_def
    by (rule triple_then [OF keeps_vendor triple_then [OF vendored]])
      (auto intro!: triple_told triple_then [OF sync] simp: download_quiet)
  then show ?thesis by (rule triple_then) (rule triple_pure, rule assms)
qed

lemma community_container_simps:
  "mounts (community_container js source m tools binary deps modules checks) = []"
  "variable ''GOPROXY'' (community_container js source m tools binary deps modules checks) = Some ''off''"
  "runs (community_container js source m tools binary deps modules checks) = directory_runs deps @ content_runs binary @ directory_runs source"
  by (simp_all add: community_container_def containers)

lemma keeps_run_community [triples]:
  assumes "quiet_runs tools (content_runs binary)" and "quiet_runs tools (directory_runs deps)"
  shows "log_keeps always (well eg tools scope s m nonce)
    (run_community_linter eg js (GivenDir s) m tools binary deps modules checks nonce)"
proof -
  let ?P = "well eg tools scope s m nonce" and ?c = "community_container js (GivenDir s) m tools binary deps modules checks"
  let ?ok = "\<lambda>c. quiet_runs tools (runs c) \<and> carries nonce c \<and> quiet_step tools (community_args, c)"
  have args: "\<not> code_step community_args" "\<not> build_step community_args" by (simp_all add: community_args_def step_defs)
  have cache: "triple always ?P (with_community_cache eg ?c binary nonce) (\<lambda>c q. True \<and> ?ok c)"
  proof (cases "nonce = ''''")
    case True
    have digest: "log_keeps always ?P (plainly (digest_of eg binary))"
      unfolding digest_of_def using assms by (intro triples) simp_all
    show ?thesis
      unfolding with_community_cache_def if_P [OF True]
      by (rule triple_then [OF digest], rule triple_told)
        (use True assms args in \<open>auto simp: community_container_simps community_volume_def carries_def quiet_step_def well_built_def\<close>)
  next
    case False
    show ?thesis
      unfolding with_community_cache_def if_not_P [OF False]
      by (rule triple_told) (use assms args in \<open>auto simp: community_container_simps carries_def quiet_step_def well_built_def\<close>)
  qed
  have run: "log_keeps always ?P (then_ask (run_in eg c community_args) k)"
    if "?ok c" and "\<And>run. log_keeps always ?P (k (run, AnyExec c community_args))" for c k
    using that by (intro run_in_then triples) auto
  show ?thesis
    unfolding run_community_linter_def
  proof (rule triple_then [OF cache], rule triple_pure, rule run)
    fix c and r :: tool_run
    assume ok: "?ok c"
    then show "?ok c" .
    from ok show "log_keeps always ?P (case (r, AnyExec c community_args) of (run, checked) \<Rightarrow>
     then_ask (plainly (regular_in eg (DirIn checked ''/lvrules'') ''report.json'')) (\<lambda>reported.
     then_ask (if reported then plainly (bytes_of eg (FileIn checked ''/lvrules/report.json'')) else told (Inr '''')) (\<lambda>report.
       told (Inr \<lparr>cn_exit = tr_exit run, cn_stdout = tr_stdout run, cn_stderr = tr_stderr run, cn_report = report,
         cn_reported = reported\<rparr>))))"
      by (auto simp: query_defs intro!: triples)
  qed
qed

text \<open>A step of another shape, which only has to ask well.\<close>

definition asks_well :: "(query list \<Rightarrow> query \<Rightarrow> bool) \<Rightarrow> (query list \<Rightarrow> 'a \<times> query list) \<Rightarrow> bool" where
  "asks_well P f \<longleftrightarrow> (\<forall>q. asked P q (snd (f q)))"

lemma keeps_asks_well: "log_keeps always P m \<Longrightarrow> asks_well P m"
  by (simp add: triple_def asks_well_def)

lemma asks_well_keeps: "asks_well P m \<Longrightarrow> log_keeps always P m"
  by (simp add: triple_def asks_well_def)

text \<open>\<open>community_then\<close> is \<open>then_ask\<close> for a step whose error keeps the warnings.\<close>

definition as_asks :: "(query list \<Rightarrow> community_answer \<times> query list) \<Rightarrow> (string, community_answer) asks" where
  "as_asks f q = (case f q of (a, q1) \<Rightarrow> (Inr a, q1))"

lemma snd_as_asks [simp]: "snd (as_asks f q) = snd (f q)"
  by (simp add: as_asks_def split: prod.split)

lemma community_then_well:
  assumes "log_keeps always P (then_ask m (\<lambda>a. as_asks (k a)))"
  shows "asks_well P (community_then ws m k)"
proof -
  have "snd (community_then ws m k q) = snd (then_ask m (\<lambda>a. as_asks (k a)) q)" for q
    by (auto simp: community_then_def then_ask_def split: prod.splits sum.splits)
  with assms show ?thesis by (simp add: triple_def asks_well_def)
qed

lemma as_asks_keeps: "asks_well P f \<Longrightarrow> log_keeps always P (as_asks f)"
  by (simp add: triple_def asks_well_def)

lemma community_lint_well: "asks_well (well eg tools scope s m nonce) (community_lint eg js (GivenDir s) m tools modules checks nonce)"
  unfolding community_lint_def
proof (rule community_then_well, rule keeps_then, rule keeps_told, rule as_asks_keeps, rule community_then_well, rule build_linter_then)
  fix binary and ws built :: "warning list"
  assume binary: "quiet_runs tools (content_runs binary)"
  show "log_keeps always (well eg tools scope s m nonce) (as_asks (case (binary, built) of (binary, built) \<Rightarrow>
     community_then (ws @ built) (download_dependencies eg (GivenDir s) m tools nonce) (\<lambda>deps.
     community_then (ws @ built) (run_community_linter eg js (GivenDir s) m tools binary deps modules checks nonce) (\<lambda>run q.
       case parse_community js run of (found, reported) \<Rightarrow> ((found, ws @ built @ reported), q)))))"
    using binary
    by (auto simp: asks_well_def split: prod.split intro!: as_asks_keeps community_then_well download_then keeps_then [OF keeps_run_community])
qed

lemma merge_core_well: "asks_well (well eg tools scope s m nonce) (merge_core eg (GivenDir s) mixed fs)"
proof (induction fs)
  case Nil
  then show ?case by (simp add: asks_well_def)
next
  case (Cons f fs)
  have one: "asked (well eg tools scope s m nonce) q (q @ [AskContents (FileOf (GivenDir s) p)])" for q p
    by (rule asked_one, rule quiet_well_asked) simp_all
  from Cons show ?case
    by (auto simp: asks_well_def bytes_of_def ask_engine_def split: prod.splits if_splits) (metis asked_trans one snd_conv)+
qed

lemma merge_well: "asks_well (well eg tools scope s m nonce) (merge_findings eg (GivenDir s) core community)"
  using merge_core_well [of eg tools scope s m nonce "mixed_lines community" core]
  by (auto simp: asks_well_def merge_findings_def Let_def split: prod.splits) (metis snd_conv)

lemma keeps_with_community [triples]:
  "log_keeps always (well eg tools scope s m nonce) (with_community eg js (GivenDir s) m tools modules checks nonce found)"
proof (rule asks_well_keeps, unfold asks_well_def, rule)
  fix q
  obtain r ws q1 where lint: "community_lint eg js (GivenDir s) m tools modules checks nonce q = ((r, ws), q1)" by (metis prod.exhaust)
  with community_lint_well have first: "asked (well eg tools scope s m nonce) q q1" by (metis asks_well_def snd_conv)
  have merged: "asked (well eg tools scope s m nonce) q1 (snd (merge_findings eg (GivenDir s) found added q1))" for added
    using merge_well by (simp add: asks_well_def)
  show "asked (well eg tools scope s m nonce) q (snd (with_community eg js (GivenDir s) m tools modules checks nonce found q))"
    using lint asked_trans [OF first merged]
    by (cases r) (auto simp: with_community_def split: prod.splits, (metis snd_conv)+)
qed

end
