(* ===== verification/Runner_Properties.thy ===== *)
theory Runner_Properties
  imports Runner_Isolation
begin

text \<open>
  What a caller of the runner can rely on, for every function it serves: where the repository's code and the code of
  rule modules run, what is executed again, which volumes calls share, and which findings of the core linter stay.
\<close>

section \<open>The functions of the runner\<close>

text \<open>The calls the runner serves, apart from its self-test, and their dispatch, which Dagger generates.\<close>

datatype runner_call =
    CallShared string string string string
  | CallLint string string "string list" string
  | CallGenerate string string string
  | CallImports string string string
  | CallApidiff directory string string string
  | CallMutation string "string list" string string string string string

record runner_lib =
  lb_readers :: readers
  lb_json :: runner_json
  lb_mutation :: mutation_io
  lb_marshal :: "string list \<Rightarrow> string"

fun call_function :: "engine \<Rightarrow> runner_lib \<Rightarrow> string + toolchain \<Rightarrow> directory \<Rightarrow> runner_call \<Rightarrow> (string, runner_answer) asks" where
  "call_function eg lb shipped source (CallShared check m nonce key) =
     shared_check eg (lb_readers lb) shipped source check m nonce key"
| "call_function eg lb shipped source (CallLint m nonce checks raw) =
     go_lint_function eg (lb_readers lb) (lb_json lb) shipped source m nonce checks raw"
| "call_function eg lb shipped source (CallGenerate m nonce key) =
     go_generate_function eg (lb_readers lb) shipped source m nonce key"
| "call_function eg lb shipped source (CallImports rules m nonce) =
     go_imports_function eg (lb_readers lb) shipped source rules m nonce"
| "call_function eg lb shipped source (CallApidiff base m gowork nonce) =
     go_apidiff_function eg (lb_readers lb) (lb_marshal lb) shipped source base m gowork nonce"
| "call_function eg lb shipped source (CallMutation m files ranges accepted tags nonce key) =
     go_mutation_function eg (lb_mutation lb) shipped source m files ranges accepted tags nonce key"

text \<open>What a call asks the engine, in order.\<close>

definition asked_by :: "engine \<Rightarrow> runner_lib \<Rightarrow> toolchain \<Rightarrow> string \<Rightarrow> runner_call \<Rightarrow> query list" where
  "asked_by eg lb tools s call = snd (call_function eg lb (Inr tools) (GivenDir s) call [])"

definition key_scope :: "string \<Rightarrow> string" where
  "key_scope key = (case repository_scope key of Inl e \<Rightarrow> '''' | Inr scope \<Rightarrow> scope)"

fun call_scope :: "runner_call \<Rightarrow> string" where
  "call_scope (CallShared check m nonce key) = key_scope key"
| "call_scope (CallGenerate m nonce key) = key_scope key"
| "call_scope (CallMutation m files ranges accepted tags nonce key) = key_scope key"
| "call_scope call = ''''"

fun call_module :: "runner_call \<Rightarrow> string" where
  "call_module (CallShared check m nonce key) = m"
| "call_module (CallLint m nonce checks raw) = m"
| "call_module (CallGenerate m nonce key) = m"
| "call_module (CallImports rules m nonce) = m"
| "call_module (CallApidiff base m gowork nonce) = m"
| "call_module (CallMutation m files ranges accepted tags nonce key) = m"

fun call_nonce :: "runner_call \<Rightarrow> string" where
  "call_nonce (CallShared check m nonce key) = nonce"
| "call_nonce (CallLint m nonce checks raw) = nonce"
| "call_nonce (CallGenerate m nonce key) = nonce"
| "call_nonce (CallImports rules m nonce) = nonce"
| "call_nonce (CallApidiff base m gowork nonce) = nonce"
| "call_nonce (CallMutation m files ranges accepted tags nonce key) = nonce"

text \<open>A base of an API check is a directory of the caller too.\<close>

fun proper_call :: "runner_call \<Rightarrow> bool" where
  "proper_call (CallApidiff base m gowork nonce) = (case base of GivenDir b \<Rightarrow> True | _ \<Rightarrow> False)"
| "proper_call call = True"

lemma scope_then:
  assumes "repository_scope key = Inr (key_scope key) \<Longrightarrow> log_keeps always P (k (key_scope key))"
  shows "log_keeps always P (then_ask (told (repository_scope key)) k)"
proof (cases "repository_scope key")
  case (Inl e)
  then show ?thesis by (simp add: triple_def then_ask_def told_def)
next
  case (Inr scope)
  then have "key_scope key = scope" by (simp add: key_scope_def)
  with Inr assms show ?thesis by (simp add: triple_def then_ask_def told_def)
qed

lemma tools_then: "log_keeps always P (k tools) \<Longrightarrow> log_keeps always P (then_ask (told (Inr tools)) k)"
  by (simp add: triple_def then_ask_def told_def)

lemma same_tools_well: "same_tools t tools \<Longrightarrow> well_asked eg t = well_asked eg tools"
proof -
  assume t: "same_tools t tools"
  have "tool_caches t = tool_caches tools" "untrusted_caches t scope = untrusted_caches tools scope" for scope
    by (subst t [unfolded same_tools_def], simp add: tool_caches_def untrusted_caches_def)+
  then have "well_built t = well_built tools" and "well_run eg t = well_run eg tools"
    by (intro ext; simp add: well_run_def well_built_def)+
  then show ?thesis by (intro ext) (simp add: well_asked_def)
qed

lemma keeps_runner_go_lint:
  "log_keeps always (well eg tools scope s m nonce) (runner_go_lint eg rd js (GivenDir s) m tools checks raw nonce)"
proof -
  have community: "log_keeps always (well eg tools scope s m nonce) (with_community eg js (GivenDir s) m t modules community nonce found)"
    if "same_tools t tools" for t modules community found
    using keeps_with_community [of eg t scope s m nonce js modules community found] same_tools_well [OF that] by simp
  show ?thesis
    unfolding runner_go_lint_def
    by (rule keeps_then, rule keeps_told, rule keeps_then, rule keeps_told, rule keeps_prod, rule keeps_selection_then,
        intro triples community)
qed

lemma every_call_asks_well:
  assumes "proper_call call"
  shows "log_keeps always (well eg tools (call_scope call) s (call_module call) (call_nonce call))
    (call_function eg lb (Inr tools) (GivenDir s) call)"
proof (cases call)
  case (CallShared check m nonce key)
  then show ?thesis
    by (auto simp: shared_check_def intro!: keeps_refused scope_then tools_then keeps_then [OF keeps_shared] keeps_told)
next
  case (CallLint m nonce checks raw)
  then show ?thesis
    by (auto simp: go_lint_function_def intro!: keeps_refused tools_then keeps_then [OF keeps_runner_go_lint] keeps_told)
next
  case (CallGenerate m nonce key)
  then show ?thesis
    by (auto simp: go_generate_function_def intro!: keeps_refused scope_then tools_then keeps_then [OF keeps_go_generate]
      keeps_prod keeps_told)
next
  case (CallImports rules m nonce)
  then show ?thesis
    by (auto simp: go_imports_function_def intro!: keeps_refused tools_then keeps_then [OF keeps_go_imports]
      keeps_prod keeps_told)
next
  case (CallApidiff base m gowork nonce)
  with assms obtain b where "base = GivenDir b" by (cases base) auto
  with CallApidiff show ?thesis
    by (auto simp: go_apidiff_function_def intro!: keeps_refused tools_then keeps_then [OF keeps_go_apidiff]
      keeps_prod keeps_told)
next
  case (CallMutation m files ranges accepted tags nonce key)
  then show ?thesis
    by (auto simp: go_mutation_function_def
      intro!: keeps_refused keeps_then [OF keeps_told] keeps_if scope_then tools_then keeps_then [OF keeps_mutate] keeps_told)
qed

lemma asked_well:
  assumes "proper_call call" and "asked_by eg lb tools s call = before @ x # rest"
  shows "well eg tools (call_scope call) s (call_module call) (call_nonce call) before x"
proof -
  let ?P = "well eg tools (call_scope call) s (call_module call) (call_nonce call)"
  from every_call_asks_well [OF assms(1)] have "asked ?P [] (asked_by eg lb tools s call)"
    by (simp add: triple_def asked_by_def)
  moreover have "prefix (before @ [x]) (asked_by eg lb tools s call)" using assms(2) by simp
  ultimately show ?thesis by (simp add: asked_def)
qed

section \<open>Where code runs\<close>



text \<open>C40. When a call has a nonce, every run whose exit code is asked for carries it, so the engine cannot answer a fresh
  check from a run of an earlier call.\<close>
theorem fresh_calls_are_executed:
  assumes "proper_call call" and "asked_by eg lb tools s call = before @ AskExitCode c # rest" and "call_nonce call \<noteq> ''''"
  shows "variable nonce_variable c = Some (call_nonce call)"
  using asked_well [OF assms(1,2)] assms(3) by (simp add: well_asked_def carries_def)

section \<open>A sample\<close>

definition sample_tools :: toolchain where
  "sample_tools = \<lparr>tc_go = ''1.27'', tc_image = ''golang:1.27'', tc_staticcheck = ''v0.8.1'', tc_release = ''2026'', tc_checks = [''all''],
     tc_zizmor = zero_pin, tc_shellcheck = zero_pin, tc_osv = zero_pin\<rparr>"

lemma sample_scopes: "repository_scope '''' = Inr ''unkeyed''"
  "repository_scope (replicate 64 CHR ''a'') = Inr (replicate 16 CHR ''a'')"
  by code_simp+

section \<open>Scopes\<close>

lemma scope_not_self_test:
  assumes "repository_scope key = Inr scope"
  shows "scope \<noteq> scope_self_test \<and> scope \<noteq> scope_tamper_self_test"
proof (cases "key = ''''")
  case True
  with assms show ?thesis by (auto simp: repository_scope_def)
next
  case False
  with assms have hex: "list_all (\<lambda>c. hex_value c \<noteq> None) key" and scope: "scope = take 16 key"
    by (auto simp: repository_scope_def hex_decodes_def split: if_splits)
  from False scope have "hd scope = hd key" "scope \<noteq> ''''" by (cases key; simp)+
  moreover from False hex have "hex_value (hd key) \<noteq> None" by (cases key) auto
  moreover have "hex_value CHR ''s'' = None" by (simp add: hex_value_def)
  ultimately show ?thesis by auto
qed

text \<open>C25. Two keys of different scopes give the steps of their repositories no volume in common, none of them is one that a
  tool is built with, whatever the toolchain, and no key names a scope of the self-tests.\<close>
theorem scopes_share_no_volume:
  assumes "repository_scope key = Inr scope" and "repository_scope key' = Inr scope'" and "scope \<noteq> scope'"
  shows "snd ` set (untrusted_caches tools scope) \<inter> snd ` set (untrusted_caches tools scope') = {} \<and>
    snd ` set (untrusted_caches tools scope) \<inter> snd ` set (tool_caches tools') = {} \<and>
    scope \<notin> {scope_self_test, scope_tamper_self_test}"
  using assms(3) scope_not_self_test [OF assms(1)]
  by (auto simp: untrusted_caches_def tool_caches_def go_caches_def)

theorem scopes_share_no_volume_witness:
  "snd ` set (untrusted_caches sample_tools ''unkeyed'') \<inter> snd ` set (untrusted_caches sample_tools (replicate 16 CHR ''a'')) = {} \<and>
    snd ` set (untrusted_caches sample_tools ''unkeyed'') \<inter> snd ` set (tool_caches sample_tools) = {} \<and>
    ''unkeyed'' \<notin> {scope_self_test, scope_tamper_self_test}"
  by (rule scopes_share_no_volume [OF sample_scopes]) (simp add: eval_nat_numeral)

section \<open>Merged findings\<close>

lemma merge_core_kept:
  assumes "merge_core eg source mixed fs q = (kept, q1)" and "f \<in> set fs"
  shows "f \<in> set kept \<or> (stale_report mixed f \<and> (\<exists>l text. eg_contents eg l (FileOf source (loc_file (fd_location f))) = Inr text \<and>
    mixed_directive text (fd_location f)))"
  using assms
proof (induction fs arbitrary: q kept q1)
  case Nil
  then show ?case by simp
next
  case (Cons g fs)
  then show ?case
    by (auto simp: bytes_of_def ask_engine_def split: prod.splits if_splits sum.splits) blast+
qed

lemma merge_core_order: "merge_core eg source mixed fs q = (kept, q1) \<Longrightarrow> subseq kept fs"
  by (induction fs arbitrary: q kept q1) (auto split: prod.splits if_splits)


section \<open>The loop of vendorFile\<close>

lemma valid_module_relative: "valid_module m = None \<longleftrightarrow> relative m"
  by (auto simp: valid_module_def relative_def)

lemma split_at_chars: "q \<in> set (split_at c s) \<Longrightarrow> set q \<subseteq> set s"
  by (induction s arbitrary: q) (fastforce split: if_splits list.splits)+

lemma directories_above_reach:
  "relative m \<Longrightarrow> m \<noteq> dot \<longrightarrow> length (parts m) \<le> n \<Longrightarrow> \<exists>dirs. directories_above n m = Some (dirs @ [dot])"
proof (induction n arbitrary: m)
  case 0
  then show ?case by simp
next
  case (Suc n)
  show ?case
  proof (cases "m = dot")
    case True
    then show ?thesis by simp
  next
    case False
    let ?up = "butlast (parts m)"
    have ord: "\<forall>q \<in> set ?up. ordinary_part q" using relative_parts [OF Suc.prems(1) False] in_set_butlastD by metis
    have no_slash: "\<forall>q \<in> set ?up. slash \<notin> set q" using split_at_parts_no_sep in_set_butlastD by metis
    have "\<exists>dirs. directories_above n (dir_name m) = Some (dirs @ [dot])"
    proof (cases "?up = []")
      case True
      then show ?thesis by (cases n) (simp_all add: dir_name_relative [OF Suc.prems(1) False])
    next
      case up: False
      then have dir: "dir_name m = unparts ?up" by (simp add: dir_name_relative [OF Suc.prems(1) False])
      have parts: "parts (unparts ?up) = ?up" using split_join [OF up no_slash] by simp
      have "CHR 0x5C \<notin> set (unparts ?up)"
      proof -
        have "set (unparts xs) \<subseteq> (\<Union>x \<in> set xs. set x) \<union> {slash}" for xs by (induction xs rule: induct_list012) auto
        moreover have "CHR 0x5C \<notin> set q" if "q \<in> set ?up" for q
        proof
          assume "CHR 0x5C \<in> set q"
          from that have "q \<in> set (parts m)" by (rule in_set_butlastD)
          with \<open>CHR 0x5C \<in> set q\<close> have "CHR 0x5C \<in> set m" using split_at_chars by blast
          with Suc.prems(1) show False by (simp add: relative_def)
        qed
        ultimately show ?thesis by fastforce
      qed
      with ord parts have "relative (unparts ?up)" by (simp add: relative_iff)
      moreover have "length (parts (unparts ?up)) \<le> n" using Suc.prems(2) False by (simp add: parts)
      ultimately show ?thesis using Suc.IH dir by simp
    qed
    with False show ?thesis by (metis append_Cons directories_above.simps(2) option.simps(9))
  qed
qed

text \<open>A module path the functions accept never keeps \<open>vendorFile\<close> from its end.\<close>

theorem vendor_loop_ends:
  assumes "valid_module m = None"
  shows "\<exists>dirs. directories_above (Suc (length m)) m = Some (dirs @ [dot])"
proof -
  have "length (split_at c s) \<le> Suc (length s)" for c :: char and s by (induction s) (auto split: list.splits)
  with assms show ?thesis by (intro directories_above_reach) (simp_all add: valid_module_relative)
qed

section \<open>Witnesses\<close>

definition sample_engine :: engine where
  "sample_engine = \<lparr>eg_exit = (\<lambda>q c. Inr 0), eg_stdout = (\<lambda>q c. Inr ''listed''), eg_stderr = (\<lambda>q c. Inr ''''),
     eg_platform = (\<lambda>q c. Inr ''linux/amd64''), eg_sync = (\<lambda>q c. Inr ()), eg_contents = (\<lambda>q f. Inr ''text''),
     eg_digest = (\<lambda>q f. Inr ''sha256:ab''), eg_regular = (\<lambda>q d p. Inr (p = ''go.sum'')), eg_glob = (\<lambda>q d p. Inr []),
     eg_entries = (\<lambda>q d. Inr []), eg_tool_text = (\<lambda>e. '''')\<rparr>"

definition sample_module :: planned_rule_module where
  "sample_module = \<lparr>pm_path = ''example.com/rules'', pm_version = ''v1.0.0'', pm_namespace = ''errs'', pm_select = [''errs_*''],
     pm_advisory = [], pm_settings = []\<rparr>"

definition sample_json :: runner_json where
  "sample_json = \<lparr>js_modules = (\<lambda>s. Inr [sample_module]), js_notices = Inr [], js_request = (\<lambda>t ms. ''{}''), js_built = (\<lambda>s. Inr []),
     js_config = (\<lambda>ms cs. ''{}''), js_report = (\<lambda>s. Inl ''''), js_diagnostics = (\<lambda>s. ([], None)), js_outcome = (\<lambda>fs ws. '''')\<rparr>"

definition sample_decoders :: readers where
  "sample_decoders = \<lparr>rd_events = (\<lambda>s. ([], False)), rd_diagnostics = (\<lambda>s. ([], False)), rd_deps = (\<lambda>s. None), rd_comments = (\<lambda>s. None),
     rd_leaks = (\<lambda>s. None), rd_gocheck = (\<lambda>s. None), rd_rules_json = (\<lambda>c. ''''), rd_glob = (\<lambda>t p. Inr [])\<rparr>"

definition sample_mutation :: mutation_io where
  "sample_mutation = \<lparr>mj_lines = (\<lambda>s. Inr None), mj_accepted = (\<lambda>s. Inr (1, [])), mj_functions = (\<lambda>f ls. map (\<lambda>l. '''') ls),
     mj_report = (\<lambda>s. None), mj_summary = (\<lambda>s. ''''), mj_error = (\<lambda>e. '''')\<rparr>"

definition sample_lib :: runner_lib where
  "sample_lib = \<lparr>lb_readers = sample_decoders, lb_json = sample_json, lb_mutation = sample_mutation, lb_marshal = (\<lambda>ns. '''')\<rparr>"

definition sample_asked :: "runner_call \<Rightarrow> query list" where
  "sample_asked call = asked_by sample_engine sample_lib sample_tools ''src'' call"

lemma sample_asked_split: "sample_asked call \<noteq> [] \<Longrightarrow>
    asked_by sample_engine sample_lib sample_tools ''src'' call = butlast (sample_asked call) @ [last (sample_asked call)]"
  by (simp add: sample_asked_def)

definition sample_test :: runner_call where "sample_test = CallShared ''go-test'' dot '''' ''''"
definition sample_vet_call :: runner_call where "sample_vet_call = CallShared ''go-vet'' dot ''n1'' ''''"
definition sample_rules :: runner_call where "sample_rules = CallLint dot '''' [] ''[...]''"

lemma sample_test_asks: "last (sample_asked sample_test) =
    AskStderr (AnyExec (test_container sample_tools ''unkeyed'' (GivenDir ''src'') dot '''') (test_args False))"
  "sample_asked sample_test \<noteq> []"
  by code_simp+


definition sample_vetted :: container where
  "sample_vetted = AnyExec (with_nonce (at_module (go_container sample_tools) (GivenDir ''src'') dot) ''n1'') [''go'', ''vet'', ''./...'']"

lemma sample_vet_asks: "asked_by sample_engine sample_lib sample_tools ''src'' sample_vet_call =
    [AskContents (FileOf (GivenDir ''src'') ''go.mod''),
     AskStdout (MustExec (with_nonce (at_module (go_container sample_tools) (GivenDir ''src'') dot) ''n1'') [''go'', ''list'', ''./...''])] @
    AskExitCode sample_vetted # [AskStdout sample_vetted, AskStderr sample_vetted]"
  by code_simp

theorem fresh_calls_are_executed_witness: "variable nonce_variable sample_vetted = Some ''n1''"
  using fresh_calls_are_executed [OF _ sample_vet_asks] by (simp add: sample_vet_call_def)

definition sample_lint_step :: container where
  "sample_lint_step = SetEnv (MountPrivate (community_container sample_json (GivenDir ''src'') dot sample_tools
     (FileIn (community_built sample_json sample_tools [build_module_of sample_module] None '''') ''/build/out/levenshtein-community-lint'')
     (DirIn (download_container (GivenDir ''src'') dot sample_tools '''') ''/deps'') [sample_module] [])
     ''/staticcheck'' (community_volume ''sha256:ab'')) ''STATICCHECK_CACHE'' ''/staticcheck''"

lemma sample_rules_asks: "last (sample_asked sample_rules) = AskRegular (DirIn (AnyExec sample_lint_step community_args) ''/lvrules'') ''report.json''"
  "sample_asked sample_rules \<noteq> []"
  by code_simp+


definition sample_stale :: finding where
  "sample_stale = tool_finding ''staticcheck'' stale_directive \<lparr>loc_file = ''a.go'', loc_line = 1, loc_column = 1\<rparr>"

definition sample_mixed :: finding where
  "sample_mixed = tool_finding ''lvrules_mixed'' ''mixed'' \<lparr>loc_file = ''a.go'', loc_line = 1, loc_column = 1\<rparr>"

lemma sample_merged: "fst (merge_findings sample_engine (GivenDir ''src'') [sample_stale] [sample_mixed] []) = [sample_stale, sample_mixed]"
  by code_simp


end
