(* ===== verification/Clone_Key.thy ===== *)
theory Clone_Key
  imports Discovery Runner_Engine
begin

text \<open>
  The key of a clone, \<open>internal/verify/cachekey.go\<close>, which names the cache volumes the runner keeps for a repository.
  The host is an argument: git's answer in a directory, the resolution of links, entries and files, and SHA-256 in hex.
\<close>

record key_host =
  kh_git :: "string option"
  kh_rev_parse :: "string \<Rightarrow> string \<Rightarrow> string list \<Rightarrow> string option"
  kh_abs :: "string \<Rightarrow> string option"
  kh_resolve :: "string \<Rightarrow> string option"
  kh_lstat :: "string \<Rightarrow> host_entry option"
  kh_read :: "string \<Rightarrow> string option"
  kh_sha :: "string \<Rightarrow> string"

definition owns_git_dir :: "key_host \<Rightarrow> string \<Rightarrow> string \<Rightarrow> string \<Rightarrow> bool" where
  "owns_git_dir kh wt git_dir common =
     (let dot_git = path_join [wt, ''.git''] in
      case kh_lstat kh dot_git of
        None \<Rightarrow> False
      | Some HostDir \<Rightarrow> git_dir = dot_git \<and> common = dot_git
      | Some (HostFile perm bytes) \<Rightarrow>
          if dir_name git_dir \<noteq> path_join [common, ''worktrees''] then False
          else (case kh_read kh (path_join [git_dir, ''gitdir'']) of
            None \<Rightarrow> False
          | Some link \<Rightarrow> kh_resolve kh (trim_space link) = Some dot_git)
      | Some _ \<Rightarrow> False)"

definition rev_parse_args :: "string list" where
  "rev_parse_args = [''rev-parse'', ''--path-format=absolute'', ''--show-toplevel'', ''--git-dir'', ''--git-common-dir'']"

definition resolved_line :: "key_host \<Rightarrow> string \<Rightarrow> string option" where
  "resolved_line kh line = (if is_abs line then kh_resolve kh line else None)"

definition git_common_dir :: "key_host \<Rightarrow> string \<Rightarrow> string option" where
  "git_common_dir kh dir =
     (case kh_git kh of
        None \<Rightarrow> None
      | Some git \<Rightarrow>
          (case kh_rev_parse kh git dir rev_parse_args of
             None \<Rightarrow> None
           | Some out \<Rightarrow>
               (case split_at CHR 0x0A (trim_space out) of
                  [a, b, c] \<Rightarrow>
                    (case (resolved_line kh a, resolved_line kh b, resolved_line kh c) of
                       (Some wt, Some git_dir, Some common) \<Rightarrow> if owns_git_dir kh wt git_dir common then Some common else None
                     | _ \<Rightarrow> None)
                | _ \<Rightarrow> None)))"

definition key_root :: "key_host \<Rightarrow> string \<Rightarrow> string" where
  "key_root kh source =
     (case kh_abs kh source of
        None \<Rightarrow> ''''
      | Some full \<Rightarrow> (case kh_resolve kh full of None \<Rightarrow> full | Some resolved \<Rightarrow> resolved))"

definition key_identity :: "key_host \<Rightarrow> string \<Rightarrow> string" where
  "key_identity kh source = (case git_common_dir kh (key_root kh source) of None \<Rightarrow> key_root kh source | Some common \<Rightarrow> common)"

definition repository_key :: "key_host \<Rightarrow> string \<Rightarrow> string" where
  "repository_key kh source = kh_sha kh (key_identity kh source)"

text \<open>Is a directory the top of a work tree of a clone: its .git is the clone's directory, or links to one of its work trees
  that links back?\<close>

definition work_tree_of :: "key_host \<Rightarrow> string \<Rightarrow> string \<Rightarrow> bool" where
  "work_tree_of kh common wt \<longleftrightarrow>
     (common = path_join [wt, ''.git''] \<and> kh_lstat kh common = Some HostDir) \<or>
     (\<exists>git_dir link. dir_name git_dir = path_join [common, ''worktrees''] \<and>
        kh_read kh (path_join [git_dir, ''gitdir'']) = Some link \<and> kh_resolve kh (trim_space link) = Some (path_join [wt, ''.git'']))"

lemma owns_work_tree: "owns_git_dir kh wt git_dir common \<Longrightarrow> work_tree_of kh common wt"
  by (auto simp: owns_git_dir_def work_tree_of_def Let_def split: option.splits host_entry.splits if_splits)

lemma common_dir_owned:
  assumes "git_common_dir kh dir = Some common"
  shows "\<exists>git out a b c wt. kh_git kh = Some git \<and> kh_rev_parse kh git dir rev_parse_args = Some out \<and>
    split_at CHR 0x0A (trim_space out) = [a, b, c] \<and> kh_resolve kh a = Some wt \<and> kh_resolve kh c = Some common \<and>
    work_tree_of kh common wt"
  using assms
  by (auto simp: git_common_dir_def resolved_line_def split: option.splits list.splits if_splits intro: owns_work_tree)

text \<open>C27. A source that has the key of another clone's git directory is that directory itself or lies in a work tree
  that the clone owns: its .git is the clone's own directory, or the clone, in its worktrees directory, links back to
  the .git of that work tree. A directory that merely names a clone, by a .git or commondir file of its own, gets another
  key, as long as SHA-256 does not collide on the two.\<close>
theorem no_directory_claims_a_clone:
  assumes "repository_key kh source = kh_sha kh clone"
    and "\<And>x. kh_sha kh x = kh_sha kh clone \<Longrightarrow> x = clone"
  shows "key_root kh source = clone \<or> (\<exists>git out a b c wt. kh_git kh = Some git \<and>
    kh_rev_parse kh git (key_root kh source) rev_parse_args = Some out \<and> split_at CHR 0x0A (trim_space out) = [a, b, c] \<and>
    kh_resolve kh a = Some wt \<and> kh_resolve kh c = Some clone \<and> work_tree_of kh clone wt)"
proof -
  from assms have "key_identity kh source = clone" by (simp add: repository_key_def)
  then consider "key_root kh source = clone" | "git_common_dir kh (key_root kh source) = Some clone"
    by (auto simp: key_identity_def split: option.splits)
  then show ?thesis by cases (auto dest: common_dir_owned)
qed

text \<open>A linked work tree \<open>/w\<close> of the clone \<open>/r\<close>.\<close>

definition sample_key_host :: key_host where
  "sample_key_host = \<lparr>kh_git = Some ''/bin/git'',
     kh_rev_parse = (\<lambda>git dir args. Some (''/w'' @ [CHR 0x0A] @ ''/r/.git/worktrees/w'' @ [CHR 0x0A] @ ''/r/.git'' @ [CHR 0x0A])),
     kh_abs = (\<lambda>p. Some p), kh_resolve = (\<lambda>p. Some p), kh_lstat = (\<lambda>p. if p = ''/w/.git'' then Some (HostFile 420 '''') else None),
     kh_read = (\<lambda>p. if p = ''/r/.git/worktrees/w/gitdir'' then Some (''/w/.git'' @ [CHR 0x0A]) else None), kh_sha = (\<lambda>s. s)\<rparr>"

lemma sample_key: "repository_key sample_key_host ''/w'' = ''/r/.git''"
  by code_simp

theorem no_directory_claims_a_clone_witness:
  "key_root sample_key_host ''/w'' = ''/r/.git'' \<or> (\<exists>git out a b c wt. kh_git sample_key_host = Some git \<and>
    kh_rev_parse sample_key_host git (key_root sample_key_host ''/w'') rev_parse_args = Some out \<and>
    split_at CHR 0x0A (trim_space out) = [a, b, c] \<and> kh_resolve sample_key_host a = Some wt \<and>
    kh_resolve sample_key_host c = Some ''/r/.git'' \<and> work_tree_of sample_key_host ''/r/.git'' wt)"
proof (rule no_directory_claims_a_clone)
  have sha: "kh_sha sample_key_host x = x" for x by (simp add: sample_key_host_def)
  show "repository_key sample_key_host ''/w'' = kh_sha sample_key_host ''/r/.git''" by (simp only: sample_key sha)
  show "x = ''/r/.git''" if "kh_sha sample_key_host x = kh_sha sample_key_host ''/r/.git''" for x
    using that by (simp only: sha)
qed

end
