(* ===== verification/Spec2Isabelle.thy ===== *)
theory Spec2Isabelle
  imports Plan_Properties Baseline_Properties Cache_Properties File_Set_Properties Scheduler
    Community_Properties Community_Output Mutation_Properties
    Check_Verdicts Semantic_Diff_Properties Semantic_Properties Host_Check_Properties
    Render_Properties Native_Properties Go_Generate_Properties Go_Apidiff_Properties Discovery_Properties
    Base_Tree_Properties Host_Kind_Properties Runner_Properties Clone_Key
begin

text \<open>
  A verification development for Levenshtein, the verification runner of this repository.

  The program. A repository declares in \<open>levenshtein.json\<close> which checks it wants; the CLI
  (\<open>cmd/levenshtein\<close>, \<open>internal/verify\<close>) validates the file, plans a run, executes the planned checks on
  the host or in a container through Dagger (\<open>runner\<close>), reuses passed results from a cache keyed by a
  fingerprint of the inputs, accepts known findings by a baseline, and reports. The linters of a lint
  check select their rules by patterns (\<open>runner/lint\<close>, \<open>runner/community\<close>); a mutation check decides
  its own verdict from the report of gremlins (\<open>runner/mutation.go\<close>); semantic-lint asks a model about the
  change of a branch (\<open>internal/semantic\<close>).

  Theories, below the name of the directory \<open>src\<close>. \<open>X_Properties\<close> holds what is proved of \<open>X\<close>.

  \<^item> \<open>Prelude\<close>, \<open>Go_Text\<close>, \<open>Go_Format\<close>, \<open>Go_Regexp\<close>, \<open>Go_Path\<close>, \<open>Go_Duration\<close>, \<open>Go_Search\<close>, \<open>Go_Conv\<close>,
    \<open>Go_Json\<close>: errors as sums (\<open>bind_result\<close>, \<open>first_of\<close>), Go maps as association lists with sorted keys,
    and what the source uses of the standard library (strings on bytes, \<open>%q\<close>, anchored regular expressions
    by derivatives, \<open>path/filepath\<close> on Unix, \<open>time.ParseDuration\<close>, \<open>sort.Search\<close>, JSON values and their text).
  \<^item> \<open>Kinds\<close>, \<open>Config\<close>, \<open>Lint_Selection\<close>, \<open>Validation\<close>, \<open>Rule_Modules\<close>: \<open>internal/verify\<close> status.go, kinds.go,
    config.go, validation.go, source.go, rulemodules.go and the selection of
    \<open>runner/lint/cmd/levenshtein-lint/selection.go\<close>. The kinds of check are a datatype and each column of
    the table of kinds a function; validation is the list of tests in the order of the source.
  \<^item> \<open>Filesystem\<close>, \<open>Planning\<close>, \<open>Plan_Properties\<close>: a source tree with links and case folding as \<open>os.Root\<close>
    sees it, \<open>Config.Plan\<close> with each error, and what a plan promises to the executors.
  \<^item> \<open>File_Sets\<close>, \<open>Discovery\<close>: enumerate.go, goload.go and discovery.go, the paths a check consumes. The
    listing a session memoizes is a step relation of goroutines over a tree that checks change.
  \<^item> \<open>Gate\<close>, \<open>Workspaces\<close>: gate.go and lock.go as step relations: the in-process gate, the file lock that
    the readers of a process share, and their composition over processes.
  \<^item> \<open>Stat_Memo\<close>, \<open>Fingerprints\<close>: statcache.go, and the keys of fingerprint.go, identity.go and gotools.go
    with the environment of command.go. A memo runs against files that others write between its steps.
  \<^item> \<open>Cache\<close>: cache.go over the operations a lookup calls (the record \<open>cache_ops\<close>).
  \<^item> \<open>Native\<close>: native.go, stages.go, command.go and native_output.go: processes, the stages of a command
    check and what is remembered of them. The tree is a type that only running a process changes.
  \<^item> \<open>Host_Tools\<close>, \<open>Host_Kinds\<close>, \<open>Host_Kind_Properties\<close>: the native shared checks, gochecks.go, gotools.go,
    gocheck.go, gotest.go, gogenerate.go, releases.go, visible.go and the scanners, over a map of the host's
    files. The locale \<open>go_work_of\<close> is what the executor relies on; every kind is an interpretation of it.
  \<^item> \<open>Base_Tree\<close>: goapidiff.go, the committed tree an API check compares with.
  \<^item> \<open>Report\<close>, \<open>Scheduler\<close>, \<open>Baseline\<close>: run.go (the outcome of a check, the session as a step relation of
    goroutines), report.go, findings.go and baseline.go.
  \<^item> \<open>Render\<close>: render.go and hints.go, the summary, the workflow commands and SARIF.
  \<^item> \<open>Community\<close>, \<open>Community_Output\<close>, \<open>Community_Properties\<close>: \<open>runner/community\<close> module.go, selection.go,
    directives.go, output.go: the resolver of community rules and the rewriting of diagnostics.
  \<^item> \<open>Mutation\<close>, \<open>Mutation_Verdict\<close>, \<open>Mutation_Properties\<close>: \<open>runner/mutation.go\<close>.
  \<^item> \<open>Check_Tools\<close>, \<open>Check_Reports\<close>, \<open>Check_Verdicts\<close>: \<open>internal/checktool\<close>, what a check makes of the exit
    code and the report of its tool. The locale \<open>tool_verdict\<close> is the contract of such a reader, and every
    reader is an interpretation of it.
  \<^item> \<open>Go_Checks\<close>, \<open>Go_Generate\<close>, \<open>Go_Apidiff\<close>: \<open>runner/lint/gocheck\<close>, the import rules, the generated code
    check and the comparison of exported APIs, with the report they write for the CLI.
  \<^item> \<open>Git_Change\<close>: \<open>internal/gitchange\<close>, the base of a branch and the lines it wrote; git is a function
    from the number and arguments of a command to its output.
  \<^item> \<open>Semantic_Diff\<close>, \<open>Semantic_State\<close>, \<open>Semantic_Catalog\<close>, \<open>Semantic_Request\<close>, \<open>Semantic_Client\<close>,
    \<open>Semantic_Lint\<close>, \<open>Semantic_Properties\<close>: \<open>internal/semantic\<close>, the hunks and commits, what is preselected
    from them, the questions and their budget, the client with its retries, and the judgments. The
    \<open>float64\<close> values of the catalog are the rationals they stand for.
  \<^item> \<open>Host_Checks\<close>: semantic.go and mutation.go of \<open>internal/verify\<close>, what the host decides of both checks.
  \<^item> \<open>Runner_Engine\<close>, \<open>Runner_Kinds\<close>, \<open>Runner_Checks\<close>, \<open>Runner_Community\<close>, \<open>Runner_Mutation\<close>: the containers
    of \<open>runner\<close>, main.go, checks.go, releases.go, gocheck.go, the scanners, community.go and mutation.go. A
    container is the term of the calls that make it. The engine is an argument whose answer to a query may
    depend on every query before it, and the list of the queries asked is threaded through the functions.
  \<^item> \<open>Runner_Log\<close>, \<open>Runner_Isolation\<close>, \<open>Runner_Properties\<close>: triples over that list, the locale
    \<open>untrusted_step\<close> of a step that runs the code of a repository, and what every query respects.
  \<^item> \<open>Clone_Key\<close>: cachekey.go, the name of the caches a clone shares.

  What is proved. Planning: a plan keeps the contract the executors rely on, and selections of one module
  never depend on another. Execution: the gate excludes, wakes whoever can enter, and releases its file
  lock; a session always ends, respects its parallelism and the order of shared preparations, and reports
  every check. Inputs: a walk stays in its set, a listing is never older than the last relisting, a hit of
  the memo is what reading the file now gives, equal fingerprints mean equal inputs. Reuse: a cache hit is
  the verdict of an execution that passed for the inputs as they are, and a stage is reused only for outputs
  that a run of it left. Native checks: a verdict rests on a whole run of its tool, the path of a helper
  names its bytes, only reviewed bytes of a release are run. Tools: no reader turns a failing exit into a
  pass. The baseline: a recorded baseline accepts the run it was recorded from. Rendering: a workflow
  command reads back as its finding. The linter enables the rules the CLI computed with its own copy of
  the selection. Mutation: the survivors reported are exactly those on changed lines that no entry accepts.
  Module checks: broken imports, changed generated files and incompatible API changes are reported exactly,
  and the strict reader of the CLI reads every report back. Changes: reading a printed diff gives the lines
  of its hunks even where content looks like a header, and an exported base is what the commit holds.
  Semantic-lint: requests fit their limits, every question is accounted for, retries are bounded, and the
  key never leaves in the clear. Containers: code of a repository runs only with the caches of its own scope,
  after verification and apart from the build of the tools that judge it; a community rule runs alone; a
  fresh call carries its nonce to every container it executes; scopes share no volume; findings of the core
  linter survive whatever the community linters do; and no directory claims the key of another clone.

  Conventions. A record of the source is a record, an enumeration a datatype or, where any string can
  arrive, its text. Errors are constructors that carry what the message shows, or the message. \<open>None\<close> stands
  for a panic where the source can have one. Go maps are association lists; every iteration the source sorts
  is over sorted keys, and an iteration in the random order of Go is one in the order of the list. Integers
  whose overflow the source does not handle are unbounded; the hash of the memo's shards is a \<open>32 word\<close>.
  Loops are structural recursion, or measures: resolving links has the fuel Go gives it (255 links, an
  error beyond it), the cache locks a fingerprint at most three times as the source does, gremlins runs at
  most three times, and a walk of a tree has its depth as fuel. The search of a vendored file drops an element of
  a module path at each step, so the length of the path is fuel enough. A session, the gate and the listing are
  step relations, whose termination is a theorem where the source ends them.

  Parameters. JSON decoding, SHA-256, \<open>golang.org/x/mod\<close>, \<open>net/url\<close>, \<open>go/parser\<close>, \<open>go list\<close>, HTTP, archives,
  git, processes, locks and the engine of Dagger are arguments. A theorem that needs a law of one names it as a hypothesis
  and has a witness at a concrete instance.

  Not modelled. Starting the engine and calling the functions of the runner from the host (dagger.go of
  \<open>internal/verify\<close>): a generated client and its connection. The self-tests of the runner. The analyzers of
  \<open>runner/lint/policy\<close> and the drivers of \<open>levenshtein-lint\<close> and \<open>levenshtein-gocheck\<close>: functions of typed Go
  syntax trees and of the framework that runs them. The command line of \<open>cmd/levenshtein\<close>, generated bindings,
  the copies in \<open>runner/internal/checktool\<close> of files that are modelled, process groups and terminal handling,
  and the generators and checkers of documentation.
\<close>

end
